(* ===== verification/COMID_Prelude.thy ===== *)
theory COMID_Prelude
  imports Complex_Main "HOL-Library.AList" "HOL-Library.Sublist"
begin

text \<open>
  Shared vocabulary of the COMID development: results with errors as values, the Python
  string operations the code uses (ASCII strings as lists of characters), Python
  truthiness, dictionaries as association lists in insertion order, and the generic list
  lemmas the components share.
\<close>

section \<open>Results, floats, dictionaries\<close>

type_synonym ('e, 'a) result = "'e + 'a"

text \<open>
  A finite Python float stands for the rational it denotes. Comparisons are exact; sums,
  products and quotients are those of the rationals (rounding is not modelled).
\<close>

type_synonym pyfloat = rat

type_synonym ('k, 'v) pydict = "('k \<times> 'v) list"

named_theorems py_str \<open>rewrite rules for the Python string operations\<close>
named_theorems result_simps \<open>rewrite rules for results and dictionaries\<close>

text \<open>\<open>d.get(k, default)\<close>\<close>

definition dict_get :: "('k, 'v) pydict \<Rightarrow> 'k \<Rightarrow> 'v \<Rightarrow> 'v" where
  "dict_get d k v = (case map_of d k of None \<Rightarrow> v | Some w \<Rightarrow> w)"

text \<open>\<open>k in d\<close>\<close>

definition dict_has :: "('k, 'v) pydict \<Rightarrow> 'k \<Rightarrow> bool" where
  "dict_has d k \<longleftrightarrow> map_of d k \<noteq> None"

text \<open>\<open>d[k] = v\<close> keeps the position of a key that is already there and appends a new one.\<close>

abbreviation dict_set :: "'k \<Rightarrow> 'v \<Rightarrow> ('k, 'v) pydict \<Rightarrow> ('k, 'v) pydict" where
  "dict_set \<equiv> AList.update"

text \<open>Applying a mutation to the object stored under a key (a no-op for an absent key).\<close>

definition dict_modify :: "'k \<Rightarrow> ('v \<Rightarrow> 'v) \<Rightarrow> ('k, 'v) pydict \<Rightarrow> ('k, 'v) pydict" where
  "dict_modify k f d = map (\<lambda>(j, v). (j, if j = k then f v else v)) d"

lemma map_of_dict_modify [result_simps]:
  "map_of (dict_modify k f d) j = (if j = k then map_option f (map_of d j) else map_of d j)"
  by (induction d) (auto simp: dict_modify_def)

lemma keys_dict_modify [simp]: "map fst (dict_modify k f d) = map fst d"
  by (induction d) (auto simp: dict_modify_def)

lemma dict_get_Some [result_simps]: "map_of d k = Some v \<Longrightarrow> dict_get d k w = v"
  by (simp add: dict_get_def)

lemma dict_get_None [result_simps]: "map_of d k = None \<Longrightarrow> dict_get d k w = w"
  by (simp add: dict_get_def)

text \<open>Python's \<open>x or d\<close> for an optional string: an empty string is falsy.\<close>

definition or_default :: "string option \<Rightarrow> string \<Rightarrow> string" where
  "or_default x d = (case x of None \<Rightarrow> d | Some s \<Rightarrow> if s = [] then d else s)"

definition truthy :: "string option \<Rightarrow> bool" where
  "truthy x = (case x of None \<Rightarrow> False | Some s \<Rightarrow> s \<noteq> [])"

text \<open>\<open>str(x) if x else None\<close>\<close>

definition some_if_truthy :: "string option \<Rightarrow> string option" where
  "some_if_truthy x = (if truthy x then x else None)"

lemma some_if_truthy_simps [simp]:
  "some_if_truthy None = None"
  "some_if_truthy (Some []) = None"
  "some_if_truthy (Some (c # s)) = Some (c # s)"
  by (simp_all add: some_if_truthy_def truthy_def)

lemma some_if_truthy_nonempty: "some_if_truthy x = Some s \<Longrightarrow> s \<noteq> []"
  by (auto simp: some_if_truthy_def truthy_def split: option.splits if_splits)

text \<open>Python indexing of a list: negative indices count from the end, out of range raises.\<close>

datatype index_error = IndexError

definition py_index :: "'a list \<Rightarrow> int \<Rightarrow> (index_error, 'a) result" where
  "py_index xs i =
     (if i \<ge> int (length xs) \<or> i < - int (length xs) then Inl IndexError
      else if i < 0 then Inr (xs ! (length xs - nat (- i)))
      else Inr (xs ! nat i))"

lemma py_index_in_range [result_simps]:
  "0 \<le> i \<Longrightarrow> i < int (length xs) \<Longrightarrow> py_index xs i = Inr (xs ! nat i)"
  by (simp add: py_index_def)

text \<open>JSON-like Python values: what \<open>isinstance\<close> tests and \<open>.get\<close> calls of the code look at.\<close>

datatype pyval =
    PNone
  | PBool bool
  | PNum pyfloat
  | PStr string
  | PList "pyval list"
  | PDict "(string \<times> pyval) list"

fun pv_truthy :: "pyval \<Rightarrow> bool" where
  "pv_truthy PNone = False"
| "pv_truthy (PBool b) = b"
| "pv_truthy (PNum x) = (x \<noteq> 0)"
| "pv_truthy (PStr s) = (s \<noteq> [])"
| "pv_truthy (PList xs) = (xs \<noteq> [])"
| "pv_truthy (PDict d) = (d \<noteq> [])"

text \<open>\<open>d.get(k)\<close> on a dictionary value.\<close>

definition pv_get :: "(string \<times> pyval) list \<Rightarrow> string \<Rightarrow> pyval" where
  "pv_get d k = (case map_of d k of None \<Rightarrow> PNone | Some v \<Rightarrow> v)"

section \<open>ASCII strings\<close>

definition char_lower :: "char \<Rightarrow> char" where
  "char_lower c =
     (if 65 \<le> (of_char c :: nat) \<and> (of_char c :: nat) \<le> 90
      then char_of ((of_char c :: nat) + 32) else c)"

definition str_lower :: "string \<Rightarrow> string" where
  "str_lower s = map char_lower s"

definition char_upper :: "char \<Rightarrow> char" where
  "char_upper c =
     (if 97 \<le> (of_char c :: nat) \<and> (of_char c :: nat) \<le> 122
      then char_of ((of_char c :: nat) - 32) else c)"

definition str_upper :: "string \<Rightarrow> string" where
  "str_upper s = map char_upper s"

text \<open>The ASCII characters \<open>str.strip\<close> removes: tab to carriage return, the four
  separators 28 to 31, and the blank.\<close>

definition is_space :: "char \<Rightarrow> bool" where
  "is_space c \<longleftrightarrow> (let n = (of_char c :: nat) in (9 \<le> n \<and> n \<le> 13) \<or> (28 \<le> n \<and> n \<le> 32))"

definition str_lstrip :: "string \<Rightarrow> string" where
  "str_lstrip s = dropWhile is_space s"

definition str_strip :: "string \<Rightarrow> string" where
  "str_strip s = rev (dropWhile is_space (rev (dropWhile is_space s)))"

text \<open>\<open>needle in hay\<close>\<close>

fun str_contains :: "string \<Rightarrow> string \<Rightarrow> bool" where
  "str_contains needle [] = (needle = [])"
| "str_contains needle (c # hay) = (prefix needle (c # hay) \<or> str_contains needle hay)"

lemma str_contains_iff [py_str]: "str_contains needle hay \<longleftrightarrow> sublist needle hay"
  by (induction hay) (auto simp: sublist_Cons_right)

lemma of_char_lower:
  "(of_char (char_lower c) :: nat) =
     (if 65 \<le> (of_char c :: nat) \<and> (of_char c :: nat) \<le> 90
      then (of_char c :: nat) + 32 else of_char c)"
  by (simp add: char_lower_def)

lemma char_lower_idem [simp]: "char_lower (char_lower c) = char_lower c"
proof (cases "65 \<le> (of_char c :: nat) \<and> (of_char c :: nat) \<le> 90")
  case True
  then have "\<not> (of_char (char_lower c) :: nat) \<le> 90" by (simp add: of_char_lower)
  then show ?thesis by (simp add: char_lower_def [of "char_lower c"])
next
  case False
  then have "char_lower c = c" by (auto simp: char_lower_def)
  then show ?thesis by simp
qed

lemma is_space_lower [simp]: "is_space (char_lower c) = is_space c"
  by (auto simp: is_space_def of_char_lower Let_def)

lemma str_lower_idem [simp]: "str_lower (str_lower s) = str_lower s"
  by (simp add: str_lower_def)

lemma str_lower_Nil [simp]: "str_lower s = [] \<longleftrightarrow> s = []" "str_lower [] = []"
  by (simp_all add: str_lower_def)

lemma str_lower_append [py_str]: "str_lower (s @ t) = str_lower s @ str_lower t"
  by (simp add: str_lower_def)

lemma dropWhile_space_lower: "dropWhile is_space (map char_lower s) = map char_lower (dropWhile is_space s)"
  by (induction s) auto

lemma str_strip_lower [py_str]: "str_strip (str_lower s) = str_lower (str_strip s)"
  by (simp add: str_strip_def str_lower_def dropWhile_space_lower rev_map)

lemma dropWhile_rev_head:
  "dropWhile P (rev (dropWhile P (rev (dropWhile P s)))) = rev (dropWhile P (rev (dropWhile P s)))"
proof (cases "dropWhile P (rev (dropWhile P s))")
  case Nil
  show ?thesis by (simp only: Nil rev.simps dropWhile.simps)
next
  case (Cons x xs)
  let ?t = "dropWhile P s"
  have "takeWhile P (rev ?t) @ dropWhile P (rev ?t) = rev ?t"
    by (rule takeWhile_dropWhile_id)
  then have split: "rev (dropWhile P (rev ?t)) @ rev (takeWhile P (rev ?t)) = ?t"
    by (metis rev_append rev_rev_ident)
  from Cons have ne: "rev (dropWhile P (rev ?t)) \<noteq> []" by simp
  then have "?t \<noteq> []" using split by (metis append_is_Nil_conv)
  then have "\<not> P (hd ?t)" by (rule hd_dropWhile)
  moreover have "hd (rev (dropWhile P (rev ?t))) = hd ?t"
    using ne split by (metis hd_append2)
  ultimately show ?thesis
    using ne by (cases "rev (dropWhile P (rev ?t))") auto
qed

lemma str_strip_idem [simp]: "str_strip (str_strip s) = str_strip s"
  unfolding str_strip_def by (simp add: dropWhile_rev_head)

lemma str_strip_Nil [simp]: "str_strip [] = []"
  by (simp add: str_strip_def)

section \<open>Lists\<close>

lemma find_in_set: "List.find P xs = Some x \<Longrightarrow> x \<in> set xs \<and> P x"
  by (induction xs) (auto split: if_splits)

lemma find_None_all: "List.find P xs = None \<longleftrightarrow> (\<forall>x\<in>set xs. \<not> P x)"
  by (induction xs) auto

text \<open>Python's \<open>min(xs, key=f)\<close> on a non-empty list: the first element of least key.\<close>

fun min_by :: "('a \<Rightarrow> 'b::linorder) \<Rightarrow> 'a \<Rightarrow> 'a list \<Rightarrow> 'a" where
  "min_by f best [] = best"
| "min_by f best (x # xs) = (if f x < f best then min_by f x xs else min_by f best xs)"

lemma min_by_in: "min_by f b xs \<in> set (b # xs)"
  by (induction xs arbitrary: b) (auto split: if_splits)

lemma min_by_le: "x \<in> set (b # xs) \<Longrightarrow> f (min_by f b xs) \<le> f x"
proof (induction xs arbitrary: b x)
  case Nil
  then show ?case by simp
next
  case (Cons y ys)
  have le: "f (min_by f c ys) \<le> f c" for c
    using Cons.IH [of c c] by simp
  have "f (min_by f b (y # ys)) \<le> f b" "f (min_by f b (y # ys)) \<le> f y"
    using le [of y] le [of b] by auto
  moreover have "f (min_by f b (y # ys)) \<le> f z" if "z \<in> set ys" for z
    using that Cons.IH [of z y] Cons.IH [of z b] by simp
  ultimately show ?case using Cons.prems by auto
qed

text \<open>Stability: nothing before the result has its key.\<close>

lemma min_by_first:
  assumes "\<forall>x\<in>set xs. f b \<le> f x"
  shows "min_by f b xs = b"
  using assms by (induction xs) auto

lemma count_list_filter: "count_list xs x = length (filter (\<lambda>y. y = x) xs)"
  by (induction xs) auto

end
