(* ===== verification/ExperimentStore.thy ===== *)
theory ExperimentStore
  imports COMID_Prelude
begin

text \<open>
  The experiments table. The repository's \<^verbatim>\<open>database\<close> package (the ORM models and the
  repositories) is not part of the sources, so the table is a parameter: a record of its
  two uses by the code, reading the rows of a query in the table's order and assigning
  attributes of the row with a given \<^verbatim>\<open>exp_id\<close> in a committed session.
  \<^verbatim>\<open>store_laws\<close> states the documented behaviour the code relies on:
  \<^verbatim>\<open>exp_id\<close> is unique (\<^verbatim>\<open>src/sql/schema.sql\<close>), and an assignment changes that row only.
\<close>

record exp_row =
  er_exp_id :: string
  er_status :: string
  er_celery_task_id :: "string option"
  er_active_attempt_id :: "string option"
  er_dispatch_attempt_id :: "string option"
  er_gpu_id_allocated :: "int option"
  er_run_tier :: "string option"
  er_target_atoms :: "int option"
  er_metadata_json :: pyval

record 'db store =
  st_ok :: "'db \<Rightarrow> bool"
  st_rows :: "'db \<Rightarrow> exp_row list"
  st_update :: "'db \<Rightarrow> string \<Rightarrow> (exp_row \<Rightarrow> exp_row) \<Rightarrow> 'db"

definition keeps_key :: "(exp_row \<Rightarrow> exp_row) \<Rightarrow> bool" where
  "keeps_key f \<longleftrightarrow> (\<forall>r. er_exp_id (f r) = er_exp_id r)"

definition upd_rows :: "string \<Rightarrow> (exp_row \<Rightarrow> exp_row) \<Rightarrow> exp_row list \<Rightarrow> exp_row list" where
  "upd_rows k f rs = map (\<lambda>r. if er_exp_id r = k then f r else r) rs"

definition store_laws :: "'db store \<Rightarrow> bool" where
  "store_laws S \<longleftrightarrow>
     (\<forall>db. st_ok S db \<longrightarrow> distinct (map er_exp_id (st_rows S db))) \<and>
     (\<forall>db k f. st_ok S db \<longrightarrow> keeps_key f \<longrightarrow>
        st_ok S (st_update S db k f) \<and> st_rows S (st_update S db k f) = upd_rows k f (st_rows S db))"

text \<open>The instance the witnesses use: the table as a list of rows.\<close>

definition list_store :: "exp_row list store" where
  "list_store =
     \<lparr>st_ok = (\<lambda>rs. distinct (map er_exp_id rs)), st_rows = (\<lambda>rs. rs),
      st_update = (\<lambda>rs k f. upd_rows k f rs)\<rparr>"

text \<open>A row with the attributes the allocator and the dispatcher look at.\<close>

definition plain_row :: "string \<Rightarrow> string \<Rightarrow> string option \<Rightarrow> int option \<Rightarrow> exp_row" where
  "plain_row eid status task gpu =
     \<lparr>er_exp_id = eid, er_status = status, er_celery_task_id = task, er_active_attempt_id = None,
      er_dispatch_attempt_id = None, er_gpu_id_allocated = gpu, er_run_tier = None,
      er_target_atoms = None, er_metadata_json = PNone\<rparr>"

named_theorems store_simps \<open>rows after an update\<close>

lemma upd_rows_keys: "keeps_key f \<Longrightarrow> map er_exp_id (upd_rows k f rs) = map er_exp_id rs"
  by (induction rs) (auto simp: upd_rows_def keeps_key_def)

lemma list_store_laws: "store_laws list_store"
  by (simp add: store_laws_def list_store_def upd_rows_keys)

lemma list_store_simps [simp]:
  "st_ok list_store rs = distinct (map er_exp_id rs)"
  "st_rows list_store rs = rs"
  "st_update list_store rs k f = upd_rows k f rs"
  by (simp_all add: list_store_def)

lemma store_distinct: "store_laws S \<Longrightarrow> st_ok S db \<Longrightarrow> distinct (map er_exp_id (st_rows S db))"
  by (simp add: store_laws_def)

lemma store_update_rows [store_simps]:
  "store_laws S \<Longrightarrow> st_ok S db \<Longrightarrow> keeps_key f \<Longrightarrow>
     st_rows S (st_update S db k f) = upd_rows k f (st_rows S db)"
  by (simp add: store_laws_def)

lemma store_update_ok [store_simps]:
  "store_laws S \<Longrightarrow> st_ok S db \<Longrightarrow> keeps_key f \<Longrightarrow> st_ok S (st_update S db k f)"
  by (simp add: store_laws_def)

text \<open>The attribute assignments of the code.\<close>

abbreviation set_gpu :: "int option \<Rightarrow> exp_row \<Rightarrow> exp_row" where
  "set_gpu g r \<equiv> r\<lparr>er_gpu_id_allocated := g\<rparr>"

lemma keeps_key_setters [simp]:
  "keeps_key (set_gpu g)"
  "keeps_key (\<lambda>r. r\<lparr>er_status := s\<rparr>)"
  "keeps_key (\<lambda>r. r\<lparr>er_celery_task_id := t\<rparr>)"
  "keeps_key (\<lambda>r. r\<lparr>er_dispatch_attempt_id := t\<rparr>)"
  "keeps_key (\<lambda>r. r\<lparr>er_metadata_json := m\<rparr>)"
  by (simp_all add: keeps_key_def)

section \<open>How many rows hold a GPU\<close>

definition held :: "exp_row list \<Rightarrow> int \<Rightarrow> nat" where
  "held rs g = length (filter (\<lambda>r. er_gpu_id_allocated r = Some g) rs)"

lemma held_Nil [simp]: "held [] g = 0"
  by (simp add: held_def)

lemma held_Cons [simp]:
  "held (r # rs) g = (if er_gpu_id_allocated r = Some g then 1 else 0) + held rs g"
  by (simp add: held_def)

lemma held_map_le:
  assumes "\<And>r. r \<in> set rs \<Longrightarrow> er_gpu_id_allocated (f r) = Some g \<Longrightarrow> er_gpu_id_allocated r = Some g"
  shows "held (map f rs) g \<le> held rs g"
  using assms
proof (induction rs)
  case Nil
  show ?case by simp
next
  case (Cons r rs)
  have "held (map f rs) g \<le> held rs g" using Cons.IH Cons.prems by simp
  moreover have "er_gpu_id_allocated (f r) = Some g \<Longrightarrow> er_gpu_id_allocated r = Some g"
    using Cons.prems by simp
  ultimately show ?case by simp
qed

lemma upd_rows_other: "k \<notin> er_exp_id ` set rs \<Longrightarrow> upd_rows k f rs = rs"
  by (induction rs) (auto simp: upd_rows_def)

text \<open>Assigning a GPU to one row raises that GPU's count by at most one, no other.\<close>

lemma held_assign:
  assumes "distinct (map er_exp_id rs)"
  shows "held (upd_rows k (set_gpu (Some g)) rs) h \<le> held rs h + (if h = g then 1 else 0)"
  using assms
proof (induction rs)
  case Nil
  show ?case by (simp add: upd_rows_def)
next
  case (Cons r rs)
  show ?case
  proof (cases "er_exp_id r = k")
    case True
    with Cons.prems have "upd_rows k (set_gpu (Some g)) rs = rs"
      by (intro upd_rows_other) simp
    with True show ?thesis by (simp add: upd_rows_def)
  next
    case False
    with Cons show ?thesis by (auto simp: upd_rows_def)
  qed
qed

lemma held_assign_exact:
  assumes "distinct (map er_exp_id rs)" and "r \<in> set rs" and "er_exp_id r = k"
    and "er_gpu_id_allocated r = None"
  shows "held (upd_rows k (set_gpu (Some g)) rs) h = held rs h + (if h = g then 1 else 0)"
  using assms
proof (induction rs)
  case Nil
  then show ?case by simp
next
  case (Cons s rs)
  show ?case
  proof (cases "er_exp_id s = k")
    case True
    with Cons.prems have "s = r" by (auto simp: image_iff)
    from True Cons.prems(1) have "upd_rows k (set_gpu (Some g)) rs = rs"
      by (intro upd_rows_other) simp
    with True \<open>s = r\<close> Cons.prems(4) show ?thesis by (simp add: upd_rows_def)
  next
    case False
    with Cons.prems have "r \<in> set rs" by auto
    with False Cons show ?thesis by (auto simp: upd_rows_def)
  qed
qed

lemma held_clear: "held (upd_rows k (set_gpu None) rs) h \<le> held rs h"
  unfolding upd_rows_def by (rule held_map_le) (auto split: if_splits)

lemma held_clear_exact:
  assumes "distinct (map er_exp_id rs)" and "r \<in> set rs" and "er_exp_id r = k"
    and "er_gpu_id_allocated r = Some g"
  shows "held (upd_rows k (set_gpu None) rs) h + (if h = g then 1 else 0) = held rs h"
  using assms
proof (induction rs)
  case Nil
  then show ?case by simp
next
  case (Cons s rs)
  show ?case
  proof (cases "er_exp_id s = k")
    case True
    with Cons.prems have "s = r" by (auto simp: image_iff)
    from True Cons.prems(1) have "upd_rows k (set_gpu None) rs = rs"
      by (intro upd_rows_other) simp
    with True \<open>s = r\<close> Cons.prems(4) show ?thesis by (simp add: upd_rows_def)
  next
    case False
    with Cons.prems have "r \<in> set rs" by auto
    with False Cons show ?thesis by (auto simp: upd_rows_def)
  qed
qed

lemma upd_rows_set_None_undo:
  assumes "distinct (map er_exp_id rs)" and "r \<in> set rs" and "er_exp_id r = k"
    and "er_gpu_id_allocated r = None"
  shows "upd_rows k (set_gpu None) (upd_rows k (set_gpu (Some g)) rs) = rs"
proof -
  have "s = r" if "s \<in> set rs" "er_exp_id s = k" for s
    using assms that by (metis inj_onD distinct_map)
  then show ?thesis
    unfolding upd_rows_def map_map by (intro map_idI) (use assms(4) in auto)
qed

text \<open>Clearing every allocated row, one after the other.\<close>

lemma find_key_unique:
  assumes "distinct (map er_exp_id rs)" "List.find P rs = Some r" "s \<in> set rs" "er_exp_id s = er_exp_id r"
  shows "s = r"
  using assms find_in_set [OF assms(2)] by (metis inj_onD distinct_map)

end
