(* ===== verification/GpuTypes.thy ===== *)
theory GpuTypes
  imports COMID_Prelude
begin

text \<open>
  The GPU domain types of \<^verbatim>\<open>src/src/orchestrator/gpu_types.py\<close>: the cached
  information of one GPU, its job list and the compatibility aliases
  \<^verbatim>\<open>current_task_id\<close> / \<^verbatim>\<open>current_exp_id\<close>, which \<^verbatim>\<open>set_jobs\<close> keeps equal to the first
  entry of the list.
\<close>

datatype gpu_status = AVAILABLE | BUSY | RESERVED | ERROR | OFFLINE

text \<open>One entry \<^verbatim>\<open>{"task_id": ..., "exp_id": ...}\<close> of \<^verbatim>\<open>active_jobs\<close>.\<close>

type_synonym slot_job = "string option \<times> string option"

record gpu_info =
  gi_gpu_id :: int
  gi_name :: string
  gi_status :: gpu_status
  gi_current_task_id :: "string option"
  gi_current_exp_id :: "string option"
  gi_memory_used_gb :: pyfloat
  gi_memory_total_gb :: pyfloat
  gi_utilization_pct :: pyfloat
  gi_temperature_c :: pyfloat
  gi_allocated_at :: "int option"
  gi_last_updated :: "int option"
  gi_uuid :: "string option"
  gi_eligible :: bool
  gi_kind :: string
  gi_slots :: int
  gi_active_jobs :: "slot_job list"

text \<open>\<^verbatim>\<open>GPUInfo(gpu_id=...)\<close> with the dataclass defaults.\<close>

definition new_gpu_info :: "int \<Rightarrow> gpu_info" where
  "new_gpu_info gpu_id =
     \<lparr>gi_gpu_id = gpu_id, gi_name = ''Unknown'', gi_status = AVAILABLE,
      gi_current_task_id = None, gi_current_exp_id = None,
      gi_memory_used_gb = 0, gi_memory_total_gb = 0, gi_utilization_pct = 0, gi_temperature_c = 0,
      gi_allocated_at = None, gi_last_updated = None, gi_uuid = None, gi_eligible = True,
      gi_kind = ''whole_gpu'', gi_slots = 0, gi_active_jobs = []\<rparr>"

definition memory_free_gb :: "gpu_info \<Rightarrow> pyfloat" where
  "memory_free_gb info = gi_memory_total_gb info - gi_memory_used_gb info"

definition is_available :: "gpu_info \<Rightarrow> bool" where
  "is_available info \<longleftrightarrow> gi_status info = AVAILABLE"

definition set_jobs :: "slot_job list \<Rightarrow> gpu_info \<Rightarrow> gpu_info" where
  "set_jobs jobs info =
     (let first = (case jobs of [] \<Rightarrow> (None, None) | j # _ \<Rightarrow> j)
      in info\<lparr>gi_active_jobs := jobs, gi_current_task_id := fst first, gi_current_exp_id := snd first\<rparr>)"

text \<open>The aliases agree with the job list.\<close>

definition aliases_in_sync :: "gpu_info \<Rightarrow> bool" where
  "aliases_in_sync info \<longleftrightarrow>
     (gi_current_task_id info, gi_current_exp_id info) =
     (case gi_active_jobs info of [] \<Rightarrow> (None, None) | j # _ \<Rightarrow> j)"

lemma set_jobs_in_sync [simp]: "aliases_in_sync (set_jobs jobs info)"
  by (simp add: aliases_in_sync_def set_jobs_def Let_def)

lemma set_jobs_simps [simp]:
  "gi_active_jobs (set_jobs jobs info) = jobs"
  "gi_status (set_jobs jobs info) = gi_status info"
  "gi_gpu_id (set_jobs jobs info) = gi_gpu_id info"
  "gi_allocated_at (set_jobs jobs info) = gi_allocated_at info"
  by (simp_all add: set_jobs_def Let_def)

lemma aliases_in_sync_upd [simp]:
  "aliases_in_sync (info\<lparr>gi_status := s\<rparr>) = aliases_in_sync info"
  "aliases_in_sync (info\<lparr>gi_allocated_at := a\<rparr>) = aliases_in_sync info"
  "aliases_in_sync (info\<lparr>gi_last_updated := l\<rparr>) = aliases_in_sync info"
  "aliases_in_sync (info\<lparr>gi_name := n\<rparr>) = aliases_in_sync info"
  "aliases_in_sync (info\<lparr>gi_uuid := u\<rparr>) = aliases_in_sync info"
  "aliases_in_sync (info\<lparr>gi_eligible := e\<rparr>) = aliases_in_sync info"
  "aliases_in_sync (info\<lparr>gi_kind := k\<rparr>) = aliases_in_sync info"
  "aliases_in_sync (info\<lparr>gi_slots := c\<rparr>) = aliases_in_sync info"
  "aliases_in_sync (info\<lparr>gi_memory_total_gb := m\<rparr>) = aliases_in_sync info"
  by (simp_all add: aliases_in_sync_def)

lemma new_gpu_info_in_sync [simp]: "aliases_in_sync (new_gpu_info g)"
  by (simp add: aliases_in_sync_def new_gpu_info_def)

end
