(* ===== verification/Budget.thy ===== *)
theory Budget
  imports COMID_Prelude
begin

text \<open>
  The job budgeting policy, \<^verbatim>\<open>src/src/contracts/policies/budget.py\<close>: priorities and their
  demotion, the safety limits per tier, the submission gate, the choice of the least used
  GPU, and the queue position of a new job.
\<close>

section \<open>Priorities\<close>

datatype job_priority = HIGHEST | HIGH | MEDIUM | LOW | LOWEST

definition priority_order :: "job_priority list" where
  "priority_order = [HIGHEST, HIGH, MEDIUM, LOW, LOWEST]"

text \<open>\<open>list.index\<close> of an element that is there.\<close>

fun index_of :: "'a list \<Rightarrow> 'a \<Rightarrow> nat" where
  "index_of [] x = 0"
| "index_of (y # ys) x = (if y = x then 0 else Suc (index_of ys x))"

definition priority_rank :: "job_priority \<Rightarrow> nat" where
  "priority_rank p = index_of priority_order p"

lemma priority_rank_simps [simp]:
  "priority_rank HIGHEST = 0" "priority_rank HIGH = 1" "priority_rank MEDIUM = 2"
  "priority_rank LOW = 3" "priority_rank LOWEST = 4"
  by (simp_all add: priority_rank_def priority_order_def)

lemma priority_rank_le: "priority_rank p \<le> 4"
  by (cases p) simp_all

lemma priority_rank_inj: "priority_rank p = priority_rank q \<Longrightarrow> p = q"
  by (cases p; cases q) simp_all

text \<open>Priorities are ordered from the most to the least urgent.\<close>

instantiation job_priority :: linorder
begin

definition less_eq_job_priority :: "job_priority \<Rightarrow> job_priority \<Rightarrow> bool" where
  "less_eq_job_priority p q = (priority_rank p \<le> priority_rank q)"

definition less_job_priority :: "job_priority \<Rightarrow> job_priority \<Rightarrow> bool" where
  "less_job_priority p q = (priority_rank p < priority_rank q)"

instance
  by standard (auto simp: less_eq_job_priority_def less_job_priority_def intro: priority_rank_inj)

end

text \<open>
  \<open>steps\<close> is any Python int: a negative one may run off the front of the list, where
  Python's negative indices take over.
\<close>

definition demote_priority :: "job_priority \<Rightarrow> int \<Rightarrow> (index_error, job_priority) result" where
  "demote_priority p steps =
     (let current_idx = int (priority_rank p);
          new_idx = min (current_idx + steps) (int (length priority_order) - 1)
      in py_index priority_order new_idx)"

lemma nth_priority_order: "i \<le> 4 \<Longrightarrow> priority_rank (priority_order ! i) = i"
proof -
  assume "i \<le> 4"
  then consider "i = 0" | "i = 1" | "i = 2" | "i = 3" | "i = 4" by linarith
  then show ?thesis by cases (simp_all add: priority_order_def numeral_nat)
qed

lemma demote_priority_rank:
  assumes "0 \<le> steps"
  shows "\<exists>q. demote_priority p steps = Inr q \<and> priority_rank q = min (priority_rank p + nat steps) 4"
proof -
  let ?i = "min (int (priority_rank p) + steps) 4"
  have "0 \<le> ?i" "?i < int (length priority_order)"
    using assms by (auto simp: priority_order_def)
  then have "demote_priority p steps = Inr (priority_order ! nat ?i)"
    by (simp add: demote_priority_def py_index_in_range priority_order_def)
  moreover have "nat ?i = min (priority_rank p + nat steps) 4"
    using assms by auto
  ultimately show ?thesis by (simp add: nth_priority_order)
qed

section \<open>Policy records\<close>

record tier_priorities =
  tp_screening :: job_priority
  tp_confirm :: job_priority
  tp_viscosity :: job_priority
  tp_validation :: job_priority

definition default_tier_priority :: tier_priorities where
  "default_tier_priority =
     \<lparr>tp_screening = HIGH, tp_confirm = MEDIUM, tp_viscosity = LOWEST, tp_validation = LOW\<rparr>"

record safety_limits =
  max_atoms_screening :: int
  max_atoms_confirm :: int
  max_atoms_viscosity :: int
  max_atoms_validation :: int

definition default_safety_limits :: safety_limits where
  "default_safety_limits =
     \<lparr>max_atoms_screening = 120000, max_atoms_confirm = 200000,
      max_atoms_viscosity = 150000, max_atoms_validation = 100000\<rparr>"

record job_budgeting_policy =
  max_concurrent_jobs_total :: int
  max_concurrent_jobs_per_gpu :: int
  default_gpu_per_job :: int
  gpu_sharing_mode :: string
  mig_profile :: string
  min_gpu_memory_gb :: pyfloat
  max_concurrent_builds :: int
  tier_priority :: tier_priorities
  safety_lim :: safety_limits
  queue_backend :: string
  queue_broker :: string
  hpc_submission :: string

definition DEFAULT_JOB_BUDGETING_POLICY :: job_budgeting_policy where
  "DEFAULT_JOB_BUDGETING_POLICY =
     \<lparr>max_concurrent_jobs_total = 18, max_concurrent_jobs_per_gpu = 3, default_gpu_per_job = 1,
      gpu_sharing_mode = ''mps'', mig_profile = ''1g.18gb'', min_gpu_memory_gb = 32, max_concurrent_builds = 8,
      tier_priority = default_tier_priority, safety_lim = default_safety_limits,
      queue_backend = ''celery'', queue_broker = ''redis'', hpc_submission = ''slurm_direct''\<rparr>"

record queue_limits_policy =
  max_interactive_queued :: int
  max_batch_queued :: int
  max_total_queued :: int
  batch_submission_chunk_size :: int

definition DEFAULT_QUEUE_LIMITS_POLICY :: queue_limits_policy where
  "DEFAULT_QUEUE_LIMITS_POLICY =
     \<lparr>max_interactive_queued = 100, max_batch_queued = 1000, max_total_queued = 2000,
      batch_submission_chunk_size = 1000\<rparr>"

section \<open>Operations\<close>

text \<open>\<open>getattr\<close> with a default: the four tiers, and the default for any other tier name.\<close>

definition get_priority :: "job_budgeting_policy \<Rightarrow> string \<Rightarrow> job_priority" where
  "get_priority P tier =
     (if tier = ''screening'' then tp_screening (tier_priority P)
      else if tier = ''confirm'' then tp_confirm (tier_priority P)
      else if tier = ''viscosity'' then tp_viscosity (tier_priority P)
      else if tier = ''validation'' then tp_validation (tier_priority P)
      else MEDIUM)"

definition get_max_atoms :: "job_budgeting_policy \<Rightarrow> string \<Rightarrow> int" where
  "get_max_atoms P tier =
     (if tier = ''screening'' then max_atoms_screening (safety_lim P)
      else if tier = ''confirm'' then max_atoms_confirm (safety_lim P)
      else if tier = ''viscosity'' then max_atoms_viscosity (safety_lim P)
      else if tier = ''validation'' then max_atoms_validation (safety_lim P)
      else 100000)"

text \<open>The reason texts of the gate, as constructors with the values their messages show.\<close>

datatype submit_reject =
    QueueFull int int
  | AtomLimit int int string
  | NoGpusConfigured
  | ConfirmExclusive
  | ViscosityNeedsEmptyQueue

text \<open>\<open>None\<close> stands for \<open>(True, None)\<close>, \<open>Some r\<close> for \<open>(False, r)\<close>.\<close>

definition can_submit_job ::
    "job_budgeting_policy \<Rightarrow> string \<Rightarrow> int \<Rightarrow> int \<Rightarrow> (int, int) pydict \<Rightarrow> int \<Rightarrow> submit_reject option" where
  "can_submit_job P tier atom_count current_jobs gpu_usage queued_jobs =
     (let max_queued = max_batch_queued DEFAULT_QUEUE_LIMITS_POLICY in
      if queued_jobs \<ge> max_queued then Some (QueueFull queued_jobs max_queued)
      else let max_atoms = get_max_atoms P tier in
      if atom_count > max_atoms then Some (AtomLimit atom_count max_atoms tier)
      else if gpu_usage = [] then Some NoGpusConfigured
      else if tier = ''confirm'' \<and> atom_count \<ge> 200000 \<and> current_jobs > 0
      then Some ConfirmExclusive
      else if tier = ''viscosity'' \<and> current_jobs > 0 then Some ViscosityNeedsEmptyQueue
      else None)"

definition select_gpu :: "job_budgeting_policy \<Rightarrow> (int, int) pydict \<Rightarrow> int option" where
  "select_gpu P gpu_usage =
     (let available = filter (\<lambda>(gpu_id, jobs). jobs < max_concurrent_jobs_per_gpu P) gpu_usage
      in case available of
           [] \<Rightarrow> None
         | x # xs \<Rightarrow> Some (fst (min_by snd x xs)))"

text \<open>A pending job is its \<open>tier\<close> entry, \<open>None\<close> when the dict has no such key.\<close>

definition get_queue_position :: "job_budgeting_policy \<Rightarrow> string \<Rightarrow> string option list \<Rightarrow> nat" where
  "get_queue_position P tier pending_jobs =
     (let rank = priority_rank (get_priority P tier)
      in foldl (\<lambda>position job.
            let job_rank = priority_rank (get_priority P (case job of None \<Rightarrow> ''screening'' | Some t \<Rightarrow> t))
            in if job_rank \<le> rank then position + 1 else position) 0 pending_jobs)"

section \<open>Lemmas\<close>

definition job_tier :: "string option \<Rightarrow> string" where
  "job_tier job = (case job of None \<Rightarrow> ''screening'' | Some t \<Rightarrow> t)"

lemma foldl_count:
  "foldl (\<lambda>n x. if P x then n + 1 else n) (k::nat) xs = k + length (filter P xs)"
  by (induction xs arbitrary: k) auto

lemma get_queue_position_count:
  "get_queue_position P tier pending =
     length (filter (\<lambda>j. get_priority P (job_tier j) \<le> get_priority P tier) pending)"
proof -
  have "get_queue_position P tier pending =
      foldl (\<lambda>n j. if get_priority P (job_tier j) \<le> get_priority P tier then n + 1 else n) 0 pending"
    by (simp add: get_queue_position_def Let_def job_tier_def less_eq_job_priority_def)
  then show ?thesis by (simp only: foldl_count)
qed

lemma filter_length_mono: "(\<And>x. P x \<Longrightarrow> Q x) \<Longrightarrow> length (filter P xs) \<le> length (filter Q xs)"
  by (induction xs) auto

lemma can_submit_job_iff:
  "can_submit_job P tier atoms running usage queued = None \<longleftrightarrow>
     queued < 1000 \<and> atoms \<le> get_max_atoms P tier \<and> usage \<noteq> [] \<and>
     (tier = ''confirm'' \<longrightarrow> atoms < 200000 \<or> running \<le> 0) \<and>
     (tier = ''viscosity'' \<longrightarrow> running \<le> 0)"
  by (auto simp: can_submit_job_def DEFAULT_QUEUE_LIMITS_POLICY_def Let_def)

lemma select_gpu_SomeD:
  assumes "select_gpu P usage = Some g"
  shows "\<exists>n. (g, n) \<in> set usage \<and> n < max_concurrent_jobs_per_gpu P \<and> (\<forall>(h, m)\<in>set usage. n \<le> m)"
proof -
  let ?av = "filter (\<lambda>(gpu_id, jobs). jobs < max_concurrent_jobs_per_gpu P) usage"
  from assms obtain x xs where av: "?av = x # xs" and g: "g = fst (min_by snd x xs)"
    by (auto simp: select_gpu_def Let_def split: list.splits)
  obtain n where m: "min_by snd x xs = (g, n)" using g by (metis prod.collapse)
  have "(g, n) \<in> set ?av" using min_by_in [of snd x xs] av m by simp
  moreover have "n \<le> k" if "(h, k) \<in> set usage" for h k
  proof (cases "k < max_concurrent_jobs_per_gpu P")
    case True
    with that have "(h, k) \<in> set (x # xs)" by (auto simp flip: av)
    from min_by_le [OF this, of snd] m show ?thesis by simp
  next
    case False
    with \<open>(g, n) \<in> set ?av\<close> show ?thesis by auto
  qed
  ultimately show ?thesis by auto
qed

lemma select_gpu_None_iff:
  "select_gpu P usage = None \<longleftrightarrow> (\<forall>(g, n)\<in>set usage. max_concurrent_jobs_per_gpu P \<le> n)"
proof -
  have "select_gpu P usage = None \<longleftrightarrow>
      filter (\<lambda>(gpu_id, jobs). jobs < max_concurrent_jobs_per_gpu P) usage = []"
    by (simp add: select_gpu_def Let_def split: list.split)
  then show ?thesis by (auto simp: filter_empty_conv)
qed

end
