(* ===== verification/GpuService.thy ===== *)
theory GpuService
  imports ExperimentStore GpuTypes Budget
begin

text \<open>
  Allocation and release of GPUs, \<^verbatim>\<open>src/src/orchestrator/gpu_service.py\<close>. The state of the
  service is the record \<^verbatim>\<open>gpu_service\<close> (one field per attribute of \<^verbatim>\<open>GPUService\<close>), the
  experiments table is the store of \<^verbatim>\<open>ExperimentStore\<close>. What the process asks of its
  environment is an argument: the device list of \<^verbatim>\<open>enumerate_compute_devices()\<close>
  (\<^verbatim>\<open>None\<close> when the call raises), whether the allocation file lock was obtained, and the
  clock. Every operation returns the new service and table.
\<close>

section \<open>State\<close>

record device =
  dv_eligible :: bool
  dv_slots :: int
  dv_kind :: string
  dv_uuid :: "string option"

text \<open>An entry of the device registry as the dict it is: \<^verbatim>\<open>None\<close> for an absent key.\<close>

record raw_device =
  rd_gpu_id :: "int option"
  rd_name :: "string option"
  rd_memory_gb :: "pyfloat option"
  rd_uuid :: "string option"
  rd_eligible :: "bool option"
  rd_kind :: "string option"
  rd_slots :: "int option"

record gpu_service =
  sv_cache :: "(int, gpu_info) pydict"
  sv_selected_gpus :: "int list"
  sv_initialized :: bool
  sv_rr_cursor :: nat
  sv_device_cache :: "(int, device) pydict option"

definition new_gpu_service :: gpu_service where
  "new_gpu_service =
     \<lparr>sv_cache = [], sv_selected_gpus = [], sv_initialized = False, sv_rr_cursor = 0,
      sv_device_cache = None\<rparr>"

section \<open>Slot caps\<close>

definition slots_per_gpu :: int where
  "slots_per_gpu = max 1 (max_concurrent_jobs_per_gpu DEFAULT_JOB_BUDGETING_POLICY)"

definition device_of :: "raw_device \<Rightarrow> device" where
  "device_of d =
     \<lparr>dv_eligible = (case rd_eligible d of None \<Rightarrow> True | Some b \<Rightarrow> b),
      dv_slots = (case rd_slots d of None \<Rightarrow> slots_per_gpu | Some n \<Rightarrow> n),
      dv_kind = (case rd_kind d of None \<Rightarrow> ''whole_gpu'' | Some k \<Rightarrow> k),
      dv_uuid = rd_uuid d\<rparr>"

text \<open>\<^verbatim>\<open>{int(d["gpu_id"]): ... for d in devices}\<close>; a missing id raises, which the caller
  turns into the empty registry.\<close>

fun device_dict :: "raw_device list \<Rightarrow> (int, device) pydict \<Rightarrow> (int, device) pydict option" where
  "device_dict [] acc = Some acc"
| "device_dict (d # ds) acc =
     (case rd_gpu_id d of
        None \<Rightarrow> None
      | Some g \<Rightarrow> device_dict ds (dict_set g (device_of d) acc))"

definition device_info ::
    "raw_device list option \<Rightarrow> gpu_service \<Rightarrow> (int, device) pydict \<times> gpu_service" where
  "device_info enum sv =
     (case sv_device_cache sv of
        Some info \<Rightarrow> (info, sv)
      | None \<Rightarrow>
          let info = (case enum of
                        None \<Rightarrow> []
                      | Some ds \<Rightarrow> (case device_dict ds [] of None \<Rightarrow> [] | Some m \<Rightarrow> m))
          in (info, sv\<lparr>sv_device_cache := Some info\<rparr>))"

definition device_cap :: "(int, device) pydict \<Rightarrow> int \<Rightarrow> int" where
  "device_cap info gid =
     (case map_of info gid of
        None \<Rightarrow> slots_per_gpu
      | Some d \<Rightarrow> if \<not> dv_eligible d then 0 else dv_slots d)"

definition slot_caps ::
    "raw_device list option \<Rightarrow> gpu_service \<Rightarrow> (int, int) pydict \<times> gpu_service" where
  "slot_caps enum sv =
     (let (info, sv') = device_info enum sv
      in (foldl (\<lambda>caps gid. dict_set gid (device_cap info gid) caps) [] (sv_selected_gpus sv'), sv'))"

text \<open>\<^verbatim>\<open>slots: int | dict[int, int]\<close>\<close>

datatype slot_limit = Uniform int | PerGpu "(int, int) pydict"

fun cap_of :: "slot_limit \<Rightarrow> int \<Rightarrow> int" where
  "cap_of (Uniform n) g = n"
| "cap_of (PerGpu m) g = dict_get m g 1"

text \<open>\<^verbatim>\<open>Counter(g for g in ids if g is not None)\<close>\<close>

definition counter :: "int option list \<Rightarrow> int \<Rightarrow> nat" where
  "counter ids g = count_list ids (Some g)"

definition available_with_slots :: "int list \<Rightarrow> int option list \<Rightarrow> slot_limit \<Rightarrow> int list" where
  "available_with_slots selected ids slots =
     filter (\<lambda>g. int (counter ids g) < cap_of slots g) selected"

text \<open>The keys of the counter, in order of first occurrence.\<close>

fun first_seen :: "int option list \<Rightarrow> int list \<Rightarrow> int list" where
  "first_seen [] seen = []"
| "first_seen (None # ids) seen = first_seen ids seen"
| "first_seen (Some g # ids) seen =
     (if g \<in> set seen then first_seen ids seen else g # first_seen ids (g # seen))"

definition detect_overallocation :: "int option list \<Rightarrow> slot_limit \<Rightarrow> (int, nat) pydict" where
  "detect_overallocation ids slots =
     map (\<lambda>g. (g, counter ids g))
       (filter (\<lambda>g. int (counter ids g) > cap_of slots g) (first_seen ids []))"

section \<open>Choosing a GPU\<close>

definition rr_order :: "int list \<Rightarrow> nat \<Rightarrow> (nat \<times> int) list" where
  "rr_order selected start =
     (let total = length selected
      in map (\<lambda>offset. ((start + offset) mod total, selected ! ((start + offset) mod total))) [0..<total])"

definition pick_available_gpu ::
    "int list \<Rightarrow> (int \<Rightarrow> nat) option \<Rightarrow> gpu_service \<Rightarrow> int \<times> gpu_service" where
  "pick_available_gpu available counts sv =
     (if length available = 1 then (hd available, sv)
      else let total = length (sv_selected_gpus sv) in
      if total = 0 then (hd available, sv)
      else let start = sv_rr_cursor sv mod total;
               ordered = filter (\<lambda>(i, g). g \<in> set available) (rr_order (sv_selected_gpus sv) start)
           in case ordered of
                [] \<Rightarrow> (hd available, sv)
              | x # xs \<Rightarrow>
                  let (idx, gpu_id) = (case counts of
                                         Some c \<Rightarrow> min_by (\<lambda>t. c (snd t)) x xs
                                       | None \<Rightarrow> x)
                  in (gpu_id, sv\<lparr>sv_rr_cursor := (idx + 1) mod total\<rparr>))"

section \<open>Allocation\<close>

definition allocated_rows :: "'db store \<Rightarrow> 'db \<Rightarrow> exp_row list" where
  "allocated_rows S db = filter (\<lambda>r. er_gpu_id_allocated r \<noteq> None) (st_rows S db)"

definition or_now :: "int option \<Rightarrow> int \<Rightarrow> int option" where
  "or_now a now = (case a of None \<Rightarrow> Some now | Some t \<Rightarrow> Some t)"

text \<open>The cache update of both allocation routines.\<close>

definition cache_add_job :: "int \<Rightarrow> string \<Rightarrow> string \<Rightarrow> gpu_info \<Rightarrow> gpu_info" where
  "cache_add_job now task_id exp_id info =
     (let jobs = filter (\<lambda>j. fst j \<noteq> Some task_id) (gi_active_jobs info) @ [(Some task_id, Some exp_id)]
      in (set_jobs jobs info)\<lparr>gi_status := BUSY, gi_allocated_at := or_now (gi_allocated_at info) now,
            gi_last_updated := Some now\<rparr>)"

definition allocate ::
    "'db store \<Rightarrow> raw_device list option \<Rightarrow> bool \<Rightarrow> int \<Rightarrow> string \<Rightarrow> gpu_service \<Rightarrow> 'db
     \<Rightarrow> int option \<times> gpu_service \<times> 'db" where
  "allocate S enum lock_ok now task_id sv db =
     (if \<not> sv_initialized sv then (None, sv, db)
      else if sv_selected_gpus sv = [] then (None, sv, db)
      else if \<not> lock_ok then (None, sv, db)
      else
        let allocated_ids = map er_gpu_id_allocated (allocated_rows S db);
            (caps, sv1) = slot_caps enum sv;
            available = available_with_slots (sv_selected_gpus sv1) allocated_ids (PerGpu caps)
        in if available = [] then (None, sv1, db)
           else
             let (gpu_id, sv2) = pick_available_gpu available (Some (counter allocated_ids)) sv1
             in case List.find (\<lambda>r. er_celery_task_id r = Some task_id) (st_rows S db) of
                  None \<Rightarrow> (None, sv2, db)
                | Some r \<Rightarrow>
                    (Some gpu_id,
                     sv2\<lparr>sv_cache := dict_modify gpu_id (cache_add_job now task_id (er_exp_id r)) (sv_cache sv2)\<rparr>,
                     st_update S db (er_exp_id r) (set_gpu (Some gpu_id))))"

text \<open>"Resolve experiment record": by \<^verbatim>\<open>exp_id\<close> when given, else or failing that by task.\<close>

definition target_row :: "'db store \<Rightarrow> string \<Rightarrow> string option \<Rightarrow> 'db \<Rightarrow> exp_row option" where
  "target_row S job_id exp_id db =
     (let by_exp = (case exp_id of
                      None \<Rightarrow> None
                    | Some e \<Rightarrow> List.find (\<lambda>r. er_exp_id r = e) (st_rows S db))
      in case by_exp of
           Some r \<Rightarrow> Some r
         | None \<Rightarrow> List.find (\<lambda>r. er_celery_task_id r = Some job_id) (st_rows S db))"

definition allocate_gpu ::
    "'db store \<Rightarrow> raw_device list option \<Rightarrow> bool \<Rightarrow> int \<Rightarrow> string \<Rightarrow> int option \<Rightarrow> string option
     \<Rightarrow> gpu_service \<Rightarrow> 'db \<Rightarrow> int option \<times> gpu_service \<times> 'db" where
  "allocate_gpu S enum lock_ok now job_id gpu_id exp_id sv db =
     (if gpu_id = None \<and> exp_id = None then allocate S enum lock_ok now job_id sv db
      else if \<not> sv_initialized sv then (None, sv, db)
      else if sv_selected_gpus sv = [] then (None, sv, db)
      else if \<not> lock_ok then (None, sv, db)
      else
        let allocated_ids = map er_gpu_id_allocated (allocated_rows S db);
            (caps, sv1) = slot_caps enum sv;
            available = available_with_slots (sv_selected_gpus sv1) allocated_ids (PerGpu caps);
            choice = (case gpu_id of
                        Some g \<Rightarrow>
                          if g \<notin> set (sv_selected_gpus sv1) \<or> g \<notin> set available then (None, sv1)
                          else (Some g, sv1)
                      | None \<Rightarrow>
                          if available = [] then (None, sv1)
                          else let (g, sv2) = pick_available_gpu available (Some (counter allocated_ids)) sv1
                               in (Some g, sv2))
        in case choice of
             (None, sv2) \<Rightarrow> (None, sv2, db)
           | (Some chosen, sv2) \<Rightarrow>
               (case target_row S job_id exp_id db of
                    None \<Rightarrow> (None, sv2, db)
                  | Some r \<Rightarrow>
                      (Some chosen,
                       sv2\<lparr>sv_cache := dict_modify chosen (cache_add_job now job_id (er_exp_id r)) (sv_cache sv2)\<rparr>,
                       st_update S db (er_exp_id r) (set_gpu (Some chosen)))))"

section \<open>Release\<close>

definition release_row ::
    "'db store \<Rightarrow> int \<Rightarrow> string option \<Rightarrow> string option \<Rightarrow> 'db \<Rightarrow> exp_row option" where
  "release_row S gpu_id task_id exp_id db =
     (let by_task = (if truthy task_id
                     then List.find (\<lambda>r. er_celery_task_id r = task_id \<and> er_gpu_id_allocated r = Some gpu_id)
                            (st_rows S db)
                     else None)
      in case by_task of
           Some r \<Rightarrow> Some r
         | None \<Rightarrow>
             if truthy exp_id
             then List.find (\<lambda>r. Some (er_exp_id r) = exp_id \<and> er_gpu_id_allocated r = Some gpu_id)
                    (st_rows S db)
             else None)"

definition cache_drop_job ::
    "int \<Rightarrow> string option \<Rightarrow> string option \<Rightarrow> exp_row \<Rightarrow> gpu_info \<Rightarrow> gpu_info" where
  "cache_drop_job now task_id exp_id r info =
     (let jobs = filter (\<lambda>j. fst j \<notin> {task_id, er_celery_task_id r} \<and>
                             snd j \<notin> {exp_id, Some (er_exp_id r)}) (gi_active_jobs info);
          info' = set_jobs jobs info
      in (if jobs \<noteq> [] then info'\<lparr>gi_status := BUSY, gi_last_updated := Some now\<rparr>
          else info'\<lparr>gi_status := AVAILABLE, gi_allocated_at := None, gi_last_updated := Some now\<rparr>))"

definition release ::
    "'db store \<Rightarrow> int \<Rightarrow> int \<Rightarrow> string option \<Rightarrow> string option \<Rightarrow> gpu_service \<Rightarrow> 'db
     \<Rightarrow> bool \<times> gpu_service \<times> 'db" where
  "release S now gpu_id task_id exp_id sv db =
     (case release_row S gpu_id task_id exp_id db of
        None \<Rightarrow> (False, sv, db)
      | Some r \<Rightarrow>
          (True,
           sv\<lparr>sv_cache := dict_modify gpu_id (cache_drop_job now task_id exp_id r) (sv_cache sv)\<rparr>,
           st_update S db (er_exp_id r) (set_gpu None)))"

definition release_gpu ::
    "'db store \<Rightarrow> int \<Rightarrow> int \<Rightarrow> string option \<Rightarrow> gpu_service \<Rightarrow> 'db \<Rightarrow> bool \<times> gpu_service \<times> 'db" where
  "release_gpu S now gpu_id exp_id sv db = release S now gpu_id None exp_id sv db"

section \<open>Lemmas\<close>

named_theorems gpu_simps \<open>what the helpers of the service keep\<close>

lemma device_info_keeps [gpu_simps]:
  "device_info enum sv = (info, sv') \<Longrightarrow> sv_selected_gpus sv' = sv_selected_gpus sv"
  "device_info enum sv = (info, sv') \<Longrightarrow> sv_cache sv' = sv_cache sv"
  "device_info enum sv = (info, sv') \<Longrightarrow> sv_rr_cursor sv' = sv_rr_cursor sv"
  "device_info enum sv = (info, sv') \<Longrightarrow> sv_initialized sv' = sv_initialized sv"
  by (auto simp: device_info_def split: option.splits)

lemma map_of_caps_aux:
  "map_of (foldl (\<lambda>caps gid. dict_set gid (f gid) caps) acc xs) g =
     (if g \<in> set xs then Some (f g) else map_of acc g)"
  by (induction xs arbitrary: acc) (auto simp: update_conv')

text \<open>The cap the allocator applies to a GPU of the selection.\<close>

definition gpu_cap :: "raw_device list option \<Rightarrow> gpu_service \<Rightarrow> int \<Rightarrow> int" where
  "gpu_cap enum sv g = device_cap (fst (device_info enum sv)) g"

lemma slot_caps_keeps:
  assumes "slot_caps enum sv = (caps, sv1)"
  shows "sv_selected_gpus sv1 = sv_selected_gpus sv" "sv_cache sv1 = sv_cache sv"
    "g \<in> set (sv_selected_gpus sv) \<Longrightarrow> cap_of (PerGpu caps) g = gpu_cap enum sv g"
    "sv_rr_cursor sv1 = sv_rr_cursor sv"
proof -
  obtain info sv' where d: "device_info enum sv = (info, sv')" by (cases "device_info enum sv")
  with assms have c: "caps = foldl (\<lambda>caps gid. dict_set gid (device_cap info gid) caps) [] (sv_selected_gpus sv)"
    and [simp]: "sv1 = sv'"
    by (simp_all add: slot_caps_def device_info_keeps [OF d])
  show "sv_selected_gpus sv1 = sv_selected_gpus sv" "sv_cache sv1 = sv_cache sv"
    "sv_rr_cursor sv1 = sv_rr_cursor sv"
    by (simp_all add: device_info_keeps [OF d])
  show "cap_of (PerGpu caps) g = gpu_cap enum sv g" if "g \<in> set (sv_selected_gpus sv)"
    using that by (simp add: c gpu_cap_def d dict_get_def map_of_caps_aux)
qed

lemma counter_held: "counter (map er_gpu_id_allocated (allocated_rows S db)) g = held (st_rows S db) g"
proof -
  have "count_list (map er_gpu_id_allocated (filter (\<lambda>r. er_gpu_id_allocated r \<noteq> None) rs)) (Some g) = held rs g" for rs
    by (induction rs) auto
  then show ?thesis by (simp add: counter_def allocated_rows_def)
qed

lemma available_iff:
  "g \<in> set (available_with_slots selected ids slots) \<longleftrightarrow>
     g \<in> set selected \<and> int (counter ids g) < cap_of slots g"
  by (auto simp: available_with_slots_def)

lemma pick_available_in:
  assumes "available \<noteq> []"
  shows "fst (pick_available_gpu available counts sv) \<in> set available"
proof -
  let ?total = "length (sv_selected_gpus sv)"
  let ?ord = "filter (\<lambda>(i, g). g \<in> set available) (rr_order (sv_selected_gpus sv) (sv_rr_cursor sv mod ?total))"
  have hd: "hd available \<in> set available" using assms by simp
  show ?thesis
  proof (cases "length available = 1 \<or> ?total = 0 \<or> ?ord = []")
    case True
    then show ?thesis using hd by (auto simp: pick_available_gpu_def Let_def)
  next
    case False
    then obtain x xs where ord: "?ord = x # xs" by (cases ?ord) auto
    have sub: "snd t \<in> set available" if "t \<in> set (x # xs)" for t
    proof -
      from that have "t \<in> set ?ord" by (simp only: ord)
      then show ?thesis by auto
    qed
    have "snd (case counts of Some c \<Rightarrow> min_by (\<lambda>t. c (snd t)) x xs | None \<Rightarrow> x) \<in> set available"
      using sub [OF min_by_in] sub [of x] by (auto split: option.split)
    then show ?thesis
      using False by (simp add: pick_available_gpu_def Let_def ord case_prod_beta)
  qed
qed

lemma pick_available_keeps:
  "sv_selected_gpus (snd (pick_available_gpu available counts sv)) = sv_selected_gpus sv"
  "sv_cache (snd (pick_available_gpu available counts sv)) = sv_cache sv"
  by (auto simp: pick_available_gpu_def Let_def split: list.split option.split prod.split)

lemma set_rr_order: "snd ` set (rr_order selected start) = set selected"
proof (cases "selected = []")
  case True
  then show ?thesis by (simp add: rr_order_def)
next
  case False
  let ?n = "length selected"
  have n: "?n > 0" using False by simp
  have "snd ` set (rr_order selected start) = (\<lambda>k. selected ! ((start + k) mod ?n)) ` {0..<?n}"
    by (simp add: rr_order_def Let_def image_image)
  also have "\<dots> = (\<lambda>i. selected ! i) ` {0..<?n}"
  proof -
    have "(\<lambda>k. (start + k) mod ?n) ` {0..<?n} = {0..<?n}"
    proof
      show "(\<lambda>k. (start + k) mod ?n) ` {0..<?n} \<subseteq> {0..<?n}" using n by auto
      show "{0..<?n} \<subseteq> (\<lambda>k. (start + k) mod ?n) ` {0..<?n}"
      proof
        fix i assume "i \<in> {0..<?n}"
        then have i: "i < ?n" by simp
        let ?k = "(i + ?n - start mod ?n) mod ?n"
        have "(start + ?k) mod ?n = (start mod ?n + (i + ?n - start mod ?n)) mod ?n"
          by (metis mod_add_eq mod_add_left_eq mod_add_right_eq)
        also have "\<dots> = (i + ?n) mod ?n"
          using n by (simp add: add.commute le_add_diff_inverse2 less_imp_le_nat trans_le_add2)
        also have "\<dots> = i" using i by simp
        finally have "(start + ?k) mod ?n = i" .
        moreover have "?k \<in> {0..<?n}" using n by simp
        ultimately show "i \<in> (\<lambda>k. (start + k) mod ?n) ` {0..<?n}" by (metis imageI)
      qed
    qed
    then show ?thesis by (metis (no_types, lifting) image_cong image_image)
  qed
  also have "\<dots> = set selected" by (auto simp: set_conv_nth)
  finally show ?thesis .
qed

text \<open>With counts, the choice is a least loaded GPU of \<^verbatim>\<open>available\<close>.\<close>

lemma pick_available_least:
  assumes av: "available \<noteq> []" and sub: "set available \<subseteq> set (sv_selected_gpus sv)" and h: "h \<in> set available"
  shows "c (fst (pick_available_gpu available (Some c) sv)) \<le> c h"
proof -
  let ?total = "length (sv_selected_gpus sv)"
  let ?rr = "rr_order (sv_selected_gpus sv) (sv_rr_cursor sv mod ?total)"
  let ?ord = "filter (\<lambda>(i, g). g \<in> set available) ?rr"
  show ?thesis
  proof (cases "length available = 1")
    case True
    then obtain a where "available = [a]" by (auto simp: length_Suc_conv)
    then show ?thesis using h by (simp add: pick_available_gpu_def)
  next
    case False
    from h sub have "h \<in> snd ` set ?rr" by (auto simp: set_rr_order)
    then obtain i where "(i, h) \<in> set ?rr" by auto
    with h have mem: "(i, h) \<in> set ?ord" by simp
    then obtain x xs where ord: "?ord = x # xs" by (cases ?ord) auto
    have "?total \<noteq> 0" using h sub by auto
    with False ord have "fst (pick_available_gpu available (Some c) sv) = snd (min_by (\<lambda>t. c (snd t)) x xs)"
      by (simp add: pick_available_gpu_def Let_def case_prod_beta)
    moreover have "c (snd (min_by (\<lambda>t. c (snd t)) x xs)) \<le> c (snd (i, h))"
      by (rule min_by_le [where f = "\<lambda>t. c (snd t)"]) (use mem ord in simp)
    ultimately show ?thesis by simp
  qed
qed

section \<open>What an allocation does\<close>

text \<open>What a successful allocation of GPU \<^verbatim>\<open>g\<close> to row \<^verbatim>\<open>r\<close> has checked: the GPU is selected and its
  count is below its cap; with no explicit GPU it is a least loaded one.\<close>

definition grantable :: "'db store \<Rightarrow> raw_device list option \<Rightarrow> gpu_service \<Rightarrow> 'db \<Rightarrow> int \<Rightarrow> bool" where
  "grantable S enum sv db g \<longleftrightarrow>
     g \<in> set (sv_selected_gpus sv) \<and> int (held (st_rows S db) g) < gpu_cap enum sv g"

lemma target_row_in: "target_row S job eid db = Some r \<Longrightarrow> r \<in> set (st_rows S db)"
  by (auto simp: target_row_def Let_def split: option.splits dest: find_in_set)

lemma target_row_task: "target_row S job None db = List.find (\<lambda>r. er_celery_task_id r = Some job) (st_rows S db)"
  by (simp add: target_row_def)

lemma available_grantable:
  assumes "slot_caps enum sv = (caps, sv1)"
  shows "set (available_with_slots (sv_selected_gpus sv1)
           (map er_gpu_id_allocated (allocated_rows S db)) (PerGpu caps)) = {g. grantable S enum sv db g}"
  using slot_caps_keeps [OF assms] by (auto simp: available_iff counter_held grantable_def simp del: cap_of.simps)

lemma allocate_SomeD:
  assumes "allocate S enum lock_ok now task sv db = (Some g, sv', db')"
  shows "lock_ok \<and> grantable S enum sv db g \<and>
    (\<forall>h. grantable S enum sv db h \<longrightarrow> held (st_rows S db) g \<le> held (st_rows S db) h) \<and>
    (\<exists>r. target_row S task None db = Some r \<and> db' = st_update S db (er_exp_id r) (set_gpu (Some g)))"
proof -
  obtain caps sv1 where caps: "slot_caps enum sv = (caps, sv1)" by (cases "slot_caps enum sv")
  let ?ids = "map er_gpu_id_allocated (allocated_rows S db)"
  let ?av = "available_with_slots (sv_selected_gpus sv1) ?ids (PerGpu caps)"
  obtain p sv2 where pick: "pick_available_gpu ?av (Some (counter ?ids)) sv1 = (p, sv2)"
    by (cases "pick_available_gpu ?av (Some (counter ?ids)) sv1")
  from assms caps pick have av: "?av \<noteq> []" and lock: lock_ok and gp: "g = p"
    and row: "\<exists>r. target_row S task None db = Some r \<and> db' = st_update S db (er_exp_id r) (set_gpu (Some g))"
    by (auto simp: allocate_def target_row_task Let_def split: if_splits option.splits)
  have "g \<in> set ?av" using pick_available_in [OF av, of "Some (counter ?ids)" sv1] pick gp by simp
  then have g: "grantable S enum sv db g" by (simp only: available_grantable [OF caps] mem_Collect_eq)
  have sub: "set ?av \<subseteq> set (sv_selected_gpus sv1)" by (auto simp: available_iff)
  have "held (st_rows S db) g \<le> held (st_rows S db) h" if "grantable S enum sv db h" for h
  proof -
    from that have "h \<in> set ?av" by (simp only: available_grantable [OF caps] mem_Collect_eq)
    from pick_available_least [OF av sub this, of "counter ?ids"] pick gp
    show ?thesis by (simp add: counter_held)
  qed
  with lock g row show ?thesis by blast
qed

lemma allocate_NoneD: "allocate S enum lock_ok now task sv db = (None, sv', db') \<Longrightarrow> db' = db"
  by (auto simp: allocate_def Let_def split: if_splits option.splits prod.splits)

lemma allocate_gpu_SomeD:
  assumes "allocate_gpu S enum lock_ok now job gid eid sv db = (Some g, sv', db')"
  shows "lock_ok \<and> grantable S enum sv db g \<and> (gid = None \<or> gid = Some g) \<and>
    (gid = None \<longrightarrow> (\<forall>h. grantable S enum sv db h \<longrightarrow> held (st_rows S db) g \<le> held (st_rows S db) h)) \<and>
    (\<exists>r. target_row S job eid db = Some r \<and> db' = st_update S db (er_exp_id r) (set_gpu (Some g)))"
proof (cases "gid = None \<and> eid = None")
  case True
  with assms have "allocate S enum lock_ok now job sv db = (Some g, sv', db')"
    by (simp add: allocate_gpu_def)
  from allocate_SomeD [OF this] True show ?thesis by simp
next
  case False
  obtain caps sv1 where caps: "slot_caps enum sv = (caps, sv1)" by (cases "slot_caps enum sv")
  let ?ids = "map er_gpu_id_allocated (allocated_rows S db)"
  let ?av = "available_with_slots (sv_selected_gpus sv1) ?ids (PerGpu caps)"
  obtain p sv2 where pick: "pick_available_gpu ?av (Some (counter ?ids)) sv1 = (p, sv2)"
    by (cases "pick_available_gpu ?av (Some (counter ?ids)) sv1")
  have lock: lock_ok
    and row: "\<exists>r. target_row S job eid db = Some r \<and> db' = st_update S db (er_exp_id r) (set_gpu (Some g))"
    and choice: "(gid = Some g \<and> g \<in> set ?av) \<or> (gid = None \<and> ?av \<noteq> [] \<and> g = p)"
    using assms False
    by (auto simp: allocate_gpu_def Let_def caps pick split: if_splits option.splits)
  have g: "g \<in> set ?av" using choice pick_available_in [of ?av "Some (counter ?ids)" sv1] pick by auto
  then have gr: "grantable S enum sv db g" by (simp only: available_grantable [OF caps] mem_Collect_eq)
  have sub: "set ?av \<subseteq> set (sv_selected_gpus sv1)" by (auto simp: available_iff)
  have "held (st_rows S db) g \<le> held (st_rows S db) h" if "gid = None" "grantable S enum sv db h" for h
  proof -
    from that have "h \<in> set ?av" by (simp only: available_grantable [OF caps] mem_Collect_eq)
    from pick_available_least [OF _ sub this, of "counter ?ids"] pick choice that(1) g
    show ?thesis by (auto simp: counter_held)
  qed
  with lock gr row choice show ?thesis by blast
qed

lemma allocate_gpu_NoneD:
  "allocate_gpu S enum lock_ok now job gid eid sv db = (None, sv', db') \<Longrightarrow> db' = db"
  by (auto simp: allocate_gpu_def Let_def dest: allocate_NoneD split: if_splits option.splits prod.splits)

section \<open>What a release does\<close>

lemma release_row_in:
  "release_row S g t e db = Some r \<Longrightarrow> r \<in> set (st_rows S db) \<and> er_gpu_id_allocated r = Some g \<and>
     (t = er_celery_task_id r \<or> e = Some (er_exp_id r))"
  by (auto simp: release_row_def Let_def split: option.splits if_splits dest!: find_in_set)

lemma release_result:
  "release S now g t e sv db = (b, sv', db') \<Longrightarrow>
     (b \<and> (\<exists>r. release_row S g t e db = Some r \<and> db' = st_update S db (er_exp_id r) (set_gpu None))) \<or>
     (\<not> b \<and> release_row S g t e db = None \<and> sv' = sv \<and> db' = db)"
  by (auto simp: release_def split: option.splits)

lemma release_held_le:
  assumes "store_laws S" "st_ok S db" "release S now g t e sv db = (b, sv', db')"
  shows "st_ok S db' \<and> held (st_rows S db') h \<le> held (st_rows S db) h"
  using release_result [OF assms(3)] assms(1,2) by (auto simp: store_simps held_clear)

end
