(* ===== verification/GpuInventory.thy ===== *)
theory GpuInventory
  imports GpuService
begin

text \<open>
  The rest of \<^verbatim>\<open>src/src/orchestrator/gpu_service.py\<close>: start-up and restoration from the
  table, the synchronisation of the cache, the status queries, and the inventory
  operations that register devices, mark GPUs offline and reconcile the pool with a
  detection pass.
\<close>

section \<open>Start-up\<close>

text \<open>
  \<^verbatim>\<open>_load_selected_gpus\<close>: \<^verbatim>\<open>mode\<close> is the result of \<^verbatim>\<open>resolve_sharing_mode()\<close>, \<^verbatim>\<open>enum\<close> that of
  \<^verbatim>\<open>enumerate_compute_devices()\<close>, \<^verbatim>\<open>detected\<close> the ids of \<^verbatim>\<open>detect_eligible_compute_gpus()\<close>,
  each \<^verbatim>\<open>None\<close> when the call raises; \<^verbatim>\<open>settings\<close> is \<^verbatim>\<open>get_selected_gpus()\<close>.
\<close>

definition mig_devices :: "string option \<Rightarrow> raw_device list option \<Rightarrow> int list" where
  "mig_devices mode enum =
     (if mode = Some ''mig'' then
        (case enum of
           None \<Rightarrow> []
         | Some ds \<Rightarrow>
             let eligible = filter (\<lambda>d. case rd_eligible d of None \<Rightarrow> True | Some b \<Rightarrow> b) ds
             in if \<exists>d\<in>set eligible. rd_gpu_id d = None then [] else map (the \<circ> rd_gpu_id) eligible)
      else [])"

definition load_selected_gpus ::
    "string option \<Rightarrow> raw_device list option \<Rightarrow> int list \<Rightarrow> int list option \<Rightarrow> int list" where
  "load_selected_gpus mode enum settings detected =
     (let devs = mig_devices mode enum in
      if devs \<noteq> [] then devs
      else if settings \<noteq> [] then settings
      else case detected of None \<Rightarrow> [] | Some gpus \<Rightarrow> gpus)"

text \<open>The jobs the table shows on a GPU, in table order.\<close>

definition table_jobs :: "'db store \<Rightarrow> 'db \<Rightarrow> int \<Rightarrow> slot_job list" where
  "table_jobs S db g =
     map (\<lambda>r. (er_celery_task_id r, Some (er_exp_id r)))
       (filter (\<lambda>r. er_gpu_id_allocated r = Some g) (st_rows S db))"

definition table_gpus :: "'db store \<Rightarrow> 'db \<Rightarrow> int list" where
  "table_gpus S db = first_seen (map er_gpu_id_allocated (allocated_rows S db)) []"

definition restore_from_db :: "'db store \<Rightarrow> int \<Rightarrow> 'db \<Rightarrow> gpu_service \<Rightarrow> nat \<times> gpu_service" where
  "restore_from_db S now db sv =
     foldl (\<lambda>(restored, sv) g.
        if dict_has (sv_cache sv) g then
          (restored + length (table_jobs S db g),
           sv\<lparr>sv_cache := dict_modify g (\<lambda>info. (set_jobs (table_jobs S db g) info)
                 \<lparr>gi_status := BUSY, gi_allocated_at := Some now, gi_last_updated := Some now\<rparr>) (sv_cache sv)\<rparr>)
        else (restored, sv)) (0, sv) (table_gpus S db)"

text \<open>The \<^verbatim>\<open>name\<close> is \<^verbatim>\<open>GPU-<id>\<close>; the decimal rendering of the id is the argument \<^verbatim>\<open>show_id\<close>.\<close>

definition initialize ::
    "'db store \<Rightarrow> (int \<Rightarrow> string) \<Rightarrow> int \<Rightarrow> int list option \<Rightarrow> int list \<Rightarrow> 'db \<Rightarrow> gpu_service \<Rightarrow> gpu_service" where
  "initialize S show_id now selected loaded db sv =
     (if sv_initialized sv then sv
      else
        let gpus = (case selected of Some gs \<Rightarrow> gs | None \<Rightarrow> loaded);
            sv1 = sv\<lparr>sv_selected_gpus := gpus, sv_rr_cursor := 0\<rparr>
        in if gpus = [] then sv1\<lparr>sv_initialized := True\<rparr>
           else
             let fresh = (\<lambda>g. (new_gpu_info g)\<lparr>gi_name := ''GPU-'' @ show_id g, gi_last_updated := Some now\<rparr>);
                 sv2 = sv1\<lparr>sv_cache := foldl (\<lambda>c g. dict_set g (fresh g) c) (sv_cache sv1) gpus\<rparr>;
                 (restored, sv3) = restore_from_db S now db sv2
             in sv3\<lparr>sv_initialized := True\<rparr>)"

section \<open>Synchronisation and queries\<close>

definition sync_info :: "'db store \<Rightarrow> int \<Rightarrow> 'db \<Rightarrow> int list \<Rightarrow> int \<Rightarrow> gpu_info \<Rightarrow> gpu_info" where
  "sync_info S now db selected g info =
     (if table_jobs S db g \<noteq> [] then
        (set_jobs (table_jobs S db g) info)
          \<lparr>gi_status := BUSY, gi_allocated_at := or_now (gi_allocated_at info) now, gi_last_updated := Some now\<rparr>
      else if selected \<noteq> [] \<and> g \<notin> set selected then
        (set_jobs [] info)\<lparr>gi_status := OFFLINE, gi_allocated_at := None, gi_last_updated := Some now\<rparr>
      else
        (set_jobs [] info)\<lparr>gi_status := AVAILABLE, gi_allocated_at := None, gi_last_updated := Some now\<rparr>)"

definition sync_from_db :: "'db store \<Rightarrow> int \<Rightarrow> 'db \<Rightarrow> gpu_service \<Rightarrow> gpu_service" where
  "sync_from_db S now db sv =
     sv\<lparr>sv_cache := map (\<lambda>(g, info). (g, sync_info S now db (sv_selected_gpus sv) g info)) (sv_cache sv)\<rparr>"

record gpu_status_report =
  gs_gpus :: "(int \<times> gpu_status \<times> string option \<times> string option \<times> pyfloat \<times> pyfloat \<times> pyfloat \<times> int option) list"
  gs_total :: nat
  gs_available :: nat
  gs_busy :: nat

definition count_status :: "gpu_status \<Rightarrow> gpu_service \<Rightarrow> nat" where
  "count_status s sv = length (filter (\<lambda>(g, info). gi_status info = s) (sv_cache sv))"

definition get_status :: "'db store \<Rightarrow> int \<Rightarrow> 'db \<Rightarrow> gpu_service \<Rightarrow> gpu_status_report \<times> gpu_service" where
  "get_status S now db sv =
     (let sv' = sync_from_db S now db sv
      in (\<lparr>gs_gpus = map (\<lambda>(g, info). (gi_gpu_id info, gi_status info, gi_current_task_id info,
                 gi_current_exp_id info, gi_memory_used_gb info, gi_memory_total_gb info,
                 gi_utilization_pct info, gi_allocated_at info)) (sv_cache sv'),
           gs_total = length (sv_cache sv'),
           gs_available = count_status AVAILABLE sv',
           gs_busy = count_status BUSY sv'\<rparr>, sv'))"

definition update_stats ::
    "int \<Rightarrow> int \<Rightarrow> pyfloat \<Rightarrow> pyfloat \<Rightarrow> pyfloat \<Rightarrow> pyfloat \<Rightarrow> gpu_service \<Rightarrow> gpu_service" where
  "update_stats now gpu_id used total_gb util temp sv =
     sv\<lparr>sv_cache := dict_modify gpu_id (\<lambda>info. info\<lparr>gi_memory_used_gb := used, gi_memory_total_gb := total_gb,
          gi_utilization_pct := util, gi_temperature_c := temp, gi_last_updated := Some now\<rparr>) (sv_cache sv)\<rparr>"

definition get_gpu :: "gpu_service \<Rightarrow> int \<Rightarrow> gpu_info option" where
  "get_gpu sv g = map_of (sv_cache sv) g"

definition get_all_gpus :: "'db store \<Rightarrow> int \<Rightarrow> 'db \<Rightarrow> gpu_service \<Rightarrow> gpu_info list \<times> gpu_service" where
  "get_all_gpus S now db sv = (let sv' = sync_from_db S now db sv in (map snd (sv_cache sv'), sv'))"

definition get_available_gpus :: "'db store \<Rightarrow> int \<Rightarrow> 'db \<Rightarrow> gpu_service \<Rightarrow> gpu_info list \<times> gpu_service" where
  "get_available_gpus S now db sv =
     (let sv' = sync_from_db S now db sv in (filter is_available (map snd (sv_cache sv')), sv'))"

definition update_gpu_stats :: "int \<Rightarrow> int \<Rightarrow> pyfloat \<Rightarrow> pyfloat \<Rightarrow> pyfloat \<Rightarrow> gpu_service \<Rightarrow> gpu_service" where
  "update_gpu_stats now gpu_id used util temp sv =
     (let total_gb = (case map_of (sv_cache sv) gpu_id of None \<Rightarrow> 0 | Some info \<Rightarrow> gi_memory_total_gb info)
      in update_stats now gpu_id used total_gb util temp sv)"

record utilization_summary =
  us_total_gpus :: nat
  us_available_gpus :: nat
  us_busy_gpus :: nat
  us_total_memory_gb :: pyfloat
  us_used_memory_gb :: pyfloat
  us_average_utilization_percent :: pyfloat

definition get_utilization_summary ::
    "'db store \<Rightarrow> int \<Rightarrow> 'db \<Rightarrow> gpu_service \<Rightarrow> utilization_summary \<times> gpu_service" where
  "get_utilization_summary S now db sv =
     (let sv' = sync_from_db S now db sv; infos = map snd (sv_cache sv')
      in (\<lparr>us_total_gpus = length infos,
           us_available_gpus = length (filter is_available infos),
           us_busy_gpus = length (filter (\<lambda>g. gi_status g = BUSY) infos),
           us_total_memory_gb = sum_list (map gi_memory_total_gb infos),
           us_used_memory_gb = sum_list (map gi_memory_used_gb infos),
           us_average_utilization_percent =
             sum_list (map gi_utilization_pct infos) / of_nat (max 1 (length infos))\<rparr>, sv'))"

section \<open>Restoring and clearing\<close>

text \<open>Writes the aliases only: \<^verbatim>\<open>active_jobs\<close> is left as it is.\<close>

definition restore_allocation ::
    "int \<Rightarrow> int \<Rightarrow> string option \<Rightarrow> string option \<Rightarrow> gpu_service \<Rightarrow> bool \<times> gpu_service" where
  "restore_allocation now gpu_id job_id exp_id sv =
     (case map_of (sv_cache sv) gpu_id of
        None \<Rightarrow> (False, sv)
      | Some info \<Rightarrow>
          if is_available info then
            (True, sv\<lparr>sv_cache := dict_modify gpu_id (\<lambda>info. info\<lparr>gi_status := BUSY,
               gi_current_task_id := job_id, gi_current_exp_id := exp_id,
               gi_allocated_at := Some now, gi_last_updated := Some now\<rparr>) (sv_cache sv)\<rparr>)
          else if gi_status info = BUSY \<and>
             ((job_id \<noteq> None \<and> gi_current_task_id info = job_id) \<or>
              (exp_id \<noteq> None \<and> gi_current_exp_id info = exp_id))
          then (True, sv) else (False, sv))"

definition mark_idle :: "gpu_status \<Rightarrow> gpu_info \<Rightarrow> gpu_info" where
  "mark_idle s info =
     info\<lparr>gi_status := s, gi_current_task_id := None, gi_current_exp_id := None, gi_allocated_at := None\<rparr>"

definition clear_all_allocations :: "'db store \<Rightarrow> int \<Rightarrow> gpu_service \<Rightarrow> 'db \<Rightarrow> nat \<times> gpu_service \<times> 'db" where
  "clear_all_allocations S now sv db =
     (count_status BUSY sv,
      sv\<lparr>sv_cache := map (\<lambda>(g, info).
           (g, if gi_status info = BUSY then (mark_idle AVAILABLE info)\<lparr>gi_last_updated := Some now\<rparr> else info))
         (sv_cache sv)\<rparr>,
      foldl (\<lambda>db r. st_update S db (er_exp_id r) (set_gpu None)) db (allocated_rows S db))"

section \<open>Inventory\<close>

text \<open>The metadata one detected entry writes: an empty name, uuid or kind and a non-positive memory are ignored.\<close>

definition register_info :: "(int \<Rightarrow> string) \<Rightarrow> int \<Rightarrow> int \<Rightarrow> raw_device \<Rightarrow> gpu_info \<Rightarrow> gpu_info" where
  "register_info show_id now g d info =
     (let info1 = (if truthy (rd_name d) then info\<lparr>gi_name := the (rd_name d)\<rparr>
                   else if gi_name info = ''Unknown'' then info\<lparr>gi_name := ''GPU-'' @ show_id g\<rparr> else info);
          info2 = (case rd_memory_gb d of
                     None \<Rightarrow> info1
                   | Some m \<Rightarrow> if m > 0 then info1\<lparr>gi_memory_total_gb := m\<rparr> else info1);
          info3 = (if truthy (rd_uuid d) then info2\<lparr>gi_uuid := rd_uuid d\<rparr> else info2);
          info4 = (case rd_eligible d of None \<Rightarrow> info3 | Some b \<Rightarrow> info3\<lparr>gi_eligible := b\<rparr>);
          info5 = (if truthy (rd_kind d) then info4\<lparr>gi_kind := the (rd_kind d)\<rparr> else info4);
          info6 = (case rd_slots d of None \<Rightarrow> info5 | Some n \<Rightarrow> info5\<lparr>gi_slots := n\<rparr>)
      in info6\<lparr>gi_last_updated := Some now\<rparr>)"

fun register_detected_gpus :: "(int \<Rightarrow> string) \<Rightarrow> int \<Rightarrow> raw_device list \<Rightarrow> gpu_service \<Rightarrow> gpu_service" where
  "register_detected_gpus show_id now [] sv = sv"
| "register_detected_gpus show_id now (d # ds) sv =
     (case rd_gpu_id d of
        None \<Rightarrow> register_detected_gpus show_id now ds sv
      | Some g \<Rightarrow>
          let cache = (if dict_has (sv_cache sv) g then sv_cache sv
                       else dict_set g (new_gpu_info g) (sv_cache sv))
          in register_detected_gpus show_id now ds
               (sv\<lparr>sv_cache := dict_modify g (register_info show_id now g d) cache\<rparr>))"

definition apply_offline_for_unselected :: "int \<Rightarrow> gpu_service \<Rightarrow> gpu_service" where
  "apply_offline_for_unselected now sv =
     (if sv_selected_gpus sv = [] then sv
      else sv\<lparr>sv_cache := map (\<lambda>(g, info).
             (g, if g \<notin> set (sv_selected_gpus sv) then (mark_idle OFFLINE info)\<lparr>gi_last_updated := Some now\<rparr> else info))
           (sv_cache sv)\<rparr>)"

definition validate_selected_gpus :: "int list \<Rightarrow> gpu_service \<Rightarrow> int list \<times> gpu_service" where
  "validate_selected_gpus detected_ids sv =
     (if sv_selected_gpus sv = [] then ([], sv)
      else
        let undetected = filter (\<lambda>g. g \<notin> set detected_ids) (sv_selected_gpus sv)
        in (undetected,
            sv\<lparr>sv_cache := foldl (\<lambda>c g. dict_modify g (mark_idle OFFLINE) c) (sv_cache sv) undetected\<rparr>))"

record inventory_summary =
  is_added :: "int list"
  is_recovered :: "int list"
  is_offlined :: "int list"
  is_eligible :: "int list"

text \<open>The loop of \<^verbatim>\<open>auto_mode\<close>: (selected, added).\<close>

fun grow_selection :: "int list \<Rightarrow> int list \<Rightarrow> int list \<Rightarrow> int list \<times> int list" where
  "grow_selection [] selected added = (selected, added)"
| "grow_selection (g # gs) selected added =
     (if g \<in> set selected then grow_selection gs selected added
      else grow_selection gs (selected @ [g]) (added @ [g]))"

text \<open>The loop over the selected GPUs: (cache, recovered, offlined).\<close>

definition refresh_one ::
    "int list \<Rightarrow> int \<Rightarrow> (int, gpu_info) pydict \<times> int list \<times> int list \<Rightarrow> int
     \<Rightarrow> (int, gpu_info) pydict \<times> int list \<times> int list" where
  "refresh_one eligible now st gid =
     (case st of (cache, recovered, offlined) \<Rightarrow>
        (case map_of cache gid of
           None \<Rightarrow> (cache, recovered, offlined)
         | Some info \<Rightarrow>
             if gid \<in> set eligible then
               (if gi_status info = OFFLINE \<and> gi_active_jobs info = [] then
                  (dict_modify gid (\<lambda>i. i\<lparr>gi_status := AVAILABLE, gi_last_updated := Some now\<rparr>) cache,
                   recovered @ [gid], offlined)
                else (cache, recovered, offlined))
             else if gi_status info \<noteq> OFFLINE \<and> gi_active_jobs info = [] then
               (dict_modify gid (mark_idle OFFLINE) cache, recovered, offlined @ [gid])
             else (cache, recovered, offlined)))"

definition refresh_inventory ::
    "(int \<Rightarrow> string) \<Rightarrow> int \<Rightarrow> raw_device list \<Rightarrow> bool \<Rightarrow> gpu_service \<Rightarrow> inventory_summary \<times> gpu_service" where
  "refresh_inventory show_id now eligible_devices auto_mode sv =
     (let eligible_ids = map (the \<circ> rd_gpu_id) (filter (\<lambda>d. rd_gpu_id d \<noteq> None) eligible_devices);
          sv1 = register_detected_gpus show_id now eligible_devices sv;
          (selected, added) = (if auto_mode then grow_selection eligible_ids (sv_selected_gpus sv1) []
                               else (sv_selected_gpus sv1, []));
          (cache, recovered, offlined) =
             foldl (refresh_one eligible_ids now) (sv_cache sv1, [], []) selected
      in (\<lparr>is_added = added, is_recovered = recovered, is_offlined = offlined, is_eligible = eligible_ids\<rparr>,
          sv1\<lparr>sv_selected_gpus := selected, sv_cache := cache\<rparr>))"

section \<open>Lemmas\<close>

lemma map_of_mapped: "map_of (map (\<lambda>(g, v). (g, f g v)) d) k = map_option (f k) (map_of d k)"
  by (induction d) auto

lemma table_jobs_length: "length (table_jobs S db g) = held (st_rows S db) g"
  by (simp add: table_jobs_def held_def)

lemma register_info_keeps [simp]:
  "gi_status (register_info show_id now g d info) = gi_status info"
  "gi_active_jobs (register_info show_id now g d info) = gi_active_jobs info"
  "gi_current_task_id (register_info show_id now g d info) = gi_current_task_id info"
  "gi_current_exp_id (register_info show_id now g d info) = gi_current_exp_id info"
  by (simp_all add: register_info_def Let_def split: option.split)

text \<open>The part of a GPU's information that belongs to its allocations.\<close>

definition alloc_view :: "gpu_info \<Rightarrow> gpu_status \<times> slot_job list \<times> string option \<times> string option" where
  "alloc_view info = (gi_status info, gi_active_jobs info, gi_current_task_id info, gi_current_exp_id info)"

lemma register_entry_view:
  "map_of c g = Some info \<Longrightarrow>
     \<exists>i. map_of (dict_modify h (register_info show_id now h d) c) g = Some i \<and> alloc_view i = alloc_view info"
  by (auto simp: map_of_dict_modify alloc_view_def)

lemma register_keeps_view:
  "map_of (sv_cache sv) g = Some info \<Longrightarrow>
     \<exists>info'. map_of (sv_cache (register_detected_gpus show_id now ds sv)) g = Some info' \<and>
       alloc_view info' = alloc_view info"
proof (induction ds arbitrary: sv info)
  case Nil
  then show ?case by simp
next
  case (Cons d ds)
  show ?case
  proof (cases "rd_gpu_id d")
    case None
    with Cons show ?thesis by simp
  next
    case (Some h)
    let ?c = "if dict_has (sv_cache sv) h then sv_cache sv else dict_set h (new_gpu_info h) (sv_cache sv)"
    let ?sv = "sv\<lparr>sv_cache := dict_modify h (register_info show_id now h d) ?c\<rparr>"
    have "map_of ?c g = Some info" using Cons.prems by (auto simp: update_conv' dict_has_def)
    then have "\<exists>i. map_of (sv_cache ?sv) g = Some i \<and> alloc_view i = alloc_view info"
      using register_entry_view by simp
    then obtain i where "map_of (sv_cache ?sv) g = Some i" "alloc_view i = alloc_view info"
      by blast
    with Cons.IH [of ?sv i] Some show ?thesis by (simp add: Let_def)
  qed
qed

lemma register_keeps_selected [simp]:
  "sv_selected_gpus (register_detected_gpus show_id now ds sv) = sv_selected_gpus sv"
  by (induction ds arbitrary: sv) (auto simp: Let_def split: option.split)

lemma refresh_one_keeps:
  assumes "map_of cache g = Some info" "gi_active_jobs info \<noteq> []"
    and "refresh_one eligible now (cache, rec, off) gid = (cache', rec', off')"
  shows "map_of cache' g = Some info"
  using assms by (auto simp: refresh_one_def map_of_dict_modify split: option.splits if_splits)

lemma refresh_loop_keeps:
  assumes "map_of cache g = Some info" "gi_active_jobs info \<noteq> []"
    and "foldl (refresh_one eligible now) (cache, rec, off) gids = (cache', rec', off')"
  shows "map_of cache' g = Some info"
  using assms
proof (induction gids arbitrary: cache rec off)
  case Nil
  then show ?case by simp
next
  case (Cons h hs)
  obtain c r f where step: "refresh_one eligible now (cache, rec, off) h = (c, r, f)"
    by (cases "refresh_one eligible now (cache, rec, off) h") auto
  from refresh_one_keeps [OF Cons.prems(1,2) step] Cons.IH [of c r f] Cons.prems(2,3) step
  show ?case by simp
qed

lemma grow_selection_spec:
  "grow_selection gs selected added = (sel', added') \<Longrightarrow>
     (\<exists>new. sel' = selected @ new \<and> added' = added @ new \<and> set sel' = set selected \<union> set gs \<and>
        (distinct selected \<longrightarrow> distinct sel'))"
proof (induction gs arbitrary: selected added)
  case Nil
  then show ?case by simp
next
  case (Cons g gs)
  show ?case
  proof (cases "g \<in> set selected")
    case True
    with Cons.prems have "grow_selection gs selected added = (sel', added')" by simp
    from Cons.IH [OF this] True show ?thesis by auto
  next
    case False
    with Cons.prems have "grow_selection gs (selected @ [g]) (added @ [g]) = (sel', added')" by simp
    from Cons.IH [OF this] False show ?thesis by auto
  qed
qed

text \<open>The allocator never looks at the cache.\<close>

lemma device_info_cache:
  "device_info enum (sv\<lparr>sv_cache := c\<rparr>) =
     (fst (device_info enum sv), (snd (device_info enum sv))\<lparr>sv_cache := c\<rparr>)"
  by (auto simp: device_info_def Let_def split: option.split)

lemma slot_caps_cache:
  "slot_caps enum (sv\<lparr>sv_cache := c\<rparr>) =
     (fst (slot_caps enum sv), (snd (slot_caps enum sv))\<lparr>sv_cache := c\<rparr>)"
  by (simp add: slot_caps_def device_info_cache case_prod_beta)

lemma pick_cache:
  "pick_available_gpu av counts (sv\<lparr>sv_cache := c\<rparr>) =
     (fst (pick_available_gpu av counts sv), (snd (pick_available_gpu av counts sv))\<lparr>sv_cache := c\<rparr>)"
  by (auto simp: pick_available_gpu_def Let_def split: list.split option.split prod.split)

lemma allocate_cache:
  "fst (allocate S enum lk now task (sv\<lparr>sv_cache := c\<rparr>) db) = fst (allocate S enum lk now task sv db)"
  "snd (snd (allocate S enum lk now task (sv\<lparr>sv_cache := c\<rparr>) db)) = snd (snd (allocate S enum lk now task sv db))"
  by (auto simp: allocate_def Let_def slot_caps_cache pick_cache case_prod_beta split: option.split)

lemma allocate_gpu_cache:
  "fst (allocate_gpu S enum lk now job gid eid (sv\<lparr>sv_cache := c\<rparr>) db) =
     fst (allocate_gpu S enum lk now job gid eid sv db)"
  "snd (snd (allocate_gpu S enum lk now job gid eid (sv\<lparr>sv_cache := c\<rparr>) db)) =
     snd (snd (allocate_gpu S enum lk now job gid eid sv db))"
  by (auto simp: allocate_gpu_def Let_def slot_caps_cache pick_cache allocate_cache case_prod_beta
      split: option.split)

lemma offline_loop:
  "map_of (foldl (\<lambda>c g. dict_modify g (mark_idle OFFLINE) c) cache gs) g =
     (if g \<in> set gs then map_option (mark_idle OFFLINE) (map_of cache g) else map_of cache g)"
proof (induction gs arbitrary: cache)
  case Nil
  then show ?case by simp
next
  case (Cons h hs)
  have idem: "map_option (mark_idle OFFLINE) (map_option (mark_idle OFFLINE) x) = map_option (mark_idle OFFLINE) x" for x
    by (cases x) (simp_all add: mark_idle_def)
  show ?case by (simp add: Cons.IH map_of_dict_modify idem)
qed

end
