(* ===== verification/SlotPool.thy ===== *)
theory SlotPool
  imports COMID_Prelude
begin

text \<open>
  The contract of a resource pool with a cap per resource: a grant happens only below the
  cap and raises one count by at most one, every other step raises none. Under it no run
  of the pool, in any interleaving, exceeds a cap. The GPU allocator
  (\<^verbatim>\<open>GpuConcurrency\<close>) and the build throttle (\<^verbatim>\<open>BuildThrottle\<close>) are pools of this kind.
\<close>

inductive pool_run :: "('s \<Rightarrow> 'r \<Rightarrow> 's \<Rightarrow> bool) \<Rightarrow> ('s \<Rightarrow> 's \<Rightarrow> bool) \<Rightarrow> 's \<Rightarrow> 's \<Rightarrow> bool"
  for grant :: "'s \<Rightarrow> 'r \<Rightarrow> 's \<Rightarrow> bool" and other :: "'s \<Rightarrow> 's \<Rightarrow> bool" where
  pool_start: "pool_run grant other s s"
| pool_grant: "pool_run grant other s t \<Longrightarrow> grant t r u \<Longrightarrow> pool_run grant other s u"
| pool_other: "pool_run grant other s t \<Longrightarrow> other t u \<Longrightarrow> pool_run grant other s u"

lemma pool_run_trans:
  assumes "pool_run gr oth s t" and "pool_run gr oth t u"
  shows "pool_run gr oth s u"
  using assms(2,1)
proof (induction rule: pool_run.induct)
  case (pool_start x)
  then show ?case .
next
  case (pool_grant s t r u)
  then show ?case by (blast intro: pool_run.pool_grant)
next
  case (pool_other s t u)
  then show ?case by (blast intro: pool_run.pool_other)
qed

locale slot_pool =
  fixes ok :: "'s \<Rightarrow> bool"
    and used :: "'s \<Rightarrow> 'r \<Rightarrow> int"
    and cap :: "'r \<Rightarrow> int"
    and grant :: "'s \<Rightarrow> 'r \<Rightarrow> 's \<Rightarrow> bool"
    and other :: "'s \<Rightarrow> 's \<Rightarrow> bool"
  assumes grant_below: "ok s \<Longrightarrow> grant s r t \<Longrightarrow> used s r < cap r"
    and grant_used: "ok s \<Longrightarrow> grant s r t \<Longrightarrow> used t q \<le> used s q + (if q = r then 1 else 0)"
    and grant_ok: "ok s \<Longrightarrow> grant s r t \<Longrightarrow> ok t"
    and other_used: "ok s \<Longrightarrow> other s t \<Longrightarrow> used t q \<le> used s q"
    and other_ok: "ok s \<Longrightarrow> other s t \<Longrightarrow> ok t"
begin

definition capped :: "'s \<Rightarrow> bool" where
  "capped s \<longleftrightarrow> (\<forall>r. used s r \<le> cap r)"

lemma grant_capped: "ok s \<Longrightarrow> capped s \<Longrightarrow> grant s r t \<Longrightarrow> capped t"
  unfolding capped_def
proof
  fix q
  assume s: "ok s" "\<forall>r. used s r \<le> cap r" and g: "grant s r t"
  have "used t q \<le> used s q + (if q = r then 1 else 0)" by (rule grant_used [OF s(1) g])
  with grant_below [OF s(1) g] s(2) show "used t q \<le> cap q"
    by (cases "q = r") (auto intro: order_trans)
qed

lemma other_capped: "ok s \<Longrightarrow> capped s \<Longrightarrow> other s t \<Longrightarrow> capped t"
  unfolding capped_def using other_used order_trans by blast

lemma run_ok: "pool_run grant other s t \<Longrightarrow> ok s \<Longrightarrow> ok t"
  by (induction rule: pool_run.induct) (auto intro: grant_ok other_ok)

lemma run_capped: "pool_run grant other s t \<Longrightarrow> ok s \<Longrightarrow> capped s \<Longrightarrow> capped t"
proof (induction rule: pool_run.induct)
  case pool_start
  then show ?case by simp
next
  case (pool_grant s t r u)
  then show ?case using run_ok grant_capped by blast
next
  case (pool_other s t u)
  then show ?case using run_ok other_capped by blast
qed

lemma cap_zero_never_used:
  assumes "pool_run grant other s t" "ok s" "capped s" "cap r \<le> 0"
  shows "used t r \<le> 0"
  using run_capped [OF assms(1-3)] assms(4) unfolding capped_def by (meson order_trans)

end

end
