(* ===== verification/GpuConcurrency.thy ===== *)
theory GpuConcurrency
  imports GpuInventory SlotPool
begin

text \<open>
  Allocation and release by any number of worker processes. Each process has its own
  service object; they share the table and the allocation file lock. An allocation is two
  steps: under the lock it reads the table and chooses (\<^verbatim>\<open>gpu_choose\<close>), then it commits the
  assignment (\<^verbatim>\<open>gpu_commit\<close>). Releases and all other writes do not take the lock, so they
  may come between the two. A world is the table and the choice that is not committed yet.
\<close>

type_synonym 'db gpu_world = "'db \<times> (int \<times> string) option"

inductive gpu_grant ::
    "'db store \<Rightarrow> (int, device) pydict \<Rightarrow> 'db gpu_world \<Rightarrow> int \<Rightarrow> 'db gpu_world \<Rightarrow> bool"
  for S info where
  gpu_choose:
    "fst (device_info enum sv) = info \<Longrightarrow>
     allocate_gpu S enum True now job gid eid sv db = (Some g, sv', db') \<Longrightarrow>
     target_row S job eid db = Some r \<Longrightarrow>
     gpu_grant S info (db, None) g (db, Some (g, er_exp_id r))"

inductive gpu_other :: "'db store \<Rightarrow> 'db gpu_world \<Rightarrow> 'db gpu_world \<Rightarrow> bool" for S where
  gpu_commit: "gpu_other S (db, Some (g, k)) (st_update S db k (set_gpu (Some g)), None)"
| gpu_abandon: "gpu_other S (db, Some p) (db, None)"
| gpu_release: "release S now g t e sv db = (b, sv', db') \<Longrightarrow> gpu_other S (db, p) (db', p)"
| gpu_clear: "clear_all_allocations S now sv db = (n, sv', db') \<Longrightarrow> gpu_other S (db, p) (db', p)"
| gpu_write: "keeps_key f \<Longrightarrow> (\<And>r. er_gpu_id_allocated (f r) = er_gpu_id_allocated r) \<Longrightarrow>
    gpu_other S (db, p) (st_update S db k f, p)"

inductive_cases gpu_grantE: "gpu_grant S info w g w'"
inductive_cases gpu_otherE: "gpu_other S w w'"

definition gpu_used :: "'db store \<Rightarrow> 'db gpu_world \<Rightarrow> int \<Rightarrow> int" where
  "gpu_used S w g = int (held (st_rows S (fst w)) g) +
     (case snd w of None \<Rightarrow> 0 | Some (h, k) \<Rightarrow> if h = g then 1 else 0)"

lemma gpu_used_simps [simp]:
  "gpu_used S (db, None) g = int (held (st_rows S db) g)"
  "gpu_used S (db, Some (h, k)) g = int (held (st_rows S db) g) + (if h = g then 1 else 0)"
  by (simp_all add: gpu_used_def)

lemma clear_rows_held:
  assumes "store_laws S" "st_ok S db"
  shows "st_ok S (foldl (\<lambda>db r. st_update S db (er_exp_id r) (set_gpu None)) db rs) \<and>
    held (st_rows S (foldl (\<lambda>db r. st_update S db (er_exp_id r) (set_gpu None)) db rs)) g
      \<le> held (st_rows S db) g"
  using assms
proof (induction rs arbitrary: db)
  case Nil
  then show ?case by simp
next
  case (Cons r rs)
  let ?db = "st_update S db (er_exp_id r) (set_gpu None)"
  have ok: "st_ok S ?db" and le: "held (st_rows S ?db) g \<le> held (st_rows S db) g"
    using Cons.prems by (simp_all add: store_simps held_clear)
  from Cons.IH [OF Cons.prems(1) ok] le show ?case by (simp add: order_trans [OF _ le])
qed

lemma write_held_le:
  assumes "\<And>r. er_gpu_id_allocated (f r) = er_gpu_id_allocated r"
  shows "held (upd_rows k f rs) g \<le> held rs g"
  unfolding upd_rows_def by (rule held_map_le) (auto simp: assms split: if_splits)

lemma gpu_other_ok_le:
  assumes laws: "store_laws S" and ok: "st_ok S (fst w)" and step: "gpu_other S w w'"
  shows "st_ok S (fst w') \<and> gpu_used S w' g \<le> gpu_used S w g"
  using step
proof (cases rule: gpu_other.cases)
  case (gpu_commit db h k)
  with laws ok held_assign [OF store_distinct [OF laws], of db k h g]
  show ?thesis by (auto simp: store_simps)
next
  case (gpu_abandon db p)
  with ok show ?thesis by (cases p) auto
next
  case (gpu_release now h t e sv db b sv' db' p)
  with ok release_held_le [OF laws _ gpu_release(3), of g]
  show ?thesis by (auto simp: gpu_used_def)
next
  case (gpu_clear now sv db n sv' db' p)
  with ok clear_rows_held [OF laws, of db "allocated_rows S db" g]
  show ?thesis by (auto simp: gpu_used_def clear_all_allocations_def)
next
  case (gpu_write f db p k)
  with laws ok write_held_le [of f k "st_rows S db" g]
  show ?thesis by (auto simp: gpu_used_def store_simps)
qed

lemma gpu_grant_facts:
  assumes "gpu_grant S info w g w'"
  shows "gpu_used S w g < device_cap info g \<and> fst w' = fst w \<and>
    gpu_used S w' q = gpu_used S w q + (if q = g then 1 else 0)"
  using assms
proof (cases rule: gpu_grant.cases)
  case (gpu_choose enum sv now job gid eid db sv' db' r)
  from allocate_gpu_SomeD [OF gpu_choose(4)] gpu_choose(3)
  have "int (held (st_rows S db) g) < device_cap info g"
    by (simp add: grantable_def gpu_cap_def)
  with gpu_choose show ?thesis by auto
qed

text \<open>The allocator is a slot pool for every store that obeys the laws.\<close>

definition gpu_world_ok :: "'db store \<Rightarrow> 'db gpu_world \<Rightarrow> bool" where
  "gpu_world_ok S w \<longleftrightarrow> store_laws S \<and> st_ok S (fst w)"

interpretation gpu_pool: slot_pool "gpu_world_ok S" "gpu_used S" "device_cap info" "gpu_grant S info" "gpu_other S"
  for S :: "'db store" and info
proof unfold_locales
  fix s t :: "'db gpu_world" and r q
  assume ok: "gpu_world_ok S s"
  show "gpu_used S s r < device_cap info r" if "gpu_grant S info s r t"
    using gpu_grant_facts [OF that] by blast
  show "gpu_used S t q \<le> gpu_used S s q + (if q = r then 1 else 0)" if "gpu_grant S info s r t"
    using gpu_grant_facts [OF that, of q] by simp
  show "gpu_world_ok S t" if "gpu_grant S info s r t"
    using gpu_grant_facts [OF that] ok by (simp add: gpu_world_ok_def)
  show "gpu_used S t q \<le> gpu_used S s q" if "gpu_other S s t"
    using gpu_other_ok_le [OF _ _ that, of q] ok by (simp add: gpu_world_ok_def)
  show "gpu_world_ok S t" if "gpu_other S s t"
    using gpu_other_ok_le [OF _ _ that] ok by (simp add: gpu_world_ok_def)
qed

end
