(* ===== verification/GpuProps.thy ===== *)
theory GpuProps
  imports GpuConcurrency
begin

text \<open>
  The properties of the GPU service: what allocation and release do to the table, the cap
  invariant over all interleavings, the eligibility gate, the synchronised cache, the
  reconciliation of the pool, and the two places where the code does less than its
  comments say.
\<close>

section \<open>Concrete inputs for the witnesses\<close>

definition demo_service :: gpu_service where
  "demo_service =
     \<lparr>sv_cache = [(0, new_gpu_info 0), (1, new_gpu_info 1)], sv_selected_gpus = [0, 1],
      sv_initialized = True, sv_rr_cursor = 0, sv_device_cache = None\<rparr>"

definition demo_rows :: "exp_row list" where
  "demo_rows = [plain_row ''e1'' ''running'' (Some ''t1'') (Some 0), plain_row ''e2'' ''ready'' (Some ''t2'') None]"

lemma demo_rows_ok: "st_ok list_store demo_rows"
  by (simp add: demo_rows_def plain_row_def)

lemma demo_allocate:
  "\<exists>sv' db'. allocate_gpu list_store None True 5 ''t2'' None (Some ''e2'') demo_service demo_rows = (Some 1, sv', db')"
  by (simp add: allocate_gpu_def demo_service_def demo_rows_def plain_row_def slot_caps_def device_info_def
      available_with_slots_def allocated_rows_def dict_get_def device_cap_def slots_per_gpu_def counter_def
      DEFAULT_JOB_BUDGETING_POLICY_def pick_available_gpu_def rr_order_def target_row_def numeral_2_eq_2)

section \<open>Allocation\<close>

text \<open>
  C33: A successful allocation returns a selected GPU (the requested one when one was named)
  whose count was strictly below its cap, and changes exactly the resolved experiment row of
  the table, setting its gpu_id_allocated to that GPU.
\<close>

theorem gpu_allocation_effect:
  assumes "store_laws S" "st_ok S db"
    and "allocate_gpu S enum lock_ok now job gid eid sv db = (Some g, sv', db')"
  shows "g \<in> set (sv_selected_gpus sv) \<and> (gid = None \<or> gid = Some g) \<and>
    int (held (st_rows S db) g) < gpu_cap enum sv g \<and>
    (\<exists>r\<in>set (st_rows S db). target_row S job eid db = Some r \<and>
           st_rows S db' = upd_rows (er_exp_id r) (set_gpu (Some g)) (st_rows S db))"
proof -
  from allocate_gpu_SomeD [OF assms(3)] obtain r where
    g: "grantable S enum sv db g" "gid = None \<or> gid = Some g" and
    r: "target_row S job eid db = Some r" "db' = st_update S db (er_exp_id r) (set_gpu (Some g))"
    by blast
  from r target_row_in [OF r(1)] assms(1,2)
  have "\<exists>r\<in>set (st_rows S db). target_row S job eid db = Some r \<and>
           st_rows S db' = upd_rows (er_exp_id r) (set_gpu (Some g)) (st_rows S db)"
    by (auto simp: store_simps)
  with g show ?thesis by (simp add: grantable_def)
qed

theorem gpu_allocation_effect_witness:
  "\<exists>sv' db'. allocate_gpu list_store None True 5 ''t2'' None (Some ''e2'') demo_service demo_rows = (Some 1, sv', db')
     \<and> int (held demo_rows 1) < gpu_cap None demo_service 1"
proof -
  obtain sv' db' where a: "allocate_gpu list_store None True 5 ''t2'' None (Some ''e2'') demo_service demo_rows = (Some 1, sv', db')"
    using demo_allocate by blast
  from gpu_allocation_effect [OF list_store_laws demo_rows_ok a] a show ?thesis by auto
qed

text \<open>
  C34: An initialised service that gets the lock, finds the experiment row and has a selected
  GPU below its cap (the named one, if one is named) always allocates; with no named GPU the
  chosen GPU is a least loaded one among those below their caps.
\<close>

theorem gpu_allocation_progress:
  assumes "sv_initialized sv" and "lock_ok" and "target_row S job eid db = Some r"
    and "gid = Some g \<and> grantable S enum sv db g \<or> gid = None \<and> (\<exists>h. grantable S enum sv db h)"
  shows "\<exists>h sv' db'. allocate_gpu S enum lock_ok now job gid eid sv db = (Some h, sv', db') \<and>
    (gid = None \<longrightarrow> (\<forall>q. grantable S enum sv db q \<longrightarrow> held (st_rows S db) h \<le> held (st_rows S db) q))"
proof -
  obtain caps sv1 where caps: "slot_caps enum sv = (caps, sv1)" by (cases "slot_caps enum sv")
  let ?ids = "map er_gpu_id_allocated (allocated_rows S db)"
  let ?av = "available_with_slots (sv_selected_gpus sv1) ?ids (PerGpu caps)"
  obtain p sv2 where pick: "pick_available_gpu ?av (Some (counter ?ids)) sv1 = (p, sv2)"
    by (cases "pick_available_gpu ?av (Some (counter ?ids)) sv1")
  have ne: "\<exists>h. grantable S enum sv db h" using assms(4) by blast
  then have sel: "sv_selected_gpus sv \<noteq> []" by (auto simp: grantable_def)
  from ne have av: "?av \<noteq> []"
    using available_grantable [OF caps, of S db] by (metis empty_set empty_iff mem_Collect_eq)
  have mem: "q \<in> set ?av" if "grantable S enum sv db q" for q
    using that available_grantable [OF caps, of S db] by blast
  have "\<exists>h sv' db'. allocate_gpu S enum lock_ok now job gid eid sv db = (Some h, sv', db')"
  proof (cases "gid = None \<and> eid = None")
    case True
    with assms(1-3) sel av pick caps show ?thesis
      by (auto simp: allocate_gpu_def allocate_def Let_def target_row_task)
  next
    case False
    show ?thesis
    proof (cases gid)
      case None
      with False assms(1-3) sel av pick caps show ?thesis
        by (auto simp: allocate_gpu_def Let_def)
    next
      case (Some q)
      with assms(4) have q: "grantable S enum sv db q" by simp
      then have "q \<in> set (sv_selected_gpus sv1)"
        using slot_caps_keeps(1) [OF caps] by (simp add: grantable_def)
      with Some mem [OF q] False assms(1-3) sel caps show ?thesis
        by (auto simp: allocate_gpu_def Let_def)
    qed
  qed
  then obtain h sv' db' where a: "allocate_gpu S enum lock_ok now job gid eid sv db = (Some h, sv', db')"
    by blast
  from allocate_gpu_SomeD [OF a] a show ?thesis by (intro exI [of _ h] exI conjI impI) auto
qed

theorem gpu_allocation_progress_witness:
  "\<exists>h sv' db'. allocate_gpu list_store None True 7 ''t2'' None None demo_service demo_rows = (Some h, sv', db')"
proof -
  have t: "target_row list_store ''t2'' None demo_rows = Some (plain_row ''e2'' ''ready'' (Some ''t2'') None)"
    by (simp add: target_row_def demo_rows_def plain_row_def)
  have g: "grantable list_store None demo_service demo_rows 1"
    by (simp add: grantable_def demo_service_def demo_rows_def plain_row_def gpu_cap_def device_info_def
        device_cap_def slots_per_gpu_def DEFAULT_JOB_BUDGETING_POLICY_def)
  from gpu_allocation_progress [OF _ _ t, of demo_service True None 0 None 7] g
  show ?thesis by (auto simp: demo_service_def)
qed

section \<open>The cap invariant\<close>

text \<open>
  C19: No interleaving of any number of processes choosing a GPU under the lock, committing or
  abandoning the choice, releasing, clearing or writing other columns makes more experiments
  hold a GPU than its slot cap (0 for an ineligible device), even when releases land between a
  choice and its commit.
\<close>

theorem gpu_caps_never_exceeded:
  assumes "store_laws S" and "st_ok S db0"
    and "\<forall>g. int (held (st_rows S db0) g) \<le> device_cap info g"
    and "pool_run (gpu_grant S info) (gpu_other S) (db0, None) (db, pending)"
  shows "int (held (st_rows S db) g) \<le> device_cap info g"
proof -
  have ok: "gpu_world_ok S (db0, None)" using assms(1,2) by (simp add: gpu_world_ok_def)
  have start: "gpu_pool.capped S info (db0, None)" using assms(3) by (simp add: gpu_pool.capped_def)
  from gpu_pool.run_capped [OF assms(4) ok start]
  have "gpu_used S (db, pending) g \<le> device_cap info g" by (simp add: gpu_pool.capped_def)
  moreover have "int (held (st_rows S db) g) \<le> gpu_used S (db, pending) g"
    by (simp add: gpu_used_def split: option.split)
  ultimately show ?thesis by linarith
qed

theorem gpu_caps_never_exceeded_witness:
  "\<exists>db. pool_run (gpu_grant list_store []) (gpu_other list_store) (demo_rows, None) (db, None) \<and>
     db \<noteq> demo_rows \<and> int (held db 1) \<le> device_cap [] 1"
proof -
  let ?r = "plain_row ''e2'' ''ready'' (Some ''t2'') None"
  let ?db = "st_update list_store demo_rows (er_exp_id ?r) (set_gpu (Some 1))"
  obtain sv' db' where a: "allocate_gpu list_store None True 5 ''t2'' None (Some ''e2'') demo_service demo_rows = (Some 1, sv', db')"
    using demo_allocate by blast
  have t: "target_row list_store ''t2'' (Some ''e2'') demo_rows = Some ?r"
    by (simp add: target_row_def demo_rows_def plain_row_def)
  have d: "fst (device_info None demo_service) = []" by (simp add: device_info_def demo_service_def)
  have s0: "pool_run (gpu_grant list_store []) (gpu_other list_store) (demo_rows, None) (demo_rows, None)"
    by (rule pool_start)
  have g: "gpu_grant list_store [] (demo_rows, None) 1 (demo_rows, Some (1, er_exp_id ?r))"
    by (rule gpu_choose [OF d a t])
  have c: "gpu_other list_store (demo_rows, Some (1, er_exp_id ?r)) (?db, None)"
    by (rule gpu_commit)
  have s1: "pool_run (gpu_grant list_store []) (gpu_other list_store) (demo_rows, None) (demo_rows, Some (1, er_exp_id ?r))"
    by (rule pool_grant [where grant = "gpu_grant list_store []" and t = "(demo_rows, None)" and r = 1])
      (rule s0, rule g)
  have run: "pool_run (gpu_grant list_store []) (gpu_other list_store) (demo_rows, None) (?db, None)"
    by (rule pool_other [where other = "gpu_other list_store" and t = "(demo_rows, Some (1, er_exp_id ?r))"])
      (rule s1, rule c)
  have start: "\<forall>g. int (held (st_rows list_store demo_rows) g) \<le> device_cap [] g"
    by (simp add: demo_rows_def plain_row_def device_cap_def slots_per_gpu_def DEFAULT_JOB_BUDGETING_POLICY_def)
  from gpu_caps_never_exceeded [OF list_store_laws demo_rows_ok start run, of 1] run
  show ?thesis by (intro exI [of _ ?db]) (simp add: demo_rows_def plain_row_def upd_rows_def)
qed

text \<open>
  A GPU the device registry marks ineligible is never returned by an allocation, named or
  not, whatever the selection says.
\<close>

theorem ineligible_gpu_never_allocated:
  assumes "map_of (fst (device_info enum sv)) g = Some d" and "\<not> dv_eligible d"
  shows "fst (allocate_gpu S enum lock_ok now job gid eid sv db) \<noteq> Some g"
proof
  assume "fst (allocate_gpu S enum lock_ok now job gid eid sv db) = Some g"
  then obtain sv' db' where "allocate_gpu S enum lock_ok now job gid eid sv db = (Some g, sv', db')"
    by (metis prod.collapse)
  from allocate_gpu_SomeD [OF this] have "int (held (st_rows S db) g) < gpu_cap enum sv g"
    by (simp add: grantable_def)
  with assms show False by (simp add: gpu_cap_def device_cap_def)
qed

theorem ineligible_gpu_never_allocated_witness:
  "fst (allocate_gpu list_store (Some [\<lparr>rd_gpu_id = Some 1, rd_name = None, rd_memory_gb = None, rd_uuid = None,
      rd_eligible = Some False, rd_kind = None, rd_slots = Some 1\<rparr>]) True 5 ''t2'' (Some 1) None demo_service demo_rows) \<noteq> Some 1"
  by (rule ineligible_gpu_never_allocated [where d = "\<lparr>dv_eligible = False, dv_slots = 1, dv_kind = ''whole_gpu'', dv_uuid = None\<rparr>"])
    (simp_all add: device_info_def demo_service_def device_of_def Let_def)

text \<open>
  The reconciliation report maps a GPU to a count exactly when that is the number of its
  allocations, is positive and exceeds its cap.
\<close>

theorem overallocation_report_sound_and_complete:
  "map_of (detect_overallocation ids slots) g = Some n \<longleftrightarrow>
     n = counter ids g \<and> 0 < n \<and> cap_of slots g < int n"
proof -
  have seen: "set (first_seen xs seen) = {h. Some h \<in> set xs} - set seen" for xs seen
    by (induction xs seen rule: first_seen.induct) auto
  have m: "map_of (map (\<lambda>h. (h, f h)) hs) g = (if g \<in> set hs then Some (f g) else None)" for f :: "int \<Rightarrow> nat" and hs
    by (induction hs) auto
  have "(0 < counter ids g) = (Some g \<in> set ids)"
    by (simp add: counter_def count_list_0_iff neq0_conv [symmetric] del: neq0_conv)
  then show ?thesis
    by (auto simp: detect_overallocation_def m seen)
qed

section \<open>Release\<close>

text \<open>
  Releasing with the experiment id after an allocation to a row that held no GPU succeeds
  and restores every row of the table.
\<close>

theorem release_undoes_allocation:
  assumes "store_laws S" "st_ok S db"
    and "allocate_gpu S enum lock_ok now job gid (Some e) sv db = (Some g, sv', db')"
    and "target_row S job (Some e) db = Some r" "er_exp_id r = e" "e \<noteq> []" "er_gpu_id_allocated r = None"
  shows "\<exists>sv'' db''. release S now' g None (Some e) sv' db' = (True, sv'', db'') \<and> st_rows S db'' = st_rows S db"
proof -
  from allocate_gpu_SomeD [OF assms(3)] assms(4,5)
  have db': "db' = st_update S db e (set_gpu (Some g))" by auto
  have rin: "r \<in> set (st_rows S db)" using assms(4) by (rule target_row_in)
  have dist: "distinct (map er_exp_id (st_rows S db))" using assms(1,2) by (rule store_distinct)
  have rows': "st_rows S db' = upd_rows e (set_gpu (Some g)) (st_rows S db)" and ok': "st_ok S db'"
    using assms(1,2) by (simp_all add: db' store_simps)
  let ?P = "\<lambda>s. Some (er_exp_id s) = Some e \<and> er_gpu_id_allocated s = Some g"
  have "set_gpu (Some g) r \<in> set (st_rows S db')"
    using rin assms(5) by (auto simp: rows' upd_rows_def image_iff intro!: bexI [of _ r])
  then obtain s where s: "List.find ?P (st_rows S db') = Some s"
    using find_None_all [of ?P "st_rows S db'"] assms(5) by (cases "List.find ?P (st_rows S db')") auto
  then have "er_exp_id s = e" using find_in_set [OF s] by simp
  then have rel: "release S now' g None (Some e) sv' db' =
      (True, sv'\<lparr>sv_cache := dict_modify g (cache_drop_job now' None (Some e) s) (sv_cache sv')\<rparr>,
       st_update S db' e (set_gpu None))"
    using s assms(6) by (cases e) (simp_all add: release_def release_row_def truthy_def)
  moreover have "st_rows S (st_update S db' e (set_gpu None)) = st_rows S db"
    using assms(1) ok' upd_rows_set_None_undo [OF dist rin assms(5,7)] by (simp add: store_simps rows')
  ultimately show ?thesis by blast
qed

theorem release_undoes_allocation_witness:
  "\<exists>sv' db' sv'' db''.
     allocate_gpu list_store None True 5 ''t2'' None (Some ''e2'') demo_service demo_rows = (Some 1, sv', db') \<and>
     release list_store 9 1 None (Some ''e2'') sv' db' = (True, sv'', db'') \<and> db'' = demo_rows"
proof -
  obtain sv' db' where a: "allocate_gpu list_store None True 5 ''t2'' None (Some ''e2'') demo_service demo_rows = (Some 1, sv', db')"
    using demo_allocate by blast
  have t: "target_row list_store ''t2'' (Some ''e2'') demo_rows = Some (plain_row ''e2'' ''ready'' (Some ''t2'') None)"
    by (simp add: target_row_def demo_rows_def plain_row_def)
  from release_undoes_allocation [OF list_store_laws demo_rows_ok a t, of 9] a
  show ?thesis by (auto simp: plain_row_def)
qed

section \<open>Cache and inventory\<close>

text \<open>
  After a synchronisation every cached GPU has aliases equal to its first job, as many
  active jobs as the table has rows on it, status BUSY exactly when the table has such a row,
  and OFFLINE exactly when it has none and the GPU is outside a non-empty selection.
\<close>

theorem sync_makes_cache_agree:
  assumes "map_of (sv_cache (sync_from_db S now db sv)) g = Some info"
  shows "aliases_in_sync info \<and> length (gi_active_jobs info) = held (st_rows S db) g \<and>
    (gi_status info = BUSY \<longleftrightarrow> (\<exists>r\<in>set (st_rows S db). er_gpu_id_allocated r = Some g)) \<and>
    (gi_status info = OFFLINE \<longleftrightarrow>
      held (st_rows S db) g = 0 \<and> sv_selected_gpus sv \<noteq> [] \<and> g \<notin> set (sv_selected_gpus sv))"
proof -
  obtain old where i: "info = sync_info S now db (sv_selected_gpus sv) g old"
    using assms by (auto simp: sync_from_db_def map_of_mapped)
  have sync: "aliases_in_sync info" by (auto simp: i sync_info_def)
  have empty: "table_jobs S db g = [] \<longleftrightarrow> held (st_rows S db) g = 0"
    using table_jobs_length [of S db g] by auto
  have len: "length (gi_active_jobs info) = held (st_rows S db) g"
    using empty by (auto simp: i sync_info_def table_jobs_length)
  have "table_jobs S db g \<noteq> [] \<longleftrightarrow> (\<exists>r\<in>set (st_rows S db). er_gpu_id_allocated r = Some g)"
    by (auto simp: table_jobs_def filter_empty_conv)
  then have busy: "gi_status info = BUSY \<longleftrightarrow> (\<exists>r\<in>set (st_rows S db). er_gpu_id_allocated r = Some g)"
    by (auto simp: i sync_info_def)
  have offline: "gi_status info = OFFLINE \<longleftrightarrow>
      held (st_rows S db) g = 0 \<and> sv_selected_gpus sv \<noteq> [] \<and> g \<notin> set (sv_selected_gpus sv)"
    using empty by (auto simp: i sync_info_def)
  show ?thesis using sync len busy offline by (intro conjI)
qed

theorem sync_makes_cache_agree_witness:
  "\<exists>info. map_of (sv_cache (sync_from_db list_store 5 demo_rows demo_service)) 0 = Some info \<and>
     gi_status info = BUSY"
proof -
  obtain info where i: "map_of (sv_cache (sync_from_db list_store 5 demo_rows demo_service)) 0 = Some info"
    by (simp add: sync_from_db_def demo_service_def)
  from sync_makes_cache_agree [OF i] i show ?thesis by (auto simp: demo_rows_def plain_row_def)
qed

text \<open>
  The periodic inventory refresh leaves the status, job list and aliases of every GPU with
  active jobs as they were, whatever devices are detected and in either selection mode.
\<close>

theorem refresh_never_touches_running_gpu:
  assumes "map_of (sv_cache sv) g = Some info" and "gi_active_jobs info \<noteq> []"
  shows "\<exists>info'. map_of (sv_cache (snd (refresh_inventory show_id now devices auto_mode sv))) g = Some info' \<and>
    gi_status info' = gi_status info \<and> gi_active_jobs info' = gi_active_jobs info \<and>
    gi_current_task_id info' = gi_current_task_id info \<and> gi_current_exp_id info' = gi_current_exp_id info"
proof -
  let ?ids = "map (the \<circ> rd_gpu_id) (filter (\<lambda>d. rd_gpu_id d \<noteq> None) devices)"
  let ?sv1 = "register_detected_gpus show_id now devices sv"
  obtain sel added where grow: "(if auto_mode then grow_selection ?ids (sv_selected_gpus ?sv1) []
      else (sv_selected_gpus ?sv1, [])) = (sel, added)" by (metis surj_pair)
  obtain c r f where loop: "foldl (refresh_one ?ids now) (sv_cache ?sv1, [], []) sel = (c, r, f)"
    by (metis prod_cases3)
  from register_keeps_view [OF assms(1), of show_id now devices] obtain i where
    i: "map_of (sv_cache ?sv1) g = Some i" "alloc_view i = alloc_view info" by blast
  then have "gi_active_jobs i \<noteq> []" using assms(2) by (simp add: alloc_view_def)
  from refresh_loop_keeps [OF i(1) this loop] have "map_of c g = Some i" .
  moreover have "sv_cache (snd (refresh_inventory show_id now devices auto_mode sv)) = c"
    by (simp only: refresh_inventory_def Let_def grow loop prod.case snd_conv) simp
  ultimately show ?thesis using i(2) by (simp add: alloc_view_def)
qed

theorem refresh_never_touches_running_gpu_witness:
  "let busy = (set_jobs [(Some ''t1'', Some ''e1'')] (new_gpu_info 0))\<lparr>gi_status := BUSY\<rparr>;
       sv = demo_service\<lparr>sv_cache := [(0, busy)]\<rparr>
   in \<exists>info'. map_of (sv_cache (snd (refresh_inventory (\<lambda>n. ''x'') 9 [] True sv))) 0 = Some info' \<and>
        gi_status info' = BUSY"
  using refresh_never_touches_running_gpu [of "demo_service\<lparr>sv_cache := [(0, (set_jobs [(Some ''t1'', Some ''e1'')]
      (new_gpu_info 0))\<lparr>gi_status := BUSY\<rparr>)]\<rparr>" 0, OF _ _, of _ "\<lambda>n. ''x''" 9 "[]" True]
  by (auto simp: Let_def)

text \<open>
  A refresh only appends to the selection: the new selection is the old one followed by
  the reported additions, it covers the detected ids exactly in auto mode, and it stays free of
  duplicates.
\<close>

theorem refresh_selection_grows:
  "let (summary, sv') = refresh_inventory show_id now devices auto_mode sv in
    sv_selected_gpus sv' = sv_selected_gpus sv @ is_added summary \<and>
    set (sv_selected_gpus sv') = set (sv_selected_gpus sv) \<union> (if auto_mode then set (is_eligible summary) else {}) \<and>
    (distinct (sv_selected_gpus sv) \<longrightarrow> distinct (sv_selected_gpus sv'))"
proof -
  let ?sv1 = "register_detected_gpus show_id now devices sv"
  let ?ids = "map (the \<circ> rd_gpu_id) (filter (\<lambda>d. rd_gpu_id d \<noteq> None) devices)"
  obtain sel added where grow: "(if auto_mode then grow_selection ?ids (sv_selected_gpus ?sv1) []
      else (sv_selected_gpus ?sv1, [])) = (sel, added)" by (metis surj_pair)
  obtain c r f where loop: "foldl (refresh_one ?ids now) (sv_cache ?sv1, [], []) sel = (c, r, f)"
    by (metis prod_cases3)
  note unfold = refresh_inventory_def Let_def grow loop prod.case
  have e: "is_eligible (fst (refresh_inventory show_id now devices auto_mode sv)) = ?ids"
    by (simp only: unfold fst_conv, simp)
  have r: "is_added (fst (refresh_inventory show_id now devices auto_mode sv)) = added"
    "sv_selected_gpus (snd (refresh_inventory show_id now devices auto_mode sv)) = sel"
    by (simp only: unfold fst_conv, simp) (simp only: unfold snd_conv, simp)
  have spec: "sel = sv_selected_gpus sv @ added \<and>
      set sel = set (sv_selected_gpus sv) \<union> (if auto_mode then set ?ids else {}) \<and>
      (distinct (sv_selected_gpus sv) \<longrightarrow> distinct sel)"
  proof (cases auto_mode)
    case True
    with grow have "grow_selection ?ids (sv_selected_gpus sv) [] = (sel, added)" by simp
    from grow_selection_spec [OF this] True show ?thesis
      by (simp only: if_True) (metis append_Nil)
  next
    case False
    with grow show ?thesis by simp
  qed
  show ?thesis unfolding case_prod_beta Let_def r e by (rule spec)
qed

theorem refresh_selection_grows_witness:
  "\<not> distinct [1, 1::int] \<and> distinct (sv_selected_gpus (snd (refresh_inventory (\<lambda>n. ''x'') 3
     [\<lparr>rd_gpu_id = Some 2, rd_name = None, rd_memory_gb = None, rd_uuid = None, rd_eligible = None,
       rd_kind = None, rd_slots = None\<rparr>] True demo_service)))"
  using refresh_selection_grows [of "\<lambda>n. ''x''" 3 "[\<lparr>rd_gpu_id = Some 2, rd_name = None, rd_memory_gb = None,
      rd_uuid = None, rd_eligible = None, rd_kind = None, rd_slots = None\<rparr>]" True demo_service]
  by (auto simp: case_prod_beta Let_def demo_service_def)

section \<open>Where the code does less than its comments say\<close>

text \<open>
  Marking the undetected selected GPUs OFFLINE does not change what allocation returns:
  the allocator reads the selection, the table and the caps, never the cached status.
\<close>

theorem offline_mark_does_not_stop_allocation:
  "fst (allocate_gpu S enum lock_ok now job gid eid (snd (validate_selected_gpus detected sv)) db) =
     fst (allocate_gpu S enum lock_ok now job gid eid sv db) \<and>
   (\<forall>g info. g \<in> set (fst (validate_selected_gpus detected sv)) \<and>
      map_of (sv_cache (snd (validate_selected_gpus detected sv))) g = Some info \<longrightarrow> gi_status info = OFFLINE)"
proof -
  have "\<exists>c. snd (validate_selected_gpus detected sv) = sv\<lparr>sv_cache := c\<rparr>"
    by (simp add: validate_selected_gpus_def Let_def) (metis gpu_service.surjective gpu_service.update_convs(1))
  then have same: "fst (allocate_gpu S enum lock_ok now job gid eid (snd (validate_selected_gpus detected sv)) db) =
     fst (allocate_gpu S enum lock_ok now job gid eid sv db)"
    using allocate_gpu_cache(1) by metis
  have "(\<forall>g info. g \<in> set (fst (validate_selected_gpus detected sv)) \<and>
      map_of (sv_cache (snd (validate_selected_gpus detected sv))) g = Some info \<longrightarrow> gi_status info = OFFLINE)"
    by (auto simp: validate_selected_gpus_def Let_def offline_loop mark_idle_def)
  with same show ?thesis by blast
qed

theorem offline_mark_does_not_stop_allocation_witness:
  "let sv' = snd (validate_selected_gpus [0] demo_service) in
     map_option gi_status (map_of (sv_cache sv') 1) = Some OFFLINE \<and>
     fst (allocate_gpu list_store None True 5 ''t2'' None (Some ''e2'') sv' demo_rows) = Some 1"
proof -
  have "fst (allocate_gpu list_store None True 5 ''t2'' None (Some ''e2'') demo_service demo_rows) = Some 1"
    using demo_allocate by force
  moreover have "fst (validate_selected_gpus [0] demo_service) = [1]"
    by (simp add: validate_selected_gpus_def demo_service_def Let_def)
  moreover have "\<exists>i. map_of (sv_cache (snd (validate_selected_gpus [0] demo_service))) 1 = Some i"
    by (simp add: validate_selected_gpus_def demo_service_def dict_modify_def Let_def)
  ultimately show ?thesis
    using offline_mark_does_not_stop_allocation [where S = list_store and enum = None and lock_ok = True and now = 5
      and job = "''t2''" and gid = None and eid = "Some ''e2''" and detected = "[0]" and sv = demo_service and db = demo_rows]
    by (auto simp: Let_def)
qed

text \<open>
  Clearing all allocations makes a busy GPU AVAILABLE with empty aliases but leaves its
  list of active jobs, so the aliases no longer agree with the list.
\<close>

theorem clear_all_leaves_stale_jobs:
  assumes "map_of (sv_cache sv) g = Some info" "gi_status info = BUSY"
    and "gi_active_jobs info = (Some t, e) # js"
  shows "\<exists>info'. map_of (sv_cache (fst (snd (clear_all_allocations S now sv db)))) g = Some info' \<and>
    gi_status info' = AVAILABLE \<and> gi_current_task_id info' = None \<and>
    gi_active_jobs info' = (Some t, e) # js \<and> \<not> aliases_in_sync info'"
  using assms by (simp add: clear_all_allocations_def map_of_mapped mark_idle_def aliases_in_sync_def)

theorem clear_all_leaves_stale_jobs_witness:
  "let busy = (set_jobs [(Some ''t1'', Some ''e1'')] (new_gpu_info 0))\<lparr>gi_status := BUSY\<rparr>;
       sv = demo_service\<lparr>sv_cache := [(0, busy)]\<rparr>
   in \<exists>info'. map_of (sv_cache (fst (snd (clear_all_allocations list_store 9 sv demo_rows)))) 0 = Some info' \<and>
        \<not> aliases_in_sync info'"
  using clear_all_leaves_stale_jobs [of "demo_service\<lparr>sv_cache := [(0, (set_jobs [(Some ''t1'', Some ''e1'')]
      (new_gpu_info 0))\<lparr>gi_status := BUSY\<rparr>)]\<rparr>" 0 _ "''t1''" "Some ''e1''" "[]" list_store 9 demo_rows]
  by (auto simp: Let_def)

end
