(* ===== verification/Errors.thy ===== *)
theory Errors
  imports COMID_Prelude
begin

text \<open>
  \<^verbatim>\<open>src/src/contracts/errors.py\<close>: the error codes with their wire values, and the contract
  errors raised all over the program, as values: code, message and details.
\<close>

section \<open>Error codes\<close>

datatype (plugins only: code) error_code =
    VALIDATION_ERROR
  | COMPOSITION_INVALID | COMPOSITION_SUM_ERROR | COMPOSITION_BOUNDS_ERROR | ATOM_COUNT_ERROR
  | TEMPERATURE_RANGE_ERROR | PRESSURE_RANGE_ERROR | INVALID_REQUEST | INVALID_STATE_TRANSITION
  | BUILD_ERROR | PACKMOL_FAILED | MOLECULE_NOT_FOUND | TOPOLOGY_GENERATION_FAILED
  | PACKING_OVERLAP | COMPOSITION_ERROR_EXCEEDED | ARTIFACT_MISSING | ARTIFACT_INCOMPLETE
  | PROTOCOL_ERROR | TEMPLATE_NOT_FOUND | INVALID_TIER | INVALID_FF_TYPE | EXECUTION_ERROR
  | LAMMPS_FAILED | TIMEOUT_ERROR | ENERGY_DRIFT | PRESSURE_BLOWUP | QEQ_DIVERGENCE
  | PARSER_ERROR | LOG_PARSE_FAILED | DUMP_PARSE_FAILED | THERMO_EXTRACT_FAILED | METRIC_ERROR
  | UNKNOWN_METRIC | UNIT_MISMATCH | CONVERGENCE_FAILED | DENSITY_OUT_OF_RANGE
  | E_INTRA_NOT_CACHED | DATABASE_ERROR | RECORD_NOT_FOUND | DUPLICATE_RECORD | MIGRATION_FAILED
  | ORCHESTRATION_ERROR | JOB_LIMIT_EXCEEDED | GPU_NOT_AVAILABLE | QUEUE_FULL
  | SERVICE_UNAVAILABLE | DEPENDENCY_CYCLE | DEPENDENCY_BROKEN | DUPLICATE_EXECUTION_BLOCKED
  | LLM_ERROR | REDACTION_VIOLATION | DEBATE_TIMEOUT | CONSENSUS_FAILED | LITERATURE_FETCH_FAILED
  | LITERATURE_VALIDATION_FAILED | REASONING_CHAIN_INVALID | TRAINING_QUALITY_FAILED
  | SCENARIO_PLANNING_ERROR | LLM_CLIENT_ERROR | DRIFT_DETECTED | RETRAINING_FAILED
  | MODEL_REGISTRATION_FAILED | MODEL_NOT_FOUND | PROMOTION_FAILED | ROLLBACK_FAILED
  | INSUFFICIENT_TRAINING_DATA | CALIBRATION_FAILED | PATH_TRAVERSAL_BLOCKED
  | SYMLINK_ESCAPE_BLOCKED | FILE_TOO_LARGE | ATOM_LIMIT_EXCEEDED | STRUCTURE_NOT_FOUND

text \<open>The value of a code (\<open>code.value\<close>) in the order of the enumeration.\<close>

definition error_codes :: "(error_code \<times> string) list" where
  "error_codes =
    [(VALIDATION_ERROR, ''E1000''), (COMPOSITION_INVALID, ''E1001''),
     (COMPOSITION_SUM_ERROR, ''E1002''), (COMPOSITION_BOUNDS_ERROR, ''E1003''),
     (ATOM_COUNT_ERROR, ''E1004''), (TEMPERATURE_RANGE_ERROR, ''E1005''),
     (PRESSURE_RANGE_ERROR, ''E1006''), (INVALID_REQUEST, ''E1007''),
     (INVALID_STATE_TRANSITION, ''E1700''), (BUILD_ERROR, ''E2000''),
     (PACKMOL_FAILED, ''E2001''), (MOLECULE_NOT_FOUND, ''E2002''),
     (TOPOLOGY_GENERATION_FAILED, ''E2003''), (PACKING_OVERLAP, ''E2004''),
     (COMPOSITION_ERROR_EXCEEDED, ''E2005''), (ARTIFACT_MISSING, ''E2501''),
     (ARTIFACT_INCOMPLETE, ''E2502''), (PROTOCOL_ERROR, ''E3000''),
     (TEMPLATE_NOT_FOUND, ''E3001''), (INVALID_TIER, ''E3002''), (INVALID_FF_TYPE, ''E3003''),
     (EXECUTION_ERROR, ''E4000''), (LAMMPS_FAILED, ''E4001''), (TIMEOUT_ERROR, ''E4002''),
     (ENERGY_DRIFT, ''E4003''), (PRESSURE_BLOWUP, ''E4004''), (QEQ_DIVERGENCE, ''E4005''),
     (PARSER_ERROR, ''E5000''), (LOG_PARSE_FAILED, ''E5001''), (DUMP_PARSE_FAILED, ''E5002''),
     (THERMO_EXTRACT_FAILED, ''E5003''), (METRIC_ERROR, ''E6000''),
     (UNKNOWN_METRIC, ''E6001''), (UNIT_MISMATCH, ''E6002''), (CONVERGENCE_FAILED, ''E6003''),
     (DENSITY_OUT_OF_RANGE, ''E6004''), (E_INTRA_NOT_CACHED, ''E6005''),
     (DATABASE_ERROR, ''E7000''), (RECORD_NOT_FOUND, ''E7001''),
     (DUPLICATE_RECORD, ''E7002''), (MIGRATION_FAILED, ''E7003''),
     (ORCHESTRATION_ERROR, ''E8000''), (JOB_LIMIT_EXCEEDED, ''E8001''),
     (GPU_NOT_AVAILABLE, ''E8002''), (QUEUE_FULL, ''E8003''),
     (SERVICE_UNAVAILABLE, ''E8004''), (DEPENDENCY_CYCLE, ''E8100''),
     (DEPENDENCY_BROKEN, ''E8101''), (DUPLICATE_EXECUTION_BLOCKED, ''E8701''),
     (LLM_ERROR, ''E9000''), (REDACTION_VIOLATION, ''E9001''), (DEBATE_TIMEOUT, ''E9002''),
     (CONSENSUS_FAILED, ''E9003''), (LITERATURE_FETCH_FAILED, ''E9004''),
     (LITERATURE_VALIDATION_FAILED, ''E9005''), (REASONING_CHAIN_INVALID, ''E9006''),
     (TRAINING_QUALITY_FAILED, ''E9007''), (SCENARIO_PLANNING_ERROR, ''E9008''),
     (LLM_CLIENT_ERROR, ''E9009''), (DRIFT_DETECTED, ''E10001''),
     (RETRAINING_FAILED, ''E10002''), (MODEL_REGISTRATION_FAILED, ''E10003''),
     (MODEL_NOT_FOUND, ''E10004''), (PROMOTION_FAILED, ''E10005''),
     (ROLLBACK_FAILED, ''E10006''), (INSUFFICIENT_TRAINING_DATA, ''E10007''),
     (CALIBRATION_FAILED, ''E10008''), (PATH_TRAVERSAL_BLOCKED, ''E9501''),
     (SYMLINK_ESCAPE_BLOCKED, ''E9502''), (FILE_TOO_LARGE, ''E9503''),
     (ATOM_LIMIT_EXCEEDED, ''E9504''), (STRUCTURE_NOT_FOUND, ''E9505'')]"

definition error_value :: "error_code \<Rightarrow> string" where
  "error_value c = (case map_of error_codes c of Some v \<Rightarrow> v | None \<Rightarrow> [])"

text \<open>\<open>ErrorCode(v)\<close>: the member with that value.\<close>

definition error_of_value :: "string \<Rightarrow> error_code option" where
  "error_of_value v = map_option fst (List.find (\<lambda>(c, w). w = v) error_codes)"

lemma distinct_snd_inj:
  "distinct (map snd xs) \<Longrightarrow> (c, v) \<in> set xs \<Longrightarrow> (d, v) \<in> set xs \<Longrightarrow> c = d"
  by (induction xs) (force simp: image_iff)+

lemma distinct_error_values: "distinct (map snd error_codes)"
  by (simp add: error_codes_def)

lemma error_codes_complete: "c \<in> set (map fst error_codes)"
  by (cases c) (simp_all add: error_codes_def)

lemma error_value_in: "(c, error_value c) \<in> set error_codes"
proof -
  from error_codes_complete [of c] obtain v where "map_of error_codes c = Some v"
    by (metis map_of_eq_None_iff not_None_eq set_map)
  then show ?thesis by (simp add: error_value_def map_of_SomeD)
qed

lemma error_value_inj: "error_value c = error_value d \<longleftrightarrow> c = d"
  by (metis distinct_snd_inj [OF distinct_error_values] error_value_in)

lemma error_of_value_value: "error_of_value (error_value c) = Some c"
proof (cases "List.find (\<lambda>(d, w). w = error_value c) error_codes")
  case None
  then show ?thesis using error_value_in [of c] by (auto simp: find_None_all)
next
  case (Some p)
  then have "p \<in> set error_codes" "snd p = error_value c"
    using find_in_set [OF Some] by auto
  then have "fst p = c"
    by (metis distinct_snd_inj [OF distinct_error_values] error_value_in prod.collapse)
  with Some show ?thesis by (simp add: error_of_value_def)
qed

section \<open>Contract errors\<close>

record contract_error =
  ce_code :: error_code
  ce_message :: string
  ce_details :: "(string, pyval) pydict"

text \<open>\<open>details or {}\<close>\<close>

definition details_or_empty :: "(string, pyval) pydict option \<Rightarrow> (string, pyval) pydict" where
  "details_or_empty d = (case d of None \<Rightarrow> [] | Some x \<Rightarrow> x)"

definition new_contract_error ::
    "error_code \<Rightarrow> string \<Rightarrow> (string, pyval) pydict option \<Rightarrow> contract_error" where
  "new_contract_error code message details =
     \<lparr>ce_code = code, ce_message = message, ce_details = details_or_empty details\<rparr>"

text \<open>\<open>str(e)\<close>\<close>

definition error_text :: "contract_error \<Rightarrow> string" where
  "error_text e = ''['' @ error_value (ce_code e) @ ''] '' @ ce_message e"

definition error_to_dict :: "contract_error \<Rightarrow> (string, pyval) pydict" where
  "error_to_dict e =
     [(''code'', PStr (error_value (ce_code e))), (''message'', PStr (ce_message e)),
      (''details'', PDict (ce_details e))]"

text \<open>
  The subclasses: \<open>ValidationError\<close> fixes the code; three others add one entry to the
  details when it is given (a non-empty composition, log file, path or name).
\<close>

definition validation_error :: "string \<Rightarrow> (string, pyval) pydict option \<Rightarrow> contract_error" where
  "validation_error message details = new_contract_error VALIDATION_ERROR message details"

definition composition_error ::
    "error_code \<Rightarrow> string \<Rightarrow> (string, pyfloat) pydict option \<Rightarrow> (string, pyval) pydict option
      \<Rightarrow> contract_error" where
  "composition_error code message composition details =
     (let d = details_or_empty details in
      new_contract_error code message
        (Some (case composition of
            None \<Rightarrow> d
          | Some c \<Rightarrow> if c = [] then d
              else dict_set ''composition'' (PDict (map (\<lambda>(k, x). (k, PNum x)) c)) d)))"

definition detailed_error ::
    "string \<Rightarrow> error_code \<Rightarrow> string \<Rightarrow> string option \<Rightarrow> (string, pyval) pydict option
      \<Rightarrow> contract_error" where
  "detailed_error key code message value details =
     (let d = details_or_empty details in
      new_contract_error code message
        (Some (if truthy value then dict_set key (PStr (the value)) d else d)))"

definition execution_error ::
    "error_code \<Rightarrow> string \<Rightarrow> string option \<Rightarrow> (string, pyval) pydict option \<Rightarrow> contract_error" where
  "execution_error = detailed_error ''log_file''"

definition parser_error ::
    "error_code \<Rightarrow> string \<Rightarrow> string option \<Rightarrow> (string, pyval) pydict option \<Rightarrow> contract_error" where
  "parser_error = detailed_error ''file_path''"

definition metric_error ::
    "error_code \<Rightarrow> string \<Rightarrow> string option \<Rightarrow> (string, pyval) pydict option \<Rightarrow> contract_error" where
  "metric_error = detailed_error ''metric_name''"

lemma details_or_empty_simps [simp]:
  "details_or_empty None = []" "details_or_empty (Some d) = d"
  by (simp_all add: details_or_empty_def)

lemma new_contract_error_simps [simp]:
  "ce_code (new_contract_error c m d) = c"
  "ce_message (new_contract_error c m d) = m"
  "ce_details (new_contract_error c m d) = details_or_empty d"
  by (simp_all add: new_contract_error_def)

section \<open>Properties\<close>

text \<open>
  The serialised form of a contract error determines its code, message and details, and
  the code is read back from the serialised value.
\<close>

theorem error_dict_identifies_error:
  "(error_to_dict e = error_to_dict f \<longleftrightarrow>
     ce_code e = ce_code f \<and> ce_message e = ce_message f \<and> ce_details e = ce_details f) \<and>
   (case map_of (error_to_dict e) ''code'' of
      Some (PStr v) \<Rightarrow> error_of_value v = Some (ce_code e) | _ \<Rightarrow> False)"
  by (auto simp: error_to_dict_def error_value_inj error_of_value_value)

end
