(* ===== verification/StateMachine.thy ===== *)
theory StateMachine
  imports Errors "HOL-Library.Char_ord" "HOL-Library.List_Lexorder"
begin

text \<open>
  The life cycle of an experiment, \<^verbatim>\<open>src/src/contracts/policies/state_machine.py\<close>: the
  transition table, the check every status change goes through, and the life cycle it
  induces as a step relation on statuses.
\<close>

section \<open>The check\<close>

definition ALLOWED_STATUS_TRANSITIONS :: "(string, string list) pydict" where
  "ALLOWED_STATUS_TRANSITIONS =
     [(''pending'', [''queued'', ''building'', ''ready'', ''running'', ''failed'', ''cancelled'', ''timeout'']),
      (''queued'', [''pending'', ''building'', ''ready'', ''failed'', ''cancelled'', ''timeout'']),
      (''building'', [''queued'', ''ready'', ''failed'', ''cancelled'', ''timeout'']),
      (''ready'', [''queued'', ''running'', ''failed'', ''cancelled'', ''timeout'']),
      (''running'', [''pending'', ''analyzing'', ''completed'', ''failed'', ''cancelled'', ''timeout'']),
      (''analyzing'', [''completed'', ''failed'', ''cancelled'', ''timeout'']),
      (''completed'', [''pending'', ''queued'']),
      (''failed'', [''pending'', ''queued'']),
      (''cancelled'', [''pending'', ''queued'']),
      (''timeout'', [''pending'', ''queued''])]"

text \<open>\<open>(s or "").lower().strip()\<close>\<close>

definition status_key :: "string option \<Rightarrow> string" where
  "status_key s = str_strip (str_lower (or_default s []))"

definition optional_str :: "string option \<Rightarrow> pyval" where
  "optional_str s = (case s of None \<Rightarrow> PNone | Some t \<Rightarrow> PStr t)"

definition ensure_valid_experiment_transition ::
    "string option \<Rightarrow> string option \<Rightarrow> (contract_error, unit) result" where
  "ensure_valid_experiment_transition from_status to_status =
     (let src = status_key from_status; dst = status_key to_status in
      if src = [] \<or> dst = [] then
        Inl (new_contract_error INVALID_STATE_TRANSITION
          ''Experiment status transition requires both source and destination states''
          (Some [(''from_status'', optional_str from_status), (''to_status'', optional_str to_status)]))
      else if src = dst then Inr ()
      else
        let allowed = dict_get ALLOWED_STATUS_TRANSITIONS src [] in
        if dst \<notin> set allowed then
          Inl (new_contract_error INVALID_STATE_TRANSITION
            (''Invalid experiment status transition: '' @ src @ '' -> '' @ dst)
            (Some [(''from_status'', PStr src), (''to_status'', PStr dst),
                   (''allowed'', PList (map PStr (sort allowed)))]))
        else Inr ())"

section \<open>The life cycle\<close>

definition statuses :: "string list" where
  "statuses = map fst ALLOWED_STATUS_TRANSITIONS"

definition terminal_statuses :: "string list" where
  "terminal_statuses = [''completed'', ''failed'', ''cancelled'', ''timeout'']"

definition edge :: "string \<Rightarrow> string \<Rightarrow> bool" where
  "edge s t \<longleftrightarrow> t \<in> set (dict_get ALLOWED_STATUS_TRANSITIONS s [])"

text \<open>A status row changes only by a change the check accepts; \<open>lifecycle s tr\<close> says that
  \<open>tr\<close> is a sequence of statuses the row can go through after \<open>s\<close>.\<close>

inductive lifecycle :: "string \<Rightarrow> string list \<Rightarrow> bool" where
  lifecycle_start: "lifecycle s []"
| lifecycle_step:
    "ensure_valid_experiment_transition (Some s) (Some t) = Inr () \<Longrightarrow> t = status_key (Some t)
      \<Longrightarrow> lifecycle t tr \<Longrightarrow> lifecycle s (t # tr)"

inductive_simps lifecycle_Nil [simp]: "lifecycle s []"
inductive_simps lifecycle_Cons: "lifecycle s (t # tr)"

section \<open>Lemmas\<close>

lemma status_key_idem [simp]: "status_key (Some (status_key s)) = status_key s"
  by (auto simp: status_key_def or_default_def str_strip_lower split: option.splits)

lemma status_key_statuses: "s \<in> set statuses \<Longrightarrow> status_key (Some s) = s"
  by (auto simp: statuses_def ALLOWED_STATUS_TRANSITIONS_def status_key_def or_default_def
      str_lower_def str_strip_def char_lower_def is_space_def Let_def)

lemma transition_ok_iff:
  "ensure_valid_experiment_transition s t = Inr () \<longleftrightarrow>
     status_key s \<noteq> [] \<and> status_key t \<noteq> [] \<and>
     (status_key s = status_key t \<or> edge (status_key s) (status_key t))"
  by (auto simp: ensure_valid_experiment_transition_def edge_def Let_def)

lemma transition_error:
  "ensure_valid_experiment_transition s t = Inl e \<Longrightarrow> ce_code e = INVALID_STATE_TRANSITION"
  by (auto simp: ensure_valid_experiment_transition_def Let_def split: if_splits)

lemma edge_known: "edge s t \<Longrightarrow> s \<in> set statuses \<and> t \<in> set statuses \<and> s \<noteq> t"
  by (auto simp: edge_def dict_get_def statuses_def ALLOWED_STATUS_TRANSITIONS_def split: if_splits)

lemma edge_completed: "edge s ''completed'' \<longleftrightarrow> s = ''running'' \<or> s = ''analyzing''"
  by (auto simp: edge_def dict_get_def ALLOWED_STATUS_TRANSITIONS_def split: if_splits)

lemma edge_analyzing: "edge s ''analyzing'' \<longleftrightarrow> s = ''running''"
  by (auto simp: edge_def dict_get_def ALLOWED_STATUS_TRANSITIONS_def split: if_splits)

lemma edge_terminal:
  "s \<in> set terminal_statuses \<Longrightarrow> edge s t \<longleftrightarrow> t = ''pending'' \<or> t = ''queued''"
  by (auto simp: edge_def dict_get_def terminal_statuses_def ALLOWED_STATUS_TRANSITIONS_def)

lemma edge_failed:
  "s \<in> set statuses \<Longrightarrow> s \<notin> set terminal_statuses \<Longrightarrow> edge s ''failed''"
  by (auto simp: edge_def dict_get_def statuses_def terminal_statuses_def ALLOWED_STATUS_TRANSITIONS_def)

lemma lifecycle_statuses:
  assumes "lifecycle s tr" "s \<in> set statuses"
  shows "set tr \<subseteq> set statuses"
  using assms
proof (induction rule: lifecycle.induct)
  case (lifecycle_step s t tr)
  then have "t = s \<or> edge s t"
    by (metis transition_ok_iff status_key_statuses)
  then have "t \<in> set statuses" using lifecycle_step.prems edge_known by blast
  then show ?case using lifecycle_step.IH by simp
qed simp

lemma lifecycle_step_edge:
  assumes "lifecycle s (t # tr)" "s \<in> set statuses"
  shows "(t = s \<or> edge s t) \<and> t \<in> set statuses \<and> lifecycle t tr"
proof -
  from assms(1) have ok: "ensure_valid_experiment_transition (Some s) (Some t) = Inr ()"
    and key: "status_key (Some t) = t" and rest: "lifecycle t tr"
    by (auto simp: lifecycle_Cons)
  from ok have "t = s \<or> edge s t"
    by (metis transition_ok_iff key status_key_statuses assms(2))
  with rest show ?thesis using assms(2) edge_known by blast
qed

lemma completed_after_running:
  assumes "lifecycle s tr" "s \<in> set statuses" "s \<noteq> ''running''" "s \<noteq> ''analyzing''"
    "s \<noteq> ''completed''" "''completed'' \<in> set tr"
  shows "''running'' \<in> set (takeWhile (\<lambda>t. t \<noteq> ''completed'') tr)"
  using assms
proof (induction tr arbitrary: s rule: list.induct)
  case (Cons t tr)
  from lifecycle_step_edge [OF Cons.prems(1,2)]
  have step: "t = s \<or> edge s t" and known: "t \<in> set statuses" and rest: "lifecycle t tr" by auto
  have nc: "t \<noteq> ''completed''" using step Cons.prems(3-5) edge_completed by auto
  show ?case
  proof (cases "t = ''running''")
    case True
    then show ?thesis by simp
  next
    case False
    moreover have "t \<noteq> ''analyzing''" using step Cons.prems(3,4) edge_analyzing by auto
    ultimately have "''running'' \<in> set (takeWhile (\<lambda>t. t \<noteq> ''completed'') tr)"
      using Cons.IH [OF rest known] nc Cons.prems(6) by auto
    then show ?thesis using nc by simp
  qed
qed simp

text \<open>Every known status leads to completion in at most four changes.\<close>

definition route_to_completed :: "string \<Rightarrow> string list" where
  "route_to_completed s =
     (if s = ''pending'' \<or> s = ''ready'' then [''running'', ''completed'']
      else if s = ''running'' \<or> s = ''analyzing'' then [''completed'']
      else if s = ''building'' then [''ready'', ''running'', ''completed'']
      else [''pending'', ''running'', ''completed''])"

lemma lifecycle_edges:
  "s \<in> set statuses \<Longrightarrow> edge s t \<Longrightarrow> lifecycle t tr \<Longrightarrow> lifecycle s (t # tr)"
  using edge_known [of s t] status_key_statuses [of s] status_key_statuses [of t]
  by (auto simp: lifecycle_Cons transition_ok_iff statuses_def ALLOWED_STATUS_TRANSITIONS_def)

lemma edges_to_completed:
  "edge ''pending'' ''running''" "edge ''ready'' ''running''" "edge ''building'' ''ready''"
  "edge ''running'' ''completed''"
  by (simp_all add: edge_def dict_get_def ALLOWED_STATUS_TRANSITIONS_def)

lemma edge_pending:
  "s \<in> set statuses \<Longrightarrow> s \<notin> {''pending'', ''ready'', ''running'', ''analyzing'', ''building''}
    \<Longrightarrow> edge s ''pending''"
  by (auto simp: statuses_def edge_def dict_get_def ALLOWED_STATUS_TRANSITIONS_def)

lemma route_lifecycle:
  assumes "s \<in> set statuses"
  shows "lifecycle s (route_to_completed s)"
proof -
  have known: "''pending'' \<in> set statuses" "''ready'' \<in> set statuses" "''running'' \<in> set statuses"
    by (simp_all add: statuses_def ALLOWED_STATUS_TRANSITIONS_def)
  have run: "lifecycle ''running'' [''completed'']"
    by (rule lifecycle_edges) (simp_all add: known edges_to_completed)
  have pend: "lifecycle ''pending'' [''running'', ''completed'']"
    by (rule lifecycle_edges [OF _ _ run]) (simp_all add: known edges_to_completed)
  have ready: "lifecycle ''ready'' [''running'', ''completed'']"
    by (rule lifecycle_edges [OF _ _ run]) (simp_all add: known edges_to_completed)
  have analyzing: "edge s ''completed''" if "s = ''analyzing''"
    using that edge_completed by blast
  have building: "edge s ''ready''" if "s = ''building''"
    using that edges_to_completed by blast
  show ?thesis
    using assms run pend ready lifecycle_edges [OF assms analyzing]
      lifecycle_edges [OF assms building ready] lifecycle_edges [OF assms edge_pending [OF assms] pend]
    unfolding route_to_completed_def by auto
qed

section \<open>Properties\<close>

text \<open>
  The check accepts exactly the changes between equal or adjacent normalised statuses;
  otherwise it raises INVALID_STATE_TRANSITION with the details of its branch, the sorted list
  of allowed targets included.
\<close>

theorem transition_check_exact:
  "case ensure_valid_experiment_transition s t of
     Inr _ \<Rightarrow> status_key s \<noteq> [] \<and> status_key t \<noteq> [] \<and>
       (status_key s = status_key t \<or> edge (status_key s) (status_key t))
   | Inl e \<Rightarrow> ce_code e = INVALID_STATE_TRANSITION \<and>
       (if status_key s = [] \<or> status_key t = []
        then ce_details e = [(''from_status'', optional_str s), (''to_status'', optional_str t)]
        else status_key s \<noteq> status_key t \<and> \<not> edge (status_key s) (status_key t) \<and>
          map_of (ce_details e) ''allowed'' = Some (PList (map PStr
            (sort (dict_get ALLOWED_STATUS_TRANSITIONS (status_key s) [])))))"
  by (auto simp: ensure_valid_experiment_transition_def edge_def Let_def)

text \<open>
  Through any sequence of accepted status changes an experiment keeps one of the ten known
  statuses and is completed only after it has been running, unless it started as running,
  analyzing or completed.
\<close>

theorem completed_only_after_running:
  assumes "lifecycle s tr" "s \<in> set statuses" "s \<notin> {''running'', ''analyzing'', ''completed''}"
  shows "set tr \<subseteq> set statuses \<and>
    (''completed'' \<in> set tr \<longrightarrow> ''running'' \<in> set (takeWhile (\<lambda>t. t \<noteq> ''completed'') tr))"
  using assms completed_after_running lifecycle_statuses by auto

theorem completed_only_after_running_witness:
  "''running'' \<in> set (takeWhile (\<lambda>t. t \<noteq> ''completed'') [''pending'', ''running'', ''completed''])"
proof -
  have s: "''failed'' \<in> set statuses" by (simp add: statuses_def ALLOWED_STATUS_TRANSITIONS_def)
  have "lifecycle ''failed'' [''pending'', ''running'', ''completed'']"
    using route_lifecycle [OF s] by (simp add: route_to_completed_def)
  from completed_only_after_running [OF this s] show ?thesis by simp
qed

text \<open>
  From every known status, terminal ones included and however it is spelled (case,
  blanks), completed can be reached by at most three accepted changes.
\<close>

theorem no_status_is_a_dead_end:
  assumes "status_key s \<in> set statuses"
  shows "\<exists>tr. lifecycle (status_key s) tr \<and> length tr \<le> 3 \<and> last tr = ''completed''"
  using route_lifecycle [OF assms]
  by (intro exI [of _ "route_to_completed (status_key s)"]) (simp add: route_to_completed_def)

theorem no_status_is_a_dead_end_witness:
  "\<exists>tr. lifecycle ''building'' tr \<and> length tr \<le> 3 \<and> last tr = ''completed''"
proof -
  have key: "status_key (Some '' Building'') = ''building''"
    by code_simp
  show ?thesis
    using no_status_is_a_dead_end [of "Some '' Building''"]
    by (simp add: key statuses_def ALLOWED_STATUS_TRANSITIONS_def)
qed

end
