(* ===== verification/RunPolicies.thy ===== *)
theory RunPolicies
  imports Budget
begin

text \<open>
  The policies of a run, \<^verbatim>\<open>src/src/contracts/policies/tier.py\<close>, \<^verbatim>\<open>failure.py\<close>,
  \<^verbatim>\<open>recovery.py\<close> and \<^verbatim>\<open>replicate.py\<close>, and their client
  \<^verbatim>\<open>src/src/orchestrator/zscore_service.py\<close>: the tiers and their promotion by z-scores,
  failure classification and time step reduction, recovery of LAMMPS processes, seed
  replicates.
\<close>

section \<open>Tiers\<close>

datatype run_tier = SCREENING | CONFIRM | VISCOSITY | VALIDATION

definition run_tier_value :: "run_tier \<Rightarrow> string" where
  "run_tier_value t = (case t of SCREENING \<Rightarrow> ''screening'' | CONFIRM \<Rightarrow> ''confirm''
     | VISCOSITY \<Rightarrow> ''viscosity'' | VALIDATION \<Rightarrow> ''validation'')"

record sampling_config =
  sc_enabled :: bool
  production_target_frames :: int
  equilibration_target_frames :: int
  min_interval_steps :: int
  max_interval_steps :: int

definition sampling :: "int \<Rightarrow> int \<Rightarrow> sampling_config" where
  "sampling production equil =
     \<lparr>sc_enabled = True, production_target_frames = production, equilibration_target_frames = equil,
      min_interval_steps = 10000, max_interval_steps = 100000\<rparr>"

record tier_config =
  target_atoms :: int
  atom_tolerance :: pyfloat
  nvt_ps :: pyfloat
  npt_ps :: pyfloat
  minimize_steps :: int
  dt_fs :: pyfloat
  dt_min_fs :: pyfloat
  viscosity_ns :: "pyfloat option"
  trigger_condition :: "string option"
  tc_ff_type :: string
  cap_per_batch :: "int option"
  tc_sampling :: "sampling_config option"

record convergence_criteria =
  density_window_ps :: pyfloat
  density_threshold_pct :: pyfloat
  energy_window_ps :: pyfloat
  energy_threshold_pct :: pyfloat
  enable_early_stop :: bool
  early_stop_density_cv :: pyfloat
  early_stop_min_fraction :: pyfloat

definition default_convergence :: convergence_criteria where
  "default_convergence =
     \<lparr>density_window_ps = 200, density_threshold_pct = 1/2, energy_window_ps = 100,
      energy_threshold_pct = 1, enable_early_stop = False, early_stop_density_cv = 1/500,
      early_stop_min_fraction = 1/2\<rparr>"

record tier_policy =
  tiers :: "(string, tier_config) pydict"
  convergence :: convergence_criteria

definition DEFAULT_TIER_POLICY :: tier_policy where
  "DEFAULT_TIER_POLICY = \<lparr>tiers =
     [(''screening'',
       \<lparr>target_atoms = 100000, atom_tolerance = 1/10, nvt_ps = 300, npt_ps = 1000,
        minimize_steps = 1000, dt_fs = 1, dt_min_fs = 1/4, viscosity_ns = None,
        trigger_condition = None, tc_ff_type = ''bulk_ff_gaff2'', cap_per_batch = None,
        tc_sampling = Some (sampling 50 30)\<rparr>),
      (''confirm'',
       \<lparr>target_atoms = 200000, atom_tolerance = 1/10, nvt_ps = 300, npt_ps = 3000,
        minimize_steps = 5000, dt_fs = 1, dt_min_fs = 1/4, viscosity_ns = None,
        trigger_condition = Some ''candidate_for_recommendation OR density_zscore > 2.0'',
        tc_ff_type = ''bulk_ff_gaff2'', cap_per_batch = None,
        tc_sampling = Some (sampling 100 30)\<rparr>),
      (''viscosity'',
       \<lparr>target_atoms = 150000, atom_tolerance = 1/10, nvt_ps = 300, npt_ps = 3000,
        minimize_steps = 5000, dt_fs = 1, dt_min_fs = 1/4, viscosity_ns = Some 5,
        trigger_condition = Some ''candidate_selected_for_recommendation'',
        tc_ff_type = ''bulk_ff_gaff2'', cap_per_batch = None,
        tc_sampling = Some (sampling 200 30)\<rparr>),
      (''validation'',
       \<lparr>target_atoms = 100000, atom_tolerance = 1/10, nvt_ps = 300, npt_ps = 1000,
        minimize_steps = 1000, dt_fs = 1/2, dt_min_fs = 1/10, viscosity_ns = None,
        trigger_condition = Some ''abs(zscore) > 2.0 OR stability_flag'',
        tc_ff_type = ''reaxff'', cap_per_batch = Some 5,
        tc_sampling = Some (sampling 50 30)\<rparr>)],
     convergence = default_convergence\<rparr>"

text \<open>A tier is given by name or by the enumeration.\<close>

datatype tier_arg = TierName string | TierEnum run_tier

definition tier_name :: "tier_arg \<Rightarrow> string" where
  "tier_name t = (case t of TierName s \<Rightarrow> s | TierEnum e \<Rightarrow> run_tier_value e)"

datatype value_error = ValueError string

definition get_tier_config :: "tier_policy \<Rightarrow> tier_arg \<Rightarrow> (value_error, tier_config) result" where
  "get_tier_config P tier =
     (case map_of (tiers P) (tier_name tier) of
        None \<Rightarrow> Inl (ValueError (''Unknown tier: '' @ tier_name tier))
      | Some c \<Rightarrow> Inr c)"

definition get_target_atoms :: "tier_policy \<Rightarrow> tier_arg \<Rightarrow> (value_error, int) result" where
  "get_target_atoms P tier = map_sum id target_atoms (get_tier_config P tier)"

definition get_npt_duration :: "tier_policy \<Rightarrow> tier_arg \<Rightarrow> (value_error, pyfloat) result" where
  "get_npt_duration P tier = map_sum id npt_ps (get_tier_config P tier)"

definition get_dt :: "tier_policy \<Rightarrow> tier_arg \<Rightarrow> (value_error, pyfloat) result" where
  "get_dt P tier = map_sum id dt_fs (get_tier_config P tier)"

definition get_tier_dt_min :: "tier_policy \<Rightarrow> tier_arg \<Rightarrow> (value_error, pyfloat) result" where
  "get_tier_dt_min P tier = map_sum id dt_min_fs (get_tier_config P tier)"

definition is_viscosity_enabled :: "tier_policy \<Rightarrow> tier_arg \<Rightarrow> (value_error, bool) result" where
  "is_viscosity_enabled P tier = map_sum id (\<lambda>c. viscosity_ns c \<noteq> None) (get_tier_config P tier)"

definition should_upgrade_tier ::
    "string \<Rightarrow> (string, pyfloat) pydict \<Rightarrow> (string, bool) pydict \<Rightarrow> string option" where
  "should_upgrade_tier current_tier metrics flags =
     (if current_tier = ''screening'' \<and> dict_get flags ''candidate_for_recommendation'' False
      then Some ''confirm''
      else if current_tier = ''screening'' \<and> \<bar>dict_get metrics ''density_zscore'' 0\<bar> > 2
      then Some ''confirm''
      else if current_tier = ''confirm'' \<and> dict_get flags ''candidate_selected_for_recommendation'' False
      then Some ''viscosity''
      else if current_tier \<in> set [''screening'', ''confirm''] then
        (if \<bar>dict_get metrics ''density_zscore'' 0\<bar> > 2 \<and> dict_get flags ''stability_flag'' False
         then Some ''validation''
         else if \<bar>dict_get metrics ''ced_zscore'' 0\<bar> > 2 then Some ''validation''
         else None)
      else None)"

section \<open>Z-scores\<close>

text \<open>What the two repositories answer: the metric of the experiment, and the statistics of
  its population (\<open>count\<close>, \<open>avg\<close>, \<open>stddev\<close>).\<close>

record metric_stats =
  st_count :: int
  st_avg :: pyfloat
  st_stddev :: "pyfloat option"

record metric_source =
  get_by_name :: "string \<Rightarrow> string \<Rightarrow> pyfloat option"
  get_statistics :: "string \<Rightarrow> string \<Rightarrow> pyfloat \<Rightarrow> metric_stats"

record zscore_result =
  zr_exp_id :: string
  zscores :: "(string, pyfloat) pydict"
  population_counts :: "(string, int) pydict"
  skipped :: "string list"

definition ZSCORE_METRICS :: "string list" where
  "ZSCORE_METRICS = [''density'', ''cohesive_energy_density'']"

definition zscore_metric ::
    "metric_source \<Rightarrow> int \<Rightarrow> string \<Rightarrow> string \<Rightarrow> pyfloat \<Rightarrow> zscore_result \<Rightarrow> string \<Rightarrow> zscore_result" where
  "zscore_metric M min_population exp_id run_tier temperature_k r metric_name =
     (case get_by_name M exp_id metric_name of
        None \<Rightarrow> r\<lparr>skipped := skipped r @ [metric_name]\<rparr>
      | Some value \<Rightarrow>
          let stats = get_statistics M metric_name run_tier temperature_k;
              r = r\<lparr>population_counts := dict_set metric_name (st_count stats) (population_counts r)\<rparr>
          in if st_count stats < min_population then r\<lparr>skipped := skipped r @ [metric_name]\<rparr>
             else case st_stddev stats of
                 None \<Rightarrow> r\<lparr>zscores := dict_set metric_name 0 (zscores r)\<rparr>
               | Some stddev \<Rightarrow>
                   if stddev = 0 then r\<lparr>zscores := dict_set metric_name 0 (zscores r)\<rparr>
                   else r\<lparr>zscores := dict_set metric_name ((value - st_avg stats) / stddev) (zscores r)\<rparr>)"

definition calculate_zscores ::
    "metric_source \<Rightarrow> int \<Rightarrow> string \<Rightarrow> string \<Rightarrow> pyfloat \<Rightarrow> zscore_result" where
  "calculate_zscores M min_population exp_id run_tier temperature_k =
     foldl (zscore_metric M min_population exp_id run_tier temperature_k)
       \<lparr>zr_exp_id = exp_id, zscores = [], population_counts = [], skipped = []\<rparr> ZSCORE_METRICS"

definition check_tier_promotion ::
    "metric_source \<Rightarrow> int \<Rightarrow> string \<Rightarrow> string \<Rightarrow> pyfloat \<Rightarrow> (string, bool) pydict option \<Rightarrow> string option" where
  "check_tier_promotion M min_population exp_id current_tier temperature_k flags =
     (let z = zscores (calculate_zscores M min_population exp_id current_tier temperature_k);
          metrics = (case map_of z ''density'' of None \<Rightarrow> []
                     | Some v \<Rightarrow> dict_set ''density_zscore'' v []);
          metrics = (case map_of z ''cohesive_energy_density'' of None \<Rightarrow> metrics
                     | Some v \<Rightarrow> dict_set ''ced_zscore'' v metrics)
      in should_upgrade_tier current_tier metrics (case flags of None \<Rightarrow> [] | Some f \<Rightarrow> f))"

section \<open>Failures\<close>

datatype failure_category =
    OVERLAP_INSTABILITY | PRESSURE_BLOWUP_CAT | ENERGY_DRIFT_CAT | QEQ_DIVERGENCE_CAT
  | PACKING_OVERLAP_SUSPECTED | TIMEOUT_CAT | UNKNOWN

definition failure_value :: "failure_category \<Rightarrow> string" where
  "failure_value c = (case c of OVERLAP_INSTABILITY \<Rightarrow> ''overlap_instability''
     | PRESSURE_BLOWUP_CAT \<Rightarrow> ''pressure_blowup'' | ENERGY_DRIFT_CAT \<Rightarrow> ''energy_drift''
     | QEQ_DIVERGENCE_CAT \<Rightarrow> ''qeq_divergence''
     | PACKING_OVERLAP_SUSPECTED \<Rightarrow> ''packing_overlap_suspected''
     | TIMEOUT_CAT \<Rightarrow> ''timeout'' | UNKNOWN \<Rightarrow> ''unknown'')"

datatype retry_action =
  CHANGE_SEED | REDUCE_DT | CHANGE_SEED_AND_REBUILD | REDUCE_DT_OR_FAIL | NO_RETRY

record failure_category_config =
  fc_category :: failure_category
  fc_description :: string
  fc_retry_strategy :: retry_action
  fc_indicators :: "string list"

record failure_policy =
  bulk_ff_max_retries :: int
  bulk_ff_dt_min_fs :: pyfloat
  reaxff_max_retries :: int
  reaxff_dt_min_fs :: pyfloat
  gpu_not_available_max_retries :: int
  gpu_not_available_retry_delay_seconds :: int
  failure_categories :: "(string, failure_category_config) pydict"
  energy_convergence_window_ps :: pyfloat
  energy_convergence_threshold_pct :: pyfloat
  density_convergence_window_ps :: pyfloat
  density_convergence_threshold_pct :: pyfloat
  density_min :: pyfloat
  density_max :: pyfloat
  asphalt_density_min :: pyfloat
  asphalt_density_max :: pyfloat
  physical_density_min :: pyfloat
  physical_density_max :: pyfloat

definition default_failure_categories :: "(string, failure_category_config) pydict" where
  "default_failure_categories =
     [(''overlap_instability'',
       \<lparr>fc_category = OVERLAP_INSTABILITY,
        fc_description = ''Initial structure overlap causing instability'',
        fc_retry_strategy = CHANGE_SEED,
        fc_indicators = [''SHAKE'', ''bond atoms'', ''missing'', ''Lost atoms'']\<rparr>),
      (''pressure_blowup'',
       \<lparr>fc_category = PRESSURE_BLOWUP_CAT, fc_description = ''Pressure divergence'',
        fc_retry_strategy = REDUCE_DT,
        fc_indicators = [''Pressure'', ''diverge'', ''NaN'', ''Inf'']\<rparr>),
      (''energy_drift'',
       \<lparr>fc_category = ENERGY_DRIFT_CAT, fc_description = ''Energy drift beyond acceptable range'',
        fc_retry_strategy = REDUCE_DT,
        fc_indicators = [''Energy'', ''drift'', ''conservation'']\<rparr>),
      (''qeq_divergence'',
       \<lparr>fc_category = QEQ_DIVERGENCE_CAT,
        fc_description = ''ReaxFF QEq charge equilibration failed'',
        fc_retry_strategy = REDUCE_DT_OR_FAIL,
        fc_indicators = [''QEq'', ''charge'', ''equilibration'', ''not converge'']\<rparr>),
      (''packing_overlap_suspected'',
       \<lparr>fc_category = PACKING_OVERLAP_SUSPECTED,
        fc_description = ''Packmol packing issues suspected'',
        fc_retry_strategy = CHANGE_SEED_AND_REBUILD,
        fc_indicators = [''overlap'', ''minimize'', ''max force'']\<rparr>)]"

definition DEFAULT_FAILURE_POLICY :: failure_policy where
  "DEFAULT_FAILURE_POLICY =
     \<lparr>bulk_ff_max_retries = 2, bulk_ff_dt_min_fs = 1/4, reaxff_max_retries = 1,
      reaxff_dt_min_fs = 1/10, gpu_not_available_max_retries = 1440,
      gpu_not_available_retry_delay_seconds = 30,
      failure_categories = default_failure_categories,
      energy_convergence_window_ps = 100, energy_convergence_threshold_pct = 1,
      density_convergence_window_ps = 200, density_convergence_threshold_pct = 1/2,
      density_min = 1/5, density_max = 13/10,
      asphalt_density_min = 4/5, asphalt_density_max = 13/10,
      physical_density_min = 1/2, physical_density_max = 2\<rparr>"

text \<open>The nested loops return the category of the first configuration, in the order of the
  dictionary, one of whose indicators occurs in the text without regard to case.\<close>

definition indicated :: "string \<Rightarrow> failure_category_config \<Rightarrow> bool" where
  "indicated combined_text config \<longleftrightarrow>
     list_ex (\<lambda>i. str_contains (str_lower i) (str_lower combined_text)) (fc_indicators config)"

definition combined_text :: "string \<Rightarrow> string option \<Rightarrow> string" where
  "combined_text log_content error_message = log_content @ '' '' @ or_default error_message []"

definition classify_failure ::
    "failure_policy \<Rightarrow> string \<Rightarrow> int \<Rightarrow> string option \<Rightarrow> failure_category" where
  "classify_failure P log_content exit_code error_message =
     (case List.find (\<lambda>(n, config). indicated (combined_text log_content error_message) config)
             (failure_categories P) of
        Some (n, config) \<Rightarrow> fc_category config
      | None \<Rightarrow> UNKNOWN)"

definition get_retry_action :: "failure_policy \<Rightarrow> failure_category \<Rightarrow> string \<Rightarrow> retry_action" where
  "get_retry_action P category ff_type =
     (case map_of (failure_categories P) (failure_value category) of
        Some config \<Rightarrow> fc_retry_strategy config | None \<Rightarrow> NO_RETRY)"

definition get_max_retries :: "failure_policy \<Rightarrow> string \<Rightarrow> int" where
  "get_max_retries P ff_type =
     (if ff_type = ''reaxff'' then reaxff_max_retries P else bulk_ff_max_retries P)"

definition get_dt_min :: "failure_policy \<Rightarrow> string \<Rightarrow> pyfloat" where
  "get_dt_min P ff_type =
     (if ff_type = ''reaxff'' then reaxff_dt_min_fs P else bulk_ff_dt_min_fs P)"

definition calculate_new_dt :: "failure_policy \<Rightarrow> pyfloat \<Rightarrow> string \<Rightarrow> pyfloat \<Rightarrow> pyfloat option" where
  "calculate_new_dt P current_dt ff_type factor =
     (let new_dt = current_dt * factor; dt_min = get_dt_min P ff_type
      in if new_dt < dt_min then None else Some new_dt)"

datatype density_fault = BelowMinimum pyfloat pyfloat | AboveMaximum pyfloat pyfloat

text \<open>\<open>None\<close> stands for \<open>(True, None)\<close>, \<open>Some e\<close> for \<open>(False, message)\<close>.\<close>

definition check_density_valid :: "failure_policy \<Rightarrow> pyfloat \<Rightarrow> density_fault option" where
  "check_density_valid P density =
     (if density < density_min P then Some (BelowMinimum density (density_min P))
      else if density > density_max P then Some (AboveMaximum density (density_max P))
      else None)"

section \<open>Recovery\<close>

record recovery_policy =
  heartbeat_interval_seconds :: int
  heartbeat_timeout_minutes :: int
  auto_recovery_max_retries :: int
  min_progress_for_result_recovery :: pyfloat
  pid_file_pattern :: string
  pid_directory :: string
  process_scan_interval_seconds :: int
  stale_threshold_minutes :: int
  orphan_ready_grace_seconds :: int
  server_instance_id_length :: int
  checkpoint_interval_ps :: int
  checkpoint_interval_steps :: int
  enable_periodic_checkpoint :: bool

definition DEFAULT_RECOVERY_POLICY :: recovery_policy where
  "DEFAULT_RECOVERY_POLICY =
     \<lparr>heartbeat_interval_seconds = 30, heartbeat_timeout_minutes = 30,
      auto_recovery_max_retries = 2, min_progress_for_result_recovery = 30,
      pid_file_pattern = ''.lammps.{exp_id}.pid'', pid_directory = ''.pids'',
      process_scan_interval_seconds = 60, stale_threshold_minutes = 5,
      orphan_ready_grace_seconds = 90, server_instance_id_length = 8,
      checkpoint_interval_ps = 100, checkpoint_interval_steps = 100000,
      enable_periodic_checkpoint = True\<rparr>"

definition should_auto_resume :: "string \<Rightarrow> pyfloat \<Rightarrow> bool" where
  "should_auto_resume state progress \<longleftrightarrow> state = ''stale'' \<and> progress > 50"

definition should_recover_results :: "recovery_policy \<Rightarrow> string \<Rightarrow> pyfloat \<Rightarrow> bool" where
  "should_recover_results P state progress \<longleftrightarrow>
     state = ''terminated'' \<and> progress \<ge> min_progress_for_result_recovery P"

definition get_recommended_action :: "recovery_policy \<Rightarrow> string \<Rightarrow> pyfloat \<Rightarrow> string" where
  "get_recommended_action P state progress =
     (if state = ''running'' then ''resume''
      else if state = ''stale'' then (if progress > 50 then ''resume'' else ''restart'')
      else if state = ''terminated'' then
        (if progress \<ge> min_progress_for_result_recovery P then ''recover'' else ''restart'')
      else if state = ''orphaned'' then ''abandon''
      else ''ignore'')"

definition get_available_actions :: "string \<Rightarrow> string list" where
  "get_available_actions state =
     (if state = ''running'' then [''resume'', ''restart'', ''abandon'']
      else if state = ''stale'' then [''resume'', ''restart'', ''abandon'']
      else if state = ''terminated'' then [''recover'', ''restart'', ''abandon'']
      else if state = ''orphaned'' then [''abandon'', ''ignore'']
      else [''ignore''])"

section \<open>Replicates\<close>

record replicate_policy =
  min_seeds :: int
  ci_level :: pyfloat
  required_for_tiers :: "string list"
  recommended_for_tiers :: "string list"
  default_seeds :: "int list"
  significance_alpha :: pyfloat
  report_standard_error :: bool

definition DEFAULT_REPLICATE_POLICY :: replicate_policy where
  "DEFAULT_REPLICATE_POLICY =
     \<lparr>min_seeds = 3, ci_level = 19/20, required_for_tiers = [''confirm'', ''viscosity''],
      recommended_for_tiers = [''screening''], default_seeds = [1, 2, 3],
      significance_alpha = 1/20, report_standard_error = True\<rparr>"

definition is_required :: "replicate_policy \<Rightarrow> string \<Rightarrow> bool" where
  "is_required P tier \<longleftrightarrow> tier \<in> set (required_for_tiers P)"

definition is_recommended :: "replicate_policy \<Rightarrow> string \<Rightarrow> bool" where
  "is_recommended P tier \<longleftrightarrow> tier \<in> set (recommended_for_tiers P)"

definition get_seeds :: "replicate_policy \<Rightarrow> int list option \<Rightarrow> int list" where
  "get_seeds P user_seeds =
     (case user_seeds of None \<Rightarrow> default_seeds P | Some s \<Rightarrow> if s = [] then default_seeds P else s)"

definition validate_replicate_count :: "replicate_policy \<Rightarrow> int \<Rightarrow> string \<Rightarrow> bool" where
  "validate_replicate_count P n_replicates tier =
     (if is_required P tier then n_replicates \<ge> min_seeds P else True)"

section \<open>Lemmas\<close>

lemmas tier_defs = DEFAULT_TIER_POLICY_def get_tier_config_def tier_name_def run_tier_value_def

lemma get_tier_config_known: "\<exists>c. get_tier_config DEFAULT_TIER_POLICY (TierEnum t) = Inr c"
  by (cases t) (simp_all add: tier_defs)

lemma should_upgrade_tier_cases:
  "should_upgrade_tier t metrics flags = Some u \<Longrightarrow>
     t = ''screening'' \<and> (u = ''confirm'' \<or> u = ''validation'') \<or>
     t = ''confirm'' \<and> (u = ''viscosity'' \<or> u = ''validation'')"
  by (auto simp: should_upgrade_tier_def split: if_splits)

lemma should_upgrade_tier_evidence:
  assumes "should_upgrade_tier t metrics flags = Some u"
    "\<not> dict_get flags ''candidate_for_recommendation'' False"
    "\<not> dict_get flags ''candidate_selected_for_recommendation'' False"
  shows "\<bar>dict_get metrics ''density_zscore'' 0\<bar> > 2 \<or> \<bar>dict_get metrics ''ced_zscore'' 0\<bar> > 2"
  using assms by (auto simp: should_upgrade_tier_def split: if_splits)

text \<open>The stability flag has no effect on a screening run.\<close>

lemma screening_ignores_stability:
  "should_upgrade_tier ''screening'' metrics (dict_set ''stability_flag'' b flags) =
     should_upgrade_tier ''screening'' metrics flags"
  by (auto simp: should_upgrade_tier_def dict_get_def update_conv)

lemma calculate_zscores_unfold:
  "calculate_zscores M k e t T =
     zscore_metric M k e t T (zscore_metric M k e t T
       \<lparr>zr_exp_id = e, zscores = [], population_counts = [], skipped = []\<rparr> ''density'')
       ''cohesive_energy_density''"
  by (simp add: calculate_zscores_def ZSCORE_METRICS_def)

text \<open>The z-score of one metric, as an option.\<close>

definition zscore_of :: "metric_source \<Rightarrow> int \<Rightarrow> string \<Rightarrow> string \<Rightarrow> pyfloat \<Rightarrow> string \<Rightarrow> pyfloat option" where
  "zscore_of M k e t T m =
     (case get_by_name M e m of None \<Rightarrow> None
      | Some v \<Rightarrow> let s = get_statistics M m t T in
          if st_count s < k then None
          else case st_stddev s of None \<Rightarrow> Some 0
            | Some d \<Rightarrow> Some (if d = 0 then 0 else (v - st_avg s) / d))"

lemma zscore_metric_zscores:
  "map_of (zscores (zscore_metric M k e t T r m)) =
     (case zscore_of M k e t T m of None \<Rightarrow> map_of (zscores r)
      | Some z \<Rightarrow> (map_of (zscores r))(m \<mapsto> z))"
  by (auto simp: zscore_metric_def zscore_of_def Let_def update_conv' split: option.splits)

lemma zscores_of_experiment:
  "map_of (zscores (calculate_zscores M k e t T)) ''density'' = zscore_of M k e t T ''density''"
  "map_of (zscores (calculate_zscores M k e t T)) ''cohesive_energy_density'' =
     zscore_of M k e t T ''cohesive_energy_density''"
  by (simp_all add: calculate_zscores_unfold zscore_metric_zscores split: option.splits)

text \<open>A z-score beyond 2 in absolute value rests on a population that is large enough.\<close>

definition outlier :: "metric_source \<Rightarrow> int \<Rightarrow> string \<Rightarrow> string \<Rightarrow> pyfloat \<Rightarrow> string \<Rightarrow> bool" where
  "outlier M k e t T m =
     (case get_by_name M e m of None \<Rightarrow> False
      | Some v \<Rightarrow> let s = get_statistics M m t T in
          st_count s \<ge> k \<and>
          (case st_stddev s of None \<Rightarrow> False
           | Some d \<Rightarrow> d \<noteq> 0 \<and> \<bar>v - st_avg s\<bar> > 2 * \<bar>d\<bar>))"

lemma zscore_of_outlier:
  "(case zscore_of M k e t T m of None \<Rightarrow> False | Some z \<Rightarrow> \<bar>z\<bar> > 2) \<longleftrightarrow> outlier M k e t T m"
  by (auto simp: zscore_of_def outlier_def Let_def abs_divide pos_less_divide_eq split: option.splits)

lemma check_tier_promotion_metrics:
  "\<exists>metrics. check_tier_promotion M k e t T flags =
       should_upgrade_tier t metrics (case flags of None \<Rightarrow> [] | Some f \<Rightarrow> f) \<and>
     (\<bar>dict_get metrics ''density_zscore'' 0\<bar> > 2 \<longleftrightarrow> outlier M k e t T ''density'') \<and>
     (\<bar>dict_get metrics ''ced_zscore'' 0\<bar> > 2 \<longleftrightarrow> outlier M k e t T ''cohesive_energy_density'')"
  unfolding zscore_of_outlier [symmetric] check_tier_promotion_def Let_def zscores_of_experiment
  by (intro exI conjI) (rule refl, auto simp: dict_get_def split: option.split)

lemma classify_failure_UNKNOWN:
  "classify_failure DEFAULT_FAILURE_POLICY log_content code err = UNKNOWN \<longleftrightarrow>
     (\<forall>p\<in>set default_failure_categories. \<not> indicated (combined_text log_content err) (snd p))"
proof -
  have "fc_category c \<noteq> UNKNOWN" if "(n, c) \<in> set default_failure_categories" for n c
    using that by (auto simp: default_failure_categories_def)
  then show ?thesis
    by (force simp: classify_failure_def DEFAULT_FAILURE_POLICY_def find_None_all split: option.splits
        dest: find_in_set)
qed

lemma retry_of_category:
  "get_retry_action DEFAULT_FAILURE_POLICY c ff = NO_RETRY \<longleftrightarrow> c = UNKNOWN \<or> c = TIMEOUT_CAT"
  by (cases c) (simp_all add: get_retry_action_def DEFAULT_FAILURE_POLICY_def
      default_failure_categories_def failure_value_def)

lemma classify_failure_not_timeout:
  "classify_failure DEFAULT_FAILURE_POLICY log_content code err \<noteq> TIMEOUT_CAT"
proof -
  have "fc_category c \<noteq> TIMEOUT_CAT" if "(n, c) \<in> set default_failure_categories" for n c
    using that by (auto simp: default_failure_categories_def)
  then show ?thesis
    by (auto simp: classify_failure_def DEFAULT_FAILURE_POLICY_def split: option.splits dest: find_in_set)
qed

text \<open>Any text with \<open>info\<close> in it and no overlap indicator counts as a pressure blow-up.\<close>

lemma info_is_pressure_blowup:
  "classify_failure DEFAULT_FAILURE_POLICY ''see info file'' 1 None = PRESSURE_BLOWUP_CAT"
  by code_simp

text \<open>The time step after \<open>n\<close> reductions.\<close>

fun dt_after :: "failure_policy \<Rightarrow> string \<Rightarrow> pyfloat \<Rightarrow> pyfloat \<Rightarrow> nat \<Rightarrow> pyfloat option" where
  "dt_after P ff factor dt 0 = Some dt"
| "dt_after P ff factor dt (Suc n) =
     (case calculate_new_dt P dt ff factor of None \<Rightarrow> None | Some d \<Rightarrow> dt_after P ff factor d n)"

lemma dt_after_Some:
  "dt_after P ff factor dt n = Some d \<Longrightarrow> d = dt * factor ^ n \<and> (n = 0 \<or> get_dt_min P ff \<le> d)"
proof (induction n arbitrary: dt)
  case (Suc n)
  then obtain e where e: "calculate_new_dt P dt ff factor = Some e"
    and rest: "dt_after P ff factor e n = Some d"
    by (auto split: option.splits)
  from e have "e = dt * factor" "get_dt_min P ff \<le> e"
    by (auto simp: calculate_new_dt_def Let_def split: if_splits)
  with Suc.IH [OF rest] rest show ?case by (cases n) auto
qed simp

lemma dt_after_None_mono: "dt_after P ff factor dt n = None \<Longrightarrow> n \<le> m \<Longrightarrow> dt_after P ff factor dt m = None"
proof (induction n arbitrary: dt m)
  case (Suc n)
  then obtain k where "m = Suc k" "n \<le> k" by (cases m) auto
  then show ?case using Suc by (auto split: option.splits)
qed simp

lemma rat_power_below:
  fixes a b x :: rat
  assumes "0 < x" "x < 1" "0 < b" "0 < a"
  shows "\<exists>n. a * x ^ n < b"
proof -
  have "0 < (of_rat (b / a) :: real)" "(of_rat x :: real) < 1"
    using assms by (simp_all add: zero_less_of_rat_iff)
  from real_arch_pow_inv [OF this] obtain n where "(of_rat x :: real) ^ n < of_rat (b / a)" by auto
  then have "x ^ n < b / a" by (simp add: of_rat_less flip: of_rat_power)
  then show ?thesis using assms by (auto simp: field_simps)
qed

section \<open>Properties\<close>


definition demo_metrics :: metric_source where
  "demo_metrics =
     \<lparr>get_by_name = (\<lambda>e m. if m = ''density'' then Some (13/10) else None),
      get_statistics = (\<lambda>m t T. \<lparr>st_count = 12, st_avg = 1, st_stddev = Some (1/10)\<rparr>)\<rparr>"


text \<open>The tiers a run goes through when the check is repeated with fresh metrics and flags.\<close>

fun upgrade_path :: "((string, pyfloat) pydict \<times> (string, bool) pydict) list \<Rightarrow> string \<Rightarrow> string list" where
  "upgrade_path [] t = []"
| "upgrade_path ((metrics, flags) # evs) t =
     (case should_upgrade_tier t metrics flags of
        None \<Rightarrow> upgrade_path evs t | Some u \<Rightarrow> u # upgrade_path evs u)"

lemma upgrade_of_final: "t \<noteq> ''screening'' \<Longrightarrow> t \<noteq> ''confirm'' \<Longrightarrow> should_upgrade_tier t m f = None"
  by (simp add: should_upgrade_tier_def)

lemma upgrade_of_confirm:
  "should_upgrade_tier ''confirm'' m f = None \<or>
   should_upgrade_tier ''confirm'' m f = Some ''viscosity'' \<or>
   should_upgrade_tier ''confirm'' m f = Some ''validation''"
  by (simp add: should_upgrade_tier_def)

lemma upgrade_of_screening:
  "should_upgrade_tier ''screening'' m f = None \<or>
   should_upgrade_tier ''screening'' m f = Some ''confirm'' \<or>
   should_upgrade_tier ''screening'' m f = Some ''validation''"
  by (simp add: should_upgrade_tier_def)

lemma upgrade_path_final:
  "t \<noteq> ''screening'' \<Longrightarrow> t \<noteq> ''confirm'' \<Longrightarrow> upgrade_path evs t = []"
proof (induction evs)
  case (Cons ev evs)
  then show ?case by (cases ev) (simp add: upgrade_of_final)
qed simp

lemma upgrade_path_confirm:
  "upgrade_path evs ''confirm'' \<in> {[], [''viscosity''], [''validation'']}"
proof (induction evs)
  case (Cons ev evs)
  obtain m f where ev: "ev = (m, f)" by (cases ev)
  show ?case
    using upgrade_of_confirm [of m f] Cons.IH by (elim disjE) (simp_all add: ev upgrade_path_final)
qed simp

lemma upgrade_path_screening:
  "upgrade_path evs ''screening'' \<in>
     {[], [''validation''], [''confirm''], [''confirm'', ''viscosity''], [''confirm'', ''validation'']}"
proof (induction evs)
  case (Cons ev evs)
  obtain m f where ev: "ev = (m, f)" by (cases ev)
  have "''confirm'' # upgrade_path evs ''confirm'' \<in>
      {[''confirm''], [''confirm'', ''viscosity''], [''confirm'', ''validation'']}"
    using upgrade_path_confirm [of evs] by auto
  then show ?case
    using upgrade_of_screening [of m f] Cons.IH by (elim disjE) (simp_all add: ev upgrade_path_final)
qed simp

text \<open>
  However often the promotion check is repeated with fresh metrics and flags, a run is
  upgraded at most twice, never returns to a tier it had, and every tier it is given is in the
  tier table.
\<close>

theorem upgrades_end_and_stay_in_the_table:
  "length (upgrade_path evs t) \<le> 2 \<and> distinct (t # upgrade_path evs t) \<and>
   list_all (\<lambda>u. \<not> isl (get_tier_config DEFAULT_TIER_POLICY (TierName u))) (upgrade_path evs t)"
proof -
  have known: "\<not> isl (get_tier_config DEFAULT_TIER_POLICY (TierName u))"
    if "u = ''confirm'' \<or> u = ''viscosity'' \<or> u = ''validation''" for u
    using that by (auto simp: tier_defs)
  consider "t = ''screening''" | "t = ''confirm''" | "t \<noteq> ''screening'' \<and> t \<noteq> ''confirm''" by blast
  then show ?thesis
  proof cases
    case 1
    then show ?thesis using upgrade_path_screening [of evs] by (auto simp: known)
  next
    case 2
    then show ?thesis using upgrade_path_confirm [of evs] by (auto simp: known)
  qed (simp add: upgrade_path_final)
qed

text \<open>
  A job of the target size of any of the four tiers passes the submission gate exactly
  when fewer than 1000 jobs are queued, a GPU is configured and, for confirm and viscosity, no
  job is running.
\<close>

theorem tier_target_passes_the_gate:
  assumes "get_target_atoms DEFAULT_TIER_POLICY (TierEnum t) = Inr n"
  shows "can_submit_job DEFAULT_JOB_BUDGETING_POLICY (run_tier_value t) n running usage queued = None \<longleftrightarrow>
    queued < 1000 \<and> usage \<noteq> [] \<and> (t = CONFIRM \<or> t = VISCOSITY \<longrightarrow> running \<le> 0)"
  using assms
  by (cases t) (auto simp: can_submit_job_iff get_target_atoms_def tier_defs get_max_atoms_def
      DEFAULT_JOB_BUDGETING_POLICY_def default_safety_limits_def)

theorem tier_target_passes_the_gate_witness:
  "can_submit_job DEFAULT_JOB_BUDGETING_POLICY ''confirm'' 200000 0 [(0, 0)] 3 = None"
proof -
  have "get_target_atoms DEFAULT_TIER_POLICY (TierEnum CONFIRM) = Inr 200000"
    by (simp add: get_target_atoms_def tier_defs)
  from tier_target_passes_the_gate [OF this, of 0 "[(0, 0)]" 3] show ?thesis
    by (simp add: run_tier_value_def)
qed

text \<open>A structure built at the upper end of the tolerance of a tier other than screening is over
  the atom limit of that tier.\<close>

lemma tolerance_beyond_limit:
  assumes "get_tier_config DEFAULT_TIER_POLICY (TierEnum t) = Inr c"
  shows "t = SCREENING \<longleftrightarrow>
    of_int (target_atoms c) * (1 + atom_tolerance c) \<le>
      (of_int (get_max_atoms DEFAULT_JOB_BUDGETING_POLICY (run_tier_value t)) :: rat)"
  using assms
  by (cases t) (auto simp: tier_defs get_max_atoms_def DEFAULT_JOB_BUDGETING_POLICY_def
      default_safety_limits_def)

text \<open>
  Under the default policy a failed run gets no retry action exactly when none of the
  indicators of any category occurs in its log or error message, whatever the case of the
  letters.
\<close>

theorem no_retry_iff_no_indicator:
  "get_retry_action DEFAULT_FAILURE_POLICY
       (classify_failure DEFAULT_FAILURE_POLICY log_content code err) ff = NO_RETRY \<longleftrightarrow>
   list_all (\<lambda>i. \<not> sublist (str_lower i) (str_lower (combined_text log_content err)))
     (concat (map (fc_indicators \<circ> snd) default_failure_categories))"
  by (auto simp: retry_of_category classify_failure_not_timeout classify_failure_UNKNOWN indicated_def
      list_all_iff list_ex_iff str_contains_iff)

text \<open>
  Repeating the time step reduction with a factor between 0 and 1 ends with no new time
  step after finitely many failures, and every time step it hands out is the start times a
  power of the factor and not below the minimum of the force field.
\<close>

theorem dt_reduction_ends:
  assumes "0 < factor" "factor < 1" "0 < dt" "0 < get_dt_min P ff"
  shows "\<exists>n. dt_after P ff factor dt n = None \<and>
    (\<forall>m d. dt_after P ff factor dt m = Some d \<longrightarrow>
       m < n \<and> d = dt * factor ^ m \<and> (m = 0 \<or> get_dt_min P ff \<le> d))"
proof -
  from rat_power_below [OF assms(1,2,4,3)] obtain n where "dt * factor ^ n < get_dt_min P ff" by auto
  moreover have "dt * factor ^ Suc n < dt * factor ^ n"
    using assms by (simp add: power_Suc_less)
  ultimately have below: "dt * factor ^ Suc n < get_dt_min P ff" by linarith
  have none: "dt_after P ff factor dt (Suc n) = None"
  proof (rule ccontr)
    assume "dt_after P ff factor dt (Suc n) \<noteq> None"
    then obtain d where "dt_after P ff factor dt (Suc n) = Some d" by blast
    from dt_after_Some [OF this] below show False by simp
  qed
  have "m < Suc n" if "dt_after P ff factor dt m = Some d" for m d
    using that dt_after_None_mono [OF none, of m] by (metis not_le option.distinct(1))
  with none dt_after_Some show ?thesis by blast
qed

theorem dt_reduction_ends_witness:
  "\<exists>n. dt_after DEFAULT_FAILURE_POLICY ''reaxff'' (1/2) (1/2) n = None"
proof -
  have "0 < get_dt_min DEFAULT_FAILURE_POLICY ''reaxff''"
    by (simp add: get_dt_min_def DEFAULT_FAILURE_POLICY_def)
  from dt_reduction_ends [OF _ _ _ this, of "1/2" "1/2"] show ?thesis by auto
qed

text \<open>The retries the policy grants never run out of time step in any tier.\<close>

lemma granted_retries_have_dt:
  assumes "get_tier_config DEFAULT_TIER_POLICY (TierEnum t) = Inr c"
  shows "case dt_after DEFAULT_FAILURE_POLICY (tc_ff_type c) (1/2) (dt_fs c)
      (nat (get_max_retries DEFAULT_FAILURE_POLICY (tc_ff_type c))) of
      None \<Rightarrow> False | Some d \<Rightarrow> dt_min_fs c \<le> d"
  using assms
  by (cases t) (auto simp: tier_defs get_max_retries_def DEFAULT_FAILURE_POLICY_def
      calculate_new_dt_def get_dt_min_def numeral_2_eq_2 Let_def)

text \<open>
  The recommended recovery action is always among the available ones; automatic resume is
  decided exactly for a stale process whose recommendation is resume, and result recovery
  exactly when the recommendation is recover.
\<close>

theorem recommended_action_is_available:
  "get_recommended_action P state progress \<in> set (get_available_actions state) \<and>
   (should_auto_resume state progress \<longleftrightarrow>
      state = ''stale'' \<and> get_recommended_action P state progress = ''resume'') \<and>
   (should_recover_results P state progress \<longleftrightarrow> get_recommended_action P state progress = ''recover'')"
  by (auto simp: get_recommended_action_def get_available_actions_def should_auto_resume_def
      should_recover_results_def)

lemma default_seeds_suffice:
  "validate_replicate_count DEFAULT_REPLICATE_POLICY
     (int (length (get_seeds DEFAULT_REPLICATE_POLICY None))) tier"
  by (simp add: validate_replicate_count_def get_seeds_def DEFAULT_REPLICATE_POLICY_def)

end
