(* ===== verification/StackGovernance.thy ===== *)
theory StackGovernance
  imports Errors
begin

text \<open>
  Governance of the force-field stacks, \<^verbatim>\<open>src/src/contracts/policies/stack_governance.py\<close>:
  the registry, the workflow gate, the benchmark evidence (a module-level dictionary, passed
  as state) and the readiness report. The free-text \<open>notes\<close> of a policy and of an evidence
  record, which no operation reads, are left out.
\<close>

section \<open>Registry\<close>

datatype validation_level = Validated | ResearchOnly | Blocked

definition level_text :: "validation_level \<Rightarrow> string" where
  "level_text l = (case l of Validated \<Rightarrow> ''validated'' | ResearchOnly \<Rightarrow> ''research_only''
     | Blocked \<Rightarrow> ''blocked'')"

record stack_policy =
  sp_stack_id :: string
  sp_validation_level :: validation_level
  sp_allowed_workflows :: "string list"
  sp_required_benchmark_suite :: "string list"
  sp_requires_reaxff_review :: bool

definition STACK_POLICIES :: "(string, stack_policy) pydict" where
  "STACK_POLICIES =
     [(''gaff2_am1bcc_v1'',
       \<lparr>sp_stack_id = ''gaff2_am1bcc_v1'', sp_validation_level = Validated,
        sp_allowed_workflows = [''preview'', ''list'', ''precompute'', ''artifact_generation'',
          ''submit'', ''build'', ''benchmark'', ''ml_dataset_export''],
        sp_required_benchmark_suite = [''density_tolerance'', ''ced_tolerance''],
        sp_requires_reaxff_review = False\<rparr>),
      (''gaff2_org__inorganic_profile__arith_v1'',
       \<lparr>sp_stack_id = ''gaff2_org__inorganic_profile__arith_v1'', sp_validation_level = ResearchOnly,
        sp_allowed_workflows = [''preview'', ''list'', ''precompute'', ''artifact_generation'',
          ''submit'', ''build'', ''benchmark''],
        sp_required_benchmark_suite = [],
        sp_requires_reaxff_review = True\<rparr>),
      (''reaxff_v1'',
       \<lparr>sp_stack_id = ''reaxff_v1'', sp_validation_level = ResearchOnly,
        sp_allowed_workflows = [''preview'', ''list'', ''precompute'', ''submit'', ''build''],
        sp_required_benchmark_suite = [],
        sp_requires_reaxff_review = False\<rparr>),
      (''gaff2_fragment_fallback_v1'',
       \<lparr>sp_stack_id = ''gaff2_fragment_fallback_v1'', sp_validation_level = ResearchOnly,
        sp_allowed_workflows = [''preview'', ''list'', ''precompute'', ''artifact_generation'',
          ''build'', ''benchmark''],
        sp_required_benchmark_suite = [],
        sp_requires_reaxff_review = False\<rparr>)]"

definition get_stack_policy :: "string \<Rightarrow> stack_policy option" where
  "get_stack_policy stack_id = map_of STACK_POLICIES stack_id"

definition get_validation_level :: "string \<Rightarrow> validation_level \<Rightarrow> validation_level" where
  "get_validation_level stack_id default_level =
     (case get_stack_policy stack_id of None \<Rightarrow> default_level | Some p \<Rightarrow> sp_validation_level p)"

definition is_workflow_allowed :: "string \<Rightarrow> string \<Rightarrow> bool" where
  "is_workflow_allowed stack_id workflow =
     (case get_stack_policy stack_id of
        None \<Rightarrow> workflow \<in> set [''preview'', ''list'']
      | Some p \<Rightarrow> workflow \<in> set (sp_allowed_workflows p))"

definition assert_submit_allowed :: "string \<Rightarrow> (contract_error, unit) result" where
  "assert_submit_allowed stack_id =
     (if \<not> is_workflow_allowed stack_id ''submit'' then
        let level = level_text (get_validation_level stack_id ResearchOnly) in
        Inl (new_contract_error VALIDATION_ERROR
          (''Stack '' @ [CHR 0x27] @ stack_id @ [CHR 0x27] @ '' (validation_level='' @ level @
           '') is not allowed to submit. Check stack_governance policy.'')
          (Some [(''stack_id'', PStr stack_id), (''validation_level'', PStr level)]))
      else Inr ())"

section \<open>Benchmark evidence\<close>

record benchmark_evidence =
  be_stack_id :: string
  be_suite_id :: string
  all_gates_passed :: bool
  pass_rate :: pyfloat
  total_checks :: int
  passed_checks :: int
  failed_checks :: int
  run_at :: "pyfloat option"
  be_seed :: "int option"

type_synonym evidence_store = "(string, benchmark_evidence list) pydict"

definition record_benchmark_evidence :: "benchmark_evidence \<Rightarrow> evidence_store \<Rightarrow> evidence_store" where
  "record_benchmark_evidence e db =
     dict_set (be_stack_id e) (dict_get db (be_stack_id e) [] @ [e]) db"

definition get_benchmark_evidence :: "evidence_store \<Rightarrow> string \<Rightarrow> benchmark_evidence list" where
  "get_benchmark_evidence db stack_id = dict_get db stack_id []"

record benchmark_check =
  all_required_passed :: bool
  missing_suites :: "string list"

definition check_benchmark_requirements :: "evidence_store \<Rightarrow> string \<Rightarrow> benchmark_check" where
  "check_benchmark_requirements db stack_id =
     (case get_stack_policy stack_id of
        None \<Rightarrow> \<lparr>all_required_passed = True, missing_suites = []\<rparr>
      | Some p \<Rightarrow>
          if sp_required_benchmark_suite p = [] then \<lparr>all_required_passed = True, missing_suites = []\<rparr>
          else
            let evidence = get_benchmark_evidence db stack_id;
                passed_suites = map be_suite_id (filter all_gates_passed evidence);
                missing = filter (\<lambda>s. s \<notin> set passed_suites) (sp_required_benchmark_suite p)
            in \<lparr>all_required_passed = (length missing = 0), missing_suites = missing\<rparr>)"

record stack_readiness =
  sr_stack_id :: string
  sr_validation_level :: validation_level
  submit_allowed :: bool
  benchmark_passed :: bool
  benchmark_missing_suites :: "string list"
  reaxff_review_required :: bool
  reaxff_review_pending :: bool
  ready_for_production :: bool

definition check_stack_readiness :: "evidence_store \<Rightarrow> string \<Rightarrow> stack_readiness" where
  "check_stack_readiness db stack_id =
     (let pol = get_stack_policy stack_id;
          bench = check_benchmark_requirements db stack_id;
          required = (case pol of None \<Rightarrow> False | Some p \<Rightarrow> sp_requires_reaxff_review p);
          reaxff_pending =
            (if required
             then length (filter (\<lambda>e. str_contains ''reaxff'' (str_lower (be_suite_id e)))
                    (get_benchmark_evidence db stack_id)) = 0
             else False)
      in \<lparr>sr_stack_id = stack_id,
          sr_validation_level = get_validation_level stack_id ResearchOnly,
          submit_allowed = is_workflow_allowed stack_id ''submit'',
          benchmark_passed = all_required_passed bench,
          benchmark_missing_suites = missing_suites bench,
          reaxff_review_required = required,
          reaxff_review_pending = reaxff_pending,
          ready_for_production = (all_required_passed bench \<and> \<not> reaxff_pending \<and>
            get_validation_level stack_id ResearchOnly = Validated)\<rparr>)"

section \<open>Lemmas\<close>

lemma get_stack_policy_cases:
  "get_stack_policy s = Some p \<Longrightarrow>
     s \<in> {''gaff2_am1bcc_v1'', ''gaff2_org__inorganic_profile__arith_v1'', ''reaxff_v1'',
          ''gaff2_fragment_fallback_v1''}"
  by (auto simp: get_stack_policy_def STACK_POLICIES_def split: if_splits)

lemma policy_of_unknown:
  "s \<notin> {''gaff2_am1bcc_v1'', ''gaff2_org__inorganic_profile__arith_v1'', ''reaxff_v1'',
         ''gaff2_fragment_fallback_v1''} \<Longrightarrow> get_stack_policy s = None"
  using get_stack_policy_cases [of s] by (metis not_Some_eq)

lemma submit_allowed_iff:
  "is_workflow_allowed s ''submit'' \<longleftrightarrow>
     s \<in> {''gaff2_am1bcc_v1'', ''gaff2_org__inorganic_profile__arith_v1'', ''reaxff_v1''}"
  by (auto simp: is_workflow_allowed_def get_stack_policy_def STACK_POLICIES_def)

lemma validated_iff: "get_validation_level s ResearchOnly = Validated \<longleftrightarrow> s = ''gaff2_am1bcc_v1''"
  by (auto simp: get_validation_level_def get_stack_policy_def STACK_POLICIES_def)

lemma get_after_record:
  "get_benchmark_evidence (record_benchmark_evidence e db) s =
     (if be_stack_id e = s then get_benchmark_evidence db s @ [e] else get_benchmark_evidence db s)"
  by (auto simp: get_benchmark_evidence_def record_benchmark_evidence_def dict_get_def update_conv')

text \<open>The evidence of a stack is what was recorded for it, in the order of recording.\<close>

lemma get_after_records:
  "get_benchmark_evidence (fold record_benchmark_evidence es db) s =
     get_benchmark_evidence db s @ filter (\<lambda>e. be_stack_id e = s) es"
  by (induction es arbitrary: db) (simp_all add: get_after_record)

lemma readiness_of_gaff2:
  "ready_for_production (check_stack_readiness db ''gaff2_am1bcc_v1'') \<longleftrightarrow>
     (\<forall>suite\<in>{''density_tolerance'', ''ced_tolerance''}.
        \<exists>e\<in>set (get_benchmark_evidence db ''gaff2_am1bcc_v1''). be_suite_id e = suite \<and> all_gates_passed e)"
  by (auto simp: check_stack_readiness_def check_benchmark_requirements_def Let_def validated_iff
      get_stack_policy_def STACK_POLICIES_def filter_empty_conv image_iff)

text \<open>Two of the stacks that are only approved for research pass the submission gate.\<close>

lemma research_only_submits:
  "assert_submit_allowed ''reaxff_v1'' = Inr () \<and>
   get_validation_level ''reaxff_v1'' ResearchOnly = ResearchOnly"
  by (simp add: assert_submit_allowed_def submit_allowed_iff get_validation_level_def
      get_stack_policy_def STACK_POLICIES_def)

section \<open>Properties\<close>

text \<open>
  The submission gate lets through exactly the three stacks whose registered policy lists
  submit; every other stack, registered or not, raises a validation error that reports it as
  research_only.
\<close>

theorem submit_gate_fails_closed:
  "case assert_submit_allowed s of
     Inr _ \<Rightarrow> s \<in> {''gaff2_am1bcc_v1'', ''gaff2_org__inorganic_profile__arith_v1'', ''reaxff_v1''}
   | Inl e \<Rightarrow> s \<notin> {''gaff2_am1bcc_v1'', ''gaff2_org__inorganic_profile__arith_v1'', ''reaxff_v1''} \<and>
       ce_code e = VALIDATION_ERROR \<and>
       ce_details e = [(''stack_id'', PStr s), (''validation_level'', PStr ''research_only'')]"
proof -
  have "get_validation_level s ResearchOnly = ResearchOnly" if "\<not> is_workflow_allowed s ''submit''"
    using that unfolding submit_allowed_iff
    by (auto simp: get_validation_level_def get_stack_policy_def STACK_POLICIES_def)
  then show ?thesis
    by (simp add: assert_submit_allowed_def Let_def submit_allowed_iff level_text_def)
qed

text \<open>
  After any sequence of recorded benchmark evidence a stack is ready for production
  exactly when it is the validated GAFF2 stack and a passing run of each of its two required
  suites is among the evidence.
\<close>

theorem production_readiness_exact:
  "ready_for_production (check_stack_readiness (fold record_benchmark_evidence es []) s) \<longleftrightarrow>
     s = ''gaff2_am1bcc_v1'' \<and>
     (\<exists>e. e \<in> set es \<and> be_stack_id e = s \<and> be_suite_id e = ''density_tolerance'' \<and> all_gates_passed e) \<and>
     (\<exists>e. e \<in> set es \<and> be_stack_id e = s \<and> be_suite_id e = ''ced_tolerance'' \<and> all_gates_passed e)"
proof (cases "s = ''gaff2_am1bcc_v1''")
  case True
  have "get_benchmark_evidence (fold record_benchmark_evidence es []) s = filter (\<lambda>e. be_stack_id e = s) es"
    by (simp add: get_after_records) (simp add: get_benchmark_evidence_def dict_get_def)
  with readiness_of_gaff2 True show ?thesis by auto
next
  case False
  then show ?thesis by (simp add: check_stack_readiness_def Let_def validated_iff)
qed

end
