(* ===== verification/RunDispatch.thy ===== *)
theory RunDispatch
  imports GpuProps
begin

text \<open>
  The dispatcher of ready experiments, \<^verbatim>\<open>src/src/orchestrator/run_scheduler.py\<close>: the
  single-flight lock, the decision whether a GPU is needed, and the pass over the ready
  experiments, which allocates a GPU, commits a dispatch token, publishes the run task and
  rolls both back when publishing fails. The message broker is a parameter: for each
  experiment it says whether \<open>send_task\<close> raises, returns a task id, or returns one that can
  then not be recorded. The list of ready experiments comes from the repository, a
  parameter too (\<open>list_law\<close>).
\<close>

section \<open>The single-flight lock\<close>

datatype flock_result = FlockOk | FlockBlocked | FlockError

datatype dispatch_lock = LockHandle | NoLockSentinel

definition acquire_dispatch_lock :: "bool \<Rightarrow> bool \<Rightarrow> flock_result \<Rightarrow> dispatch_lock option" where
  "acquire_dispatch_lock fcntl_there open_ok flock =
     (if \<not> fcntl_there then Some NoLockSentinel
      else if \<not> open_ok then Some NoLockSentinel
      else case flock of
          FlockOk \<Rightarrow> Some LockHandle
        | FlockBlocked \<Rightarrow> None
        | FlockError \<Rightarrow> Some NoLockSentinel)"

section \<open>Is a GPU needed?\<close>

record lammps_caps =
  installed_packages :: "string list"
  accel_mode :: string

text \<open>\<open>None\<close>: no cached capabilities, or their import raised.\<close>

definition caps_needs_gpu :: "lammps_caps option \<Rightarrow> bool" where
  "caps_needs_gpu caps =
     (case caps of
        None \<Rightarrow> True
      | Some c \<Rightarrow> if installed_packages c \<noteq> [] then accel_mode c = ''kokkos_gpu'' else True)"

section \<open>One pass\<close>

datatype send_outcome = SendRaises | Sent string | SentUnrecorded string

record run_message =
  rm_exp_id :: string
  rm_gpu_id :: int
  rm_token :: string

record 'db dispatch_env =
  de_store :: "'db store"
  de_enum :: "raw_device list option"
  de_gpu_lock :: "string \<Rightarrow> bool"
  de_now :: int
  de_uuid :: "string \<Rightarrow> string"
  de_send :: "string \<Rightarrow> send_outcome"

record 'db dispatch_state =
  ds_service :: gpu_service
  ds_db :: 'db
  ds_published :: "run_message list"
  ds_submitted :: nat
  ds_skipped_no_gpu :: nat
  ds_errors :: nat

abbreviation set_token :: "string option \<Rightarrow> exp_row \<Rightarrow> exp_row" where
  "set_token t r \<equiv> r\<lparr>er_dispatch_attempt_id := t\<rparr>"

abbreviation set_task :: "string option \<Rightarrow> exp_row \<Rightarrow> exp_row" where
  "set_task t r \<equiv> r\<lparr>er_celery_task_id := t\<rparr>"

text \<open>The \<open>except\<close> branch.\<close>

definition dispatch_rollback ::
    "'db dispatch_env \<Rightarrow> string \<Rightarrow> int option \<Rightarrow> 'db dispatch_state \<Rightarrow> 'db dispatch_state" where
  "dispatch_rollback E eid gpu st =
     (let (sv, db) = (case gpu of
            None \<Rightarrow> (ds_service st, ds_db st)
          | Some g \<Rightarrow> snd (release (de_store E) (de_now E) g None (Some eid) (ds_service st) (ds_db st)))
      in st\<lparr>ds_service := sv, ds_db := st_update (de_store E) db eid (set_token None),
            ds_errors := ds_errors st + 1\<rparr>)"

definition dispatch_one ::
    "'db dispatch_env \<Rightarrow> bool \<Rightarrow> 'db dispatch_state \<Rightarrow> exp_row \<Rightarrow> 'db dispatch_state" where
  "dispatch_one E needs_gpu st row =
     (if er_gpu_id_allocated row \<noteq> None then st
      else
        let eid = er_exp_id row;
            (gpu, sv1, db1) =
              (if needs_gpu
               then allocate_gpu (de_store E) (de_enum E) (de_gpu_lock E eid) (de_now E) eid None (Some eid)
                      (ds_service st) (ds_db st)
               else (None, ds_service st, ds_db st))
        in if needs_gpu \<and> gpu = None
           then st\<lparr>ds_service := sv1, ds_db := db1, ds_skipped_no_gpu := ds_skipped_no_gpu st + 1\<rparr>
           else
             let token = de_uuid E eid;
                 db2 = st_update (de_store E) db1 eid (set_token (Some token));
                 st2 = st\<lparr>ds_service := sv1, ds_db := db2\<rparr>;
                 msg = \<lparr>rm_exp_id = eid, rm_gpu_id = (case gpu of Some g \<Rightarrow> g | None \<Rightarrow> -1), rm_token = token\<rparr>
             in case de_send E eid of
                  SendRaises \<Rightarrow> dispatch_rollback E eid gpu st2
                | Sent task \<Rightarrow>
                    st2\<lparr>ds_db := st_update (de_store E) db2 eid (set_task (Some task)),
                        ds_published := ds_published st @ [msg], ds_submitted := ds_submitted st + 1\<rparr>
                | SentUnrecorded task \<Rightarrow>
                    dispatch_rollback E eid gpu (st2\<lparr>ds_published := ds_published st @ [msg]\<rparr>))"

definition dispatch_pass ::
    "'db dispatch_env \<Rightarrow> bool \<Rightarrow> exp_row list \<Rightarrow> 'db dispatch_state \<Rightarrow> 'db dispatch_state" where
  "dispatch_pass E needs_gpu rows st = foldl (dispatch_one E needs_gpu) st rows"

record dispatch_report =
  dr_submitted :: nat
  dr_skipped_no_gpu :: nat
  dr_errors :: nat
  dr_skipped_locked :: nat

definition start_state :: "gpu_service \<Rightarrow> 'db \<Rightarrow> 'db dispatch_state" where
  "start_state sv db =
     \<lparr>ds_service = sv, ds_db = db, ds_published = [], ds_submitted = 0, ds_skipped_no_gpu = 0,
      ds_errors = 0\<rparr>"

text \<open>
  \<open>schedule_ready_experiments\<close>: \<open>lst db n\<close> is \<open>list_by_status("ready", limit=n)\<close>, \<open>init\<close> the
  initialisation of the service (\<open>initialize\<close>, when the service has it).
\<close>

definition schedule_ready_experiments ::
    "'db dispatch_env \<Rightarrow> ('db \<Rightarrow> nat \<Rightarrow> exp_row list) \<Rightarrow> ('db \<Rightarrow> gpu_service \<Rightarrow> gpu_service)
      \<Rightarrow> dispatch_lock option \<Rightarrow> lammps_caps option \<Rightarrow> nat \<Rightarrow> gpu_service \<Rightarrow> 'db
      \<Rightarrow> dispatch_report \<times> run_message list \<times> gpu_service \<times> 'db" where
  "schedule_ready_experiments E lst init lock caps max_submissions sv db =
     (case lock of
        None \<Rightarrow> (\<lparr>dr_submitted = 0, dr_skipped_no_gpu = 0, dr_errors = 0, dr_skipped_locked = 1\<rparr>, [], sv, db)
      | Some _ \<Rightarrow>
          let st = dispatch_pass E (caps_needs_gpu caps) (lst db max_submissions) (start_state (init db sv) db)
          in (\<lparr>dr_submitted = ds_submitted st, dr_skipped_no_gpu = ds_skipped_no_gpu st,
               dr_errors = ds_errors st, dr_skipped_locked = 0\<rparr>,
              ds_published st, ds_service st, ds_db st))"

text \<open>What the code relies on when it lists: rows of the table in the wanted status, each once,
  no more than the limit, with non-empty ids.\<close>

definition list_law :: "'db store \<Rightarrow> string \<Rightarrow> ('db \<Rightarrow> nat \<Rightarrow> exp_row list) \<Rightarrow> bool" where
  "list_law S status lst \<longleftrightarrow>
     (\<forall>db n. st_ok S db \<longrightarrow>
        set (lst db n) \<subseteq> {r \<in> set (st_rows S db). er_status r = status \<and> er_exp_id r \<noteq> []} \<and>
        distinct (map er_exp_id (lst db n)) \<and> length (lst db n) \<le> n)"

section \<open>Rows by key\<close>

definition row_of :: "'db store \<Rightarrow> 'db \<Rightarrow> string \<Rightarrow> exp_row option" where
  "row_of S db e = List.find (\<lambda>r. er_exp_id r = e) (st_rows S db)"

lemma find_upd_rows:
  "keeps_key f \<Longrightarrow> List.find (\<lambda>r. er_exp_id r = e) (upd_rows k f rs) =
     (if e = k then map_option f (List.find (\<lambda>r. er_exp_id r = e) rs)
      else List.find (\<lambda>r. er_exp_id r = e) rs)"
  by (induction rs) (auto simp: upd_rows_def keeps_key_def)

lemma row_of_update:
  "store_laws S \<Longrightarrow> st_ok S db \<Longrightarrow> keeps_key f \<Longrightarrow>
     row_of S (st_update S db k f) e = (if e = k then map_option f (row_of S db e) else row_of S db e)"
  by (simp add: row_of_def store_simps find_upd_rows)

lemma find_in_distinct:
  "distinct (map er_exp_id rs) \<Longrightarrow> r \<in> set rs \<Longrightarrow> List.find (\<lambda>s. er_exp_id s = er_exp_id r) rs = Some r"
  by (induction rs) (auto simp: image_iff)

lemma row_of_in:
  "store_laws S \<Longrightarrow> st_ok S db \<Longrightarrow> r \<in> set (st_rows S db) \<Longrightarrow> row_of S db (er_exp_id r) = Some r"
  unfolding row_of_def by (rule find_in_distinct [OF store_distinct])

lemma target_row_of: "row_of S db e = Some r \<Longrightarrow> target_row S job (Some e) db = Some r"
  by (simp add: target_row_def row_of_def)

lemma find_with_gpu:
  "distinct (map er_exp_id rs) \<Longrightarrow> r \<in> set rs \<Longrightarrow> er_gpu_id_allocated r = Some g \<Longrightarrow>
     List.find (\<lambda>s. er_exp_id s = er_exp_id r \<and> er_gpu_id_allocated s = Some g) rs = Some r"
  by (induction rs) (auto simp: image_iff)

lemma release_row_of:
  assumes "store_laws S" "st_ok S db" "row_of S db e = Some r" "er_gpu_id_allocated r = Some g" "e \<noteq> []"
  shows "release_row S g None (Some e) db = Some r"
proof -
  have rin: "r \<in> set (st_rows S db)" and re: "er_exp_id r = e"
    using assms(3) find_in_set unfolding row_of_def by fastforce+
  from find_with_gpu [OF store_distinct [OF assms(1,2)] rin assms(4)] re assms(5)
  show ?thesis by (simp add: release_row_def truthy_def)
qed

section \<open>What one step does\<close>

lemma dispatch_rollback_effect:
  assumes laws: "store_laws (de_store E)" and ok: "st_ok (de_store E) (ds_db st)"
    and row: "row_of (de_store E) (ds_db st) e = Some r" "er_gpu_id_allocated r = gpu" "e \<noteq> []"
  shows "st_ok (de_store E) (ds_db (dispatch_rollback E e gpu st)) \<and>
    ds_published (dispatch_rollback E e gpu st) = ds_published st \<and>
    row_of (de_store E) (ds_db (dispatch_rollback E e gpu st)) k =
      (if k = e then Some (set_token None (set_gpu None r)) else row_of (de_store E) (ds_db st) k)"
proof (cases gpu)
  case None
  then have "set_gpu None r = r" using row(2) by simp
  with None laws ok row show ?thesis
    by (simp add: dispatch_rollback_def Let_def store_simps row_of_update)
next
  case (Some g)
  have re: "er_exp_id r = e" using row(1) find_in_set unfolding row_of_def by fastforce
  have "release_row (de_store E) g None (Some e) (ds_db st) = Some r"
    using row Some by (intro release_row_of [OF laws ok]) simp_all
  with Some laws ok row re show ?thesis
    by (simp add: dispatch_rollback_def release_def Let_def store_simps row_of_update)
qed

text \<open>The row of an experiment whose run message \<open>m\<close> went out.\<close>

definition sent_row :: "'db dispatch_env \<Rightarrow> bool \<Rightarrow> run_message \<Rightarrow> exp_row \<Rightarrow> bool" where
  "sent_row E needs_gpu m r \<longleftrightarrow>
     (case de_send E (rm_exp_id m) of
        Sent task \<Rightarrow>
          er_gpu_id_allocated r = (if needs_gpu then Some (rm_gpu_id m) else None) \<and>
          er_dispatch_attempt_id r = Some (rm_token m) \<and> er_celery_task_id r = Some task
      | _ \<Rightarrow> er_gpu_id_allocated r = None \<and> er_dispatch_attempt_id r = None)"

definition one_effect ::
    "'db dispatch_env \<Rightarrow> bool \<Rightarrow> exp_row \<Rightarrow> 'db dispatch_state \<Rightarrow> 'db dispatch_state \<Rightarrow> bool" where
  "one_effect E needs_gpu row st st' \<longleftrightarrow>
     st_ok (de_store E) (ds_db st') \<and>
     (\<forall>k. k \<noteq> er_exp_id row \<longrightarrow> row_of (de_store E) (ds_db st') k = row_of (de_store E) (ds_db st) k) \<and>
     ((ds_published st' = ds_published st \<and>
       (\<exists>r. row_of (de_store E) (ds_db st') (er_exp_id row) = Some r \<and>
          er_gpu_id_allocated r = er_gpu_id_allocated row)) \<or>
      (er_gpu_id_allocated row = None \<and>
       (\<exists>m r. ds_published st' = ds_published st @ [m] \<and> rm_exp_id m = er_exp_id row \<and>
          row_of (de_store E) (ds_db st') (er_exp_id row) = Some r \<and> sent_row E needs_gpu m r)))"

lemma dispatch_one_unfold:
  assumes "er_gpu_id_allocated row = None"
    and "(if needs_gpu
      then allocate_gpu (de_store E) (de_enum E) (de_gpu_lock E (er_exp_id row)) (de_now E) (er_exp_id row)
             None (Some (er_exp_id row)) (ds_service st) (ds_db st)
      else (None, ds_service st, ds_db st)) = (gpu, sv1, db1)"
  shows "dispatch_one E needs_gpu st row =
    (if needs_gpu \<and> gpu = None
     then st\<lparr>ds_service := sv1, ds_db := db1, ds_skipped_no_gpu := ds_skipped_no_gpu st + 1\<rparr>
     else
       let eid = er_exp_id row; token = de_uuid E eid;
           db2 = st_update (de_store E) db1 eid (set_token (Some token));
           st2 = st\<lparr>ds_service := sv1, ds_db := db2\<rparr>;
           msg = \<lparr>rm_exp_id = eid, rm_gpu_id = (case gpu of Some g \<Rightarrow> g | None \<Rightarrow> -1), rm_token = token\<rparr>
       in case de_send E eid of
            SendRaises \<Rightarrow> dispatch_rollback E eid gpu st2
          | Sent task \<Rightarrow>
              st2\<lparr>ds_db := st_update (de_store E) db2 eid (set_task (Some task)),
                  ds_published := ds_published st @ [msg], ds_submitted := ds_submitted st + 1\<rparr>
          | SentUnrecorded task \<Rightarrow>
              dispatch_rollback E eid gpu (st2\<lparr>ds_published := ds_published st @ [msg]\<rparr>))"
  unfolding dispatch_one_def Let_def assms by (simp only: prod.case if_False not_True_eq_False simp_thms)

lemma dispatch_one_effect:
  assumes laws: "store_laws (de_store E)" and ok: "st_ok (de_store E) (ds_db st)"
    and row: "row_of (de_store E) (ds_db st) (er_exp_id row) = Some row" "er_exp_id row \<noteq> []"
  shows "one_effect E needs_gpu row st (dispatch_one E needs_gpu st row)"
proof (cases "er_gpu_id_allocated row")
  case (Some g)
  with ok row show ?thesis by (simp add: one_effect_def dispatch_one_def)
next
  case None
  let ?S = "de_store E" and ?e = "er_exp_id row"
  obtain gpu sv1 db1 where alloc: "(if needs_gpu
      then allocate_gpu ?S (de_enum E) (de_gpu_lock E ?e) (de_now E) ?e None (Some ?e) (ds_service st) (ds_db st)
      else (None, ds_service st, ds_db st)) = (gpu, sv1, db1)" by (metis prod_cases3)
  have db1: "st_ok ?S db1 \<and> (\<forall>k. row_of ?S db1 k = (if k = ?e then Some (set_gpu gpu row) else row_of ?S (ds_db st) k))"
  proof (cases gpu)
    case None
    then have "db1 = ds_db st" using alloc allocate_gpu_NoneD by (metis prod.inject)
    moreover have "set_gpu gpu row = row" using None \<open>er_gpu_id_allocated row = None\<close> by simp
    ultimately show ?thesis using ok row by simp
  next
    case (Some g)
    then have "needs_gpu" using alloc by (auto split: if_splits)
    with alloc Some have a: "allocate_gpu ?S (de_enum E) (de_gpu_lock E ?e) (de_now E) ?e None (Some ?e)
        (ds_service st) (ds_db st) = (Some g, sv1, db1)" by simp
    from allocate_gpu_SomeD [OF a] target_row_of [OF row(1)]
    have "db1 = st_update ?S (ds_db st) ?e (set_gpu (Some g))" by auto
    with laws ok row Some show ?thesis by (simp add: store_simps row_of_update)
  qed
  show ?thesis
  proof (cases "needs_gpu \<and> gpu = None")
    case True
    with None db1 show ?thesis
      unfolding dispatch_one_unfold [OF None alloc] by (simp add: one_effect_def)
  next
    case False
    let ?m = "\<lparr>rm_exp_id = ?e, rm_gpu_id = (case gpu of Some g \<Rightarrow> g | None \<Rightarrow> -1), rm_token = de_uuid E ?e\<rparr>"
    let ?r2 = "set_token (Some (de_uuid E ?e)) (set_gpu gpu row)"
    let ?db2 = "st_update ?S db1 ?e (set_token (Some (de_uuid E ?e)))"
    have db2: "st_ok ?S ?db2"
      "row_of ?S ?db2 k = (if k = ?e then Some ?r2 else row_of ?S (ds_db st) k)" for k
      using db1 laws by (simp_all add: store_simps row_of_update)
    have gpu: "gpu = (if needs_gpu then Some (rm_gpu_id ?m) else None)"
      using False alloc by (auto split: option.splits if_splits)
    note rollback = dispatch_rollback_effect [OF laws, of _ ?e ?r2 gpu]
    show ?thesis
    proof (cases "de_send E ?e")
      case SendRaises
      let ?st2 = "st\<lparr>ds_service := sv1, ds_db := ?db2\<rparr>"
      have "dispatch_one E needs_gpu st row = dispatch_rollback E ?e gpu ?st2"
        unfolding dispatch_one_unfold [OF None alloc] by (simp only: if_not_P [OF False] Let_def SendRaises send_outcome.case)
      then show ?thesis using rollback [of ?st2] db2 row(2) None by (auto simp: one_effect_def)
    next
      case (Sent task)
      have "dispatch_one E needs_gpu st row =
          st\<lparr>ds_service := sv1, ds_db := st_update ?S ?db2 ?e (set_task (Some task)),
             ds_published := ds_published st @ [?m], ds_submitted := ds_submitted st + 1\<rparr>"
        unfolding dispatch_one_unfold [OF None alloc] by (simp only: if_not_P [OF False] Let_def Sent send_outcome.case) simp
      moreover have "sent_row E needs_gpu ?m (set_task (Some task) ?r2)"
        using Sent gpu by (simp add: sent_row_def)
      ultimately show ?thesis
        using None laws db2 by (simp add: one_effect_def store_simps row_of_update)
    next
      case (SentUnrecorded task)
      let ?st2 = "st\<lparr>ds_service := sv1, ds_db := ?db2, ds_published := ds_published st @ [?m]\<rparr>"
      have "dispatch_one E needs_gpu st row = dispatch_rollback E ?e gpu ?st2"
        unfolding dispatch_one_unfold [OF None alloc] by (simp only: if_not_P [OF False] Let_def SentUnrecorded send_outcome.case)
      then show ?thesis
        using rollback [of ?st2] db2 row(2) None SentUnrecorded
        by (auto simp: one_effect_def sent_row_def)
    qed
  qed
qed

section \<open>What a pass does\<close>

text \<open>How an experiment of the list is left: with a GPU it is untouched; without one it has
  at most one message, and its row agrees with what became of it.\<close>

definition settled :: "'db dispatch_env \<Rightarrow> bool \<Rightarrow> 'db \<Rightarrow> run_message list \<Rightarrow> exp_row \<Rightarrow> bool" where
  "settled E needs_gpu db msgs row \<longleftrightarrow>
     (case row_of (de_store E) db (er_exp_id row) of
        None \<Rightarrow> False
      | Some r \<Rightarrow>
          (case filter (\<lambda>m. rm_exp_id m = er_exp_id row) msgs of
             [] \<Rightarrow> er_gpu_id_allocated r = er_gpu_id_allocated row
           | [m] \<Rightarrow> er_gpu_id_allocated row = None \<and> sent_row E needs_gpu m r
           | _ \<Rightarrow> False))"

lemma dispatch_pass_effect:
  assumes laws: "store_laws (de_store E)" and ok: "st_ok (de_store E) (ds_db st)"
    and rows: "distinct (map er_exp_id rows)"
      "\<forall>row\<in>set rows. row_of (de_store E) (ds_db st) (er_exp_id row) = Some row \<and> er_exp_id row \<noteq> []"
      "\<forall>m\<in>set (ds_published st). rm_exp_id m \<notin> er_exp_id ` set rows"
  shows "st_ok (de_store E) (ds_db (dispatch_pass E ng rows st)) \<and>
    (\<forall>k. k \<notin> er_exp_id ` set rows \<longrightarrow>
       row_of (de_store E) (ds_db (dispatch_pass E ng rows st)) k = row_of (de_store E) (ds_db st) k \<and>
       filter (\<lambda>m. rm_exp_id m = k) (ds_published (dispatch_pass E ng rows st)) =
         filter (\<lambda>m. rm_exp_id m = k) (ds_published st)) \<and>
    (\<forall>row\<in>set rows. settled E ng (ds_db (dispatch_pass E ng rows st))
       (ds_published (dispatch_pass E ng rows st)) row)"
  using ok rows
proof (induction rows arbitrary: st)
  case Nil
  then show ?case by (simp add: dispatch_pass_def)
next
  case (Cons row rows)
  let ?st = "dispatch_one E ng st row"
  let ?S = "de_store E"
  have pass: "dispatch_pass E ng (row # rows) st = dispatch_pass E ng rows ?st"
    by (simp add: dispatch_pass_def)
  have eff: "one_effect E ng row st ?st"
    using Cons.prems by (intro dispatch_one_effect [OF laws]) auto
  have notin: "er_exp_id row \<notin> er_exp_id ` set rows" using Cons.prems(2) by simp
  have ok': "st_ok ?S (ds_db ?st)"
    and other: "\<And>k. k \<noteq> er_exp_id row \<Longrightarrow> row_of ?S (ds_db ?st) k = row_of ?S (ds_db st) k"
    and pub: "\<And>k. k \<noteq> er_exp_id row \<Longrightarrow> filter (\<lambda>m. rm_exp_id m = k) (ds_published ?st) =
        filter (\<lambda>m. rm_exp_id m = k) (ds_published st)"
    using eff by (auto simp: one_effect_def)
  have pre: "\<forall>r\<in>set rows. row_of ?S (ds_db ?st) (er_exp_id r) = Some r \<and> er_exp_id r \<noteq> []"
    using Cons.prems(3) notin other by (metis image_eqI list.set_intros(2))
  have fresh: "\<forall>m\<in>set (ds_published ?st). rm_exp_id m \<notin> er_exp_id ` set rows"
    using eff Cons.prems(4) notin by (auto simp: one_effect_def)
  have IH: "st_ok ?S (ds_db (dispatch_pass E ng rows ?st)) \<and>
    (\<forall>k. k \<notin> er_exp_id ` set rows \<longrightarrow>
       row_of ?S (ds_db (dispatch_pass E ng rows ?st)) k = row_of ?S (ds_db ?st) k \<and>
       filter (\<lambda>m. rm_exp_id m = k) (ds_published (dispatch_pass E ng rows ?st)) =
         filter (\<lambda>m. rm_exp_id m = k) (ds_published ?st)) \<and>
    (\<forall>row\<in>set rows. settled E ng (ds_db (dispatch_pass E ng rows ?st))
       (ds_published (dispatch_pass E ng rows ?st)) row)"
    using Cons.IH [OF ok' _ pre fresh] Cons.prems(2) by simp
  have none: "filter (\<lambda>m. rm_exp_id m = er_exp_id row) (ds_published st) = []"
    using Cons.prems(4) by (auto simp: filter_empty_conv)
  have "settled E ng (ds_db ?st) (ds_published ?st) row"
    using eff none by (auto simp: one_effect_def settled_def)
  moreover have "row_of ?S (ds_db (dispatch_pass E ng rows ?st)) (er_exp_id row) = row_of ?S (ds_db ?st) (er_exp_id row)"
    "filter (\<lambda>m. rm_exp_id m = er_exp_id row) (ds_published (dispatch_pass E ng rows ?st)) =
       filter (\<lambda>m. rm_exp_id m = er_exp_id row) (ds_published ?st)"
    using IH notin by blast+
  ultimately have mine: "settled E ng (ds_db (dispatch_pass E ng rows ?st))
      (ds_published (dispatch_pass E ng rows ?st)) row"
    by (simp only: settled_def)
  show ?case unfolding pass using IH mine other pub by auto
qed

lemma dispatch_pass_counts:
  "ds_submitted (dispatch_pass E ng rows st) + ds_skipped_no_gpu (dispatch_pass E ng rows st) +
     ds_errors (dispatch_pass E ng rows st) =
   ds_submitted st + ds_skipped_no_gpu st + ds_errors st +
     length (filter (\<lambda>r. er_gpu_id_allocated r = None) rows)"
proof (induction rows arbitrary: st)
  case (Cons row rows)
  have "ds_submitted (dispatch_one E ng st row) + ds_skipped_no_gpu (dispatch_one E ng st row) +
      ds_errors (dispatch_one E ng st row) =
    ds_submitted st + ds_skipped_no_gpu st + ds_errors st + (if er_gpu_id_allocated row = None then 1 else 0)"
    by (auto simp: dispatch_one_def dispatch_rollback_def Let_def split: prod.splits send_outcome.splits)
  with Cons.IH [of "dispatch_one E ng st row"] show ?case by (simp add: dispatch_pass_def)
qed (simp add: dispatch_pass_def)

lemma dispatch_one_cpu:
  "ds_published (dispatch_one E False st row) = ds_published st @
     (if er_gpu_id_allocated row = None \<and> de_send E (er_exp_id row) \<noteq> SendRaises
      then [\<lparr>rm_exp_id = er_exp_id row, rm_gpu_id = -1, rm_token = de_uuid E (er_exp_id row)\<rparr>] else [])"
  by (auto simp: dispatch_one_def dispatch_rollback_def Let_def split: send_outcome.splits)

section \<open>Dispatchers and the lock\<close>

text \<open>
  The processes that are inside a pass, on a platform with POSIX locks: a process enters when
  it gets the handle, and the kernel grants the exclusive lock when nobody holds it; it leaves
  by releasing the handle or by dying.
\<close>

definition flock_of :: "nat list \<Rightarrow> flock_result" where
  "flock_of holders = (if holders = [] then FlockOk else FlockBlocked)"

inductive dispatch_enter :: "nat list \<Rightarrow> unit \<Rightarrow> nat list \<Rightarrow> bool" where
  "acquire_dispatch_lock True True (flock_of ps) = Some l \<Longrightarrow> dispatch_enter ps () (p # ps)"

inductive dispatch_leave :: "nat list \<Rightarrow> nat list \<Rightarrow> bool" where
  "dispatch_leave ps (remove1 p ps)"

interpretation dispatcher: slot_pool "\<lambda>_. True" "\<lambda>ps _. int (length ps)" "\<lambda>_. 1" dispatch_enter dispatch_leave
  by unfold_locales
    (auto elim!: dispatch_enter.cases dispatch_leave.cases
      simp: acquire_dispatch_lock_def flock_of_def length_remove1 split: if_splits)

section \<open>Properties\<close>


definition demo_env :: "exp_row list dispatch_env" where
  "demo_env =
     \<lparr>de_store = list_store, de_enum = None, de_gpu_lock = (\<lambda>e. True), de_now = 3,
      de_uuid = (\<lambda>e. ''tok-'' @ e), de_send = (\<lambda>e. if e = ''e2'' then SendRaises else Sent (''task-'' @ e))\<rparr>"

definition demo_table :: "exp_row list" where
  "demo_table = [plain_row ''e1'' ''ready'' None None, plain_row ''e2'' ''ready'' None None,
     plain_row ''e3'' ''running'' (Some ''t3'') (Some 0)]"

definition demo_list :: "exp_row list \<Rightarrow> nat \<Rightarrow> exp_row list" where
  "demo_list rs n = take n (filter (\<lambda>r. er_status r = ''ready'' \<and> er_exp_id r \<noteq> []) rs)"

lemma demo_list_law: "list_law list_store ''ready'' demo_list"
  unfolding list_law_def
proof (intro allI impI conjI)
  fix rs :: "exp_row list" and n
  let ?P = "\<lambda>r. er_status r = ''ready'' \<and> er_exp_id r \<noteq> []"
  assume "st_ok list_store rs"
  then have "distinct (map er_exp_id (filter ?P rs))" by (simp add: distinct_map_filter)
  then show "distinct (map er_exp_id (demo_list rs n))"
    by (simp add: demo_list_def distinct_take flip: take_map)
  show "set (demo_list rs n) \<subseteq> {r \<in> set (st_rows list_store rs). ?P r}"
    unfolding demo_list_def by (rule subset_trans [OF set_take_subset]) auto
  show "length (demo_list rs n) \<le> n" by (simp add: demo_list_def)
qed


text \<open>
  Where POSIX locks work, at most one process is inside a dispatcher pass, however
  processes enter, finish and die.
\<close>

theorem dispatcher_single_flight:
  assumes "pool_run dispatch_enter dispatch_leave [] ps"
  shows "length ps \<le> 1"
proof -
  have "dispatcher.capped []" by (simp add: dispatcher.capped_def)
  from dispatcher.run_capped [OF assms _ this] show ?thesis by (simp add: dispatcher.capped_def)
qed

theorem dispatcher_single_flight_witness:
  "\<exists>ps. pool_run dispatch_enter dispatch_leave [] ps \<and> ps = [7] \<and> length ps \<le> 1"
proof -
  have g: "dispatch_enter [] () [7]"
    by (rule dispatch_enter.intros [where l = LockHandle]) (simp add: acquire_dispatch_lock_def flock_of_def)
  have run: "pool_run dispatch_enter dispatch_leave [] [7]"
    by (rule pool_grant [where grant = dispatch_enter and t = "[]" and r = "()"]) (rule pool_start, rule g)
  from dispatcher_single_flight [OF this] run show ?thesis by blast
qed

text \<open>
  When no GPU is needed a pass publishes one message for every listed experiment without a
  GPU whose send does not raise, whatever dispatch token or task id its row already carries.
\<close>

theorem cpu_mode_ignores_dispatch_tokens:
  "map rm_exp_id (ds_published (dispatch_pass E False rows st)) =
     map rm_exp_id (ds_published st) @
     map er_exp_id (filter (\<lambda>r. er_gpu_id_allocated r = None \<and> de_send E (er_exp_id r) \<noteq> SendRaises) rows)"
  by (induction rows arbitrary: st) (simp_all add: dispatch_pass_def dispatch_one_cpu)

end
