(* ===== verification/DependencyScheduler.thy ===== *)
theory DependencyScheduler
  imports RunDispatch RunPolicies Errors
begin

text \<open>
  Chains of experiments, \<^verbatim>\<open>src/src/orchestrator/dependency_scheduler.py\<close> with
  \<^verbatim>\<open>src/src/contracts/policies/dependency.py\<close>: reconciliation of the edges of a parent,
  and submission of the children whose edges are ready. The edge table is a parameter like
  the experiments table (\<open>edge_laws\<close>); the submission services are parameters too. An
  exception that leaves a session scope rolls its writes back. A \<open>metadata_json\<close> that is
  not an object counts as empty.
\<close>

section \<open>Edges\<close>

record dep_edge =
  dg_parent :: string
  dg_child :: string
  dg_status :: string
  dg_reason :: "string option"

record 'e edge_table =
  et_ok :: "'e \<Rightarrow> bool"
  et_edges :: "'e \<Rightarrow> dep_edge list"
  et_update :: "'e \<Rightarrow> string \<Rightarrow> string \<Rightarrow> string \<Rightarrow> string option \<Rightarrow> 'e"

definition upd_edges :: "string \<Rightarrow> string \<Rightarrow> string \<Rightarrow> string option \<Rightarrow> dep_edge list \<Rightarrow> dep_edge list" where
  "upd_edges p c status reason es =
     map (\<lambda>x. if dg_parent x = p \<and> dg_child x = c then x\<lparr>dg_status := status, dg_reason := reason\<rparr> else x) es"

definition edge_laws :: "'e edge_table \<Rightarrow> bool" where
  "edge_laws T \<longleftrightarrow>
     (\<forall>e. et_ok T e \<longrightarrow> distinct (map (\<lambda>x. (dg_parent x, dg_child x)) (et_edges T e))) \<and>
     (\<forall>e p c s r. et_ok T e \<longrightarrow>
        et_ok T (et_update T e p c s r) \<and> et_edges T (et_update T e p c s r) = upd_edges p c s r (et_edges T e))"

definition list_edges :: "dep_edge list edge_table" where
  "list_edges = \<lparr>et_ok = (\<lambda>es. distinct (map (\<lambda>x. (dg_parent x, dg_child x)) es)), et_edges = (\<lambda>es. es),
     et_update = (\<lambda>es p c s r. upd_edges p c s r es)\<rparr>"

record dependency_policy =
  enforce_acyclic_graph :: bool
  auto_submit_when_ready :: bool
  max_dependents_per_parent :: int
  allowed_parent_terminal_states :: "string list"
  blocked_parent_states :: "string list"

definition DEFAULT_DEPENDENCY_POLICY :: dependency_policy where
  "DEFAULT_DEPENDENCY_POLICY =
     \<lparr>enforce_acyclic_graph = True, auto_submit_when_ready = True, max_dependents_per_parent = 32,
      allowed_parent_terminal_states = [''completed''],
      blocked_parent_states = [''failed'', ''cancelled'', ''timeout'']\<rparr>"

section \<open>Reconciliation\<close>

definition dep_reason :: "string \<Rightarrow> string option \<Rightarrow> string" where
  "dep_reason code detail =
     (let token = str_upper (str_strip code)
      in case detail of
           None \<Rightarrow> token
         | Some d \<Rightarrow> if str_strip d = [] then token else token @ '':'' @ d)"

text \<open>A GPU as the tracker reports it: its id and its current job.\<close>

definition check_budget ::
    "(int \<times> string option) list \<Rightarrow> string option \<Rightarrow> int option \<Rightarrow> int \<Rightarrow> int
      \<Rightarrow> (value_error, submit_reject option) result" where
  "check_budget gpus tier_col atoms_col running_count queued_count =
     (let tier = or_default tier_col ''screening'';
          atoms = (case atoms_col of
              Some n \<Rightarrow> if n \<noteq> 0 then Inr n else get_target_atoms DEFAULT_TIER_POLICY (TierName tier)
            | None \<Rightarrow> get_target_atoms DEFAULT_TIER_POLICY (TierName tier));
          gpu_usage = foldl (\<lambda>u (g, job). dict_set g (if truthy job then 1 else 0) u) [] gpus
      in case atoms of
           Inl e \<Rightarrow> Inl e
         | Inr n \<Rightarrow> Inr (can_submit_job DEFAULT_JOB_BUDGETING_POLICY tier n running_count gpu_usage queued_count))"

record dep_counts =
  dc_ready :: nat
  dc_blocked :: nat
  dc_failed :: nat

datatype dep_error = BrokenDependency contract_error | TierError value_error

record 'db dep_env =
  dn_store :: "'db store"
  dn_gpus :: "(int \<times> string option) list"
  dn_text :: "submit_reject \<Rightarrow> string"

definition count_status_rows :: "'db store \<Rightarrow> 'db \<Rightarrow> string \<Rightarrow> int" where
  "count_status_rows S db s = int (length (filter (\<lambda>r. er_status r = s) (st_rows S db)))"

text \<open>What becomes of one edge of the parent: the new status, and the reason.\<close>

definition edge_outcome ::
    "'db dep_env \<Rightarrow> 'db \<Rightarrow> string \<Rightarrow> string \<Rightarrow> (value_error, string \<times> string option) result" where
  "edge_outcome N db parent_status child =
     (let S = dn_store N;
          running_count = count_status_rows S db ''running'';
          queued_count = count_status_rows S db ''pending'' + count_status_rows S db ''queued''
      in if parent_status \<in> set (blocked_parent_states DEFAULT_DEPENDENCY_POLICY)
         then Inr (''failed'', Some (dep_reason ''UPSTREAM_BLOCKED'' (Some parent_status)))
         else if parent_status \<notin> set (allowed_parent_terminal_states DEFAULT_DEPENDENCY_POLICY)
         then Inr (''blocked'', Some (dep_reason ''UPSTREAM_NOT_READY'' (Some parent_status)))
         else case row_of S db child of
             None \<Rightarrow> Inr (''failed'', Some (dep_reason ''CHILD_MISSING'' None))
           | Some r \<Rightarrow>
               (case check_budget (dn_gpus N) (er_run_tier r) (er_target_atoms r) running_count queued_count of
                  Inl e \<Rightarrow> Inl e
                | Inr None \<Rightarrow> Inr (''ready'', None)
                | Inr (Some why) \<Rightarrow> Inr (''blocked'', Some (dep_reason ''BUDGET_BLOCKED'' (Some (or_default (Some (dn_text N why)) ''unknown''))))))"

definition count_outcome :: "string \<Rightarrow> dep_counts \<Rightarrow> dep_counts" where
  "count_outcome status c =
     (if status = ''ready'' then c\<lparr>dc_ready := dc_ready c + 1\<rparr>
      else if status = ''blocked'' then c\<lparr>dc_blocked := dc_blocked c + 1\<rparr>
      else c\<lparr>dc_failed := dc_failed c + 1\<rparr>)"

fun reconcile_edges ::
    "'db dep_env \<Rightarrow> 'e edge_table \<Rightarrow> 'db \<Rightarrow> string \<Rightarrow> string \<Rightarrow> dep_edge list \<Rightarrow> 'e \<times> dep_counts
      \<Rightarrow> (value_error, 'e \<times> dep_counts) result" where
  "reconcile_edges N T db parent parent_status [] (e, c) = Inr (e, c)"
| "reconcile_edges N T db parent parent_status (x # xs) (e, c) =
     (if dg_child x = [] then reconcile_edges N T db parent parent_status xs (e, c)
      else case edge_outcome N db parent_status (dg_child x) of
          Inl err \<Rightarrow> Inl err
        | Inr (status, reason) \<Rightarrow>
            reconcile_edges N T db parent parent_status xs
              (et_update T e parent (dg_child x) status reason, count_outcome status c))"

definition reconcile_parent ::
    "'db dep_env \<Rightarrow> 'e edge_table \<Rightarrow> 'db \<Rightarrow> string \<Rightarrow> 'e \<Rightarrow> (dep_error, dep_counts) result \<times> 'e" where
  "reconcile_parent N T db parent e =
     (case row_of (dn_store N) db parent of
        None \<Rightarrow>
          (Inl (BrokenDependency (new_contract_error DEPENDENCY_BROKEN
             ''Parent experiment not found for dependency reconciliation''
             (Some [(''parent_exp_id'', PStr parent)]))), e)
      | Some p \<Rightarrow>
          (case reconcile_edges N T db parent (str_lower (er_status p))
                  (filter (\<lambda>x. dg_parent x = parent) (et_edges T e))
                  (e, \<lparr>dc_ready = 0, dc_blocked = 0, dc_failed = 0\<rparr>) of
             Inl err \<Rightarrow> (Inl (TierError err), e)
           | Inr (e', c) \<Rightarrow> (Inr c, e')))"

text \<open>\<open>reconcile_all\<close> goes on after a parent that raised; \<open>parents\<close> is the answer of
  \<open>list_parents_with_active_edges\<close>.\<close>

definition reconcile_all ::
    "'db dep_env \<Rightarrow> 'e edge_table \<Rightarrow> 'db \<Rightarrow> string list \<Rightarrow> 'e \<Rightarrow> dep_counts \<times> 'e" where
  "reconcile_all N T db parents e =
     foldl (\<lambda>(c, e) parent.
        case reconcile_parent N T db parent e of
          (Inl _, e') \<Rightarrow> (c, e')
        | (Inr r, e') \<Rightarrow> (\<lparr>dc_ready = dc_ready c + dc_ready r, dc_blocked = dc_blocked c + dc_blocked r,
                          dc_failed = dc_failed c + dc_failed r\<rparr>, e'))
       (\<lparr>dc_ready = 0, dc_blocked = 0, dc_failed = 0\<rparr>, e) parents"

section \<open>Lemmas on reconciliation\<close>

lemma edge_laws_update:
  "edge_laws T \<Longrightarrow> et_ok T e \<Longrightarrow> et_ok T (et_update T e p c s r)"
  "edge_laws T \<Longrightarrow> et_ok T e \<Longrightarrow> et_edges T (et_update T e p c s r) = upd_edges p c s r (et_edges T e)"
  by (simp_all add: edge_laws_def)

lemma list_edges_laws: "edge_laws list_edges"
proof -
  have "map (\<lambda>x. (dg_parent x, dg_child x)) (upd_edges p c s r es) = map (\<lambda>x. (dg_parent x, dg_child x)) es"
    for p c s r es by (induction es) (auto simp: upd_edges_def)
  then show ?thesis by (simp add: edge_laws_def list_edges_def)
qed

lemma list_edges_simps [simp]:
  "et_ok list_edges es = distinct (map (\<lambda>x. (dg_parent x, dg_child x)) es)"
  "et_edges list_edges es = es"
  "et_update list_edges es p c s r = upd_edges p c s r es"
  by (simp_all add: list_edges_def)

lemma edge_outcome_status:
  "edge_outcome N db ps child = Inr (s, r) \<Longrightarrow> s = ''ready'' \<or> s = ''blocked'' \<or> s = ''failed''"
  by (auto simp: edge_outcome_def Let_def split: if_splits option.splits sum.splits)

lemma check_budget_gate:
  assumes "check_budget gpus (er_run_tier r) (er_target_atoms r) running queued = Inr None"
  shows "queued < 1000 \<and> gpus \<noteq> []"
proof -
  have "gpus = [] \<Longrightarrow> foldl (\<lambda>u (g, job). dict_set g (if truthy job then 1 else 0) u) [] gpus = []" by simp
  with assms show ?thesis
    by (cases "gpus = []") (auto simp: check_budget_def Let_def can_submit_job_iff split: sum.splits)
qed

lemma edge_outcome_ready:
  "edge_outcome N db ps child = Inr (''ready'', r) \<longleftrightarrow>
     ps = ''completed'' \<and> r = None \<and>
     (\<exists>row. row_of (dn_store N) db child = Some row \<and>
        check_budget (dn_gpus N) (er_run_tier row) (er_target_atoms row)
          (count_status_rows (dn_store N) db ''running'')
          (count_status_rows (dn_store N) db ''pending'' + count_status_rows (dn_store N) db ''queued'') = Inr None)"
  by (auto simp: edge_outcome_def DEFAULT_DEPENDENCY_POLICY_def Let_def
      split: if_splits option.splits sum.splits)

text \<open>The edges of the table after a pass: those of the list get their outcome.\<close>

definition new_edge :: "'db dep_env \<Rightarrow> 'db \<Rightarrow> string \<Rightarrow> dep_edge \<Rightarrow> dep_edge" where
  "new_edge N db ps x =
     (case edge_outcome N db ps (dg_child x) of
        Inl _ \<Rightarrow> x | Inr (s, r) \<Rightarrow> x\<lparr>dg_status := s, dg_reason := r\<rparr>)"

lemma new_edge_keys [simp]: "dg_parent (new_edge N db ps x) = dg_parent x" "dg_child (new_edge N db ps x) = dg_child x"
  by (auto simp: new_edge_def split: sum.split)

lemma new_edge_idem: "new_edge N db ps (x\<lparr>dg_status := s, dg_reason := r\<rparr>) =
    (case edge_outcome N db ps (dg_child x) of
        Inl _ \<Rightarrow> x\<lparr>dg_status := s, dg_reason := r\<rparr> | Inr (s, r) \<Rightarrow> x\<lparr>dg_status := s, dg_reason := r\<rparr>)"
  by (simp add: new_edge_def split: sum.split prod.split)

lemma reconcile_edges_effect:
  assumes laws: "edge_laws T" and ok: "et_ok T e"
    and run: "reconcile_edges N T db parent ps xs (e, c) = Inr (e', c')"
  shows "et_ok T e' \<and>
    et_edges T e' = map (\<lambda>x. if dg_parent x = parent \<and> dg_child x \<in> dg_child ` set xs \<and> dg_child x \<noteq> []
                             then new_edge N db ps x else x) (et_edges T e) \<and>
    dc_ready c' + dc_blocked c' + dc_failed c' = dc_ready c + dc_blocked c + dc_failed c +
      length (filter (\<lambda>x. dg_child x \<noteq> []) xs) \<and>
    (\<forall>x\<in>set xs. dg_child x \<noteq> [] \<longrightarrow> \<not> isl (edge_outcome N db ps (dg_child x)))"
  using ok run
proof (induction xs arbitrary: e c)
  case Nil
  then show ?case by simp
next
  case (Cons x xs)
  show ?case
  proof (cases "dg_child x = []")
    case True
    have "(dg_parent y = parent \<and> dg_child y \<in> dg_child ` set (x # xs) \<and> dg_child y \<noteq> []) =
        (dg_parent y = parent \<and> dg_child y \<in> dg_child ` set xs \<and> dg_child y \<noteq> [])" for y
      using True by auto
    moreover have "reconcile_edges N T db parent ps xs (e, c) = Inr (e', c')" using Cons.prems(2) True by simp
    ultimately show ?thesis using Cons.IH [OF Cons.prems(1)] True by simp
  next
    case False
    then obtain s r where out: "edge_outcome N db ps (dg_child x) = Inr (s, r)"
      and rest: "reconcile_edges N T db parent ps xs
          (et_update T e parent (dg_child x) s r, count_outcome s c) = Inr (e', c')"
      using Cons.prems(2) by (auto split: sum.splits)
    have ok1: "et_ok T (et_update T e parent (dg_child x) s r)"
      and edges1: "et_edges T (et_update T e parent (dg_child x) s r) =
        upd_edges parent (dg_child x) s r (et_edges T e)"
      using laws Cons.prems(1) by (simp_all add: edge_laws_update)
    have step: "(if dg_parent y' = parent \<and> dg_child y' \<in> dg_child ` set xs \<and> dg_child y' \<noteq> []
          then new_edge N db ps y' else y') =
        (if dg_parent y = parent \<and> dg_child y \<in> dg_child ` set (x # xs) \<and> dg_child y \<noteq> []
          then new_edge N db ps y else y)"
      if "y' = (if dg_parent y = parent \<and> dg_child y = dg_child x
                then y\<lparr>dg_status := s, dg_reason := r\<rparr> else y)" for y y'
    proof (cases "dg_parent y = parent \<and> dg_child y = dg_child x")
      case True
      then have "new_edge N db ps y = y\<lparr>dg_status := s, dg_reason := r\<rparr>"
        "new_edge N db ps (y\<lparr>dg_status := s, dg_reason := r\<rparr>) = y\<lparr>dg_status := s, dg_reason := r\<rparr>"
        using out by (simp_all add: new_edge_def)
      then show ?thesis using that True False by simp
    next
      case ne: False
      then show ?thesis using that by auto
    qed
    have "dc_ready (count_outcome s c) + dc_blocked (count_outcome s c) + dc_failed (count_outcome s c) =
        Suc (dc_ready c + dc_blocked c + dc_failed c)"
      by (simp add: count_outcome_def)
    with Cons.IH [OF ok1 rest] out False step show ?thesis
      by (simp add: edges1 upd_edges_def)
  qed
qed

section \<open>Submission of ready children\<close>

text \<open>
  The services: \<open>se_submit\<close> validates the deferred requests, submits the job and looks its task
  up (the job id, and the task id if there is one), or raises; \<open>se_layered\<close> is
  \<open>_submit_layered_deferred\<close> (the real experiment id). Both may change the experiments table.
  \<open>ss_log\<close> records the children handed over with success, and whether they were layered.
\<close>

record 'db submit_env =
  se_store :: "'db store"
  se_submit :: "exp_row \<Rightarrow> (string \<times> pyval) list \<Rightarrow> 'db \<Rightarrow> (string, string \<times> string option) result \<times> 'db"
  se_layered :: "exp_row \<Rightarrow> (string \<times> pyval) list \<Rightarrow> string \<Rightarrow> 'db \<Rightarrow> (string, string) result \<times> 'db"

record ('db, 'e) submit_state =
  ss_db :: 'db
  ss_edges :: 'e
  ss_processed :: "string list"
  ss_submitted :: nat
  ss_blocked :: nat
  ss_failed :: nat
  ss_log :: "(string \<times> bool) list"

definition ACTIVE_OR_DONE :: "string list" where
  "ACTIVE_OR_DONE = [''queued'', ''running'', ''building'', ''analyzing'', ''completed'']"

definition meta_dict :: "pyval \<Rightarrow> (string \<times> pyval) list" where
  "meta_dict v = (case v of PDict d \<Rightarrow> d | _ \<Rightarrow> [])"

definition edge_blocked :: "'e edge_table \<Rightarrow> dep_edge \<Rightarrow> string \<Rightarrow> ('db, 'e) submit_state \<Rightarrow> ('db, 'e) submit_state" where
  "edge_blocked T edge reason st =
     st\<lparr>ss_edges := et_update T (ss_edges st) (dg_parent edge) (dg_child edge) ''blocked'' (Some reason),
        ss_blocked := ss_blocked st + 1\<rparr>"

definition set_meta :: "pyval \<Rightarrow> exp_row \<Rightarrow> exp_row" where
  "set_meta m r = r\<lparr>er_metadata_json := m\<rparr>"

definition propagated_blocks :: "(string \<times> pyval) list \<Rightarrow> (string \<times> pyval) list" where
  "propagated_blocks meta =
     (let p = map (\<lambda>k. (k, pv_get meta k))
                (filter (\<lambda>k. pv_truthy (pv_get meta k)) [''binder_analysis'', ''pipeline''])
      in case map_of p ''pipeline'' of
           Some (PDict d) \<Rightarrow> dict_set ''pipeline'' (PDict (dict_set ''role'' (PStr ''layered'') d)) p
         | _ \<Rightarrow> p)"

text \<open>The bookkeeping after the layered service returned \<open>real_id\<close>.\<close>

definition layered_done ::
    "'db submit_env \<Rightarrow> 'e edge_table \<Rightarrow> exp_row \<Rightarrow> string \<Rightarrow> 'db \<Rightarrow> ('db, 'e) submit_state \<Rightarrow> ('db, 'e) submit_state" where
  "layered_done V T child real_id db st =
     (let S = se_store V;
          all_edges = filter (\<lambda>x. dg_child x = er_exp_id child) (et_edges T (ss_edges st));
          meta = dict_set ''real_layered_exp_id'' (PStr real_id) (meta_dict (er_metadata_json child));
          db2 = st_update S db (er_exp_id child) (set_meta (PDict meta));
          db3 = st_update S db2 (er_exp_id child) (\<lambda>r. r\<lparr>er_status := ''cancelled''\<rparr>);
          propagated = propagated_blocks meta;
          db4 = (if propagated \<noteq> [] \<and> real_id \<noteq> [] then
                   (case row_of S db3 real_id of
                      None \<Rightarrow> db3
                    | Some target \<Rightarrow> st_update S db3 real_id
                        (set_meta (PDict (foldl (\<lambda>d (k, v). dict_set k v d) (meta_dict (er_metadata_json target)) propagated))))
                 else db3)
      in st\<lparr>ss_db := db4,
            ss_edges := foldl (\<lambda>e x. et_update T e (dg_parent x) (dg_child x) ''submitted'' None) (ss_edges st) all_edges,
            ss_processed := er_exp_id child # ss_processed st,
            ss_submitted := ss_submitted st + 1,
            ss_log := ss_log st @ [(er_exp_id child, True)]\<rparr>)"

definition molecule_done ::
    "'db submit_env \<Rightarrow> 'e edge_table \<Rightarrow> dep_edge \<Rightarrow> exp_row \<Rightarrow> string \<Rightarrow> 'db \<Rightarrow> ('db, 'e) submit_state \<Rightarrow> ('db, 'e) submit_state" where
  "molecule_done V T edge child task_id db st =
     (let db2 = st_update (se_store V) db (er_exp_id child) (set_task (Some task_id));
          db3 = st_update (se_store V) db2 (er_exp_id child) (\<lambda>r. r\<lparr>er_status := ''queued''\<rparr>)
      in st\<lparr>ss_db := db3,
            ss_edges := et_update T (ss_edges st) (dg_parent edge) (dg_child edge) ''submitted'' None,
            ss_processed := dg_child edge # ss_processed st,
            ss_submitted := ss_submitted st + 1,
            ss_log := ss_log st @ [(er_exp_id child, False)]\<rparr>)"

definition submit_one ::
    "'db submit_env \<Rightarrow> 'e edge_table \<Rightarrow> ('db, 'e) submit_state \<Rightarrow> dep_edge \<Rightarrow> ('db, 'e) submit_state" where
  "submit_one V T st edge =
     (if dg_child edge \<in> set (ss_processed st) then st
      else case row_of (se_store V) (ss_db st) (dg_child edge) of
          None \<Rightarrow>
            st\<lparr>ss_edges := et_update T (ss_edges st) (dg_parent edge) (dg_child edge) ''failed''
                 (Some (dep_reason ''CHILD_MISSING'' None)),
               ss_failed := ss_failed st + 1\<rparr>
        | Some child \<Rightarrow>
            if str_lower (er_status child) \<in> set ACTIVE_OR_DONE then
              st\<lparr>ss_edges := et_update T (ss_edges st) (dg_parent edge) (dg_child edge) ''submitted''
                   (Some (dep_reason ''ALREADY_ACTIVE_OR_DONE'' None)),
                 ss_submitted := ss_submitted st + 1\<rparr>
            else case pv_get (meta_dict (er_metadata_json child)) ''deferred_submission'' of
                PDict payload \<Rightarrow>
                  if (case map_of payload ''kind'' of Some k \<Rightarrow> k | None \<Rightarrow> PStr ''molecule'') = PStr ''layered'' then
                    (if \<not> list_all (\<lambda>x. dg_status x \<in> {''ready'', ''submitted''})
                           (filter (\<lambda>x. dg_child x = dg_child edge) (et_edges T (ss_edges st)))
                     then st
                     else case se_layered V child payload (dg_parent edge) (ss_db st) of
                         (Inl exc, db) \<Rightarrow>
                           edge_blocked T edge (dep_reason ''SUBMIT_FAILED'' (Some exc)) (st\<lparr>ss_db := db\<rparr>)
                       | (Inr real_id, db) \<Rightarrow> layered_done V T child real_id db st)
                  else
                    (case se_submit V child payload (ss_db st) of
                        (Inl exc, db) \<Rightarrow>
                          edge_blocked T edge (dep_reason ''SUBMIT_FAILED'' (Some exc)) (st\<lparr>ss_db := db\<rparr>)
                      | (Inr (job_id, task), db) \<Rightarrow>
                          if truthy task then molecule_done V T edge child (the task) db st
                          else edge_blocked T edge
                            (dep_reason ''SUBMIT_FAILED'' (Some (''Missing task_id after submit for job_id='' @ job_id)))
                            (st\<lparr>ss_db := db\<rparr>))
              | _ \<Rightarrow> edge_blocked T edge (dep_reason ''MISSING_DEFERRED_PAYLOAD'' None) st)"

text \<open>\<open>ready_edges\<close> is the answer of \<open>list_by_status("ready", limit=max_submissions)\<close>.\<close>

definition submit_ready ::
    "'db submit_env \<Rightarrow> 'e edge_table \<Rightarrow> dep_edge list \<Rightarrow> 'db \<Rightarrow> 'e \<Rightarrow> ('db, 'e) submit_state" where
  "submit_ready V T ready_edges db e =
     foldl (submit_one V T)
       \<lparr>ss_db = db, ss_edges = e, ss_processed = [], ss_submitted = 0, ss_blocked = 0, ss_failed = 0,
        ss_log = []\<rparr> ready_edges"

section \<open>Lemmas on submission\<close>

definition open_status :: "dep_edge \<Rightarrow> bool" where
  "open_status x \<longleftrightarrow> dg_status x \<in> {''ready'', ''submitted''}"

definition same_edge :: "dep_edge \<Rightarrow> dep_edge \<Rightarrow> bool" where
  "same_edge x y \<longleftrightarrow> dg_parent x = dg_parent y \<and> dg_child x = dg_child y"

text \<open>The invariant of a batch over the edges \<open>init\<close> it started with: the edges of a child that
  was not handed over are open only if they were open at the start; children handed over
  as layered had all their edges open at the start.\<close>

definition batch_inv :: "'e edge_table \<Rightarrow> dep_edge list \<Rightarrow> ('db, 'e) submit_state \<Rightarrow> bool" where
  "batch_inv T init st \<longleftrightarrow>
     et_ok T (ss_edges st) \<and>
     map (\<lambda>x. (dg_parent x, dg_child x)) (et_edges T (ss_edges st)) = map (\<lambda>x. (dg_parent x, dg_child x)) init \<and>
     (\<forall>x\<in>set (et_edges T (ss_edges st)). dg_child x \<notin> set (ss_processed st) \<longrightarrow> open_status x \<longrightarrow>
        (\<exists>y\<in>set init. same_edge x y \<and> open_status y)) \<and>
     set (map fst (ss_log st)) = set (ss_processed st) \<and> distinct (map fst (ss_log st)) \<and>
     length (ss_log st) \<le> ss_submitted st \<and>
     (\<forall>c. (c, True) \<in> set (ss_log st) \<longrightarrow> (\<forall>y\<in>set init. dg_child y = c \<longrightarrow> open_status y))"

lemma upd_edges_keys [simp]:
  "map (\<lambda>x. (dg_parent x, dg_child x)) (upd_edges p c s r es) = map (\<lambda>x. (dg_parent x, dg_child x)) es"
  by (induction es) (auto simp: upd_edges_def)

lemma in_upd_edges:
  "x \<in> set (upd_edges p c s r es) \<Longrightarrow>
     (\<exists>y\<in>set es. same_edge x y \<and> (x = y \<or> (dg_parent y = p \<and> dg_child y = c)))"
  by (auto simp: upd_edges_def same_edge_def)

text \<open>Writing a status to an edge that was open at the start keeps the invariant.\<close>

lemma batch_inv_update:
  assumes laws: "edge_laws T" and inv: "batch_inv T init st"
    and edge: "edge \<in> set init" "open_status edge"
    and st': "ss_edges st' = et_update T (ss_edges st) (dg_parent edge) (dg_child edge) s r"
      "ss_processed st' = ss_processed st" "ss_log st' = ss_log st" "ss_submitted st \<le> ss_submitted st'"
  shows "batch_inv T init st'"
proof -
  let ?es = "et_edges T (ss_edges st)"
  have ok: "et_ok T (ss_edges st)" using inv by (simp add: batch_inv_def)
  have edges': "et_edges T (ss_edges st') = upd_edges (dg_parent edge) (dg_child edge) s r ?es"
    using laws ok by (simp add: st'(1) edge_laws_update)
  have "\<exists>y\<in>set init. same_edge x y \<and> open_status y"
    if x: "x \<in> set (et_edges T (ss_edges st'))" "dg_child x \<notin> set (ss_processed st)" "open_status x" for x
  proof -
    from x(1) obtain y where y: "y \<in> set ?es" "same_edge x y"
      "x = y \<or> (dg_parent y = dg_parent edge \<and> dg_child y = dg_child edge)"
      unfolding edges' using in_upd_edges by metis
    show ?thesis
    proof (cases "x = y")
      case True
      with x y inv show ?thesis by (auto simp: batch_inv_def)
    next
      case False
      with y have "same_edge x edge" by (auto simp: same_edge_def)
      with edge show ?thesis by blast
    qed
  qed
  with inv laws ok edges' st' show ?thesis
    by (auto simp: batch_inv_def edge_laws_update)
qed

lemma foldl_update_edges:
  assumes "edge_laws T" "et_ok T e"
  shows "et_ok T (foldl (\<lambda>e x. et_update T e (dg_parent x) (dg_child x) s r) e xs) \<and>
    map (\<lambda>x. (dg_parent x, dg_child x)) (et_edges T (foldl (\<lambda>e x. et_update T e (dg_parent x) (dg_child x) s r) e xs)) =
      map (\<lambda>x. (dg_parent x, dg_child x)) (et_edges T e) \<and>
    (\<forall>z\<in>set (et_edges T (foldl (\<lambda>e x. et_update T e (dg_parent x) (dg_child x) s r) e xs)).
       dg_child z \<notin> dg_child ` set xs \<longrightarrow> z \<in> set (et_edges T e))"
  using assms(2)
proof (induction xs arbitrary: e)
  case Nil
  then show ?case by simp
next
  case (Cons x xs)
  let ?e = "et_update T e (dg_parent x) (dg_child x) s r"
  have "et_ok T ?e" "et_edges T ?e = upd_edges (dg_parent x) (dg_child x) s r (et_edges T e)"
    using assms(1) Cons.prems by (simp_all add: edge_laws_update)
  moreover have "z \<in> set (et_edges T e)"
    if "z \<in> set (upd_edges (dg_parent x) (dg_child x) s r (et_edges T e))" "dg_child z \<noteq> dg_child x" for z
    using that by (auto simp: upd_edges_def split: if_splits)
  ultimately show ?case using Cons.IH [of ?e] by auto
qed

text \<open>All edges of a child that was not handed over are open now: they were open at the start.\<close>

lemma batch_inv_all_open:
  assumes inv: "batch_inv T init st" and laws: "edge_laws T"
    and c: "c \<notin> set (ss_processed st)"
    and all: "list_all open_status (filter (\<lambda>x. dg_child x = c) (et_edges T (ss_edges st)))"
    and y: "y \<in> set init" "dg_child y = c"
  shows "open_status y"
proof -
  let ?key = "\<lambda>x. (dg_parent x, dg_child x)"
  have keys: "map ?key (et_edges T (ss_edges st)) = map ?key init" and ok: "et_ok T (ss_edges st)"
    using inv by (simp_all add: batch_inv_def)
  have dist: "distinct (map ?key init)" using laws ok keys unfolding edge_laws_def by metis
  from y(1) have "?key y \<in> set (map ?key (et_edges T (ss_edges st)))" by (simp only: keys) auto
  then obtain x where x: "x \<in> set (et_edges T (ss_edges st))" "same_edge x y" by (auto simp: same_edge_def)
  with all y(2) have "open_status x" by (auto simp: list_all_iff same_edge_def)
  with x inv c y(2) obtain z where "z \<in> set init" "same_edge x z" "open_status z"
    by (auto simp: batch_inv_def same_edge_def)
  moreover have "z = y" if "z \<in> set init" "same_edge x z" for z
    using that x(2) y(1) dist by (auto simp: same_edge_def distinct_map dest: inj_onD)
  ultimately show ?thesis by blast
qed

lemma batch_inv_layered:
  assumes laws: "edge_laws T" and inv: "batch_inv T init st"
    and c: "er_exp_id child \<notin> set (ss_processed st)"
    and all: "list_all open_status (filter (\<lambda>x. dg_child x = er_exp_id child) (et_edges T (ss_edges st)))"
  shows "batch_inv T init (layered_done V T child real_id db st)"
proof -
  let ?xs = "filter (\<lambda>x. dg_child x = er_exp_id child) (et_edges T (ss_edges st))"
  let ?e = "foldl (\<lambda>e x. et_update T e (dg_parent x) (dg_child x) ''submitted'' None) (ss_edges st) ?xs"
  have ok: "et_ok T (ss_edges st)" using inv by (simp add: batch_inv_def)
  have new: "ss_edges (layered_done V T child real_id db st) = ?e"
    "ss_processed (layered_done V T child real_id db st) = er_exp_id child # ss_processed st"
    "ss_submitted (layered_done V T child real_id db st) = ss_submitted st + 1"
    "ss_log (layered_done V T child real_id db st) = ss_log st @ [(er_exp_id child, True)]"
    by (simp_all add: layered_done_def Let_def)
  have old: "z \<in> set (et_edges T (ss_edges st))"
    if z: "z \<in> set (et_edges T ?e)" "dg_child z \<noteq> er_exp_id child" for z
  proof -
    have "dg_child z \<notin> dg_child ` set ?xs" using z(2) by auto
    with foldl_update_edges [OF laws ok, where xs = ?xs] z(1) show ?thesis by blast
  qed
  have opened: "\<forall>y\<in>set init. dg_child y = er_exp_id child \<longrightarrow> open_status y"
    using batch_inv_all_open [OF inv laws c all] by blast
  have keys: "et_ok T ?e"
    "map (\<lambda>x. (dg_parent x, dg_child x)) (et_edges T ?e) = map (\<lambda>x. (dg_parent x, dg_child x)) init"
    using foldl_update_edges [OF laws ok, of "''submitted''" None ?xs] inv
    unfolding batch_inv_def by (blast, metis)
  have origin: "\<forall>x\<in>set (et_edges T ?e). dg_child x \<notin> set (er_exp_id child # ss_processed st) \<longrightarrow>
      open_status x \<longrightarrow> (\<exists>y\<in>set init. same_edge x y \<and> open_status y)"
  proof (intro ballI impI)
    fix x
    assume x: "x \<in> set (et_edges T ?e)" "dg_child x \<notin> set (er_exp_id child # ss_processed st)" "open_status x"
    from x(2) have ne: "dg_child x \<noteq> er_exp_id child" "dg_child x \<notin> set (ss_processed st)" by auto
    with old [OF x(1)] x(3) inv show "\<exists>y\<in>set init. same_edge x y \<and> open_status y"
      unfolding batch_inv_def by blast
  qed
  have logged: "set (map fst (ss_log st)) = set (ss_processed st)" "distinct (map fst (ss_log st))"
    "length (ss_log st) \<le> ss_submitted st"
    "\<And>k y. (k, True) \<in> set (ss_log st) \<Longrightarrow> y \<in> set init \<Longrightarrow> dg_child y = k \<Longrightarrow> open_status y"
    using inv unfolding batch_inv_def by blast+
  have "er_exp_id child \<notin> set (map fst (ss_log st))" using c logged(1) by simp
  then have log': "set (map fst (ss_log st @ [(er_exp_id child, True)])) = set (er_exp_id child # ss_processed st)"
    "distinct (map fst (ss_log st @ [(er_exp_id child, True)]))"
    "length (ss_log st @ [(er_exp_id child, True)]) \<le> ss_submitted st + 1"
    using logged(1-3) by auto
  have layered: "\<forall>k. (k, True) \<in> set (ss_log st @ [(er_exp_id child, True)]) \<longrightarrow>
      (\<forall>y\<in>set init. dg_child y = k \<longrightarrow> open_status y)"
  proof (intro allI impI ballI)
    fix k y
    assume k: "(k, True) \<in> set (ss_log st @ [(er_exp_id child, True)])" and y: "y \<in> set init" "dg_child y = k"
    from k have "(k, True) \<in> set (ss_log st) \<or> k = er_exp_id child" by auto
    with y logged(4) opened show "open_status y" by blast
  qed
  show ?thesis
    unfolding batch_inv_def new
    by (intro conjI) (fact keys origin log' layered)+
qed

lemma row_of_key: "row_of S db e = Some r \<Longrightarrow> er_exp_id r = e"
  unfolding row_of_def by (drule find_in_set) simp

lemma batch_inv_molecule:
  assumes laws: "edge_laws T" and inv: "batch_inv T init st"
    and edge: "edge \<in> set init" "open_status edge" "dg_child edge \<notin> set (ss_processed st)"
    and key: "er_exp_id child = dg_child edge"
  shows "batch_inv T init (molecule_done V T edge child task db st)"
proof -
  let ?st = "st\<lparr>ss_edges := et_update T (ss_edges st) (dg_parent edge) (dg_child edge) ''submitted'' None\<rparr>"
  have "batch_inv T init ?st"
    by (rule batch_inv_update [OF laws inv edge(1,2)]) simp_all
  then show ?thesis
    using edge(3) key by (auto simp: batch_inv_def molecule_done_def Let_def)
qed

lemma batch_inv_blocked:
  assumes "edge_laws T" "batch_inv T init st" "edge \<in> set init" "open_status edge"
  shows "batch_inv T init (edge_blocked T edge reason (st\<lparr>ss_db := db\<rparr>))"
    "batch_inv T init (edge_blocked T edge reason st)"
  by (rule batch_inv_update [OF assms]; simp add: edge_blocked_def)+

lemma submit_one_inv:
  assumes laws: "edge_laws T" and inv: "batch_inv T init st"
    and edge: "edge \<in> set init" "open_status edge"
  shows "batch_inv T init (submit_one V T st edge)"
proof (cases "dg_child edge \<in> set (ss_processed st)")
  case True
  then show ?thesis using inv by (simp add: submit_one_def)
next
  case fresh: False
  show ?thesis
  proof (cases "row_of (se_store V) (ss_db st) (dg_child edge)")
    case None
    then show ?thesis
      using fresh by (intro batch_inv_update [OF laws inv edge]) (simp_all add: submit_one_def)
  next
    case (Some child)
    note key = row_of_key [OF Some]
    note mol = batch_inv_molecule [OF laws inv edge fresh key]
    note lay = batch_inv_layered [OF laws inv, of child, unfolded key, OF fresh]
    note blk = batch_inv_blocked [OF laws inv edge]
    show ?thesis
    proof (cases "str_lower (er_status child) \<in> set ACTIVE_OR_DONE")
      case True
      with Some fresh show ?thesis
        by (intro batch_inv_update [OF laws inv edge]) (simp_all add: submit_one_def)
    next
      case False
      with Some fresh inv mol lay blk show ?thesis
        by (auto simp: submit_one_def list_all_iff open_status_def
            split: pyval.splits option.splits if_splits sum.splits prod.splits)
    qed
  qed
qed

lemma submit_ready_inv:
  assumes "edge_laws T" "et_ok T e" "\<forall>x\<in>set ready_edges. x \<in> set (et_edges T e) \<and> dg_status x = ''ready''"
  shows "batch_inv T (et_edges T e) (submit_ready V T ready_edges db e)"
proof -
  have "batch_inv T (et_edges T e) (foldl (submit_one V T) st xs)"
    if "batch_inv T (et_edges T e) st" "set xs \<subseteq> set ready_edges" for st xs
    using that
  proof (induction xs arbitrary: st)
    case (Cons x xs)
    then have "x \<in> set (et_edges T e)" "open_status x" using assms(3) by (auto simp: open_status_def)
    from submit_one_inv [OF assms(1) Cons.prems(1) this] Cons show ?case by simp
  qed simp
  moreover have "batch_inv T (et_edges T e) \<lparr>ss_db = db, ss_edges = e, ss_processed = [], ss_submitted = 0,
      ss_blocked = 0, ss_failed = 0, ss_log = []\<rparr>"
    unfolding batch_inv_def using assms(2) same_edge_def by auto
  ultimately show ?thesis unfolding submit_ready_def by blast
qed

section \<open>Properties\<close>

text \<open>
  Reconciling a parent either raises and leaves the edges alone, or rewrites exactly its
  edges with a child, marking an edge ready exactly when the parent is completed, the child
  exists and the submission gate passes; the counters add up to the edges rewritten.
\<close>

theorem reconcile_marks_ready_only_when_runnable:
  assumes "edge_laws T" "et_ok T e"
  shows "case reconcile_parent N T db parent e of
     (Inl _, e') \<Rightarrow> e' = e
   | (Inr c, e') \<Rightarrow> et_ok T e' \<and>
       map (\<lambda>x. (dg_parent x, dg_child x)) (et_edges T e') = map (\<lambda>x. (dg_parent x, dg_child x)) (et_edges T e) \<and>
       dc_ready c + dc_blocked c + dc_failed c =
         length (filter (\<lambda>x. dg_parent x = parent \<and> dg_child x \<noteq> []) (et_edges T e)) \<and>
       (\<forall>x\<in>set (et_edges T e'). if dg_parent x \<noteq> parent \<or> dg_child x = [] then x \<in> set (et_edges T e)
          else dg_status x \<in> {''ready'', ''blocked'', ''failed''} \<and>
            (dg_status x = ''ready'' \<longleftrightarrow>
               map_option (str_lower \<circ> er_status) (row_of (dn_store N) db parent) = Some ''completed'' \<and>
               (case row_of (dn_store N) db (dg_child x) of
                  None \<Rightarrow> False
                | Some row \<Rightarrow> check_budget (dn_gpus N) (er_run_tier row) (er_target_atoms row)
                    (count_status_rows (dn_store N) db ''running'')
                    (count_status_rows (dn_store N) db ''pending'' + count_status_rows (dn_store N) db ''queued'')
                      = Inr None)))"
proof (cases "row_of (dn_store N) db parent")
  case None
  then show ?thesis by (simp add: reconcile_parent_def)
next
  case (Some p)
  let ?ps = "str_lower (er_status p)"
  let ?xs = "filter (\<lambda>x. dg_parent x = parent) (et_edges T e)"
  let ?c0 = "\<lparr>dc_ready = 0, dc_blocked = 0, dc_failed = 0\<rparr>"
  show ?thesis
  proof (cases "reconcile_edges N T db parent ?ps ?xs (e, ?c0)")
    case (Inl err)
    with Some show ?thesis by (simp add: reconcile_parent_def)
  next
    case (Inr ec)
    obtain e' c where ec: "ec = (e', c)" by (cases ec)
    have eff: "et_ok T e'"
      "et_edges T e' = map (\<lambda>x. if dg_parent x = parent \<and> dg_child x \<in> dg_child ` set ?xs \<and> dg_child x \<noteq> []
          then new_edge N db ?ps x else x) (et_edges T e)"
      "dc_ready c + dc_blocked c + dc_failed c = length (filter (\<lambda>x. dg_child x \<noteq> []) ?xs)"
      and total: "\<And>x. x \<in> set ?xs \<Longrightarrow> dg_child x \<noteq> [] \<Longrightarrow> \<not> isl (edge_outcome N db ?ps (dg_child x))"
      using reconcile_edges_effect [OF assms Inr [unfolded ec]] by auto
    have edges': "et_edges T e' = map (\<lambda>x. if dg_parent x = parent \<and> dg_child x \<noteq> []
          then new_edge N db ?ps x else x) (et_edges T e)"
      unfolding eff(2) by (intro map_cong) auto
    have each: "dg_status (new_edge N db ?ps x) \<in> {''ready'', ''blocked'', ''failed''} \<and>
        (dg_status (new_edge N db ?ps x) = ''ready'' \<longleftrightarrow>
           (\<exists>r. edge_outcome N db ?ps (dg_child x) = Inr (''ready'', r)))"
      if x: "x \<in> set (et_edges T e)" "dg_parent x = parent" "dg_child x \<noteq> []" for x
    proof -
      obtain s r where out: "edge_outcome N db ?ps (dg_child x) = Inr (s, r)"
        using total [of x] x by (cases "edge_outcome N db ?ps (dg_child x)") auto
      with edge_outcome_status [OF out] show ?thesis by (auto simp: new_edge_def)
    qed
    have keys: "map (\<lambda>x. (dg_parent x, dg_child x)) (et_edges T e') = map (\<lambda>x. (dg_parent x, dg_child x)) (et_edges T e)"
      unfolding edges' by simp
    have count: "dc_ready c + dc_blocked c + dc_failed c =
        length (filter (\<lambda>x. dg_parent x = parent \<and> dg_child x \<noteq> []) (et_edges T e))"
      using eff(3) by (simp add: conj_commute)
    have run: "reconcile_parent N T db parent e = (Inr c, e')"
      using Some Inr ec by (simp add: reconcile_parent_def)
    show ?thesis
      unfolding run prod.case sum.case
    proof (intro conjI ballI)
      fix z assume "z \<in> set (et_edges T e')"
      then obtain x where x: "x \<in> set (et_edges T e)"
        and z: "z = (if dg_parent x = parent \<and> dg_child x \<noteq> [] then new_edge N db ?ps x else x)"
        unfolding edges' by auto
      show "if dg_parent z \<noteq> parent \<or> dg_child z = [] then z \<in> set (et_edges T e)
          else dg_status z \<in> {''ready'', ''blocked'', ''failed''} \<and>
            (dg_status z = ''ready'' \<longleftrightarrow>
               map_option (str_lower \<circ> er_status) (row_of (dn_store N) db parent) = Some ''completed'' \<and>
               (case row_of (dn_store N) db (dg_child z) of
                  None \<Rightarrow> False
                | Some row \<Rightarrow> check_budget (dn_gpus N) (er_run_tier row) (er_target_atoms row)
                    (count_status_rows (dn_store N) db ''running'')
                    (count_status_rows (dn_store N) db ''pending'' + count_status_rows (dn_store N) db ''queued'')
                      = Inr None))"
      proof (cases "dg_parent x = parent \<and> dg_child x \<noteq> []")
        case True
        with each [OF x] z show ?thesis
          by (simp add: Some edge_outcome_ready) (auto split: option.splits)
      next
        case False
        with x z show ?thesis by auto
      qed
    qed (use eff keys count in auto)
  qed
qed

definition demo_dep_rows :: "exp_row list" where
  "demo_dep_rows =
     [plain_row ''p1'' ''completed'' None None,
      (plain_row ''c1'' ''pending'' None None)\<lparr>er_metadata_json :=
         PDict [(''deferred_submission'', PDict [(''kind'', PStr ''molecule'')])]\<rparr>,
      plain_row ''p2'' ''running'' None None]"

definition demo_dep_edges :: "dep_edge list" where
  "demo_dep_edges =
     [\<lparr>dg_parent = ''p1'', dg_child = ''c1'', dg_status = ''submitted'', dg_reason = None\<rparr>,
      \<lparr>dg_parent = ''p2'', dg_child = ''c1'', dg_status = ''blocked'', dg_reason = None\<rparr>]"

definition demo_dep_env :: "exp_row list dep_env" where
  "demo_dep_env = \<lparr>dn_store = list_store, dn_gpus = [(0, None)], dn_text = (\<lambda>r. ''full'')\<rparr>"

text \<open>A submitted edge of a completed parent is ready again after the next reconciliation.\<close>

lemma reconcile_reopens_submitted_edge:
  "reconcile_parent demo_dep_env list_edges demo_dep_rows ''p1'' demo_dep_edges =
     (Inr \<lparr>dc_ready = 1, dc_blocked = 0, dc_failed = 0\<rparr>,
      [\<lparr>dg_parent = ''p1'', dg_child = ''c1'', dg_status = ''ready'', dg_reason = None\<rparr>,
       \<lparr>dg_parent = ''p2'', dg_child = ''c1'', dg_status = ''blocked'', dg_reason = None\<rparr>])"
  by code_simp

theorem reconcile_marks_ready_only_when_runnable_witness:
  "map_option (str_lower \<circ> er_status) (row_of list_store demo_dep_rows ''p1'') = Some ''completed''"
proof -
  have ok: "et_ok list_edges demo_dep_edges" by (simp add: demo_dep_edges_def)
  have store: "dn_store demo_dep_env = list_store" by (simp add: demo_dep_env_def)
  show ?thesis
    using reconcile_marks_ready_only_when_runnable [OF list_edges_laws ok, where N = demo_dep_env and db = demo_dep_rows and parent = "''p1''"]
    by (simp add: reconcile_reopens_submitted_edge store)
qed

text \<open>
  C22: One submission batch hands each child over at most once with success, and hands a
  layered child over only if all its dependency edges were ready or submitted when the batch
  began.
\<close>

theorem submit_batch_respects_dependencies:
  assumes "edge_laws T" "et_ok T e"
    and "\<forall>x\<in>set ready_edges. x \<in> set (et_edges T e) \<and> dg_status x = ''ready''"
  shows "distinct (map fst (ss_log (submit_ready V T ready_edges db e))) \<and>
    length (ss_log (submit_ready V T ready_edges db e)) \<le> ss_submitted (submit_ready V T ready_edges db e) \<and>
    (\<forall>c y. (c, True) \<in> set (ss_log (submit_ready V T ready_edges db e)) \<and> y \<in> set (et_edges T e) \<and>
       dg_child y = c \<longrightarrow> dg_status y = ''ready'' \<or> dg_status y = ''submitted'')"
  using submit_ready_inv [OF assms, of V db] by (auto simp: batch_inv_def open_status_def)

definition demo_submit_env :: "exp_row list submit_env" where
  "demo_submit_env =
     \<lparr>se_store = list_store, se_submit = (\<lambda>r p db. (Inr (''job-1'', Some ''task-1''), db)),
      se_layered = (\<lambda>r p parent db. (Inr ''real-1'', db))\<rparr>"

definition demo_ready_edges :: "dep_edge list" where
  "demo_ready_edges =
     [\<lparr>dg_parent = ''p1'', dg_child = ''c1'', dg_status = ''ready'', dg_reason = None\<rparr>,
      \<lparr>dg_parent = ''p2'', dg_child = ''c1'', dg_status = ''blocked'', dg_reason = None\<rparr>]"

text \<open>A molecule child is submitted although another of its edges is still blocked.\<close>

lemma molecule_child_ignores_blocked_edge:
  "ss_log (submit_ready demo_submit_env list_edges
      (filter (\<lambda>x. dg_status x = ''ready'') demo_ready_edges) demo_dep_rows demo_ready_edges) = [(''c1'', False)]"
  by code_simp

theorem submit_batch_respects_dependencies_witness:
  "length (ss_log (submit_ready demo_submit_env list_edges
      (filter (\<lambda>x. dg_status x = ''ready'') demo_ready_edges) demo_dep_rows demo_ready_edges)) = 1 \<and>
   1 \<le> ss_submitted (submit_ready demo_submit_env list_edges
      (filter (\<lambda>x. dg_status x = ''ready'') demo_ready_edges) demo_dep_rows demo_ready_edges)"
proof -
  have ok: "et_ok list_edges demo_ready_edges" by (simp add: demo_ready_edges_def)
  from submit_batch_respects_dependencies [OF list_edges_laws ok,
      where ready_edges = "filter (\<lambda>x. dg_status x = ''ready'') demo_ready_edges" and V = demo_submit_env
        and db = demo_dep_rows]
  show ?thesis by (simp add: molecule_child_ignores_blocked_edge)
qed

end
