(* ===== verification/JobSync.thy ===== *)
theory JobSync
  imports Budget
begin

text \<open>
  The job table of a Celery job manager, \<^verbatim>\<open>src/src/orchestrator/job_types.py\<close> and
  \<^verbatim>\<open>src/src/orchestrator/job_status_sync.py\<close>: the status of a job from the state of its
  task, one by one or in a batch read of the result backend, and the clean-up of finished
  jobs. The build and protocol requests a job carries are not looked at and left out. Times
  are seconds.
\<close>

section \<open>Jobs\<close>

text \<open>\<open>STARTED\<close> and \<open>RUNNING\<close> have the same value, so they are one member.\<close>

datatype celery_job_status = JPending | JQueued | JRunning | JSuccess | JFailure | JRevoked | JRetry

definition CELERY_STATUS_MAP :: "(string, celery_job_status) pydict" where
  "CELERY_STATUS_MAP =
     [(''PENDING'', JPending), (''RECEIVED'', JQueued), (''STARTED'', JRunning),
      (''RUNNING'', JRunning), (''BUILDING'', JRunning), (''PROGRESS'', JRunning),
      (''SUCCESS'', JSuccess), (''FAILURE'', JFailure), (''REVOKED'', JRevoked),
      (''REJECTED'', JFailure), (''RETRY'', JRetry)]"

record celery_job =
  cj_job_id :: string
  cj_task_id :: string
  cj_material_id :: string
  cj_status :: celery_job_status
  cj_priority :: job_priority
  cj_queue :: string
  cj_gpu_id :: "int option"
  cj_created_at :: int
  cj_started_at :: "int option"
  cj_completed_at :: "int option"
  cj_result_exp_id :: pyval
  cj_error_message :: pyval
  cj_retry_count :: int

text \<open>A new job: the defaults of the dataclass.\<close>

definition new_celery_job :: "string \<Rightarrow> string \<Rightarrow> string \<Rightarrow> int \<Rightarrow> celery_job" where
  "new_celery_job job_id task_id material_id now =
     \<lparr>cj_job_id = job_id, cj_task_id = task_id, cj_material_id = material_id, cj_status = JPending,
      cj_priority = MEDIUM, cj_queue = ''simulation'', cj_gpu_id = None, cj_created_at = now,
      cj_started_at = None, cj_completed_at = None, cj_result_exp_id = PNone,
      cj_error_message = PNone, cj_retry_count = 0\<rparr>"

section \<open>Status updates\<close>

definition take_result :: "(string \<times> pyval) list \<Rightarrow> celery_job \<Rightarrow> celery_job" where
  "take_result d job = job\<lparr>cj_result_exp_id := pv_get d ''exp_id'', cj_error_message := pv_get d ''error''\<rparr>"

text \<open>The new job, and whether a clean-up was scheduled for it.\<close>

definition update_job_status :: "int \<Rightarrow> string \<Rightarrow> pyval \<Rightarrow> celery_job \<Rightarrow> celery_job \<times> bool" where
  "update_job_status now state res job =
     (let new_status = dict_get CELERY_STATUS_MAP state JPending in
      if new_status \<noteq> cj_status job then
        let job = job\<lparr>cj_status := new_status\<rparr> in
        if new_status = JRunning \<and> cj_started_at job = None then (job\<lparr>cj_started_at := Some now\<rparr>, False)
        else if new_status = JSuccess \<or> new_status = JFailure then
          let job = job\<lparr>cj_completed_at := Some now\<rparr>;
              job = (if cj_started_at job = None then job\<lparr>cj_started_at := Some (cj_created_at job)\<rparr> else job);
              job = (if pv_truthy res then (case res of PDict d \<Rightarrow> take_result d job | _ \<Rightarrow> job) else job)
          in (job, True)
        else (job, False)
      else (job, False))"

text \<open>What the backend holds for a task: nothing, something that is not a JSON object, or an
  object.\<close>

datatype raw_result = RawNone | RawBad | RawObject "(string \<times> pyval) list"

text \<open>A dictionary lookup with any JSON value as the key; lists and objects cannot be hashed.\<close>

definition status_lookup :: "pyval \<Rightarrow> celery_job_status option" where
  "status_lookup v =
     (case v of PStr s \<Rightarrow> Some (dict_get CELERY_STATUS_MAP s JPending)
      | PList _ \<Rightarrow> None | PDict _ \<Rightarrow> None | _ \<Rightarrow> Some JPending)"

text \<open>The job after its entry was read, whether its status changed, and whether a clean-up was
  scheduled.\<close>

definition batch_update_one :: "int \<Rightarrow> raw_result \<Rightarrow> celery_job \<Rightarrow> celery_job \<times> bool \<times> bool" where
  "batch_update_one now raw job =
     (case raw of
        RawNone \<Rightarrow> (job, False, False)
      | RawBad \<Rightarrow> (job, False, False)
      | RawObject data \<Rightarrow>
          (case status_lookup (case map_of data ''status'' of None \<Rightarrow> PStr ''PENDING'' | Some v \<Rightarrow> v) of
             None \<Rightarrow> (job, False, False)
           | Some new_status \<Rightarrow>
               if new_status \<noteq> cj_status job then
                 let job = job\<lparr>cj_status := new_status\<rparr> in
                 if new_status = JRunning \<and> cj_started_at job = None
                 then (job\<lparr>cj_started_at := Some now\<rparr>, True, False)
                 else if new_status = JSuccess \<or> new_status = JFailure then
                   let job = job\<lparr>cj_completed_at := Some now\<rparr>;
                       job = (if cj_started_at job = None
                              then job\<lparr>cj_started_at := Some (cj_created_at job)\<rparr> else job);
                       job = (case pv_get data ''result'' of PDict d \<Rightarrow> take_result d job | _ \<Rightarrow> job)
                   in (job, True, True)
                 else (job, True, False)
               else (job, False, False)))"

text \<open>
  \<open>fetch\<close> is the batch read (\<open>None\<close> when it raises), \<open>ask\<close> the single-job query of the
  fallback: state and result of a task.
\<close>

definition batch_update_job_statuses ::
    "int \<Rightarrow> (string list \<Rightarrow> raw_result list option) \<Rightarrow> (string \<Rightarrow> string \<times> pyval)
      \<Rightarrow> (string, celery_job) pydict \<Rightarrow> (string, celery_job) pydict \<times> nat \<times> string list" where
  "batch_update_job_statuses now fetch ask jobs =
     (if jobs = [] then ([], 0, [])
      else case fetch (map (\<lambda>(k, j). ''celery-task-meta-'' @ cj_task_id j) jobs) of
          Some results \<Rightarrow>
            let out = map (\<lambda>((k, j), raw). (k, batch_update_one now raw j)) (zip jobs results)
            in (map (\<lambda>(k, j, u, c). (k, j)) out @ drop (length results) jobs,
                length (filter (\<lambda>(k, j, u, c). u) out),
                map (\<lambda>(k, j, u, c). cj_job_id j) (filter (\<lambda>(k, j, u, c). c) out))
        | None \<Rightarrow>
            let out = map (\<lambda>(k, j). (k, j, case ask (cj_task_id j) of (state, res) \<Rightarrow> update_job_status now state res j)) jobs
            in (map (\<lambda>(k, old, j, c). (k, j)) out,
                length (filter (\<lambda>(k, old, j, c). cj_status j \<noteq> cj_status old) out),
                map (\<lambda>(k, old, j, c). cj_job_id j) (filter (\<lambda>(k, old, j, c). c) out)))"

section \<open>Clean-up\<close>

definition finished :: "celery_job \<Rightarrow> bool" where
  "finished job \<longleftrightarrow> cj_status job \<in> {JSuccess, JFailure, JRevoked}"

text \<open>The callback of the timer that \<open>schedule_cleanup\<close> starts.\<close>

definition timer_cleanup :: "string \<Rightarrow> (string, celery_job) pydict \<Rightarrow> (string, celery_job) pydict" where
  "timer_cleanup job_id jobs =
     (case map_of jobs job_id of
        None \<Rightarrow> jobs
      | Some job \<Rightarrow> if finished job then AList.delete job_id jobs else jobs)"

definition stale :: "int \<Rightarrow> celery_job \<Rightarrow> bool" where
  "stale now job \<longleftrightarrow> finished job \<and> (case cj_completed_at job of None \<Rightarrow> False | Some t \<Rightarrow> now - t > 300)"

definition cleanup_old_jobs :: "int \<Rightarrow> (string, celery_job) pydict \<Rightarrow> (string, celery_job) pydict \<times> nat" where
  "cleanup_old_jobs now jobs =
     (filter (\<lambda>(k, j). \<not> stale now j) jobs, length (filter (\<lambda>(k, j). stale now j) jobs))"

section \<open>Lemmas\<close>

text \<open>A job that ended has both time stamps.\<close>

definition job_ok :: "celery_job \<Rightarrow> bool" where
  "job_ok job \<longleftrightarrow>
     (cj_status job = JSuccess \<or> cj_status job = JFailure \<longrightarrow>
        cj_started_at job \<noteq> None \<and> cj_completed_at job \<noteq> None)"

lemma take_result_simps [simp]:
  "cj_status (take_result d j) = cj_status j" "cj_started_at (take_result d j) = cj_started_at j"
  "cj_completed_at (take_result d j) = cj_completed_at j" "cj_job_id (take_result d j) = cj_job_id j"
  by (simp_all add: take_result_def)

lemma job_ok_update: "job_ok j \<Longrightarrow> job_ok (fst (update_job_status now state res j))"
  by (auto simp: job_ok_def update_job_status_def Let_def split: pyval.splits)

lemma job_ok_batch: "job_ok j \<Longrightarrow> job_ok (fst (batch_update_one now raw j))"
  by (auto simp: job_ok_def batch_update_one_def Let_def split: raw_result.splits option.splits pyval.splits)

text \<open>The batch reader and the single query agree on an entry that is there, up to an empty
  result object (which only the batch reader takes over).\<close>

definition entry :: "string \<Rightarrow> pyval \<Rightarrow> raw_result" where
  "entry state res = RawObject [(''status'', PStr state), (''result'', res)]"

lemma batch_one_single:
  assumes "res \<noteq> PDict []"
  shows "batch_update_one now (entry state res) j =
    (fst (update_job_status now state res j),
     cj_status (fst (update_job_status now state res j)) \<noteq> cj_status j,
     snd (update_job_status now state res j))"
proof -
  have "(if pv_truthy res then (case res of PDict d \<Rightarrow> take_result d k | _ \<Rightarrow> k) else k) =
      (case res of PDict d \<Rightarrow> take_result d k | _ \<Rightarrow> k)" for k
    using assms by (cases res) auto
  then show ?thesis
    by (simp add: batch_update_one_def update_job_status_def entry_def status_lookup_def pv_get_def Let_def)
      (auto split: pyval.splits)
qed

text \<open>A revoked job gets no completion time, so the periodic clean-up never removes it.\<close>

lemma revoked_job_never_stale:
  assumes "cj_completed_at j = None"
  shows "\<not> stale now' (fst (update_job_status now ''REVOKED'' res j))"
  using assms by (simp add: update_job_status_def CELERY_STATUS_MAP_def dict_get_def stale_def Let_def)

section \<open>Properties\<close>

text \<open>
  For jobs whose backend entries are all there and whose results are not empty objects,
  the batch read gives the same jobs, count and scheduled clean-ups as the single queries of
  the fallback.
\<close>

theorem batch_and_single_updates_agree:
  assumes "jobs \<noteq> []" and "\<forall>kj\<in>set jobs. snd (ask (cj_task_id (snd kj))) \<noteq> PDict []"
    and "fetch (map (\<lambda>(k, j). ''celery-task-meta-'' @ cj_task_id j) jobs) =
      Some (map (\<lambda>(k, j). case ask (cj_task_id j) of (state, res) \<Rightarrow> entry state res) jobs)"
  shows "batch_update_job_statuses now fetch ask jobs = batch_update_job_statuses now (\<lambda>_. None) ask jobs"
proof -
  let ?raw = "\<lambda>(k, j). case ask (cj_task_id j) of (state, res) \<Rightarrow> entry state res"
  have one: "batch_update_one now (?raw kj) (snd kj) =
      (let u = (case ask (cj_task_id (snd kj)) of (state, res) \<Rightarrow> update_job_status now state res (snd kj))
       in (fst u, cj_status (fst u) \<noteq> cj_status (snd kj), snd u))" if "kj \<in> set jobs" for kj
    using assms(2) that by (auto simp: Let_def batch_one_single split: prod.splits)
  have zip: "map (\<lambda>((k, j), raw). (k, batch_update_one now raw j)) (zip jobs (map ?raw jobs)) =
      map (\<lambda>(k, j). let u = (case ask (cj_task_id j) of (state, res) \<Rightarrow> update_job_status now state res j)
                    in (k, fst u, cj_status (fst u) \<noteq> cj_status j, snd u)) jobs"
    unfolding zip_map2 zip_same_conv_map map_map
    by (rule map_cong [OF refl]) (use one in \<open>auto simp: Let_def\<close>)
  have len: "drop (length (map ?raw jobs)) jobs = []" by simp
  show ?thesis
    using assms(1)
    unfolding batch_update_job_statuses_def assms(3) option.case Let_def zip len
    by (auto simp: filter_map o_def case_prod_beta Let_def)
qed

theorem batch_and_single_updates_agree_witness:
  "let ask = (\<lambda>t. (''SUCCESS'', PDict [(''exp_id'', PStr ''e1'')]));
       jobs = [(''j1'', new_celery_job ''j1'' ''t1'' ''m'' 5)]
   in batch_update_job_statuses 9 (\<lambda>ks. Some [entry ''SUCCESS'' (PDict [(''exp_id'', PStr ''e1'')])]) ask jobs =
      batch_update_job_statuses 9 (\<lambda>_. None) ask jobs"
  unfolding Let_def by (rule batch_and_single_updates_agree) simp_all

text \<open>
  Every update, batch or fallback, keeps the invariant that a job that succeeded or failed
  has a start time and a completion time.
\<close>

theorem ended_jobs_keep_their_times:
  assumes "\<forall>kj\<in>set jobs. job_ok (snd kj)"
  shows "\<forall>kj\<in>set (fst (batch_update_job_statuses now fetch ask jobs)). job_ok (snd kj)"
proof (cases "fetch (map (\<lambda>(k, j). ''celery-task-meta-'' @ cj_task_id j) jobs)")
  case None
  then show ?thesis
    using assms by (auto simp: batch_update_job_statuses_def Let_def case_prod_beta intro!: job_ok_update)
next
  case (Some results)
  have "job_ok (snd kj)" if "kj \<in> set (drop n jobs)" for kj n
    using assms that by (meson in_set_dropD)
  moreover have "job_ok (fst (batch_update_one now raw j))" if "((k, j), raw) \<in> set (zip jobs results)" for k j raw
    using assms set_zip_leftD [OF that] by (intro job_ok_batch) force
  ultimately show ?thesis
    using Some by (auto simp: batch_update_job_statuses_def Let_def case_prod_beta)
qed

theorem ended_jobs_keep_their_times_witness:
  "job_ok (new_celery_job ''j1'' ''t1'' ''m'' 5) \<and>
   (let jobs = fst (batch_update_job_statuses 9 (\<lambda>ks. Some [entry ''FAILURE'' PNone]) (\<lambda>t. ('''', PNone))
                      [(''j1'', new_celery_job ''j1'' ''t1'' ''m'' 5)])
    in map (cj_started_at \<circ> snd) jobs = [Some 5] \<and> job_ok (snd (hd jobs)))"
proof -
  let ?jobs = "[(''j1'', new_celery_job ''j1'' ''t1'' ''m'' 5)]"
  let ?new = "fst (batch_update_job_statuses 9 (\<lambda>ks. Some [entry ''FAILURE'' PNone]) (\<lambda>t. ('''', PNone)) ?jobs)"
  have ok: "job_ok (new_celery_job ''j1'' ''t1'' ''m'' 5)" by (simp add: job_ok_def new_celery_job_def)
  have times: "map (cj_started_at \<circ> snd) ?new = [Some 5]" by code_simp
  then have "hd ?new \<in> set ?new" by (cases ?new) auto
  with ended_jobs_keep_their_times [of ?jobs 9 "\<lambda>ks. Some [entry ''FAILURE'' PNone]" "\<lambda>t. ('''', PNone)"] ok times
  show ?thesis by (simp add: Let_def)
qed

end
