(* ===== verification/ExpLocks.thy ===== *)
theory ExpLocks
  imports ExperimentStore
begin

text \<open>
  The experiment locks in Redis, \<^verbatim>\<open>src/src/orchestrator/exp_lock_manager.py\<close>: clearing one
  lock and sweeping stale ones. The server is its key space, an association list from keys
  to owners; a failing server (the \<open>except\<close> branches: no lock cleared, counts so far) is
  not modelled.
\<close>

type_synonym redis = "(string, string) pydict"

definition ACTIVE_STATUSES :: "string list" where
  "ACTIVE_STATUSES = [''pending'', ''queued'', ''building'', ''ready'', ''running'', ''analyzing'']"

definition TERMINAL_STATUSES :: "string list" where
  "TERMINAL_STATUSES = [''completed'', ''failed'', ''cancelled'', ''timeout'']"

definition redis_delete :: "string \<Rightarrow> redis \<Rightarrow> bool \<times> redis" where
  "redis_delete k db = (dict_has db k, AList.delete k db)"

definition lock_key :: "string \<Rightarrow> string" where
  "lock_key exp_id = ''exp_lock:'' @ exp_id"

text \<open>The owners of an experiment: its attempt and its task, blanks stripped, empty ones dropped.\<close>

definition task_ids :: "exp_row \<Rightarrow> string list" where
  "task_ids r = filter (\<lambda>t. t \<noteq> [])
     [str_strip (or_default (er_active_attempt_id r) []), str_strip (or_default (er_celery_task_id r) [])]"

definition find_exp :: "'db store \<Rightarrow> 'db \<Rightarrow> string \<Rightarrow> exp_row option" where
  "find_exp S db e = List.find (\<lambda>r. er_exp_id r = e) (st_rows S db)"

definition clear_lock_for_experiment ::
    "'db store \<Rightarrow> 'db \<Rightarrow> string \<Rightarrow> bool \<Rightarrow> redis \<Rightarrow> bool \<times> redis" where
  "clear_lock_for_experiment S db exp_id force rd =
     (let key = lock_key exp_id in
      case map_of rd key of
        None \<Rightarrow> (False, rd)
      | Some owner \<Rightarrow>
          if force then redis_delete key rd
          else case find_exp S db exp_id of
              None \<Rightarrow> redis_delete key rd
            | Some r \<Rightarrow>
                if str_lower (er_status r) \<in> set ACTIVE_STATUSES \<and> owner \<in> set (task_ids r) then (False, rd)
                else redis_delete key rd)"

text \<open>\<open>key.split("exp_lock:", 1)[-1]\<close>: what follows the first occurrence.\<close>

fun after_first :: "string \<Rightarrow> string \<Rightarrow> string option" where
  "after_first sep [] = (if sep = [] then Some [] else None)"
| "after_first sep (c # s) =
     (if prefix sep (c # s) then Some (drop (length sep) (c # s)) else after_first sep s)"

definition key_exp_id :: "string \<Rightarrow> string" where
  "key_exp_id key = (case after_first ''exp_lock:'' key of None \<Rightarrow> key | Some e \<Rightarrow> e)"

record lock_report =
  lr_scanned :: nat
  lr_removed :: nat
  lr_kept :: nat

definition sweep_one :: "'db store \<Rightarrow> 'db \<Rightarrow> lock_report \<times> redis \<Rightarrow> string \<Rightarrow> lock_report \<times> redis" where
  "sweep_one S db acc key =
     (let (rep, rd) = acc;
          rep = rep\<lparr>lr_scanned := lr_scanned rep + 1\<rparr>;
          owner = (case map_of rd key of None \<Rightarrow> [] | Some t \<Rightarrow> t);
          remove = (case redis_delete key rd of
              (b, rd') \<Rightarrow> (rep\<lparr>lr_removed := lr_removed rep + (if b then 1 else 0)\<rparr>, rd'));
          keep = (rep\<lparr>lr_kept := lr_kept rep + 1\<rparr>, rd)
      in case find_exp S db (key_exp_id key) of
           None \<Rightarrow> remove
         | Some r \<Rightarrow>
             if str_lower (er_status r) \<in> set TERMINAL_STATUSES then remove
             else if str_lower (er_status r) \<in> set ACTIVE_STATUSES \<and> owner \<in> set (task_ids r) then keep
             else keep)"

text \<open>\<open>keys\<close> is what \<open>scan_iter(match="exp_lock:*")\<close> yields.\<close>

definition cleanup_stale_exp_locks ::
    "'db store \<Rightarrow> 'db \<Rightarrow> nat \<Rightarrow> string list \<Rightarrow> redis \<Rightarrow> lock_report \<times> redis" where
  "cleanup_stale_exp_locks S db max_keys keys rd =
     foldl (sweep_one S db) (\<lparr>lr_scanned = 0, lr_removed = 0, lr_kept = 0\<rparr>, rd) (take max_keys keys)"

section \<open>Lemmas\<close>

lemma map_of_redis_delete [simp]:
  "map_of (snd (redis_delete k db)) j = (if j = k then None else map_of db j)"
  by (simp add: redis_delete_def delete_conv')

lemma after_first_prefix: "after_first sep (sep @ s) = Some s"
proof (cases "sep @ s")
  case (Cons c t)
  then have "prefix sep (c # t)" "drop (length sep) (c # t) = s" by (metis prefixI, metis append_eq_conv_conj)
  with Cons show ?thesis by simp
qed simp

lemma key_exp_id_lock_key [simp]: "key_exp_id (lock_key e) = e"
  by (simp add: key_exp_id_def lock_key_def after_first_prefix del: append.simps)

text \<open>A lock is stale when its experiment has no row or has reached a terminal status.\<close>

definition stale_lock :: "'db store \<Rightarrow> 'db \<Rightarrow> string \<Rightarrow> bool" where
  "stale_lock S db key =
     (case find_exp S db (key_exp_id key) of
        None \<Rightarrow> True | Some r \<Rightarrow> str_lower (er_status r) \<in> set TERMINAL_STATUSES)"

lemma sweep_one_effect:
  "sweep_one S db (rep, rd) key =
     (if stale_lock S db key
      then (rep\<lparr>lr_scanned := lr_scanned rep + 1,
                lr_removed := lr_removed rep + (if dict_has rd key then 1 else 0)\<rparr>, AList.delete key rd)
      else (rep\<lparr>lr_scanned := lr_scanned rep + 1, lr_kept := lr_kept rep + 1\<rparr>, rd))"
  by (auto simp: sweep_one_def stale_lock_def redis_delete_def Let_def split: option.split)

lemma sweep_effect:
  assumes "distinct keys" "set keys \<subseteq> fst ` set rd"
  shows "map_of (snd (foldl (sweep_one S db) (rep, rd) keys)) k =
      (if k \<in> set keys \<and> stale_lock S db k then None else map_of rd k) \<and>
    lr_scanned (fst (foldl (sweep_one S db) (rep, rd) keys)) = lr_scanned rep + length keys \<and>
    lr_removed (fst (foldl (sweep_one S db) (rep, rd) keys)) =
      lr_removed rep + length (filter (stale_lock S db) keys) \<and>
    lr_kept (fst (foldl (sweep_one S db) (rep, rd) keys)) =
      lr_kept rep + length (filter (\<lambda>k. \<not> stale_lock S db k) keys)"
  using assms
proof (induction keys arbitrary: rep rd)
  case Nil
  then show ?case by simp
next
  case (Cons key keys)
  have has: "dict_has rd key"
    using Cons.prems(2) by (auto simp: dict_has_def map_of_eq_None_iff)
  show ?case
  proof (cases "stale_lock S db key")
    case True
    have "set keys \<subseteq> fst ` set (AList.delete key rd)"
      using Cons.prems by (auto simp: delete_keys [symmetric] image_iff simp flip: set_map)
        (force simp: AList.delete_eq)
    with Cons.IH [OF _ this] Cons.prems(1) True has show ?thesis
      by (auto simp: sweep_one_effect delete_conv')
  next
    case False
    with Cons.IH [of rd] Cons.prems show ?thesis by (auto simp: sweep_one_effect)
  qed
qed

section \<open>Properties\<close>

text \<open>
  Clearing the lock of an experiment removes an existing lock exactly when forced, when
  the experiment has no row, or unless it is active and the lock belongs to its attempt or
  task, and changes no other key.
\<close>

theorem clear_lock_exact:
  "case clear_lock_for_experiment S db e force rd of
     (b, rd') \<Rightarrow>
       b = (dict_has rd (lock_key e) \<and>
            (force \<or> (case find_exp S db e of None \<Rightarrow> True
                      | Some r \<Rightarrow> \<not> (str_lower (er_status r) \<in> set ACTIVE_STATUSES \<and>
                                    the (map_of rd (lock_key e)) \<in> set (task_ids r))))) \<and>
       map_of rd' = (if b then (map_of rd)(lock_key e := None) else map_of rd)"
  by (auto simp: clear_lock_for_experiment_def Let_def redis_delete_def dict_has_def delete_conv'
      split: option.splits)

text \<open>
  A sweep whose limit covers the scanned keys removes exactly the locks whose experiment
  has no row or a terminal status, keeps all others, and its counters add up.
\<close>

theorem sweep_removes_exactly_the_stale_locks:
  assumes "distinct keys" "set keys \<subseteq> fst ` set rd" "length keys \<le> max_keys"
  shows "case cleanup_stale_exp_locks S db max_keys keys rd of
     (rep, rd') \<Rightarrow>
       map_of rd' = (\<lambda>k. if k \<in> set keys \<and> stale_lock S db k then None else map_of rd k) \<and>
       lr_scanned rep = length keys \<and> lr_removed rep = length (filter (stale_lock S db) keys) \<and>
       lr_removed rep + lr_kept rep = lr_scanned rep"
proof -
  let ?rep = "\<lparr>lr_scanned = 0, lr_removed = 0, lr_kept = 0\<rparr>"
  have run: "cleanup_stale_exp_locks S db max_keys keys rd = foldl (sweep_one S db) (?rep, rd) keys"
    using assms(3) by (simp add: cleanup_stale_exp_locks_def)
  have "length (filter (stale_lock S db) keys) + length (filter (\<lambda>k. \<not> stale_lock S db k) keys) = length keys"
    by (rule sum_length_filter_compl)
  with sweep_effect [OF assms(1,2), of S db ?rep] show ?thesis
    unfolding run by (auto simp: case_prod_beta)
qed

theorem sweep_removes_exactly_the_stale_locks_witness:
  "let rows = [plain_row ''a'' ''running'' (Some ''t1'') None, plain_row ''b'' ''failed'' None None];
       rd = [(lock_key ''a'', ''t0''), (lock_key ''b'', ''t9''), (lock_key ''c'', ''t8'')]
   in map fst (snd (cleanup_stale_exp_locks list_store rows 500 (map fst rd) rd)) = [lock_key ''a''] \<and>
      lr_removed (fst (cleanup_stale_exp_locks list_store rows 500 (map fst rd) rd)) = 2"
proof -
  let ?rows = "[plain_row ''a'' ''running'' (Some ''t1'') None, plain_row ''b'' ''failed'' None None]"
  let ?rd = "[(lock_key ''a'', ''t0''), (lock_key ''b'', ''t9''), (lock_key ''c'', ''t8'')]"
  have "map fst (snd (cleanup_stale_exp_locks list_store ?rows 500 (map fst ?rd) ?rd)) = [lock_key ''a'']"
    by code_simp
  moreover have "length (filter (stale_lock list_store ?rows) (map fst ?rd)) = 2" by code_simp
  moreover have "distinct (map fst ?rd)" by (simp add: lock_key_def)
  ultimately show ?thesis
    using sweep_removes_exactly_the_stale_locks [of "map fst ?rd" ?rd 500 list_store ?rows]
    by (auto simp: Let_def case_prod_beta)
qed

end
