(* ===== verification/TypingRouter.thy ===== *)
theory TypingRouter
  imports COMID_Prelude
begin

text \<open>
  The routing of a molecule to a force-field assignment strategy,
  \<^verbatim>\<open>src/src/forcefield/typing_router.py\<close>. Additive definitions and assignment records are
  JSON objects. The texts of the reasons are constructors. Two things are arguments: \<open>shw\<close>,
  what \<open>str\<close> makes of a value that is not a string, and \<open>ionic_artifact\<close>, whether the
  artifact file of the molecule exists.
\<close>

section \<open>Strategies and decisions\<close>

datatype typing_strategy =
  ORGANIC_CURATED_ARTIFACT | INORGANIC_PROFILE | IONIC_PROFILE | WATER_MODEL | BLOCKED

definition strategy_value :: "typing_strategy \<Rightarrow> string" where
  "strategy_value s = (case s of ORGANIC_CURATED_ARTIFACT \<Rightarrow> ''organic_curated_artifact''
     | INORGANIC_PROFILE \<Rightarrow> ''inorganic_profile'' | IONIC_PROFILE \<Rightarrow> ''ionic_profile''
     | WATER_MODEL \<Rightarrow> ''water_model'' | BLOCKED \<Rightarrow> ''blocked'')"

definition LEGACY_ROUTES :: "string list" where
  "LEGACY_ROUTES = [''organic_rdkit_legacy'', ''organic_typing'', ''organic_opls_artifact'']"

text \<open>\<open>TypingStrategy(v)\<close>; \<open>None\<close> is the ValueError.\<close>

definition strategy_of_value :: "string \<Rightarrow> typing_strategy option" where
  "strategy_of_value v =
     (case List.find (\<lambda>s. strategy_value s = v)
         [ORGANIC_CURATED_ARTIFACT, INORGANIC_PROFILE, IONIC_PROFILE, WATER_MODEL, BLOCKED] of
        Some s \<Rightarrow> Some s
      | None \<Rightarrow> if v \<in> set LEGACY_ROUTES then Some BLOCKED else None)"

datatype blocked_reason =
    UnknownRoute string | RetiredRoute string | IonicPlaceholder | InorganicPlaceholder string
  | OtherPlaceholder string | ExplicitlyBlocked | PassthroughMode | MissingSourceId string
  | MissingProfileId | IonicArtifactMissing | EmptyRoute | NoAssignment | AdditivePlaceholder
  | MissingMode | AdditiveWithoutAssignment

record typing_decision =
  td_strategy :: typing_strategy
  td_blocked_reason :: "blocked_reason option"
  td_profile_id :: "string option"
  td_source_id :: "string option"
  td_status :: pyval

definition VALID_ROUTES :: "string list" where
  "VALID_ROUTES = [''organic_curated_artifact'', ''inorganic_profile'', ''ionic_profile'', ''water_model'', ''blocked'']"

definition RETIRED_ROUTES :: "string list" where
  "RETIRED_ROUTES = [''organic_rdkit_legacy'', ''organic_opls_artifact'']"

section \<open>The router\<close>

type_synonym json_object = "(string \<times> pyval) list"

text \<open>\<open>str(v)\<close>, \<open>str(v or "")\<close> and \<open>str(v) if v else None\<close>\<close>

definition py_str_of :: "(pyval \<Rightarrow> string) \<Rightarrow> pyval \<Rightarrow> string" where
  "py_str_of shw v = (case v of PStr s \<Rightarrow> s | _ \<Rightarrow> shw v)"

definition text_or_empty :: "(pyval \<Rightarrow> string) \<Rightarrow> pyval \<Rightarrow> string" where
  "text_or_empty shw v = (if pv_truthy v then py_str_of shw v else [])"

definition text_if_truthy :: "(pyval \<Rightarrow> string) \<Rightarrow> pyval \<Rightarrow> string option" where
  "text_if_truthy shw v = (if pv_truthy v then Some (py_str_of shw v) else None)"

text \<open>\<open>s or None\<close> and \<open>s or d\<close> as status values\<close>

definition status_or :: "string \<Rightarrow> pyval \<Rightarrow> pyval" where
  "status_or s d = (if s = [] then d else PStr s)"

datatype attribute_error = AttributeError

text \<open>\<open>additive_def.get("parameterization") or {}\<close>; a truthy value that is no object has no \<open>get\<close>.\<close>

definition parameterization :: "json_object \<Rightarrow> (attribute_error, json_object) result" where
  "parameterization d =
     (case pv_get d ''parameterization'' of
        PDict p \<Rightarrow> Inr p
      | v \<Rightarrow> if pv_truthy v then Inl AttributeError else Inr [])"

definition blocked :: "blocked_reason \<Rightarrow> string option \<Rightarrow> string option \<Rightarrow> pyval \<Rightarrow> typing_decision" where
  "blocked why profile source status =
     \<lparr>td_strategy = BLOCKED, td_blocked_reason = Some why, td_profile_id = profile,
      td_source_id = source, td_status = status\<rparr>"

definition accepted :: "typing_strategy \<Rightarrow> string option \<Rightarrow> string option \<Rightarrow> pyval \<Rightarrow> typing_decision" where
  "accepted s profile source status =
     \<lparr>td_strategy = s, td_blocked_reason = None, td_profile_id = profile,
      td_source_id = source, td_status = status\<rparr>"

text \<open>The parameterization mode the organic route looks at; it checks that it has an object.\<close>

definition passthrough_mode :: "(pyval \<Rightarrow> string) \<Rightarrow> json_object option \<Rightarrow> string" where
  "passthrough_mode shw additive_def =
     (case additive_def of
        None \<Rightarrow> []
      | Some d \<Rightarrow> (case pv_get d ''parameterization'' of
            PDict p \<Rightarrow> text_or_empty shw (pv_get p ''mode'') | _ \<Rightarrow> []))"

text \<open>Branch 1: the assignment record is there.\<close>

definition route_assignment ::
    "(pyval \<Rightarrow> string) \<Rightarrow> (string \<Rightarrow> bool) \<Rightarrow> string \<Rightarrow> json_object option \<Rightarrow> json_object
      \<Rightarrow> (attribute_error, typing_decision) result" where
  "route_assignment shw ionic_artifact mol_id additive_def ff =
     (let route = str_strip (text_or_empty shw (pv_get ff ''route''));
          status = str_strip (text_or_empty shw (pv_get ff ''status''));
          source = text_if_truthy shw (pv_get ff ''source_id'');
          profile = text_if_truthy shw (pv_get ff ''profile_id'')
      in if route \<noteq> [] \<and> route \<notin> set VALID_ROUTES \<and> route \<notin> set RETIRED_ROUTES
         then Inr (blocked (UnknownRoute route) None None (status_or status PNone))
         else if route \<in> set RETIRED_ROUTES
         then Inr (blocked (RetiredRoute route) None source (status_or status PNone))
         else if status = ''blocked_placeholder'' \<and> route = ''ionic_profile''
         then Inr (blocked IonicPlaceholder (if truthy profile then profile else source) source (PStr status))
         else if status = ''blocked_placeholder'' \<and> route = ''inorganic_profile''
         then Inr (blocked (InorganicPlaceholder (or_default source ''unknown'')) source source (PStr status))
         else if status = ''blocked_placeholder'' \<and> route \<noteq> ''organic_curated_artifact''
         then Inr (blocked (OtherPlaceholder (or_default (Some route) ''unknown'')) source source (PStr status))
         else if route = ''blocked''
         then Inr (blocked ExplicitlyBlocked None None (status_or status PNone))
         else if route = ''organic_curated_artifact'' then
           (if passthrough_mode shw additive_def = ''organic_gaff2_passthrough''
            then Inr (blocked PassthroughMode None source (status_or status PNone))
            else if \<not> truthy source
            then Inr (blocked (MissingSourceId route) None None (status_or status PNone))
            else Inr (accepted ORGANIC_CURATED_ARTIFACT None source (status_or status (PStr ''active''))))
         else if route = ''inorganic_profile'' then
           (case (if source = None then
                    (case additive_def of
                       None \<Rightarrow> Inr None
                     | Some d \<Rightarrow> map_sum id (\<lambda>p. text_if_truthy shw (pv_get p ''profile_id'')) (parameterization d))
                  else Inr source) of
              Inl e \<Rightarrow> Inl e
            | Inr None \<Rightarrow> Inr (blocked MissingProfileId None None (status_or status PNone))
            | Inr (Some p) \<Rightarrow> Inr (accepted INORGANIC_PROFILE (Some p) (Some p) (status_or status (PStr ''active''))))
         else if route = ''water_model''
         then Inr (accepted WATER_MODEL None (Some (or_default source mol_id)) (status_or status (PStr ''active'')))
         else if route = ''ionic_profile'' then
           (if ionic_artifact mol_id \<and> status = ''active''
            then Inr (accepted IONIC_PROFILE (Some (or_default profile (or_default source mol_id)))
                   (Some (or_default source mol_id)) (PStr status))
            else Inr (blocked IonicArtifactMissing None source (status_or status PNone)))
         else Inr (blocked EmptyRoute None source (status_or status PNone)))"

text \<open>Branch 2: no assignment record.\<close>

definition pv_or :: "pyval \<Rightarrow> pyval \<Rightarrow> pyval" where
  "pv_or v d = (if pv_truthy v then v else d)"

definition route_additive ::
    "(pyval \<Rightarrow> string) \<Rightarrow> json_object option \<Rightarrow> (attribute_error, typing_decision) result" where
  "route_additive shw additive_def =
     (case additive_def of
        None \<Rightarrow> Inr (blocked NoAssignment None None PNone)
      | Some d \<Rightarrow>
          (case parameterization d of
             Inl e \<Rightarrow> Inl e
           | Inr param \<Rightarrow>
               let mode = pv_get param ''mode'';
                   status = pv_get param ''status'';
                   profile = text_if_truthy shw (pv_get param ''profile_id'');
                   category = (case map_of d ''category'' of None \<Rightarrow> PStr ''organic'' | Some v \<Rightarrow> v)
               in Inr (if status = PStr ''blocked_placeholder''
                       then blocked AdditivePlaceholder profile profile status
                       else if mode = PStr ''inorganic_profile''
                       then accepted INORGANIC_PROFILE profile profile (pv_or status (PStr ''active''))
                       else if category = PStr ''inorganic'' \<and> mode = PNone
                       then blocked MissingMode None None PNone
                       else blocked AdditiveWithoutAssignment None None (pv_or status PNone))))"

definition resolve_typing_strategy ::
    "(pyval \<Rightarrow> string) \<Rightarrow> (string \<Rightarrow> bool) \<Rightarrow> string \<Rightarrow> json_object option \<Rightarrow> json_object option
      \<Rightarrow> (attribute_error, typing_decision) result" where
  "resolve_typing_strategy shw ionic_artifact mol_id additive_def ff_assignment =
     (case ff_assignment of
        Some ff \<Rightarrow> route_assignment shw ionic_artifact mol_id additive_def ff
      | None \<Rightarrow> route_additive shw additive_def)"

section \<open>Lemmas\<close>

named_theorems routing \<open>the fields of a decision\<close>

lemma decision_fields [routing]:
  "td_strategy (blocked w p s t) = BLOCKED" "td_blocked_reason (blocked w p s t) = Some w"
  "td_profile_id (blocked w p s t) = p" "td_source_id (blocked w p s t) = s" "td_status (blocked w p s t) = t"
  "td_strategy (accepted st p s t) = st" "td_blocked_reason (accepted st p s t) = None"
  "td_profile_id (accepted st p s t) = p" "td_source_id (accepted st p s t) = s"
  "td_status (accepted st p s t) = t"
  by (simp_all add: blocked_def accepted_def)

lemma truthy_Some: "truthy x \<longleftrightarrow> (\<exists>s. x = Some s \<and> s \<noteq> [])"
  by (auto simp: truthy_def split: option.splits)

text \<open>The route an assignment record names.\<close>

definition ff_route :: "(pyval \<Rightarrow> string) \<Rightarrow> json_object \<Rightarrow> string" where
  "ff_route shw ff = str_strip (text_or_empty shw (pv_get ff ''route''))"

definition ff_status :: "(pyval \<Rightarrow> string) \<Rightarrow> json_object \<Rightarrow> string" where
  "ff_status shw ff = str_strip (text_or_empty shw (pv_get ff ''status''))"

lemma route_assignment_accepts:
  assumes "route_assignment shw art m a ff = Inr d" "td_strategy d \<noteq> BLOCKED"
  shows "td_blocked_reason d = None \<and> strategy_value (td_strategy d) = ff_route shw ff \<and>
    (td_strategy d \<noteq> ORGANIC_CURATED_ARTIFACT \<longrightarrow> ff_status shw ff \<noteq> ''blocked_placeholder'') \<and>
    (td_strategy d = IONIC_PROFILE \<longrightarrow> art m \<and> ff_status shw ff = ''active'') \<and>
    (td_strategy d = ORGANIC_CURATED_ARTIFACT \<longrightarrow> truthy (td_source_id d)) \<and>
    (td_strategy d = INORGANIC_PROFILE \<longrightarrow> td_profile_id d \<noteq> None) \<and> td_source_id d \<noteq> None"
  using assms
  by (auto simp: route_assignment_def Let_def routing ff_route_def ff_status_def strategy_value_def
      truthy_Some RETIRED_ROUTES_def split: if_splits sum.splits option.splits)

lemma route_assignment_blocks:
  "route_assignment shw art m a ff = Inr d \<Longrightarrow> td_strategy d = BLOCKED \<longleftrightarrow> td_blocked_reason d \<noteq> None"
  by (auto simp: route_assignment_def Let_def routing split: if_splits sum.splits option.splits)

lemma route_additive_cases:
  assumes "route_additive shw a = Inr d"
  shows "(td_strategy d = BLOCKED \<and> td_blocked_reason d \<noteq> None) \<or>
    (td_strategy d = INORGANIC_PROFILE \<and> td_blocked_reason d = None \<and>
     (\<exists>x p. a = Some x \<and> parameterization x = Inr p \<and> pv_get p ''mode'' = PStr ''inorganic_profile'' \<and>
        pv_get p ''status'' \<noteq> PStr ''blocked_placeholder''))"
  using assms
  by (auto simp: route_additive_def Let_def routing split: if_splits sum.splits option.splits)

text \<open>A placeholder status does not stop the organic route.\<close>

lemma organic_placeholder_accepted:
  "resolve_typing_strategy shw art ''SA-Squalane'' None
     (Some [(''route'', PStr ''organic_curated_artifact''), (''status'', PStr ''blocked_placeholder''),
            (''source_id'', PStr ''SA-Squalane'')]) =
   Inr (accepted ORGANIC_CURATED_ARTIFACT None (Some ''SA-Squalane'') (PStr ''blocked_placeholder''))"
  by code_simp

text \<open>Without an assignment record an inorganic additive is accepted with no profile at all.\<close>

lemma inorganic_without_profile_accepted:
  "resolve_typing_strategy shw art ''Silica''
     (Some [(''parameterization'', PDict [(''mode'', PStr ''inorganic_profile'')])]) None =
   Inr (accepted INORGANIC_PROFILE None None (PStr ''active''))"
  by code_simp

lemma strategy_value_inj: "strategy_of_value (strategy_value s) = Some s"
  by (cases s) (simp_all add: strategy_of_value_def strategy_value_def)

section \<open>Properties\<close>

text \<open>
  A routing decision is blocked exactly when it gives a reason; an assignment record is
  accepted only under the strategy its route names, with a source, past a placeholder status
  only for the organic route, and for ions only with an artifact and active status; without a
  record only an inorganic additive is accepted.
\<close>

theorem router_fails_closed:
  assumes "resolve_typing_strategy shw art m a ff = Inr d"
  shows "(td_strategy d = BLOCKED \<longleftrightarrow> td_blocked_reason d \<noteq> None) \<and>
    (td_strategy d \<noteq> BLOCKED \<longrightarrow>
      (case ff of
         None \<Rightarrow> td_strategy d = INORGANIC_PROFILE \<and> a \<noteq> None
       | Some f \<Rightarrow> strategy_value (td_strategy d) = ff_route shw f \<and> td_source_id d \<noteq> None \<and>
           (ff_status shw f = ''blocked_placeholder'' \<longrightarrow> td_strategy d = ORGANIC_CURATED_ARTIFACT) \<and>
           (td_strategy d = IONIC_PROFILE \<longrightarrow> art m \<and> ff_status shw f = ''active'') \<and>
           (td_strategy d = INORGANIC_PROFILE \<longrightarrow> td_profile_id d \<noteq> None)))"
proof (cases ff)
  case None
  with assms route_additive_cases [of shw a d] show ?thesis
    by (auto simp: resolve_typing_strategy_def)
next
  case (Some f)
  with assms have "route_assignment shw art m a f = Inr d" by (simp add: resolve_typing_strategy_def)
  with Some route_assignment_accepts [OF this] route_assignment_blocks [OF this] show ?thesis by auto
qed

theorem router_fails_closed_witness:
  "\<exists>d. resolve_typing_strategy (\<lambda>_. []) (\<lambda>m. m = ''Na'') ''Na'' None
     (Some [(''route'', PStr ''ionic_profile''), (''status'', PStr '' active '')]) = Inr d \<and>
   td_strategy d = IONIC_PROFILE \<and> td_source_id d \<noteq> None"
proof -
  let ?ff = "[(''route'', PStr ''ionic_profile''), (''status'', PStr '' active '')]"
  have run: "resolve_typing_strategy (\<lambda>_. []) (\<lambda>m. m = ''Na'') ''Na'' None (Some ?ff) =
      Inr (accepted IONIC_PROFILE (Some ''Na'') (Some ''Na'') (PStr ''active''))"
    by code_simp
  from router_fails_closed [OF this] run show ?thesis by (simp add: routing)
qed

text \<open>Stale route values.\<close>

theorem stale_route_values_are_blocked:
  "(strategy_of_value v = Some s \<longleftrightarrow>
      v = strategy_value s \<or> s = BLOCKED \<and> v \<in> set LEGACY_ROUTES) \<and>
   (str_strip v \<in> set RETIRED_ROUTES \<longleftrightarrow>
      map_sum id td_blocked_reason
        (resolve_typing_strategy shw art m a (Some [(''route'', PStr v)])) = Inr (Some (RetiredRoute (str_strip v))))"
proof
  show "strategy_of_value v = Some s \<longleftrightarrow> v = strategy_value s \<or> s = BLOCKED \<and> v \<in> set LEGACY_ROUTES"
    by (cases s) (auto simp: strategy_of_value_def strategy_value_def LEGACY_ROUTES_def)
  have "text_or_empty shw (PStr v) = v" by (simp add: text_or_empty_def py_str_of_def)
  then show "str_strip v \<in> set RETIRED_ROUTES \<longleftrightarrow> map_sum id td_blocked_reason
        (resolve_typing_strategy shw art m a (Some [(''route'', PStr v)])) = Inr (Some (RetiredRoute (str_strip v)))"
    by (auto simp: resolve_typing_strategy_def route_assignment_def pv_get_def Let_def routing
        split: option.splits sum.splits)
qed

end
