(* ===== verification/PyNumbers.thy ===== *)
theory PyNumbers
  imports COMID_Prelude
begin

text \<open>
  The number formatting and parsing of Python that the code uses: \<open>int(s)\<close>, \<open>float(s)\<close>,
  \<open>str(x)\<close>, \<open>f"{x:.1f}"\<close>, \<open>round\<close>, \<open>int(x)\<close> and \<open>str.replace\<close>, over rationals. Digit
  separators and the words for infinity and NaN are outside the model; \<open>str(x)\<close> is modelled
  for numbers of at most 16 decimals that Python prints without an exponent.
\<close>

section \<open>Rounding\<close>

text \<open>\<open>round\<close>: to the nearest integer, ties to the even one.\<close>

definition py_round :: "pyfloat \<Rightarrow> int" where
  "py_round x =
     (let f = \<lfloor>x\<rfloor>; d = x - of_int f in
      if d < 1/2 then f else if d > 1/2 then f + 1 else if even f then f else f + 1)"

text \<open>\<open>int\<close>: towards zero.\<close>

definition py_int :: "pyfloat \<Rightarrow> int" where
  "py_int x = (if x \<ge> 0 then \<lfloor>x\<rfloor> else \<lceil>x\<rceil>)"

lemma py_int_nonneg: "0 \<le> x \<Longrightarrow> 0 \<le> py_int x"
  by (simp add: py_int_def)

lemma py_int_of_int [simp]: "py_int (of_int n) = n"
  by (simp add: py_int_def)

lemma py_round_of_int [simp]: "py_round (of_int n) = n"
  by (simp add: py_round_def)

lemma py_round_near: "\<bar>x - of_int (py_round x)\<bar> \<le> 1/2"
proof -
  have "of_int \<lfloor>x\<rfloor> \<le> x" "x < of_int \<lfloor>x\<rfloor> + 1" by linarith+
  then show ?thesis by (auto simp: py_round_def Let_def abs_le_iff)
qed

section \<open>Digits\<close>

definition is_digit :: "char \<Rightarrow> bool" where
  "is_digit c \<longleftrightarrow> (let n = (of_char c :: nat) in 48 \<le> n \<and> n \<le> 57)"

definition digit :: "nat \<Rightarrow> char" where
  "digit n = char_of (48 + n)"

definition digit_value :: "char \<Rightarrow> nat" where
  "digit_value c = of_char c - 48"

definition digits_value :: "string \<Rightarrow> nat" where
  "digits_value s = foldl (\<lambda>n c. 10 * n + digit_value c) 0 s"

fun show_nat :: "nat \<Rightarrow> string" where
  "show_nat n = (if n < 10 then [digit n] else show_nat (n div 10) @ [digit (n mod 10)])"

fun show_padded :: "nat \<Rightarrow> nat \<Rightarrow> string" where
  "show_padded 0 m = []"
| "show_padded (Suc k) m = show_padded k (m div 10) @ [digit (m mod 10)]"

lemma digit_facts [simp]:
  "n < 10 \<Longrightarrow> is_digit (digit n)" "n < 10 \<Longrightarrow> digit_value (digit n) = n"
  by (auto simp: is_digit_def digit_def digit_value_def Let_def)

lemma digits_value_snoc [simp]: "digits_value (s @ [c]) = 10 * digits_value s + digit_value c"
  by (simp add: digits_value_def)

lemma digits_value_Nil [simp]: "digits_value [] = 0"
  by (simp add: digits_value_def)

lemma digits_value_append: "digits_value (s @ t) = digits_value s * 10 ^ length t + digits_value t"
  by (induction t rule: rev_induct) (auto simp: algebra_simps simp flip: append_assoc)

declare show_nat.simps [simp del]

lemma show_nat_cases:
  "n < 10 \<Longrightarrow> show_nat n = [digit n]"
  "10 \<le> n \<Longrightarrow> show_nat n = show_nat (n div 10) @ [digit (n mod 10)]"
  by (simp_all add: show_nat.simps [of n])

lemma digits_value_single [simp]: "digits_value [c] = digit_value c"
  by (simp add: digits_value_def)

lemma show_nat_value [simp]: "digits_value (show_nat n) = n"
proof (induction n rule: show_nat.induct)
  case (1 n)
  then show ?case by (cases "n < 10") (simp_all add: show_nat_cases)
qed

lemma show_nat_digits [simp]: "list_all is_digit (show_nat n)" "show_nat n \<noteq> []"
proof (induction n rule: show_nat.induct)
  case (1 n)
  case 1
  then show ?case using \<open>\<not> n < 10 \<Longrightarrow> list_all is_digit (show_nat (n div 10))\<close>
    by (cases "n < 10") (simp_all add: show_nat_cases)
next
  case (1 n)
  case 2
  then show ?case by (cases "n < 10") (simp_all add: show_nat_cases)
qed

lemma show_padded_value: "digits_value (show_padded k m) = m mod 10 ^ k"
proof (induction k arbitrary: m)
  case (Suc k)
  have "m mod (10 * 10 ^ k) = 10 * (m div 10 mod 10 ^ k) + m mod 10"
    by (rule mod_mult2_eq)
  with Suc show ?case by simp
qed simp

lemma show_padded_facts [simp]:
  "list_all is_digit (show_padded k m)" "length (show_padded k m) = k"
  by (induction k arbitrary: m) simp_all

declare show_padded_value [simp]

section \<open>Replacement\<close>

text \<open>\<open>s.replace(old, new)\<close> for a non-empty \<open>old\<close>.\<close>

function str_replace :: "string \<Rightarrow> string \<Rightarrow> string \<Rightarrow> string" where
  "str_replace old new [] = []"
| "str_replace old new (c # s) =
     (if old \<noteq> [] \<and> prefix old (c # s) then new @ str_replace old new (drop (length old) (c # s))
      else c # str_replace old new s)"
  by pat_completeness auto
termination
  by (relation "measure (\<lambda>(old, new, s). length s)") auto

declare str_replace.simps(2) [simp del]

lemma str_replace_skip:
  "hd old \<notin> set s \<Longrightarrow> old \<noteq> [] \<Longrightarrow> str_replace old new (s @ t) = s @ str_replace old new t"
proof (induction s)
  case (Cons c s)
  then have "\<not> prefix old (c # s @ t)" by (cases old) auto
  with Cons show ?case by (simp add: str_replace.simps(2))
qed simp

lemma str_replace_all: "old \<noteq> [] \<Longrightarrow> str_replace old new old = new"
  by (cases old) (simp_all add: str_replace.simps(2))

lemma str_replace_absent: "\<not> str_contains old s \<Longrightarrow> str_replace old new s = s"
proof (induction s)
  case (Cons c s)
  then show ?case by (simp add: str_replace.simps(2))
qed simp

section \<open>Splitting\<close>

fun split_on :: "char \<Rightarrow> string \<Rightarrow> string list" where
  "split_on c [] = [[]]"
| "split_on c (x # xs) =
     (if x = c then [] # split_on c xs
      else case split_on c xs of [] \<Rightarrow> [[x]] | p # ps \<Rightarrow> (x # p) # ps)"

definition newline :: char where
  "newline = CHR 0x0A"

lemma split_on_nonempty [simp]: "split_on c s \<noteq> []"
  by (induction s) (auto split: list.split)

lemma split_on_free: "p \<in> set (split_on c s) \<Longrightarrow> c \<notin> set p"
  by (induction c s arbitrary: p rule: split_on.induct) (fastforce split: if_splits list.splits)+

lemma split_on_single: "c \<notin> set s \<Longrightarrow> split_on c s = [s]"
  by (induction s) auto

lemma split_on_cons: "c \<notin> set s \<Longrightarrow> split_on c (s @ c # t) = s # split_on c t"
  by (induction s) auto

text \<open>Joining the parts gives the string back.\<close>

fun join_with :: "char \<Rightarrow> string list \<Rightarrow> string" where
  "join_with c [] = []"
| "join_with c [p] = p"
| "join_with c (p # q # ps) = p @ c # join_with c (q # ps)"

lemma join_split: "join_with c (split_on c s) = s"
proof (induction s)
  case (Cons x xs)
  obtain p ps where sp: "split_on c xs = p # ps" using split_on_nonempty by (metis list.exhaust)
  show ?case
  proof (cases "x = c")
    case True
    with Cons sp show ?thesis by simp
  next
    case False
    with Cons sp show ?thesis by (cases ps) simp_all
  qed
qed simp

section \<open>Parsing\<close>

text \<open>The sign in front of a number.\<close>

definition signed :: "(string \<Rightarrow> 'a option) \<Rightarrow> ('a \<Rightarrow> 'a) \<Rightarrow> string \<Rightarrow> 'a option" where
  "signed parse negate s =
     (case s of
        c # t \<Rightarrow> if c = CHR ''-'' then map_option negate (parse t)
                 else if c = CHR ''+'' then parse t else parse s
      | [] \<Rightarrow> None)"

definition parse_nat :: "string \<Rightarrow> nat option" where
  "parse_nat s = (if s \<noteq> [] \<and> list_all is_digit s then Some (digits_value s) else None)"

text \<open>\<open>int(s)\<close>; \<open>None\<close> stands for \<open>ValueError\<close>.\<close>

definition py_int_of :: "string \<Rightarrow> int option" where
  "py_int_of s = signed (\<lambda>t. map_option int (parse_nat t)) uminus (str_strip s)"

definition pow10 :: "int \<Rightarrow> pyfloat" where
  "pow10 k = (if k \<ge> 0 then 10 ^ nat k else 1 / 10 ^ nat (- k))"

definition parse_unsigned :: "string \<Rightarrow> pyfloat option" where
  "parse_unsigned s =
     (let whole = takeWhile is_digit s;
          rest = dropWhile is_digit s;
          (frac, rest) = (case rest of
               c # t \<Rightarrow> if c = CHR ''.'' then (takeWhile is_digit t, dropWhile is_digit t) else ([], rest)
             | [] \<Rightarrow> ([], []));
          base = of_nat (digits_value (whole @ frac)) / 10 ^ length frac
      in if whole = [] \<and> frac = [] then None
         else case rest of
             [] \<Rightarrow> Some base
           | c # t \<Rightarrow>
               if c = CHR ''e'' \<or> c = CHR ''E''
               then map_option (\<lambda>k. base * pow10 k) (signed (\<lambda>u. map_option int (parse_nat u)) uminus t)
               else None)"

text \<open>\<open>float(s)\<close>; \<open>None\<close> stands for \<open>ValueError\<close>.\<close>

definition py_float_of :: "string \<Rightarrow> pyfloat option" where
  "py_float_of s = signed parse_unsigned uminus (str_strip s)"

section \<open>Printing\<close>

definition show_int :: "int \<Rightarrow> string" where
  "show_int n = (if n < 0 then CHR ''-'' # show_nat (nat (- n)) else show_nat (nat n))"

text \<open>The number \<open>m / 10 ^ k\<close> with \<open>k\<close> decimals.\<close>

definition show_scaled :: "nat \<Rightarrow> int \<Rightarrow> string" where
  "show_scaled k m =
     (if m < 0 then [CHR ''-''] else []) @ show_nat (nat \<bar>m\<bar> div 10 ^ k) @ [CHR ''.''] @
     show_padded k (nat \<bar>m\<bar>)"

definition has_decimals :: "nat \<Rightarrow> pyfloat \<Rightarrow> bool" where
  "has_decimals k x \<longleftrightarrow> of_int \<lfloor>x * 10 ^ k\<rfloor> = x * 10 ^ k"

text \<open>The least number of decimals, at least one, within the fuel.\<close>

fun decimals :: "nat \<Rightarrow> nat \<Rightarrow> pyfloat \<Rightarrow> nat" where
  "decimals 0 k x = k"
| "decimals (Suc f) k x = (if has_decimals k x then k else decimals f (Suc k) x)"

text \<open>\<open>str(x)\<close>\<close>

definition show_float :: "pyfloat \<Rightarrow> string" where
  "show_float x = (let k = decimals 15 1 x in show_scaled k (py_round (x * 10 ^ k)))"

text \<open>\<open>f"{x:.1f}"\<close>\<close>

definition show_fixed1 :: "pyfloat \<Rightarrow> string" where
  "show_fixed1 x =
     (if x < 0 \<and> py_round (x * 10) = 0 then CHR ''-'' # show_scaled 1 0 else show_scaled 1 (py_round (x * 10)))"

section \<open>Round trips\<close>

text \<open>The characters of printed numbers.\<close>

definition num_char :: "char \<Rightarrow> bool" where
  "num_char c \<longleftrightarrow> is_digit c \<or> c = CHR ''-'' \<or> c = CHR ''.''"

lemma num_char_not_space: "num_char c \<Longrightarrow> \<not> is_space c"
  by (auto simp: num_char_def is_digit_def is_space_def Let_def)

lemma num_char_not_letter: "num_char c \<Longrightarrow> (of_char c :: nat) < 58"
  by (auto simp: num_char_def is_digit_def Let_def)

lemma show_scaled_chars: "c \<in> set (show_scaled k m) \<Longrightarrow> num_char c"
  using show_nat_digits(1) [of "nat \<bar>m\<bar> div 10 ^ k"] show_padded_facts(1) [of k "nat \<bar>m\<bar>"]
  by (auto simp: show_scaled_def num_char_def list_all_iff split: if_splits)

lemma show_scaled_ne [simp]: "show_scaled k m \<noteq> []"
  by (simp add: show_scaled_def)

lemma str_strip_no_space: "\<forall>c\<in>set s. \<not> is_space c \<Longrightarrow> str_strip s = s"
proof -
  have keep: "\<forall>c\<in>set s. \<not> is_space c \<Longrightarrow> dropWhile is_space s = s" for s :: string
    by (cases s) auto
  assume "\<forall>c\<in>set s. \<not> is_space c"
  then show "str_strip s = s" by (simp add: str_strip_def keep)
qed

lemma str_strip_trailing:
  assumes "\<forall>c\<in>set s. \<not> is_space c" "s \<noteq> []" "\<forall>c\<in>set t. is_space c"
  shows "str_strip (s @ t) = s"
proof -
  have drop: "dropWhile is_space (xs @ ys) = dropWhile is_space ys" if "\<forall>c\<in>set xs. is_space c" for xs ys
    using that by (induction xs) auto
  have keep: "dropWhile is_space (xs @ ys) = xs @ ys" if "\<forall>c\<in>set xs. \<not> is_space c" "xs \<noteq> []" for xs ys
    using that by (cases xs) auto
  from assms show ?thesis
    using keep [of "rev s" "[]"] by (simp add: str_strip_def keep drop)
qed

lemma takeWhile_digits:
  "list_all is_digit s \<Longrightarrow> \<not> is_digit c \<Longrightarrow> takeWhile is_digit (s @ c # t) = s \<and> dropWhile is_digit (s @ c # t) = c # t"
  by (induction s) auto

lemma all_digits:
  "list_all is_digit s \<Longrightarrow> takeWhile is_digit s = s \<and> dropWhile is_digit s = []"
  by (induction s) auto

lemma parse_unsigned_scaled:
  "parse_unsigned (show_nat (m div 10 ^ k) @ CHR ''.'' # show_padded k m) = Some (of_nat m / 10 ^ k)"
proof -
  have nd: "\<not> is_digit CHR ''.''" by (simp add: is_digit_def)
  note tw = takeWhile_digits [OF show_nat_digits(1) nd, of "m div 10 ^ k" "show_padded k m"]
  note ad = all_digits [OF show_padded_facts(1), of k m]
  have "digits_value (show_nat (m div 10 ^ k) @ show_padded k m) = m"
    by (simp only: digits_value_append show_nat_value show_padded_value show_padded_facts(2) div_mult_mod_eq)
  then show ?thesis by (simp add: parse_unsigned_def tw ad)
qed

lemma show_nat_head: "show_nat n = c # t \<Longrightarrow> c \<noteq> CHR ''-'' \<and> c \<noteq> CHR ''+''"
  using show_nat_digits(1) [of n] by (auto simp: is_digit_def)

lemma float_of_scaled: "py_float_of (show_scaled k m) = Some (of_int m / 10 ^ k)"
proof -
  let ?u = "show_nat (nat \<bar>m\<bar> div 10 ^ k) @ CHR ''.'' # show_padded k (nat \<bar>m\<bar>)"
  have strip: "str_strip (show_scaled k m) = show_scaled k m"
    by (rule str_strip_no_space) (auto dest: show_scaled_chars num_char_not_space)
  show ?thesis
  proof (cases "m < 0")
    case True
    then have "(of_nat (nat \<bar>m\<bar>) :: pyfloat) = - of_int m" by simp
    with True parse_unsigned_scaled [of "nat \<bar>m\<bar>" k] show ?thesis
      by (simp add: py_float_of_def strip) (simp add: show_scaled_def signed_def)
  next
    case False
    then have m: "(of_nat (nat \<bar>m\<bar>) :: pyfloat) = of_int m" by simp
    obtain c t where ct: "?u = c # t" "c \<noteq> CHR ''-''" "c \<noteq> CHR ''+''"
      using show_nat_head show_nat_digits(2) by (cases "show_nat (nat \<bar>m\<bar> div 10 ^ k)") fastforce+
    have u: "show_scaled k m = ?u" using False by (simp add: show_scaled_def)
    have "py_float_of (show_scaled k m) = signed parse_unsigned uminus (show_scaled k m)"
      by (simp only: py_float_of_def strip)
    also have "\<dots> = signed parse_unsigned uminus ?u" by (simp only: u)
    also have "\<dots> = parse_unsigned ?u" unfolding ct(1) using ct(2,3) by (simp add: signed_def)
    finally have "py_float_of (show_scaled k m) = parse_unsigned ?u" .
    with parse_unsigned_scaled [of "nat \<bar>m\<bar>" k] m show ?thesis by simp
  qed
qed

lemma has_decimals_Suc: "has_decimals k x \<Longrightarrow> has_decimals (Suc k) x"
proof -
  assume "has_decimals k x"
  then have "x * 10 ^ k = of_int \<lfloor>x * 10 ^ k\<rfloor>" unfolding has_decimals_def by (rule sym)
  then have "x * 10 ^ Suc k = of_int (\<lfloor>x * 10 ^ k\<rfloor> * 10)" by simp
  then show "has_decimals (Suc k) x" unfolding has_decimals_def by (metis floor_of_int)
qed

lemma has_decimals_mono: "has_decimals k x \<Longrightarrow> k \<le> n \<Longrightarrow> has_decimals n x"
  by (induction n) (auto simp: le_Suc_eq intro: has_decimals_Suc)

lemma decimals_enough: "has_decimals (k + f) x \<Longrightarrow> has_decimals (decimals f k x) x"
  by (induction f arbitrary: k) auto

lemma float_of_show_float:
  assumes "has_decimals 16 x"
  shows "py_float_of (show_float x) = Some x"
proof -
  let ?k = "decimals 15 1 x"
  have "has_decimals ?k x" by (rule decimals_enough) (use assms in simp)
  then have i: "x * 10 ^ ?k = of_int \<lfloor>x * 10 ^ ?k\<rfloor>" unfolding has_decimals_def by (rule sym)
  then have "py_round (x * 10 ^ ?k) = \<lfloor>x * 10 ^ ?k\<rfloor>" by (metis py_round_of_int)
  then have "of_int (py_round (x * 10 ^ ?k)) / 10 ^ ?k = x" using i by (simp add: divide_eq_eq)
  then show ?thesis by (simp add: show_float_def Let_def float_of_scaled)
qed

lemma show_float_chars: "c \<in> set (show_float x) \<Longrightarrow> num_char c"
  by (auto simp: show_float_def Let_def dest: show_scaled_chars)

lemma show_float_ne [simp]: "show_float x \<noteq> []"
  by (simp add: show_float_def Let_def)

lemma float_of_show_fixed1: "py_float_of (show_fixed1 x) = Some (of_int (py_round (x * 10)) / 10)"
proof (cases "x < 0 \<and> py_round (x * 10) = 0")
  case True
  have "py_float_of (CHR ''-'' # show_scaled 1 0) = Some 0"
    by code_simp
  with True show ?thesis by (simp add: show_fixed1_def)
next
  case False
  then have "show_fixed1 x = show_scaled 1 (py_round (x * 10))" by (auto simp: show_fixed1_def)
  then show ?thesis using float_of_scaled [of 1] by simp
qed

lemma int_of_show_nat: "py_int_of (show_nat n) = Some (int n)"
proof -
  have "str_strip (show_nat n) = show_nat n"
    using show_nat_digits(1) [of n]
    by (intro str_strip_no_space) (auto simp: list_all_iff is_digit_def is_space_def Let_def)
  then have "py_int_of (show_nat n) = signed (\<lambda>t. map_option int (parse_nat t)) uminus (show_nat n)"
    by (simp only: py_int_of_def)
  also have "\<dots> = map_option int (parse_nat (show_nat n))"
  proof (cases "show_nat n")
    case (Cons c t)
    with show_nat_head [OF Cons] show ?thesis by (simp add: signed_def)
  qed (simp add: signed_def)
  also have "\<dots> = Some (int n)" by (simp add: parse_nat_def)
  finally show ?thesis .
qed

lemma int_of_show_int: "py_int_of (show_int n) = Some n"
proof (cases "n < 0")
  case True
  have "str_strip (show_int n) = show_int n"
    using True show_nat_digits(1) [of "nat (- n)"]
    by (intro str_strip_no_space) (auto simp: show_int_def list_all_iff is_digit_def is_space_def Let_def)
  with True show ?thesis by (simp add: py_int_of_def show_int_def signed_def parse_nat_def)
next
  case False
  then show ?thesis by (simp add: show_int_def int_of_show_nat)
qed

end
