(* ===== verification/MoleculeId.thy ===== *)
theory MoleculeId
  imports PyNumbers
begin

text \<open>
  Molecule identifiers, \<^verbatim>\<open>src/src/common/molecule_id.py\<close>: the two formats, their parser,
  and the builder of aged identifiers. The regular expressions are matched by splitting at
  the dashes, which none of their character classes contains; as in Python, \<open>$\<close> also matches
  before a newline that ends the string. Texts of errors are constructors.
\<close>

section \<open>Character classes\<close>

text \<open>What \<open>^...$\<close> matches of a string: all of it but one newline at its end.\<close>

definition chomp :: "string \<Rightarrow> string" where
  "chomp s = (if s \<noteq> [] \<and> last s = newline then butlast s else s)"

definition is_upper :: "char \<Rightarrow> bool" where
  "is_upper c \<longleftrightarrow> (let n = (of_char c :: nat) in 65 \<le> n \<and> n \<le> 90)"

definition is_alnum :: "char \<Rightarrow> bool" where
  "is_alnum c \<longleftrightarrow> is_upper c \<or> is_digit c \<or> (let n = (of_char c :: nat) in 97 \<le> n \<and> n \<le> 122)"

definition all_in :: "(char \<Rightarrow> bool) \<Rightarrow> string \<Rightarrow> bool" where
  "all_in P s \<longleftrightarrow> list_all P s"

section \<open>Parsed identifiers\<close>

definition SARA_PREFIXES :: "string list" where
  "SARA_PREFIXES = [''SA'', ''AR'', ''RE'', ''AS'']"

definition AGING_PREFIXES :: "string list" where
  "AGING_PREFIXES = [''U'', ''S'', ''L'']"

definition SARA_CATEGORY_MAP :: "(string, string) pydict" where
  "SARA_CATEGORY_MAP =
     [(''SA'', ''saturate''), (''AR'', ''aromatic''), (''RE'', ''resin''), (''AS'', ''asphaltene'')]"

definition AGING_CATEGORY_MAP :: "(string, string) pydict" where
  "AGING_CATEGORY_MAP = [(''U'', ''non_aging''), (''S'', ''short_aging''), (''L'', ''long_aging'')]"

record parsed_molecule_id =
  pm_aging_prefix :: "string option"
  pm_sara_prefix :: string
  pm_name :: string
  pm_temp_code :: "string option"

definition base_id :: "parsed_molecule_id \<Rightarrow> string" where
  "base_id p = pm_sara_prefix p @ ''-'' @ pm_name p"

definition sara_category :: "parsed_molecule_id \<Rightarrow> string" where
  "sara_category p = dict_get SARA_CATEGORY_MAP (pm_sara_prefix p) ''unknown''"

definition aging_category :: "parsed_molecule_id \<Rightarrow> string option" where
  "aging_category p =
     (case pm_aging_prefix p of None \<Rightarrow> None | Some a \<Rightarrow> map_of AGING_CATEGORY_MAP a)"

definition full_id :: "parsed_molecule_id \<Rightarrow> string" where
  "full_id p =
     (if truthy (pm_aging_prefix p) \<and> truthy (pm_temp_code p)
      then the (pm_aging_prefix p) @ ''-'' @ pm_sara_prefix p @ ''-'' @ pm_name p @ ''-'' @ the (pm_temp_code p)
      else base_id p)"

definition is_aged :: "parsed_molecule_id \<Rightarrow> bool" where
  "is_aged p \<longleftrightarrow> pm_aging_prefix p \<noteq> None"

section \<open>Parser and builder\<close>

datatype mol_error =
    InvalidMoleculeId | InvalidSaraPrefix string | InvalidFormat | ExpectedBaseId | UnknownAging string

text \<open>\<^verbatim>\<open>^([USL])-([A-Z]{2})-([A-Za-z0-9]+)-(\d{4})$\<close>\<close>

definition aging_match :: "string \<Rightarrow> (string \<times> string \<times> string \<times> string) option" where
  "aging_match s =
     (case split_on CHR 0x2D (chomp s) of
        [a, b, n, t] \<Rightarrow>
          if a \<in> set AGING_PREFIXES \<and> length b = 2 \<and> all_in is_upper b \<and> n \<noteq> [] \<and> all_in is_alnum n \<and>
             length t = 4 \<and> all_in is_digit t
          then Some (a, b, n, t) else None
      | _ \<Rightarrow> None)"

text \<open>\<^verbatim>\<open>^([A-Z]{2})-([A-Za-z0-9]+)$\<close>\<close>

definition base_match :: "string \<Rightarrow> (string \<times> string) option" where
  "base_match s =
     (case split_on CHR 0x2D (chomp s) of
        [b, n] \<Rightarrow>
          if length b = 2 \<and> all_in is_upper b \<and> n \<noteq> [] \<and> all_in is_alnum n then Some (b, n) else None
      | _ \<Rightarrow> None)"

definition parse_molecule_id :: "string \<Rightarrow> (mol_error, parsed_molecule_id) result" where
  "parse_molecule_id s =
     (if s = [] then Inl InvalidMoleculeId
      else case aging_match s of
          Some (a, b, n, t) \<Rightarrow>
            if b \<notin> set SARA_PREFIXES then Inl (InvalidSaraPrefix b)
            else Inr \<lparr>pm_aging_prefix = Some a, pm_sara_prefix = b, pm_name = n, pm_temp_code = Some t\<rparr>
        | None \<Rightarrow>
            (case base_match s of
               Some (b, n) \<Rightarrow>
                 if b \<notin> set SARA_PREFIXES then Inl (InvalidSaraPrefix b)
                 else Inr \<lparr>pm_aging_prefix = None, pm_sara_prefix = b, pm_name = n, pm_temp_code = None\<rparr>
             | None \<Rightarrow> Inl InvalidFormat))"

definition get_sara_category :: "string \<Rightarrow> (mol_error, string) result" where
  "get_sara_category s = map_sum id sara_category (parse_molecule_id s)"

definition get_aging_category :: "string \<Rightarrow> (mol_error, string option) result" where
  "get_aging_category s = map_sum id aging_category (parse_molecule_id s)"

definition validate_molecule_id :: "string \<Rightarrow> bool" where
  "validate_molecule_id s = (case parse_molecule_id s of Inl _ \<Rightarrow> False | Inr _ \<Rightarrow> True)"

definition aging_to_prefix :: "(string, string) pydict" where
  "aging_to_prefix = [(''non_aging'', ''U''), (''short_aging'', ''S''), (''long_aging'', ''L'')]"

definition build_aging_mol_id :: "string \<Rightarrow> string \<Rightarrow> string \<Rightarrow> (mol_error, string) result" where
  "build_aging_mol_id base aging temp_code =
     (case parse_molecule_id base of
        Inl e \<Rightarrow> Inl e
      | Inr p \<Rightarrow>
          if is_aged p then Inl ExpectedBaseId
          else case map_of aging_to_prefix aging of
              None \<Rightarrow> Inl (UnknownAging aging)
            | Some letter \<Rightarrow> Inr (letter @ ''-'' @ pm_sara_prefix p @ ''-'' @ pm_name p @ ''-'' @ temp_code))"

section \<open>Lemmas\<close>

lemma all_in_no_dash:
  "all_in is_upper s \<Longrightarrow> CHR 0x2D \<notin> set s" "all_in is_alnum s \<Longrightarrow> CHR 0x2D \<notin> set s"
  "all_in is_digit s \<Longrightarrow> CHR 0x2D \<notin> set s"
  by (auto simp: all_in_def list_all_iff is_upper_def is_alnum_def is_digit_def Let_def)

lemma aging_prefix_no_dash: "a \<in> set AGING_PREFIXES \<Longrightarrow> CHR 0x2D \<notin> set a"
  by (auto simp: AGING_PREFIXES_def)

lemma last_not_newline:
  "all_in is_alnum s \<Longrightarrow> s \<noteq> [] \<Longrightarrow> last s \<noteq> newline" "all_in is_digit s \<Longrightarrow> s \<noteq> [] \<Longrightarrow> last s \<noteq> newline"
  by (auto simp: all_in_def list_all_iff is_alnum_def is_upper_def is_digit_def newline_def Let_def
      dest!: last_in_set)

lemma chomp_no_newline: "s \<noteq> [] \<Longrightarrow> last s \<noteq> newline \<Longrightarrow> chomp s = s"
  by (simp add: chomp_def)

lemma chomp_cases: "chomp s = t \<Longrightarrow> s = t \<or> s = t @ [newline]"
  by (auto simp: chomp_def split: if_splits) (metis append_butlast_last_id)

lemma chomp_add [simp]: "chomp (t @ [newline]) = t"
  by (simp add: chomp_def)

text \<open>The identifiers the formats describe.\<close>

definition wf_parsed :: "parsed_molecule_id \<Rightarrow> bool" where
  "wf_parsed p \<longleftrightarrow>
     pm_sara_prefix p \<in> set SARA_PREFIXES \<and> pm_name p \<noteq> [] \<and> all_in is_alnum (pm_name p) \<and>
     ((pm_aging_prefix p = None \<and> pm_temp_code p = None) \<or>
      (\<exists>a t. pm_aging_prefix p = Some a \<and> pm_temp_code p = Some t \<and> a \<in> set AGING_PREFIXES \<and>
         length t = 4 \<and> all_in is_digit t))"

lemma sara_prefix_upper: "b \<in> set SARA_PREFIXES \<Longrightarrow> length b = 2 \<and> all_in is_upper b"
  by (auto simp: SARA_PREFIXES_def all_in_def is_upper_def)

lemma full_id_aged:
  assumes "wf_parsed p" "pm_aging_prefix p = Some a" "pm_temp_code p = Some t"
  shows "full_id p = a @ ''-'' @ pm_sara_prefix p @ ''-'' @ pm_name p @ ''-'' @ t"
  using assms by (auto simp: full_id_def wf_parsed_def truthy_def AGING_PREFIXES_def)

lemma split_full_id:
  assumes "wf_parsed p"
  shows "split_on CHR 0x2D (full_id p) =
    (case (pm_aging_prefix p, pm_temp_code p) of
       (Some a, Some t) \<Rightarrow> [a, pm_sara_prefix p, pm_name p, t] | _ \<Rightarrow> [pm_sara_prefix p, pm_name p])"
proof -
  have b: "CHR 0x2D \<notin> set (pm_sara_prefix p)" and n: "CHR 0x2D \<notin> set (pm_name p)"
    using assms sara_prefix_upper all_in_no_dash by (auto simp: wf_parsed_def)
  show ?thesis
  proof (cases "pm_aging_prefix p")
    case None
    with assms have "pm_temp_code p = None" by (auto simp: wf_parsed_def)
    with None b n show ?thesis
      by (simp add: full_id_def base_id_def truthy_def split_on_cons split_on_single)
  next
    case (Some a)
    with assms obtain t where t: "pm_temp_code p = Some t" "a \<in> set AGING_PREFIXES" "all_in is_digit t"
      by (auto simp: wf_parsed_def)
    from full_id_aged [OF assms Some t(1)] aging_prefix_no_dash [OF t(2)] all_in_no_dash(3) [OF t(3)] b n Some t(1)
    show ?thesis by (simp add: split_on_cons split_on_single)
  qed
qed

lemma full_id_last: "wf_parsed p \<Longrightarrow> full_id p \<noteq> [] \<and> last (full_id p) \<noteq> newline"
proof -
  assume wf: "wf_parsed p"
  show ?thesis
  proof (cases "pm_aging_prefix p")
    case None
    then have "full_id p = base_id p" by (simp add: full_id_def truthy_def)
    with wf last_not_newline(1) [of "pm_name p"] show ?thesis by (auto simp: wf_parsed_def base_id_def)
  next
    case (Some a)
    with wf obtain t where t: "pm_temp_code p = Some t" "all_in is_digit t" "length t = 4"
      by (auto simp: wf_parsed_def)
    then have "t \<noteq> []" by auto
    with full_id_aged [OF wf Some t(1)] last_not_newline(2) [OF t(2)] show ?thesis by auto
  qed
qed

lemma parse_chomp:
  assumes "chomp s = full_id p" "wf_parsed p"
  shows "parse_molecule_id s = Inr p"
proof -
  have s: "s \<noteq> []" using assms(1) full_id_last [OF assms(2)] by (auto simp: chomp_def)
  note split = split_full_id [OF assms(2)]
  show ?thesis
  proof (cases "pm_aging_prefix p")
    case None
    with assms(2) have t: "pm_temp_code p = None" by (auto simp: wf_parsed_def)
    have "aging_match s = None" using None split by (simp add: aging_match_def assms(1))
    moreover have "base_match s = Some (pm_sara_prefix p, pm_name p)"
      using None split assms(2) sara_prefix_upper by (auto simp: base_match_def assms(1) wf_parsed_def)
    ultimately show ?thesis
      using s assms(2) None t by (simp add: parse_molecule_id_def wf_parsed_def)
  next
    case (Some a)
    with assms(2) obtain t where t: "pm_temp_code p = Some t" "a \<in> set AGING_PREFIXES" "length t = 4" "all_in is_digit t"
      by (auto simp: wf_parsed_def)
    then have "aging_match s = Some (a, pm_sara_prefix p, pm_name p, t)"
      using Some split assms(2) sara_prefix_upper by (auto simp: aging_match_def assms(1) wf_parsed_def)
    then show ?thesis
      using s assms(2) Some t by (simp add: parse_molecule_id_def wf_parsed_def)
  qed
qed

lemma parse_sound:
  assumes "parse_molecule_id s = Inr p"
  shows "wf_parsed p \<and> chomp s = full_id p"
proof (cases "aging_match s")
  case None
  with assms obtain b n where m: "base_match s = Some (b, n)" "b \<in> set SARA_PREFIXES"
    and p: "p = \<lparr>pm_aging_prefix = None, pm_sara_prefix = b, pm_name = n, pm_temp_code = None\<rparr>"
    by (auto simp: parse_molecule_id_def split: if_splits option.splits)
  from m have sp: "split_on CHR 0x2D (chomp s) = [b, n]" "n \<noteq> []" "all_in is_alnum n"
    by (auto simp: base_match_def split: list.splits if_splits)
  from sp(1) have "chomp s = b @ CHR 0x2D # n" using join_split [of "CHR 0x2D" "chomp s"] by simp
  with m sp p show ?thesis by (simp add: wf_parsed_def full_id_def base_id_def truthy_def)
next
  case (Some m)
  obtain a b n t where m: "m = (a, b, n, t)" by (cases m)
  with assms Some have b: "b \<in> set SARA_PREFIXES"
    and p: "p = \<lparr>pm_aging_prefix = Some a, pm_sara_prefix = b, pm_name = n, pm_temp_code = Some t\<rparr>"
    by (auto simp: parse_molecule_id_def split: if_splits)
  from Some m have sp: "split_on CHR 0x2D (chomp s) = [a, b, n, t]" "a \<in> set AGING_PREFIXES" "n \<noteq> []"
    "all_in is_alnum n" "length t = 4" "all_in is_digit t"
    by (auto simp: aging_match_def split: list.splits if_splits)
  have wf: "wf_parsed p" using sp b p by (simp add: wf_parsed_def)
  have "chomp s = a @ CHR 0x2D # b @ CHR 0x2D # n @ CHR 0x2D # t"
    using join_split [of "CHR 0x2D" "chomp s"] sp(1) by simp
  with wf full_id_aged [OF wf, of a t] p show ?thesis by simp
qed

section \<open>Properties\<close>

text \<open>
  The parser accepts exactly the printed forms of the well-formed identifiers, alone or
  followed by one newline, and returns the identifier that was printed.
\<close>

theorem parse_exact:
  "parse_molecule_id s = Inr p \<longleftrightarrow> wf_parsed p \<and> (s = full_id p \<or> s = full_id p @ [newline])"
proof
  assume "parse_molecule_id s = Inr p"
  from parse_sound [OF this] chomp_cases [of s] show "wf_parsed p \<and> (s = full_id p \<or> s = full_id p @ [newline])"
    by auto
next
  assume p: "wf_parsed p \<and> (s = full_id p \<or> s = full_id p @ [newline])"
  then have "chomp s = full_id p" using full_id_last [of p] chomp_no_newline by auto
  with p parse_chomp show "parse_molecule_id s = Inr p" by blast
qed

text \<open>
  An aged identifier built from a base identifier, an aging category and a four-digit code
  parses back to the same base, category and code, and prints as itself.
\<close>

theorem aged_id_round_trip:
  assumes "build_aging_mol_id base aging code = Inr mid" "length code = 4" "all_in is_digit code"
  shows "\<exists>p q. parse_molecule_id base = Inr q \<and> parse_molecule_id mid = Inr p \<and> full_id p = mid \<and>
    base_id p = base_id q \<and> aging_category p = Some aging \<and> pm_temp_code p = Some code \<and>
    sara_category p = sara_category q"
proof -
  from assms(1) obtain q a where q: "parse_molecule_id base = Inr q" and a: "map_of aging_to_prefix aging = Some a"
    and mid: "mid = a @ ''-'' @ pm_sara_prefix q @ ''-'' @ pm_name q @ ''-'' @ code"
    by (auto simp: build_aging_mol_id_def split: sum.splits if_splits option.splits)
  let ?p = "\<lparr>pm_aging_prefix = Some a, pm_sara_prefix = pm_sara_prefix q, pm_name = pm_name q, pm_temp_code = Some code\<rparr>"
  from a have ap: "a \<in> set AGING_PREFIXES" "map_of AGING_CATEGORY_MAP a = Some aging"
    by (auto simp: aging_to_prefix_def AGING_PREFIXES_def AGING_CATEGORY_MAP_def split: if_splits)
  from parse_sound [OF q] have wf: "wf_parsed ?p"
    using assms(2,3) ap by (simp add: wf_parsed_def)
  from full_id_aged [OF wf] mid have full: "full_id ?p = mid" by simp
  then have "chomp mid = full_id ?p" using full_id_last [OF wf] chomp_no_newline by metis
  from parse_chomp [OF this wf] q full ap show ?thesis
    by (intro exI [of _ ?p] exI [of _ q]) (simp add: base_id_def aging_category_def sara_category_def)
qed

theorem aged_id_round_trip_witness:
  "build_aging_mol_id ''AS-Thio'' ''long_aging'' ''0293'' = Inr ''L-AS-Thio-0293'' \<and>
   (\<exists>p. parse_molecule_id ''L-AS-Thio-0293'' = Inr p \<and> base_id p = ''AS-Thio'' \<and> pm_temp_code p = Some ''0293'')"
proof -
  have b: "build_aging_mol_id ''AS-Thio'' ''long_aging'' ''0293'' = Inr ''L-AS-Thio-0293''" by code_simp
  have q: "parse_molecule_id ''AS-Thio'' =
      Inr \<lparr>pm_aging_prefix = None, pm_sara_prefix = ''AS'', pm_name = ''Thio'', pm_temp_code = None\<rparr>"
    by code_simp
  have d: "all_in is_digit ''0293''" by code_simp
  from aged_id_round_trip [OF b _ d] b q show ?thesis by (auto simp: base_id_def)
qed

end
