(* ===== verification/Emissions.thy ===== *)
theory Emissions
  imports MoleculeId
begin

text \<open>
  Additive identifiers and emission factors, \<^verbatim>\<open>src/src/common/additive_ids.py\<close> and
  \<^verbatim>\<open>src/src/contracts/policies/ghg.py\<close>: canonical names with their legacy aliases, the
  emission factor of a molecule, and the two greenhouse gas totals.
\<close>

section \<open>Additive identifiers\<close>

definition CANONICAL_TO_ALIASES :: "(string, string list) pydict" where
  "CANONICAL_TO_ALIASES =
     [(''SBS'', [''ADD_SBS_001'']), (''Elvaloy'', [''ADD_ELVALOY_001'']), (''PPA'', [''ADD_PPA_001'']),
      (''Sasobit'', [''ADD_SASOBIT_001'']), (''NanoClay'', [''ADD_NCLAY_001'']), (''CRM'', [''ADD_CRM_001''])]"

definition TYPE_TO_CANONICAL :: "(string, string) pydict" where
  "TYPE_TO_CANONICAL =
     [(''sbs'', ''SBS''), (''elvaloy'', ''Elvaloy''), (''ppa'', ''PPA''), (''sasobit'', ''Sasobit''),
      (''nanoclay'', ''NanoClay''), (''nclay'', ''NanoClay''), (''crm'', ''CRM''),
      (''crumbrubbermodifier'', ''CRM''), (''crumbrubber'', ''CRM'')]"

text \<open>The table built at import time; \<open>casefold\<close> is \<open>lower\<close> on ASCII.\<close>

definition ALIAS_TO_CANONICAL :: "(string, string) pydict" where
  "ALIAS_TO_CANONICAL =
     foldl (\<lambda>d (canonical, aliases).
        foldl (\<lambda>d a. dict_set (str_lower a) canonical d) (dict_set (str_lower canonical) canonical d) aliases)
       [] CANONICAL_TO_ALIASES"

definition normalize_type_key :: "string \<Rightarrow> string" where
  "normalize_type_key raw =
     filter (\<lambda>c. is_digit c \<or> (let n = (of_char c :: nat) in 97 \<le> n \<and> n \<le> 122)) (str_lower (str_strip raw))"

definition canonicalize_additive_mol_id :: "string option \<Rightarrow> string option" where
  "canonicalize_additive_mol_id mol_id =
     (case mol_id of
        None \<Rightarrow> None
      | Some m \<Rightarrow>
          let token = str_strip m in
          if token = [] then None else Some (dict_get ALIAS_TO_CANONICAL (str_lower token) token))"

definition infer_additive_mol_id :: "string option \<Rightarrow> string option \<Rightarrow> string option" where
  "infer_additive_mol_id additive_type mol_id =
     (let canonical = canonicalize_additive_mol_id mol_id in
      if truthy canonical then canonical
      else case additive_type of
          None \<Rightarrow> None
        | Some t \<Rightarrow> map_of TYPE_TO_CANONICAL (normalize_type_key t))"

definition raw_token :: "string option \<Rightarrow> string" where
  "raw_token mol_id = (if truthy mol_id then str_strip (the mol_id) else [])"

definition expand_additive_mol_id_aliases :: "string option \<Rightarrow> string option \<Rightarrow> string list" where
  "expand_additive_mol_id_aliases mol_id additive_type =
     (let raw = raw_token mol_id in
      case infer_additive_mol_id additive_type mol_id of
        None \<Rightarrow> if raw \<noteq> [] then [raw] else []
      | Some canonical \<Rightarrow>
          let values = foldl (\<lambda>vs a. if a \<notin> set vs then vs @ [a] else vs) [canonical]
                         (dict_get CANONICAL_TO_ALIASES canonical [])
          in if raw \<noteq> [] \<and> raw \<notin> set values then values @ [raw] else values)"

section \<open>Emission factors\<close>

record ghg_policy =
  binder_molecules :: "(string, pyfloat) pydict"
  sara_fallback :: "(string, pyfloat) pydict"
  additives :: "(string, pyfloat) pydict"
  default_binder_ef :: pyfloat
  default_additive_ef :: pyfloat

definition resolve_additive :: "ghg_policy \<Rightarrow> string \<Rightarrow> pyfloat option" where
  "resolve_additive P mol_id =
     (let canonical = canonicalize_additive_mol_id (Some mol_id) in
      if truthy canonical \<and> dict_has (additives P) (the canonical)
      then map_of (additives P) (the canonical)
      else map_of (additives P) mol_id)"

text \<open>\<^verbatim>\<open>^[USL]-([A-Za-z0-9_]+)-\d{4}$\<close>, group 1\<close>

definition aging_unwrap :: "string \<Rightarrow> string option" where
  "aging_unwrap s =
     (case split_on CHR 0x2D (chomp s) of
        [a, n, t] \<Rightarrow>
          if a \<in> set AGING_PREFIXES \<and> n \<noteq> [] \<and> all_in (\<lambda>c. is_alnum c \<or> c = CHR 0x5F) n \<and>
             length t = 4 \<and> all_in is_digit t
          then Some n else None
      | _ \<Rightarrow> None)"

definition get_factor :: "ghg_policy \<Rightarrow> string \<Rightarrow> pyfloat" where
  "get_factor P mol_id =
     (case resolve_additive P mol_id of
        Some ef \<Rightarrow> ef
      | None \<Rightarrow>
          (case (case aging_unwrap mol_id of None \<Rightarrow> None | Some inner \<Rightarrow> resolve_additive P inner) of
             Some ef \<Rightarrow> ef
           | None \<Rightarrow>
               (case parse_molecule_id mol_id of
                  Inr p \<Rightarrow>
                    (case map_of (binder_molecules P) (base_id p) of
                       Some ef \<Rightarrow> ef
                     | None \<Rightarrow> dict_get (sara_fallback P) (sara_category p) (default_binder_ef P))
                | Inl _ \<Rightarrow> default_binder_ef P)))"

definition calculate_ghg_from_weight_fractions :: "ghg_policy \<Rightarrow> (string \<times> pyfloat) list \<Rightarrow> pyfloat" where
  "calculate_ghg_from_weight_fractions P mol_fractions =
     sum_list (map (\<lambda>(mid, wf). wf * get_factor P mid) mol_fractions)"

definition sara_factor :: "ghg_policy \<Rightarrow> string \<Rightarrow> pyfloat" where
  "sara_factor P cat = dict_get (sara_fallback P) cat (default_binder_ef P)"

definition additive_factor :: "ghg_policy \<Rightarrow> string option \<Rightarrow> pyfloat" where
  "additive_factor P additive_mol_id =
     (if truthy additive_mol_id
      then dict_get (additives P)
             (or_default (canonicalize_additive_mol_id additive_mol_id) (the additive_mol_id))
             (default_additive_ef P)
      else 0)"

definition calculate_ghg_from_sara ::
    "ghg_policy \<Rightarrow> pyfloat \<Rightarrow> pyfloat \<Rightarrow> pyfloat \<Rightarrow> pyfloat \<Rightarrow> string option \<Rightarrow> pyfloat \<Rightarrow> pyfloat" where
  "calculate_ghg_from_sara P sat aro res asp additive_mol_id additive_wt =
     (let add_frac = max 0 (min 1 (additive_wt / 100));
          binder_frac = 1 - add_frac;
          sara_total = sat + aro + res + asp
      in if sara_total \<le> 0 then 0
         else
           let binder_ghg = binder_frac * sum_list (map (\<lambda>(cat, w). (w / sara_total) * sara_factor P cat)
                 [(''saturate'', sat), (''aromatic'', aro), (''resin'', res), (''asphaltene'', asp)])
           in binder_ghg + add_frac * additive_factor P additive_mol_id)"

section \<open>Lemmas\<close>

lemma lower_names:
  "str_lower ''SBS'' = ''sbs''"
  "str_lower ''Elvaloy'' = ''elvaloy''"
  "str_lower ''PPA'' = ''ppa''"
  "str_lower ''Sasobit'' = ''sasobit''"
  "str_lower ''NanoClay'' = ''nanoclay''"
  "str_lower ''CRM'' = ''crm''"
  "str_lower ''ADD_SBS_001'' = ''add_sbs_001''"
  "str_lower ''ADD_ELVALOY_001'' = ''add_elvaloy_001''"
  "str_lower ''ADD_PPA_001'' = ''add_ppa_001''"
  "str_lower ''ADD_SASOBIT_001'' = ''add_sasobit_001''"
  "str_lower ''ADD_NCLAY_001'' = ''add_nclay_001''"
  "str_lower ''ADD_CRM_001'' = ''add_crm_001''"
  by code_simp+

lemma strip_names:
  "str_strip ''SBS'' = ''SBS''"
  "str_strip ''Elvaloy'' = ''Elvaloy''"
  "str_strip ''PPA'' = ''PPA''"
  "str_strip ''Sasobit'' = ''Sasobit''"
  "str_strip ''NanoClay'' = ''NanoClay''"
  "str_strip ''CRM'' = ''CRM''"
  "str_strip ''ADD_SBS_001'' = ''ADD_SBS_001''"
  "str_strip ''ADD_ELVALOY_001'' = ''ADD_ELVALOY_001''"
  "str_strip ''ADD_PPA_001'' = ''ADD_PPA_001''"
  "str_strip ''ADD_SASOBIT_001'' = ''ADD_SASOBIT_001''"
  "str_strip ''ADD_NCLAY_001'' = ''ADD_NCLAY_001''"
  "str_strip ''ADD_CRM_001'' = ''ADD_CRM_001''"
  by code_simp+

lemma alias_table:
  "ALIAS_TO_CANONICAL =
     [(''sbs'', ''SBS''), (''add_sbs_001'', ''SBS''), (''elvaloy'', ''Elvaloy''), (''add_elvaloy_001'', ''Elvaloy''),
      (''ppa'', ''PPA''), (''add_ppa_001'', ''PPA''), (''sasobit'', ''Sasobit''), (''add_sasobit_001'', ''Sasobit''),
      (''nanoclay'', ''NanoClay''), (''add_nclay_001'', ''NanoClay''), (''crm'', ''CRM''), (''add_crm_001'', ''CRM'')]"
  by (simp add: ALIAS_TO_CANONICAL_def CANONICAL_TO_ALIASES_def lower_names)

definition canonical_names :: "string list" where
  "canonical_names = map fst CANONICAL_TO_ALIASES"

lemma canonical_names_fixed:
  "list_all (\<lambda>c. canonicalize_additive_mol_id (Some c) = Some c) canonical_names"
  "list_all (\<lambda>(c, as). list_all (\<lambda>a. canonicalize_additive_mol_id (Some a) = Some c) as) CANONICAL_TO_ALIASES"
  by (simp_all add: canonical_names_def CANONICAL_TO_ALIASES_def canonicalize_additive_mol_id_def
      strip_names lower_names alias_table dict_get_def)

lemma alias_values: "map_of ALIAS_TO_CANONICAL k = Some c \<Longrightarrow> c \<in> set canonical_names"
  by (auto simp: alias_table canonical_names_def CANONICAL_TO_ALIASES_def split: if_splits)

lemma type_values: "map_of TYPE_TO_CANONICAL k = Some c \<Longrightarrow> c \<in> set canonical_names"
  by (auto simp: TYPE_TO_CANONICAL_def canonical_names_def CANONICAL_TO_ALIASES_def split: if_splits)

lemma canonicalize_idem:
  assumes "canonicalize_additive_mol_id m = Some c"
  shows "canonicalize_additive_mol_id (Some c) = Some c"
proof -
  from assms obtain s where s: "m = Some s" "str_strip s \<noteq> []"
    and c: "c = dict_get ALIAS_TO_CANONICAL (str_lower (str_strip s)) (str_strip s)"
    by (auto simp: canonicalize_additive_mol_id_def Let_def split: option.splits if_splits)
  show ?thesis
  proof (cases "map_of ALIAS_TO_CANONICAL (str_lower (str_strip s))")
    case None
    with c have "c = str_strip s" by (simp add: dict_get_def)
    with None s(2) show ?thesis by (simp add: canonicalize_additive_mol_id_def dict_get_def)
  next
    case (Some d)
    with c have "c = d" by (simp add: dict_get_def)
    with alias_values [OF Some] canonical_names_fixed(1) show ?thesis by (auto simp: list_all_iff)
  qed
qed

lemma canonicalize_nonempty: "canonicalize_additive_mol_id m = Some c \<Longrightarrow> c \<noteq> []"
proof
  assume m: "canonicalize_additive_mol_id m = Some c" and "c = []"
  from canonicalize_idem [OF m] this show False by (simp add: canonicalize_additive_mol_id_def)
qed

lemma infer_canonical:
  assumes "infer_additive_mol_id t m = Some c"
  shows "canonicalize_additive_mol_id (Some c) = Some c"
proof (cases "canonicalize_additive_mol_id m")
  case None
  with assms obtain k where "map_of TYPE_TO_CANONICAL k = Some c"
    by (auto simp: infer_additive_mol_id_def truthy_def split: option.splits)
  from type_values [OF this] canonical_names_fixed(1) show ?thesis by (auto simp: list_all_iff)
next
  case (Some d)
  then have "c = d" using assms canonicalize_nonempty [OF Some]
    by (simp add: infer_additive_mol_id_def truthy_def)
  with canonicalize_idem [OF Some] show ?thesis by simp
qed

lemma aliases_canonical:
  "a \<in> set (dict_get CANONICAL_TO_ALIASES c []) \<Longrightarrow> canonicalize_additive_mol_id (Some a) = Some c"
proof -
  assume a: "a \<in> set (dict_get CANONICAL_TO_ALIASES c [])"
  then obtain as where "map_of CANONICAL_TO_ALIASES c = Some as" "a \<in> set as"
    by (cases "map_of CANONICAL_TO_ALIASES c") (simp_all add: dict_get_def)
  with canonical_names_fixed(2) show ?thesis by (fastforce simp: list_all_iff dest: map_of_SomeD)
qed

lemma foldl_add_new:
  "distinct vs \<Longrightarrow>
     distinct (foldl (\<lambda>vs a. if a \<notin> set vs then vs @ [a] else vs) vs xs) \<and>
     set (foldl (\<lambda>vs a. if a \<notin> set vs then vs @ [a] else vs) vs xs) = set vs \<union> set xs \<and>
     (vs \<noteq> [] \<longrightarrow> hd (foldl (\<lambda>vs a. if a \<notin> set vs then vs @ [a] else vs) vs xs) = hd vs)"
  by (induction xs arbitrary: vs) auto

section \<open>Properties\<close>

text \<open>
  The alias list of an additive starts with its canonical name, has no duplicates, and
  every entry canonicalises to that name.
\<close>

theorem expanded_aliases_denote_one_additive:
  assumes "infer_additive_mol_id t m = Some c"
  shows "distinct (expand_additive_mol_id_aliases m t) \<and> hd (expand_additive_mol_id_aliases m t) = c \<and>
    (\<forall>a\<in>set (expand_additive_mol_id_aliases m t). canonicalize_additive_mol_id (Some a) = Some c)"
proof -
  let ?vs = "foldl (\<lambda>vs a. if a \<notin> set vs then vs @ [a] else vs) [c] (dict_get CANONICAL_TO_ALIASES c [])"
  have vs: "distinct ?vs" "set ?vs = {c} \<union> set (dict_get CANONICAL_TO_ALIASES c [])" "hd ?vs = c" "?vs \<noteq> []"
    using foldl_add_new [of "[c]" "dict_get CANONICAL_TO_ALIASES c []"] by auto
  have out: "expand_additive_mol_id_aliases m t =
      (if raw_token m \<noteq> [] \<and> raw_token m \<notin> set ?vs then ?vs @ [raw_token m] else ?vs)"
    by (simp add: expand_additive_mol_id_aliases_def assms Let_def)
  have raw: "canonicalize_additive_mol_id (Some (raw_token m)) = Some c" if "raw_token m \<noteq> []"
  proof -
    from that obtain s where s: "m = Some s" "raw_token m = str_strip s" "str_strip s \<noteq> []"
      by (auto simp: raw_token_def truthy_def split: option.splits if_splits)
    then have canon: "canonicalize_additive_mol_id (Some (raw_token m)) = canonicalize_additive_mol_id m"
      by (simp add: canonicalize_additive_mol_id_def)
    from s obtain d where d: "canonicalize_additive_mol_id m = Some d"
      by (auto simp: canonicalize_additive_mol_id_def Let_def)
    with assms canonicalize_nonempty [OF d] have "d = c" by (simp add: infer_additive_mol_id_def truthy_def)
    with canon d show ?thesis by simp
  qed
  show ?thesis
    unfolding out using vs raw infer_canonical [OF assms] aliases_canonical by auto
qed

theorem expanded_aliases_denote_one_additive_witness:
  "expand_additive_mol_id_aliases (Some '' sbs '') None = [''SBS'', ''ADD_SBS_001'', ''sbs''] \<and>
   canonicalize_additive_mol_id (Some ''ADD_SBS_001'') = Some ''SBS''"
proof -
  have s: "str_strip '' sbs '' = ''sbs''" "str_lower ''sbs'' = ''sbs''" by code_simp+
  have i: "infer_additive_mol_id None (Some '' sbs '') = Some ''SBS''"
    by (simp add: infer_additive_mol_id_def canonicalize_additive_mol_id_def s alias_table dict_get_def truthy_def)
  have e: "expand_additive_mol_id_aliases (Some '' sbs '') None = [''SBS'', ''ADD_SBS_001'', ''sbs'']"
    by (simp add: expand_additive_mol_id_aliases_def i raw_token_def truthy_def s dict_get_def CANONICAL_TO_ALIASES_def)
  from expanded_aliases_denote_one_additive [OF i] show ?thesis unfolding e by simp
qed

text \<open>
  For non-negative SARA amounts with a positive sum, any additive percentage gives a total
  between the least and the greatest of the factors involved.
\<close>

theorem ghg_total_between_factor_bounds:
  assumes "0 \<le> sat" "0 \<le> aro" "0 \<le> res" "0 \<le> asp" "0 < sat + aro + res + asp"
    and "\<forall>c. lo \<le> sara_factor P c \<and> sara_factor P c \<le> hi"
    and "lo \<le> additive_factor P a" "additive_factor P a \<le> hi"
  shows "lo \<le> calculate_ghg_from_sara P sat aro res asp a wt \<and>
    calculate_ghg_from_sara P sat aro res asp a wt \<le> hi"
proof -
  let ?n = "sat + aro + res + asp"
  let ?f = "max 0 (min 1 (wt / 100)) :: rat"
  let ?s = "sara_factor P"
  let ?b = "(sat * ?s ''saturate'' + aro * ?s ''aromatic'' + res * ?s ''resin'' + asp * ?s ''asphaltene'') / ?n"
  have run: "calculate_ghg_from_sara P sat aro res asp a wt = (1 - ?f) * ?b + ?f * additive_factor P a"
    using assms(5) by (simp add: calculate_ghg_from_sara_def Let_def add_divide_distrib)
  have f: "0 \<le> ?f" "?f \<le> 1" by auto
  have "lo * ?n \<le> sat * ?s ''saturate'' + aro * ?s ''aromatic'' + res * ?s ''resin'' + asp * ?s ''asphaltene''"
    using assms(1-4,6) by (simp add: distrib_left add_mono mult.commute [of lo] mult_left_mono)
  then have b_lo: "lo \<le> ?b" using assms(5) by (simp add: pos_le_divide_eq)
  have "sat * ?s ''saturate'' + aro * ?s ''aromatic'' + res * ?s ''resin'' + asp * ?s ''asphaltene'' \<le> hi * ?n"
    using assms(1-4,6) by (simp add: distrib_left add_mono mult.commute [of hi] mult_left_mono)
  then have b_hi: "?b \<le> hi" using assms(5) by (simp add: pos_divide_le_eq)
  have "(1 - ?f) * lo + ?f * lo \<le> (1 - ?f) * ?b + ?f * additive_factor P a"
    using f b_lo assms(7) by (intro add_mono mult_left_mono) auto
  moreover have "(1 - ?f) * ?b + ?f * additive_factor P a \<le> (1 - ?f) * hi + ?f * hi"
    using f b_hi assms(8) by (intro add_mono mult_left_mono) auto
  ultimately show ?thesis by (simp add: run algebra_simps)
qed

definition demo_ghg :: ghg_policy where
  "demo_ghg = \<lparr>binder_molecules = [], sara_fallback = [(''saturate'', 2/5)], additives = [(''SBS'', 3)],
     default_binder_ef = 1/2, default_additive_ef = 0\<rparr>"

theorem ghg_total_between_factor_bounds_witness:
  "2/5 \<le> calculate_ghg_from_sara demo_ghg 10 30 20 15 (Some ''ADD_SBS_001'') 5 \<and>
   calculate_ghg_from_sara demo_ghg 10 30 20 15 (Some ''ADD_SBS_001'') 5 \<le> 3"
proof -
  have c: "canonicalize_additive_mol_id (Some ''ADD_SBS_001'') = Some ''SBS''"
    by (simp add: canonicalize_additive_mol_id_def strip_names lower_names alias_table dict_get_def)
  show ?thesis
    by (rule ghg_total_between_factor_bounds)
      (simp_all add: sara_factor_def additive_factor_def demo_ghg_def dict_get_def truthy_def or_default_def c)
qed

end
