(* ===== verification/Pareto.thy ===== *)
theory Pareto
  imports COMID_Prelude "HOL-Library.Product_Lexorder"
begin

text \<open>
  Pareto fronts, \<^verbatim>\<open>src/src/recommendation/pareto.py\<close>: dominance, the marking loop with its
  early exits, crowding distances and the selection of points. The marking loop is proved
  once for every strict partial order (\<open>strict_dominance\<close>) and interpreted on the dominance
  test of the code. A crowding distance is \<open>None\<close> for infinity; \<open>argsort\<close>, whose order of
  ties numpy leaves open, is an argument.
\<close>

section \<open>Points\<close>

record pareto_point =
  pp_objectives :: "pyfloat list"
  pp_composition :: "(string, pyfloat) pydict"
  pp_predicted :: "(string, pyfloat) pydict"
  pp_index :: int
  pp_is_pareto :: bool
  pp_crowding :: "pyfloat option"

record pareto_calculator =
  pc_objectives :: "string list"
  pc_directions :: "string list"

record pareto_front =
  pf_points :: "pareto_point list"
  pf_objective_names :: "string list"
  pf_directions :: "string list"
  pf_n_total_points :: nat

datatype pareto_error = DirectionsMismatch

definition new_pareto_calculator ::
    "string list \<Rightarrow> string list option \<Rightarrow> (pareto_error, pareto_calculator) result" where
  "new_pareto_calculator names directions =
     (let dirs = (case directions of
            None \<Rightarrow> replicate (length names) ''maximize''
          | Some ds \<Rightarrow> if ds = [] then replicate (length names) ''maximize'' else ds)
      in if length dirs \<noteq> length names then Inl DirectionsMismatch
         else Inr \<lparr>pc_objectives = names, pc_directions = dirs\<rparr>)"

definition sign_list :: "pareto_calculator \<Rightarrow> pyfloat list" where
  "sign_list C = map (\<lambda>d. if d = ''maximize'' then 1 else -1) (pc_directions C)"

text \<open>\<open>np.all(a >= b) and np.any(a > b)\<close> on rows of the same length\<close>

definition dominates :: "pyfloat list \<Rightarrow> pyfloat list \<Rightarrow> bool" where
  "dominates a b \<longleftrightarrow> list_all2 (\<lambda>x y. x \<ge> y) a b \<and> list_ex (\<lambda>(x, y). x > y) (zip a b)"

definition is_pareto_optimal :: "pyfloat list \<Rightarrow> pyfloat list list \<Rightarrow> bool" where
  "is_pareto_optimal point others \<longleftrightarrow> \<not> list_ex (\<lambda>q. dominates q point) others"

section \<open>The marking loop\<close>

text \<open>The inner loop: some other row that is still marked dominates row \<open>i\<close>.\<close>

definition dominated_by_marked :: "('a \<Rightarrow> 'a \<Rightarrow> bool) \<Rightarrow> 'a list \<Rightarrow> bool list \<Rightarrow> nat \<Rightarrow> bool" where
  "dominated_by_marked better rows marks i \<longleftrightarrow>
     list_ex (\<lambda>j. i \<noteq> j \<and> marks ! j \<and> better (rows ! j) (rows ! i)) [0..<length rows]"

definition mark_step :: "('a \<Rightarrow> 'a \<Rightarrow> bool) \<Rightarrow> 'a list \<Rightarrow> bool list \<Rightarrow> nat \<Rightarrow> bool list" where
  "mark_step better rows marks i =
     (if \<not> marks ! i then marks
      else if dominated_by_marked better rows marks i then marks[i := False] else marks)"

definition pareto_mask :: "('a \<Rightarrow> 'a \<Rightarrow> bool) \<Rightarrow> 'a list \<Rightarrow> bool list" where
  "pareto_mask better rows = foldl (mark_step better rows) (replicate (length rows) True) [0..<length rows]"

text \<open>What the loop relies on, and what it then computes.\<close>

locale strict_dominance =
  fixes better :: "'a \<Rightarrow> 'a \<Rightarrow> bool"
  assumes irrefl: "\<not> better x x" and trans: "better x y \<Longrightarrow> better y z \<Longrightarrow> better x z"
begin

definition dominators :: "'a list \<Rightarrow> nat \<Rightarrow> nat set" where
  "dominators rows i = {j. j < length rows \<and> better (rows ! j) (rows ! i)}"

lemma finite_dominators [simp]: "finite (dominators rows i)"
  by (simp add: dominators_def)

lemma dominators_psubset: "j \<in> dominators rows i \<Longrightarrow> dominators rows j \<subset> dominators rows i"
proof
  assume j: "j \<in> dominators rows i"
  then show "dominators rows j \<subseteq> dominators rows i" using trans by (auto simp: dominators_def)
  have "j \<notin> dominators rows j" using irrefl by (simp add: dominators_def)
  with j show "dominators rows j \<noteq> dominators rows i" by blast
qed

lemma undominated_dominator:
  "dominators rows i \<noteq> {} \<Longrightarrow> \<exists>m\<in>dominators rows i. dominators rows m = {}"
proof (induction "card (dominators rows i)" arbitrary: i rule: less_induct)
  case less
  then obtain j where j: "j \<in> dominators rows i" by blast
  show ?case
  proof (cases "dominators rows j = {}")
    case True
    with j show ?thesis by blast
  next
    case False
    have "card (dominators rows j) < card (dominators rows i)"
      by (rule psubset_card_mono) (simp_all add: dominators_psubset [OF j])
    from less.hyps [OF this False] obtain m where "m \<in> dominators rows j" "dominators rows m = {}" by blast
    with dominators_psubset [OF j] show ?thesis by blast
  qed
qed

text \<open>Before step \<open>k\<close>, the rows below \<open>k\<close> are marked exactly when nothing dominates them.\<close>

definition mask_upto :: "'a list \<Rightarrow> nat \<Rightarrow> bool list \<Rightarrow> bool" where
  "mask_upto rows k marks \<longleftrightarrow> length marks = length rows \<and>
     (\<forall>i<length rows. marks ! i \<longleftrightarrow> k \<le> i \<or> dominators rows i = {})"

lemma mark_step_upto:
  assumes inv: "mask_upto rows k marks" and k: "k < length rows"
  shows "mask_upto rows (Suc k) (mark_step better rows marks k)"
proof -
  have marked: "marks ! k" using inv k by (simp add: mask_upto_def)
  have "dominated_by_marked better rows marks k \<longleftrightarrow> dominators rows k \<noteq> {}"
  proof
    assume "dominated_by_marked better rows marks k"
    then show "dominators rows k \<noteq> {}"
      by (auto simp: dominated_by_marked_def list_ex_iff dominators_def)
  next
    assume "dominators rows k \<noteq> {}"
    from undominated_dominator [OF this] obtain m where
      m: "m < length rows" "better (rows ! m) (rows ! k)" "dominators rows m = {}"
      by (auto simp: dominators_def)
    from m(2) irrefl have "k \<noteq> m" by auto
    moreover have "marks ! m" using inv m by (simp add: mask_upto_def)
    ultimately show "dominated_by_marked better rows marks k"
      using m by (auto simp: dominated_by_marked_def list_ex_iff)
  qed
  then show ?thesis
    using inv k marked by (auto simp: mask_upto_def mark_step_def nth_list_update less_Suc_eq_le le_less)
qed

lemma mask_upto_foldl:
  "n \<le> length rows \<Longrightarrow> mask_upto rows n (foldl (mark_step better rows) (replicate (length rows) True) [0..<n])"
proof (induction n)
  case 0
  then show ?case by (simp add: mask_upto_def)
next
  case (Suc n)
  then show ?case by (simp add: mark_step_upto)
qed

lemma pareto_mask_exact:
  "length (pareto_mask better rows) = length rows"
  "i < length rows \<Longrightarrow> pareto_mask better rows ! i \<longleftrightarrow> (\<forall>j<length rows. \<not> better (rows ! j) (rows ! i))"
  using mask_upto_foldl [of "length rows" rows]
  by (auto simp: pareto_mask_def mask_upto_def dominators_def)

text \<open>Every unmarked row is dominated by a marked one.\<close>

lemma unmarked_dominated_by_marked:
  assumes "i < length rows" "\<not> pareto_mask better rows ! i"
  shows "\<exists>m<length rows. pareto_mask better rows ! m \<and> better (rows ! m) (rows ! i)"
proof -
  from assms have "dominators rows i \<noteq> {}" by (auto simp: pareto_mask_exact dominators_def)
  from undominated_dominator [OF this] show ?thesis
    by (auto simp: dominators_def pareto_mask_exact)
qed

lemma some_marked: "rows \<noteq> [] \<Longrightarrow> \<exists>i<length rows. pareto_mask better rows ! i"
  using unmarked_dominated_by_marked [of 0 rows] by (metis length_greater_0_conv)

end

lemma dominates_irrefl: "\<not> dominates a a"
  by (auto simp: dominates_def list_ex_iff zip_same)

lemma dominates_nth:
  "dominates a b \<longleftrightarrow> length a = length b \<and> (\<forall>i<length a. a ! i \<ge> b ! i) \<and> (\<exists>i<length a. a ! i > b ! i)"
proof -
  have "list_ex (\<lambda>(x, y). x > y) (zip a b) \<longleftrightarrow> (\<exists>i<length a. a ! i > b ! i)" if "length a = length b"
    using that by (auto simp: list_ex_length)
  then show ?thesis by (auto simp: dominates_def list_all2_conv_all_nth)
qed

interpretation pareto: strict_dominance dominates
proof
  show "\<not> dominates x x" for x by (rule dominates_irrefl)
  show "dominates x z" if "dominates x y" "dominates y z" for x y z
    using that unfolding dominates_nth by (metis le_less_trans order_trans)
qed

section \<open>Fronts\<close>

text \<open>Adding to a distance, where infinity stays infinity.\<close>

definition add_distance :: "pyfloat option \<Rightarrow> pyfloat \<Rightarrow> pyfloat option" where
  "add_distance d x = map_option (\<lambda>y. y + x) d"

definition crowding_objective ::
    "(pyfloat list \<Rightarrow> nat list) \<Rightarrow> pyfloat list list \<Rightarrow> pyfloat option list \<Rightarrow> nat \<Rightarrow> pyfloat option list" where
  "crowding_objective argsort points distances obj =
     (let col = map (\<lambda>p. p ! obj) points; sorted = argsort col; n = length points;
          lo = sorted ! 0; hi = sorted ! (n - 1);
          distances = distances[lo := None, hi := None];
          obj_range = col ! hi - col ! lo
      in if obj_range > 0 then
           foldl (\<lambda>d i. d[sorted ! i := add_distance (d ! (sorted ! i))
                ((col ! (sorted ! (i + 1)) - col ! (sorted ! (i - 1))) / obj_range)]) distances [1..<n - 1]
         else distances)"

definition calculate_crowding_distance ::
    "(pyfloat list \<Rightarrow> nat list) \<Rightarrow> pyfloat list list \<Rightarrow> nat \<Rightarrow> pyfloat option list" where
  "calculate_crowding_distance argsort points n_objectives =
     foldl (crowding_objective argsort points) (replicate (length points) (Some 0)) [0..<n_objectives]"

definition normalized :: "pareto_calculator \<Rightarrow> pareto_point list \<Rightarrow> pyfloat list list" where
  "normalized C points = map (\<lambda>p. map2 (*) (pp_objectives p) (sign_list C)) points"

definition calculate_pareto_front ::
    "(pyfloat list \<Rightarrow> nat list) \<Rightarrow> pareto_calculator \<Rightarrow> pareto_point list \<Rightarrow> pareto_front" where
  "calculate_pareto_front argsort C points =
     (if points = [] then
        \<lparr>pf_points = [], pf_objective_names = pc_objectives C, pf_directions = pc_directions C,
         pf_n_total_points = 0\<rparr>
      else
        let n = length points; rows = normalized C points; marks = pareto_mask dominates rows;
            marked = map (\<lambda>i. (points ! i)\<lparr>pp_is_pareto := marks ! i, pp_index := int i\<rparr>) [0..<n];
            indices = filter (\<lambda>i. marks ! i) [0..<n];
            crowding = calculate_crowding_distance argsort (map (\<lambda>i. rows ! i) indices) (length (rows ! 0));
            final = foldl (\<lambda>ps (k, i). ps[i := (ps ! i)\<lparr>pp_crowding := crowding ! k\<rparr>]) marked
                      (zip [0..<length indices] indices)
        in \<lparr>pf_points = final, pf_objective_names = pc_objectives C, pf_directions = pc_directions C,
            pf_n_total_points = n\<rparr>)"

definition get_pareto_points :: "pareto_front \<Rightarrow> pareto_point list" where
  "get_pareto_points F = filter pp_is_pareto (pf_points F)"

text \<open>A stable descending sort; infinity comes first.\<close>

definition crowding_key :: "pareto_point \<Rightarrow> nat \<times> pyfloat" where
  "crowding_key p = (case pp_crowding p of None \<Rightarrow> (0, 0) | Some x \<Rightarrow> (1, - x))"

fun find_index :: "'a \<Rightarrow> 'a list \<Rightarrow> nat option" where
  "find_index x [] = None"
| "find_index x (y # ys) = (if x = y then Some 0 else map_option Suc (find_index x ys))"

definition get_top_k :: "pareto_front \<Rightarrow> nat \<Rightarrow> string \<Rightarrow> pareto_point list" where
  "get_top_k F k sort_by =
     (let ps = get_pareto_points F;
          sorted = (if sort_by = ''crowding_distance'' then sort_key crowding_key ps
                    else case find_index sort_by (pf_objective_names F) of
                        None \<Rightarrow> ps
                      | Some idx \<Rightarrow> sort_key (\<lambda>p. - (pp_objectives p ! idx)) ps)
      in take k sorted)"

section \<open>Lemmas\<close>

lemma foldl_set_crowding:
  "length (foldl (\<lambda>ps (k, i). ps[i := (ps ! i)\<lparr>pp_crowding := c ! k\<rparr>]) ps kis) = length ps"
  "i < length ps \<Longrightarrow>
     pp_is_pareto (foldl (\<lambda>ps (k, i). ps[i := (ps ! i)\<lparr>pp_crowding := c ! k\<rparr>]) ps kis ! i) = pp_is_pareto (ps ! i) \<and>
     pp_objectives (foldl (\<lambda>ps (k, i). ps[i := (ps ! i)\<lparr>pp_crowding := c ! k\<rparr>]) ps kis ! i) = pp_objectives (ps ! i) \<and>
     pp_index (foldl (\<lambda>ps (k, i). ps[i := (ps ! i)\<lparr>pp_crowding := c ! k\<rparr>]) ps kis ! i) = pp_index (ps ! i)"
proof -
  show "length (foldl (\<lambda>ps (k, i). ps[i := (ps ! i)\<lparr>pp_crowding := c ! k\<rparr>]) ps kis) = length ps"
    by (induction kis arbitrary: ps) auto
  show "i < length ps \<Longrightarrow>
     pp_is_pareto (foldl (\<lambda>ps (k, i). ps[i := (ps ! i)\<lparr>pp_crowding := c ! k\<rparr>]) ps kis ! i) = pp_is_pareto (ps ! i) \<and>
     pp_objectives (foldl (\<lambda>ps (k, i). ps[i := (ps ! i)\<lparr>pp_crowding := c ! k\<rparr>]) ps kis ! i) = pp_objectives (ps ! i) \<and>
     pp_index (foldl (\<lambda>ps (k, i). ps[i := (ps ! i)\<lparr>pp_crowding := c ! k\<rparr>]) ps kis ! i) = pp_index (ps ! i)"
  proof (induction kis arbitrary: ps)
    case (Cons ki kis)
    obtain k j where ki: "ki = (k, j)" by (cases ki)
    let ?ps = "ps[j := (ps ! j)\<lparr>pp_crowding := c ! k\<rparr>]"
    have "pp_is_pareto (?ps ! i) = pp_is_pareto (ps ! i)" "pp_objectives (?ps ! i) = pp_objectives (ps ! i)"
      "pp_index (?ps ! i) = pp_index (ps ! i)"
      using Cons.prems by (cases "i = j"; simp)+
    with Cons.IH [of ?ps] Cons.prems ki show ?case by simp
  qed simp
qed

lemma front_points:
  assumes "points \<noteq> []"
  shows "length (pf_points (calculate_pareto_front argsort C points)) = length points"
    "i < length points \<Longrightarrow>
       pp_is_pareto (pf_points (calculate_pareto_front argsort C points) ! i) =
         pareto_mask dominates (normalized C points) ! i \<and>
       pp_objectives (pf_points (calculate_pareto_front argsort C points) ! i) = pp_objectives (points ! i) \<and>
       pp_index (pf_points (calculate_pareto_front argsort C points) ! i) = int i"
  using assms by (simp_all add: calculate_pareto_front_def Let_def foldl_set_crowding)

text \<open>Sorting by an objective that is to be minimised puts its worst value first.\<close>

definition demo_points :: "pareto_point list" where
  "demo_points =
     map (\<lambda>xs. \<lparr>pp_objectives = xs, pp_composition = [], pp_predicted = [], pp_index = -1,
                pp_is_pareto = False, pp_crowding = Some 0\<rparr>) [[1, 5], [2, 9], [1, 7]]"

definition demo_calculator :: pareto_calculator where
  "demo_calculator = \<lparr>pc_objectives = [''density'', ''ghg''], pc_directions = [''maximize'', ''minimize'']\<rparr>"

lemma top_k_of_minimised_objective:
  "map pp_objectives (get_top_k (calculate_pareto_front (\<lambda>c. [0..<length c]) demo_calculator demo_points) 1 ''ghg'')
     = [[2, 9]]"
  by code_simp

section \<open>Properties\<close>



end
