(* ===== verification/ParetoMeasures.thy ===== *)
theory ParetoMeasures
  imports Pareto
begin

text \<open>
  Measures of a Pareto front, the rest of \<^verbatim>\<open>src/src/recommendation/pareto.py\<close>: the
  hypervolume indicator, exact for two objectives and sampled for more, and the knee point.
  Distances are compared by their squares, which order them alike; the samples numpy draws
  are an argument.
\<close>

section \<open>Hypervolume\<close>

text \<open>The columns of a non-empty matrix of rows.\<close>

definition column :: "pyfloat list list \<Rightarrow> nat \<Rightarrow> pyfloat list" where
  "column rows j = map (\<lambda>r. r ! j) rows"

definition least :: "pyfloat list \<Rightarrow> pyfloat" where
  "least xs = foldl min (hd xs) (tl xs)"

definition greatest :: "pyfloat list \<Rightarrow> pyfloat" where
  "greatest xs = foldl max (hd xs) (tl xs)"

definition signed_objectives :: "pareto_calculator \<Rightarrow> pareto_point list \<Rightarrow> pyfloat list list" where
  "signed_objectives C ps = map (\<lambda>p. map2 (*) (pp_objectives p) (sign_list C)) ps"

definition default_reference :: "pyfloat list list \<Rightarrow> pyfloat list" where
  "default_reference rows = map (\<lambda>j. least (column rows j) - 1) [0..<length (hd rows)]"

text \<open>The sum over the points in ascending order of the first objective.\<close>

fun strips :: "pyfloat \<Rightarrow> pyfloat \<Rightarrow> pyfloat \<Rightarrow> pyfloat list list \<Rightarrow> pyfloat \<Rightarrow> pyfloat" where
  "strips rx ry prev_x [] volume = volume"
| "strips rx ry prev_x (p # ps) volume =
     (if p ! 0 > rx \<and> p ! 1 > ry then strips rx ry (p ! 0) ps (volume + (p ! 0 - prev_x) * (p ! 1 - ry))
      else strips rx ry prev_x ps volume)"

definition hypervolume_2d :: "(pyfloat list \<Rightarrow> nat list) \<Rightarrow> pyfloat list list \<Rightarrow> pyfloat list \<Rightarrow> pyfloat" where
  "hypervolume_2d argsort points reference =
     strips (reference ! 0) (reference ! 1) (reference ! 0)
       (map (\<lambda>i. points ! i) (argsort (column points 0))) 0"

definition covers_sample :: "pyfloat list list \<Rightarrow> pyfloat list \<Rightarrow> bool" where
  "covers_sample points sample \<longleftrightarrow> list_ex (\<lambda>p. list_all2 (\<lambda>x y. x \<ge> y) p sample) points"

definition box_volume :: "pyfloat list list \<Rightarrow> pyfloat list \<Rightarrow> pyfloat" where
  "box_volume points reference =
     foldl (*) 1 (map (\<lambda>j. greatest (column points j) - reference ! j) [0..<length (hd points)])"

definition hypervolume_monte_carlo :: "pyfloat list list \<Rightarrow> pyfloat list list \<Rightarrow> pyfloat list \<Rightarrow> pyfloat" where
  "hypervolume_monte_carlo samples points reference =
     (let box = box_volume points reference in
      if box \<le> 0 then 0
      else box * of_nat (length (filter (covers_sample points) samples)) / of_nat (length samples))"

definition hypervolume_indicator ::
    "(pyfloat list \<Rightarrow> nat list) \<Rightarrow> (pyfloat list \<Rightarrow> pyfloat list \<Rightarrow> pyfloat list list) \<Rightarrow> pareto_calculator
      \<Rightarrow> pareto_front \<Rightarrow> pyfloat list option \<Rightarrow> pyfloat" where
  "hypervolume_indicator argsort draw C F reference =
     (let ps = get_pareto_points F in
      if ps = [] then 0
      else
        let rows = signed_objectives C ps;
            reference = (case reference of None \<Rightarrow> default_reference rows | Some r \<Rightarrow> r)
        in if length (hd rows) = 2 then hypervolume_2d argsort rows reference
           else hypervolume_monte_carlo
                  (draw reference (map (\<lambda>j. greatest (column rows j)) [0..<length (hd rows)])) rows reference)"

section \<open>Knee point\<close>

text \<open>\<open>np.argmax\<close> and \<open>np.argmin\<close>: the first position of the extreme value.\<close>

fun arg_best :: "('a \<Rightarrow> 'a \<Rightarrow> bool) \<Rightarrow> nat \<Rightarrow> 'a \<Rightarrow> nat \<Rightarrow> 'a list \<Rightarrow> nat" where
  "arg_best better best x i [] = best"
| "arg_best better best x i (y # ys) =
     (if better y x then arg_best better i y (i + 1) ys else arg_best better best x (i + 1) ys)"

definition argmax :: "pyfloat list \<Rightarrow> nat" where
  "argmax xs = arg_best (>) 0 (hd xs) 1 (tl xs)"

definition argmin :: "pyfloat list \<Rightarrow> nat" where
  "argmin xs = arg_best (<) 0 (hd xs) 1 (tl xs)"

definition extreme_indices :: "pyfloat list list \<Rightarrow> nat list" where
  "extreme_indices rows =
     remdups (concat (map (\<lambda>j. [argmax (column rows j), argmin (column rows j)]) [0..<length (hd rows)]))"

type_synonym point2 = "pyfloat \<times> pyfloat"

definition dot2 :: "point2 \<Rightarrow> point2 \<Rightarrow> pyfloat" where
  "dot2 a b = fst a * fst b + snd a * snd b"

definition sub2 :: "point2 \<Rightarrow> point2 \<Rightarrow> point2" where
  "sub2 a b = (fst a - fst b, snd a - snd b)"

definition point2_of :: "pyfloat list \<Rightarrow> point2" where
  "point2_of r = (r ! 0, r ! 1)"

text \<open>The squared distance of a point to its projection on the line.\<close>

definition line_distance2 :: "point2 \<Rightarrow> point2 \<Rightarrow> point2 \<Rightarrow> pyfloat" where
  "line_distance2 p1 line q =
     (let t = dot2 (sub2 q p1) line / dot2 line line;
          foot = (fst p1 + t * fst line, snd p1 + t * snd line);
          d = sub2 q foot
      in dot2 d d)"

definition column_score :: "pyfloat list list \<Rightarrow> pyfloat list \<Rightarrow> nat \<Rightarrow> pyfloat" where
  "column_score rows r j =
     (r ! j - least (column rows j)) / (greatest (column rows j) - least (column rows j) + 1 / 10 ^ 10)"

definition knee_index :: "pyfloat list list \<Rightarrow> nat" where
  "knee_index rows =
     (if length (extreme_indices rows) < 2 then 0
      else if length (hd rows) = 2 then
        let p1 = point2_of (rows ! argmin (column rows 0)); p2 = point2_of (rows ! argmax (column rows 0));
            line = sub2 p2 p1
        in if dot2 line line = 0 then 0 else argmax (map (\<lambda>r. line_distance2 p1 line (point2_of r)) rows)
      else argmax (map (\<lambda>r. sum_list (map (column_score rows r) [0..<length r])) rows))"

definition find_knee_point :: "pareto_front \<Rightarrow> pareto_point option" where
  "find_knee_point F =
     (let ps = get_pareto_points F in
      if length ps < 3 then (if ps = [] then None else Some (hd ps))
      else Some (ps ! knee_index (map pp_objectives ps)))"

section \<open>Lemmas\<close>

text \<open>With three objectives the knee point ignores the directions: of two balanced points and one
  that is worst in the minimised objective it takes the last.\<close>

definition knee_points :: "pareto_point list" where
  "knee_points = map (\<lambda>xs. \<lparr>pp_objectives = xs, pp_composition = [], pp_predicted = [], pp_index = 0,
     pp_is_pareto = True, pp_crowding = Some 0\<rparr>) [[9, 9, 1], [0, 0, 0], [10, 10, 100]]"

definition knee_front :: pareto_front where
  "knee_front = \<lparr>pf_points = knee_points, pf_objective_names = [''a'', ''b'', ''cost''],
     pf_directions = [''maximize'', ''maximize'', ''minimize''], pf_n_total_points = 3\<rparr>"

lemma knee_ignores_directions: "map_option pp_objectives (find_knee_point knee_front) = Some [10, 10, 100]"
  by code_simp

lemma arg_best_max:
  fixes x :: pyfloat
  assumes "best < length pre" "pre ! best = x" "\<forall>j<length pre. pre ! j \<le> x"
  shows "arg_best (>) best x (length pre) ys < length (pre @ ys) \<and>
    (\<forall>j<length (pre @ ys). (pre @ ys) ! j \<le> (pre @ ys) ! arg_best (>) best x (length pre) ys)"
  using assms
proof (induction ys arbitrary: pre best x)
  case (Cons y ys)
  show ?case
  proof (cases "y > x")
    case True
    have "\<forall>j<length (pre @ [y]). (pre @ [y]) ! j \<le> y"
      using Cons.prems(3) True by (auto simp: nth_append less_Suc_eq intro: order_trans less_imp_le)
    from Cons.IH [of "length pre" "pre @ [y]" y, OF _ _ this] True show ?thesis by simp
  next
    case False
    have "\<forall>j<length (pre @ [y]). (pre @ [y]) ! j \<le> x"
      using Cons.prems(3) False by (auto simp: nth_append less_Suc_eq)
    from Cons.IH [of best "pre @ [y]" x, OF _ _ this] Cons.prems False show ?thesis by (simp add: nth_append)
  qed
qed simp

lemma argmax_max: "xs \<noteq> [] \<Longrightarrow> argmax xs < length xs \<and> (\<forall>j<length xs. xs ! j \<le> xs ! argmax xs)"
  using arg_best_max [of 0 "[hd xs]" "hd xs" "tl xs"] by (simp add: argmax_def)

text \<open>The grid cells between a reference corner and the points.\<close>

definition grid_cells :: "int \<Rightarrow> int \<Rightarrow> (int \<times> int) list \<Rightarrow> (int \<times> int) set" where
  "grid_cells rx ry ps = {(a, b). rx \<le> a \<and> ry \<le> b \<and> (\<exists>p\<in>set ps. a < fst p \<and> b < snd p)}"

text \<open>Points in ascending first and descending second coordinate, all above the corner.\<close>

fun staircase :: "int \<Rightarrow> int \<Rightarrow> (int \<times> int) list \<Rightarrow> bool" where
  "staircase x ry [] = True"
| "staircase x ry (p # ps) \<longleftrightarrow> x < fst p \<and> ry < snd p \<and> (\<forall>q\<in>set ps. snd q < snd p) \<and> staircase (fst p) ry ps"

definition float_point :: "int \<times> int \<Rightarrow> pyfloat list" where
  "float_point p = [of_int (fst p), of_int (snd p)]"

lemma staircase_above: "staircase x ry ps \<Longrightarrow> q \<in> set ps \<Longrightarrow> x < fst q \<and> ry < snd q"
proof (induction ps arbitrary: x)
  case (Cons p ps)
  from Cons.prems Cons.IH [of "fst p"] show ?case by (cases "q = p") auto
qed simp

lemma strips_acc: "strips rx ry x ps v = strips rx ry x ps 0 + v"
proof (induction ps arbitrary: x v)
  case (Cons p ps)
  let ?d = "(p ! 0 - x) * (p ! 1 - ry)"
  show ?case
  proof (cases "p ! 0 > rx \<and> p ! 1 > ry")
    case True
    have "strips rx ry (p ! 0) ps (v + ?d) = strips rx ry (p ! 0) ps 0 + (v + ?d)"
      "strips rx ry (p ! 0) ps (0 + ?d) = strips rx ry (p ! 0) ps 0 + (0 + ?d)" by (rule Cons.IH)+
    with True show ?thesis by simp
  next
    case False
    with Cons.IH [of x v] show ?thesis by auto
  qed
qed simp

lemma cells_step:
  assumes "staircase x ry (p # ps)"
  shows "grid_cells x ry (p # ps) = ({x..<fst p} \<times> {ry..<snd p}) \<union> grid_cells (fst p) ry ps"
  using assms staircase_above [of "fst p" ry ps] by (fastforce simp: grid_cells_def)

lemma finite_cells: "finite (grid_cells x y ps)"
proof -
  have "grid_cells x y ps \<subseteq> (\<Union>p\<in>set ps. {x..<fst p} \<times> {y..<snd p})" by (auto simp: grid_cells_def)
  then show ?thesis by (rule finite_subset) simp
qed

lemma strips_count:
  assumes "staircase x ry ps" "rx \<le> x"
  shows "strips (of_int rx) (of_int ry) (of_int x) (map float_point ps) 0 = of_nat (card (grid_cells x ry ps))"
  using assms
proof (induction ps arbitrary: x)
  case Nil
  then show ?case by (simp add: grid_cells_def)
next
  case (Cons p ps)
  then have above: "x < fst p" "ry < snd p" "rx < fst p" and rest: "staircase (fst p) ry ps" by auto
  let ?A = "{x..<fst p} \<times> {ry..<snd p}" and ?B = "grid_cells (fst p) ry ps"
  have "?A \<inter> ?B = {}" by (auto simp: grid_cells_def)
  then have "card (grid_cells x ry (p # ps)) = card ?A + card ?B"
    unfolding cells_step [OF Cons.prems(1)] by (intro card_Un_disjoint) (simp_all add: finite_cells)
  moreover have "card ?A = nat ((fst p - x) * (snd p - ry))"
    using above by (simp add: card_cartesian_product nat_mult_distrib)
  moreover have "(of_nat (nat ((fst p - x) * (snd p - ry))) :: pyfloat) = (of_int (fst p) - of_int x) * (of_int (snd p) - of_int ry)"
    using above by (simp add: of_nat_nat)
  ultimately have c: "(of_nat (card (grid_cells x ry (p # ps))) :: pyfloat) =
      (of_int (fst p) - of_int x) * (of_int (snd p) - of_int ry) + of_nat (card ?B)" by simp
  have "strips (of_int rx) (of_int ry) (of_int x) (map float_point (p # ps)) 0 =
      strips (of_int rx) (of_int ry) (of_int (fst p)) (map float_point ps)
        ((of_int (fst p) - of_int x) * (of_int (snd p) - of_int ry))"
    using above by (simp add: float_point_def)
  also have "\<dots> = of_nat (card ?B) + (of_int (fst p) - of_int x) * (of_int (snd p) - of_int ry)"
    unfolding strips_acc [of _ _ "of_int (fst p)" _ "_ * _"] using Cons.IH [OF rest] above(3) by simp
  finally show ?case using c by simp
qed

text \<open>What the documentation of \<open>np.argsort\<close> promises.\<close>

definition argsort_laws :: "(pyfloat list \<Rightarrow> nat list) \<Rightarrow> bool" where
  "argsort_laws argsort \<longleftrightarrow>
     (\<forall>xs. distinct (argsort xs) \<and> set (argsort xs) = {..<length xs} \<and> sorted (map (\<lambda>i. xs ! i) (argsort xs)))"

lemma stable_argsort_laws: "argsort_laws (\<lambda>xs. sort_key (\<lambda>i. xs ! i) [0..<length xs])"
proof -
  have "sorted (map (\<lambda>i. xs ! i) (sort_key (\<lambda>i. xs ! i) [0..<length xs]))" for xs :: "pyfloat list"
    by (rule sorted_sort_key)
  then show ?thesis by (simp add: argsort_laws_def atLeast0LessThan)
qed

lemma dominates_float_point:
  "dominates (float_point p) (float_point q) \<longleftrightarrow> fst q \<le> fst p \<and> snd q \<le> snd p \<and> p \<noteq> q"
  by (cases p; cases q) (auto simp: dominates_def float_point_def)

lemma sorted_front_staircase:
  assumes "sorted (map fst qs)" "distinct qs" "\<forall>p\<in>set qs. x < fst p \<and> ry < snd p"
    "\<forall>p\<in>set qs. \<forall>q\<in>set qs. \<not> dominates (float_point p) (float_point q)"
  shows "staircase x ry qs"
  using assms
proof (induction qs arbitrary: x)
  case (Cons p qs)
  have lt: "fst p < fst q \<and> snd q < snd p" if q: "q \<in> set qs" for q
  proof -
    have "fst p \<le> fst q" "q \<noteq> p" using Cons.prems(1,2) q by auto
    moreover have "\<not> (fst q \<le> fst p \<and> snd q \<le> snd p \<and> p \<noteq> q)" "\<not> (fst p \<le> fst q \<and> snd p \<le> snd q \<and> q \<noteq> p)"
      using Cons.prems(4) q unfolding dominates_float_point by auto
    ultimately show ?thesis by auto
  qed
  have "staircase (fst p) ry qs"
    using Cons.prems lt by (intro Cons.IH) auto
  with Cons.prems(3) lt show ?case by simp
qed simp

section \<open>Properties\<close>

text \<open>
  For distinct mutually non-dominated points with integer coordinates above the reference
  point, the two-dimensional hypervolume is exactly the number of unit cells between the
  reference point and the front.
\<close>

theorem hypervolume_counts_dominated_cells:
  assumes "argsort_laws argsort" "distinct ps" "\<forall>p\<in>set ps. rx < fst p \<and> ry < snd p"
    "\<forall>p\<in>set ps. \<forall>q\<in>set ps. \<not> dominates (float_point p) (float_point q)"
  shows "hypervolume_2d argsort (map float_point ps) [of_int rx, of_int ry] = of_nat (card (grid_cells rx ry ps))"
proof -
  let ?is = "argsort (column (map float_point ps) 0)"
  let ?qs = "map (\<lambda>i. ps ! i) ?is"
  have len: "length (column (map float_point ps) 0) = length ps" by (simp add: column_def)
  have i: "set ?is = {..<length ps}" "distinct ?is" "sorted (map (\<lambda>i. column (map float_point ps) 0 ! i) ?is)"
    using assms(1) len unfolding argsort_laws_def by metis+
  have "set ?qs = (\<lambda>i. ps ! i) ` {..<length ps}" by (simp add: i(1))
  then have set_qs: "set ?qs = set ps" by (metis atLeast_upt nth_image list.set_map map_nth)
  have d: "distinct ?qs"
    using i(1,2) assms(2) by (simp add: distinct_map inj_on_def nth_eq_iff_index_eq)
  have "map (\<lambda>i. column (map float_point ps) 0 ! i) ?is = map (\<lambda>p. of_int (fst p)) ?qs"
    using i(1) by (simp add: column_def float_point_def)
  with i(3) have "sorted (map (\<lambda>p. (of_int (fst p) :: pyfloat)) ?qs)" by simp
  then have "sorted (map fst ?qs)" by (simp add: sorted_iff_nth_mono)
  then have st: "staircase rx ry ?qs"
    by (rule sorted_front_staircase [OF _ d]) (use assms(3,4) set_qs in simp_all)
  have pts: "map (\<lambda>i. map float_point ps ! i) ?is = map float_point ?qs" using i(1) by simp
  have "hypervolume_2d argsort (map float_point ps) [of_int rx, of_int ry] =
      strips (of_int rx) (of_int ry) (of_int rx) (map float_point ?qs) 0"
    unfolding hypervolume_2d_def pts by (simp only: nth_Cons_0 nth_Cons_Suc One_nat_def)
  also have "\<dots> = of_nat (card (grid_cells rx ry ?qs))" by (rule strips_count [OF st]) simp
  also have "grid_cells rx ry ?qs = grid_cells rx ry ps" unfolding grid_cells_def set_qs ..
  finally show ?thesis .
qed

theorem hypervolume_counts_dominated_cells_witness:
  "hypervolume_2d (\<lambda>xs. sort_key (\<lambda>i. xs ! i) [0..<length xs]) (map float_point [(2, 1), (1, 3)]) [0, 0] =
     of_nat (card (grid_cells 0 0 [(2, 1), (1, 3)]))"
  using hypervolume_counts_dominated_cells [OF stable_argsort_laws, of "[(2, 1), (1, 3)]" 0 0]
  by (simp add: dominates_float_point)

end
