(* ===== verification/PyText.thy ===== *)
theory PyText
  imports PyNumbers
begin

text \<open>
  Text processing of the file readers and writers: \<open>str.split()\<close>, \<open>str.isdigit\<close>,
  \<open>f"{x:.kf}"\<close>, joining of words and lines, and loops that may raise. The round trips here
  carry those of the file formats.
\<close>

section \<open>Loops that may raise\<close>

fun fold_result :: "('a \<Rightarrow> 's \<Rightarrow> ('e, 's) result) \<Rightarrow> 'a list \<Rightarrow> 's \<Rightarrow> ('e, 's) result" where
  "fold_result f [] s = Inr s"
| "fold_result f (x # xs) s = (case f x s of Inl e \<Rightarrow> Inl e | Inr s' \<Rightarrow> fold_result f xs s')"

fun map_result :: "('a \<Rightarrow> ('e, 'b) result) \<Rightarrow> 'a list \<Rightarrow> ('e, 'b list) result" where
  "map_result f [] = Inr []"
| "map_result f (x # xs) =
     (case f x of Inl e \<Rightarrow> Inl e
      | Inr y \<Rightarrow> (case map_result f xs of Inl e \<Rightarrow> Inl e | Inr ys \<Rightarrow> Inr (y # ys)))"

definition bind_result :: "('e, 'a) result \<Rightarrow> ('a \<Rightarrow> ('e, 'b) result) \<Rightarrow> ('e, 'b) result" where
  "bind_result r f = (case r of Inl e \<Rightarrow> Inl e | Inr x \<Rightarrow> f x)"

lemma bind_result_simps [simp]: "bind_result (Inl e) f = Inl e" "bind_result (Inr x) f = f x"
  by (simp_all add: bind_result_def)

lemma bind_result_Inr: "bind_result r f = Inr y \<longleftrightarrow> (\<exists>x. r = Inr x \<and> f x = Inr y)"
  by (cases r) simp_all

lemma fold_result_append:
  "fold_result f (xs @ ys) s = bind_result (fold_result f xs s) (fold_result f ys)"
  by (induction xs arbitrary: s) (auto split: sum.split)

lemma fold_result_Cons: "fold_result f (x # xs) s = bind_result (f x s) (fold_result f xs)"
  by (simp add: bind_result_def)

lemma fold_result_invariant:
  assumes "fold_result f xs s = Inr t" "P s" "\<And>x s t. x \<in> set xs \<Longrightarrow> P s \<Longrightarrow> f x s = Inr t \<Longrightarrow> P t"
  shows "P t"
  using assms
proof (induction xs arbitrary: s)
  case (Cons x xs)
  then obtain s' where s': "f x s = Inr s'" "fold_result f xs s' = Inr t" by (auto split: sum.splits)
  have "P s'" using Cons.prems(3) [of x s s'] Cons.prems(2) s'(1) by simp
  then show ?case by (rule Cons.IH [OF s'(2)]) (use Cons.prems(3) in auto)
qed simp

lemma fold_result_total:
  assumes "\<And>x s. x \<in> set xs \<Longrightarrow> f x s = Inr (g x s)"
  shows "fold_result f xs s = Inr (fold g xs s)"
  using assms by (induction xs arbitrary: s) auto

section \<open>Words\<close>

text \<open>\<open>s.split()\<close>; the first argument is the word read so far, reversed.\<close>

fun split_from :: "string \<Rightarrow> string \<Rightarrow> string list" where
  "split_from w [] = (if w = [] then [] else [rev w])"
| "split_from w (c # s) =
     (if is_space c then (if w = [] then split_from [] s else rev w # split_from [] s)
      else split_from (c # w) s)"

definition py_split :: "string \<Rightarrow> string list" where
  "py_split s = split_from [] s"

definition py_isdigit :: "string \<Rightarrow> bool" where
  "py_isdigit s \<longleftrightarrow> s \<noteq> [] \<and> list_all is_digit s"

definition blank :: char where
  "blank = CHR '' ''"

definition word :: "string \<Rightarrow> bool" where
  "word w \<longleftrightarrow> w \<noteq> [] \<and> list_all (\<lambda>c. \<not> is_space c) w"

lemma blank_space [simp]: "is_space blank"
  by (simp add: blank_def is_space_def)

lemma split_from_word: "list_all (\<lambda>c. \<not> is_space c) u \<Longrightarrow> split_from w (u @ s) = split_from (rev u @ w) s"
  by (induction u arbitrary: w) auto

lemma py_split_word: "word u \<Longrightarrow> py_split u = [u]"
  using split_from_word [of u "[]" "[]"] by (simp add: py_split_def word_def)

lemma py_split_Cons: "word u \<Longrightarrow> py_split (u @ blank # s) = u # py_split s"
  using split_from_word [of u "[]" "blank # s"] by (simp add: py_split_def word_def)

lemma py_split_blank [simp]: "py_split (blank # s) = py_split s" "py_split [] = []"
  by (simp_all add: py_split_def)

lemma py_split_join: "\<forall>w\<in>set ws. word w \<Longrightarrow> py_split (join_with blank ws) = ws"
  by (induction blank ws rule: join_with.induct) (simp_all add: py_split_word py_split_Cons)

lemma py_split_join_rest:
  "\<forall>w\<in>set ws. word w \<Longrightarrow> ws \<noteq> [] \<Longrightarrow> py_split (join_with blank ws @ blank # s) = ws @ py_split s"
  by (induction blank ws rule: join_with.induct) (simp_all add: py_split_Cons)

lemma split_from_strip_left: "split_from [] (dropWhile is_space s) = split_from [] s"
  by (induction s) auto

lemma split_from_trailing: "list_all is_space t \<Longrightarrow> split_from w (s @ t) = split_from w s"
proof (induction s arbitrary: w)
  case Nil
  then show ?case by (induction t arbitrary: w) auto
next
  case (Cons c s)
  then show ?case by simp
qed

lemma py_split_strip [simp]: "py_split (str_strip s) = py_split s"
proof -
  let ?t = "dropWhile is_space s"
  have "rev (dropWhile is_space (rev ?t)) @ rev (takeWhile is_space (rev ?t)) = ?t"
    by (metis rev_append rev_rev_ident takeWhile_dropWhile_id)
  moreover have "list_all is_space (rev (takeWhile is_space (rev ?t)))"
    by (auto simp: list_all_iff dest: set_takeWhileD)
  ultimately have "split_from [] (str_strip s) = split_from [] ?t"
    unfolding str_strip_def using split_from_trailing by metis
  then show ?thesis by (simp add: py_split_def split_from_strip_left)
qed

text \<open>Stripping a text that starts with a word leaves the word in front.\<close>

lemma str_strip_head:
  assumes "word u"
  shows "str_strip (u @ s) = u @ rev (dropWhile is_space (rev s))"
proof -
  have d: "dropWhile is_space (u @ s) = u @ s" using assms by (cases u) (auto simp: word_def)
  have k: "dropWhile is_space (rev u) = rev u"
  proof (cases "rev u")
    case (Cons c t)
    then have "c \<in> set u" by (metis list.set_intros(1) set_rev)
    with assms Cons show ?thesis by (auto simp: word_def list_all_iff)
  qed simp
  have "dropWhile is_space (rev s @ rev u) = dropWhile is_space (rev s) @ rev u"
    using k by (induction "rev s" arbitrary: s) (auto, metis append_Cons append_Nil dropWhile.simps(2) rev_rev_ident)
  then show ?thesis by (simp add: str_strip_def d)
qed

section \<open>Lines\<close>

text \<open>The text of a list of lines, each ended by a newline.\<close>

definition unlines :: "string list \<Rightarrow> string" where
  "unlines ls = concat (map (\<lambda>l. l @ [newline]) ls)"

definition one_line :: "string \<Rightarrow> bool" where
  "one_line l \<longleftrightarrow> newline \<notin> set l"

lemma split_unlines: "list_all one_line ls \<Longrightarrow> split_on newline (unlines ls) = ls @ [[]]"
  by (induction ls) (simp_all add: unlines_def one_line_def split_on_cons)

section \<open>Numbers as words\<close>

lemma digit_not_space: "is_digit c \<Longrightarrow> \<not> is_space c"
  by (auto simp: is_digit_def is_space_def Let_def)

lemma show_nat_word [simp]: "word (show_nat n)"
  using show_nat_digits [of n] by (auto simp: word_def list_all_iff digit_not_space)

lemma show_int_word [simp]: "word (show_int n)"
  using show_nat_digits [of "nat n"] show_nat_digits [of "nat (- n)"]
  by (auto simp: word_def show_int_def list_all_iff digit_not_space) (simp add: is_space_def)

lemma show_nat_isdigit [simp]: "py_isdigit (show_nat n)"
  by (simp add: py_isdigit_def)

lemma show_int_isdigit: "0 \<le> n \<Longrightarrow> py_isdigit (show_int n)"
  by (simp add: show_int_def)

text \<open>\<open>f"{x:.kf}"\<close> for a positive \<open>k\<close>.\<close>

definition show_fixed :: "nat \<Rightarrow> pyfloat \<Rightarrow> string" where
  "show_fixed k x =
     (if x < 0 \<and> py_round (x * 10 ^ k) = 0 then CHR ''-'' # show_scaled k 0
      else show_scaled k (py_round (x * 10 ^ k)))"

text \<open>What reading back gives.\<close>

definition rounded :: "nat \<Rightarrow> pyfloat \<Rightarrow> pyfloat" where
  "rounded k x = of_int (py_round (x * 10 ^ k)) / 10 ^ k"

lemma show_fixed_word [simp]: "word (show_fixed k x)"
  by (auto simp: word_def show_fixed_def list_all_iff is_space_def dest!: show_scaled_chars num_char_not_space)

lemma float_of_minus_zero: "py_float_of (CHR ''-'' # show_scaled k 0) = Some 0"
proof -
  have s: "str_strip (CHR ''-'' # show_scaled k 0) = CHR ''-'' # show_scaled k 0"
  proof (rule str_strip_no_space, rule ballI)
    fix c assume "c \<in> set (CHR ''-'' # show_scaled k 0)"
    then have "num_char c" using show_scaled_chars [of c k 0] by (auto simp: num_char_def)
    then show "\<not> is_space c" by (rule num_char_not_space)
  qed
  have "show_scaled k 0 = show_nat (0 div 10 ^ k) @ CHR ''.'' # show_padded k 0"
    by (simp add: show_scaled_def)
  then have "parse_unsigned (show_scaled k 0) = Some 0" by (simp only: parse_unsigned_scaled) simp
  then show ?thesis by (simp add: py_float_of_def s signed_def)
qed

lemma float_of_show_fixed: "py_float_of (show_fixed k x) = Some (rounded k x)"
  by (simp add: show_fixed_def rounded_def float_of_minus_zero float_of_scaled)

lemma rounded_near: "\<bar>x - rounded k x\<bar> \<le> 1 / (2 * 10 ^ k)"
proof -
  let ?r = "of_int (py_round (x * 10 ^ k)) :: pyfloat"
  have "x - rounded k x = (x * 10 ^ k - ?r) / 10 ^ k" by (simp add: rounded_def field_simps)
  moreover have "\<bar>x * 10 ^ k - ?r\<bar> / 10 ^ k \<le> 1/2 / 10 ^ k"
    by (rule divide_right_mono) (use py_round_near in auto)
  ultimately show ?thesis by (simp add: abs_divide)
qed

lemma show_nat_head_word: "show_nat n \<noteq> [] \<and> is_digit (hd (show_nat n))"
  using show_nat_digits [of n] by (cases "show_nat n") auto

lemma float_of_show_int: "py_float_of (show_int n) = Some (of_int n)"
proof -
  have u: "parse_unsigned (show_nat k) = Some (of_nat k)" for k
  proof -
    note ad = all_digits [OF show_nat_digits(1), of k]
    show ?thesis by (simp add: parse_unsigned_def ad)
  qed
  have "py_float_of (show_int n) = signed parse_unsigned uminus (show_int n)"
    using show_int_word [of n] by (simp add: py_float_of_def word_def list_all_iff str_strip_no_space)
  also have "\<dots> = Some (of_int n)"
  proof (cases "n < 0")
    case True
    then show ?thesis by (simp add: show_int_def signed_def u)
  next
    case False
    then have s: "show_int n = show_nat (nat n)" by (simp add: show_int_def)
    obtain c w where cw: "show_nat (nat n) = c # w" using show_nat_digits(2) by (cases "show_nat (nat n)") auto
    have "signed parse_unsigned uminus (show_nat (nat n)) = parse_unsigned (show_nat (nat n))"
      using show_nat_head [OF cw] by (simp add: signed_def cw)
    then show ?thesis using False by (simp add: s u)
  qed
  finally show ?thesis .
qed

end
