(* ===== verification/PyJson.thy ===== *)
theory PyJson
  imports PyText TypingRouter
begin

text \<open>
  What \<open>int\<close>, \<open>float\<close>, iteration and membership do to values read from JSON or YAML, with the
  exceptions they raise. Numbers are rationals, so \<open>int\<close> of a number truncates; the text of a
  value that is no string is the argument \<open>shw\<close>, as in the router.
\<close>

datatype py_error = RaisesType | RaisesValue | RaisesAttribute | RaisesKey string

definition json_int :: "pyval \<Rightarrow> (py_error, int) result" where
  "json_int v =
     (case v of
        PNum x \<Rightarrow> Inr (py_int x)
      | PBool b \<Rightarrow> Inr (if b then 1 else 0)
      | PStr s \<Rightarrow> (case py_int_of s of None \<Rightarrow> Inl RaisesValue | Some n \<Rightarrow> Inr n)
      | _ \<Rightarrow> Inl RaisesType)"

definition json_float :: "pyval \<Rightarrow> (py_error, pyfloat) result" where
  "json_float v =
     (case v of
        PNum x \<Rightarrow> Inr x
      | PBool b \<Rightarrow> Inr (if b then 1 else 0)
      | PStr s \<Rightarrow> (case py_float_of s of None \<Rightarrow> Inl RaisesValue | Some x \<Rightarrow> Inr x)
      | _ \<Rightarrow> Inl RaisesType)"

text \<open>\<open>for x in v\<close>\<close>

definition json_iter :: "pyval \<Rightarrow> (py_error, pyval list) result" where
  "json_iter v =
     (case v of
        PList xs \<Rightarrow> Inr xs
      | PStr s \<Rightarrow> Inr (map (\<lambda>c. PStr [c]) s)
      | PDict d \<Rightarrow> Inr (map (\<lambda>(k, _). PStr k) d)
      | _ \<Rightarrow> Inl RaisesType)"

text \<open>\<open>d[k]\<close> and \<open>d.get(k, default)\<close>\<close>

definition json_item :: "(string \<times> pyval) list \<Rightarrow> string \<Rightarrow> (py_error, pyval) result" where
  "json_item d k = (case map_of d k of None \<Rightarrow> Inl (RaisesKey k) | Some v \<Rightarrow> Inr v)"

definition json_get :: "(string \<times> pyval) list \<Rightarrow> string \<Rightarrow> pyval \<Rightarrow> pyval" where
  "json_get d k v = dict_get d k v"

definition json_int_at :: "(string \<times> pyval) list \<Rightarrow> string \<Rightarrow> (py_error, int) result" where
  "json_int_at d k = bind_result (json_item d k) json_int"

definition json_float_at :: "(string \<times> pyval) list \<Rightarrow> string \<Rightarrow> (py_error, pyfloat) result" where
  "json_float_at d k = bind_result (json_item d k) json_float"

text \<open>\<open>dict(v or {})\<close>: a dictionary, or a list of pairs with texts in front.\<close>

definition json_pair :: "pyval \<Rightarrow> (py_error, string \<times> pyval) result" where
  "json_pair v =
     bind_result (json_iter v) (\<lambda>xs. case xs of [PStr k, w] \<Rightarrow> Inr (k, w) | [k, w] \<Rightarrow> Inl RaisesType | _ \<Rightarrow> Inl RaisesValue)"

definition json_dict :: "pyval \<Rightarrow> (py_error, (string \<times> pyval) list) result" where
  "json_dict v =
     (if \<not> pv_truthy v then Inr []
      else case v of
          PDict d \<Rightarrow> Inr d
        | _ \<Rightarrow> bind_result (json_iter v) (\<lambda>xs. map_sum id (foldl (\<lambda>d (k, w). dict_set k w d) []) (map_result json_pair xs)))"

text \<open>\<open>v.get(...)\<close> needs a dictionary.\<close>

definition json_object_of :: "pyval \<Rightarrow> (py_error, (string \<times> pyval) list) result" where
  "json_object_of v = (case v of PDict d \<Rightarrow> Inr d | _ \<Rightarrow> Inl RaisesAttribute)"

text \<open>\<open>v[k]\<close> needs a dictionary, too, but fails with another exception.\<close>

definition json_subscript :: "pyval \<Rightarrow> string \<Rightarrow> (py_error, pyval) result" where
  "json_subscript v k = (case v of PDict d \<Rightarrow> json_item d k | _ \<Rightarrow> Inl RaisesType)"

text \<open>\<open>except\<close> clauses that turn an error into another one.\<close>

definition map_error :: "('e \<Rightarrow> 'f) \<Rightarrow> ('e, 'a) result \<Rightarrow> ('f, 'a) result" where
  "map_error h r = (case r of Inl e \<Rightarrow> Inl (h e) | Inr x \<Rightarrow> Inr x)"

lemma map_error_simps [simp]: "map_error h (Inl e) = Inl (h e)" "map_error h (Inr x) = Inr x"
  by (simp_all add: map_error_def)

lemma map_error_Inr: "map_error h r = Inr x \<longleftrightarrow> r = Inr x"
  by (cases r) simp_all

lemma json_simps [simp]:
  "json_int (PNum x) = Inr (py_int x)" "json_float (PNum x) = Inr x" "json_iter (PList xs) = Inr xs"
  by (simp_all add: json_int_def json_float_def json_iter_def)

lemma map_result_Inr: "(\<And>x. x \<in> set xs \<Longrightarrow> f (g x) = Inr x) \<Longrightarrow> map_result f (map g xs) = Inr xs"
  by (induction xs) simp_all

lemma map_result_map: "(\<And>x. x \<in> set xs \<Longrightarrow> f x = Inr (g x)) \<Longrightarrow> map_result f xs = Inr (map g xs)"
  by (induction xs) simp_all

end
