(* ===== verification/MolTypes.thy ===== *)
theory MolTypes
  imports PyText
begin

text \<open>
  Molecules as \<^verbatim>\<open>src/src/builder/mol_types.py\<close> has them: atoms, bonds, and the angles and
  dihedrals generated from the connectivity, with the proof that a simple bond graph gives
  every angle and every torsion exactly once.
\<close>

section \<open>Data\<close>

record mol_atom =
  ma_index :: int
  ma_x :: pyfloat
  ma_y :: pyfloat
  ma_z :: pyfloat
  ma_element :: string
  ma_ff_type :: "string option"
  ma_charge :: pyfloat
  ma_charge_defined :: bool

record mol_bond =
  mb_atom1 :: int
  mb_atom2 :: int
  mb_order :: int

record mol_topology =
  mt_mol_id :: string
  mt_atoms :: "mol_atom list"
  mt_bonds :: "mol_bond list"
  mt_weight :: pyfloat
  mt_impropers :: "(int \<times> int \<times> int \<times> int) list option"

definition n_atoms :: "mol_topology \<Rightarrow> nat" where
  "n_atoms t = length (mt_atoms t)"

definition n_bonds :: "mol_topology \<Rightarrow> nat" where
  "n_bonds t = length (mt_bonds t)"

section \<open>Connectivity\<close>

text \<open>\<open>adj.setdefault(a, []).append(b)\<close>\<close>

definition adj_add :: "int \<Rightarrow> int \<Rightarrow> (int, int list) pydict \<Rightarrow> (int, int list) pydict" where
  "adj_add a b d = dict_set a (dict_get d a [] @ [b]) d"

definition adjacency :: "mol_bond list \<Rightarrow> (int, int list) pydict" where
  "adjacency bonds =
     foldl (\<lambda>d x. adj_add (mb_atom2 x) (mb_atom1 x) (adj_add (mb_atom1 x) (mb_atom2 x) d)) [] bonds"

text \<open>The pairs \<open>(xs[i], xs[j])\<close> with \<open>i < j\<close>, in the order of the two loops.\<close>

fun index_pairs :: "'a list \<Rightarrow> ('a \<times> 'a) list" where
  "index_pairs [] = []"
| "index_pairs (x # xs) = map (Pair x) xs @ index_pairs xs"

definition get_angles :: "mol_topology \<Rightarrow> (int \<times> int \<times> int) list" where
  "get_angles t =
     concat (map (\<lambda>(center, ns).
         if length ns \<ge> 2 then map (\<lambda>(a, b). (a, center, b)) (index_pairs ns) else [])
       (adjacency (mt_bonds t)))"

definition dihedrals_of_bond :: "(int, int list) pydict \<Rightarrow> mol_bond \<Rightarrow> (int \<times> int \<times> int \<times> int) list" where
  "dihedrals_of_bond adj x =
     (let a2 = mb_atom1 x; a3 = mb_atom2 x
      in concat (map (\<lambda>a1. if a1 = a3 then []
           else concat (map (\<lambda>a4. if a4 = a2 \<or> a4 = a1 then [] else [(a1, a2, a3, a4)]) (dict_get adj a3 [])))
         (dict_get adj a2 [])))"

definition get_dihedrals :: "mol_topology \<Rightarrow> (int \<times> int \<times> int \<times> int) list" where
  "get_dihedrals t = concat (map (dihedrals_of_bond (adjacency (mt_bonds t))) (mt_bonds t))"

section \<open>Lemmas\<close>

text \<open>The graph the bonds stand for.\<close>

definition bond_ends :: "mol_bond \<Rightarrow> int set" where
  "bond_ends x = {mb_atom1 x, mb_atom2 x}"

definition bonded :: "mol_bond list \<Rightarrow> int \<Rightarrow> int \<Rightarrow> bool" where
  "bonded bonds a b \<longleftrightarrow> list_ex (\<lambda>x. (mb_atom1 x = a \<and> mb_atom2 x = b) \<or> (mb_atom1 x = b \<and> mb_atom2 x = a)) bonds"

fun simple_bonds :: "mol_bond list \<Rightarrow> bool" where
  "simple_bonds [] = True"
| "simple_bonds (x # xs) \<longleftrightarrow>
     mb_atom1 x \<noteq> mb_atom2 x \<and> \<not> bonded xs (mb_atom1 x) (mb_atom2 x) \<and> simple_bonds xs"

definition ends_at :: "int \<Rightarrow> mol_bond \<Rightarrow> int list" where
  "ends_at a x = (if mb_atom1 x = a then [mb_atom2 x] else []) @ (if mb_atom2 x = a then [mb_atom1 x] else [])"

definition neighbours :: "mol_bond list \<Rightarrow> int \<Rightarrow> int list" where
  "neighbours bonds a = concat (map (ends_at a) bonds)"

lemma bonded_Cons [simp]:
  "bonded (x # xs) a b \<longleftrightarrow> (mb_atom1 x = a \<and> mb_atom2 x = b) \<or> (mb_atom1 x = b \<and> mb_atom2 x = a) \<or> bonded xs a b"
  "\<not> bonded [] a b"
  by (auto simp: bonded_def)

lemma bonded_sym: "bonded bonds a b = bonded bonds b a"
  by (induction bonds) auto

lemma dict_get_adj_add: "dict_get (adj_add a b d) c [] = dict_get d c [] @ (if c = a then [b] else [])"
  by (auto simp: adj_add_def dict_get_def update_conv')

lemma adjacency_get: "dict_get (adjacency bonds) a [] = neighbours bonds a"
proof (induction bonds rule: rev_induct)
  case Nil
  then show ?case by (simp add: adjacency_def neighbours_def dict_get_def)
next
  case (snoc x xs)
  have "adjacency (xs @ [x]) = adj_add (mb_atom2 x) (mb_atom1 x) (adj_add (mb_atom1 x) (mb_atom2 x) (adjacency xs))"
    by (simp add: adjacency_def)
  then have "dict_get (adjacency (xs @ [x])) a [] = neighbours xs a @ ends_at a x"
    by (simp add: dict_get_adj_add snoc ends_at_def eq_commute [of a])
  also have "\<dots> = neighbours (xs @ [x]) a" by (simp add: neighbours_def)
  finally show ?case .
qed

lemma adjacency_keys: "distinct (map fst (adjacency bonds))"
  by (induction bonds rule: rev_induct) (simp_all add: adjacency_def adj_add_def distinct_update)

lemma adjacency_entry: "(c, ns) \<in> set (adjacency bonds) \<Longrightarrow> ns = neighbours bonds c"
  using adjacency_get [of bonds c] adjacency_keys [of bonds] by (simp add: dict_get_def)

lemma adjacency_listed: "neighbours bonds c \<noteq> [] \<Longrightarrow> (c, neighbours bonds c) \<in> set (adjacency bonds)"
  using adjacency_get [of bonds c] by (auto simp: dict_get_def dest: map_of_SomeD split: option.splits)

lemma set_neighbours: "b \<in> set (neighbours bonds a) \<longleftrightarrow> bonded bonds a b"
  by (induction bonds) (auto simp: neighbours_def ends_at_def)

lemma distinct_neighbours: "simple_bonds bonds \<Longrightarrow> distinct (neighbours bonds a)"
proof (induction bonds)
  case (Cons x xs)
  have "neighbours (x # xs) a = ends_at a x @ neighbours xs a" by (simp add: neighbours_def)
  with Cons bonded_sym [of xs] show ?case by (auto simp: ends_at_def set_neighbours)
qed (simp add: neighbours_def)

lemma simple_irrefl: "simple_bonds bonds \<Longrightarrow> \<not> bonded bonds a a"
  by (induction bonds) auto

lemma set_index_pairs: "distinct xs \<Longrightarrow>
    ((a, b) \<in> set (index_pairs xs) \<or> (b, a) \<in> set (index_pairs xs)) = (a \<in> set xs \<and> b \<in> set xs \<and> a \<noteq> b)"
  by (induction xs) auto

lemma index_pairs_in: "(a, b) \<in> set (index_pairs xs) \<Longrightarrow> a \<in> set xs \<and> b \<in> set xs"
  by (induction xs) auto

lemma index_pairs_once: "distinct xs \<Longrightarrow> (a, b) \<in> set (index_pairs xs) \<Longrightarrow> (b, a) \<notin> set (index_pairs xs)"
  by (induction xs) (auto dest: index_pairs_in)

lemma distinct_index_pairs: "distinct xs \<Longrightarrow> distinct (index_pairs xs)"
  by (induction xs) (auto simp: distinct_map inj_on_def dest: index_pairs_in)

lemma index_pairs_short: "length xs < 2 \<Longrightarrow> index_pairs xs = []"
  by (cases xs) auto

lemma angle_in:
  "(a, c, b) \<in> set (get_angles t) \<longleftrightarrow> (a, b) \<in> set (index_pairs (neighbours (mt_bonds t) c))"
proof
  assume "(a, c, b) \<in> set (get_angles t)"
  then obtain ns where "(c, ns) \<in> set (adjacency (mt_bonds t))" "(a, b) \<in> set (index_pairs ns)"
    by (auto simp: get_angles_def split: if_splits)
  then show "(a, b) \<in> set (index_pairs (neighbours (mt_bonds t) c))" using adjacency_entry by metis
next
  assume ab: "(a, b) \<in> set (index_pairs (neighbours (mt_bonds t) c))"
  then have "length (neighbours (mt_bonds t) c) \<ge> 2"
    using index_pairs_short [of "neighbours (mt_bonds t) c"] by (cases "length (neighbours (mt_bonds t) c) < 2") auto
  moreover from this have "(c, neighbours (mt_bonds t) c) \<in> set (adjacency (mt_bonds t))"
    by (intro adjacency_listed) auto
  ultimately show "(a, c, b) \<in> set (get_angles t)" using ab by (force simp: get_angles_def)
qed

lemma distinct_angle_lists:
  "distinct (map fst d) \<Longrightarrow> \<forall>(c, ns)\<in>set d. distinct ns \<Longrightarrow>
    distinct (concat (map (\<lambda>(c, ns). if length ns \<ge> 2 then map (\<lambda>(a, b). (a, c, b)) (index_pairs ns) else []) d))"
  by (induction d) (force simp: distinct_map inj_on_def distinct_index_pairs split: if_splits)+

lemma dihedral_of_bond_in:
  "(a, b, c, e) \<in> set (dihedrals_of_bond (adjacency bonds) x) \<longleftrightarrow>
     b = mb_atom1 x \<and> c = mb_atom2 x \<and> bonded bonds b a \<and> bonded bonds c e \<and> a \<noteq> c \<and> e \<noteq> b \<and> e \<noteq> a"
  by (auto simp: dihedrals_of_bond_def Let_def adjacency_get set_neighbours split: if_splits)

lemma dihedral_in:
  "(a, b, c, e) \<in> set (get_dihedrals t) \<longleftrightarrow>
     (\<exists>x\<in>set (mt_bonds t). b = mb_atom1 x \<and> c = mb_atom2 x) \<and>
     bonded (mt_bonds t) b a \<and> bonded (mt_bonds t) c e \<and> a \<noteq> c \<and> e \<noteq> b \<and> e \<noteq> a"
  by (auto simp: get_dihedrals_def dihedral_of_bond_in)

lemma distinct_concat_map:
  assumes "distinct xs" "\<And>x. x \<in> set xs \<Longrightarrow> distinct (f x)"
    "\<And>x y z. x \<in> set xs \<Longrightarrow> y \<in> set xs \<Longrightarrow> x \<noteq> y \<Longrightarrow> z \<in> set (f x) \<Longrightarrow> z \<notin> set (f y)"
  shows "distinct (concat (map f xs))"
  using assms
proof (induction xs)
  case (Cons x xs)
  have "distinct (concat (map f xs))" by (rule Cons.IH) (use Cons.prems in auto)
  moreover have "set (f x) \<inter> set (concat (map f xs)) = {}" using Cons.prems(1) Cons.prems(3) [of x] by auto
  ultimately show ?case using Cons.prems(2) by simp
qed simp

lemma distinct_dihedrals_of_bond:
  assumes "simple_bonds bonds"
  shows "distinct (dihedrals_of_bond (adjacency bonds) x)"
  unfolding dihedrals_of_bond_def Let_def adjacency_get
proof (rule distinct_concat_map)
  let ?f = "\<lambda>a1 a4. if a4 = mb_atom1 x \<or> a4 = a1 then [] else [(a1, mb_atom1 x, mb_atom2 x, a4)]"
  show "distinct (neighbours bonds (mb_atom1 x))" by (rule distinct_neighbours [OF assms])
  fix a1
  have "distinct (concat (map (?f a1) (neighbours bonds (mb_atom2 x))))"
    by (rule distinct_concat_map) (auto simp: distinct_neighbours [OF assms] split: if_splits)
  then show "distinct (if a1 = mb_atom2 x then [] else concat (map (?f a1) (neighbours bonds (mb_atom2 x))))" by simp
qed (auto split: if_splits)

lemma bonds_once:
  "simple_bonds bonds \<Longrightarrow> x \<in> set bonds \<Longrightarrow> y \<in> set bonds \<Longrightarrow>
    \<not> (mb_atom1 x = mb_atom2 y \<and> mb_atom2 x = mb_atom1 y)"
  by (induction bonds) (auto simp: bonded_def list_ex_iff)

lemma simple_distinct: "simple_bonds bonds \<Longrightarrow> distinct (map (\<lambda>x. (mb_atom1 x, mb_atom2 x)) bonds)"
  by (induction bonds) (auto simp: bonded_def list_ex_iff)

lemma distinct_dihedrals: "simple_bonds (mt_bonds t) \<Longrightarrow> distinct (get_dihedrals t)"
  unfolding get_dihedrals_def
proof (rule distinct_concat_map)
  assume s: "simple_bonds (mt_bonds t)"
  then show "distinct (mt_bonds t)" using simple_distinct by (metis distinct_map)
  show "distinct (dihedrals_of_bond (adjacency (mt_bonds t)) x)" for x by (rule distinct_dihedrals_of_bond [OF s])
  fix x y z
  assume xy: "x \<in> set (mt_bonds t)" "y \<in> set (mt_bonds t)" "x \<noteq> y"
    and z: "z \<in> set (dihedrals_of_bond (adjacency (mt_bonds t)) x)"
  have "(mb_atom1 x, mb_atom2 x) \<noteq> (mb_atom1 y, mb_atom2 y)"
    using xy simple_distinct [OF s] by (auto simp: distinct_map inj_on_def)
  moreover obtain a b c e where "z = (a, b, c, e)" by (metis prod_cases4)
  ultimately show "z \<notin> set (dihedrals_of_bond (adjacency (mt_bonds t)) y)"
    using z by (auto simp: dihedral_of_bond_in)
qed

lemma bonded_orientation:
  "bonded bonds b c \<longleftrightarrow>
    (\<exists>x\<in>set bonds. b = mb_atom1 x \<and> c = mb_atom2 x) \<or> (\<exists>x\<in>set bonds. c = mb_atom1 x \<and> b = mb_atom2 x)"
  by (auto simp: bonded_def list_ex_iff)

section \<open>Properties\<close>

text \<open>
  C14: For a simple bond graph the generated angles are exactly the pairs of bonds that share
  an atom and the dihedrals exactly the paths over three bonds between four distinct atoms,
  each listed once and in one direction.
\<close>

theorem angles_and_dihedrals_exact:
  assumes "simple_bonds (mt_bonds t)"
  shows "distinct (get_angles t) \<and> distinct (get_dihedrals t) \<and>
    (\<forall>a c b. ((a, c, b) \<in> set (get_angles t) \<or> (b, c, a) \<in> set (get_angles t)) =
       (a \<noteq> b \<and> bonded (mt_bonds t) a c \<and> bonded (mt_bonds t) c b)) \<and>
    (\<forall>a c b. \<not> ((a, c, b) \<in> set (get_angles t) \<and> (b, c, a) \<in> set (get_angles t))) \<and>
    (\<forall>a b c e. ((a, b, c, e) \<in> set (get_dihedrals t) \<or> (e, c, b, a) \<in> set (get_dihedrals t)) =
       (distinct [a, b, c, e] \<and> bonded (mt_bonds t) a b \<and> bonded (mt_bonds t) b c \<and> bonded (mt_bonds t) c e)) \<and>
    (\<forall>a b c e. \<not> ((a, b, c, e) \<in> set (get_dihedrals t) \<and> (e, c, b, a) \<in> set (get_dihedrals t)))"
proof (intro conjI allI)
  let ?B = "mt_bonds t"
  note irr = simple_irrefl [OF assms]
  show "distinct (get_dihedrals t)" by (rule distinct_dihedrals [OF assms])
  have "\<forall>(c, ns)\<in>set (adjacency ?B). distinct ns"
    using adjacency_entry distinct_neighbours [OF assms] by blast
  then show "distinct (get_angles t)"
    unfolding get_angles_def by (rule distinct_angle_lists [OF adjacency_keys])
  fix a b c e
  show "((a, c, b) \<in> set (get_angles t) \<or> (b, c, a) \<in> set (get_angles t)) = (a \<noteq> b \<and> bonded ?B a c \<and> bonded ?B c b)"
    using set_index_pairs [OF distinct_neighbours [OF assms], of a b c] bonded_sym [of ?B c a]
    by (auto simp: angle_in set_neighbours)
  show "\<not> ((a, c, b) \<in> set (get_angles t) \<and> (b, c, a) \<in> set (get_angles t))"
    using index_pairs_once [OF distinct_neighbours [OF assms]] by (auto simp: angle_in)
  show "((a, b, c, e) \<in> set (get_dihedrals t) \<or> (e, c, b, a) \<in> set (get_dihedrals t)) =
      (distinct [a, b, c, e] \<and> bonded ?B a b \<and> bonded ?B b c \<and> bonded ?B c e)"
    unfolding dihedral_in bonded_orientation [of ?B b c]
    using irr bonded_sym [of ?B a b] bonded_sym [of ?B c e] bonded_orientation [of ?B b c] by auto
  show "\<not> ((a, b, c, e) \<in> set (get_dihedrals t) \<and> (e, c, b, a) \<in> set (get_dihedrals t))"
    using bonds_once [OF assms] unfolding dihedral_in by metis
qed

definition butane_bonds :: "mol_bond list" where
  "butane_bonds = map (\<lambda>(a, b). \<lparr>mb_atom1 = a, mb_atom2 = b, mb_order = 1\<rparr>) [(1, 2), (2, 3), (3, 4)]"

definition butane :: mol_topology where
  "butane = \<lparr>mt_mol_id = ''butane'', mt_atoms = [], mt_bonds = butane_bonds, mt_weight = 0, mt_impropers = None\<rparr>"

theorem angles_and_dihedrals_exact_witness:
  "get_angles butane = [(1, 2, 3), (2, 3, 4)] \<and> get_dihedrals butane = [(1, 2, 3, 4)] \<and>
   distinct (get_angles butane) \<and> distinct (get_dihedrals butane)"
proof -
  have "simple_bonds (mt_bonds butane)" by code_simp
  then have "distinct (get_angles butane) \<and> distinct (get_dihedrals butane)"
    using angles_and_dihedrals_exact [of butane] by blast
  moreover have "get_angles butane = [(1, 2, 3), (2, 3, 4)]" "get_dihedrals butane = [(1, 2, 3, 4)]" by code_simp+
  ultimately show ?thesis by blast
qed

end
