(* ===== verification/ForceTopology.thy ===== *)
theory ForceTopology
  imports MolTypes "HOL-Library.Char_ord" "HOL-Library.List_Lexorder"
begin

text \<open>
  From molecules to a LAMMPS system: the lookups of
  \<^verbatim>\<open>src/src/contracts/policies/forcefield.py\<close>, the builder \<^verbatim>\<open>MolTopologyBuilder\<close> of
  \<^verbatim>\<open>src/src/forcefield/topology.py\<close> and the completeness check of
  \<^verbatim>\<open>src/src/builder/topology_helpers.py\<close>. Bonds, angles, dihedrals and impropers have one
  form, a numbered link of a numbered type; what differs is the key of the type and where its
  parameters come from. Log messages are not modelled.
\<close>

section \<open>Force fields\<close>

text \<open>A parameter dictionary: its numbers, its style and its coefficients, as far as present.\<close>

record ff_entry =
  en_num :: "(string, pyfloat) pydict"
  en_style :: "string option"
  en_coeffs :: "pyfloat list option"

record ff_config =
  fc_name :: string
  fc_enabled :: bool
  fc_atom_types :: "(string, ff_entry) pydict"
  fc_element_fallbacks :: "(string, ff_entry) pydict"
  fc_bond_types :: "(string, ff_entry) pydict"
  fc_angle_types :: "(string, ff_entry) pydict"
  fc_dihedral_types :: "(string, string \<times> pyfloat list) pydict"
  fc_improper_types :: "(string, string \<times> pyfloat list) pydict"

definition dash :: char where
  "dash = CHR ''-''"

definition key_text :: "string list \<Rightarrow> string" where
  "key_text ks = join_with dash ks"

definition ff_get_atom_params :: "ff_config \<Rightarrow> string \<Rightarrow> ff_entry option" where
  "ff_get_atom_params C t =
     (case map_of (fc_atom_types C) t of Some e \<Rightarrow> Some e | None \<Rightarrow> map_of (fc_element_fallbacks C) t)"

text \<open>\<open>{**fallbacks, **types}\<close>\<close>

definition get_all_atom_types :: "ff_config \<Rightarrow> (string, ff_entry) pydict" where
  "get_all_atom_types C = foldl (\<lambda>d (k, v). dict_set k v d) (fc_element_fallbacks C) (fc_atom_types C)"

text \<open>Exact match first, then the reversed order of the \<open>n\<close> parts.\<close>

definition lookup_either :: "nat \<Rightarrow> (string, 'a) pydict \<Rightarrow> string \<Rightarrow> 'a option" where
  "lookup_either n d key =
     (case map_of d key of
        Some e \<Rightarrow> Some e
      | None \<Rightarrow> (let parts = split_on dash key
                in if length parts = n then map_of d (key_text (rev parts)) else None))"

definition ff_get_bond_params :: "ff_config \<Rightarrow> string \<Rightarrow> ff_entry option" where
  "ff_get_bond_params C = lookup_either 2 (fc_bond_types C)"

definition ff_get_angle_params :: "ff_config \<Rightarrow> string \<Rightarrow> ff_entry option" where
  "ff_get_angle_params C = lookup_either 3 (fc_angle_types C)"

definition ff_get_dihedral_params :: "ff_config \<Rightarrow> string \<Rightarrow> (string \<times> pyfloat list) option" where
  "ff_get_dihedral_params C = lookup_either 4 (fc_dihedral_types C)"

definition ff_get_improper_params :: "ff_config \<Rightarrow> string \<Rightarrow> (string \<times> pyfloat list) option" where
  "ff_get_improper_params C = lookup_either 4 (fc_improper_types C)"

record ff_registry =
  fr_forcefields :: "(string, ff_config) pydict"
  fr_default :: "string option"

definition ff_get :: "ff_registry \<Rightarrow> string \<Rightarrow> ff_config option" where
  "ff_get R name = map_of (fr_forcefields R) name"

definition ff_get_default :: "ff_registry \<Rightarrow> ff_config option" where
  "ff_get_default R =
     (if truthy (fr_default R) then ff_get R (or_default (fr_default R) [])
      else List.find fc_enabled (map snd (fr_forcefields R)))"

definition ff_is_available :: "ff_registry \<Rightarrow> string \<Rightarrow> bool" where
  "ff_is_available R name = (case ff_get R name of None \<Rightarrow> False | Some c \<Rightarrow> fc_enabled c)"

definition ff_list_available :: "ff_registry \<Rightarrow> string list" where
  "ff_list_available R = map fc_name (filter fc_enabled (map snd (fr_forcefields R)))"

section \<open>The builder\<close>

text \<open>The tables keyed by the parts of a name; entries of another arity are dropped.\<close>

definition parts_dict :: "nat \<Rightarrow> (string, ff_entry) pydict \<Rightarrow> (string list, ff_entry) pydict" where
  "parts_dict n d =
     foldl (\<lambda>t (key, e). let parts = split_on dash key in if length parts = n then dict_set parts e t else t) [] d"

definition nth_coeff :: "pyfloat list \<Rightarrow> nat \<Rightarrow> pyfloat" where
  "nth_coeff cs i = (if i < length cs then cs ! i else 0)"

text \<open>\<open>_get_dihedral_params_dict\<close> keeps four coefficients and no style.\<close>

definition k_entry :: "string \<times> pyfloat list \<Rightarrow> ff_entry" where
  "k_entry p =
     \<lparr>en_num = [(''k1'', nth_coeff (snd p) 0), (''k2'', nth_coeff (snd p) 1),
                (''k3'', nth_coeff (snd p) 2), (''k4'', nth_coeff (snd p) 3)],
      en_style = None, en_coeffs = None\<rparr>"

record ff_builder =
  fb_name :: string
  fb_atom_params :: "(string, ff_entry) pydict"
  fb_bond_params :: "(string list, ff_entry) pydict"
  fb_angle_params :: "(string list, ff_entry) pydict"
  fb_dihedral_params :: "(string list, ff_entry) pydict"
  fb_atom_overrides :: "(string, ff_entry) pydict"
  fb_bond_overrides :: "(string, ff_entry) pydict"
  fb_angle_overrides :: "(string, ff_entry) pydict"
  fb_dihedral_overrides :: "(string, ff_entry) pydict"
  fb_improper_overrides :: "(string, ff_entry) pydict"
  fb_fallback_policy :: string
  fb_inorganic :: "string list"
  fb_strict :: bool

datatype topo_error =
    NoForceField
  | ItemMissing string
  | AtomMissing int
  | AtomLJMissing string string
  | AtomUndefined string string
  | TypeUnavailable string string
  | CannotInfer string
  | ParamsMissing "string list" "string list"
  | ChargeUndefined string int string

text \<open>The builder of a force field: \<open>given\<close> holds the overrides and policies of the caller.\<close>

definition new_builder :: "ff_registry \<Rightarrow> string \<Rightarrow> ff_builder \<Rightarrow> (topo_error, ff_builder) result" where
  "new_builder R name given =
     (case (case ff_get R name of Some c \<Rightarrow> Some c | None \<Rightarrow> ff_get_default R) of
        None \<Rightarrow> Inl NoForceField
      | Some c \<Rightarrow> Inr (given\<lparr>fb_name := fc_name c, fb_atom_params := get_all_atom_types c,
          fb_bond_params := parts_dict 2 (fc_bond_types c), fb_angle_params := parts_dict 3 (fc_angle_types c),
          fb_dihedral_params := parts_dict 4 (map (\<lambda>(k, p). (k, k_entry p)) (fc_dihedral_types c))\<rparr>))"

definition item :: "ff_entry \<Rightarrow> string \<Rightarrow> (topo_error, pyfloat) result" where
  "item e k = (case map_of (en_num e) k of None \<Rightarrow> Inl (ItemMissing k) | Some x \<Rightarrow> Inr x)"

definition resolve_strict_lookup :: "ff_builder \<Rightarrow> string list \<Rightarrow> string list \<Rightarrow> bool" where
  "resolve_strict_lookup B strict key \<longleftrightarrow>
     (if fb_strict B then True else if strict = [] then False else list_ex (\<lambda>t. t \<in> set strict) key)"

definition get_element_type :: "string \<Rightarrow> bool \<Rightarrow> string" where
  "get_element_type element aromatic =
     (if element = ''C'' then (if aromatic then ''CA'' else ''C'')
      else if element = ''H'' then (if aromatic then ''HA'' else ''H'')
      else if element = ''N'' then (if aromatic then ''NA'' else ''N'')
      else element)"

definition is_aromatic_atom :: "int \<Rightarrow> mol_bond list \<Rightarrow> bool" where
  "is_aromatic_atom i bonds \<longleftrightarrow> list_ex (\<lambda>b. (mb_atom1 b = i \<or> mb_atom2 b = i) \<and> mb_order b = 4) bonds"

definition ff_atom_params_from_type ::
    "ff_builder \<Rightarrow> string list \<Rightarrow> string \<Rightarrow> string \<Rightarrow> (topo_error, ff_entry) result" where
  "ff_atom_params_from_type B strict ff element =
     (case map_of (fb_atom_overrides B) ff of
        Some e \<Rightarrow> Inr e
      | None \<Rightarrow>
          (case map_of (fb_atom_params B) ff of
             Some e \<Rightarrow> Inr e
           | None \<Rightarrow>
               if resolve_strict_lookup B strict [ff] then Inl (AtomLJMissing ff element)
               else (case map_of (fb_atom_params B) element of
                       Some e \<Rightarrow> Inr e | None \<Rightarrow> Inl (AtomUndefined ff element))))"

definition resolve_atom_ff_type ::
    "ff_builder \<Rightarrow> mol_atom \<Rightarrow> bool \<Rightarrow> bool \<Rightarrow> (topo_error, string) result" where
  "resolve_atom_ff_type B a aromatic mol_strict =
     (let element = ma_element a
      in if truthy (ma_ff_type a) then
           let explicit = or_default (ma_ff_type a) []
           in if mol_strict then Inr explicit
              else if dict_has (fb_atom_overrides B) explicit then Inr explicit
              else if dict_has (fb_atom_params B) explicit then Inr explicit
              else if dict_has (fb_atom_params B) element then Inr element
              else Inl (TypeUnavailable explicit element)
         else
           let inferred = get_element_type element aromatic
           in if dict_has (fb_atom_params B) inferred then Inr inferred
              else if dict_has (fb_atom_params B) element then Inr element
              else Inl (CannotInfer element))"

text \<open>The order of the bonded lookups: override, reversed override, type key, element key.\<close>

definition lookup_params ::
    "(string, ff_entry) pydict \<Rightarrow> (string list, ff_entry) pydict \<Rightarrow> string list \<Rightarrow> string list \<Rightarrow> (ff_entry \<times> string) option" where
  "lookup_params overrides params key ekey =
     (case map_of overrides (key_text key) of
        Some e \<Rightarrow> Some (e, key_text key)
      | None \<Rightarrow>
          (case map_of overrides (key_text (rev key)) of
             Some e \<Rightarrow> Some (e, key_text (rev key))
           | None \<Rightarrow>
               (case map_of params key of
                  Some e \<Rightarrow> Some (e, key_text key)
                | None \<Rightarrow> map_option (\<lambda>e. (e, key_text ekey)) (map_of params ekey))))"

definition numbers :: "(string, pyfloat) pydict \<Rightarrow> ff_entry" where
  "numbers d = \<lparr>en_num = d, en_style = None, en_coeffs = None\<rparr>"

definition bond_interaction_params ::
    "ff_builder \<Rightarrow> string list \<Rightarrow> string list \<Rightarrow> string list \<Rightarrow> (topo_error, ff_entry \<times> string) result" where
  "bond_interaction_params B strict key ekey =
     (case lookup_params (fb_bond_overrides B) (fb_bond_params B) key ekey of
        Some r \<Rightarrow> Inr r
      | None \<Rightarrow>
          if resolve_strict_lookup B strict key then Inl (ParamsMissing key ekey)
          else Inr (numbers [(''k'', 300), (''r0'', 3/2)], key_text ekey @ ''(default)''))"

definition angle_interaction_params ::
    "ff_builder \<Rightarrow> string list \<Rightarrow> string list \<Rightarrow> string list \<Rightarrow> (topo_error, ff_entry \<times> string) result" where
  "angle_interaction_params B strict key ekey =
     (case lookup_params (fb_angle_overrides B) (fb_angle_params B) key ekey of
        Some r \<Rightarrow> Inr r
      | None \<Rightarrow>
          if resolve_strict_lookup B strict key then Inl (ParamsMissing key ekey)
          else Inr (numbers [(''k'', 50), (''theta0'', 219/2)], key_text ekey @ ''(default)''))"

definition zero_barrier :: ff_entry where
  "zero_barrier = \<lparr>en_num = [], en_style = Some ''fourier'', en_coeffs = Some [0, 1, 1]\<rparr>"

definition dihedral_interaction_params ::
    "ff_builder \<Rightarrow> string list \<Rightarrow> string list \<Rightarrow> string list \<Rightarrow> (topo_error, ff_entry \<times> string) result" where
  "dihedral_interaction_params B strict key ekey =
     (case lookup_params (fb_dihedral_overrides B) (fb_dihedral_params B) key ekey of
        Some r \<Rightarrow> Inr r
      | None \<Rightarrow>
          if fb_fallback_policy B = ''allow_default_fallback'' \<and> list_ex (\<lambda>t. t \<in> set (fb_inorganic B)) key
          then Inr (zero_barrier, key_text ekey @ ''(inorganic-default)'')
          else if resolve_strict_lookup B strict key then Inl (ParamsMissing key ekey)
          else Inr (zero_barrier, key_text ekey @ ''(default)''))"

section \<open>The system\<close>

record 'p term_type =
  tt_id :: int
  tt_params :: 'p
  tt_comment :: string

record link =
  lk_id :: int
  lk_type :: int
  lk_atoms :: "int list"

record atom_type =
  at_id :: int
  at_mass :: pyfloat
  at_element :: string
  at_comment :: string
  at_epsilon :: pyfloat
  at_sigma :: pyfloat

record top_atom =
  ta_id :: int
  ta_mol :: int
  ta_type :: int
  ta_charge :: pyfloat
  ta_pos :: "pyfloat \<times> pyfloat \<times> pyfloat"
  ta_comment :: string

type_synonym harmonic = "pyfloat \<times> pyfloat"
type_synonym styled = "string \<times> pyfloat list"

record system_topology =
  sy_title :: string
  sy_box :: "pyfloat list"
  sy_counts :: "(string, int) pydict"
  sy_atom_types :: "atom_type list"
  sy_bond_types :: "harmonic term_type list"
  sy_angle_types :: "harmonic term_type list"
  sy_dihedral_types :: "styled term_type list"
  sy_improper_types :: "styled term_type list"
  sy_atoms :: "top_atom list"
  sy_bonds :: "link list"
  sy_angles :: "link list"
  sy_dihedrals :: "link list"
  sy_impropers :: "link list"

text \<open>The links of one kind while the system is built: the map from type keys to numbers, the
  types, the links, and the next number of a link.\<close>

record 'p kind =
  kd_map :: "(string list, int) pydict"
  kd_types :: "'p term_type list"
  kd_links :: "link list"
  kd_next :: int

record build =
  bd_atom_map :: "(string, int) pydict"
  bd_atom_types :: "atom_type list"
  bd_atoms :: "top_atom list"
  bd_next_atom :: int
  bd_next_mol :: int
  bd_coord :: nat
  bd_strict :: "string list"
  bd_counts :: "(string, int) pydict"
  bd_bonds :: "harmonic kind"
  bd_angles :: "harmonic kind"
  bd_dihedrals :: "styled kind"
  bd_impropers :: "styled kind"

definition new_kind :: "'p kind" where
  "new_kind = \<lparr>kd_map = [], kd_types = [], kd_links = [], kd_next = 1\<rparr>"

definition new_build :: build where
  "new_build = \<lparr>bd_atom_map = [], bd_atom_types = [], bd_atoms = [], bd_next_atom = 1, bd_next_mol = 1, bd_coord = 0,
     bd_strict = [], bd_counts = [], bd_bonds = new_kind, bd_angles = new_kind, bd_dihedrals = new_kind,
     bd_impropers = new_kind\<rparr>"

text \<open>Get or create the type of a key, then append the link.\<close>

definition type_of_key ::
    "(string list \<Rightarrow> (topo_error, 'p \<times> string) result) \<Rightarrow> string list \<Rightarrow> 'p kind \<Rightarrow> (topo_error, 'p kind) result" where
  "type_of_key params key K =
     (if dict_has (kd_map K) key then Inr K
      else
        let type_id = int (length (kd_map K)) + 1
        in bind_result (params key) (\<lambda>(p, label).
             Inr (K\<lparr>kd_map := dict_set key type_id (kd_map K),
                    kd_types := kd_types K @ [\<lparr>tt_id = type_id, tt_params = p, tt_comment = label\<rparr>]\<rparr>)))"

definition add_link ::
    "(string list \<Rightarrow> (topo_error, 'p \<times> string) result) \<Rightarrow> string list \<Rightarrow> int list \<Rightarrow> 'p kind \<Rightarrow> (topo_error, 'p kind) result" where
  "add_link params key atoms K =
     bind_result (type_of_key params key K) (\<lambda>K.
       Inr (K\<lparr>kd_links := kd_links K @ [\<lparr>lk_id = kd_next K, lk_type = dict_get (kd_map K) key 0, lk_atoms = atoms\<rparr>],
              kd_next := kd_next K + 1\<rparr>))"

text \<open>The local atoms of a molecule: index to element, aromaticity and type.\<close>

type_synonym local_types = "(int, string \<times> bool \<times> string) pydict"

definition local_type :: "local_types \<Rightarrow> int \<Rightarrow> (topo_error, string \<times> bool \<times> string) result" where
  "local_type mat i = (case map_of mat i of None \<Rightarrow> Inl (AtomMissing i) | Some t \<Rightarrow> Inr t)"

definition local_names :: "local_types \<Rightarrow> int list \<Rightarrow> (topo_error, string list \<times> string list) result" where
  "local_names mat is =
     bind_result (map_result (local_type mat) is) (\<lambda>ts. Inr (map (\<lambda>(_, _, ff). ff) ts, map (\<lambda>(e, _, _). e) ts))"

definition forward_key :: "string list \<Rightarrow> string list" where
  "forward_key ks = (if ks > rev ks then rev ks else ks)"

definition angle_key :: "string list \<Rightarrow> string list" where
  "angle_key ks = (if hd ks \<le> last ks then ks else rev ks)"

definition harmonic_of :: "string \<Rightarrow> ff_entry \<times> string \<Rightarrow> (topo_error, harmonic \<times> string) result" where
  "harmonic_of second r =
     bind_result (item (fst r) ''k'') (\<lambda>k. bind_result (item (fst r) second) (\<lambda>x. Inr ((k, x), snd r)))"

definition dihedral_of :: "ff_entry \<times> string \<Rightarrow> styled \<times> string" where
  "dihedral_of r =
     ((case en_style (fst r) of None \<Rightarrow> ''fourier'' | Some s \<Rightarrow> s,
       case en_coeffs (fst r) of
         Some cs \<Rightarrow> cs
       | None \<Rightarrow> map (\<lambda>k. dict_get (en_num (fst r)) k 0) [''k1'', ''k2'', ''k3'', ''k4'']), snd r)"

definition styled_of :: "ff_entry \<Rightarrow> pyfloat list \<Rightarrow> styled" where
  "styled_of e d = (case en_style e of None \<Rightarrow> ''cvff'' | Some s \<Rightarrow> s, case en_coeffs e of None \<Rightarrow> d | Some cs \<Rightarrow> cs)"

definition improper_params :: "ff_builder \<Rightarrow> string list \<Rightarrow> styled \<times> string" where
  "improper_params B key =
     (let k = key_text key; r = key_text (rev key);
          either = (\<lambda>d. case map_of d k of Some e \<Rightarrow> Some e | None \<Rightarrow> map_of d r)
      in case either (fb_improper_overrides B) of
           Some e \<Rightarrow> (styled_of e [0, -1, 2], k @ ''(improper_override)'')
         | None \<Rightarrow>
             (case either (fb_dihedral_overrides B) of
                Some e \<Rightarrow> (styled_of e [0, -1, 2], k @ ''(dihedral_fallback)'')
              | None \<Rightarrow>
                  (case map_of (fb_bond_overrides B) (''__improper__'' @ k) of
                     Some e \<Rightarrow> (styled_of e [11/10, -1, 2], k @ ''(bond_shim)'')
                   | None \<Rightarrow> ((''cvff'', [11/10, -1, 2]), k @ ''(default)''))))"

definition add_bond :: "ff_builder \<Rightarrow> local_types \<Rightarrow> int \<Rightarrow> mol_bond \<Rightarrow> build \<Rightarrow> (topo_error, build) result" where
  "add_bond B mat offset b S =
     bind_result (local_names mat [mb_atom1 b, mb_atom2 b]) (\<lambda>(ffs, elems).
     bind_result (add_link (\<lambda>key. bind_result (bond_interaction_params B (bd_strict S) key (sort elems)) (harmonic_of ''r0''))
         (sort ffs) [mb_atom1 b + offset, mb_atom2 b + offset] (bd_bonds S)) (\<lambda>K.
     Inr (S\<lparr>bd_bonds := K\<rparr>)))"

definition add_angle :: "ff_builder \<Rightarrow> local_types \<Rightarrow> int \<Rightarrow> int \<times> int \<times> int \<Rightarrow> build \<Rightarrow> (topo_error, build) result" where
  "add_angle B mat offset t S =
     (let (a1, a2, a3) = t
      in bind_result (local_names mat [a1, a2, a3]) (\<lambda>(ffs, elems).
         bind_result (add_link (\<lambda>key. bind_result (angle_interaction_params B (bd_strict S) key (angle_key elems)) (harmonic_of ''theta0''))
             (angle_key ffs) [a1 + offset, a2 + offset, a3 + offset] (bd_angles S)) (\<lambda>K.
         Inr (S\<lparr>bd_angles := K\<rparr>))))"

definition add_dihedral ::
    "ff_builder \<Rightarrow> local_types \<Rightarrow> int \<Rightarrow> int \<times> int \<times> int \<times> int \<Rightarrow> build \<Rightarrow> (topo_error, build) result" where
  "add_dihedral B mat offset t S =
     (let (a1, a2, a3, a4) = t
      in bind_result (local_names mat [a1, a2, a3, a4]) (\<lambda>(ffs, elems).
         bind_result (add_link (\<lambda>key. bind_result (dihedral_interaction_params B (bd_strict S) key (forward_key elems))
                                    (\<lambda>r. Inr (dihedral_of r)))
             (forward_key ffs) [a1 + offset, a2 + offset, a3 + offset, a4 + offset] (bd_dihedrals S)) (\<lambda>K.
         Inr (S\<lparr>bd_dihedrals := K\<rparr>))))"

definition add_improper ::
    "ff_builder \<Rightarrow> local_types \<Rightarrow> int \<Rightarrow> int \<times> int \<times> int \<times> int \<Rightarrow> build \<Rightarrow> (topo_error, build) result" where
  "add_improper B mat offset t S =
     (let (a1, a2, a3, a4) = t
      in bind_result (local_names mat [a1, a2, a3, a4]) (\<lambda>(ffs, elems).
         bind_result (add_link (\<lambda>key. Inr (improper_params B key))
             ffs [a1 + offset, a2 + offset, a3 + offset, a4 + offset] (bd_impropers S)) (\<lambda>K.
         Inr (S\<lparr>bd_impropers := K\<rparr>))))"

definition atom_type_for :: "ff_builder \<Rightarrow> string \<Rightarrow> string \<Rightarrow> ff_entry \<Rightarrow> build \<Rightarrow> (topo_error, build) result" where
  "atom_type_for B element ff e S =
     (if dict_has (bd_atom_map S) ff then Inr S
      else
        let type_id = int (length (bd_atom_map S)) + 1
        in bind_result (item e ''mass'') (\<lambda>mass. bind_result (item e ''epsilon'') (\<lambda>eps. bind_result (item e ''sigma'') (\<lambda>sig.
             Inr (S\<lparr>bd_atom_map := dict_set ff type_id (bd_atom_map S),
                    bd_atom_types := bd_atom_types S @
                      [\<lparr>at_id = type_id, at_mass = mass, at_element = element, at_comment = fb_name B @ '' '' @ ff,
                        at_epsilon = eps, at_sigma = sig\<rparr>]\<rparr>)))))"

definition push_atom ::
    "(pyfloat \<times> pyfloat \<times> pyfloat) list \<Rightarrow> string \<Rightarrow> string \<Rightarrow> string \<Rightarrow> mol_atom \<Rightarrow> build \<Rightarrow> build" where
  "push_atom coords mol_name element ff a S =
     (let packed = bd_coord S < length coords;
          xyz = (if packed then coords ! bd_coord S else (ma_x a, ma_y a, ma_z a))
      in S\<lparr>bd_coord := (if packed then bd_coord S + 1 else bd_coord S),
           bd_atoms := bd_atoms S @ [\<lparr>ta_id = bd_next_atom S, ta_mol = bd_next_mol S,
             ta_type = dict_get (bd_atom_map S) ff 0, ta_charge = ma_charge a, ta_pos = xyz,
             ta_comment = mol_name @ '':'' @ element\<rparr>],
           bd_next_atom := bd_next_atom S + 1\<rparr>)"

definition add_atom ::
    "ff_builder \<Rightarrow> (pyfloat \<times> pyfloat \<times> pyfloat) list \<Rightarrow> string \<Rightarrow> local_types \<Rightarrow> mol_atom \<Rightarrow> build \<Rightarrow> (topo_error, build) result" where
  "add_atom B coords mol_name mat a S =
     bind_result (local_type mat (ma_index a)) (\<lambda>(element, _, ff).
     bind_result (ff_atom_params_from_type B (bd_strict S) ff element) (\<lambda>e.
     bind_result (atom_type_for B element ff e S) (\<lambda>S.
       if \<not> ma_charge_defined a then Inl (ChargeUndefined mol_name (ma_index a) element)
       else Inr (push_atom coords mol_name element ff a S))))"

text \<open>One copy of a molecule.\<close>

definition add_copy ::
    "ff_builder \<Rightarrow> (pyfloat \<times> pyfloat \<times> pyfloat) list \<Rightarrow> mol_topology \<Rightarrow> local_types \<Rightarrow> build \<Rightarrow> (topo_error, build) result" where
  "add_copy B coords t mat S =
     (let offset = bd_next_atom S - 1
      in bind_result (fold_result (add_atom B coords (mt_mol_id t) mat) (mt_atoms t) S) (\<lambda>S.
         bind_result (fold_result (add_bond B mat offset) (mt_bonds t) S) (\<lambda>S.
         bind_result (fold_result (add_angle B mat offset) (get_angles t) S) (\<lambda>S.
         bind_result (fold_result (add_dihedral B mat offset) (get_dihedrals t) S) (\<lambda>S.
         bind_result (fold_result (add_improper B mat offset)
             (case mt_impropers t of None \<Rightarrow> [] | Some l \<Rightarrow> l) S) (\<lambda>S.
         Inr (S\<lparr>bd_next_mol := bd_next_mol S + 1\<rparr>)))))))"

definition type_atom ::
    "ff_builder \<Rightarrow> mol_topology \<Rightarrow> bool \<Rightarrow> mol_atom \<Rightarrow> local_types \<times> string list \<Rightarrow> (topo_error, local_types \<times> string list) result" where
  "type_atom B t mol_strict a p =
     (let aromatic = is_aromatic_atom (ma_index a) (mt_bonds t)
      in bind_result (resolve_atom_ff_type B a aromatic mol_strict) (\<lambda>ff.
         Inr (dict_set (ma_index a) (ma_element a, aromatic, ff) (fst p),
              if mol_strict then List.insert ff (snd p) else snd p)))"

text \<open>One ff_entry of the list of molecules: its topology, count and strictness.\<close>

definition add_molecule ::
    "ff_builder \<Rightarrow> (pyfloat \<times> pyfloat \<times> pyfloat) list \<Rightarrow> mol_topology \<times> int \<times> bool \<Rightarrow> build \<Rightarrow> (topo_error, build) result" where
  "add_molecule B coords m S =
     (let (t, count, mol_strict) = m; S = S\<lparr>bd_counts := dict_set (mt_mol_id t) count (bd_counts S)\<rparr>
      in bind_result (fold_result (type_atom B t mol_strict) (mt_atoms t) ([], bd_strict S)) (\<lambda>(mat, strict).
         fold_result (\<lambda>_. add_copy B coords t mat) [0..<nat count] (S\<lparr>bd_strict := strict\<rparr>)))"

definition system_of :: "string \<Rightarrow> pyfloat list \<Rightarrow> build \<Rightarrow> system_topology" where
  "system_of title box S =
     \<lparr>sy_title = title, sy_box = box, sy_counts = bd_counts S, sy_atom_types = bd_atom_types S,
      sy_bond_types = kd_types (bd_bonds S), sy_angle_types = kd_types (bd_angles S),
      sy_dihedral_types = kd_types (bd_dihedrals S), sy_improper_types = kd_types (bd_impropers S),
      sy_atoms = bd_atoms S, sy_bonds = kd_links (bd_bonds S), sy_angles = kd_links (bd_angles S),
      sy_dihedrals = kd_links (bd_dihedrals S), sy_impropers = kd_links (bd_impropers S)\<rparr>"

definition create_from_mol_topology ::
    "ff_builder \<Rightarrow> (mol_topology \<times> int \<times> bool) list \<Rightarrow> (pyfloat \<times> pyfloat \<times> pyfloat) list \<Rightarrow> pyfloat list \<Rightarrow> string
      \<Rightarrow> (topo_error, system_topology) result" where
  "create_from_mol_topology B mols coords box title =
     bind_result (fold_result (add_molecule B coords) mols new_build) (\<lambda>S. Inr (system_of title box S))"

section \<open>The completeness check\<close>

datatype topo_issue =
    NoBonds string int
  | MissingCharges string int "int list"
  | NotNeutral int pyfloat

definition mol_charge :: "mol_topology \<Rightarrow> pyfloat" where
  "mol_charge t = sum_list (map ma_charge (mt_atoms t))"

definition uncharged_atoms :: "mol_topology \<Rightarrow> int list" where
  "uncharged_atoms t = map ma_index (filter (\<lambda>a. \<not> ma_charge_defined a) (mt_atoms t))"

definition molecule_issues :: "mol_topology \<times> int \<Rightarrow> topo_issue list" where
  "molecule_issues m =
     (let (t, count) = m
      in (if n_atoms t > 1 \<and> n_bonds t \<le> 0 then [NoBonds (mt_mol_id t) count] else []) @
         (if uncharged_atoms t \<noteq> [] then [MissingCharges (mt_mol_id t) count (uncharged_atoms t)] else []))"

definition total_system_charge :: "(mol_topology \<times> int) list \<Rightarrow> pyfloat" where
  "total_system_charge ms = foldl (\<lambda>q (t, count). q + mol_charge t * of_int count) 0 ms"

text \<open>The issues of the error it raises; none means that it returns.\<close>

definition validate_molecule_topologies :: "(mol_topology \<times> int) list \<Rightarrow> topo_issue list" where
  "validate_molecule_topologies ms =
     concat (map molecule_issues ms) @
     (if \<bar>total_system_charge ms\<bar> > 1 / 10 ^ 4
      then [NotNeutral (sum_list (map snd ms)) (total_system_charge ms)] else [])"

end
