(* ===== verification/CuratedArtifact.thy ===== *)
theory CuratedArtifact
  imports PyJson ForceTopology
begin

text \<open>
  Curated force-field artifacts, \<^verbatim>\<open>src/src/forcefield/organic_curated_artifact.py\<close>: the schema
  with its two versions, the parser with every fault it reports, the file names, the loader
  with its memory cache, and the application to a molecule. The catalog directory is a
  function from file names to parsed JSON; \<open>weights\<close> is the table of UFF masses, read from a
  data file. An error that the code does not turn into one of its own is \<open>Escaped\<close>.
\<close>

section \<open>The schema\<close>

record artifact_atom =
  aa_index :: int
  aa_element :: string
  aa_ff_type :: string
  aa_charge :: pyfloat
  aa_epsilon :: "pyfloat option"
  aa_sigma :: "pyfloat option"

record artifact_bond_type =
  ab_key :: string
  ab_k :: pyfloat
  ab_r0 :: pyfloat

record artifact_angle_type =
  an_key :: string
  an_k :: pyfloat
  an_theta0 :: pyfloat

text \<open>Dihedral and improper types: a style and its coefficients.\<close>

record artifact_styled =
  as_key :: string
  as_style :: string
  as_coeffs :: "pyfloat list"

type_synonym improper_instance = "int \<times> int \<times> int \<times> int"

record artifact =
  ar_schema_version :: int
  ar_mol_id :: string
  ar_generator :: string
  ar_generator_version :: string
  ar_provenance :: string
  ar_smiles :: string
  ar_formal_charge :: int
  ar_topology_hash :: string
  ar_atoms :: "artifact_atom list"
  ar_bond_types :: "artifact_bond_type list"
  ar_angle_types :: "artifact_angle_type list"
  ar_dihedral_types :: "artifact_styled list"
  ar_improper_types :: "artifact_styled list"
  ar_impropers :: "improper_instance list"
  ar_ff_family :: string
  ar_charge_model :: string

datatype schema_fault =
    NotAnObject
  | MissingKeys string "string list"
  | VersionNotInteger
  | UnsupportedVersion int
  | EmptyMolId
  | ChargeNotInteger string
  | AtomsNotAList string
  | NotADict string string
  | MalformedAtom string py_error
  | NotAList string string
  | SeparatorInSource string
  | EmptySource
  | JsonUnreadable string
  | AtomCountDiffers string nat nat
  | IndexDiffers string int int
  | ElementDiffers string int string string

datatype artifact_error = ArtifactMissing string | SchemaFault schema_fault | Escaped py_error

section \<open>Writing\<close>

definition some_entry :: "string \<Rightarrow> pyfloat option \<Rightarrow> (string \<times> pyval) list" where
  "some_entry k x = (case x of None \<Rightarrow> [] | Some v \<Rightarrow> [(k, PNum v)])"

definition atom_dict :: "artifact_atom \<Rightarrow> pyval" where
  "atom_dict a =
     PDict ([(''index'', PNum (of_int (aa_index a))), (''element'', PStr (aa_element a)),
             (''ff_type'', PStr (aa_ff_type a)), (''charge'', PNum (aa_charge a))] @
            some_entry ''epsilon'' (aa_epsilon a) @ some_entry ''sigma'' (aa_sigma a))"

definition bond_type_dict :: "artifact_bond_type \<Rightarrow> pyval" where
  "bond_type_dict b = PDict [(''key'', PStr (ab_key b)), (''k'', PNum (ab_k b)), (''r0'', PNum (ab_r0 b))]"

definition angle_type_dict :: "artifact_angle_type \<Rightarrow> pyval" where
  "angle_type_dict a = PDict [(''key'', PStr (an_key a)), (''k'', PNum (an_k a)), (''theta0'', PNum (an_theta0 a))]"

definition styled_dict :: "artifact_styled \<Rightarrow> pyval" where
  "styled_dict d =
     PDict [(''key'', PStr (as_key d)), (''style'', PStr (as_style d)), (''coeffs'', PList (map PNum (as_coeffs d)))]"

definition instance_dict :: "improper_instance \<Rightarrow> pyval" where
  "instance_dict i =
     (let (a, b, c, d) = i
      in PDict [(''atom1'', PNum (of_int a)), (''atom2'', PNum (of_int b)), (''atom3'', PNum (of_int c)),
                (''atom4'', PNum (of_int d))])"

definition to_dict :: "artifact \<Rightarrow> pyval" where
  "to_dict A =
     PDict [(''schema_version'', PNum (of_int (ar_schema_version A))), (''mol_id'', PStr (ar_mol_id A)),
       (''generator'', PStr (ar_generator A)), (''generator_version'', PStr (ar_generator_version A)),
       (''provenance'', PStr (ar_provenance A)), (''canonical_smiles'', PStr (ar_smiles A)),
       (''formal_charge'', PNum (of_int (ar_formal_charge A))), (''topology_hash'', PStr (ar_topology_hash A)),
       (''ff_family'', PStr (ar_ff_family A)), (''charge_model'', PStr (ar_charge_model A)),
       (''atoms'', PList (map atom_dict (ar_atoms A))),
       (''bond_types'', PList (map bond_type_dict (ar_bond_types A))),
       (''angle_types'', PList (map angle_type_dict (ar_angle_types A))),
       (''dihedral_types'', PList (map styled_dict (ar_dihedral_types A))),
       (''improper_types'', PList (map styled_dict (ar_improper_types A))),
       (''improper_instances'', PList (map instance_dict (ar_impropers A)))]"

section \<open>Reading\<close>

abbreviation schema :: "schema_fault \<Rightarrow> (artifact_error, 'a) result" where
  "schema f \<equiv> Inl (SchemaFault f)"

text \<open>The missing keys in the order they are asked for; the message sorts them.\<close>

definition require_keys :: "(string \<times> pyval) list \<Rightarrow> string list \<Rightarrow> string \<Rightarrow> (artifact_error, unit) result" where
  "require_keys d keys place =
     (let missing = filter (\<lambda>k. \<not> dict_has d k) keys
      in if missing \<noteq> [] then schema (MissingKeys place missing) else Inr ())"

text \<open>\<open>float(raw[k]) if raw.get(k) is not None else None\<close>\<close>

definition optional_float :: "(string \<times> pyval) list \<Rightarrow> string \<Rightarrow> (py_error, pyfloat option) result" where
  "optional_float d k = (case pv_get d k of PNone \<Rightarrow> Inr None | v \<Rightarrow> map_sum id Some (json_float v))"

definition parse_artifact_atom :: "(pyval \<Rightarrow> string) \<Rightarrow> string \<Rightarrow> pyval \<Rightarrow> (artifact_error, artifact_atom) result" where
  "parse_artifact_atom shw mol_id raw =
     (case raw of
        PDict d \<Rightarrow>
          bind_result (require_keys d [''index'', ''element'', ''ff_type'', ''charge''] ''atom'') (\<lambda>_.
          map_error (\<lambda>e. SchemaFault (MalformedAtom mol_id e))
            (bind_result (json_int_at d ''index'') (\<lambda>i.
             bind_result (json_float_at d ''charge'') (\<lambda>q.
             bind_result (optional_float d ''epsilon'') (\<lambda>eps.
             bind_result (optional_float d ''sigma'') (\<lambda>sig.
             Inr \<lparr>aa_index = i, aa_element = py_str_of shw (pv_get d ''element''),
                  aa_ff_type = py_str_of shw (pv_get d ''ff_type''), aa_charge = q, aa_epsilon = eps,
                  aa_sigma = sig\<rparr>))))))
      | _ \<Rightarrow> schema (NotADict mol_id ''atom''))"

definition parse_atoms :: "(pyval \<Rightarrow> string) \<Rightarrow> string \<Rightarrow> pyval \<Rightarrow> (artifact_error, artifact_atom list) result" where
  "parse_atoms shw mol_id v =
     (case v of
        PList (a # as) \<Rightarrow> map_result (parse_artifact_atom shw mol_id) (a # as)
      | _ \<Rightarrow> schema (AtomsNotAList mol_id))"

text \<open>The frame of the four readers of types: \<open>None\<close> is empty, anything but a list is a fault.\<close>

definition parse_types ::
    "string \<Rightarrow> string \<Rightarrow> ((string \<times> pyval) list \<Rightarrow> (artifact_error, 'a) result) \<Rightarrow> pyval \<Rightarrow> (artifact_error, 'a list) result" where
  "parse_types mol_id place parse v =
     (case v of
        PNone \<Rightarrow> Inr []
      | PList xs \<Rightarrow> map_result (\<lambda>raw. case raw of PDict d \<Rightarrow> parse d | _ \<Rightarrow> schema (NotADict mol_id place)) xs
      | _ \<Rightarrow> schema (NotAList mol_id place))"

definition parse_bond_type :: "(pyval \<Rightarrow> string) \<Rightarrow> (string \<times> pyval) list \<Rightarrow> (artifact_error, artifact_bond_type) result" where
  "parse_bond_type shw d =
     bind_result (require_keys d [''key'', ''k'', ''r0''] ''bond_type'') (\<lambda>_.
     map_error Escaped
       (bind_result (json_float_at d ''k'') (\<lambda>k. bind_result (json_float_at d ''r0'') (\<lambda>r0.
        Inr \<lparr>ab_key = py_str_of shw (pv_get d ''key''), ab_k = k, ab_r0 = r0\<rparr>))))"

definition parse_angle_type :: "(pyval \<Rightarrow> string) \<Rightarrow> (string \<times> pyval) list \<Rightarrow> (artifact_error, artifact_angle_type) result" where
  "parse_angle_type shw d =
     bind_result (require_keys d [''key'', ''k'', ''theta0''] ''angle_type'') (\<lambda>_.
     map_error Escaped
       (bind_result (json_float_at d ''k'') (\<lambda>k. bind_result (json_float_at d ''theta0'') (\<lambda>t.
        Inr \<lparr>an_key = py_str_of shw (pv_get d ''key''), an_k = k, an_theta0 = t\<rparr>))))"

text \<open>\<open>tuple(float(c) for c in raw.get("coeffs", []))\<close>\<close>

definition parse_coeffs :: "(string \<times> pyval) list \<Rightarrow> (artifact_error, pyfloat list) result" where
  "parse_coeffs d =
     map_error Escaped (bind_result (json_iter (json_get d ''coeffs'' (PList []))) (map_result json_float))"

definition parse_dihedral_type :: "(pyval \<Rightarrow> string) \<Rightarrow> (string \<times> pyval) list \<Rightarrow> (artifact_error, artifact_styled) result" where
  "parse_dihedral_type shw d =
     bind_result (require_keys d [''key''] ''dihedral_type'') (\<lambda>_.
     bind_result
       (if dict_has d ''style'' then map_sum id (Pair (py_str_of shw (pv_get d ''style''))) (parse_coeffs d)
        else bind_result (require_keys d [''k1'', ''k2'', ''k3'', ''k4''] ''dihedral_type'') (\<lambda>_.
             map_sum Escaped (Pair ''opls'') (map_result (json_float_at d) [''k1'', ''k2'', ''k3'', ''k4'']))) (\<lambda>(style, coeffs).
     Inr \<lparr>as_key = py_str_of shw (pv_get d ''key''), as_style = style, as_coeffs = coeffs\<rparr>))"

definition parse_improper_type :: "(pyval \<Rightarrow> string) \<Rightarrow> (string \<times> pyval) list \<Rightarrow> (artifact_error, artifact_styled) result" where
  "parse_improper_type shw d =
     bind_result (require_keys d [''key''] ''improper_type'') (\<lambda>_.
     bind_result
       (if dict_has d ''style'' then map_sum id (Pair (py_str_of shw (pv_get d ''style''))) (parse_coeffs d)
        else map_sum Escaped (Pair ''harmonic'')
               (map_result json_float [json_get d ''k'' (PNum 0), json_get d ''phi0'' (PNum 180)])) (\<lambda>(style, coeffs).
     Inr \<lparr>as_key = py_str_of shw (pv_get d ''key''), as_style = style, as_coeffs = coeffs\<rparr>))"

text \<open>Instances that cannot be read are skipped.\<close>

definition parse_improper_instance :: "pyval \<Rightarrow> improper_instance list" where
  "parse_improper_instance raw =
     (case raw of
        PDict d \<Rightarrow>
          (case (json_int_at d ''atom1'', json_int_at d ''atom2'', json_int_at d ''atom3'', json_int_at d ''atom4'') of
             (Inr a, Inr b, Inr c, Inr e) \<Rightarrow> [(a, b, c, e)]
           | _ \<Rightarrow> [])
      | _ \<Rightarrow> [])"

definition parse_improper_instances :: "pyval \<Rightarrow> improper_instance list" where
  "parse_improper_instances v = (case v of PList xs \<Rightarrow> concat (map parse_improper_instance xs) | _ \<Rightarrow> [])"

definition ROOT_KEYS :: "string list" where
  "ROOT_KEYS = [''schema_version'', ''mol_id'', ''generator'', ''canonical_smiles'', ''formal_charge'',
     ''topology_hash'', ''atoms'']"

definition parse_artifact_payload :: "(pyval \<Rightarrow> string) \<Rightarrow> pyval \<Rightarrow> (artifact_error, artifact) result" where
  "parse_artifact_payload shw payload =
     (case payload of
        PDict d \<Rightarrow>
          bind_result (require_keys d ROOT_KEYS ''artifact root'') (\<lambda>_.
          bind_result (map_error (\<lambda>_. SchemaFault VersionNotInteger) (json_int_at d ''schema_version'')) (\<lambda>version.
          if version \<noteq> 1 \<and> version \<noteq> 2 then schema (UnsupportedVersion version)
          else
            let mol_id = py_str_of shw (pv_get d ''mol_id'')
            in if mol_id = [] then schema EmptyMolId
               else
                 bind_result (map_error (\<lambda>_. SchemaFault (ChargeNotInteger mol_id)) (json_int_at d ''formal_charge'')) (\<lambda>charge.
                 bind_result (parse_atoms shw mol_id (pv_get d ''atoms'')) (\<lambda>atoms.
                 bind_result (parse_types mol_id ''bond_type'' (parse_bond_type shw) (pv_get d ''bond_types'')) (\<lambda>bonds.
                 bind_result (parse_types mol_id ''angle_type'' (parse_angle_type shw) (pv_get d ''angle_types'')) (\<lambda>angles.
                 bind_result (parse_types mol_id ''dihedral_type'' (parse_dihedral_type shw) (pv_get d ''dihedral_types'')) (\<lambda>dihedrals.
                 bind_result (parse_types mol_id ''improper_type'' (parse_improper_type shw) (pv_get d ''improper_types'')) (\<lambda>impropers.
                 Inr \<lparr>ar_schema_version = version, ar_mol_id = mol_id,
                      ar_generator = py_str_of shw (pv_get d ''generator''),
                      ar_generator_version = text_or_empty shw (pv_get d ''generator_version''),
                      ar_provenance = text_or_empty shw (pv_get d ''provenance''),
                      ar_smiles = py_str_of shw (pv_get d ''canonical_smiles''), ar_formal_charge = charge,
                      ar_topology_hash = py_str_of shw (pv_get d ''topology_hash''), ar_atoms = atoms,
                      ar_bond_types = bonds, ar_angle_types = angles, ar_dihedral_types = dihedrals,
                      ar_improper_types = impropers,
                      ar_impropers = parse_improper_instances (pv_get d ''improper_instances''),
                      ar_ff_family = py_str_of shw (json_get d ''ff_family'' (PStr ''organic_gaff2'')),
                      ar_charge_model = py_str_of shw (json_get d ''charge_model'' (PStr []))\<rparr>))))))))
      | _ \<Rightarrow> schema NotAnObject)"

section \<open>Loading\<close>

definition artifact_filename_for :: "string \<Rightarrow> (artifact_error, string) result" where
  "artifact_filename_for source_id =
     (let name = str_strip source_id
      in if name = [] then Inr []
         else if CHR ''/'' \<in> set name \<or> CHR 0x5C \<in> set name \<or> str_contains ''..'' name
         then schema (SeparatorInSource source_id)
         else Inr (if suffix ''.json'' (str_lower name) then name else name @ ''.json''))"

text \<open>A file of the catalog: parsed, or no JSON.\<close>

datatype json_file = BrokenJson | JsonFile pyval

type_synonym catalog = "string \<Rightarrow> json_file option"
type_synonym artifact_cache = "(string, artifact) pydict"

definition cache_key :: "string \<Rightarrow> string \<Rightarrow> string" where
  "cache_key source_id ff_family = ff_family @ CHR '':'' # source_id"

definition load_artifact ::
    "(pyval \<Rightarrow> string) \<Rightarrow> catalog \<Rightarrow> string \<Rightarrow> string \<Rightarrow> artifact_cache \<Rightarrow> (artifact_error, artifact) result \<times> artifact_cache" where
  "load_artifact shw disk source_id ff_family cache =
     (let ck = cache_key source_id ff_family
      in case map_of cache ck of
           Some a \<Rightarrow> (Inr a, cache)
         | None \<Rightarrow>
             (case artifact_filename_for source_id of
                Inl e \<Rightarrow> (Inl e, cache)
              | Inr [] \<Rightarrow> (schema EmptySource, cache)
              | Inr name \<Rightarrow>
                  (case disk name of
                     None \<Rightarrow> (Inl (ArtifactMissing name), cache)
                   | Some BrokenJson \<Rightarrow> (schema (JsonUnreadable name), cache)
                   | Some (JsonFile v) \<Rightarrow>
                       (case parse_artifact_payload shw v of
                          Inl e \<Rightarrow> (Inl e, cache)
                        | Inr a \<Rightarrow> (Inr a, dict_set ck a cache)))))"

definition clear_artifact_cache :: "artifact_cache \<Rightarrow> artifact_cache" where
  "clear_artifact_cache cache = []"

section \<open>Application\<close>

text \<open>The overrides a builder takes; the numbers of an atom type keep the names of the dictionary.\<close>

record bonded_overrides =
  bo_bonds :: "(string, ff_entry) pydict"
  bo_angles :: "(string, ff_entry) pydict"
  bo_dihedrals :: "(string, ff_entry) pydict"
  bo_impropers :: "(string, ff_entry) pydict"
  bo_atoms :: "(string, ff_entry) pydict"
  bo_instances :: "improper_instance list"

definition styled_entry :: "artifact_styled \<Rightarrow> ff_entry" where
  "styled_entry d = \<lparr>en_num = [], en_style = Some (as_style d), en_coeffs = Some (as_coeffs d)\<rparr>"

text \<open>\<open>overrides[...][t.key] = ...\<close> in a loop.\<close>

definition keyed :: "('a \<Rightarrow> string) \<Rightarrow> ('a \<Rightarrow> 'b) \<Rightarrow> 'a list \<Rightarrow> (string, 'b) pydict" where
  "keyed key val xs = foldl (\<lambda>d x. dict_set (key x) (val x) d) [] xs"

text \<open>The numbers of an atom type from its first atom; \<open>weights\<close> is the table of masses.\<close>

definition lj_entry :: "(string \<Rightarrow> pyfloat option) \<Rightarrow> pyfloat \<Rightarrow> string \<Rightarrow> pyfloat \<Rightarrow> pyfloat \<Rightarrow> ff_entry" where
  "lj_entry weights standard element eps sig =
     numbers [(''mass'', case weights element of None \<Rightarrow> standard | Some m \<Rightarrow> m), (''epsilon'', eps), (''sigma'', sig),
       (''charge'', 0)]"

definition atom_override :: "(string \<Rightarrow> pyfloat option) \<Rightarrow> (string, ff_entry) pydict \<Rightarrow> artifact_atom \<Rightarrow> (string, ff_entry) pydict" where
  "atom_override weights d a =
     (case (aa_epsilon a, aa_sigma a) of
        (Some eps, Some sig) \<Rightarrow>
          if dict_has d (aa_ff_type a) then d
          else dict_set (aa_ff_type a) (lj_entry weights (12011/1000) (aa_element a) eps sig) d
      | _ \<Rightarrow> d)"

definition typed_atom :: "artifact_atom \<Rightarrow> mol_atom \<Rightarrow> mol_atom" where
  "typed_atom c a = a\<lparr>ma_ff_type := Some (aa_ff_type c), ma_charge := aa_charge c, ma_charge_defined := True\<rparr>"

text \<open>The first mismatch of the atom-by-atom comparison.\<close>

fun atom_mismatch :: "string \<Rightarrow> artifact_atom list \<Rightarrow> mol_atom list \<Rightarrow> schema_fault option" where
  "atom_mismatch mol_id (c # cs) (a # as) =
     (if aa_index c \<noteq> ma_index a then Some (IndexDiffers mol_id (aa_index c) (ma_index a))
      else if aa_element c \<noteq> ma_element a then Some (ElementDiffers mol_id (aa_index c) (aa_element c) (ma_element a))
      else atom_mismatch mol_id cs as)"
| "atom_mismatch mol_id _ _ = None"

text \<open>The molecule is changed in place: the second component is its state after the call.\<close>

definition apply_artifact_to_topology ::
    "(string \<Rightarrow> pyfloat option) \<Rightarrow> artifact \<Rightarrow> mol_topology \<Rightarrow> (artifact_error, bonded_overrides) result \<times> mol_topology" where
  "apply_artifact_to_topology weights A t =
     (if length (ar_atoms A) \<noteq> length (mt_atoms t)
      then (schema (AtomCountDiffers (ar_mol_id A) (length (ar_atoms A)) (length (mt_atoms t))), t)
      else case atom_mismatch (ar_mol_id A) (ar_atoms A) (mt_atoms t) of
          Some f \<Rightarrow> (schema f, t)
        | None \<Rightarrow>
            (Inr \<lparr>bo_bonds = keyed ab_key (\<lambda>b. numbers [(''k'', ab_k b), (''r0'', ab_r0 b)]) (ar_bond_types A),
                  bo_angles = keyed an_key (\<lambda>a. numbers [(''k'', an_k a), (''theta0'', an_theta0 a)]) (ar_angle_types A),
                  bo_dihedrals = keyed as_key styled_entry (ar_dihedral_types A),
                  bo_impropers = keyed as_key styled_entry (ar_improper_types A),
                  bo_atoms = foldl (atom_override weights) [] (ar_atoms A),
                  bo_instances = ar_impropers A\<rparr>,
             t\<lparr>mt_atoms := map2 typed_atom (ar_atoms A) (mt_atoms t),
               mt_impropers := (if ar_impropers A \<noteq> [] then Some (ar_impropers A) else mt_impropers t)\<rparr>))"

end
