(* ===== verification/IonicGate.thy ===== *)
theory IonicGate
  imports CuratedArtifact
begin

text \<open>
  The ionic route, \<^verbatim>\<open>src/src/forcefield/ionic_executor.py\<close>: reading the profile catalog, the
  preconditions of a profile, the activation gates and the assignment. The YAML file is given
  parsed; the environment variable, the directory of ionic artifacts and the table of masses
  are arguments. A molecule is changed in place, so an assignment returns the molecule as it
  is after the call also when it fails. The type of an atom in a JSON artifact that is no text
  stands for its printed form; parameter values are numbers.
\<close>

section \<open>Profiles\<close>

record ionic_site_rule =
  is_site_type :: string
  is_element :: string
  is_charge :: pyfloat
  is_neighbors :: "(string \<times> pyval) list"

record ionic_atom_type =
  ia_site_type :: string
  ia_mass :: pyfloat
  ia_epsilon :: pyfloat
  ia_sigma :: pyfloat

record ionic_profile =
  ip_profile_id :: string
  ip_status :: string
  ip_profile_version :: string
  ip_family :: string
  ip_description :: string
  ip_context :: "(string \<times> pyval) list"
  ip_mixing :: "(string \<times> pyval) list"
  ip_citations :: "(string \<times> pyval) list"
  ip_site_rules :: "ionic_site_rule list"
  ip_atom_types :: "ionic_atom_type list"
  ip_validation :: "(string \<times> pyval) list"

record ionic_catalog =
  ic_schema_version :: int
  ic_version :: string
  ic_global_enabled :: bool
  ic_enabled_profiles :: "string list"
  ic_profiles :: "(string, ionic_profile) pydict"

datatype precondition =
    NoContextAllowed
  | MixingNotReviewed string
  | NoChargeCitation
  | NoLJCitation
  | NoValidationCitation
  | ActivationBlocked string

definition is_active_status :: "ionic_profile \<Rightarrow> bool" where
  "is_active_status p \<longleftrightarrow> str_lower (str_strip (ip_status p)) = ''active''"

text \<open>\<open>str(d.get(k) or "").strip()\<close>\<close>

definition text_at :: "(pyval \<Rightarrow> string) \<Rightarrow> (string \<times> pyval) list \<Rightarrow> string \<Rightarrow> string" where
  "text_at shw d k = str_strip (text_or_empty shw (pv_get d k))"

definition USAGE_CONTEXTS :: "string list" where
  "USAGE_CONTEXTS = [''aqueous'', ''asphalt_interface'', ''vacuum'']"

text \<open>The gaps; none means that the preconditions are met.\<close>

definition policy_preconditions_met :: "(pyval \<Rightarrow> string) \<Rightarrow> ionic_profile \<Rightarrow> precondition list" where
  "policy_preconditions_met shw p =
     (let mixing = str_lower (str_strip (py_str_of shw (json_get (ip_mixing p) ''lorentz_berthelot'' (PStr []))));
          validation = str_lower (text_at shw (ip_citations p) ''validation'');
          stop = text_at shw (ip_validation p) ''activation_blocked_reason''
      in (if list_ex (\<lambda>c. pv_truthy (pv_get (ip_context p) c)) USAGE_CONTEXTS then [] else [NoContextAllowed]) @
         (if mixing = ''validated'' \<or> mixing = ''incompatible'' then [] else [MixingNotReviewed mixing]) @
         (if text_at shw (ip_citations p) ''ion_charges'' = [] then [NoChargeCitation] else []) @
         (if text_at shw (ip_citations p) ''ion_lj'' = [] then [NoLJCitation] else []) @
         (if validation = [] \<or> validation = ''pending'' then [NoValidationCitation] else []) @
         (if stop \<noteq> [] then [ActivationBlocked stop] else []))"

section \<open>The catalog\<close>

datatype gate_blocker =
    EnvNotSet
  | GlobalDisabled
  | NotListed string
  | NotDeclared string
  | NotActive string
  | NotMet precondition

datatype ionic_error =
    ProfileSchema string
  | ProfileNotFound string
  | NoUsageContext
  | NotActivated "gate_blocker list"
  | ContextNotAllowed string
  | IonicArtifactAbsent string
  | IonicCountDiffers nat nat
  | IonicEscaped py_error

definition parse_site_rule :: "(pyval \<Rightarrow> string) \<Rightarrow> string \<times> pyval \<Rightarrow> (ionic_error, ionic_site_rule) result" where
  "parse_site_rule shw p =
     (case snd p of
        PDict d \<Rightarrow>
          map_error (\<lambda>_. ProfileSchema ''site entry'')
            (bind_result (json_item d ''element'') (\<lambda>el.
             bind_result (json_float_at d ''charge'') (\<lambda>q.
             bind_result (json_dict (pv_get d ''neighbor_pattern'')) (\<lambda>np.
             Inr \<lparr>is_site_type = fst p, is_element = py_str_of shw el, is_charge = q, is_neighbors = np\<rparr>))))
      | _ \<Rightarrow> Inl (ProfileSchema ''site''))"

definition parse_site_rules :: "(pyval \<Rightarrow> string) \<Rightarrow> pyval \<Rightarrow> (ionic_error, ionic_site_rule list) result" where
  "parse_site_rules shw v =
     (case v of PDict d \<Rightarrow> map_result (parse_site_rule shw) d | _ \<Rightarrow> Inl (ProfileSchema ''site_rules''))"

definition parse_ionic_atom_type :: "string \<times> pyval \<Rightarrow> (ionic_error, ionic_atom_type) result" where
  "parse_ionic_atom_type p =
     (case snd p of
        PDict d \<Rightarrow>
          map_error (\<lambda>_. ProfileSchema ''atom_type entry'')
            (bind_result (json_float_at d ''mass'') (\<lambda>mass.
             bind_result (json_float_at d ''epsilon'') (\<lambda>eps.
             bind_result (json_float_at d ''sigma'') (\<lambda>sig.
             Inr \<lparr>ia_site_type = fst p, ia_mass = mass, ia_epsilon = eps, ia_sigma = sig\<rparr>))))
      | _ \<Rightarrow> Inl (ProfileSchema ''atom_type''))"

definition parse_ionic_atom_types :: "pyval \<Rightarrow> (ionic_error, ionic_atom_type list) result" where
  "parse_ionic_atom_types v =
     (case v of PDict d \<Rightarrow> map_result parse_ionic_atom_type d | _ \<Rightarrow> Inl (ProfileSchema ''atom_types''))"

definition PROFILE_KEYS :: "string list" where
  "PROFILE_KEYS = [''status'', ''profile_version'', ''family'', ''description'', ''applicable_context'',
     ''mixing_rule_compatibility'', ''citations'', ''site_rules'', ''atom_types'', ''validation'']"

definition parse_profile :: "(pyval \<Rightarrow> string) \<Rightarrow> string \<times> pyval \<Rightarrow> (ionic_error, string \<times> ionic_profile) result" where
  "parse_profile shw p =
     (case snd p of
        PDict d \<Rightarrow>
          if \<not> list_all (dict_has d) PROFILE_KEYS then Inl (ProfileSchema ''required keys'')
          else
            bind_result (map_error IonicEscaped (json_dict (pv_get d ''applicable_context''))) (\<lambda>ctx.
            bind_result (map_error IonicEscaped (json_dict (pv_get d ''mixing_rule_compatibility''))) (\<lambda>mix.
            bind_result (map_error IonicEscaped (json_dict (pv_get d ''citations''))) (\<lambda>cit.
            bind_result (parse_site_rules shw (pv_get d ''site_rules'')) (\<lambda>rules.
            bind_result (parse_ionic_atom_types (pv_get d ''atom_types'')) (\<lambda>types.
            bind_result (map_error IonicEscaped (json_dict (pv_get d ''validation''))) (\<lambda>val.
            Inr (fst p, \<lparr>ip_profile_id = fst p, ip_status = py_str_of shw (pv_get d ''status''),
              ip_profile_version = py_str_of shw (pv_get d ''profile_version''),
              ip_family = py_str_of shw (pv_get d ''family''), ip_description = py_str_of shw (pv_get d ''description''),
              ip_context = ctx, ip_mixing = mix, ip_citations = cit, ip_site_rules = rules, ip_atom_types = types,
              ip_validation = val\<rparr>)))))))
      | _ \<Rightarrow> Inl (ProfileSchema ''profile''))"

datatype yaml_file = YamlAbsent | YamlBroken | YamlFile pyval

definition load_ionic_catalog :: "(pyval \<Rightarrow> string) \<Rightarrow> yaml_file \<Rightarrow> (ionic_error, ionic_catalog) result" where
  "load_ionic_catalog shw f =
     (case f of
        YamlAbsent \<Rightarrow> Inl (ProfileSchema ''missing file'')
      | YamlBroken \<Rightarrow> Inl (ProfileSchema ''unreadable file'')
      | YamlFile v \<Rightarrow>
          (case pv_or v (PDict []) of
             PDict d \<Rightarrow>
               bind_result (map_error IonicEscaped (json_int (pv_or (pv_get d ''schema_version'') (PNum 0)))) (\<lambda>version.
               if version \<noteq> 1 then Inl (ProfileSchema ''schema_version'')
               else
                 (case pv_or (pv_get d ''activation'') (PDict []) of
                    PDict act \<Rightarrow>
                      (case pv_or (pv_get act ''enabled_profiles'') (PList []) of
                         PList enabled \<Rightarrow>
                           (case pv_or (pv_get d ''profiles'') (PDict []) of
                              PDict raw \<Rightarrow>
                                bind_result (map_result (parse_profile shw) raw) (\<lambda>ps.
                                Inr \<lparr>ic_schema_version = version, ic_version = text_or_empty shw (pv_get d ''version''),
                                     ic_global_enabled = pv_truthy (json_get act ''global_enabled'' (PBool False)),
                                     ic_enabled_profiles = map (py_str_of shw) enabled, ic_profiles = ps\<rparr>)
                            | _ \<Rightarrow> Inl (ProfileSchema ''profiles''))
                       | _ \<Rightarrow> Inl (ProfileSchema ''enabled_profiles''))
                  | _ \<Rightarrow> Inl (ProfileSchema ''activation'')))
           | _ \<Rightarrow> Inl (ProfileSchema ''mapping'')))"

definition get_ionic_profile :: "ionic_catalog \<Rightarrow> string \<Rightarrow> (ionic_error, ionic_profile) result" where
  "get_ionic_profile C profile_id =
     (case map_of (ic_profiles C) profile_id of None \<Rightarrow> Inl (ProfileNotFound profile_id) | Some p \<Rightarrow> Inr p)"

section \<open>The gates\<close>

definition is_environment_activated :: "string option \<Rightarrow> bool" where
  "is_environment_activated env \<longleftrightarrow> env = Some ''1''"

text \<open>The blocking reasons; none means activated.\<close>

definition is_activated :: "(pyval \<Rightarrow> string) \<Rightarrow> string option \<Rightarrow> ionic_catalog \<Rightarrow> string \<Rightarrow> gate_blocker list" where
  "is_activated shw env C profile_id =
     (if is_environment_activated env then [] else [EnvNotSet]) @
     (if ic_global_enabled C then [] else [GlobalDisabled]) @
     (if profile_id \<in> set (ic_enabled_profiles C) then [] else [NotListed profile_id]) @
     (case map_of (ic_profiles C) profile_id of
        None \<Rightarrow> [NotDeclared profile_id]
      | Some p \<Rightarrow>
          (if is_active_status p then [] else [NotActive (ip_status p)]) @
          map NotMet (policy_preconditions_met shw p))"

section \<open>Applying a JSON artifact\<close>

text \<open>The loop over the entries and the atoms: types and charges are written as they are read.\<close>

fun type_atoms :: "(pyval \<Rightarrow> string) \<Rightarrow> pyval list \<Rightarrow> mol_atom list \<Rightarrow> (py_error, unit) result \<times> mol_atom list" where
  "type_atoms shw (c # cs) (a # as) =
     (case json_subscript c ''ff_type'' of
        Inl e \<Rightarrow> (Inl e, a # as)
      | Inr ft \<Rightarrow>
          let a = a\<lparr>ma_ff_type := Some (py_str_of shw ft)\<rparr>
          in case bind_result (json_subscript c ''charge'') json_float of
               Inl e \<Rightarrow> (Inl e, a # as)
             | Inr q \<Rightarrow>
                 let (r, as) = type_atoms shw cs as
                 in (r, a\<lparr>ma_charge := q, ma_charge_defined := True\<rparr> # as))"
| "type_atoms shw _ as = (Inr (), as)"

text \<open>The Lennard-Jones numbers of each type, from its first atom.\<close>

definition lj_override ::
    "(pyval \<Rightarrow> string) \<Rightarrow> (string \<Rightarrow> pyfloat option) \<Rightarrow> pyfloat \<Rightarrow> pyval \<Rightarrow> (string, ff_entry) pydict
      \<Rightarrow> (py_error, (string, ff_entry) pydict) result" where
  "lj_override shw weights standard c d =
     bind_result (json_subscript c ''ff_type'') (\<lambda>ft.
     if dict_has d (py_str_of shw ft) then Inr d
     else
       bind_result (json_object_of c) (\<lambda>ob.
       bind_result (json_float (json_get ob ''epsilon'' (PNum 0))) (\<lambda>eps.
       bind_result (json_float (json_get ob ''sigma'' (PNum 0))) (\<lambda>sig.
       bind_result (json_item ob ''element'') (\<lambda>el.
       Inr (dict_set (py_str_of shw ft) (lj_entry weights standard (py_str_of shw el) eps sig) d))))))"

definition no_overrides :: bonded_overrides where
  "no_overrides = \<lparr>bo_bonds = [], bo_angles = [], bo_dihedrals = [], bo_impropers = [], bo_atoms = [], bo_instances = []\<rparr>"

section \<open>The assignment\<close>

definition apply_ionic_artifact ::
    "(pyval \<Rightarrow> string) \<Rightarrow> (string \<Rightarrow> pyfloat option) \<Rightarrow> pyval \<Rightarrow> mol_topology \<Rightarrow> (ionic_error, bonded_overrides) result \<times> mol_topology" where
  "apply_ionic_artifact shw weights payload t =
     (case bind_result (json_object_of payload) (\<lambda>d. json_iter (json_get d ''atoms'' (PList []))) of
        Inl e \<Rightarrow> (Inl (IonicEscaped e), t)
      | Inr entries \<Rightarrow>
          if length entries \<noteq> length (mt_atoms t)
          then (Inl (IonicCountDiffers (length entries) (length (mt_atoms t))), t)
          else
            let (r, atoms) = type_atoms shw entries (mt_atoms t)
            in (map_error IonicEscaped (bind_result r (\<lambda>_.
                  map_sum id (\<lambda>lj. no_overrides\<lparr>bo_atoms := lj\<rparr>) (fold_result (lj_override shw weights 23) entries []))),
                t\<lparr>mt_atoms := atoms\<rparr>))"

definition assign_ionic ::
    "(pyval \<Rightarrow> string) \<Rightarrow> (string \<Rightarrow> pyfloat option) \<Rightarrow> string option \<Rightarrow> yaml_file \<Rightarrow> catalog \<Rightarrow> string \<Rightarrow> string option
      \<Rightarrow> string option \<Rightarrow> mol_topology \<Rightarrow> (ionic_error, bonded_overrides) result \<times> mol_topology" where
  "assign_ionic shw weights env yaml disk profile_id artifact_id usage_context t =
     (if \<not> truthy usage_context then (Inl NoUsageContext, t)
      else
        case load_ionic_catalog shw yaml of
          Inl e \<Rightarrow> (Inl e, t)
        | Inr C \<Rightarrow>
            let blockers = is_activated shw env C profile_id;
                context_name = or_default usage_context [];
                barred = (case map_of (ic_profiles C) profile_id of
                            None \<Rightarrow> False
                          | Some p \<Rightarrow> \<not> pv_truthy (json_get (ip_context p) context_name (PBool False)));
                name = or_default artifact_id (mt_mol_id t)
            in if blockers \<noteq> [] then (Inl (NotActivated blockers), t)
               else if barred then (Inl (ContextNotAllowed context_name), t)
               else case disk (name @ ''.json'') of
                   None \<Rightarrow> (Inl (IonicArtifactAbsent name), t)
                 | Some BrokenJson \<Rightarrow> (Inl (IonicEscaped RaisesValue), t)
                 | Some (JsonFile v) \<Rightarrow> apply_ionic_artifact shw weights v t)"

end
