(* ===== verification/ForceAssign.thy ===== *)
theory ForceAssign
  imports IonicGate
begin

text \<open>
  The executors of the organic and the water route:
  \<^verbatim>\<open>src/src/forcefield/organic_typing_executor.py\<close> and
  \<^verbatim>\<open>src/src/forcefield/water_executor.py\<close>. As for the ionic route, the molecule is changed in
  place and returned as it is after the call.
\<close>

section \<open>Names of force fields\<close>

definition FF_NAME_ALIASES :: "(string, string) pydict" where
  "FF_NAME_ALIASES =
     [(''reaxff'', ''reaxff''), (''trappe-ua'', ''trappe-ua''), (''trappe_ua'', ''trappe-ua''), (''gaff2'', ''gaff2''),
      (''gaff-2'', ''gaff2''), (''gaff_2'', ''gaff2'')]"

definition normalize_ff_name :: "string \<Rightarrow> string" where
  "normalize_ff_name name = (let key = str_lower (str_strip name) in dict_get FF_NAME_ALIASES key key)"

section \<open>The organic route\<close>

datatype organic_error =
    NotOrganic typing_strategy
  | SourceIdMissing string
  | ArtifactNotLoaded string artifact_error
  | ArtifactNotApplied string artifact_error
  | OrganicEscaped py_error

record organic_result =
  or_cache_hit :: bool
  or_charge_model :: string
  or_cache_key :: string
  or_artifact :: artifact
  or_overrides :: bonded_overrides

text \<open>Errors of the artifact module become errors of the executor, others pass through.\<close>

definition artifact_failure :: "(artifact_error \<Rightarrow> organic_error) \<Rightarrow> artifact_error \<Rightarrow> organic_error" where
  "artifact_failure wrap e = (case e of Escaped x \<Rightarrow> OrganicEscaped x | _ \<Rightarrow> wrap e)"

definition assign_via_artifact ::
    "(pyval \<Rightarrow> string) \<Rightarrow> (string \<Rightarrow> pyfloat option) \<Rightarrow> catalog \<Rightarrow> string \<Rightarrow> string \<Rightarrow> artifact_cache \<times> mol_topology
      \<Rightarrow> (organic_error, organic_result) result \<times> artifact_cache \<times> mol_topology" where
  "assign_via_artifact shw weights disk source_id ff_family st =
     (let (cache, t) = st
      in if source_id = [] then (Inl (SourceIdMissing (mt_mol_id t)), cache, t)
         else
           let pre_cached = dict_has cache (cache_key source_id ff_family);
               (r, cache) = load_artifact shw disk source_id ff_family cache
           in case r of
                Inl e \<Rightarrow> (Inl (artifact_failure (ArtifactNotLoaded source_id) e), cache, t)
              | Inr A \<Rightarrow>
                  let (r, t) = apply_artifact_to_topology weights A t
                  in (case r of
                        Inl e \<Rightarrow> (Inl (artifact_failure (ArtifactNotApplied source_id) e), cache, t)
                      | Inr ov \<Rightarrow>
                          (Inr \<lparr>or_cache_hit = pre_cached, or_charge_model = ar_ff_family A @ ''_artifact'',
                                or_cache_key = ar_ff_family A @ ''_artifact:'' @ source_id, or_artifact = A,
                                or_overrides = ov\<rparr>, cache, t)))"

definition assign_organic ::
    "(pyval \<Rightarrow> string) \<Rightarrow> (string \<Rightarrow> pyfloat option) \<Rightarrow> catalog \<Rightarrow> typing_strategy \<Rightarrow> string option \<Rightarrow> string
      \<Rightarrow> artifact_cache \<times> mol_topology \<Rightarrow> (organic_error, organic_result) result \<times> artifact_cache \<times> mol_topology" where
  "assign_organic shw weights disk strategy source_id ff_family st =
     (if strategy \<noteq> ORGANIC_CURATED_ARTIFACT then (Inl (NotOrganic strategy), st)
      else assign_via_artifact shw weights disk (or_default source_id []) ff_family st)"

section \<open>The water route\<close>

datatype water_error =
    WaterArtifactAbsent string
  | WaterUnreadable string
  | WaterCountDiffers nat nat
  | WaterEscaped py_error

text \<open>\<open>for bt in data.get("bond_types", [])\<close> with the two numbers of an entry.\<close>

definition water_types ::
    "(pyval \<Rightarrow> string) \<Rightarrow> string \<Rightarrow> string \<Rightarrow> (string \<times> pyval) list \<Rightarrow> (py_error, (string, ff_entry) pydict) result" where
  "water_types shw part second data =
     bind_result (json_iter (json_get data part (PList []))) (\<lambda>xs.
       fold_result (\<lambda>x d.
         bind_result (json_subscript x ''key'') (\<lambda>key.
         bind_result (bind_result (json_subscript x ''k'') json_float) (\<lambda>k.
         bind_result (bind_result (json_subscript x second) json_float) (\<lambda>r.
         Inr (dict_set (py_str_of shw key) (numbers [(''k'', k), (second, r)]) d))))) xs [])"

definition water_overrides ::
    "(pyval \<Rightarrow> string) \<Rightarrow> (string \<Rightarrow> pyfloat option) \<Rightarrow> (string \<times> pyval) list \<Rightarrow> pyval list \<Rightarrow> (py_error, bonded_overrides) result" where
  "water_overrides shw weights data entries =
     bind_result (water_types shw ''bond_types'' ''r0'' data) (\<lambda>bonds.
     bind_result (water_types shw ''angle_types'' ''theta0'' data) (\<lambda>angles.
     bind_result (fold_result (lj_override shw weights 16) entries []) (\<lambda>lj.
     Inr (no_overrides\<lparr>bo_bonds := bonds, bo_angles := angles, bo_atoms := lj\<rparr>))))"

definition assign_water ::
    "(pyval \<Rightarrow> string) \<Rightarrow> (string \<Rightarrow> pyfloat option) \<Rightarrow> catalog \<Rightarrow> string \<Rightarrow> mol_topology
      \<Rightarrow> (water_error, bonded_overrides) result \<times> mol_topology" where
  "assign_water shw weights disk source_id t =
     (case disk (source_id @ ''.json'') of
        None \<Rightarrow> (Inl (WaterArtifactAbsent source_id), t)
      | Some BrokenJson \<Rightarrow> (Inl (WaterUnreadable source_id), t)
      | Some (JsonFile v) \<Rightarrow>
          (case bind_result (json_object_of v) (\<lambda>d. map_sum id (Pair d) (json_iter (json_get d ''atoms'' (PList [])))) of
             Inl e \<Rightarrow> (Inl (WaterEscaped e), t)
           | Inr (data, entries) \<Rightarrow>
               if length entries \<noteq> length (mt_atoms t)
               then (Inl (WaterCountDiffers (length entries) (length (mt_atoms t))), t)
               else
                 let (r, atoms) = type_atoms shw entries (mt_atoms t)
                 in (map_error WaterEscaped (bind_result r (\<lambda>_. water_overrides shw weights data entries)),
                     t\<lparr>mt_atoms := atoms\<rparr>)))"

end
