(* ===== verification/ArtifactStatus.thy ===== *)
theory ArtifactStatus
  imports CuratedArtifact
begin

text \<open>
  The failures of the artifact pipeline, \<^verbatim>\<open>src/src/features/molecules/exceptions.py\<close>, and the
  status files beside the artifacts, \<^verbatim>\<open>src/src/features/molecules/admin_status.py\<close>. The
  directory of status files maps source ids to JSON; a write replaces a file as a whole. The
  time is an argument of the operations that stamp an entry.
\<close>

section \<open>Failures\<close>

datatype failure_code =
  SQM_TIMEOUT | SQM_NONCONVERGED | ANTECHAMBER_FAILED | PARMCHK2_FAILED | TLEAP_FAILED | PARMED_FAILED |
  INPUT_INVALID | MANUAL_REVIEW_REQUIRED | SHARED_SOURCE_ID_CONFLICT | PASSTHROUGH_UNSUPPORTED

fun code_value :: "failure_code \<Rightarrow> string" where
  "code_value SQM_TIMEOUT = ''sqm_timeout''"
| "code_value SQM_NONCONVERGED = ''sqm_nonconverged''"
| "code_value ANTECHAMBER_FAILED = ''antechamber_failed''"
| "code_value PARMCHK2_FAILED = ''parmchk2_failed''"
| "code_value TLEAP_FAILED = ''tleap_failed''"
| "code_value PARMED_FAILED = ''parmed_failed''"
| "code_value INPUT_INVALID = ''input_invalid''"
| "code_value MANUAL_REVIEW_REQUIRED = ''manual_review_required''"
| "code_value SHARED_SOURCE_ID_CONFLICT = ''shared_source_id_conflict''"
| "code_value PASSTHROUGH_UNSUPPORTED = ''passthrough_unsupported''"

definition RETRYABLE_CODES :: "failure_code list" where
  "RETRYABLE_CODES = [SQM_TIMEOUT, SQM_NONCONVERGED]"

record gen_failure =
  gf_stage :: string
  gf_code :: failure_code
  gf_message :: string
  gf_stderr :: string

text \<open>At most 2048 characters of the error output are kept.\<close>

definition cap_excerpt :: "string \<Rightarrow> string" where
  "cap_excerpt s = (if length s > 2048 then take 2045 s @ ''...'' else s)"

definition generation_error :: "string \<Rightarrow> failure_code \<Rightarrow> string \<Rightarrow> string \<Rightarrow> gen_failure" where
  "generation_error stage code message stderr =
     \<lparr>gf_stage = stage, gf_code = code,
      gf_message = (if message = [] then stage @ '' failed ('' @ code_value code @ '')'' else message),
      gf_stderr = cap_excerpt stderr\<rparr>"

definition retryable :: "gen_failure \<Rightarrow> bool" where
  "retryable f \<longleftrightarrow> gf_code f \<in> set RETRYABLE_CODES"

section \<open>Status entries\<close>

definition VALID_STATUSES :: "string list" where
  "VALID_STATUSES = [''complete'', ''incomplete'', ''pending'', ''failed'', ''passthrough'', ''manual_review'']"

definition RECOMMENDED_ACTIONS :: "(string, string) pydict" where
  "RECOMMENDED_ACTIONS =
     [(''sqm_timeout'', ''retry_sqm_robust''), (''sqm_nonconverged'', ''retry_sqm_robust''),
      (''passthrough_unsupported'', ''manual_curation_required''),
      (''shared_source_id_conflict'', ''split_source_id_or_align_structure''),
      (''manual_review_required'', ''manual_curation_required''), (''input_invalid'', ''fix_structure_file'')]"

definition recommended_action_for_failure :: "string option \<Rightarrow> string" where
  "recommended_action_for_failure code =
     (if truthy code then dict_get RECOMMENDED_ACTIONS (or_default code []) [] else [])"

record admin_status =
  st_source_id :: string
  st_status :: string
  st_failure_code :: "string option"
  st_stage :: string
  st_stderr :: string
  st_action :: string
  st_profile :: string
  st_generator :: string
  st_preflight :: "(string \<times> pyval) list option"
  st_consumers :: "pyval list"
  st_last_attempt :: "pyfloat option"
  st_last_success :: "pyfloat option"

definition post_init :: "admin_status \<Rightarrow> (py_error, admin_status) result" where
  "post_init s =
     (if st_status s \<notin> set VALID_STATUSES then Inl RaisesValue else Inr (s\<lparr>st_stderr := cap_excerpt (st_stderr s)\<rparr>))"

definition opt_num :: "pyfloat option \<Rightarrow> pyval" where
  "opt_num x = (case x of None \<Rightarrow> PNone | Some v \<Rightarrow> PNum v)"

definition opt_text :: "string option \<Rightarrow> pyval" where
  "opt_text x = (case x of None \<Rightarrow> PNone | Some s \<Rightarrow> PStr s)"

definition status_to_json :: "admin_status \<Rightarrow> pyval" where
  "status_to_json s =
     PDict [(''source_id'', PStr (st_source_id s)), (''artifact_status'', PStr (st_status s)),
       (''failure_code'', opt_text (st_failure_code s)), (''stage'', PStr (st_stage s)),
       (''stderr_excerpt'', PStr (st_stderr s)), (''recommended_action'', PStr (st_action s)),
       (''generation_profile'', PStr (st_profile s)), (''generator'', PStr (st_generator s)),
       (''preflight'', case st_preflight s of None \<Rightarrow> PNone | Some d \<Rightarrow> PDict d),
       (''consumer_ids'', PList (st_consumers s)), (''last_attempt_at'', opt_num (st_last_attempt s)),
       (''last_success_at'', opt_num (st_last_success s))]"

text \<open>\<open>list(v or [])\<close>\<close>

definition list_or_empty :: "pyval \<Rightarrow> (py_error, pyval list) result" where
  "list_or_empty v = (if pv_truthy v then json_iter v else Inr [])"

definition status_from_json :: "(pyval \<Rightarrow> string) \<Rightarrow> pyval \<Rightarrow> (py_error, admin_status) result" where
  "status_from_json shw v =
     bind_result (json_object_of v) (\<lambda>d.
     bind_result (list_or_empty (pv_get d ''consumer_ids'')) (\<lambda>ids.
     bind_result (optional_float d ''last_attempt_at'') (\<lambda>attempt.
     bind_result (optional_float d ''last_success_at'') (\<lambda>success.
     post_init
       \<lparr>st_source_id = text_or_empty shw (pv_get d ''source_id''),
        st_status = text_or_empty shw (pv_or (pv_get d ''artifact_status'') (PStr ''pending'')),
        st_failure_code = text_if_truthy shw (pv_get d ''failure_code''),
        st_stage = text_or_empty shw (pv_get d ''stage''), st_stderr = text_or_empty shw (pv_get d ''stderr_excerpt''),
        st_action = text_or_empty shw (pv_get d ''recommended_action''),
        st_profile = text_or_empty shw (pv_get d ''generation_profile''),
        st_generator = text_or_empty shw (pv_get d ''generator''),
        st_preflight = (case pv_get d ''preflight'' of PDict p \<Rightarrow> Some p | _ \<Rightarrow> None),
        st_consumers = ids, st_last_attempt = attempt, st_last_success = success\<rparr>))))"

section \<open>The store\<close>

type_synonym status_dir = "(string, json_file) pydict"

text \<open>The file of a source id, by its id.\<close>

definition path_for :: "string \<Rightarrow> (py_error, string) result" where
  "path_for source_id =
     (if source_id = [] then Inl RaisesValue
      else if CHR ''/'' \<in> set source_id \<or> CHR 0x5C \<in> set source_id \<or> CHR 0x00 \<in> set source_id then Inl RaisesValue
      else if source_id = ''.'' \<or> source_id = ''..'' \<or> prefix ''..'' source_id then Inl RaisesValue
      else Inr source_id)"

definition status_get :: "(pyval \<Rightarrow> string) \<Rightarrow> status_dir \<Rightarrow> string \<Rightarrow> (py_error, admin_status option) result" where
  "status_get shw dir source_id =
     bind_result (path_for source_id) (\<lambda>path.
       Inr (case map_of dir path of
              Some (JsonFile v) \<Rightarrow> (case status_from_json shw v of Inl _ \<Rightarrow> None | Inr s \<Rightarrow> Some s)
            | _ \<Rightarrow> None))"

text \<open>The readable entries, by the sorted names of their files.\<close>

definition list_all_status :: "(pyval \<Rightarrow> string) \<Rightarrow> status_dir \<Rightarrow> (py_error, admin_status list) result" where
  "list_all_status shw dir =
     map_sum id (\<lambda>xs. concat (map (\<lambda>x. case x of None \<Rightarrow> [] | Some s \<Rightarrow> [s]) xs))
       (map_result (status_get shw dir) (sort_key (\<lambda>k. k @ ''.json'') (map fst dir)))"

definition status_write :: "status_dir \<Rightarrow> admin_status \<Rightarrow> (py_error, status_dir) result" where
  "status_write dir s =
     (if st_source_id s = [] then Inl RaisesValue
      else bind_result (path_for (st_source_id s)) (\<lambda>path. Inr (dict_set path (JsonFile (status_to_json s)) dir)))"

definition status_delete :: "status_dir \<Rightarrow> string \<Rightarrow> (py_error, bool \<times> status_dir) result" where
  "status_delete dir source_id =
     bind_result (path_for source_id) (\<lambda>path.
       Inr (if dict_has dir path then (True, AList.delete path dir) else (False, dir)))"

definition record_failure ::
    "(pyval \<Rightarrow> string) \<Rightarrow> pyfloat \<Rightarrow> status_dir \<Rightarrow> string \<Rightarrow> gen_failure \<Rightarrow> string list \<Rightarrow> string
      \<Rightarrow> (string \<times> pyval) list option \<Rightarrow> string \<Rightarrow> (py_error, status_dir) result" where
  "record_failure shw now dir source_id f consumers profile preflight action =
     bind_result (status_get shw dir source_id) (\<lambda>existing.
     bind_result (post_init
       \<lparr>st_source_id = source_id, st_status = ''failed'', st_failure_code = Some (code_value (gf_code f)),
        st_stage = gf_stage f, st_stderr = gf_stderr f, st_action = action, st_profile = profile, st_generator = [],
        st_preflight = preflight, st_consumers = map PStr consumers, st_last_attempt = Some now,
        st_last_success = (case existing of None \<Rightarrow> None | Some s \<Rightarrow> st_last_success s)\<rparr>) (status_write dir))"

definition record_success ::
    "pyfloat \<Rightarrow> status_dir \<Rightarrow> string \<Rightarrow> string list \<Rightarrow> string \<Rightarrow> string \<Rightarrow> (py_error, status_dir) result" where
  "record_success now dir source_id consumers profile generator =
     bind_result (post_init
       \<lparr>st_source_id = source_id, st_status = ''complete'', st_failure_code = None, st_stage = [], st_stderr = [],
        st_action = [], st_profile = profile, st_generator = generator, st_preflight = None,
        st_consumers = map PStr consumers, st_last_attempt = Some now, st_last_success = Some now\<rparr>) (status_write dir)"

definition record_passthrough :: "pyfloat \<Rightarrow> status_dir \<Rightarrow> string \<Rightarrow> string list \<Rightarrow> (py_error, status_dir) result" where
  "record_passthrough now dir source_id consumers =
     bind_result (post_init
       \<lparr>st_source_id = source_id, st_status = ''passthrough'',
        st_failure_code = Some (code_value PASSTHROUGH_UNSUPPORTED), st_stage = ''preflight'', st_stderr = [],
        st_action = ''No AM1-BCC executor for this source_id. Curate manually or '' @
                    ''wait for the catalog-direct LJ runtime strategy.'',
        st_profile = [], st_generator = [], st_preflight = None, st_consumers = map PStr consumers,
        st_last_attempt = Some now, st_last_success = None\<rparr>) (status_write dir)"

section \<open>Lemmas\<close>

lemma cap_excerpt_length: "length (cap_excerpt s) \<le> 2048"
  by (simp add: cap_excerpt_def)

lemma cap_excerpt_short [simp]: "length s \<le> 2048 \<Longrightarrow> cap_excerpt s = s"
  by (simp add: cap_excerpt_def)

lemma code_value_ne [simp]: "code_value c \<noteq> []"
  by (cases c) simp_all

definition status_ok :: "admin_status \<Rightarrow> bool" where
  "status_ok s \<longleftrightarrow> st_status s \<in> set VALID_STATUSES \<and> length (st_stderr s) \<le> 2048 \<and> st_failure_code s \<noteq> Some []"

lemma optional_float_opt_num: "pv_get d k = opt_num x \<Longrightarrow> optional_float d k = Inr x"
  by (cases x) (simp_all add: optional_float_def opt_num_def)

lemma text_simps [simp]:
  "text_or_empty shw (PStr s) = s" "text_or_empty shw PNone = []" "py_str_of shw (PStr s) = s"
  "text_if_truthy shw PNone = None" "text_if_truthy shw (PStr s) = (if s = [] then None else Some s)"
  by (simp_all add: text_or_empty_def text_if_truthy_def py_str_of_def)

lemma status_round_trip:
  assumes "status_ok s"
  shows "status_from_json shw (status_to_json s) = Inr s"
proof -
  have ids: "list_or_empty (PList xs) = Inr xs" for xs by (simp add: list_or_empty_def)
  have code: "text_if_truthy shw (opt_text (st_failure_code s)) = st_failure_code s"
    using assms by (cases "st_failure_code s") (auto simp: status_ok_def opt_text_def)
  have "st_status s \<noteq> []" "st_status s \<in> set VALID_STATUSES" using assms by (auto simp: status_ok_def VALID_STATUSES_def)
  moreover have "(case (case st_preflight s of None \<Rightarrow> PNone | Some x \<Rightarrow> PDict x) of PDict p \<Rightarrow> Some p | _ \<Rightarrow> None) = st_preflight s"
    by (cases "st_preflight s") simp_all
  ultimately show ?thesis
    using assms code
    by (simp add: status_from_json_def status_to_json_def json_object_of_def pv_get_def ids optional_float_opt_num
        post_init_def pv_or_def status_ok_def optional_float_def)
      (simp add: opt_num_def split: option.splits)
qed

lemma status_get_write:
  assumes "status_write dir s = Inr dir'" "status_ok s"
  shows "status_get shw dir' (st_source_id s) = Inr (Some s)"
proof -
  obtain p where p: "path_for (st_source_id s) = Inr p" "dir' = dict_set p (JsonFile (status_to_json s)) dir"
    using assms(1) by (auto simp: status_write_def bind_result_Inr split: if_splits)
  then show ?thesis by (simp add: status_get_def update_conv' status_round_trip [OF assms(2)])
qed

lemma status_write_iff: "(\<exists>dir'. status_write dir s = Inr dir') \<longleftrightarrow> (\<exists>p. path_for (st_source_id s) = Inr p)"
  by (auto simp: status_write_def path_for_def)

lemma path_for_id: "path_for sid = Inr p \<Longrightarrow> p = sid"
  by (auto simp: path_for_def split: if_splits)

end
