(* ===== verification/ArtifactChain.thy ===== *)
theory ArtifactChain
  imports ArtifactStatus
begin

text \<open>
  Making sure that a molecule has a complete artifact: names and completeness
  (\<^verbatim>\<open>src/src/features/molecules/artifact_service.py\<close>) and the chain of generation attempts
  (\<^verbatim>\<open>src/src/features/molecules/artifact_runtime.py\<close>) with its policy
  (\<^verbatim>\<open>src/src/contracts/policies/ff_generation.py\<close>). The generator, which runs external tools, is an
  argument: it gets the profile, the SMILES, the charge and the files, and answers with a
  result and the files it leaves. \<open>gw_attempts\<close> lists the profiles it was called with. What
  other processes do to the files while this one waits for the lock is the argument
  \<open>meanwhile\<close>.
\<close>

section \<open>Names\<close>

definition resolve_artifact_source_id :: "(pyval \<Rightarrow> string) \<Rightarrow> string \<Rightarrow> json_object option \<Rightarrow> string" where
  "resolve_artifact_source_id shw mol_id ff =
     (case ff of
        None \<Rightarrow> mol_id
      | Some d \<Rightarrow>
          let source_id = py_str_of shw (pv_or (pv_get d ''source_id'') (PStr mol_id))
          in if source_id = ''_variant_'' then mol_id else source_id)"

definition service_filename_for :: "string \<Rightarrow> string" where
  "service_filename_for source_id =
     (if suffix ''.json'' source_id then take (length source_id - 5) source_id else source_id) @ ''.json''"

definition get_artifact_path :: "(pyval \<Rightarrow> string) \<Rightarrow> string \<Rightarrow> json_object option \<Rightarrow> string" where
  "get_artifact_path shw mol_id ff = service_filename_for (resolve_artifact_source_id shw mol_id ff)"

section \<open>Completeness\<close>

definition CHARGE_TOLERANCE :: pyfloat where
  "CHARGE_TOLERANCE = 1 / 10 ^ 4"

definition charge_of :: "pyval \<Rightarrow> (py_error, pyfloat) result" where
  "charge_of a = bind_result (json_object_of a) (\<lambda>d. json_float (json_get d ''charge'' (PNum 0)))"

text \<open>Mismatch, expected and actual charge.\<close>

definition artifact_charge_mismatch ::
    "pyfloat \<Rightarrow> (string \<times> pyval) list \<Rightarrow> (py_error, bool \<times> pyfloat \<times> pyfloat) result" where
  "artifact_charge_mismatch tol d =
     bind_result (json_iter (json_get d ''atoms'' (PList []))) (\<lambda>atoms.
     bind_result (map_result charge_of atoms) (\<lambda>qs.
     bind_result (json_float (json_get d ''formal_charge'' (PNum 0))) (\<lambda>expected.
     Inr (\<bar>sum_list qs - expected\<bar> > tol, expected, sum_list qs))))"

text \<open>\<open>a.get(k) is not None\<close> for every key.\<close>

definition has_fields :: "string list \<Rightarrow> pyval \<Rightarrow> (py_error, bool) result" where
  "has_fields ks a = map_sum id (\<lambda>d. list_all (\<lambda>k. pv_get d k \<noteq> PNone) ks) (json_object_of a)"

text \<open>\<open>all(...)\<close>: stops at the first entry that fails.\<close>

fun all_result :: "('a \<Rightarrow> ('e, bool) result) \<Rightarrow> 'a list \<Rightarrow> ('e, bool) result" where
  "all_result p [] = Inr True"
| "all_result p (x # xs) = bind_result (p x) (\<lambda>b. if b then all_result p xs else Inr False)"

definition complete_payload :: "pyval \<Rightarrow> (py_error, bool) result" where
  "complete_payload v =
     bind_result (json_object_of v) (\<lambda>d.
     if \<not> (pv_truthy (pv_get d ''bond_types'') \<and> pv_truthy (pv_get d ''atoms'')) then Inr False
     else
       bind_result (artifact_charge_mismatch CHARGE_TOLERANCE d) (\<lambda>(mismatch, _).
       if mismatch then Inr False
       else bind_result (json_iter (json_get d ''atoms'' (PList []))) (all_result (has_fields [''epsilon'', ''sigma'']))))"

definition is_artifact_complete :: "json_file option \<Rightarrow> bool" where
  "is_artifact_complete f \<longleftrightarrow> (case f of Some (JsonFile v) \<Rightarrow> complete_payload v = Inr True | _ \<Rightarrow> False)"

definition is_ionic_artifact_complete :: "json_file option \<Rightarrow> bool" where
  "is_ionic_artifact_complete f \<longleftrightarrow>
     (case f of
        Some (JsonFile v) \<Rightarrow>
          bind_result (json_object_of v) (\<lambda>d.
            if \<not> pv_truthy (json_get d ''atoms'' (PList [])) then Inr False
            else bind_result (json_iter (json_get d ''atoms'' (PList []))) (all_result (has_fields [''sigma'', ''epsilon''])))
          = Inr True
      | _ \<Rightarrow> False)"

section \<open>Charges\<close>

datatype charge_error = CannotNormalize pyfloat pyfloat | ChargeEscaped py_error

text \<open>The key of the choice: the size of the charge, then the smaller index.\<close>

definition lex_less :: "pyfloat \<times> int \<Rightarrow> pyfloat \<times> int \<Rightarrow> bool" where
  "lex_less a b \<longleftrightarrow> fst a < fst b \<or> (fst a = fst b \<and> snd a < snd b)"

fun max_position :: "(nat \<Rightarrow> pyfloat \<times> int) \<Rightarrow> nat \<Rightarrow> nat list \<Rightarrow> nat" where
  "max_position key best [] = best"
| "max_position key best (i # is) = max_position key (if lex_less (key best) (key i) then i else best) is"

definition is_heavy :: "(pyval \<Rightarrow> string) \<Rightarrow> (string \<times> pyval) list \<Rightarrow> bool" where
  "is_heavy shw d \<longleftrightarrow> str_upper (py_str_of shw (json_get d ''element'' (PStr []))) \<noteq> ''H''"

definition dict_charge :: "(string \<times> pyval) list \<Rightarrow> (py_error, pyfloat) result" where
  "dict_charge d = json_float (json_get d ''charge'' (PNum 0))"

definition dict_index :: "(string \<times> pyval) list \<Rightarrow> (py_error, int) result" where
  "dict_index d = json_int (json_get d ''index'' (PNum 0))"

definition total_charge :: "(string \<times> pyval) list list \<Rightarrow> pyfloat" where
  "total_charge atoms = sum_list (map (\<lambda>d. projr (dict_charge d)) atoms)"

definition set_atom_charge :: "pyfloat \<Rightarrow> (string \<times> pyval) list \<Rightarrow> (string \<times> pyval) list" where
  "set_atom_charge q d = dict_set ''charge'' (PNum q) d"

definition normalize_artifact_atom_charges ::
    "(pyval \<Rightarrow> string) \<Rightarrow> pyfloat \<Rightarrow> pyfloat \<Rightarrow> (string \<times> pyval) list list \<Rightarrow>
      (charge_error, (string \<times> pyval) list list \<times> pyfloat) result" where
  "normalize_artifact_atom_charges shw tol target atoms =
     (if atoms = [] then Inr (atoms, target)
      else
        bind_result (map_error ChargeEscaped (map_result dict_charge atoms)) (\<lambda>qs.
        let delta = target - sum_list qs
        in if \<bar>delta\<bar> \<le> tol then Inr (atoms, sum_list qs)
           else
             let heavy = filter (\<lambda>i. is_heavy shw (atoms ! i)) [0..<length atoms];
                 candidates = (if heavy \<noteq> [] then heavy else [0..<length atoms])
             in bind_result (map_error ChargeEscaped (map_result (\<lambda>i. dict_index (atoms ! i)) candidates)) (\<lambda>_.
                let key = (\<lambda>i. (\<bar>qs ! i\<bar>, - projr (dict_index (atoms ! i))));
                    k = max_position key (hd candidates) (tl candidates);
                    first = rounded 6 (qs ! k + delta);
                    moved = atoms[k := set_atom_charge first (atoms ! k)];
                    rest = target - total_charge moved;
                    again = \<bar>rest\<bar> > tol;
                    second = rounded 6 (first + rest);
                    settled = (if again then atoms[k := set_atom_charge second (atoms ! k)] else moved)
                in if \<bar>target - total_charge settled\<bar> > tol
                   then Inl (CannotNormalize target (total_charge settled))
                   else Inr (settled, total_charge settled))))"

section \<open>The policy\<close>

record generation_policy =
  gp_skip_on_prior_failure :: bool
  gp_scf_failure_codes :: "string list"
  gp_baseline_timeout :: int
  gp_robust_timeout :: int
  gp_prescreen :: bool
  gp_prescreen_max_atoms :: nat

definition DEFAULT_FF_GENERATION_POLICY :: generation_policy where
  "DEFAULT_FF_GENERATION_POLICY =
     \<lparr>gp_skip_on_prior_failure = True, gp_scf_failure_codes = [''sqm_timeout'', ''sqm_nonconverged''],
      gp_baseline_timeout = 600, gp_robust_timeout = 1800, gp_prescreen = True, gp_prescreen_max_atoms = 300\<rparr>"

definition ALLOWED_ELEMENTS :: "string list" where
  "ALLOWED_ELEMENTS = [''C'', ''H'', ''O'', ''N'', ''S'']"

text \<open>What the chemistry library says of the molecule: atoms, elements, formal charge.\<close>

type_synonym molecule_facts = "(nat \<times> string list \<times> int) option"

definition should_prescreen_to_fragment :: "generation_policy \<Rightarrow> molecule_facts \<Rightarrow> bool" where
  "should_prescreen_to_fragment P facts \<longleftrightarrow>
     gp_prescreen P \<and>
     (case facts of
        None \<Rightarrow> False
      | Some (n, elements, charge) \<Rightarrow>
          \<not> n \<le> gp_prescreen_max_atoms P \<and> list_all (\<lambda>e. e \<in> set ALLOWED_ELEMENTS) elements \<and> charge = 0)"

definition should_skip_to_fragment :: "(pyval \<Rightarrow> string) \<Rightarrow> generation_policy \<Rightarrow> status_dir \<Rightarrow> string \<Rightarrow> bool" where
  "should_skip_to_fragment shw P dir source_id \<longleftrightarrow>
     (case status_get shw dir source_id of
        Inr (Some s) \<Rightarrow>
          if st_profile s = ''fragment_fallback'' then True
          else st_profile s = ''sqm_robust'' \<and>
            (case st_failure_code s of None \<Rightarrow> False | Some c \<Rightarrow> c \<in> set (gp_scf_failure_codes P))
      | _ \<Rightarrow> False)"

section \<open>The chain\<close>

type_synonym artifact_files = "(string, json_file) pydict"

datatype gen_error = GenFailed gen_failure | GenMissing | GenIncomplete | GenRaised string

type_synonym generator = "string \<Rightarrow> pyval \<Rightarrow> int \<Rightarrow> artifact_files \<Rightarrow> (gen_error, unit) result \<times> artifact_files"

record gen_world =
  gw_files :: artifact_files
  gw_status :: status_dir
  gw_cache :: artifact_cache
  gw_attempts :: "string list"

datatype ensure_error =
    MolFileMissing string
  | FromGenerator gen_error
  | BaselineRaised gen_error
  | NotRetryable gen_failure
  | RobustRaised gen_error
  | AllFailed failure_code failure_code failure_code
  | FragmentRaised gen_error
  | StillIncomplete string

text \<open>One call of the generator; the charge is read first.\<close>

definition try_generate :: "generator \<Rightarrow> json_object \<Rightarrow> string \<Rightarrow> gen_world \<Rightarrow> (gen_error, unit) result \<times> gen_world" where
  "try_generate gen ff profile w =
     (case json_int (pv_or (pv_get ff ''formal_charge'') (PNum 0)) of
        Inl _ \<Rightarrow> (Inl (GenRaised ''formal_charge''), w)
      | Inr charge \<Rightarrow>
          let (r, files) = gen profile (pv_or (pv_get ff ''canonical_smiles'') (PStr [])) charge (gw_files w)
          in (r, w\<lparr>gw_files := files, gw_attempts := gw_attempts w @ [profile]\<rparr>))"

text \<open>Writing the status; its exceptions are swallowed.\<close>

definition keep_status :: "(py_error, status_dir) result \<Rightarrow> gen_world \<Rightarrow> gen_world" where
  "keep_status r w = (case r of Inl _ \<Rightarrow> w | Inr dir \<Rightarrow> w\<lparr>gw_status := dir\<rparr>)"

definition note_failure ::
    "(pyval \<Rightarrow> string) \<Rightarrow> (nat \<Rightarrow> pyfloat) \<Rightarrow> string \<Rightarrow> string \<Rightarrow> gen_failure \<Rightarrow> gen_world \<Rightarrow> gen_world" where
  "note_failure shw clock source profile f w =
     keep_status (record_failure shw (clock (length (gw_attempts w))) (gw_status w) source f [source] profile None []) w"

definition note_success :: "(nat \<Rightarrow> pyfloat) \<Rightarrow> string \<Rightarrow> string \<Rightarrow> gen_world \<Rightarrow> gen_world" where
  "note_success clock source profile w =
     keep_status (record_success (clock (length (gw_attempts w))) (gw_status w) source [source] profile
       (if profile = ''fragment_fallback'' then ''fragment_fallback_gaff2'' else ''antechamber_am1bcc'')) w"

definition complete_at :: "string \<Rightarrow> gen_world \<Rightarrow> bool" where
  "complete_at file w \<longleftrightarrow> is_artifact_complete (map_of (gw_files w) file)"

definition incomplete_failure :: gen_failure where
  "incomplete_failure =
     generation_error ''completeness_check'' PARMED_FAILED ''Artifact generated but incomplete (missing LJ/bonded)'' []"

text \<open>The end of the chain after an attempt that returned.\<close>

definition finish_generation ::
    "(pyval \<Rightarrow> string) \<Rightarrow> (nat \<Rightarrow> pyfloat) \<Rightarrow> string \<Rightarrow> string \<Rightarrow> string \<Rightarrow> gen_world \<Rightarrow> (ensure_error, string) result \<times> gen_world" where
  "finish_generation shw clock source file profile w =
     (if \<not> complete_at file w then (Inl (StillIncomplete source), note_failure shw clock source profile incomplete_failure w)
      else (Inr source, (note_success clock source profile w)\<lparr>gw_cache := []\<rparr>))"

definition full_chain ::
    "(pyval \<Rightarrow> string) \<Rightarrow> (nat \<Rightarrow> pyfloat) \<Rightarrow> generator \<Rightarrow> json_object \<Rightarrow> string \<Rightarrow> string \<Rightarrow> gen_world
      \<Rightarrow> (ensure_error, string) result \<times> gen_world" where
  "full_chain shw clock gen ff source file w =
     (let fin = finish_generation shw clock source file; failed = note_failure shw clock source;
          (r, w) = try_generate gen ff ''baseline'' w
      in case r of
           Inr _ \<Rightarrow> fin ''baseline'' w
         | Inl (GenFailed e1) \<Rightarrow>
             let w = failed ''baseline'' e1 w
             in if \<not> retryable e1 then (Inl (NotRetryable e1), w)
                else
                  let (r2, w) = try_generate gen ff ''sqm_robust'' w
                  in (case r2 of
                        Inr _ \<Rightarrow> fin ''sqm_robust'' w
                      | Inl (GenFailed e2) \<Rightarrow>
                          let w = failed ''sqm_robust'' e2 w; (r3, w) = try_generate gen ff ''fragment_fallback'' w
                          in (case r3 of
                                Inr _ \<Rightarrow> fin ''fragment_fallback'' w
                              | Inl (GenFailed e3) \<Rightarrow>
                                  (Inl (AllFailed (gf_code e1) (gf_code e2) (gf_code e3)), failed ''fragment_fallback'' e3 w)
                              | Inl e \<Rightarrow> (Inl (FragmentRaised e), w))
                      | Inl e \<Rightarrow> (Inl (RobustRaised e), w))
         | Inl (GenRaised e) \<Rightarrow> (Inl (BaselineRaised (GenRaised e)), w)
         | Inl e \<Rightarrow> (Inl (FromGenerator e), w))"

text \<open>The shortcut to the fragment profile: whether it produced the artifact.\<close>

definition fragment_first ::
    "(nat \<Rightarrow> pyfloat) \<Rightarrow> generator \<Rightarrow> json_object \<Rightarrow> string \<Rightarrow> string \<Rightarrow> gen_world \<Rightarrow> bool \<times> gen_world" where
  "fragment_first clock gen ff source file w =
     (let (r, w) = try_generate gen ff ''fragment_fallback'' w
      in case r of
           Inl _ \<Rightarrow> (False, w)
         | Inr _ \<Rightarrow>
             if complete_at file w then (True, (note_success clock source ''fragment_fallback'' w)\<lparr>gw_cache := []\<rparr>)
             else (False, w))"

definition generate_locked ::
    "(pyval \<Rightarrow> string) \<Rightarrow> (nat \<Rightarrow> pyfloat) \<Rightarrow> generation_policy \<Rightarrow> generator \<Rightarrow> molecule_facts \<Rightarrow> bool \<Rightarrow> json_object
      \<Rightarrow> string \<Rightarrow> string \<Rightarrow> gen_world \<Rightarrow> (ensure_error, string) result \<times> gen_world" where
  "generate_locked shw clock P gen facts mol_there ff source file w =
     (if complete_at file w then (Inr source, w)
      else if \<not> mol_there then (Inl (MolFileMissing source), w)
      else
        let shortcut = (gp_skip_on_prior_failure P \<and> should_skip_to_fragment shw P (gw_status w) source)
                         \<or> should_prescreen_to_fragment P facts;
            (done, w) = (if shortcut then fragment_first clock gen ff source file w else (False, w))
        in if done then (Inr source, w) else full_chain shw clock gen ff source file w)"

definition ensure_organic_artifact ::
    "(pyval \<Rightarrow> string) \<Rightarrow> (nat \<Rightarrow> pyfloat) \<Rightarrow> generation_policy \<Rightarrow> generator \<Rightarrow> (artifact_files \<Rightarrow> artifact_files)
      \<Rightarrow> molecule_facts \<Rightarrow> bool \<Rightarrow> string \<Rightarrow> json_object \<Rightarrow> gen_world \<Rightarrow> (ensure_error, string) result \<times> gen_world" where
  "ensure_organic_artifact shw clock P gen meanwhile facts mol_there mol_id ff w =
     (let source = resolve_artifact_source_id shw mol_id (Some ff); file = get_artifact_path shw mol_id (Some ff)
      in if complete_at file w then (Inr source, w)
         else generate_locked shw clock P gen facts mol_there ff source file (w\<lparr>gw_files := meanwhile (gw_files w)\<rparr>))"

definition is_artifact_ready :: "(pyval \<Rightarrow> string) \<Rightarrow> string \<Rightarrow> json_object \<Rightarrow> artifact_files \<Rightarrow> bool \<times> string" where
  "is_artifact_ready shw mol_id ff files =
     (is_artifact_complete (map_of files (get_artifact_path shw mol_id (Some ff))),
      resolve_artifact_source_id shw mol_id (Some ff))"

section \<open>Administration\<close>

text \<open>The fields of a resolved target that the two operations read; its file lies in the directory.\<close>

record artifact_target =
  tg_mol_id :: string
  tg_source_id :: string
  tg_is_passthrough :: bool
  tg_consumer_ids :: "string list"
  tg_artifact_file :: string

definition has_shared_source_id :: "artifact_target \<Rightarrow> bool" where
  "has_shared_source_id t \<longleftrightarrow> length (tg_consumer_ids t) > 1"

definition GENERATION_PROFILES :: "string list" where
  "GENERATION_PROFILES = [''baseline'', ''sqm_robust'', ''fragment_fallback'']"

datatype admin_error = UnknownProfile | PassthroughTarget | RetryWithoutFailure "string option" | AdminEscaped py_error

fun admin_status_code :: "admin_error \<Rightarrow> int option" where
  "admin_status_code UnknownProfile = Some 400"
| "admin_status_code PassthroughTarget = Some 405"
| "admin_status_code (RetryWithoutFailure c) = Some 409"
| "admin_status_code (AdminEscaped e) = None"

definition validate_admin_generation_request ::
    "(pyval \<Rightarrow> string) \<Rightarrow> artifact_target \<Rightarrow> string \<Rightarrow> status_dir option \<Rightarrow> (admin_error, unit) result" where
  "validate_admin_generation_request shw t profile store =
     (if profile \<notin> set GENERATION_PROFILES then Inl UnknownProfile
      else if tg_is_passthrough t then Inl PassthroughTarget
      else if profile \<noteq> ''sqm_robust'' then Inr ()
      else
        bind_result (case store of
                       None \<Rightarrow> Inr None
                     | Some dir \<Rightarrow> map_error AdminEscaped (status_get shw dir (tg_source_id t))) (\<lambda>sidecar.
        let last = (case sidecar of None \<Rightarrow> None | Some s \<Rightarrow> st_failure_code s)
        in if last = Some ''sqm_timeout'' \<or> last = Some ''sqm_nonconverged'' then Inr () else Inl (RetryWithoutFailure last)))"

datatype delete_error = InvalidMolId | SharedSource "string list"

definition plain_id_char :: "char \<Rightarrow> bool" where
  "plain_id_char c \<longleftrightarrow>
     is_digit c \<or> (65 \<le> (of_char c :: nat) \<and> (of_char c :: nat) \<le> 90) \<or> (97 \<le> (of_char c :: nat) \<and> (of_char c :: nat) \<le> 122) \<or>
     c = CHR ''_'' \<or> c = CHR '' '' \<or> c = CHR ''-''"

text \<open>The files are those of the canonical name and of the older name by molecule.\<close>

definition delete_artifact :: "artifact_target \<Rightarrow> bool \<Rightarrow> gen_world \<Rightarrow> (delete_error, bool) result \<times> gen_world" where
  "delete_artifact t force w =
     (if tg_mol_id t = [] \<or> \<not> list_all plain_id_char (tg_mol_id t) then (Inl InvalidMolId, w)
      else if has_shared_source_id t \<and> \<not> force then (Inl (SharedSource (tg_consumer_ids t)), w)
      else
        let names = [tg_artifact_file t, service_filename_for (tg_mol_id t)];
            found = list_ex (dict_has (gw_files w)) names;
            files = filter (\<lambda>(k, _). k \<notin> set names) (gw_files w);
            (gone, dir) = (case status_delete (gw_status w) (tg_source_id t) of Inl _ \<Rightarrow> (False, gw_status w) | Inr r \<Rightarrow> r)
        in (Inr (found \<or> gone),
            w\<lparr>gw_files := files, gw_cache := (if found then [] else gw_cache w), gw_status := dir\<rparr>))"

end
