(* ===== verification/LammpsData.thy ===== *)
theory LammpsData
  imports ForceTopology Errors
begin

text \<open>
  LAMMPS data files: the writer \<^verbatim>\<open>write_lammps_data\<close> of
  \<^verbatim>\<open>src/src/forcefield/topology.py\<close> and the reader of
  \<^verbatim>\<open>src/src/parsers/data_parser.py\<close>. A file is a text; reading it from the disk is the
  caller's part.
\<close>

section \<open>Writer\<close>

definition sp :: "string list \<Rightarrow> string" where
  "sp ws = join_with blank ws"

definition with_comment :: "string \<Rightarrow> string \<Rightarrow> string" where
  "with_comment s c = s @ ''  # '' @ c"

definition comment_or_element :: "atom_type \<Rightarrow> string" where
  "comment_or_element t = or_default (Some (at_comment t)) (at_element t)"

definition to_lammps_mass :: "atom_type \<Rightarrow> string" where
  "to_lammps_mass t = with_comment (sp [show_int (at_id t), show_fixed 4 (at_mass t)]) (comment_or_element t)"

definition to_lammps_pair :: "atom_type \<Rightarrow> string" where
  "to_lammps_pair t =
     with_comment (sp [show_int (at_id t), show_fixed 4 (at_epsilon t), show_fixed 4 (at_sigma t)]) (comment_or_element t)"

definition harmonic_line :: "harmonic term_type \<Rightarrow> string" where
  "harmonic_line t =
     with_comment (sp [show_int (tt_id t), show_fixed 4 (fst (tt_params t)), show_fixed 4 (snd (tt_params t))]) (tt_comment t)"

text \<open>The terms \<open>(k, d, n)\<close> of a fourier dihedral; left-over coefficients are dropped.\<close>

fun fourier_terms :: "pyfloat list \<Rightarrow> string list" where
  "fourier_terms (k # d # n # cs) = show_fixed 4 k # show_int (py_int d) # show_int (py_int n) # fourier_terms cs"
| "fourier_terms cs = []"

definition coeff_or :: "pyfloat list \<Rightarrow> nat \<Rightarrow> pyfloat \<Rightarrow> pyfloat" where
  "coeff_or cs i d = (if i < length cs then cs ! i else d)"

definition dihedral_words :: "styled \<Rightarrow> string list" where
  "dihedral_words p =
     (let (style, cs) = p
      in if style = ''opls'' then map (show_fixed 4) (take 4 (cs @ replicate (4 - length cs) 0))
         else if style = ''fourier'' then show_nat (length cs div 3) # fourier_terms cs
         else if style = ''harmonic'' then
           [show_fixed 4 (coeff_or cs 0 0), show_int (py_int (coeff_or cs 1 1)), show_int (py_int (coeff_or cs 2 1))]
         else map (show_fixed 4) cs)"

definition dihedral_line :: "styled term_type \<Rightarrow> string" where
  "dihedral_line t = with_comment (sp (show_int (tt_id t) # dihedral_words (tt_params t))) (tt_comment t)"

definition improper_words :: "styled \<Rightarrow> string list" where
  "improper_words p =
     (let (style, cs) = p
      in if style = ''harmonic'' then [show_fixed 4 (coeff_or cs 0 0), show_fixed 4 (coeff_or cs 1 180)]
         else if style = ''cvff'' then
           [show_fixed 4 (coeff_or cs 0 0), show_int (py_int (coeff_or cs 1 (-1))), show_int (py_int (coeff_or cs 2 2))]
         else map (show_fixed 4) cs)"

definition improper_line :: "styled term_type \<Rightarrow> string" where
  "improper_line t = with_comment (sp (show_int (tt_id t) # improper_words (tt_params t))) (tt_comment t)"

definition atom_words :: "top_atom \<Rightarrow> string list" where
  "atom_words a =
     (let (x, y, z) = ta_pos a
      in [show_int (ta_id a), show_int (ta_mol a), show_int (ta_type a), show_fixed 6 (ta_charge a),
          show_fixed 6 x, show_fixed 6 y, show_fixed 6 z])"

definition link_words :: "link \<Rightarrow> string list" where
  "link_words l = show_int (lk_id l) # show_int (lk_type l) # map show_int (lk_atoms l)"

definition count_line :: "nat \<Rightarrow> string \<Rightarrow> string" where
  "count_line n what = show_nat n @ blank # what"

definition box_line :: "pyfloat list \<Rightarrow> nat \<Rightarrow> string \<Rightarrow> string" where
  "box_line box i names = sp [show_fixed 6 (box ! i), show_fixed 6 (box ! (i + 1))] @ blank # names"

definition block :: "string \<Rightarrow> string list \<Rightarrow> string list" where
  "block header ls = [header, []] @ ls @ [[]]"

definition block_if :: "bool \<Rightarrow> string \<Rightarrow> string list \<Rightarrow> string list" where
  "block_if c header ls = (if c then block header ls else [])"

definition count_lines :: "system_topology \<Rightarrow> string list" where
  "count_lines sy =
     [count_line (length (sy_atoms sy)) ''atoms'', count_line (length (sy_bonds sy)) ''bonds'',
      count_line (length (sy_angles sy)) ''angles'', count_line (length (sy_dihedrals sy)) ''dihedrals''] @
     (if sy_impropers sy \<noteq> [] then [count_line (length (sy_impropers sy)) ''impropers''] else []) @ [[]]"

definition type_lines :: "system_topology \<Rightarrow> string list" where
  "type_lines sy =
     [count_line (length (sy_atom_types sy)) ''atom types'', count_line (length (sy_bond_types sy)) ''bond types'',
      count_line (length (sy_angle_types sy)) ''angle types'', count_line (length (sy_dihedral_types sy)) ''dihedral types''] @
     (if sy_impropers sy \<noteq> [] \<and> sy_improper_types sy \<noteq> []
      then [count_line (length (sy_improper_types sy)) ''improper types''] else []) @ [[]]"

definition box_lines :: "pyfloat list \<Rightarrow> string list" where
  "box_lines box = [box_line box 0 ''xlo xhi'', box_line box 2 ''ylo yhi'', box_line box 4 ''zlo zhi'', []]"

definition coeff_lines :: "system_topology \<Rightarrow> string list" where
  "coeff_lines sy =
     block ''Pair Coeffs'' (map to_lammps_pair (sy_atom_types sy)) @
     block_if (sy_bond_types sy \<noteq> []) ''Bond Coeffs'' (map harmonic_line (sy_bond_types sy)) @
     block_if (sy_angle_types sy \<noteq> []) ''Angle Coeffs'' (map harmonic_line (sy_angle_types sy)) @
     block_if (sy_dihedral_types sy \<noteq> []) ''Dihedral Coeffs'' (map dihedral_line (sy_dihedral_types sy)) @
     block_if (sy_improper_types sy \<noteq> [] \<and> sy_impropers sy \<noteq> []) ''Improper Coeffs'' (map improper_line (sy_improper_types sy))"

definition entity_lines :: "system_topology \<Rightarrow> string list" where
  "entity_lines sy =
     block_if (sy_atoms sy \<noteq> []) ''Atoms'' (map (\<lambda>a. sp (atom_words a)) (sy_atoms sy)) @
     block_if (sy_bonds sy \<noteq> []) ''Bonds'' (map (\<lambda>l. sp (link_words l)) (sy_bonds sy)) @
     block_if (sy_angles sy \<noteq> []) ''Angles'' (map (\<lambda>l. sp (link_words l)) (sy_angles sy)) @
     block_if (sy_dihedrals sy \<noteq> []) ''Dihedrals'' (map (\<lambda>l. sp (link_words l)) (sy_dihedrals sy)) @
     block_if (sy_impropers sy \<noteq> []) ''Impropers'' (map (\<lambda>l. sp (link_words l)) (sy_impropers sy))"

definition data_lines :: "system_topology \<Rightarrow> string list" where
  "data_lines sy =
     [sy_title sy, []] @ count_lines sy @ type_lines sy @ box_lines (sy_box sy) @
     block ''Masses'' (map to_lammps_mass (sy_atom_types sy)) @ coeff_lines sy @ entity_lines sy"

definition write_lammps_data :: "system_topology \<Rightarrow> string" where
  "write_lammps_data sy = unlines (data_lines sy)"

section \<open>Reader\<close>

record data_atom =
  da_id :: int
  da_mol :: int
  da_type :: int
  da_charge :: pyfloat
  da_pos :: "pyfloat \<times> pyfloat \<times> pyfloat"

record reader =
  rd_atom_types :: int
  rd_bond_types :: int
  rd_angle_types :: int
  rd_dihedral_types :: int
  rd_improper_types :: int
  rd_box :: "pyfloat list"
  rd_masses :: "(int, pyfloat) pydict"
  rd_atoms :: "data_atom list"
  rd_bonds :: "link list"
  rd_angles :: "link list"
  rd_dihedrals :: "link list"
  rd_impropers :: "link list"
  rd_raw :: "(string, string) pydict"
  rd_section :: "string option"
  rd_coeff :: "string option"
  rd_lines :: "string list"

datatype data_file_error = BadNumber | NoAtomsFound

definition new_reader :: reader where
  "new_reader = \<lparr>rd_atom_types = 0, rd_bond_types = 0, rd_angle_types = 0, rd_dihedral_types = 0, rd_improper_types = 0,
     rd_box = [0, 100, 0, 100, 0, 100], rd_masses = [], rd_atoms = [], rd_bonds = [], rd_angles = [],
     rd_dihedrals = [], rd_impropers = [], rd_raw = [], rd_section = None, rd_coeff = None, rd_lines = []\<rparr>"

definition COEFF_SECTIONS :: "string list" where
  "COEFF_SECTIONS = [''Pair Coeffs'', ''Bond Coeffs'', ''Angle Coeffs'', ''Dihedral Coeffs'', ''Improper Coeffs'']"

definition DATA_SECTIONS :: "string list" where
  "DATA_SECTIONS = [''Masses'', ''Atoms'', ''Bonds'', ''Angles'', ''Dihedrals'', ''Impropers'', ''Velocities'']"

definition header_match :: "string list \<Rightarrow> string \<Rightarrow> string option" where
  "header_match hs s = List.find (\<lambda>h. s = h \<or> prefix (h @ '' '') s) hs"

definition flush_coeff :: "reader \<Rightarrow> reader" where
  "flush_coeff R =
     (case rd_coeff R of
        Some h \<Rightarrow> if rd_lines R \<noteq> [] then R\<lparr>rd_raw := dict_set h (join_with newline (rd_lines R)) (rd_raw R)\<rparr> else R
      | None \<Rightarrow> R)\<lparr>rd_coeff := None, rd_lines := []\<rparr>"

text \<open>A blank or comment line ends a section that has data.\<close>

definition has_data :: "reader \<Rightarrow> string \<Rightarrow> bool" where
  "has_data R s \<longleftrightarrow>
     (s = ''Atoms'' \<and> rd_atoms R \<noteq> []) \<or> (s = ''Bonds'' \<and> rd_bonds R \<noteq> []) \<or> (s = ''Angles'' \<and> rd_angles R \<noteq> []) \<or>
     (s = ''Dihedrals'' \<and> rd_dihedrals R \<noteq> []) \<or> (s = ''Impropers'' \<and> rd_impropers R \<noteq> []) \<or>
     (s = ''Masses'' \<and> rd_masses R \<noteq> [])"

definition blank_step :: "reader \<Rightarrow> reader" where
  "blank_step R =
     (let R = (case rd_section R of Some s \<Rightarrow> if has_data R s then R\<lparr>rd_section := None\<rparr> else R | None \<Rightarrow> R)
      in if rd_coeff R \<noteq> None \<and> rd_lines R \<noteq> [] then flush_coeff R else R)"

text \<open>The count in front of a header line.\<close>

definition count_of :: "string \<Rightarrow> int \<Rightarrow> int" where
  "count_of s old =
     (let p = hd (py_split s) in if py_isdigit p then (case py_int_of p of Some n \<Rightarrow> n | None \<Rightarrow> old) else old)"

definition box_step :: "nat \<Rightarrow> string \<Rightarrow> reader \<Rightarrow> (data_file_error, reader) result" where
  "box_step i s R =
     (case (py_float_of (py_split s ! 0), py_float_of (py_split s ! 1)) of
        (Some lo, Some hi) \<Rightarrow> Inr (R\<lparr>rd_box := (rd_box R)[i := lo, i + 1 := hi]\<rparr>)
      | _ \<Rightarrow> Inl BadNumber)"

fun all_some :: "'a option list \<Rightarrow> 'a list option" where
  "all_some [] = Some []"
| "all_some (x # xs) =
     (case x of None \<Rightarrow> None | Some y \<Rightarrow> (case all_some xs of None \<Rightarrow> None | Some ys \<Rightarrow> Some (y # ys)))"

definition parse_mass :: "string list \<Rightarrow> (int \<times> pyfloat) option" where
  "parse_mass ps =
     (if length ps \<ge> 2 then
        (case (py_int_of (ps ! 0), py_float_of (ps ! 1)) of (Some i, Some m) \<Rightarrow> Some (i, m) | _ \<Rightarrow> None)
      else None)"

definition parse_atom :: "string list \<Rightarrow> data_atom option" where
  "parse_atom ps =
     (if length ps \<ge> 7 then
        (case (all_some (map py_int_of (take 3 ps)), all_some (map py_float_of (take 4 (drop 3 ps)))) of
           (Some is, Some fs) \<Rightarrow>
             Some \<lparr>da_id = is ! 0, da_mol = is ! 1, da_type = is ! 2, da_charge = fs ! 0, da_pos = (fs ! 1, fs ! 2, fs ! 3)\<rparr>
         | _ \<Rightarrow> None)
      else None)"

text \<open>A link with \<open>k\<close> atoms.\<close>

definition parse_link :: "nat \<Rightarrow> string list \<Rightarrow> link option" where
  "parse_link k ps =
     (if length ps \<ge> k + 2 then
        (case all_some (map py_int_of (take (k + 2) ps)) of
           Some is \<Rightarrow> Some \<lparr>lk_id = is ! 0, lk_type = is ! 1, lk_atoms = drop 2 is\<rparr>
         | None \<Rightarrow> None)
      else None)"

definition append_some :: "'a option \<Rightarrow> 'a list \<Rightarrow> 'a list" where
  "append_some x xs = (case x of None \<Rightarrow> xs | Some y \<Rightarrow> xs @ [y])"

definition section_step :: "string \<Rightarrow> string \<Rightarrow> reader \<Rightarrow> reader" where
  "section_step sec s R =
     (let ps = py_split s
      in if sec = ''Masses'' then
           (case parse_mass ps of Some (i, m) \<Rightarrow> R\<lparr>rd_masses := dict_set i m (rd_masses R)\<rparr> | None \<Rightarrow> R)
         else if sec = ''Atoms'' then R\<lparr>rd_atoms := append_some (parse_atom ps) (rd_atoms R)\<rparr>
         else if sec = ''Bonds'' then R\<lparr>rd_bonds := append_some (parse_link 2 ps) (rd_bonds R)\<rparr>
         else if sec = ''Angles'' then R\<lparr>rd_angles := append_some (parse_link 3 ps) (rd_angles R)\<rparr>
         else if sec = ''Dihedrals'' then R\<lparr>rd_dihedrals := append_some (parse_link 4 ps) (rd_dihedrals R)\<rparr>
         else if sec = ''Impropers'' then R\<lparr>rd_impropers := append_some (parse_link 4 ps) (rd_impropers R)\<rparr>
         else R)"

definition payload_step :: "string \<Rightarrow> reader \<Rightarrow> reader" where
  "payload_step s R =
     (if rd_coeff R \<noteq> None then R\<lparr>rd_lines := rd_lines R @ [s]\<rparr>
      else case rd_section R of None \<Rightarrow> R | Some sec \<Rightarrow> section_step sec s R)"

definition header_step :: "string \<Rightarrow> reader \<Rightarrow> reader" where
  "header_step s R =
     (case header_match COEFF_SECTIONS s of
        Some h \<Rightarrow> (flush_coeff R)\<lparr>rd_section := None, rd_coeff := Some h, rd_lines := []\<rparr>
      | None \<Rightarrow>
          (case header_match DATA_SECTIONS s of
             Some h \<Rightarrow> (flush_coeff R)\<lparr>rd_section := Some h\<rparr>
           | None \<Rightarrow> payload_step s R))"

definition read_line :: "string \<Rightarrow> reader \<Rightarrow> (data_file_error, reader) result" where
  "read_line line R =
     (let s = str_strip line
      in if s = [] \<or> prefix ''#'' s then Inr (blank_step R)
         else if str_contains ''atoms'' s \<and> \<not> str_contains ''atom'' (str_lower (hd (py_split s))) then Inr R
         else if str_contains ''atom types'' s then Inr (R\<lparr>rd_atom_types := count_of s (rd_atom_types R)\<rparr>)
         else if str_contains ''bond types'' s then Inr (R\<lparr>rd_bond_types := count_of s (rd_bond_types R)\<rparr>)
         else if str_contains ''angle types'' s then Inr (R\<lparr>rd_angle_types := count_of s (rd_angle_types R)\<rparr>)
         else if str_contains ''dihedral types'' s then Inr (R\<lparr>rd_dihedral_types := count_of s (rd_dihedral_types R)\<rparr>)
         else if str_contains ''improper types'' s then Inr (R\<lparr>rd_improper_types := count_of s (rd_improper_types R)\<rparr>)
         else if str_contains ''xlo xhi'' s then box_step 0 s R
         else if str_contains ''ylo yhi'' s then box_step 2 s R
         else if str_contains ''zlo zhi'' s then box_step 4 s R
         else Inr (header_step s R))"

text \<open>\<open>xs or None\<close>\<close>

definition some_or_none :: "'a list \<Rightarrow> 'a list option" where
  "some_or_none xs = (if xs = [] then None else Some xs)"

record data_file_info =
  di_atoms :: "data_atom list"
  di_bonds :: "link list"
  di_box :: "pyfloat list"
  di_n_atoms :: nat
  di_n_bonds :: nat
  di_n_atom_types :: int
  di_masses :: "(int, pyfloat) pydict"
  di_angles :: "link list option"
  di_dihedrals :: "link list option"
  di_impropers :: "link list option"
  di_n_bond_types :: int
  di_n_angle_types :: int
  di_n_dihedral_types :: int
  di_n_improper_types :: int
  di_raw_coeffs :: "(string, string) pydict option"

definition info_of_reader :: "reader \<Rightarrow> data_file_info" where
  "info_of_reader R =
     \<lparr>di_atoms = rd_atoms R, di_bonds = rd_bonds R, di_box = rd_box R, di_n_atoms = length (rd_atoms R),
      di_n_bonds = length (rd_bonds R), di_n_atom_types = rd_atom_types R, di_masses = rd_masses R,
      di_angles = some_or_none (rd_angles R), di_dihedrals = some_or_none (rd_dihedrals R),
      di_impropers = some_or_none (rd_impropers R), di_n_bond_types = rd_bond_types R,
      di_n_angle_types = rd_angle_types R, di_n_dihedral_types = rd_dihedral_types R,
      di_n_improper_types = rd_improper_types R, di_raw_coeffs = some_or_none (rd_raw R)\<rparr>"

definition parse_content :: "string \<Rightarrow> (data_file_error, data_file_info) result" where
  "parse_content content =
     bind_result (fold_result read_line (split_on newline content) new_reader) (\<lambda>R.
       let R = flush_coeff R
       in if rd_atoms R = [] then Inl NoAtomsFound else Inr (info_of_reader R))"

text \<open>The conversions of the parsed file.\<close>

definition info_to_xyz :: "data_file_info \<Rightarrow> (string, string) pydict \<Rightarrow> string \<Rightarrow> string \<times> (pyfloat \<times> pyfloat \<times> pyfloat)" where
  "info_to_xyz I type_map comment =
     (let box = di_box I
      in (join_with newline ([show_nat (di_n_atoms I), comment] @
           map (\<lambda>a. let (x, y, z) = da_pos a
                in sp [dict_get type_map (show_int (da_type a)) ''X'', show_fixed 6 x, show_fixed 6 y, show_fixed 6 z])
             (di_atoms I)),
          (box ! 1 - box ! 0, box ! 3 - box ! 2, box ! 5 - box ! 4)))"

definition ATOMIC_WEIGHTS :: "(string, pyfloat) pydict" where
  "ATOMIC_WEIGHTS =
     [(''H'', 1008/1000), (''B'', 10811/1000), (''C'', 12011/1000), (''N'', 14007/1000), (''O'', 159994/10000),
      (''F'', 18998/1000), (''Na'', 229898/10000), (''Mg'', 24305/1000), (''Al'', 26982/1000), (''Si'', 280855/10000),
      (''P'', 30974/1000), (''S'', 32065/1000), (''Cl'', 35450/1000), (''K'', 39098/1000), (''Ca'', 40078/1000),
      (''Ti'', 47867/1000), (''Fe'', 55845/1000), (''Ni'', 586934/10000), (''Cu'', 63546/1000), (''Zn'', 6538/100),
      (''Br'', 79904/1000), (''I'', 126904/1000)]"

text \<open>The element nearest in mass: the first one at the least distance, if that is below 0.5.\<close>

definition nearest_element :: "pyfloat \<Rightarrow> string" where
  "nearest_element mass =
     (let best = min_by (\<lambda>e. \<bar>mass - snd e\<bar>) (hd ATOMIC_WEIGHTS) (tl ATOMIC_WEIGHTS)
      in if \<bar>mass - snd best\<bar> < 1/2 then fst best else ''X'')"

definition estimate_elements_from_info :: "data_file_info \<Rightarrow> (string, string) pydict" where
  "estimate_elements_from_info I =
     foldl (\<lambda>d (type_id, mass). dict_set (show_int type_id) (nearest_element mass) d) [] (di_masses I)"

end
