(* ===== verification/TopologyProps.thy ===== *)
theory TopologyProps
  imports ForceTopology
begin

text \<open>
  Properties of the topology builder: the system it returns is well formed, contains exactly
  the copies of its molecules, is as neutral as its molecules are, and takes bonded
  parameters from the tables wherever the lookup is strict.
\<close>

section \<open>Well-formed systems\<close>

definition numbered :: "int list \<Rightarrow> bool" where
  "numbered ids \<longleftrightarrow> ids = map int [1..<Suc (length ids)]"

text \<open>The ids exist and all belong to one molecule.\<close>

definition in_one_molecule :: "top_atom list \<Rightarrow> int list \<Rightarrow> bool" where
  "in_one_molecule atoms ids \<longleftrightarrow>
     list_all (\<lambda>i. 1 \<le> i \<and> i \<le> int (length atoms)) ids \<and>
     (\<forall>i\<in>set ids. \<forall>j\<in>set ids. ta_mol (atoms ! nat (i - 1)) = ta_mol (atoms ! nat (j - 1)))"

definition links_ok :: "top_atom list \<Rightarrow> 'p term_type list \<Rightarrow> link list \<Rightarrow> bool" where
  "links_ok atoms types links \<longleftrightarrow>
     numbered (map tt_id types) \<and> numbered (map lk_id links) \<and>
     list_all (\<lambda>l. 1 \<le> lk_type l \<and> lk_type l \<le> int (length types) \<and> in_one_molecule atoms (lk_atoms l)) links"

definition system_ok :: "system_topology \<Rightarrow> bool" where
  "system_ok sy \<longleftrightarrow>
     numbered (map at_id (sy_atom_types sy)) \<and> numbered (map ta_id (sy_atoms sy)) \<and>
     list_all (\<lambda>a. 1 \<le> ta_type a \<and> ta_type a \<le> int (length (sy_atom_types sy))) (sy_atoms sy) \<and>
     links_ok (sy_atoms sy) (sy_bond_types sy) (sy_bonds sy) \<and>
     links_ok (sy_atoms sy) (sy_angle_types sy) (sy_angles sy) \<and>
     links_ok (sy_atoms sy) (sy_dihedral_types sy) (sy_dihedrals sy) \<and>
     links_ok (sy_atoms sy) (sy_improper_types sy) (sy_impropers sy)"

lemma numbered_snoc [simp]: "numbered (xs @ [x]) \<longleftrightarrow> numbered xs \<and> x = int (length xs) + 1"
  by (auto simp: numbered_def)

lemma numbered_Nil [simp]: "numbered []"
  by (simp add: numbered_def)

lemma dict_set_new: "map_of d k = None \<Longrightarrow> dict_set k v d = d @ [(k, v)]"
  by (induction d) auto

lemma dict_has_iff: "dict_has d k \<longleftrightarrow> (\<exists>v. map_of d k = Some v)"
  by (auto simp: dict_has_def)

section \<open>Kinds of links\<close>

text \<open>The numbers a type map hands out.\<close>

definition map_ok :: "('k, int) pydict \<Rightarrow> 'a list \<Rightarrow> bool" where
  "map_ok d types \<longleftrightarrow> map snd d = map int [1..<Suc (length types)]"

definition kind_ok :: "top_atom list \<Rightarrow> 'p kind \<Rightarrow> bool" where
  "kind_ok atoms K \<longleftrightarrow>
     links_ok atoms (kd_types K) (kd_links K) \<and> map_ok (kd_map K) (kd_types K) \<and>
     kd_next K = int (length (kd_links K)) + 1"

lemma kind_ok_map: "kind_ok atoms K \<Longrightarrow> map_ok (kd_map K) (kd_types K)"
  by (simp add: kind_ok_def)

lemma map_ok_length: "map_ok d types \<Longrightarrow> length d = length types"
  unfolding map_ok_def by (metis length_map length_upt diff_Suc_1)

lemma map_ok_range: "map_ok d types \<Longrightarrow> map_of d k = Some v \<Longrightarrow> 1 \<le> v \<and> v \<le> int (length types)"
proof -
  assume d: "map_ok d types" "map_of d k = Some v"
  then have "v \<in> set (map snd d)" by (force dest: map_of_SomeD)
  with d(1) show ?thesis by (auto simp: map_ok_def)
qed

lemma map_ok_add:
  "map_ok d types \<Longrightarrow> map_of d k = None \<Longrightarrow> map_ok (dict_set k (int (length d) + 1) d) (types @ [t])"
  using map_ok_length [of d types] by (simp add: map_ok_def dict_set_new)

lemma type_of_key_ok:
  assumes "type_of_key params key K = Inr K'" "kind_ok atoms K"
  shows "kind_ok atoms K' \<and> kd_links K' = kd_links K \<and> kd_next K' = kd_next K \<and> dict_has (kd_map K') key"
proof (cases "dict_has (kd_map K) key")
  case True
  with assms show ?thesis by (simp add: type_of_key_def)
next
  case False
  then obtain p label where K': "K' = K\<lparr>kd_map := dict_set key (int (length (kd_map K)) + 1) (kd_map K),
      kd_types := kd_types K @ [\<lparr>tt_id = int (length (kd_map K)) + 1, tt_params = p, tt_comment = label\<rparr>]\<rparr>"
    using assms(1) by (auto simp: type_of_key_def Let_def bind_result_Inr)
  have len: "length (kd_map K) = length (kd_types K)" using assms(2) map_ok_length by (auto simp: kind_ok_def)
  have new: "map_of (kd_map K) key = None" using False by (simp add: dict_has_def)
  have m: "map_ok (kd_map K') (kd_types K')"
    using map_ok_add [OF kind_ok_map [OF assms(2)] new] by (simp add: K')
  have "links_ok atoms (kd_types K') (kd_links K')"
    using assms(2) by (auto simp: K' kind_ok_def links_ok_def len list_all_iff)
  with m assms(2) show ?thesis by (simp add: K' kind_ok_def dict_has_def update_conv')
qed

lemma add_link_ok:
  assumes "add_link params key ids K = Inr K'" "kind_ok atoms K" "in_one_molecule atoms ids"
  shows "kind_ok atoms K'"
proof -
  obtain K1 where K1: "type_of_key params key K = Inr K1"
    and K': "K' = K1\<lparr>kd_links := kd_links K1 @ [\<lparr>lk_id = kd_next K1, lk_type = dict_get (kd_map K1) key 0, lk_atoms = ids\<rparr>],
              kd_next := kd_next K1 + 1\<rparr>"
    using assms(1) by (auto simp: add_link_def bind_result_Inr)
  have ok: "kind_ok atoms K1" "dict_has (kd_map K1) key" using type_of_key_ok [OF K1 assms(2)] by auto
  then obtain v where v: "map_of (kd_map K1) key = Some v" by (auto simp: dict_has_iff)
  have "1 \<le> v \<and> v \<le> int (length (kd_types K1))" by (rule map_ok_range [OF kind_ok_map [OF ok(1)] v])
  with ok(1) assms(3) show ?thesis by (simp add: K' kind_ok_def links_ok_def dict_get_def v)
qed

lemma add_link_atoms:
  "add_link params key ids K = Inr K' \<Longrightarrow> map lk_atoms (kd_links K') = map lk_atoms (kd_links K) @ [ids]"
  by (auto simp: add_link_def type_of_key_def bind_result_Inr Let_def split: if_splits)

lemma in_one_molecule_more: "in_one_molecule atoms ids \<Longrightarrow> in_one_molecule (atoms @ extra) ids"
proof -
  assume a: "in_one_molecule atoms ids"
  then have same: "(atoms @ extra) ! nat (i - 1) = atoms ! nat (i - 1)" if "i \<in> set ids" for i
    using that by (auto simp: in_one_molecule_def list_all_iff nth_append)
  have "ta_mol ((atoms @ extra) ! nat (i - 1)) = ta_mol ((atoms @ extra) ! nat (j - 1))"
    if ij: "i \<in> set ids" "j \<in> set ids" for i j
  proof -
    have "ta_mol (atoms ! nat (i - 1)) = ta_mol (atoms ! nat (j - 1))"
      using a ij unfolding in_one_molecule_def by blast
    then show ?thesis by (simp only: same ij)
  qed
  moreover have "list_all (\<lambda>i. 1 \<le> i \<and> i \<le> int (length (atoms @ extra))) ids"
    using a by (auto simp: in_one_molecule_def list_all_iff simp del: One_nat_def)
  ultimately show ?thesis unfolding in_one_molecule_def by blast
qed

lemma kind_ok_more: "kind_ok atoms K \<Longrightarrow> kind_ok (atoms @ extra) K"
  by (auto simp: kind_ok_def links_ok_def list_all_iff in_one_molecule_more)

section \<open>The build invariant\<close>

definition build_ok :: "build \<Rightarrow> bool" where
  "build_ok S \<longleftrightarrow>
     numbered (map at_id (bd_atom_types S)) \<and> map_ok (bd_atom_map S) (bd_atom_types S) \<and>
     numbered (map ta_id (bd_atoms S)) \<and> bd_next_atom S = int (length (bd_atoms S)) + 1 \<and>
     list_all (\<lambda>a. 1 \<le> ta_type a \<and> ta_type a \<le> int (length (bd_atom_types S))) (bd_atoms S) \<and>
     kind_ok (bd_atoms S) (bd_bonds S) \<and> kind_ok (bd_atoms S) (bd_angles S) \<and>
     kind_ok (bd_atoms S) (bd_dihedrals S) \<and> kind_ok (bd_atoms S) (bd_impropers S)"

lemma build_ok_system: "build_ok S \<Longrightarrow> system_ok (system_of title box S)"
  by (auto simp: build_ok_def system_ok_def system_of_def kind_ok_def)

lemma new_build_ok: "build_ok new_build"
  by (simp add: build_ok_def new_build_def new_kind_def kind_ok_def links_ok_def map_ok_def)

lemma atom_type_for_ok:
  assumes "atom_type_for B element ff e S = Inr S'" "build_ok S"
  shows "build_ok S' \<and> bd_atoms S' = bd_atoms S \<and> dict_has (bd_atom_map S') ff"
proof (cases "dict_has (bd_atom_map S) ff")
  case True
  with assms show ?thesis by (simp add: atom_type_for_def)
next
  case False
  then obtain m x y where S': "S' = S\<lparr>bd_atom_map := dict_set ff (int (length (bd_atom_map S)) + 1) (bd_atom_map S),
      bd_atom_types := bd_atom_types S @ [\<lparr>at_id = int (length (bd_atom_map S)) + 1, at_mass = m, at_element = element,
        at_comment = fb_name B @ '' '' @ ff, at_epsilon = x, at_sigma = y\<rparr>]\<rparr>"
    using assms(1) by (auto simp: atom_type_for_def Let_def bind_result_Inr)
  have new: "map_of (bd_atom_map S) ff = None" using False by (simp add: dict_has_def)
  have mo: "map_ok (bd_atom_map S) (bd_atom_types S)" using assms(2) by (simp add: build_ok_def)
  have "map_ok (bd_atom_map S') (bd_atom_types S')" using map_ok_add [OF mo new] by (simp add: S')
  moreover have "dict_has (bd_atom_map S') ff" by (simp add: S' dict_has_def update_conv')
  ultimately show ?thesis
    using assms(2) map_ok_length [OF mo] by (auto simp: S' build_ok_def list_all_iff)
qed

lemma add_atom_ok:
  assumes "add_atom B coords name mat a S = Inr S'" "build_ok S"
  shows "build_ok S'"
proof -
  obtain element ff e S1 where S1: "atom_type_for B element ff e S = Inr S1"
    and S': "S' = push_atom coords name element ff a S1"
    using assms(1) by (auto simp: add_atom_def bind_result_Inr split: if_splits)
  note ok = atom_type_for_ok [OF S1 assms(2)]
  then obtain v where v: "map_of (bd_atom_map S1) ff = Some v" by (auto simp: dict_has_iff)
  have "1 \<le> v \<and> v \<le> int (length (bd_atom_types S1))" by (rule map_ok_range [OF _ v]) (use ok in \<open>simp add: build_ok_def\<close>)
  with S' ok v show ?thesis by (auto simp: push_atom_def Let_def build_ok_def dict_get_def intro: kind_ok_more)
qed

lemma add_atom_atoms:
  "add_atom B coords name mat a S = Inr S' \<Longrightarrow>
    \<exists>x. bd_atoms S' = bd_atoms S @ [x] \<and> ta_mol x = bd_next_mol S \<and> ta_charge x = ma_charge a \<and>
      bd_next_mol S' = bd_next_mol S \<and> bd_next_atom S' = bd_next_atom S + 1 \<and> bd_bonds S' = bd_bonds S \<and>
      bd_angles S' = bd_angles S \<and> bd_dihedrals S' = bd_dihedrals S \<and> bd_impropers S' = bd_impropers S \<and>
      bd_strict S' = bd_strict S"
  by (auto simp: add_atom_def push_atom_def atom_type_for_def Let_def bind_result_Inr split: if_splits)

lemma add_atoms_atoms:
  "fold_result (add_atom B coords name mat) as S = Inr S' \<Longrightarrow>
    \<exists>xs. bd_atoms S' = bd_atoms S @ xs \<and> map ta_mol xs = replicate (length as) (bd_next_mol S) \<and>
      map ta_charge xs = map ma_charge as \<and>
      bd_next_mol S' = bd_next_mol S \<and> bd_next_atom S' = bd_next_atom S + int (length as) \<and> bd_bonds S' = bd_bonds S \<and>
      bd_angles S' = bd_angles S \<and> bd_dihedrals S' = bd_dihedrals S \<and> bd_impropers S' = bd_impropers S \<and>
      bd_strict S' = bd_strict S"
proof (induction as arbitrary: S)
  case (Cons a as)
  then obtain S1 where S1: "add_atom B coords name mat a S = Inr S1" "fold_result (add_atom B coords name mat) as S1 = Inr S'"
    by (auto split: sum.splits)
  from Cons.IH [OF S1(2)] add_atom_atoms [OF S1(1)] show ?case by auto
qed simp

section \<open>Links of one copy\<close>

text \<open>A field of the build that holds one kind of links: a lens.\<close>

locale link_field =
  fixes get :: "build \<Rightarrow> 'p kind" and upd :: "'p kind \<Rightarrow> build \<Rightarrow> build"
  assumes get_upd: "get (upd K S) = K"
    and upd_upd: "upd K (upd L S) = upd K S"
    and upd_get: "upd (get S) S = S"
begin

lemma fold_links:
  assumes step: "\<And>x S S'. f x S = Inr S' \<Longrightarrow>
      \<exists>K. S' = upd K S \<and> map lk_atoms (kd_links K) = map lk_atoms (kd_links (get S)) @ [g x]"
    and run: "fold_result f xs S = Inr S'"
  shows "\<exists>K. S' = upd K S \<and> map lk_atoms (kd_links K) = map lk_atoms (kd_links (get S)) @ map g xs"
  using run
proof (induction xs arbitrary: S)
  case Nil
  then show ?case using upd_get by (intro exI [of _ "get S"]) simp
next
  case (Cons x xs)
  then obtain S1 where S1: "f x S = Inr S1" "fold_result f xs S1 = Inr S'" by (auto split: sum.splits)
  from step [OF S1(1)] Cons.IH [OF S1(2)] show ?case by (auto simp: get_upd upd_upd)
qed

end

interpretation bond_field: link_field bd_bonds "\<lambda>K S. S\<lparr>bd_bonds := K\<rparr>"
  by unfold_locales auto

interpretation angle_field: link_field bd_angles "\<lambda>K S. S\<lparr>bd_angles := K\<rparr>"
  by unfold_locales auto

interpretation dihedral_field: link_field bd_dihedrals "\<lambda>K S. S\<lparr>bd_dihedrals := K\<rparr>"
  by unfold_locales auto

interpretation improper_field: link_field bd_impropers "\<lambda>K S. S\<lparr>bd_impropers := K\<rparr>"
  by unfold_locales auto

definition bond_ids :: "mol_bond \<Rightarrow> int list" where
  "bond_ids b = [mb_atom1 b, mb_atom2 b]"

definition triple_ids :: "int \<times> int \<times> int \<Rightarrow> int list" where
  "triple_ids t = (let (a, b, c) = t in [a, b, c])"

definition quad_ids :: "int \<times> int \<times> int \<times> int \<Rightarrow> int list" where
  "quad_ids t = (let (a, b, c, d) = t in [a, b, c, d])"

definition shifted :: "int \<Rightarrow> int list \<Rightarrow> int list" where
  "shifted o1 is = map (\<lambda>i. i + o1) is"

definition the_impropers :: "mol_topology \<Rightarrow> (int \<times> int \<times> int \<times> int) list" where
  "the_impropers t = (case mt_impropers t of None \<Rightarrow> [] | Some l \<Rightarrow> l)"

lemma map_result_in: "map_result f xs = Inr ys \<Longrightarrow> x \<in> set xs \<Longrightarrow> \<exists>y. f x = Inr y"
  by (induction xs arbitrary: ys) (auto split: sum.splits)

lemma local_names_in: "local_names mat is = Inr r \<Longrightarrow> i \<in> set is \<Longrightarrow> map_of mat i \<noteq> None"
  by (fastforce simp: local_names_def bind_result_Inr local_type_def dest!: map_result_in split: option.splits)

text \<open>What adding a link amounts to.\<close>

definition linked :: "local_types \<Rightarrow> int list \<Rightarrow> int \<Rightarrow> 'p kind \<Rightarrow> 'p kind \<Rightarrow> bool" where
  "linked mat is o1 K K' \<longleftrightarrow>
     (\<exists>params key. add_link params key (shifted o1 is) K = Inr K') \<and> (\<forall>i\<in>set is. map_of mat i \<noteq> None)"

lemma linked_atoms: "linked mat is o1 K K' \<Longrightarrow> map lk_atoms (kd_links K') = map lk_atoms (kd_links K) @ [shifted o1 is]"
  by (auto simp: linked_def dest: add_link_atoms)

lemma add_bond_linked:
  assumes "add_bond B mat o1 b S = Inr S'"
  shows "\<exists>K. S' = S\<lparr>bd_bonds := K\<rparr> \<and> linked mat (bond_ids b) o1 (bd_bonds S) K"
proof -
  obtain ns where "local_names mat (bond_ids b) = Inr ns"
    using assms by (auto simp: add_bond_def bind_result_Inr bond_ids_def)
  then have "\<forall>i\<in>set (bond_ids b). map_of mat i \<noteq> None" using local_names_in by blast
  with assms show ?thesis by (auto simp: add_bond_def bind_result_Inr linked_def shifted_def bond_ids_def split: prod.splits)
qed

lemma add_angle_linked:
  assumes "add_angle B mat o1 t S = Inr S'"
  shows "\<exists>K. S' = S\<lparr>bd_angles := K\<rparr> \<and> linked mat (triple_ids t) o1 (bd_angles S) K"
proof -
  obtain a b c where t: "t = (a, b, c)" by (cases t)
  obtain ns where "local_names mat (triple_ids t) = Inr ns"
    using assms by (auto simp: add_angle_def bind_result_Inr triple_ids_def t)
  then have "\<forall>i\<in>set (triple_ids t). map_of mat i \<noteq> None" using local_names_in by blast
  with assms show ?thesis by (auto simp: add_angle_def bind_result_Inr linked_def shifted_def triple_ids_def t split: prod.splits)
qed

lemma add_dihedral_linked:
  assumes "add_dihedral B mat o1 t S = Inr S'"
  shows "\<exists>K. S' = S\<lparr>bd_dihedrals := K\<rparr> \<and> linked mat (quad_ids t) o1 (bd_dihedrals S) K"
proof -
  obtain a b c d where t: "t = (a, b, c, d)" by (cases t)
  obtain ns where "local_names mat (quad_ids t) = Inr ns"
    using assms by (auto simp: add_dihedral_def bind_result_Inr quad_ids_def t)
  then have "\<forall>i\<in>set (quad_ids t). map_of mat i \<noteq> None" using local_names_in by blast
  with assms show ?thesis by (auto simp: add_dihedral_def bind_result_Inr linked_def shifted_def quad_ids_def t split: prod.splits)
qed

lemma add_improper_linked:
  assumes "add_improper B mat o1 t S = Inr S'"
  shows "\<exists>K. S' = S\<lparr>bd_impropers := K\<rparr> \<and> linked mat (quad_ids t) o1 (bd_impropers S) K"
proof -
  obtain a b c d where t: "t = (a, b, c, d)" by (cases t)
  obtain ns where "local_names mat (quad_ids t) = Inr ns"
    using assms by (auto simp: add_improper_def bind_result_Inr quad_ids_def t)
  then have "\<forall>i\<in>set (quad_ids t). map_of mat i \<noteq> None" using local_names_in by blast
  with assms show ?thesis by (auto simp: add_improper_def bind_result_Inr linked_def shifted_def quad_ids_def t split: prod.splits)
qed

lemma fold_bonds:
  "fold_result (add_bond B mat o1) bs S = Inr S' \<Longrightarrow>
    \<exists>K. S' = S\<lparr>bd_bonds := K\<rparr> \<and>
      map lk_atoms (kd_links K) = map lk_atoms (kd_links (bd_bonds S)) @ map (\<lambda>b. shifted o1 (bond_ids b)) bs"
  by (erule bond_field.fold_links [rotated]) (auto dest!: add_bond_linked linked_atoms)

lemma fold_angles:
  "fold_result (add_angle B mat o1) ts S = Inr S' \<Longrightarrow>
    \<exists>K. S' = S\<lparr>bd_angles := K\<rparr> \<and>
      map lk_atoms (kd_links K) = map lk_atoms (kd_links (bd_angles S)) @ map (\<lambda>t. shifted o1 (triple_ids t)) ts"
  by (erule angle_field.fold_links [rotated]) (auto dest!: add_angle_linked linked_atoms)

lemma fold_dihedrals:
  "fold_result (add_dihedral B mat o1) ts S = Inr S' \<Longrightarrow>
    \<exists>K. S' = S\<lparr>bd_dihedrals := K\<rparr> \<and>
      map lk_atoms (kd_links K) = map lk_atoms (kd_links (bd_dihedrals S)) @ map (\<lambda>t. shifted o1 (quad_ids t)) ts"
  by (erule dihedral_field.fold_links [rotated]) (auto dest!: add_dihedral_linked linked_atoms)

lemma fold_impropers:
  "fold_result (add_improper B mat o1) ts S = Inr S' \<Longrightarrow>
    \<exists>K. S' = S\<lparr>bd_impropers := K\<rparr> \<and>
      map lk_atoms (kd_links K) = map lk_atoms (kd_links (bd_impropers S)) @ map (\<lambda>t. shifted o1 (quad_ids t)) ts"
  by (erule improper_field.fold_links [rotated]) (auto dest!: add_improper_linked linked_atoms)

section \<open>What the system contains\<close>

text \<open>The molecules in the order of their copies, and the links of all copies when the atoms of
  each copy are numbered after those of the copies before it.\<close>

definition copies :: "(mol_topology \<times> int \<times> bool) list \<Rightarrow> mol_topology list" where
  "copies mols = concat (map (\<lambda>(t, count, _). replicate (nat count) t) mols)"

fun placed :: "(mol_topology \<Rightarrow> int list list) \<Rightarrow> int \<Rightarrow> mol_topology list \<Rightarrow> int list list" where
  "placed f o1 [] = []"
| "placed f o1 (t # ts) = map (shifted o1) (f t) @ placed f (o1 + int (n_atoms t)) ts"

fun mol_numbers :: "int \<Rightarrow> mol_topology list \<Rightarrow> int list" where
  "mol_numbers m [] = []"
| "mol_numbers m (t # ts) = replicate (n_atoms t) m @ mol_numbers (m + 1) ts"

definition bond_lists :: "mol_topology \<Rightarrow> int list list" where
  "bond_lists t = map bond_ids (mt_bonds t)"

definition angle_lists :: "mol_topology \<Rightarrow> int list list" where
  "angle_lists t = map triple_ids (get_angles t)"

definition dihedral_lists :: "mol_topology \<Rightarrow> int list list" where
  "dihedral_lists t = map quad_ids (get_dihedrals t)"

definition improper_lists :: "mol_topology \<Rightarrow> int list list" where
  "improper_lists t = map quad_ids (the_impropers t)"

text \<open>\<open>grown S S' ts\<close>: \<open>S'\<close> has the copies \<open>ts\<close> beyond \<open>S\<close>.\<close>

definition grown :: "mol_topology list \<Rightarrow> build \<Rightarrow> build \<Rightarrow> bool" where
  "grown ts S S' \<longleftrightarrow>
     bd_next_atom S' = bd_next_atom S + int (sum_list (map n_atoms ts)) \<and>
     bd_next_mol S' = bd_next_mol S + int (length ts) \<and>
     map ta_charge (bd_atoms S') = map ta_charge (bd_atoms S) @ concat (map (\<lambda>t. map ma_charge (mt_atoms t)) ts) \<and>
     map ta_mol (bd_atoms S') = map ta_mol (bd_atoms S) @ mol_numbers (bd_next_mol S) ts \<and>
     map lk_atoms (kd_links (bd_bonds S')) = map lk_atoms (kd_links (bd_bonds S)) @ placed bond_lists (bd_next_atom S - 1) ts \<and>
     map lk_atoms (kd_links (bd_angles S')) = map lk_atoms (kd_links (bd_angles S)) @ placed angle_lists (bd_next_atom S - 1) ts \<and>
     map lk_atoms (kd_links (bd_dihedrals S')) = map lk_atoms (kd_links (bd_dihedrals S)) @ placed dihedral_lists (bd_next_atom S - 1) ts \<and>
     map lk_atoms (kd_links (bd_impropers S')) = map lk_atoms (kd_links (bd_impropers S)) @ placed improper_lists (bd_next_atom S - 1) ts"

lemma placed_append: "placed f o1 (ts @ us) = placed f o1 ts @ placed f (o1 + int (sum_list (map n_atoms ts))) us"
  by (induction ts arbitrary: o1) (simp_all add: algebra_simps)

lemma mol_numbers_append: "mol_numbers m (ts @ us) = mol_numbers m ts @ mol_numbers (m + int (length ts)) us"
  by (induction ts arbitrary: m) (simp_all add: algebra_simps)

lemma grown_Nil: "grown [] S S"
  by (simp add: grown_def)

lemma grown_trans: "grown ts S T \<Longrightarrow> grown us T U \<Longrightarrow> grown (ts @ us) S U"
  by (simp add: grown_def placed_append mol_numbers_append algebra_simps)

lemma add_copy_steps:
  assumes "add_copy B coords t mat S = Inr S'"
  obtains S1 S2 S3 S4 S5 where
    "fold_result (add_atom B coords (mt_mol_id t) mat) (mt_atoms t) S = Inr S1"
    "fold_result (add_bond B mat (bd_next_atom S - 1)) (mt_bonds t) S1 = Inr S2"
    "fold_result (add_angle B mat (bd_next_atom S - 1)) (get_angles t) S2 = Inr S3"
    "fold_result (add_dihedral B mat (bd_next_atom S - 1)) (get_dihedrals t) S3 = Inr S4"
    "fold_result (add_improper B mat (bd_next_atom S - 1)) (the_impropers t) S4 = Inr S5"
    "S' = S5\<lparr>bd_next_mol := bd_next_mol S5 + 1\<rparr>"
  using assms unfolding add_copy_def Let_def bind_result_Inr the_impropers_def [symmetric] by blast

lemma add_copy_grown:
  assumes "add_copy B coords t mat S = Inr S'"
  shows "grown [t] S S' \<and> bd_strict S' = bd_strict S"
proof -
  let ?o = "bd_next_atom S - 1"
  obtain S1 S2 S3 S4 S5 where f:
    "fold_result (add_atom B coords (mt_mol_id t) mat) (mt_atoms t) S = Inr S1"
    "fold_result (add_bond B mat ?o) (mt_bonds t) S1 = Inr S2"
    "fold_result (add_angle B mat ?o) (get_angles t) S2 = Inr S3"
    "fold_result (add_dihedral B mat ?o) (get_dihedrals t) S3 = Inr S4"
    "fold_result (add_improper B mat ?o) (the_impropers t) S4 = Inr S5"
    "S' = S5\<lparr>bd_next_mol := bd_next_mol S5 + 1\<rparr>"
    using assms by (rule add_copy_steps)
  obtain xs where xs: "bd_atoms S1 = bd_atoms S @ xs" "map ta_mol xs = replicate (n_atoms t) (bd_next_mol S)"
    "map ta_charge xs = map ma_charge (mt_atoms t)" "bd_next_mol S1 = bd_next_mol S"
    "bd_next_atom S1 = bd_next_atom S + int (n_atoms t)" "bd_bonds S1 = bd_bonds S" "bd_angles S1 = bd_angles S"
    "bd_dihedrals S1 = bd_dihedrals S" "bd_impropers S1 = bd_impropers S" "bd_strict S1 = bd_strict S"
    using add_atoms_atoms [OF f(1)] unfolding n_atoms_def [symmetric] by blast
  obtain Kb where b: "S2 = S1\<lparr>bd_bonds := Kb\<rparr>"
    "map lk_atoms (kd_links Kb) = map lk_atoms (kd_links (bd_bonds S1)) @ map (\<lambda>b. shifted ?o (bond_ids b)) (mt_bonds t)"
    using fold_bonds [OF f(2)] by blast
  obtain Ka where a: "S3 = S2\<lparr>bd_angles := Ka\<rparr>"
    "map lk_atoms (kd_links Ka) = map lk_atoms (kd_links (bd_angles S2)) @ map (\<lambda>b. shifted ?o (triple_ids b)) (get_angles t)"
    using fold_angles [OF f(3)] by blast
  obtain Kd where d: "S4 = S3\<lparr>bd_dihedrals := Kd\<rparr>"
    "map lk_atoms (kd_links Kd) = map lk_atoms (kd_links (bd_dihedrals S3)) @ map (\<lambda>b. shifted ?o (quad_ids b)) (get_dihedrals t)"
    using fold_dihedrals [OF f(4)] by blast
  obtain Ki where i: "S5 = S4\<lparr>bd_impropers := Ki\<rparr>"
    "map lk_atoms (kd_links Ki) = map lk_atoms (kd_links (bd_impropers S4)) @ map (\<lambda>b. shifted ?o (quad_ids b)) (the_impropers t)"
    using fold_impropers [OF f(5)] by blast
  show ?thesis
    by (simp add: grown_def f(6) b a d i xs bond_lists_def angle_lists_def dihedral_lists_def improper_lists_def)
qed

lemma fold_copies_grown:
  "fold_result (\<lambda>_. add_copy B coords t mat) is S = Inr S' \<Longrightarrow> grown (replicate (length is) t) S S'"
proof (induction "is" arbitrary: S)
  case (Cons i "is")
  then obtain S1 where S1: "add_copy B coords t mat S = Inr S1" "fold_result (\<lambda>_. add_copy B coords t mat) is S1 = Inr S'"
    by (auto split: sum.splits)
  from add_copy_grown [OF S1(1)] Cons.IH [OF S1(2)] have "grown ([t] @ replicate (length is) t) S S'"
    by (blast intro: grown_trans)
  then show ?case by simp
qed (simp add: grown_Nil)

lemma add_molecule_grown:
  assumes "add_molecule B coords m S = Inr S'"
  shows "grown (copies [m]) S S'"
proof -
  obtain t count st where m: "m = (t, count, st)" by (cases m)
  obtain mat strict where "fold_result (\<lambda>_. add_copy B coords t mat) [0..<nat count]
      (S\<lparr>bd_counts := dict_set (mt_mol_id t) count (bd_counts S), bd_strict := strict\<rparr>) = Inr S'"
    using assms by (auto simp: add_molecule_def m Let_def bind_result_Inr)
  from fold_copies_grown [OF this] show ?thesis by (simp add: m copies_def grown_def)
qed

lemma add_molecules_grown: "fold_result (add_molecule B coords) mols S = Inr S' \<Longrightarrow> grown (copies mols) S S'"
proof (induction mols arbitrary: S)
  case (Cons m mols)
  then obtain S1 where S1: "add_molecule B coords m S = Inr S1" "fold_result (add_molecule B coords) mols S1 = Inr S'"
    by (auto split: sum.splits)
  from add_molecule_grown [OF S1(1)] Cons.IH [OF S1(2)] have "grown (copies [m] @ copies mols) S S'"
    by (rule grown_trans)
  then show ?case by (simp add: copies_def)
qed (simp add: grown_Nil copies_def)

lemma created:
  assumes "create_from_mol_topology B mols coords box title = Inr sy"
  obtains S where "fold_result (add_molecule B coords) mols new_build = Inr S" "sy = system_of title box S"
  using assms by (auto simp: create_from_mol_topology_def bind_result_Inr)

section \<open>The invariant through a copy\<close>

lemma numbered_nth: "numbered (map f xs) \<Longrightarrow> set (map f xs) = {1..int (length xs)}"
proof -
  assume "numbered (map f xs)"
  then have "set (map f xs) = set (map int [1..<Suc (length xs)])" by (simp only: numbered_def length_map)
  also have "\<dots> = {1..int (length xs)}"
    by (simp only: set_map set_upt atLeastLessThanSuc_atLeastAtMost image_int_atLeastAtMost of_nat_1)
  finally show ?thesis .
qed

text \<open>Local atoms after their copy was appended: \<open>A\<close> are all atoms, \<open>n\<close> of them the new ones.\<close>

lemma copy_in_one_molecule:
  assumes "map ta_mol xs = replicate n m" "\<forall>i\<in>set is. 1 \<le> i \<and> i \<le> int n"
  shows "in_one_molecule (old @ xs) (shifted (int (length old)) is)"
proof -
  have n: "length xs = n" using assms(1) by (metis length_map length_replicate)
  have at: "ta_mol ((old @ xs) ! nat (i + int (length old) - 1)) = m" if "i \<in> set is" for i
  proof -
    have i: "1 \<le> i" "i \<le> int n" using assms(2) that by auto
    then have k: "nat (i + int (length old) - 1) = length old + nat (i - 1)" "nat (i - 1) < n" by linarith+
    then have "ta_mol ((old @ xs) ! nat (i + int (length old) - 1)) = map ta_mol xs ! nat (i - 1)" using n by simp
    with k assms(1) show ?thesis by simp
  qed
  have r: "list_all (\<lambda>i. 1 \<le> i \<and> i \<le> int (length (old @ xs))) (shifted (int (length old)) is)"
    using assms(2) n by (auto simp: shifted_def list_all_iff)
  have "ta_mol ((old @ xs) ! nat (k - 1)) = m" if "k \<in> set (shifted (int (length old)) is)" for k
    using that at by (auto simp: shifted_def)
  then have "\<forall>i\<in>set (shifted (int (length old)) is). \<forall>j\<in>set (shifted (int (length old)) is).
      ta_mol ((old @ xs) ! nat (i - 1)) = ta_mol ((old @ xs) ! nat (j - 1))" by metis
  with r show ?thesis unfolding in_one_molecule_def by blast
qed

definition local_ok :: "local_types \<Rightarrow> nat \<Rightarrow> bool" where
  "local_ok mat n \<longleftrightarrow> (\<forall>i. map_of mat i \<noteq> None \<longrightarrow> 1 \<le> i \<and> i \<le> int n)"

lemma linked_ok:
  assumes "linked mat is (int (length old)) K K'" "kind_ok (old @ xs) K" "local_ok mat n"
    "map ta_mol xs = replicate n m"
  shows "kind_ok (old @ xs) K'"
proof -
  obtain params key where l: "add_link params key (shifted (int (length old)) is) K = Inr K'"
    and i: "\<forall>i\<in>set is. map_of mat i \<noteq> None" using assms(1) by (auto simp: linked_def)
  have "in_one_molecule (old @ xs) (shifted (int (length old)) is)"
    by (rule copy_in_one_molecule [OF assms(4)]) (use i assms(3) in \<open>simp add: local_ok_def\<close>)
  with l assms(2) show ?thesis by (rule add_link_ok)
qed

text \<open>Folding a step that only adds links of one kind keeps the invariant.\<close>

lemma fold_linked_ok:
  assumes run: "fold_result f ys S = Inr S'" and start: "build_ok S \<and> bd_atoms S = A"
    and step: "\<And>y S S'. f y S = Inr S' \<Longrightarrow> build_ok S \<and> bd_atoms S = A \<Longrightarrow> build_ok S' \<and> bd_atoms S' = A"
  shows "build_ok S' \<and> bd_atoms S' = A"
  using fold_result_invariant [OF run, of "\<lambda>S. build_ok S \<and> bd_atoms S = A"] start step by blast

lemma add_copy_ok:
  assumes "add_copy B coords t mat S = Inr S'" "build_ok S" "local_ok mat (n_atoms t)"
  shows "build_ok S'"
proof -
  let ?o = "bd_next_atom S - 1"
  obtain S1 S2 S3 S4 S5 where f:
    "fold_result (add_atom B coords (mt_mol_id t) mat) (mt_atoms t) S = Inr S1"
    "fold_result (add_bond B mat ?o) (mt_bonds t) S1 = Inr S2"
    "fold_result (add_angle B mat ?o) (get_angles t) S2 = Inr S3"
    "fold_result (add_dihedral B mat ?o) (get_dihedrals t) S3 = Inr S4"
    "fold_result (add_improper B mat ?o) (the_impropers t) S4 = Inr S5"
    "S' = S5\<lparr>bd_next_mol := bd_next_mol S5 + 1\<rparr>"
    using assms(1) by (rule add_copy_steps)
  have o1: "?o = int (length (bd_atoms S))" using assms(2) by (simp add: build_ok_def)
  obtain xs where xs: "bd_atoms S1 = bd_atoms S @ xs" "map ta_mol xs = replicate (n_atoms t) (bd_next_mol S)"
    using add_atoms_atoms [OF f(1)] unfolding n_atoms_def [symmetric] by blast
  have "build_ok S1" by (rule fold_result_invariant [OF f(1), of build_ok, OF assms(2)]) (rule add_atom_ok)
  then have 1: "build_ok S1 \<and> bd_atoms S1 = bd_atoms S @ xs" using xs(1) by simp
  note lk = linked_ok [OF _ _ assms(3) xs(2), of _ "bd_atoms S", folded o1]
  have 2: "build_ok S2 \<and> bd_atoms S2 = bd_atoms S @ xs"
    by (rule fold_linked_ok [OF f(2) 1]) (auto simp: build_ok_def dest!: add_bond_linked intro: lk)
  have 3: "build_ok S3 \<and> bd_atoms S3 = bd_atoms S @ xs"
    by (rule fold_linked_ok [OF f(3) 2]) (auto simp: build_ok_def dest!: add_angle_linked intro: lk)
  have 4: "build_ok S4 \<and> bd_atoms S4 = bd_atoms S @ xs"
    by (rule fold_linked_ok [OF f(4) 3]) (auto simp: build_ok_def dest!: add_dihedral_linked intro: lk)
  have "build_ok S5 \<and> bd_atoms S5 = bd_atoms S @ xs"
    by (rule fold_linked_ok [OF f(5) 4]) (auto simp: build_ok_def dest!: add_improper_linked intro: lk)
  then have "build_ok S5" ..
  then show ?thesis by (simp add: f(6) build_ok_def)
qed

lemma type_atom_keys:
  "fold_result (type_atom B t st) as p = Inr p' \<Longrightarrow> map_of (fst p') i \<noteq> None \<Longrightarrow>
    map_of (fst p) i \<noteq> None \<or> i \<in> ma_index ` set as"
proof (induction as arbitrary: p)
  case (Cons a as)
  then obtain p1 where p1: "type_atom B t st a p = Inr p1" "fold_result (type_atom B t st) as p1 = Inr p'"
    by (auto split: sum.splits)
  from Cons.IH [OF p1(2) Cons.prems(2)] p1(1) show ?case
    by (auto simp: type_atom_def Let_def bind_result_Inr update_conv' split: if_splits)
qed simp

lemma add_molecule_ok:
  assumes "add_molecule B coords m S = Inr S'" "build_ok S" "numbered (map ma_index (mt_atoms (fst m)))"
  shows "build_ok S'"
proof -
  obtain t count st where m: "m = (t, count, st)" by (cases m)
  obtain mat strict where mat: "fold_result (type_atom B t st) (mt_atoms t) ([], bd_strict S) = Inr (mat, strict)"
    and run: "fold_result (\<lambda>_. add_copy B coords t mat) [0..<nat count]
      (S\<lparr>bd_counts := dict_set (mt_mol_id t) count (bd_counts S), bd_strict := strict\<rparr>) = Inr S'"
    using assms(1) by (auto simp: add_molecule_def m Let_def bind_result_Inr)
  have idx: "ma_index ` set (mt_atoms t) = {1..int (n_atoms t)}"
    using numbered_nth [of ma_index "mt_atoms t"] assms(3) by (simp add: m n_atoms_def)
  have "i \<in> ma_index ` set (mt_atoms t)" if "map_of mat i \<noteq> None" for i
    using type_atom_keys [OF mat, of i] that by simp
  then have "local_ok mat (n_atoms t)" unfolding local_ok_def idx atLeastAtMost_iff by blast
  then show ?thesis
    using fold_result_invariant [OF run, of build_ok] add_copy_ok assms(2) by (fastforce simp: build_ok_def)
qed

section \<open>Strict lookups\<close>

definition bond_table :: "ff_builder \<Rightarrow> ff_entry set" where
  "bond_table B = set (map snd (fb_bond_overrides B)) \<union> set (map snd (fb_bond_params B))"

definition angle_table :: "ff_builder \<Rightarrow> ff_entry set" where
  "angle_table B = set (map snd (fb_angle_overrides B)) \<union> set (map snd (fb_angle_params B))"

definition dihedral_table :: "ff_builder \<Rightarrow> ff_entry set" where
  "dihedral_table B = set (map snd (fb_dihedral_overrides B)) \<union> set (map snd (fb_dihedral_params B))"

definition harmonic_from :: "ff_entry set \<Rightarrow> string \<Rightarrow> harmonic \<Rightarrow> bool" where
  "harmonic_from T second p \<longleftrightarrow> (\<exists>e\<in>T. item e ''k'' = Inr (fst p) \<and> item e second = Inr (snd p))"

text \<open>Every type of a kind has parameters with the property.\<close>

definition kind_params :: "('p \<Rightarrow> bool) \<Rightarrow> 'p kind \<Rightarrow> bool" where
  "kind_params P K \<longleftrightarrow> (\<forall>t\<in>set (kd_types K). P (tt_params t))"

lemma add_link_params:
  assumes "add_link params key ids K = Inr K'" "kind_params P K" "\<And>p l. params key = Inr (p, l) \<Longrightarrow> P p"
  shows "kind_params P K'"
  using assms by (auto simp: add_link_def type_of_key_def Let_def bind_result_Inr kind_params_def split: if_splits)

lemma lookup_params_in:
  assumes "lookup_params ov ps key ekey = Some (e, l)"
  shows "e \<in> set (map snd ov) \<union> set (map snd ps)"
proof -
  have "map_of ov (key_text key) = Some e \<or> map_of ov (key_text (rev key)) = Some e \<or>
      map_of ps key = Some e \<or> map_of ps ekey = Some e"
    using assms by (auto simp: lookup_params_def split: option.splits)
  then show ?thesis by (force dest: map_of_SomeD)
qed

lemma strict_bond: "fb_strict B \<Longrightarrow> bond_interaction_params B st key ekey = Inr (e, l) \<Longrightarrow> e \<in> bond_table B"
  by (auto simp: bond_interaction_params_def resolve_strict_lookup_def bond_table_def
      split: option.splits dest!: lookup_params_in)

lemma strict_angle: "fb_strict B \<Longrightarrow> angle_interaction_params B st key ekey = Inr (e, l) \<Longrightarrow> e \<in> angle_table B"
  by (auto simp: angle_interaction_params_def resolve_strict_lookup_def angle_table_def
      split: option.splits dest!: lookup_params_in)

lemma strict_dihedral:
  "fb_strict B \<Longrightarrow> fb_fallback_policy B \<noteq> ''allow_default_fallback'' \<Longrightarrow>
    dihedral_interaction_params B st key ekey = Inr (e, l) \<Longrightarrow> e \<in> dihedral_table B"
  by (auto simp: dihedral_interaction_params_def resolve_strict_lookup_def dihedral_table_def
      split: option.splits dest!: lookup_params_in)

lemma harmonic_of_from: "harmonic_of second (e, l) = Inr (p, l') \<Longrightarrow> e \<in> T \<Longrightarrow> harmonic_from T second p"
  by (auto simp: harmonic_of_def harmonic_from_def bind_result_Inr)

definition dihedral_from :: "ff_entry set \<Rightarrow> styled \<Rightarrow> bool" where
  "dihedral_from T p \<longleftrightarrow> (\<exists>e\<in>T. p = fst (dihedral_of (e, [])))"

lemma dihedral_of_from: "dihedral_of (e, l) = (p, l') \<Longrightarrow> e \<in> T \<Longrightarrow> dihedral_from T p"
proof -
  assume a: "dihedral_of (e, l) = (p, l')" "e \<in> T"
  have "fst (dihedral_of (e, l)) = fst (dihedral_of (e, []))" by (simp only: dihedral_of_def fst_conv)
  with a show ?thesis unfolding dihedral_from_def by (metis fst_conv)
qed

definition from_tables :: "ff_builder \<Rightarrow> build \<Rightarrow> bool" where
  "from_tables B S \<longleftrightarrow>
     kind_params (harmonic_from (bond_table B) ''r0'') (bd_bonds S) \<and>
     kind_params (harmonic_from (angle_table B) ''theta0'') (bd_angles S) \<and>
     kind_params (dihedral_from (dihedral_table B)) (bd_dihedrals S)"

lemma add_bond_tables:
  "fb_strict B \<Longrightarrow> add_bond B mat o1 b S = Inr S' \<Longrightarrow> from_tables B S \<Longrightarrow> from_tables B S'"
  by (fastforce simp: add_bond_def bind_result_Inr from_tables_def
      intro: add_link_params harmonic_of_from [OF _ strict_bond])

lemma add_angle_tables:
  "fb_strict B \<Longrightarrow> add_angle B mat o1 t S = Inr S' \<Longrightarrow> from_tables B S \<Longrightarrow> from_tables B S'"
  by (cases t) (fastforce simp: add_angle_def bind_result_Inr from_tables_def
      intro: add_link_params harmonic_of_from [OF _ strict_angle])

lemma add_dihedral_tables:
  "fb_strict B \<Longrightarrow> fb_fallback_policy B \<noteq> ''allow_default_fallback'' \<Longrightarrow>
    add_dihedral B mat o1 t S = Inr S' \<Longrightarrow> from_tables B S \<Longrightarrow> from_tables B S'"
  by (cases t) (fastforce simp: add_dihedral_def bind_result_Inr from_tables_def
      intro: add_link_params dihedral_of_from strict_dihedral)

lemma add_improper_tables: "add_improper B mat o1 t S = Inr S' \<Longrightarrow> from_tables B S \<Longrightarrow> from_tables B S'"
  by (auto simp: from_tables_def dest!: add_improper_linked)

lemma add_copy_tables:
  assumes "fb_strict B" "fb_fallback_policy B \<noteq> ''allow_default_fallback''"
    and run: "add_copy B coords t mat S = Inr S'" and "from_tables B S"
  shows "from_tables B S'"
proof -
  obtain S1 S2 S3 S4 S5 where f:
    "fold_result (add_atom B coords (mt_mol_id t) mat) (mt_atoms t) S = Inr S1"
    "fold_result (add_bond B mat (bd_next_atom S - 1)) (mt_bonds t) S1 = Inr S2"
    "fold_result (add_angle B mat (bd_next_atom S - 1)) (get_angles t) S2 = Inr S3"
    "fold_result (add_dihedral B mat (bd_next_atom S - 1)) (get_dihedrals t) S3 = Inr S4"
    "fold_result (add_improper B mat (bd_next_atom S - 1)) (the_impropers t) S4 = Inr S5"
    "S' = S5\<lparr>bd_next_mol := bd_next_mol S5 + 1\<rparr>"
    using run by (rule add_copy_steps)
  have "from_tables B S1" using add_atoms_atoms [OF f(1)] assms(4) by (auto simp: from_tables_def)
  then have "from_tables B S2"
    by (rule fold_result_invariant [OF f(2), of "from_tables B"]) (rule add_bond_tables [OF assms(1)])
  then have "from_tables B S3"
    by (rule fold_result_invariant [OF f(3), of "from_tables B"]) (rule add_angle_tables [OF assms(1)])
  then have "from_tables B S4"
    by (rule fold_result_invariant [OF f(4), of "from_tables B"]) (rule add_dihedral_tables [OF assms(1,2)])
  then have "from_tables B S5"
    by (rule fold_result_invariant [OF f(5), of "from_tables B"]) (rule add_improper_tables)
  then show ?thesis by (simp add: f(6) from_tables_def)
qed

lemma add_molecule_tables:
  assumes "fb_strict B" "fb_fallback_policy B \<noteq> ''allow_default_fallback''"
    and run: "add_molecule B coords m S = Inr S'" and "from_tables B S"
  shows "from_tables B S'"
proof -
  obtain t count st where m: "m = (t, count, st)" by (cases m)
  obtain mat strict where "fold_result (\<lambda>_. add_copy B coords t mat) [0..<nat count]
      (S\<lparr>bd_counts := dict_set (mt_mol_id t) count (bd_counts S), bd_strict := strict\<rparr>) = Inr S'"
    using run by (auto simp: add_molecule_def m Let_def bind_result_Inr)
  moreover have "from_tables B (S\<lparr>bd_counts := dict_set (mt_mol_id t) count (bd_counts S), bd_strict := strict\<rparr>)"
    using assms(4) by (simp add: from_tables_def)
  ultimately show ?thesis
    by (rule fold_result_invariant [where P = "from_tables B"]) (rule add_copy_tables [OF assms(1,2)])
qed

section \<open>Properties\<close>

text \<open>A small force field and two molecules for the witnesses.\<close>

definition lj :: ff_entry where
  "lj = numbers [(''mass'', 12), (''epsilon'', 1/10), (''sigma'', 3)]"

definition demo_builder :: ff_builder where
  "demo_builder = \<lparr>fb_name = ''FF'', fb_atom_params = [(''C'', lj), (''O'', lj)],
     fb_bond_params = [([''C'', ''O''], numbers [(''k'', 300), (''r0'', 1)])],
     fb_angle_params = [([''O'', ''C'', ''O''], numbers [(''k'', 50), (''theta0'', 180)])], fb_dihedral_params = [],
     fb_atom_overrides = [], fb_bond_overrides = [], fb_angle_overrides = [], fb_dihedral_overrides = [],
     fb_improper_overrides = [], fb_fallback_policy = ''strict'', fb_inorganic = [], fb_strict = True\<rparr>"

definition demo_atom :: "int \<Rightarrow> string \<Rightarrow> pyfloat \<Rightarrow> mol_atom" where
  "demo_atom i e q = \<lparr>ma_index = i, ma_x = 0, ma_y = 0, ma_z = 0, ma_element = e, ma_ff_type = None, ma_charge = q,
     ma_charge_defined = True\<rparr>"

definition dioxide :: mol_topology where
  "dioxide = \<lparr>mt_mol_id = ''CO2'', mt_atoms = [demo_atom 1 ''O'' (-1/2), demo_atom 2 ''C'' 1, demo_atom 3 ''O'' (-1/2)],
     mt_bonds = [\<lparr>mb_atom1 = 1, mb_atom2 = 2, mb_order = 2\<rparr>, \<lparr>mb_atom1 = 2, mb_atom2 = 3, mb_order = 2\<rparr>],
     mt_weight = 44, mt_impropers = None\<rparr>"

definition demo_system :: "(topo_error, system_topology) result" where
  "demo_system = create_from_mol_topology demo_builder [(dioxide, 2, False)] [] [0, 9, 0, 9, 0, 9] ''T''"

lemma demo_built: "\<not> isl demo_system"
  by code_simp

lemma demo_created:
  "create_from_mol_topology demo_builder [(dioxide, 2, False)] [] [0, 9, 0, 9, 0, 9] ''T'' = Inr (projr demo_system)"
  using demo_built unfolding demo_system_def by (simp add: sum.collapse(2))

lemma created_ok:
  assumes "create_from_mol_topology B mols coords box title = Inr sy"
    "\<forall>m\<in>set mols. numbered (map ma_index (mt_atoms (fst m)))"
  shows "system_ok sy"
proof -
  obtain S where S: "fold_result (add_molecule B coords) mols new_build = Inr S" "sy = system_of title box S"
    using assms(1) by (rule created)
  have "build_ok S"
    by (rule fold_result_invariant [OF S(1), of build_ok, OF new_build_ok]) (use assms(2) in \<open>auto intro: add_molecule_ok\<close>)
  then show ?thesis unfolding S(2) by (rule build_ok_system)
qed

text \<open>
  C13: If the atoms of every molecule are indexed from 1 without gaps, the built system numbers
  atoms, types and links consecutively from 1, every type it refers to exists, and every bond,
  angle, dihedral and improper joins existing atoms of one molecule copy.
\<close>

theorem topology_well_formed:
  assumes "create_from_mol_topology B mols coords box title = Inr sy"
    "\<forall>m\<in>set mols. numbered (map ma_index (mt_atoms (fst m)))"
  shows "system_ok sy"
  using assms by (rule created_ok)

theorem topology_well_formed_witness: "\<not> isl demo_system \<and> system_ok (projr demo_system)"
proof -
  have "numbered (map ma_index (mt_atoms dioxide))" by code_simp
  then show ?thesis using topology_well_formed [OF demo_created] demo_built by simp
qed

text \<open>
  C8: The built system consists of exactly the requested copies in order: charges, molecule
  numbers and the atoms of all bonds, angles, dihedrals and impropers are those of a reference
  description that places one copy after the other.
\<close>

theorem topology_contains_exact_copies:
  assumes "create_from_mol_topology B mols coords box title = Inr sy"
  shows "map ta_charge (sy_atoms sy) = concat (map (\<lambda>t. map ma_charge (mt_atoms t)) (copies mols)) \<and>
    map ta_mol (sy_atoms sy) = mol_numbers 1 (copies mols) \<and>
    map lk_atoms (sy_bonds sy) = placed bond_lists 0 (copies mols) \<and>
    map lk_atoms (sy_angles sy) = placed angle_lists 0 (copies mols) \<and>
    map lk_atoms (sy_dihedrals sy) = placed dihedral_lists 0 (copies mols) \<and>
    map lk_atoms (sy_impropers sy) = placed improper_lists 0 (copies mols)"
proof -
  obtain S where S: "fold_result (add_molecule B coords) mols new_build = Inr S" "sy = system_of title box S"
    using assms by (rule created)
  from add_molecules_grown [OF S(1)] show ?thesis
    by (simp add: grown_def S(2) system_of_def new_build_def new_kind_def)
qed

theorem topology_contains_exact_copies_witness:
  "map lk_atoms (sy_bonds (projr demo_system)) = [[1, 2], [2, 3], [4, 5], [5, 6]] \<and>
   map ta_mol (sy_atoms (projr demo_system)) = [1, 1, 1, 2, 2, 2]"
proof -
  have "placed bond_lists 0 (copies [(dioxide, 2, False)]) = [[1, 2], [2, 3], [4, 5], [5, 6]]"
    "mol_numbers 1 (copies [(dioxide, 2, False)]) = [1, 1, 1, 2, 2, 2]" by code_simp+
  then show ?thesis using topology_contains_exact_copies [OF demo_created] by metis
qed

lemma sum_copies:
  "\<forall>m\<in>set mols. 0 \<le> fst (snd m) \<Longrightarrow>
    foldl (\<lambda>q (t, count). q + mol_charge t * of_int count) q0 (map (\<lambda>(t, c, _). (t, c)) mols) =
    q0 + sum_list (concat (map (\<lambda>t. map ma_charge (mt_atoms t)) (copies mols)))"
proof (induction mols arbitrary: q0)
  case (Cons m mols)
  obtain t c st where m: "m = (t, c, st)" by (cases m)
  have "sum_list (concat (map (\<lambda>t. map ma_charge (mt_atoms t)) (replicate n t))) = of_nat n * mol_charge t" for n
    by (induction n) (simp_all add: mol_charge_def algebra_simps)
  moreover have "of_nat (nat c) = (of_int c :: pyfloat)" using Cons.prems by (simp add: m)
  ultimately have "sum_list (concat (map (\<lambda>t. map ma_charge (mt_atoms t)) (replicate (nat c) t))) = mol_charge t * of_int c"
    by simp
  with Cons show ?case by (simp add: m copies_def add.assoc)
qed (simp add: copies_def)

lemma created_charges:
  assumes "create_from_mol_topology B mols coords box title = Inr sy"
  shows "map ta_charge (sy_atoms sy) = concat (map (\<lambda>t. map ma_charge (mt_atoms t)) (copies mols))"
proof -
  obtain S where S: "fold_result (add_molecule B coords) mols new_build = Inr S" "sy = system_of title box S"
    using assms by (rule created)
  then show ?thesis using add_molecules_grown [OF S(1)] by (simp add: grown_def system_of_def new_build_def)
qed

lemma created_neutral:
  assumes "create_from_mol_topology B mols coords box title = Inr sy"
    "validate_molecule_topologies (map (\<lambda>(t, c, _). (t, c)) mols) = []" "\<forall>m\<in>set mols. 0 \<le> fst (snd m)"
  shows "\<bar>sum_list (map ta_charge (sy_atoms sy))\<bar> \<le> 1 / 10 ^ 4"
proof -
  have "sum_list (map ta_charge (sy_atoms sy)) = total_system_charge (map (\<lambda>(t, c, _). (t, c)) mols)"
    using created_charges [OF assms(1)] sum_copies [OF assms(3), of 0] by (simp add: total_system_charge_def)
  moreover have "\<not> \<bar>total_system_charge (map (\<lambda>(t, c, _). (t, c)) mols)\<bar> > 1 / 10 ^ 4"
    using assms(2) unfolding validate_molecule_topologies_def by (auto split: if_splits)
  ultimately show ?thesis by simp
qed

text \<open>
  A system built from molecules that pass the completeness check has a total charge of at
  most 1e-4 in absolute value.
\<close>

theorem checked_system_is_neutral:
  assumes "create_from_mol_topology B mols coords box title = Inr sy"
    "validate_molecule_topologies (map (\<lambda>(t, c, _). (t, c)) mols) = []" "\<forall>m\<in>set mols. 0 \<le> fst (snd m)"
  shows "\<bar>sum_list (map ta_charge (sy_atoms sy))\<bar> \<le> 1 / 10 ^ 4"
  using assms by (rule created_neutral)

theorem checked_system_is_neutral_witness: "\<bar>sum_list (map ta_charge (sy_atoms (projr demo_system)))\<bar> \<le> 1 / 10 ^ 4"
proof -
  have "validate_molecule_topologies [(dioxide, 2)] = []" by code_simp
  then show ?thesis using checked_system_is_neutral [OF demo_created] by simp
qed

text \<open>
  With strict parameter coverage and no default fallback, every bond, angle and dihedral
  type of a built system has the parameters of an override or of the force field registry,
  never a default.
\<close>

theorem strict_parameters_come_from_tables:
  assumes "create_from_mol_topology B mols coords box title = Inr sy" "fb_strict B"
    "fb_fallback_policy B \<noteq> ''allow_default_fallback''"
  shows "(\<forall>t\<in>set (sy_bond_types sy). harmonic_from (bond_table B) ''r0'' (tt_params t)) \<and>
    (\<forall>t\<in>set (sy_angle_types sy). harmonic_from (angle_table B) ''theta0'' (tt_params t)) \<and>
    (\<forall>t\<in>set (sy_dihedral_types sy). dihedral_from (dihedral_table B) (tt_params t))"
proof -
  obtain S where S: "fold_result (add_molecule B coords) mols new_build = Inr S" "sy = system_of title box S"
    using assms(1) by (rule created)
  have "from_tables B new_build" by (simp add: from_tables_def new_build_def new_kind_def kind_params_def)
  then have "from_tables B S"
    by (rule fold_result_invariant [OF S(1), of "from_tables B"]) (rule add_molecule_tables [OF assms(2,3)])
  then show ?thesis by (simp add: from_tables_def kind_params_def S(2) system_of_def)
qed

theorem strict_parameters_come_from_tables_witness:
  "list_all (\<lambda>t. harmonic_from (bond_table demo_builder) ''r0'' (tt_params t)) (sy_bond_types (projr demo_system))"
  using strict_parameters_come_from_tables [OF demo_created] by (simp add: demo_builder_def list_all_iff)

section \<open>Findings\<close>

text \<open>The order of the molecules decides whether a strict molecule gets default parameters.\<close>

definition lax_builder :: ff_builder where
  "lax_builder = demo_builder\<lparr>fb_bond_params := [], fb_strict := False\<rparr>"

definition order_system :: "(mol_topology \<times> int \<times> bool) list \<Rightarrow> (topo_error, system_topology) result" where
  "order_system mols = create_from_mol_topology lax_builder mols [] [0, 9, 0, 9, 0, 9] ''T''"

definition oxide :: "bool \<Rightarrow> mol_topology \<times> int \<times> bool" where
  "oxide st = (dioxide\<lparr>mt_atoms := map (\<lambda>a. a\<lparr>ma_ff_type := Some (ma_element a)\<rparr>) (mt_atoms dioxide)\<rparr>, 1, st)"

lemma lax_first_defeats_strict:
  "order_system [oxide True, oxide False] = Inl (ParamsMissing [''C'', ''O''] [''C'', ''O'']) \<and>
   map tt_comment (sy_bond_types (projr (order_system [oxide False, oxide True]))) = [''C-O(default)'']"
proof
  show "order_system [oxide True, oxide False] = Inl (ParamsMissing [''C'', ''O''] [''C'', ''O''])" by code_simp
  show "map tt_comment (sy_bond_types (projr (order_system [oxide False, oxide True]))) = [''C-O(default)'']" by code_simp
qed

text \<open>Atom indices with a gap, as a V3000 file may have, give links to atoms that do not exist.\<close>

definition gapped :: mol_topology where
  "gapped = dioxide\<lparr>mt_atoms := [demo_atom 1 ''O'' 0, demo_atom 5 ''C'' 0],
     mt_bonds := [\<lparr>mb_atom1 = 1, mb_atom2 = 5, mb_order = 1\<rparr>]\<rparr>"

lemma index_gap_dangles:
  "map lk_atoms (sy_bonds (projr (create_from_mol_topology demo_builder [(gapped, 1, False)] [] [] []))) = [[1, 5]] \<and>
   length (sy_atoms (projr (create_from_mol_topology demo_builder [(gapped, 1, False)] [] [] []))) = 2"
  by code_simp

text \<open>A dihedral of the registry loses its style: its coefficients are always read as fourier terms.\<close>

lemma registry_style_is_lost: "fst (fst (dihedral_of (k_entry p, l))) = ''fourier''"
  by (simp add: dihedral_of_def k_entry_def)

text \<open>A registry key that is not in sorted order is found by the configuration, not by the builder.\<close>

definition reversed_config :: ff_config where
  "reversed_config = \<lparr>fc_name = ''FF'', fc_enabled = True, fc_atom_types = [], fc_element_fallbacks = [],
     fc_bond_types = [(''O-C'', lj)], fc_angle_types = [], fc_dihedral_types = [], fc_improper_types = []\<rparr>"

lemma reversed_key_is_missed:
  "ff_get_bond_params reversed_config ''C-O'' = Some lj \<and>
   lookup_params [] (parts_dict 2 (fc_bond_types reversed_config)) (sort [''O'', ''C'']) (sort [''O'', ''C'']) = None"
  by code_simp

end
