(* ===== verification/MolParser.thy ===== *)
theory MolParser
  imports LammpsData TopologyProps
begin

text \<open>
  The reader of MDL MOL files, \<^verbatim>\<open>src/src/builder/mol_parser.py\<close>, and the XYZ files of
  \<^verbatim>\<open>src/src/builder/topology_helpers.py\<close>. A file is its decoded text, or \<open>None\<close> when it
  cannot be opened; the stem of its path is an argument. Line numbers are Python indices, so
  a negative atom count in the file reaches behind the start of the list of lines.
\<close>

section \<open>Reading lines\<close>

text \<open>Text mode turns \<open>CR LF\<close> and \<open>CR\<close> into one newline; the flag says that a \<open>CR\<close> came before.\<close>

fun newlines_from :: "bool \<Rightarrow> string \<Rightarrow> string" where
  "newlines_from cr [] = []"
| "newlines_from cr (c # s) =
     (if c = CHR 0x0D then newline # newlines_from True s
      else if cr \<and> c = newline then newlines_from False s
      else c # newlines_from False s)"

text \<open>\<open>f.readlines()\<close>: every line keeps its newline.\<close>

fun lines_from :: "string \<Rightarrow> string \<Rightarrow> string list" where
  "lines_from w [] = (if w = [] then [] else [rev w])"
| "lines_from w (c # s) = (if c = newline then rev (c # w) # lines_from [] s else lines_from (c # w) s)"

definition readlines :: "string \<Rightarrow> string list" where
  "readlines s = lines_from [] (newlines_from False s)"

text \<open>A loop over line numbers that stops at the end of the file or at a line that breaks it.\<close>

fun scan_lines :: "(string \<Rightarrow> 's \<Rightarrow> 's option) \<Rightarrow> string list \<Rightarrow> int list \<Rightarrow> 's \<Rightarrow> (index_error, 's) result" where
  "scan_lines step ls [] s = Inr s"
| "scan_lines step ls (i # is) s =
     (if i \<ge> int (length ls) then Inr s
      else case py_index ls i of
          Inl e \<Rightarrow> Inl e
        | Inr l \<Rightarrow> (case step l s of None \<Rightarrow> Inr s | Some t \<Rightarrow> scan_lines step ls is t))"

text \<open>\<open>s[i:j]\<close>\<close>

definition slice :: "nat \<Rightarrow> nat \<Rightarrow> string \<Rightarrow> string" where
  "slice i j s = take (j - i) (drop i s)"

definition weight_of :: "string \<Rightarrow> pyfloat" where
  "weight_of element = dict_get ATOMIC_WEIGHTS element 12"

section \<open>V2000\<close>

definition v2000_atom :: "string \<Rightarrow> mol_atom list \<times> pyfloat \<Rightarrow> (mol_atom list \<times> pyfloat) option" where
  "v2000_atom line st =
     (case py_split line of
        x # y # z # element # _ \<Rightarrow>
          (case (py_float_of x, py_float_of y, py_float_of z) of
             (Some x, Some y, Some z) \<Rightarrow>
               Some (fst st @ [\<lparr>ma_index = int (length (fst st)) + 1, ma_x = x, ma_y = y, ma_z = z,
                       ma_element = str_strip element, ma_ff_type = None, ma_charge = 0,
                       ma_charge_defined = False\<rparr>],
                     snd st + weight_of (str_strip element))
           | _ \<Rightarrow> Some st)
      | _ \<Rightarrow> Some st)"

definition v2000_bond :: "string \<Rightarrow> mol_bond list \<Rightarrow> mol_bond list option" where
  "v2000_bond line bonds =
     (if prefix ''M '' (str_strip line) then None
      else if length line < 9 then Some bonds
      else case (py_int_of (slice 0 3 line), py_int_of (slice 3 6 line), py_int_of (slice 6 9 line)) of
          (Some a, Some b, Some k) \<Rightarrow> Some (bonds @ [\<lparr>mb_atom1 = a, mb_atom2 = b, mb_order = k\<rparr>])
        | _ \<Rightarrow> Some bonds)"

text \<open>The pairs of an atom and a charge on a \<open>M  CHG\<close> line, as many as there are words for.\<close>

fun word_pairs :: "string list \<Rightarrow> (string \<times> string) list" where
  "word_pairs (a # b # ws) = (a, b) # word_pairs ws"
| "word_pairs _ = []"

definition add_charge :: "string \<times> string \<Rightarrow> (int, pyfloat) pydict \<Rightarrow> (int, pyfloat) pydict" where
  "add_charge p d =
     (case (py_int_of (fst p), py_float_of (snd p)) of
        (Some i, Some c) \<Rightarrow> dict_set i c d
      | _ \<Rightarrow> d)"

definition v2000_charge :: "string \<Rightarrow> (int, pyfloat) pydict \<Rightarrow> (int, pyfloat) pydict option" where
  "v2000_charge line d =
     (let l = str_strip line; parts = py_split l
      in if l = ''M  END'' then None
         else if \<not> prefix ''M  CHG'' l \<or> length parts < 5 then Some d
         else case py_int_of (parts ! 2) of
             None \<Rightarrow> Some d
           | Some n \<Rightarrow> Some (fold add_charge (take (nat n) (word_pairs (drop 3 parts))) d))"

definition set_charge :: "(int, pyfloat) pydict \<Rightarrow> mol_atom \<Rightarrow> mol_atom" where
  "set_charge d a =
     (case map_of d (ma_index a) of
        None \<Rightarrow> a
      | Some c \<Rightarrow> a\<lparr>ma_charge := c, ma_charge_defined := True\<rparr>)"

definition parse_v2000 :: "string \<Rightarrow> string list \<Rightarrow> int \<Rightarrow> int \<Rightarrow> (index_error, mol_topology option) result" where
  "parse_v2000 name ls atom_count bond_count =
     (let bond_start = 4 + atom_count
      in bind_result (scan_lines v2000_atom ls [4..bond_start - 1] ([], 0)) (\<lambda>(atoms, weight).
         bind_result (scan_lines v2000_bond ls [bond_start..bond_start + bond_count - 1] []) (\<lambda>bonds.
         bind_result (scan_lines v2000_charge ls [bond_start + bond_count..int (length ls) - 1] []) (\<lambda>charges.
         Inr (Some \<lparr>mt_mol_id = name, mt_atoms = map (set_charge charges) atoms, mt_bonds = bonds,
               mt_weight = rounded 2 weight, mt_impropers = None\<rparr>)))))"

section \<open>V3000\<close>

record v3000_state =
  v3_in_atoms :: bool
  v3_in_bonds :: bool
  v3_atoms :: "mol_atom list"
  v3_bonds :: "mol_bond list"
  v3_weight :: pyfloat

text \<open>The first word of the form \<open>CHG=c\<close>; \<open>None\<close> when its number cannot be read.\<close>

fun charge_token :: "string list \<Rightarrow> (pyfloat \<times> bool) option" where
  "charge_token [] = Some (0, False)"
| "charge_token (w # ws) =
     (if prefix ''CHG='' w then map_option (\<lambda>c. (c, True)) (py_float_of (drop 4 w)) else charge_token ws)"

definition v3000_atom :: "string list \<Rightarrow> v3000_state \<Rightarrow> v3000_state" where
  "v3000_atom parts S =
     (case parts of
        i # element # x # y # z # aamap # props \<Rightarrow>
          (case (py_int_of i, py_float_of x, py_float_of y, py_float_of z, charge_token props) of
             (Some i, Some x, Some y, Some z, Some (c, given)) \<Rightarrow>
               S\<lparr>v3_atoms := v3_atoms S @ [\<lparr>ma_index = i, ma_x = x, ma_y = y, ma_z = z, ma_element = element,
                     ma_ff_type = None, ma_charge = c, ma_charge_defined = given\<rparr>],
                 v3_weight := v3_weight S + weight_of element\<rparr>
           | _ \<Rightarrow> S)
      | _ \<Rightarrow> S)"

definition v3000_bond :: "string list \<Rightarrow> v3000_state \<Rightarrow> v3000_state" where
  "v3000_bond parts S =
     (case parts of
        i # k # a # b # _ \<Rightarrow>
          (case (py_int_of k, py_int_of a, py_int_of b) of
             (Some k, Some a, Some b) \<Rightarrow>
               S\<lparr>v3_bonds := v3_bonds S @ [\<lparr>mb_atom1 = a, mb_atom2 = b, mb_order = k\<rparr>]\<rparr>
           | _ \<Rightarrow> S)
      | _ \<Rightarrow> S)"

definition v3000_line :: "string \<Rightarrow> v3000_state \<Rightarrow> v3000_state" where
  "v3000_line raw S =
     (let line = str_strip raw
      in if prefix ''M  V30 BEGIN ATOM'' line then S\<lparr>v3_in_atoms := True, v3_in_bonds := False\<rparr>
         else if prefix ''M  V30 END ATOM'' line then S\<lparr>v3_in_atoms := False\<rparr>
         else if prefix ''M  V30 BEGIN BOND'' line then S\<lparr>v3_in_bonds := True, v3_in_atoms := False\<rparr>
         else if prefix ''M  V30 END BOND'' line then S\<lparr>v3_in_bonds := False\<rparr>
         else if \<not> prefix ''M  V30 '' line then S
         else let payload = str_strip (drop 7 line)
              in if v3_in_atoms S then v3000_atom (py_split payload) S
                 else if v3_in_bonds S then v3000_bond (py_split payload) S
                 else S)"

definition v3000_start :: v3000_state where
  "v3000_start = \<lparr>v3_in_atoms = False, v3_in_bonds = False, v3_atoms = [], v3_bonds = [], v3_weight = 0\<rparr>"

definition parse_mol_v3000 :: "string list \<Rightarrow> string \<Rightarrow> mol_topology option" where
  "parse_mol_v3000 ls mol_id =
     (let S = fold v3000_line ls v3000_start
      in if v3_atoms S = [] then None
         else Some \<lparr>mt_mol_id = or_default (Some mol_id) ''unknown_molecule'',
                mt_atoms = sort_key ma_index (v3_atoms S), mt_bonds = v3_bonds S,
                mt_weight = rounded 2 (v3_weight S), mt_impropers = None\<rparr>)"

section \<open>The file\<close>

definition parse_mol_lines :: "string \<Rightarrow> string list \<Rightarrow> (index_error, mol_topology option) result" where
  "parse_mol_lines name ls =
     (if length ls < 5 then Inr None
      else let counts = ls ! 3
           in if str_contains ''V3000'' counts then Inr (parse_mol_v3000 ls name)
              else if py_split counts = [] then Inr None
              else case (py_int_of (slice 0 3 counts), py_int_of (slice 3 6 counts)) of
                  (Some atom_count, Some bond_count) \<Rightarrow> parse_v2000 name ls atom_count bond_count
                | _ \<Rightarrow> Inr None)"

definition parse_mol_topology :: "string \<Rightarrow> string \<Rightarrow> string option \<Rightarrow> (index_error, mol_topology option) result" where
  "parse_mol_topology stem mol_id file =
     (case file of
        None \<Rightarrow> Inr None
      | Some text \<Rightarrow> parse_mol_lines (or_default (Some mol_id) stem) (readlines text))"

definition parse_mol_file :: "string \<Rightarrow> string option \<Rightarrow> (index_error, nat \<times> pyfloat) result" where
  "parse_mol_file stem file =
     bind_result (parse_mol_topology stem [] file)
       (\<lambda>t. Inr (case t of None \<Rightarrow> (0, 0) | Some t \<Rightarrow> (n_atoms t, mt_weight t)))"

text \<open>The older reader: the counts by words, the weight of every line with four words.\<close>

definition legacy_atom :: "string \<Rightarrow> pyfloat \<Rightarrow> pyfloat option" where
  "legacy_atom line w =
     (case py_split line of
        _ # _ # _ # element # _ \<Rightarrow> Some (w + weight_of element)
      | _ \<Rightarrow> Some w)"

definition parse_mol_file_legacy :: "string \<Rightarrow> (index_error, int \<times> pyfloat) result" where
  "parse_mol_file_legacy text =
     (let ls = readlines text
      in if length ls < 5 then Inr (0, 0)
         else case py_split (str_strip (ls ! 3)) of
             [] \<Rightarrow> Inr (0, 0)
           | w # _ \<Rightarrow>
               (case py_int_of (take 3 w) of
                  None \<Rightarrow> Inr (0, 0)
                | Some n \<Rightarrow> bind_result (scan_lines legacy_atom ls [4..4 + n - 1] 0)
                    (\<lambda>weight. Inr (n, rounded 2 weight))))"

section \<open>XYZ files\<close>

text \<open>\<open>read_text().strip().split("\n")\<close>\<close>

definition xyz_lines :: "string \<Rightarrow> string list" where
  "xyz_lines text = split_on newline (str_strip (newlines_from False text))"

text \<open>\<open>lines[2 : 2 + n]\<close>: a negative end counts from the back.\<close>

definition xyz_body :: "int \<Rightarrow> string list \<Rightarrow> string list" where
  "xyz_body n ls =
     (let stop = 2 + n; stop = (if stop < 0 then stop + int (length ls) else stop)
      in take (nat stop - 2) (drop 2 ls))"

definition xyz_point :: "string \<Rightarrow> (pyfloat \<times> pyfloat \<times> pyfloat) list" where
  "xyz_point line =
     (case py_split line of
        _ # x # y # z # _ \<Rightarrow>
          (case (py_float_of x, py_float_of y, py_float_of z) of
             (Some x, Some y, Some z) \<Rightarrow> [(x, y, z)]
           | _ \<Rightarrow> [])
      | _ \<Rightarrow> [])"

definition parse_xyz_coordinates :: "string option \<Rightarrow> (pyfloat \<times> pyfloat \<times> pyfloat) list" where
  "parse_xyz_coordinates file =
     (case file of
        None \<Rightarrow> []
      | Some text \<Rightarrow>
          (let ls = xyz_lines text
           in if length ls < 3 then []
              else case py_int_of (hd ls) of
                  None \<Rightarrow> []
                | Some n \<Rightarrow> concat (map xyz_point (xyz_body n ls))))"

definition xyz_atom_line :: "mol_atom \<Rightarrow> string" where
  "xyz_atom_line a =
     ma_element a @ ''  '' @ show_fixed 6 (ma_x a) @ ''  '' @ show_fixed 6 (ma_y a) @ ''  '' @ show_fixed 6 (ma_z a)"

datatype xyz_error = NoAtomsIn string

text \<open>The text of the XYZ file for Packmol.\<close>

definition convert_mol_to_xyz :: "mol_topology option \<Rightarrow> string \<Rightarrow> (xyz_error, string) result" where
  "convert_mol_to_xyz t mol_id =
     (case t of
        None \<Rightarrow> Inl (NoAtomsIn mol_id)
      | Some t \<Rightarrow>
          if mt_atoms t = [] then Inl (NoAtomsIn mol_id)
          else Inr (join_with newline
            (show_nat (n_atoms t) # (mol_id @ '' converted from MOL'') #
             map xyz_atom_line (sort_key ma_index (mt_atoms t)))))"

text \<open>The atoms of an XYZ file: reading stops at a number that cannot be read, the index is the
  number of the line.\<close>

fun xyz_atoms :: "nat \<Rightarrow> string list \<Rightarrow> mol_atom list" where
  "xyz_atoms i [] = []"
| "xyz_atoms i (l # ls) =
     (case py_split l of
        element # x # y # z # _ \<Rightarrow>
          (case (py_float_of x, py_float_of y, py_float_of z) of
             (Some x, Some y, Some z) \<Rightarrow>
               \<lparr>ma_index = int i + 1, ma_x = x, ma_y = y, ma_z = z, ma_element = element, ma_ff_type = None,
                ma_charge = 0, ma_charge_defined = False\<rparr> # xyz_atoms (i + 1) ls
           | _ \<Rightarrow> [])
      | _ \<Rightarrow> xyz_atoms (i + 1) ls)"

definition create_xyz_topology :: "string option \<Rightarrow> string \<Rightarrow> mol_topology" where
  "create_xyz_topology file mol_id =
     (let atoms = (case file of
          None \<Rightarrow> []
        | Some text \<Rightarrow>
            (let ls = xyz_lines text
             in if length ls < 3 then []
                else case py_int_of (hd ls) of None \<Rightarrow> [] | Some n \<Rightarrow> xyz_atoms 0 (xyz_body n ls)))
      in \<lparr>mt_mol_id = mol_id, mt_atoms = atoms, mt_bonds = [],
          mt_weight = sum_list (map (\<lambda>a. weight_of (ma_element a)) atoms), mt_impropers = None\<rparr>)"

end
