(* ===== verification/SingleComponent.thy ===== *)
theory SingleComponent
  imports ForceAssign ArtifactChain MolParser Errors
begin

text \<open>
  The single-component pipeline of \<^verbatim>\<open>src/src/builder/topology_helpers.py\<close>: the probe that says
  whether a molecule is supported, and the generation of a data file, from the MOL file over
  the router, the executors, the completeness check and the topology builder to the text that
  is written. The surroundings are the record \<open>component_env\<close>; the artifact files, status
  entries and the cache of artifacts are the state \<open>gen_world\<close>.
\<close>

section \<open>Surroundings\<close>

record component_env =
  ce_shw :: "pyval \<Rightarrow> string"
  ce_weights :: "string \<Rightarrow> pyfloat option"
  ce_enabled :: bool
  ce_strict :: bool
  ce_registry :: ff_registry
  ce_policy :: generation_policy
  ce_generator :: generator
  ce_meanwhile :: "artifact_files \<Rightarrow> artifact_files"
  ce_facts :: molecule_facts
  ce_clock :: "nat \<Rightarrow> pyfloat"
  ce_water_disk :: catalog
  ce_ionic_disk :: catalog
  ce_ionic_env :: "string option"
  ce_ionic_yaml :: yaml_file
  ce_ionic_artifact :: "string \<Rightarrow> bool"

datatype component_error =
    BuildFailed error_code
  | ReadsBehindFile
  | RouterRaised
  | IonicRaised ionic_error
  | OrganicRaised organic_error
  | WaterRaised py_error
  | TopologyRaised topo_error
  | Unbound

text \<open>The molecule to process.\<close>

record component_input =
  ci_stem :: string
  ci_mol_id :: string
  ci_file :: "string option"
  ci_additive :: "json_object option"
  ci_assignment :: "json_object option"

definition decide_strategy :: "component_env \<Rightarrow> component_input \<Rightarrow> (component_error, typing_decision) result" where
  "decide_strategy E I =
     map_error (\<lambda>_. RouterRaised)
       (resolve_typing_strategy (ce_shw E) (ce_ionic_artifact E) (ci_mol_id I) (ci_additive I) (ci_assignment I))"

definition ionic_call :: "component_env \<Rightarrow> component_input \<Rightarrow> typing_decision \<Rightarrow> mol_topology
    \<Rightarrow> (ionic_error, bonded_overrides) result \<times> mol_topology" where
  "ionic_call E I d t =
     assign_ionic (ce_shw E) (ce_weights E) (ce_ionic_env E) (ce_ionic_yaml E) (ce_ionic_disk E)
       (or_default (td_profile_id d) (or_default (td_source_id d) []))
       (Some (or_default (td_source_id d) (ci_mol_id I))) (Some ''vacuum'') t"

definition water_call :: "component_env \<Rightarrow> component_input \<Rightarrow> typing_decision \<Rightarrow> mol_topology
    \<Rightarrow> (water_error, bonded_overrides) result \<times> mol_topology" where
  "water_call E I d t =
     assign_water (ce_shw E) (ce_weights E) (ce_water_disk E) (or_default (td_source_id d) (ci_mol_id I)) t"

definition ensure_call :: "component_env \<Rightarrow> component_input \<Rightarrow> gen_world \<Rightarrow> (ensure_error, string) result \<times> gen_world" where
  "ensure_call E I w =
     ensure_organic_artifact (ce_shw E) (ce_clock E) (ce_policy E) (ce_generator E) (ce_meanwhile E) (ce_facts E)
       (ci_file I \<noteq> None) (ci_mol_id I) (case ci_assignment I of None \<Rightarrow> [] | Some ff \<Rightarrow> ff) w"

text \<open>The artifact is loaded from the files of the world.\<close>

definition organic_call :: "component_env \<Rightarrow> typing_strategy \<Rightarrow> string option \<Rightarrow> gen_world \<Rightarrow> mol_topology
    \<Rightarrow> (organic_error, organic_result) result \<times> gen_world \<times> mol_topology" where
  "organic_call E strategy source_id w t =
     (let (r, cache, t) = assign_organic (ce_shw E) (ce_weights E) (map_of (gw_files w)) strategy source_id ''organic_gaff2''
                            (gw_cache w, t)
      in (r, w\<lparr>gw_cache := cache\<rparr>, t))"

text \<open>Which of the two exceptions of the artifact module an error of the chain is.\<close>

definition artifact_missing :: "ensure_error \<Rightarrow> bool" where
  "artifact_missing e \<longleftrightarrow> (case e of MolFileMissing _ \<Rightarrow> True | FromGenerator GenMissing \<Rightarrow> True | _ \<Rightarrow> False)"

definition not_activated :: "ionic_error \<Rightarrow> bool" where
  "not_activated e \<longleftrightarrow> (case e of NoUsageContext \<Rightarrow> True | NotActivated _ \<Rightarrow> True | ContextNotAllowed _ \<Rightarrow> True | _ \<Rightarrow> False)"

section \<open>The probe\<close>

datatype probe_reason =
    CannotParse
  | RouterBlocked "blocked_reason option"
  | IonicBlocked ionic_error
  | InorganicUnsupported
  | WaterFailed water_error
  | ArtifactNotGenerated
  | ArtifactAbsent ensure_error
  | ArtifactNotComplete ensure_error
  | OrganicFailed organic_error
  | ValidationFailed "topo_issue list"

type_synonym verdict = "probe_reason option"

definition validation_verdict :: "mol_topology \<Rightarrow> verdict" where
  "validation_verdict t =
     (let issues = validate_molecule_topologies [(t, 1)] in if issues = [] then None else Some (ValidationFailed issues))"

definition probe_organic ::
    "component_env \<Rightarrow> component_input \<Rightarrow> bool \<Rightarrow> typing_decision \<Rightarrow> mol_topology \<Rightarrow> gen_world \<Rightarrow> verdict \<times> gen_world" where
  "probe_organic E I observe_only d t w =
     (if observe_only then
        (if fst (is_artifact_ready (ce_shw E) (ci_mol_id I) (case ci_assignment I of None \<Rightarrow> [] | Some ff \<Rightarrow> ff) (gw_files w))
         then None else Some ArtifactNotGenerated, w)
      else
        let (r, w) = ensure_call E I w
        in case r of
             Inl e \<Rightarrow> (Some (if artifact_missing e then ArtifactAbsent e else ArtifactNotComplete e), w)
           | Inr source \<Rightarrow>
               let (r, w, t) = organic_call E (td_strategy d) (Some source) w t
               in (case r of
                     Inl e \<Rightarrow> (Some (OrganicFailed e), w)
                   | Inr _ \<Rightarrow> (validation_verdict t, w)))"

text \<open>\<open>None\<close> is the answer that the molecule is supported.\<close>

definition probe_single_component_generation_support ::
    "component_env \<Rightarrow> component_input \<Rightarrow> bool \<Rightarrow> gen_world \<Rightarrow> (component_error, verdict) result \<times> gen_world" where
  "probe_single_component_generation_support E I observe_only w =
     (case parse_mol_topology (ci_stem I) (ci_mol_id I) (ci_file I) of
        Inl _ \<Rightarrow> (Inl ReadsBehindFile, w)
      | Inr None \<Rightarrow> (Inr (Some CannotParse), w)
      | Inr (Some t) \<Rightarrow>
          if \<not> ce_enabled E then (Inr (validation_verdict t), w)
          else
            case decide_strategy E I of
              Inl e \<Rightarrow> (Inl e, w)
            | Inr d \<Rightarrow>
                (case td_strategy d of
                   BLOCKED \<Rightarrow> (Inr (Some (RouterBlocked (td_blocked_reason d))), w)
                 | IONIC_PROFILE \<Rightarrow>
                     (case fst (ionic_call E I d t) of
                        Inl e \<Rightarrow> if not_activated e then (Inr (Some (IonicBlocked e)), w) else (Inl (IonicRaised e), w)
                      | Inr _ \<Rightarrow> (Inr None, w))
                 | INORGANIC_PROFILE \<Rightarrow> (Inr (Some InorganicUnsupported), w)
                 | WATER_MODEL \<Rightarrow>
                     (case fst (water_call E I d t) of
                        Inl (WaterEscaped e) \<Rightarrow> (Inl (WaterRaised e), w)
                      | Inl e \<Rightarrow> (Inr (Some (WaterFailed e)), w)
                      | Inr _ \<Rightarrow> (Inr None, w))
                 | ORGANIC_CURATED_ARTIFACT \<Rightarrow>
                     let (v, w) = probe_organic E I observe_only d t w in (Inr v, w)))"

section \<open>Generation\<close>

definition build_failed :: "(component_error, 'a) result" where
  "build_failed = Inl (BuildFailed TOPOLOGY_GENERATION_FAILED)"

definition organic_failure :: "organic_error \<Rightarrow> component_error" where
  "organic_failure e =
     (case e of
        NotOrganic _ \<Rightarrow> OrganicRaised e
      | OrganicEscaped _ \<Rightarrow> OrganicRaised e
      | _ \<Rightarrow> BuildFailed TOPOLOGY_GENERATION_FAILED)"

text \<open>The common end of the organic dispatch, which also an ionic molecule reaches.\<close>

definition organic_dispatch ::
    "component_env \<Rightarrow> typing_strategy \<Rightarrow> string option \<Rightarrow> mol_topology \<Rightarrow> gen_world
      \<Rightarrow> (component_error, bonded_overrides \<times> mol_topology) result \<times> gen_world" where
  "organic_dispatch E strategy source_id t w =
     (let (r, w, t) = organic_call E strategy source_id w t
      in (case r of Inl e \<Rightarrow> Inl (organic_failure e) | Inr res \<Rightarrow> Inr (or_overrides res, t), w))"

definition assign_component ::
    "component_env \<Rightarrow> component_input \<Rightarrow> typing_decision \<Rightarrow> mol_topology \<Rightarrow> gen_world
      \<Rightarrow> (component_error, bonded_overrides \<times> mol_topology) result \<times> gen_world" where
  "assign_component E I d t w =
     (case td_strategy d of
        BLOCKED \<Rightarrow> (build_failed, w)
      | INORGANIC_PROFILE \<Rightarrow> (build_failed, w)
      | IONIC_PROFILE \<Rightarrow>
          (case ionic_call E I d t of
             (Inl e, _) \<Rightarrow> (if not_activated e then build_failed else Inl (IonicRaised e), w)
           | (Inr _, t) \<Rightarrow> organic_dispatch E IONIC_PROFILE (td_source_id d) t w)
      | WATER_MODEL \<Rightarrow>
          (case water_call E I d t of
             (Inl (WaterEscaped e), _) \<Rightarrow> (Inl (WaterRaised e), w)
           | (Inl e, _) \<Rightarrow> (build_failed, w)
           | (Inr ov, t) \<Rightarrow> (Inr (ov, t), w))
      | ORGANIC_CURATED_ARTIFACT \<Rightarrow>
          (case ensure_call E I w of
             (Inl e, w) \<Rightarrow> (Inl (BuildFailed (if artifact_missing e then ARTIFACT_MISSING else ARTIFACT_INCOMPLETE)), w)
           | (Inr source, w) \<Rightarrow> organic_dispatch E ORGANIC_CURATED_ARTIFACT (Some source) t w))"

definition is_strict_strategy :: "typing_strategy \<Rightarrow> bool" where
  "is_strict_strategy s \<longleftrightarrow> s = ORGANIC_CURATED_ARTIFACT \<or> s = WATER_MODEL"

text \<open>What the caller gives the builder: no improper overrides are handed on.\<close>

definition component_overrides :: "bool \<Rightarrow> bonded_overrides \<Rightarrow> ff_builder" where
  "component_overrides strict ov =
     \<lparr>fb_name = [], fb_atom_params = [], fb_bond_params = [], fb_angle_params = [], fb_dihedral_params = [],
      fb_atom_overrides = bo_atoms ov, fb_bond_overrides = bo_bonds ov, fb_angle_overrides = bo_angles ov,
      fb_dihedral_overrides = bo_dihedrals ov, fb_improper_overrides = [], fb_fallback_policy = ''strict'',
      fb_inorganic = [], fb_strict = strict\<rparr>"

text \<open>A missing item or atom is a \<open>KeyError\<close>; the other errors are \<open>ValueError\<close>s, which are caught.\<close>

definition topology_failure :: "topo_error \<Rightarrow> component_error" where
  "topology_failure e =
     (case e of
        ItemMissing _ \<Rightarrow> TopologyRaised e
      | AtomMissing _ \<Rightarrow> TopologyRaised e
      | _ \<Rightarrow> BuildFailed TOPOLOGY_GENERATION_FAILED)"

definition build_component ::
    "component_env \<Rightarrow> string \<Rightarrow> bool \<Rightarrow> bonded_overrides \<Rightarrow> mol_topology \<Rightarrow> int \<Rightarrow> (pyfloat \<times> pyfloat \<times> pyfloat) list
      \<Rightarrow> pyfloat \<times> pyfloat \<times> pyfloat \<Rightarrow> (component_error, system_topology) result" where
  "build_component E ff_name mol_strict ov t count coords box =
     bind_result (map_error TopologyRaised
       (new_builder (ce_registry E) (normalize_ff_name ff_name) (component_overrides (ce_strict E) ov))) (\<lambda>B.
     let (lx, ly, lz) = box
     in map_error topology_failure
          (create_from_mol_topology B [(t, count, mol_strict)] coords [0, lx, 0, ly, 0, lz] ''Asphalt System''))"

text \<open>The text of the data file.\<close>

definition generate_single_component_topology ::
    "component_env \<Rightarrow> component_input \<Rightarrow> int \<Rightarrow> string option \<Rightarrow> pyfloat \<times> pyfloat \<times> pyfloat \<Rightarrow> string \<Rightarrow> gen_world
      \<Rightarrow> (component_error, string) result \<times> gen_world" where
  "generate_single_component_topology E I count packed box ff_name w =
     (case parse_mol_topology (ci_stem I) (ci_mol_id I) (ci_file I) of
        Inl _ \<Rightarrow> (Inl ReadsBehindFile, w)
      | Inr None \<Rightarrow> (build_failed, w)
      | Inr (Some t) \<Rightarrow>
          if \<not> ce_enabled E then
            (if validate_molecule_topologies [(t, count)] \<noteq> [] then build_failed else Inl Unbound, w)
          else
            case decide_strategy E I of
              Inl e \<Rightarrow> (Inl e, w)
            | Inr d \<Rightarrow>
                (case assign_component E I d t w of
                   (Inl e, w) \<Rightarrow> (Inl e, w)
                 | (Inr (ov, t), w) \<Rightarrow>
                     if validate_molecule_topologies [(t, count)] \<noteq> [] then (build_failed, w)
                     else
                       (bind_result (build_component E ff_name (is_strict_strategy (td_strategy d)) ov t count
                                       (parse_xyz_coordinates packed) box) (\<lambda>sy.
                        Inr (write_lammps_data sy)), w)))"

section \<open>Mock molecules\<close>

definition MOCK_DEFAULTS :: "(string, pyfloat \<times> int \<times> string) pydict" where
  "MOCK_DEFAULTS =
     [(''asphaltene'', 280, 42, ''asphaltene''), (''resin'', 180, 28, ''resin''), (''aromatic'', 130, 18, ''aromatic''),
      (''saturate'', 230, 50, ''saturate''), (''additive'', 200, 30, ''additive'')]"

text \<open>Identifier, weight, atom count and category.\<close>

definition create_mock_molecule :: "string \<Rightarrow> string \<times> pyfloat \<times> int \<times> string" where
  "create_mock_molecule category = (''mock_'' @ category, dict_get MOCK_DEFAULTS category (200, 30, ''additive''))"

end
