(* ===== verification/ArtifactProps.thy ===== *)
theory ArtifactProps
  imports ArtifactChain IonicGate
begin

text \<open>
  Properties of artifacts: what is written is read back, file names stay inside the catalog
  and are the same for the loader and the generator, the cache is never stale against what it
  was filled from, an artifact fits a molecule atom by atom, the chain of attempts ends with a
  complete artifact or an error, normalised charges are neutral, and the ionic gate.
\<close>

section \<open>Writing and reading\<close>

definition artifact_ok :: "artifact \<Rightarrow> bool" where
  "artifact_ok A \<longleftrightarrow>
     (ar_schema_version A = 1 \<or> ar_schema_version A = 2) \<and> ar_mol_id A \<noteq> [] \<and> ar_atoms A \<noteq> []"

lemma require_keys_ok [simp]: "list_all (dict_has d) ks \<Longrightarrow> require_keys d ks place = Inr ()"
  by (simp add: require_keys_def Let_def filter_empty_conv list_all_iff)

lemma atom_round_trip: "parse_artifact_atom shw m (atom_dict a) = Inr a"
proof -
  have "optional_float [(''index'', u), (''element'', v), (''ff_type'', x), (''charge'', y)] k = Inr None"
    if "k = ''epsilon'' \<or> k = ''sigma''" for k u v x y
    using that by (auto simp: optional_float_def pv_get_def)
  then show ?thesis
    by (cases "aa_epsilon a"; cases "aa_sigma a")
      (simp_all add: parse_artifact_atom_def atom_dict_def some_entry_def dict_has_def json_int_at_def json_float_at_def
        json_item_def pv_get_def optional_float_def)
qed

lemma bond_type_round_trip: "(case bond_type_dict b of PDict d \<Rightarrow> parse_bond_type shw d | _ \<Rightarrow> e) = Inr b"
  by (simp add: bond_type_dict_def parse_bond_type_def dict_has_def json_float_at_def json_item_def pv_get_def)

lemma angle_type_round_trip: "(case angle_type_dict b of PDict d \<Rightarrow> parse_angle_type shw d | _ \<Rightarrow> e) = Inr b"
  by (simp add: angle_type_dict_def parse_angle_type_def dict_has_def json_float_at_def json_item_def pv_get_def)

lemma coeffs_round_trip: "map_result json_float (map PNum cs) = Inr cs"
  by (induction cs) simp_all

lemma styled_round_trip:
  "(case styled_dict s of PDict d \<Rightarrow> parse_dihedral_type shw d | _ \<Rightarrow> e) = Inr s"
  "(case styled_dict s of PDict d \<Rightarrow> parse_improper_type shw d | _ \<Rightarrow> e) = Inr s"
  by (simp_all add: styled_dict_def parse_dihedral_type_def parse_improper_type_def dict_has_def json_get_def dict_get_def
      pv_get_def parse_coeffs_def coeffs_round_trip)

lemma instance_round_trip: "concat (map parse_improper_instance (map instance_dict is)) = is"
  by (induction "is") (auto simp: instance_dict_def parse_improper_instance_def json_int_at_def json_item_def)

lemma types_round_trip:
  "(\<And>x. (case g x of PDict d \<Rightarrow> parse d | _ \<Rightarrow> schema (NotADict m place)) = Inr x) \<Longrightarrow>
    parse_types m place parse (PList (map g xs)) = Inr xs"
  by (simp add: parse_types_def) (rule map_result_Inr)

lemma atoms_round_trip: "xs \<noteq> [] \<Longrightarrow> parse_atoms shw m (PList (map atom_dict xs)) = Inr xs"
  using map_result_Inr [of xs "parse_artifact_atom shw m" atom_dict] atom_round_trip
  by (cases xs) (simp_all add: parse_atoms_def)

text \<open>The entries of a written artifact, looked up one by one.\<close>

definition artifact_entries :: "artifact \<Rightarrow> (string \<times> pyval) list" where
  "artifact_entries A = (case to_dict A of PDict d \<Rightarrow> d | _ \<Rightarrow> [])"

lemma to_dict_entries: "to_dict A = PDict (artifact_entries A)"
  by (simp add: artifact_entries_def to_dict_def)

lemma artifact_entry:
  "map_of (artifact_entries A) ''schema_version'' = Some (PNum (of_int (ar_schema_version A)))"
  "map_of (artifact_entries A) ''mol_id'' = Some (PStr (ar_mol_id A))"
  "map_of (artifact_entries A) ''generator'' = Some (PStr (ar_generator A))"
  "map_of (artifact_entries A) ''generator_version'' = Some (PStr (ar_generator_version A))"
  "map_of (artifact_entries A) ''provenance'' = Some (PStr (ar_provenance A))"
  "map_of (artifact_entries A) ''canonical_smiles'' = Some (PStr (ar_smiles A))"
  "map_of (artifact_entries A) ''formal_charge'' = Some (PNum (of_int (ar_formal_charge A)))"
  "map_of (artifact_entries A) ''topology_hash'' = Some (PStr (ar_topology_hash A))"
  "map_of (artifact_entries A) ''ff_family'' = Some (PStr (ar_ff_family A))"
  "map_of (artifact_entries A) ''charge_model'' = Some (PStr (ar_charge_model A))"
  "map_of (artifact_entries A) ''atoms'' = Some (PList (map atom_dict (ar_atoms A)))"
  "map_of (artifact_entries A) ''bond_types'' = Some (PList (map bond_type_dict (ar_bond_types A)))"
  "map_of (artifact_entries A) ''angle_types'' = Some (PList (map angle_type_dict (ar_angle_types A)))"
  "map_of (artifact_entries A) ''dihedral_types'' = Some (PList (map styled_dict (ar_dihedral_types A)))"
  "map_of (artifact_entries A) ''improper_types'' = Some (PList (map styled_dict (ar_improper_types A)))"
  "map_of (artifact_entries A) ''improper_instances'' = Some (PList (map instance_dict (ar_impropers A)))"
  by (simp_all add: artifact_entries_def to_dict_def)

lemma payload_round_trip:
  assumes "artifact_ok A"
  shows "parse_artifact_payload shw (to_dict A) = Inr A"
proof -
  have v: "\<not> (ar_schema_version A \<noteq> 1 \<and> ar_schema_version A \<noteq> 2)" "ar_mol_id A \<noteq> []" "ar_atoms A \<noteq> []"
    using assms by (auto simp: artifact_ok_def)
  have t: "parse_types m p (parse_bond_type shw) (PList (map bond_type_dict xs)) = Inr xs"
    "parse_types m p (parse_angle_type shw) (PList (map angle_type_dict ys)) = Inr ys"
    "parse_types m p (parse_dihedral_type shw) (PList (map styled_dict zs)) = Inr zs"
    "parse_types m p (parse_improper_type shw) (PList (map styled_dict zs)) = Inr zs" for m p xs ys zs
    by (rule types_round_trip; simp only: bond_type_round_trip angle_type_round_trip styled_round_trip)+
  have i: "parse_improper_instances (PList (map instance_dict xs)) = xs" for xs
    using instance_round_trip by (simp add: parse_improper_instances_def)
  have r: "require_keys (artifact_entries A) ROOT_KEYS p = Inr ()" for p
    by (rule require_keys_ok) (simp add: ROOT_KEYS_def dict_has_def artifact_entry)
  have g: "pv_get (artifact_entries A) k = w" if "map_of (artifact_entries A) k = Some w" for k w
    using that by (simp add: pv_get_def)
  have j: "json_get (artifact_entries A) k u = w" "json_item (artifact_entries A) k = Inr w"
    if "map_of (artifact_entries A) k = Some w" for k u w
    using that by (simp_all add: json_get_def dict_get_def json_item_def)
  show ?thesis
    unfolding to_dict_entries parse_artifact_payload_def pyval.case r bind_result_simps json_int_at_def
    by (simp only: g [OF artifact_entry(1)] g [OF artifact_entry(2)] g [OF artifact_entry(3)] g [OF artifact_entry(4)]
        g [OF artifact_entry(5)] g [OF artifact_entry(6)] g [OF artifact_entry(8)] g [OF artifact_entry(11)]
        g [OF artifact_entry(12)] g [OF artifact_entry(13)] g [OF artifact_entry(14)] g [OF artifact_entry(15)]
        g [OF artifact_entry(16)] j(1) [OF artifact_entry(9)] j(1) [OF artifact_entry(10)] j(2) [OF artifact_entry(1)]
        j(2) [OF artifact_entry(7)] bind_result_simps json_simps py_int_of_int map_error_simps v if_False Let_def
        text_simps t i atoms_round_trip [OF v(3)])
      simp
qed

section \<open>File names\<close>

lemma filename_cases:
  assumes "artifact_filename_for s = Inr n" "n \<noteq> []"
  shows "CHR ''/'' \<notin> set (str_strip s) \<and> CHR 0x5C \<notin> set (str_strip s) \<and> \<not> str_contains ''..'' (str_strip s) \<and>
    n = (if suffix ''.json'' (str_lower (str_strip s)) then str_strip s else str_strip s @ ''.json'')"
proof -
  let ?m = "str_strip s"
  have e: "artifact_filename_for s =
      (if ?m = [] then Inr []
       else if CHR ''/'' \<in> set ?m \<or> CHR 0x5C \<in> set ?m \<or> str_contains ''..'' ?m then schema (SeparatorInSource s)
       else Inr (if suffix ''.json'' (str_lower ?m) then ?m else ?m @ ''.json''))"
    by (simp only: artifact_filename_for_def Let_def)
  show ?thesis
  proof (cases "?m = [] \<or> CHR ''/'' \<in> set ?m \<or> CHR 0x5C \<in> set ?m \<or> str_contains ''..'' ?m")
    case True
    then have "artifact_filename_for s = Inr [] \<or> artifact_filename_for s = schema (SeparatorInSource s)"
      unfolding e by (simp only: split: if_split) blast
    then show ?thesis using assms by auto
  next
    case False
    then have "artifact_filename_for s = Inr (if suffix ''.json'' (str_lower ?m) then ?m else ?m @ ''.json'')"
      unfolding e by (simp only: de_Morgan_disj if_False simp_thms)
    with False assms(1) show ?thesis by (simp only: sum.inject) blast
  qed
qed

lemma lower_json: "suffix ''.json'' s \<Longrightarrow> suffix ''.json'' (str_lower s)"
  by (auto simp: suffix_def str_lower_append) (simp add: str_lower_def char_lower_def)

lemma service_name_kept: "suffix ''.json'' s \<Longrightarrow> service_filename_for s = s"
  by (auto simp: service_filename_for_def suffix_def)

section \<open>Application\<close>

lemma atom_mismatch_None:
  "length cs = length as \<Longrightarrow>
    atom_mismatch m cs as = None \<longleftrightarrow> map aa_index cs = map ma_index as \<and> map aa_element cs = map ma_element as"
  by (induction m cs as rule: atom_mismatch.induct) auto

lemma typed_atom_fields [simp]:
  "ma_index (typed_atom c a) = ma_index a" "ma_element (typed_atom c a) = ma_element a"
  "ma_charge (typed_atom c a) = aa_charge c" "ma_ff_type (typed_atom c a) = Some (aa_ff_type c)"
  "ma_charge_defined (typed_atom c a)" "ma_x (typed_atom c a) = ma_x a" "ma_y (typed_atom c a) = ma_y a"
  "ma_z (typed_atom c a) = ma_z a"
  by (simp_all add: typed_atom_def)

lemma map2_typed:
  assumes "length cs = length as"
  shows "map ma_index (map2 typed_atom cs as) = map ma_index as" "map ma_charge (map2 typed_atom cs as) = map aa_charge cs"
    "map ma_ff_type (map2 typed_atom cs as) = map (Some \<circ> aa_ff_type) cs"
    "list_all ma_charge_defined (map2 typed_atom cs as)"
    "map (\<lambda>a. (ma_x a, ma_y a, ma_z a)) (map2 typed_atom cs as) = map (\<lambda>a. (ma_x a, ma_y a, ma_z a)) as"
  using assms by (induction cs as rule: list_induct2) simp_all

lemma apply_artifact_cases:
  "apply_artifact_to_topology W A t = (r, t') \<Longrightarrow>
    (case r of
       Inl _ \<Rightarrow> t' = t
     | Inr ov \<Rightarrow>
         map aa_index (ar_atoms A) = map ma_index (mt_atoms t) \<and> map aa_element (ar_atoms A) = map ma_element (mt_atoms t) \<and>
         length (ar_atoms A) = length (mt_atoms t) \<and> mt_atoms t' = map2 typed_atom (ar_atoms A) (mt_atoms t) \<and>
         mt_bonds t' = mt_bonds t \<and> mt_mol_id t' = mt_mol_id t)"
  by (auto simp: apply_artifact_to_topology_def atom_mismatch_None split: if_splits option.splits)

section \<open>The chain\<close>

named_theorems chain \<open>what the steps of the chain keep\<close>

lemma keep_status_fields [chain]:
  "gw_files (keep_status r w) = gw_files w" "gw_attempts (keep_status r w) = gw_attempts w" "gw_cache (keep_status r w) = gw_cache w"
  by (simp_all add: keep_status_def split: sum.splits)

lemma note_fields [chain]:
  "gw_files (note_failure shw clock s p f w) = gw_files w" "gw_attempts (note_failure shw clock s p f w) = gw_attempts w"
  "gw_files (note_success clock s p w) = gw_files w" "gw_attempts (note_success clock s p w) = gw_attempts w"
  by (simp_all add: note_failure_def note_success_def chain)

lemma complete_at_cong: "gw_files v = gw_files w \<Longrightarrow> complete_at f v = complete_at f w"
  by (simp add: complete_at_def)

lemma complete_at_notes [chain]:
  "complete_at x (note_failure shw clock s p f w) = complete_at x w" "complete_at x (note_success clock s p w) = complete_at x w"
  "complete_at x (w\<lparr>gw_cache := c\<rparr>) = complete_at x w"
  by (simp_all add: complete_at_def chain)

lemma finish_fields:
  assumes "finish_generation shw clock source file profile w = (r, w')"
  shows "gw_attempts w' = gw_attempts w \<and> gw_files w' = gw_files w \<and> (\<forall>s. r = Inr s \<longrightarrow> s = source \<and> complete_at file w')"
  using assms by (auto simp: finish_generation_def chain split: if_splits)

text \<open>What one attempt adds to the list of attempts.\<close>

lemma try_attempts:
  assumes "try_generate gen ff p w = (r, w')"
  shows "(gw_attempts w' = gw_attempts w @ [p] \<or> gw_attempts w' = gw_attempts w \<and> (\<exists>e. r = Inl (GenRaised e))) \<and>
    gw_status w' = gw_status w \<and> gw_cache w' = gw_cache w"
  using assms by (auto simp: try_generate_def Let_def split: sum.splits prod.splits)

definition CHAIN :: "string list" where
  "CHAIN = [''baseline'', ''sqm_robust'', ''fragment_fallback'']"

lemma full_chain_ends:
  assumes "full_chain shw clock gen ff source file w = (r, w')"
  shows "(\<exists>ps. prefix ps CHAIN \<and> gw_attempts w' = gw_attempts w @ ps) \<and> (\<forall>s. r = Inr s \<longrightarrow> s = source \<and> complete_at file w')"
proof -
  obtain r1 w1 where t1: "try_generate gen ff ''baseline'' w = (r1, w1)" by (meson surj_pair)
  note a1 = try_attempts [OF t1]
  let ?fin = "finish_generation shw clock source file"
  have none: "\<exists>ps. prefix ps CHAIN \<and> gw_attempts w1 = gw_attempts w @ ps"
    using a1 by (auto intro: exI [of _ "[]"] exI [of _ "[''baseline'']"] simp: CHAIN_def)
  show ?thesis
  proof (cases r1)
    case (Inr u)
    then have f: "?fin ''baseline'' w1 = (r, w')" using assms by (simp add: full_chain_def Let_def t1)
    show ?thesis using finish_fields [OF f] none by simp
  next
    case (Inl e)
    show ?thesis
    proof (cases "\<exists>f. e = GenFailed f \<and> retryable f")
      case False
      then show ?thesis using assms none by (auto simp: full_chain_def Let_def t1 Inl chain split: gen_error.splits)
    next
      case True
      then obtain f where f: "e = GenFailed f" "retryable f" by blast
      let ?w1 = "note_failure shw clock source ''baseline'' f w1"
      obtain r2 w2 where t2: "try_generate gen ff ''sqm_robust'' ?w1 = (r2, w2)" by (meson surj_pair)
      have b: "gw_attempts w1 = gw_attempts w @ [''baseline'']" using a1 Inl f by auto
      have two: "gw_attempts w2 = gw_attempts w @ [''baseline'', ''sqm_robust''] \<or> gw_attempts w2 = gw_attempts w @ [''baseline'']"
        using try_attempts [OF t2] b by (auto simp: chain)
      then have some: "\<exists>ps. prefix ps CHAIN \<and> gw_attempts w2 = gw_attempts w @ ps"
        by (auto intro: exI [of _ "[''baseline'', ''sqm_robust'']"] exI [of _ "[''baseline'']"] simp: CHAIN_def)
      show ?thesis
      proof (cases r2)
        case Inr2: (Inr u)
        then have g: "?fin ''sqm_robust'' w2 = (r, w')" using assms Inl f by (simp add: full_chain_def Let_def t1 t2)
        show ?thesis using finish_fields [OF g] some by simp
      next
        case Inl2: (Inl e2)
        show ?thesis
        proof (cases "\<exists>g. e2 = GenFailed g")
          case False
          then show ?thesis using assms some by (auto simp: full_chain_def Let_def t1 t2 Inl f Inl2 split: gen_error.splits)
        next
          case True
          then obtain g where g: "e2 = GenFailed g" by blast
          let ?w2 = "note_failure shw clock source ''sqm_robust'' g w2"
          obtain r3 w3 where t3: "try_generate gen ff ''fragment_fallback'' ?w2 = (r3, w3)" by (meson surj_pair)
          have two': "gw_attempts w2 = gw_attempts w @ [''baseline'', ''sqm_robust'']"
            using try_attempts [OF t2] b Inl2 g by (auto simp: chain)
          have three: "\<exists>ps. prefix ps CHAIN \<and> gw_attempts w3 = gw_attempts w @ ps"
            using try_attempts [OF t3] two'
            by (auto simp: chain CHAIN_def intro: exI [of _ CHAIN] exI [of _ "[''baseline'', ''sqm_robust'']"])
          show ?thesis
          proof (cases r3)
            case Inr3: (Inr u)
            then have h: "?fin ''fragment_fallback'' w3 = (r, w')"
              using assms Inl f Inl2 g by (simp add: full_chain_def Let_def t1 t2 t3)
            show ?thesis using finish_fields [OF h] three by simp
          next
            case Inl3: (Inl e3)
            then show ?thesis using assms three
              by (auto simp: full_chain_def Let_def t1 t2 t3 Inl f Inl2 g chain split: gen_error.splits)
          qed
        qed
      qed
    qed
  qed
qed

lemma fragment_first_ends:
  assumes "fragment_first clock gen ff source file w = (done, w')"
  shows "(gw_attempts w' = gw_attempts w @ [''fragment_fallback''] \<or> gw_attempts w' = gw_attempts w) \<and>
    (done \<longrightarrow> complete_at file w')"
proof -
  obtain r1 w1 where t1: "try_generate gen ff ''fragment_fallback'' w = (r1, w1)" by (meson surj_pair)
  show ?thesis using assms try_attempts [OF t1]
    by (auto simp: fragment_first_def Let_def t1 chain split: sum.splits if_splits)
qed

text \<open>Whether the shortcut applies.\<close>

definition shortcut :: "(pyval \<Rightarrow> string) \<Rightarrow> generation_policy \<Rightarrow> molecule_facts \<Rightarrow> string \<Rightarrow> gen_world \<Rightarrow> bool" where
  "shortcut shw P facts source w \<longleftrightarrow>
     (gp_skip_on_prior_failure P \<and> should_skip_to_fragment shw P (gw_status w) source) \<or> should_prescreen_to_fragment P facts"

lemma generate_locked_ends:
  assumes "generate_locked shw clock P gen facts there ff source file w = (r, w')"
  shows "(\<exists>ps qs. (ps = [] \<or> ps = [''fragment_fallback''] \<and> shortcut shw P facts source w) \<and> prefix qs CHAIN \<and>
      gw_attempts w' = gw_attempts w @ ps @ qs) \<and> (\<forall>s. r = Inr s \<longrightarrow> s = source \<and> complete_at file w')"
proof (cases "complete_at file w \<or> \<not> there")
  case True
  then show ?thesis using assms by (auto simp: generate_locked_def split: if_splits)
next
  case False
  show ?thesis
  proof (cases "shortcut shw P facts source w")
    case short: True
    obtain d w1 where f: "fragment_first clock gen ff source file w = (d, w1)" by (meson surj_pair)
    note e = fragment_first_ends [OF f]
    show ?thesis
    proof (cases d)
      case True
      then have "r = Inr source" "w' = w1"
        using assms False short f by (auto simp: generate_locked_def Let_def shortcut_def)
      then show ?thesis using e True short by fastforce
    next
      case no: False
      then have c: "full_chain shw clock gen ff source file w1 = (r, w')"
        using assms False short f by (auto simp: generate_locked_def Let_def shortcut_def)
      from full_chain_ends [OF c] e short show ?thesis by (metis append.assoc append_Nil)
    qed
  next
    case short: False
    then have c: "full_chain shw clock gen ff source file w = (r, w')"
      using assms False short by (auto simp: generate_locked_def Let_def shortcut_def split: if_splits)
    from full_chain_ends [OF c] show ?thesis by (metis append_Nil)
  qed
qed

lemma ensure_complete:
  assumes "ensure_organic_artifact shw clock P gen meanwhile facts there mol_id ff w = (Inr s, w')"
  shows "is_artifact_ready shw mol_id ff (gw_files w') = (True, s)"
proof (cases "complete_at (get_artifact_path shw mol_id (Some ff)) w")
  case True
  then show ?thesis using assms by (auto simp: ensure_organic_artifact_def Let_def is_artifact_ready_def complete_at_def)
next
  case False
  then show ?thesis
    using assms generate_locked_ends [of shw clock P gen facts there ff "resolve_artifact_source_id shw mol_id (Some ff)"
        "get_artifact_path shw mol_id (Some ff)" "w\<lparr>gw_files := meanwhile (gw_files w)\<rparr>" "Inr s" w']
    by (auto simp: ensure_organic_artifact_def Let_def is_artifact_ready_def complete_at_def)
qed

section \<open>The status a chain leaves\<close>

text \<open>The entry of a source in the status directory.\<close>

definition on_record ::
    "(pyval \<Rightarrow> string) \<Rightarrow> gen_world \<Rightarrow> string \<Rightarrow> string \<Rightarrow> string option \<Rightarrow> string \<Rightarrow> bool" where
  "on_record shw w source status code profile \<longleftrightarrow>
     (case status_get shw (gw_status w) source of
        Inr (Some s) \<Rightarrow> st_status s = status \<and> st_failure_code s = code \<and> st_profile s = profile
      | _ \<Rightarrow> False)"

lemma on_record_cache [simp]: "on_record shw (w\<lparr>gw_cache := c\<rparr>) = on_record shw w"
  by (simp add: on_record_def fun_eq_iff)

lemma recorded:
  assumes "path_for source = Inr p" "st_source_id s = source" "st_status s \<in> set VALID_STATUSES" "st_failure_code s \<noteq> Some []"
  shows "on_record shw (keep_status (bind_result (post_init s) (status_write dir)) w) source (st_status s) (st_failure_code s)
    (st_profile s)"
proof -
  let ?s = "s\<lparr>st_stderr := cap_excerpt (st_stderr s)\<rparr>"
  have "status_ok ?s" using assms(3,4) by (simp add: status_ok_def cap_excerpt_length)
  moreover obtain dir' where d: "status_write dir ?s = Inr dir'" using assms(1,2) status_write_iff [of dir ?s] by auto
  ultimately have "status_get shw dir' source = Inr (Some ?s)" using status_get_write [of dir ?s dir' shw] assms(2) by simp
  moreover have "post_init s = Inr ?s" using assms(3) by (simp add: post_init_def)
  ultimately show ?thesis by (simp add: on_record_def keep_status_def d)
qed

lemma note_failure_recorded:
  assumes "path_for source = Inr p"
  shows "on_record shw (note_failure shw clock source profile f w) source ''failed'' (Some (code_value (gf_code f))) profile"
proof -
  obtain e where "status_get shw (gw_status w) source = Inr e" using assms by (auto simp: status_get_def)
  then show ?thesis
    using recorded [OF assms, of "\<lparr>st_source_id = source, st_status = ''failed'', st_failure_code = Some (code_value (gf_code f)),
        st_stage = gf_stage f, st_stderr = gf_stderr f, st_action = [], st_profile = profile, st_generator = [],
        st_preflight = None, st_consumers = map PStr [source], st_last_attempt = Some (clock (length (gw_attempts w))),
        st_last_success = (case e of None \<Rightarrow> None | Some s \<Rightarrow> st_last_success s)\<rparr>" shw "gw_status w" w]
    by (simp add: note_failure_def record_failure_def VALID_STATUSES_def)
qed

lemma note_success_recorded:
  assumes "path_for source = Inr p"
  shows "on_record shw (note_success clock source profile w) source ''complete'' None profile"
  using recorded [OF assms, of "\<lparr>st_source_id = source, st_status = ''complete'', st_failure_code = None, st_stage = [],
      st_stderr = [], st_action = [], st_profile = profile,
      st_generator = (if profile = ''fragment_fallback'' then ''fragment_fallback_gaff2'' else ''antechamber_am1bcc''),
      st_preflight = None, st_consumers = map PStr [source], st_last_attempt = Some (clock (length (gw_attempts w))),
      st_last_success = Some (clock (length (gw_attempts w)))\<rparr>" shw "gw_status w" w]
  by (simp add: note_success_def record_success_def VALID_STATUSES_def)

lemma try_last:
  "try_generate gen ff p w = (Inr u, w') \<Longrightarrow> last (gw_attempts w') = p \<and> gw_attempts w' = gw_attempts w @ [p]"
  "try_generate gen ff p w = (Inl (GenFailed e), w') \<Longrightarrow> last (gw_attempts w') = p \<and> gw_attempts w' = gw_attempts w @ [p]"
  by (auto simp: try_generate_def Let_def split: sum.splits prod.splits)

definition settled_record ::
    "(pyval \<Rightarrow> string) \<Rightarrow> string \<Rightarrow> (ensure_error, string) result \<times> gen_world \<Rightarrow> bool" where
  "settled_record shw source out \<longleftrightarrow>
     (let (r, w) = out in
      case r of
        Inr _ \<Rightarrow> on_record shw w source ''complete'' None (last (gw_attempts w)) \<and> gw_cache w = []
      | Inl (NotRetryable f) \<Rightarrow> on_record shw w source ''failed'' (Some (code_value (gf_code f))) ''baseline''
      | Inl (AllFailed a b c) \<Rightarrow> on_record shw w source ''failed'' (Some (code_value c)) ''fragment_fallback''
      | Inl (StillIncomplete s) \<Rightarrow> on_record shw w source ''failed'' (Some ''parmed_failed'') (last (gw_attempts w))
      | _ \<Rightarrow> True)"

lemma finish_settled:
  assumes "path_for source = Inr p" "last (gw_attempts w) = profile"
  shows "settled_record shw source (finish_generation shw clock source file profile w)"
  using assms note_success_recorded [OF assms(1), of shw clock profile w]
    note_failure_recorded [OF assms(1), of shw clock profile incomplete_failure w]
  by (simp add: settled_record_def finish_generation_def chain incomplete_failure_def generation_error_def)

lemma full_chain_settled:
  assumes "path_for source = Inr p"
  shows "settled_record shw source (full_chain shw clock gen ff source file w)"
proof -
  note fin = finish_settled [OF assms try_last(1) [THEN conjunct1]]
  have out: "settled_record shw source (Inl (NotRetryable e), note_failure shw clock source ''baseline'' e v)"
    "settled_record shw source (Inl (AllFailed a b (gf_code e)), note_failure shw clock source ''fragment_fallback'' e v)"
    "settled_record shw source (Inl (FromGenerator g), v)" "settled_record shw source (Inl (BaselineRaised g), v)"
    "settled_record shw source (Inl (RobustRaised g), v)" "settled_record shw source (Inl (FragmentRaised g), v)" for e a b g v
    by (simp_all add: settled_record_def note_failure_recorded [OF assms])
  show ?thesis
    unfolding full_chain_def Let_def
    by (auto split: prod.split sum.split gen_error.split intro: fin simp: out)
qed

lemma generate_locked_settled:
  assumes "path_for source = Inr p" "\<not> complete_at file w"
  shows "settled_record shw source (generate_locked shw clock P gen facts there ff source file w)"
proof -
  have frag: "settled_record shw source (Inr source, v)" if f: "fragment_first clock gen ff source file u = (True, v)" for u v
  proof -
    obtain r1 w1 where t1: "try_generate gen ff ''fragment_fallback'' u = (r1, w1)" by (meson surj_pair)
    then have "v = (note_success clock source ''fragment_fallback'' w1)\<lparr>gw_cache := []\<rparr>" "\<exists>x. r1 = Inr x"
      using f by (auto simp: fragment_first_def split: sum.splits if_splits)
    then show ?thesis using t1 try_last(1) [of gen ff "''fragment_fallback''" u] note_success_recorded [OF assms(1), of shw]
      by (auto simp: settled_record_def chain)
  qed
  have none: "settled_record shw source (Inl (MolFileMissing source), w)" by (simp add: settled_record_def)
  show ?thesis
    using assms(2) none full_chain_settled [OF assms(1)]
    by (auto simp: generate_locked_def Let_def split: prod.splits intro: frag)
qed

section \<open>Charges\<close>

lemma max_position_in: "max_position key b is \<in> set (b # is)"
  by (induction key b "is" rule: max_position.induct) auto

lemma max_position_greatest: "i \<in> set (b # is) \<Longrightarrow> fst (key i) \<le> fst (key (max_position key b is))"
proof (induction key b "is" arbitrary: i rule: max_position.induct)
  case (2 key best j "is")
  let ?b = "if lex_less (key best) (key j) then j else best"
  have up: "fst (key best) \<le> fst (key ?b)" "fst (key j) \<le> fst (key ?b)" by (auto simp: lex_less_def)
  have top: "fst (key ?b) \<le> fst (key (max_position key ?b is))" using "2.IH" [of ?b] by simp
  show ?case
  proof (cases "i = best \<or> i = j")
    case True
    then show ?thesis using up top by auto
  next
    case False
    then show ?thesis using "2.IH" [of i] "2.prems" by simp
  qed
qed simp

lemma dict_charge_set [simp]: "dict_charge (set_atom_charge q d) = Inr q"
  by (simp add: dict_charge_def set_atom_charge_def json_get_def dict_get_def update_conv')

lemma sum_list_moved: "k < length xs \<Longrightarrow> sum_list (xs[k := q]) = sum_list xs + q - xs ! k" for q :: rat
proof (induction xs arbitrary: k)
  case (Cons x xs)
  then show ?case by (cases k) simp_all
qed simp

lemma total_charge_update:
  assumes "k < length atoms"
  shows "total_charge (atoms[k := set_atom_charge q (atoms ! k)]) = total_charge atoms - projr (dict_charge (atoms ! k)) + q"
proof -
  let ?q = "\<lambda>d. projr (dict_charge d)"
  have "map ?q (atoms[k := set_atom_charge q (atoms ! k)]) = (map ?q atoms)[k := q]" by (simp add: map_update)
  moreover have "sum_list ((map ?q atoms)[k := q]) = sum_list (map ?q atoms) + q - map ?q atoms ! k"
    using sum_list_moved [of k "map ?q atoms" q] assms by simp
  ultimately show ?thesis by (simp add: total_charge_def assms)
qed

lemma map_result_projr: "map_result f xs = Inr ys \<Longrightarrow> ys = map (\<lambda>x. projr (f x)) xs \<and> (\<forall>x\<in>set xs. \<exists>y. f x = Inr y)"
  by (induction xs arbitrary: ys) (auto split: sum.splits)

text \<open>The choice of the atom that takes the residual.\<close>

definition charge_key :: "(string \<times> pyval) list list \<Rightarrow> nat \<Rightarrow> pyfloat \<times> int" where
  "charge_key atoms i = (\<bar>projr (dict_charge (atoms ! i))\<bar>, - projr (dict_index (atoms ! i)))"

definition charge_candidates :: "(pyval \<Rightarrow> string) \<Rightarrow> (string \<times> pyval) list list \<Rightarrow> nat list" where
  "charge_candidates shw atoms =
     (let heavy = filter (\<lambda>i. is_heavy shw (atoms ! i)) [0..<length atoms]
      in if heavy \<noteq> [] then heavy else [0..<length atoms])"

definition residual_atom :: "(pyval \<Rightarrow> string) \<Rightarrow> (string \<times> pyval) list list \<Rightarrow> nat" where
  "residual_atom shw atoms =
     (let c = charge_candidates shw atoms in max_position (charge_key atoms) (hd c) (tl c))"

lemma max_position_cong: "(\<And>i. i \<in> set (b # is) \<Longrightarrow> key i = key' i) \<Longrightarrow> max_position key b is = max_position key' b is"
proof (induction "is" arbitrary: b)
  case (Cons i "is")
  have "key b = key' b" "key i = key' i" using Cons.prems by simp_all
  moreover have "max_position key c is = max_position key' c is" if "c = b \<or> c = i" for c
    using that Cons.prems by (intro Cons.IH) auto
  ultimately show ?case by simp
qed simp

lemma candidates_ok: "atoms \<noteq> [] \<Longrightarrow> charge_candidates shw atoms \<noteq> [] \<and> set (charge_candidates shw atoms) \<subseteq> {..<length atoms}"
  by (auto simp: charge_candidates_def Let_def)

lemma residual_atom_in: "atoms \<noteq> [] \<Longrightarrow> residual_atom shw atoms \<in> set (charge_candidates shw atoms)"
  using candidates_ok [of atoms shw] max_position_in [of "charge_key atoms"]
  by (cases "charge_candidates shw atoms") (auto simp: residual_atom_def Let_def)

lemma residual_atom_less: "atoms \<noteq> [] \<Longrightarrow> residual_atom shw atoms < length atoms"
  using residual_atom_in candidates_ok by fastforce

lemma moved_charge_near:
  assumes "k < length atoms"
  shows "\<bar>target - total_charge (atoms[k := set_atom_charge
      (rounded 6 (projr (dict_charge (atoms ! k)) + (target - total_charge atoms))) (atoms ! k)])\<bar> \<le> 1 / (2 * 10 ^ 6)"
proof -
  let ?q = "projr (dict_charge (atoms ! k)) + (target - total_charge atoms)"
  have "target - total_charge (atoms[k := set_atom_charge (rounded 6 ?q) (atoms ! k)]) = ?q - rounded 6 ?q"
    by (simp add: total_charge_update [OF assms])
  then show ?thesis by (simp only: rounded_near)
qed

text \<open>The routine on readable charges: within the tolerance nothing happens, otherwise one atom takes
  the residual, rounded to six decimals.\<close>

lemma normalize_readable:
  assumes "atoms \<noteq> []" "\<forall>d\<in>set atoms. \<not> isl (dict_charge d) \<and> \<not> isl (dict_index d)" "1 / (2 * 10 ^ 6) \<le> tol"
  shows "normalize_artifact_atom_charges shw tol target atoms =
    (let k = residual_atom shw atoms; q = rounded 6 (projr (dict_charge (atoms ! k)) + (target - total_charge atoms));
         moved = atoms[k := set_atom_charge q (atoms ! k)]
     in if \<bar>target - total_charge atoms\<bar> \<le> tol then Inr (atoms, total_charge atoms) else Inr (moved, total_charge moved))"
proof -
  let ?qs = "map (\<lambda>d. projr (dict_charge d)) atoms" and ?c = "charge_candidates shw atoms"
  let ?k = "residual_atom shw atoms"
  have read: "f d = Inr (projr (f d))" if "\<not> isl (f d)" for f :: "_ \<Rightarrow> (py_error, 'x) result" and d
    using that by simp
  have qs: "map_result dict_charge atoms = Inr ?qs"
    by (rule map_result_map) (use assms(2) in simp)
  have ix: "map_result (\<lambda>i. dict_index (atoms ! i)) ?c = Inr (map (\<lambda>i. projr (dict_index (atoms ! i))) ?c)"
    by (rule map_result_map) (use assms(2) candidates_ok [OF assms(1), of shw] nth_mem in fastforce)
  have k: "?k < length atoms" by (rule residual_atom_less [OF assms(1)])
  have cand: "set ?c \<subseteq> {..<length atoms}" "?c \<noteq> []" using candidates_ok [OF assms(1)] by blast+
  have key: "max_position (\<lambda>i. (\<bar>?qs ! i\<bar>, - projr (dict_index (atoms ! i)))) (hd ?c) (tl ?c) = ?k"
    unfolding residual_atom_def Let_def
    by (rule max_position_cong) (use cand in \<open>auto simp: charge_key_def dest!: subsetD\<close>)
  let ?d = "target - total_charge atoms"
  let ?first = "rounded 6 (projr (dict_charge (atoms ! ?k)) + ?d)"
  let ?moved = "atoms[?k := set_atom_charge ?first (atoms ! ?k)]"
  have tot: "sum_list ?qs = total_charge atoms" by (simp add: total_charge_def)
  have "\<bar>target - total_charge ?moved\<bar> \<le> 1 / (2 * 10 ^ 6)" by (rule moved_charge_near [OF k])
  then have "\<bar>target - total_charge ?moved\<bar> \<le> tol"
    using assms(3) by (rule order_trans)
  then show ?thesis
    unfolding normalize_artifact_atom_charges_def qs map_error_simps bind_result_simps tot Let_def
      charge_candidates_def [unfolded Let_def, symmetric] ix key nth_map [OF k]
    using assms(1) by simp
qed

section \<open>The ionic gate\<close>

definition ionic_passed ::
    "(pyval \<Rightarrow> string) \<Rightarrow> string option \<Rightarrow> yaml_file \<Rightarrow> catalog \<Rightarrow> string \<Rightarrow> string option \<Rightarrow> string option \<Rightarrow> string
      \<Rightarrow> pyval \<Rightarrow> bool" where
  "ionic_passed shw env yaml disk pid aid given mol_id v \<longleftrightarrow>
     env = Some ''1'' \<and>
     (\<exists>C p c. load_ionic_catalog shw yaml = Inr C \<and> ic_global_enabled C \<and> pid \<in> set (ic_enabled_profiles C) \<and>
       map_of (ic_profiles C) pid = Some p \<and> is_active_status p \<and> policy_preconditions_met shw p = [] \<and>
       given = Some c \<and> c \<noteq> [] \<and> pv_truthy (json_get (ip_context p) c (PBool False)) \<and>
       disk (or_default aid mol_id @ ''.json'') = Some (JsonFile v))"

lemma no_blockers:
  "is_activated shw env C pid = [] \<longleftrightarrow> env = Some ''1'' \<and> ic_global_enabled C \<and> pid \<in> set (ic_enabled_profiles C) \<and>
    (\<exists>p. map_of (ic_profiles C) pid = Some p \<and> is_active_status p \<and> policy_preconditions_met shw p = [])"
  by (simp add: is_activated_def is_environment_activated_def split: option.splits)

lemma assign_ionic_cases:
  "assign_ionic shw weights env yaml disk pid aid given t = (r, t') \<Longrightarrow>
    (isl r \<and> t' = t) \<or> (\<exists>v. ionic_passed shw env yaml disk pid aid given (mt_mol_id t) v \<and>
      apply_ionic_artifact shw weights v t = (r, t'))"
  by (auto simp: assign_ionic_def Let_def ionic_passed_def no_blockers truthy_def or_default_def
      split: if_splits sum.splits option.splits json_file.splits)

lemma type_atoms_keep:
  "map ma_index (snd (type_atoms shw cs as)) = map ma_index as \<and> map ma_element (snd (type_atoms shw cs as)) = map ma_element as"
  by (induction shw cs as rule: type_atoms.induct) (auto simp: Let_def split: sum.splits prod.splits)

lemma apply_ionic_keeps:
  assumes "apply_ionic_artifact shw weights v t = (r, t')"
  shows "mt_bonds t' = mt_bonds t \<and> map ma_index (mt_atoms t') = map ma_index (mt_atoms t) \<and>
    map ma_element (mt_atoms t') = map ma_element (mt_atoms t) \<and> (\<forall>e. r = Inl e \<longrightarrow> t' = t \<or> (\<exists>x. e = IonicEscaped x))"
proof (cases "\<exists>es. bind_result (json_object_of v) (\<lambda>d. json_iter (json_get d ''atoms'' (PList []))) = Inr es \<and>
    length es = length (mt_atoms t)")
  case True
  then obtain es where e: "bind_result (json_object_of v) (\<lambda>d. json_iter (json_get d ''atoms'' (PList []))) = Inr es"
    "length es = length (mt_atoms t)" by blast
  obtain q as where a: "type_atoms shw es (mt_atoms t) = (q, as)" by (meson surj_pair)
  then have "map ma_index as = map ma_index (mt_atoms t) \<and> map ma_element as = map ma_element (mt_atoms t)"
    using type_atoms_keep [of shw es "mt_atoms t"] by simp
  then show ?thesis using assms by (auto simp: apply_ionic_artifact_def e a map_error_def split: sum.splits)
next
  case False
  then show ?thesis using assms by (auto simp: apply_ionic_artifact_def split: sum.splits if_splits)
qed

section \<open>A small artifact\<close>

definition water_like :: artifact where
  "water_like =
     \<lparr>ar_schema_version = 2, ar_mol_id = ''OH'', ar_generator = ''manual'', ar_generator_version = ''1'', ar_provenance = [],
      ar_smiles = ''O'', ar_formal_charge = 0, ar_topology_hash = ''h'',
      ar_atoms = [\<lparr>aa_index = 1, aa_element = ''O'', aa_ff_type = ''oh'', aa_charge = - 2 / 5, aa_epsilon = Some (1 / 5),
                   aa_sigma = Some 3\<rparr>,
                  \<lparr>aa_index = 2, aa_element = ''H'', aa_ff_type = ''ho'', aa_charge = 2 / 5, aa_epsilon = Some 0,
                   aa_sigma = Some 0\<rparr>],
      ar_bond_types = [\<lparr>ab_key = ''ho-oh'', ab_k = 500, ab_r0 = 1\<rparr>], ar_angle_types = [], ar_dihedral_types = [],
      ar_improper_types = [], ar_impropers = [], ar_ff_family = ''organic_gaff2'', ar_charge_model = ''am1_bcc''\<rparr>"

lemma water_like_ok: "artifact_ok water_like"
  by (simp add: artifact_ok_def water_like_def)

end
