(* ===== verification/LammpsDataProps.thy ===== *)
theory LammpsDataProps
  imports LammpsData TopologyProps
begin

text \<open>
  What the writer of data files writes, the reader reads back: every section with every
  entity, numbers rounded to the printed decimals, comments aside. The titles and comments
  must not contain the keywords the reader looks for.
\<close>

section \<open>Words and keywords\<close>

definition KEYWORDS :: "string list" where
  "KEYWORDS = [''atoms'', ''atom types'', ''bond types'', ''angle types'', ''dihedral types'', ''improper types'',
     ''xlo xhi'', ''ylo yhi'', ''zlo zhi'']"

definition no_keyword :: "string \<Rightarrow> bool" where
  "no_keyword s \<longleftrightarrow> list_all (\<lambda>k. \<not> str_contains k s) KEYWORDS"

text \<open>A text without the letters keywords start with.\<close>

definition letterless :: "string \<Rightarrow> bool" where
  "letterless s \<longleftrightarrow> list_all (\<lambda>c. (of_char c :: nat) < 65) s"

lemma contains_append:
  assumes "k \<noteq> []" "hd k \<notin> set u"
  shows "str_contains k (u @ s) = str_contains k s"
  using assms
proof (induction u)
  case (Cons c u)
  have "\<not> prefix k (c # u @ s)" using Cons.prems by (cases k) auto
  with Cons show ?case by simp
qed simp

lemma keyword_letter: "k \<in> set KEYWORDS \<Longrightarrow> k \<noteq> [] \<and> (of_char (hd k) :: nat) \<ge> 65"
  by (auto simp: KEYWORDS_def)

lemma letterless_keyword: "letterless u \<Longrightarrow> k \<in> set KEYWORDS \<Longrightarrow> str_contains k (u @ s) = str_contains k s"
  using keyword_letter [of k] by (intro contains_append) (auto simp: letterless_def list_all_iff)

lemma letterless_no_keyword: "letterless u \<Longrightarrow> no_keyword (u @ s) = no_keyword s"
  by (simp add: no_keyword_def list_all_iff letterless_keyword)

lemma strip_sub: "sublist (str_strip s) s"
proof -
  let ?t = "dropWhile is_space s"
  have "sublist (str_strip s) ?t"
    unfolding str_strip_def by (metis rev_append rev_rev_ident sublist_appendI sublist_append_rightI sublist_order.order_refl takeWhile_dropWhile_id prefix_imp_sublist prefixI)
  moreover have "sublist ?t s" by (metis sublist_append_leftI takeWhile_dropWhile_id)
  ultimately show ?thesis by (rule sublist_order.order_trans)
qed

lemma contains_strip: "str_contains k (str_strip s) \<Longrightarrow> str_contains k s"
  using strip_sub [of s] unfolding str_contains_iff by (blast intro: sublist_order.order_trans)

lemma no_keyword_strip: "no_keyword s \<Longrightarrow> no_keyword (str_strip s)"
  using contains_strip by (auto simp: no_keyword_def list_all_iff)

lemma letterless_append [simp]: "letterless (s @ t) = (letterless s \<and> letterless t)"
  by (simp add: letterless_def)

lemma letterless_simps [simp]: "letterless []" "letterless (c # s) = ((of_char c :: nat) < 65 \<and> letterless s)"
  by (simp_all add: letterless_def)

lemma is_digit_small: "is_digit c \<Longrightarrow> (of_char c :: nat) < 65"
  by (auto simp: is_digit_def Let_def)

lemma letterless_show_nat [simp]: "letterless (show_nat n)"
  using show_nat_digits [of n] by (auto simp: letterless_def list_all_iff is_digit_small)

lemma letterless_show_int [simp]: "letterless (show_int n)"
  by (simp add: show_int_def)

lemma letterless_show_fixed [simp]: "letterless (show_fixed k x)"
  using num_char_not_letter by (fastforce simp: show_fixed_def letterless_def list_all_iff dest!: show_scaled_chars)

lemma letterless_join: "\<forall>w\<in>set ws. letterless w \<Longrightarrow> letterless (sp ws)"
  unfolding sp_def by (induction blank ws rule: join_with.induct) (simp_all add: blank_def)

section \<open>Lines with a payload\<close>

text \<open>The lines that are data: a numeric word in front, and no keyword.\<close>

definition numeric :: "string \<Rightarrow> bool" where
  "numeric w \<longleftrightarrow> word w \<and> letterless w \<and> hd w \<noteq> CHR ''#''"

lemma numeric_show_int [simp]: "numeric (show_int n)"
proof -
  have "hd (show_int n) = CHR ''-'' \<or> is_digit (hd (show_int n))"
    using show_nat_head_word [of "nat n"] by (simp add: show_int_def)
  then have "hd (show_int n) \<noteq> CHR ''#''" by (auto simp: is_digit_def)
  then show ?thesis by (simp add: numeric_def)
qed

lemma numeric_show_nat [simp]: "numeric (show_nat n)"
  using numeric_show_int [of "int n"] by (simp add: show_int_def)

lemma header_match_numeric:
  assumes "numeric u" "\<forall>h\<in>set hs. h \<noteq> [] \<and> (of_char (hd h) :: nat) \<ge> 65"
  shows "header_match hs (u @ s) = None"
proof -
  obtain c t where u: "u = c # t" "(of_char c :: nat) < 65"
    using assms(1) by (cases u) (auto simp: numeric_def word_def)
  have "\<not> (u @ s = h \<or> prefix (h @ '' '') (u @ s))" if h: "h \<in> set hs" for h
  proof -
    obtain d v where "h = d # v" "(of_char d :: nat) \<ge> 65" using assms(2) h by (cases h) auto
    with u show ?thesis by auto
  qed
  then show ?thesis by (simp add: header_match_def find_None_all)
qed

lemma sections_letters:
  "\<forall>h\<in>set COEFF_SECTIONS. h \<noteq> [] \<and> (of_char (hd h) :: nat) \<ge> 65"
  "\<forall>h\<in>set DATA_SECTIONS. h \<noteq> [] \<and> (of_char (hd h) :: nat) \<ge> 65"
  by (auto simp: COEFF_SECTIONS_def DATA_SECTIONS_def)

lemma no_keywordD:
  assumes "no_keyword s"
  shows "\<not> str_contains ''atoms'' s" "\<not> str_contains ''atom types'' s" "\<not> str_contains ''bond types'' s"
    "\<not> str_contains ''angle types'' s" "\<not> str_contains ''dihedral types'' s" "\<not> str_contains ''improper types'' s"
    "\<not> str_contains ''xlo xhi'' s" "\<not> str_contains ''ylo yhi'' s" "\<not> str_contains ''zlo zhi'' s"
  using assms unfolding no_keyword_def KEYWORDS_def by (simp_all del: str_contains.simps)

lemma read_header:
  assumes "no_keyword (str_strip line)" "str_strip line \<noteq> []" "\<not> prefix ''#'' (str_strip line)"
  shows "read_line line R = Inr (header_step (str_strip line) R)"
  using assms no_keywordD [OF assms(1)] unfolding read_line_def Let_def by (simp del: str_contains.simps)

lemma read_payload:
  assumes "numeric u" "no_keyword (u @ s)"
  shows "read_line (u @ s) R = Inr (payload_step (str_strip (u @ s)) R)"
proof -
  have w: "word u" using assms(1) by (simp add: numeric_def)
  obtain t where t: "str_strip (u @ s) = u @ t" using str_strip_head [OF w] by blast
  have "u \<noteq> []" "hd u \<noteq> CHR ''#''" using assms(1) by (auto simp: numeric_def word_def)
  then have "\<not> prefix ''#'' (u @ t)" "u @ t \<noteq> []" by (cases u; simp)+
  then have "read_line (u @ s) R = Inr (header_step (str_strip (u @ s)) R)"
    using no_keyword_strip [OF assms(2)] by (intro read_header) (simp_all add: t)
  then show ?thesis
    by (simp add: header_step_def t header_match_numeric [OF assms(1)] sections_letters)
qed

text \<open>A line of words, all numbers.\<close>

lemma read_words:
  assumes "numeric u" "\<forall>w\<in>set ws. word w \<and> letterless w"
  shows "read_line (sp (u # ws)) R = Inr (payload_step (str_strip (sp (u # ws))) R)"
proof (cases ws)
  case Nil
  have "no_keyword (u @ [])" using letterless_no_keyword [of u "[]"] assms(1)
    by (simp add: numeric_def) (simp add: no_keyword_def KEYWORDS_def)
  from read_payload [OF assms(1) this] show ?thesis by (simp add: Nil sp_def)
next
  case (Cons w vs)
  have e: "sp (u # ws) = u @ blank # sp ws" by (simp add: Cons sp_def)
  have "letterless (u @ blank # sp ws)"
    using assms letterless_join [of ws] by (simp add: numeric_def blank_def)
  then have "no_keyword (u @ blank # sp ws)"
    using letterless_no_keyword [of "u @ blank # sp ws" "[]"] by (simp add: no_keyword_def KEYWORDS_def)
  from read_payload [OF assms(1) this] show ?thesis by (simp only: e)
qed

lemma split_words: "\<forall>w\<in>set ws. word w \<Longrightarrow> py_split (str_strip (sp ws)) = ws"
  by (simp add: sp_def py_split_join)

section \<open>Blocks\<close>

text \<open>A comment the reader does not stumble over.\<close>

definition plain_comment :: "string \<Rightarrow> bool" where
  "plain_comment c \<longleftrightarrow> no_keyword c \<and> one_line c"

lemma fold_append:
  assumes "\<And>x R. x \<in> set xs \<Longrightarrow> P R \<Longrightarrow> f x R = Inr (g x R) \<and> P (g x R)" "P R"
  shows "fold_result f xs R = Inr (fold g xs R)"
  using assms by (induction xs arbitrary: R) auto

lemma blank_line: "read_line [] R = Inr (blank_step R)"
  by (simp add: read_line_def)

lemma no_keyword_headers:
  "no_keyword ''Masses''" "no_keyword ''Pair Coeffs''" "no_keyword ''Bond Coeffs''" "no_keyword ''Angle Coeffs''"
  "no_keyword ''Dihedral Coeffs''" "no_keyword ''Improper Coeffs''" "no_keyword ''Atoms''" "no_keyword ''Bonds''"
  "no_keyword ''Angles''" "no_keyword ''Dihedrals''" "no_keyword ''Impropers''"
  by code_simp+

definition coeff_open :: "string \<Rightarrow> reader \<Rightarrow> reader" where
  "coeff_open h R = (flush_coeff R)\<lparr>rd_section := None, rd_coeff := Some h, rd_lines := []\<rparr>"

lemma header_lines:
  "h \<in> set COEFF_SECTIONS \<Longrightarrow> read_line h R = Inr (coeff_open h R)"
  "h \<in> set DATA_SECTIONS \<Longrightarrow> h \<noteq> ''Velocities'' \<Longrightarrow> read_line h R = Inr ((flush_coeff R)\<lparr>rd_section := Some h\<rparr>)"
proof -
  have strips: "str_strip ''Masses'' = ''Masses''" "str_strip ''Pair Coeffs'' = ''Pair Coeffs''"
    "str_strip ''Bond Coeffs'' = ''Bond Coeffs''" "str_strip ''Angle Coeffs'' = ''Angle Coeffs''"
    "str_strip ''Dihedral Coeffs'' = ''Dihedral Coeffs''" "str_strip ''Improper Coeffs'' = ''Improper Coeffs''"
    "str_strip ''Atoms'' = ''Atoms''" "str_strip ''Bonds'' = ''Bonds''" "str_strip ''Angles'' = ''Angles''"
    "str_strip ''Dihedrals'' = ''Dihedrals''" "str_strip ''Impropers'' = ''Impropers''" by code_simp+
  note rh = read_header
  show "h \<in> set COEFF_SECTIONS \<Longrightarrow> read_line h R = Inr (coeff_open h R)"
    unfolding COEFF_SECTIONS_def
    by (auto simp: strips no_keyword_headers rh header_step_def header_match_def COEFF_SECTIONS_def coeff_open_def)
  show "h \<in> set DATA_SECTIONS \<Longrightarrow> h \<noteq> ''Velocities'' \<Longrightarrow> read_line h R = Inr ((flush_coeff R)\<lparr>rd_section := Some h\<rparr>)"
    unfolding DATA_SECTIONS_def
    by (auto simp: strips no_keyword_headers rh header_step_def header_match_def COEFF_SECTIONS_def DATA_SECTIONS_def)
qed

text \<open>A line with a number in front and a comment behind.\<close>

definition coeff_line :: "string \<Rightarrow> bool" where
  "coeff_line l \<longleftrightarrow> (\<exists>u ws c. numeric u \<and> (\<forall>w\<in>set ws. word w \<and> letterless w) \<and> plain_comment c \<and> l = with_comment (sp (u # ws)) c)"

lemma sp_Cons: "\<exists>t. sp (u # ws) = u @ t \<and> (letterless (sp ws) \<longrightarrow> letterless t)"
  by (cases ws) (auto simp: sp_def blank_def)

text \<open>A line that is data to the reader, whatever stands behind the number.\<close>

definition payload_line :: "string \<Rightarrow> bool" where
  "payload_line l \<longleftrightarrow> (\<exists>u s. l = u @ s \<and> numeric u \<and> no_keyword l)"

lemma read_payload_line: "payload_line l \<Longrightarrow> read_line l R = Inr (payload_step (str_strip l) R)"
  using read_payload by (auto simp: payload_line_def)

lemma coeff_payload:
  assumes "coeff_line l"
  shows "payload_line l"
proof -
  obtain u ws c where l: "numeric u" "\<forall>w\<in>set ws. word w \<and> letterless w" "plain_comment c" "l = with_comment (sp (u # ws)) c"
    using assms unfolding coeff_line_def by blast
  obtain t where t: "sp (u # ws) = u @ t" "letterless t" using sp_Cons [of u ws] letterless_join [of ws] l(2) by blast
  have e: "l = u @ (t @ ''  # '' @ c)" by (simp add: l(4) with_comment_def t(1))
  have "letterless ((u @ t) @ ''  # '')" using l(1) t(2) by (simp add: numeric_def)
  then have "no_keyword (((u @ t) @ ''  # '') @ c)"
    using letterless_no_keyword l(3) by (simp only: plain_comment_def)
  then have "no_keyword l" by (simp add: e)
  then show ?thesis unfolding payload_line_def using e l(1) by blast
qed

lemma split_comment: "\<forall>w\<in>set ws. word w \<Longrightarrow> ws \<noteq> [] \<Longrightarrow> \<exists>vs. py_split (str_strip (with_comment (sp ws) c)) = ws @ vs"
proof -
  assume w: "\<forall>w\<in>set ws. word w" "ws \<noteq> []"
  have "with_comment (sp ws) c = join_with blank ws @ blank # ('' # '' @ c)"
    by (simp add: with_comment_def sp_def blank_def)
  then show ?thesis using py_split_join_rest [OF w] by auto
qed

text \<open>A block of coefficients is captured as it is.\<close>

definition idle :: "reader \<Rightarrow> bool" where
  "idle R \<longleftrightarrow> rd_section R = None \<and> rd_coeff R = None \<and> rd_lines R = []"

lemma flush_idle: "rd_coeff R = None \<Longrightarrow> rd_lines R = [] \<Longrightarrow> flush_coeff R = R"
  by (cases R) (simp add: flush_coeff_def)

lemma captured_lines:
  "list_all payload_line ls \<Longrightarrow> rd_coeff R \<noteq> None \<Longrightarrow>
    fold_result read_line ls R = Inr (R\<lparr>rd_lines := rd_lines R @ map str_strip ls\<rparr>)"
proof (induction ls arbitrary: R)
  case (Cons l ls)
  then have "read_line l R = Inr (R\<lparr>rd_lines := rd_lines R @ [str_strip l]\<rparr>)"
    by (simp add: read_payload_line payload_step_def)
  with Cons show ?case by simp
qed simp

lemma read_coeff_block:
  assumes "h \<in> set COEFF_SECTIONS" "list_all payload_line ls" "ls \<noteq> []" "idle R"
  shows "fold_result read_line (block h ls) R =
    Inr (R\<lparr>rd_raw := dict_set h (join_with newline (map str_strip ls)) (rd_raw R)\<rparr>)"
proof -
  have c: "coeff_open h R = R\<lparr>rd_coeff := Some h\<rparr>"
    using assms(4) by (cases R) (simp add: coeff_open_def idle_def flush_idle)
  have b: "blank_step (R\<lparr>rd_coeff := Some h\<rparr>) = R\<lparr>rd_coeff := Some h\<rparr>"
    using assms(4) by (simp add: blank_step_def idle_def)
  have "blank_step (R\<lparr>rd_coeff := Some h, rd_lines := map str_strip ls\<rparr>) =
      R\<lparr>rd_raw := dict_set h (join_with newline (map str_strip ls)) (rd_raw R)\<rparr>"
    using assms(3,4) by (cases R) (simp add: blank_step_def idle_def flush_coeff_def)
  with assms show ?thesis
    by (simp add: block_def header_lines fold_result_append captured_lines c b blank_line idle_def)
qed

section \<open>Entities\<close>

lemma all_some_map: "\<forall>x\<in>set xs. f x = Some (g x) \<Longrightarrow> all_some (map f xs) = Some (map g xs)"
  by (induction xs) simp_all

definition read_atom :: "top_atom \<Rightarrow> data_atom" where
  "read_atom a =
     (let (x, y, z) = ta_pos a
      in \<lparr>da_id = ta_id a, da_mol = ta_mol a, da_type = ta_type a, da_charge = rounded 6 (ta_charge a),
          da_pos = (rounded 6 x, rounded 6 y, rounded 6 z)\<rparr>)"

lemma parse_atom_words: "parse_atom (atom_words a) = Some (read_atom a)"
  by (cases "ta_pos a") (simp add: parse_atom_def atom_words_def read_atom_def int_of_show_int float_of_show_fixed)

lemma parse_link_words: "length (lk_atoms l) = k \<Longrightarrow> parse_link k (link_words l) = Some l"
proof -
  assume k: "length (lk_atoms l) = k"
  have "link_words l = map show_int (lk_id l # lk_type l # lk_atoms l)" by (simp add: link_words_def)
  moreover have "all_some (map py_int_of (map show_int is)) = Some is" for "is"
    by (induction "is") (simp_all add: int_of_show_int)
  ultimately have "all_some (map py_int_of (take (k + 2) (link_words l))) = Some (lk_id l # lk_type l # lk_atoms l)"
    using k by (metis add_2_eq_Suc' length_Cons length_map take_all le_refl)
  with k show ?thesis by (simp add: parse_link_def link_words_def)
qed

lemma atom_words_ok: "\<exists>ws. atom_words a = show_int (ta_id a) # ws \<and> (\<forall>w\<in>set ws. word w \<and> letterless w)"
  by (cases "ta_pos a") (simp add: atom_words_def)

lemma link_words_ok: "\<exists>ws. link_words l = show_int (lk_id l) # ws \<and> (\<forall>w\<in>set ws. word w \<and> letterless w)"
  by (simp add: link_words_def)

lemma atom_words_split: "py_split (sp (atom_words a)) = atom_words a"
  using split_words [of "atom_words a"] by (cases "ta_pos a") (simp add: atom_words_def)

lemma link_words_split: "py_split (sp (link_words l)) = link_words l"
  using split_words [of "link_words l"] by (simp add: link_words_def)

lemma open_section:
  "h \<in> set DATA_SECTIONS \<Longrightarrow> h \<noteq> ''Velocities'' \<Longrightarrow> idle R \<Longrightarrow> read_line h R = Inr (R\<lparr>rd_section := Some h\<rparr>)"
  by (simp add: header_lines idle_def flush_idle)

lemma idle_fields: "idle R \<Longrightarrow> R\<lparr>rd_section := None\<rparr> = R"
  by (cases R) (simp add: idle_def)

text \<open>A section whose entities are collected in one field of the reader.\<close>

locale data_section =
  fixes sec :: string and get :: "reader \<Rightarrow> 'a list" and upd :: "'a list \<Rightarrow> reader \<Rightarrow> reader"
    and parse :: "string list \<Rightarrow> 'a option"
  assumes sec: "sec \<in> set DATA_SECTIONS \<and> sec \<noteq> ''Velocities''"
    and step: "section_step sec s R = upd (append_some (parse (py_split s)) (get R)) R"
    and get_upd: "get (upd xs R) = xs" and upd_upd: "upd xs (upd ys R) = upd xs R" and upd_get: "upd (get R) R = R"
    and get_section: "get (R\<lparr>rd_section := o1\<rparr>) = get R"
    and upd_section: "(upd xs R)\<lparr>rd_section := o1\<rparr> = upd xs (R\<lparr>rd_section := o1\<rparr>)"
    and keeps: "rd_section (upd xs R) = rd_section R" "rd_coeff (upd xs R) = rd_coeff R" "rd_lines (upd xs R) = rd_lines R"
    and data: "has_data R sec \<longleftrightarrow> get R \<noteq> []"
begin

lemma read_entities:
  assumes "\<And>x. x \<in> set xs \<Longrightarrow> (\<exists>u ws. words_of x = u # ws \<and> numeric u \<and> (\<forall>w\<in>set ws. word w \<and> letterless w)) \<and>
      py_split (sp (words_of x)) = words_of x \<and> parse (words_of x) = Some (img x)"
    and "rd_section R = Some sec" "rd_coeff R = None"
  shows "fold_result read_line (map (\<lambda>x. sp (words_of x)) xs) R = Inr (upd (get R @ map img xs) R)"
  using assms
proof (induction xs arbitrary: R)
  case (Cons x xs)
  obtain u ws where w: "words_of x = u # ws" "numeric u" "\<forall>w\<in>set ws. word w \<and> letterless w"
    and p: "py_split (sp (words_of x)) = words_of x" "parse (words_of x) = Some (img x)"
    using Cons.prems(1) [of x] by auto
  have "read_line (sp (words_of x)) R = Inr (payload_step (str_strip (sp (words_of x))) R)"
    unfolding w(1) by (rule read_words [OF w(2,3)])
  also have "payload_step (str_strip (sp (words_of x))) R = upd (get R @ [img x]) R"
    using Cons.prems(2,3) p by (simp add: payload_step_def step append_some_def)
  finally show ?case
    using Cons.IH [of "upd (get R @ [img x]) R"] Cons.prems by (simp add: keeps get_upd upd_upd)
qed (simp add: upd_get)

lemma read_block:
  assumes "\<And>x. x \<in> set xs \<Longrightarrow> (\<exists>u ws. words_of x = u # ws \<and> numeric u \<and> (\<forall>w\<in>set ws. word w \<and> letterless w)) \<and>
      py_split (sp (words_of x)) = words_of x \<and> parse (words_of x) = Some (img x)"
    and "idle R" "get R = []" "xs \<noteq> []"
  shows "fold_result read_line (block sec (map (\<lambda>x. sp (words_of x)) xs)) R = Inr (upd (map img xs) R)"
proof -
  let ?R = "R\<lparr>rd_section := Some sec\<rparr>"
  have i: "rd_coeff R = None" "rd_lines R = []" using assms(2) by (simp_all add: idle_def)
  have b: "blank_step ?R = ?R" using assms(3) i by (simp add: blank_step_def data get_section)
  have run: "fold_result read_line (map (\<lambda>x. sp (words_of x)) xs) ?R = Inr (upd (map img xs) ?R)"
    using read_entities [of xs words_of img ?R, OF assms(1)] assms(3) i by (simp add: get_section)
  have "blank_step (upd (map img xs) ?R) = (upd (map img xs) ?R)\<lparr>rd_section := None\<rparr>"
    using i assms(4) by (simp add: blank_step_def keeps data get_upd)
  also have "\<dots> = upd (map img xs) R" using idle_fields [OF assms(2)] by (simp add: upd_section)
  finally show ?thesis
    using sec assms(2) b run by (simp add: block_def open_section fold_result_append blank_line)
qed

lemma read_block_if:
  assumes "\<And>x. x \<in> set xs \<Longrightarrow> (\<exists>u ws. words_of x = u # ws \<and> numeric u \<and> (\<forall>w\<in>set ws. word w \<and> letterless w)) \<and>
      py_split (sp (words_of x)) = words_of x \<and> parse (words_of x) = Some (img x)"
    and "idle R" "get R = []"
  shows "fold_result read_line (block_if (xs \<noteq> []) sec (map (\<lambda>x. sp (words_of x)) xs)) R = Inr (upd (map img xs) R)"
proof (cases "xs = []")
  case True
  then show ?thesis using upd_get [of R] assms(3) by (simp add: block_if_def)
next
  case False
  then show ?thesis using read_block [of xs words_of img R, OF assms] by (simp add: block_if_def)
qed

end

interpretation atom_section: data_section "''Atoms''" rd_atoms "\<lambda>xs R. R\<lparr>rd_atoms := xs\<rparr>" parse_atom
  by unfold_locales (auto simp: DATA_SECTIONS_def section_step_def Let_def has_data_def)

interpretation bond_section: data_section "''Bonds''" rd_bonds "\<lambda>xs R. R\<lparr>rd_bonds := xs\<rparr>" "parse_link 2"
  by unfold_locales (auto simp: DATA_SECTIONS_def section_step_def Let_def has_data_def)

interpretation angle_section: data_section "''Angles''" rd_angles "\<lambda>xs R. R\<lparr>rd_angles := xs\<rparr>" "parse_link 3"
  by unfold_locales (auto simp: DATA_SECTIONS_def section_step_def Let_def has_data_def)

interpretation dihedral_section: data_section "''Dihedrals''" rd_dihedrals "\<lambda>xs R. R\<lparr>rd_dihedrals := xs\<rparr>" "parse_link 4"
  by unfold_locales (auto simp: DATA_SECTIONS_def section_step_def Let_def has_data_def)

interpretation improper_section: data_section "''Impropers''" rd_impropers "\<lambda>xs R. R\<lparr>rd_impropers := xs\<rparr>" "parse_link 4"
  by unfold_locales (auto simp: DATA_SECTIONS_def section_step_def Let_def has_data_def)

lemma link_entity:
  "length (lk_atoms l) = k \<Longrightarrow> (\<exists>u ws. link_words l = u # ws \<and> numeric u \<and> (\<forall>w\<in>set ws. word w \<and> letterless w)) \<and>
    py_split (sp (link_words l)) = link_words l \<and> parse_link k (link_words l) = Some (id l)"
  using link_words_ok [of l] by (auto simp: link_words_split parse_link_words)

lemma atom_entity:
  "(\<exists>u ws. atom_words a = u # ws \<and> numeric u \<and> (\<forall>w\<in>set ws. word w \<and> letterless w)) \<and>
    py_split (sp (atom_words a)) = atom_words a \<and> parse_atom (atom_words a) = Some (read_atom a)"
  using atom_words_ok [of a] by (auto simp: atom_words_split parse_atom_words)

definition arity :: "nat \<Rightarrow> link list \<Rightarrow> bool" where
  "arity k ls \<longleftrightarrow> list_all (\<lambda>l. length (lk_atoms l) = k) ls"

text \<open>The five sections in the order of the file; a section without entities is left out.\<close>

lemma read_entity_lines:
  assumes "idle R" "rd_atoms R = []" "rd_bonds R = []" "rd_angles R = []" "rd_dihedrals R = []" "rd_impropers R = []"
    "arity 2 (sy_bonds sy)" "arity 3 (sy_angles sy)" "arity 4 (sy_dihedrals sy)" "arity 4 (sy_impropers sy)"
  shows "fold_result read_line (entity_lines sy) R =
    Inr (R\<lparr>rd_atoms := map read_atom (sy_atoms sy), rd_bonds := sy_bonds sy, rd_angles := sy_angles sy,
           rd_dihedrals := sy_dihedrals sy, rd_impropers := sy_impropers sy\<rparr>)"
proof -
  let ?R1 = "R\<lparr>rd_atoms := map read_atom (sy_atoms sy)\<rparr>"
  let ?R2 = "?R1\<lparr>rd_bonds := sy_bonds sy\<rparr>" let ?R3 = "?R2\<lparr>rd_angles := sy_angles sy\<rparr>"
  let ?R4 = "?R3\<lparr>rd_dihedrals := sy_dihedrals sy\<rparr>"
  let ?L = "\<lambda>ls. map (\<lambda>l. sp (link_words l)) ls"
  have ar: "\<And>l. l \<in> set (sy_bonds sy) \<Longrightarrow> length (lk_atoms l) = 2" "\<And>l. l \<in> set (sy_angles sy) \<Longrightarrow> length (lk_atoms l) = 3"
    "\<And>l. l \<in> set (sy_dihedrals sy) \<Longrightarrow> length (lk_atoms l) = 4" "\<And>l. l \<in> set (sy_impropers sy) \<Longrightarrow> length (lk_atoms l) = 4"
    using assms(7-10) by (simp_all add: arity_def list_all_iff)
  have idle: "idle ?R1" "idle ?R2" "idle ?R3" "idle ?R4" using assms(1) by (simp_all add: idle_def)
  have 1: "fold_result read_line (block_if (sy_atoms sy \<noteq> []) ''Atoms'' (map (\<lambda>a. sp (atom_words a)) (sy_atoms sy))) R = Inr ?R1"
    by (rule atom_section.read_block_if [OF atom_entity assms(1,2)])
  have 2: "fold_result read_line (block_if (sy_bonds sy \<noteq> []) ''Bonds'' (?L (sy_bonds sy))) ?R1 = Inr ?R2"
    using bond_section.read_block_if [of "sy_bonds sy" link_words id, OF link_entity [OF ar(1)] idle(1)] assms(3) by simp
  have 3: "fold_result read_line (block_if (sy_angles sy \<noteq> []) ''Angles'' (?L (sy_angles sy))) ?R2 = Inr ?R3"
    using angle_section.read_block_if [of "sy_angles sy" link_words id, OF link_entity [OF ar(2)] idle(2)] assms(4) by simp
  have 4: "fold_result read_line (block_if (sy_dihedrals sy \<noteq> []) ''Dihedrals'' (?L (sy_dihedrals sy))) ?R3 = Inr ?R4"
    using dihedral_section.read_block_if [of "sy_dihedrals sy" link_words id, OF link_entity [OF ar(3)] idle(3)] assms(5) by simp
  have 5: "fold_result read_line (block_if (sy_impropers sy \<noteq> []) ''Impropers'' (?L (sy_impropers sy))) ?R4 =
      Inr (?R4\<lparr>rd_impropers := sy_impropers sy\<rparr>)"
    using improper_section.read_block_if [of "sy_impropers sy" link_words id, OF link_entity [OF ar(4)] idle(4)] assms(6) by simp
  show ?thesis
    by (simp only: entity_lines_def fold_result_append bind_result_simps 1 2 3 4 5)
qed

section \<open>Masses\<close>

definition read_masses :: "atom_type list \<Rightarrow> (int, pyfloat) pydict \<Rightarrow> (int, pyfloat) pydict" where
  "read_masses ts d = foldl (\<lambda>d t. dict_set (at_id t) (rounded 4 (at_mass t)) d) d ts"

definition plain_type :: "atom_type \<Rightarrow> bool" where
  "plain_type t \<longleftrightarrow> plain_comment (comment_or_element t)"

lemma mass_line: "plain_type t \<Longrightarrow> coeff_line (to_lammps_mass t)"
  unfolding coeff_line_def plain_type_def to_lammps_mass_def
  by (intro exI [of _ "show_int (at_id t)"] exI [of _ "[show_fixed 4 (at_mass t)]"] exI [of _ "comment_or_element t"]) simp

lemma parse_mass_line: "parse_mass (py_split (to_lammps_mass t)) = Some (at_id t, rounded 4 (at_mass t))"
proof -
  obtain vs where "py_split (str_strip (to_lammps_mass t)) = [show_int (at_id t), show_fixed 4 (at_mass t)] @ vs"
    using split_comment [of "[show_int (at_id t), show_fixed 4 (at_mass t)]" "comment_or_element t"]
    unfolding to_lammps_mass_def by auto
  then show ?thesis by (simp add: parse_mass_def int_of_show_int float_of_show_fixed)
qed

text \<open>Lines of masses, whatever form they have.\<close>

definition mass_lines_of :: "('t \<Rightarrow> string) \<Rightarrow> ('t \<Rightarrow> int \<times> pyfloat) \<Rightarrow> 't list \<Rightarrow> bool" where
  "mass_lines_of line entry ts \<longleftrightarrow> (\<forall>t\<in>set ts. payload_line (line t) \<and> parse_mass (py_split (line t)) = Some (entry t))"

definition collect_masses :: "('t \<Rightarrow> int \<times> pyfloat) \<Rightarrow> 't list \<Rightarrow> (int, pyfloat) pydict \<Rightarrow> (int, pyfloat) pydict" where
  "collect_masses entry ts d = foldl (\<lambda>d t. dict_set (fst (entry t)) (snd (entry t)) d) d ts"

lemma read_mass_lines:
  "mass_lines_of line entry ts \<Longrightarrow> rd_section R = Some ''Masses'' \<Longrightarrow> rd_coeff R = None \<Longrightarrow>
    fold_result read_line (map line ts) R = Inr (R\<lparr>rd_masses := collect_masses entry ts (rd_masses R)\<rparr>)"
proof (induction ts arbitrary: R)
  case (Cons t ts)
  then have "read_line (line t) R = Inr (R\<lparr>rd_masses := dict_set (fst (entry t)) (snd (entry t)) (rd_masses R)\<rparr>)"
    by (simp add: mass_lines_of_def read_payload_line payload_step_def section_step_def Let_def split: prod.splits)
  with Cons show ?case by (simp add: collect_masses_def mass_lines_of_def)
qed (simp add: collect_masses_def)

lemma collect_masses_nonempty: "ts \<noteq> [] \<or> d \<noteq> [] \<Longrightarrow> collect_masses entry ts d \<noteq> []"
proof (induction ts arbitrary: d)
  case (Cons t ts)
  have "dict_set (fst (entry t)) (snd (entry t)) d \<noteq> []" by (cases d) auto
  from Cons.IH [of "dict_set (fst (entry t)) (snd (entry t)) d"] this show ?case by (simp add: collect_masses_def)
qed (simp add: collect_masses_def)

lemma read_mass_section:
  assumes "idle R" "rd_masses R = []" "mass_lines_of line entry ts" "ts \<noteq> []"
  shows "fold_result read_line (block ''Masses'' (map line ts)) R = Inr (R\<lparr>rd_masses := collect_masses entry ts []\<rparr>)"
proof -
  let ?R = "R\<lparr>rd_section := Some ''Masses''\<rparr>"
  have i: "rd_coeff R = None" "rd_lines R = []" using assms(1) by (simp_all add: idle_def)
  have b: "blank_step ?R = ?R" using assms(2) i by (simp add: blank_step_def has_data_def)
  have run: "fold_result read_line (map line ts) ?R = Inr (?R\<lparr>rd_masses := collect_masses entry ts []\<rparr>)"
    using read_mass_lines [OF assms(3), of ?R] assms(2) i by simp
  have "blank_step (?R\<lparr>rd_masses := collect_masses entry ts []\<rparr>) = (R\<lparr>rd_masses := collect_masses entry ts []\<rparr>)\<lparr>rd_section := None\<rparr>"
    using i collect_masses_nonempty [of ts "[]"] assms(4) by (simp add: blank_step_def has_data_def)
  also have "\<dots> = R\<lparr>rd_masses := collect_masses entry ts []\<rparr>" by (rule idle_fields) (use assms(1) in \<open>simp add: idle_def\<close>)
  finally show ?thesis
    using assms(1) b run by (simp add: block_def open_section DATA_SECTIONS_def fold_result_append blank_line)
qed

lemma read_mass_block:
  assumes "idle R" "rd_masses R = []" "list_all plain_type ts" "ts \<noteq> []"
  shows "fold_result read_line (block ''Masses'' (map to_lammps_mass ts)) R = Inr (R\<lparr>rd_masses := read_masses ts []\<rparr>)"
proof -
  have "mass_lines_of to_lammps_mass (\<lambda>t. (at_id t, rounded 4 (at_mass t))) ts"
    using assms(3) by (auto simp: mass_lines_of_def list_all_iff coeff_payload mass_line parse_mass_line)
  from read_mass_section [OF assms(1,2) this assms(4)] show ?thesis
    by (simp add: read_masses_def collect_masses_def)
qed

section \<open>Counts, box and title\<close>

lemma str_strip_word_ends:
  assumes "word u" "s \<noteq> []" "\<not> is_space (last s)"
  shows "str_strip (u @ s) = u @ s"
proof -
  have "dropWhile is_space (rev s) = rev s" using assms(2,3) by (cases "rev s") (auto simp: last_rev hd_rev)
  then show ?thesis by (simp add: str_strip_head [OF assms(1)])
qed

lemma letterless_lower: "letterless u \<Longrightarrow> str_lower u = u"
  by (induction u) (auto simp: str_lower_def char_lower_def)

lemma number_no_atom: "\<not> str_contains ''atom'' (str_lower (show_nat n))"
proof -
  have "CHR ''a'' \<notin> set (show_nat n)" using letterless_show_nat [of n] by (auto simp: letterless_def list_all_iff)
  then show ?thesis using contains_append [of "''atom''" "show_nat n" "[]"] by (simp add: letterless_lower)
qed

text \<open>What a keyword test sees of a header line is its name.\<close>

lemma count_line_contains:
  "k \<in> set KEYWORDS \<Longrightarrow> str_contains k (count_line n what) = str_contains k (blank # what)"
  using letterless_keyword [of "show_nat n" k "blank # what"] by (simp add: count_line_def)

lemma count_line_strip:
  "what \<noteq> [] \<Longrightarrow> \<not> is_space (last what) \<Longrightarrow> str_strip (count_line n what) = count_line n what"
  using str_strip_word_ends [of "show_nat n" "blank # what"] by (simp add: count_line_def)

lemma count_line_head:
  "count_line n what \<noteq> [] \<and> \<not> prefix ''#'' (count_line n what) \<and> hd (py_split (count_line n what)) = show_nat n"
  using numeric_show_nat [of n] py_split_Cons [of "show_nat n" what]
  by (cases "show_nat n") (auto simp: count_line_def numeric_def)

lemma read_atoms_count: "read_line (count_line n ''atoms'') R = Inr R"
proof -
  have "str_contains ''atoms'' (count_line n ''atoms'')"
    by (subst count_line_contains) (simp_all add: KEYWORDS_def blank_def)
  moreover have "str_strip (count_line n ''atoms'') = count_line n ''atoms''"
    by (rule count_line_strip) (simp_all add: is_space_def)
  ultimately show ?thesis
    using count_line_head [of n "''atoms''"] number_no_atom [of n] by (simp add: read_line_def del: str_contains.simps)
qed

lemma no_keyword_counts: "no_keyword '' bonds''" "no_keyword '' angles''" "no_keyword '' dihedrals''" "no_keyword '' impropers''"
  by code_simp+

lemma read_count:
  assumes "no_keyword (CHR '' '' # what)" "idle R"
  shows "read_line (count_line n what) R = Inr R"
proof -
  have "no_keyword (show_nat n @ CHR '' '' # what)"
    using letterless_no_keyword [OF letterless_show_nat] assms(1) by simp
  from read_payload [OF numeric_show_nat this] assms(2) show ?thesis
    by (simp add: count_line_def blank_def payload_step_def idle_def)
qed

lemma count_of_line: "count_of (count_line n what) old = int n"
  using count_line_head [of n what] by (simp add: count_of_def int_of_show_nat)

lemma type_count_tests:
  "map (\<lambda>k. str_contains k ('' atom types'')) KEYWORDS = [False, True, False, False, False, False, False, False, False]"
  "map (\<lambda>k. str_contains k ('' bond types'')) KEYWORDS = [False, False, True, False, False, False, False, False, False]"
  "map (\<lambda>k. str_contains k ('' angle types'')) KEYWORDS = [False, False, False, True, False, False, False, False, False]"
  "map (\<lambda>k. str_contains k ('' dihedral types'')) KEYWORDS = [False, False, False, False, True, False, False, False, False]"
  "map (\<lambda>k. str_contains k ('' improper types'')) KEYWORDS = [False, False, False, False, False, True, False, False, False]"
  by code_simp+

lemma read_type_counts:
  "read_line (count_line n ''atom types'') R = Inr (R\<lparr>rd_atom_types := int n\<rparr>)"
  "read_line (count_line n ''bond types'') R = Inr (R\<lparr>rd_bond_types := int n\<rparr>)"
  "read_line (count_line n ''angle types'') R = Inr (R\<lparr>rd_angle_types := int n\<rparr>)"
  "read_line (count_line n ''dihedral types'') R = Inr (R\<lparr>rd_dihedral_types := int n\<rparr>)"
  "read_line (count_line n ''improper types'') R = Inr (R\<lparr>rd_improper_types := int n\<rparr>)"
proof -
  have strips: "str_strip (count_line n w) = count_line n w"
    if "w \<in> {''atom types'', ''bond types'', ''angle types'', ''dihedral types'', ''improper types''}" for w
    by (rule count_line_strip) (use that in \<open>auto simp: is_space_def\<close>)
  note tests = count_line_contains blank_def KEYWORDS_def
  note reader = read_line_def count_line_head count_of_line strips
  show "read_line (count_line n ''atom types'') R = Inr (R\<lparr>rd_atom_types := int n\<rparr>)"
    using type_count_tests(1) by (simp add: reader tests del: str_contains.simps)
  show "read_line (count_line n ''bond types'') R = Inr (R\<lparr>rd_bond_types := int n\<rparr>)"
    using type_count_tests(2) by (simp add: reader tests del: str_contains.simps)
  show "read_line (count_line n ''angle types'') R = Inr (R\<lparr>rd_angle_types := int n\<rparr>)"
    using type_count_tests(3) by (simp add: reader tests del: str_contains.simps)
  show "read_line (count_line n ''dihedral types'') R = Inr (R\<lparr>rd_dihedral_types := int n\<rparr>)"
    using type_count_tests(4) by (simp add: reader tests del: str_contains.simps)
  show "read_line (count_line n ''improper types'') R = Inr (R\<lparr>rd_improper_types := int n\<rparr>)"
    using type_count_tests(5) by (simp add: reader tests del: str_contains.simps)
qed

lemma box_tests:
  "map (\<lambda>k. str_contains k ('' xlo xhi'')) KEYWORDS = [False, False, False, False, False, False, True, False, False]"
  "map (\<lambda>k. str_contains k ('' ylo yhi'')) KEYWORDS = [False, False, False, False, False, False, False, True, False]"
  "map (\<lambda>k. str_contains k ('' zlo zhi'')) KEYWORDS = [False, False, False, False, False, False, False, False, True]"
  by code_simp+

lemma numeric_show_fixed: "numeric (show_fixed k x)"
proof -
  have "num_char (hd (show_fixed k x))"
    using show_scaled_chars [OF hd_in_set [OF show_scaled_ne [of k "py_round (x * 10 ^ k)"]]]
    by (auto simp: show_fixed_def num_char_def [of "CHR ''-''"])
  then have "hd (show_fixed k x) \<noteq> CHR ''#''" by (auto simp: num_char_def is_digit_def)
  then show ?thesis by (simp add: numeric_def)
qed

text \<open>The box lines: two numbers and the names.\<close>

definition range_line :: "string \<Rightarrow> string \<Rightarrow> string \<Rightarrow> string" where
  "range_line a b names = a @ blank # b @ blank # names"

definition range_words :: "string \<Rightarrow> string \<Rightarrow> pyfloat \<Rightarrow> pyfloat \<Rightarrow> bool" where
  "range_words a b lo hi \<longleftrightarrow> numeric a \<and> numeric b \<and> py_float_of a = Some lo \<and> py_float_of b = Some hi"

lemma box_line_shape:
  "box_line box i names = range_line (show_fixed 6 (box ! i)) (show_fixed 6 (box ! (i + 1))) names"
  by (simp add: box_line_def sp_def range_line_def)

lemma fixed_range: "range_words (show_fixed 6 x) (show_fixed 6 y) (rounded 6 x) (rounded 6 y)"
  by (simp add: range_words_def numeric_show_fixed float_of_show_fixed)

lemma range_line_contains:
  assumes "range_words a b lo hi" "k \<in> set KEYWORDS"
  shows "str_contains k (range_line a b names) = str_contains k (blank # names)"
  using letterless_keyword [of "a @ blank # b" k "blank # names"] assms
  by (simp add: range_line_def range_words_def numeric_def blank_def)

lemma range_line_strip:
  assumes "range_words a b lo hi" "names \<noteq> []" "\<not> is_space (last names)"
  shows "str_strip (range_line a b names) = range_line a b names"
  using str_strip_word_ends [of a "blank # b @ blank # names"] assms
  by (simp add: range_line_def range_words_def numeric_def)

lemma range_line_head:
  "range_words a b lo hi \<Longrightarrow> range_line a b names \<noteq> [] \<and> \<not> prefix ''#'' (range_line a b names)"
  by (cases a) (auto simp: range_line_def range_words_def numeric_def word_def)

lemma range_step:
  assumes "range_words a b lo hi"
  shows "box_step j (range_line a b names) R = Inr (R\<lparr>rd_box := (rd_box R)[j := lo, j + 1 := hi]\<rparr>)"
proof -
  have "py_split (range_line a b names) = a # b # py_split names"
    using assms by (simp add: range_line_def range_words_def numeric_def py_split_Cons)
  then show ?thesis using assms by (simp add: box_step_def range_words_def)
qed

lemma read_range:
  assumes "range_words a b lo hi"
  shows "read_line (range_line a b ''xlo xhi'') R = Inr (R\<lparr>rd_box := (rd_box R)[0 := lo, 1 := hi]\<rparr>)"
    "read_line (range_line a b ''ylo yhi'') R = Inr (R\<lparr>rd_box := (rd_box R)[2 := lo, 3 := hi]\<rparr>)"
    "read_line (range_line a b ''zlo zhi'') R = Inr (R\<lparr>rd_box := (rd_box R)[4 := lo, 5 := hi]\<rparr>)"
proof -
  have strips: "str_strip (range_line a b w) = range_line a b w" if "w \<in> {''xlo xhi'', ''ylo yhi'', ''zlo zhi''}" for w
    by (rule range_line_strip [OF assms]) (use that in \<open>auto simp: is_space_def\<close>)
  note tests = range_line_contains [OF assms] blank_def KEYWORDS_def
  note reader = read_line_def range_line_head [OF assms] range_step [OF assms] strips
  show "read_line (range_line a b ''xlo xhi'') R = Inr (R\<lparr>rd_box := (rd_box R)[0 := lo, 1 := hi]\<rparr>)"
    using box_tests(1) by (simp add: reader tests del: str_contains.simps)
  show "read_line (range_line a b ''ylo yhi'') R = Inr (R\<lparr>rd_box := (rd_box R)[2 := lo, 3 := hi]\<rparr>)"
    using box_tests(2) by (simp add: reader tests del: str_contains.simps)
  show "read_line (range_line a b ''zlo zhi'') R = Inr (R\<lparr>rd_box := (rd_box R)[4 := lo, 5 := hi]\<rparr>)"
    using box_tests(3) by (simp add: reader tests del: str_contains.simps)
qed

lemma read_box:
  "read_line (box_line box i ''xlo xhi'') R = Inr (R\<lparr>rd_box := (rd_box R)[0 := rounded 6 (box ! i), 1 := rounded 6 (box ! (i + 1))]\<rparr>)"
  "read_line (box_line box i ''ylo yhi'') R = Inr (R\<lparr>rd_box := (rd_box R)[2 := rounded 6 (box ! i), 3 := rounded 6 (box ! (i + 1))]\<rparr>)"
  "read_line (box_line box i ''zlo zhi'') R = Inr (R\<lparr>rd_box := (rd_box R)[4 := rounded 6 (box ! i), 5 := rounded 6 (box ! (i + 1))]\<rparr>)"
  unfolding box_line_shape by (rule read_range [OF fixed_range])+

definition plain_title :: "string \<Rightarrow> bool" where
  "plain_title t \<longleftrightarrow> one_line t \<and> no_keyword (str_strip t) \<and>
     header_match COEFF_SECTIONS (str_strip t) = None \<and> header_match DATA_SECTIONS (str_strip t) = None"

lemma read_title: "plain_title t \<Longrightarrow> idle R \<Longrightarrow> read_line t R = Inr R"
proof (cases "str_strip t = [] \<or> prefix ''#'' (str_strip t)")
  case True
  assume "idle R"
  with True show ?thesis by (simp add: read_line_def blank_step_def idle_def)
next
  case False
  assume "plain_title t" "idle R"
  with False show ?thesis
    by (simp add: read_header plain_title_def header_step_def payload_step_def idle_def)
qed

section \<open>Coefficient blocks\<close>

lemma all_numbers: "\<forall>w\<in>set (map (show_fixed k) cs). word w \<and> letterless w"
  by simp

lemma fourier_terms_words: "\<forall>w\<in>set (fourier_terms cs). word w \<and> letterless w"
  by (induction cs rule: fourier_terms.induct) simp_all

lemma dihedral_words_ok: "\<forall>w\<in>set (dihedral_words p). word w \<and> letterless w"
proof -
  obtain style cs where p: "p = (style, cs)" by (cases p)
  have "\<forall>w\<in>set (map (show_fixed 4) (take 4 (cs @ replicate (4 - length cs) 0))). word w \<and> letterless w"
    "\<forall>w\<in>set (show_nat (length cs div 3) # fourier_terms cs). word w \<and> letterless w"
    "\<forall>w\<in>set [show_fixed 4 (coeff_or cs 0 0), show_int (py_int (coeff_or cs 1 1)), show_int (py_int (coeff_or cs 2 1))].
       word w \<and> letterless w"
    "\<forall>w\<in>set (map (show_fixed 4) cs). word w \<and> letterless w"
    using fourier_terms_words [of cs] by (auto dest: in_set_takeD)
  then show ?thesis by (simp only: p dihedral_words_def Let_def prod.case split: if_split) blast
qed

lemma improper_words_ok: "\<forall>w\<in>set (improper_words p). word w \<and> letterless w"
proof -
  obtain style cs where p: "p = (style, cs)" by (cases p)
  have "\<forall>w\<in>set [show_fixed 4 (coeff_or cs 0 0), show_fixed 4 (coeff_or cs 1 180)]. word w \<and> letterless w"
    "\<forall>w\<in>set [show_fixed 4 (coeff_or cs 0 0), show_int (py_int (coeff_or cs 1 (-1))), show_int (py_int (coeff_or cs 2 2))].
       word w \<and> letterless w"
    "\<forall>w\<in>set (map (show_fixed 4) cs). word w \<and> letterless w"
    by simp_all
  then show ?thesis by (simp only: p improper_words_def Let_def prod.case split: if_split) blast
qed

lemma coeff_lineI:
  "(\<forall>w\<in>set ws. word w \<and> letterless w) \<Longrightarrow> plain_comment c \<Longrightarrow> coeff_line (with_comment (sp (show_int n # ws)) c)"
  unfolding coeff_line_def by (intro exI [of _ "show_int n"] exI [of _ ws] exI [of _ c]) simp

definition plain_term :: "'p term_type \<Rightarrow> bool" where
  "plain_term t \<longleftrightarrow> plain_comment (tt_comment t)"

lemma type_lines_ok:
  "plain_type a \<Longrightarrow> coeff_line (to_lammps_pair a)"
  "plain_term h \<Longrightarrow> coeff_line (harmonic_line h)"
  "plain_term d \<Longrightarrow> coeff_line (dihedral_line d)"
  "plain_term d \<Longrightarrow> coeff_line (improper_line d)"
  unfolding to_lammps_pair_def harmonic_line_def dihedral_line_def improper_line_def plain_type_def plain_term_def
  by (simp_all add: coeff_lineI dihedral_words_ok [rule_format] improper_words_ok [rule_format])

text \<open>The blocks of a system in the order of the file, and what the reader keeps of them.\<close>

definition coeff_blocks :: "system_topology \<Rightarrow> (string \<times> string list) list" where
  "coeff_blocks sy =
     filter (\<lambda>(h, ls). ls \<noteq> [])
       [(''Pair Coeffs'', map to_lammps_pair (sy_atom_types sy)), (''Bond Coeffs'', map harmonic_line (sy_bond_types sy)),
        (''Angle Coeffs'', map harmonic_line (sy_angle_types sy)), (''Dihedral Coeffs'', map dihedral_line (sy_dihedral_types sy)),
        (''Improper Coeffs'', if sy_impropers sy = [] then [] else map improper_line (sy_improper_types sy))]"

definition raw_text :: "string list \<Rightarrow> string" where
  "raw_text ls = join_with newline (map str_strip ls)"

definition plain_system :: "system_topology \<Rightarrow> bool" where
  "plain_system sy \<longleftrightarrow>
     plain_title (sy_title sy) \<and> list_all plain_type (sy_atom_types sy) \<and> list_all plain_term (sy_bond_types sy) \<and>
     list_all plain_term (sy_angle_types sy) \<and> list_all plain_term (sy_dihedral_types sy) \<and>
     list_all plain_term (sy_improper_types sy)"

lemma read_coeff_blocks:
  assumes "\<forall>(h, ls)\<in>set bs. h \<in> set COEFF_SECTIONS \<and> list_all payload_line ls \<and> ls \<noteq> []" "distinct (map fst bs)"
    "\<forall>b\<in>set bs. fst b \<notin> fst ` set (rd_raw R)" "idle R"
  shows "fold_result read_line (concat (map (\<lambda>(h, ls). block h ls) bs)) R =
    Inr (R\<lparr>rd_raw := rd_raw R @ map (\<lambda>(h, ls). (h, raw_text ls)) bs\<rparr>)"
  using assms
proof (induction bs arbitrary: R)
  case (Cons b bs)
  obtain h ls where b: "b = (h, ls)" by (cases b)
  let ?R = "R\<lparr>rd_raw := rd_raw R @ [(h, raw_text ls)]\<rparr>"
  have new: "map_of (rd_raw R) h = None" using Cons.prems(3) by (simp add: b map_of_eq_None_iff)
  have "fold_result read_line (block h ls) R = Inr ?R"
    using read_coeff_block [of h ls R] Cons.prems by (simp add: b raw_text_def dict_set_new [OF new])
  moreover have "fold_result read_line (concat (map (\<lambda>(h, ls). block h ls) bs)) ?R =
      Inr (?R\<lparr>rd_raw := rd_raw ?R @ map (\<lambda>(h, ls). (h, raw_text ls)) bs\<rparr>)"
  proof (rule Cons.IH)
    show "\<forall>(h, ls)\<in>set bs. h \<in> set COEFF_SECTIONS \<and> list_all payload_line ls \<and> ls \<noteq> []" using Cons.prems(1) by simp
    show "distinct (map fst bs)" using Cons.prems(2) by simp
    show "\<forall>c\<in>set bs. fst c \<notin> fst ` set (rd_raw ?R)" using Cons.prems(2,3) by (auto simp: b)
    show "idle ?R" using Cons.prems(4) by (simp add: idle_def)
  qed
  ultimately show ?case by (simp add: b fold_result_append)
qed simp

lemma coeff_lines_blocks:
  "sy_atom_types sy \<noteq> [] \<Longrightarrow> coeff_lines sy = concat (map (\<lambda>(h, ls). block h ls) (coeff_blocks sy))"
  by (auto simp: coeff_lines_def coeff_blocks_def block_if_def)

lemma coeff_blocks_ok:
  "plain_system sy \<Longrightarrow> \<forall>(h, ls)\<in>set (coeff_blocks sy). h \<in> set COEFF_SECTIONS \<and> list_all coeff_line ls \<and> ls \<noteq> []"
  by (auto simp: coeff_blocks_def plain_system_def COEFF_SECTIONS_def list_all_iff intro: type_lines_ok)

lemma coeff_blocks_payload:
  "plain_system sy \<Longrightarrow> \<forall>(h, ls)\<in>set (coeff_blocks sy). h \<in> set COEFF_SECTIONS \<and> list_all payload_line ls \<and> ls \<noteq> []"
  using coeff_blocks_ok [of sy] by (auto simp: list_all_iff coeff_payload)

lemma coeff_blocks_distinct: "distinct (map fst (coeff_blocks sy))"
  by (simp add: coeff_blocks_def)

section \<open>The round trip\<close>

text \<open>What the reader makes of a system.\<close>

definition expected_info :: "system_topology \<Rightarrow> data_file_info" where
  "expected_info sy =
     \<lparr>di_atoms = map read_atom (sy_atoms sy), di_bonds = sy_bonds sy,
      di_box = map (\<lambda>i. rounded 6 (sy_box sy ! i)) [0..<6],
      di_n_atoms = length (sy_atoms sy), di_n_bonds = length (sy_bonds sy),
      di_n_atom_types = int (length (sy_atom_types sy)), di_masses = read_masses (sy_atom_types sy) [],
      di_angles = some_or_none (sy_angles sy), di_dihedrals = some_or_none (sy_dihedrals sy),
      di_impropers = some_or_none (sy_impropers sy), di_n_bond_types = int (length (sy_bond_types sy)),
      di_n_angle_types = int (length (sy_angle_types sy)), di_n_dihedral_types = int (length (sy_dihedral_types sy)),
      di_n_improper_types = (if sy_impropers sy = [] then 0 else int (length (sy_improper_types sy))),
      di_raw_coeffs = Some (map (\<lambda>(h, ls). (h, raw_text ls)) (coeff_blocks sy))\<rparr>"

definition arities :: "system_topology \<Rightarrow> bool" where
  "arities sy \<longleftrightarrow> arity 2 (sy_bonds sy) \<and> arity 3 (sy_angles sy) \<and> arity 4 (sy_dihedrals sy) \<and> arity 4 (sy_impropers sy)"

text \<open>No line of the file contains a line break.\<close>

lemma one_line_simps [simp]: "one_line []" "one_line (c # s) = (c \<noteq> newline \<and> one_line s)" "one_line (s @ t) = (one_line s \<and> one_line t)"
  by (auto simp: one_line_def)

lemma blank_newline [simp]: "blank \<noteq> newline" "CHR '' '' \<noteq> newline"
  by (simp_all add: blank_def newline_def)

lemma word_one_line: "word w \<Longrightarrow> one_line w"
  by (auto simp: word_def one_line_def list_all_iff newline_def is_space_def)

lemma sp_one_line: "\<forall>w\<in>set ws. word w \<Longrightarrow> one_line (sp ws)"
  unfolding sp_def by (induction blank ws rule: join_with.induct) (simp_all add: word_one_line)

lemma coeff_line_one_line: "coeff_line l \<Longrightarrow> one_line l"
proof -
  assume "coeff_line l"
  then obtain u ws c where l: "numeric u" "\<forall>w\<in>set ws. word w \<and> letterless w" "plain_comment c" "l = with_comment (sp (u # ws)) c"
    unfolding coeff_line_def by blast
  then have "one_line (sp (u # ws))" by (intro sp_one_line) (simp add: numeric_def)
  then show ?thesis using l(3) by (simp add: l(4) with_comment_def plain_comment_def newline_def)
qed

lemma count_line_one_line: "one_line what \<Longrightarrow> one_line (count_line n what)"
  by (simp add: count_line_def word_one_line)

lemma box_line_one_line: "one_line names \<Longrightarrow> one_line (box_line box i names)"
  by (simp add: box_line_shape range_line_def word_one_line)

lemma name_one_line:
  "list_all one_line [''atoms'', ''bonds'', ''angles'', ''dihedrals'', ''impropers'', ''atom types'', ''bond types'',
     ''angle types'', ''dihedral types'', ''improper types'', ''xlo xhi'', ''ylo yhi'', ''zlo zhi'', ''Masses'']"
  "list_all one_line COEFF_SECTIONS" "list_all one_line DATA_SECTIONS"
  by code_simp+

lemma block_one_line: "one_line h \<Longrightarrow> list_all one_line ls \<Longrightarrow> list_all one_line (block h ls)"
  by (simp add: block_def)

lemma entity_one_line: "list_all one_line (entity_lines sy)"
proof -
  have a: "one_line (sp (atom_words a))" for a
    by (rule sp_one_line) (use atom_words_ok [of a] in auto)
  have l: "one_line (sp (link_words l))" for l
    by (rule sp_one_line) (use link_words_ok [of l] in auto)
  have b: "list_all one_line (block_if c h ls)" if "h \<in> set DATA_SECTIONS" "list_all one_line ls" for c h ls
  proof -
    have "one_line h" using that(1) name_one_line(3) by (simp add: list_all_iff)
    then show ?thesis by (simp add: block_if_def block_one_line that(2))
  qed
  have "list_all one_line (map (\<lambda>a. sp (atom_words a)) as)" "list_all one_line (map (\<lambda>l. sp (link_words l)) ls)" for as ls
    by (simp_all add: list_all_iff a l)
  then show ?thesis by (simp add: entity_lines_def b DATA_SECTIONS_def)
qed

lemma data_one_line: "plain_system sy \<Longrightarrow> sy_atom_types sy \<noteq> [] \<Longrightarrow> list_all one_line (data_lines sy)"
proof -
  assume p: "plain_system sy" and ne: "sy_atom_types sy \<noteq> []"
  have "list_all one_line (coeff_lines sy)"
    unfolding coeff_lines_blocks [OF ne] using coeff_blocks_ok [OF p] name_one_line(2)
    by (fastforce simp: list_all_iff block_def coeff_line_one_line)
  moreover have "list_all one_line (map to_lammps_mass (sy_atom_types sy))"
    using p by (auto simp: plain_system_def list_all_iff mass_line coeff_line_one_line)
  ultimately show ?thesis
    using p name_one_line(1) entity_one_line [of sy]
    by (simp add: data_lines_def count_lines_def type_lines_def box_lines_def block_one_line count_line_one_line
        box_line_one_line plain_system_def plain_title_def)
qed

lemma blank_idle: "idle R \<Longrightarrow> read_line [] R = Inr R"
  by (simp add: blank_line blank_step_def idle_def)

lemma read_count_lines: "idle R \<Longrightarrow> fold_result read_line (count_lines sy) R = Inr R"
  by (simp add: count_lines_def read_atoms_count read_count no_keyword_counts blank_idle)

definition typed_reader :: "system_topology \<Rightarrow> reader \<Rightarrow> reader" where
  "typed_reader sy R =
     R\<lparr>rd_atom_types := int (length (sy_atom_types sy)), rd_bond_types := int (length (sy_bond_types sy)),
       rd_angle_types := int (length (sy_angle_types sy)), rd_dihedral_types := int (length (sy_dihedral_types sy)),
       rd_improper_types := (if sy_impropers sy = [] \<or> sy_improper_types sy = [] then rd_improper_types R
                             else int (length (sy_improper_types sy)))\<rparr>"

lemma read_type_lines: "idle R \<Longrightarrow> fold_result read_line (type_lines sy) R = Inr (typed_reader sy R)"
  by (cases "sy_impropers sy \<noteq> [] \<and> sy_improper_types sy \<noteq> []")
    (auto simp: type_lines_def read_type_counts blank_idle idle_def typed_reader_def)

lemma read_box_lines:
  assumes "idle R" "length (rd_box R) = 6"
  shows "fold_result read_line (box_lines box) R = Inr (R\<lparr>rd_box := map (\<lambda>i. rounded 6 (box ! i)) [0..<6]\<rparr>)"
proof -
  obtain a b c d e f where r: "rd_box R = [a, b, c, d, e, f]"
    using assms(2) by (auto simp: numeral_eq_Suc length_Suc_conv)
  have "[0..<6] = [0, 1, 2, 3, 4, 5::nat]" by (simp add: upt_rec)
  with assms(1) r show ?thesis by (simp add: box_lines_def read_box blank_idle idle_def)
qed

lemma idle_typed: "idle (typed_reader sy R) = idle R"
  by (simp add: typed_reader_def idle_def)

lemma new_reader_idle: "idle new_reader"
  by (simp add: new_reader_def idle_def)

text \<open>The whole file, line by line.\<close>

definition final_reader :: "system_topology \<Rightarrow> reader" where
  "final_reader sy =
     (typed_reader sy new_reader)\<lparr>rd_box := map (\<lambda>i. rounded 6 (sy_box sy ! i)) [0..<6],
       rd_masses := read_masses (sy_atom_types sy) [],
       rd_raw := map (\<lambda>(h, ls). (h, raw_text ls)) (coeff_blocks sy),
       rd_atoms := map read_atom (sy_atoms sy), rd_bonds := sy_bonds sy, rd_angles := sy_angles sy,
       rd_dihedrals := sy_dihedrals sy, rd_impropers := sy_impropers sy\<rparr>"

lemma read_data_lines:
  assumes "plain_system sy" "arities sy" "sy_atom_types sy \<noteq> []"
  shows "fold_result read_line (data_lines sy) new_reader = Inr (final_reader sy)"
proof -
  let ?R1 = "typed_reader sy new_reader"
  let ?R2 = "?R1\<lparr>rd_box := map (\<lambda>i. rounded 6 (sy_box sy ! i)) [0..<6]\<rparr>"
  let ?R3 = "?R2\<lparr>rd_masses := read_masses (sy_atom_types sy) []\<rparr>"
  let ?R4 = "?R3\<lparr>rd_raw := map (\<lambda>(h, ls). (h, raw_text ls)) (coeff_blocks sy)\<rparr>"
  have p: "plain_title (sy_title sy)" "list_all plain_type (sy_atom_types sy)" using assms(1) by (simp_all add: plain_system_def)
  have idle: "idle ?R1" "idle ?R2" "idle ?R3" "idle ?R4"
    using new_reader_idle by (simp_all add: idle_typed) (simp_all add: idle_def typed_reader_def)
  have title: "fold_result read_line [sy_title sy, []] new_reader = Inr new_reader"
    by (simp add: read_title [OF p(1) new_reader_idle] blank_idle [OF new_reader_idle])
  have box: "fold_result read_line (box_lines (sy_box sy)) ?R1 = Inr ?R2"
    by (rule read_box_lines [OF idle(1)]) (simp add: typed_reader_def new_reader_def)
  have masses: "fold_result read_line (block ''Masses'' (map to_lammps_mass (sy_atom_types sy))) ?R2 = Inr ?R3"
    by (rule read_mass_block [OF idle(2) _ p(2) assms(3)]) (simp add: typed_reader_def new_reader_def)
  have "rd_raw ?R3 = []" by (simp add: typed_reader_def new_reader_def)
  then have coeffs: "fold_result read_line (coeff_lines sy) ?R3 = Inr ?R4"
    unfolding coeff_lines_blocks [OF assms(3)]
    using read_coeff_blocks [OF coeff_blocks_payload [OF assms(1)] coeff_blocks_distinct _ idle(3)] by simp
  have entities: "fold_result read_line (entity_lines sy) ?R4 = Inr (final_reader sy)"
    unfolding final_reader_def
    by (rule read_entity_lines [OF idle(4)]) (use assms(2) in \<open>simp_all add: arities_def typed_reader_def new_reader_def\<close>)
  show ?thesis
    unfolding data_lines_def
    by (simp only: fold_result_append bind_result_simps title read_count_lines [OF new_reader_idle]
        read_type_lines [OF new_reader_idle] box masses coeffs entities)
qed

text \<open>
  C1: Reading a written data file gives back every atom, bond, angle, dihedral, improper, mass,
  count, box bound and coefficient section of the system, floats rounded to the printed
  decimals, provided title and comments contain none of the words the reader searches for.
\<close>

theorem data_file_round_trip:
  assumes "plain_system sy" "arities sy" "sy_atoms sy \<noteq> []" "sy_atom_types sy \<noteq> []"
  shows "parse_content (write_lammps_data sy) = Inr (expected_info sy)"
proof -
  have idle: "idle (final_reader sy)"
    using new_reader_idle by (simp add: final_reader_def idle_def typed_reader_def)
  have "split_on newline (write_lammps_data sy) = data_lines sy @ [[]]"
    unfolding write_lammps_data_def by (rule split_unlines [OF data_one_line [OF assms(1,4)]])
  then have "fold_result read_line (split_on newline (write_lammps_data sy)) new_reader = Inr (final_reader sy)"
    by (simp add: fold_result_append read_data_lines [OF assms(1,2,4)] blank_idle [OF idle])
  moreover have "flush_coeff (final_reader sy) = final_reader sy"
    using idle by (simp add: flush_idle idle_def)
  moreover have "coeff_blocks sy \<noteq> []" using assms(4) by (simp add: coeff_blocks_def)
  ultimately show ?thesis
    using assms(3)
    by (simp add: parse_content_def info_of_reader_def expected_info_def final_reader_def typed_reader_def
        new_reader_def some_or_none_def)
qed

lemma demo_plain:
  "plain_system (projr demo_system) \<and> arities (projr demo_system) \<and> sy_atoms (projr demo_system) \<noteq> [] \<and>
   sy_atom_types (projr demo_system) \<noteq> []"
  by code_simp

theorem data_file_round_trip_witness:
  "parse_content (write_lammps_data (projr demo_system)) = Inr (expected_info (projr demo_system))"
  using data_file_round_trip demo_plain by blast

section \<open>Findings\<close>

text \<open>A comment with the word atoms makes the reader skip the mass of the type.\<close>

lemma keyword_comment_drops_mass:
  assumes "at_comment t = u @ ''atoms''"
  shows "read_line (to_lammps_mass t) R = Inr R"
proof -
  let ?l = "show_int (at_id t)"
  have e: "to_lammps_mass t = ?l @ blank # show_fixed 4 (at_mass t) @ ''  # '' @ u @ ''atoms''"
    by (simp add: to_lammps_mass_def with_comment_def comment_or_element_def or_default_def assms sp_def)
  have strip: "str_strip (to_lammps_mass t) = to_lammps_mass t"
    unfolding e by (rule str_strip_word_ends) (simp_all add: is_space_def)
  have in1: "str_contains ''atoms'' (to_lammps_mass t)"
    by (simp add: e str_contains_iff sublist_append_leftI flip: append_assoc append_Cons)
  obtain vs where sp: "py_split (to_lammps_mass t) = ?l # vs"
    using py_split_Cons [of ?l] by (simp add: e)
  have "CHR ''a'' \<notin> set ?l" using letterless_show_int [of "at_id t"] by (auto simp: letterless_def list_all_iff)
  then have "\<not> str_contains ''atom'' (str_lower ?l)"
    using contains_append [of "''atom''" ?l "[]"] by (simp add: letterless_lower)
  moreover have "to_lammps_mass t \<noteq> [] \<and> \<not> prefix ''#'' (to_lammps_mass t)"
    using numeric_show_int [of "at_id t"] by (cases ?l) (auto simp: e numeric_def word_def)
  ultimately show ?thesis using in1 by (simp add: read_line_def strip sp del: str_contains.simps)
qed

text \<open>Four coefficients of a registry dihedral are written as one fourier term.\<close>

lemma registry_dihedral_line:
  "dihedral_words (fst (dihedral_of (k_entry (style, [a, b, c, d]), l))) =
    [show_nat 1, show_fixed 4 a, show_int (py_int b), show_int (py_int c)]"
  by (simp add: dihedral_of_def k_entry_def dihedral_words_def nth_coeff_def dict_get_def)

end
