(* ===== verification/MolParserProps.thy ===== *)
theory MolParserProps
  imports MolParser LammpsDataProps "HOL-Library.Multiset"
begin

text \<open>
  What the MOL reader accepts: files written in the V2000 layout are read back as the molecule
  they describe, and whatever the file holds, the atoms it returns are numbered from 1. The
  XYZ writer and reader agree up to the printed decimals.
\<close>

section \<open>Lines\<close>

definition no_return :: "string \<Rightarrow> bool" where
  "no_return s \<longleftrightarrow> CHR 0x0D \<notin> set s"

lemma newlines_id: "no_return s \<Longrightarrow> newlines_from False s = s"
  unfolding no_return_def by (induction s) auto

lemma lines_from_line: "newline \<notin> set u \<Longrightarrow> lines_from w (u @ newline # s) = (rev w @ u @ [newline]) # lines_from [] s"
  by (induction u arbitrary: w) auto

lemma readlines_unlines:
  assumes "list_all one_line ls" "list_all no_return ls"
  shows "readlines (unlines ls) = map (\<lambda>l. l @ [newline]) ls"
proof -
  have "no_return (unlines ls)" using assms(2) by (induction ls) (auto simp: unlines_def no_return_def newline_def)
  moreover have "lines_from [] (unlines ls) = map (\<lambda>l. l @ [newline]) ls"
    using assms(1) by (induction ls) (auto simp: unlines_def one_line_def lines_from_line)
  ultimately show ?thesis by (simp add: readlines_def newlines_id)
qed

text \<open>A loop over a block of lines that all count is a fold.\<close>

lemma scan_block:
  assumes "\<And>x s. x \<in> set xs \<Longrightarrow> step x s = Some (f x s)"
  shows "scan_lines step (pre @ xs @ post) ([int (length pre)..int (length pre) + int (length xs) - 1] @ ks) s =
    scan_lines step (pre @ xs @ post) ks (fold f xs s)"
  using assms
proof (induction xs arbitrary: pre s)
  case (Cons x xs)
  let ?l = "pre @ x # xs @ post" and ?n = "int (length pre)"
  have ran: "[?n..?n + int (length (x # xs)) - 1] = ?n # [?n + 1..?n + 1 + int (length xs) - 1]"
    by (simp add: upto_rec1 algebra_simps)
  have ix: "py_index ?l ?n = Inr x" by (simp add: py_index_def nth_append)
  have tl: "scan_lines step ?l ([?n + 1..?n + 1 + int (length xs) - 1] @ ks) t = scan_lines step ?l ks (fold f xs t)" for t
    using Cons.IH [of "pre @ [x]" t] Cons.prems by (simp add: add.commute)
  have "scan_lines step ?l ((?n # [?n + 1..?n + 1 + int (length xs) - 1]) @ ks) s =
      scan_lines step ?l ([?n + 1..?n + 1 + int (length xs) - 1] @ ks) (f x s)"
    using Cons.prems by (simp add: ix)
  then show ?case by (simp only: ran tl fold_simps append_Cons)
qed simp

lemma scan_whole_block:
  assumes "\<And>x s. x \<in> set xs \<Longrightarrow> step x s = Some (f x s)"
  shows "scan_lines step (pre @ xs @ post) [int (length pre)..int (length pre) + int (length xs) - 1] s = Inr (fold f xs s)"
  using scan_block [where xs = xs and step = step and f = f and pre = pre and post = post and ks = "[]" and s = s] assms by simp

text \<open>What every step of a loop keeps, the loop keeps.\<close>

lemma scan_invariant:
  assumes "scan_lines step ls ks s = Inr t" "P s" "\<And>l s t. P s \<Longrightarrow> step l s = Some t \<Longrightarrow> P t"
  shows "P t"
  using assms(1,2)
proof (induction ks arbitrary: s)
  case (Cons i ks)
  show ?case
  proof (cases "i \<ge> int (length ls)")
    case False
    then obtain l where l: "py_index ls i = Inr l" using Cons.prems(1) by (auto split: sum.splits)
    show ?thesis
    proof (cases "step l s")
      case (Some u)
      then have "scan_lines step ls ks u = Inr t" "P u" using False l Cons.prems assms(3) by auto
      then show ?thesis by (rule Cons.IH)
    qed (use False l Cons.prems in auto)
  qed (use Cons.prems in auto)
qed simp

section \<open>Fields of fixed width\<close>

definition pad :: "nat \<Rightarrow> string \<Rightarrow> string" where
  "pad k w = replicate (k - length w) blank @ w"

lemma length_pad: "length w \<le> k \<Longrightarrow> length (pad k w) = k"
  by (simp add: pad_def)

lemma str_strip_blanks [simp]: "str_strip (replicate k blank @ s) = str_strip s"
  by (induction k) (simp_all add: str_strip_def)

lemma py_split_blanks [simp]: "py_split (replicate k blank @ s) = py_split s"
  by (induction k) simp_all

lemma int_of_pad: "py_int_of (pad k (show_int n)) = Some n"
proof -
  have "py_int_of (pad k (show_int n)) = py_int_of (show_int n)" by (simp add: pad_def py_int_of_def)
  then show ?thesis by (simp add: int_of_show_int)
qed

lemma py_split_word_blank: "word u \<Longrightarrow> word v \<Longrightarrow> length v < k \<Longrightarrow> py_split (u @ pad k v @ s) = u # py_split (v @ s)"
proof -
  assume u: "word u" and k: "length v < k"
  have "replicate (k - length v) blank = blank # replicate (k - length v - 1) blank"
    using k by (cases "k - length v") auto
  then have "pad k v @ s = blank # replicate (k - length v - 1) blank @ v @ s" by (simp add: pad_def)
  then show ?thesis using py_split_Cons [OF u] by simp
qed

lemma py_split_pad [simp]: "py_split (pad k w @ s) = py_split (w @ s)"
  by (simp add: pad_def)

lemma show_int_short: "0 \<le> n \<Longrightarrow> n < 1000 \<Longrightarrow> length (show_int n) \<le> 3"
  by (simp add: show_int_def show_nat.simps)

lemma show_int_plain: "newline \<notin> set (show_int n)" "CHR 0x0D \<notin> set (show_int n)"
  using show_int_word [of n] by (auto simp: word_def list_all_iff newline_def is_space_def)

section \<open>The V2000 layout\<close>

text \<open>A file in the layout of the format: three header lines, the counts, an atom line with three
  columns of width 10 and four decimals, a bond line with three columns of width 3, one line for
  each formal charge.\<close>

definition counts_text :: "nat \<Rightarrow> nat \<Rightarrow> string" where
  "counts_text n m = pad 3 (show_int (int n)) @ pad 3 (show_int (int m)) @ ''  0  0  0  0  0  0  0  0999 V2000''"

definition atom_text :: "mol_atom \<Rightarrow> string" where
  "atom_text a =
     pad 10 (show_fixed 4 (ma_x a)) @ pad 10 (show_fixed 4 (ma_y a)) @ pad 10 (show_fixed 4 (ma_z a)) @
     blank # ma_element a @ blank # ''0  0  0''"

definition bond_text :: "mol_bond \<Rightarrow> string" where
  "bond_text b =
     pad 3 (show_int (mb_atom1 b)) @ pad 3 (show_int (mb_atom2 b)) @ pad 3 (show_int (mb_order b)) @ ''  0  0''"

definition charge_text :: "int \<times> int \<Rightarrow> string" where
  "charge_text p = ''M'' @ ''  CHG  1 '' @ show_int (fst p) @ blank # show_int (snd p)"

definition v2000_file :: "string list \<Rightarrow> mol_topology \<Rightarrow> (int \<times> int) list \<Rightarrow> string list" where
  "v2000_file header t charges =
     header @ counts_text (n_atoms t) (n_bonds t) # map atom_text (mt_atoms t) @ map bond_text (mt_bonds t) @
     map charge_text charges @ [''M  END'']"

text \<open>What such a file can describe.\<close>

definition text_column :: "pyfloat \<Rightarrow> bool" where
  "text_column x \<longleftrightarrow> length (show_fixed 4 x) < 10"

definition v2000_atom_ok :: "mol_atom \<Rightarrow> bool" where
  "v2000_atom_ok a \<longleftrightarrow> word (ma_element a) \<and> text_column (ma_x a) \<and> text_column (ma_y a) \<and> text_column (ma_z a)"

definition in_field :: "int \<Rightarrow> bool" where
  "in_field n \<longleftrightarrow> 0 \<le> n \<and> n < 1000"

definition v2000_ok :: "string list \<Rightarrow> mol_topology \<Rightarrow> bool" where
  "v2000_ok header t \<longleftrightarrow>
     length header = 3 \<and> list_all one_line header \<and> list_all no_return header \<and>
     n_atoms t < 1000 \<and> n_bonds t < 1000 \<and> list_all v2000_atom_ok (mt_atoms t) \<and>
     list_all (\<lambda>b. in_field (mb_atom1 b) \<and> in_field (mb_atom2 b) \<and> in_field (mb_order b)) (mt_bonds t)"

text \<open>The atom that is read: the number of its line, rounded coordinates, no charge.\<close>

definition read_back :: "nat \<Rightarrow> mol_atom \<Rightarrow> mol_atom" where
  "read_back i a =
     \<lparr>ma_index = int i + 1, ma_x = rounded 4 (ma_x a), ma_y = rounded 4 (ma_y a), ma_z = rounded 4 (ma_z a),
      ma_element = ma_element a, ma_ff_type = None, ma_charge = 0, ma_charge_defined = False\<rparr>"

definition atoms_weight :: "mol_atom list \<Rightarrow> pyfloat" where
  "atoms_weight xs = sum_list (map (\<lambda>a. weight_of (ma_element a)) xs)"

definition charges_of :: "(int \<times> int) list \<Rightarrow> (int, pyfloat) pydict" where
  "charges_of cs = fold (\<lambda>(i, c). dict_set i (of_int c)) cs []"

section \<open>Lines of the layout\<close>

lemma word_strip: "word u \<Longrightarrow> str_strip u = u"
  by (rule str_strip_no_space) (auto simp: word_def list_all_iff)

lemma split_atom_text:
  assumes "v2000_atom_ok a"
  shows "\<exists>ws. py_split (atom_text a @ [newline]) =
    show_fixed 4 (ma_x a) # show_fixed 4 (ma_y a) # show_fixed 4 (ma_z a) # ma_element a # ws"
proof -
  have w: "word (ma_element a)" "length (show_fixed 4 (ma_y a)) < 10" "length (show_fixed 4 (ma_z a)) < 10"
    using assms by (auto simp: v2000_atom_ok_def text_column_def)
  have "py_split (ma_element a @ blank # ''0  0  0'' @ [newline]) = ma_element a # py_split (''0  0  0'' @ [newline])"
    by (rule py_split_Cons [OF w(1)])
  then show ?thesis
    using w by (simp add: atom_text_def py_split_word_blank py_split_Cons)
qed

lemma v2000_atom_line:
  assumes "v2000_atom_ok a"
  shows "v2000_atom (atom_text a @ [newline]) st =
    Some (fst st @ [read_back (length (fst st)) a], snd st + weight_of (ma_element a))"
proof -
  obtain ws where "py_split (atom_text a @ [newline]) =
      show_fixed 4 (ma_x a) # show_fixed 4 (ma_y a) # show_fixed 4 (ma_z a) # ma_element a # ws"
    using split_atom_text [OF assms] by blast
  moreover have "str_strip (ma_element a) = ma_element a"
    using assms by (simp add: v2000_atom_ok_def word_strip)
  ultimately show ?thesis by (simp add: v2000_atom_def float_of_show_fixed read_back_def)
qed

lemma v2000_bond_line:
  assumes "in_field (mb_atom1 b)" "in_field (mb_atom2 b)" "in_field (mb_order b)"
  shows "v2000_bond (bond_text b @ [newline]) bonds = Some (bonds @ [b])"
proof -
  let ?a = "pad 3 (show_int (mb_atom1 b))" and ?b = "pad 3 (show_int (mb_atom2 b))" and ?c = "pad 3 (show_int (mb_order b))"
  have len: "length ?a = 3" "length ?b = 3" "length ?c = 3"
    using assms by (simp_all add: in_field_def length_pad show_int_short)
  obtain r where "str_strip (bond_text b @ [newline]) = show_int (mb_atom1 b) @ r"
    using str_strip_head [OF show_int_word] by (simp add: bond_text_def pad_def)
  moreover have "\<not> prefix ''M '' (show_int n @ r)" for n
    using show_nat_head_word [of "nat n"] by (cases "show_nat (nat n)") (auto simp: show_int_def is_digit_def Let_def)
  ultimately have "\<not> prefix ''M '' (str_strip (bond_text b @ [newline]))" by simp
  moreover have "slice 0 3 (bond_text b @ [newline]) = ?a" "slice 3 6 (bond_text b @ [newline]) = ?b"
    "slice 6 9 (bond_text b @ [newline]) = ?c" "\<not> length (bond_text b @ [newline]) < 9"
    using len by (simp_all add: bond_text_def slice_def)
  ultimately show ?thesis by (simp add: v2000_bond_def int_of_pad)
qed

lemma word_M: "word ''M''" "word ''CHG''" "word ''1''"
  by (simp_all add: word_def is_space_def)

lemma charge_line_strip:
  "str_strip (charge_text p @ [newline]) = charge_text p"
proof -
  have l: "str_strip (s @ [newline]) = str_strip s" for s
  proof (cases "list_all is_space s")
    case True
    then have "dropWhile is_space s = []" by (simp add: list_all_iff)
    moreover have "dropWhile is_space (s @ [newline]) = []"
      using True by (simp add: list_all_iff newline_def is_space_def)
    ultimately show ?thesis by (simp only: str_strip_def)
  next
    case False
    then have "dropWhile is_space (s @ [newline]) = dropWhile is_space s @ [newline]"
      by (auto simp: list_all_iff dropWhile_append1)
    then show ?thesis by (simp add: str_strip_def newline_def is_space_def)
  qed
  have "last (show_int n) \<in> set (show_int n)" for n using show_int_word [of n] by (auto simp: word_def)
  then have "\<not> is_space (last (show_int n))" for n using show_int_word [of n] by (auto simp: word_def list_all_iff)
  moreover have "show_int n \<noteq> []" for n using show_int_word [of n] by (auto simp: word_def)
  ultimately have "str_strip (charge_text p) = charge_text p"
    unfolding charge_text_def by (intro str_strip_word_ends) (simp_all add: word_M)
  then show ?thesis by (simp only: l)
qed

lemma split_charge_text: "py_split (charge_text p) = [''M'', ''CHG'', ''1'', show_int (fst p), show_int (snd p)]"
proof -
  have "charge_text p = ''M'' @ blank # blank # ''CHG'' @ blank # blank # ''1'' @ blank # show_int (fst p) @ blank # show_int (snd p)"
    by (simp add: charge_text_def blank_def)
  then show ?thesis by (simp only: py_split_Cons word_M py_split_blank show_int_word py_split_word)
qed

lemma v2000_charge_line:
  "v2000_charge (charge_text p @ [newline]) d = Some (dict_set (fst p) (of_int (snd p)) d)"
proof -
  have "prefix ''M  CHG'' (charge_text p)" "charge_text p \<noteq> ''M  END''" by (simp_all add: charge_text_def)
  moreover have "py_int_of ''1'' = Some 1" by code_simp
  ultimately show ?thesis
    by (simp add: v2000_charge_def Let_def charge_line_strip split_charge_text add_charge_def int_of_show_int
      float_of_show_int)
qed

section \<open>Whole files\<close>

lemma plain_append [simp]:
  "one_line (s @ t) = (one_line s \<and> one_line t)" "no_return (s @ t) = (no_return s \<and> no_return t)"
  by (auto simp: one_line_def no_return_def)

lemma plain_Cons [simp]:
  "one_line (c # s) = (c \<noteq> newline \<and> one_line s)" "no_return (c # s) = (c \<noteq> CHR 0x0D \<and> no_return s)"
  "one_line []" "no_return []"
  by (auto simp: one_line_def no_return_def)

lemma word_plain: "word w \<Longrightarrow> one_line w \<and> no_return w"
  by (auto simp: word_def list_all_iff one_line_def no_return_def newline_def is_space_def)

lemma pad_plain [simp]: "one_line (pad k w) = one_line w" "no_return (pad k w) = no_return w"
  by (auto simp: pad_def one_line_def no_return_def blank_def newline_def)

lemmas plain_words [simp] = word_plain [OF show_int_word] word_plain [OF show_fixed_word]

lemma file_plain:
  assumes "v2000_ok header t"
  shows "list_all one_line (v2000_file header t charges) \<and> list_all no_return (v2000_file header t charges)"
  using assms
  by (auto simp: v2000_file_def v2000_ok_def list_all_iff counts_text_def atom_text_def bond_text_def charge_text_def
    v2000_atom_ok_def blank_def newline_def dest!: word_plain)

lemma fold_map_the:
  assumes "\<And>a s. a \<in> set zs \<Longrightarrow> step (put a) s = Some (g a s)"
  shows "fold (\<lambda>x s. the (step x s)) (map put zs) s = fold g zs s"
  using assms by (induction zs arbitrary: s) auto

lemma scan_texts:
  assumes "\<And>a s. a \<in> set zs \<Longrightarrow> step (put a) s = Some (g a s)"
    "n = int (length pre)" "k = int (length pre) + int (length zs) - 1"
  shows "scan_lines step (pre @ map put zs @ post) ([n..k] @ ks) s =
    scan_lines step (pre @ map put zs @ post) ks (fold g zs s)"
proof -
  have "scan_lines step (pre @ map put zs @ post)
      ([int (length pre)..int (length pre) + int (length (map put zs)) - 1] @ ks) s =
    scan_lines step (pre @ map put zs @ post) ks (fold (\<lambda>x s. the (step x s)) (map put zs) s)"
    by (rule scan_block) (use assms(1) in auto)
  then show ?thesis using fold_map_the [of zs step put g s, OF assms(1)] assms(2,3) by simp
qed

lemma fold_atoms:
  "fold (\<lambda>a st. (fst st @ [read_back (length (fst st)) a], snd st + weight_of (ma_element a))) zs (xs, w) =
    (xs @ map (\<lambda>(i, a). read_back i a) (enumerate (length xs) zs), w + atoms_weight zs)"
  by (induction zs arbitrary: xs w) (simp_all add: atoms_weight_def)

lemma fold_snoc: "fold (\<lambda>b bs. bs @ [b]) xs ys = ys @ xs"
  by (induction xs arbitrary: ys) simp_all

text \<open>The molecule a file describes.\<close>

definition described :: "string \<Rightarrow> mol_topology \<Rightarrow> (int \<times> int) list \<Rightarrow> mol_topology" where
  "described name t charges =
     \<lparr>mt_mol_id = name,
      mt_atoms = map (set_charge (charges_of charges)) (map (\<lambda>(i, a). read_back i a) (enumerate 0 (mt_atoms t))),
      mt_bonds = mt_bonds t, mt_weight = rounded 2 (atoms_weight (mt_atoms t)), mt_impropers = None\<rparr>"

lemma parse_v2000_file:
  assumes "v2000_ok header t"
  shows "parse_v2000 name (map (\<lambda>l. l @ [newline]) (v2000_file header t charges)) (int (n_atoms t)) (int (n_bonds t)) =
    Inr (Some (described name t charges))"
proof -
  let ?nl = "\<lambda>l. l @ [newline]" and ?n = "int (n_atoms t)" and ?m = "int (n_bonds t)"
  let ?H = "map ?nl (header @ [counts_text (n_atoms t) (n_bonds t)])"
  let ?A = "map (\<lambda>a. ?nl (atom_text a)) (mt_atoms t)" and ?B = "map (\<lambda>b. ?nl (bond_text b)) (mt_bonds t)"
  let ?C = "map (\<lambda>c. ?nl (charge_text c)) charges" and ?E = "[?nl ''M  END'']"
  let ?f = "map ?nl (v2000_file header t charges)"
  have f: "?f = ?H @ ?A @ ?B @ ?C @ ?E" by (simp add: v2000_file_def)
  have len: "length ?H = 4" "length ?A = n_atoms t" "length ?B = n_bonds t"
    using assms by (simp_all add: v2000_ok_def n_atoms_def n_bonds_def)
  have A: "scan_lines v2000_atom ?f ([4..4 + ?n - 1] @ []) ([], 0) =
      Inr (map (\<lambda>(i, a). read_back i a) (enumerate 0 (mt_atoms t)), atoms_weight (mt_atoms t))"
    unfolding f
    by (subst scan_texts [where g = "\<lambda>a st. (fst st @ [read_back (length (fst st)) a], snd st + weight_of (ma_element a))"])
      (use assms len in \<open>auto simp: v2000_ok_def list_all_iff v2000_atom_line fold_atoms n_atoms_def\<close>)
  have B: "scan_lines v2000_bond ((?H @ ?A) @ ?B @ ?C @ ?E) ([4 + ?n..4 + ?n + ?m - 1] @ []) [] = Inr (mt_bonds t)"
    by (subst scan_texts [where g = "\<lambda>b bs. bs @ [b]"])
      (use assms len in \<open>auto simp: v2000_ok_def list_all_iff v2000_bond_line fold_snoc n_bonds_def\<close>)
  have r: "[4 + ?n + ?m..int (length ?f) - 1] =
      [4 + ?n + ?m..4 + ?n + ?m + int (length charges) - 1] @ [4 + ?n + ?m + int (length charges)]"
    unfolding f using len by (subst upto_split1 [of _ "4 + ?n + ?m + int (length charges)"]) (auto simp: add.assoc)
  have "v2000_charge (?nl ''M  END'') d = None" for d by (simp add: v2000_charge_def Let_def) code_simp
  moreover have "py_index ((?H @ ?A @ ?B) @ ?C @ ?E) (4 + ?n + ?m + int (length charges)) = Inr (?nl ''M  END'')"
    using len by (simp add: py_index_def nth_append nat_add_distrib)
  ultimately have E: "scan_lines v2000_charge ((?H @ ?A @ ?B) @ ?C @ ?E) [4 + ?n + ?m + int (length charges)] d = Inr d" for d
    using len by simp
  have C: "scan_lines v2000_charge ((?H @ ?A @ ?B) @ ?C @ ?E)
      ([4 + ?n + ?m..4 + ?n + ?m + int (length charges) - 1] @ [4 + ?n + ?m + int (length charges)]) [] =
      Inr (charges_of charges)"
    by (subst scan_texts [where g = "\<lambda>p d. dict_set (fst p) (of_int (snd p)) d"])
      (use len E in \<open>auto simp: v2000_charge_line charges_of_def case_prod_unfold\<close>)
  have "scan_lines v2000_atom ?f [4..4 + ?n - 1] ([], 0) =
      Inr (map (\<lambda>(i, a). read_back i a) (enumerate 0 (mt_atoms t)), atoms_weight (mt_atoms t))"
    using A by (simp only: append_Nil2)
  moreover have "scan_lines v2000_bond ?f [4 + ?n..4 + ?n + ?m - 1] [] = Inr (mt_bonds t)"
    using B by (simp only: f append_assoc append_Nil2)
  moreover have "scan_lines v2000_charge ?f [4 + ?n + ?m..int (length ?f) - 1] [] = Inr (charges_of charges)"
    unfolding r unfolding f using C by (simp only: append_assoc)
  ultimately show ?thesis by (simp only: parse_v2000_def Let_def bind_result_simps prod.case described_def)
qed

text \<open>The weight and the numbering of what is read, whatever the file holds.\<close>

lemma v2000_atoms_inv:
  assumes "scan_lines v2000_atom ls ks ([], 0) = Inr st"
  shows "numbered (map ma_index (fst st)) \<and> snd st = atoms_weight (fst st)"
proof (rule scan_invariant [OF assms])
  show "numbered (map ma_index (fst ([], 0 :: pyfloat))) \<and> snd ([] :: mol_atom list, 0 :: pyfloat) = atoms_weight (fst ([], 0 :: pyfloat))"
    by (simp add: atoms_weight_def)
  fix l :: string and st st' :: "mol_atom list \<times> pyfloat"
  assume "numbered (map ma_index (fst st)) \<and> snd st = atoms_weight (fst st)" "v2000_atom l st = Some st'"
  then show "numbered (map ma_index (fst st')) \<and> snd st' = atoms_weight (fst st')"
    by (auto simp: v2000_atom_def atoms_weight_def split: list.splits option.splits)
qed

lemma v2000_atoms_bound:
  assumes "scan_lines v2000_atom ls ks st = Inr st'"
  shows "length (fst st') \<le> length (fst st) + length ks"
  using assms
proof (induction ks arbitrary: st)
  case (Cons k ks)
  have one: "length (fst u) \<le> length (fst st) + 1" if "v2000_atom l st = Some u" for l u
    using that by (auto simp: v2000_atom_def split: list.splits option.splits)
  show ?case using Cons.prems Cons.IH one
    by (force split: if_splits sum.splits option.splits)
qed simp

lemma set_charge_fields [simp]:
  "ma_index (set_charge d a) = ma_index a" "ma_element (set_charge d a) = ma_element a"
  by (auto simp: set_charge_def split: option.splits)

lemma set_charge_maps [simp]:
  "map ma_index (map (set_charge d) xs) = map ma_index xs" "atoms_weight (map (set_charge d) xs) = atoms_weight xs"
  by (simp_all add: atoms_weight_def comp_def)

lemma parse_v2000_inv:
  assumes "parse_v2000 name ls n m = Inr (Some t)"
  shows "numbered (map ma_index (mt_atoms t)) \<and> mt_weight t = rounded 2 (atoms_weight (mt_atoms t)) \<and>
    int (length (mt_atoms t)) \<le> max 0 n"
proof -
  obtain st bonds d where st: "scan_lines v2000_atom ls [4..4 + n - 1] ([], 0) = Inr st"
    and t0: "t = \<lparr>mt_mol_id = name, mt_atoms = map (set_charge d) (fst st), mt_bonds = bonds,
      mt_weight = rounded 2 (snd st), mt_impropers = None\<rparr>"
    using assms by (fastforce simp: parse_v2000_def Let_def bind_result_Inr)
  then have t: "mt_atoms t = map (set_charge d) (fst st)" "mt_weight t = rounded 2 (snd st)" by simp_all
  have "length [4..4 + n - 1] = nat n" by simp
  then have "length (fst st) \<le> nat n" using v2000_atoms_bound [OF st] by simp
  then have "int (length (fst st)) \<le> max 0 n" by linarith
  then show ?thesis using v2000_atoms_inv [OF st] by (simp only: t set_charge_maps length_map)
qed

lemma v3000_line_weight:
  "v3_weight S = atoms_weight (v3_atoms S) \<Longrightarrow> v3_weight (v3000_line l S) = atoms_weight (v3_atoms (v3000_line l S))"
  by (auto simp: v3000_line_def v3000_atom_def v3000_bond_def Let_def atoms_weight_def
      split: list.splits option.splits)

lemma v3000_weight: "v3_weight S = atoms_weight (v3_atoms S) \<Longrightarrow>
    v3_weight (fold v3000_line ls S) = atoms_weight (v3_atoms (fold v3000_line ls S))"
  by (induction ls arbitrary: S) (simp_all add: v3000_line_weight)

lemma atoms_weight_mset: "mset xs = mset ys \<Longrightarrow> atoms_weight xs = atoms_weight ys"
  unfolding atoms_weight_def by (metis mset_map sum_mset_sum_list)

lemma parse_v3000_inv:
  assumes "parse_mol_v3000 ls name = Some t"
  shows "sorted (map ma_index (mt_atoms t)) \<and> mt_atoms t \<noteq> [] \<and> mt_weight t = rounded 2 (atoms_weight (mt_atoms t))"
proof -
  let ?S = "fold v3000_line ls v3000_start"
  have "v3_weight ?S = atoms_weight (v3_atoms ?S)"
    by (rule v3000_weight) (simp add: v3000_start_def atoms_weight_def)
  moreover have "atoms_weight (sort_key ma_index (v3_atoms ?S)) = atoms_weight (v3_atoms ?S)"
    by (rule atoms_weight_mset) simp
  moreover have "v3_atoms ?S \<noteq> []" "mt_atoms t = sort_key ma_index (v3_atoms ?S)" "mt_weight t = rounded 2 (v3_weight ?S)"
    using assms by (auto simp: parse_mol_v3000_def Let_def split: if_splits)
  ultimately show ?thesis by (metis length_0_conv length_sort sorted_sort_key)
qed

section \<open>XYZ files\<close>

lemma split_join: "list_all one_line ls \<Longrightarrow> ls \<noteq> [] \<Longrightarrow> split_on newline (join_with newline ls) = ls"
  by (induction newline ls rule: join_with.induct) (simp_all add: split_on_cons split_on_single one_line_def)

lemma join_plain: "list_all no_return ls \<Longrightarrow> no_return (join_with newline ls)"
  by (induction newline ls rule: join_with.induct) (simp_all add: newline_def)

lemma last_join: "ls \<noteq> [] \<Longrightarrow> last ls \<noteq> [] \<Longrightarrow> join_with c ls \<noteq> [] \<and> last (join_with c ls) = last (last ls)"
  by (induction c ls rule: join_with.induct) auto

text \<open>The lines the XYZ writer joins.\<close>

definition xyz_text_lines :: "mol_topology \<Rightarrow> string \<Rightarrow> string list" where
  "xyz_text_lines t mol_id =
     show_nat (n_atoms t) # (mol_id @ '' converted from MOL'') # map xyz_atom_line (sort_key ma_index (mt_atoms t))"

lemma last_word: "word w \<Longrightarrow> w \<noteq> [] \<and> \<not> is_space (last w)"
  by (auto simp: word_def list_all_iff)

lemma xyz_line_ends: "xyz_atom_line a \<noteq> [] \<and> \<not> is_space (last (xyz_atom_line a))"
  using last_word [OF show_fixed_word [of 6 "ma_z a"]] by (simp add: xyz_atom_line_def)

lemma xyz_line_plain:
  assumes "word (ma_element a)"
  shows "one_line (xyz_atom_line a) \<and> no_return (xyz_atom_line a)"
  using word_plain [OF assms] by (simp add: xyz_atom_line_def newline_def)

lemma split_xyz_line:
  assumes "word (ma_element a)"
  shows "py_split (xyz_atom_line a) =
    [ma_element a, show_fixed 6 (ma_x a), show_fixed 6 (ma_y a), show_fixed 6 (ma_z a)]"
proof -
  have "xyz_atom_line a = ma_element a @ blank # blank # show_fixed 6 (ma_x a) @ blank # blank #
      show_fixed 6 (ma_y a) @ blank # blank # show_fixed 6 (ma_z a)"
    by (simp add: xyz_atom_line_def blank_def)
  then show ?thesis by (simp only: py_split_Cons assms show_fixed_word py_split_blank py_split_word)
qed

lemma xyz_lines_written:
  assumes "mt_atoms t \<noteq> []" "list_all (\<lambda>a. word (ma_element a)) (mt_atoms t)" "one_line mol_id" "no_return mol_id"
  shows "xyz_lines (join_with newline (xyz_text_lines t mol_id)) = xyz_text_lines t mol_id"
proof -
  let ?as = "sort_key ma_index (mt_atoms t)" and ?ls = "xyz_text_lines t mol_id"
  let ?r = "join_with newline (tl ?ls)"
  have ne: "?as \<noteq> []" using assms(1) by (metis length_0_conv length_sort)
  have plain: "list_all one_line ?ls" "list_all no_return ?ls"
    using assms xyz_line_plain word_plain [OF show_nat_word [of "n_atoms t"]]
    by (auto simp: xyz_text_lines_def list_all_iff newline_def)
  have "last (tl ?ls) = xyz_atom_line (last ?as)" using ne by (simp add: xyz_text_lines_def last_map)
  moreover have "tl ?ls \<noteq> []" by (simp add: xyz_text_lines_def)
  ultimately have r: "?r \<noteq> []" "\<not> is_space (last ?r)" using last_join xyz_line_ends by metis+
  have "join_with newline ?ls = show_nat (n_atoms t) @ newline # ?r" by (simp add: xyz_text_lines_def)
  moreover have "str_strip (show_nat (n_atoms t) @ newline # ?r) = show_nat (n_atoms t) @ newline # ?r"
    by (rule str_strip_word_ends) (use r in auto)
  ultimately have "str_strip (join_with newline ?ls) = join_with newline ?ls" by simp
  then have "xyz_lines (join_with newline ?ls) = split_on newline (join_with newline ?ls)"
    by (simp only: xyz_lines_def newlines_id [OF join_plain [OF plain(2)]])
  also have "\<dots> = ?ls" by (rule split_join [OF plain(1)]) (simp add: xyz_text_lines_def)
  finally show ?thesis .
qed

lemma xyz_body_all: "xyz_body (int (length ls)) (a # b # ls) = ls"
  by (simp add: xyz_body_def Let_def nat_add_distrib)

lemma xyz_atoms_written:
  "list_all (\<lambda>a. word (ma_element a)) xs \<Longrightarrow>
    xyz_atoms i (map xyz_atom_line xs) =
      map (\<lambda>(k, a). \<lparr>ma_index = int k + 1, ma_x = rounded 6 (ma_x a), ma_y = rounded 6 (ma_y a),
        ma_z = rounded 6 (ma_z a), ma_element = ma_element a, ma_ff_type = None, ma_charge = 0,
        ma_charge_defined = False\<rparr>) (enumerate i xs)"
  by (induction xs arbitrary: i) (simp_all add: split_xyz_line float_of_show_fixed)

lemma xyz_points_written:
  "list_all (\<lambda>a. word (ma_element a)) xs \<Longrightarrow>
    concat (map xyz_point (map xyz_atom_line xs)) = map (\<lambda>a. (rounded 6 (ma_x a), rounded 6 (ma_y a), rounded 6 (ma_z a))) xs"
  by (induction xs) (simp_all add: xyz_point_def split_xyz_line float_of_show_fixed)

lemma atoms_weight_elements: "atoms_weight xs = sum_list (map weight_of (map ma_element xs))"
  by (simp add: atoms_weight_def comp_def)

section \<open>Properties\<close>


definition salt :: mol_topology where
  "salt = \<lparr>mt_mol_id = ''NaCl'',
     mt_atoms = [\<lparr>ma_index = 1, ma_x = 0, ma_y = 1/2, ma_z = -1/8, ma_element = ''Na'', ma_ff_type = None, ma_charge = 0,
                  ma_charge_defined = False\<rparr>,
                 \<lparr>ma_index = 2, ma_x = 2, ma_y = 0, ma_z = 0, ma_element = ''Cl'', ma_ff_type = None, ma_charge = 0,
                  ma_charge_defined = False\<rparr>],
     mt_bonds = [\<lparr>mb_atom1 = 1, mb_atom2 = 2, mb_order = 1\<rparr>], mt_weight = 0, mt_impropers = None\<rparr>"

lemma salt_columns: "text_column 0" "text_column 2" "text_column (1/2)" "text_column (-1/8)"
  by (simp_all add: text_column_def show_fixed_def show_scaled_def py_round_def show_nat_cases)

lemma salt_ok: "v2000_ok [''salt'', [], []] salt"
  using salt_columns by (simp add: v2000_ok_def salt_def n_atoms_def n_bonds_def v2000_atom_ok_def in_field_def
    word_def is_space_def newline_def)


lemma parsed_numbering:
  assumes "parse_mol_topology stem mol_id (Some content) = Inr (Some t)"
  shows "mt_weight t = rounded 2 (atoms_weight (mt_atoms t)) \<and>
    (if str_contains ''V3000'' (readlines content ! 3)
     then sorted (map ma_index (mt_atoms t)) \<and> mt_atoms t \<noteq> []
     else numbered (map ma_index (mt_atoms t)) \<and>
       int (length (mt_atoms t)) \<le> max 0 (the (py_int_of (slice 0 3 (readlines content ! 3)))))"
proof -
  have p: "parse_mol_lines (or_default (Some mol_id) stem) (readlines content) = Inr (Some t)"
    using assms by (simp add: parse_mol_topology_def)
  show ?thesis
  proof (cases "str_contains ''V3000'' (readlines content ! 3)")
    case True
    then have "parse_mol_v3000 (readlines content) (or_default (Some mol_id) stem) = Some t"
      using p by (simp add: parse_mol_lines_def Let_def split: if_splits)
    from parse_v3000_inv [OF this] True show ?thesis by simp
  next
    case False
    then obtain n m where "py_int_of (slice 0 3 (readlines content ! 3)) = Some n"
      "parse_v2000 (or_default (Some mol_id) stem) (readlines content) n m = Inr (Some t)"
      using p by (auto simp: parse_mol_lines_def Let_def split: if_splits option.splits)
    with parse_v2000_inv [OF this(2)] False show ?thesis by simp
  qed
qed

theorem parsed_atoms_are_numbered:
  assumes "parse_mol_topology stem mol_id (Some content) = Inr (Some t)"
  shows "mt_weight t = rounded 2 (atoms_weight (mt_atoms t)) \<and>
    (if str_contains ''V3000'' (readlines content ! 3)
     then sorted (map ma_index (mt_atoms t)) \<and> mt_atoms t \<noteq> []
     else numbered (map ma_index (mt_atoms t)) \<and>
       int (length (mt_atoms t)) \<le> max 0 (the (py_int_of (slice 0 3 (readlines content ! 3)))))"
  using assms by (rule parsed_numbering)

text \<open>Two files of one atom each.\<close>

definition v3000_text :: string where
  "v3000_text = unlines [[], [], [], ''  0  0 V3000'', ''M  V30 BEGIN ATOM'', ''M  V30 7 Na 0 0 0 0 CHG=1'', ''M  V30 END ATOM'']"

lemma readlines_v3000: "str_contains ''V3000'' (readlines v3000_text ! 3)"
  by code_simp

lemma v3000_read:
  "parse_mol_topology ''s'' [] (Some v3000_text) = Inr (Some \<lparr>mt_mol_id = ''s'',
     mt_atoms = [\<lparr>ma_index = 7, ma_x = 0, ma_y = 0, ma_z = 0, ma_element = ''Na'', ma_ff_type = None, ma_charge = 1,
       ma_charge_defined = True\<rparr>], mt_bonds = [], mt_weight = 2299/100, mt_impropers = None\<rparr>)"
  by code_simp

theorem parsed_atoms_are_numbered_witness:
  "rounded 2 (atoms_weight (mt_atoms (the (projr (parse_mol_topology ''s'' [] (Some v3000_text)))))) = 2299/100"
  using parsed_atoms_are_numbered [OF v3000_read] v3000_read by simp

text \<open>
  The XYZ text of a molecule with one-word elements and a one-line name is read back to
  the coordinates rounded to six decimals, the elements in index order and the weight of the
  molecule.
\<close>

theorem xyz_round_trip:
  assumes "mt_atoms t \<noteq> []" "list_all (\<lambda>a. word (ma_element a)) (mt_atoms t)" "one_line mol_id" "no_return mol_id"
  shows "convert_mol_to_xyz (Some t) mol_id = Inr (join_with newline (xyz_text_lines t mol_id)) \<and>
    parse_xyz_coordinates (Some (join_with newline (xyz_text_lines t mol_id))) =
      map (\<lambda>a. (rounded 6 (ma_x a), rounded 6 (ma_y a), rounded 6 (ma_z a))) (sort_key ma_index (mt_atoms t)) \<and>
    map ma_element (mt_atoms (create_xyz_topology (Some (join_with newline (xyz_text_lines t mol_id))) name)) =
      map ma_element (sort_key ma_index (mt_atoms t)) \<and>
    mt_weight (create_xyz_topology (Some (join_with newline (xyz_text_lines t mol_id))) name) =
      atoms_weight (mt_atoms t)"
proof -
  let ?as = "sort_key ma_index (mt_atoms t)" and ?ls = "xyz_text_lines t mol_id"
  have ok: "list_all (\<lambda>a. word (ma_element a)) ?as" using assms(2) by (simp add: list_all_iff)
  have "length ?as \<noteq> 0" using assms(1) by simp
  then have len: "\<not> length ?ls < 3" by (simp add: xyz_text_lines_def del: length_sort)
  have n: "n_atoms t = length (map xyz_atom_line ?as)" by (simp add: n_atoms_def)
  have body: "xyz_body (int (n_atoms t)) ?ls = map xyz_atom_line ?as"
    unfolding xyz_text_lines_def by (subst n) (rule xyz_body_all)
  note pts = xyz_points_written [OF ok]
  note read = xyz_lines_written [OF assms]
  have hd: "py_int_of (hd ?ls) = Some (int (n_atoms t))" by (simp add: xyz_text_lines_def int_of_show_nat)
  have el: "map ma_element (xyz_atoms i (map xyz_atom_line ?as)) = map ma_element ?as" for i
    using map_map [of ma_element snd "enumerate i ?as"]
    by (simp add: xyz_atoms_written [OF ok] comp_def case_prod_unfold)
  have "atoms_weight (xyz_atoms 0 (map xyz_atom_line ?as)) = atoms_weight ?as"
    by (simp only: atoms_weight_elements el)
  also have "\<dots> = atoms_weight (mt_atoms t)" by (rule atoms_weight_mset) simp
  finally have w: "atoms_weight (xyz_atoms 0 (map xyz_atom_line ?as)) = atoms_weight (mt_atoms t)" .
  have "parse_xyz_coordinates (Some (join_with newline ?ls)) = concat (map xyz_point (map xyz_atom_line ?as))"
    using len by (simp only: parse_xyz_coordinates_def option.case Let_def read hd body if_False)
  moreover have "mt_atoms (create_xyz_topology (Some (join_with newline ?ls)) name) = xyz_atoms 0 (map xyz_atom_line ?as)"
    "mt_weight (create_xyz_topology (Some (join_with newline ?ls)) name) =
       atoms_weight (xyz_atoms 0 (map xyz_atom_line ?as))"
    using len by (simp_all only: create_xyz_topology_def option.case Let_def read hd body if_False
        mol_topology.select_convs atoms_weight_def)
  moreover have "convert_mol_to_xyz (Some t) mol_id = Inr (join_with newline ?ls)"
    using assms(1) by (simp only: convert_mol_to_xyz_def option.case if_False xyz_text_lines_def)
  ultimately show ?thesis by (simp only: pts el w)
qed

theorem xyz_round_trip_witness:
  "parse_xyz_coordinates (Some (join_with newline (xyz_text_lines salt ''NaCl''))) = [(0, 1/2, -1/8), (2, 0, 0)]"
proof -
  have "mt_atoms salt \<noteq> []" "list_all (\<lambda>a. word (ma_element a)) (mt_atoms salt)" "one_line ''NaCl''" "no_return ''NaCl''"
    by code_simp+
  note r = xyz_round_trip [OF this]
  have "map (\<lambda>a. (rounded 6 (ma_x a), rounded 6 (ma_y a), rounded 6 (ma_z a))) (sort_key ma_index (mt_atoms salt)) =
      [(0, 1/2, -1/8), (2, 0, 0)]" by code_simp
  with r show ?thesis by simp
qed

section \<open>Findings\<close>

text \<open>An atom line that cannot be read is skipped and the atoms behind it move up: the bonds, which
  name atoms by their line, then join other atoms.\<close>

definition shifted_file :: string where
  "shifted_file = unlines [[], [], [], ''  3  1'', ''0 0 0 C'', ''0 0 ? N'', ''0 0 0 O'', ''  1  3  2'', ''M  END'']"

lemma skipped_line_shifts:
  "map (\<lambda>a. (ma_index a, ma_element a)) (mt_atoms (the (projr (parse_mol_topology ''s'' [] (Some shifted_file))))) =
     [(1, ''C''), (2, ''O'')] \<and>
   map (\<lambda>b. (mb_atom1 b, mb_atom2 b)) (mt_bonds (the (projr (parse_mol_topology ''s'' [] (Some shifted_file))))) = [(1, 3)]"
  by code_simp

text \<open>Coordinates are split at blanks although they stand in columns: two full columns make one word.\<close>

lemma full_columns_are_lost:
  "v2000_atom ''-1000.0000-1000.0000    0.0000 C   0  0'' ([], 0) = Some ([], 0)"
proof -
  have s: "py_split ''-1000.0000-1000.0000    0.0000 C   0  0'' = [''-1000.0000-1000.0000'', ''0.0000'', ''C'', ''0'', ''0'']"
    by code_simp
  have "py_float_of ''C'' = None" by code_simp
  then show ?thesis by (simp add: v2000_atom_def s split: option.splits)
qed

text \<open>A negative atom count is accepted and the loops then read in front of the list of lines.\<close>

lemma negative_count_raises:
  "parse_mol_topology ''s'' [] (Some (unlines [[], [], [], ''-99  1'', [], []])) = Inl IndexError"
  by code_simp

end
