(* ===== verification/SingleComponentProps.thy ===== *)
theory SingleComponentProps
  imports SingleComponent ArtifactProps MolParserProps
begin

text \<open>
  The single-component pipeline from end to end: what stands behind a data file that is
  written, and when none is. The lemmas follow a molecule through its assignment, which
  changes types and charges only.
\<close>

section \<open>What an assignment keeps\<close>

definition same_frame :: "mol_topology \<Rightarrow> mol_topology \<Rightarrow> bool" where
  "same_frame t t' \<longleftrightarrow> mt_bonds t' = mt_bonds t \<and> map ma_index (mt_atoms t') = map ma_index (mt_atoms t) \<and>
     map ma_element (mt_atoms t') = map ma_element (mt_atoms t)"

lemma same_frame_refl [simp]: "same_frame t t"
  by (simp add: same_frame_def)

lemma apply_artifact_frame:
  assumes "apply_artifact_to_topology weights A t = (r, t')"
  shows "same_frame t t'"
proof (cases r)
  case (Inl e)
  then show ?thesis using apply_artifact_cases [OF assms] by (simp add: same_frame_def)
next
  case (Inr ov)
  note c = apply_artifact_cases [OF assms, unfolded Inr sum.case]
  have "map ma_element (map2 typed_atom cs as) = map ma_element as" if "length cs = length as" for cs as
    using that by (induction cs as rule: list_induct2) simp_all
  then show ?thesis using c map2_typed(1) [of "ar_atoms A" "mt_atoms t"] by (simp add: same_frame_def)
qed

lemma assign_organic_frame:
  "assign_organic shw weights disk strategy source fam (cache, t) = (r, cache', t') \<Longrightarrow>
    same_frame t t' \<and> (\<not> isl r \<longrightarrow> strategy = ORGANIC_CURATED_ARTIFACT)"
  by (auto simp: assign_organic_def assign_via_artifact_def Let_def
      dest: apply_artifact_frame split: if_splits prod.splits sum.splits)

lemma assign_water_frame: "assign_water shw weights disk source t = (r, t') \<Longrightarrow> same_frame t t'"
  using type_atoms_keep [of shw _ "mt_atoms t"]
  by (auto simp: assign_water_def same_frame_def split: option.splits json_file.splits sum.splits prod.splits if_splits)
    (metis snd_conv)+

lemma organic_dispatch_frame:
  "organic_dispatch E strategy source t w = (Inr (ov, t'), w') \<Longrightarrow>
    same_frame t t' \<and> strategy = ORGANIC_CURATED_ARTIFACT \<and> gw_files w' = gw_files w"
  by (auto simp: organic_dispatch_def organic_call_def Let_def dest!: assign_organic_frame split: prod.splits sum.splits)

text \<open>Only two routes assign: the organic one, with a complete artifact, and the water one.\<close>

lemma assign_component_frame:
  assumes "assign_component E I d t w = (Inr (ov, t'), w')"
  shows "same_frame t t' \<and>
    (td_strategy d = WATER_MODEL \<or>
     td_strategy d = ORGANIC_CURATED_ARTIFACT \<and>
       fst (is_artifact_ready (ce_shw E) (ci_mol_id I) (case ci_assignment I of None \<Rightarrow> [] | Some ff \<Rightarrow> ff) (gw_files w')))"
proof (cases "td_strategy d")
  case ORGANIC_CURATED_ARTIFACT
  obtain r w1 where e: "ensure_call E I w = (r, w1)" by (meson surj_pair)
  then obtain source where r: "r = Inr source" "organic_dispatch E ORGANIC_CURATED_ARTIFACT (Some source) t w1 = (Inr (ov, t'), w')"
    using assms ORGANIC_CURATED_ARTIFACT by (auto simp: assign_component_def split: sum.splits)
  have "fst (is_artifact_ready (ce_shw E) (ci_mol_id I) (case ci_assignment I of None \<Rightarrow> [] | Some ff \<Rightarrow> ff) (gw_files w1))"
    using ensure_complete [OF e [unfolded ensure_call_def r(1)]] by simp
  then show ?thesis using organic_dispatch_frame [OF r(2)] ORGANIC_CURATED_ARTIFACT by simp
next
  case WATER_MODEL
  then show ?thesis using assms
    by (auto simp: assign_component_def water_call_def build_failed_def dest!: assign_water_frame split: prod.splits sum.splits water_error.splits)
qed (use assms organic_dispatch_frame [of E IONIC_PROFILE "td_source_id d"] in
    \<open>auto simp: assign_component_def build_failed_def split: prod.splits sum.splits if_splits\<close>)

section \<open>What a generated file is\<close>

definition generated_from ::
    "component_env \<Rightarrow> component_input \<Rightarrow> int \<Rightarrow> mol_topology \<Rightarrow> system_topology \<Rightarrow> bool" where
  "generated_from E I num t sy \<longleftrightarrow>
     parse_mol_topology (ci_stem I) (ci_mol_id I) (ci_file I) = Inr (Some t) \<and>
     length (sy_atoms sy) = nat num * length (mt_atoms t) \<and>
     \<bar>sum_list (map ta_charge (sy_atoms sy))\<bar> \<le> 1 / 10 ^ 4 \<and>
     (numbered (map ma_index (mt_atoms t)) \<longrightarrow> system_ok sy)"

lemma generated:
  assumes "generate_single_component_topology E I num packed box ff w = (Inr out, w')" "0 \<le> num"
  shows "ce_enabled E \<and>
    (\<exists>t sy d. out = write_lammps_data sy \<and> generated_from E I num t sy \<and> decide_strategy E I = Inr d \<and>
      (td_strategy d = WATER_MODEL \<or>
       td_strategy d = ORGANIC_CURATED_ARTIFACT \<and>
         fst (is_artifact_ready (ce_shw E) (ci_mol_id I) (case ci_assignment I of None \<Rightarrow> [] | Some ff \<Rightarrow> ff) (gw_files w'))))"
proof -
  obtain t where t: "parse_mol_topology (ci_stem I) (ci_mol_id I) (ci_file I) = Inr (Some t)"
    using assms(1) by (auto simp: generate_single_component_topology_def build_failed_def split: sum.splits option.splits)
  have on: "ce_enabled E"
    using assms(1) by (auto simp: generate_single_component_topology_def build_failed_def t split: if_splits)
  obtain d where d: "decide_strategy E I = Inr d"
    using assms(1) by (auto simp: generate_single_component_topology_def t on split: sum.splits)
  obtain ov t1 w1 where a: "assign_component E I d t w = (Inr (ov, t1), w1)"
    using assms(1) by (auto simp: generate_single_component_topology_def t on d split: sum.splits prod.splits)
  have v: "validate_molecule_topologies [(t1, num)] = []" and w: "w' = w1"
    using assms(1) by (auto simp: generate_single_component_topology_def t on d a build_failed_def split: if_splits)
  obtain sy where sy: "build_component E ff (is_strict_strategy (td_strategy d)) ov t1 num (parse_xyz_coordinates packed) box = Inr sy"
      "out = write_lammps_data sy"
    using assms(1) by (auto simp: generate_single_component_topology_def t on d a v bind_result_Inr)
  obtain B coords bx where c: "create_from_mol_topology B [(t1, num, is_strict_strategy (td_strategy d))] coords bx ''Asphalt System'' = Inr sy"
    using sy(1) by (cases box) (auto simp: build_component_def bind_result_Inr map_error_Inr)
  note f = assign_component_frame [OF a]
  have same: "map ma_index (mt_atoms t1) = map ma_index (mt_atoms t)" using f by (simp add: same_frame_def)
  have len: "length (mt_atoms t1) = length (mt_atoms t)" using arg_cong [OF same, of length] by simp
  have "length (sy_atoms sy) = length (concat (map (\<lambda>t. map ma_charge (mt_atoms t)) (copies [(t1, num, is_strict_strategy (td_strategy d))])))"
    using arg_cong [OF created_charges [OF c], of length] by simp
  also have "\<dots> = nat num * length (mt_atoms t)"
    by (simp add: copies_def length_concat comp_def sum_list_replicate len)
  finally have n: "length (sy_atoms sy) = nat num * length (mt_atoms t)" .
  have q: "\<bar>sum_list (map ta_charge (sy_atoms sy))\<bar> \<le> 1 / 10 ^ 4"
    by (rule created_neutral [OF c]) (use v assms(2) in simp_all)
  have "system_ok sy" if "numbered (map ma_index (mt_atoms t))"
    by (rule created_ok [OF c]) (use that same in simp)
  then have "generated_from E I num t sy" unfolding generated_from_def using t n q by blast
  then show ?thesis using on d sy(2) f w by blast
qed

section \<open>The probe and the generation\<close>

lemma load_artifact_again:
  assumes "load_artifact shw disk s fam cache = (Inr A, cache')"
  shows "load_artifact shw disk' s fam cache' = (Inr A, cache')"
  using assms by (auto simp: load_artifact_def Let_def update_conv' split: option.splits sum.splits list.splits json_file.splits)

lemma assign_organic_again:
  assumes "assign_organic shw weights disk strategy source fam (cache, t) = (Inr res, cache', t')"
  shows "\<exists>res2. assign_organic shw weights disk2 strategy source fam (cache', t) = (Inr res2, cache', t') \<and>
    or_overrides res2 = or_overrides res"
proof -
  obtain A where A: "load_artifact shw disk (or_default source []) fam cache = (Inr A, cache')"
    using assms by (auto simp: assign_organic_def assign_via_artifact_def Let_def split: if_splits prod.splits sum.splits)
  show ?thesis using assms load_artifact_again [OF A, of disk2]
    by (auto simp: assign_organic_def assign_via_artifact_def Let_def A split: if_splits prod.splits sum.splits)
qed

section \<open>A concrete run\<close>

definition oh_text :: string where
  "oh_text = unlines [[], [], [], ''  0  0 V3000'', ''M  V30 BEGIN ATOM'', ''M  V30 1 O 0 0 0 0'', ''M  V30 2 H 1 0 0 0'',
     ''M  V30 END ATOM'', ''M  V30 BEGIN BOND'', ''M  V30 1 1 1 2'', ''M  V30 END BOND'']"

definition oh_env :: component_env where
  "oh_env =
     \<lparr>ce_shw = \<lambda>_. [], ce_weights = \<lambda>_. Some 16, ce_enabled = True, ce_strict = True,
      ce_registry = \<lparr>fr_forcefields = [(''gaff2'', \<lparr>fc_name = ''gaff2'', fc_enabled = True, fc_atom_types = [],
        fc_element_fallbacks = [], fc_bond_types = [], fc_angle_types = [], fc_dihedral_types = [], fc_improper_types = []\<rparr>)], fr_default = None\<rparr>,
      ce_policy = DEFAULT_FF_GENERATION_POLICY, ce_generator = \<lambda>_ _ _ files. (Inl GenMissing, files), ce_meanwhile = id,
      ce_facts = None, ce_clock = \<lambda>_. 0, ce_water_disk = \<lambda>_. None, ce_ionic_disk = \<lambda>_. None, ce_ionic_env = None,
      ce_ionic_yaml = YamlAbsent, ce_ionic_artifact = \<lambda>_. False\<rparr>"

definition oh_input :: component_input where
  "oh_input = \<lparr>ci_stem = ''OH'', ci_mol_id = ''OH'', ci_file = Some oh_text, ci_additive = None,
     ci_assignment = Some [(''route'', PStr ''organic_curated_artifact''), (''source_id'', PStr ''OH'')]\<rparr>"

definition oh_world :: gen_world where
  "oh_world = \<lparr>gw_files = [(''OH.json'', JsonFile (to_dict water_like))], gw_status = [], gw_cache = [], gw_attempts = []\<rparr>"

definition oh_topology :: mol_topology where
  "oh_topology = the (projr (parse_mol_topology ''OH'' ''OH'' (Some oh_text)))"

definition oh_decision :: typing_decision where
  "oh_decision = projr (decide_strategy oh_env oh_input)"

lemma oh_read: "parse_mol_topology (ci_stem oh_input) (ci_mol_id oh_input) (ci_file oh_input) = Inr (Some oh_topology)"
proof -
  have "case parse_mol_topology ''OH'' ''OH'' (Some oh_text) of Inr (Some t) \<Rightarrow> True | _ \<Rightarrow> False" by code_simp
  then show ?thesis by (auto simp: oh_input_def oh_topology_def split: sum.splits option.splits)
qed

lemma oh_decided: "decide_strategy oh_env oh_input = Inr oh_decision" "td_strategy oh_decision = ORGANIC_CURATED_ARTIFACT"
proof -
  have "case decide_strategy oh_env oh_input of Inr d \<Rightarrow> td_strategy d = ORGANIC_CURATED_ARTIFACT | _ \<Rightarrow> False" by code_simp
  then show "decide_strategy oh_env oh_input = Inr oh_decision" "td_strategy oh_decision = ORGANIC_CURATED_ARTIFACT"
    by (auto simp: oh_decision_def split: sum.splits)
qed

lemma oh_run:
  "case assign_component oh_env oh_input oh_decision oh_topology oh_world of
     (Inr (ov, t), w) \<Rightarrow> validate_molecule_topologies [(t, 2)] = [] \<and>
       \<not> isl (build_component oh_env ''gaff2'' (is_strict_strategy (td_strategy oh_decision)) ov t 2 (parse_xyz_coordinates None) (9, 9, 9))
   | _ \<Rightarrow> False"
  by code_simp

lemma oh_generated: "\<exists>out w'. generate_single_component_topology oh_env oh_input 2 None (9, 9, 9) ''gaff2'' oh_world = (Inr out, w')"
proof -
  obtain ov t w where a: "assign_component oh_env oh_input oh_decision oh_topology oh_world = (Inr (ov, t), w)"
    using oh_run by (auto split: prod.splits sum.splits)
  then have v: "validate_molecule_topologies [(t, 2)] = []"
    and "\<not> isl (build_component oh_env ''gaff2'' (is_strict_strategy (td_strategy oh_decision)) ov t 2 (parse_xyz_coordinates None)
      (9, 9, 9))"
    using oh_run by simp_all
  then obtain sy where
    "build_component oh_env ''gaff2'' (is_strict_strategy (td_strategy oh_decision)) ov t 2 (parse_xyz_coordinates None) (9, 9, 9) = Inr sy"
    by (metis sum.collapse(2))
  moreover have "ce_enabled oh_env" by (simp add: oh_env_def)
  ultimately show ?thesis by (simp add: generate_single_component_topology_def oh_read oh_decided(1) a v)
qed

lemma oh_probed: "\<exists>w. probe_single_component_generation_support oh_env oh_input False oh_world = (Inr None, w)"
proof -
  have v: "fst (probe_organic oh_env oh_input False oh_decision oh_topology oh_world) = None" by code_simp
  obtain u w where p: "probe_organic oh_env oh_input False oh_decision oh_topology oh_world = (u, w)" by (meson surj_pair)
  have "ce_enabled oh_env" by (simp add: oh_env_def)
  then show ?thesis using v by (simp add: probe_single_component_generation_support_def oh_read oh_decided p)
qed

section \<open>Properties\<close>



text \<open>
  C31: When the full probe calls a molecule supported outside the ionic route, the later
  assignment in the world the probe leaves succeeds without another generation attempt or file
  change and, on the organic route, gives a topology that passes the check of one copy.
\<close>

theorem probed_molecules_are_assigned:
  assumes "probe_single_component_generation_support E I False w = (Inr None, w1)" "ce_enabled E"
    "parse_mol_topology (ci_stem I) (ci_mol_id I) (ci_file I) = Inr (Some t)" "decide_strategy E I = Inr d"
    "td_strategy d \<noteq> IONIC_PROFILE"
  shows "\<exists>ov t' w2. assign_component E I d t w1 = (Inr (ov, t'), w2) \<and> gw_files w2 = gw_files w1 \<and>
    gw_attempts w2 = gw_attempts w1 \<and> (td_strategy d = ORGANIC_CURATED_ARTIFACT \<longrightarrow> validate_molecule_topologies [(t', 1)] = [])"
proof (cases "td_strategy d = ORGANIC_CURATED_ARTIFACT")
  case True
  let ?ff = "case ci_assignment I of None \<Rightarrow> [] | Some ff \<Rightarrow> ff"
  have p: "probe_organic E I False d t w = (None, w1)"
    using assms(1-4) True by (auto simp: probe_single_component_generation_support_def Let_def split: prod.splits)
  obtain source wa where e: "ensure_call E I w = (Inr source, wa)"
    using p by (auto simp: probe_organic_def split: prod.splits sum.splits)
  obtain res cache t1 where a: "assign_organic (ce_shw E) (ce_weights E) (map_of (gw_files wa)) (td_strategy d) (Some source)
      ''organic_gaff2'' (gw_cache wa, t) = (Inr res, cache, t1)" "w1 = wa\<lparr>gw_cache := cache\<rparr>" "validation_verdict t1 = None"
    using p e by (auto simp: probe_organic_def organic_call_def Let_def split: prod.splits sum.splits)
  from assign_organic_again [OF a(1), of "map_of (gw_files wa)"] obtain res2 where
    b: "assign_organic (ce_shw E) (ce_weights E) (map_of (gw_files wa)) (td_strategy d) (Some source) ''organic_gaff2'' (cache, t) =
      (Inr res2, cache, t1)" by blast
  have "is_artifact_ready (ce_shw E) (ci_mol_id I) ?ff (gw_files wa) = (True, source)"
    using ensure_complete [OF e [unfolded ensure_call_def]] .
  then have "ensure_call E I w1 = (Inr source, w1)"
    by (auto simp: ensure_call_def ensure_organic_artifact_def Let_def is_artifact_ready_def complete_at_def a(2))
  then have "assign_component E I d t w1 = (Inr (or_overrides res2, t1), w1)"
    using b True by (simp add: assign_component_def organic_dispatch_def organic_call_def a(2))
  then show ?thesis using a(3) by (auto simp: validation_verdict_def Let_def split: if_splits)
next
  case False
  then have s: "td_strategy d = WATER_MODEL" and w: "\<exists>ov t'. water_call E I d t = (Inr ov, t')" "w1 = w"
    using assms by (cases "td_strategy d"; cases "water_call E I d t";
        auto simp: probe_single_component_generation_support_def split: sum.splits water_error.splits)+
  then show ?thesis by (auto simp: assign_component_def)
qed

lemma probed_molecules_are_assigned_witness:
  "\<exists>w1 ov t' w2. probe_single_component_generation_support oh_env oh_input False oh_world = (Inr None, w1) \<and>
    assign_component oh_env oh_input oh_decision oh_topology w1 = (Inr (ov, t'), w2)"
proof -
  obtain w1 where p: "probe_single_component_generation_support oh_env oh_input False oh_world = (Inr None, w1)"
    using oh_probed by blast
  have "ce_enabled oh_env" by (simp add: oh_env_def)
  from probed_molecules_are_assigned [OF p this oh_read oh_decided(1)] p show ?thesis by (auto simp: oh_decided(2))
qed

section \<open>Findings\<close>

text \<open>An ionic molecule that the probe calls supported is never generated: its assignment falls through to
  the organic executor, which rejects the route.\<close>

lemma ionic_probe_and_generation_disagree:
  assumes "td_strategy d = IONIC_PROFILE"
  shows "fst (assign_component E I d t w) \<noteq> Inr x"
proof -
  have "fst (organic_dispatch E IONIC_PROFILE (td_source_id d) u w) \<noteq> Inr x" for u
  proof
    assume "fst (organic_dispatch E IONIC_PROFILE (td_source_id d) u w) = Inr x"
    then show False
      using organic_dispatch_frame [of E IONIC_PROFILE "td_source_id d" u w "fst x" "snd x"]
      by (metis prod.collapse typing_strategy.distinct)
  qed
  then show ?thesis using assms by (auto simp: assign_component_def build_failed_def split: prod.split sum.split)
qed

text \<open>With the typing switched off the generation never returns a file: the variable with the overrides is unbound.\<close>

lemma switched_off_never_generates:
  "\<not> ce_enabled E \<Longrightarrow> fst (generate_single_component_topology E I num packed box ff w) \<noteq> Inr out"
  by (auto simp: generate_single_component_topology_def build_failed_def split: sum.split option.split)

text \<open>The probe checks the charge of one copy, the generation that of all of them.\<close>

lemma probe_checks_one_copy:
  "let t = oh_topology\<lparr>mt_atoms := map (\<lambda>a. a\<lparr>ma_charge := 1 / 10 ^ 5, ma_charge_defined := True\<rparr>) (mt_atoms oh_topology)\<rparr>
   in validation_verdict t = None \<and> validate_molecule_topologies [(t, 100)] \<noteq> []"
  by code_simp

end
