(* ===== verification/ArtifactClaims.thy ===== *)
theory ArtifactClaims
  imports ArtifactProps
begin

text \<open>
  The properties of artifacts, each with a concrete run: reading back what was written, names
  of files, the application to a molecule, the chain of attempts and the status it leaves,
  normalised charges, and the gate of the ionic profiles. The lemmas behind them are in
  \<open>ArtifactProps\<close>.
\<close>

section \<open>A small molecule\<close>

definition untyped_OH :: mol_topology where
  "untyped_OH =
     \<lparr>mt_mol_id = ''OH'',
      mt_atoms = [\<lparr>ma_index = 1, ma_x = 0, ma_y = 0, ma_z = 0, ma_element = ''O'', ma_ff_type = None, ma_charge = 0,
                   ma_charge_defined = False\<rparr>,
                  \<lparr>ma_index = 2, ma_x = 1, ma_y = 0, ma_z = 0, ma_element = ''H'', ma_ff_type = None, ma_charge = 0,
                   ma_charge_defined = False\<rparr>],
      mt_bonds = [], mt_weight = 17, mt_impropers = None\<rparr>"

section \<open>Reading back and names\<close>

lemma load_from_disk:
  assumes "artifact_ok A" "artifact_filename_for s = Inr n" "n \<noteq> []" "disk n = Some (JsonFile (to_dict A))"
    "map_of cache (cache_key s fam) = None"
  shows "load_artifact shw disk s fam cache = (Inr A, dict_set (cache_key s fam) A cache)"
  using assms(2-) payload_round_trip [OF assms(1)] by (cases n) (simp_all add: load_artifact_def Let_def)

lemma load_from_cache: "map_of cache (cache_key s fam) = Some A \<Longrightarrow> load_artifact shw disk s fam cache = (Inr A, cache)"
  by (simp add: load_artifact_def Let_def)

text \<open>
  C18: Loading the file of a written artifact with a supported version, a name and atoms gives
  back every field of the artifact and stores it, and later loads are served from memory
  whatever happens to the file.
\<close>

theorem artifact_round_trip:
  assumes "artifact_ok A" "artifact_filename_for s = Inr n" "n \<noteq> []" "disk n = Some (JsonFile (to_dict A))"
    "map_of cache (cache_key s fam) = None"
  shows "load_artifact shw disk s fam cache = (Inr A, dict_set (cache_key s fam) A cache) \<and>
    (\<forall>later. load_artifact shw later s fam (dict_set (cache_key s fam) A cache) =
      (Inr A, dict_set (cache_key s fam) A cache))"
  using load_from_disk [of A s n disk cache fam shw, OF assms] by (simp add: load_from_cache update_conv')

lemma artifact_round_trip_witness:
  "fst (load_artifact (\<lambda>_. []) [''OH.json'' \<mapsto> JsonFile (to_dict water_like)] '' OH '' ''f'' []) = Inr water_like"
proof -
  have "artifact_filename_for '' OH '' = Inr ''OH.json''" by code_simp
  from artifact_round_trip [OF water_like_ok this, of "[''OH.json'' \<mapsto> JsonFile (to_dict water_like)]" "[]" "''f''" "\<lambda>_. []"]
  show ?thesis by simp
qed

theorem catalog_names_stay_inside:
  assumes "artifact_filename_for s = Inr n" "n \<noteq> []"
  shows "CHR ''/'' \<notin> set n \<and> CHR 0x5C \<notin> set n \<and> \<not> str_contains ''..'' (str_strip s) \<and>
    suffix ''.json'' (str_lower n) \<and> (str_strip s = s \<and> (suffix ''.json'' (str_lower s) \<longleftrightarrow> suffix ''.json'' s) \<longrightarrow>
      n = service_filename_for s)"
proof -
  note c = filename_cases [OF assms]
  have low: "suffix ''.json'' (str_lower (x @ ''.json''))" for x by (rule lower_json) (simp add: suffix_def)
  have plain: "CHR ''/'' \<notin> set ''.json''" "CHR 0x5C \<notin> set ''.json''" by simp_all
  show ?thesis
  proof (cases "suffix ''.json'' (str_lower (str_strip s))")
    case True
    then have "n = str_strip s" using c by simp
    then show ?thesis using c True service_name_kept [of s] by auto
  next
    case False
    then have n: "n = str_strip s @ ''.json''" using c by simp
    moreover have "n = service_filename_for s" if "str_strip s = s" "\<not> suffix ''.json'' s"
      using that n by (simp add: service_filename_for_def)
    ultimately show ?thesis using c False low [of "str_strip s"] by auto
  qed
qed

lemma catalog_names_stay_inside_witness: "service_filename_for ''OH'' = ''OH.json''"
proof -
  have f: "artifact_filename_for ''OH'' = Inr ''OH.json''" by code_simp
  have "str_strip ''OH'' = ''OH'' \<and> (suffix ''.json'' (str_lower ''OH'') \<longleftrightarrow> suffix ''.json'' ''OH'')" by code_simp
  with catalog_names_stay_inside [OF f] show ?thesis by simp
qed

text \<open>Where the two disagree: the loader strips and ignores the case of the suffix, the generator does not.\<close>

lemma loader_and_generator_disagree:
  "artifact_filename_for ''X.JSON'' = Inr ''X.JSON'' \<and> service_filename_for ''X.JSON'' = ''X.JSON.json''"
  "artifact_filename_for ''X '' = Inr ''X.json'' \<and> service_filename_for ''X '' = ''X .json''"
  by code_simp+

text \<open>A number that cannot be read is a fault of an atom, but escapes from a bond type.\<close>

lemma bond_type_error_escapes:
  "parse_artifact_atom (\<lambda>_. []) ''m'' (PDict [(''index'', PStr ''x''), (''element'', PStr ''C''), (''ff_type'', PStr ''c''),
     (''charge'', PNum 0)]) = Inl (SchemaFault (MalformedAtom ''m'' RaisesValue)) \<and>
   parse_bond_type (\<lambda>_. []) [(''key'', PStr ''c-c''), (''k'', PStr ''x''), (''r0'', PNum 1)] = Inl (Escaped RaisesValue)"
  by code_simp

section \<open>Fitting a molecule\<close>

text \<open>
  An artifact is applied exactly when its atoms have the indices and elements of the
  molecule in order; otherwise the molecule is untouched; afterwards charges and types are
  those of the artifact, every charge counts as defined, and indices, positions and bonds are
  unchanged.
\<close>

theorem artifact_fits_molecule:
  assumes "apply_artifact_to_topology weights A t = (r, t')"
  shows "(\<not> isl r \<longleftrightarrow> map aa_index (ar_atoms A) = map ma_index (mt_atoms t) \<and>
      map aa_element (ar_atoms A) = map ma_element (mt_atoms t)) \<and>
    (isl r \<longrightarrow> t' = t) \<and>
    (\<not> isl r \<longrightarrow> map ma_charge (mt_atoms t') = map aa_charge (ar_atoms A) \<and>
      map ma_ff_type (mt_atoms t') = map (Some \<circ> aa_ff_type) (ar_atoms A) \<and> list_all ma_charge_defined (mt_atoms t') \<and>
      map ma_index (mt_atoms t') = map ma_index (mt_atoms t) \<and>
      map (\<lambda>a. (ma_x a, ma_y a, ma_z a)) (mt_atoms t') = map (\<lambda>a. (ma_x a, ma_y a, ma_z a)) (mt_atoms t) \<and>
      mt_bonds t' = mt_bonds t)"
proof (cases r)
  case (Inl e)
  have "length (ar_atoms A) \<noteq> length (mt_atoms t) \<or> atom_mismatch (ar_mol_id A) (ar_atoms A) (mt_atoms t) \<noteq> None"
    using assms Inl by (auto simp: apply_artifact_to_topology_def split: if_splits option.splits)
  then have "\<not> (map aa_index (ar_atoms A) = map ma_index (mt_atoms t) \<and> map aa_element (ar_atoms A) = map ma_element (mt_atoms t))"
    using atom_mismatch_None [of "ar_atoms A" "mt_atoms t" "ar_mol_id A"] by (metis length_map)
  then show ?thesis using apply_artifact_cases [OF assms] Inl by simp
next
  case (Inr ov)
  then show ?thesis using apply_artifact_cases [OF assms] map2_typed [of "ar_atoms A" "mt_atoms t"] by auto
qed

lemma artifact_fits_molecule_witness:
  "map ma_charge (mt_atoms (snd (apply_artifact_to_topology (\<lambda>_. None) water_like untyped_OH))) = [- 2 / 5, 2 / 5]"
proof -
  obtain r t' where e: "apply_artifact_to_topology (\<lambda>_. None) water_like untyped_OH = (r, t')" by (meson surj_pair)
  from artifact_fits_molecule [OF e] show ?thesis by (simp add: e) (simp add: water_like_def untyped_OH_def)
qed

section \<open>The chain of attempts\<close>

text \<open>A generator that fails to converge without the robust settings.\<close>

definition sqm_fails :: gen_failure where
  "sqm_fails = generation_error ''antechamber'' SQM_NONCONVERGED [] ''no convergence''"

definition stubborn :: generator where
  "stubborn profile smiles charge files =
     (if profile = ''baseline'' then (Inl (GenFailed sqm_fails), files)
      else (Inr (), dict_set ''OH.json'' (JsonFile (to_dict water_like)) files))"

definition empty_world :: gen_world where
  "empty_world = \<lparr>gw_files = [], gw_status = [], gw_cache = [(''stale'', water_like)], gw_attempts = []\<rparr>"

text \<open>
  C15: Making sure of an artifact calls the generator at most four times, with the fragment
  profile first only when history or size ask for it and then a prefix of the chain baseline,
  robust, fragment; it returns only with the resolved source and a complete file, and does
  nothing when the file was complete.
\<close>

theorem ensure_ends_complete:
  assumes "ensure_organic_artifact shw clock P gen meanwhile facts there mol_id ff w = (r, w')"
  shows "(\<exists>ps qs. (ps = [] \<or> ps = [''fragment_fallback''] \<and>
        shortcut shw P facts (resolve_artifact_source_id shw mol_id (Some ff)) w) \<and>
      prefix qs CHAIN \<and> gw_attempts w' = gw_attempts w @ ps @ qs) \<and>
    (\<forall>s. r = Inr s \<longrightarrow> s = resolve_artifact_source_id shw mol_id (Some ff) \<and>
      is_artifact_ready shw mol_id ff (gw_files w') = (True, s)) \<and>
    (complete_at (get_artifact_path shw mol_id (Some ff)) w \<longrightarrow> w' = w)"
proof (cases "complete_at (get_artifact_path shw mol_id (Some ff)) w")
  case True
  then show ?thesis using assms
    by (auto simp: ensure_organic_artifact_def Let_def is_artifact_ready_def complete_at_def)
next
  case False
  let ?w = "w\<lparr>gw_files := meanwhile (gw_files w)\<rparr>"
  have g: "generate_locked shw clock P gen facts there ff (resolve_artifact_source_id shw mol_id (Some ff))
      (get_artifact_path shw mol_id (Some ff)) ?w = (r, w')"
    using assms False by (simp add: ensure_organic_artifact_def Let_def)
  from generate_locked_ends [OF g] False show ?thesis
    by (simp add: shortcut_def is_artifact_ready_def complete_at_def)
qed

lemma stubborn_run:
  "gw_attempts (snd (ensure_organic_artifact (\<lambda>_. []) (\<lambda>_. 0) DEFAULT_FF_GENERATION_POLICY stubborn id None True ''OH'' [] empty_world))
     = [''baseline'', ''sqm_robust'']"
  "fst (ensure_organic_artifact (\<lambda>_. []) (\<lambda>_. 0) DEFAULT_FF_GENERATION_POLICY stubborn id None True ''OH'' [] empty_world)
     = Inr ''OH''"
  by code_simp+

lemma ensure_ends_complete_witness:
  "fst (is_artifact_ready (\<lambda>_. []) ''OH'' [] (gw_files (snd (ensure_organic_artifact (\<lambda>_. []) (\<lambda>_. 0)
      DEFAULT_FF_GENERATION_POLICY stubborn id None True ''OH'' [] empty_world))))"
proof -
  obtain r w' where e: "ensure_organic_artifact (\<lambda>_. []) (\<lambda>_. 0) DEFAULT_FF_GENERATION_POLICY stubborn id None True ''OH'' []
      empty_world = (r, w')" by (meson surj_pair)
  then have "r = Inr ''OH''" using stubborn_run(2) by simp
  with ensure_ends_complete [OF e] show ?thesis by (simp add: e)
qed



text \<open>After a chain whose last attempt failed, too, the next one starts with the fragment profile.\<close>

lemma failed_fragment_counts_as_resolved:
  assumes "settled_record shw source (Inl (AllFailed a b c), w)"
  shows "should_skip_to_fragment shw P (gw_status w) source"
  using assms by (auto simp: settled_record_def on_record_def should_skip_to_fragment_def split: sum.splits option.splits)

section \<open>Charges\<close>

text \<open>
  For readable atoms and a tolerance of at least half a millionth the normalisation never
  fails: the charges sum to the target within the tolerance, and at most one atom was changed,
  one with the largest charge among the heavy atoms (all atoms if there is none).
\<close>

theorem normalized_charges_sum_up:
  assumes "atoms \<noteq> []" "list_all (\<lambda>d. \<not> isl (dict_charge d) \<and> \<not> isl (dict_index d)) atoms" "1 / (2 * 10 ^ 6) \<le> tol"
  shows "\<exists>out. normalize_artifact_atom_charges shw tol target atoms = Inr (out, total_charge out) \<and>
    \<bar>target - total_charge out\<bar> \<le> tol \<and>
    (out = atoms \<or> (\<exists>k q. k \<in> set (charge_candidates shw atoms) \<and> out = atoms[k := set_atom_charge q (atoms ! k)] \<and>
      (\<forall>i\<in>set (charge_candidates shw atoms).
        \<bar>projr (dict_charge (atoms ! i))\<bar> \<le> \<bar>projr (dict_charge (atoms ! k))\<bar>)))"
proof -
  let ?k = "residual_atom shw atoms" and ?c = "charge_candidates shw atoms"
  let ?q = "rounded 6 (projr (dict_charge (atoms ! ?k)) + (target - total_charge atoms))"
  let ?moved = "atoms[?k := set_atom_charge ?q (atoms ! ?k)]"
  have big: "\<bar>projr (dict_charge (atoms ! i))\<bar> \<le> \<bar>projr (dict_charge (atoms ! ?k))\<bar>" if "i \<in> set ?c" for i
    using that max_position_greatest [of i "hd ?c" "tl ?c" "charge_key atoms"] candidates_ok [OF assms(1), of shw]
    by (cases ?c) (simp_all add: residual_atom_def Let_def charge_key_def)
  show ?thesis
  proof (cases "\<bar>target - total_charge atoms\<bar> \<le> tol")
    case True
    then show ?thesis using normalize_readable [OF assms(1) _ assms(3), of shw target] assms(2) by (simp add: list_all_iff Let_def)
  next
    case False
    then have "normalize_artifact_atom_charges shw tol target atoms = Inr (?moved, total_charge ?moved)"
      using normalize_readable [OF assms(1) _ assms(3), of shw target] assms(2) by (simp add: list_all_iff Let_def)
    then show ?thesis
      using moved_charge_near [OF residual_atom_less [OF assms(1), of shw], of target] assms(3) big residual_atom_in [OF assms(1), of shw]
      by (auto intro!: exI [of _ ?moved])
  qed
qed

lemma normalized_charges_sum_up_witness:
  "\<exists>out. normalize_artifact_atom_charges (\<lambda>_. []) CHARGE_TOLERANCE 0
      [[(''element'', PStr ''O''), (''charge'', PNum (- 41 / 100)), (''index'', PNum 1)],
       [(''element'', PStr ''H''), (''charge'', PNum (40 / 100)), (''index'', PNum 2)]] = Inr (out, total_charge out) \<and>
    \<bar>total_charge out\<bar> \<le> CHARGE_TOLERANCE"
proof -
  have "list_all (\<lambda>d. \<not> isl (dict_charge d) \<and> \<not> isl (dict_index d))
      [[(''element'', PStr ''O''), (''charge'', PNum (- 41 / 100)), (''index'', PNum 1)],
       [(''element'', PStr ''H''), (''charge'', PNum (40 / 100)), (''index'', PNum 2)]]"
    by (simp add: dict_charge_def dict_index_def json_get_def dict_get_def)
  from normalized_charges_sum_up [OF _ this, of CHARGE_TOLERANCE "\<lambda>_. []" 0]
  show ?thesis by (auto simp: CHARGE_TOLERANCE_def)
qed

section \<open>The ionic gate\<close>

text \<open>
  C16: An ionic assignment succeeds only with the environment switch, the global flag, the
  profile listed, declared, active and past all preconditions, a context it allows and an
  artifact on disk; every refusal leaves the molecule as it was, and indices, elements and
  bonds never change.
\<close>

theorem ionic_fails_closed:
  assumes "assign_ionic shw weights env yaml disk pid aid given t = (r, t')"
  shows "(\<not> isl r \<longrightarrow> env = Some ''1'' \<and>
      (\<exists>C p c v. load_ionic_catalog shw yaml = Inr C \<and> ic_global_enabled C \<and> pid \<in> set (ic_enabled_profiles C) \<and>
        map_of (ic_profiles C) pid = Some p \<and> is_active_status p \<and> policy_preconditions_met shw p = [] \<and>
        given = Some c \<and> c \<noteq> [] \<and> pv_truthy (json_get (ip_context p) c (PBool False)) \<and>
        disk (or_default aid (mt_mol_id t) @ ''.json'') = Some (JsonFile v))) \<and>
    (\<forall>e. r = Inl e \<longrightarrow> t' = t \<or> (\<exists>x. e = IonicEscaped x)) \<and>
    mt_bonds t' = mt_bonds t \<and> map ma_index (mt_atoms t') = map ma_index (mt_atoms t) \<and>
    map ma_element (mt_atoms t') = map ma_element (mt_atoms t)"
  using assign_ionic_cases [OF assms] apply_ionic_keeps [of shw weights _ t r t'] unfolding ionic_passed_def by blast

text \<open>A catalog with one profile that has passed its review.\<close>

definition reviewed_catalog :: "string \<Rightarrow> yaml_file" where
  "reviewed_catalog status =
     YamlFile (PDict [(''schema_version'', PNum 1),
       (''activation'', PDict [(''global_enabled'', PBool True), (''enabled_profiles'', PList [PStr ''na''])]),
       (''profiles'', PDict [(''na'', PDict [(''status'', PStr status), (''profile_version'', PStr ''1''),
          (''family'', PStr ''mono''), (''description'', PStr ''ion''),
          (''applicable_context'', PDict [(''vacuum'', PBool True)]),
          (''mixing_rule_compatibility'', PDict [(''lorentz_berthelot'', PStr ''validated'')]),
          (''citations'', PDict [(''ion_charges'', PStr ''a''), (''ion_lj'', PStr ''b''), (''validation'', PStr ''c'')]),
          (''site_rules'', PDict []), (''atom_types'', PDict []), (''validation'', PDict [])])])])"

lemma reviewed_catalog_runs:
  "\<not> isl (fst (assign_ionic (\<lambda>_. []) (\<lambda>_. None) (Some ''1'') (reviewed_catalog ''active'') [''OH.json'' \<mapsto> JsonFile (to_dict water_like)]
      ''na'' None (Some ''vacuum'') untyped_OH))"
  "fst (assign_ionic (\<lambda>_. []) (\<lambda>_. None) (Some ''1'') (reviewed_catalog ''draft'') [''OH.json'' \<mapsto> JsonFile (to_dict water_like)]
      ''na'' None (Some ''vacuum'') untyped_OH) = Inl (NotActivated [NotActive ''draft''])"
  by code_simp+

lemma ionic_fails_closed_witness:
  "\<exists>C. load_ionic_catalog (\<lambda>_. []) (reviewed_catalog ''active'') = Inr C \<and> ic_global_enabled C \<and> ''na'' \<in> set (ic_enabled_profiles C)"
proof -
  obtain r t' where e: "assign_ionic (\<lambda>_. []) (\<lambda>_. None) (Some ''1'') (reviewed_catalog ''active'')
      [''OH.json'' \<mapsto> JsonFile (to_dict water_like)] ''na'' None (Some ''vacuum'') untyped_OH = (r, t')" by (meson surj_pair)
  then have "\<not> isl r" using reviewed_catalog_runs(1) by simp
  with ionic_fails_closed [OF e] show ?thesis by blast
qed

text \<open>A malformed entry behind a good one leaves the molecule half typed and escapes as a bare error.\<close>

lemma malformed_entry_half_applies:
  "let (r, t') = apply_ionic_artifact (\<lambda>_. []) (\<lambda>_. None)
       (PDict [(''atoms'', PList [PDict [(''ff_type'', PStr ''na''), (''charge'', PNum 1)], PDict []])]) untyped_OH
   in r = Inl (IonicEscaped (RaisesKey ''ff_type'')) \<and> map ma_charge (mt_atoms t') = [1, 0]"
  by code_simp

end
