(* ===== verification/BuildThrottle.thy ===== *)
theory BuildThrottle
  imports Budget SlotPool
begin

text \<open>
  The throttle of concurrent structure builds, \<^verbatim>\<open>src/src/builder/build_throttle.py\<close>: a
  counting semaphore of slot files, won by a non-blocking \<open>flock\<close>. One probe pass is a
  function of what the lock calls answer; waiting is the list of the passes the caller makes
  before its deadline. Builds that hold a slot form a slot pool (\<^verbatim>\<open>SlotPool\<close>) whose
  resources are the slot files.
\<close>

section \<open>Acquiring a slot\<close>

text \<open>What opening and locking a slot file answers.\<close>

datatype slot_answer = SlotWon | SlotBusy | SlotFsError

datatype pass_result = PassGot nat | PassBusy | PassError

text \<open>\<open>policy_limit\<close> is \<open>None\<close> when the policy cannot be imported.\<close>

definition resolve_limit :: "int option \<Rightarrow> int option \<Rightarrow> int" where
  "resolve_limit limit policy_limit =
     (case limit of Some n \<Rightarrow> n | None \<Rightarrow> (case policy_limit of Some n \<Rightarrow> n | None \<Rightarrow> 0))"

fun probe_slots :: "(nat \<Rightarrow> slot_answer) \<Rightarrow> nat list \<Rightarrow> pass_result" where
  "probe_slots answer [] = PassBusy"
| "probe_slots answer (idx # rest) =
     (case answer idx of
        SlotWon \<Rightarrow> PassGot idx
      | SlotBusy \<Rightarrow> probe_slots answer rest
      | SlotFsError \<Rightarrow> PassError)"

definition probe_order :: "nat \<Rightarrow> nat \<Rightarrow> nat list" where
  "probe_order pid n = map (\<lambda>offset. (pid mod n + offset) mod n) [0..<n]"

definition probe_pass :: "nat \<Rightarrow> nat \<Rightarrow> (nat \<Rightarrow> slot_answer) \<Rightarrow> pass_result" where
  "probe_pass pid n answer = probe_slots answer (probe_order pid n)"

datatype throttle_outcome =
    Unthrottled          \<comment> \<open>disabled or no POSIX locks: yields \<open>True\<close>\<close>
  | SlotHeld nat         \<comment> \<open>yields \<open>True\<close>\<close>
  | ProceedAnyway        \<comment> \<open>error or deadline: yields \<open>False\<close>\<close>

text \<open>\<open>passes\<close>: the answers of every pass the caller makes up to and including the first that
  ends at or after the deadline.\<close>

fun wait_for_slot :: "nat \<Rightarrow> nat \<Rightarrow> (nat \<Rightarrow> slot_answer) list \<Rightarrow> throttle_outcome" where
  "wait_for_slot pid n [] = ProceedAnyway"
| "wait_for_slot pid n (answer # rest) =
     (case probe_pass pid n answer of
        PassGot idx \<Rightarrow> SlotHeld idx
      | PassError \<Rightarrow> ProceedAnyway
      | PassBusy \<Rightarrow> wait_for_slot pid n rest)"

definition build_slot ::
    "int option \<Rightarrow> int option \<Rightarrow> bool \<Rightarrow> nat \<Rightarrow> (nat \<Rightarrow> slot_answer) list \<Rightarrow> throttle_outcome" where
  "build_slot limit policy_limit fcntl_there pid passes =
     (let resolved = resolve_limit limit policy_limit in
      if resolved \<le> 0 \<or> \<not> fcntl_there then Unthrottled
      else wait_for_slot pid (nat resolved) passes)"

section \<open>Lemmas\<close>

lemma set_probe_order:
  assumes "0 < n"
  shows "set (probe_order pid n) = {..<n}"
proof
  show "set (probe_order pid n) \<subseteq> {..<n}" using assms by (auto simp: probe_order_def)
  show "{..<n} \<subseteq> set (probe_order pid n)"
  proof
    fix i assume "i \<in> {..<n}"
    then have i: "i < n" by simp
    let ?k = "(i + n - pid mod n) mod n"
    have "pid mod n \<le> n" using assms by (simp add: less_imp_le)
    then have "pid mod n + (i + n - pid mod n) = i + n" by simp
    then have "(pid mod n + ?k) mod n = (i + n) mod n" by (metis mod_add_right_eq)
    then have "i = (pid mod n + ?k) mod n" using i by simp
    moreover have "?k \<in> {0..<n}" using assms by simp
    ultimately show "i \<in> set (probe_order pid n)" by (auto simp: probe_order_def)
  qed
qed

lemma probe_slots_Got: "probe_slots answer xs = PassGot i \<Longrightarrow> i \<in> set xs \<and> answer i = SlotWon"
  by (induction xs) (auto split: slot_answer.splits)

lemma probe_slots_free:
  "\<lbrakk>i \<in> set xs; answer i = SlotWon; \<forall>j\<in>set xs. answer j \<noteq> SlotFsError\<rbrakk>
     \<Longrightarrow> \<exists>k. probe_slots answer xs = PassGot k"
  by (induction xs) (auto split: slot_answer.splits)

lemma probe_pass_Got: "probe_pass pid n answer = PassGot i \<Longrightarrow> 0 < n \<Longrightarrow> i < n \<and> answer i = SlotWon"
  using probe_slots_Got [of answer "probe_order pid n" i] set_probe_order [of n pid]
  by (auto simp: probe_pass_def)

section \<open>The pool of builds\<close>

text \<open>
  A world lists the slots held, one entry per build that holds one. The kernel grants the lock
  of a slot file that nobody holds and refuses the others. A build leaves by releasing its
  slot or by dying.
\<close>

definition kernel_answer :: "nat list \<Rightarrow> nat \<Rightarrow> slot_answer" where
  "kernel_answer held i = (if i \<in> set held then SlotBusy else SlotWon)"

inductive slot_enter :: "nat \<Rightarrow> nat list \<Rightarrow> nat \<Rightarrow> nat list \<Rightarrow> bool" for n where
  "probe_pass pid n (kernel_answer held) = PassGot i \<Longrightarrow> slot_enter n held i (i # held)"

inductive slot_leave :: "nat list \<Rightarrow> nat list \<Rightarrow> bool" where
  "slot_leave held (remove1 i held)"

lemma count_list_remove1: "count_list (remove1 i xs) j \<le> count_list xs j"
  by (induction xs) auto

lemma slot_enterD: "slot_enter n held i held' \<Longrightarrow> held' = i # held \<and> (0 < n \<longrightarrow> i < n) \<and> i \<notin> set held"
  by (auto elim!: slot_enter.cases simp: kernel_answer_def probe_pass_def
      dest!: probe_slots_Got split: if_splits)
    (metis lessThan_iff set_probe_order)

text \<open>Slots within the range have cap one; nothing beyond the range is ever held.\<close>

definition slots_in_range :: "nat \<Rightarrow> nat list \<Rightarrow> bool" where
  "slots_in_range n held \<longleftrightarrow> set held \<subseteq> {..<n}"

interpretation builds: slot_pool "\<lambda>held. 0 < n \<and> slots_in_range n held" "\<lambda>held i. int (count_list held i)"
    "\<lambda>_. 1" "slot_enter n" slot_leave
  for n
proof unfold_locales
  fix s t :: "nat list" and r q
  assume ok: "0 < n \<and> slots_in_range n s"
  show "int (count_list s r) < 1" if "slot_enter n s r t"
    using slot_enterD [OF that] by simp
  show "int (count_list t q) \<le> int (count_list s q) + (if q = r then 1 else 0)" if "slot_enter n s r t"
    using slot_enterD [OF that] by auto
  show "0 < n \<and> slots_in_range n t" if "slot_enter n s r t"
    using slot_enterD [OF that] ok by (auto simp: slots_in_range_def)
  show "int (count_list t q) \<le> int (count_list s q)" if "slot_leave s t"
    using that count_list_remove1 by (auto elim!: slot_leave.cases)
  show "0 < n \<and> slots_in_range n t" if "slot_leave s t"
    using that ok set_remove1_subset by (fastforce elim!: slot_leave.cases simp: slots_in_range_def)
qed

section \<open>Properties\<close>

text \<open>
  However builds enter, leave and die, no slot file is held twice and at most the limit of
  builds hold one; a build that finds a free slot and no file error gets one.
\<close>

theorem builds_never_exceed_limit:
  assumes "0 < n" "pool_run (slot_enter n) slot_leave [] held"
  shows "length held \<le> n \<and> distinct held \<and>
    (\<forall>pid. length held < n \<longrightarrow> (\<exists>i. wait_for_slot pid n [kernel_answer held] = SlotHeld i \<and> i \<notin> set held))"
proof -
  have start: "0 < n \<and> slots_in_range n []" "builds.capped []"
    using assms(1) by (simp_all add: slots_in_range_def builds.capped_def)
  have range: "set held \<subseteq> {..<n}"
    using builds.run_ok [OF assms(2) start(1)] by (simp add: slots_in_range_def)
  have "count_list held i \<le> 1" for i
    using builds.run_capped [OF assms(2) start] by (simp add: builds.capped_def)
  moreover have "\<forall>i. count_list xs i \<le> 1 \<Longrightarrow> distinct xs" for xs :: "nat list"
  proof (induction xs)
    case (Cons x xs)
    have le: "count_list xs i \<le> count_list (x # xs) i" for i by simp
    have "count_list xs i \<le> 1" for i
      by (rule le_trans [OF le]) (use Cons.prems in blast)
    moreover have "count_list xs x = 0" using Cons.prems [rule_format, of x] by simp
    ultimately show ?case using Cons.IH by (simp add: count_list_0_iff)
  qed simp
  ultimately have dist: "distinct held" by blast
  have le: "length held \<le> n"
    using card_mono [OF _ range] distinct_card [OF dist] by simp
  have "\<exists>i. wait_for_slot pid n [kernel_answer held] = SlotHeld i \<and> i \<notin> set held" if less: "length held < n" for pid
  proof -
    have "set held \<noteq> {..<n}" using less distinct_card [OF dist] by (metis card_lessThan less_irrefl)
    with range obtain i where i: "i < n" "i \<notin> set held" by blast
    then have "\<exists>k. probe_slots (kernel_answer held) (probe_order pid n) = PassGot k"
      by (intro probe_slots_free [of i]) (auto simp: set_probe_order [OF assms(1)] kernel_answer_def)
    then obtain k where k: "probe_pass pid n (kernel_answer held) = PassGot k"
      by (auto simp: probe_pass_def)
    with probe_pass_Got [OF k assms(1)] show ?thesis by (auto simp: kernel_answer_def split: if_splits)
  qed
  with le dist show ?thesis by blast
qed

theorem builds_never_exceed_limit_witness:
  "\<exists>held. pool_run (slot_enter 2) slot_leave [] held \<and> held = [1] \<and> length held \<le> 2 \<and>
     (\<exists>i. wait_for_slot 1 2 [kernel_answer held] = SlotHeld i \<and> i \<notin> set held)"
proof -
  have g: "slot_enter 2 [] 1 [1]"
    by (rule slot_enter.intros [where pid = 3]) code_simp
  have run: "pool_run (slot_enter 2) slot_leave [] [1]"
    by (rule pool_grant [where grant = "slot_enter 2" and t = "[]" and r = 1]) (rule pool_start, rule g)
  from builds_never_exceed_limit [OF _ this] run show ?thesis by (intro exI [of _ "[1]"]) auto
qed

end
