(* ===== verification/Composition.thy ===== *)
theory Composition
  imports PyNumbers
begin

text \<open>
  Compositions, \<^verbatim>\<open>src/src/contracts/policies/composition.py\<close> (constraints, validation,
  normalisation, validity tags) and \<^verbatim>\<open>src/src/builder/composition_calculator.py\<close> (molecule
  counts from weight percentages: the initial allocation, the scan over atom targets and
  the fine tuning by single molecules). Numbers are rationals.
\<close>

section \<open>Constraints\<close>

record composition_constraints =
  sum_wt_pct :: pyfloat
  sum_tolerance :: pyfloat
  cc_bounds :: "(string, pyfloat \<times> pyfloat) pydict"
  auto_normalize :: bool
  normalize_method :: string
  validity_asphaltene_high_wt :: pyfloat
  validity_additive_high_wt :: pyfloat
  validity_temperature_low_k :: pyfloat
  composition_error_threshold_l1 :: pyfloat
  rebuild_if_exceeded :: bool

definition DEFAULT_COMPOSITION_CONSTRAINTS :: composition_constraints where
  "DEFAULT_COMPOSITION_CONSTRAINTS =
     \<lparr>sum_wt_pct = 100, sum_tolerance = 1/100,
      cc_bounds = [(''asphaltene'', (5, 30)), (''resin'', (10, 50)), (''aromatic'', (10, 60)),
        (''saturate'', (5, 40)), (''additive_total'', (0, 10))],
      auto_normalize = True, normalize_method = ''proportional'',
      validity_asphaltene_high_wt = 25, validity_additive_high_wt = 10,
      validity_temperature_low_k = 273, composition_error_threshold_l1 = 1,
      rebuild_if_exceeded = True\<rparr>"

type_synonym comp = "(string, pyfloat) pydict"

datatype comp_fault =
    NegativeValue string pyfloat | WrongSum pyfloat | OutOfBounds string pyfloat pyfloat pyfloat
  | AdditiveTotal pyfloat pyfloat

definition total_wt :: "comp \<Rightarrow> pyfloat" where
  "total_wt c = sum_list (map snd c)"

definition is_additive :: "string \<Rightarrow> bool" where
  "is_additive k \<longleftrightarrow> prefix ''additive_'' k \<or> k = ''additive''"

definition additive_total :: "comp \<Rightarrow> pyfloat" where
  "additive_total c = sum_list (map snd (filter (\<lambda>(k, v). is_additive k) c))"

text \<open>The list of errors; \<open>[]\<close> stands for \<open>(True, None)\<close>.\<close>

definition validate_composition :: "composition_constraints \<Rightarrow> comp \<Rightarrow> comp_fault list" where
  "validate_composition P c =
     map (\<lambda>(k, v). NegativeValue k v) (filter (\<lambda>(k, v). v < 0) c) @
     (if \<bar>total_wt c - sum_wt_pct P\<bar> > sum_tolerance P then [WrongSum (total_wt c)] else []) @
     concat (map (\<lambda>(k, v).
        if prefix ''additive_'' k then []
        else case map_of (cc_bounds P) k of
            None \<Rightarrow> []
          | Some (lo, hi) \<Rightarrow> if v < lo \<or> v > hi then [OutOfBounds k v lo hi] else []) c) @
     (if additive_total c > 0 then
        (case dict_get (cc_bounds P) ''additive_total'' (0, 10) of
           (min_add, max_add) \<Rightarrow> if additive_total c > max_add then [AdditiveTotal (additive_total c) max_add] else [])
      else [])"

datatype calc_error = ZeroDivision | NoValidMolecules | KeyMissing string | InvalidResult

definition scale :: "pyfloat \<Rightarrow> comp \<Rightarrow> comp" where
  "scale f c = map (\<lambda>(k, v). (k, v * f)) c"

text \<open>The proportional last step of both methods.\<close>

definition rescale :: "composition_constraints \<Rightarrow> comp \<Rightarrow> (calc_error, comp) result" where
  "rescale P c = (if total_wt c = 0 then Inl ZeroDivision else Inr (scale (sum_wt_pct P / total_wt c) c))"

definition clip_one :: "composition_constraints \<Rightarrow> string \<times> pyfloat \<Rightarrow> pyfloat \<times> pyfloat" where
  "clip_one P kv =
     (case kv of (k, v) \<Rightarrow>
        (case map_of (cc_bounds P) k of
           None \<Rightarrow> (v, 0)
         | Some (lo, hi) \<Rightarrow> if v < lo then (lo, lo - v) else if v > hi then (hi, v - hi) else (v, 0)))"

definition adjustable :: "composition_constraints \<Rightarrow> string \<times> pyfloat \<Rightarrow> bool" where
  "adjustable P kv =
     (case kv of (k, v) \<Rightarrow>
        (case map_of (cc_bounds P) k of None \<Rightarrow> False | Some (lo, hi) \<Rightarrow> lo < v \<and> v < hi))"

definition redistribute :: "composition_constraints \<Rightarrow> pyfloat \<Rightarrow> comp \<Rightarrow> (calc_error, comp) result" where
  "redistribute P remainder clipped =
     (let adj = filter (adjustable P) clipped; adj_total = total_wt adj in
      if remainder = 0 \<or> adj = [] then Inr clipped
      else if adj_total = 0 then Inl ZeroDivision
      else Inr (map (\<lambda>kv. if adjustable P kv then (fst kv, snd kv - remainder * (snd kv / adj_total)) else kv) clipped))"

definition normalize :: "composition_constraints \<Rightarrow> comp \<Rightarrow> string option \<Rightarrow> (calc_error, comp) result" where
  "normalize P c method =
     (let m = or_default method (normalize_method P) in
      if \<bar>total_wt c - sum_wt_pct P\<bar> \<le> sum_tolerance P then Inr c
      else if m = ''proportional'' then rescale P c
      else if m = ''clip_and_redistribute'' then
        (let clipped = map (\<lambda>kv. (fst kv, fst (clip_one P kv))) c;
             remainder = sum_list (map (\<lambda>kv. snd (clip_one P kv)) c)
         in case redistribute P remainder clipped of Inl e \<Rightarrow> Inl e | Inr d \<Rightarrow> rescale P d)
      else Inr c)"

definition get_validity_tags :: "composition_constraints \<Rightarrow> comp \<Rightarrow> string list" where
  "get_validity_tags P c =
     [''bulk_gaff2_ok''] @
     (if dict_get c ''asphaltene'' 0 \<ge> validity_asphaltene_high_wt P then [''high_asphaltene_sensitive''] else []) @
     (if additive_total c > validity_additive_high_wt P then [''high_additive_uncertain''] else [])"

section \<open>Molecule counts\<close>

record mol_info =
  mi_mol_id :: string
  mi_atom_count :: int
  mi_molecular_weight :: pyfloat

type_synonym molecules = "(string, mol_info) pydict"
type_synonym counts = "(string, int) pydict"

definition normalize_composition :: "comp \<Rightarrow> (calc_error, comp) result" where
  "normalize_composition c =
     (let t = total_wt c in
      if \<bar>t - 100\<bar> < 1/100 then Inr c
      else if c \<noteq> [] \<and> t = 0 then Inl ZeroDivision
      else Inr (map (\<lambda>(k, v). (k, v * 100 / t)) c))"

definition mass_of :: "molecules \<Rightarrow> counts \<Rightarrow> pyfloat" where
  "mass_of M cs = sum_list (map (\<lambda>(k, n). case map_of M k of None \<Rightarrow> 0
     | Some m \<Rightarrow> of_int n * mi_molecular_weight m) cs)"

definition atoms_of :: "molecules \<Rightarrow> counts \<Rightarrow> int" where
  "atoms_of M cs = sum_list (map (\<lambda>(k, n). case map_of M k of None \<Rightarrow> 0
     | Some m \<Rightarrow> n * mi_atom_count m) cs)"

definition initial_allocation :: "comp \<Rightarrow> molecules \<Rightarrow> pyfloat \<Rightarrow> (calc_error, counts \<times> pyfloat) result" where
  "initial_allocation target M target_atoms =
     (let t = total_wt target;
          present = filter (\<lambda>(k, v). dict_has M k) target;
          avg = sum_list (map (\<lambda>(k, v). case map_of M k of None \<Rightarrow> 0
                  | Some m \<Rightarrow> v / t * (of_int (mi_atom_count m) / mi_molecular_weight m)) target)
      in if present \<noteq> [] \<and> (t = 0 \<or> list_ex (\<lambda>(k, v). case map_of M k of None \<Rightarrow> False
              | Some m \<Rightarrow> mi_molecular_weight m = 0) present)
         then Inl ZeroDivision
         else if avg = 0 then Inl NoValidMolecules
         else
           let estimated_total_mass = target_atoms / avg;
               cs = map (\<lambda>(k, v). (k, case map_of M k of None \<Rightarrow> 0
                      | Some m \<Rightarrow> max 1 (py_round (estimated_total_mass * (v / 100) / mi_molecular_weight m)))) target
           in Inr (cs, mass_of M cs))"

definition calculate_actual_wt :: "counts \<Rightarrow> molecules \<Rightarrow> pyfloat \<Rightarrow> comp" where
  "calculate_actual_wt cs M total_mass =
     (if total_mass = 0 then map (\<lambda>(k, n). (k, 0)) cs
      else map (\<lambda>(k, n). (k, case map_of M k of None \<Rightarrow> 0
             | Some m \<Rightarrow> of_int n * mi_molecular_weight m / total_mass * 100)) cs)"

definition calculate_l1_error :: "comp \<Rightarrow> comp \<Rightarrow> pyfloat" where
  "calculate_l1_error target actual =
     sum_list (map (\<lambda>k. \<bar>dict_get target k 0 - dict_get actual k 0\<bar>) (remdups (map fst target @ map fst actual)))"

definition error_of :: "comp \<Rightarrow> molecules \<Rightarrow> counts \<Rightarrow> pyfloat" where
  "error_of target M cs = calculate_l1_error target (calculate_actual_wt cs M (mass_of M cs))"

record tuning =
  tu_counts :: counts
  tu_mass :: pyfloat
  tu_error :: pyfloat
  tu_improved :: bool

text \<open>The body of the innermost loop: one category, one \<open>delta\<close>.\<close>

definition tune_step ::
    "comp \<Rightarrow> molecules \<Rightarrow> int \<Rightarrow> int \<Rightarrow> tuning \<Rightarrow> string \<times> int \<Rightarrow> tuning" where
  "tune_step target M min_atoms max_atoms s move =
     (case move of (cat, delta) \<Rightarrow>
        if \<not> dict_has M cat then s
        else
          let test = dict_modify cat (\<lambda>n. max 1 (n + delta)) (tu_counts s);
              atoms = atoms_of M test
          in if atoms < min_atoms \<or> atoms > max_atoms then s
             else if error_of target M test < tu_error s
             then \<lparr>tu_counts = test, tu_mass = mass_of M test, tu_error = error_of target M test, tu_improved = True\<rparr>
             else s)"

definition tune_moves :: "counts \<Rightarrow> (string \<times> int) list" where
  "tune_moves cs = concat (map (\<lambda>(k, n). [(k, -1), (k, 1)]) cs)"

text \<open>The \<open>while\<close> loop; the number of rounds left is its own bound \<open>max_iterations\<close>.\<close>

fun tune_rounds :: "comp \<Rightarrow> molecules \<Rightarrow> int \<Rightarrow> int \<Rightarrow> (string \<times> int) list \<Rightarrow> nat \<Rightarrow> tuning \<Rightarrow> tuning" where
  "tune_rounds target M lo hi moves 0 s = s"
| "tune_rounds target M lo hi moves (Suc n) s =
     (if tu_improved s
      then tune_rounds target M lo hi moves n (foldl (tune_step target M lo hi) (s\<lparr>tu_improved := False\<rparr>) moves)
      else s)"

definition max_iterations :: nat where
  "max_iterations = 50"

definition fine_tune_allocation :: "counts \<Rightarrow> comp \<Rightarrow> molecules \<Rightarrow> int \<Rightarrow> int \<Rightarrow> tuning" where
  "fine_tune_allocation cs target M min_atoms max_atoms =
     tune_rounds target M min_atoms max_atoms (tune_moves cs) max_iterations
       \<lparr>tu_counts = cs, tu_mass = mass_of M cs, tu_error = error_of target M cs, tu_improved = True\<rparr>"

text \<open>The scan over atom targets keeps the first candidate of least error.\<close>

fun scan_targets ::
    "comp \<Rightarrow> molecules \<Rightarrow> int list \<Rightarrow> (counts \<times> pyfloat) option \<Rightarrow> (calc_error, (counts \<times> pyfloat) option) result" where
  "scan_targets target M [] best = Inr best"
| "scan_targets target M (a # as) best =
     (case initial_allocation target M (of_int a) of
        Inl e \<Rightarrow> Inl e
      | Inr (cs, mass) \<Rightarrow>
          let err = calculate_l1_error target (calculate_actual_wt cs M mass)
          in scan_targets target M as
               (case best of None \<Rightarrow> Some (cs, err)
                | Some (bc, be) \<Rightarrow> if err < be then Some (cs, err) else best))"

definition int_range :: "int \<Rightarrow> int \<Rightarrow> int \<Rightarrow> int list" where
  "int_range lo hi step = filter (\<lambda>a. (a - lo) mod step = 0) [lo..hi - 1]"

definition optimize_allocation ::
    "comp \<Rightarrow> molecules \<Rightarrow> int \<Rightarrow> pyfloat \<Rightarrow> (calc_error, counts \<times> pyfloat) result" where
  "optimize_allocation target M target_atoms tolerance =
     (let min_atoms = py_int (of_int target_atoms * (1 - tolerance));
          max_atoms = py_int (of_int target_atoms * (1 + tolerance));
          step = max 1 ((max_atoms - min_atoms) div 20)
      in case scan_targets target M (int_range min_atoms (max_atoms + 1) step) None of
           Inl e \<Rightarrow> Inl e
         | Inr None \<Rightarrow> Inr ([], 0)
         | Inr (Some (cs, err)) \<Rightarrow>
             if cs = [] then Inr ([], mass_of M cs)
             else let t = fine_tune_allocation cs target M min_atoms max_atoms
                  in Inr (tu_counts t, tu_mass t))"

record composition_result =
  cr_mol_counts :: counts
  cr_actual_wt :: comp
  cr_target_wt :: comp
  cr_error_l1 :: pyfloat
  cr_total_atoms :: int
  cr_total_mass :: pyfloat

text \<open>
  The atom total indexes the molecules by every counted category; the fields of the result
  schema refuse a negative error and totals that are not positive (\<open>InvalidResult\<close>).
\<close>

definition total_atoms_of :: "molecules \<Rightarrow> counts \<Rightarrow> (calc_error, int) result" where
  "total_atoms_of M cs =
     (case List.find (\<lambda>(k, n). \<not> dict_has M k) cs of
        Some (k, n) \<Rightarrow> Inl (KeyMissing k) | None \<Rightarrow> Inr (atoms_of M cs))"

definition calculate ::
    "composition_constraints \<Rightarrow> comp \<Rightarrow> molecules \<Rightarrow> int \<Rightarrow> pyfloat \<Rightarrow> (calc_error, composition_result) result" where
  "calculate P c M target_atoms tolerance =
     (case normalize_composition c of
        Inl e \<Rightarrow> Inl e
      | Inr target \<Rightarrow>
          (case initial_allocation target M (of_int target_atoms) of
             Inl e \<Rightarrow> Inl e
           | Inr (cs0, mass0) \<Rightarrow>
               (case (if calculate_l1_error target (calculate_actual_wt cs0 M mass0) > composition_error_threshold_l1 P
                      then optimize_allocation target M target_atoms tolerance else Inr (cs0, mass0)) of
                  Inl e \<Rightarrow> Inl e
                | Inr (cs, mass) \<Rightarrow>
                    let actual = calculate_actual_wt cs M mass
                    in case total_atoms_of M cs of
                         Inl e \<Rightarrow> Inl e
                       | Inr atoms \<Rightarrow>
                           if calculate_l1_error target actual < 0 \<or> atoms \<le> 0 \<or> mass \<le> 0 then Inl InvalidResult
                           else Inr \<lparr>cr_mol_counts = cs, cr_actual_wt = actual, cr_target_wt = target,
                                cr_error_l1 = calculate_l1_error target actual, cr_total_atoms = atoms,
                                cr_total_mass = mass\<rparr>)))"

record molecule_allocation =
  ma_mol_id :: string
  ma_category :: string
  ma_target_wt_pct :: pyfloat
  ma_count :: int
  ma_actual_mass :: pyfloat
  ma_actual_wt_pct :: pyfloat
  ma_atoms :: int

definition get_detailed_allocation :: "composition_result \<Rightarrow> molecules \<Rightarrow> molecule_allocation list" where
  "get_detailed_allocation r M =
     concat (map (\<lambda>(cat, n). case map_of M cat of
         None \<Rightarrow> []
       | Some mol \<Rightarrow> [\<lparr>ma_mol_id = mi_mol_id mol, ma_category = cat,
             ma_target_wt_pct = dict_get (cr_target_wt r) cat 0, ma_count = n,
             ma_actual_mass = of_int n * mi_molecular_weight mol,
             ma_actual_wt_pct = dict_get (cr_actual_wt r) cat 0, ma_atoms = n * mi_atom_count mol\<rparr>])
       (cr_mol_counts r))"

section \<open>Lemmas\<close>

lemma detailed_mass:
  "sum_list (map ma_actual_mass (get_detailed_allocation r M)) = mass_of M (cr_mol_counts r)"
proof -
  have "sum_list (map ma_actual_mass (concat (map (\<lambda>(cat, n). case map_of M cat of
         None \<Rightarrow> [] | Some mol \<Rightarrow> [\<lparr>ma_mol_id = mi_mol_id mol, ma_category = cat,
             ma_target_wt_pct = dict_get t cat 0, ma_count = n,
             ma_actual_mass = of_int n * mi_molecular_weight mol,
             ma_actual_wt_pct = dict_get a cat 0, ma_atoms = n * mi_atom_count mol\<rparr>]) cs))) = mass_of M cs" for t a cs
    by (induction cs) (auto simp: mass_of_def split: option.split)
  then show ?thesis by (simp add: get_detailed_allocation_def)
qed

lemma detailed_atoms:
  "sum_list (map ma_atoms (get_detailed_allocation r M)) = atoms_of M (cr_mol_counts r)"
proof -
  have "sum_list (map ma_atoms (concat (map (\<lambda>(cat, n). case map_of M cat of
         None \<Rightarrow> [] | Some mol \<Rightarrow> [\<lparr>ma_mol_id = mi_mol_id mol, ma_category = cat,
             ma_target_wt_pct = dict_get t cat 0, ma_count = n,
             ma_actual_mass = of_int n * mi_molecular_weight mol,
             ma_actual_wt_pct = dict_get a cat 0, ma_atoms = n * mi_atom_count mol\<rparr>]) cs))) = atoms_of M cs" for t a cs
    by (induction cs) (auto simp: atoms_of_def split: option.split)
  then show ?thesis by (simp add: get_detailed_allocation_def)
qed

lemma total_wt_scale: "total_wt (scale f c) = total_wt c * f"
  by (induction c) (auto simp: total_wt_def scale_def distrib_right)

lemma rescale_total: "rescale P c = Inr d \<Longrightarrow> total_wt d = sum_wt_pct P"
  by (auto simp: rescale_def total_wt_scale split: if_splits)

lemma rescale_keys: "rescale P c = Inr d \<Longrightarrow> map fst d = map fst c"
  by (auto simp: rescale_def scale_def split: if_splits)

lemma redistribute_keys: "redistribute P r c = Inr d \<Longrightarrow> map fst d = map fst c"
  by (auto simp: redistribute_def Let_def split: if_splits)

text \<open>Redistribution takes exactly the remainder away from the clipped composition.\<close>

lemma redistribute_total:
  assumes "redistribute P r c = Inr d"
  shows "d = c \<or> total_wt d = total_wt c - r"
proof (cases "r = 0 \<or> filter (adjustable P) c = []")
  case True
  with assms show ?thesis by (auto simp: redistribute_def Let_def)
next
  case False
  let ?t = "total_wt (filter (adjustable P) c)"
  have "sum_list (map snd (map (\<lambda>kv. if adjustable P kv then (fst kv, snd kv - r * (snd kv / a)) else kv) xs)) =
      sum_list (map snd xs) - r * (sum_list (map snd (filter (adjustable P) xs)) / a)" for a xs
    by (induction xs) (auto simp: algebra_simps add_divide_distrib)
  with assms False show ?thesis by (auto simp: redistribute_def Let_def total_wt_def split: if_splits)
qed

lemma mass_atoms_keys: "map fst (dict_modify k f cs) = map fst cs"
  by simp

text \<open>Every counted category with a molecule has at least one of it.\<close>

definition counts_ok :: "molecules \<Rightarrow> counts \<Rightarrow> bool" where
  "counts_ok M cs \<longleftrightarrow> list_all (\<lambda>(k, n). map_of M k \<noteq> None \<longrightarrow> n \<ge> 1) cs"

text \<open>What the tuning keeps, for counts \<open>cs\<close> it started from.\<close>

definition tune_inv :: "counts \<Rightarrow> comp \<Rightarrow> molecules \<Rightarrow> int \<Rightarrow> int \<Rightarrow> tuning \<Rightarrow> bool" where
  "tune_inv cs target M lo hi s \<longleftrightarrow>
     map fst (tu_counts s) = map fst cs \<and>
     tu_error s = error_of target M (tu_counts s) \<and> tu_mass s = mass_of M (tu_counts s) \<and>
     tu_error s \<le> error_of target M cs \<and>
     (tu_counts s = cs \<or> lo \<le> atoms_of M (tu_counts s) \<and> atoms_of M (tu_counts s) \<le> hi) \<and>
     counts_ok M (tu_counts s)"

lemma counts_ok_modify:
  "counts_ok M cs \<Longrightarrow>
     counts_ok M (dict_modify cat (\<lambda>n. max 1 (n + delta)) cs)"
  by (induction cs) (auto simp: dict_modify_def counts_ok_def)

lemma tune_step_inv:
  "tune_inv cs target M lo hi s \<Longrightarrow> tune_inv cs target M lo hi (tune_step target M lo hi s move)"
  by (cases move) (auto simp: tune_inv_def tune_step_def Let_def counts_ok_modify)

lemma tune_fold_inv:
  "tune_inv cs target M lo hi s \<Longrightarrow> tune_inv cs target M lo hi (foldl (tune_step target M lo hi) s moves)"
  by (induction moves arbitrary: s) (auto simp: tune_step_inv)

lemma tune_rounds_inv:
  "tune_inv cs target M lo hi s \<Longrightarrow> tune_inv cs target M lo hi (tune_rounds target M lo hi moves n s)"
proof (induction n arbitrary: s)
  case (Suc n)
  have "tune_inv cs target M lo hi (s\<lparr>tu_improved := False\<rparr>)"
    using Suc.prems by (simp add: tune_inv_def)
  from Suc.IH [OF tune_fold_inv [OF this]] Suc.prems show ?case by simp
qed simp

lemma fine_tune_inv:
  assumes "counts_ok M cs"
  shows "tune_inv cs target M lo hi (fine_tune_allocation cs target M lo hi)"
  unfolding fine_tune_allocation_def
  by (rule tune_rounds_inv) (use assms in \<open>simp add: tune_inv_def\<close>)

lemma initial_allocation_counts:
  "initial_allocation target M a = Inr (cs, mass) \<Longrightarrow>
     map fst cs = map fst target \<and> mass = mass_of M cs \<and>
     counts_ok M cs"
  by (auto simp: initial_allocation_def Let_def list_all_iff counts_ok_def split: if_splits option.splits)

text \<open>The candidate the scan keeps is an initial allocation, and no other one it saw is better.\<close>

lemma scan_targets_best:
  assumes "scan_targets target M as best = Inr r"
    "\<And>cs e. best = Some (cs, e) \<Longrightarrow> map fst cs = map fst target \<and> e = error_of target M cs \<and>
        counts_ok M cs"
  shows "(case r of None \<Rightarrow> as = [] \<and> best = None
     | Some (cs, e) \<Rightarrow> map fst cs = map fst target \<and> e = error_of target M cs \<and>
         counts_ok M cs \<and>
         (\<forall>bc be. best = Some (bc, be) \<longrightarrow> e \<le> be) \<and>
         (\<forall>a\<in>set as. \<forall>ac am. initial_allocation target M (of_int a) = Inr (ac, am) \<longrightarrow> e \<le> error_of target M ac))"
  using assms
proof (induction as arbitrary: best)
  case Nil
  then show ?case by (auto split: option.split)
next
  case (Cons a as)
  then obtain cs mass where ia: "initial_allocation target M (of_int a) = Inr (cs, mass)"
    by (auto split: sum.splits)
  note cs = initial_allocation_counts [OF ia]
  define err where "err = error_of target M cs"
  have err: "calculate_l1_error target (calculate_actual_wt cs M mass) = err"
    using cs by (simp add: err_def error_of_def)
  define next_best where
    "next_best = (case best of None \<Rightarrow> Some (cs, err) | Some (bc, be) \<Rightarrow> if err < be then Some (cs, err) else best)"
  have run: "scan_targets target M as next_best = Inr r"
    using Cons.prems(1) ia unfolding next_best_def err [symmetric] by (simp add: Let_def)
  have pre: "map fst bc = map fst target \<and> be = error_of target M bc \<and>
      counts_ok M bc" if "next_best = Some (bc, be)" for bc be
    using that cs Cons.prems(2) by (auto simp: next_best_def err_def split: option.splits if_splits)
  obtain bc be where nb: "next_best = Some (bc, be)" "be \<le> err" "\<And>x y. best = Some (x, y) \<Longrightarrow> be \<le> y"
  proof (cases best)
    case None
    then show ?thesis using that [of cs err] by (simp add: next_best_def)
  next
    case (Some p)
    obtain x y where "p = (x, y)" by (cases p)
    with Some show ?thesis
      using that [of cs err] that [of x y] by (cases "err < y") (auto simp: next_best_def)
  qed
  show ?case
    using Cons.IH [OF run pre] nb ia by (fastforce simp: err_def split: option.splits)
qed

section \<open>Properties\<close>

text \<open>
  C38: Fine tuning keeps the categories and at least one molecule of each, returns counts whose
  error is at most the starting one, and leaves the start only for counts within the atom
  bounds.
\<close>

theorem fine_tuning_improves:
  assumes "list_all (\<lambda>(k, n). map_of M k \<noteq> None \<longrightarrow> n \<ge> 1) cs"
  shows "let t = fine_tune_allocation cs target M lo hi in
     map fst (tu_counts t) = map fst cs \<and>
     tu_error t = error_of target M (tu_counts t) \<and> tu_mass t = mass_of M (tu_counts t) \<and>
     error_of target M (tu_counts t) \<le> error_of target M cs \<and>
     (tu_counts t = cs \<or> lo \<le> atoms_of M (tu_counts t) \<and> atoms_of M (tu_counts t) \<le> hi) \<and>
     list_all (\<lambda>(k, n). map_of M k \<noteq> None \<longrightarrow> n \<ge> 1) (tu_counts t)"
  using fine_tune_inv [OF assms [folded counts_ok_def], of target lo hi] unfolding tune_inv_def Let_def counts_ok_def by simp

definition demo_molecules :: molecules where
  "demo_molecules = [(''resin'', \<lparr>mi_mol_id = ''R'', mi_atom_count = 10, mi_molecular_weight = 100\<rparr>),
     (''saturate'', \<lparr>mi_mol_id = ''S'', mi_atom_count = 5, mi_molecular_weight = 50\<rparr>)]"

theorem fine_tuning_improves_witness:
  "error_of [(''resin'', 50), (''saturate'', 50)] demo_molecules
       (tu_counts (fine_tune_allocation [(''resin'', 3), (''saturate'', 3)] [(''resin'', 50), (''saturate'', 50)] demo_molecules 20 60))
     \<le> error_of [(''resin'', 50), (''saturate'', 50)] demo_molecules [(''resin'', 3), (''saturate'', 3)]"
  using fine_tuning_improves [of demo_molecules "[(''resin'', 3), (''saturate'', 3)]" "[(''resin'', 50), (''saturate'', 50)]" 20 60]
  by (simp add: Let_def)

text \<open>
  C35: A composition result reports the error, mass and atom total of its own molecule counts,
  counts at least one molecule for exactly the categories of the request, each category having
  a molecule, its mass and atom total are positive, and its detailed report adds up to them.
\<close>

theorem calculate_result_consistent:
  assumes "calculate P c M n tol = Inr r"
  shows "cr_error_l1 r = error_of (cr_target_wt r) M (cr_mol_counts r) \<and>
    cr_total_mass r = mass_of M (cr_mol_counts r) \<and> cr_total_atoms r = atoms_of M (cr_mol_counts r) \<and>
    list_all (\<lambda>(k, m). map_of M k \<noteq> None \<and> m \<ge> 1) (cr_mol_counts r) \<and>
    map fst (cr_mol_counts r) = map fst c \<and> 0 < cr_total_atoms r \<and> 0 < cr_total_mass r \<and>
    sum_list (map ma_actual_mass (get_detailed_allocation r M)) = cr_total_mass r \<and>
    sum_list (map ma_atoms (get_detailed_allocation r M)) = cr_total_atoms r"
proof -
  from assms obtain target cs0 mass0 where
    t: "normalize_composition c = Inr target" and
    i: "initial_allocation target M (of_int n) = Inr (cs0, mass0)"
    by (auto simp: calculate_def split: sum.splits prod.splits)
  define chosen where "chosen = (if calculate_l1_error target (calculate_actual_wt cs0 M mass0) >
      composition_error_threshold_l1 P then optimize_allocation target M n tol else Inr (cs0, mass0))"
  from assms t i obtain cs mass atoms where ch: "chosen = Inr (cs, mass)" and at: "total_atoms_of M cs = Inr atoms"
    and r: "r = \<lparr>cr_mol_counts = cs, cr_actual_wt = calculate_actual_wt cs M mass, cr_target_wt = target,
        cr_error_l1 = calculate_l1_error target (calculate_actual_wt cs M mass), cr_total_atoms = atoms,
        cr_total_mass = mass\<rparr>"
    and pos: "0 < atoms" "0 < mass"
    by (auto simp: calculate_def chosen_def Let_def split: sum.splits prod.splits if_splits)
  have keys: "map fst target = map fst c"
    using t by (auto simp: normalize_composition_def Let_def split: if_splits)
  have good: "mass = mass_of M cs \<and> counts_ok M cs \<and>
      (cs = [] \<or> map fst cs = map fst target)"
  proof (cases "calculate_l1_error target (calculate_actual_wt cs0 M mass0) > composition_error_threshold_l1 P")
    case False
    with ch initial_allocation_counts [OF i] show ?thesis by (auto simp: chosen_def)
  next
    case True
    with ch have opt: "optimize_allocation target M n tol = Inr (cs, mass)" by (simp add: chosen_def)
    let ?lo = "py_int (of_int n * (1 - tol))" and ?hi = "py_int (of_int n * (1 + tol))"
    let ?as = "int_range ?lo (?hi + 1) (max 1 ((?hi - ?lo) div 20))"
    from opt obtain best where scan: "scan_targets target M ?as None = Inr best"
      and res: "(case best of None \<Rightarrow> Inr ([], 0)
         | Some (bc, err) \<Rightarrow> if bc = [] then Inr ([], mass_of M bc)
             else let t = fine_tune_allocation bc target M ?lo ?hi in Inr (tu_counts t, tu_mass t)) =
         (Inr (cs, mass) :: (calc_error, counts \<times> pyfloat) result)"
      by (auto simp: optimize_allocation_def Let_def split: sum.splits)
    show ?thesis
    proof (cases best)
      case None
      with res show ?thesis by (simp add: mass_of_def counts_ok_def)
    next
      case (Some be)
      obtain bc err where be: "be = (bc, err)" by (cases be)
      have bc: "map fst bc = map fst target" "counts_ok M bc"
        using scan_targets_best [OF scan] Some be by auto
      show ?thesis
      proof (cases "bc = []")
        case True
        with res Some be show ?thesis by (simp add: mass_of_def counts_ok_def)
      next
        case ne: False
        have "tune_inv bc target M ?lo ?hi (fine_tune_allocation bc target M ?lo ?hi)"
          using bc(2) by (rule fine_tune_inv)
        with res Some be ne bc show ?thesis by (auto simp: tune_inv_def Let_def)
      qed
    qed
  qed
  have present: "List.find (\<lambda>(k, m). \<not> dict_has M k) cs = None" "atoms = atoms_of M cs"
    using at by (auto simp: total_atoms_of_def split: option.splits)
  then have "list_all (\<lambda>(k, m). map_of M k \<noteq> None) cs"
    by (auto simp: find_None_all list_all_iff dict_has_def)
  with good present(2) keys pos show ?thesis
    unfolding detailed_mass detailed_atoms by (auto simp: r error_of_def list_all_iff counts_ok_def mass_of_def)
qed

lemmas demo_simps = total_wt_def dict_has_def dict_get_def py_round_def mass_of_def calculate_l1_error_def
  calculate_actual_wt_def total_atoms_of_def atoms_of_def demo_molecules_def

text \<open>Sixty atoms over two molecules of equal weight share, and over three categories of which
  one has no molecule.\<close>

lemma demo_initial:
  "initial_allocation [(''resin'', 50), (''saturate'', 50)] demo_molecules 60 =
     Inr ([(''resin'', 3), (''saturate'', 6)], 600)"
  by (simp add: initial_allocation_def Let_def demo_simps)

lemma demo_calculate:
  "\<exists>r. calculate DEFAULT_COMPOSITION_CONSTRAINTS [(''resin'', 50), (''saturate'', 50)] demo_molecules 60 (1/10) = Inr r \<and>
     cr_mol_counts r = [(''resin'', 3), (''saturate'', 6)]"
proof -
  have n: "normalize_composition [(''resin'', 50), (''saturate'', 50)] = Inr [(''resin'', 50), (''saturate'', 50)]"
    by (simp add: normalize_composition_def total_wt_def)
  have e: "calculate_l1_error [(''resin'', 50), (''saturate'', 50)]
      (calculate_actual_wt [(''resin'', 3), (''saturate'', 6)] demo_molecules 600) = 0"
    by (simp add: demo_simps)
  have a: "total_atoms_of demo_molecules [(''resin'', 3), (''saturate'', 6)] = Inr 60"
    by (simp add: demo_simps)
  show ?thesis
    by (simp add: calculate_def n demo_initial e a DEFAULT_COMPOSITION_CONSTRAINTS_def)
qed

theorem calculate_result_consistent_witness:
  "\<exists>r. calculate DEFAULT_COMPOSITION_CONSTRAINTS [(''resin'', 50), (''saturate'', 50)] demo_molecules 60 (1/10) = Inr r \<and>
     cr_total_atoms r = atoms_of demo_molecules [(''resin'', 3), (''saturate'', 6)]"
proof -
  obtain r where r: "calculate DEFAULT_COMPOSITION_CONSTRAINTS [(''resin'', 50), (''saturate'', 50)]
      demo_molecules 60 (1/10) = Inr r" "cr_mol_counts r = [(''resin'', 3), (''saturate'', 6)]"
    using demo_calculate by blast
  from calculate_result_consistent [OF r(1)] r show ?thesis by auto
qed

text \<open>A category with no molecule is counted as zero by the allocation and then makes the atom
  total fail.\<close>

lemma category_without_molecule_fails:
  "calculate DEFAULT_COMPOSITION_CONSTRAINTS [(''resin'', 50), (''saturate'', 99/2), (''wax'', 1/2)] demo_molecules 60 (1/10) =
     Inl (KeyMissing ''wax'')"
proof -
  let ?c = "[(''resin'', 50), (''saturate'', 99/2), (''wax'', 1/2)] :: comp"
  let ?n = "[(''resin'', 3), (''saturate'', 6), (''wax'', 0)] :: counts"
  have n: "normalize_composition ?c = Inr ?c"
    by (simp add: normalize_composition_def total_wt_def)
  have f: "\<lfloor>600 / 199 :: pyfloat\<rfloor> = 3" "\<lfloor>1188 / 199 :: pyfloat\<rfloor> = 5"
    by (simp_all add: floor_eq_iff)
  have i: "initial_allocation ?c demo_molecules 60 = Inr (?n, 600)"
    by (simp add: initial_allocation_def Let_def demo_simps f)
  have e: "calculate_l1_error ?c (calculate_actual_wt ?n demo_molecules 600) = 1"
    by (simp add: demo_simps)
  have a: "total_atoms_of demo_molecules ?n = Inl (KeyMissing ''wax'')"
    by (simp add: demo_simps)
  show ?thesis
    by (simp add: calculate_def n i e a DEFAULT_COMPOSITION_CONSTRAINTS_def)
qed

text \<open>
  Clipping from above takes the excess away a second time from the components in range, so the
  final rescaling ends further out of bounds than the start.
\<close>

lemma clip_and_redistribute_raises_excess:
  "normalize DEFAULT_COMPOSITION_CONSTRAINTS [(''resin'', 70), (''aromatic'', 40)] (Some ''clip_and_redistribute'') =
     Inr [(''resin'', 500/7), (''aromatic'', 200/7)] \<and> (500/7 :: pyfloat) > 70"
  by (simp add: normalize_def DEFAULT_COMPOSITION_CONSTRAINTS_def or_default_def rescale_def total_wt_def
      scale_def clip_one_def redistribute_def adjustable_def)

text \<open>
  Normalisation keeps the components and gives exactly the required sum, unless the
  composition is within the tolerance or the method is unknown, when it is returned unchanged.
\<close>

theorem normalized_sum_is_exact:
  assumes "normalize P c meth = Inr d"
  shows "map fst d = map fst c \<and>
    (d = c \<and> (\<bar>total_wt c - sum_wt_pct P\<bar> \<le> sum_tolerance P \<or>
              or_default meth (normalize_method P) \<notin> {''proportional'', ''clip_and_redistribute''}) \<or>
     total_wt d = sum_wt_pct P)"
proof (cases "\<bar>total_wt c - sum_wt_pct P\<bar> \<le> sum_tolerance P")
  case True
  with assms show ?thesis by (simp add: normalize_def)
next
  case far: False
  consider (proportional) "or_default meth (normalize_method P) = ''proportional''"
    | (clip) "or_default meth (normalize_method P) = ''clip_and_redistribute''"
    | (other) "or_default meth (normalize_method P) \<notin> {''proportional'', ''clip_and_redistribute''}" by blast
  then show ?thesis
  proof cases
    case proportional
    with assms far have "rescale P c = Inr d" by (simp add: normalize_def)
    with rescale_total rescale_keys show ?thesis by blast
  next
    case clip
    let ?cl = "map (\<lambda>kv. (fst kv, fst (clip_one P kv))) c"
    from clip assms far obtain e where e: "redistribute P (sum_list (map (\<lambda>kv. snd (clip_one P kv)) c)) ?cl = Inr e"
      and d: "rescale P e = Inr d"
      by (auto simp: normalize_def Let_def split: sum.splits)
    from rescale_keys [OF d] redistribute_keys [OF e] have "map fst d = map fst c" by (simp add: o_def)
    with rescale_total [OF d] show ?thesis by blast
  next
    case other
    with assms far show ?thesis by (simp add: normalize_def)
  qed
qed

theorem normalized_sum_is_exact_witness:
  "\<exists>d. normalize DEFAULT_COMPOSITION_CONSTRAINTS [(''resin'', 60), (''saturate'', 20)] None = Inr d \<and> total_wt d = 100"
proof -
  have n: "normalize DEFAULT_COMPOSITION_CONSTRAINTS [(''resin'', 60), (''saturate'', 20)] None =
      Inr [(''resin'', 75), (''saturate'', 25)]"
    by (simp add: normalize_def DEFAULT_COMPOSITION_CONSTRAINTS_def or_default_def rescale_def total_wt_def scale_def)
  from normalized_sum_is_exact [OF n] n show ?thesis
    by (auto simp: DEFAULT_COMPOSITION_CONSTRAINTS_def total_wt_def or_default_def)
qed

end
