(* ===== verification/Stabilization.thy ===== *)
theory Stabilization
  imports PyNumbers
begin

text \<open>
  The stabilisation chains, \<^verbatim>\<open>src/src/contracts/policies/stabilization.py\<close>: the table of
  stages per chain, their durations and step counts, and the position of a running simulation
  in its chain. The protocol hash, a digest of the table, is not modelled.
\<close>

section \<open>The table\<close>

record stabilization_step =
  sb_name :: string
  sb_type :: string
  sb_duration :: "string option"
  sb_parameters :: "(string \<times> pyval) list"

definition stab_step :: "string \<Rightarrow> string \<Rightarrow> string \<Rightarrow> (string \<times> pyval) list \<Rightarrow> stabilization_step" where
  "stab_step n t d ps = \<lparr>sb_name = n, sb_type = t, sb_duration = Some d, sb_parameters = ps\<rparr>"

type_synonym stabilization_chain = "(string, stabilization_step list) pydict"

definition screening_steps :: "stabilization_step list" where
  "screening_steps =
       [stab_step ''minimize'' ''minimize'' ''1000 steps''
         [(''etol'', PNum (1/10000)), (''ftol'', PNum (1/1000000)), (''maxiter'', PNum 10000),
          (''maxeval'', PNum 100000)],
        stab_step ''nvt_equilibration'' ''nvt'' ''300 ps''
         [(''thermostat'', PStr ''nose-hoover''), (''tdamp'', PNum 100)],
        stab_step ''npt_production'' ''npt'' ''2000 ps''
         [(''thermostat'', PStr ''nose-hoover''), (''barostat'', PStr ''nose-hoover''), (''tdamp'',
          PNum 100), (''pdamp'', PNum 1000)]]"

definition confirm_steps :: "stabilization_step list" where
  "confirm_steps =
       [stab_step ''minimize'' ''minimize'' ''5000 steps''
         [(''etol'', PNum (1/100000)), (''ftol'', PNum (1/10000000)), (''maxiter'', PNum 50000),
          (''maxeval'', PNum 500000)],
        stab_step ''nvt_equilibration'' ''nvt'' ''300 ps''
         [(''thermostat'', PStr ''nose-hoover''), (''tdamp'', PNum 100)],
        stab_step ''npt_production'' ''npt'' ''3000 ps''
         [(''thermostat'', PStr ''nose-hoover''), (''barostat'', PStr ''nose-hoover''), (''tdamp'',
          PNum 100), (''pdamp'', PNum 1000)]]"

definition viscosity_steps :: "stabilization_step list" where
  "viscosity_steps =
       [stab_step ''minimize'' ''minimize'' ''5000 steps''
         [(''etol'', PNum (1/100000)), (''ftol'', PNum (1/10000000)), (''maxiter'', PNum 50000),
          (''maxeval'', PNum 500000)],
        stab_step ''nvt_equilibration'' ''nvt'' ''300 ps''
         [(''thermostat'', PStr ''nose-hoover''), (''tdamp'', PNum 100)],
        stab_step ''npt_production'' ''npt'' ''3000 ps''
         [(''thermostat'', PStr ''nose-hoover''), (''barostat'', PStr ''nose-hoover''), (''tdamp'',
          PNum 100), (''pdamp'', PNum 1000)],
        stab_step ''viscosity_nemd'' ''nemd'' ''5000 ps''
         [(''method'', PStr ''muller_plathe''), (''swap_every'', PNum 100)]]"

definition validation_steps :: "stabilization_step list" where
  "validation_steps =
       [stab_step ''minimize'' ''minimize'' ''1000 steps''
         [(''etol'', PNum (1/10000)), (''ftol'', PNum (1/1000000)), (''maxiter'', PNum 10000),
          (''maxeval'', PNum 100000)],
        stab_step ''nvt_equilibration'' ''nvt'' ''300 ps''
         [(''thermostat'', PStr ''nose-hoover''), (''tdamp'', PNum 100), (''qeq_every'', PNum 1)],
        stab_step ''npt_production'' ''npt'' ''1000 ps''
         [(''thermostat'', PStr ''nose-hoover''), (''barostat'', PStr ''nose-hoover''), (''tdamp'',
          PNum 100), (''pdamp'', PNum 1000), (''qeq_every'', PNum 1)]]"

definition tensile_layer_steps :: "stabilization_step list" where
  "tensile_layer_steps =
       [stab_step ''minimize'' ''minimize'' ''10000 steps''
         [(''etol'', PNum (1/100000)), (''ftol'', PNum (1/10000000)), (''maxiter'', PNum 50000),
          (''maxeval'', PNum 500000)],
        stab_step ''high_temp_nvt'' ''nvt'' ''100 ps''
         [(''thermostat'', PStr ''nose-hoover''), (''tdamp'', PNum 100), (''temperature_K'', PNum
          500), (''temp_start_K'', PNum 10)],
        stab_step ''annealing_cycles'' ''annealing'' ''1000 ps''
         [(''thermostat'', PStr ''nose-hoover''), (''tdamp'', PNum 100), (''n_cycles'', PNum 5),
          (''temp_high_K'', PNum 500), (''duration_per_half_cycle_ps'', PNum 100)],
        stab_step ''nvt_equilibration'' ''nvt'' ''500 ps''
         [(''thermostat'', PStr ''nose-hoover''), (''tdamp'', PNum 100)],
        stab_step ''npt_equilibration'' ''npt'' ''2000 ps''
         [(''thermostat'', PStr ''nose-hoover''), (''barostat'', PStr ''nose-hoover''), (''tdamp'',
          PNum 100), (''pdamp'', PNum 1000)],
        stab_step ''pre_tensile_nvt'' ''nvt'' ''100 ps''
         [(''thermostat'', PStr ''nose-hoover''), (''tdamp'', PNum 100)],
        stab_step ''tensile_pull'' ''tensile'' ''2000 ps''
         [(''pull_velocity_A_per_fs'', PNum (1/20000)), (''grip_thickness_angstrom'', PNum 20),
          (''max_strain'', PNum (1/2)), (''output_interval_steps'', PNum 100)]]"

definition tensile_layer_qs_steps :: "stabilization_step list" where
  "tensile_layer_qs_steps =
       [stab_step ''minimize'' ''minimize'' ''10000 steps''
         [(''etol'', PNum (1/100000)), (''ftol'', PNum (1/10000000)), (''maxiter'', PNum 50000),
          (''maxeval'', PNum 500000)],
        stab_step ''high_temp_nvt'' ''nvt'' ''100 ps''
         [(''thermostat'', PStr ''nose-hoover''), (''tdamp'', PNum 100), (''temperature_K'', PNum
          500), (''temp_start_K'', PNum 10)],
        stab_step ''annealing_cycles'' ''annealing'' ''1000 ps''
         [(''thermostat'', PStr ''nose-hoover''), (''tdamp'', PNum 100), (''n_cycles'', PNum 5),
          (''temp_high_K'', PNum 500), (''duration_per_half_cycle_ps'', PNum 100)],
        stab_step ''nvt_equilibration'' ''nvt'' ''500 ps''
         [(''thermostat'', PStr ''nose-hoover''), (''tdamp'', PNum 100)],
        stab_step ''npt_equilibration'' ''npt'' ''2000 ps''
         [(''thermostat'', PStr ''nose-hoover''), (''barostat'', PStr ''nose-hoover''), (''tdamp'',
          PNum 100), (''pdamp'', PNum 1000)],
        stab_step ''pre_tensile_nvt'' ''nvt'' ''200 ps''
         [(''thermostat'', PStr ''nose-hoover''), (''tdamp'', PNum 100)],
        stab_step ''tensile_pull'' ''tensile'' ''auto''
         [(''tensile_mode'', PStr ''quasi_static''), (''displacement_increment_angstrom'', PNum
          (1/2)), (''relax_steps'', PNum 10000), (''force_average_steps'', PNum 1000),
          (''grip_thickness_angstrom'', PNum 20), (''max_strain'', PNum (1/2)),
          (''output_interval_steps'', PNum 100)]]"

definition layer_steps :: "stabilization_step list" where
  "layer_steps =
       [stab_step ''minimize'' ''minimize'' ''10000 steps''
         [(''etol'', PNum (1/100000)), (''ftol'', PNum (1/10000000)), (''maxiter'', PNum 50000),
          (''maxeval'', PNum 500000)],
        stab_step ''high_temp_nvt'' ''nvt'' ''100 ps''
         [(''thermostat'', PStr ''nose-hoover''), (''tdamp'', PNum 100), (''temperature_K'', PNum
          500), (''temp_start_K'', PNum 10)],
        stab_step ''annealing_cycles'' ''annealing'' ''1000 ps''
         [(''thermostat'', PStr ''nose-hoover''), (''tdamp'', PNum 100), (''n_cycles'', PNum 5),
          (''temp_high_K'', PNum 500), (''duration_per_half_cycle_ps'', PNum 100)],
        stab_step ''nvt_equilibration'' ''nvt'' ''500 ps''
         [(''thermostat'', PStr ''nose-hoover''), (''tdamp'', PNum 100)],
        stab_step ''npt_equilibration'' ''npt'' ''2000 ps''
         [(''thermostat'', PStr ''nose-hoover''), (''barostat'', PStr ''nose-hoover''), (''tdamp'',
          PNum 100), (''pdamp'', PNum 1000)]]"

definition screening_mini_steps :: "stabilization_step list" where
  "screening_mini_steps =
       [stab_step ''minimize'' ''minimize'' ''100 steps''
         [(''etol'', PNum (1/1000)), (''ftol'', PNum (1/100000)), (''maxiter'', PNum 1000),
          (''maxeval'', PNum 10000)],
        stab_step ''nvt_equilibration'' ''nvt'' ''50 ps''
         [(''thermostat'', PStr ''nose-hoover''), (''tdamp'', PNum 100)],
        stab_step ''npt_production'' ''npt'' ''100 ps''
         [(''thermostat'', PStr ''nose-hoover''), (''barostat'', PStr ''nose-hoover''), (''tdamp'',
          PNum 100), (''pdamp'', PNum 1000)]]"

definition DEFAULT_STABILIZATION_CHAIN :: stabilization_chain where
  "DEFAULT_STABILIZATION_CHAIN =
     [(''screening'', screening_steps),
      (''confirm'', confirm_steps),
      (''viscosity'', viscosity_steps),
      (''validation'', validation_steps),
      (''tensile_layer'', tensile_layer_steps),
      (''tensile_layer_qs'', tensile_layer_qs_steps),
      (''layer'', layer_steps),
      (''screening_mini'', screening_mini_steps)]"

lemmas default_table = DEFAULT_STABILIZATION_CHAIN_def screening_steps_def confirm_steps_def viscosity_steps_def validation_steps_def tensile_layer_steps_def tensile_layer_qs_steps_def layer_steps_def screening_mini_steps_def

text \<open>What the protocol code raises: \<open>ValueError\<close> for an unknown tier and for text that is no
  number, \<open>ZeroDivisionError\<close>, \<open>IndexError\<close>, \<open>TypeError\<close>, and the validation of the schemas.\<close>

datatype proto_error =
    UnknownTier string | BadNumber string | ZeroDivide | EmptyChain | TypeFault | ValidationFault

section \<open>Operations\<close>

definition get_chain :: "stabilization_chain \<Rightarrow> string \<Rightarrow> (proto_error, stabilization_step list) result" where
  "get_chain C tier = (case map_of C tier of None \<Rightarrow> Inl (UnknownTier tier) | Some c \<Rightarrow> Inr c)"

definition get_step_names :: "stabilization_chain \<Rightarrow> string \<Rightarrow> (proto_error, string list) result" where
  "get_step_names C tier = map_sum id (map sb_name) (get_chain C tier)"

text \<open>\<open>s.strip().lower()\<close>\<close>

definition dur_text :: "string \<Rightarrow> string" where
  "dur_text s = str_lower (str_strip s)"

text \<open>\<open>float(s.replace(unit, "").strip())\<close> and \<open>int(...)\<close>\<close>

definition float_without :: "string \<Rightarrow> string \<Rightarrow> (proto_error, pyfloat) result" where
  "float_without unit s =
     (case py_float_of (str_strip (str_replace unit [] s)) of None \<Rightarrow> Inl (BadNumber s) | Some x \<Rightarrow> Inr x)"

definition int_without :: "string \<Rightarrow> string \<Rightarrow> (proto_error, int) result" where
  "int_without unit s =
     (case py_int_of (str_strip (str_replace unit [] s)) of None \<Rightarrow> Inl (BadNumber s) | Some n \<Rightarrow> Inr n)"

text \<open>\<open>int(a / b)\<close>\<close>

definition int_div :: "pyfloat \<Rightarrow> pyfloat \<Rightarrow> (proto_error, int) result" where
  "int_div a b = (if b = 0 then Inl ZeroDivide else Inr (py_int (a / b)))"

definition step_duration_ps :: "stabilization_step \<Rightarrow> (proto_error, pyfloat) result" where
  "step_duration_ps st =
     (if \<not> truthy (sb_duration st) then Inr 0
      else let s = dur_text (the (sb_duration st)) in
           if suffix '' ps'' s \<or> suffix ''ps'' s \<and> \<not> str_contains ''step'' s then float_without ''ps'' s
           else Inr 0)"

fun sum_durations :: "stabilization_step list \<Rightarrow> pyfloat \<Rightarrow> (proto_error, pyfloat) result" where
  "sum_durations [] acc = Inr acc"
| "sum_durations (st # rest) acc =
     (case step_duration_ps st of Inl e \<Rightarrow> Inl e | Inr d \<Rightarrow> sum_durations rest (acc + d))"

definition chain_total_duration_ps :: "stabilization_chain \<Rightarrow> string \<Rightarrow> (proto_error, pyfloat) result" where
  "chain_total_duration_ps C tier =
     (case get_chain C tier of Inl e \<Rightarrow> Inl e | Inr c \<Rightarrow> sum_durations c 0)"

definition get_estimated_steps :: "stabilization_chain \<Rightarrow> string \<Rightarrow> pyfloat \<Rightarrow> (proto_error, int) result" where
  "get_estimated_steps C tier dt =
     (case chain_total_duration_ps C tier of Inl e \<Rightarrow> Inl e | Inr t \<Rightarrow> int_div (t * 1000) dt)"

definition step_count :: "pyfloat \<Rightarrow> stabilization_step \<Rightarrow> (proto_error, int) result" where
  "step_count dt st =
     (if \<not> truthy (sb_duration st) then Inr 0
      else let s = dur_text (the (sb_duration st)) in
           if str_contains ''steps'' s then int_without ''steps'' s
           else if str_contains ''ps'' s then
             (case float_without ''ps'' s of Inl e \<Rightarrow> Inl e | Inr ps \<Rightarrow> int_div (ps * 1000) dt)
           else Inr 0)"

record stage_steps =
  sg_name :: string
  sg_type :: string
  sg_steps :: int
  sg_cumulative :: int

fun stage_steps_from ::
    "pyfloat \<Rightarrow> stabilization_step list \<Rightarrow> int \<Rightarrow> (proto_error, stage_steps list) result" where
  "stage_steps_from dt [] cumulative = Inr []"
| "stage_steps_from dt (st # rest) cumulative =
     (case step_count dt st of
        Inl e \<Rightarrow> Inl e
      | Inr n \<Rightarrow>
          map_sum id (\<lambda>xs. \<lparr>sg_name = sb_name st, sg_type = sb_type st, sg_steps = n,
              sg_cumulative = cumulative + n\<rparr> # xs) (stage_steps_from dt rest (cumulative + n)))"

definition get_stage_steps ::
    "stabilization_chain \<Rightarrow> string \<Rightarrow> pyfloat \<Rightarrow> (proto_error, stage_steps list) result" where
  "get_stage_steps C tier dt = (case get_chain C tier of Inl e \<Rightarrow> Inl e | Inr c \<Rightarrow> stage_steps_from dt c 0)"

record stage_info =
  si_stage :: string
  si_type :: string
  si_index :: nat
  si_total_stages :: nat
  si_step :: int
  si_total_steps :: int
  si_percent :: pyfloat

text \<open>\<open>round(x, 1)\<close>\<close>

definition round1 :: "pyfloat \<Rightarrow> pyfloat" where
  "round1 x = of_int (py_round (x * 10)) / 10"

text \<open>The search loop: the first stage whose cumulative count exceeds the step.\<close>

fun locate_stage :: "stage_steps list \<Rightarrow> int \<Rightarrow> nat \<Rightarrow> nat \<Rightarrow> int \<Rightarrow> stage_info option" where
  "locate_stage [] cur n i prev = None"
| "locate_stage (g # gs) cur n i prev =
     (if cur < sg_cumulative g then
        Some \<lparr>si_stage = sg_name g, si_type = sg_type g, si_index = i + 1, si_total_stages = n,
              si_step = cur - prev, si_total_steps = sg_steps g,
              si_percent = (if sg_steps g > 0 then round1 (of_int (cur - prev) / of_int (sg_steps g) * 100) else 0)\<rparr>
      else locate_stage gs cur n (i + 1) (sg_cumulative g))"

definition get_stage_info ::
    "stabilization_chain \<Rightarrow> string \<Rightarrow> int \<Rightarrow> pyfloat \<Rightarrow> (proto_error, stage_info) result" where
  "get_stage_info C tier current_step dt =
     (case get_stage_steps C tier dt of
        Inl e \<Rightarrow> Inl e
      | Inr stages \<Rightarrow>
          (case locate_stage stages current_step (length stages) 0 0 of
             Some info \<Rightarrow> Inr info
           | None \<Rightarrow>
               if stages = [] then Inl EmptyChain
               else let g = last stages in
                 Inr \<lparr>si_stage = sg_name g, si_type = sg_type g, si_index = length stages,
                      si_total_stages = length stages, si_step = sg_steps g, si_total_steps = sg_steps g,
                      si_percent = 100\<rparr>))"

section \<open>Progress\<close>

text \<open>Stages with non-negative steps and running totals from \<open>p\<close> on.\<close>

fun cum_ok :: "int \<Rightarrow> stage_steps list \<Rightarrow> bool" where
  "cum_ok p [] = True"
| "cum_ok p (g # gs) \<longleftrightarrow> sg_cumulative g = p + sg_steps g \<and> 0 \<le> sg_steps g \<and> cum_ok (sg_cumulative g) gs"

abbreviation steps_before :: "stage_steps list \<Rightarrow> nat \<Rightarrow> int" where
  "steps_before gs k \<equiv> sum_list (map sg_steps (take k gs))"

lemma stage_steps_from_cum:
  "stage_steps_from dt c p = Inr gs \<Longrightarrow> \<forall>g\<in>set gs. 0 \<le> sg_steps g \<Longrightarrow> cum_ok p gs"
proof (induction c arbitrary: p gs)
  case (Cons st rest)
  from Cons.prems(1) obtain n xs where n: "stage_steps_from dt rest (p + n) = Inr xs"
    and gs: "gs = \<lparr>sg_name = sb_name st, sg_type = sb_type st, sg_steps = n, sg_cumulative = p + n\<rparr> # xs"
    by (cases "stage_steps_from dt rest (p + projr (step_count dt st))") (auto split: sum.splits)
  with Cons.IH [OF n] Cons.prems(2) show ?case by simp
qed simp

lemma py_round_le: "x \<le> of_int n \<Longrightarrow> py_round x \<le> n"
proof -
  assume "x \<le> of_int n"
  moreover have "of_int (py_round x) \<le> x + 1/2" using py_round_near [of x] by linarith
  ultimately have "of_int (py_round x) < (of_int (n + 1) :: pyfloat)" by simp
  then show ?thesis by (simp only: of_int_less_iff)
qed

lemma py_round_ge: "of_int n \<le> x \<Longrightarrow> n \<le> py_round x"
proof -
  assume "of_int n \<le> x"
  moreover have "x - 1/2 \<le> of_int (py_round x)" using py_round_near [of x] by linarith
  ultimately have "(of_int (n - 1) :: pyfloat) < of_int (py_round x)" by simp
  then show ?thesis by (simp only: of_int_less_iff)
qed

lemma round1_percent:
  assumes "0 \<le> x" "x \<le> 100"
  shows "0 \<le> round1 x" "round1 x \<le> 100"
proof -
  have "0 \<le> py_round (x * 10)" by (rule py_round_ge) (use assms in simp)
  then show "0 \<le> round1 x" by (simp add: round1_def)
  have "py_round (x * 10) \<le> 1000" by (rule py_round_le) (use assms in simp)
  then show "round1 x \<le> 100" by (simp add: round1_def divide_le_eq)
qed

lemma locate_stage_found:
  assumes "cum_ok p gs" "p \<le> cur" "cur < p + sum_list (map sg_steps gs)"
  shows "\<exists>k<length gs. \<exists>info. locate_stage gs cur n i p = Some info \<and>
    si_index info = i + k + 1 \<and> si_total_stages info = n \<and> si_stage info = sg_name (gs ! k) \<and>
    p + steps_before gs k \<le> cur \<and> cur < p + steps_before gs (Suc k) \<and>
    si_step info = cur - (p + steps_before gs k) \<and> 0 \<le> si_percent info \<and> si_percent info \<le> 100"
  using assms
proof (induction gs arbitrary: i p)
  case Nil
  then show ?case by simp
next
  case (Cons g gs)
  show ?case
  proof (cases "cur < sg_cumulative g")
    case True
    with Cons.prems have b: "0 \<le> cur - p" "cur - p < sg_steps g" by auto
    let ?x = "of_int (cur - p) / of_int (sg_steps g) * 100 :: pyfloat"
    have "0 \<le> ?x" using b by simp
    moreover have "?x \<le> 100"
    proof -
      have "(of_int (cur - p) :: pyfloat) \<le> of_int (sg_steps g)" using b by (simp only: of_int_le_iff)
      then show ?thesis using b by (simp add: divide_le_eq)
    qed
    ultimately show ?thesis using True Cons.prems round1_percent [of ?x]
      by (intro exI [of _ 0]) simp
  next
    case False
    with Cons.prems have "cum_ok (sg_cumulative g) gs" "sg_cumulative g \<le> cur"
      "cur < sg_cumulative g + sum_list (map sg_steps gs)" by auto
    from Cons.IH [OF this, of "i + 1"] obtain k info where
      "k < length gs" "locate_stage gs cur n (i + 1) (sg_cumulative g) = Some info"
      "si_index info = i + 1 + k + 1" "si_total_stages info = n" "si_stage info = sg_name (gs ! k)"
      "sg_cumulative g + steps_before gs k \<le> cur" "cur < sg_cumulative g + steps_before gs (Suc k)"
      "si_step info = cur - (sg_cumulative g + steps_before gs k)" "0 \<le> si_percent info" "si_percent info \<le> 100"
      by blast
    with False Cons.prems(1) show ?thesis
      by (intro exI [of _ "Suc k"]) (simp add: algebra_simps)
  qed
qed

lemma locate_stage_past:
  "cum_ok p gs \<Longrightarrow> p + sum_list (map sg_steps gs) \<le> cur \<Longrightarrow> locate_stage gs cur n i p = None"
proof (induction gs arbitrary: i p)
  case (Cons g gs)
  have "0 \<le> sum_list (map sg_steps gs)" if "cum_ok q gs" for q
    using that by (induction gs arbitrary: q) auto
  with Cons.prems(1) have "0 \<le> sum_list (map sg_steps gs)" by auto
  with Cons.prems have "\<not> cur < sg_cumulative g" "cum_ok (sg_cumulative g) gs"
    "sg_cumulative g + sum_list (map sg_steps gs) \<le> cur" by auto
  with Cons.IH [of "sg_cumulative g" "i + 1"] show ?case by simp
qed simp

text \<open>The texts of the table.\<close>

lemma duration_texts:
  "int_without ''steps'' ''1000 steps'' = Inr 1000" "int_without ''steps'' ''5000 steps'' = Inr 5000"
  "int_without ''steps'' ''10000 steps'' = Inr 10000" "int_without ''steps'' ''100 steps'' = Inr 100"
  "float_without ''ps'' ''300 ps'' = Inr 300" "float_without ''ps'' ''2000 ps'' = Inr 2000"
  "float_without ''ps'' ''3000 ps'' = Inr 3000" "float_without ''ps'' ''5000 ps'' = Inr 5000"
  "float_without ''ps'' ''1000 ps'' = Inr 1000" "float_without ''ps'' ''100 ps'' = Inr 100"
  "float_without ''ps'' ''500 ps'' = Inr 500" "float_without ''ps'' ''200 ps'' = Inr 200"
  "float_without ''ps'' ''50 ps'' = Inr 50"
  by (simp_all add: int_without_def float_without_def str_replace.simps(2) str_strip_def is_space_def
      py_float_of_def py_int_of_def signed_def parse_unsigned_def parse_nat_def is_digit_def
      digits_value_def digit_value_def)

text \<open>Every chain of the table has a count for each stage, for any positive time step.\<close>

definition demo_stages :: "stage_steps list" where
  "demo_stages =
     [\<lparr>sg_name = ''minimize'', sg_type = ''minimize'', sg_steps = 1000, sg_cumulative = 1000\<rparr>,
      \<lparr>sg_name = ''nvt_equilibration'', sg_type = ''nvt'', sg_steps = 300000, sg_cumulative = 301000\<rparr>,
      \<lparr>sg_name = ''npt_production'', sg_type = ''npt'', sg_steps = 2000000, sg_cumulative = 2301000\<rparr>]"

lemma step_texts:
  "dur_text ''1000 steps'' = ''1000 steps''" "dur_text ''300 ps'' = ''300 ps''" "dur_text ''2000 ps'' = ''2000 ps''"
  by (simp_all add: dur_text_def str_strip_def is_space_def str_lower_def char_lower_def)

lemma screening_stages: "get_stage_steps DEFAULT_STABILIZATION_CHAIN ''screening'' 1 = Inr demo_stages"
  by (simp add: get_stage_steps_def get_chain_def default_table stab_step_def step_count_def
      truthy_def step_texts duration_texts str_contains.simps int_div_def py_int_def demo_stages_def)

section \<open>Properties\<close>

text \<open>
  The stage reported for a step is the one whose range of cumulative steps contains it,
  with the step counted from its start and a percentage between 0 and 100; at or past the end
  it is the last stage at 100 percent.
\<close>

theorem stage_progress_exact:
  assumes "get_stage_steps C tier dt = Inr gs" "gs \<noteq> []" "\<forall>g\<in>set gs. 0 \<le> sg_steps g" "0 \<le> cur"
  shows "\<exists>info. get_stage_info C tier cur dt = Inr info \<and>
    1 \<le> si_index info \<and> si_index info \<le> length gs \<and> si_total_stages info = length gs \<and>
    si_stage info = sg_name (gs ! (si_index info - 1)) \<and> 0 \<le> si_percent info \<and> si_percent info \<le> 100 \<and>
    (if cur < sum_list (map sg_steps gs)
     then steps_before gs (si_index info - 1) \<le> cur \<and> cur < steps_before gs (si_index info) \<and>
          si_step info = cur - steps_before gs (si_index info - 1)
     else si_index info = length gs \<and> si_percent info = 100)"
proof (cases "cur < sum_list (map sg_steps gs)")
  case True
  have "cum_ok 0 gs"
    using assms(1,3) stage_steps_from_cum by (auto simp: get_stage_steps_def split: sum.splits)
  with True assms(4) locate_stage_found [of 0 gs cur "length gs" 0] obtain k info where
    k: "k < length gs" and loc: "locate_stage gs cur (length gs) 0 0 = Some info"
    and rest: "si_index info = k + 1" "si_total_stages info = length gs" "si_stage info = sg_name (gs ! k)"
      "steps_before gs k \<le> cur" "cur < steps_before gs (Suc k)" "si_step info = cur - steps_before gs k"
      "0 \<le> si_percent info" "si_percent info \<le> 100"
    by auto
  have "get_stage_info C tier cur dt = Inr info" by (simp add: get_stage_info_def assms(1) loc)
  with True k rest show ?thesis by (intro exI [of _ info]) simp
next
  case False
  have "cum_ok 0 gs"
    using assms(1,3) stage_steps_from_cum by (auto simp: get_stage_steps_def split: sum.splits)
  with False have "locate_stage gs cur (length gs) 0 0 = None" by (intro locate_stage_past) auto
  with False assms(1,2) show ?thesis by (simp add: get_stage_info_def Let_def last_conv_nth Suc_le_eq)
qed

theorem stage_progress_exact_witness:
  "\<exists>info. get_stage_info DEFAULT_STABILIZATION_CHAIN ''screening'' 151000 1 = Inr info \<and> si_index info \<le> 3 \<and>
     si_stage info = sg_name (demo_stages ! (si_index info - 1)) \<and> si_percent info \<le> 100"
proof -
  have "demo_stages \<noteq> []" "\<forall>g\<in>set demo_stages. 0 \<le> sg_steps g" "length demo_stages = 3"
    by (simp_all add: demo_stages_def)
  with stage_progress_exact [OF screening_stages, of 151000] show ?thesis by auto
qed

end
