(* ===== verification/ProtocolChain.thy ===== *)
theory ProtocolChain
  imports Stabilization RunPolicies
begin

text \<open>
  Protocol chains, \<^verbatim>\<open>src/src/protocols/protocol_chain.py\<close> with the geometry of
  \<^verbatim>\<open>LayerSpec\<close> (\<^verbatim>\<open>src/src/contracts/schemas.py\<close>) and the duration filters of
  \<^verbatim>\<open>src/src/protocols/template_engine.py\<close>: from a request to the steps of a simulation, with
  the equilibration stages put after each minimisation, the tensile parameters and the
  interval of trajectory dumps.
\<close>

section \<open>Requests\<close>

datatype study_type = BULK | LAYER_BULKFF | REAXFF_VALIDATION | SINGLE_MOLECULE_VACUUM

datatype tensile_mode = CONTINUOUS | QUASI_STATIC

definition tensile_mode_value :: "tensile_mode \<Rightarrow> string" where
  "tensile_mode_value m = (case m of CONTINUOUS \<Rightarrow> ''continuous'' | QUASI_STATIC \<Rightarrow> ''quasi_static'')"

record tensile_spec =
  ts_enabled :: bool
  ts_pull_velocity :: pyfloat
  ts_grip_thickness :: pyfloat
  ts_max_strain :: pyfloat
  ts_output_interval :: int
  ts_mode :: tensile_mode
  ts_displacement :: pyfloat
  ts_relax_steps :: int
  ts_force_steps :: int

text \<open>What the validators of \<open>TensileSpec\<close> guarantee.\<close>

definition tensile_spec_ok :: "tensile_spec \<Rightarrow> bool" where
  "tensile_spec_ok ts \<longleftrightarrow>
     ts_pull_velocity ts > 0 \<and> ts_grip_thickness ts > 0 \<and> 0 < ts_max_strain ts \<and> ts_max_strain ts \<le> 2 \<and>
     ts_output_interval ts > 0 \<and> ts_displacement ts > 0 \<and> ts_relax_steps ts > 0 \<and> ts_force_steps ts > 0 \<and>
     (ts_mode ts = QUASI_STATIC \<longrightarrow> ts_force_steps ts \<le> ts_relax_steps ts)"

record equilibration_settings =
  eq_enabled :: bool
  eq_nvt_temperature :: pyfloat
  eq_nvt_duration :: pyfloat
  eq_npt_temperature :: pyfloat
  eq_npt_pressure :: pyfloat
  eq_npt_duration :: pyfloat

record equilibration_policy =
  ep_nvt_temperature :: pyfloat
  ep_nvt_duration :: pyfloat
  ep_npt_temperature :: pyfloat
  ep_npt_pressure :: pyfloat
  ep_npt_duration :: pyfloat
  ep_temperature_min :: pyfloat
  ep_temperature_max :: pyfloat
  ep_pressure_min :: pyfloat
  ep_pressure_max :: pyfloat
  ep_duration_min :: pyfloat
  ep_duration_max :: pyfloat

definition DEFAULT_EQUILIBRATION_POLICY :: equilibration_policy where
  "DEFAULT_EQUILIBRATION_POLICY =
     \<lparr>ep_nvt_temperature = 500, ep_nvt_duration = 100, ep_npt_temperature = 500, ep_npt_pressure = 100,
      ep_npt_duration = 200, ep_temperature_min = 300, ep_temperature_max = 1000, ep_pressure_min = 50,
      ep_pressure_max = 500, ep_duration_min = 50, ep_duration_max = 1000\<rparr>"

definition within_bounds :: "pyfloat \<Rightarrow> pyfloat \<Rightarrow> pyfloat \<Rightarrow> bool" where
  "within_bounds lo hi x \<longleftrightarrow> lo \<le> x \<and> x \<le> hi"

text \<open>What the field bounds of \<open>EquilibrationSettings\<close> guarantee.\<close>

definition equilibration_ok :: "equilibration_settings \<Rightarrow> bool" where
  "equilibration_ok s \<longleftrightarrow>
     (let p = DEFAULT_EQUILIBRATION_POLICY in
      within_bounds (ep_temperature_min p) (ep_temperature_max p) (eq_nvt_temperature s) \<and>
      within_bounds (ep_duration_min p) (ep_duration_max p) (eq_nvt_duration s) \<and>
      within_bounds (ep_temperature_min p) (ep_temperature_max p) (eq_npt_temperature s) \<and>
      within_bounds (ep_pressure_min p) (ep_pressure_max p) (eq_npt_pressure s) \<and>
      within_bounds (ep_duration_min p) (ep_duration_max p) (eq_npt_duration s))"

section \<open>Layer geometry\<close>

datatype layer_type = INTERFACE | WATER_INTERFACE | THREE_LAYER | BINDER_BINDER | OTHER_LAYER

record layer_spec =
  ls_type :: layer_type
  ls_crystal :: pyfloat
  ls_water :: "pyfloat option"
  ls_binder :: pyfloat
  ls_binder2 :: "pyfloat option"
  ls_vacuum_above :: pyfloat
  ls_vacuum_below :: pyfloat
  ls_boundary_z :: "pyfloat list option"
  ls_bottom_grip :: "(pyfloat \<times> pyfloat) option"
  ls_top_grip :: "(pyfloat \<times> pyfloat) option"

definition opt0 :: "pyfloat option \<Rightarrow> pyfloat" where
  "opt0 x = (case x of None \<Rightarrow> 0 | Some v \<Rightarrow> v)"

definition get_total_height :: "layer_spec \<Rightarrow> pyfloat" where
  "get_total_height l =
     (let h = (if ls_type l = BINDER_BINDER then ls_binder l else ls_crystal l + ls_binder l);
          h = h + opt0 (ls_water l);
          h = (if ls_type l = THREE_LAYER then h + ls_crystal l else h);
          h = h + opt0 (ls_binder2 l)
      in h + (ls_vacuum_above l + ls_vacuum_below l))"

text \<open>The layers from the bottom up, as the code lists them, with their thickness.\<close>

definition layer_list :: "layer_spec \<Rightarrow> (string \<times> pyfloat) list" where
  "layer_list l =
     (if ls_type l = BINDER_BINDER then
        [(''binder'', ls_binder l)] @ (case ls_binder2 l of None \<Rightarrow> [] | Some t \<Rightarrow> [(''binder_secondary'', t)])
      else
        [(''crystal_bottom'', ls_crystal l)] @
        (case ls_water l of None \<Rightarrow> [] | Some t \<Rightarrow> [(''water'', t)]) @
        [(''binder'', ls_binder l)] @
        (case ls_binder2 l of None \<Rightarrow> [] | Some t \<Rightarrow> [(''binder_secondary'', t)]) @
        (if ls_type l = THREE_LAYER then [(''crystal_top'', ls_crystal l)] else []))"

text \<open>Each layer starts where the one below ends.\<close>

fun stack_from :: "pyfloat \<Rightarrow> (string \<times> pyfloat) list \<Rightarrow> (string, pyfloat \<times> pyfloat) pydict" where
  "stack_from z [] = []"
| "stack_from z ((name, t) # rest) = (name, (z, z + t)) # stack_from (z + t) rest"

definition get_layer_boundaries :: "layer_spec \<Rightarrow> (string, pyfloat \<times> pyfloat) pydict" where
  "get_layer_boundaries l = stack_from (ls_vacuum_below l) (layer_list l)"

record protocol_request =
  rq_tier :: run_tier
  rq_study_type :: study_type
  rq_temperature :: pyfloat
  rq_pressure :: pyfloat
  rq_ff_type :: string
  rq_data_file :: string
  rq_e_intra :: "string option"
  rq_tensile :: "tensile_spec option"
  rq_layer :: "layer_spec option"
  rq_equilibration :: "equilibration_settings option"
  rq_skip :: "string list option"

section \<open>Chains\<close>

record protocol_step =
  pt_name :: string
  pt_type :: string
  pt_ensemble :: "string option"
  pt_temperature :: pyval
  pt_pressure :: pyval
  pt_duration :: string
  pt_timestep :: pyval
  pt_dump_interval :: int
  pt_constraints :: pyval
  pt_extra :: "(string \<times> pyval) list"

record sampling_entry =
  se_name :: string
  se_type :: string
  se_total_steps :: int
  se_target_frames :: int
  se_raw_interval :: int
  se_dump_interval :: int
  se_production :: bool
  se_overridden :: "bool option"

record sampling_metadata =
  sm_tier :: string
  sm_adaptive :: bool
  sm_entries :: "sampling_entry list"
  sm_overrides_applied :: bool

record protocol_chain =
  pc_tier :: run_tier
  pc_steps :: "protocol_step list"
  pc_ff_type :: string
  pc_temperature :: pyfloat
  pc_pressure :: pyfloat
  pc_study_type :: study_type
  pc_data_file :: string
  pc_sampling :: sampling_metadata
  pc_e_intra :: "string option"

text \<open>A number taken from a parameter dictionary; arithmetic on anything else is a \<open>TypeError\<close>.\<close>

definition pv_number :: "pyval \<Rightarrow> (proto_error, pyfloat) result" where
  "pv_number v = (case v of PNum x \<Rightarrow> Inr x | PBool b \<Rightarrow> Inr (if b then 1 else 0) | _ \<Rightarrow> Inl TypeFault)"

definition pv_get_or :: "(string \<times> pyval) list \<Rightarrow> string \<Rightarrow> pyval \<Rightarrow> pyval" where
  "pv_get_or d k v = dict_get d k v"

definition int_div_pv :: "pyfloat \<Rightarrow> pyval \<Rightarrow> (proto_error, int) result" where
  "int_div_pv a v = (case pv_number v of Inl e \<Rightarrow> Inl e | Inr b \<Rightarrow> int_div a b)"

definition parse_duration_to_steps :: "string \<Rightarrow> pyval \<Rightarrow> (proto_error, int) result" where
  "parse_duration_to_steps duration timestep =
     (let s = dur_text duration;
          scaled = (\<lambda>unit f. case float_without unit s of Inl e \<Rightarrow> Inl e | Inr x \<Rightarrow> int_div_pv (x * f) timestep)
      in if str_contains ''steps'' s then int_without ''steps'' s
         else if str_contains ''ns'' s then scaled ''ns'' 1000000
         else if str_contains ''ps'' s then scaled ''ps'' 1000
         else if str_contains ''fs'' s then scaled ''fs'' 1
         else case py_float_of s of
             None \<Rightarrow> Inr 100000
           | Some x \<Rightarrow> int_div_pv (x * 1000) timestep)"

definition determine_step_type :: "stabilization_step \<Rightarrow> string" where
  "determine_step_type st =
     (let t = str_lower (sb_type st); n = str_lower (sb_name st) in
      if t \<in> set [''minimize'', ''nvt'', ''npt'', ''nve'', ''viscosity'', ''tensile'', ''annealing''] then t
      else if str_contains ''minimize'' n \<or> str_contains ''min'' n then ''minimize''
      else if str_contains ''tensile'' n \<or> str_contains ''pull'' n then ''tensile''
      else if str_contains ''anneal'' n then ''annealing''
      else if str_contains ''viscosity'' n \<or> str_contains ''nemd'' n \<or> str_contains ''muller'' n then ''viscosity''
      else if str_contains ''nvt'' n then ''nvt''
      else if str_contains ''npt'' n then ''npt''
      else if str_contains ''nve'' n then ''nve''
      else ''nvt'')"

definition determine_ensemble :: "stabilization_step \<Rightarrow> string option" where
  "determine_ensemble st =
     (let t = str_lower (sb_type st); n = str_lower (sb_name st) in
      if t = ''minimize'' then None
      else if t \<in> set [''nvt'', ''npt'', ''nve''] then Some t
      else if t \<in> set [''viscosity'', ''tensile'', ''annealing''] then Some ''nvt''
      else if str_contains ''minimize'' n then None
      else if str_contains ''nve'' n then Some ''nve''
      else if str_contains ''npt'' n then Some ''npt''
      else Some ''nvt'')"

definition is_production :: "string \<Rightarrow> bool" where
  "is_production step_type \<longleftrightarrow> step_type = ''npt'' \<or> step_type = ''viscosity''"

definition frames_of :: "sampling_config \<Rightarrow> string \<Rightarrow> int" where
  "frames_of s step_type =
     (if is_production step_type then production_target_frames s else equilibration_target_frames s)"

definition raw_interval :: "sampling_config \<Rightarrow> string \<Rightarrow> int \<Rightarrow> int" where
  "raw_interval s step_type steps =
     (if frames_of s step_type > 0 then steps div frames_of s step_type else min_interval_steps s)"

definition clamped_interval :: "sampling_config \<Rightarrow> string \<Rightarrow> int \<Rightarrow> int" where
  "clamped_interval s step_type steps =
     max (min_interval_steps s) (min (raw_interval s step_type steps) (max_interval_steps s))"

definition sampling_entry_of :: "sampling_config \<Rightarrow> string \<Rightarrow> string \<Rightarrow> int \<Rightarrow> bool option \<Rightarrow> sampling_entry" where
  "sampling_entry_of s name step_type steps overridden =
     \<lparr>se_name = name, se_type = step_type, se_total_steps = steps, se_target_frames = frames_of s step_type,
      se_raw_interval = raw_interval s step_type steps, se_dump_interval = clamped_interval s step_type steps,
      se_production = is_production step_type, se_overridden = overridden\<rparr>"

text \<open>\<open>_compute_dump_interval\<close>; the metadata of the builder is passed along.\<close>

definition compute_dump_interval ::
    "tier_policy \<Rightarrow> run_tier \<Rightarrow> string \<Rightarrow> string \<Rightarrow> pyval \<Rightarrow> string \<Rightarrow> sampling_metadata
      \<Rightarrow> (proto_error, int \<times> sampling_metadata) result" where
  "compute_dump_interval P tier step_type duration timestep name m =
     (if step_type = ''minimize'' then Inr (0, m)
      else case get_tier_config P (TierEnum tier) of
          Inl (ValueError e) \<Rightarrow> Inl (UnknownTier (run_tier_value tier))
        | Inr c \<Rightarrow>
            (case tc_sampling c of
               None \<Rightarrow> Inr (10000, m)
             | Some s \<Rightarrow>
                 if \<not> sc_enabled s then Inr (10000, m)
                 else map_sum id (\<lambda>n. (clamped_interval s step_type n,
                     m\<lparr>sm_adaptive := True,
                       sm_entries := sm_entries m @ [sampling_entry_of s name step_type n None]\<rparr>))
                   (parse_duration_to_steps duration timestep)))"

text \<open>\<open>stab_step.duration or "100 ps"\<close>\<close>

definition duration_or_default :: "stabilization_step \<Rightarrow> string" where
  "duration_or_default st = or_default (sb_duration st) ''100 ps''"

definition convert_step ::
    "tier_policy \<Rightarrow> run_tier \<Rightarrow> pyfloat \<Rightarrow> pyfloat \<Rightarrow> stabilization_step \<Rightarrow> sampling_metadata
      \<Rightarrow> (proto_error, protocol_step \<times> sampling_metadata) result" where
  "convert_step P tier temperature pressure st m =
     (let step_type = determine_step_type st;
          params = sb_parameters st;
          constraints = (if step_type = ''minimize'' then
              PDict [(''etol'', pv_get_or params ''etol'' (PNum (1/10000))),
                     (''ftol'', pv_get_or params ''ftol'' (PNum (1/1000000))),
                     (''max_iter'', pv_get_or params ''maxiter'' (PNum 10000)),
                     (''max_eval'', pv_get_or params ''maxeval'' (PNum 100000))]
            else pv_get_or params ''constraints'' (PDict []));
          extra = (if step_type = ''annealing'' then dict_set ''temp_low_K'' (PNum temperature) params else params);
          timestep = pv_get_or params ''timestep_fs'' (PNum 1)
      in map_sum id (\<lambda>(dump, m').
            (\<lparr>pt_name = sb_name st, pt_type = step_type, pt_ensemble = determine_ensemble st,
              pt_temperature = pv_get_or params ''temperature_K'' (PNum temperature),
              pt_pressure = pv_get_or params ''pressure_atm'' (PNum pressure),
              pt_duration = duration_or_default st, pt_timestep = timestep,
              pt_dump_interval = dump, pt_constraints = constraints, pt_extra = extra\<rparr>, m'))
          (compute_dump_interval P tier step_type (duration_or_default st) timestep (sb_name st) m))"

definition ps_text :: "pyfloat \<Rightarrow> string" where
  "ps_text x = show_float x @ '' ps''"

definition high_temp_nvt :: "equilibration_settings \<Rightarrow> stabilization_step" where
  "high_temp_nvt s = stab_step ''high_temp_nvt'' ''nvt'' (ps_text (eq_nvt_duration s))
     [(''temperature_K'', PNum (eq_nvt_temperature s)), (''thermostat'', PStr ''nose-hoover''), (''tdamp'', PNum 100)]"

definition high_pressure_npt :: "equilibration_settings \<Rightarrow> stabilization_step" where
  "high_pressure_npt s = stab_step ''high_pressure_npt'' ''npt'' (ps_text (eq_npt_duration s))
     [(''temperature_K'', PNum (eq_npt_temperature s)), (''pressure_atm'', PNum (eq_npt_pressure s)),
      (''thermostat'', PStr ''nose-hoover''), (''barostat'', PStr ''nose-hoover''),
      (''tdamp'', PNum 100), (''pdamp'', PNum 1000)]"

definition inject_equilibration_steps ::
    "equilibration_settings \<Rightarrow> stabilization_step list \<Rightarrow> stabilization_step list" where
  "inject_equilibration_steps s steps =
     concat (map (\<lambda>st. if str_lower (sb_type st) = ''minimize'' then [st, high_temp_nvt s, high_pressure_npt s]
                      else [st]) steps)"

section \<open>Tensile parameters\<close>

definition set_params :: "(string \<times> pyval) list \<Rightarrow> (string \<times> pyval) list \<Rightarrow> (string \<times> pyval) list" where
  "set_params new d = foldl (\<lambda>d (k, v). dict_set k v d) d new"

definition num_of_int :: "int \<Rightarrow> pyval" where
  "num_of_int n = PNum (of_int n)"

definition pv_pair :: "pyfloat \<times> pyfloat \<Rightarrow> pyval" where
  "pv_pair p = PList [PNum (fst p), PNum (snd p)]"

text \<open>The explicit boundaries when there are at least two, else those of the layers.\<close>

definition tensile_boundaries :: "layer_spec \<Rightarrow> pyfloat list" where
  "tensile_boundaries l =
     (case ls_boundary_z l of
        Some zs \<Rightarrow> if length zs \<ge> 2 then zs
                  else concat (map (\<lambda>(n, a, b). [a, b]) (get_layer_boundaries l))
      | None \<Rightarrow> concat (map (\<lambda>(n, a, b). [a, b]) (get_layer_boundaries l)))"

definition min_list_of :: "pyfloat list \<Rightarrow> pyfloat" where
  "min_list_of zs = foldl min (hd zs) (tl zs)"

definition max_list_of :: "pyfloat list \<Rightarrow> pyfloat" where
  "max_list_of zs = foldl max (hd zs) (tl zs)"

text \<open>The gap between the grips: an explicit grip range per side, else the thickness.\<close>

definition tensile_gap :: "tensile_spec \<Rightarrow> layer_spec \<Rightarrow> pyfloat list \<Rightarrow> pyfloat" where
  "tensile_gap ts l zs =
     (let bottom_end = (case ls_bottom_grip l of Some g \<Rightarrow> snd g | None \<Rightarrow> min_list_of zs + ts_grip_thickness ts);
          top_start = (case ls_top_grip l of Some g \<Rightarrow> fst g | None \<Rightarrow> max_list_of zs - ts_grip_thickness ts)
      in top_start - bottom_end)"

definition qs_displacement_steps :: "tensile_spec \<Rightarrow> pyfloat \<Rightarrow> int" where
  "qs_displacement_steps ts gap = max 1 \<lceil>gap * ts_max_strain ts / ts_displacement ts\<rceil>"

definition tensile_time_fs :: "tensile_spec \<Rightarrow> pyfloat \<Rightarrow> (proto_error, pyfloat) result" where
  "tensile_time_fs ts gap =
     (if ts_mode ts = QUASI_STATIC then
        (if ts_displacement ts = 0 then Inl ZeroDivide
         else Inr (of_int (qs_displacement_steps ts gap * ts_relax_steps ts)))
      else if ts_pull_velocity ts = 0 then Inl ZeroDivide
      else Inr (gap * ts_max_strain ts / ts_pull_velocity ts))"

definition inject_tensile_params ::
    "tensile_spec \<Rightarrow> layer_spec option \<Rightarrow> protocol_step \<Rightarrow> (proto_error, protocol_step) result" where
  "inject_tensile_params ts layer step =
     (let extra = set_params
            [(''pull_velocity_A_per_fs'', PNum (ts_pull_velocity ts)),
             (''grip_thickness_angstrom'', PNum (ts_grip_thickness ts)),
             (''max_strain'', PNum (ts_max_strain ts)),
             (''output_interval_steps'', num_of_int (ts_output_interval ts)),
             (''tensile_mode'', PStr (tensile_mode_value (ts_mode ts)))] (pt_extra step);
          extra = (if ts_mode ts = QUASI_STATIC then set_params
            [(''displacement_increment_angstrom'', PNum (ts_displacement ts)),
             (''relax_steps'', num_of_int (ts_relax_steps ts)),
             (''force_average_steps'', num_of_int (ts_force_steps ts))] extra else extra)
      in case layer of
           None \<Rightarrow> Inr (step\<lparr>pt_extra := extra\<rparr>)
         | Some l \<Rightarrow>
             let zs = tensile_boundaries l;
                 extra = (case ls_bottom_grip l of None \<Rightarrow> extra | Some g \<Rightarrow> dict_set ''bottom_grip_z'' (pv_pair g) extra);
                 extra = (case ls_top_grip l of None \<Rightarrow> extra | Some g \<Rightarrow> dict_set ''top_grip_z'' (pv_pair g) extra)
             in if zs = [] then Inr (step\<lparr>pt_extra := extra\<rparr>)
                else
                  let extra = set_params [(''z_lo_grip'', PNum (min_list_of zs)),
                        (''z_hi_grip'', PNum (max_list_of zs))] extra;
                      gap = tensile_gap ts l zs
                  in if gap > 0 then
                       (case tensile_time_fs ts gap of
                          Inl e \<Rightarrow> Inl e
                        | Inr fs \<Rightarrow> Inr (step\<lparr>pt_extra := extra, pt_duration := show_fixed1 (fs / 1000) @ '' ps''\<rparr>))
                     else Inr (step\<lparr>pt_extra := extra\<rparr>))"

section \<open>Building\<close>

definition chain_key :: "protocol_request \<Rightarrow> string" where
  "chain_key rq =
     (if rq_study_type rq = LAYER_BULKFF then
        (case rq_tensile rq of
           Some ts \<Rightarrow> if ts_enabled ts
                     then (if ts_mode ts = QUASI_STATIC then ''tensile_layer_qs'' else ''tensile_layer'')
                     else ''layer''
         | None \<Rightarrow> ''layer'')
      else run_tier_value (rq_tier rq))"

definition planned_steps :: "stabilization_chain \<Rightarrow> protocol_request \<Rightarrow> (proto_error, stabilization_step list) result" where
  "planned_steps C rq =
     map_sum id (\<lambda>steps.
         let steps = (case rq_equilibration rq of
                Some s \<Rightarrow> if eq_enabled s then inject_equilibration_steps s steps else steps
              | None \<Rightarrow> steps)
         in case rq_skip rq of
              None \<Rightarrow> steps
            | Some keys \<Rightarrow> filter (\<lambda>st. sb_name st \<notin> set keys) steps)
       (get_chain C (chain_key rq))"

text \<open>The tensile parameters of the request, for a tensile step.\<close>

definition with_tensile :: "protocol_request \<Rightarrow> protocol_step \<Rightarrow> (proto_error, protocol_step) result" where
  "with_tensile rq s =
     (case rq_tensile rq of
        Some ts \<Rightarrow> if pt_type s = ''tensile'' then inject_tensile_params ts (rq_layer rq) s else Inr s
      | None \<Rightarrow> Inr s)"

fun convert_steps ::
    "tier_policy \<Rightarrow> protocol_request \<Rightarrow> stabilization_step list \<Rightarrow> sampling_metadata
      \<Rightarrow> (proto_error, protocol_step list \<times> sampling_metadata) result" where
  "convert_steps P rq [] m = Inr ([], m)"
| "convert_steps P rq (st # rest) m =
     (case convert_step P (rq_tier rq) (rq_temperature rq) (rq_pressure rq) st m of
        Inl e \<Rightarrow> Inl e
      | Inr (step, m1) \<Rightarrow>
          (case with_tensile rq step of
             Inl e \<Rightarrow> Inl e
           | Inr step' \<Rightarrow> map_sum id (\<lambda>(steps, m2). (step' # steps, m2)) (convert_steps P rq rest m1)))"

definition build_chain ::
    "stabilization_chain \<Rightarrow> tier_policy \<Rightarrow> protocol_request \<Rightarrow> (proto_error, protocol_chain) result" where
  "build_chain C P rq =
     (case planned_steps C rq of
        Inl e \<Rightarrow> Inl e
      | Inr steps \<Rightarrow>
          map_sum id (\<lambda>(psteps, m).
              \<lparr>pc_tier = rq_tier rq, pc_steps = psteps, pc_ff_type = rq_ff_type rq,
               pc_temperature = rq_temperature rq, pc_pressure = rq_pressure rq,
               pc_study_type = rq_study_type rq, pc_data_file = rq_data_file rq, pc_sampling = m,
               pc_e_intra = rq_e_intra rq\<rparr>)
            (convert_steps P rq steps
               \<lparr>sm_tier = run_tier_value (rq_tier rq), sm_adaptive = False, sm_entries = [],
                sm_overrides_applied = False\<rparr>))"

section \<open>Durations and estimates\<close>

text \<open>\<open>re.match(r"(\d+)", s)\<close>: the digits in front, if there are any.\<close>

definition leading_int :: "string \<Rightarrow> int option" where
  "leading_int s = (let d = takeWhile is_digit s in if d = [] then None else Some (int (digits_value d)))"

definition filter_duration_to_steps :: "string \<Rightarrow> pyfloat \<Rightarrow> (proto_error, int) result" where
  "filter_duration_to_steps duration timestep =
     (let s = str_strip duration in
      if str_contains ''step'' (str_lower s) then Inr (case leading_int s of None \<Rightarrow> 0 | Some n \<Rightarrow> n)
      else if suffix '' ps'' s \<or> suffix ''ps'' s \<and> \<not> str_contains ''step'' s then
        (case float_without ''ps'' s of Inl e \<Rightarrow> Inl e | Inr x \<Rightarrow> int_div (x * 1000) timestep)
      else if suffix '' ns'' s \<or> suffix ''ns'' s then
        (case float_without ''ns'' s of Inl e \<Rightarrow> Inl e | Inr x \<Rightarrow> int_div (x * 1000000) timestep)
      else case py_float_of s of None \<Rightarrow> Inr 0 | Some x \<Rightarrow> int_div (x * 1000) timestep)"

definition filter_duration_to_ps :: "string \<Rightarrow> (proto_error, pyfloat) result" where
  "filter_duration_to_ps duration =
     (let s = str_strip duration in
      if suffix '' ps'' s \<or> suffix ''ps'' s \<and> \<not> str_contains ''step'' s then float_without ''ps'' s
      else if suffix '' ns'' s \<or> suffix ''ns'' s then map_sum id (\<lambda>x. x * 1000) (float_without ''ns'' s)
      else if str_contains ''step'' (str_lower s)
      then Inr (case leading_int s of None \<Rightarrow> 0 | Some n \<Rightarrow> of_int n / 1000)
      else Inr (case py_float_of s of None \<Rightarrow> 0 | Some x \<Rightarrow> x))"

fun chain_duration_ps :: "protocol_step list \<Rightarrow> pyfloat \<Rightarrow> (proto_error, pyfloat) result" where
  "chain_duration_ps [] acc = Inr acc"
| "chain_duration_ps (s # rest) acc =
     (if pt_type s = ''minimize'' then chain_duration_ps rest acc
      else case filter_duration_to_ps (pt_duration s) of
          Inl e \<Rightarrow> Inl e | Inr d \<Rightarrow> chain_duration_ps rest (acc + d))"

definition builder_total_duration_ps :: "protocol_chain \<Rightarrow> (proto_error, pyfloat) result" where
  "builder_total_duration_ps c = chain_duration_ps (pc_steps c) 0"

text \<open>The steps of one stage; \<open>constraints.get\<close> is used on a dictionary.\<close>

definition stage_total_steps :: "pyfloat \<Rightarrow> protocol_step \<Rightarrow> (proto_error, pyfloat) result" where
  "stage_total_steps timestep s =
     (if pt_type s = ''minimize'' then
        let d = dur_text (pt_duration s) in
        if str_contains ''steps'' d then map_sum id of_int (int_without ''steps'' d)
        else (case pt_constraints s of
                PDict c \<Rightarrow> pv_number (dict_get c ''max_iter'' (PNum 10000)) | _ \<Rightarrow> Inl TypeFault)
      else map_sum id of_int (filter_duration_to_steps (pt_duration s) timestep))"

fun sum_stage_steps :: "pyfloat \<Rightarrow> protocol_step list \<Rightarrow> pyfloat \<Rightarrow> (proto_error, pyfloat) result" where
  "sum_stage_steps dt [] acc = Inr acc"
| "sum_stage_steps dt (s # rest) acc =
     (case stage_total_steps dt s of Inl e \<Rightarrow> Inl e | Inr n \<Rightarrow> sum_stage_steps dt rest (acc + n))"

definition builder_total_steps :: "protocol_chain \<Rightarrow> pyfloat \<Rightarrow> (proto_error, pyfloat) result" where
  "builder_total_steps c dt = sum_stage_steps dt (pc_steps c) 0"

definition estimate_runtime_hours :: "protocol_chain \<Rightarrow> int \<Rightarrow> pyfloat \<Rightarrow> (proto_error, pyfloat) result" where
  "estimate_runtime_hours c atom_count gpu_speed =
     map_sum id (\<lambda>ps.
         let ns = ps / 1000; speed = gpu_speed * (of_int atom_count / 1000)
         in if speed > 0 then ns / speed * 24 else 0)
       (builder_total_duration_ps c)"

end
