(* ===== verification/StagePlan.thy ===== *)
theory StagePlan
  imports ProtocolChain
begin

text \<open>
  User overrides of stage durations, \<^verbatim>\<open>src/src/protocols/duration_adjuster.py\<close>, the
  compiled execution plan, \<^verbatim>\<open>src/src/protocols/stage_plan_compiler.py\<close>, and the search for
  a restart point in it, \<^verbatim>\<open>src/src/protocols/restart_discovery.py\<close>. The digest of the plan,
  the clock and the catalogue of stage labels (a data file of the frontend) are arguments.
\<close>

section \<open>Overrides\<close>

record stage_override =
  so_name :: string
  so_ps :: "pyfloat option"
  so_steps :: "int option"

definition override_ok :: "stage_override \<Rightarrow> bool" where
  "override_ok ov \<longleftrightarrow> (\<forall>x. so_ps ov = Some x \<longrightarrow> 0 \<le> x) \<and> (\<forall>n. so_steps ov = Some n \<longrightarrow> 0 \<le> n)"

record stage_default =
  sf_type :: string
  sf_ps :: "pyfloat option"
  sf_steps :: "int option"
  sf_editable :: bool

definition EQUILIBRATION_COMPATIBLE :: "string list" where
  "EQUILIBRATION_COMPATIBLE = [''screening'', ''confirm'', ''viscosity'', ''validation'', ''screening_mini'']"

definition equilibration_stage_defaults :: "(string, stage_default) pydict" where
  "equilibration_stage_defaults =
     (let p = DEFAULT_EQUILIBRATION_POLICY in
      [(''high_temp_nvt'', \<lparr>sf_type = ''nvt'', sf_ps = Some (ep_nvt_duration p), sf_steps = None, sf_editable = True\<rparr>),
       (''high_pressure_npt'', \<lparr>sf_type = ''npt'', sf_ps = Some (ep_npt_duration p), sf_steps = None, sf_editable = True\<rparr>)])"

definition default_of_step :: "stabilization_step \<Rightarrow> (proto_error, stage_default) result" where
  "default_of_step st =
     (let mk = (\<lambda>ps steps. \<lparr>sf_type = sb_type st, sf_ps = ps, sf_steps = steps,
                  sf_editable = (sb_type st \<noteq> ''minimize'' \<or> steps \<noteq> None)\<rparr>)
      in if \<not> truthy (sb_duration st) then Inr (mk None None)
         else let s = dur_text (the (sb_duration st)) in
              if str_contains ''steps'' s then map_sum id (\<lambda>n. mk None (Some n)) (int_without ''steps'' s)
              else if str_contains ''ps'' s then map_sum id (\<lambda>x. mk (Some x) None) (float_without ''ps'' s)
              else Inr (mk None None))"

fun defaults_from ::
    "stabilization_step list \<Rightarrow> (string, stage_default) pydict \<Rightarrow> (proto_error, (string, stage_default) pydict) result" where
  "defaults_from [] d = Inr d"
| "defaults_from (st # rest) d =
     (case default_of_step st of Inl e \<Rightarrow> Inl e | Inr x \<Rightarrow> defaults_from rest (dict_set (sb_name st) x d))"

definition get_default_durations ::
    "stabilization_chain \<Rightarrow> string \<Rightarrow> (proto_error, (string, stage_default) pydict) result" where
  "get_default_durations C tier = (case get_chain C tier of Inl e \<Rightarrow> Inl e | Inr c \<Rightarrow> defaults_from c [])"

definition get_validation_defaults ::
    "stabilization_chain \<Rightarrow> string \<Rightarrow> bool \<Rightarrow> (proto_error, (string, stage_default) pydict) result" where
  "get_validation_defaults C tier include_equilibration =
     map_sum id (\<lambda>d. if include_equilibration \<and> tier \<in> set EQUILIBRATION_COMPATIBLE
                    then foldl (\<lambda>d (k, v). dict_set k v d) d equilibration_stage_defaults else d)
       (get_default_durations C tier)"

definition get_valid_stages :: "stabilization_chain \<Rightarrow> string \<Rightarrow> bool \<Rightarrow> (proto_error, string list) result" where
  "get_valid_stages C tier include_equilibration = map_sum id (map fst) (get_validation_defaults C tier include_equilibration)"

text \<open>The messages of the validation, as constructors.\<close>

datatype override_fault = InvalidStage string | NoDuration string | NeedsSteps string | NeedsPs string string

definition check_override :: "(string, stage_default) pydict \<Rightarrow> stage_override \<Rightarrow> override_fault list" where
  "check_override defaults ov =
     (case map_of defaults (so_name ov) of
        None \<Rightarrow> [InvalidStage (so_name ov)]
      | Some info \<Rightarrow>
          if so_ps ov = None \<and> so_steps ov = None then [NoDuration (so_name ov)]
          else if sf_type info = ''minimize'' then
            (if so_ps ov \<noteq> None \<and> so_steps ov = None then [NeedsSteps (so_name ov)] else [])
          else if so_steps ov \<noteq> None \<and> so_ps ov = None then [NeedsPs (so_name ov) (sf_type info)] else [])"

definition validate_overrides ::
    "stabilization_chain \<Rightarrow> string \<Rightarrow> stage_override list \<Rightarrow> (proto_error, override_fault list) result" where
  "validate_overrides C tier overrides =
     map_sum id (\<lambda>defaults. concat (map (check_override defaults) overrides)) (get_validation_defaults C tier True)"

text \<open>\<open>{o.stage_name: o for o in overrides}\<close>: the last override of a stage counts.\<close>

definition override_map :: "stage_override list \<Rightarrow> (string, stage_override) pydict" where
  "override_map overrides = foldl (\<lambda>d ov. dict_set (so_name ov) ov d) [] overrides"

definition override_duration :: "stage_override \<Rightarrow> string \<Rightarrow> string" where
  "override_duration ov old =
     (case so_ps ov of
        Some x \<Rightarrow> ps_text x
      | None \<Rightarrow> (case so_steps ov of Some n \<Rightarrow> show_int n @ '' steps'' | None \<Rightarrow> old))"

definition override_step :: "(string, stage_override) pydict \<Rightarrow> protocol_step \<Rightarrow> protocol_step" where
  "override_step m s =
     (case map_of m (pt_name s) of None \<Rightarrow> s | Some ov \<Rightarrow> s\<lparr>pt_duration := override_duration ov (pt_duration s)\<rparr>)"

definition modified_steps :: "(string, stage_override) pydict \<Rightarrow> protocol_step list \<Rightarrow> string list" where
  "modified_steps m steps = filter (\<lambda>n. dict_has m n) (map pt_name steps)"

text \<open>The adjuster's own reader of durations; it agrees with the one of the builder.\<close>

definition adjuster_duration_to_steps :: "string \<Rightarrow> pyval \<Rightarrow> (proto_error, int) result" where
  "adjuster_duration_to_steps duration timestep =
     (let s = dur_text duration;
          scaled = (\<lambda>unit f. case float_without unit s of Inl e \<Rightarrow> Inl e | Inr x \<Rightarrow> int_div_pv (x * f) timestep)
      in if str_contains ''steps'' s then int_without ''steps'' s
         else if str_contains ''ns'' s then scaled ''ns'' 1000000
         else if str_contains ''ps'' s then scaled ''ps'' 1000
         else if str_contains ''fs'' s then scaled ''fs'' 1
         else case py_float_of s of
             None \<Rightarrow> Inr 100000
           | Some x \<Rightarrow> int_div_pv (x * 1000) timestep)"

lemma adjuster_reads_alike [simp]: "adjuster_duration_to_steps = parse_duration_to_steps"
  by (intro ext) (simp only: adjuster_duration_to_steps_def parse_duration_to_steps_def)

text \<open>The loop of \<open>_recalculate_dump_intervals\<close>.\<close>

fun recalculate_from ::
    "sampling_config \<Rightarrow> string list \<Rightarrow> protocol_step list
      \<Rightarrow> (proto_error, protocol_step list \<times> sampling_entry list) result" where
  "recalculate_from c changed [] = Inr ([], [])"
| "recalculate_from c changed (s # rest) =
     (if pt_type s = ''minimize'' then
        map_sum id (\<lambda>(ss, es). (s # ss, es)) (recalculate_from c changed rest)
      else case adjuster_duration_to_steps (pt_duration s) (pt_timestep s) of
          Inl e \<Rightarrow> Inl e
        | Inr n \<Rightarrow>
            map_sum id (\<lambda>(ss, es).
                (s\<lparr>pt_dump_interval := clamped_interval c (pt_type s) n\<rparr> # ss,
                 sampling_entry_of c (pt_name s) (pt_type s) n (Some (pt_name s \<in> set changed)) # es))
              (recalculate_from c changed rest))"

definition recalculate_dump_intervals ::
    "tier_policy \<Rightarrow> string list \<Rightarrow> protocol_chain \<Rightarrow> (proto_error, protocol_chain) result" where
  "recalculate_dump_intervals P changed c =
     (case get_tier_config P (TierEnum (pc_tier c)) of
        Inl e \<Rightarrow> Inl (UnknownTier (run_tier_value (pc_tier c)))
      | Inr cfg \<Rightarrow>
          (case tc_sampling cfg of
             None \<Rightarrow> Inr c
           | Some s \<Rightarrow>
               if \<not> sc_enabled s then Inr c
               else map_sum id (\<lambda>(ss, es).
                   c\<lparr>pc_steps := ss,
                     pc_sampling := \<lparr>sm_tier = run_tier_value (pc_tier c), sm_adaptive = True, sm_entries = es,
                                     sm_overrides_applied = True\<rparr>\<rparr>)
                 (recalculate_from s changed (pc_steps c))))"

definition apply_overrides ::
    "tier_policy \<Rightarrow> protocol_chain \<Rightarrow> stage_override list \<Rightarrow> (proto_error, protocol_chain) result" where
  "apply_overrides P c overrides =
     (let m = override_map overrides;
          c' = c\<lparr>pc_steps := map (override_step m) (pc_steps c)\<rparr>;
          changed = modified_steps m (pc_steps c)
      in if changed = [] then Inr c' else recalculate_dump_intervals P changed c')"

record merged_stage =
  mg_name :: string
  mg_type :: string
  mg_ps :: "pyfloat option"
  mg_steps :: "int option"
  mg_is_override :: bool

text \<open>\<open>a or b\<close> on optional numbers: zero is falsy.\<close>

definition or_num :: "('a::zero) option \<Rightarrow> 'a option \<Rightarrow> 'a option" where
  "or_num a b = (case a of None \<Rightarrow> b | Some x \<Rightarrow> if x = 0 then b else a)"

definition merge_with_defaults ::
    "stabilization_chain \<Rightarrow> string \<Rightarrow> stage_override list \<Rightarrow> (proto_error, merged_stage list) result" where
  "merge_with_defaults C tier overrides =
     (let include_equilibration = list_ex (\<lambda>ov. so_name ov \<in> {''high_temp_nvt'', ''high_pressure_npt''}) overrides;
          m = override_map overrides
      in map_sum id (map (\<lambda>(name, info).
            case map_of m name of
              Some ov \<Rightarrow> \<lparr>mg_name = name, mg_type = sf_type info, mg_ps = or_num (so_ps ov) (sf_ps info),
                         mg_steps = or_num (so_steps ov) (sf_steps info), mg_is_override = True\<rparr>
            | None \<Rightarrow> \<lparr>mg_name = name, mg_type = sf_type info, mg_ps = sf_ps info,
                       mg_steps = sf_steps info, mg_is_override = False\<rparr>))
          (get_validation_defaults C tier include_equilibration))"

section \<open>Compiled plans\<close>

record compiled_stage =
  cs_key :: string
  cs_type :: string
  cs_ps :: "pyfloat option"
  cs_steps :: "int option"
  cs_expected :: int
  cs_cumulative :: int
  cs_parameters :: "(string \<times> pyval) list"
  cs_labels :: "pyval list"

record execution_plan =
  xp_chain_key :: string
  xp_base_tier :: string
  xp_stages :: "compiled_stage list"
  xp_total_steps :: int
  xp_total_ps :: pyfloat
  xp_dt :: pyfloat
  xp_compiled_at :: string
  xp_hash :: string

definition resolve_chain_key :: "protocol_request \<Rightarrow> string option \<Rightarrow> string" where
  "resolve_chain_key rq override = (if truthy override then the override else chain_key rq)"

definition parse_duration :: "string \<Rightarrow> (proto_error, pyfloat option \<times> int option) result" where
  "parse_duration duration =
     (if duration = [] then Inr (None, None)
      else let s = dur_text duration in
           if str_contains ''steps'' s then map_sum id (\<lambda>n. (None, Some n)) (int_without ''steps'' s)
           else if str_contains ''ps'' s then map_sum id (\<lambda>x. (Some x, None)) (float_without ''ps'' s)
           else Inr (None, None))"

definition set_default :: "string \<Rightarrow> pyval \<Rightarrow> (string \<times> pyval) list \<Rightarrow> (string \<times> pyval) list" where
  "set_default k v d = (if dict_has d k then d else dict_set k v d)"

text \<open>The catalogue maps a stage to its metadata; the plan keeps three labels of it.\<close>

definition stage_labels :: "(string, (string \<times> pyval) list) pydict \<Rightarrow> string \<Rightarrow> pyval list" where
  "stage_labels catalog name =
     (let m = dict_get catalog name [] in [pv_get m ''display_name'', pv_get m ''short_name'', pv_get m ''color''])"

text \<open>The loop of \<open>compile\<close>: the stages, the running total and the duration in ps. A negative
  count is refused by the fields of the stage.\<close>

fun compile_stages ::
    "(string, (string \<times> pyval) list) pydict \<Rightarrow> pyfloat \<Rightarrow> protocol_step list \<Rightarrow> int \<Rightarrow> pyfloat
      \<Rightarrow> (proto_error, compiled_stage list \<times> int \<times> pyfloat) result" where
  "compile_stages catalog dt [] cumulative ps = Inr ([], cumulative, ps)"
| "compile_stages catalog dt (s # rest) cumulative ps =
     (case parse_duration (pt_duration s) of
        Inl e \<Rightarrow> Inl e
      | Inr (dps, dsteps) \<Rightarrow>
          (case (case dps of
                   Some x \<Rightarrow> if pt_type s = ''minimize'' then Inr 0 else int_div (x * 1000) dt
                 | None \<Rightarrow> Inr 0) of
             Inl e \<Rightarrow> Inl e
           | Inr expected \<Rightarrow>
               let cumulative = cumulative + expected;
                   ps = (case dps of Some x \<Rightarrow> if pt_type s = ''minimize'' then ps else ps + x | None \<Rightarrow> ps);
                   params = set_default ''temperature_K'' (pt_temperature s) (pt_extra s);
                   params = (if pt_ensemble s = Some ''npt'' then set_default ''pressure_atm'' (pt_pressure s) params else params)
               in if expected < 0 \<or> cumulative < 0 then Inl ValidationFault
                  else map_sum id (\<lambda>(stages, steps_total, total_ps).
                      (\<lparr>cs_key = pt_name s, cs_type = pt_type s, cs_ps = dps, cs_steps = dsteps,
                        cs_expected = expected, cs_cumulative = cumulative, cs_parameters = params,
                        cs_labels = stage_labels catalog (pt_name s)\<rparr> # stages, steps_total, total_ps))
                    (compile_stages catalog dt rest cumulative ps)))"

text \<open>\<open>digest\<close> is the truncated SHA-256 of the JSON text of the payload.\<close>

definition compile_plan ::
    "stabilization_chain \<Rightarrow> tier_policy \<Rightarrow> (string, (string \<times> pyval) list) pydict
      \<Rightarrow> (string \<Rightarrow> string \<Rightarrow> compiled_stage list \<Rightarrow> int \<Rightarrow> pyfloat \<Rightarrow> pyfloat \<Rightarrow> string) \<Rightarrow> string
      \<Rightarrow> protocol_request \<Rightarrow> stage_override list option \<Rightarrow> string option \<Rightarrow> pyfloat
      \<Rightarrow> (proto_error, execution_plan) result" where
  "compile_plan C P catalog digest now rq overrides key_override dt =
     (case build_chain C P rq of
        Inl e \<Rightarrow> Inl e
      | Inr chain \<Rightarrow>
          (case (case overrides of
                   None \<Rightarrow> Inr chain
                 | Some os \<Rightarrow> if os = [] then Inr chain else apply_overrides P chain os) of
             Inl e \<Rightarrow> Inl e
           | Inr chain \<Rightarrow>
               (case compile_stages catalog dt (pc_steps chain) 0 0 of
                  Inl e \<Rightarrow> Inl e
                | Inr (stages, steps_total, total_ps) \<Rightarrow>
                    if steps_total < 0 \<or> total_ps < 0 \<or> dt \<le> 0 then Inl ValidationFault
                    else
                      let key = resolve_chain_key rq key_override; tier = run_tier_value (rq_tier rq) in
                      Inr \<lparr>xp_chain_key = key, xp_base_tier = tier, xp_stages = stages, xp_total_steps = steps_total,
                           xp_total_ps = total_ps, xp_dt = dt, xp_compiled_at = now,
                           xp_hash = digest key tier stages steps_total total_ps dt\<rparr>)))"

text \<open>The metadata attached to a submission: \<open>has_equilibration\<close> and the chain key.\<close>

definition has_equilibration :: "execution_plan \<Rightarrow> bool" where
  "has_equilibration p =
     list_ex (\<lambda>s. cs_key s \<in> {''high_temp_nvt'', ''high_pressure_npt''}) (xp_stages p)"

section \<open>Restart points\<close>

text \<open>What the search sees of an attempt directory.\<close>

record attempt_dir =
  ad_path :: string
  ad_is_dir :: bool
  ad_files :: "string list"

record restart_point =
  rp_file :: string
  rp_index :: nat
  rp_stage :: string
  rp_remaining :: "nat list"
  rp_dir :: string

definition stage_file :: "string \<Rightarrow> string" where
  "stage_file name = ''restart.'' @ name"

text \<open>The indices \<open>k - 1, \<dots>, 0\<close>: the first whose restart file is there.\<close>

fun latest_completed :: "string list \<Rightarrow> string list \<Rightarrow> nat \<Rightarrow> nat option" where
  "latest_completed files names 0 = None"
| "latest_completed files names (Suc k) =
     (if stage_file (names ! k) \<in> set files then Some k else latest_completed files names k)"

fun search_dirs :: "string list \<Rightarrow> attempt_dir list \<Rightarrow> restart_point option" where
  "search_dirs names [] = None"
| "search_dirs names (d # ds) =
     (if \<not> ad_is_dir d then search_dirs names ds
      else if ''final.restart'' \<in> set (ad_files d) then None
      else case latest_completed (ad_files d) names (length names) of
          None \<Rightarrow> search_dirs names ds
        | Some k \<Rightarrow>
            if [k + 1..<length names] = [] then None
            else Some \<lparr>rp_file = ad_path d @ ''/'' @ stage_file (names ! k), rp_index = k, rp_stage = names ! k,
                       rp_remaining = [k + 1..<length names], rp_dir = ad_path d\<rparr>)"

text \<open>\<open>plan\<close>: the stage keys of the compiled plan; \<open>None\<close> when there is no plan or it has no
  stages entry.\<close>

definition discover_restart_point :: "string list option \<Rightarrow> attempt_dir list \<Rightarrow> restart_point option" where
  "discover_restart_point plan dirs =
     (case plan of
        None \<Rightarrow> None
      | Some names \<Rightarrow> if names = [] then None else search_dirs names dirs)"

end
