(* ===== verification/ProtocolProps.thy ===== *)
theory ProtocolProps
  imports StagePlan
begin

text \<open>
  Properties of protocol chains and execution plans: duration texts are read back by every
  reader, chains of the default table build with well-typed steps, overrides keep the
  trajectory intervals consistent with the durations, the compiled totals are the sums of the
  stages, and the restart search picks the last stage reached.
\<close>

section \<open>Duration texts\<close>

lemma str_strip_ends:
  assumes "s \<noteq> []" "\<not> is_space (hd s)" "\<not> is_space (last s)"
  shows "str_strip s = s"
proof -
  have keep: "dropWhile is_space xs = xs" if "xs \<noteq> []" "\<not> is_space (hd xs)" for xs
    using that by (cases xs) auto
  from assms show ?thesis by (simp add: str_strip_def keep hd_rev)
qed

lemma str_contains_skip:
  "hd needle \<notin> set s \<Longrightarrow> needle \<noteq> [] \<Longrightarrow> str_contains needle (s @ t) = str_contains needle t"
proof (induction s)
  case (Cons c s)
  then have "\<not> prefix needle (c # s @ t)" by (cases needle) auto
  with Cons show ?case by (simp add: str_contains.simps)
qed simp

lemma num_char_lower: "num_char c \<Longrightarrow> char_lower c = c"
  using num_char_not_letter [of c] by (simp add: char_lower_def)

text \<open>A number followed by a unit, as the code writes durations.\<close>

lemma unit_text:
  assumes "\<forall>c\<in>set t. num_char c" "t \<noteq> []"
  shows "dur_text (t @ '' ps'') = t @ '' ps''" "dur_text (t @ '' steps'') = t @ '' steps''"
    "str_strip (t @ '' ps'') = t @ '' ps''" "str_strip (t @ '' steps'') = t @ '' steps''"
proof -
  have l: "map char_lower t = t" using assms(1) num_char_lower by (simp add: map_idI)
  have h: "\<not> is_space (hd t)" using assms num_char_not_space by simp
  show s: "str_strip (t @ '' ps'') = t @ '' ps''" "str_strip (t @ '' steps'') = t @ '' steps''"
    by (intro str_strip_ends; use h assms(2) in \<open>simp add: is_space_def\<close>)+
  show "dur_text (t @ '' ps'') = t @ '' ps''" "dur_text (t @ '' steps'') = t @ '' steps''"
    by (simp_all add: dur_text_def s str_lower_def l char_lower_def)
qed

lemma unit_contains:
  assumes "\<forall>c\<in>set t. num_char c"
  shows "\<not> str_contains ''steps'' (t @ '' ps'')" "\<not> str_contains ''step'' (t @ '' ps'')"
    "\<not> str_contains ''ns'' (t @ '' ps'')" "str_contains ''ps'' (t @ '' ps'')"
    "str_contains ''steps'' (t @ '' steps'')" "str_contains ''step'' (t @ '' steps'')"
proof -
  have n: "CHR ''s'' \<notin> set t" "CHR ''n'' \<notin> set t" "CHR ''p'' \<notin> set t"
    using assms num_char_not_letter by fastforce+
  then show "\<not> str_contains ''steps'' (t @ '' ps'')" "\<not> str_contains ''step'' (t @ '' ps'')"
    "\<not> str_contains ''ns'' (t @ '' ps'')" "str_contains ''ps'' (t @ '' ps'')"
    "str_contains ''steps'' (t @ '' steps'')" "str_contains ''step'' (t @ '' steps'')"
    by (simp_all add: str_contains_skip str_contains.simps)
qed

lemma unit_value:
  assumes "\<forall>c\<in>set t. num_char c" "t \<noteq> []"
  shows "float_without ''ps'' (t @ '' ps'') =
      (case py_float_of t of None \<Rightarrow> Inl (BadNumber (t @ '' ps'')) | Some x \<Rightarrow> Inr x)"
    and "int_without ''steps'' (t @ '' steps'') =
      (case py_int_of t of None \<Rightarrow> Inl (BadNumber (t @ '' steps'')) | Some n \<Rightarrow> Inr n)"
proof -
  have n: "CHR ''s'' \<notin> set t" "CHR ''p'' \<notin> set t" using assms num_char_not_letter by fastforce+
  have sp: "\<forall>c\<in>set t. \<not> is_space c" using assms num_char_not_space by blast
  have s: "str_strip (t @ '' '') = t" by (rule str_strip_trailing) (use sp assms(2) in \<open>simp_all add: is_space_def\<close>)
  have "str_replace ''ps'' [] (t @ '' ps'') = t @ '' ''" "str_replace ''steps'' [] (t @ '' steps'') = t @ '' ''"
    using n by (simp_all add: str_replace_skip str_replace.simps(2))
  then show "float_without ''ps'' (t @ '' ps'') =
      (case py_float_of t of None \<Rightarrow> Inl (BadNumber (t @ '' ps'')) | Some x \<Rightarrow> Inr x)"
    "int_without ''steps'' (t @ '' steps'') =
      (case py_int_of t of None \<Rightarrow> Inl (BadNumber (t @ '' steps'')) | Some n \<Rightarrow> Inr n)"
    by (simp_all add: float_without_def int_without_def s)
qed

lemma show_int_chars: "\<forall>c\<in>set (show_int n). num_char c" "show_int n \<noteq> []"
proof -
  have "list_all is_digit (show_nat m)" for m by simp
  then show "\<forall>c\<in>set (show_int n). num_char c"
    unfolding list_all_iff show_int_def num_char_def by simp
qed (simp add: show_int_def)

lemma show_float_all: "\<forall>c\<in>set (show_float x). num_char c"
  by (simp add: show_float_chars)

lemma ps_text_reads:
  assumes "has_decimals 16 x"
  shows "parse_duration_to_steps (ps_text x) dt = int_div_pv (x * 1000) dt"
    and "parse_duration (ps_text x) = Inr (Some x, None)"
    and "filter_duration_to_ps (ps_text x) = Inr x"
    and "filter_duration_to_steps (ps_text x) h = int_div (x * 1000) h"
proof -
  note t = show_float_all [of x] show_float_ne [of x]
  have sl: "str_lower (show_float x @ '' ps'') = show_float x @ '' ps''"
    using unit_text(1,3) [OF t] by (simp add: dur_text_def)
  note facts = ps_text_def unit_text [OF t] unit_contains [OF t(1)] unit_value [OF t] float_of_show_float [OF assms] sl
  show "parse_duration_to_steps (ps_text x) dt = int_div_pv (x * 1000) dt"
    by (simp add: parse_duration_to_steps_def facts)
  show "parse_duration (ps_text x) = Inr (Some x, None)"
    by (simp add: parse_duration_def facts)
  show "filter_duration_to_ps (ps_text x) = Inr x" "filter_duration_to_steps (ps_text x) h = int_div (x * 1000) h"
    by (simp_all add: filter_duration_to_ps_def filter_duration_to_steps_def facts suffix_def)
qed

lemma steps_text_reads:
  shows "parse_duration_to_steps (show_int n @ '' steps'') dt = Inr n"
    and "parse_duration (show_int n @ '' steps'') = Inr (None, Some n)"
proof -
  note t = show_int_chars [of n]
  note facts = unit_text [OF t] unit_contains [OF t(1)] unit_value [OF t] int_of_show_int
  show "parse_duration_to_steps (show_int n @ '' steps'') dt = Inr n"
    by (simp add: parse_duration_to_steps_def facts)
  show "parse_duration (show_int n @ '' steps'') = Inr (None, Some n)"
    by (simp add: parse_duration_def facts)
qed

section \<open>The default table\<close>

lemma dur_text_known:
  "dur_text ''1000 steps'' = ''1000 steps''" "dur_text ''5000 steps'' = ''5000 steps''"
  "dur_text ''10000 steps'' = ''10000 steps''" "dur_text ''100 steps'' = ''100 steps''"
  "dur_text ''300 ps'' = ''300 ps''" "dur_text ''2000 ps'' = ''2000 ps''" "dur_text ''3000 ps'' = ''3000 ps''"
  "dur_text ''5000 ps'' = ''5000 ps''" "dur_text ''1000 ps'' = ''1000 ps''" "dur_text ''100 ps'' = ''100 ps''"
  "dur_text ''500 ps'' = ''500 ps''" "dur_text ''200 ps'' = ''200 ps''" "dur_text ''50 ps'' = ''50 ps''"
  "dur_text ''auto'' = ''auto''"
  by (simp_all add: dur_text_def str_strip_def is_space_def str_lower_def char_lower_def)

lemma auto_no_number: "py_float_of ''auto'' = None"
  by (simp add: py_float_of_def str_strip_def is_space_def signed_def parse_unsigned_def is_digit_def)

lemma parse_known:
  "parse_duration_to_steps ''1000 steps'' (PNum 1) = Inr 1000" "parse_duration_to_steps ''5000 steps'' (PNum 1) = Inr 5000"
  "parse_duration_to_steps ''10000 steps'' (PNum 1) = Inr 10000" "parse_duration_to_steps ''100 steps'' (PNum 1) = Inr 100"
  "parse_duration_to_steps ''300 ps'' (PNum 1) = Inr 300000" "parse_duration_to_steps ''2000 ps'' (PNum 1) = Inr 2000000"
  "parse_duration_to_steps ''3000 ps'' (PNum 1) = Inr 3000000" "parse_duration_to_steps ''5000 ps'' (PNum 1) = Inr 5000000"
  "parse_duration_to_steps ''1000 ps'' (PNum 1) = Inr 1000000" "parse_duration_to_steps ''100 ps'' (PNum 1) = Inr 100000"
  "parse_duration_to_steps ''500 ps'' (PNum 1) = Inr 500000" "parse_duration_to_steps ''200 ps'' (PNum 1) = Inr 200000"
  "parse_duration_to_steps ''50 ps'' (PNum 1) = Inr 50000" "parse_duration_to_steps ''auto'' (PNum 1) = Inr 100000"
  by (simp_all add: parse_duration_to_steps_def dur_text_known str_contains.simps duration_texts auto_no_number
      int_div_pv_def int_div_def pv_number_def py_int_def)

text \<open>The step types a template exists for.\<close>

definition STEP_TYPES :: "string list" where
  "STEP_TYPES = [''minimize'', ''nvt'', ''npt'', ''nve'', ''viscosity'', ''tensile'', ''annealing'']"

definition step_ok :: "stabilization_step \<Rightarrow> bool" where
  "step_ok st \<longleftrightarrow>
     determine_step_type st \<in> set STEP_TYPES \<and>
     (determine_ensemble st = None \<longleftrightarrow> determine_step_type st = ''minimize'') \<and>
     \<not> isl (parse_duration_to_steps (duration_or_default st) (pv_get_or (sb_parameters st) ''timestep_fs'' (PNum 1)))"

lemma step_types:
   "str_lower ''minimize'' = ''minimize''" "str_lower ''nvt'' = ''nvt''" "str_lower ''npt'' = ''npt''" 
   "str_lower ''annealing'' = ''annealing''" "str_lower ''tensile'' = ''tensile''" "str_lower ''nemd'' = ''nemd''"
   "str_lower ''viscosity_nemd'' = ''viscosity_nemd''"
  by (simp_all add: str_lower_def char_lower_def)

lemma default_steps_ok: "list_all (\<lambda>(k,c). list_all step_ok c) DEFAULT_STABILIZATION_CHAIN" 
  by (simp add: default_table step_ok_def stab_step_def determine_step_type_def determine_ensemble_def Let_def step_types STEP_TYPES_def
     duration_or_default_def or_default_def pv_get_or_def dict_get_def parse_known str_contains.simps)

lemma default_chain_steps:
  assumes "get_chain DEFAULT_STABILIZATION_CHAIN k = Inr c"
  shows "\<forall>st\<in>set c. step_ok st"
proof -
  from assms have "map_of DEFAULT_STABILIZATION_CHAIN k = Some c"
    by (auto simp: get_chain_def split: option.splits)
  then have "(k, c) \<in> set DEFAULT_STABILIZATION_CHAIN" by (rule map_of_SomeD)
  with default_steps_ok show ?thesis by (auto simp: list_all_iff)
qed

lemma chain_key_known: "\<exists>c. get_chain DEFAULT_STABILIZATION_CHAIN (chain_key rq) = Inr c"
proof -
  have "chain_key rq \<in> set (map fst DEFAULT_STABILIZATION_CHAIN)"
    by (cases "rq_tier rq") (auto simp: chain_key_def run_tier_value_def default_table split: option.splits)
  then obtain c where "map_of DEFAULT_STABILIZATION_CHAIN (chain_key rq) = Some c"
    by (metis map_of_eq_None_iff option.exhaust set_map)
  then show ?thesis by (simp add: get_chain_def)
qed

section \<open>Building\<close>

lemma default_sampling:
  "\<exists>c s. get_tier_config DEFAULT_TIER_POLICY (TierEnum t) = Inr c \<and> tc_sampling c = Some s \<and> sc_enabled s \<and>
     min_interval_steps s = 10000 \<and> max_interval_steps s = 100000"
  by (cases t) (simp_all add: tier_defs sampling_def)

text \<open>A step as a template can render it.\<close>

definition well_typed_step :: "protocol_step \<Rightarrow> bool" where
  "well_typed_step s \<longleftrightarrow>
     pt_type s \<in> set STEP_TYPES \<and> (pt_ensemble s = None \<longleftrightarrow> pt_type s = ''minimize'') \<and>
     (if pt_type s = ''minimize'' then pt_dump_interval s = 0
      else 10000 \<le> pt_dump_interval s \<and> pt_dump_interval s \<le> 100000)"

lemma clamped_bounds:
  "min_interval_steps s \<le> max_interval_steps s \<Longrightarrow>
     min_interval_steps s \<le> clamped_interval s t n \<and> clamped_interval s t n \<le> max_interval_steps s"
  by (simp add: clamped_interval_def)

lemma convert_step_ok:
  assumes "step_ok st"
  shows "\<exists>s m'. convert_step DEFAULT_TIER_POLICY tier T p st m = Inr (s, m') \<and> well_typed_step s \<and>
    pt_name s = sb_name st"
proof -
  obtain c s where c: "get_tier_config DEFAULT_TIER_POLICY (TierEnum tier) = Inr c" "tc_sampling c = Some s"
    "sc_enabled s" "min_interval_steps s = 10000" "max_interval_steps s = 100000"
    using default_sampling by blast
  obtain n where n: "parse_duration_to_steps (duration_or_default st)
      (pv_get_or (sb_parameters st) ''timestep_fs'' (PNum 1)) = Inr n"
    using assms unfolding step_ok_def by (metis isl_def old.sum.exhaust)
  have b: "10000 \<le> clamped_interval s t k \<and> clamped_interval s t k \<le> 100000" for t k
    using clamped_bounds [of s t k] c(4,5) by simp
  show ?thesis
  proof (cases "determine_step_type st = ''minimize''")
    case True
    with assms show ?thesis
      by (simp add: convert_step_def compute_dump_interval_def well_typed_step_def step_ok_def Let_def)
  next
    case False
    with assms c n b show ?thesis
      by (simp add: convert_step_def compute_dump_interval_def well_typed_step_def step_ok_def Let_def)
  qed
qed

lemma inject_tensile_ok:
  assumes "tensile_spec_ok ts"
  shows "\<exists>s'. inject_tensile_params ts layer s = Inr s' \<and> pt_name s' = pt_name s \<and> pt_type s' = pt_type s \<and>
    pt_ensemble s' = pt_ensemble s \<and> pt_dump_interval s' = pt_dump_interval s"
proof -
  from assms have "ts_displacement ts \<noteq> 0" "ts_pull_velocity ts \<noteq> 0" by (auto simp: tensile_spec_ok_def)
  then have "\<exists>fs. tensile_time_fs ts gap = Inr fs" for gap by (auto simp: tensile_time_fs_def)
  then obtain f where "tensile_time_fs ts gap = Inr (f gap)" for gap by metis
  then show ?thesis by (auto simp: inject_tensile_params_def Let_def split: option.splits)
qed

lemma with_tensile_ok:
  assumes "case rq_tensile rq of None \<Rightarrow> True | Some ts \<Rightarrow> tensile_spec_ok ts" "well_typed_step s"
  shows "\<exists>s'. with_tensile rq s = Inr s' \<and> well_typed_step s' \<and> pt_name s' = pt_name s"
proof (cases "\<exists>ts. rq_tensile rq = Some ts \<and> pt_type s = ''tensile''")
  case True
  then obtain ts where ts: "rq_tensile rq = Some ts" "pt_type s = ''tensile''" by blast
  with assms(1) have "tensile_spec_ok ts" by simp
  from inject_tensile_ok [OF this, of "rq_layer rq" s] obtain s'
    where s': "inject_tensile_params ts (rq_layer rq) s = Inr s'" "pt_name s' = pt_name s" "pt_type s' = pt_type s"
      "pt_ensemble s' = pt_ensemble s" "pt_dump_interval s' = pt_dump_interval s" by blast
  then have "well_typed_step s'" using assms(2) by (simp add: well_typed_step_def)
  moreover have "with_tensile rq s = Inr s'" using ts s'(1) by (simp add: with_tensile_def)
  ultimately show ?thesis using s'(2) by blast
next
  case False
  then have "with_tensile rq s = Inr s" by (auto simp: with_tensile_def split: option.splits)
  with assms(2) show ?thesis by blast
qed

lemma convert_steps_ok:
  assumes "\<forall>st\<in>set steps. step_ok st" "case rq_tensile rq of None \<Rightarrow> True | Some ts \<Rightarrow> tensile_spec_ok ts"
  shows "\<exists>ss m'. convert_steps DEFAULT_TIER_POLICY rq steps m = Inr (ss, m') \<and>
    (\<forall>s\<in>set ss. well_typed_step s) \<and> map pt_name ss = map sb_name steps"
  using assms(1)
proof (induction steps arbitrary: m)
  case (Cons st rest)
  from Cons.prems have st: "step_ok st" and rest: "\<forall>st\<in>set rest. step_ok st" by simp_all
  from convert_step_ok [OF st] obtain s m1
    where s: "convert_step DEFAULT_TIER_POLICY (rq_tier rq) (rq_temperature rq) (rq_pressure rq) st m = Inr (s, m1)"
      "well_typed_step s" "pt_name s = sb_name st"
    by blast
  from with_tensile_ok [OF assms(2) s(2)] obtain s' where s': "with_tensile rq s = Inr s'" "well_typed_step s'"
    "pt_name s' = pt_name s" by blast
  from Cons.IH [OF rest, of m1] obtain ss m2
    where "convert_steps DEFAULT_TIER_POLICY rq rest m1 = Inr (ss, m2)"
      "\<forall>s\<in>set ss. well_typed_step s" "map pt_name ss = map sb_name rest" by blast
  with s s' show ?case by simp
qed simp

text \<open>The equilibration stages, when their durations print exactly.\<close>

definition printable_settings :: "equilibration_settings \<Rightarrow> bool" where
  "printable_settings s \<longleftrightarrow> has_decimals 16 (eq_nvt_duration s) \<and> has_decimals 16 (eq_npt_duration s)"

lemma ps_text_ne: "ps_text x \<noteq> []"
  by (simp add: ps_text_def)

lemma parse_ps_one:
  assumes "has_decimals 16 x"
  shows "\<not> isl (parse_duration_to_steps (ps_text x) (PNum 1))"
  by (simp add: ps_text_reads(1) [OF assms] int_div_pv_def pv_number_def int_div_def)

lemma equilibration_steps_ok:
  assumes "printable_settings s"
  shows "step_ok (high_temp_nvt s)" "step_ok (high_pressure_npt s)"
proof -
  have d: "has_decimals 16 (eq_nvt_duration s)" "has_decimals 16 (eq_npt_duration s)"
    using assms by (simp_all add: printable_settings_def)
  have o: "or_default (Some (ps_text x)) d = ps_text x" for x d by (simp add: or_default_def ps_text_ne)
  show "step_ok (high_temp_nvt s)" "step_ok (high_pressure_npt s)"
    using parse_ps_one [OF d(1)] parse_ps_one [OF d(2)]
    by (simp_all add: step_ok_def high_temp_nvt_def high_pressure_npt_def stab_step_def determine_step_type_def
        determine_ensemble_def Let_def step_types STEP_TYPES_def duration_or_default_def o pv_get_or_def dict_get_def)
qed

text \<open>A request the schemas let through, with printable equilibration durations.\<close>

definition request_ok :: "protocol_request \<Rightarrow> bool" where
  "request_ok rq \<longleftrightarrow>
     (case rq_tensile rq of None \<Rightarrow> True | Some ts \<Rightarrow> tensile_spec_ok ts) \<and>
     (case rq_equilibration rq of None \<Rightarrow> True | Some s \<Rightarrow> printable_settings s)"

lemma planned_steps_default:
  assumes "request_ok rq"
  shows "\<exists>steps. planned_steps DEFAULT_STABILIZATION_CHAIN rq = Inr steps \<and> (\<forall>st\<in>set steps. step_ok st)"
proof -
  obtain c where c: "get_chain DEFAULT_STABILIZATION_CHAIN (chain_key rq) = Inr c"
    using chain_key_known by blast
  have ok: "\<forall>st\<in>set c. step_ok st" by (rule default_chain_steps [OF c])
  have inj: "\<forall>st\<in>set (inject_equilibration_steps s c). step_ok st" if "printable_settings s" for s
    using ok equilibration_steps_ok [OF that] by (auto simp: inject_equilibration_steps_def split: if_splits)
  let ?steps = "case rq_equilibration rq of
      Some s \<Rightarrow> if eq_enabled s then inject_equilibration_steps s c else c | None \<Rightarrow> c"
  have "\<forall>st\<in>set ?steps. step_ok st"
    using assms ok inj by (auto simp: request_ok_def split: option.splits)
  then show ?thesis
    by (cases "rq_skip rq") (auto simp: planned_steps_def c Let_def)
qed

lemma build_chain_steps:
  assumes "request_ok rq" "planned_steps DEFAULT_STABILIZATION_CHAIN rq = Inr steps"
  shows "\<exists>c. build_chain DEFAULT_STABILIZATION_CHAIN DEFAULT_TIER_POLICY rq = Inr c \<and>
    (\<forall>s\<in>set (pc_steps c). well_typed_step s) \<and> map pt_name (pc_steps c) = map sb_name steps \<and>
    pc_tier c = rq_tier rq"
proof -
  have t: "case rq_tensile rq of None \<Rightarrow> True | Some ts \<Rightarrow> tensile_spec_ok ts"
    using assms(1) by (simp add: request_ok_def)
  have "\<forall>st\<in>set steps. step_ok st" using planned_steps_default [OF assms(1)] assms(2) by auto
  from convert_steps_ok [OF this t] obtain ss m' where
    "convert_steps DEFAULT_TIER_POLICY rq steps
       \<lparr>sm_tier = run_tier_value (rq_tier rq), sm_adaptive = False, sm_entries = [], sm_overrides_applied = False\<rparr> =
     Inr (ss, m')" "\<forall>s\<in>set ss. well_typed_step s" "map pt_name ss = map sb_name steps" by blast
  then show ?thesis by (simp add: build_chain_def assms(2))
qed

section \<open>Overrides\<close>

lemma override_map_last:
  "map_of (override_map os) n =
     (if filter (\<lambda>ov. so_name ov = n) os = [] then None else Some (last (filter (\<lambda>ov. so_name ov = n) os)))"
proof (induction os rule: rev_induct)
  case (snoc ov os)
  then show ?case by (auto simp: override_map_def update_conv')
qed (simp add: override_map_def)

lemma override_step_keeps [simp]:
  "pt_name (override_step m s) = pt_name s" "pt_type (override_step m s) = pt_type s"
  "pt_timestep (override_step m s) = pt_timestep s"
  by (simp_all add: override_step_def split: option.splits)

lemma recalculate_from_ok:
  "recalculate_from c changed ss = Inr (ss', es) \<Longrightarrow>
     map pt_name ss' = map pt_name ss \<and> map pt_duration ss' = map pt_duration ss \<and>
     map pt_type ss' = map pt_type ss \<and>
     map se_name es = map pt_name (filter (\<lambda>s. pt_type s \<noteq> ''minimize'') ss) \<and>
     list_all (\<lambda>s. pt_type s = ''minimize'' \<or>
       map_sum id (clamped_interval c (pt_type s)) (parse_duration_to_steps (pt_duration s) (pt_timestep s)) =
         Inr (pt_dump_interval s)) ss'"
proof (induction ss arbitrary: ss' es)
  case (Cons s rest)
  show ?case
  proof (cases "pt_type s = ''minimize''")
    case True
    with Cons.prems obtain r where "recalculate_from c changed rest = Inr (r, es)" "ss' = s # r"
      by (auto simp: map_sum_def split: sum.splits)
    with Cons.IH [OF this(1)] True show ?thesis by simp
  next
    case False
    with Cons.prems obtain n r q where n: "parse_duration_to_steps (pt_duration s) (pt_timestep s) = Inr n"
      and r: "recalculate_from c changed rest = Inr (r, q)"
      and "ss' = s\<lparr>pt_dump_interval := clamped_interval c (pt_type s) n\<rparr> # r"
        "es = sampling_entry_of c (pt_name s) (pt_type s) n (Some (pt_name s \<in> set changed)) # q"
      by (auto simp: map_sum_def split: sum.splits)
    with Cons.IH [OF r] False show ?thesis by (simp add: sampling_entry_of_def)
  qed
qed simp

lemma modified_steps_Nil:
  "modified_steps (override_map os) ss = [] \<longleftrightarrow> (\<forall>ov\<in>set os. so_name ov \<notin> pt_name ` set ss)"
proof -
  have "dict_has (override_map os) n \<longleftrightarrow> (\<exists>ov\<in>set os. so_name ov = n)" for n
    by (auto simp: dict_has_def override_map_last filter_empty_conv)
  then show ?thesis by (auto simp: modified_steps_def filter_empty_conv)
qed

section \<open>Properties\<close>

text \<open>
  Every request the schemas let through (with equilibration durations of at most 16
  decimals) builds, for the default table and tier policy, a chain of its tier in which each
  step has one of the seven step types, an ensemble unless it is a minimisation, and a
  trajectory interval of 0 for a minimisation and between 10000 and 100000 otherwise.
\<close>

theorem default_chain_builds_well_typed:
  assumes "request_ok rq"
  shows "\<exists>c. build_chain DEFAULT_STABILIZATION_CHAIN DEFAULT_TIER_POLICY rq = Inr c \<and>
    list_all (\<lambda>s. pt_type s \<in> set STEP_TYPES \<and> (pt_ensemble s = None \<longleftrightarrow> pt_type s = ''minimize'') \<and>
      (if pt_type s = ''minimize'' then pt_dump_interval s = 0
       else 10000 \<le> pt_dump_interval s \<and> pt_dump_interval s \<le> 100000)) (pc_steps c) \<and>
    pc_tier c = rq_tier rq"
proof -
  obtain steps where steps: "planned_steps DEFAULT_STABILIZATION_CHAIN rq = Inr steps"
    using planned_steps_default [OF assms] by blast
  from build_chain_steps [OF assms steps] show ?thesis
    unfolding well_typed_step_def list_all_iff by blast
qed

text \<open>A quasi-static tensile request with equilibration stages.\<close>

definition demo_spec :: tensile_spec where
  "demo_spec = \<lparr>ts_enabled = True, ts_pull_velocity = 1/20000, ts_grip_thickness = 20, ts_max_strain = 1/2,
     ts_output_interval = 100, ts_mode = QUASI_STATIC, ts_displacement = 1/2, ts_relax_steps = 10000,
     ts_force_steps = 1000\<rparr>"

definition demo_equilibration :: equilibration_settings where
  "demo_equilibration = \<lparr>eq_enabled = True, eq_nvt_temperature = 500, eq_nvt_duration = 201/2,
     eq_npt_temperature = 500, eq_npt_pressure = 100, eq_npt_duration = 200\<rparr>"

definition demo_layer :: layer_spec where
  "demo_layer = \<lparr>ls_type = WATER_INTERFACE, ls_crystal = 20, ls_water = Some 5, ls_binder = 40, ls_binder2 = None,
     ls_vacuum_above = 10, ls_vacuum_below = 10, ls_boundary_z = None, ls_bottom_grip = None, ls_top_grip = None\<rparr>"

definition demo_request :: protocol_request where
  "demo_request = \<lparr>rq_tier = CONFIRM, rq_study_type = LAYER_BULKFF, rq_temperature = 298, rq_pressure = 1,
     rq_ff_type = ''bulk_ff_gaff2'', rq_data_file = ''system.data'', rq_e_intra = None, rq_tensile = Some demo_spec,
     rq_layer = Some demo_layer, rq_equilibration = Some demo_equilibration, rq_skip = None\<rparr>"

lemmas demo_defs = demo_spec_def demo_equilibration_def demo_layer_def demo_request_def

lemma demo_request_ok: "request_ok demo_request"
  by (simp add: request_ok_def demo_defs tensile_spec_ok_def printable_settings_def has_decimals_def)

theorem default_chain_builds_well_typed_witness:
  "\<exists>c. build_chain DEFAULT_STABILIZATION_CHAIN DEFAULT_TIER_POLICY demo_request = Inr c \<and> pc_tier c = CONFIRM"
  using default_chain_builds_well_typed [OF demo_request_ok] by (auto simp: demo_request_def)

text \<open>
  A duration set by an override (of at most 16 decimals) is read back as the same number
  of ps by the plan compiler and the template filter, and as the same number of steps by the
  builder and the template filter.
\<close>

theorem override_duration_round_trip:
  assumes "filter (\<lambda>ov. so_name ov = pt_name st) os \<noteq> []"
    "last (filter (\<lambda>ov. so_name ov = pt_name st) os) = \<lparr>so_name = n, so_ps = Some x, so_steps = k\<rparr>"
    "has_decimals 16 x"
  shows "(let d = pt_duration (override_step (override_map os) st) in
    parse_duration d = Inr (Some x, None) \<and> filter_duration_to_ps d = Inr x \<and>
    parse_duration_to_steps d (PNum 1) = Inr (py_int (x * 1000)) \<and>
    filter_duration_to_steps d 1 = Inr (py_int (x * 1000)))"
proof -
  have "pt_duration (override_step (override_map os) st) = ps_text x"
    using assms(1,2) by (simp add: override_step_def override_map_last override_duration_def)
  then show ?thesis
    by (simp add: ps_text_reads [OF assms(3)] int_div_pv_def pv_number_def int_div_def)
qed

definition demo_step :: protocol_step where
  "demo_step = \<lparr>pt_name = ''npt_production'', pt_type = ''npt'', pt_ensemble = Some ''npt'', pt_temperature = PNum 298,
     pt_pressure = PNum 1, pt_duration = ''2000 ps'', pt_timestep = PNum 1, pt_dump_interval = 40000,
     pt_constraints = PDict [], pt_extra = []\<rparr>"

definition demo_overrides :: "stage_override list" where
  "demo_overrides = [\<lparr>so_name = ''npt_production'', so_ps = Some 100, so_steps = None\<rparr>,
     \<lparr>so_name = ''minimize'', so_ps = None, so_steps = Some 50\<rparr>,
     \<lparr>so_name = ''npt_production'', so_ps = Some (501/2), so_steps = None\<rparr>]"

theorem override_duration_round_trip_witness:
  "parse_duration (pt_duration (override_step (override_map demo_overrides) demo_step)) = Inr (Some (501/2), None)"
  using override_duration_round_trip [of demo_step demo_overrides "''npt_production''" "501/2" None]
  by (simp add: demo_overrides_def demo_step_def has_decimals_def Let_def)

text \<open>
  Applying overrides that hit some stage keeps the names and types of the stages, gives
  each stage the duration of the last override that names it, and leaves every stage but the
  minimisations with the trajectory interval its own duration asks for, one sampling entry for
  each.
\<close>

theorem overrides_keep_dump_consistent:
  assumes "apply_overrides P c os = Inr c'"
    "get_tier_config P (TierEnum (pc_tier c)) = Inr cfg" "tc_sampling cfg = Some sc" "sc_enabled sc"
    "\<exists>ov\<in>set os. so_name ov \<in> pt_name ` set (pc_steps c)"
  shows "map pt_name (pc_steps c') = map pt_name (pc_steps c) \<and>
    map pt_type (pc_steps c') = map pt_type (pc_steps c) \<and>
    map pt_duration (pc_steps c') =
      map (\<lambda>s. case filter (\<lambda>ov. so_name ov = pt_name s) os of
        [] \<Rightarrow> pt_duration s | ov # ovs \<Rightarrow> override_duration (last (ov # ovs)) (pt_duration s)) (pc_steps c) \<and>
    list_all (\<lambda>s. pt_type s = ''minimize'' \<or>
      map_sum id (clamped_interval sc (pt_type s)) (parse_duration_to_steps (pt_duration s) (pt_timestep s)) =
        Inr (pt_dump_interval s)) (pc_steps c') \<and>
    map se_name (sm_entries (pc_sampling c')) =
      map pt_name (filter (\<lambda>s. pt_type s \<noteq> ''minimize'') (pc_steps c))"
proof -
  let ?m = "override_map os"
  let ?ss = "map (override_step ?m) (pc_steps c)"
  let ?changed = "modified_steps ?m (pc_steps c)"
  have "?changed \<noteq> []" using assms(5) modified_steps_Nil by blast
  with assms(1-4) obtain r es where r: "recalculate_from sc ?changed ?ss = Inr (r, es)"
    and c': "pc_steps c' = r" "sm_entries (pc_sampling c') = es"
    by (auto simp: apply_overrides_def Let_def recalculate_dump_intervals_def map_sum_def split: sum.splits)
  have d: "map pt_duration ?ss = map (\<lambda>s. case filter (\<lambda>ov. so_name ov = pt_name s) os of
      [] \<Rightarrow> pt_duration s | ov # ovs \<Rightarrow> override_duration (last (ov # ovs)) (pt_duration s)) (pc_steps c)"
    by (auto simp: override_step_def override_map_last split: list.splits)
  have f: "map pt_name (filter (\<lambda>s. pt_type s \<noteq> ''minimize'') ?ss) =
      map pt_name (filter (\<lambda>s. pt_type s \<noteq> ''minimize'') (pc_steps c))"
    by (simp add: filter_map comp_def)
  from recalculate_from_ok [OF r] show ?thesis
    unfolding c' using d f by (simp add: comp_def)
qed

definition demo_chain :: protocol_chain where
  "demo_chain = \<lparr>pc_tier = SCREENING, pc_steps = [demo_step], pc_ff_type = ''bulk_ff_gaff2'', pc_temperature = 298,
     pc_pressure = 1, pc_study_type = BULK, pc_data_file = ''system.data'',
     pc_sampling = \<lparr>sm_tier = ''screening'', sm_adaptive = True, sm_entries = [], sm_overrides_applied = False\<rparr>,
     pc_e_intra = None\<rparr>"

lemma demo_overridden: "override_step (override_map demo_overrides) demo_step = demo_step\<lparr>pt_duration := ps_text (501/2)\<rparr>"
  by (simp add: override_step_def override_map_last demo_overrides_def demo_step_def override_duration_def)

theorem overrides_keep_dump_consistent_witness:
  "\<exists>c'. apply_overrides DEFAULT_TIER_POLICY demo_chain demo_overrides = Inr c' \<and>
     map pt_name (pc_steps c') = [''npt_production'']"
proof -
  have sc: "get_tier_config DEFAULT_TIER_POLICY (TierEnum (pc_tier demo_chain)) = Inr (snd (hd (tiers DEFAULT_TIER_POLICY)))"
    "tc_sampling (snd (hd (tiers DEFAULT_TIER_POLICY))) = Some (sampling 50 30)"
    by (simp_all add: demo_chain_def tier_defs)
  have hit: "\<exists>ov\<in>set demo_overrides. so_name ov \<in> pt_name ` set (pc_steps demo_chain)"
    by (simp add: demo_overrides_def demo_chain_def demo_step_def)
  then have "modified_steps (override_map demo_overrides) [demo_step] \<noteq> []"
    using modified_steps_Nil [of demo_overrides "[demo_step]"] by (auto simp: demo_chain_def)
  have "has_decimals 16 (501/2)" by (simp add: has_decimals_def)
  note reads = ps_text_reads(1) [OF this]
  have "\<exists>r es. recalculate_from (sampling 50 30) ch [demo_step\<lparr>pt_duration := ps_text (501/2)\<rparr>] = Inr (r, es)" for ch
    by (simp add: demo_step_def reads int_div_pv_def pv_number_def int_div_def)
  then obtain r es where "recalculate_from (sampling 50 30) (modified_steps (override_map demo_overrides) [demo_step])
      [demo_step\<lparr>pt_duration := ps_text (501/2)\<rparr>] = Inr (r, es)" by blast
  moreover have "pc_steps demo_chain = [demo_step]" by (simp add: demo_chain_def)
  ultimately have "\<exists>c'. apply_overrides DEFAULT_TIER_POLICY demo_chain demo_overrides = Inr c'"
    using \<open>modified_steps (override_map demo_overrides) [demo_step] \<noteq> []\<close>
    by (simp add: apply_overrides_def Let_def recalculate_dump_intervals_def sc demo_overridden sampling_def)
  then obtain c' where c': "apply_overrides DEFAULT_TIER_POLICY demo_chain demo_overrides = Inr c'" by blast
  have "sc_enabled (sampling 50 30)" by (simp add: sampling_def)
  from overrides_keep_dump_consistent [OF c' sc this hit] c' show ?thesis
    by (auto simp: demo_chain_def demo_step_def)
qed

text \<open>Totals of a compiled plan.\<close>

lemma compile_stages_ok:
  "compile_stages catalog dt ss c0 p0 = Inr (stages, n, ps) \<Longrightarrow>
     map cs_key stages = map pt_name ss \<and> map cs_type stages = map pt_type ss \<and>
     n = c0 + sum_list (map cs_expected stages) \<and>
     ps = p0 + sum_list (map (\<lambda>g. if cs_type g = ''minimize'' then 0 else opt0 (cs_ps g)) stages) \<and>
     list_all (\<lambda>g. 0 \<le> cs_expected g \<and> cs_expected g =
       (if cs_type g = ''minimize'' then 0 else case cs_ps g of None \<Rightarrow> 0 | Some x \<Rightarrow> py_int (x * 1000 / dt))) stages \<and>
     (\<forall>k<length stages. cs_cumulative (stages ! k) = c0 + sum_list (map cs_expected (take (Suc k) stages)))"
proof (induction ss arbitrary: c0 p0 stages n ps)
  case (Cons s rest)
  from Cons.prems obtain d e g tail where d: "parse_duration (pt_duration s) = Inr d"
    and e: "(case fst d of Some x \<Rightarrow> if pt_type s = ''minimize'' then Inr 0 else int_div (x * 1000) dt | None \<Rightarrow> Inr 0) = Inr e"
    and pos: "\<not> (e < 0 \<or> c0 + e < 0)"
    and r: "compile_stages catalog dt rest (c0 + e)
      (case fst d of Some x \<Rightarrow> if pt_type s = ''minimize'' then p0 else p0 + x | None \<Rightarrow> p0) = Inr (tail, n, ps)"
    and g: "stages = g # tail" "cs_key g = pt_name s" "cs_type g = pt_type s" "cs_ps g = fst d" "cs_expected g = e"
      "cs_cumulative g = c0 + e"
    by (auto simp: map_sum_def Let_def split: sum.splits if_splits prod.splits)
  have e': "e = (if pt_type s = ''minimize'' then 0 else case fst d of None \<Rightarrow> 0 | Some x \<Rightarrow> py_int (x * 1000 / dt))"
    using e by (auto simp: int_div_def split: option.splits if_splits)
  have k: "cs_cumulative (stages ! k) = c0 + sum_list (map cs_expected (take (Suc k) stages))" if "k < length stages" for k
    using that g Cons.IH [OF r] by (cases k) auto
  have p: "(case fst d of Some x \<Rightarrow> if pt_type s = ''minimize'' then p0 else p0 + x | None \<Rightarrow> p0) =
      p0 + (if cs_type g = ''minimize'' then 0 else opt0 (cs_ps g))"
    by (simp add: g opt0_def split: option.splits)
  from Cons.IH [OF r] k pos e' show ?case by (simp add: g p)
qed simp

text \<open>
  A compiled plan reports as total steps and duration the sums over its stages, each stage
  counting its duration over the time step and a minimisation nothing; the cumulative count of
  a stage is the sum up to it.
\<close>

theorem plan_totals_exact:
  assumes "compile_plan C P catalog digest now rq overrides key dt = Inr p"
  shows "xp_total_steps p = sum_list (map cs_expected (xp_stages p)) \<and>
    xp_total_ps p = sum_list (map (\<lambda>g. if cs_type g = ''minimize'' then 0 else opt0 (cs_ps g)) (xp_stages p)) \<and>
    list_all (\<lambda>g. 0 \<le> cs_expected g \<and> cs_expected g =
       (if cs_type g = ''minimize'' then 0 else case cs_ps g of None \<Rightarrow> 0 | Some x \<Rightarrow> py_int (x * 1000 / dt)))
      (xp_stages p) \<and>
    (\<forall>k<length (xp_stages p). cs_cumulative (xp_stages p ! k) =
       sum_list (map cs_expected (take (Suc k) (xp_stages p)))) \<and>
    0 \<le> xp_total_ps p \<and> 0 < dt"
proof -
  have "\<exists>ss. compile_stages catalog dt ss 0 0 = Inr (xp_stages p, xp_total_steps p, xp_total_ps p) \<and>
      0 \<le> xp_total_ps p \<and> 0 < dt"
    using assms by (auto simp: compile_plan_def Let_def not_less not_le split: sum.splits if_splits prod.splits)
  then obtain ss where r: "compile_stages catalog dt ss 0 0 = Inr (xp_stages p, xp_total_steps p, xp_total_ps p)"
    and p: "0 \<le> xp_total_ps p" "0 < dt" by blast
  from compile_stages_ok [OF r] p show ?thesis by simp
qed

definition demo_bulk :: protocol_request where
  "demo_bulk = demo_request\<lparr>rq_tier := SCREENING, rq_study_type := BULK, rq_tensile := None, rq_layer := None,
     rq_equilibration := None\<rparr>"

definition short_chain :: stabilization_chain where
  "short_chain = [(''screening'', [stab_step ''nvt_equilibration'' ''nvt'' ''300 ps'' []])]"

lemma short_plan:
  "\<exists>p. compile_plan short_chain DEFAULT_TIER_POLICY [] (\<lambda>_ _ _ _ _ _. []) ''now'' demo_bulk None None 1 = Inr p"
proof -
  obtain cfg where c: "get_tier_config DEFAULT_TIER_POLICY (TierEnum SCREENING) = Inr cfg"
    "tc_sampling cfg = Some (sampling 50 30)"
    by (simp add: tier_defs)
  let ?st = "stab_step ''nvt_equilibration'' ''nvt'' ''300 ps'' []"
  have t: "determine_step_type ?st = ''nvt''" "duration_or_default ?st = ''300 ps''" "sb_parameters ?st = []"
    by (simp_all add: determine_step_type_def stab_step_def Let_def step_types duration_or_default_def or_default_def)
  have "\<exists>s m'. convert_step DEFAULT_TIER_POLICY SCREENING T q ?st m = Inr (s, m') \<and> pt_type s = ''nvt'' \<and>
      pt_duration s = ''300 ps''" for T q m
    by (simp add: convert_step_def compute_dump_interval_def Let_def t c pv_get_or_def dict_get_def parse_known sampling_def)
  then obtain S M where s: "convert_step DEFAULT_TIER_POLICY SCREENING T q ?st m = Inr (S T q m, M T q m)"
    "pt_type (S T q m) = ''nvt''" "pt_duration (S T q m) = ''300 ps''" for T q m by metis
  have b: "\<exists>ch. build_chain short_chain DEFAULT_TIER_POLICY demo_bulk = Inr ch \<and>
      (\<exists>x. pc_steps ch = [x] \<and> pt_type x = ''nvt'' \<and> pt_duration x = ''300 ps'')"
    by (simp add: build_chain_def planned_steps_def demo_bulk_def demo_request_def chain_key_def run_tier_value_def
        short_chain_def get_chain_def s(1) with_tensile_def s(2,3))
  then obtain ch x where x: "build_chain short_chain DEFAULT_TIER_POLICY demo_bulk = Inr ch" "pc_steps ch = [x]"
    "pt_type x = ''nvt''" "pt_duration x = ''300 ps''" by blast
  have d: "parse_duration ''300 ps'' = Inr (Some 300, None)"
    by (simp add: parse_duration_def dur_text_known duration_texts str_contains.simps)
  show ?thesis by (simp add: compile_plan_def x d int_div_def py_int_def Let_def)
qed

theorem plan_totals_exact_witness:
  "\<exists>p. compile_plan short_chain DEFAULT_TIER_POLICY [] (\<lambda>_ _ _ _ _ _. []) ''now'' demo_bulk None None 1 = Inr p \<and>
     xp_total_steps p = sum_list (map cs_expected (xp_stages p))"
proof -
  obtain p where p: "compile_plan short_chain DEFAULT_TIER_POLICY [] (\<lambda>_ _ _ _ _ _. []) ''now'' demo_bulk None None 1 = Inr p"
    using short_plan by blast
  from plan_totals_exact [OF p] p show ?thesis by blast
qed

text \<open>Restart search.\<close>

lemma latest_completed_Some:
  "latest_completed files names n = Some k \<longleftrightarrow>
     k < n \<and> stage_file (names ! k) \<in> set files \<and> (\<forall>j<n. k < j \<longrightarrow> stage_file (names ! j) \<notin> set files)"
  by (induction n) (auto simp: less_Suc_eq)

lemma latest_completed_None:
  "latest_completed files names n = None \<longleftrightarrow> (\<forall>j<n. stage_file (names ! j) \<notin> set files)"
  by (induction n) (auto simp: less_Suc_eq)

definition unused_dir :: "string list \<Rightarrow> attempt_dir \<Rightarrow> bool" where
  "unused_dir names d \<longleftrightarrow>
     \<not> ad_is_dir d \<or> ''final.restart'' \<notin> set (ad_files d) \<and> (\<forall>n\<in>set names. stage_file n \<notin> set (ad_files d))"

lemma search_dirs_skip: "list_all (unused_dir names) ds \<Longrightarrow> search_dirs names (ds @ rest) = search_dirs names rest"
proof (induction ds)
  case (Cons d ds)
  then have "unused_dir names d" by simp
  then have "ad_is_dir d \<Longrightarrow> ''final.restart'' \<notin> set (ad_files d) \<and> latest_completed (ad_files d) names (length names) = None"
    by (simp add: unused_dir_def latest_completed_None)
  with Cons show ?case by simp
qed simp

text \<open>
  The restart search returns a point exactly when some directory, after directories with
  no restart file, has one and is not finished: the point is the last stage with a restart file
  there, at least one stage remains, and the remaining indices are those after it.
\<close>

theorem restart_point_exact:
  assumes "names \<noteq> []"
  shows "discover_restart_point (Some names) dirs = Some rp \<longleftrightarrow>
    (\<exists>before d after k. dirs = before @ d # after \<and> list_all (unused_dir names) before \<and>
       ad_is_dir d \<and> ''final.restart'' \<notin> set (ad_files d) \<and> Suc k < length names \<and>
       stage_file (names ! k) \<in> set (ad_files d) \<and>
       (\<forall>n\<in>set (drop (Suc k) names). stage_file n \<notin> set (ad_files d)) \<and>
       rp = \<lparr>rp_file = ad_path d @ ''/'' @ stage_file (names ! k), rp_index = k, rp_stage = names ! k,
             rp_remaining = [k + 1..<length names], rp_dir = ad_path d\<rparr>)"
    (is "?l \<longleftrightarrow> ?r")
proof
  have later: "(\<forall>n\<in>set (drop (Suc k) names). stage_file n \<notin> set fs) \<longleftrightarrow>
      (\<forall>j<length names. k < j \<longrightarrow> stage_file (names ! j) \<notin> set fs)" for k fs
  proof -
    have "set (drop (Suc k) names) = {names ! j |j. j < length names \<and> k < j}"
      by (auto simp: set_conv_nth Suc_le_eq) (metis add.commute add_Suc_right le_iff_add less_diff_conv less_eq_Suc_le)+
    then show ?thesis by auto
  qed
  show "?l \<Longrightarrow> ?r"
  proof -
    assume ?l
    then have "search_dirs names dirs = Some rp" using assms by (simp add: discover_restart_point_def)
    then show ?r
    proof (induction dirs)
      case (Cons d ds)
      show ?case
      proof (cases "unused_dir names d")
        case True
        with Cons.prems have "search_dirs names ds = Some rp"
          using search_dirs_skip [of names "[d]" ds] by simp
        from Cons.IH [OF this] True show ?thesis by (metis append_Cons list.pred_inject(2))
      next
        case False
        then have d: "ad_is_dir d" by (simp add: unused_dir_def)
        with Cons.prems False obtain k where "latest_completed (ad_files d) names (length names) = Some k"
          "''final.restart'' \<notin> set (ad_files d)" "Suc k < length names"
          "rp = \<lparr>rp_file = ad_path d @ ''/'' @ stage_file (names ! k), rp_index = k, rp_stage = names ! k,
             rp_remaining = [k + 1..<length names], rp_dir = ad_path d\<rparr>"
          by (auto simp: unused_dir_def latest_completed_None in_set_conv_nth split: if_splits option.splits)
        with d show ?thesis
          by (intro exI [of _ "[]"] exI [of _ d] exI [of _ ds] exI [of _ k]) (simp add: latest_completed_Some later)
      qed
    qed simp
  qed
  show "?r \<Longrightarrow> ?l"
  proof -
    assume ?r
    then obtain before d after k where r: "dirs = before @ d # after" "list_all (unused_dir names) before"
      "ad_is_dir d" "''final.restart'' \<notin> set (ad_files d)" "Suc k < length names"
      "stage_file (names ! k) \<in> set (ad_files d)"
      "\<forall>n\<in>set (drop (Suc k) names). stage_file n \<notin> set (ad_files d)"
      "rp = \<lparr>rp_file = ad_path d @ ''/'' @ stage_file (names ! k), rp_index = k, rp_stage = names ! k,
             rp_remaining = [k + 1..<length names], rp_dir = ad_path d\<rparr>" by blast
    then have "latest_completed (ad_files d) names (length names) = Some k"
      by (simp add: latest_completed_Some later)
    with r show ?l by (simp add: discover_restart_point_def assms search_dirs_skip)
  qed
qed

definition demo_names :: "string list" where
  "demo_names = [''minimize'', ''nvt_equilibration'', ''npt_production'']"

definition demo_dirs :: "attempt_dir list" where
  "demo_dirs = [\<lparr>ad_path = ''attempt_2'', ad_is_dir = True, ad_files = [''log.lammps'']\<rparr>,
     \<lparr>ad_path = ''attempt_1'', ad_is_dir = True, ad_files = [''restart.minimize'', ''restart.nvt_equilibration'']\<rparr>]"

theorem restart_point_exact_witness:
  "\<exists>rp. discover_restart_point (Some demo_names) demo_dirs = Some rp \<and> rp_stage rp = ''nvt_equilibration''"
proof -
  have "demo_names \<noteq> []" by (simp add: demo_names_def)
  note iff = restart_point_exact [OF this, of demo_dirs, THEN iffD2]
  show ?thesis
    by (rule exI [of _ "\<lparr>rp_file = ''attempt_1/restart.nvt_equilibration'', rp_index = 1,
          rp_stage = ''nvt_equilibration'', rp_remaining = [2], rp_dir = ''attempt_1''\<rparr>"], rule conjI, rule iff, rule exI [of _ "[hd demo_dirs]"], rule exI [of _ "demo_dirs ! 1"],
        rule exI [of _ "[]"], rule exI [of _ 1])
      (simp_all add: demo_dirs_def demo_names_def unused_dir_def stage_file_def)
qed

section \<open>Tensile and layer geometry\<close>

lemma stack_from_tiles:
  "map fst (stack_from z ls) = map fst ls \<and>
   (\<forall>k<length ls. snd (stack_from z ls ! k) = (z + sum_list (map snd (take k ls)), z + sum_list (map snd (take (Suc k) ls))))"
proof (induction z ls rule: stack_from.induct)
  case (2 z name t rest)
  then show ?case by (auto simp: nth_Cons' less_Suc_eq_0_disj)
qed simp

lemma layer_list_height:
  "(ls_type l = BINDER_BINDER \<longrightarrow> ls_water l = None) \<Longrightarrow>
     get_total_height l = ls_vacuum_below l + sum_list (map snd (layer_list l)) + ls_vacuum_above l"
  by (auto simp: get_total_height_def layer_list_def opt0_def Let_def split: option.splits)

text \<open>
  The layer boundaries start at the lower vacuum, follow each other without gap, have the
  thickness of their layers and end at the total height less the upper vacuum, unless two
  binders have water between them.
\<close>

theorem layers_tile_the_cell:
  assumes "ls_type l = BINDER_BINDER \<longrightarrow> ls_water l = None"
  shows "(let b = map snd (get_layer_boundaries l); n = length b in
    0 < n \<and> fst (b ! 0) = ls_vacuum_below l \<and> (\<forall>k. Suc k < n \<longrightarrow> snd (b ! k) = fst (b ! Suc k)) \<and>
    snd (b ! (n - 1)) + ls_vacuum_above l = get_total_height l \<and>
    (\<forall>k<n. snd (b ! k) - fst (b ! k) = snd (layer_list l ! k)))"
proof -
  let ?ls = "layer_list l"
  have ne: "?ls \<noteq> []" by (simp add: layer_list_def)
  have len: "length (get_layer_boundaries l) = length ?ls"
    using stack_from_tiles [of "ls_vacuum_below l" ?ls] by (metis get_layer_boundaries_def length_map)
  have bne: "get_layer_boundaries l \<noteq> []" using len ne by auto
  have nth: "snd (get_layer_boundaries l ! k) =
      (ls_vacuum_below l + sum_list (map snd (take k ?ls)), ls_vacuum_below l + sum_list (map snd (take (Suc k) ?ls)))"
    if "k < length ?ls" for k
    using that len stack_from_tiles [of "ls_vacuum_below l" ?ls] by (simp add: get_layer_boundaries_def)
  have step: "sum_list (map snd (take (Suc k) ?ls)) - sum_list (map snd (take k ?ls)) = snd (?ls ! k)"
    if "k < length ?ls" for k
    using that by (simp add: take_Suc_conv_app_nth)
  have last: "take (Suc (length ?ls - 1)) ?ls = ?ls" using ne by simp
  show ?thesis
    using ne bne layer_list_height [OF assms] step last
    by (simp add: Let_def len nth)
qed

theorem layers_tile_the_cell_witness:
  "fst (map snd (get_layer_boundaries demo_layer) ! 0) = 10 \<and> length (get_layer_boundaries demo_layer) = 3"
  using layers_tile_the_cell [of demo_layer]
  by (simp add: demo_layer_def Let_def) (simp add: get_layer_boundaries_def layer_list_def)

text \<open>The height of two binders with water between them counts a layer the boundaries do not have.\<close>

lemma binder_pair_water_mismatch:
  assumes "ls_type l = BINDER_BINDER" "ls_water l = Some w"
  shows "get_total_height l = ls_vacuum_below l + sum_list (map snd (layer_list l)) + ls_vacuum_above l + w"
  using assms by (auto simp: get_total_height_def layer_list_def opt0_def Let_def split: option.splits)

lemma qs_steps_reach:
  assumes "tensile_spec_ok ts" "0 < gap"
  shows "gap * ts_max_strain ts \<le> of_int (qs_displacement_steps ts gap) * ts_displacement ts"
    "of_int (qs_displacement_steps ts gap) * ts_displacement ts < gap * ts_max_strain ts + ts_displacement ts"
proof -
  let ?q = "gap * ts_max_strain ts / ts_displacement ts"
  from assms have p: "0 < ts_displacement ts" "0 < ?q" by (simp_all add: tensile_spec_ok_def)
  then have "1 \<le> \<lceil>?q\<rceil>" by (simp add: le_ceiling_iff)
  then have s: "qs_displacement_steps ts gap = \<lceil>?q\<rceil>" by (simp add: qs_displacement_steps_def)
  have c: "?q \<le> of_int \<lceil>?q\<rceil>" "of_int \<lceil>?q\<rceil> < ?q + 1" by (simp_all add: ceiling_correct) linarith
  have e: "?q * ts_displacement ts = gap * ts_max_strain ts" using p by simp
  have "?q * ts_displacement ts \<le> of_int \<lceil>?q\<rceil> * ts_displacement ts" using c(1) p(1) by (intro mult_right_mono) auto
  then show "gap * ts_max_strain ts \<le> of_int (qs_displacement_steps ts gap) * ts_displacement ts"
    by (simp only: e s)
  have "of_int \<lceil>?q\<rceil> * ts_displacement ts < (?q + 1) * ts_displacement ts" using c(2) p(1) by (intro mult_strict_right_mono)
  also have "\<dots> = gap * ts_max_strain ts + ts_displacement ts" using e by (simp add: distrib_right)
  finally show "of_int (qs_displacement_steps ts gap) * ts_displacement ts < gap * ts_max_strain ts + ts_displacement ts"
    by (simp only: s)
qed

lemma show_fixed1_chars: "\<forall>c\<in>set (show_fixed1 x). num_char c" "show_fixed1 x \<noteq> []"
  using show_scaled_chars by (auto simp: show_fixed1_def num_char_def)

lemma fixed1_reads:
  "filter_duration_to_ps (show_fixed1 x @ '' ps'') = Inr (of_int (py_round (x * 10)) / 10)"
  "parse_duration_to_steps (show_fixed1 x @ '' ps'') dt = int_div_pv (of_int (py_round (x * 10)) / 10 * 1000) dt"
proof -
  note t = show_fixed1_chars [of x]
  note facts = unit_text [OF t] unit_contains [OF t(1)] unit_value [OF t] float_of_show_fixed1
  show "filter_duration_to_ps (show_fixed1 x @ '' ps'') = Inr (of_int (py_round (x * 10)) / 10)"
    by (simp add: filter_duration_to_ps_def facts suffix_def)
  show "parse_duration_to_steps (show_fixed1 x @ '' ps'') dt = int_div_pv (of_int (py_round (x * 10)) / 10 * 1000) dt"
    by (simp add: parse_duration_to_steps_def facts)
qed

lemma inject_tensile_duration:
  assumes "tensile_boundaries l \<noteq> []" "0 < tensile_gap ts l (tensile_boundaries l)"
    "tensile_time_fs ts (tensile_gap ts l (tensile_boundaries l)) = Inr fs"
  shows "\<exists>x. inject_tensile_params ts (Some l) s =
    Inr (s\<lparr>pt_extra := x, pt_duration := show_fixed1 (fs / 1000) @ '' ps''\<rparr>)"
  using assms by (cases "ts_mode ts = QUASI_STATIC") (auto simp: inject_tensile_params_def Let_def)

lemma tenth_ps_near: "\<bar>of_int (py_round (fs / 1000 * 10)) / 10 * 1000 - fs\<bar> \<le> (50 :: pyfloat)"
proof -
  let ?r = "of_int (py_round (fs / 1000 * 10)) :: pyfloat"
  have "fs / 1000 * 10 - ?r \<le> 1/2" "- (1/2) \<le> fs / 1000 * 10 - ?r"
    using py_round_near [of "fs / 1000 * 10"] unfolding abs_le_iff by linarith+
  then show ?thesis unfolding abs_le_iff by linarith
qed

text \<open>
  C39: For a validated tensile request with a positive gap the duration written into the step
  is, to within 50 fs, the time the pull needs for the maximal strain: in quasi-static mode a
  whole number of displacements that reaches the strain and overshoots it by less than one.
\<close>

theorem tensile_duration_reaches_strain:
  assumes "tensile_spec_ok ts" "tensile_boundaries l \<noteq> []" "0 < tensile_gap ts l (tensile_boundaries l)"
  shows "\<exists>s' d. inject_tensile_params ts (Some l) s = Inr s' \<and> pt_name s' = pt_name s \<and>
    filter_duration_to_ps (pt_duration s') = Inr d \<and>
    (let pull = tensile_gap ts l (tensile_boundaries l) * ts_max_strain ts; fs = d * 1000 in
     if ts_mode ts = QUASI_STATIC
     then \<exists>n \<ge> 1. pull \<le> of_int n * ts_displacement ts \<and> of_int n * ts_displacement ts < pull + ts_displacement ts \<and>
            \<bar>fs - of_int (n * ts_relax_steps ts)\<bar> \<le> 50
     else \<bar>fs * ts_pull_velocity ts - pull\<bar> \<le> 50 * ts_pull_velocity ts)"
proof -
  let ?gap = "tensile_gap ts l (tensile_boundaries l)"
  from assms(1) have v: "0 < ts_displacement ts" "0 < ts_pull_velocity ts" by (simp_all add: tensile_spec_ok_def)
  then obtain fs where fs: "tensile_time_fs ts ?gap = Inr fs"
    by (cases "ts_mode ts = QUASI_STATIC") (simp_all add: tensile_time_fs_def)
  from inject_tensile_duration [OF assms(2,3) fs, of s] obtain x where
    x: "inject_tensile_params ts (Some l) s = Inr (s\<lparr>pt_extra := x, pt_duration := show_fixed1 (fs / 1000) @ '' ps''\<rparr>)"
    by blast
  let ?d = "of_int (py_round (fs / 1000 * 10)) / 10 :: pyfloat"
  have near: "\<bar>?d * 1000 - fs\<bar> \<le> 50" by (rule tenth_ps_near)
  have res: "if ts_mode ts = QUASI_STATIC
     then \<exists>n \<ge> 1. ?gap * ts_max_strain ts \<le> of_int n * ts_displacement ts \<and>
            of_int n * ts_displacement ts < ?gap * ts_max_strain ts + ts_displacement ts \<and>
            \<bar>?d * 1000 - of_int (n * ts_relax_steps ts)\<bar> \<le> 50
     else \<bar>?d * 1000 * ts_pull_velocity ts - ?gap * ts_max_strain ts\<bar> \<le> 50 * ts_pull_velocity ts"
  proof (cases "ts_mode ts = QUASI_STATIC")
    case True
    with fs v have "fs = of_int (qs_displacement_steps ts ?gap * ts_relax_steps ts)" by (simp add: tensile_time_fs_def)
    with near qs_steps_reach [OF assms(1,3)] have "1 \<le> qs_displacement_steps ts ?gap \<and>
        ?gap * ts_max_strain ts \<le> of_int (qs_displacement_steps ts ?gap) * ts_displacement ts \<and>
        of_int (qs_displacement_steps ts ?gap) * ts_displacement ts < ?gap * ts_max_strain ts + ts_displacement ts \<and>
        \<bar>?d * 1000 - of_int (qs_displacement_steps ts ?gap * ts_relax_steps ts)\<bar> \<le> 50"
      by (simp add: qs_displacement_steps_def)
    with True show ?thesis by auto
  next
    case False
    with fs v have f: "fs * ts_pull_velocity ts = ?gap * ts_max_strain ts"
      by (auto simp: tensile_time_fs_def split: if_splits)
    have "\<bar>(?d * 1000 - fs) * ts_pull_velocity ts\<bar> \<le> 50 * ts_pull_velocity ts"
      using near v(2) by (simp only: abs_mult) (intro mult_mono; simp)
    with False f show ?thesis by (simp add: left_diff_distrib)
  qed
  let ?s' = "s\<lparr>pt_extra := x, pt_duration := show_fixed1 (fs / 1000) @ '' ps''\<rparr>"
  have n: "pt_name ?s' = pt_name s" by simp
  have d: "filter_duration_to_ps (pt_duration ?s') = Inr ?d" using fixed1_reads(1) [of "fs / 1000"] by simp
  show ?thesis unfolding Let_def by (intro exI conjI, rule x, rule n, rule d, rule res)
qed

lemma demo_gap: "tensile_boundaries demo_layer \<noteq> []" "tensile_gap ts demo_layer (tensile_boundaries demo_layer) =
    65 - 2 * ts_grip_thickness ts"
  by (simp_all add: tensile_boundaries_def demo_layer_def get_layer_boundaries_def layer_list_def tensile_gap_def
      min_list_of_def max_list_of_def Let_def)

theorem tensile_duration_reaches_strain_witness:
  "\<exists>s' d. inject_tensile_params demo_spec (Some demo_layer) demo_step = Inr s' \<and>
     filter_duration_to_ps (pt_duration s') = Inr d \<and> \<bar>d - 250\<bar> \<le> 1/20"
proof -
  have s: "tensile_spec_ok demo_spec" by (simp add: demo_spec_def tensile_spec_ok_def)
  have g: "0 < tensile_gap demo_spec demo_layer (tensile_boundaries demo_layer)"
    by (simp add: demo_gap demo_spec_def)
  obtain s' d n where "inject_tensile_params demo_spec (Some demo_layer) demo_step = Inr s'"
    "filter_duration_to_ps (pt_duration s') = Inr d"
    and n: "25/2 \<le> of_int n * (1/2 :: pyfloat)" "of_int n * (1/2 :: pyfloat) < 13" "\<bar>d * 1000 - of_int (n * 10000)\<bar> \<le> 50"
    using tensile_duration_reaches_strain [OF s demo_gap(1) g, of demo_step]
    by (auto simp: demo_gap demo_spec_def Let_def)
  moreover from n(1,2) have "n = 25" by linarith
  with n(3) have "d * 1000 - 250000 \<le> 50" "- 50 \<le> d * 1000 - 250000" unfolding abs_le_iff by simp_all
  then have "\<bar>d - 250\<bar> \<le> 1/20" unfolding abs_le_iff by linarith
  ultimately show ?thesis by blast
qed

text \<open>The trajectory interval of the tensile stage is the one of the table's 2000 ps, whatever the
  duration becomes: here 250 ps, a quarter of the frames asked for.\<close>

definition pull_step :: stabilization_step where
  "pull_step = stab_step ''tensile_pull'' ''tensile'' ''2000 ps'' []"

lemma tensile_interval_ignores_duration:
  "\<exists>s m s'. convert_step DEFAULT_TIER_POLICY CONFIRM 298 1 pull_step m0 = Inr (s, m) \<and>
     inject_tensile_params (demo_spec\<lparr>ts_mode := CONTINUOUS\<rparr>) (Some demo_layer) s = Inr s' \<and>
     pt_dump_interval s' = 66666 \<and> pt_duration s' = ''250.0 ps'' \<and>
     clamped_interval (sampling 100 30) (pt_type s') 250000 = 10000"
proof -
  obtain cfg where c: "get_tier_config DEFAULT_TIER_POLICY (TierEnum CONFIRM) = Inr cfg"
    "tc_sampling cfg = Some (sampling 100 30)"
    by (simp add: tier_defs)
  have t: "determine_step_type pull_step = ''tensile''"
    by (simp add: determine_step_type_def pull_step_def stab_step_def Let_def step_types)
  have d: "duration_or_default pull_step = ''2000 ps''" "sb_parameters pull_step = []"
    by (simp_all add: duration_or_default_def pull_step_def stab_step_def or_default_def)
  have i: "clamped_interval (sampling 100 30) ''tensile'' 2000000 = 66666"
    "clamped_interval (sampling 100 30) ''tensile'' 250000 = 10000"
    by (simp_all add: clamped_interval_def raw_interval_def frames_of_def is_production_def sampling_def)
  have "\<exists>s m. convert_step DEFAULT_TIER_POLICY CONFIRM 298 1 pull_step m0 = Inr (s, m) \<and>
      pt_dump_interval s = 66666 \<and> pt_type s = ''tensile''"
    by (simp add: convert_step_def compute_dump_interval_def Let_def t d c pv_get_or_def dict_get_def parse_known i)
       (simp add: sampling_def)
  then obtain s m where s: "convert_step DEFAULT_TIER_POLICY CONFIRM 298 1 pull_step m0 = Inr (s, m)"
    "pt_dump_interval s = 66666" "pt_type s = ''tensile''" by blast
  let ?ts = "demo_spec\<lparr>ts_mode := CONTINUOUS\<rparr>"
  have g: "0 < tensile_gap ?ts demo_layer (tensile_boundaries demo_layer)"
    "tensile_time_fs ?ts (tensile_gap ?ts demo_layer (tensile_boundaries demo_layer)) = Inr 250000"
    by (simp_all add: demo_gap demo_spec_def tensile_time_fs_def)
  have f: "show_fixed1 250 = ''250.0''" by code_simp
  from inject_tensile_duration [OF demo_gap(1) g, of s] obtain x where
    "inject_tensile_params ?ts (Some demo_layer) s =
       Inr (s\<lparr>pt_extra := x, pt_duration := show_fixed1 (250000 / 1000) @ '' ps''\<rparr>)" by blast
  with s i(2) show ?thesis by (simp add: f)
qed

text \<open>More atoms, shorter estimate.\<close>

lemma runtime_falls_with_atoms:
  assumes "builder_total_duration_ps c = Inr ps" "0 < ps" "0 < speed" "0 < n" "n < m"
  shows "\<exists>a b. estimate_runtime_hours c n speed = Inr a \<and> estimate_runtime_hours c m speed = Inr b \<and> b < a"
proof -
  let ?s = "\<lambda>k :: int. speed * (of_int k / 1000)"
  have "0 < ?s n" using assms(3,4) by simp
  moreover have lt: "?s n < ?s m" using assms(3,5) by simp
  ultimately have p: "0 < ?s n" "0 < ?s m" by linarith+
  have "ps / 1000 / ?s m < ps / 1000 / ?s n" using assms(2) p lt by (intro divide_strict_left_mono) simp_all
  then have "ps / 1000 / ?s m * 24 < ps / 1000 / ?s n * 24" by (rule mult_strict_right_mono) simp
  moreover have "estimate_runtime_hours c k speed = Inr (ps / 1000 / ?s k * 24)" if "0 < ?s k" for k
    using that assms(1) by (simp add: estimate_runtime_hours_def Let_def)
  ultimately show ?thesis using p by blast
qed

section \<open>Equilibration\<close>

lemma build_names:
  assumes "request_ok rq" "get_chain DEFAULT_STABILIZATION_CHAIN (chain_key rq) = Inr base"
    "rq_equilibration rq = Some s" "eq_enabled s" "rq_skip rq = None"
  shows "\<exists>c. build_chain DEFAULT_STABILIZATION_CHAIN DEFAULT_TIER_POLICY rq = Inr c \<and>
    map pt_name (pc_steps c) = concat (map (\<lambda>st. if str_lower (sb_type st) = ''minimize''
      then [sb_name st, ''high_temp_nvt'', ''high_pressure_npt''] else [sb_name st]) base)"
proof -
  have p: "planned_steps DEFAULT_STABILIZATION_CHAIN rq = Inr (inject_equilibration_steps s base)"
    by (simp add: planned_steps_def assms)
  have "map sb_name (inject_equilibration_steps s base) = concat (map (\<lambda>st. if str_lower (sb_type st) = ''minimize''
      then [sb_name st, ''high_temp_nvt'', ''high_pressure_npt''] else [sb_name st]) base)"
    by (simp add: inject_equilibration_steps_def map_concat comp_def if_distrib [of "map sb_name"]
        high_temp_nvt_def high_pressure_npt_def stab_step_def cong: if_cong)
  with build_chain_steps [OF assms(1) p] show ?thesis by metis
qed

text \<open>The layer chains already have a stage of that name: two stages of a plan share a key.\<close>

lemma layer_equilibration_duplicates:
  "\<exists>c. build_chain DEFAULT_STABILIZATION_CHAIN DEFAULT_TIER_POLICY demo_request = Inr c \<and>
     map pt_name (pc_steps c) = [''minimize'', ''high_temp_nvt'', ''high_pressure_npt'', ''high_temp_nvt'',
       ''annealing_cycles'', ''nvt_equilibration'', ''npt_equilibration'', ''pre_tensile_nvt'', ''tensile_pull'']"
proof -
  obtain base where b: "get_chain DEFAULT_STABILIZATION_CHAIN (chain_key demo_request) = Inr base"
    "map (\<lambda>st. (sb_name st, str_lower (sb_type st) = ''minimize'')) base =
       [(''minimize'', True), (''high_temp_nvt'', False), (''annealing_cycles'', False), (''nvt_equilibration'', False),
        (''npt_equilibration'', False), (''pre_tensile_nvt'', False), (''tensile_pull'', False)]"
    by (simp add: get_chain_def chain_key_def demo_request_def demo_spec_def default_table
        stab_step_def step_types)
  have "concat (map (\<lambda>st. if str_lower (sb_type st) = ''minimize''
      then [sb_name st, ''high_temp_nvt'', ''high_pressure_npt''] else [sb_name st]) base) =
    concat (map (\<lambda>(n, m). if m then [n, ''high_temp_nvt'', ''high_pressure_npt''] else [n])
      (map (\<lambda>st. (sb_name st, str_lower (sb_type st) = ''minimize'')) base))"
    by (simp add: comp_def)
  with build_names [OF demo_request_ok b(1), of demo_equilibration] show ?thesis
    unfolding b(2) by (simp add: demo_request_def demo_equilibration_def)
qed

text \<open>After the first of them the search takes the second for finished.\<close>

lemma duplicate_stage_skips_work:
  "discover_restart_point (Some [''minimize'', ''high_temp_nvt'', ''high_pressure_npt'', ''high_temp_nvt'', ''annealing_cycles''])
     [\<lparr>ad_path = ''attempt_1'', ad_is_dir = True, ad_files = [''restart.minimize'', ''restart.high_temp_nvt'']\<rparr>] =
   Some \<lparr>rp_file = ''attempt_1/restart.high_temp_nvt'', rp_index = 3, rp_stage = ''high_temp_nvt'',
         rp_remaining = [4], rp_dir = ''attempt_1''\<rparr>"
  by (simp add: discover_restart_point_def stage_file_def numeral_eq_Suc)

text \<open>An override of zero steps or ps is applied to the chain, and shown as the default.\<close>

lemma zero_override_shown_as_default:
  assumes "map_of (override_map os) name = Some ov" "so_ps ov = Some 0" "so_steps ov = None" "sf_ps info = Some d"
  shows "or_num (so_ps ov) (sf_ps info) = Some d \<and> override_duration ov old = ps_text 0"
  using assms by (simp add: or_num_def override_duration_def)

text \<open>A duration in capitals is 100 ps to the builder and 0 to the template filter.\<close>

lemma capital_unit_readers_differ:
  "parse_duration ''100 PS'' = Inr (Some 100, None) \<and> filter_duration_to_ps ''100 PS'' = Inr 0 \<and>
   filter_duration_to_steps ''100 PS'' 1 = Inr 0"
proof -
  have "dur_text ''100 PS'' = ''100 ps''" "str_lower ''100 PS'' = ''100 ps''" "str_strip ''100 PS'' = ''100 PS''"
    by code_simp+
  moreover have "py_float_of ''100 PS'' = None" by code_simp
  ultimately show ?thesis
    by (simp add: parse_duration_def filter_duration_to_ps_def filter_duration_to_steps_def str_contains.simps
        duration_texts suffix_def Let_def)
qed

theorem equilibration_follows_minimisation:
  assumes "request_ok rq" "get_chain DEFAULT_STABILIZATION_CHAIN (chain_key rq) = Inr base"
    "rq_equilibration rq = Some s" "eq_enabled s" "rq_skip rq = None"
  shows "\<exists>c. build_chain DEFAULT_STABILIZATION_CHAIN DEFAULT_TIER_POLICY rq = Inr c \<and>
    map pt_name (pc_steps c) = concat (map (\<lambda>st. if str_lower (sb_type st) = ''minimize''
      then [sb_name st, ''high_temp_nvt'', ''high_pressure_npt''] else [sb_name st]) base)"
  by (rule build_names [OF assms])

theorem equilibration_follows_minimisation_witness:
  "\<exists>c. build_chain DEFAULT_STABILIZATION_CHAIN DEFAULT_TIER_POLICY demo_request = Inr c \<and>
     take 3 (map pt_name (pc_steps c)) = [''minimize'', ''high_temp_nvt'', ''high_pressure_npt'']"
proof -
  obtain base where b: "get_chain DEFAULT_STABILIZATION_CHAIN (chain_key demo_request) = Inr base"
    "base \<noteq> [] \<and> sb_name (hd base) = ''minimize'' \<and> str_lower (sb_type (hd base)) = ''minimize''"
    by (simp add: get_chain_def chain_key_def demo_request_def demo_spec_def default_table
        stab_step_def step_types)
  have e: "rq_equilibration demo_request = Some demo_equilibration" "eq_enabled demo_equilibration"
    "rq_skip demo_request = None" by (simp_all add: demo_request_def demo_equilibration_def)
  from b(2) obtain rest where "base = hd base # rest" by (cases base) auto
  then have "take 3 (concat (map (\<lambda>st. if str_lower (sb_type st) = ''minimize''
      then [sb_name st, ''high_temp_nvt'', ''high_pressure_npt''] else [sb_name st]) base)) =
    [''minimize'', ''high_temp_nvt'', ''high_pressure_npt'']"
    using b(2) by (cases base) (simp_all add: numeral_3_eq_3)
  with equilibration_follows_minimisation [OF demo_request_ok b(1) e] show ?thesis by auto
qed

section \<open>Validation of overrides\<close>

text \<open>
  The validation of overrides reports no fault exactly when every override names a stage
  of the chain or an injected one and gives a duration in the unit of its kind of stage, or in
  both units.
\<close>

theorem override_faults_exact:
  assumes "get_validation_defaults C tier True = Inr defaults"
  shows "validate_overrides C tier os = Inr [] \<longleftrightarrow>
    list_all (\<lambda>ov. \<exists>info. map_of defaults (so_name ov) = Some info \<and>
      (so_ps ov \<noteq> None \<and> so_steps ov \<noteq> None \<or>
       so_steps ov \<noteq> None \<and> sf_type info = ''minimize'' \<or>
       so_ps ov \<noteq> None \<and> sf_type info \<noteq> ''minimize'')) os"
proof -
  have "check_override defaults ov = [] \<longleftrightarrow> (\<exists>info. map_of defaults (so_name ov) = Some info \<and>
      (so_ps ov \<noteq> None \<and> so_steps ov \<noteq> None \<or>
       so_steps ov \<noteq> None \<and> sf_type info = ''minimize'' \<or>
       so_ps ov \<noteq> None \<and> sf_type info \<noteq> ''minimize''))" for ov
    by (cases "map_of defaults (so_name ov)") (auto simp: check_override_def)
  then show ?thesis by (simp add: validate_overrides_def assms list_all_iff)
qed

lemma screening_defaults:
  "get_validation_defaults DEFAULT_STABILIZATION_CHAIN ''screening'' True = Inr
     [(''minimize'', \<lparr>sf_type = ''minimize'', sf_ps = None, sf_steps = Some 1000, sf_editable = True\<rparr>),
      (''nvt_equilibration'', \<lparr>sf_type = ''nvt'', sf_ps = Some 300, sf_steps = None, sf_editable = True\<rparr>),
      (''npt_production'', \<lparr>sf_type = ''npt'', sf_ps = Some 2000, sf_steps = None, sf_editable = True\<rparr>),
      (''high_temp_nvt'', \<lparr>sf_type = ''nvt'', sf_ps = Some 100, sf_steps = None, sf_editable = True\<rparr>),
      (''high_pressure_npt'', \<lparr>sf_type = ''npt'', sf_ps = Some 200, sf_steps = None, sf_editable = True\<rparr>)]"
  by (simp add: get_validation_defaults_def get_default_durations_def get_chain_def default_table
      stab_step_def default_of_step_def truthy_def dur_text_known duration_texts str_contains.simps Let_def
      EQUILIBRATION_COMPATIBLE_def equilibration_stage_defaults_def DEFAULT_EQUILIBRATION_POLICY_def)

theorem override_faults_exact_witness:
  "validate_overrides DEFAULT_STABILIZATION_CHAIN ''screening'' demo_overrides = Inr [] \<and>
   validate_overrides DEFAULT_STABILIZATION_CHAIN ''screening''
     [\<lparr>so_name = ''minimize'', so_ps = Some 10, so_steps = None\<rparr>] \<noteq> Inr []"
  unfolding override_faults_exact [OF screening_defaults] by (simp add: demo_overrides_def del: not_None_eq)

end
