(* ===== verification/ProcessTracker.thy ===== *)
theory ProcessTracker
  imports RunPolicies PyNumbers
begin

text \<open>
  Tracking of LAMMPS processes across server restarts,
  \<^verbatim>\<open>src/src/orchestrator/process_tracker.py\<close>: registration, heartbeats, detection of the
  state of a process, the search for processes that need recovery, and the clean-up of stale
  records. The two tables are association lists in table order with one row per experiment;
  a handler that raises leaves them as they were, since its session is rolled back. The
  process table of the host, the clock and the status change of the repository are
  arguments.
\<close>

section \<open>Tables, files and processes\<close>

datatype process_state = RUNNING | STALE | ORPHANED | TERMINATED | UNKNOWN_STATE

definition process_state_value :: "process_state \<Rightarrow> string" where
  "process_state_value s =
     (case s of RUNNING \<Rightarrow> ''running'' | STALE \<Rightarrow> ''stale'' | ORPHANED \<Rightarrow> ''orphaned''
      | TERMINATED \<Rightarrow> ''terminated'' | UNKNOWN_STATE \<Rightarrow> ''unknown'')"

datatype recovery_action = RESUME | RECOVER_RESULTS | RESTART | ABANDON | IGNORE

definition recovery_action_value :: "recovery_action \<Rightarrow> string" where
  "recovery_action_value a =
     (case a of RESUME \<Rightarrow> ''resume'' | RECOVER_RESULTS \<Rightarrow> ''recover'' | RESTART \<Rightarrow> ''restart''
      | ABANDON \<Rightarrow> ''abandon'' | IGNORE \<Rightarrow> ''ignore'')"

text \<open>\<open>RecoveryAction(a)\<close>; \<open>None\<close> stands for \<open>ValueError\<close>.\<close>

definition recovery_action_of :: "string \<Rightarrow> recovery_action option" where
  "recovery_action_of s =
     List.find (\<lambda>a. recovery_action_value a = s) [RESUME, RECOVER_RESULTS, RESTART, ABANDON, IGNORE]"

record process_row =
  pr_pid :: int
  pr_hostname :: string
  pr_working_dir :: string
  pr_gpu_id :: "int option"
  pr_started_at :: pyfloat
  pr_last_heartbeat :: "pyfloat option"
  pr_current_step :: "int option"
  pr_total_steps :: "int option"
  pr_temperature :: "pyfloat option"
  pr_pressure :: "pyfloat option"
  pr_density :: "pyfloat option"
  pr_energy :: "pyfloat option"
  pr_instance_id :: string

text \<open>The columns a run is rebuilt from.\<close>

record run_inputs =
  ri_asphaltene :: "pyfloat option"
  ri_resin :: "pyfloat option"
  ri_aromatic :: "pyfloat option"
  ri_saturate :: "pyfloat option"
  ri_run_tier :: "string option"
  ri_ff_type :: "string option"
  ri_target_atoms :: "int option"
  ri_seed :: "int option"
  ri_temperature :: "pyfloat option"
  ri_pressure :: "pyfloat option"

record run_row =
  rr_status :: string
  rr_pid :: "int option"
  rr_hostname :: "string option"
  rr_working_dir :: "string option"
  rr_start_time :: "pyfloat option"
  rr_heartbeat :: "pyfloat option"
  rr_gpu :: "int option"
  rr_attempt :: "string option"
  rr_task :: "string option"
  rr_log_file :: "string option"
  rr_completed_at :: "pyfloat option"
  rr_recovery_status :: "string option"
  rr_error :: "string option"
  rr_retry_count :: "int option"
  rr_data_file :: "string option"
  rr_artifact :: pyval
  rr_metadata :: pyval
  rr_inputs :: run_inputs

record tables =
  tb_procs :: "(string, process_row) pydict"
  tb_runs :: "(string, run_row) pydict"

definition tables_ok :: "tables \<Rightarrow> bool" where
  "tables_ok db \<longleftrightarrow> distinct (map fst (tb_procs db)) \<and> distinct (map fst (tb_runs db))"

text \<open>Files of the PID directory: name and content.\<close>

type_synonym pid_files = "(string, string) pydict"

text \<open>What \<open>psutil\<close> tells of a process.\<close>

datatype ps_error = NoSuchProcess | AccessDenied | OtherFault

record ps_process =
  pp_running :: bool
  pp_name :: "(ps_error, string) result"
  pp_cmdline :: "(ps_error, string list) result"

record psutil_api =
  ps_pid_exists :: "int \<Rightarrow> bool"
  ps_process_of :: "int \<Rightarrow> (ps_error, ps_process) result"

record tracker =
  tk_policy :: recovery_policy
  tk_hostname :: string
  tk_instance_id :: string

text \<open>The status change of the repository; \<open>None\<close> stands for an exception. It is documented to
  write the status of the row (and bookkeeping columns that are not part of this model), or to
  raise and write nothing.\<close>

type_synonym status_change = "run_row \<Rightarrow> string \<Rightarrow> string option \<Rightarrow> run_row option"

definition status_change_laws :: "status_change \<Rightarrow> bool" where
  "status_change_laws upd \<longleftrightarrow> (\<forall>r s a r'. upd r s a = Some r' \<longrightarrow> r' = r\<lparr>rr_status := s\<rparr>)"

section \<open>Processes\<close>

definition looks_like_lammps :: "string \<Rightarrow> bool" where
  "looks_like_lammps s \<longleftrightarrow> str_contains ''lmp'' (str_lower s) \<or> str_contains ''lammps'' (str_lower s)"

definition is_live_lmp :: "psutil_api \<Rightarrow> int \<Rightarrow> bool" where
  "is_live_lmp PS pid =
     (if \<not> ps_pid_exists PS pid then False
      else case ps_process_of PS pid of
          Inl e \<Rightarrow> False
        | Inr p \<Rightarrow>
            (case pp_name p of
               Inl e \<Rightarrow> False
             | Inr n \<Rightarrow>
                 if looks_like_lammps n then True
                 else (case pp_cmdline p of Inl e \<Rightarrow> False | Inr c \<Rightarrow> looks_like_lammps (join_with CHR '' '' c))))"

definition state_of_error :: "ps_error \<Rightarrow> process_state" where
  "state_of_error e = (if e = NoSuchProcess then TERMINATED else UNKNOWN_STATE)"

definition detect_process_state :: "psutil_api \<Rightarrow> tracker \<Rightarrow> int \<Rightarrow> string \<Rightarrow> process_state" where
  "detect_process_state PS T pid hostname =
     (if hostname \<noteq> tk_hostname T then UNKNOWN_STATE
      else case ps_process_of PS pid of
          Inl e \<Rightarrow> state_of_error e
        | Inr p \<Rightarrow>
            if pp_running p then
              (case pp_cmdline p of
                 Inl e \<Rightarrow> state_of_error e
               | Inr c \<Rightarrow> if looks_like_lammps (join_with CHR '' '' c) then RUNNING else TERMINATED)
            else TERMINATED)"

section \<open>PID files\<close>

text \<open>\<open>pattern.format(exp_id=...)\<close>, for a pattern whose only field is \<open>{exp_id}\<close>.\<close>

definition pid_file_name :: "tracker \<Rightarrow> string \<Rightarrow> string" where
  "pid_file_name T exp_id = str_replace ''{exp_id}'' exp_id (pid_file_pattern (tk_policy T))"

definition pid_file_content :: "tracker \<Rightarrow> int \<Rightarrow> string \<Rightarrow> string \<Rightarrow> string" where
  "pid_file_content T pid hostname working_dir =
     show_int pid @ [newline] @ hostname @ [newline] @ working_dir @ [newline] @ tk_instance_id T @ [newline]"

text \<open>\<open>writable\<close>: whether the write succeeds; a failure is only logged.\<close>

definition write_pid_file ::
    "bool \<Rightarrow> tracker \<Rightarrow> string \<Rightarrow> int \<Rightarrow> string \<Rightarrow> string \<Rightarrow> pid_files \<Rightarrow> pid_files" where
  "write_pid_file writable T exp_id pid hostname working_dir files =
     (if writable then dict_set (pid_file_name T exp_id) (pid_file_content T pid hostname working_dir) files else files)"

definition remove_pid_file :: "tracker \<Rightarrow> string \<Rightarrow> pid_files \<Rightarrow> pid_files" where
  "remove_pid_file T exp_id files = filter (\<lambda>(n, c). n \<noteq> pid_file_name T exp_id) files"

section \<open>Registration\<close>

datatype conflict = LiveDuplicate int | AllocationEmpty int | GpuMismatch int int

definition live_duplicate :: "psutil_api \<Rightarrow> process_row option \<Rightarrow> int \<Rightarrow> string \<Rightarrow> int option" where
  "live_duplicate PS info pid hostname =
     (case info of
        None \<Rightarrow> None
      | Some p \<Rightarrow>
          if pr_pid p \<noteq> 0 \<and> pr_pid p \<noteq> pid \<and> pr_hostname p = hostname \<and> is_live_lmp PS (pr_pid p)
          then Some (pr_pid p) else None)"

definition registered_row ::
    "tracker \<Rightarrow> pyfloat \<Rightarrow> process_row option \<Rightarrow> int \<Rightarrow> string \<Rightarrow> string \<Rightarrow> int option \<Rightarrow> int option \<Rightarrow> process_row" where
  "registered_row T now info pid hostname working_dir gpu total_steps =
     (case info of
        Some p \<Rightarrow> p\<lparr>pr_pid := pid, pr_hostname := hostname, pr_working_dir := working_dir, pr_gpu_id := gpu,
                    pr_started_at := now, pr_last_heartbeat := Some now, pr_total_steps := total_steps,
                    pr_instance_id := tk_instance_id T\<rparr>
      | None \<Rightarrow>
          \<lparr>pr_pid = pid, pr_hostname = hostname, pr_working_dir = working_dir, pr_gpu_id = gpu, pr_started_at = now,
           pr_last_heartbeat = Some now, pr_current_step = None, pr_total_steps = total_steps, pr_temperature = None,
           pr_pressure = None, pr_density = None, pr_energy = None, pr_instance_id = tk_instance_id T\<rparr>)"

text \<open>The GPU passed must be the one allocated.\<close>

definition gpu_conflict :: "int option \<Rightarrow> int option \<Rightarrow> conflict option" where
  "gpu_conflict allocated gpu =
     (case gpu of
        None \<Rightarrow> None
      | Some g \<Rightarrow> (case allocated of
            None \<Rightarrow> Some (AllocationEmpty g)
          | Some a \<Rightarrow> if a \<noteq> g then Some (GpuMismatch a g) else None))"

text \<open>\<open>x or y\<close> for optional strings\<close>

definition or_opt :: "string option \<Rightarrow> string option \<Rightarrow> string option" where
  "or_opt a b = (if truthy a then a else b)"

text \<open>\<open>str(Path(d) / name)\<close>: empty and \<open>.\<close> components go, the root stays.\<close>

definition path_join :: "string \<Rightarrow> string \<Rightarrow> string" where
  "path_join d name =
     (if prefix ''//'' d \<and> \<not> prefix ''///'' d then ''//'' else if prefix ''/'' d then ''/'' else []) @
     join_with CHR ''/'' (filter (\<lambda>c. c \<noteq> [] \<and> c \<noteq> ''.'') (split_on CHR ''/'' d) @ [name])"

definition started_run ::
    "status_change \<Rightarrow> pyfloat \<Rightarrow> int \<Rightarrow> string \<Rightarrow> string \<Rightarrow> run_row \<Rightarrow> run_row" where
  "started_run upd now pid hostname working_dir r =
     (let r = r\<lparr>rr_pid := Some pid, rr_hostname := Some hostname, rr_start_time := Some now,
                rr_working_dir := Some working_dir, rr_heartbeat := Some now\<rparr>;
          r = (case upd r ''running'' (or_opt (rr_attempt r) (rr_task r)) of None \<Rightarrow> r | Some r' \<Rightarrow> r')
      in if working_dir \<noteq> [] then r\<lparr>rr_log_file := Some (path_join working_dir ''log.lammps'')\<rparr> else r)"

definition register_process ::
    "psutil_api \<Rightarrow> status_change \<Rightarrow> bool \<Rightarrow> tracker \<Rightarrow> pyfloat \<Rightarrow> string \<Rightarrow> int \<Rightarrow> string \<Rightarrow> string
      \<Rightarrow> int option \<Rightarrow> int option \<Rightarrow> tables \<times> pid_files \<Rightarrow> conflict option \<times> tables \<times> pid_files" where
  "register_process PS upd writable T now exp_id pid hostname working_dir gpu total_steps st =
     (let db = fst st;
          files = write_pid_file writable T exp_id pid hostname working_dir (snd st);
          info = map_of (tb_procs db) exp_id
      in case live_duplicate PS info pid hostname of
           Some other \<Rightarrow> (Some (LiveDuplicate other), db, files)
         | None \<Rightarrow>
             let procs = dict_set exp_id (registered_row T now info pid hostname working_dir gpu total_steps) (tb_procs db)
             in case map_of (tb_runs db) exp_id of
                  None \<Rightarrow> (None, db\<lparr>tb_procs := procs\<rparr>, files)
                | Some r \<Rightarrow>
                    (case gpu_conflict (rr_gpu r) gpu of
                       Some c \<Rightarrow> (Some c, db, files)
                     | None \<Rightarrow>
                         (None, db\<lparr>tb_procs := procs,
                            tb_runs := dict_set exp_id (started_run upd now pid hostname working_dir r) (tb_runs db)\<rparr>, files)))"

definition drop_process :: "string \<Rightarrow> tables \<Rightarrow> tables" where
  "drop_process exp_id db = db\<lparr>tb_procs := filter (\<lambda>(k, p). k \<noteq> exp_id) (tb_procs db)\<rparr>"

definition unregister_process :: "tracker \<Rightarrow> string \<Rightarrow> tables \<times> pid_files \<Rightarrow> tables \<times> pid_files" where
  "unregister_process T exp_id st = (drop_process exp_id (fst st), remove_pid_file T exp_id (snd st))"

definition beat_row ::
    "pyfloat \<Rightarrow> int option \<Rightarrow> pyfloat option \<Rightarrow> pyfloat option \<Rightarrow> pyfloat option \<Rightarrow> pyfloat option
      \<Rightarrow> process_row \<Rightarrow> process_row" where
  "beat_row now step temperature pressure density energy p =
     (let p = p\<lparr>pr_last_heartbeat := Some now\<rparr>;
          p = (case step of None \<Rightarrow> p | Some n \<Rightarrow> p\<lparr>pr_current_step := Some n\<rparr>)
      in p\<lparr>pr_temperature := temperature, pr_pressure := pressure, pr_density := density, pr_energy := energy\<rparr>)"

definition update_heartbeat ::
    "pyfloat \<Rightarrow> string \<Rightarrow> int option \<Rightarrow> int option \<Rightarrow> pyfloat option \<Rightarrow> pyfloat option \<Rightarrow> pyfloat option
      \<Rightarrow> pyfloat option \<Rightarrow> tables \<Rightarrow> tables" where
  "update_heartbeat now exp_id step pid temperature pressure density energy db =
     (let info = map_of (tb_procs db) exp_id in
      if (case info of None \<Rightarrow> False | Some p \<Rightarrow> pid \<noteq> None \<and> Some (pr_pid p) \<noteq> pid) then db
      else db\<lparr>tb_procs := dict_modify exp_id (beat_row now step temperature pressure density energy) (tb_procs db),
              tb_runs := dict_modify exp_id (\<lambda>r. r\<lparr>rr_heartbeat := Some now\<rparr>) (tb_runs db)\<rparr>)"

section \<open>Candidates\<close>

record candidate =
  ca_exp_id :: string
  ca_pid :: int
  ca_hostname :: string
  ca_state :: process_state
  ca_db_status :: string
  ca_last_seen :: "pyfloat option"
  ca_progress :: "pyfloat option"
  ca_gpu :: "int option"
  ca_working_dir :: string
  ca_available :: "recovery_action list"
  ca_recommended :: recovery_action
  ca_reason :: string

definition recommendation_reason :: "recovery_policy \<Rightarrow> process_state \<Rightarrow> pyfloat \<Rightarrow> string" where
  "recommendation_reason P s progress =
     (case s of
        RUNNING \<Rightarrow> ''Process is running normally''
      | STALE \<Rightarrow>
          if progress > 50
          then ''Stale heartbeat but '' @ show_fixed1 progress @ ''% complete - resume recommended''
          else ''Stale heartbeat and only '' @ show_fixed1 progress @ ''% complete - restart recommended''
      | TERMINATED \<Rightarrow>
          if progress \<ge> min_progress_for_result_recovery P
          then ''Process terminated at '' @ show_fixed1 progress @ ''% - partial results can be recovered''
          else ''Process terminated at '' @ show_fixed1 progress @ ''% - restart recommended''
      | ORPHANED \<Rightarrow> ''Process not found - likely crashed or killed''
      | UNKNOWN_STATE \<Rightarrow> ''Unknown state - manual review recommended'')"

text \<open>All actions or none: \<open>None\<close> is the \<open>ValueError\<close> of an action the enumeration lacks.\<close>

fun actions_of :: "string list \<Rightarrow> recovery_action list option" where
  "actions_of [] = Some []"
| "actions_of (s # ss) =
     (case recovery_action_of s of
        None \<Rightarrow> None
      | Some a \<Rightarrow> map_option (\<lambda>as. a # as) (actions_of ss))"

definition create_recovery_candidate ::
    "tracker \<Rightarrow> string \<Rightarrow> int \<Rightarrow> string \<Rightarrow> process_state \<Rightarrow> string \<Rightarrow> pyfloat option \<Rightarrow> pyfloat \<Rightarrow> int option
      \<Rightarrow> string \<Rightarrow> candidate option" where
  "create_recovery_candidate T exp_id pid hostname s db_status last_seen progress gpu working_dir =
     (case actions_of (get_available_actions (process_state_value s)) of
        None \<Rightarrow> None
      | Some available \<Rightarrow>
          map_option (\<lambda>a.
            \<lparr>ca_exp_id = exp_id, ca_pid = pid, ca_hostname = hostname, ca_state = s, ca_db_status = db_status,
             ca_last_seen = last_seen, ca_progress = (if progress > 0 then Some progress else None), ca_gpu = gpu,
             ca_working_dir = working_dir, ca_available = available, ca_recommended = a,
             ca_reason = recommendation_reason (tk_policy T) s progress\<rparr>)
            (recovery_action_of (get_recommended_action (tk_policy T) (process_state_value s) progress)))"

definition create_orphaned_candidate :: "tracker \<Rightarrow> string \<Rightarrow> run_row \<Rightarrow> candidate" where
  "create_orphaned_candidate T exp_id r =
     \<lparr>ca_exp_id = exp_id, ca_pid = (case rr_pid r of None \<Rightarrow> 0 | Some p \<Rightarrow> p),
      ca_hostname = or_default (rr_hostname r) (tk_hostname T), ca_state = ORPHANED, ca_db_status = rr_status r,
      ca_last_seen = rr_heartbeat r, ca_progress = None, ca_gpu = rr_gpu r,
      ca_working_dir = or_default (rr_working_dir r) [], ca_available = [ABANDON, IGNORE],
      ca_recommended = ABANDON, ca_reason = ''No process tracking info found for running experiment''\<rparr>"

text \<open>A heartbeat older than the threshold makes a running process stale.\<close>

definition stale_heartbeat :: "tracker \<Rightarrow> pyfloat \<Rightarrow> process_row \<Rightarrow> bool" where
  "stale_heartbeat T now p \<longleftrightarrow>
     (case pr_last_heartbeat p of
        None \<Rightarrow> False
      | Some t \<Rightarrow> t < now - of_int (stale_threshold_minutes (tk_policy T)) * 60)"

definition tracked_state :: "psutil_api \<Rightarrow> tracker \<Rightarrow> pyfloat \<Rightarrow> process_row \<Rightarrow> process_state" where
  "tracked_state PS T now p =
     (let s = detect_process_state PS T (pr_pid p) (pr_hostname p) in
      if s = RUNNING \<and> stale_heartbeat T now p then STALE else s)"

definition progress_of :: "process_row \<Rightarrow> pyfloat" where
  "progress_of p =
     (case (pr_current_step p, pr_total_steps p) of
        (Some c, Some t) \<Rightarrow> if c \<noteq> 0 \<and> t > 0 then of_int c / of_int t * 100 else 0
      | _ \<Rightarrow> 0)"

text \<open>The loop over the running experiments; an exception ends it and keeps what was found.\<close>

fun running_candidates ::
    "psutil_api \<Rightarrow> tracker \<Rightarrow> pyfloat \<Rightarrow> (string, process_row) pydict \<Rightarrow> (string \<times> run_row) list \<Rightarrow> candidate list" where
  "running_candidates PS T now procs [] = []"
| "running_candidates PS T now procs ((k, r) # rest) =
     (case map_of procs k of
        None \<Rightarrow> create_orphaned_candidate T k r # running_candidates PS T now procs rest
      | Some p \<Rightarrow>
          let s = tracked_state PS T now p in
          if s \<in> set [STALE, ORPHANED, TERMINATED] then
            (case create_recovery_candidate T k (pr_pid p) (pr_hostname p) s (rr_status r) (pr_last_heartbeat p)
                    (progress_of p) (pr_gpu_id p) (pr_working_dir p) of
               None \<Rightarrow> []
             | Some c \<Rightarrow> c # running_candidates PS T now procs rest)
          else running_candidates PS T now procs rest)"

section \<open>The scan of PID files\<close>

text \<open>\<open>Path(name).stem\<close>: the name without its last suffix.\<close>

definition path_stem :: "string \<Rightarrow> string" where
  "path_stem name =
     (let tail = takeWhile (\<lambda>c. c \<noteq> CHR ''.'') (rev name); i = length name - length tail - 1
      in if CHR ''.'' \<in> set name \<and> 0 < i \<and> tail \<noteq> [] then take i name else name)"

definition is_pid_file :: "string \<Rightarrow> bool" where
  "is_pid_file name \<longleftrightarrow>
     prefix ''.lammps.'' name \<and> suffix ''.pid'' name \<and> length name \<ge> length ''.lammps.'' + length ''.pid''"

definition exp_id_of_file :: "string \<Rightarrow> string" where
  "exp_id_of_file name = str_replace ''.pid'' [] (str_replace ''.lammps.'' [] (path_stem name))"

text \<open>The fields of a file with at least three lines; \<open>None\<close>: skipped, or \<open>int\<close> raised and was logged.\<close>

definition parse_pid_file :: "string \<Rightarrow> (int \<times> string \<times> string) option" where
  "parse_pid_file content =
     (case split_on newline (str_strip content) of
        a # b # c # rest \<Rightarrow> map_option (\<lambda>pid. (pid, b, c)) (py_int_of a)
      | _ \<Rightarrow> None)"

definition scan_pid_file :: "tracker \<Rightarrow> (string, process_row) pydict \<Rightarrow> string \<times> string \<Rightarrow> candidate list" where
  "scan_pid_file T procs f =
     (case parse_pid_file (snd f) of
        None \<Rightarrow> []
      | Some (pid, hostname, working_dir) \<Rightarrow>
          let exp_id = exp_id_of_file (fst f) in
          if dict_has procs exp_id then []
          else (case create_recovery_candidate T exp_id pid hostname ORPHANED ''unknown'' None 0 None working_dir of
                  None \<Rightarrow> [] | Some c \<Rightarrow> [c]))"

definition scan_pid_files :: "tracker \<Rightarrow> (string, process_row) pydict \<Rightarrow> pid_files \<Rightarrow> candidate list" where
  "scan_pid_files T procs files = concat (map (scan_pid_file T procs) (filter (\<lambda>(n, c). is_pid_file n) files))"

definition running_runs :: "tables \<Rightarrow> (string \<times> run_row) list" where
  "running_runs db = filter (\<lambda>(k, r). rr_status r = ''running'') (tb_runs db)"

definition detect_orphaned_processes ::
    "psutil_api \<Rightarrow> tracker \<Rightarrow> pyfloat \<Rightarrow> tables \<times> pid_files \<Rightarrow> candidate list" where
  "detect_orphaned_processes PS T now st =
     running_candidates PS T now (tb_procs (fst st)) (running_runs (fst st)) @
     scan_pid_files T (tb_procs (fst st)) (snd st)"

section \<open>Clean-up\<close>

definition outdated :: "tracker \<Rightarrow> pyfloat \<Rightarrow> process_row \<Rightarrow> bool" where
  "outdated T now p \<longleftrightarrow>
     (case pr_last_heartbeat p of
        None \<Rightarrow> False
      | Some t \<Rightarrow> t < now - of_int (heartbeat_timeout_minutes (tk_policy T) * 2) * 60)"

fun cleanup_loop ::
    "psutil_api \<Rightarrow> tracker \<Rightarrow> (string \<times> process_row) list \<Rightarrow> tables \<times> pid_files \<Rightarrow> nat \<Rightarrow> nat \<times> tables \<times> pid_files" where
  "cleanup_loop PS T [] st n = (n, st)"
| "cleanup_loop PS T ((k, p) # rest) st n =
     (if detect_process_state PS T (pr_pid p) (pr_hostname p) = TERMINATED
      then cleanup_loop PS T rest (drop_process k (fst st), remove_pid_file T k (snd st)) (n + 1)
      else cleanup_loop PS T rest st n)"

definition cleanup_stale_records ::
    "psutil_api \<Rightarrow> tracker \<Rightarrow> pyfloat \<Rightarrow> tables \<times> pid_files \<Rightarrow> nat \<times> tables \<times> pid_files" where
  "cleanup_stale_records PS T now st =
     cleanup_loop PS T (filter (\<lambda>(k, p). outdated T now p) (tb_procs (fst st))) st 0"

section \<open>Lemmas\<close>

lemma live_duplicate_Some:
  "live_duplicate PS info pid hostname \<noteq> None \<longleftrightarrow>
     (\<exists>p. info = Some p \<and> pr_pid p \<noteq> 0 \<and> pr_pid p \<noteq> pid \<and> pr_hostname p = hostname \<and> is_live_lmp PS (pr_pid p))"
  by (auto simp: live_duplicate_def split: option.splits)

lemma gpu_conflict_Some: "gpu_conflict a gpu \<noteq> None \<longleftrightarrow> gpu \<noteq> None \<and> a \<noteq> gpu"
  by (auto simp: gpu_conflict_def split: option.splits)

lemma registered_row_facts:
  "pr_pid (registered_row T now info pid h w gpu n) = pid" "pr_hostname (registered_row T now info pid h w gpu n) = h"
  "pr_gpu_id (registered_row T now info pid h w gpu n) = gpu"
  "pr_last_heartbeat (registered_row T now info pid h w gpu n) = Some now"
  "pr_instance_id (registered_row T now info pid h w gpu n) = tk_instance_id T"
  by (simp_all add: registered_row_def split: option.splits)

lemma status_change_gpu:
  assumes "status_change_laws upd" "upd r s a = Some r'"
  shows "rr_gpu r' = rr_gpu r"
proof -
  have "r' = r\<lparr>rr_status := s\<rparr>" using assms unfolding status_change_laws_def by blast
  then show ?thesis by simp
qed

lemma started_run_gpu: "status_change_laws upd \<Longrightarrow> rr_gpu (started_run upd now pid h w r) = rr_gpu r"
  by (auto simp: started_run_def Let_def dest: status_change_gpu split: option.splits)

lemma recovery_actions_known:
  "recovery_action_of ''resume'' = Some RESUME" "recovery_action_of ''recover'' = Some RECOVER_RESULTS"
  "recovery_action_of ''restart'' = Some RESTART" "recovery_action_of ''abandon'' = Some ABANDON"
  "recovery_action_of ''ignore'' = Some IGNORE"
  by (simp_all add: recovery_action_of_def recovery_action_value_def)

lemmas action_policy_defs = process_state_value_def get_available_actions_def get_recommended_action_def

lemma create_candidate_cases:
  "\<exists>c. create_recovery_candidate T k pid h s st seen x g w = Some c \<and>
     ca_exp_id c = k \<and> ca_pid c = pid \<and> ca_hostname c = h \<and> ca_state c = s \<and> ca_working_dir c = w \<and>
     ca_progress c = (if x > 0 then Some x else None) \<and>
     ca_recommended c = (case s of RUNNING \<Rightarrow> RESUME | STALE \<Rightarrow> if x > 50 then RESUME else RESTART
       | TERMINATED \<Rightarrow> if x \<ge> min_progress_for_result_recovery (tk_policy T) then RECOVER_RESULTS else RESTART
       | ORPHANED \<Rightarrow> ABANDON | UNKNOWN_STATE \<Rightarrow> IGNORE) \<and>
     ca_recommended c \<in> set (ca_available c)"
  by (cases s) (simp_all add: create_recovery_candidate_def action_policy_defs recovery_actions_known)

lemma detect_not_stale: "detect_process_state PS T pid h \<noteq> STALE" "detect_process_state PS T pid h \<noteq> ORPHANED"
  by (auto simp: detect_process_state_def state_of_error_def split: sum.splits)

text \<open>The candidate of one running experiment, if it has one.\<close>

definition run_candidate ::
    "psutil_api \<Rightarrow> tracker \<Rightarrow> pyfloat \<Rightarrow> (string, process_row) pydict \<Rightarrow> string \<times> run_row \<Rightarrow> candidate list" where
  "run_candidate PS T now procs x =
     (case map_of procs (fst x) of
        None \<Rightarrow> [create_orphaned_candidate T (fst x) (snd x)]
      | Some p \<Rightarrow>
          if tracked_state PS T now p \<in> {STALE, TERMINATED}
          then [the (create_recovery_candidate T (fst x) (pr_pid p) (pr_hostname p) (tracked_state PS T now p)
                  (rr_status (snd x)) (pr_last_heartbeat p) (progress_of p) (pr_gpu_id p) (pr_working_dir p))]
          else [])"

lemma create_candidate_not_None: "create_recovery_candidate T k pid h s st seen x g w \<noteq> None"
  using create_candidate_cases [of T k pid h s st seen x g w] by auto

lemma running_candidates_concat:
  "running_candidates PS T now procs xs = concat (map (run_candidate PS T now procs) xs)"
proof (induction xs)
  case (Cons x xs)
  obtain k r where x: "x = (k, r)" by (cases x)
  show ?case
  proof (cases "map_of procs k")
    case None
    with Cons x show ?thesis by (simp add: run_candidate_def)
  next
    case (Some p)
    have "tracked_state PS T now p \<noteq> ORPHANED"
      by (simp add: tracked_state_def Let_def detect_not_stale)
    then have "tracked_state PS T now p \<in> set [STALE, ORPHANED, TERMINATED] \<longleftrightarrow> tracked_state PS T now p \<in> {STALE, TERMINATED}"
      by simp
    moreover obtain c where "create_recovery_candidate T k (pr_pid p) (pr_hostname p) (tracked_state PS T now p)
        (rr_status r) (pr_last_heartbeat p) (progress_of p) (pr_gpu_id p) (pr_working_dir p) = Some c"
      using create_candidate_cases by blast
    ultimately show ?thesis using Some Cons x
      by (simp add: run_candidate_def Let_def del: set_simps)
  qed
qed simp

lemma tracked_state_cases:
  "tracked_state PS T now p = STALE \<longleftrightarrow>
     detect_process_state PS T (pr_pid p) (pr_hostname p) = RUNNING \<and> stale_heartbeat T now p"
  "tracked_state PS T now p = TERMINATED \<longleftrightarrow> detect_process_state PS T (pr_pid p) (pr_hostname p) = TERMINATED"
  by (simp_all add: tracked_state_def Let_def detect_not_stale)

lemma drop_process_proj:
  "tb_procs (drop_process k db) = filter (\<lambda>(j, p). j \<noteq> k) (tb_procs db)" "tb_runs (drop_process k db) = tb_runs db"
  by (simp_all add: drop_process_def)

lemma map_of_drop: "map_of (filter (\<lambda>(j, p). j \<noteq> k) ps) j = (if j = k then None else map_of ps j)"
  by (induction ps) auto

lemma cleanup_loop_result:
  "cleanup_loop PS T rs st n =
     (let gone = map fst (filter (\<lambda>(k, p). detect_process_state PS T (pr_pid p) (pr_hostname p) = TERMINATED) rs) in
      (n + length gone,
       (fst st)\<lparr>tb_procs := filter (\<lambda>(k, p). k \<notin> set gone) (tb_procs (fst st))\<rparr>,
       filter (\<lambda>(f, c). f \<notin> pid_file_name T ` set gone) (snd st)))"
proof (induction PS T rs st n rule: cleanup_loop.induct)
  case (2 PS T k p rest st n)
  have "(\<lambda>(x, y). P x \<and> (case (x, y) of (a, b) \<Rightarrow> Q a)) = (\<lambda>(x, y). P x \<and> Q x)" for P Q :: "'z \<Rightarrow> bool"
    by auto
  with 2 show ?case
    by (auto simp: Let_def drop_process_def remove_pid_file_def filter_filter case_prod_beta conj_commute
        intro!: filter_cong)
qed (simp add: case_prod_beta)

section \<open>Properties\<close>

text \<open>
  Registration is refused exactly when another live LAMMPS process is registered for the
  experiment on the same host, or the GPU passed is not the one allocated; a refusal leaves the
  tables unchanged, a success stores the new process, agrees with the allocated GPU and changes
  no other experiment.
\<close>

theorem registration_conflict_exact:
  assumes "status_change_laws upd"
  shows "case register_process PS upd writable T now exp_id pid hostname working_dir gpu n (db, files) of (r, db', files') \<Rightarrow>
    (r \<noteq> None \<longleftrightarrow>
       (\<exists>p. map_of (tb_procs db) exp_id = Some p \<and> pr_pid p \<noteq> 0 \<and> pr_pid p \<noteq> pid \<and> pr_hostname p = hostname \<and>
          is_live_lmp PS (pr_pid p)) \<or>
       (\<exists>row. map_of (tb_runs db) exp_id = Some row \<and> gpu \<noteq> None \<and> rr_gpu row \<noteq> gpu)) \<and>
    (r \<noteq> None \<longrightarrow> db' = db) \<and>
    (r = None \<longrightarrow>
       (\<exists>p. map_of (tb_procs db') exp_id = Some p \<and> pr_pid p = pid \<and> pr_hostname p = hostname \<and> pr_gpu_id p = gpu \<and>
          pr_last_heartbeat p = Some now \<and> pr_instance_id p = tk_instance_id T) \<and>
       (\<forall>row. map_of (tb_runs db') exp_id = Some row \<longrightarrow> gpu \<noteq> None \<longrightarrow> rr_gpu row = gpu) \<and>
       (\<forall>k. k \<noteq> exp_id \<longrightarrow> map_of (tb_procs db') k = map_of (tb_procs db) k \<and>
          map_of (tb_runs db') k = map_of (tb_runs db) k))"
proof -
  let ?dup = "live_duplicate PS (map_of (tb_procs db) exp_id) pid hostname"
  show ?thesis
  proof (cases "?dup")
    case (Some other)
    then have "?dup \<noteq> None" by simp
    with Some show ?thesis
      unfolding live_duplicate_Some by (simp add: register_process_def Let_def)
  next
    case None
    then have no: "\<not> (\<exists>p. map_of (tb_procs db) exp_id = Some p \<and> pr_pid p \<noteq> 0 \<and> pr_pid p \<noteq> pid \<and>
        pr_hostname p = hostname \<and> is_live_lmp PS (pr_pid p))"
      using live_duplicate_Some by blast
    show ?thesis
    proof (cases "map_of (tb_runs db) exp_id")
      case None
      with \<open>?dup = None\<close> no show ?thesis
        by (simp add: register_process_def Let_def update_conv' registered_row_facts)
    next
      case (Some row)
      show ?thesis
      proof (cases "gpu_conflict (rr_gpu row) gpu")
        case None
        then have "gpu = None \<or> rr_gpu row = gpu" using gpu_conflict_Some by metis
        with None Some \<open>?dup = None\<close> no show ?thesis
          by (auto simp: register_process_def Let_def update_conv' registered_row_facts started_run_gpu [OF assms])
      next
        case (Some c)
        then have "gpu \<noteq> None \<and> rr_gpu row \<noteq> gpu" using gpu_conflict_Some by (metis option.distinct(1))
        with Some \<open>map_of (tb_runs db) exp_id = Some row\<close> \<open>?dup = None\<close> show ?thesis
          by (simp add: register_process_def Let_def)
      qed
    qed
  qed
qed

text \<open>The PID file is written before the check: a rejected run replaces the one of the live run.\<close>

lemma rejected_run_overwrites_pid_file:
  "case register_process PS upd True T now exp_id pid hostname working_dir gpu n (db, files) of (r, db', files') \<Rightarrow>
     map_of files' (pid_file_name T exp_id) = Some (pid_file_content T pid hostname working_dir)"
  by (auto simp: register_process_def Let_def write_pid_file_def update_conv' split: option.splits)

text \<open>A status change as the repository makes it: checked against nothing here.\<close>

definition plain_change :: status_change where
  "plain_change r s a = Some (r\<lparr>rr_status := s\<rparr>)"

definition demo_tracker :: tracker where
  "demo_tracker = \<lparr>tk_policy = DEFAULT_RECOVERY_POLICY, tk_hostname = ''node1'', tk_instance_id = ''a1b2c3d4''\<rparr>"

definition demo_psutil :: psutil_api where
  "demo_psutil = \<lparr>ps_pid_exists = (\<lambda>p. p = 100),
     ps_process_of = (\<lambda>p. if p = 100 then Inr \<lparr>pp_running = True, pp_name = Inr ''lmp'', pp_cmdline = Inr [''lmp'', ''-in'']\<rparr>
        else Inl NoSuchProcess)\<rparr>"

definition demo_proc :: "int \<Rightarrow> process_row" where
  "demo_proc pid = \<lparr>pr_pid = pid, pr_hostname = ''node1'', pr_working_dir = ''/work/e1'', pr_gpu_id = Some 0,
     pr_started_at = 0, pr_last_heartbeat = Some 0, pr_current_step = Some 40, pr_total_steps = Some 100,
     pr_temperature = None, pr_pressure = None, pr_density = None, pr_energy = None, pr_instance_id = ''00000000''\<rparr>"

definition demo_run :: run_row where
  "demo_run = \<lparr>rr_status = ''running'', rr_pid = Some 100, rr_hostname = Some ''node1'', rr_working_dir = Some ''/work/e1'',
     rr_start_time = Some 0, rr_heartbeat = Some 0, rr_gpu = Some 0, rr_attempt = None, rr_task = Some ''t1'',
     rr_log_file = None, rr_completed_at = None, rr_recovery_status = None, rr_error = None, rr_retry_count = None,
     rr_data_file = Some ''/work/e1/system.data'', rr_artifact = PNone, rr_metadata = PNone,
     rr_inputs = \<lparr>ri_asphaltene = Some 20, ri_resin = Some 30, ri_aromatic = Some 30, ri_saturate = Some 20,
       ri_run_tier = Some ''confirm'', ri_ff_type = None, ri_target_atoms = None, ri_seed = Some 42,
       ri_temperature = Some 298, ri_pressure = None\<rparr>\<rparr>"

definition demo_tables :: tables where
  "demo_tables = \<lparr>tb_procs = [(''e1'', demo_proc 100), (''e2'', demo_proc 101)],
     tb_runs = [(''e1'', demo_run), (''e2'', demo_run), (''e3'', demo_run)]\<rparr>"

lemmas demo_tracking_defs = demo_tracker_def demo_psutil_def demo_proc_def demo_run_def demo_tables_def

lemma plain_change_laws: "status_change_laws plain_change"
  by (simp add: status_change_laws_def plain_change_def)

theorem registration_conflict_exact_witness:
  "fst (register_process demo_psutil plain_change True demo_tracker 10 ''e1'' 102 ''node1'' ''/work/e1b'' None None
     (demo_tables, [])) \<noteq> None"
proof -
  have "is_live_lmp demo_psutil 100" by code_simp
  then have "\<exists>p. map_of (tb_procs demo_tables) ''e1'' = Some p \<and> pr_pid p \<noteq> 0 \<and> pr_pid p \<noteq> 102 \<and>
      pr_hostname p = ''node1'' \<and> is_live_lmp demo_psutil (pr_pid p)"
    by (simp add: demo_tables_def demo_proc_def)
  with registration_conflict_exact [OF plain_change_laws, where PS = demo_psutil and writable = True and T = demo_tracker
      and now = 10 and exp_id = "''e1''" and pid = 102 and hostname = "''node1''" and working_dir = "''/work/e1b''"
      and gpu = None and n = None and db = demo_tables and files = "[]"] show ?thesis
    by (auto split: prod.splits)
qed

text \<open>
  Among the running experiments, in table order, exactly those without a process record
  (orphaned), with a process that is gone or no longer LAMMPS (terminated), or with a live
  process and an old heartbeat (stale) become candidates.
\<close>

theorem orphan_detection_exact:
  shows "map (\<lambda>c. (ca_exp_id c, ca_state c)) (running_candidates PS T now (tb_procs db) (running_runs db)) =
    concat (map (\<lambda>(k, r). case map_of (tb_procs db) k of
        None \<Rightarrow> [(k, ORPHANED)]
      | Some p \<Rightarrow>
          (case detect_process_state PS T (pr_pid p) (pr_hostname p) of
             TERMINATED \<Rightarrow> [(k, TERMINATED)]
           | RUNNING \<Rightarrow> if stale_heartbeat T now p then [(k, STALE)] else []
           | _ \<Rightarrow> []))
      (filter (\<lambda>(k, r). rr_status r = ''running'') (tb_runs db)))"
proof -
  have one: "map (\<lambda>c. (ca_exp_id c, ca_state c)) (run_candidate PS T now (tb_procs db) x) =
     (case map_of (tb_procs db) (fst x) of
        None \<Rightarrow> [(fst x, ORPHANED)]
      | Some p \<Rightarrow>
          (case detect_process_state PS T (pr_pid p) (pr_hostname p) of
             TERMINATED \<Rightarrow> [(fst x, TERMINATED)]
           | RUNNING \<Rightarrow> if stale_heartbeat T now p then [(fst x, STALE)] else []
           | _ \<Rightarrow> []))" for x
  proof (cases "map_of (tb_procs db) (fst x)")
    case None
    then show ?thesis by (simp add: run_candidate_def create_orphaned_candidate_def)
  next
    case (Some p)
    let ?s = "tracked_state PS T now p"
    obtain c where "create_recovery_candidate T (fst x) (pr_pid p) (pr_hostname p) ?s
        (rr_status (snd x)) (pr_last_heartbeat p) (progress_of p) (pr_gpu_id p) (pr_working_dir p) = Some c"
      "ca_exp_id c = fst x" "ca_state c = ?s"
      using create_candidate_cases by blast
    then show ?thesis using Some
      by (simp add: run_candidate_def) (simp add: tracked_state_def Let_def detect_not_stale split: process_state.split)
  qed
  show ?thesis
    unfolding running_candidates_concat running_runs_def map_concat
    by (simp add: one comp_def case_prod_beta cong: map_cong)
qed

text \<open>What every candidate satisfies.\<close>

definition candidate_ok :: "tracker \<Rightarrow> candidate \<Rightarrow> bool" where
  "candidate_ok T c \<longleftrightarrow>
     ca_recommended c \<in> set (ca_available c) \<and> ca_state c \<in> {STALE, ORPHANED, TERMINATED} \<and>
     (ca_state c = ORPHANED \<longleftrightarrow> ca_recommended c = ABANDON) \<and>
     (ca_recommended c = RESUME \<longleftrightarrow> ca_state c = STALE \<and> (\<exists>x. ca_progress c = Some x \<and> x > 50)) \<and>
     (ca_recommended c = RECOVER_RESULTS \<longleftrightarrow> ca_state c = TERMINATED \<and>
        (\<exists>x. ca_progress c = Some x \<and> x \<ge> min_progress_for_result_recovery (tk_policy T)))"

lemma create_candidate_ok:
  assumes "0 < min_progress_for_result_recovery (tk_policy T)" "s \<in> {STALE, ORPHANED, TERMINATED}"
    "create_recovery_candidate T k pid h s st seen x g w = Some c"
  shows "candidate_ok T c"
  using create_candidate_cases [of T k pid h s st seen x g w] assms
  by (auto simp: candidate_ok_def)

text \<open>
  Every candidate recommends an action it offers and is stale, orphaned or terminated;
  abandoning is recommended exactly for orphans, resuming exactly for stale runs past 50
  percent, recovering results exactly for terminated runs past the threshold.
\<close>

theorem candidates_well_formed:
  assumes "0 < min_progress_for_result_recovery (tk_policy T)"
  shows "list_all (\<lambda>c. ca_recommended c \<in> set (ca_available c) \<and> ca_state c \<in> {STALE, ORPHANED, TERMINATED} \<and>
     (ca_state c = ORPHANED \<longleftrightarrow> ca_recommended c = ABANDON) \<and>
     (ca_recommended c = RESUME \<longleftrightarrow> ca_state c = STALE \<and> (\<exists>x. ca_progress c = Some x \<and> x > 50)) \<and>
     (ca_recommended c = RECOVER_RESULTS \<longleftrightarrow> ca_state c = TERMINATED \<and>
        (\<exists>x. ca_progress c = Some x \<and> x \<ge> min_progress_for_result_recovery (tk_policy T))))
    (detect_orphaned_processes PS T now (db, files))"
proof -
  have run: "candidate_ok T c" if "c \<in> set (run_candidate PS T now procs x)" for c procs x
  proof (cases "map_of procs (fst x)")
    case None
    with that show ?thesis by (simp add: run_candidate_def candidate_ok_def create_orphaned_candidate_def)
  next
    case (Some p)
    with that have s: "tracked_state PS T now p \<in> {STALE, TERMINATED}" by (auto simp: run_candidate_def split: if_splits)
    obtain d where d: "create_recovery_candidate T (fst x) (pr_pid p) (pr_hostname p) (tracked_state PS T now p)
        (rr_status (snd x)) (pr_last_heartbeat p) (progress_of p) (pr_gpu_id p) (pr_working_dir p) = Some d"
      using create_candidate_cases by blast
    have "c = d" using that Some s d by (simp add: run_candidate_def)
    with create_candidate_ok [OF assms _ d] s show ?thesis by auto
  qed
  have scan: "candidate_ok T c" if "c \<in> set (scan_pid_file T procs f)" for c procs f
    using that create_candidate_ok [OF assms]
    by (fastforce simp: scan_pid_file_def Let_def split: option.splits if_splits)
  have "\<forall>c\<in>set (detect_orphaned_processes PS T now (db, files)). candidate_ok T c"
    unfolding detect_orphaned_processes_def running_candidates_concat scan_pid_files_def
    using run scan by auto
  then show ?thesis unfolding candidate_ok_def list_all_iff .
qed

theorem candidates_well_formed_witness:
  "list_all (\<lambda>c. ca_recommended c \<in> set (ca_available c))
     (detect_orphaned_processes demo_psutil demo_tracker 1000 (demo_tables, []))"
proof -
  have "0 < min_progress_for_result_recovery (tk_policy demo_tracker)"
    by (simp add: demo_tracker_def DEFAULT_RECOVERY_POLICY_def)
  from candidates_well_formed [OF this] show ?thesis by (simp add: list_all_iff)
qed

text \<open>The PID file of a run, read back.\<close>

lemma default_file_name:
  assumes "pid_file_pattern (tk_policy T) = ''.lammps.{exp_id}.pid''"
  shows "pid_file_name T e = ''.lammps.'' @ e @ ''.pid''"
  by (simp add: pid_file_name_def assms str_replace.simps(2))

lemma stem_of_pid_file: "path_stem (''.lammps.'' @ e @ ''.pid'') = ''.lammps.'' @ e"
  by (simp add: path_stem_def Let_def)

lemma file_name_round_trip:
  assumes "pid_file_pattern (tk_policy T) = ''.lammps.{exp_id}.pid''"
    "\<not> str_contains ''.lammps.'' e" "\<not> str_contains ''.pid'' e"
  shows "exp_id_of_file (pid_file_name T e) = e" "is_pid_file (pid_file_name T e)"
proof -
  have "str_replace ''.lammps.'' [] (''.lammps.'' @ e) = e"
    using str_replace_absent [OF assms(2)] by (simp add: str_replace.simps(2))
  then show "exp_id_of_file (pid_file_name T e) = e"
    using str_replace_absent [OF assms(3)]
    by (simp only: exp_id_of_file_def default_file_name [OF assms(1)] stem_of_pid_file)
  show "is_pid_file (pid_file_name T e)"
    by (simp add: is_pid_file_def default_file_name [OF assms(1)] suffix_def)
qed

lemma strip_one_newline:
  assumes "s \<noteq> []" "\<not> is_space (hd s)" "\<not> is_space (last s)"
  shows "str_strip (s @ [newline]) = s"
proof -
  have keep: "dropWhile is_space (xs @ ys) = xs @ ys" if "xs \<noteq> []" "\<not> is_space (hd xs)" for xs ys
    using that by (cases xs) auto
  have n: "is_space newline" by (simp add: is_space_def newline_def)
  from assms keep [of s "[newline]"] keep [of "rev s" "[]"] show ?thesis
    by (simp add: str_strip_def n hd_rev)
qed

lemma show_int_head: "show_int n \<noteq> [] \<and> \<not> is_space (hd (show_int n)) \<and> newline \<notin> set (show_int n)"
proof -
  have d: "\<forall>c\<in>set (show_nat m). is_digit c" for m using show_nat_digits(1) [of m] by (simp only: list_all_iff)
  have "\<not> is_space c" if "is_digit c" for c using that by (auto simp: is_space_def is_digit_def Let_def)
  with d have "\<forall>c\<in>set (show_int n). \<not> is_space c" by (simp add: show_int_def) (simp add: is_space_def)
  moreover have ne: "show_int n \<noteq> []" by (simp add: show_int_def)
  moreover have "is_space newline" by (simp add: newline_def is_space_def)
  ultimately show ?thesis by auto
qed

lemma parse_written_file:
  assumes "newline \<notin> set h" "newline \<notin> set w" "tk_instance_id T \<noteq> []" "\<forall>c\<in>set (tk_instance_id T). \<not> is_space c"
  shows "parse_pid_file (pid_file_content T pid h w) = Some (pid, h, w)"
proof -
  let ?i = "tk_instance_id T"
  let ?s = "show_int pid @ newline # h @ newline # w @ newline # ?i"
  have c: "pid_file_content T pid h w = ?s @ [newline]" by (simp add: pid_file_content_def)
  have "\<not> is_space (last ?s)" using assms(3,4) by simp
  then have "str_strip (?s @ [newline]) = ?s"
    using show_int_head [of pid] by (intro strip_one_newline) simp_all
  moreover have "newline \<notin> set ?i" using assms(4) by (auto simp: newline_def is_space_def)
  ultimately show ?thesis
    using show_int_head [of pid] assms(1,2)
    by (simp add: parse_pid_file_def c split_on_cons split_on_single int_of_show_int del: append.simps append_assoc)
qed

text \<open>
  The PID file written for a run is read back by the scan as an orphan with the same
  experiment, process, host and directory, and is passed over when the experiment has a process
  record.
\<close>

theorem pid_file_round_trip:
  assumes "pid_file_pattern (tk_policy T) = ''.lammps.{exp_id}.pid''"
    "\<not> str_contains ''.lammps.'' e" "\<not> str_contains ''.pid'' e" "newline \<notin> set h" "newline \<notin> set w"
    "tk_instance_id T \<noteq> []" "\<forall>c\<in>set (tk_instance_id T). \<not> is_space c"
  shows "scan_pid_files U procs (write_pid_file True T e pid h w []) =
    (if dict_has procs e then []
     else [\<lparr>ca_exp_id = e, ca_pid = pid, ca_hostname = h, ca_state = ORPHANED, ca_db_status = ''unknown'',
            ca_last_seen = None, ca_progress = None, ca_gpu = None, ca_working_dir = w,
            ca_available = [ABANDON, IGNORE], ca_recommended = ABANDON,
            ca_reason = ''Process not found - likely crashed or killed''\<rparr>])"
proof -
  have "write_pid_file True T e pid h w [] = [(pid_file_name T e, pid_file_content T pid h w)]"
    by (simp add: write_pid_file_def)
  then show ?thesis
    by (simp add: scan_pid_files_def scan_pid_file_def file_name_round_trip [OF assms(1-3)]
        parse_written_file [OF assms(4-7)] create_recovery_candidate_def action_policy_defs recovery_actions_known
        recommendation_reason_def)
qed

theorem pid_file_round_trip_witness:
  "map ca_exp_id (scan_pid_files demo_tracker [] (write_pid_file True demo_tracker ''AAA1_E1'' 4242 ''node1'' ''/w d'' [])) =
     [''AAA1_E1'']"
proof -
  have p: "pid_file_pattern (tk_policy demo_tracker) = ''.lammps.{exp_id}.pid''"
    by (simp add: demo_tracker_def DEFAULT_RECOVERY_POLICY_def)
  have e: "\<not> str_contains ''.lammps.'' ''AAA1_E1''" "\<not> str_contains ''.pid'' ''AAA1_E1''"
    by (simp_all add: str_contains.simps)
  have n: "newline \<notin> set ''node1''" "newline \<notin> set ''/w d''" by (simp_all add: newline_def)
  have i: "tk_instance_id demo_tracker \<noteq> []" "\<forall>c\<in>set (tk_instance_id demo_tracker). \<not> is_space c"
    by (simp_all add: demo_tracker_def is_space_def)
  show ?thesis using pid_file_round_trip [OF p e n i, of demo_tracker "[]" 4242] by (simp add: dict_has_def)
qed

text \<open>
  The clean-up removes exactly the process records whose heartbeat is older than twice the
  timeout and whose process has terminated, with their PID files, and returns their number.
\<close>

theorem cleanup_removes_exactly_the_dead:
  "case cleanup_stale_records PS T now (db, files) of (n, db', files') \<Rightarrow>
    (let dead = filter (\<lambda>(k, p). (\<exists>t. pr_last_heartbeat p = Some t \<and>
             t < now - of_int (heartbeat_timeout_minutes (tk_policy T) * 2) * 60) \<and>
           detect_process_state PS T (pr_pid p) (pr_hostname p) = TERMINATED) (tb_procs db)
     in n = length dead \<and> tb_runs db' = tb_runs db \<and>
        (\<forall>k. map_of (tb_procs db') k = (if k \<in> fst ` set dead then None else map_of (tb_procs db) k)) \<and>
        (\<forall>f. map_of files' f = (if f \<in> pid_file_name T ` fst ` set dead then None else map_of files f)))"
proof -
  let ?dead = "filter (\<lambda>(k, p). (\<exists>t. pr_last_heartbeat p = Some t \<and>
             t < now - of_int (heartbeat_timeout_minutes (tk_policy T) * 2) * 60) \<and>
           detect_process_state PS T (pr_pid p) (pr_hostname p) = TERMINATED) (tb_procs db)"
  have o: "outdated T now p \<longleftrightarrow> (\<exists>t. pr_last_heartbeat p = Some t \<and>
      t < now - of_int (heartbeat_timeout_minutes (tk_policy T) * 2) * 60)" for p
    by (auto simp: outdated_def split: option.splits)
  have d: "filter (\<lambda>(k, p). detect_process_state PS T (pr_pid p) (pr_hostname p) = TERMINATED)
      (filter (\<lambda>(k, p). outdated T now p) (tb_procs db)) = ?dead"
    unfolding filter_filter o by (rule filter_cong) auto
  have m: "map_of (filter (\<lambda>(k, c). k \<notin> A) xs) j = (if j \<in> A then None else map_of xs j)"
    for A :: "string set" and xs :: "(string \<times> 'z) list" and j
    by (induction xs) auto
  have r: "cleanup_stale_records PS T now (db, files) =
      (length ?dead, db\<lparr>tb_procs := filter (\<lambda>(k, p). k \<notin> fst ` set ?dead) (tb_procs db)\<rparr>,
       filter (\<lambda>(f, c). f \<notin> pid_file_name T ` fst ` set ?dead) files)"
    unfolding cleanup_stale_records_def cleanup_loop_result Let_def fst_conv snd_conv d by simp
  show ?thesis unfolding r by (simp add: m Let_def del: set_filter)
qed

theorem heartbeat_keeps_a_run_off_the_list:
  assumes "map_of (tb_procs db) e = Some p" "pid = None \<or> pid = Some (pr_pid p)"
    "now' \<le> now + of_int (stale_threshold_minutes (tk_policy T)) * 60"
  shows "(let db' = update_heartbeat now e step pid t pr d en db in
    (\<exists>q. map_of (tb_procs db') e = Some q \<and> pr_pid q = pr_pid p \<and> pr_last_heartbeat q = Some now \<and>
       (case step of None \<Rightarrow> pr_current_step q = pr_current_step p | Some n \<Rightarrow> pr_current_step q = Some n) \<and>
       tracked_state PS T now' q = detect_process_state PS T (pr_pid p) (pr_hostname p)) \<and>
    (\<forall>other. other \<noteq> pr_pid p \<longrightarrow> update_heartbeat now e step (Some other) t pr d en db = db))"
proof -
  let ?q = "beat_row now step t pr d en p"
  have q: "pr_pid ?q = pr_pid p" "pr_hostname ?q = pr_hostname p" "pr_last_heartbeat ?q = Some now"
    "(case step of None \<Rightarrow> pr_current_step ?q = pr_current_step p | Some n \<Rightarrow> pr_current_step ?q = Some n)"
    by (simp_all add: beat_row_def Let_def split: option.splits)
  have "\<not> stale_heartbeat T now' ?q" using assms(3) q(3) by (simp add: stale_heartbeat_def)
  then have s: "tracked_state PS T now' ?q = detect_process_state PS T (pr_pid p) (pr_hostname p)"
    using q(1,2) by (simp add: tracked_state_def Let_def)
  have "map_of (tb_procs (update_heartbeat now e step pid t pr d en db)) e = Some ?q"
    using assms(1,2) by (auto simp: update_heartbeat_def Let_def map_of_dict_modify)
  moreover have "update_heartbeat now e step (Some other) t pr d en db = db" if "other \<noteq> pr_pid p" for other
    using assms(1) that by (auto simp: update_heartbeat_def Let_def)
  ultimately show ?thesis using q s by (simp add: Let_def)
qed

theorem heartbeat_keeps_a_run_off_the_list_witness:
  "update_heartbeat 50 ''e1'' (Some 60) (Some 999) None None None None demo_tables = demo_tables"
proof -
  have p: "map_of (tb_procs demo_tables) ''e1'' = Some (demo_proc 100)" "pr_pid (demo_proc 100) = 100"
    by (simp_all add: demo_tables_def demo_proc_def)
  have "(100 :: pyfloat) \<le> 50 + of_int (stale_threshold_minutes (tk_policy demo_tracker)) * 60"
    by (simp add: demo_tracker_def DEFAULT_RECOVERY_POLICY_def)
  from heartbeat_keeps_a_run_off_the_list [OF p(1), of None, OF _ this] p(2) show ?thesis by (simp add: Let_def)
qed

end
