(* ===== verification/ProcessRecovery.thy ===== *)
theory ProcessRecovery
  imports ProcessTracker StagePlan
begin

text \<open>
  Recovery of experiments whose process was lost, \<^verbatim>\<open>src/src/orchestrator/process_recovery.py\<close>,
  with the requests a fresh rerun is submitted with
  (\<^verbatim>\<open>src/src/orchestrator/request_factory.py\<close>). Each action returns its result, the tables
  and PID files after it, and what it did outside them, in order: processes terminated, GPUs
  released, runs submitted. Reading LAMMPS logs, generating the restart script and queueing
  the task are arguments.
\<close>

section \<open>Requests\<close>

record build_request =
  br_composition :: "(string, pyfloat) pydict"
  br_composition_mode :: string
  br_target_atoms :: int
  br_seed :: int
  br_box :: "(pyfloat \<times> pyfloat \<times> pyfloat) option"
  br_prebuilt :: "string option"
  br_density :: pyfloat

datatype request_error = TierFault string | FfTypeFault string | SchemaFault

text \<open>\<open>generate_seed\<close>: today's date, an argument, stands in for a missing seed.\<close>

definition generate_seed :: "int \<Rightarrow> int option \<Rightarrow> int" where
  "generate_seed today provided = (case provided of None \<Rightarrow> today | Some s \<Rightarrow> s)"

definition box_ok :: "(pyfloat \<times> pyfloat \<times> pyfloat) option \<Rightarrow> bool" where
  "box_ok b = (case b of None \<Rightarrow> True | Some (x, y, z) \<Rightarrow> 0 < x \<and> 0 < y \<and> 0 < z)"

definition create_build_request ::
    "int \<Rightarrow> tier_policy \<Rightarrow> (string, pyfloat) pydict \<Rightarrow> int option \<Rightarrow> int option \<Rightarrow> tier_arg \<Rightarrow> string
      \<Rightarrow> (pyfloat \<times> pyfloat \<times> pyfloat) option \<Rightarrow> string option \<Rightarrow> pyfloat option
      \<Rightarrow> (request_error, build_request) result" where
  "create_build_request today P composition seed atoms tier mode box prebuilt density =
     (case (case atoms of Some n \<Rightarrow> Inr n
            | None \<Rightarrow> (case get_target_atoms P tier of
                Inl (ValueError e) \<Rightarrow> Inl (TierFault e) | Inr n \<Rightarrow> Inr n)) of
        Inl e \<Rightarrow> Inl e
      | Inr n \<Rightarrow>
          let d = (case density of None \<Rightarrow> 1/2 | Some d \<Rightarrow> d) in
          if n \<le> 0 \<or> d \<le> 0 \<or> \<not> box_ok box then Inl SchemaFault
          else Inr \<lparr>br_composition = composition, br_composition_mode = mode, br_target_atoms = n,
                    br_seed = generate_seed today seed, br_box = box,
                    br_prebuilt = (if truthy prebuilt then prebuilt else None), br_density = d\<rparr>)"

definition FF_TYPES :: "string list" where
  "FF_TYPES = [''bulk_ff_gaff2'', ''reaxff'']"

text \<open>The part of \<open>create_protocol_request\<close> a chain is built from; \<open>e_intra\<close> is the method the
  settings resolve to.\<close>

definition create_protocol_request ::
    "(string option \<Rightarrow> string) \<Rightarrow> run_tier \<Rightarrow> string \<Rightarrow> study_type \<Rightarrow> pyfloat \<Rightarrow> pyfloat \<Rightarrow> string \<Rightarrow> string option
      \<Rightarrow> tensile_spec option \<Rightarrow> layer_spec option \<Rightarrow> equilibration_settings option \<Rightarrow> string list option
      \<Rightarrow> (request_error, protocol_request) result" where
  "create_protocol_request e_intra tier ff st temperature pressure data_file method tensile layer eq skip =
     (if ff \<notin> set FF_TYPES then Inl (FfTypeFault ff)
      else if temperature \<le> 0 \<or> pressure \<le> 0 then Inl SchemaFault
      else Inr \<lparr>rq_tier = tier, rq_study_type = st, rq_temperature = temperature, rq_pressure = pressure,
                rq_ff_type = ff, rq_data_file = data_file, rq_e_intra = Some (e_intra method), rq_tensile = tensile,
                rq_layer = layer, rq_equilibration = eq,
                rq_skip = (case skip of None \<Rightarrow> None | Some [] \<Rightarrow> None | Some ks \<Rightarrow> Some ks)\<rparr>)"

text \<open>\<open>RunTier(s)\<close>\<close>

definition run_tier_of :: "string \<Rightarrow> run_tier option" where
  "run_tier_of s = List.find (\<lambda>t. run_tier_value t = s) [SCREENING, CONFIRM, VISCOSITY, VALIDATION]"

text \<open>\<open>x or d\<close> for an optional number: zero is falsy.\<close>

definition num_or :: "pyfloat option \<Rightarrow> pyfloat \<Rightarrow> pyfloat" where
  "num_or x d = (case x of None \<Rightarrow> d | Some v \<Rightarrow> if v = 0 then d else v)"

definition restart_requests ::
    "int \<Rightarrow> (string option \<Rightarrow> string) \<Rightarrow> run_row \<Rightarrow> (build_request \<times> protocol_request) option" where
  "restart_requests today e_intra r =
     (let i = rr_inputs r;
          composition = [(''asphaltene'', num_or (ri_asphaltene i) 0), (''resin'', num_or (ri_resin i) 0),
                         (''aromatic'', num_or (ri_aromatic i) 0), (''saturate'', num_or (ri_saturate i) 0)];
          ff = or_default (ri_ff_type i) ''bulk_ff_gaff2''
      in case run_tier_of (or_default (ri_run_tier i) ''screening'') of
           None \<Rightarrow> None
         | Some tier \<Rightarrow>
             if ff \<notin> set FF_TYPES then None
             else case create_build_request today DEFAULT_TIER_POLICY composition (Some (generate_seed today (ri_seed i)))
                     (ri_target_atoms i) (TierEnum tier) ''wt_percent'' None None None of
                 Inl e \<Rightarrow> None
               | Inr b \<Rightarrow>
                   (case create_protocol_request e_intra tier ff BULK (num_or (ri_temperature i) 298)
                           (num_or (ri_pressure i) 1) (or_default (rr_data_file r) []) None None None None None of
                      Inl e \<Rightarrow> None
                    | Inr p \<Rightarrow> Some (b, p)))"

section \<open>Results and effects\<close>

record recovery_result =
  rs_success :: bool
  rs_action :: recovery_action
  rs_exp_id :: string
  rs_message :: string
  rs_error :: bool

datatype effect = Terminate int | ReleaseGpu int string | Submit string

type_synonym recovery_state = "tables \<times> pid_files"
type_synonym recovery_outcome = "recovery_result \<times> recovery_state \<times> effect list"

text \<open>What the actions use of their surroundings. \<open>task_of\<close> queues a run and gives its task,
  \<open>None\<close> when queueing raises; \<open>has_thermo\<close> says that the log of a directory parses to at
  least one row; \<open>prepare\<close> generates the restart script and marks the run ready.\<close>

record recovery_env =
  rv_ps :: psutil_api
  rv_upd :: status_change
  rv_tracker :: tracker
  rv_now :: pyfloat
  rv_today :: int
  rv_e_intra :: "string option \<Rightarrow> string"
  rv_dir_exists :: "string \<Rightarrow> bool"
  rv_has_thermo :: "string \<Rightarrow> bool"
  rv_task_of :: "string \<Rightarrow> build_request \<Rightarrow> protocol_request \<Rightarrow> string option"
  rv_work_dir :: "string \<Rightarrow> string"
  rv_input_dir :: "string \<Rightarrow> string"
  rv_attempts :: "string \<Rightarrow> string list"
  rv_see_dir :: "string \<Rightarrow> attempt_dir"
  rv_prepare :: "string \<Rightarrow> restart_point \<Rightarrow> bool"

definition recovered :: "recovery_action \<Rightarrow> string \<Rightarrow> string \<Rightarrow> recovery_result" where
  "recovered a e m = \<lparr>rs_success = True, rs_action = a, rs_exp_id = e, rs_message = m, rs_error = False\<rparr>"

definition not_recovered :: "recovery_action \<Rightarrow> string \<Rightarrow> string \<Rightarrow> recovery_result" where
  "not_recovered a e m = \<lparr>rs_success = False, rs_action = a, rs_exp_id = e, rs_message = m, rs_error = True\<rparr>"

definition set_run :: "string \<Rightarrow> run_row \<Rightarrow> tables \<Rightarrow> tables" where
  "set_run e r db = db\<lparr>tb_runs := dict_set e r (tb_runs db)\<rparr>"

text \<open>The process record goes; a process on this host is terminated.\<close>

definition kill_local :: "recovery_env \<Rightarrow> process_row option \<Rightarrow> effect list" where
  "kill_local V info =
     (case info of
        None \<Rightarrow> []
      | Some p \<Rightarrow> if pr_hostname p = tk_hostname (rv_tracker V) then [Terminate (pr_pid p)] else [])"

definition release_of :: "string \<Rightarrow> run_row \<Rightarrow> effect list" where
  "release_of e r = (case rr_gpu r of None \<Rightarrow> [] | Some g \<Rightarrow> [ReleaseGpu g e])"

section \<open>Actions\<close>

definition execute_resume :: "recovery_env \<Rightarrow> string \<Rightarrow> recovery_state \<Rightarrow> recovery_outcome" where
  "execute_resume V e st =
     (let db = fst st; T = rv_tracker V in
      case map_of (tb_procs db) e of
        None \<Rightarrow> (not_recovered RESUME e ''Process info not found'', st, [])
      | Some p \<Rightarrow>
          if detect_process_state (rv_ps V) T (pr_pid p) (pr_hostname p) \<notin> set [RUNNING, STALE]
          then (not_recovered RESUME e ''Process no longer running'', st, [])
          else
            let db = db\<lparr>tb_procs := dict_set e (p\<lparr>pr_instance_id := tk_instance_id T,
                        pr_last_heartbeat := Some (rv_now V)\<rparr>) (tb_procs db)\<rparr>;
                db = (case map_of (tb_runs db) e of
                        None \<Rightarrow> db
                      | Some r \<Rightarrow> set_run e (r\<lparr>rr_heartbeat := Some (rv_now V), rr_recovery_status := Some ''resumed''\<rparr>) db)
            in (recovered RESUME e ''Process monitoring resumed successfully'', (db, snd st), []))"

definition execute_recover_results :: "recovery_env \<Rightarrow> string \<Rightarrow> recovery_state \<Rightarrow> recovery_outcome" where
  "execute_recover_results V e st =
     (let db = fst st in
      case map_of (tb_runs db) e of
        None \<Rightarrow> (not_recovered RECOVER_RESULTS e ''Experiment not found'', st, [])
      | Some r \<Rightarrow>
          if \<not> truthy (rr_working_dir r) \<or> \<not> rv_dir_exists V (the (rr_working_dir r))
          then (not_recovered RECOVER_RESULTS e ''Working directory not found'', st, [])
          else
            let metrics = rv_has_thermo V (the (rr_working_dir r)) in
            (case rv_upd V r (if metrics then ''completed'' else ''failed'') None of
               None \<Rightarrow> (not_recovered RECOVER_RESULTS e ''Failed to recover results'', st, [])
             | Some r \<Rightarrow>
                 let r = r\<lparr>rr_completed_at := Some (rv_now V), rr_recovery_status := Some ''results_recovered'',
                           rr_error := (if metrics then None else Some ''Partial recovery - no metrics extracted'')\<rparr>
                 in (recovered RECOVER_RESULTS e
                       (if metrics then ''Partial results recovered successfully''
                        else ''Recovery completed but no metrics extracted''),
                     unregister_process (rv_tracker V) e (drop_process e (set_run e r db), snd st), [])))"

text \<open>\<open>(metadata_json or {}).get("compiled_execution_plan")\<close> and the stage keys of the plan.\<close>

definition compiled_plan_of :: "run_row \<Rightarrow> pyval" where
  "compiled_plan_of r = (case rr_metadata r of PDict d \<Rightarrow> pv_get d ''compiled_execution_plan'' | _ \<Rightarrow> PNone)"

fun stage_key_list :: "pyval list \<Rightarrow> string list option" where
  "stage_key_list [] = Some []"
| "stage_key_list (s # ss) =
     (case s of
        PDict d \<Rightarrow> (case pv_get d ''stage_key'' of
            PStr n \<Rightarrow> map_option (\<lambda>ns. n # ns) (stage_key_list ss)
          | _ \<Rightarrow> None)
      | _ \<Rightarrow> None)"

definition plan_stage_keys :: "pyval \<Rightarrow> string list option" where
  "plan_stage_keys plan =
     (case plan of PDict d \<Rightarrow> (case pv_get d ''stages'' of PList ss \<Rightarrow> stage_key_list ss | _ \<Rightarrow> None) | _ \<Rightarrow> None)"

text \<open>The directories searched: the active attempt, the task's, the other attempts newest
  first, the input directory.\<close>

definition candidate_dirs :: "recovery_env \<Rightarrow> string \<Rightarrow> run_row \<Rightarrow> string list" where
  "candidate_dirs V e r =
     (let base = rv_work_dir V e;
          attempt = (\<lambda>tag. base @ ''/attempt_'' @ tag);
          seen = (\<lambda>d. ad_is_dir (rv_see_dir V d));
          active = (if truthy (rr_attempt r) then filter seen [attempt (the (rr_attempt r))] else []);
          task = (if truthy (rr_task r) \<and> rr_task r \<noteq> rr_attempt r then filter seen [attempt (the (rr_task r))] else []);
          dirs = foldl (\<lambda>ds d. if d \<in> set ds then ds else ds @ [d]) (active @ task) (rv_attempts V e);
          input = rv_input_dir V e
      in if seen input \<and> input \<notin> set dirs then dirs @ [input] else dirs)"

definition try_checkpoint_restart :: "recovery_env \<Rightarrow> string \<Rightarrow> run_row \<Rightarrow> bool" where
  "try_checkpoint_restart V e r =
     (if \<not> pv_truthy (compiled_plan_of r) then False
      else case discover_restart_point (plan_stage_keys (compiled_plan_of r))
                  (map (rv_see_dir V) (candidate_dirs V e r)) of
          None \<Rightarrow> False
        | Some rp \<Rightarrow> rv_prepare V e rp)"

definition submit_restart_task :: "recovery_env \<Rightarrow> string \<Rightarrow> run_row \<Rightarrow> string option" where
  "submit_restart_task V e r =
     (case restart_requests (rv_today V) (rv_e_intra V) r of
        None \<Rightarrow> None
      | Some (b, p) \<Rightarrow> rv_task_of V e b p)"

definition reset_run :: "run_row \<Rightarrow> run_row" where
  "reset_run r = r\<lparr>rr_pid := None, rr_hostname := None, rr_start_time := None, rr_heartbeat := None,
     rr_recovery_status := Some ''requeued'', rr_error := None,
     rr_retry_count := Some ((case rr_retry_count r of None \<Rightarrow> 0 | Some n \<Rightarrow> n) + 1)\<rparr>"

text \<open>The checkpoint first, a fresh run when there is none: the message, the row with the task of
  the fresh run, and what was queued.\<close>

definition requeue :: "recovery_env \<Rightarrow> string \<Rightarrow> run_row \<Rightarrow> string \<times> run_row \<times> effect list" where
  "requeue V e r =
     (if truthy (rr_data_file r) \<and> pv_truthy (rr_artifact r) \<and> try_checkpoint_restart V e r
      then (''Experiment queued for checkpoint restart (ready)'', r, [])
      else if \<not> truthy (rr_data_file r) then (''Experiment queued for restart'', r, [])
      else case submit_restart_task V e r of
          None \<Rightarrow> (''Experiment queued for restart'', r, [])
        | Some t \<Rightarrow>
            if t = [] then (''Experiment queued for restart'', r, [Submit e])
            else (''Experiment restarted with task '' @ t, r\<lparr>rr_task := Some t\<rparr>, [Submit e]))"

text \<open>Without an experiment row the flag \<open>checkpoint_resumed\<close> is never bound: reading it after
  the commit raises, and the failure is reported although the record is gone.\<close>

definition execute_restart :: "recovery_env \<Rightarrow> string \<Rightarrow> recovery_state \<Rightarrow> recovery_outcome" where
  "execute_restart V e st =
     (let db = fst st;
          kills = kill_local V (map_of (tb_procs db) e);
          done = (\<lambda>db. unregister_process (rv_tracker V) e (db, snd st))
      in case map_of (tb_runs db) e of
           None \<Rightarrow> (not_recovered RESTART e ''Failed to restart'', done (drop_process e db), kills)
         | Some r0 \<Rightarrow>
             (case rv_upd V r0 ''pending'' None of
                None \<Rightarrow> (not_recovered RESTART e ''Failed to restart'', st, kills)
              | Some r1 \<Rightarrow>
                  (case requeue V e (reset_run r1) of
                     (m, r, queued) \<Rightarrow>
                       (recovered RESTART e m, done (set_run e r (drop_process e db)),
                        kills @ release_of e r0 @ queued))))"

definition execute_abandon :: "recovery_env \<Rightarrow> string \<Rightarrow> recovery_state \<Rightarrow> recovery_outcome" where
  "execute_abandon V e st =
     (let db = fst st;
          kills = kill_local V (map_of (tb_procs db) e);
          ok = recovered ABANDON e ''Experiment marked as failed and resources released'';
          done = (\<lambda>db. unregister_process (rv_tracker V) e (db, snd st))
      in case map_of (tb_runs db) e of
           None \<Rightarrow> (ok, done (drop_process e db), kills)
         | Some r0 \<Rightarrow>
             (case rv_upd V r0 ''failed'' None of
                None \<Rightarrow> (not_recovered ABANDON e ''Failed to abandon'', st, kills)
              | Some r \<Rightarrow>
                  let r = r\<lparr>rr_completed_at := Some (rv_now V), rr_error := Some ''Abandoned during recovery'',
                            rr_recovery_status := Some ''abandoned'', rr_pid := None, rr_hostname := None\<rparr>
                  in (ok, done (set_run e r (drop_process e db)), kills @ release_of e r0)))"

definition execute_ignore :: "recovery_env \<Rightarrow> string \<Rightarrow> recovery_state \<Rightarrow> recovery_outcome" where
  "execute_ignore V e st =
     (let db = fst st;
          db' = (case map_of (tb_runs db) e of
                   None \<Rightarrow> db | Some r \<Rightarrow> set_run e (r\<lparr>rr_recovery_status := Some ''ignored''\<rparr>) db)
      in (recovered IGNORE e ''Experiment marked for manual handling'', (db', snd st), []))"

definition execute_recovery ::
    "recovery_env \<Rightarrow> string \<Rightarrow> recovery_action \<Rightarrow> recovery_state \<Rightarrow> recovery_outcome" where
  "execute_recovery V e a st =
     (case a of RESUME \<Rightarrow> execute_resume V e st | RECOVER_RESULTS \<Rightarrow> execute_recover_results V e st
      | RESTART \<Rightarrow> execute_restart V e st | ABANDON \<Rightarrow> execute_abandon V e st | IGNORE \<Rightarrow> execute_ignore V e st)"

definition check_for_recovery_needed :: "recovery_env \<Rightarrow> recovery_state \<Rightarrow> candidate list" where
  "check_for_recovery_needed V st = detect_orphaned_processes (rv_ps V) (rv_tracker V) (rv_now V) st"

definition needs_recovery_dialog :: "recovery_env \<Rightarrow> recovery_state \<Rightarrow> bool" where
  "needs_recovery_dialog V st \<longleftrightarrow> length (check_for_recovery_needed V st) > 0"

fun execute_candidates ::
    "recovery_env \<Rightarrow> candidate list \<Rightarrow> recovery_state \<Rightarrow> recovery_result list \<times> recovery_state \<times> effect list" where
  "execute_candidates V [] st = ([], st, [])"
| "execute_candidates V (c # cs) st =
     (let (r, st1, es) = execute_recovery V (ca_exp_id c) (ca_recommended c) st;
          (rs, st2, fs) = execute_candidates V cs st1
      in (r # rs, st2, es @ fs))"

definition execute_all_recommended ::
    "recovery_env \<Rightarrow> recovery_state \<Rightarrow> recovery_result list \<times> recovery_state \<times> effect list" where
  "execute_all_recommended V st = execute_candidates V (check_for_recovery_needed V st) st"

section \<open>Start-up\<close>

text \<open>The loop over the running experiments with a GPU; \<open>restore\<close> is the allocator's answer.
  A status change that raises ends it.\<close>

fun restore_loop ::
    "recovery_env \<Rightarrow> (int \<Rightarrow> string option \<Rightarrow> string \<Rightarrow> bool) \<Rightarrow> (string \<times> run_row) list \<Rightarrow> tables \<Rightarrow> nat \<Rightarrow> effect list
      \<Rightarrow> nat \<times> tables \<times> effect list" where
  "restore_loop V restore [] db n es = (n, db, es)"
| "restore_loop V restore ((e, r) # rest) db n es =
     (let T = rv_tracker V in
      case (rr_pid r, rr_gpu r) of
        (Some pid, Some g) \<Rightarrow>
          if pid \<noteq> 0 \<and> rr_hostname r = Some (tk_hostname T) then
            (if detect_process_state (rv_ps V) T pid (tk_hostname T) \<in> set [RUNNING, STALE]
             then restore_loop V restore rest db (if restore g (rr_task r) e then n + 1 else n) es
             else (case rv_upd V r ''failed'' None of
                     None \<Rightarrow> (n, db, es @ [ReleaseGpu g e])
                   | Some r' \<Rightarrow>
                       restore_loop V restore rest
                         (set_run e (r'\<lparr>rr_error := Some ''Process terminated unexpectedly''\<rparr>) db) n
                         (es @ [ReleaseGpu g e])))
          else restore_loop V restore rest db n es
      | _ \<Rightarrow> restore_loop V restore rest db n es)"

definition restore_gpu_state_from_db ::
    "recovery_env \<Rightarrow> (int \<Rightarrow> string option \<Rightarrow> string \<Rightarrow> bool) \<Rightarrow> tables \<Rightarrow> nat \<times> tables \<times> effect list" where
  "restore_gpu_state_from_db V restore db =
     restore_loop V restore (filter (\<lambda>(e, r). rr_status r = ''running'' \<and> rr_gpu r \<noteq> None) (tb_runs db)) db 0 []"

section \<open>Lemmas\<close>

lemmas action_defs = execute_resume_def execute_recover_results_def execute_restart_def execute_abandon_def
  execute_ignore_def recovered_def not_recovered_def

lemma set_run_proj [simp]:
  "tb_procs (set_run e r db) = tb_procs db" "map_of (tb_runs (set_run e r db)) k = (if k = e then Some r else map_of (tb_runs db) k)"
  by (simp_all add: set_run_def update_conv')

lemma unregister_proj [simp]:
  "map_of (tb_procs (fst (unregister_process T e st))) k = (if k = e then None else map_of (tb_procs (fst st)) k)"
  "tb_runs (fst (unregister_process T e st)) = tb_runs (fst st)"
  "map_of (snd (unregister_process T e st)) f = (if f = pid_file_name T e then None else map_of (snd st) f)"
  by (simp_all add: unregister_process_def drop_process_proj map_of_drop remove_pid_file_def)

lemma drop_process_runs [simp]: "tb_runs (drop_process e db) = tb_runs db"
  "map_of (tb_procs (drop_process e db)) k = (if k = e then None else map_of (tb_procs db) k)"
  by (simp_all add: drop_process_proj map_of_drop)

lemma status_change_row: "status_change_laws upd \<Longrightarrow> upd r s a = Some r' \<Longrightarrow> r' = r\<lparr>rr_status := s\<rparr>"
  by (simp add: status_change_laws_def)

lemma kill_local_terminates: "x \<in> set (kill_local V info) \<Longrightarrow> \<exists>pid. x = Terminate pid"
  by (auto simp: kill_local_def split: option.splits if_splits)

lemma requeue_facts:
  "requeue V e r = (m, r', q) \<Longrightarrow> \<exists>t. r' = r\<lparr>rr_task := t\<rparr> \<and> (q = [] \<or> q = [Submit e])"
  by (auto simp: requeue_def split: if_splits option.splits intro: exI [of _ "rr_task r"])

lemma restart_success:
  assumes "status_change_laws (rv_upd V)" "map_of (tb_runs (fst st)) e = Some r0" "rv_upd V r0 ''pending'' None = Some r1"
  shows "\<exists>m r' q. execute_restart V e st =
    (recovered RESTART e m, unregister_process (rv_tracker V) e (set_run e r' (drop_process e (fst st)), snd st),
     kill_local V (map_of (tb_procs (fst st)) e) @ release_of e r0 @ q) \<and>
    rr_status r' = ''pending'' \<and> rr_pid r' = None \<and> rr_hostname r' = None \<and> (q = [] \<or> q = [Submit e]) \<and>
    rr_retry_count r' = Some ((case rr_retry_count r0 of None \<Rightarrow> 0 | Some n \<Rightarrow> n) + 1)"
proof -
  have r1: "r1 = r0\<lparr>rr_status := ''pending''\<rparr>" by (rule status_change_row [OF assms(1,3)])
  obtain m r' q where q: "requeue V e (reset_run r1) = (m, r', q)" by (cases "requeue V e (reset_run r1)")
  from requeue_facts [OF q] obtain t where "r' = (reset_run r1)\<lparr>rr_task := t\<rparr>" "q = [] \<or> q = [Submit e]" by blast
  then have "rr_status r' = ''pending'' \<and> rr_pid r' = None \<and> rr_hostname r' = None \<and> (q = [] \<or> q = [Submit e]) \<and>
      rr_retry_count r' = Some ((case rr_retry_count r0 of None \<Rightarrow> 0 | Some n \<Rightarrow> n) + 1)"
    by (simp add: r1 reset_run_def)
  moreover have "execute_restart V e st =
      (recovered RESTART e m, unregister_process (rv_tracker V) e (set_run e r' (drop_process e (fst st)), snd st),
       kill_local V (map_of (tb_procs (fst st)) e) @ release_of e r0 @ q)"
    by (simp add: execute_restart_def assms(2,3) Let_def q)
  ultimately show ?thesis by blast
qed

lemma abandon_success:
  assumes "status_change_laws (rv_upd V)" "map_of (tb_runs (fst st)) e = Some r0" "rv_upd V r0 ''failed'' None = Some r1"
  shows "\<exists>m r'. execute_abandon V e st =
    (recovered ABANDON e m, unregister_process (rv_tracker V) e (set_run e r' (drop_process e (fst st)), snd st),
     kill_local V (map_of (tb_procs (fst st)) e) @ release_of e r0) \<and>
    rr_status r' = ''failed'' \<and> rr_pid r' = None \<and> rr_hostname r' = None"
proof -
  have r1: "r1 = r0\<lparr>rr_status := ''failed''\<rparr>" by (rule status_change_row [OF assms(1,3)])
  let ?r = "r1\<lparr>rr_completed_at := Some (rv_now V), rr_error := Some ''Abandoned during recovery'',
      rr_recovery_status := Some ''abandoned'', rr_pid := None, rr_hostname := None\<rparr>"
  have "execute_abandon V e st =
    (recovered ABANDON e ''Experiment marked as failed and resources released'',
     unregister_process (rv_tracker V) e (set_run e ?r (drop_process e (fst st)), snd st),
     kill_local V (map_of (tb_procs (fst st)) e) @ release_of e r0)"
    by (simp add: execute_abandon_def assms(2,3) Let_def)
  moreover have "rr_status ?r = ''failed'' \<and> rr_pid ?r = None \<and> rr_hostname ?r = None" by (simp add: r1)
  ultimately show ?thesis by blast
qed

lemma clean_up_outcome:
  assumes "status_change_laws (rv_upd V)" "a \<in> {ABANDON, RESTART}" "map_of (tb_runs db) e = Some r0"
    "execute_recovery V e a (db, files) = (r, (db', files'), es)" "rs_success r"
  shows "map_of (tb_procs db') e = None \<and> map_of files' (pid_file_name (rv_tracker V) e) = None \<and>
    (\<exists>r'. map_of (tb_runs db') e = Some r' \<and> rr_pid r' = None \<and> rr_hostname r' = None \<and>
       rr_status r' = (if a = ABANDON then ''failed'' else ''pending'')) \<and>
    (\<forall>k. k \<noteq> e \<longrightarrow> map_of (tb_procs db') k = map_of (tb_procs db) k \<and> map_of (tb_runs db') k = map_of (tb_runs db) k) \<and>
    (\<exists>q. es = (case map_of (tb_procs db) e of
           Some p \<Rightarrow> if pr_hostname p = tk_hostname (rv_tracker V) then [Terminate (pr_pid p)] else [] | None \<Rightarrow> []) @
        (case rr_gpu r0 of Some g \<Rightarrow> [ReleaseGpu g e] | None \<Rightarrow> []) @ q \<and>
       (q = [] \<or> a = RESTART \<and> q = [Submit e]))"
proof -
  have es: "kill_local V (map_of (tb_procs db) e) @ release_of e r0 @ q =
      (case map_of (tb_procs db) e of
           Some p \<Rightarrow> if pr_hostname p = tk_hostname (rv_tracker V) then [Terminate (pr_pid p)] else [] | None \<Rightarrow> []) @
        (case rr_gpu r0 of Some g \<Rightarrow> [ReleaseGpu g e] | None \<Rightarrow> []) @ q" for q
    by (simp add: kill_local_def release_of_def split: option.splits)
  have m: "map_of (tb_runs (fst (db, files))) e = Some r0" by (simp add: assms(3))
  obtain r' q where o: "(db', files') = unregister_process (rv_tracker V) e (set_run e r' (drop_process e db), files)"
    "es = kill_local V (map_of (tb_procs db) e) @ release_of e r0 @ q" "rr_pid r' = None" "rr_hostname r' = None"
    "rr_status r' = (if a = ABANDON then ''failed'' else ''pending'')" "q = [] \<or> a = RESTART \<and> q = [Submit e]"
  proof (cases "a = ABANDON")
    case True
    with assms(4,5) m obtain r1 where "rv_upd V r0 ''failed'' None = Some r1"
      by (auto simp: execute_recovery_def execute_abandon_def not_recovered_def Let_def split: option.splits)
    from abandon_success [OF assms(1) m this] assms(4) True that [of _ "[]"] show ?thesis
      by (auto simp: execute_recovery_def)
  next
    case False
    with assms(2) have a: "a = RESTART" by simp
    with assms(4,5) m obtain r1 where "rv_upd V r0 ''pending'' None = Some r1"
      by (auto simp: execute_recovery_def execute_restart_def not_recovered_def Let_def split: option.splits)
    from restart_success [OF assms(1) m this] assms(4) a that show ?thesis
      by (auto simp: execute_recovery_def)
  qed
  from o(1) have p: "db' = fst (unregister_process (rv_tracker V) e (set_run e r' (drop_process e db), files))"
    "files' = snd (unregister_process (rv_tracker V) e (set_run e r' (drop_process e db), files))"
    by (metis fst_conv, metis snd_conv)
  show ?thesis using o(2-6) by (auto simp: p es)
qed

lemma abandon_and_restart_status:
  assumes "status_change_laws (rv_upd V)" "a \<in> {ABANDON, RESTART}" "map_of (tb_runs db) e = Some r0"
    "execute_recovery V e a (db, files) = (r, (db', files'), es)" "rs_success r"
  shows "\<exists>r'. map_of (tb_runs db') e = Some r' \<and> rr_status r' = (if a = ABANDON then ''failed'' else ''pending'')"
  using clean_up_outcome [OF assms] by blast

lemma resume_outcome:
  shows "case execute_recovery V e RESUME (db, files) of (r, (db', files'), es) \<Rightarrow>
    (rs_success r \<longleftrightarrow> (\<exists>p. map_of (tb_procs db) e = Some p \<and>
       detect_process_state (rv_ps V) (rv_tracker V) (pr_pid p) (pr_hostname p) = RUNNING)) \<and>
    es = [] \<and> files' = files \<and>
    (rs_success r \<longrightarrow> (\<exists>q. map_of (tb_procs db') e = Some q \<and> pr_instance_id q = tk_instance_id (rv_tracker V) \<and>
       (\<forall>t. t \<le> rv_now V + of_int (stale_threshold_minutes (tk_policy (rv_tracker V))) * 60 \<longrightarrow>
          tracked_state (rv_ps V) (rv_tracker V) t q = RUNNING)))"
proof (cases "map_of (tb_procs db) e")
  case None
  then show ?thesis by (simp add: execute_recovery_def execute_resume_def not_recovered_def Let_def)
next
  case (Some p)
  let ?s = "detect_process_state (rv_ps V) (rv_tracker V) (pr_pid p) (pr_hostname p)"
  show ?thesis
  proof (cases "?s = RUNNING")
    case True
    let ?q = "p\<lparr>pr_instance_id := tk_instance_id (rv_tracker V), pr_last_heartbeat := Some (rv_now V)\<rparr>"
    have "tracked_state (rv_ps V) (rv_tracker V) t ?q = RUNNING"
      if "t \<le> rv_now V + of_int (stale_threshold_minutes (tk_policy (rv_tracker V))) * 60" for t
      using True that by (simp add: tracked_state_def stale_heartbeat_def Let_def)
    with True Some show ?thesis
      by (simp add: execute_recovery_def execute_resume_def recovered_def Let_def update_conv' split: option.split)
  next
    case False
    with Some show ?thesis
      by (simp add: execute_recovery_def execute_resume_def not_recovered_def Let_def detect_not_stale)
  qed
qed

section \<open>Properties\<close>

text \<open>
  A recovery action that fails leaves the tables and PID files as they were and does
  nothing outside them but terminate processes, except a restart of an experiment that has no
  row.
\<close>

theorem failed_recovery_keeps_tables:
  assumes "a = RESTART \<longrightarrow> map_of (tb_runs (fst st)) e \<noteq> None"
    "execute_recovery V e a st = (r, st', es)" "\<not> rs_success r"
  shows "st' = st \<and> rs_error r \<and> rs_action r = a \<and> (\<forall>x\<in>set es. \<exists>pid. x = Terminate pid)"
proof (cases a)
  case RESUME
  with assms(2,3) show ?thesis
    by (auto simp: execute_recovery_def execute_resume_def recovered_def not_recovered_def Let_def
        split: option.splits if_splits)
next
  case RECOVER_RESULTS
  with assms(2,3) show ?thesis
    by (auto simp: execute_recovery_def execute_recover_results_def recovered_def not_recovered_def Let_def
        split: option.splits if_splits)
next
  case RESTART
  with assms show ?thesis
    by (auto simp: execute_recovery_def execute_restart_def recovered_def not_recovered_def Let_def kill_local_terminates
        split: option.splits prod.splits)
next
  case ABANDON
  with assms(2,3) show ?thesis
    by (auto simp: execute_recovery_def execute_abandon_def recovered_def not_recovered_def Let_def kill_local_terminates
        split: option.splits)
next
  case IGNORE
  with assms(2,3) show ?thesis by (auto simp: execute_recovery_def execute_ignore_def recovered_def Let_def)
qed

definition demo_recovery :: recovery_env where
  "demo_recovery = \<lparr>rv_ps = demo_psutil, rv_upd = plain_change, rv_tracker = demo_tracker, rv_now = 1000, rv_today = 20260101,
     rv_e_intra = (\<lambda>m. ''single_molecule_vacuum''), rv_dir_exists = (\<lambda>d. False), rv_has_thermo = (\<lambda>d. False),
     rv_task_of = (\<lambda>e b p. Some ''task-7''), rv_work_dir = (\<lambda>e. e), rv_input_dir = (\<lambda>e. e), rv_attempts = (\<lambda>e. []),
     rv_see_dir = (\<lambda>d. \<lparr>ad_path = d, ad_is_dir = False, ad_files = []\<rparr>), rv_prepare = (\<lambda>e rp. False)\<rparr>"

theorem failed_recovery_keeps_tables_witness:
  "fst (snd (execute_recovery demo_recovery ''e2'' RESUME (demo_tables, []))) = (demo_tables, [])"
proof -
  obtain r st' es where x: "execute_recovery demo_recovery ''e2'' RESUME (demo_tables, []) = (r, st', es)"
    by (cases "execute_recovery demo_recovery ''e2'' RESUME (demo_tables, [])")
  have "\<not> rs_success (fst (execute_recovery demo_recovery ''e2'' RESUME (demo_tables, [])))"
    by (simp add: execute_recovery_def execute_resume_def demo_recovery_def demo_tracking_defs detect_process_state_def
        state_of_error_def not_recovered_def Let_def)
  then have "\<not> rs_success r" by (simp add: x)
  with failed_recovery_keeps_tables [OF _ x] show ?thesis by (simp add: x)
qed


lemma demo_recovery_laws: "status_change_laws (rv_upd demo_recovery)"
  by (simp add: demo_recovery_def plain_change_laws)


theorem resume_iff_alive:
  shows "case execute_recovery V e RESUME (db, files) of (r, (db', files'), es) \<Rightarrow>
    (rs_success r \<longleftrightarrow> (\<exists>p. map_of (tb_procs db) e = Some p \<and>
       detect_process_state (rv_ps V) (rv_tracker V) (pr_pid p) (pr_hostname p) = RUNNING)) \<and>
    es = [] \<and> files' = files \<and>
    (rs_success r \<longrightarrow> (\<exists>q. map_of (tb_procs db') e = Some q \<and> pr_instance_id q = tk_instance_id (rv_tracker V) \<and>
       (\<forall>t. t \<le> rv_now V + of_int (stale_threshold_minutes (tk_policy (rv_tracker V))) * 60 \<longrightarrow>
          tracked_state (rv_ps V) (rv_tracker V) t q = RUNNING)))"
  by (rule resume_outcome)

theorem resume_iff_alive_witness:
  "rs_success (fst (execute_recovery demo_recovery ''e1'' RESUME (demo_tables, []))) \<and>
   \<not> rs_success (fst (execute_recovery demo_recovery ''e3'' RESUME (demo_tables, [])))"
proof -
  have "detect_process_state (rv_ps demo_recovery) (rv_tracker demo_recovery) 100 ''node1'' = RUNNING" by code_simp
  moreover have "map_of (tb_procs demo_tables) ''e1'' = Some (demo_proc 100)" "map_of (tb_procs demo_tables) ''e3'' = None"
    "pr_pid (demo_proc 100) = 100" "pr_hostname (demo_proc 100) = ''node1''"
    by (simp_all add: demo_tables_def demo_proc_def)
  ultimately show ?thesis
    using resume_iff_alive [where V = demo_recovery and e = "''e1''" and db = demo_tables and files = "[]"]
      resume_iff_alive [where V = demo_recovery and e = "''e3''" and db = demo_tables and files = "[]"]
    by (auto split: prod.splits)
qed

text \<open>A rerun loses what the four columns do not hold: layers, tension, equilibration, additives.\<close>

lemma restart_is_a_plain_bulk_run:
  assumes "restart_requests today e_intra r = Some (b, p)"
  shows "rq_study_type p = BULK \<and> rq_layer p = None \<and> rq_tensile p = None \<and> rq_equilibration p = None \<and>
    map fst (br_composition b) = [''asphaltene'', ''resin'', ''aromatic'', ''saturate''] \<and>
    chain_key p = run_tier_value (rq_tier p)"
  using assms
  by (auto simp: restart_requests_def Let_def create_build_request_def create_protocol_request_def chain_key_def
      split: option.splits sum.splits if_splits value_error.splits)

text \<open>A process of another host outlives the restart that forgets it.\<close>

lemma remote_restart_leaves_the_process:
  assumes "map_of (tb_procs db) e = Some p" "pr_hostname p \<noteq> tk_hostname (rv_tracker V)"
    "execute_restart V e (db, files) = (r, (db', files'), es)" "rs_success r"
  shows "map_of (tb_procs db') e = None \<and> (\<forall>pid. Terminate pid \<notin> set es)"
proof -
  from assms(3,4) obtain r0 r1 where "map_of (tb_runs db) e = Some r0" "rv_upd V r0 ''pending'' None = Some r1"
    by (auto simp: execute_restart_def not_recovered_def Let_def split: option.splits)
  moreover obtain m r' q where q: "requeue V e (reset_run r1) = (m, r', q)" by (cases "requeue V e (reset_run r1)")
  moreover have "Terminate pid \<notin> set q" for pid using requeue_facts [OF q] by auto
  ultimately show ?thesis
    using assms
    by (auto simp: execute_restart_def Let_def unregister_process_def drop_process_proj map_of_drop kill_local_def
        release_of_def split: option.splits)
qed

text \<open>Restarting a process without an experiment row removes its record and reports a failure.\<close>

lemma restart_without_experiment:
  assumes "map_of (tb_runs db) e = None"
  shows "case execute_restart V e (db, files) of (r, (db', files'), es) \<Rightarrow>
    \<not> rs_success r \<and> map_of (tb_procs db') e = None \<and> es = kill_local V (map_of (tb_procs db) e)"
  by (simp add: execute_restart_def assms not_recovered_def Let_def unregister_process_def drop_process_proj map_of_drop)

text \<open>The outcome of a successful action other than \<open>IGNORE\<close>: the run is no longer \<open>running\<close>, or it
  has a live process with a fresh heartbeat.\<close>

lemma recover_success:
  assumes "status_change_laws (rv_upd V)" "execute_recover_results V e (db, files) = (r, (db', files'), es)" "rs_success r"
  shows "\<exists>r'. map_of (tb_runs db') e = Some r' \<and> (rr_status r' = ''completed'' \<or> rr_status r' = ''failed'')"
proof -
  from assms(2,3) obtain r0 r1 where u: "rv_upd V r0 (if rv_has_thermo V (the (rr_working_dir r0)) then ''completed'' else ''failed'') None = Some r1"
    and m: "map_of (tb_runs db) e = Some r0" and d: "\<not> (\<not> truthy (rr_working_dir r0) \<or> \<not> rv_dir_exists V (the (rr_working_dir r0)))"
    by (auto simp: execute_recover_results_def not_recovered_def Let_def split: option.splits if_splits)
  have "rr_status r1 = ''completed'' \<or> rr_status r1 = ''failed''"
    using status_change_row [OF assms(1) u] by simp
  with assms(2) u m d show ?thesis
    by (auto simp: execute_recover_results_def Let_def unregister_process_def)
qed

lemma in_running_candidates:
  "e \<in> ca_exp_id ` set (running_candidates PS T now procs xs) \<Longrightarrow>
     \<exists>r. (e, r) \<in> set xs \<and> run_candidate PS T now procs (e, r) \<noteq> []"
proof -
  have "ca_exp_id c = fst x" if "c \<in> set (run_candidate PS T now procs x)" for c x
  proof (cases "map_of procs (fst x)")
    case None
    with that show ?thesis by (simp add: run_candidate_def create_orphaned_candidate_def)
  next
    case (Some p)
    obtain d where "create_recovery_candidate T (fst x) (pr_pid p) (pr_hostname p) (tracked_state PS T now p)
        (rr_status (snd x)) (pr_last_heartbeat p) (progress_of p) (pr_gpu_id p) (pr_working_dir p) = Some d"
      "ca_exp_id d = fst x" using create_candidate_cases by blast
    with that Some show ?thesis by (simp add: run_candidate_def split: if_splits)
  qed
  moreover assume "e \<in> ca_exp_id ` set (running_candidates PS T now procs xs)"
  ultimately show ?thesis unfolding running_candidates_concat by fastforce
qed

text \<open>
  After any successful recovery action other than ignoring, the detection no longer lists
  the experiment.
\<close>

theorem recovery_takes_the_run_off_the_list:
  assumes "status_change_laws (rv_upd V)" "tables_ok db'" "a \<noteq> IGNORE" "map_of (tb_runs db) e \<noteq> None"
    "0 \<le> stale_threshold_minutes (tk_policy (rv_tracker V))"
    "execute_recovery V e a (db, files) = (r, (db', files'), es)" "rs_success r"
  shows "e \<notin> ca_exp_id ` set (running_candidates (rv_ps V) (rv_tracker V) (rv_now V) (tb_procs db') (running_runs db'))"
proof
  assume "e \<in> ca_exp_id ` set (running_candidates (rv_ps V) (rv_tracker V) (rv_now V) (tb_procs db') (running_runs db'))"
  from in_running_candidates [OF this] obtain row where row: "(e, row) \<in> set (tb_runs db')" "rr_status row = ''running''"
    "run_candidate (rv_ps V) (rv_tracker V) (rv_now V) (tb_procs db') (e, row) \<noteq> []"
    by (auto simp: running_runs_def)
  then have m: "map_of (tb_runs db') e = Some row" using assms(2) by (simp add: tables_ok_def)
  obtain r0 where r0: "map_of (tb_runs db) e = Some r0" using assms(4) by blast
  show False
  proof (cases a)
    case RESUME
    from resume_outcome [where V = V and e = e and db = db and files = files] assms(6,7) RESUME obtain q
      where q: "map_of (tb_procs db') e = Some q"
      "\<forall>t. t \<le> rv_now V + of_int (stale_threshold_minutes (tk_policy (rv_tracker V))) * 60 \<longrightarrow>
         tracked_state (rv_ps V) (rv_tracker V) t q = RUNNING" by auto
    then have "tracked_state (rv_ps V) (rv_tracker V) (rv_now V) q = RUNNING" using assms(5) by simp
    with q(1) row(3) show False by (simp add: run_candidate_def)
  next
    case RECOVER_RESULTS
    with assms(6) have x: "execute_recover_results V e (db, files) = (r, (db', files'), es)"
      by (simp add: execute_recovery_def)
    from recover_success [OF assms(1) x assms(7)] m row(2) show False by auto
  next
    case RESTART
    with abandon_and_restart_status [OF assms(1) _ r0 assms(6,7)] m row(2) show False by simp
  next
    case ABANDON
    with abandon_and_restart_status [OF assms(1) _ r0 assms(6,7)] m row(2) show False by simp
  qed (use assms(3) in simp)
qed

theorem recovery_takes_the_run_off_the_list_witness:
  "\<exists>db'. fst (snd (execute_recovery demo_recovery ''e1'' ABANDON (demo_tables, []))) = (db', []) \<and>
     ''e1'' \<notin> ca_exp_id ` set (running_candidates demo_psutil demo_tracker 1000 (tb_procs db') (running_runs db'))"
proof -
  obtain r db' files' es where x: "execute_recovery demo_recovery ''e1'' ABANDON (demo_tables, []) = (r, (db', files'), es)"
    by (cases "execute_recovery demo_recovery ''e1'' ABANDON (demo_tables, [])") auto
  have r: "rs_success r \<and> tables_ok db' \<and> files' = []"
    using x by (auto simp: execute_recovery_def execute_abandon_def demo_recovery_def demo_tracking_defs plain_change_def
        Let_def recovered_def unregister_process_def drop_process_def remove_pid_file_def set_run_def tables_ok_def)
  have m: "map_of (tb_runs demo_tables) ''e1'' \<noteq> None" by (simp add: demo_tables_def)
  have p: "0 \<le> stale_threshold_minutes (tk_policy (rv_tracker demo_recovery))"
    by (simp add: demo_recovery_def demo_tracker_def DEFAULT_RECOVERY_POLICY_def)
  from recovery_takes_the_run_off_the_list [OF demo_recovery_laws _ _ m p x] r x show ?thesis
    by (simp add: demo_recovery_def)
qed

section \<open>Start-up\<close>

text \<open>A run whose process is known to be gone from this host.\<close>

definition lost_run :: "recovery_env \<Rightarrow> run_row \<Rightarrow> bool" where
  "lost_run V r \<longleftrightarrow>
     rr_status r = ''running'' \<and> rr_gpu r \<noteq> None \<and> rr_hostname r = Some (tk_hostname (rv_tracker V)) \<and>
     (\<exists>pid. rr_pid r = Some pid \<and> pid \<noteq> 0 \<and>
        detect_process_state (rv_ps V) (rv_tracker V) pid (tk_hostname (rv_tracker V)) \<noteq> RUNNING)"

lemma restore_loop_lost:
  assumes "status_change_laws (rv_upd V)" "\<forall>r. rv_upd V r ''failed'' None \<noteq> None"
    "\<forall>(e, r)\<in>set rs. rr_status r = ''running'' \<and> rr_gpu r \<noteq> None"
  shows "\<exists>n' db'. restore_loop V restore rs db n es =
      (n', db', es @ map (\<lambda>(e, r). ReleaseGpu (the (rr_gpu r)) e) (filter (\<lambda>(e, r). lost_run V r) rs)) \<and>
    tb_procs db' = tb_procs db \<and>
    (\<forall>k. (k \<notin> fst ` set (filter (\<lambda>(e, r). lost_run V r) rs) \<longrightarrow> map_of (tb_runs db') k = map_of (tb_runs db) k) \<and>
         (k \<in> fst ` set (filter (\<lambda>(e, r). lost_run V r) rs) \<longrightarrow>
            (\<exists>r. map_of (tb_runs db') k = Some r \<and> rr_status r = ''failed'' \<and>
               rr_error r = Some ''Process terminated unexpectedly'')))"
  using assms(3)
proof (induction rs arbitrary: db n es)
  case (Cons x rest)
  obtain e r where x: "x = (e, r)" by (cases x)
  from Cons.prems x obtain g where g: "rr_status r = ''running''" "rr_gpu r = Some g" by auto
  have rest: "\<forall>(e, r)\<in>set rest. rr_status r = ''running'' \<and> rr_gpu r \<noteq> None" using Cons.prems by simp
  show ?case
  proof (cases "lost_run V r")
    case True
    then obtain pid where pid: "rr_pid r = Some pid" "pid \<noteq> 0" "rr_hostname r = Some (tk_hostname (rv_tracker V))"
      "detect_process_state (rv_ps V) (rv_tracker V) pid (tk_hostname (rv_tracker V)) \<noteq> RUNNING"
      by (auto simp: lost_run_def)
    obtain r' where r': "rv_upd V r ''failed'' None = Some r'" using assms(2) by blast
    have f: "rr_status r' = ''failed''" using status_change_row [OF assms(1) r'] by simp
    let ?r = "r'\<lparr>rr_error := Some ''Process terminated unexpectedly''\<rparr>"
    have step: "restore_loop V restore (x # rest) db n es =
        restore_loop V restore rest (set_run e ?r db) n (es @ [ReleaseGpu g e])"
      using pid g r' by (simp add: x Let_def detect_not_stale)
    let ?S = "fst ` set (filter (\<lambda>(e, r). lost_run V r) rest)"
    from Cons.IH [OF rest, of "set_run e ?r db" n "es @ [ReleaseGpu g e]"] obtain n' db' where
      run: "restore_loop V restore rest (set_run e ?r db) n (es @ [ReleaseGpu g e]) =
        (n', db', (es @ [ReleaseGpu g e]) @ map (\<lambda>(e, r). ReleaseGpu (the (rr_gpu r)) e) (filter (\<lambda>(e, r). lost_run V r) rest))"
      and procs: "tb_procs db' = tb_procs (set_run e ?r db)"
      and rows: "\<And>k. k \<notin> ?S \<Longrightarrow> map_of (tb_runs db') k = map_of (tb_runs (set_run e ?r db)) k"
        "\<And>k. k \<in> ?S \<Longrightarrow> \<exists>r. map_of (tb_runs db') k = Some r \<and> rr_status r = ''failed'' \<and>
               rr_error r = Some ''Process terminated unexpectedly''" by blast
    have S: "fst ` set (filter (\<lambda>(e, r). lost_run V r) (x # rest)) = insert e ?S" using True by (simp add: x)
    have eff: "restore_loop V restore (x # rest) db n es =
        (n', db', es @ map (\<lambda>(e, r). ReleaseGpu (the (rr_gpu r)) e) (filter (\<lambda>(e, r). lost_run V r) (x # rest)))"
      unfolding step run using True g by (simp add: x)
    have "\<exists>r. map_of (tb_runs db') k = Some r \<and> rr_status r = ''failed'' \<and>
        rr_error r = Some ''Process terminated unexpectedly''" if "k \<in> insert e ?S" for k
      using that rows f by (cases "k \<in> ?S") simp_all
    moreover have "map_of (tb_runs db') k = map_of (tb_runs db) k" if "k \<notin> insert e ?S" for k
      using that rows(1) [of k] by simp
    ultimately show ?thesis
      using eff procs unfolding S by simp
  next
    case False
    have "\<exists>n'. restore_loop V restore (x # rest) db n es = restore_loop V restore rest db n' es"
      using False g by (auto simp: x Let_def lost_run_def detect_not_stale split: option.splits)
    then obtain n' where step: "restore_loop V restore (x # rest) db n es = restore_loop V restore rest db n' es" by blast
    from Cons.IH [OF rest, of db n' es] show ?thesis unfolding step using False by (simp add: x)
  qed
qed simp

text \<open>
  The start-up reconciliation marks failed exactly the running experiments that hold a GPU
  and whose process on this host is known not to be running LAMMPS, releases the GPUs of
  exactly these in table order, and leaves every other row as it was.
\<close>

theorem startup_fails_exactly_the_lost_runs:
  assumes "status_change_laws (rv_upd V)" "\<forall>r. rv_upd V r ''failed'' None \<noteq> None" "tables_ok db"
    "restore_gpu_state_from_db V restore db = (n, db', es)"
  shows "es = map (\<lambda>(e, r). ReleaseGpu (the (rr_gpu r)) e) (filter (\<lambda>(e, r). lost_run V r) (tb_runs db)) \<and>
    (\<forall>k r. map_of (tb_runs db) k = Some r \<longrightarrow>
       (if lost_run V r then \<exists>r'. map_of (tb_runs db') k = Some r' \<and> rr_status r' = ''failed''
        else map_of (tb_runs db') k = Some r))"
proof -
  let ?rs = "filter (\<lambda>(e, r). rr_status r = ''running'' \<and> rr_gpu r \<noteq> None) (tb_runs db)"
  have rs: "\<forall>(e, r)\<in>set ?rs. rr_status r = ''running'' \<and> rr_gpu r \<noteq> None" by auto
  have same: "filter (\<lambda>(e, r). lost_run V r) ?rs = filter (\<lambda>(e, r). lost_run V r) (tb_runs db)"
    unfolding filter_filter by (rule filter_cong) (auto simp: lost_run_def)
  have d: "distinct (map fst (tb_runs db))" using assms(3) by (simp add: tables_ok_def)
  have mem: "k \<in> fst ` set (filter (\<lambda>(e, r). lost_run V r) (tb_runs db)) \<longleftrightarrow> lost_run V r"
    if "map_of (tb_runs db) k = Some r" for k r
    using that map_of_is_SomeI [OF d] by (force dest: map_of_SomeD)
  from restore_loop_lost [OF assms(1,2) rs, of restore db 0 "[]"] assms(4) mem show ?thesis
    unfolding restore_gpu_state_from_db_def same by fastforce
qed

theorem startup_fails_exactly_the_lost_runs_witness:
  "\<exists>n db'. restore_gpu_state_from_db demo_recovery (\<lambda>g t e. True)
       \<lparr>tb_procs = [], tb_runs = [(''e1'', demo_run), (''e4'', demo_run\<lparr>rr_pid := Some 555\<rparr>)]\<rparr> =
     (n, db', [ReleaseGpu 0 ''e4'']) \<and> map_of (tb_runs db') ''e1'' = Some demo_run"
proof -
  let ?db = "\<lparr>tb_procs = [], tb_runs = [(''e1'', demo_run), (''e4'', demo_run\<lparr>rr_pid := Some 555\<rparr>)]\<rparr>"
  obtain n db' es where x: "restore_gpu_state_from_db demo_recovery (\<lambda>g t e. True) ?db = (n, db', es)"
    by (cases "restore_gpu_state_from_db demo_recovery (\<lambda>g t e. True) ?db")
  have u: "\<forall>r. rv_upd demo_recovery r ''failed'' None \<noteq> None" by (simp add: demo_recovery_def plain_change_def)
  have t: "tables_ok ?db" by (simp add: tables_ok_def)
  have alive: "detect_process_state demo_psutil demo_tracker 100 ''node1'' = RUNNING" by code_simp
  have "detect_process_state demo_psutil demo_tracker 555 ''node1'' = TERMINATED" by code_simp
  with alive have l: "\<not> lost_run demo_recovery demo_run" "lost_run demo_recovery (demo_run\<lparr>rr_pid := Some 555\<rparr>)"
    by (simp_all add: lost_run_def demo_recovery_def demo_run_def) (simp_all add: demo_tracker_def)
  have g: "rr_gpu demo_run = Some 0" by (simp add: demo_run_def)
  from startup_fails_exactly_the_lost_runs [OF demo_recovery_laws u t x] l g have
    "es = [ReleaseGpu 0 ''e4'']" "map_of (tb_runs db') ''e1'' = Some demo_run" by simp_all
  with x show ?thesis by blast
qed

end
