(* ===== verification/LayerStack.thy ===== *)
theory LayerStack
  imports LammpsData PyJson
begin

text \<open>
  Stacks of layers, \<^verbatim>\<open>src/src/features/layered_structures/service.py\<close> with the policy of
  \<^verbatim>\<open>src/src/contracts/policies/layer.py\<close>: the checks of a stack, the geometry that puts one
  layer above the other, and the data file that merges the files of the layers. A layer comes
  with its parsed file. The request schema lets through two to five layers, so a stack is never
  empty. Messages are left out, the details of a check are kept.
\<close>

section \<open>Policy\<close>

record layer_policy =
  lp_gap :: pyfloat
  lp_gap_min :: pyfloat
  lp_gap_max :: pyfloat
  lp_xy_tolerance :: pyfloat
  lp_xy_tolerance_min :: pyfloat
  lp_xy_tolerance_max :: pyfloat
  lp_rescale_warn :: pyfloat
  lp_rescale_max :: pyfloat
  lp_z_vacuum :: pyfloat
  lp_z_vacuum_min :: pyfloat
  lp_z_vacuum_max :: pyfloat
  lp_ratio_warn :: pyfloat
  lp_ratio_hard :: pyfloat
  lp_vacuum_warn :: pyfloat
  lp_vacuum_hard :: pyfloat

definition DEFAULT_LAYER_POLICY :: layer_policy where
  "DEFAULT_LAYER_POLICY =
     \<lparr>lp_gap = 2, lp_gap_min = 0, lp_gap_max = 20, lp_xy_tolerance = 5, lp_xy_tolerance_min = 1 / 10,
      lp_xy_tolerance_max = 50, lp_rescale_warn = 5, lp_rescale_max = 10, lp_z_vacuum = 20, lp_z_vacuum_min = 0,
      lp_z_vacuum_max = 200, lp_ratio_warn = 12 / 10, lp_ratio_hard = 1 / 2, lp_vacuum_warn = 1, lp_vacuum_hard = 3 / 10\<rparr>"

section \<open>Layers\<close>

datatype layer_source_type = BINDER_CELL | INTERFACE_MOLECULE_CELL | CRYSTAL_STRUCTURE

fun source_type_value :: "layer_source_type \<Rightarrow> string" where
  "source_type_value BINDER_CELL = ''binder_cell''"
| "source_type_value INTERFACE_MOLECULE_CELL = ''interface_molecule_cell''"
| "source_type_value CRYSTAL_STRUCTURE = ''crystal_structure''"

record layer_source =
  ly_type :: layer_source_type
  ly_source_id :: string
  ly_name :: string
  ly_status :: string
  ly_boundary_mode :: string
  ly_info :: data_file_info
  ly_type_map :: "(string, string) pydict"
  ly_box_size :: "pyfloat \<times> pyfloat \<times> pyfloat"

definition ly_lx :: "layer_source \<Rightarrow> pyfloat" where
  "ly_lx s = fst (ly_box_size s)"

definition ly_ly :: "layer_source \<Rightarrow> pyfloat" where
  "ly_ly s = fst (snd (ly_box_size s))"

definition ly_lz :: "layer_source \<Rightarrow> pyfloat" where
  "ly_lz s = snd (snd (ly_box_size s))"

definition is_crystal :: "layer_source \<Rightarrow> bool" where
  "is_crystal s \<longleftrightarrow> ly_type s = CRYSTAL_STRUCTURE"

definition max_of :: "('a \<Rightarrow> pyfloat) \<Rightarrow> 'a list \<Rightarrow> pyfloat" where
  "max_of f xs = foldl (\<lambda>m x. max m (f x)) (f (hd xs)) (tl xs)"

text \<open>The cell all layers are brought to: that of the first crystal, else the largest.\<close>

definition reference_xy :: "layer_source list \<Rightarrow> pyfloat \<times> pyfloat" where
  "reference_xy sources =
     (case filter is_crystal sources of
        c # _ \<Rightarrow> (ly_lx c, ly_ly c)
      | [] \<Rightarrow> (max_of ly_lx sources, max_of ly_ly sources))"

section \<open>Checks\<close>

datatype check_status = CheckPass | CheckWarn | CheckFail

record layer_check =
  lc_code :: string
  lc_status :: check_status
  lc_details :: "(string \<times> pyval) list"

abbreviation pass_if :: "bool \<Rightarrow> check_status \<Rightarrow> check_status" where
  "pass_if b s \<equiv> (if b then CheckPass else s)"

definition nums :: "pyfloat list \<Rightarrow> pyval" where
  "nums xs = PList (map PNum xs)"

definition pv_nat :: "nat \<Rightarrow> pyval" where
  "pv_nat n = PNum (of_nat n)"

definition resolve_tolerance_pct :: "pyfloat option \<Rightarrow> pyfloat option \<Rightarrow> layer_source list \<Rightarrow> pyfloat" where
  "resolve_tolerance_pct pct angstrom sources =
     (case (pct, angstrom) of
        (Some p, _) \<Rightarrow> p
      | (None, Some a) \<Rightarrow>
          let ref = (ly_lx (hd sources) + ly_ly (hd sources)) / 2
          in if ref > 0 then a / ref * 100 else lp_xy_tolerance DEFAULT_LAYER_POLICY
      | (None, None) \<Rightarrow> lp_xy_tolerance DEFAULT_LAYER_POLICY)"

definition count_check :: "layer_source list \<Rightarrow> layer_check" where
  "count_check sources =
     \<lparr>lc_code = ''layer_count'', lc_status = pass_if (2 \<le> length sources \<and> length sources \<le> 5) CheckFail,
      lc_details = [(''count'', pv_nat (length sources))]\<rparr>"

definition max_mismatch :: "layer_source list \<Rightarrow> pyfloat" where
  "max_mismatch sources =
     (let lx = ly_lx (hd sources); ly = ly_ly (hd sources); ref = (lx + ly) / 2;
          pct = (\<lambda>a b. if ref > 0 then \<bar>a - b\<bar> / ref * 100 else 0)
      in foldl (\<lambda>m s. max (max m (pct lx (ly_lx s))) (pct ly (ly_ly s))) 0 (tl sources))"

definition alignment_check :: "pyfloat \<Rightarrow> layer_source list \<Rightarrow> layer_check" where
  "alignment_check tolerance sources =
     \<lparr>lc_code = ''xy_alignment'', lc_status = pass_if (max_mismatch sources \<le> tolerance) CheckFail,
      lc_details = [(''base_xy'', nums [rounded 4 (ly_lx (hd sources)), rounded 4 (ly_ly (hd sources))]),
        (''max_mismatch_pct'', PNum (rounded 4 (max_mismatch sources))), (''tolerance_pct'', PNum (rounded 4 tolerance))]\<rparr>"

text \<open>The factors a layer that is no crystal is rescaled with, and the larger deviation in percent.\<close>

definition scale_to :: "pyfloat \<Rightarrow> pyfloat \<Rightarrow> pyfloat" where
  "scale_to target l = (if l > 1 / 10 ^ 6 then target / l else 1)"

definition rescale_pct :: "pyfloat \<times> pyfloat \<Rightarrow> layer_source \<Rightarrow> pyfloat" where
  "rescale_pct ref s =
     max (\<bar>1 - scale_to (fst ref) (ly_lx s)\<bar> * 100) (\<bar>1 - scale_to (snd ref) (ly_ly s)\<bar> * 100)"

definition max_rescale :: "layer_source list \<Rightarrow> pyfloat" where
  "max_rescale sources =
     foldl (\<lambda>m s. if is_crystal s then m else max m (rescale_pct (reference_xy sources) s)) 0 sources"

definition rescale_details :: "layer_source list \<Rightarrow> pyval list" where
  "rescale_details sources =
     concat (map (\<lambda>(i, s).
       if is_crystal s \<or> rescale_pct (reference_xy sources) s \<le> 1 / 10 ^ 3 then []
       else [PDict [(''layer'', pv_nat (i + 1)),
               (''scale_x'', PNum (rounded 6 (scale_to (fst (reference_xy sources)) (ly_lx s)))),
               (''scale_y'', PNum (rounded 6 (scale_to (snd (reference_xy sources)) (ly_ly s))))]]) (enumerate 0 sources))"

definition rescale_check :: "layer_source list \<Rightarrow> layer_check" where
  "rescale_check sources =
     (let P = DEFAULT_LAYER_POLICY; m = max_rescale sources
      in \<lparr>lc_code = ''affine_rescale'',
          lc_status = (if m > lp_rescale_max P then CheckFail else if m > lp_rescale_warn P then CheckWarn else CheckPass),
          lc_details = [(''max_rescale_pct'', PNum (rounded 4 m)), (''warn_pct'', PNum (lp_rescale_warn P)),
            (''hard_limit_pct'', PNum (lp_rescale_max P)), (''per_layer'', PList (rescale_details sources))]\<rparr>)"

definition thickness_check :: "layer_source list \<Rightarrow> layer_check" where
  "thickness_check sources =
     \<lparr>lc_code = ''z_thickness'', lc_status = pass_if (list_all (\<lambda>s. ly_lz s > 0) sources) CheckFail,
      lc_details = [(''z_sizes'', nums (map (\<lambda>s. rounded 4 (ly_lz s)) sources))]\<rparr>"

definition boundary_check :: "layer_source list \<Rightarrow> layer_check" where
  "boundary_check sources =
     (let modes = sort (remdups (map ly_boundary_mode sources))
      in \<lparr>lc_code = ''boundary_mode'', lc_status = pass_if (length modes = 1) CheckWarn,
          lc_details = [(''boundary_modes'', PList (map PStr modes))]\<rparr>)"

definition total_z :: "layer_source list \<Rightarrow> pyfloat" where
  "total_z sources = sum_list (map ly_lz sources)"

definition xy_ratio :: "layer_source list \<Rightarrow> pyfloat" where
  "xy_ratio sources =
     (if total_z sources > 0 then min (ly_lx (hd sources)) (ly_ly (hd sources)) / total_z sources else 0)"

definition aspect_check :: "pyfloat \<Rightarrow> layer_source list \<Rightarrow> layer_check" where
  "aspect_check min_ratio sources =
     (let hard = lp_ratio_hard DEFAULT_LAYER_POLICY
      in \<lparr>lc_code = ''aspect_ratio'',
          lc_status = (if total_z sources \<le> 0 \<or> xy_ratio sources < hard then CheckFail
                       else if xy_ratio sources < min_ratio then CheckWarn else CheckPass),
          lc_details = [(''xy_to_z_ratio'', PNum (rounded 4 (xy_ratio sources))), (''required_min_ratio'', PNum min_ratio),
            (''hard_min_ratio'', PNum hard)]\<rparr>)"

definition vacuum_ratio :: "pyfloat \<Rightarrow> layer_source list \<Rightarrow> pyfloat" where
  "vacuum_ratio z_vacuum sources = (if total_z sources > 0 then 2 * z_vacuum / total_z sources else 0)"

definition vacuum_check :: "pyfloat \<Rightarrow> layer_source list \<Rightarrow> layer_check" where
  "vacuum_check z_vacuum sources =
     (let P = DEFAULT_LAYER_POLICY; r = vacuum_ratio z_vacuum sources
      in \<lparr>lc_code = ''slab_vacuum_ratio'',
          lc_status = (if total_z sources > 0 \<and> r < lp_vacuum_hard P then CheckFail
                       else if total_z sources > 0 \<and> r < lp_vacuum_warn P then CheckWarn else CheckPass),
          lc_details = [(''vacuum_to_slab_ratio'', PNum (rounded 4 r)), (''total_vacuum_angstrom'', PNum (rounded 4 (2 * z_vacuum))),
            (''slab_thickness_angstrom'', PNum (rounded 4 (total_z sources))), (''recommended_min_ratio'', PNum (lp_vacuum_warn P)),
            (''hard_min_ratio'', PNum (lp_vacuum_hard P))]\<rparr>)"

definition should_flip_crystal_layer :: "layer_source list \<Rightarrow> nat \<Rightarrow> bool" where
  "should_flip_crystal_layer sources i \<longleftrightarrow> is_crystal (sources ! i) \<and> i > 0"

definition orientation_check :: "layer_source list \<Rightarrow> layer_check" where
  "orientation_check sources =
     \<lparr>lc_code = ''crystal_interface_orientation'', lc_status = CheckPass,
      lc_details = [(''flipped_layer_indices'',
        PList (map (\<lambda>i. pv_nat (i + 1)) (filter (should_flip_crystal_layer sources) [0..<length sources])))]\<rparr>"

definition dual_check :: "layer_source list \<Rightarrow> layer_check" where
  "dual_check sources =
     (let interior = filter (\<lambda>i. is_crystal (sources ! i) \<and> 0 < i \<and> i < length sources - 1) [0..<length sources]
      in \<lparr>lc_code = ''crystal_dual_interface_limit'', lc_status = pass_if (interior = []) CheckWarn,
          lc_details = [(''interior_crystal_layer_indices'', PList (map (\<lambda>i. pv_nat (i + 1)) interior))]\<rparr>)"

text \<open>The last argument holds the checks of the force fields, \<open>None\<close> when they raised.\<close>

definition validate_checks ::
    "layer_source list \<Rightarrow> pyfloat \<Rightarrow> pyfloat \<Rightarrow> pyfloat \<Rightarrow> layer_check list option \<Rightarrow> layer_check list" where
  "validate_checks sources tolerance min_ratio z_vacuum ff_checks =
     [count_check sources, alignment_check tolerance sources, rescale_check sources, thickness_check sources,
      boundary_check sources, aspect_check min_ratio sources, vacuum_check z_vacuum sources, orientation_check sources,
      dual_check sources] @ (case ff_checks of None \<Rightarrow> [] | Some cs \<Rightarrow> cs)"

definition check_has_fail :: "layer_check list \<Rightarrow> bool" where
  "check_has_fail checks \<longleftrightarrow> list_ex (\<lambda>c. lc_status c = CheckFail) checks"

section \<open>Geometry\<close>

record combined_atom =
  ca_element :: string
  ca_charge :: pyfloat
  ca_x :: pyfloat
  ca_y :: pyfloat
  ca_z :: pyfloat
  ca_layer :: nat
  ca_type :: int
  ca_mol :: int

record combined_geometry =
  cg_atoms :: "combined_atom list"
  cg_bonds :: "(nat \<times> nat) list"
  cg_box :: "pyfloat \<times> pyfloat \<times> pyfloat"
  cg_boundaries :: "pyfloat list"
  cg_xyz :: string

definition layer_local_z :: "pyfloat \<Rightarrow> pyfloat \<Rightarrow> pyfloat \<Rightarrow> bool \<Rightarrow> pyfloat" where
  "layer_local_z z zlo zhi flip =
     (let local_z = (if flip then zhi - z else z - zlo); thickness = zhi - zlo
      in if local_z < 0 then 0 else if local_z > thickness then thickness else local_z)"

text \<open>The place of one coordinate in the common cell: centred, or rescaled.\<close>

definition placed_coord :: "bool \<Rightarrow> pyfloat \<Rightarrow> pyfloat \<Rightarrow> pyfloat \<Rightarrow> pyfloat \<Rightarrow> pyfloat" where
  "placed_coord rescale target lo l x =
     (if rescale then (x - lo) * scale_to target l else (x - lo) + (target - l) * (1 / 2))"

definition must_rescale :: "pyfloat \<times> pyfloat \<Rightarrow> layer_source \<Rightarrow> bool" where
  "must_rescale ref s \<longleftrightarrow>
     (let box = di_box (ly_info s); lx = box ! 1 - box ! 0; ly = box ! 3 - box ! 2
      in \<not> (is_crystal s \<or> (\<bar>lx - fst ref\<bar> < 1 / 10 ^ 6 \<and> \<bar>ly - snd ref\<bar> < 1 / 10 ^ 6)))"

definition combined_of :: "pyfloat \<times> pyfloat \<Rightarrow> nat \<Rightarrow> bool \<Rightarrow> pyfloat \<Rightarrow> layer_source \<Rightarrow> data_atom \<Rightarrow> combined_atom" where
  "combined_of ref i flip z_cursor s a =
     (let box = di_box (ly_info s); (x, y, z) = da_pos a; r = must_rescale ref s
      in \<lparr>ca_element = dict_get (ly_type_map s) (show_int (da_type a)) ''X'', ca_charge = da_charge a,
          ca_x = placed_coord r (fst ref) (box ! 0) (box ! 1 - box ! 0) x,
          ca_y = placed_coord r (snd ref) (box ! 2) (box ! 3 - box ! 2) y,
          ca_z = layer_local_z z (box ! 4) (box ! 5) flip + z_cursor,
          ca_layer = i + 1, ca_type = da_type a, ca_mol = da_mol a\<rparr>)"

text \<open>\<open>d[atom.atom_id] = start + local_idx\<close> over the atoms of a layer.\<close>

definition id_map :: "nat \<Rightarrow> data_atom list \<Rightarrow> (int, nat) pydict" where
  "id_map start atoms = foldl (\<lambda>d (j, a). dict_set (da_id a) (start + j) d) [] (enumerate 0 atoms)"

text \<open>The atoms of a link in the numbering of the map; nothing if one of them is unknown.\<close>

definition mapped_link :: "(int, nat) pydict \<Rightarrow> link \<Rightarrow> nat list option" where
  "mapped_link d l = all_some (map (map_of d) (lk_atoms l))"

definition pair_of :: "nat list \<Rightarrow> nat \<times> nat" where
  "pair_of is = (is ! 0, is ! 1)"

definition layer_bonds :: "nat \<Rightarrow> layer_source \<Rightarrow> (nat \<times> nat) list" where
  "layer_bonds start s =
     concat (map (\<lambda>l. case mapped_link (id_map start (di_atoms (ly_info s))) l of None \<Rightarrow> [] | Some is \<Rightarrow> [pair_of is])
       (di_bonds (ly_info s)))"

text \<open>The gap above layer \<open>i\<close>: its own, if the stack gives gaps and this one is not \<open>None\<close>.\<close>

definition gap_after :: "pyfloat \<Rightarrow> pyfloat option list \<Rightarrow> nat \<Rightarrow> pyfloat" where
  "gap_after g0 gaps i =
     (if gaps = [] then g0 else case gaps ! i of None \<Rightarrow> g0 | Some g \<Rightarrow> g)"

record stack_state =
  ss_z :: pyfloat
  ss_atoms :: "combined_atom list"
  ss_bonds :: "(nat \<times> nat) list"
  ss_boundaries :: "pyfloat list"

definition stack_layer ::
    "layer_source list \<Rightarrow> pyfloat \<Rightarrow> pyfloat option list \<Rightarrow> nat \<times> layer_source \<Rightarrow> stack_state \<Rightarrow> stack_state" where
  "stack_layer sources gap gaps p st =
     (let (i, s) = p; box = di_box (ly_info s); top = ss_z st + (box ! 5 - box ! 4); g = gap_after gap gaps i
      in \<lparr>ss_z = (if i < length sources - 1 \<and> g > 0 then top + g else top),
          ss_atoms = ss_atoms st @
            map (combined_of (reference_xy sources) i (should_flip_crystal_layer sources i) (ss_z st) s) (di_atoms (ly_info s)),
          ss_bonds = ss_bonds st @ layer_bonds (length (ss_atoms st)) s,
          ss_boundaries = ss_boundaries st @ [ss_z st, top]\<rparr>)"

definition empty_stack :: stack_state where
  "empty_stack = \<lparr>ss_z = 0, ss_atoms = [], ss_bonds = [], ss_boundaries = []\<rparr>"

definition geometry_xyz :: "combined_atom list \<Rightarrow> string" where
  "geometry_xyz atoms =
     join_with newline ([show_nat (length atoms), ''Layered structure preview''] @
       map (\<lambda>a. sp [ca_element a, show_fixed 6 (ca_x a), show_fixed 6 (ca_y a), show_fixed 6 (ca_z a)]) atoms)"

definition combine_sources_to_geometry :: "layer_source list \<Rightarrow> pyfloat \<Rightarrow> pyfloat option list \<Rightarrow> combined_geometry" where
  "combine_sources_to_geometry sources gap gaps =
     (let st = fold (stack_layer sources gap gaps) (enumerate 0 sources) empty_stack
      in \<lparr>cg_atoms = ss_atoms st, cg_bonds = ss_bonds st,
          cg_box = (fst (reference_xy sources), snd (reference_xy sources), ss_z st),
          cg_boundaries = ss_boundaries st, cg_xyz = geometry_xyz (ss_atoms st)\<rparr>)"

definition protocol_layer_boundaries :: "pyfloat \<Rightarrow> pyfloat list \<Rightarrow> pyfloat list" where
  "protocol_layer_boundaries z_vacuum bs = map (\<lambda>b. b + z_vacuum) bs"

definition crystal_grip_ranges ::
    "layer_source list \<Rightarrow> pyfloat list \<Rightarrow> (pyfloat \<times> pyfloat) option \<times> (pyfloat \<times> pyfloat) option" where
  "crystal_grip_ranges sources shifted =
     (let n = length sources - 1
      in (if is_crystal (hd sources) then Some (shifted ! 0, shifted ! 1) else None,
          if length sources > 1 \<and> is_crystal (last sources) then Some (shifted ! (2 * n), shifted ! (2 * n + 1)) else None))"

text \<open>The volumes of the layers by their labels, as the submission computes them.\<close>

definition layer_volumes :: "pyfloat \<times> pyfloat \<times> pyfloat \<Rightarrow> pyfloat list \<Rightarrow> string option list \<Rightarrow> (string, pyfloat) pydict" where
  "layer_volumes box bs labels =
     foldl (\<lambda>d (i, label).
       let thickness = bs ! (i + 1) - bs ! i
       in if length bs \<ge> i + 2 \<and> thickness > 0
          then dict_set (or_default label (''layer_'' @ show_nat i)) (fst box * fst (snd box) * thickness) d else d)
       [] (enumerate 0 labels)"

section \<open>The merged file\<close>

text \<open>What each layer adds in front of the numbers of the next one.\<close>

fun running :: "int \<Rightarrow> int list \<Rightarrow> int list" where
  "running t [] = []"
| "running t (n # ns) = t # running (t + n) ns"

definition offsets :: "(data_file_info \<Rightarrow> int) \<Rightarrow> layer_source list \<Rightarrow> int list" where
  "offsets n sources = running 0 (map (\<lambda>s. n (ly_info s)) sources)"

definition total_of :: "(data_file_info \<Rightarrow> int) \<Rightarrow> layer_source list \<Rightarrow> int" where
  "total_of n sources = sum_list (map (\<lambda>s. n (ly_info s)) sources)"

definition atom_count_of :: "data_file_info \<Rightarrow> int" where
  "atom_count_of I = int (length (di_atoms I))"

text \<open>Type and atoms of the links of one layer in the merged numbering.\<close>

definition layer_links :: "int \<Rightarrow> nat \<Rightarrow> data_atom list \<Rightarrow> link list \<Rightarrow> (int \<times> int list) list" where
  "layer_links off start atoms ls =
     concat (map (\<lambda>l. case mapped_link (id_map (start + 1) atoms) l of
                        None \<Rightarrow> [] | Some is \<Rightarrow> [(lk_type l + off, map int is)]) ls)"

definition numbered_links :: "(int \<times> int list) list \<Rightarrow> link list" where
  "numbered_links ps = map (\<lambda>(i, t, as). \<lparr>lk_id = int i + 1, lk_type = t, lk_atoms = as\<rparr>) (enumerate 0 ps)"

definition merged_links :: "(data_file_info \<Rightarrow> int) \<Rightarrow> (data_file_info \<Rightarrow> link list) \<Rightarrow> layer_source list \<Rightarrow> link list" where
  "merged_links n get sources =
     numbered_links (concat (map (\<lambda>(s, off, start).
        layer_links off (nat start) (di_atoms (ly_info s)) (get (ly_info s)))
       (zip sources (zip (offsets n sources) (offsets atom_count_of sources)))))"

definition list_or_nil :: "'a list option \<Rightarrow> 'a list" where
  "list_or_nil x = (case x of None \<Rightarrow> [] | Some xs \<Rightarrow> xs)"

record lineage_entry =
  le_index :: nat
  le_type :: string
  le_start :: int
  le_end :: int

definition layer_lineage :: "layer_source list \<Rightarrow> lineage_entry list" where
  "layer_lineage sources =
     map (\<lambda>(i, s, start). \<lparr>le_index = i, le_type = source_type_value (ly_type s), le_start = start + 1,
        le_end = start + atom_count_of (ly_info s)\<rparr>) (enumerate 0 (zip sources (offsets atom_count_of sources)))"

definition merged_masses :: "layer_source list \<Rightarrow> (int, pyfloat \<times> string) pydict" where
  "merged_masses sources =
     foldl (\<lambda>d (s, off).
       foldl (\<lambda>d (t, m). dict_set (t + off) (m, dict_get (ly_type_map s) (show_int t) ''X'') d) d (di_masses (ly_info s)))
       [] (zip sources (offsets di_n_atom_types sources))"

text \<open>\<open>line.split(None, 1)\<close> of a line without blanks at its ends.\<close>

definition split_once :: "string \<Rightarrow> string list" where
  "split_once s =
     (let w = takeWhile (\<lambda>c. \<not> is_space c) s; rest = dropWhile is_space (dropWhile (\<lambda>c. \<not> is_space c) s)
      in if rest = [] then [w] else [w, rest])"

definition shifted_line :: "int \<Rightarrow> string \<Rightarrow> string list" where
  "shifted_line off raw =
     (let s = str_strip raw
      in if s = [] \<or> prefix ''#'' s then []
         else case split_once s of
             [w, rest] \<Rightarrow> (case py_int_of w of None \<Rightarrow> [s] | Some n \<Rightarrow> [show_int (n + off) @ blank # rest])
           | _ \<Rightarrow> [s])"

definition merge_coeff_section :: "string \<Rightarrow> int list \<Rightarrow> layer_source list \<Rightarrow> string list" where
  "merge_coeff_section name offs sources =
     concat (map (\<lambda>(s, off).
       let raw = dict_get (list_or_nil (di_raw_coeffs (ly_info s))) name []
       in if raw = [] then [] else concat (map (shifted_line off) (split_on newline (str_strip raw)))) (zip sources offs))"

text \<open>The atom type a line is for: its first word, if that is a number.\<close>

definition line_type :: "string \<Rightarrow> int list" where
  "line_type l = (case py_split l of w # _ \<Rightarrow> (case py_int_of w of None \<Rightarrow> [] | Some n \<Rightarrow> [n]) | [] \<Rightarrow> [])"

datatype merge_error = NoMineralParameters int string

text \<open>\<open>minerals\<close> holds the two numbers of the mineral table as they are printed.\<close>

definition mineral_line :: "(string, string \<times> string) pydict \<Rightarrow> (int, pyfloat \<times> string) pydict \<Rightarrow> int \<Rightarrow> (merge_error, string) result" where
  "mineral_line minerals masses t =
     (let element = snd (dict_get masses t (0, []))
      in case map_of minerals element of
           Some (eps, sig) \<Rightarrow> Inr (sp [show_int t, eps, sig] @ '' # INTERFACE FF ('' @ element @ '')'')
         | None \<Rightarrow> Inl (NoMineralParameters t element))"

definition merged_pair_coeffs ::
    "(string, string \<times> string) pydict \<Rightarrow> layer_source list \<Rightarrow> (merge_error, string list) result" where
  "merged_pair_coeffs minerals sources =
     (let lines = merge_coeff_section ''Pair Coeffs'' (offsets di_n_atom_types sources) sources;
          masses = merged_masses sources;
          missing = filter (\<lambda>t. t \<notin> set (concat (map line_type lines))) (sort (map fst masses))
      in map_sum id (\<lambda>new. lines @ new) (map_result (mineral_line minerals masses) missing))"

definition crystal_type_ids :: "layer_source list \<Rightarrow> int list" where
  "crystal_type_ids sources =
     sort (remdups (concat (map (\<lambda>(s, off). if is_crystal s then map (\<lambda>(t, _). t + off) (di_masses (ly_info s)) else [])
       (zip sources (offsets di_n_atom_types sources)))))"

definition max_mol :: "data_file_info \<Rightarrow> int" where
  "max_mol I = (case map da_mol (di_atoms I) of [] \<Rightarrow> 0 | m # ms \<Rightarrow> foldl max m ms)"

definition merged_atom :: "int list \<Rightarrow> int list \<Rightarrow> pyfloat \<Rightarrow> nat \<times> combined_atom \<Rightarrow> top_atom" where
  "merged_atom type_offs mol_offs z_vacuum p =
     (let (i, a) = p; k = ca_layer a - 1
      in \<lparr>ta_id = int i + 1, ta_mol = ca_mol a + mol_offs ! k, ta_type = ca_type a + type_offs ! k, ta_charge = ca_charge a,
          ta_pos = (ca_x a, ca_y a, ca_z a + z_vacuum), ta_comment = []\<rparr>)"

definition merged_atoms :: "layer_source list \<Rightarrow> pyfloat \<Rightarrow> combined_geometry \<Rightarrow> top_atom list" where
  "merged_atoms sources z_vacuum geo =
     map (merged_atom (offsets di_n_atom_types sources) (offsets max_mol sources) z_vacuum) (enumerate 0 (cg_atoms geo))"

text \<open>A section of the merged file: a blank line in front, the header, a blank line.\<close>

definition section_lines :: "string \<Rightarrow> string list \<Rightarrow> string list" where
  "section_lines header ls = [[], header, []] @ ls"

definition section_if :: "string \<Rightarrow> string list \<Rightarrow> string list" where
  "section_if header ls = (if ls = [] then [] else section_lines header ls)"

definition mass_line6 :: "int \<times> pyfloat \<times> string \<Rightarrow> string" where
  "mass_line6 p = (let (t, m, element) = p in sp [show_int t, show_fixed 6 m] @ '' # '' @ element)"

definition zero_box_line :: "pyfloat \<Rightarrow> string \<Rightarrow> string" where
  "zero_box_line x names = sp [''0.0'', show_fixed 6 x] @ blank # names"

definition link_lines :: "link list \<Rightarrow> string list" where
  "link_lines ls = map (\<lambda>l. sp (link_words l)) ls"

definition crystal_lines :: "layer_source list \<Rightarrow> string list" where
  "crystal_lines sources =
     (if crystal_type_ids sources = [] then []
      else [[], ''# Crystal atom types: '' @ sp (map show_int (crystal_type_ids sources)),
            ''# Crystal FF: INTERFACE_FF (Heinz et al. 2013, Lorentz-Berthelot mixing)''])"

definition int_count_line :: "int \<Rightarrow> string \<Rightarrow> string" where
  "int_count_line n what = show_int n @ blank # what"

definition merged_lines :: "string list \<Rightarrow> layer_source list \<Rightarrow> pyfloat \<Rightarrow> combined_geometry \<Rightarrow> string list" where
  "merged_lines pairs sources z_vacuum geo =
     (let (lx, ly, lz) = cg_box geo;
          masses = merged_masses sources;
          bonds = merged_links di_n_bond_types di_bonds sources;
          angles = merged_links di_n_angle_types (\<lambda>I. list_or_nil (di_angles I)) sources;
          dihedrals = merged_links di_n_dihedral_types (\<lambda>I. list_or_nil (di_dihedrals I)) sources;
          impropers = merged_links di_n_improper_types (\<lambda>I. list_or_nil (di_impropers I)) sources
      in [''LAMMPS data file - Layered structure prebuilt'', [],
          count_line (length (cg_atoms geo)) ''atoms'', count_line (length bonds) ''bonds'',
          count_line (length angles) ''angles'', count_line (length dihedrals) ''dihedrals'',
          count_line (length impropers) ''impropers'', [],
          int_count_line (total_of di_n_atom_types sources) ''atom types'',
          int_count_line (total_of di_n_bond_types sources) ''bond types'',
          int_count_line (total_of di_n_angle_types sources) ''angle types'',
          int_count_line (total_of di_n_dihedral_types sources) ''dihedral types'',
          int_count_line (total_of di_n_improper_types sources) ''improper types'', [],
          zero_box_line lx ''xlo xhi'', zero_box_line ly ''ylo yhi'', zero_box_line (lz + 2 * z_vacuum) ''zlo zhi''] @
         section_lines ''Masses'' (map (\<lambda>t. mass_line6 (t, dict_get masses t (0, []))) (sort (map fst masses))) @
         section_lines ''Pair Coeffs'' pairs @
         section_if ''Bond Coeffs'' (merge_coeff_section ''Bond Coeffs'' (offsets di_n_bond_types sources) sources) @
         section_if ''Angle Coeffs'' (merge_coeff_section ''Angle Coeffs'' (offsets di_n_angle_types sources) sources) @
         section_if ''Dihedral Coeffs'' (merge_coeff_section ''Dihedral Coeffs'' (offsets di_n_dihedral_types sources) sources) @
         section_if ''Improper Coeffs'' (merge_coeff_section ''Improper Coeffs'' (offsets di_n_improper_types sources) sources) @
         section_lines ''Atoms # full'' (map (\<lambda>a. sp (atom_words a)) (merged_atoms sources z_vacuum geo)) @
         section_if ''Bonds'' (link_lines bonds) @ section_if ''Angles'' (link_lines angles) @
         section_if ''Dihedrals'' (link_lines dihedrals) @ section_if ''Impropers'' (link_lines impropers) @
         crystal_lines sources)"

text \<open>The text of the file and the lineage of the layers.\<close>

definition write_combined_lammps_data ::
    "(string, string \<times> string) pydict \<Rightarrow> layer_source list \<Rightarrow> pyfloat \<Rightarrow> combined_geometry
      \<Rightarrow> (merge_error, string \<times> lineage_entry list) result" where
  "write_combined_lammps_data minerals sources z_vacuum geo =
     map_sum id (\<lambda>pairs. (unlines (merged_lines pairs sources z_vacuum geo), layer_lineage sources))
       (merged_pair_coeffs minerals sources)"

end
