(* ===== verification/LayerStackProps.thy ===== *)
theory LayerStackProps
  imports LayerStack LammpsDataProps
begin

text \<open>
  Properties of stacks of layers: where the layers lie, what the merged file says, and when a
  stack is refused.
\<close>

section \<open>Geometry\<close>

definition layer_thickness :: "layer_source \<Rightarrow> pyfloat" where
  "layer_thickness s = di_box (ly_info s) ! 5 - di_box (ly_info s) ! 4"

text \<open>Bottom and top of the layers from the \<open>i\<close>-th on, of \<open>n\<close> layers, the first one at \<open>z\<close>.\<close>

fun spans :: "nat \<Rightarrow> pyfloat \<Rightarrow> pyfloat option list \<Rightarrow> nat \<Rightarrow> pyfloat \<Rightarrow> layer_source list \<Rightarrow> (pyfloat \<times> pyfloat) list" where
  "spans n gap gaps i z [] = []"
| "spans n gap gaps i z (s # ss) =
     (let top = z + layer_thickness s
      in (z, top) # spans n gap gaps (i + 1)
           (if i < n - 1 \<and> gap_after gap gaps i > 0 then top + gap_after gap gaps i else top) ss)"

definition flat :: "('a \<times> 'a) list \<Rightarrow> 'a list" where
  "flat ps = concat (map (\<lambda>(a, b). [a, b]) ps)"

lemma flat_simps [simp]: "flat [] = []" "flat (p # ps) = fst p # snd p # flat ps"
  by (simp_all add: flat_def split: prod.splits)

lemma flat_length [simp]: "length (flat ps) = 2 * length ps"
  by (induction ps) simp_all

lemma flat_nth: "i < length ps \<Longrightarrow> flat ps ! (2 * i) = fst (ps ! i) \<and> flat ps ! (2 * i + 1) = snd (ps ! i)"
  by (induction ps arbitrary: i) (auto simp: nth_Cons' less_Suc_eq_0_disj)

lemma spans_length [simp]: "length (spans n gap gaps i z ss) = length ss"
  by (induction ss arbitrary: i z) (simp_all add: Let_def)

text \<open>The atoms of the layers, given where they lie.\<close>

definition layer_atoms :: "layer_source list \<Rightarrow> nat \<times> layer_source \<Rightarrow> pyfloat \<times> pyfloat \<Rightarrow> combined_atom list" where
  "layer_atoms sources p b =
     map (combined_of (reference_xy sources) (fst p) (should_flip_crystal_layer sources (fst p)) (fst b) (snd p))
       (di_atoms (ly_info (snd p)))"

lemma stack_atoms:
  "ss_atoms (fold (stack_layer sources gap gaps) (enumerate i ss) st) =
     ss_atoms st @ concat (map2 (layer_atoms sources) (enumerate i ss) (spans (length sources) gap gaps i (ss_z st) ss))"
  by (induction ss arbitrary: i st) (simp_all add: stack_layer_def Let_def layer_atoms_def layer_thickness_def)

lemma stack_boundaries:
  "ss_boundaries (fold (stack_layer sources gap gaps) (enumerate i ss) st) =
     ss_boundaries st @ flat (spans (length sources) gap gaps i (ss_z st) ss)"
  by (induction ss arbitrary: i st) (simp_all add: stack_layer_def Let_def layer_thickness_def)

lemma spans_Nil [simp]: "spans n gap gaps i z ss = [] \<longleftrightarrow> ss = []"
  by (cases ss) (simp_all add: Let_def)

lemma stack_layer_z:
  "ss_z (stack_layer sources gap gaps (i, s) st) =
     (if i < length sources - 1 \<and> gap_after gap gaps i > 0 then ss_z st + layer_thickness s + gap_after gap gaps i
      else ss_z st + layer_thickness s)"
  by (simp add: stack_layer_def Let_def layer_thickness_def)

lemma stack_top:
  assumes "i + length ss = length sources" "ss \<noteq> []"
  shows "ss_z (fold (stack_layer sources gap gaps) (enumerate i ss) st) =
     snd (last (spans (length sources) gap gaps i (ss_z st) ss))"
  using assms
proof (induction ss arbitrary: i st)
  case (Cons s ss)
  let ?st = "stack_layer sources gap gaps (i, s) st"
  show ?case
  proof (cases "ss = []")
    case True
    moreover have "\<not> i < length sources - 1" using Cons.prems True by simp
    ultimately show ?thesis by (simp add: stack_layer_z Let_def)
  next
    case False
    have "ss_z (fold (stack_layer sources gap gaps) (enumerate (Suc i) ss) ?st) =
      snd (last (spans (length sources) gap gaps (Suc i) (ss_z ?st) ss))"
      using False Cons.prems by (intro Cons.IH) simp_all
    then show ?thesis using False by (simp add: Let_def stack_layer_z)
  qed
qed simp

abbreviation thick :: "layer_source \<Rightarrow> bool" where
  "thick s \<equiv> layer_thickness s \<ge> 0"

lemma spans_sorted:
  "list_all thick ss \<Longrightarrow> sorted (flat (spans n gap gaps i z ss)) \<and> (\<forall>x\<in>set (flat (spans n gap gaps i z ss)). z \<le> x)"
proof (induction ss arbitrary: i z)
  case (Cons s ss)
  let ?z = "if i < n - 1 \<and> gap_after gap gaps i > 0 then z + layer_thickness s + gap_after gap gaps i
            else z + layer_thickness s"
  have "z \<le> z + layer_thickness s" "z + layer_thickness s \<le> ?z" using Cons.prems by auto
  then show ?case using Cons.IH[of "Suc i" ?z] Cons.prems by (fastforce simp: Let_def)
qed simp

lemma spans_nth:
  "j < length ss \<Longrightarrow> snd (spans n gap gaps i z ss ! j) = fst (spans n gap gaps i z ss ! j) + layer_thickness (ss ! j)"
  by (induction ss arbitrary: i z j) (auto simp: Let_def nth_Cons')

lemma spans_gap:
  "Suc j < length ss \<Longrightarrow> i + length ss = n \<Longrightarrow>
     fst (spans n gap gaps i z ss ! Suc j) = snd (spans n gap gaps i z ss ! j) + max 0 (gap_after gap gaps (i + j))"
proof (induction ss arbitrary: i z j)
  case (Cons s ss)
  show ?case
  proof (cases j)
    case 0
    then show ?thesis using Cons.prems by (cases ss) (auto simp: Let_def max_def)
  next
    case (Suc j')
    then show ?thesis using Cons.IH[of j' "Suc i"] Cons.prems by (simp add: Let_def)
  qed
qed simp

lemma local_z_bounds: "zlo \<le> zhi \<Longrightarrow> 0 \<le> layer_local_z z zlo zhi flip \<and> layer_local_z z zlo zhi flip \<le> zhi - zlo"
  by (simp add: layer_local_z_def Let_def)

lemma combined_in_span:
  "thick s \<Longrightarrow> z \<le> ca_z (combined_of ref i flip z s a) \<and> ca_z (combined_of ref i flip z s a) \<le> z + layer_thickness s"
  by (cases "da_pos a")
    (use local_z_bounds[of "di_box (ly_info s) ! 4" "di_box (ly_info s) ! 5" "snd (snd (da_pos a))" flip] in
      \<open>simp add: combined_of_def Let_def layer_thickness_def\<close>)

lemma combined_layer [simp]: "ca_layer (combined_of ref i flip z s a) = i + 1"
  by (simp add: combined_of_def Let_def split: prod.splits)

lemma layer_atom_at:
  assumes "a \<in> set (concat (map2 (layer_atoms sources) (enumerate 0 ss) bs))" "length bs = length ss"
  obtains j where "j < length ss" "a \<in> set (layer_atoms sources (j, ss ! j) (bs ! j))"
  using assms by (auto simp: set_zip nth_enumerate_eq)

abbreviation layer_spans :: "layer_source list \<Rightarrow> pyfloat \<Rightarrow> pyfloat option list \<Rightarrow> (pyfloat \<times> pyfloat) list" where
  "layer_spans sources gap gaps \<equiv> spans (length sources) gap gaps 0 0 sources"

lemma geometry_fields:
  "cg_atoms (combine_sources_to_geometry sources gap gaps) =
     concat (map2 (layer_atoms sources) (enumerate 0 sources) (layer_spans sources gap gaps))"
  "cg_boundaries (combine_sources_to_geometry sources gap gaps) = flat (layer_spans sources gap gaps)"
  by (simp_all add: combine_sources_to_geometry_def Let_def stack_atoms stack_boundaries empty_stack_def)

lemma geometry_top:
  "sources \<noteq> [] \<Longrightarrow> snd (snd (cg_box (combine_sources_to_geometry sources gap gaps))) = snd (last (layer_spans sources gap gaps))"
  by (simp add: combine_sources_to_geometry_def Let_def stack_top empty_stack_def)

lemma flat_Nil [simp]: "flat ps = [] \<longleftrightarrow> ps = []"
  by (cases ps) simp_all

lemma flat_last: "ps \<noteq> [] \<Longrightarrow> last (flat ps) = snd (last ps)"
  by (induction ps) auto

text \<open>Inside its own cell, an atom of a rescaled layer stays inside the common cell.\<close>

lemma placed_inside:
  assumes "lo \<le> x" "x \<le> lo + l" "0 \<le> target" "r \<and> l > 1 / 10 ^ 6 \<or> \<not> r \<and> l \<le> target"
  shows "0 \<le> placed_coord r target lo l x \<and> placed_coord r target lo l x \<le> target"
proof (cases r)
  case True
  then have l: "l > 0" "l > 1 / 10 ^ 6" using assms(4) by auto
  have "(x - lo) * (target / l) = target * ((x - lo) / l)" by simp
  also have "\<dots> \<le> target * 1" using assms l by (intro mult_left_mono) (simp_all add: field_simps)
  finally show ?thesis using True assms l by (simp add: placed_coord_def scale_to_def)
next
  case False
  then have "x - lo \<le> l" "l \<le> target" "0 \<le> x - lo" using assms by simp_all
  then have "2 * (x - lo) + (target - l) \<le> 2 * target" "0 \<le> 2 * (x - lo) + (target - l)" by (simp_all add: algebra_simps)
  then show ?thesis using False by (simp add: placed_coord_def field_simps)
qed

text \<open>
  C7: Stacking layers of positive thickness gives two boundaries per layer in ascending order;
  every atom lies between the boundaries of its layer, flipped or rescaled, a layer keeps its
  thickness, the gap above it is its own or the default and never negative, and the cell ends
  with the last layer.
\<close>

theorem layers_do_not_overlap:
  assumes "sources \<noteq> []" "list_all thick sources"
    and geo: "geo = combine_sources_to_geometry sources gap gaps"
  shows "length (cg_boundaries geo) = 2 * length sources \<and> sorted (cg_boundaries geo) \<and>
    (\<forall>a\<in>set (cg_atoms geo). 1 \<le> ca_layer a \<and> ca_layer a \<le> length sources \<and>
       cg_boundaries geo ! (2 * (ca_layer a - 1)) \<le> ca_z a \<and> ca_z a \<le> cg_boundaries geo ! (2 * (ca_layer a - 1) + 1)) \<and>
    (\<forall>j<length sources. cg_boundaries geo ! (2 * j + 1) = cg_boundaries geo ! (2 * j) + layer_thickness (sources ! j)) \<and>
    (\<forall>j. Suc j < length sources \<longrightarrow>
       cg_boundaries geo ! (2 * Suc j) = cg_boundaries geo ! (2 * j + 1) + max 0 (gap_after gap gaps j)) \<and>
    snd (snd (cg_box geo)) = last (cg_boundaries geo)"
proof (intro conjI ballI allI impI)
  let ?b = "layer_spans sources gap gaps"
  have bs: "cg_boundaries geo = flat ?b" and len: "length ?b = length sources" by (simp_all add: geo geometry_fields)
  note at = flat_nth[of _ ?b, unfolded len, folded bs]
  show "length (cg_boundaries geo) = 2 * length sources" by (simp add: bs)
  show "sorted (cg_boundaries geo)" using spans_sorted[OF assms(2)] by (simp add: bs)
  fix a assume "a \<in> set (cg_atoms geo)"
  then obtain j where j: "j < length sources" "a \<in> set (layer_atoms sources (j, sources ! j) (?b ! j))"
    unfolding geo geometry_fields by (rule layer_atom_at) simp
  then have a: "ca_layer a = j + 1" by (auto simp: layer_atoms_def)
  have "thick (sources ! j)" using assms(2) j(1) by (simp add: list_all_length)
  then have z: "fst (?b ! j) \<le> ca_z a \<and> ca_z a \<le> snd (?b ! j)"
    using j by (auto simp: layer_atoms_def spans_nth combined_in_span)
  show "1 \<le> ca_layer a" "ca_layer a \<le> length sources" using a j(1) by simp_all
  show "cg_boundaries geo ! (2 * (ca_layer a - 1)) \<le> ca_z a" "ca_z a \<le> cg_boundaries geo ! (2 * (ca_layer a - 1) + 1)"
    using at[OF j(1)] z a by simp_all
next
  let ?b = "layer_spans sources gap gaps"
  have bs: "cg_boundaries geo = flat ?b" and len: "length ?b = length sources" by (simp_all add: geo geometry_fields)
  note at = flat_nth[of _ ?b, unfolded len, folded bs]
  fix j assume j: "j < length sources"
  then show "cg_boundaries geo ! (2 * j + 1) = cg_boundaries geo ! (2 * j) + layer_thickness (sources ! j)"
    using at[OF j] by (simp add: spans_nth)
next
  let ?b = "layer_spans sources gap gaps"
  have bs: "cg_boundaries geo = flat ?b" and len: "length ?b = length sources" by (simp_all add: geo geometry_fields)
  note at = flat_nth[of _ ?b, unfolded len, folded bs]
  fix j assume j: "Suc j < length sources"
  then show "cg_boundaries geo ! (2 * Suc j) = cg_boundaries geo ! (2 * j + 1) + max 0 (gap_after gap gaps j)"
  proof -
    have "cg_boundaries geo ! (2 * Suc j) = fst (?b ! Suc j)" using at[OF j] by (rule conjunct1)
    also have "\<dots> = snd (?b ! j) + max 0 (gap_after gap gaps (0 + j))" using j by (rule spans_gap) simp
    also have "snd (?b ! j) = cg_boundaries geo ! (2 * j + 1)" using at[of j] j by simp
    finally show ?thesis by simp
  qed
next
  show "snd (snd (cg_box geo)) = last (cg_boundaries geo)"
    unfolding geo geometry_fields using assms(1) by (simp add: geometry_top flat_last)
qed

section \<open>Links of the merged file\<close>

lemma running_length [simp]: "length (running t ns) = length ns"
  by (induction ns arbitrary: t) simp_all

lemma running_nth: "j < length ns \<Longrightarrow> running t ns ! j = t + sum_list (take j ns)"
  by (induction ns arbitrary: t j) (auto simp: nth_Cons' take_Cons')

lemma offsets_length [simp]: "length (offsets n sources) = length sources"
  by (simp add: offsets_def)

lemma offsets_nth: "j < length sources \<Longrightarrow> offsets n sources ! j = sum_list (map (\<lambda>s. n (ly_info s)) (take j sources))"
  by (simp add: offsets_def running_nth take_map)

lemma offsets_Suc:
  "Suc j < length sources \<Longrightarrow> offsets n sources ! Suc j = offsets n sources ! j + n (ly_info (sources ! j))"
  by (simp add: offsets_nth take_Suc_conv_app_nth)

lemma atom_offset_nonneg: "j < length sources \<Longrightarrow> offsets atom_count_of sources ! j \<ge> 0"
  by (auto simp: offsets_nth atom_count_of_def intro!: sum_list_nonneg)

text \<open>The numbering finds, for an atom id, a place where an atom of this id stands.\<close>

lemma id_map_snoc:
  "id_map start (atoms @ [a]) = dict_set (da_id a) (start + length atoms) (id_map start atoms)"
  by (simp add: id_map_def enumerate_append_eq)

lemma id_map_sound: "map_of (id_map start atoms) i = Some g \<Longrightarrow> \<exists>p<length atoms. g = start + p \<and> da_id (atoms ! p) = i"
proof (induction atoms rule: rev_induct)
  case Nil
  then show ?case by (simp add: id_map_def)
next
  case (snoc a atoms)
  show ?case
  proof (cases "i = da_id a")
    case True
    then show ?thesis using snoc.prems by (auto simp: id_map_snoc update_conv')
  next
    case False
    then have "map_of (id_map start atoms) i = Some g" using snoc.prems by (simp add: id_map_snoc update_conv')
    from snoc.IH [OF this] show ?thesis by (metis append_eq_conv_conj less_SucI length_append_singleton nth_take)
  qed
qed

lemma id_map_complete: "i \<in> da_id ` set atoms \<Longrightarrow> map_of (id_map start atoms) i \<noteq> None"
  by (induction atoms rule: rev_induct) (auto simp: id_map_snoc update_conv')

lemma all_some_list: "all_some xs = Some ys \<longleftrightarrow> xs = map Some ys"
proof
  show "all_some xs = Some ys \<Longrightarrow> xs = map Some ys"
    by (induction xs arbitrary: ys) (auto split: option.splits)
  show "xs = map Some ys \<Longrightarrow> all_some xs = Some ys"
    using all_some_map [of ys Some id] by simp
qed

lemma mapped_link_sound:
  assumes "mapped_link (id_map start atoms) l = Some is"
  shows "list_all2 (\<lambda>g i. \<exists>p<length atoms. g = start + p \<and> da_id (atoms ! p) = i) is (lk_atoms l)"
proof -
  have e: "map (map_of (id_map start atoms)) (lk_atoms l) = map Some is"
    using assms by (simp add: mapped_link_def all_some_list)
  then have len: "length is = length (lk_atoms l)" by (metis length_map)
  have "map_of (id_map start atoms) (lk_atoms l ! k) = Some (is ! k)" if "k < length is" for k
    using that len e by (metis nth_map)
  then show ?thesis using len by (auto simp: list_all2_conv_all_nth intro: id_map_sound)
qed

definition known_link :: "data_atom list \<Rightarrow> link \<Rightarrow> bool" where
  "known_link atoms l \<longleftrightarrow> set (lk_atoms l) \<subseteq> da_id ` set atoms"

lemma mapped_link_complete: "known_link atoms l \<Longrightarrow> mapped_link (id_map start atoms) l \<noteq> None"
proof -
  assume "known_link atoms l"
  then have "\<forall>i\<in>set (lk_atoms l). map_of (id_map start atoms) i = Some (the (map_of (id_map start atoms) i))"
    using id_map_complete by (fastforce simp: known_link_def)
  from all_some_map [OF this] show ?thesis by (simp add: mapped_link_def)
qed

text \<open>One merged link and the link of the layer it comes from.\<close>

definition comes_from :: "(data_file_info \<Rightarrow> int) \<Rightarrow> layer_source list \<Rightarrow> nat \<Rightarrow> link \<Rightarrow> int \<times> int list \<Rightarrow> bool" where
  "comes_from n sources j l p \<longleftrightarrow>
     (let atoms = di_atoms (ly_info (sources ! j))
      in fst p = lk_type l + offsets n sources ! j \<and>
         list_all2 (\<lambda>g i. \<exists>q<length atoms. g = offsets atom_count_of sources ! j + 1 + int q \<and> da_id (atoms ! q) = i)
           (snd p) (lk_atoms l))"

lemma layer_links_sound:
  assumes "p \<in> set (layer_links off start atoms ls)"
  obtains l where "l \<in> set ls" "fst p = lk_type l + off"
    "list_all2 (\<lambda>g i. \<exists>q<length atoms. g = int start + 1 + int q \<and> da_id (atoms ! q) = i) (snd p) (lk_atoms l)"
proof -
  obtain l "is" where l: "l \<in> set ls" "mapped_link (id_map (start + 1) atoms) l = Some is" "p = (lk_type l + off, map int is)"
    using assms by (auto simp: layer_links_def split: option.splits)
  from mapped_link_sound [OF l(2)] have
    "list_all2 (\<lambda>g i. \<exists>q<length atoms. g = int start + 1 + int q \<and> da_id (atoms ! q) = i) (map int is) (lk_atoms l)"
    by (auto simp: list_all2_conv_all_nth)
  then show ?thesis using that [of l] l by simp
qed

definition raw_links :: "(data_file_info \<Rightarrow> int) \<Rightarrow> (data_file_info \<Rightarrow> link list) \<Rightarrow> layer_source list \<Rightarrow> (int \<times> int list) list" where
  "raw_links n get sources =
     concat (map (\<lambda>(s, off, start). layer_links off (nat start) (di_atoms (ly_info s)) (get (ly_info s)))
       (zip sources (zip (offsets n sources) (offsets atom_count_of sources))))"

lemma merged_links_raw: "merged_links n get sources = numbered_links (raw_links n get sources)"
  by (simp add: merged_links_def raw_links_def)

lemma raw_links_sound:
  assumes "p \<in> set (raw_links n get sources)"
  shows "\<exists>j<length sources. \<exists>l\<in>set (get (ly_info (sources ! j))). comes_from n sources j l p"
proof -
  obtain j where j: "j < length sources"
    "p \<in> set (layer_links (offsets n sources ! j) (nat (offsets atom_count_of sources ! j))
        (di_atoms (ly_info (sources ! j))) (get (ly_info (sources ! j))))"
    using assms by (auto simp: raw_links_def set_zip)
  from layer_links_sound [OF j(2)] obtain l where l: "l \<in> set (get (ly_info (sources ! j)))"
    "fst p = lk_type l + offsets n sources ! j"
    "list_all2 (\<lambda>g i. \<exists>q<length (di_atoms (ly_info (sources ! j))).
        g = int (nat (offsets atom_count_of sources ! j)) + 1 + int q \<and> da_id (di_atoms (ly_info (sources ! j)) ! q) = i)
      (snd p) (lk_atoms l)" by blast
  then show ?thesis using j(1) atom_offset_nonneg [OF j(1)] by (auto simp: comes_from_def Let_def)
qed

lemma numbered_links_nth:
  "i < length ps \<Longrightarrow> numbered_links ps ! i = \<lparr>lk_id = int i + 1, lk_type = fst (ps ! i), lk_atoms = snd (ps ! i)\<rparr>"
  by (simp add: numbered_links_def nth_enumerate_eq split: prod.splits)

lemma numbered_length [simp]: "length (numbered_links ps) = length ps"
  by (simp add: numbered_links_def)

lemma layer_links_length: "list_all (known_link atoms) ls \<Longrightarrow> length (layer_links off start atoms ls) = length ls"
  using mapped_link_complete by (induction ls) (auto simp: layer_links_def split: option.splits)

lemma raw_links_length:
  assumes "list_all (\<lambda>s. list_all (known_link (di_atoms (ly_info s))) (get (ly_info s))) sources"
  shows "length (raw_links n get sources) = sum_list (map (\<lambda>s. length (get (ly_info s))) sources)"
proof -
  have "map (\<lambda>(s, off, start). length (layer_links off (nat start) (di_atoms (ly_info s)) (get (ly_info s))))
      (zip sources (zip (offsets n sources) (offsets atom_count_of sources))) = map (\<lambda>s. length (get (ly_info s))) sources"
    using assms by (intro nth_equalityI) (auto simp: list_all_length layer_links_length)
  then show ?thesis by (simp add: raw_links_def length_concat comp_def case_prod_unfold)
qed


section \<open>Pair coefficients\<close>

lemma map_result_all2: "map_result f xs = Inr ys \<Longrightarrow> list_all2 (\<lambda>x y. f x = Inr y) xs ys"
  by (induction xs arbitrary: ys) (auto split: sum.splits)

lemma map_result_Inl: "isl (map_result f xs) \<longleftrightarrow> (\<exists>x\<in>set xs. isl (f x))"
  by (induction xs) (auto split: sum.splits)

lemma mineral_line_type: "mineral_line minerals masses t = Inr l \<Longrightarrow> line_type l = [t]"
  by (auto simp: mineral_line_def Let_def line_type_def sp_def py_split_Cons int_of_show_int split: option.splits)

lemma isl_mineral_line:
  "isl (mineral_line minerals masses t) \<longleftrightarrow> map_of minerals (snd (dict_get masses t (0, []))) = None"
  by (cases "map_of minerals (snd (dict_get masses t (0, [])))") (auto simp: mineral_line_def Let_def)

definition uncovered :: "layer_source list \<Rightarrow> int list" where
  "uncovered sources =
     filter (\<lambda>t. t \<notin> set (concat (map line_type (merge_coeff_section ''Pair Coeffs'' (offsets di_n_atom_types sources) sources))))
       (sort (map fst (merged_masses sources)))"

lemma merged_pairs:
  "merged_pair_coeffs minerals sources =
     map_sum id (\<lambda>new. merge_coeff_section ''Pair Coeffs'' (offsets di_n_atom_types sources) sources @ new)
       (map_result (mineral_line minerals (merged_masses sources)) (uncovered sources))"
  by (simp add: merged_pair_coeffs_def Let_def uncovered_def)

lemma isl_map_sum [simp]: "isl (map_sum f g r) \<longleftrightarrow> isl r"
  by (cases r) simp_all

lemma merged_pairs_cover:
  assumes ok: "merged_pair_coeffs minerals sources = Inr lines" and t: "t \<in> fst ` set (merged_masses sources)"
  shows "\<exists>l\<in>set lines. line_type l = [t]"
proof -
  obtain new where new: "map_result (mineral_line minerals (merged_masses sources)) (uncovered sources) = Inr new"
    and lines: "lines = merge_coeff_section ''Pair Coeffs'' (offsets di_n_atom_types sources) sources @ new"
    using ok by (cases "map_result (mineral_line minerals (merged_masses sources)) (uncovered sources)") (auto simp: merged_pairs)
  show ?thesis
  proof (cases "t \<in> set (uncovered sources)")
    case True
    then obtain i where "i < length (uncovered sources)" "uncovered sources ! i = t" by (auto simp: in_set_conv_nth)
    with map_result_all2 [OF new] have "mineral_line minerals (merged_masses sources) t = Inr (new ! i)" "i < length new"
      by (auto simp: list_all2_conv_all_nth)
    then show ?thesis using mineral_line_type lines by force
  next
    case False
    then obtain l where "l \<in> set (merge_coeff_section ''Pair Coeffs'' (offsets di_n_atom_types sources) sources)" "t \<in> set (line_type l)"
      using t by (auto simp: uncovered_def)
    moreover have "t \<in> set (line_type l) \<Longrightarrow> line_type l = [t]"
      by (auto simp: line_type_def split: list.splits option.splits)
    ultimately show ?thesis using lines by auto
  qed
qed

text \<open>
  C28: The pair coefficients of the merged file fail exactly when an atom type without a line
  of its own has an element outside the mineral table; otherwise every atom type of the file
  has a line.
\<close>

theorem pair_coefficients_fail_closed:
  shows "(isl (merged_pair_coeffs minerals sources) \<longleftrightarrow>
      (\<exists>t\<in>set (uncovered sources). map_of minerals (snd (dict_get (merged_masses sources) t (0, []))) = None)) \<and>
    (\<forall>lines. merged_pair_coeffs minerals sources = Inr lines \<longrightarrow>
       (\<forall>t\<in>fst ` set (merged_masses sources). \<exists>l\<in>set lines. line_type l = [t]))"
  using merged_pairs_cover by (simp add: merged_pairs map_result_Inl isl_mineral_line)

section \<open>Reading the merged file\<close>

text \<open>Sections with the blank line in front are sections with the blank line behind.\<close>

lemma sections_blocks:
  "concat (map (\<lambda>(h, ls). section_lines h ls) ss) @ [] # X = [] # concat (map (\<lambda>(h, ls). block h ls) ss) @ X"
  by (induction ss) (auto simp: section_lines_def block_def)

text \<open>The sections of the file in order; empty ones are left out but for the first two and the atoms.\<close>

definition coeff_sections :: "string list \<Rightarrow> layer_source list \<Rightarrow> (string \<times> string list) list" where
  "coeff_sections pairs sources =
     (''Pair Coeffs'', pairs) # filter (\<lambda>(h, ls). ls \<noteq> [])
       [(''Bond Coeffs'', merge_coeff_section ''Bond Coeffs'' (offsets di_n_bond_types sources) sources),
        (''Angle Coeffs'', merge_coeff_section ''Angle Coeffs'' (offsets di_n_angle_types sources) sources),
        (''Dihedral Coeffs'', merge_coeff_section ''Dihedral Coeffs'' (offsets di_n_dihedral_types sources) sources),
        (''Improper Coeffs'', merge_coeff_section ''Improper Coeffs'' (offsets di_n_improper_types sources) sources)]"

definition merged_bonds :: "layer_source list \<Rightarrow> link list" where
  "merged_bonds sources = merged_links di_n_bond_types di_bonds sources"

definition merged_angles :: "layer_source list \<Rightarrow> link list" where
  "merged_angles sources = merged_links di_n_angle_types (\<lambda>I. list_or_nil (di_angles I)) sources"

definition merged_dihedrals :: "layer_source list \<Rightarrow> link list" where
  "merged_dihedrals sources = merged_links di_n_dihedral_types (\<lambda>I. list_or_nil (di_dihedrals I)) sources"

definition merged_impropers :: "layer_source list \<Rightarrow> link list" where
  "merged_impropers sources = merged_links di_n_improper_types (\<lambda>I. list_or_nil (di_impropers I)) sources"

definition mass_entries :: "layer_source list \<Rightarrow> (int \<times> pyfloat \<times> string) list" where
  "mass_entries sources =
     map (\<lambda>t. (t, dict_get (merged_masses sources) t (0, []))) (sort (map fst (merged_masses sources)))"

definition link_sections :: "layer_source list \<Rightarrow> (string \<times> string list) list" where
  "link_sections sources =
     filter (\<lambda>(h, ls). ls \<noteq> [])
       [(''Bonds'', link_lines (merged_bonds sources)), (''Angles'', link_lines (merged_angles sources)),
        (''Dihedrals'', link_lines (merged_dihedrals sources)), (''Impropers'', link_lines (merged_impropers sources))]"

definition atom_lines :: "layer_source list \<Rightarrow> pyfloat \<Rightarrow> combined_geometry \<Rightarrow> string list" where
  "atom_lines sources v geo = map (\<lambda>a. sp (atom_words a)) (merged_atoms sources v geo)"

definition merged_sections :: "string list \<Rightarrow> layer_source list \<Rightarrow> pyfloat \<Rightarrow> combined_geometry \<Rightarrow> (string \<times> string list) list" where
  "merged_sections pairs sources v geo =
     (''Masses'', map mass_line6 (mass_entries sources)) # coeff_sections pairs sources @
     (''Atoms # full'', atom_lines sources v geo) # link_sections sources"

definition merged_head :: "layer_source list \<Rightarrow> pyfloat \<Rightarrow> combined_geometry \<Rightarrow> string list" where
  "merged_head sources v geo =
     (let (lx, ly, lz) = cg_box geo
      in [''LAMMPS data file - Layered structure prebuilt'', [],
          count_line (length (cg_atoms geo)) ''atoms'', count_line (length (merged_bonds sources)) ''bonds'',
          count_line (length (merged_angles sources)) ''angles'', count_line (length (merged_dihedrals sources)) ''dihedrals'',
          count_line (length (merged_impropers sources)) ''impropers'', [],
          int_count_line (total_of di_n_atom_types sources) ''atom types'',
          int_count_line (total_of di_n_bond_types sources) ''bond types'',
          int_count_line (total_of di_n_angle_types sources) ''angle types'',
          int_count_line (total_of di_n_dihedral_types sources) ''dihedral types'',
          int_count_line (total_of di_n_improper_types sources) ''improper types'', [],
          zero_box_line lx ''xlo xhi'', zero_box_line ly ''ylo yhi'', zero_box_line (lz + 2 * v) ''zlo zhi''])"

lemma concat_sections_Cons:
  "concat (map (\<lambda>(h, ls). section_lines h ls) (filter (\<lambda>(h, ls). ls \<noteq> []) ((h, ls) # ss))) =
     section_if h ls @ concat (map (\<lambda>(h, ls). section_lines h ls) (filter (\<lambda>(h, ls). ls \<noteq> []) ss))"
  by (simp add: section_if_def)

lemma merged_lines_sections:
  "merged_lines pairs sources v geo =
     merged_head sources v geo @ concat (map (\<lambda>(h, ls). section_lines h ls) (merged_sections pairs sources v geo)) @
     crystal_lines sources"
  by (simp add: merged_lines_def merged_head_def merged_sections_def coeff_sections_def link_sections_def Let_def
      mass_entries_def comp_def atom_lines_def concat_sections_Cons merged_bonds_def merged_angles_def
      merged_dihedrals_def merged_impropers_def link_lines_def split: prod.splits del: filter.simps(2))

subsection \<open>Lines of coefficients\<close>

definition tidy :: "string \<Rightarrow> bool" where
  "tidy l \<longleftrightarrow> payload_line l \<and> one_line l"

text \<open>A raw section whose lines are numbered and free of the words the reader looks for.\<close>

definition tame_line :: "string \<Rightarrow> bool" where
  "tame_line l \<longleftrightarrow>
     (let s = str_strip l
      in s = [] \<or> prefix ''#'' s \<or>
         (no_keyword s \<and> (case split_once s of [w, rest] \<Rightarrow> py_int_of w \<noteq> None | _ \<Rightarrow> False)))"

definition tame_raw :: "string \<Rightarrow> bool" where
  "tame_raw raw \<longleftrightarrow> list_all tame_line (split_on newline (str_strip raw))"

lemma no_keyword_sub: "sublist r s \<Longrightarrow> no_keyword s \<Longrightarrow> no_keyword r"
  unfolding no_keyword_def list_all_iff str_contains_iff by (meson sublist_order.order_trans)

lemma one_line_sub: "sublist r s \<Longrightarrow> one_line s \<Longrightarrow> one_line r"
  using set_mono_sublist by (auto simp: one_line_def)

lemma split_once_sub: "split_once s = [w, rest] \<Longrightarrow> sublist rest s"
proof -
  assume e: "split_once s = [w, rest]"
  let ?t = "dropWhile (\<lambda>c. \<not> is_space c) s"
  have "(if dropWhile is_space ?t = [] then [v] else [v, dropWhile is_space ?t]) = [w, rest] \<Longrightarrow> rest = dropWhile is_space ?t" for v
    by (simp only: list.inject split: if_split_asm) simp
  then have "rest = dropWhile is_space ?t" using e unfolding split_once_def Let_def by blast
  moreover have "sublist (dropWhile is_space ?t) ?t" "sublist ?t s" by (rule suffix_imp_sublist [OF suffix_dropWhile])+
  ultimately show ?thesis using sublist_order.order_trans by blast
qed

lemma numbered_tidy:
  assumes "no_keyword rest" "one_line rest"
  shows "tidy (show_int n @ blank # rest)"
proof -
  have "no_keyword ((show_int n @ [blank]) @ rest)"
    using letterless_no_keyword [of "show_int n @ [blank]" rest] assms(1) by (simp add: blank_def)
  then show ?thesis
    using assms(2) numeric_show_int [of n] unfolding tidy_def payload_line_def by (auto simp: word_one_line)
qed

lemma shifted_tidy:
  assumes "tame_line raw" "one_line raw" "l \<in> set (shifted_line off raw)"
  shows "tidy l"
proof -
  let ?s = "str_strip raw"
  have ne: "?s \<noteq> []" "\<not> prefix ''#'' ?s" using assms(3) by (auto simp: shifted_line_def Let_def split: if_splits)
  then have k: "no_keyword ?s" and t: "case split_once ?s of [w, rest] \<Rightarrow> py_int_of w \<noteq> None | _ \<Rightarrow> False"
    using assms(1) by (simp_all add: tame_line_def Let_def)
  then obtain w rest n where w: "split_once ?s = [w, rest]" "py_int_of w = Some n"
    by (auto split: list.splits)
  then have "l = show_int (n + off) @ blank # rest" using assms(3) ne by (simp add: shifted_line_def Let_def)
  moreover have "no_keyword rest" "one_line rest"
    using split_once_sub [OF w(1)] k one_line_sub [OF strip_sub assms(2)] by (auto intro: no_keyword_sub one_line_sub)
  ultimately show ?thesis by (simp add: numbered_tidy)
qed

definition tame_layer :: "layer_source \<Rightarrow> bool" where
  "tame_layer s \<longleftrightarrow> list_all (\<lambda>h. tame_raw (dict_get (list_or_nil (di_raw_coeffs (ly_info s))) h [])) COEFF_SECTIONS"

lemma merged_coeffs_tidy:
  assumes "list_all tame_layer sources" "h \<in> set COEFF_SECTIONS"
  shows "list_all tidy (merge_coeff_section h offs sources)"
proof -
  have "tidy l" if l: "l \<in> set (merge_coeff_section h offs sources)" for l
  proof -
    obtain s off raw where r: "s \<in> set sources"
      "raw \<in> set (split_on newline (str_strip (dict_get (list_or_nil (di_raw_coeffs (ly_info s))) h [])))"
      "l \<in> set (shifted_line off raw)"
      using l by (auto simp: merge_coeff_section_def Let_def dest: set_zip_leftD split: if_splits)
    have "tame_raw (dict_get (list_or_nil (di_raw_coeffs (ly_info s))) h [])"
      using assms r(1) by (simp add: tame_layer_def list_all_iff)
    then have "tame_line raw" "one_line raw"
      using r(2) split_on_free by (auto simp: tame_raw_def list_all_iff one_line_def)
    then show ?thesis using r(3) shifted_tidy by blast
  qed
  then show ?thesis by (simp add: list_all_iff)
qed

definition tame_minerals :: "(string, string \<times> string) pydict \<Rightarrow> bool" where
  "tame_minerals minerals \<longleftrightarrow>
     list_all (\<lambda>(e, eps, sig). word eps \<and> letterless eps \<and> word sig \<and> letterless sig \<and>
       plain_comment ('' INTERFACE FF ('' @ e @ '')'')) minerals"

lemma mineral_tidy:
  assumes "tame_minerals minerals" "mineral_line minerals masses t = Inr l"
  shows "tidy l"
proof -
  let ?e = "snd (dict_get masses t (0, []))"
  obtain eps sig where m: "map_of minerals ?e = Some (eps, sig)"
    and l: "l = sp [show_int t, eps, sig] @ '' # INTERFACE FF ('' @ ?e @ '')''"
    using assms(2) by (auto simp: mineral_line_def Let_def split: option.splits)
  have ok: "word eps" "letterless eps" "word sig" "letterless sig" "plain_comment ('' INTERFACE FF ('' @ ?e @ '')'')"
    using assms(1) map_of_SomeD [OF m] by (auto simp: tame_minerals_def list_all_iff)
  have e: "l = show_int t @ blank # (eps @ blank # sig @ '' #'' @ ('' INTERFACE FF ('' @ ?e @ '')''))"
    by (simp add: l sp_def)
  have "no_keyword ((eps @ blank # sig @ '' #'') @ ('' INTERFACE FF ('' @ ?e @ '')''))"
    by (subst letterless_no_keyword) (use ok in \<open>simp_all add: plain_comment_def blank_def\<close>)
  moreover have "one_line ((eps @ blank # sig @ '' #'') @ ('' INTERFACE FF ('' @ ?e @ '')''))"
    using ok by (simp add: plain_comment_def word_one_line) (simp add: newline_def)
  ultimately show ?thesis unfolding e by (intro numbered_tidy) simp_all
qed

lemma merged_pairs_tidy:
  assumes "list_all tame_layer sources" "tame_minerals minerals" "merged_pair_coeffs minerals sources = Inr lines"
  shows "list_all tidy lines"
proof -
  obtain new where new: "map_result (mineral_line minerals (merged_masses sources)) (uncovered sources) = Inr new"
    and lines: "lines = merge_coeff_section ''Pair Coeffs'' (offsets di_n_atom_types sources) sources @ new"
    using assms(3) by (cases "map_result (mineral_line minerals (merged_masses sources)) (uncovered sources)") (auto simp: merged_pairs)
  have "\<exists>t. mineral_line minerals (merged_masses sources) t = Inr l" if "l \<in> set new" for l
    using map_result_all2 [OF new] that unfolding list_all2_conv_all_nth in_set_conv_nth by metis
  then have "list_all tidy new" using mineral_tidy [OF assms(2)] by (auto simp: list_all_iff)
  moreover have "list_all tidy (merge_coeff_section ''Pair Coeffs'' (offsets di_n_atom_types sources) sources)"
    using assms(1) by (rule merged_coeffs_tidy) (simp add: COEFF_SECTIONS_def)
  ultimately show ?thesis by (simp add: lines)
qed

subsection \<open>Masses\<close>

lemma collect_masses_new:
  "distinct (map (\<lambda>t. fst (entry t)) ts) \<Longrightarrow> \<forall>t\<in>set ts. fst (entry t) \<notin> fst ` set d \<Longrightarrow>
    collect_masses entry ts d = d @ map entry ts"
proof (induction ts arbitrary: d)
  case (Cons t ts)
  have "map_of d (fst (entry t)) = None" using Cons.prems(2) by (simp add: map_of_eq_None_iff)
  then have d: "dict_set (fst (entry t)) (snd (entry t)) d = d @ [entry t]" by (simp add: dict_set_new)
  have "collect_masses entry ts (d @ [entry t]) = (d @ [entry t]) @ map entry ts"
    using Cons.prems by (intro Cons.IH) (auto simp: image_iff dest: sym)
  then show ?case by (simp add: collect_masses_def d)
qed (simp add: collect_masses_def)

text \<open>What holds of every step of a nested loop over dictionaries.\<close>

lemma foldl_keeps: "P d \<Longrightarrow> (\<And>d x. P d \<Longrightarrow> x \<in> set xs \<Longrightarrow> P (f d x)) \<Longrightarrow> P (foldl f d xs)"
  by (induction xs arbitrary: d) auto

definition merge_masses_of :: "(int, pyfloat \<times> string) pydict \<Rightarrow> layer_source \<times> int \<Rightarrow> (int, pyfloat \<times> string) pydict" where
  "merge_masses_of d p =
     foldl (\<lambda>d (t, m). dict_set (t + snd p) (m, dict_get (ly_type_map (fst p)) (show_int t) ''X'') d) d (di_masses (ly_info (fst p)))"

lemma merged_masses_fold: "merged_masses sources = foldl merge_masses_of [] (zip sources (offsets di_n_atom_types sources))"
  unfolding merged_masses_def merge_masses_of_def by (simp add: case_prod_unfold)

lemma masses_distinct: "distinct (map fst (merged_masses sources))"
  unfolding merged_masses_fold
proof (rule foldl_keeps)
  fix d :: "(int, pyfloat \<times> string) pydict" and p
  assume "distinct (map fst d)"
  then show "distinct (map fst (merge_masses_of d p))"
    unfolding merge_masses_of_def by (rule foldl_keeps) (auto simp: distinct_update)
qed simp

lemma set_update_sub: "set (dict_set k v d) \<subseteq> insert (k, v) (set d)"
  by (induction d) auto

definition tame_types :: "layer_source \<Rightarrow> bool" where
  "tame_types s \<longleftrightarrow> list_all (\<lambda>(t, e). plain_comment e) (ly_type_map s)"

lemma plain_X: "plain_comment ''X''"
  by code_simp

lemma tame_lookup: "tame_types s \<Longrightarrow> plain_comment (dict_get (ly_type_map s) k ''X'')"
  by (auto simp: dict_get_def tame_types_def list_all_iff plain_X split: option.splits dest: map_of_SomeD)

lemma masses_plain:
  assumes "list_all tame_types sources"
  shows "\<forall>(t, m, e)\<in>set (merged_masses sources). plain_comment e"
  unfolding merged_masses_fold
proof (rule foldl_keeps [where P = "\<lambda>d. \<forall>(t, m, e)\<in>set d. plain_comment e"])
  fix d :: "(int, pyfloat \<times> string) pydict" and p
  assume d: "\<forall>(t, m, e)\<in>set d. plain_comment e" and "p \<in> set (zip sources (offsets di_n_atom_types sources))"
  then have p: "tame_types (fst p)" using assms by (cases p) (auto simp: list_all_iff dest: set_zip_leftD)
  show "\<forall>(t, m, e)\<in>set (merge_masses_of d p). plain_comment e"
    unfolding merge_masses_of_def
  proof (rule foldl_keeps [where P = "\<lambda>d. \<forall>(t, m, e)\<in>set d. plain_comment e"])
    show "\<forall>(t, m, e)\<in>set d. plain_comment e" by (rule d)
  next
    fix d :: "(int, pyfloat \<times> string) pydict" and q :: "int \<times> pyfloat"
    assume "\<forall>(t, m, e)\<in>set d. plain_comment e"
    then show "\<forall>(t, m, e)\<in>set (case q of (t, m) \<Rightarrow> dict_set (t + snd p) (m, dict_get (ly_type_map (fst p)) (show_int t) ''X'') d).
        plain_comment e"
      using set_update_sub tame_lookup [OF p] by (cases q) fastforce
  qed
qed simp

definition mass_pair :: "int \<times> pyfloat \<times> string \<Rightarrow> int \<times> pyfloat" where
  "mass_pair p = (fst p, rounded 6 (fst (snd p)))"

lemma mass_line6_tidy: "plain_comment e \<Longrightarrow> tidy (mass_line6 (t, m, e)) \<and> parse_mass (py_split (mass_line6 (t, m, e))) = Some (mass_pair (t, m, e))"
proof
  assume e: "plain_comment e"
  have l: "mass_line6 (t, m, e) = show_int t @ blank # (show_fixed 6 m @ '' # '' @ e)"
    by (simp add: mass_line6_def sp_def)
  have "no_keyword ((show_fixed 6 m @ '' # '') @ e)"
    by (subst letterless_no_keyword) (use e in \<open>simp_all add: plain_comment_def\<close>)
  moreover have "one_line (show_fixed 6 m @ '' # '' @ e)"
    using e by (simp add: plain_comment_def word_one_line) (simp add: newline_def)
  ultimately show "tidy (mass_line6 (t, m, e))" unfolding l by (intro numbered_tidy) simp_all
  have "py_split (mass_line6 (t, m, e)) = show_int t # py_split (show_fixed 6 m @ blank # (''# '' @ e))"
    unfolding l by (subst py_split_Cons) (simp_all add: blank_def)
  also have "\<dots> = show_int t # show_fixed 6 m # py_split (''# '' @ e)" by (simp only: py_split_Cons show_fixed_word)
  finally have "py_split (mass_line6 (t, m, e)) = show_int t # show_fixed 6 m # py_split (''# '' @ e)" .
  then show "parse_mass (py_split (mass_line6 (t, m, e))) = Some (mass_pair (t, m, e))"
    by (simp add: parse_mass_def int_of_show_int float_of_show_fixed mass_pair_def)
qed

lemma mass_entry_plain:
  assumes "list_all tame_types sources" "p \<in> set (mass_entries sources)"
  shows "plain_comment (snd (snd p))"
proof -
  obtain t where t: "t \<in> fst ` set (merged_masses sources)" "p = (t, dict_get (merged_masses sources) t (0, []))"
    using assms(2) by (auto simp: mass_entries_def)
  then obtain v where v: "map_of (merged_masses sources) t = Some v"
    by (metis map_of_eq_None_iff not_None_eq)
  from map_of_SomeD [OF this] masses_plain [OF assms(1)] have "plain_comment (snd v)" by (cases v) auto
  then show ?thesis by (simp add: t(2) dict_get_def v)
qed

lemma mass_lines6:
  assumes "list_all tame_types sources"
  shows "mass_lines_of mass_line6 mass_pair (mass_entries sources)" "list_all one_line (map mass_line6 (mass_entries sources))"
proof -
  have "tidy (mass_line6 p) \<and> parse_mass (py_split (mass_line6 p)) = Some (mass_pair p)" if "p \<in> set (mass_entries sources)" for p
    using mass_line6_tidy mass_entry_plain [OF assms that] by (metis prod.collapse)
  then show "mass_lines_of mass_line6 mass_pair (mass_entries sources)" "list_all one_line (map mass_line6 (mass_entries sources))"
    by (simp_all add: mass_lines_of_def tidy_def list_all_iff)
qed

lemma mass_entries_read: "collect_masses mass_pair (mass_entries sources) [] = map mass_pair (mass_entries sources)"
  using masses_distinct [of sources]
  by (subst collect_masses_new) (simp_all add: mass_entries_def comp_def mass_pair_def)

subsection \<open>Head and tail\<close>

definition plain_layer :: "layer_source \<Rightarrow> bool" where
  "plain_layer s \<longleftrightarrow>
     (let I = ly_info s
      in tame_layer s \<and> tame_types s \<and> 0 \<le> di_n_atom_types I \<and> 0 \<le> di_n_bond_types I \<and> 0 \<le> di_n_angle_types I \<and>
         0 \<le> di_n_dihedral_types I \<and> 0 \<le> di_n_improper_types I \<and> arity 2 (di_bonds I) \<and>
         arity 3 (list_or_nil (di_angles I)) \<and> arity 4 (list_or_nil (di_dihedrals I)) \<and> arity 4 (list_or_nil (di_impropers I)))"

lemma plain_totals:
  assumes "list_all plain_layer sources"
  shows "0 \<le> total_of di_n_atom_types sources" "0 \<le> total_of di_n_bond_types sources" "0 \<le> total_of di_n_angle_types sources"
    "0 \<le> total_of di_n_dihedral_types sources" "0 \<le> total_of di_n_improper_types sources"
  using assms by (auto simp: total_of_def plain_layer_def Let_def list_all_iff intro!: sum_list_nonneg)

lemma merged_arity:
  assumes "\<forall>s\<in>set sources. arity k (get (ly_info s))"
  shows "arity k (merged_links n get sources)"
proof -
  have "length (snd p) = k" if p: "p \<in> set (raw_links n get sources)" for p
  proof -
    obtain j l where j: "j < length sources" "l \<in> set (get (ly_info (sources ! j)))" "comes_from n sources j l p"
      using raw_links_sound [OF p] by blast
    then have "length (snd p) = length (lk_atoms l)" by (auto simp: comes_from_def Let_def dest: list_all2_lengthD)
    then show ?thesis using assms j by (auto simp: arity_def list_all_iff)
  qed
  then show ?thesis by (auto simp: arity_def merged_links_raw list_all_length numbered_links_nth)
qed

lemma plain_arities:
  assumes "list_all plain_layer sources"
  shows "arity 2 (merged_bonds sources)" "arity 3 (merged_angles sources)" "arity 4 (merged_dihedrals sources)"
    "arity 4 (merged_impropers sources)"
  using assms unfolding merged_bonds_def merged_angles_def merged_dihedrals_def merged_impropers_def
  by (auto simp: plain_layer_def Let_def list_all_iff intro!: merged_arity)

lemma zero_range: "range_words ''0.0'' (show_fixed 6 x) 0 (rounded 6 x)"
proof -
  have "numeric ''0.0'' \<and> py_float_of ''0.0'' = Some 0" by code_simp
  then show ?thesis by (simp add: range_words_def numeric_show_fixed float_of_show_fixed)
qed

lemma zero_box_range: "zero_box_line x names = range_line ''0.0'' (show_fixed 6 x) names"
  by (simp add: zero_box_line_def sp_def range_line_def)

lemma int_count: "0 \<le> n \<Longrightarrow> int_count_line n what = count_line (nat n) what"
  by (simp add: int_count_line_def count_line_def show_int_def)

definition merged_box :: "pyfloat \<Rightarrow> combined_geometry \<Rightarrow> pyfloat list" where
  "merged_box v geo =
     [0, rounded 6 (fst (cg_box geo)), 0, rounded 6 (fst (snd (cg_box geo))), 0, rounded 6 (snd (snd (cg_box geo)) + 2 * v)]"

definition head_reader :: "layer_source list \<Rightarrow> pyfloat \<Rightarrow> combined_geometry \<Rightarrow> reader" where
  "head_reader sources v geo =
     new_reader\<lparr>rd_atom_types := total_of di_n_atom_types sources, rd_bond_types := total_of di_n_bond_types sources,
       rd_angle_types := total_of di_n_angle_types sources, rd_dihedral_types := total_of di_n_dihedral_types sources,
       rd_improper_types := total_of di_n_improper_types sources, rd_box := merged_box v geo\<rparr>"

lemma merged_title: "plain_title ''LAMMPS data file - Layered structure prebuilt''"
  by code_simp

lemma read_merged_head:
  assumes "list_all plain_layer sources"
  shows "fold_result read_line (merged_head sources v geo) new_reader = Inr (head_reader sources v geo)"
proof -
  obtain lx ly lz where b: "cg_box geo = (lx, ly, lz)" by (cases "cg_box geo")
  let ?T = "\<lambda>R. R\<lparr>rd_atom_types := total_of di_n_atom_types sources, rd_bond_types := total_of di_n_bond_types sources,
       rd_angle_types := total_of di_n_angle_types sources, rd_dihedral_types := total_of di_n_dihedral_types sources,
       rd_improper_types := total_of di_n_improper_types sources\<rparr>"
  have box: "rd_box new_reader = [0, 100, 0, 100, 0, 100]" and idle: "idle new_reader" "idle (?T new_reader)"
    using new_reader_idle by (simp_all add: new_reader_def idle_def)
  have 1: "fold_result read_line
      [''LAMMPS data file - Layered structure prebuilt'', [],
       count_line (length (cg_atoms geo)) ''atoms'', count_line (length (merged_bonds sources)) ''bonds'',
       count_line (length (merged_angles sources)) ''angles'', count_line (length (merged_dihedrals sources)) ''dihedrals'',
       count_line (length (merged_impropers sources)) ''impropers'', []] new_reader = Inr new_reader"
    by (simp add: read_title [OF merged_title] blank_idle idle(1) read_atoms_count read_count no_keyword_counts)
  have 2: "fold_result read_line
      [int_count_line (total_of di_n_atom_types sources) ''atom types'', int_count_line (total_of di_n_bond_types sources) ''bond types'',
       int_count_line (total_of di_n_angle_types sources) ''angle types'',
       int_count_line (total_of di_n_dihedral_types sources) ''dihedral types'',
       int_count_line (total_of di_n_improper_types sources) ''improper types'', []] new_reader = Inr (?T new_reader)"
    using idle(2) plain_totals [OF assms] by (simp add: int_count read_type_counts blank_idle)
  have 3: "fold_result read_line
      [zero_box_line lx ''xlo xhi'', zero_box_line ly ''ylo yhi'', zero_box_line (lz + 2 * v) ''zlo zhi''] (?T new_reader) =
      Inr (head_reader sources v geo)"
    by (simp add: zero_box_range read_range [OF zero_range] head_reader_def merged_box_def b box)
  have "merged_head sources v geo =
      [''LAMMPS data file - Layered structure prebuilt'', [],
       count_line (length (cg_atoms geo)) ''atoms'', count_line (length (merged_bonds sources)) ''bonds'',
       count_line (length (merged_angles sources)) ''angles'', count_line (length (merged_dihedrals sources)) ''dihedrals'',
       count_line (length (merged_impropers sources)) ''impropers'', []] @
      [int_count_line (total_of di_n_atom_types sources) ''atom types'', int_count_line (total_of di_n_bond_types sources) ''bond types'',
       int_count_line (total_of di_n_angle_types sources) ''angle types'',
       int_count_line (total_of di_n_dihedral_types sources) ''dihedral types'',
       int_count_line (total_of di_n_improper_types sources) ''improper types'', []] @
      [zero_box_line lx ''xlo xhi'', zero_box_line ly ''ylo yhi'', zero_box_line (lz + 2 * v) ''zlo zhi'']"
    by (simp add: merged_head_def b)
  then show ?thesis by (simp only: fold_result_append 1 2 3 bind_result_simps)
qed

lemma head_idle: "idle (head_reader sources v geo)"
  using new_reader_idle by (simp add: head_reader_def idle_def)

text \<open>The comments at the end of the file change nothing.\<close>

lemma comment_line: "idle R \<Longrightarrow> prefix ''# '' l \<Longrightarrow> read_line l R = Inr R"
proof -
  assume R: "idle R" and p: "prefix ''# '' l"
  then obtain t where t: "l = ''#'' @ '' '' @ t" by (auto simp: prefix_def)
  have "word ''#''" by (simp add: word_def is_space_def)
  from str_strip_head [OF this] t obtain r where "str_strip l = ''#'' @ r" by blast
  then have "prefix ''#'' (str_strip l)" by simp
  then show ?thesis using R by (simp add: read_line_def blank_step_def idle_def)
qed

definition crystal_tail :: "layer_source list \<Rightarrow> string list" where
  "crystal_tail sources = (if crystal_type_ids sources = [] then [] else tl (crystal_lines sources) @ [[]])"

lemma crystal_end: "crystal_lines sources @ [[]] = [] # crystal_tail sources"
  by (simp add: crystal_tail_def crystal_lines_def)

lemma read_crystal_tail: "idle R \<Longrightarrow> fold_result read_line (crystal_tail sources) R = Inr R"
  by (simp add: crystal_tail_def crystal_lines_def comment_line blank_idle)

subsection \<open>The whole file\<close>

definition merged_info :: "string list \<Rightarrow> layer_source list \<Rightarrow> pyfloat \<Rightarrow> combined_geometry \<Rightarrow> data_file_info" where
  "merged_info pairs sources v geo =
     \<lparr>di_atoms = map read_atom (merged_atoms sources v geo), di_bonds = merged_bonds sources, di_box = merged_box v geo,
      di_n_atoms = length (cg_atoms geo), di_n_bonds = length (merged_bonds sources),
      di_n_atom_types = total_of di_n_atom_types sources, di_masses = map mass_pair (mass_entries sources),
      di_angles = some_or_none (merged_angles sources), di_dihedrals = some_or_none (merged_dihedrals sources),
      di_impropers = some_or_none (merged_impropers sources), di_n_bond_types = total_of di_n_bond_types sources,
      di_n_angle_types = total_of di_n_angle_types sources, di_n_dihedral_types = total_of di_n_dihedral_types sources,
      di_n_improper_types = total_of di_n_improper_types sources,
      di_raw_coeffs = Some (map (\<lambda>(h, ls). (h, raw_text ls)) (coeff_sections pairs sources))\<rparr>"

lemma coeff_sections_ok:
  assumes "list_all plain_layer sources" "list_all tidy pairs" "pairs \<noteq> []"
  shows "\<forall>(h, ls)\<in>set (coeff_sections pairs sources). h \<in> set COEFF_SECTIONS \<and> list_all tidy ls \<and> ls \<noteq> []"
proof -
  have "list_all tame_layer sources" using assms(1) by (auto simp: plain_layer_def Let_def list_all_iff)
  from merged_coeffs_tidy [OF this] show ?thesis
    using assms(2,3) by (auto simp: coeff_sections_def COEFF_SECTIONS_def)
qed

lemma coeff_sections_distinct: "distinct (map fst (coeff_sections pairs sources))"
  by (simp add: coeff_sections_def)

lemma full_header: "read_line ''Atoms # full'' R = read_line ''Atoms'' R"
proof -
  have s: "str_strip ''Atoms # full'' = ''Atoms # full''" "no_keyword ''Atoms # full''" by code_simp+
  have m: "header_match COEFF_SECTIONS ''Atoms # full'' = None" "header_match DATA_SECTIONS ''Atoms # full'' = Some ''Atoms''"
    by code_simp+
  have "read_line ''Atoms # full'' R = Inr (header_step ''Atoms # full'' R)"
    using read_header [of "''Atoms # full''" R] s by simp
  also have "\<dots> = Inr ((flush_coeff R)\<lparr>rd_section := Some ''Atoms''\<rparr>)" by (simp add: header_step_def m)
  also have "\<dots> = read_line ''Atoms'' R"
    by (rule header_lines(2) [symmetric]) (simp_all add: DATA_SECTIONS_def)
  finally show ?thesis .
qed

lemma full_block: "fold_result read_line (block ''Atoms # full'' ls) R = fold_result read_line (block ''Atoms'' ls) R"
  by (simp add: block_def full_header)

lemma entity_sections:
  assumes "sy_atoms sy = merged_atoms sources v geo" "sy_bonds sy = merged_bonds sources" "sy_angles sy = merged_angles sources"
    "sy_dihedrals sy = merged_dihedrals sources" "sy_impropers sy = merged_impropers sources" "merged_atoms sources v geo \<noteq> []"
  shows "entity_lines sy = block ''Atoms'' (atom_lines sources v geo) @ concat (map (\<lambda>(h, ls). block h ls) (link_sections sources))"
  using assms by (simp add: entity_lines_def block_if_def atom_lines_def link_sections_def link_lines_def)

lemma read_merged_entities:
  assumes "list_all plain_layer sources" "merged_atoms sources v geo \<noteq> []" "idle R"
    "rd_atoms R = []" "rd_bonds R = []" "rd_angles R = []" "rd_dihedrals R = []" "rd_impropers R = []"
  shows "fold_result read_line
      (block ''Atoms # full'' (atom_lines sources v geo) @ concat (map (\<lambda>(h, ls). block h ls) (link_sections sources))) R =
    Inr (R\<lparr>rd_atoms := map read_atom (merged_atoms sources v geo), rd_bonds := merged_bonds sources,
           rd_angles := merged_angles sources, rd_dihedrals := merged_dihedrals sources, rd_impropers := merged_impropers sources\<rparr>)"
proof -
  obtain sy :: system_topology where sy: "sy_atoms sy = merged_atoms sources v geo" "sy_bonds sy = merged_bonds sources"
    "sy_angles sy = merged_angles sources" "sy_dihedrals sy = merged_dihedrals sources" "sy_impropers sy = merged_impropers sources"
    by (rule that [of "undefined\<lparr>sy_atoms := merged_atoms sources v geo, sy_bonds := merged_bonds sources,
        sy_angles := merged_angles sources, sy_dihedrals := merged_dihedrals sources, sy_impropers := merged_impropers sources\<rparr>"])
      simp_all
  have "fold_result read_line (entity_lines sy) R =
      Inr (R\<lparr>rd_atoms := map read_atom (sy_atoms sy), rd_bonds := sy_bonds sy, rd_angles := sy_angles sy,
             rd_dihedrals := sy_dihedrals sy, rd_impropers := sy_impropers sy\<rparr>)"
    by (rule read_entity_lines) (use assms plain_arities [OF assms(1)] in \<open>simp_all add: sy\<close>)
  then show ?thesis
    by (simp only: sy entity_sections [OF sy assms(2)] fold_result_append full_block)
qed

definition final_merged :: "string list \<Rightarrow> layer_source list \<Rightarrow> pyfloat \<Rightarrow> combined_geometry \<Rightarrow> reader" where
  "final_merged pairs sources v geo =
     (head_reader sources v geo)\<lparr>rd_masses := map mass_pair (mass_entries sources),
       rd_raw := map (\<lambda>(h, ls). (h, raw_text ls)) (coeff_sections pairs sources),
       rd_atoms := map read_atom (merged_atoms sources v geo), rd_bonds := merged_bonds sources,
       rd_angles := merged_angles sources, rd_dihedrals := merged_dihedrals sources, rd_impropers := merged_impropers sources\<rparr>"

lemma final_merged_idle: "idle (final_merged pairs sources v geo)"
  using head_idle [of sources v geo] by (simp add: final_merged_def idle_def)

lemma read_merged_blocks:
  assumes "list_all plain_layer sources" "list_all tidy pairs" "pairs \<noteq> []" "merged_atoms sources v geo \<noteq> []" "mass_entries sources \<noteq> []"
  shows "fold_result read_line (concat (map (\<lambda>(h, ls). block h ls) (merged_sections pairs sources v geo))) (head_reader sources v geo) =
    Inr (final_merged pairs sources v geo)"
proof -
  let ?R1 = "head_reader sources v geo"
  let ?R2 = "?R1\<lparr>rd_masses := map mass_pair (mass_entries sources)\<rparr>"
  let ?R3 = "?R2\<lparr>rd_raw := map (\<lambda>(h, ls). (h, raw_text ls)) (coeff_sections pairs sources)\<rparr>"
  have types: "list_all tame_types sources" using assms(1) by (auto simp: plain_layer_def Let_def list_all_iff)
  have idle: "idle ?R2" "idle ?R3" using head_idle [of sources v geo] by (simp_all add: idle_def)
  have "fold_result read_line (block ''Masses'' (map mass_line6 (mass_entries sources))) ?R1 =
      Inr (?R1\<lparr>rd_masses := collect_masses mass_pair (mass_entries sources) []\<rparr>)"
    by (rule read_mass_section [OF head_idle _ mass_lines6(1) [OF types] assms(5)]) (simp add: head_reader_def new_reader_def)
  then have 1: "fold_result read_line (block ''Masses'' (map mass_line6 (mass_entries sources))) ?R1 = Inr ?R2"
    by (simp only: mass_entries_read)
  have raw: "rd_raw ?R2 = []" by (simp add: head_reader_def new_reader_def)
  have ok: "\<forall>(h, ls)\<in>set (coeff_sections pairs sources). h \<in> set COEFF_SECTIONS \<and> list_all payload_line ls \<and> ls \<noteq> []"
    using coeff_sections_ok [OF assms(1-3)] by (auto simp: list_all_iff tidy_def)
  have 2: "fold_result read_line (concat (map (\<lambda>(h, ls). block h ls) (coeff_sections pairs sources))) ?R2 = Inr ?R3"
    using read_coeff_blocks [OF ok coeff_sections_distinct _ idle(1)] raw by simp
  have 3: "fold_result read_line
      (block ''Atoms # full'' (atom_lines sources v geo) @ concat (map (\<lambda>(h, ls). block h ls) (link_sections sources))) ?R3 =
      Inr (final_merged pairs sources v geo)"
    unfolding final_merged_def
    by (rule read_merged_entities [OF assms(1,4) idle(2)]) (simp_all add: head_reader_def new_reader_def)
  have "concat (map (\<lambda>(h, ls). block h ls) (merged_sections pairs sources v geo)) =
      block ''Masses'' (map mass_line6 (mass_entries sources)) @
      concat (map (\<lambda>(h, ls). block h ls) (coeff_sections pairs sources)) @
      (block ''Atoms # full'' (atom_lines sources v geo) @ concat (map (\<lambda>(h, ls). block h ls) (link_sections sources)))"
    by (simp add: merged_sections_def)
  then show ?thesis
    by (simp only: fold_result_append [of _ "block ''Masses'' _"] fold_result_append [of _ "concat (map _ (coeff_sections _ _))"]
        1 2 3 bind_result_simps)
qed

lemma merged_one_line:
  assumes "list_all plain_layer sources" "list_all tidy pairs" "pairs \<noteq> []"
  shows "list_all one_line (merged_lines pairs sources v geo)"
proof -
  obtain lx ly lz where b: "cg_box geo = (lx, ly, lz)" by (cases "cg_box geo")
  have types: "list_all tame_types sources" using assms(1) by (auto simp: plain_layer_def Let_def list_all_iff)
  have names: "one_line ''LAMMPS data file - Layered structure prebuilt''" "one_line ''Atoms # full''" by code_simp+
  have box: "one_line w \<Longrightarrow> one_line (zero_box_line x w)" for x w
    by (simp add: zero_box_range range_line_def word_one_line) (simp add: newline_def)
  have head: "list_all one_line (merged_head sources v geo)"
    using name_one_line(1) plain_totals [OF assms(1)]
    by (simp add: merged_head_def b int_count count_line_one_line box names) (simp add: newline_def)
  have a: "one_line (sp (atom_words a))" for a
    by (rule sp_one_line) (use atom_words_ok [of a] in auto)
  have l: "one_line (sp (link_words l))" for l
    by (rule sp_one_line) (use link_words_ok [of l] in auto)
  have "\<forall>(h, ls)\<in>set (coeff_sections pairs sources). one_line h \<and> list_all one_line ls"
    using coeff_sections_ok [OF assms] name_one_line(2) by (fastforce simp: list_all_iff tidy_def)
  moreover have "\<forall>(h, ls)\<in>set (link_sections sources). one_line h \<and> list_all one_line ls"
    using name_one_line(3) by (auto simp: link_sections_def link_lines_def list_all_iff l DATA_SECTIONS_def)
  ultimately have "\<forall>(h, ls)\<in>set (merged_sections pairs sources v geo). one_line h \<and> list_all one_line ls"
    using mass_lines6(2) [OF types] name_one_line(1) names(2)
    by (auto simp: merged_sections_def atom_lines_def list_all_iff a)
  then have "list_all one_line (concat (map (\<lambda>(h, ls). section_lines h ls) (merged_sections pairs sources v geo)))"
    by (auto simp: list_all_iff section_lines_def)
  moreover have "list_all one_line (crystal_lines sources)"
  proof -
    have "one_line (sp (map show_int (crystal_type_ids sources)))" by (rule sp_one_line) auto
    then show ?thesis by (simp add: crystal_lines_def) (simp add: newline_def)
  qed
  ultimately show ?thesis using head by (simp add: merged_lines_sections)
qed


section \<open>A stack\<close>

definition demo_binder :: layer_source where
  "demo_binder =
     \<lparr>ly_type = BINDER_CELL, ly_source_id = ''b1'', ly_name = ''b1'', ly_status = ''completed'', ly_boundary_mode = ''ppf'',
      ly_info =
        \<lparr>di_atoms = [\<lparr>da_id = 2, da_mol = 1, da_type = 1, da_charge = 1 / 10, da_pos = (1, 1, 3)\<rparr>,
                      \<lparr>da_id = 1, da_mol = 1, da_type = 2, da_charge = - 1 / 10, da_pos = (2, 1, 4)\<rparr>],
         di_bonds = [\<lparr>lk_id = 1, lk_type = 1, lk_atoms = [1, 2]\<rparr>], di_box = [0, 10, 0, 10, 2, 5], di_n_atoms = 2,
         di_n_bonds = 1, di_n_atom_types = 2, di_masses = [(1, 12), (2, 1)], di_angles = None, di_dihedrals = None,
         di_impropers = None, di_n_bond_types = 1, di_n_angle_types = 0, di_n_dihedral_types = 0, di_n_improper_types = 0,
         di_raw_coeffs = Some [(''Pair Coeffs'', ''1 0.1 3.4'' @ [newline] @ ''2 0.02 2.5''), (''Bond Coeffs'', ''1 340.0 1.09'')]\<rparr>,
      ly_type_map = [(''1'', ''C''), (''2'', ''H'')], ly_box_size = (10, 10, 3)\<rparr>"

definition demo_crystal :: layer_source where
  "demo_crystal =
     \<lparr>ly_type = CRYSTAL_STRUCTURE, ly_source_id = ''q1'', ly_name = ''quartz'', ly_status = ''ready'', ly_boundary_mode = ''ppf'',
      ly_info =
        \<lparr>di_atoms = [\<lparr>da_id = 1, da_mol = 0, da_type = 1, da_charge = 0, da_pos = (5, 5, 1)\<rparr>],
         di_bonds = [], di_box = [0, 10, 0, 10, 0, 4], di_n_atoms = 1,
         di_n_bonds = 0, di_n_atom_types = 1, di_masses = [(1, 28)], di_angles = None, di_dihedrals = None,
         di_impropers = None, di_n_bond_types = 0, di_n_angle_types = 0, di_n_dihedral_types = 0, di_n_improper_types = 0,
         di_raw_coeffs = None\<rparr>,
      ly_type_map = [(''1'', ''Si'')], ly_box_size = (10, 10, 4)\<rparr>"

definition demo_stack :: "layer_source list" where
  "demo_stack = [demo_crystal, demo_binder]"

definition demo_minerals :: "(string, string \<times> string) pydict" where
  "demo_minerals = [(''Si'', (''0.093'', ''3.697''))]"

definition demo_geometry :: combined_geometry where
  "demo_geometry = combine_sources_to_geometry demo_stack 2 [None, None]"

lemma demo_stack_thick: "demo_stack \<noteq> [] \<and> list_all thick demo_stack"
  by code_simp

theorem layers_do_not_overlap_witness:
  "length (cg_boundaries demo_geometry) = 4 \<and> sorted (cg_boundaries demo_geometry)"
  using layers_do_not_overlap [of demo_stack demo_geometry 2 "[None, None]"] demo_stack_thick
  by (simp add: demo_geometry_def) (simp add: demo_stack_def)

lemma demo_known: "list_all (\<lambda>s. list_all (known_link (di_atoms (ly_info s))) (di_bonds (ly_info s))) demo_stack"
  by (simp add: demo_stack_def demo_binder_def demo_crystal_def known_link_def)


lemma demo_plain_layer: "list_all plain_layer demo_stack \<and> tame_minerals demo_minerals"
  by code_simp

lemma demo_masses: "merged_masses demo_stack = [(1, (28, ''Si'')), (2, (12, ''C'')), (3, (1, ''H''))]"
  by code_simp

lemma demo_atoms: "length (cg_atoms demo_geometry) = 3"
  by (simp add: demo_geometry_def geometry_fields layer_atoms_def demo_stack_def demo_binder_def demo_crystal_def Let_def)

lemma demo_pairs:
  "merged_pair_coeffs demo_minerals demo_stack =
     Inr [''2 0.1 3.4'', ''3 0.02 2.5'', ''1 0.093 3.697 # INTERFACE FF (Si)'']"
  by code_simp

theorem pair_coefficients_fail_closed_witness:
  "list_all (\<lambda>t. \<exists>l\<in>set (projr (merged_pair_coeffs demo_minerals demo_stack)). line_type l = [t]) [1, 2, 3] \<and>
   isl (merged_pair_coeffs [] demo_stack)"
proof
  have "\<forall>t\<in>fst ` set (merged_masses demo_stack).
      \<exists>l\<in>set [''2 0.1 3.4'', ''3 0.02 2.5'', ''1 0.093 3.697 # INTERFACE FF (Si)'']. line_type l = [t]"
    using pair_coefficients_fail_closed [of demo_minerals demo_stack] demo_pairs by blast
  then show "list_all (\<lambda>t. \<exists>l\<in>set (projr (merged_pair_coeffs demo_minerals demo_stack)). line_type l = [t]) [1, 2, 3]"
    by (simp only: demo_masses demo_pairs) simp
  have "1 \<in> set (uncovered demo_stack)" by code_simp
  then show "isl (merged_pair_coeffs [] demo_stack)"
    using pair_coefficients_fail_closed [of "[]" demo_stack] by auto
qed

lemma demo_written:
  "\<exists>content lineage. write_combined_lammps_data demo_minerals demo_stack 20 demo_geometry = Inr (content, lineage)"
  by (simp add: write_combined_lammps_data_def demo_pairs)


section \<open>Findings\<close>

text \<open>The volume recorded for the second layer is that of the gap below it.\<close>

lemma second_volume_is_the_gap:
  assumes "bs = cg_boundaries (combine_sources_to_geometry [s, t] gap gaps)" "gap_after gap gaps 0 > 0" "a \<noteq> b"
    "a \<noteq> []" "b \<noteq> []"
  shows "map_of (layer_volumes box bs [Some a, Some b]) b = Some (fst box * fst (snd box) * gap_after gap gaps 0)"
proof -
  have "bs = [0, layer_thickness s, layer_thickness s + gap_after gap gaps 0,
      layer_thickness s + gap_after gap gaps 0 + layer_thickness t]"
    using assms(1,2) by (simp add: geometry_fields Let_def)
  then show ?thesis using assms(2-5) by (simp add: layer_volumes_def Let_def or_default_def update_conv')
qed

text \<open>Molecule 0 of a layer gets the number of the last molecule of the layer below.\<close>

lemma molecule_zero_collides:
  assumes "ca_layer a = 1" "ca_mol a = max_mol (ly_info s)" "ca_layer b = 2" "ca_mol b = 0"
  shows "ta_mol (merged_atom offs (offsets max_mol [s, t]) v (i, a)) = ta_mol (merged_atom offs (offsets max_mol [s, t]) v (j, b))"
  using assms by (simp add: merged_atom_def offsets_def)

end
