(* ===== verification/LayerSubmit.thy ===== *)
theory LayerSubmit
  imports LayerStackProps
begin

text \<open>
  Submitting a stack of layers, \<^verbatim>\<open>src/src/features/layered_structures/service.py\<close>: the
  preview, the gate in front of a submission, where the molecule counts of the layers come
  from, and the submission of several replicas with compensation. The sources are loaded
  twice, once for the preview and once for the file; both loads are arguments. The experiment
  table and the job queue are arguments, too.
\<close>

section \<open>Preview and gate\<close>

record layered_request =
  lr_tolerance_pct :: "pyfloat option"
  lr_tolerance_angstrom :: "pyfloat option"
  lr_min_ratio :: pyfloat
  lr_gap :: pyfloat
  lr_vacuum :: "pyfloat option"
  lr_gaps :: "pyfloat option list"
  lr_labels :: "string option list"

text \<open>The validator of the request: without a tolerance it is the one of the policy.\<close>

definition with_tolerance :: "layered_request \<Rightarrow> layered_request" where
  "with_tolerance rq =
     (if lr_tolerance_pct rq = None \<and> lr_tolerance_angstrom rq = None
      then rq\<lparr>lr_tolerance_pct := Some (lp_xy_tolerance DEFAULT_LAYER_POLICY)\<rparr> else rq)"

definition resolved_vacuum :: "layered_request \<Rightarrow> pyfloat" where
  "resolved_vacuum rq = (case lr_vacuum rq of Some v \<Rightarrow> v | None \<Rightarrow> lp_z_vacuum DEFAULT_LAYER_POLICY)"

text \<open>The gap behind the last layer counts for nothing.\<close>

definition per_layer_gaps :: "layered_request \<Rightarrow> pyfloat option list" where
  "per_layer_gaps rq = (if lr_gaps rq = [] then [] else butlast (lr_gaps rq) @ [None])"

definition request_geometry :: "layered_request \<Rightarrow> layer_source list \<Rightarrow> combined_geometry" where
  "request_geometry rq sources = combine_sources_to_geometry sources (lr_gap rq) (per_layer_gaps rq)"

definition preview_layered_structure ::
    "(layer_source list \<Rightarrow> layer_check list option) \<Rightarrow> layered_request \<Rightarrow> layer_source list
      \<Rightarrow> layer_check list \<times> combined_geometry" where
  "preview_layered_structure ff rq sources =
     (validate_checks sources (resolve_tolerance_pct (lr_tolerance_pct rq) (lr_tolerance_angstrom rq) sources)
        (lr_min_ratio rq) (resolved_vacuum rq) (ff sources),
      request_geometry rq sources)"

datatype ('e) layered_error =
    LoadFailed 'e
  | ChecksFailed "layer_check list"
  | NotReady "(layer_source_type \<times> string \<times> string) list"
  | FileFailed merge_error

definition allowed_status :: "layer_source_type \<Rightarrow> string" where
  "allowed_status t = (if t = BINDER_CELL then ''completed'' else ''ready'')"

definition blocked_sources :: "layer_source list \<Rightarrow> (layer_source_type \<times> string \<times> string) list" where
  "blocked_sources sources =
     map (\<lambda>s. (ly_type s, ly_source_id s, ly_status s))
       (filter (\<lambda>s. str_lower (str_strip (ly_status s)) \<noteq> allowed_status (ly_type s)) sources)"

definition validate_source_readiness_for_submit :: "layer_source list \<Rightarrow> ('e layered_error, unit) result" where
  "validate_source_readiness_for_submit sources =
     (if blocked_sources sources = [] then Inr () else Inl (NotReady (blocked_sources sources)))"

record prepared =
  pr_checks :: "layer_check list"
  pr_content :: string
  pr_xyz :: string
  pr_lineage :: "lineage_entry list"
  pr_target_atoms :: nat
  pr_box :: "pyfloat \<times> pyfloat \<times> pyfloat"
  pr_boundaries :: "pyfloat list"
  pr_grips :: "(pyfloat \<times> pyfloat) option \<times> (pyfloat \<times> pyfloat) option"

text \<open>The part of \<open>submit_layered_structure\<close> in front of the queue. The grips are those of a tensile run.\<close>

definition prepare_submission ::
    "(string, string \<times> string) pydict \<Rightarrow> (layer_source list \<Rightarrow> layer_check list option) \<Rightarrow> layered_request
      \<Rightarrow> ('e, layer_source list) result \<Rightarrow> ('e, layer_source list) result \<Rightarrow> ('e layered_error, prepared) result" where
  "prepare_submission minerals ff rq first second =
     bind_result (map_error LoadFailed first) (\<lambda>previewed.
       let (checks, preview) = preview_layered_structure ff (with_tolerance rq) previewed
       in if check_has_fail checks then Inl (ChecksFailed checks)
          else bind_result (map_error LoadFailed second) (\<lambda>sources.
            bind_result (validate_source_readiness_for_submit sources) (\<lambda>_.
              let geo = request_geometry rq sources
              in bind_result (map_error FileFailed (write_combined_lammps_data minerals sources (resolved_vacuum rq) geo))
                (\<lambda>(content, lineage). Inr
                  \<lparr>pr_checks = checks, pr_content = content, pr_xyz = cg_xyz geo @ [newline], pr_lineage = lineage,
                   pr_target_atoms = max 1 (length (cg_atoms geo)), pr_box = cg_box geo,
                   pr_boundaries = cg_boundaries preview,
                   pr_grips = crystal_grip_ranges sources
                     (protocol_layer_boundaries (resolved_vacuum rq) (cg_boundaries preview))\<rparr>))))"

text \<open>The file of the preview, types by element.\<close>

definition element_types :: "combined_atom list \<Rightarrow> (string, nat) pydict" where
  "element_types atoms =
     foldl (\<lambda>d a. if dict_has d (ca_element a) then d else dict_set (ca_element a) (length d + 1) d) [] atoms"

definition simple_lines :: "combined_geometry \<Rightarrow> string list" where
  "simple_lines geo =
     (let types = element_types (cg_atoms geo); (lx, ly, lz) = cg_box geo
      in [''LAMMPS data file - Layered structure prebuilt'', [], count_line (length (cg_atoms geo)) ''atoms'',
          ''0 bonds'', ''0 angles'', ''0 dihedrals'', ''0 impropers'', [],
          count_line (length types) ''atom types'', ''0 bond types'', ''0 angle types'', ''0 dihedral types'',
          ''0 improper types'', [], zero_box_line lx ''xlo xhi'', zero_box_line ly ''ylo yhi'', zero_box_line lz ''zlo zhi'',
          [], ''Masses'', []] @
         map (\<lambda>(e, t). mass_line6 (int t, dict_get ATOMIC_WEIGHTS e 12, e)) types @ [[], ''Atoms # full'', []] @
         map (\<lambda>(i, a). sp [show_nat (i + 1), show_nat (ca_layer a), show_nat (dict_get types (ca_element a) 0),
               show_fixed 6 (ca_charge a), show_fixed 6 (ca_x a), show_fixed 6 (ca_y a), show_fixed 6 (ca_z a)])
           (enumerate 0 (cg_atoms geo)))"

definition write_combined_lammps_data_simple :: "combined_geometry \<Rightarrow> string" where
  "write_combined_lammps_data_simple geo = unlines (simple_lines geo)"

section \<open>Provenance of the molecules\<close>

record binder_row =
  br_asphaltene :: "pyfloat option"
  br_resin :: "pyfloat option"
  br_aromatic :: "pyfloat option"
  br_saturate :: "pyfloat option"

record ced_record =
  cr_source :: string
  cr_layer :: nat
  cr_types :: nat
  cr_instances :: int
  cr_counts :: "(string, int) pydict"

record ced_state =
  cs_comp :: "pyfloat list"
  cs_no_binder :: bool
  cs_totals :: "(string, int) pydict"
  cs_records :: "ced_record list"

definition or_zero :: "pyfloat option \<Rightarrow> pyfloat" where
  "or_zero x = (case x of None \<Rightarrow> 0 | Some v \<Rightarrow> v)"

definition add_count :: "string \<times> int \<Rightarrow> (string, int) pydict \<Rightarrow> (string, int) pydict" where
  "add_count p d = dict_set (fst p) (dict_get d (fst p) 0 + snd p) d"

text \<open>The rows that count: a positive number and a name.\<close>

definition counted :: "(string \<times> int) list \<Rightarrow> (string \<times> int) list" where
  "counted rows = filter (\<lambda>(m, n). n > 0 \<and> m \<noteq> []) (map (\<lambda>(m, n). (str_strip m, n)) rows)"

definition empty_ced :: ced_state where
  "empty_ced = \<lparr>cs_comp = [0, 0, 0, 0], cs_no_binder = True, cs_totals = [], cs_records = []\<rparr>"

text \<open>
  One layer; the two queries may raise, and the loop then ends with what it has so far:
  the value \<open>Inl\<close>.
\<close>

definition ced_layer ::
    "(string \<Rightarrow> ('x, binder_row option) result) \<Rightarrow> (string \<Rightarrow> ('x, (string \<times> int) list) result)
      \<Rightarrow> nat \<times> layer_source \<Rightarrow> ced_state \<Rightarrow> (ced_state, ced_state) result" where
  "ced_layer get_by_id get_molecules p st =
     (let (i, s) = p
      in if ly_type s \<noteq> BINDER_CELL \<or> ly_source_id s = [] then Inr st
         else case get_by_id (ly_source_id s) of
             Inl _ \<Rightarrow> Inl st
           | Inr None \<Rightarrow> Inr st
           | Inr (Some b) \<Rightarrow>
               let st = (if cs_no_binder st
                         then st\<lparr>cs_comp := map or_zero [br_asphaltene b, br_resin b, br_aromatic b, br_saturate b],
                                 cs_no_binder := False\<rparr> else st)
               in case get_molecules (ly_source_id s) of
                   Inl _ \<Rightarrow> Inl st
                 | Inr rows \<Rightarrow> Inr (st\<lparr>cs_totals := fold add_count (counted rows) (cs_totals st),
                     cs_records := cs_records st @
                       [\<lparr>cr_source = ly_source_id s, cr_layer = i, cr_types = length (counted rows),
                         cr_instances = sum_list (map snd (counted rows)), cr_counts = fold add_count (counted rows) []\<rparr>]\<rparr>))"

definition collect_layered_ced_provenance ::
    "(string \<Rightarrow> ('x, binder_row option) result) \<Rightarrow> (string \<Rightarrow> ('x, (string \<times> int) list) result)
      \<Rightarrow> layer_source list \<Rightarrow> ced_state" where
  "collect_layered_ced_provenance get_by_id get_molecules sources =
     (case fold_result (ced_layer get_by_id get_molecules) (enumerate 0 sources) empty_ced of Inl st \<Rightarrow> st | Inr st \<Rightarrow> st)"

definition layer_label :: "nat \<times> string option \<Rightarrow> string" where
  "layer_label p = or_default (snd p) (''layer_'' @ show_nat (fst p))"

text \<open>\<open>records_by_index\<close> keeps the last record of a layer; empty counts are left out.\<close>

definition counts_by_layer :: "string option list \<Rightarrow> ced_record list \<Rightarrow> (string, (string, int) pydict) pydict" where
  "counts_by_layer labels records =
     foldl (\<lambda>d p.
       case map_of (rev (map (\<lambda>r. (cr_layer r, cr_counts r)) records)) (fst p) of
         None \<Rightarrow> d
       | Some counts \<Rightarrow>
           let clean = filter (\<lambda>(m, n). str_strip m \<noteq> [] \<and> n > 0) counts
           in if clean = [] then d else dict_set (layer_label p) clean d) [] (enumerate 0 labels)"

definition build_layered_profile_provenance ::
    "layered_request \<Rightarrow> combined_geometry \<Rightarrow> ced_record list
      \<Rightarrow> string list \<times> (string, pyfloat) pydict \<times> (string, (string, int) pydict) pydict" where
  "build_layered_profile_provenance rq preview records =
     (map layer_label (enumerate 0 (lr_labels rq)), layer_volumes (cg_box preview) (cg_boundaries preview) (lr_labels rq),
      counts_by_layer (lr_labels rq) records)"

definition crystal_additive_label :: "string \<Rightarrow> string option \<Rightarrow> bool option \<Rightarrow> string" where
  "crystal_additive_label material surface hydroxylated =
     join_with CHR ''-'' ([material] @ (if truthy surface then [or_default surface []] else []) @
       (if hydroxylated = Some True then [''OH''] else []))"

definition e_inter_underestimate_check :: "bool option \<Rightarrow> layer_check option" where
  "e_inter_underestimate_check enabled =
     (if enabled = Some True then None
      else Some \<lparr>lc_code = ''e_inter_long_range_omitted'', lc_status = CheckWarn,
                 lc_details = [(''precise_einter_enabled'', PBool False)]\<rparr>)"

section \<open>Replicas\<close>

text \<open>\<open>None\<close> entries are dropped, too.\<close>

definition dedupe_seeds :: "int option list \<Rightarrow> int list" where
  "dedupe_seeds seeds = foldl (\<lambda>out s. case s of None \<Rightarrow> out | Some n \<Rightarrow> if n \<in> set out then out else out @ [n]) [] seeds"

text \<open>
  What the backend does: \<open>submit\<close> tries one seed (\<open>None\<close>: let the code choose), \<open>cancel\<close> undoes an
  experiment and says whether it could, \<open>tag\<close> marks a group.
\<close>

record ('w, 'e) backend =
  bk_submit :: "int option \<Rightarrow> 'w \<Rightarrow> ('e, string) result \<times> 'w"
  bk_cancel :: "string \<Rightarrow> 'w \<Rightarrow> bool \<times> 'w"
  bk_tag :: "string list \<Rightarrow> 'w \<Rightarrow> bool \<times> 'w"

datatype 'e replicate_error = SubmitError 'e | ReplicateFailed 'e int "string list"

text \<open>The answer names the first experiment and, for a tagged group, its members.\<close>

type_synonym replicate_answer = "string \<times> string list option"

definition cancel_submitted_replicas :: "('w, 'e) backend \<Rightarrow> string list \<Rightarrow> 'w \<Rightarrow> 'w" where
  "cancel_submitted_replicas B ids w = fold (\<lambda>i w. snd (bk_cancel B i w)) ids w"

fun submit_seeds ::
    "('w, 'e) backend \<Rightarrow> int list \<Rightarrow> string list \<Rightarrow> 'w \<Rightarrow> ('e replicate_error, string list) result \<times> 'w" where
  "submit_seeds B [] done w = (Inr done, w)"
| "submit_seeds B (s # ss) done w =
     (case bk_submit B (Some s) w of
        (Inr i, w1) \<Rightarrow> submit_seeds B ss (done @ [i]) w1
      | (Inl e, w1) \<Rightarrow> (Inl (ReplicateFailed e s done), cancel_submitted_replicas B done w1))"

definition submit_single :: "('w, 'e) backend \<Rightarrow> int option \<Rightarrow> 'w \<Rightarrow> ('e replicate_error, replicate_answer) result \<times> 'w" where
  "submit_single B seed w =
     (case bk_submit B seed w of (r, w1) \<Rightarrow> (map_sum SubmitError (\<lambda>i. (i, None)) r, w1))"

definition submit_layered_replicates ::
    "('w, 'e) backend \<Rightarrow> int option \<Rightarrow> int option list \<Rightarrow> 'w \<Rightarrow> ('e replicate_error, replicate_answer) result \<times> 'w" where
  "submit_layered_replicates B seed replicate_seeds w =
     (let seeds = dedupe_seeds replicate_seeds
      in if replicate_seeds = [] then submit_single B seed w
         else if length seeds \<le> 1 then submit_single B (if seeds = [] then seed else Some (hd seeds)) w
         else case submit_seeds B seeds [] w of
             (Inl e, w1) \<Rightarrow> (Inl e, w1)
           | (Inr ids, w1) \<Rightarrow>
               (case bk_tag B ids w1 of
                  (ok, w2) \<Rightarrow> (Inr (hd ids, if ok then Some ids else None), w2)))"

end
