(* ===== verification/LayerSubmitProps.thy ===== *)
theory LayerSubmitProps
  imports LayerSubmit
begin

text \<open>
  Properties of the submission of stacks: what the gate lets through, and that the molecule counts
  of a stack are the sum of those of its layers.
\<close>

section \<open>The gate\<close>

text \<open>The hard limits, on the sizes of the layers.\<close>

definition within_limits :: "layered_request \<Rightarrow> layer_source list \<Rightarrow> bool" where
  "within_limits rq sources \<longleftrightarrow>
     2 \<le> length sources \<and> length sources \<le> 5 \<and>
     max_mismatch sources \<le>
       resolve_tolerance_pct (lr_tolerance_pct (with_tolerance rq)) (lr_tolerance_angstrom (with_tolerance rq)) sources \<and>
     max_rescale sources \<le> 10 \<and> list_all (\<lambda>s. ly_lz s > 0) sources \<and>
     total_z sources > 0 \<and> xy_ratio sources \<ge> 1 / 2 \<and> vacuum_ratio (resolved_vacuum rq) sources \<ge> 3 / 10"

definition ff_ok :: "layer_check list option \<Rightarrow> bool" where
  "ff_ok cs = (case cs of None \<Rightarrow> True | Some cs \<Rightarrow> \<not> check_has_fail cs)"

lemma has_fail_simps [simp]:
  "check_has_fail [] = False" "check_has_fail (c # cs) = (lc_status c = CheckFail \<or> check_has_fail cs)"
  "check_has_fail (cs @ ds) = (check_has_fail cs \<or> check_has_fail ds)"
  by (simp_all add: check_has_fail_def)

lemma check_fails:
  "lc_status (count_check sources) = CheckFail \<longleftrightarrow> \<not> (2 \<le> length sources \<and> length sources \<le> 5)"
  "lc_status (alignment_check tol sources) = CheckFail \<longleftrightarrow> \<not> max_mismatch sources \<le> tol"
  "lc_status (rescale_check sources) = CheckFail \<longleftrightarrow> \<not> max_rescale sources \<le> 10"
  "lc_status (thickness_check sources) = CheckFail \<longleftrightarrow> \<not> list_all (\<lambda>s. ly_lz s > 0) sources"
  "lc_status (boundary_check sources) \<noteq> CheckFail"
  "lc_status (aspect_check r sources) = CheckFail \<longleftrightarrow> \<not> (total_z sources > 0 \<and> xy_ratio sources \<ge> 1 / 2)"
  "lc_status (vacuum_check v sources) = CheckFail \<longleftrightarrow> total_z sources > 0 \<and> \<not> vacuum_ratio v sources \<ge> 3 / 10"
  "lc_status (orientation_check sources) \<noteq> CheckFail" "lc_status (dual_check sources) \<noteq> CheckFail"
  by (auto simp: count_check_def alignment_check_def rescale_check_def thickness_check_def boundary_check_def aspect_check_def
      vacuum_check_def orientation_check_def dual_check_def Let_def DEFAULT_LAYER_POLICY_def)

lemma gate_iff:
  "check_has_fail (fst (preview_layered_structure ff (with_tolerance rq) sources)) \<longleftrightarrow>
     \<not> (within_limits rq sources \<and> ff_ok (ff sources))"
proof -
  have "resolved_vacuum (with_tolerance rq) = resolved_vacuum rq" "lr_min_ratio (with_tolerance rq) = lr_min_ratio rq"
    by (simp_all add: with_tolerance_def resolved_vacuum_def)
  then show ?thesis
    by (cases "ff sources")
      (auto simp: preview_layered_structure_def validate_checks_def check_fails within_limits_def ff_ok_def)
qed

definition all_ready :: "layer_source list \<Rightarrow> bool" where
  "all_ready sources \<longleftrightarrow> list_all (\<lambda>s. str_lower (str_strip (ly_status s)) = allowed_status (ly_type s)) sources"

lemma ready_iff: "isl (validate_source_readiness_for_submit sources) \<longleftrightarrow> \<not> all_ready sources"
  by (auto simp: validate_source_readiness_for_submit_def blocked_sources_def all_ready_def list_all_iff filter_empty_conv)

lemma isl_bind: "isl (bind_result r f) \<longleftrightarrow> isl r \<or> isl (f (projr r))"
  by (cases r) simp_all

lemma isl_map_error [simp]: "isl (map_error h r) \<longleftrightarrow> isl r" "map_error h (Inr x) = Inr x"
  by (cases r) (simp_all add: map_error_def)



section \<open>Molecule counts\<close>

definition lookup :: "string \<Rightarrow> (string, int) pydict \<Rightarrow> int" where
  "lookup m d = dict_get d m 0"

lemma lookup_add: "lookup m (add_count p d) = lookup m d + (if fst p = m then snd p else 0)"
  by (simp add: lookup_def add_count_def dict_get_def update_conv')

lemma lookup_fold: "lookup m (fold add_count ps d) = lookup m d + sum_list (map snd (filter (\<lambda>p. fst p = m) ps))"
  by (induction ps arbitrary: d) (simp_all add: lookup_add)

lemma lookup_Nil [simp]: "lookup m [] = 0"
  by (simp add: lookup_def dict_get_def)

definition ced_sound :: "layer_source list \<Rightarrow> ced_state \<Rightarrow> bool" where
  "ced_sound sources st \<longleftrightarrow>
     (\<forall>m. lookup m (cs_totals st) = sum_list (map (\<lambda>r. lookup m (cr_counts r)) (cs_records st))) \<and>
     (\<forall>r\<in>set (cs_records st). cr_layer r < length sources \<and> ly_type (sources ! cr_layer r) = BINDER_CELL \<and>
        ly_source_id (sources ! cr_layer r) = cr_source r) \<and>
     (cs_records st \<noteq> [] \<longrightarrow> \<not> cs_no_binder st)"

lemma ced_layer_sound:
  assumes "ced_sound sources st" "i < length sources"
  shows "\<forall>t. ced_layer g h (i, sources ! i) st = Inl t \<or> ced_layer g h (i, sources ! i) st = Inr t \<longrightarrow> ced_sound sources t"
  using assms
  by (auto simp: ced_layer_def ced_sound_def Let_def lookup_fold split: sum.splits option.splits if_splits)

lemma fold_result_either:
  assumes "P s" "\<And>x s t. x \<in> set xs \<Longrightarrow> P s \<Longrightarrow> f x s = Inl t \<or> f x s = Inr t \<Longrightarrow> P t"
  shows "case fold_result f xs s of Inl t \<Rightarrow> P t | Inr t \<Rightarrow> P t"
  using assms
proof (induction xs arbitrary: s)
  case (Cons x xs)
  show ?case
  proof (cases "f x s")
    case (Inl t)
    then show ?thesis using Cons.prems(1) Cons.prems(2) [of x s t] by simp
  next
    case (Inr t)
    then have "P t" using Cons.prems(1) Cons.prems(2) [of x s t] by simp
    moreover have "\<And>y s t. y \<in> set xs \<Longrightarrow> P s \<Longrightarrow> f y s = Inl t \<or> f y s = Inr t \<Longrightarrow> P t"
      by (rule Cons.prems(2)) simp_all
    ultimately show ?thesis using Cons.IH [of t] Inr by simp
  qed
qed simp

theorem stack_counts_are_sums:
  shows "lookup m (cs_totals (collect_layered_ced_provenance get_by_id get_molecules sources)) =
      sum_list (map (\<lambda>r. lookup m (cr_counts r)) (cs_records (collect_layered_ced_provenance get_by_id get_molecules sources))) \<and>
    (\<forall>r\<in>set (cs_records (collect_layered_ced_provenance get_by_id get_molecules sources)).
       cr_layer r < length sources \<and> ly_type (sources ! cr_layer r) = BINDER_CELL \<and>
       ly_source_id (sources ! cr_layer r) = cr_source r)"
proof -
  have "ced_sound sources empty_ced" by (simp add: ced_sound_def empty_ced_def)
  then have "case fold_result (ced_layer get_by_id get_molecules) (enumerate 0 sources) empty_ced of
      Inl t \<Rightarrow> ced_sound sources t | Inr t \<Rightarrow> ced_sound sources t"
  proof (rule fold_result_either)
    fix x s t
    assume x: "x \<in> set (enumerate 0 sources)" and s: "ced_sound sources s"
      and r: "ced_layer get_by_id get_molecules x s = Inl t \<or> ced_layer get_by_id get_molecules x s = Inr t"
    obtain i where "i < length sources" "x = (i, sources ! i)" using x by (auto simp: in_set_enumerate_eq)
    then show "ced_sound sources t" using ced_layer_sound [OF s] r by blast
  qed
  then have "ced_sound sources (collect_layered_ced_provenance get_by_id get_molecules sources)"
    by (auto simp: collect_layered_ced_provenance_def split: sum.splits)
  then show ?thesis by (simp add: ced_sound_def)
qed

end
