(* ===== verification/DbSession.thy ===== *)
theory DbSession
  imports COMID_Prelude
begin

text \<open>
  The database as the services use it. The \<^verbatim>\<open>database\<close> package and SQLAlchemy are not part of
  the sources: a session is a parameter with the rows of each table, by the name of its model,
  and the three ways the code changes them, and so is the experiment repository. A row is the
  dictionary of its attributes. \<^verbatim>\<open>repo_laws\<close> states what is documented of them: a
  statement changes the rows its filter selects, in the table it names, and no others.
\<close>

type_synonym db_row = "(string \<times> pyval) list"

definition attr :: "db_row \<Rightarrow> string \<Rightarrow> pyval" where
  "attr r k = pv_get r k"

definition set_attr :: "string \<Rightarrow> pyval \<Rightarrow> db_row \<Rightarrow> db_row" where
  "set_attr k v r = dict_set k v r"

record 'db session =
  se_rows :: "'db \<Rightarrow> string \<Rightarrow> db_row list"
  se_delete :: "string \<Rightarrow> (db_row \<Rightarrow> bool) \<Rightarrow> 'db \<Rightarrow> 'db"
  se_update :: "string \<Rightarrow> (db_row \<Rightarrow> bool) \<Rightarrow> (db_row \<Rightarrow> db_row) \<Rightarrow> 'db \<Rightarrow> 'db"
  se_insert :: "string \<Rightarrow> db_row \<Rightarrow> 'db \<Rightarrow> 'db"

definition EXPERIMENTS :: string where
  "EXPERIMENTS = ''ExperimentModel''"

definition session_laws :: "'db session \<Rightarrow> bool" where
  "session_laws S \<longleftrightarrow>
     (\<forall>db t P u. se_rows S (se_delete S t P db) u = (if u = t then filter (\<lambda>r. \<not> P r) (se_rows S db t) else se_rows S db u)) \<and>
     (\<forall>db t P f u. se_rows S (se_update S t P f db) u =
        (if u = t then map (\<lambda>r. if P r then f r else r) (se_rows S db t) else se_rows S db u)) \<and>
     (\<forall>db t r u. se_rows S (se_insert S t r db) u = (if u = t then se_rows S db t @ [r] else se_rows S db u))"

text \<open>
  The repository: the row of an experiment, its status with error code and message, a new row,
  a task id and the removal of the row. The tables of molecules and conditions the removal
  clears, too, hold nothing else the code looks at.
\<close>

record 'db repo =
  rp_session :: "'db session"
  rp_get :: "string \<Rightarrow> 'db \<Rightarrow> db_row option"
  rp_status :: "string \<Rightarrow> string \<Rightarrow> pyval \<Rightarrow> pyval \<Rightarrow> 'db \<Rightarrow> 'db"
  rp_create :: "db_row \<Rightarrow> 'db \<Rightarrow> 'db"
  rp_task :: "string \<Rightarrow> string \<Rightarrow> 'db \<Rightarrow> 'db"
  rp_delete :: "string \<Rightarrow> 'db \<Rightarrow> 'db"

definition of_exp :: "string \<Rightarrow> db_row \<Rightarrow> bool" where
  "of_exp e r \<longleftrightarrow> attr r ''exp_id'' = PStr e"

definition status_attrs :: "string \<Rightarrow> pyval \<Rightarrow> pyval \<Rightarrow> db_row \<Rightarrow> db_row" where
  "status_attrs st code msg r =
     set_attr ''error_message'' msg (set_attr ''error_code'' code (set_attr ''status'' (PStr st) r))"

definition table_rows :: "'db repo \<Rightarrow> 'db \<Rightarrow> string \<Rightarrow> db_row list" where
  "table_rows R db t = se_rows (rp_session R) db t"

definition repo_laws :: "'db repo \<Rightarrow> bool" where
  "repo_laws R \<longleftrightarrow>
     session_laws (rp_session R) \<and>
     (\<forall>db e. rp_get R e db = List.find (of_exp e) (table_rows R db EXPERIMENTS)) \<and>
     (\<forall>db e st code msg t. table_rows R (rp_status R e st code msg db) t =
        (if t = EXPERIMENTS then map (\<lambda>r. if of_exp e r then status_attrs st code msg r else r) (table_rows R db t) else table_rows R db t)) \<and>
     (\<forall>db r t. table_rows R (rp_create R r db) t = (if t = EXPERIMENTS then table_rows R db t @ [r] else table_rows R db t)) \<and>
     (\<forall>db e task t. table_rows R (rp_task R e task db) t =
        (if t = EXPERIMENTS then map (\<lambda>r. if of_exp e r then set_attr ''celery_task_id'' (PStr task) r else r) (table_rows R db t)
         else table_rows R db t)) \<and>
     (\<forall>db e t. table_rows R (rp_delete R e db) t =
        (if t = EXPERIMENTS then filter (\<lambda>r. \<not> of_exp e r) (table_rows R db t) else table_rows R db t))"

section \<open>Statements of the services\<close>

definition delete_where :: "'db repo \<Rightarrow> string \<Rightarrow> (db_row \<Rightarrow> bool) \<Rightarrow> 'db \<Rightarrow> 'db" where
  "delete_where R = se_delete (rp_session R)"

definition update_where :: "'db repo \<Rightarrow> string \<Rightarrow> (db_row \<Rightarrow> bool) \<Rightarrow> (db_row \<Rightarrow> db_row) \<Rightarrow> 'db \<Rightarrow> 'db" where
  "update_where R = se_update (rp_session R)"

named_theorems db_rows \<open>the rows of a table after a statement\<close>

lemma rows_delete [db_rows]:
  "repo_laws R \<Longrightarrow> table_rows R (delete_where R t P db) u = (if u = t then filter (\<lambda>r. \<not> P r) (table_rows R db t) else table_rows R db u)"
  by (simp add: repo_laws_def session_laws_def table_rows_def delete_where_def)

lemma rows_update [db_rows]:
  "repo_laws R \<Longrightarrow> table_rows R (update_where R t P f db) u =
     (if u = t then map (\<lambda>r. if P r then f r else r) (table_rows R db t) else table_rows R db u)"
  by (simp add: repo_laws_def session_laws_def table_rows_def update_where_def)

lemma rows_repo [db_rows]:
  assumes "repo_laws R"
  shows "table_rows R (rp_status R e st code msg db) t =
      (if t = EXPERIMENTS then map (\<lambda>r. if of_exp e r then status_attrs st code msg r else r) (table_rows R db t) else table_rows R db t)"
    "table_rows R (rp_create R r db) t = (if t = EXPERIMENTS then table_rows R db t @ [r] else table_rows R db t)"
    "table_rows R (rp_task R e task db) t =
      (if t = EXPERIMENTS then map (\<lambda>r. if of_exp e r then set_attr ''celery_task_id'' (PStr task) r else r) (table_rows R db t)
       else table_rows R db t)"
    "table_rows R (rp_delete R e db) t = (if t = EXPERIMENTS then filter (\<lambda>r. \<not> of_exp e r) (table_rows R db t) else table_rows R db t)"
  using assms by (simp_all only: repo_laws_def)

lemma repo_get: "repo_laws R \<Longrightarrow> rp_get R e db = List.find (of_exp e) (table_rows R db EXPERIMENTS)"
  by (simp add: repo_laws_def)

lemma attr_set [simp]: "attr (set_attr k v r) j = (if j = k then v else attr r j)"
  by (simp add: attr_def set_attr_def pv_get_def update_conv')

section \<open>A database in memory\<close>

type_synonym mem_db = "(string, db_row list) pydict"

definition mem_rows :: "mem_db \<Rightarrow> string \<Rightarrow> db_row list" where
  "mem_rows db t = dict_get db t []"

definition mem_session :: "mem_db session" where
  "mem_session =
     \<lparr>se_rows = mem_rows,
      se_delete = (\<lambda>t P db. dict_set t (filter (\<lambda>r. \<not> P r) (mem_rows db t)) db),
      se_update = (\<lambda>t P f db. dict_set t (map (\<lambda>r. if P r then f r else r) (mem_rows db t)) db),
      se_insert = (\<lambda>t r db. dict_set t (mem_rows db t @ [r]) db)\<rparr>"

definition mem_repo :: "mem_db repo" where
  "mem_repo =
     \<lparr>rp_session = mem_session, rp_get = (\<lambda>e db. List.find (of_exp e) (mem_rows db EXPERIMENTS)),
      rp_status = (\<lambda>e st code msg. se_update mem_session EXPERIMENTS (of_exp e) (status_attrs st code msg)),
      rp_create = se_insert mem_session EXPERIMENTS,
      rp_task = (\<lambda>e task. se_update mem_session EXPERIMENTS (of_exp e) (set_attr ''celery_task_id'' (PStr task))),
      rp_delete = (\<lambda>e. se_delete mem_session EXPERIMENTS (of_exp e))\<rparr>"

lemma mem_rows_set [simp]: "mem_rows (dict_set t rs db) u = (if u = t then rs else mem_rows db u)"
  by (simp add: mem_rows_def dict_get_def update_conv')

lemma mem_repo_laws: "repo_laws mem_repo"
  by (simp add: repo_laws_def session_laws_def table_rows_def mem_repo_def mem_session_def)

end
