(* ===== verification/ExperimentLifecycle.thy ===== *)
theory ExperimentLifecycle
  imports DbSession PyText "HOL-Library.List_Lexorder" "HOL-Library.Char_ord"
begin

text \<open>
  Cancelling and deleting experiments,
  \<^verbatim>\<open>src/src/features/experiments/experiment_lifecycle.py\<close>. What leaves the database (the
  Celery revocation, the release of a GPU, the lock, the removal of files) is a list of
  effects in order; each is attempted and its failure only logged. Columns that hold JSON
  lists are lists of values.
\<close>

section \<open>Status policies\<close>

definition CANCELABLE_STATUSES :: "string list" where
  "CANCELABLE_STATUSES = [''pending'', ''queued'', ''building'', ''ready'', ''running'', ''analyzing'']"

definition DELETABLE_STATUSES :: "string list" where
  "DELETABLE_STATUSES = [''ready'', ''completed'', ''failed'', ''cancelled'', ''timeout'']"

definition GPU_IMMEDIATE_RELEASE_STATUSES :: "string list" where
  "GPU_IMMEDIATE_RELEASE_STATUSES = [''pending'', ''queued'', ''building'', ''ready'']"

definition ACTIVE_RECOMMENDATION_STATUSES :: "string list" where
  "ACTIVE_RECOMMENDATION_STATUSES = [''pending'', ''approved'', ''queued'', ''running'']"

definition status_in :: "string list \<Rightarrow> db_row \<Rightarrow> bool" where
  "status_in sts r \<longleftrightarrow> list_ex (\<lambda>s. attr r ''status'' = PStr s) sts"

text \<open>\<open>~column.in_(...)\<close> of SQL: neither in the list nor NULL.\<close>

definition status_not_in :: "string list \<Rightarrow> db_row \<Rightarrow> bool" where
  "status_not_in sts r \<longleftrightarrow> attr r ''status'' \<noteq> PNone \<and> \<not> status_in sts r"

datatype outside_effect = Revoke pyval | FreeGpu pyval string | ClearLock string | Unlink string

datatype item_result = Succeeded "string list" | NotFound | WrongStatus pyval

section \<open>JSON columns\<close>

definition json_items :: "pyval \<Rightarrow> pyval list" where
  "json_items v = (case v of PList xs \<Rightarrow> xs | _ \<Rightarrow> [])"

definition remove_exp_id_from_json_list :: "pyval \<Rightarrow> string \<Rightarrow> pyval" where
  "remove_exp_id_from_json_list v e = PList (filter (\<lambda>x. x \<noteq> PStr e) (json_items v))"

definition EXP_ID_KEYS :: "string list" where
  "EXP_ID_KEYS = [''exp_id'', ''source_exp_id'', ''queued_exp_id'', ''matched_exp_id'']"

definition names_exp :: "string \<Rightarrow> pyval \<Rightarrow> bool" where
  "names_exp e x = (case x of PDict d \<Rightarrow> list_ex (\<lambda>k. pv_get d k = PStr e) EXP_ID_KEYS | _ \<Rightarrow> x = PStr e)"

text \<open>Anything that is no list becomes an empty list.\<close>

definition remove_exp_id_from_nested_json :: "pyval \<Rightarrow> string \<Rightarrow> pyval list" where
  "remove_exp_id_from_nested_json v e = filter (\<lambda>x. \<not> names_exp e x) (json_items v)"

fun pv_length :: "pyval \<Rightarrow> nat" where
  "pv_length (PList xs) = length xs"
| "pv_length (PDict d) = length d"
| "pv_length (PStr s) = length s"
| "pv_length _ = 0"

section \<open>Metrics and their arrays\<close>

definition metric_of :: "string \<Rightarrow> pyval \<Rightarrow> db_row \<Rightarrow> bool" where
  "metric_of e pk r \<longleftrightarrow> of_exp e r \<or> (pk \<noteq> PNone \<and> attr r ''experiment_id'' = pk)"

definition artifact_counts :: "db_row list \<Rightarrow> (pyval, nat) pydict" where
  "artifact_counts rows =
     foldl (\<lambda>d r. let a = attr r ''array_artifact_id'' in if pv_truthy a then dict_set a (dict_get d a 0 + 1) d else d) [] rows"

definition legacy_paths :: "db_row list \<Rightarrow> string list" where
  "legacy_paths rows =
     concat (map (\<lambda>r. if \<not> pv_truthy (attr r ''array_artifact_id'') then (case attr r ''array_file_path'' of PStr p \<Rightarrow> if p = [] then [] else [p] | _ \<Rightarrow> [])
                      else []) rows)"

definition ARTIFACTS :: string where
  "ARTIFACTS = ''MetricArrayArtifactModel''"

definition METRICS :: string where
  "METRICS = ''MetricModel''"

text \<open>\<open>ref_count or 1\<close>\<close>

definition refs_or_one :: "db_row \<Rightarrow> pyfloat" where
  "refs_or_one r = (case attr r ''ref_count'' of PNum x \<Rightarrow> if x = 0 then 1 else x | _ \<Rightarrow> 1)"

definition has_id :: "pyval \<Rightarrow> db_row \<Rightarrow> bool" where
  "has_id k r \<longleftrightarrow> attr r ''id'' = k"

text \<open>One artifact loses the references of the deleted metrics, and goes with the last one.\<close>

definition drop_references :: "'db repo \<Rightarrow> pyval \<times> nat \<Rightarrow> string list \<times> 'db \<Rightarrow> string list \<times> 'db" where
  "drop_references R p st =
     (let (k, n) = p; (files, db) = st
      in case List.find (has_id k) (table_rows R db ARTIFACTS) of
           None \<Rightarrow> (files, db)
         | Some a \<Rightarrow>
             let left = max 0 (refs_or_one a - of_nat n)
             in if left = 0
                then (case attr a ''storage_path'' of PStr q \<Rightarrow> if q = [] then files else files @ [q] | _ \<Rightarrow> files,
                      delete_where R ARTIFACTS (has_id k) db)
                else (files, update_where R ARTIFACTS (has_id k) (set_attr ''ref_count'' (PNum left)) db))"

definition delete_metrics_with_artifacts :: "'db repo \<Rightarrow> string \<Rightarrow> pyval \<Rightarrow> 'db \<Rightarrow> string list \<times> 'db" where
  "delete_metrics_with_artifacts R e pk db =
     (let rows = filter (metric_of e pk) (table_rows R db METRICS);
          (files, db1) = fold (drop_references R) (artifact_counts rows) ([], db)
      in (sort (remdups (files @ legacy_paths rows)), delete_where R METRICS (metric_of e pk) db1))"

definition delete_deferred_files :: "string list \<Rightarrow> outside_effect list" where
  "delete_deferred_files files = map Unlink (sort (remdups (filter (\<lambda>p. p \<noteq> []) files)))"

section \<open>The cascade\<close>

definition refers :: "string \<Rightarrow> string \<Rightarrow> db_row \<Rightarrow> bool" where
  "refers c e r \<longleftrightarrow> attr r c = PStr e"

definition set_null :: "string \<Rightarrow> db_row \<Rightarrow> db_row" where
  "set_null c r = set_attr c PNone r"

definition detach :: "'db repo \<Rightarrow> string \<Rightarrow> string \<Rightarrow> string \<Rightarrow> 'db \<Rightarrow> 'db" where
  "detach R t c e = update_where R t (refers c e) (set_null c)"

definition delete_direct_outputs :: "'db repo \<Rightarrow> string \<Rightarrow> 'db \<Rightarrow> 'db" where
  "delete_direct_outputs R e db =
     update_where R ''DesignSimulationRecord'' (refers ''exp_id'' e) (\<lambda>r. set_attr ''status'' (PStr ''cancelled'') (set_null ''exp_id'' r))
       (delete_where R ''CampaignExperimentModel'' (refers ''exp_id'' e)
         (delete_where R ''EIntraModel'' (refers ''source_exp_id'' e) db))"

text \<open>\<open>coalesce(notes, '') + " [linked experiment deleted]"\<close>\<close>

definition add_note :: "db_row \<Rightarrow> db_row" where
  "add_note r =
     set_attr ''notes'' (PStr ((case attr r ''notes'' of PStr s \<Rightarrow> s | _ \<Rightarrow> []) @ '' [linked experiment deleted]'')) r"

definition clean_list_column :: "'db repo \<Rightarrow> string \<Rightarrow> string \<Rightarrow> string \<Rightarrow> 'db \<Rightarrow> 'db" where
  "clean_list_column R t c e =
     update_where R t (\<lambda>r. PStr e \<in> set (json_items (attr r c))) (\<lambda>r. set_attr c (remove_exp_id_from_json_list (attr r c) e) r)"

definition clean_nested_column :: "'db repo \<Rightarrow> string \<Rightarrow> string \<Rightarrow> string \<Rightarrow> 'db \<Rightarrow> 'db" where
  "clean_nested_column R t c e =
     update_where R t (\<lambda>r. attr r c \<noteq> PNone \<and> length (remove_exp_id_from_nested_json (attr r c) e) \<noteq> pv_length (attr r c))
       (\<lambda>r. set_attr c (PList (remove_exp_id_from_nested_json (attr r c) e)) r)"

definition remove_exp_from_json_fields :: "'db repo \<Rightarrow> string \<Rightarrow> 'db \<Rightarrow> 'db" where
  "remove_exp_from_json_fields R e db =
     clean_nested_column R ''PendingRecommendationModel'' ''source_records_json'' e
       (clean_list_column R ''MLModelVersionModel'' ''holdout_exp_ids'' e
         (clean_list_column R ''ScenarioModel'' ''result_exp_ids'' e
           (clean_list_column R ''PropertyDesignSessionModel'' ''simulation_exp_ids_json'' e db)))"

definition detach_workflow_references :: "'db repo \<Rightarrow> string \<Rightarrow> 'db \<Rightarrow> 'db" where
  "detach_workflow_references R e db =
     (let db = detach R ''AmorphousCellModel'' ''stabilization_exp_id'' e db;
          db = detach R ''BinderAnalysisRunModel'' ''exp_id'' e db;
          db = detach R ''BinderAnalysisRunModel'' ''matched_exp_id'' e db;
          db = detach R ''AuditLogModel'' ''exp_id'' e db;
          db = detach R ''LLMTurnsTrainModel'' ''exp_id'' e db;
          db = update_where R ''PendingRecommendationModel''
                 (\<lambda>r. refers ''queued_exp_id'' e r \<and> status_in ACTIVE_RECOMMENDATION_STATUSES r)
                 (\<lambda>r. add_note (set_attr ''status'' (PStr ''cancelled'') (set_null ''queued_exp_id'' r))) db;
          db = update_where R ''PendingRecommendationModel''
                 (\<lambda>r. refers ''queued_exp_id'' e r \<and> status_not_in ACTIVE_RECOMMENDATION_STATUSES r) (set_null ''queued_exp_id'') db
      in remove_exp_from_json_fields R e db)"

text \<open>What happens outside of the database before the status changes.\<close>

definition leave_workers :: "db_row \<Rightarrow> string \<Rightarrow> outside_effect list" where
  "leave_workers r e =
     (if pv_truthy (attr r ''celery_task_id'') then [Revoke (attr r ''celery_task_id'')] else []) @
     (if status_in GPU_IMMEDIATE_RELEASE_STATUSES r \<and> attr r ''gpu_id_allocated'' \<noteq> PNone
      then [FreeGpu (attr r ''gpu_id_allocated'') e] else [])"

definition delete_rows :: "'db repo \<Rightarrow> string \<Rightarrow> 'db \<Rightarrow> 'db" where
  "delete_rows R e db =
     rp_delete R e
       (delete_where R ''LayeredExperimentSourceModel'' (refers ''exp_id'' e)
         (delete_where R ''ProcessInfoModel'' (refers ''exp_id'' e)
           (delete_where R ''JobDependencyModel'' (\<lambda>r. refers ''parent_exp_id'' e r \<or> refers ''child_exp_id'' e r) db)))"

definition delete_one :: "'db repo \<Rightarrow> string \<Rightarrow> 'db \<Rightarrow> item_result \<times> 'db \<times> outside_effect list" where
  "delete_one R e db =
     (case rp_get R e db of
        None \<Rightarrow> (NotFound, db, [])
      | Some r \<Rightarrow>
          if \<not> status_in DELETABLE_STATUSES r then (WrongStatus (attr r ''status''), db, [])
          else let (files, db1) = delete_metrics_with_artifacts R e (attr r ''id'') db
               in (Succeeded files, delete_rows R e (detach_workflow_references R e (delete_direct_outputs R e db1)),
                   leave_workers r e @ [ClearLock e]))"

definition cancel_one :: "'db repo \<Rightarrow> string \<Rightarrow> 'db \<Rightarrow> item_result \<times> 'db \<times> outside_effect list" where
  "cancel_one R e db =
     (case rp_get R e db of
        None \<Rightarrow> (NotFound, db, [])
      | Some r \<Rightarrow>
          if \<not> status_in CANCELABLE_STATUSES r then (WrongStatus (attr r ''status''), db, [])
          else (Succeeded [], rp_status R e ''cancelled'' PNone (PStr ''Cancelled by user'') db, leave_workers r e @ [ClearLock e]))"

section \<open>The operations of the service\<close>

datatype lifecycle_error = RecordNotFound string | CannotChange string pyval | CommitFailed

text \<open>\<open>ok\<close> says whether the transaction can be committed; a failure rolls it back.\<close>

definition delete_experiment :: "'db repo \<Rightarrow> bool \<Rightarrow> string \<Rightarrow> 'db \<Rightarrow> (lifecycle_error, unit) result \<times> 'db \<times> outside_effect list" where
  "delete_experiment R ok e db =
     (case delete_one R e db of
        (Succeeded files, db1, effects) \<Rightarrow>
          if ok then (Inr (), db1, effects @ delete_deferred_files files) else (Inl CommitFailed, db, effects)
      | (NotFound, _, effects) \<Rightarrow> (Inl (RecordNotFound e), db, effects)
      | (WrongStatus st, _, effects) \<Rightarrow> (Inl (CannotChange e st), db, effects))"

definition cancel_experiment :: "'db repo \<Rightarrow> bool \<Rightarrow> string \<Rightarrow> 'db \<Rightarrow> (lifecycle_error, unit) result \<times> 'db \<times> outside_effect list" where
  "cancel_experiment R ok e db =
     (case cancel_one R e db of
        (Succeeded _, db1, effects) \<Rightarrow> if ok then (Inr (), db1, effects) else (Inl CommitFailed, db, effects)
      | (NotFound, _, effects) \<Rightarrow> (Inl (RecordNotFound e), db, effects)
      | (WrongStatus st, _, effects) \<Rightarrow> (Inl (CannotChange e st), db, effects))"

record batch_report =
  bt_total :: nat
  bt_succeeded :: nat
  bt_skipped :: nat
  bt_failed :: nat
  bt_details :: "(string \<times> item_result option) list"

definition count_item :: "string \<Rightarrow> item_result option \<Rightarrow> batch_report \<Rightarrow> batch_report" where
  "count_item e res rep =
     (case res of
        Some (Succeeded _) \<Rightarrow> rep\<lparr>bt_succeeded := bt_succeeded rep + 1\<rparr>
      | Some _ \<Rightarrow> rep\<lparr>bt_skipped := bt_skipped rep + 1\<rparr>
      | None \<Rightarrow> rep\<lparr>bt_failed := bt_failed rep + 1\<rparr>)\<lparr>bt_details := bt_details rep @ [(e, res)]\<rparr>"

text \<open>
  One item of a batch: its own transaction. The deferred files of a deletion go after the
  commit; \<open>commits e\<close> is false where the commit for \<open>e\<close> raises.
\<close>

definition batch_item ::
    "(string \<Rightarrow> 'db \<Rightarrow> item_result \<times> 'db \<times> outside_effect list) \<Rightarrow> (string \<Rightarrow> bool) \<Rightarrow> string
      \<Rightarrow> batch_report \<times> 'db \<times> outside_effect list \<Rightarrow> batch_report \<times> 'db \<times> outside_effect list" where
  "batch_item step commits e st =
     (let (rep, db, effects) = st; (res, db1, new) = step e db
      in if \<not> commits e then (count_item e None rep, db, effects @ new)
         else (count_item e (Some res) rep, db1,
               effects @ new @ (case res of Succeeded files \<Rightarrow> delete_deferred_files files | _ \<Rightarrow> [])))"

definition empty_batch :: "string list \<Rightarrow> batch_report" where
  "empty_batch ids = \<lparr>bt_total = length ids, bt_succeeded = 0, bt_skipped = 0, bt_failed = 0, bt_details = []\<rparr>"

definition batch_delete_experiments ::
    "'db repo \<Rightarrow> (string \<Rightarrow> bool) \<Rightarrow> string list \<Rightarrow> 'db \<Rightarrow> batch_report \<times> 'db \<times> outside_effect list" where
  "batch_delete_experiments R commits ids db = fold (batch_item (delete_one R) commits) ids (empty_batch ids, db, [])"

definition batch_cancel_experiments ::
    "'db repo \<Rightarrow> (string \<Rightarrow> bool) \<Rightarrow> string list \<Rightarrow> 'db \<Rightarrow> batch_report \<times> 'db \<times> outside_effect list" where
  "batch_cancel_experiments R commits ids db = fold (batch_item (cancel_one R) commits) ids (empty_batch ids, db, [])"

end
