(* ===== verification/LifecycleProps.thy ===== *)
theory LifecycleProps
  imports ExperimentLifecycle
begin

text \<open>
  Properties of the life cycle of experiments: a deletion leaves no reference behind, touches
  nothing else and keeps the reference counts of the arrays exact; cancelling releases a GPU
  only where no worker holds it; a batch accounts for each of its items.
\<close>

section \<open>The rows after a deletion\<close>

lemma artifacts_only:
  assumes "repo_laws R" "t \<noteq> ARTIFACTS"
  shows "table_rows R (snd (fold (drop_references R) ps st)) t = table_rows R (snd st) t"
proof (induction ps arbitrary: st)
  case (Cons p ps)
  have "table_rows R (snd (drop_references R p st)) t = table_rows R (snd st) t"
    using assms by (cases st) (auto simp: drop_references_def Let_def db_rows split: option.splits prod.splits)
  then show ?case by (simp add: Cons.IH)
qed simp

definition metric_rows :: "'db repo \<Rightarrow> string \<Rightarrow> pyval \<Rightarrow> 'db \<Rightarrow> db_row list" where
  "metric_rows R e pk db = filter (metric_of e pk) (table_rows R db METRICS)"

lemma metrics_db:
  "snd (delete_metrics_with_artifacts R e pk db) =
     delete_where R METRICS (metric_of e pk) (snd (fold (drop_references R) (artifact_counts (metric_rows R e pk db)) ([], db)))"
  by (simp add: delete_metrics_with_artifacts_def metric_rows_def Let_def split: prod.splits)

lemma model_names [simp]: "METRICS \<noteq> ARTIFACTS" "ARTIFACTS \<noteq> METRICS" "EXPERIMENTS \<noteq> ARTIFACTS" "EXPERIMENTS \<noteq> METRICS"
  by (simp_all add: METRICS_def ARTIFACTS_def EXPERIMENTS_def)

lemma rows_metrics:
  assumes "repo_laws R" "t \<noteq> ARTIFACTS"
  shows "table_rows R (snd (delete_metrics_with_artifacts R e pk db)) t =
    (if t = METRICS then filter (\<lambda>r. \<not> metric_of e pk r) (table_rows R db t) else table_rows R db t)"
  by (simp add: metrics_db db_rows assms artifacts_only)

text \<open>What a deletion does to the rows of each table.\<close>

definition detached :: "string \<Rightarrow> string \<Rightarrow> db_row list \<Rightarrow> db_row list" where
  "detached c e rs = map (\<lambda>r. if refers c e r then set_null c r else r) rs"

definition kept :: "(db_row \<Rightarrow> bool) \<Rightarrow> db_row list \<Rightarrow> db_row list" where
  "kept P rs = filter (\<lambda>r. \<not> P r) rs"

definition cleaned :: "string \<Rightarrow> string \<Rightarrow> db_row list \<Rightarrow> db_row list" where
  "cleaned c e rs =
     map (\<lambda>r. if PStr e \<in> set (json_items (attr r c)) then set_attr c (remove_exp_id_from_json_list (attr r c) e) r else r) rs"

definition cleaned_nested :: "string \<Rightarrow> string \<Rightarrow> db_row list \<Rightarrow> db_row list" where
  "cleaned_nested c e rs =
     map (\<lambda>r. if attr r c \<noteq> PNone \<and> length (remove_exp_id_from_nested_json (attr r c) e) \<noteq> pv_length (attr r c)
              then set_attr c (PList (remove_exp_id_from_nested_json (attr r c) e)) r else r) rs"

definition recommendations_detached :: "string \<Rightarrow> db_row list \<Rightarrow> db_row list" where
  "recommendations_detached e rs =
     map (\<lambda>r. if refers ''queued_exp_id'' e r \<and> status_not_in ACTIVE_RECOMMENDATION_STATUSES r then set_null ''queued_exp_id'' r else r)
       (map (\<lambda>r. if refers ''queued_exp_id'' e r \<and> status_in ACTIVE_RECOMMENDATION_STATUSES r
                 then add_note (set_attr ''status'' (PStr ''cancelled'') (set_null ''queued_exp_id'' r)) else r) rs)"

definition design_detached :: "string \<Rightarrow> db_row list \<Rightarrow> db_row list" where
  "design_detached e rs =
     map (\<lambda>r. if refers ''exp_id'' e r then set_attr ''status'' (PStr ''cancelled'') (set_null ''exp_id'' r) else r) rs"

definition after_deletion :: "string \<Rightarrow> pyval \<Rightarrow> string \<Rightarrow> db_row list \<Rightarrow> db_row list" where
  "after_deletion e pk t rs =
     (if t = METRICS then kept (metric_of e pk) rs
      else if t = EXPERIMENTS then kept (of_exp e) rs
      else if t = ''EIntraModel'' then kept (refers ''source_exp_id'' e) rs
      else if t \<in> {''CampaignExperimentModel'', ''ProcessInfoModel'', ''LayeredExperimentSourceModel''} then kept (refers ''exp_id'' e) rs
      else if t = ''JobDependencyModel'' then kept (\<lambda>r. refers ''parent_exp_id'' e r \<or> refers ''child_exp_id'' e r) rs
      else if t = ''DesignSimulationRecord'' then design_detached e rs
      else if t = ''AmorphousCellModel'' then detached ''stabilization_exp_id'' e rs
      else if t = ''BinderAnalysisRunModel'' then detached ''matched_exp_id'' e (detached ''exp_id'' e rs)
      else if t \<in> {''AuditLogModel'', ''LLMTurnsTrainModel''} then detached ''exp_id'' e rs
      else if t = ''PendingRecommendationModel'' then cleaned_nested ''source_records_json'' e (recommendations_detached e rs)
      else if t = ''MLModelVersionModel'' then cleaned ''holdout_exp_ids'' e rs
      else if t = ''ScenarioModel'' then cleaned ''result_exp_ids'' e rs
      else if t = ''PropertyDesignSessionModel'' then cleaned ''simulation_exp_ids_json'' e rs
      else rs)"

lemma rows_direct:
  assumes "repo_laws R"
  shows "table_rows R (delete_direct_outputs R e db) t =
    (if t = ''DesignSimulationRecord'' then design_detached e (table_rows R db t)
     else if t = ''CampaignExperimentModel'' then kept (refers ''exp_id'' e) (table_rows R db t)
     else if t = ''EIntraModel'' then kept (refers ''source_exp_id'' e) (table_rows R db t) else table_rows R db t)"
  by (simp add: delete_direct_outputs_def db_rows assms design_detached_def kept_def)

lemma rows_json:
  assumes "repo_laws R"
  shows "table_rows R (remove_exp_from_json_fields R e db) t =
    (if t = ''PendingRecommendationModel'' then cleaned_nested ''source_records_json'' e (table_rows R db t)
     else if t = ''MLModelVersionModel'' then cleaned ''holdout_exp_ids'' e (table_rows R db t)
     else if t = ''ScenarioModel'' then cleaned ''result_exp_ids'' e (table_rows R db t)
     else if t = ''PropertyDesignSessionModel'' then cleaned ''simulation_exp_ids_json'' e (table_rows R db t) else table_rows R db t)"
  by (simp add: remove_exp_from_json_fields_def clean_list_column_def clean_nested_column_def db_rows assms cleaned_def cleaned_nested_def)

lemma rows_detach:
  "repo_laws R \<Longrightarrow> table_rows R (detach R u c e db) t = (if t = u then detached c e (table_rows R db t) else table_rows R db t)"
  by (simp add: detach_def db_rows detached_def)

lemma rows_recommendations:
  assumes "repo_laws R"
  shows "table_rows R (update_where R ''PendingRecommendationModel''
      (\<lambda>r. refers ''queued_exp_id'' e r \<and> status_not_in ACTIVE_RECOMMENDATION_STATUSES r) (set_null ''queued_exp_id'')
      (update_where R ''PendingRecommendationModel'' (\<lambda>r. refers ''queued_exp_id'' e r \<and> status_in ACTIVE_RECOMMENDATION_STATUSES r)
         (\<lambda>r. add_note (set_attr ''status'' (PStr ''cancelled'') (set_null ''queued_exp_id'' r))) db)) t =
    (if t = ''PendingRecommendationModel'' then recommendations_detached e (table_rows R db t) else table_rows R db t)"
  by (simp add: db_rows assms recommendations_detached_def)

lemma rows_workflow:
  assumes "repo_laws R"
  shows "table_rows R (detach_workflow_references R e db) t =
    (if t = ''AmorphousCellModel'' then detached ''stabilization_exp_id'' e (table_rows R db t)
     else if t = ''BinderAnalysisRunModel'' then detached ''matched_exp_id'' e (detached ''exp_id'' e (table_rows R db t))
     else if t \<in> {''AuditLogModel'', ''LLMTurnsTrainModel''} then detached ''exp_id'' e (table_rows R db t)
     else if t = ''PendingRecommendationModel'' then cleaned_nested ''source_records_json'' e (recommendations_detached e (table_rows R db t))
     else if t = ''MLModelVersionModel'' then cleaned ''holdout_exp_ids'' e (table_rows R db t)
     else if t = ''ScenarioModel'' then cleaned ''result_exp_ids'' e (table_rows R db t)
     else if t = ''PropertyDesignSessionModel'' then cleaned ''simulation_exp_ids_json'' e (table_rows R db t) else table_rows R db t)"
  unfolding detach_workflow_references_def Let_def rows_json [OF assms] rows_recommendations [OF assms] rows_detach [OF assms]
  by (simp split: if_split)

lemma rows_gone:
  assumes "repo_laws R"
  shows "table_rows R (delete_rows R e db) t =
    (if t = EXPERIMENTS then kept (of_exp e) (table_rows R db t)
     else if t \<in> {''ProcessInfoModel'', ''LayeredExperimentSourceModel''} then kept (refers ''exp_id'' e) (table_rows R db t)
     else if t = ''JobDependencyModel'' then kept (\<lambda>r. refers ''parent_exp_id'' e r \<or> refers ''child_exp_id'' e r) (table_rows R db t)
     else table_rows R db t)"
  by (simp add: delete_rows_def db_rows assms kept_def EXPERIMENTS_def)

text \<open>The names of the models are different.\<close>

definition MODELS :: "string list" where
  "MODELS = [''MetricModel'', ''ExperimentModel'', ''EIntraModel'', ''CampaignExperimentModel'', ''ProcessInfoModel'',
     ''LayeredExperimentSourceModel'', ''JobDependencyModel'', ''DesignSimulationRecord'', ''AmorphousCellModel'',
     ''BinderAnalysisRunModel'', ''AuditLogModel'', ''LLMTurnsTrainModel'', ''PendingRecommendationModel'', ''MLModelVersionModel'',
     ''ScenarioModel'', ''PropertyDesignSessionModel'']"

lemma after_deletion_simps:
  "after_deletion e pk METRICS rs = kept (metric_of e pk) rs"
  "after_deletion e pk EXPERIMENTS rs = kept (of_exp e) rs"
  "after_deletion e pk ''EIntraModel'' rs = kept (refers ''source_exp_id'' e) rs"
  "after_deletion e pk ''CampaignExperimentModel'' rs = kept (refers ''exp_id'' e) rs"
  "after_deletion e pk ''ProcessInfoModel'' rs = kept (refers ''exp_id'' e) rs"
  "after_deletion e pk ''LayeredExperimentSourceModel'' rs = kept (refers ''exp_id'' e) rs"
  "after_deletion e pk ''JobDependencyModel'' rs = kept (\<lambda>r. refers ''parent_exp_id'' e r \<or> refers ''child_exp_id'' e r) rs"
  "after_deletion e pk ''DesignSimulationRecord'' rs = design_detached e rs"
  "after_deletion e pk ''AmorphousCellModel'' rs = detached ''stabilization_exp_id'' e rs"
  "after_deletion e pk ''BinderAnalysisRunModel'' rs = detached ''matched_exp_id'' e (detached ''exp_id'' e rs)"
  "after_deletion e pk ''AuditLogModel'' rs = detached ''exp_id'' e rs"
  "after_deletion e pk ''LLMTurnsTrainModel'' rs = detached ''exp_id'' e rs"
  "after_deletion e pk ''PendingRecommendationModel'' rs = cleaned_nested ''source_records_json'' e (recommendations_detached e rs)"
  "after_deletion e pk ''MLModelVersionModel'' rs = cleaned ''holdout_exp_ids'' e rs"
  "after_deletion e pk ''ScenarioModel'' rs = cleaned ''result_exp_ids'' e rs"
  "after_deletion e pk ''PropertyDesignSessionModel'' rs = cleaned ''simulation_exp_ids_json'' e rs"
  by (simp_all add: after_deletion_def METRICS_def EXPERIMENTS_def)

lemma rows_cascade:
  assumes "repo_laws R" "t \<noteq> ARTIFACTS"
  shows "table_rows R (delete_rows R e (detach_workflow_references R e (delete_direct_outputs R e
      (snd (delete_metrics_with_artifacts R e pk db))))) t = after_deletion e pk t (table_rows R db t)"
proof (cases "t \<in> set MODELS")
  case True
  then show ?thesis
    unfolding rows_gone [OF assms(1)] rows_workflow [OF assms(1)] rows_direct [OF assms(1)] rows_metrics [OF assms]
    by (auto simp: MODELS_def after_deletion_def kept_def METRICS_def EXPERIMENTS_def)
next
  case False
  then show ?thesis
    unfolding rows_gone [OF assms(1)] rows_workflow [OF assms(1)] rows_direct [OF assms(1)] rows_metrics [OF assms]
    by (simp add: MODELS_def after_deletion_def METRICS_def EXPERIMENTS_def)
qed

section \<open>No reference is left\<close>

text \<open>The columns that name an experiment, and those that hold lists of names or of records.\<close>

definition REFERENCES :: "(string \<times> string) list" where
  "REFERENCES =
     [(METRICS, ''exp_id''), (EXPERIMENTS, ''exp_id''), (''EIntraModel'', ''source_exp_id''), (''CampaignExperimentModel'', ''exp_id''),
      (''ProcessInfoModel'', ''exp_id''), (''LayeredExperimentSourceModel'', ''exp_id''), (''JobDependencyModel'', ''parent_exp_id''),
      (''JobDependencyModel'', ''child_exp_id''), (''DesignSimulationRecord'', ''exp_id''),
      (''AmorphousCellModel'', ''stabilization_exp_id''), (''BinderAnalysisRunModel'', ''exp_id''),
      (''BinderAnalysisRunModel'', ''matched_exp_id''), (''AuditLogModel'', ''exp_id''), (''LLMTurnsTrainModel'', ''exp_id''),
      (''PendingRecommendationModel'', ''queued_exp_id'')]"

definition LISTS :: "(string \<times> string) list" where
  "LISTS = [(''MLModelVersionModel'', ''holdout_exp_ids''), (''ScenarioModel'', ''result_exp_ids''),
     (''PropertyDesignSessionModel'', ''simulation_exp_ids_json'')]"

definition no_reference :: "'db repo \<Rightarrow> string \<Rightarrow> 'db \<Rightarrow> bool" where
  "no_reference R e db \<longleftrightarrow>
     list_all (\<lambda>(t, c). list_all (\<lambda>r. attr r c \<noteq> PStr e) (table_rows R db t)) REFERENCES \<and>
     list_all (\<lambda>(t, c). list_all (\<lambda>r. PStr e \<notin> set (json_items (attr r c))) (table_rows R db t)) LISTS \<and>
     list_all (\<lambda>r. list_all (\<lambda>x. \<not> names_exp e x) (json_items (attr r ''source_records_json''))) (table_rows R db ''PendingRecommendationModel'')"

text \<open>What the schema promises of the recommendations: a status, and a list of records or nothing.\<close>

definition recommendations_ok :: "'db repo \<Rightarrow> 'db \<Rightarrow> bool" where
  "recommendations_ok R db \<longleftrightarrow>
     list_all (\<lambda>r. attr r ''status'' \<noteq> PNone \<and>
       (attr r ''source_records_json'' = PNone \<or> attr r ''source_records_json'' = PList (json_items (attr r ''source_records_json''))))
       (table_rows R db ''PendingRecommendationModel'')"

lemma attr_changes [simp]:
  "attr (set_null c r) j = (if j = c then PNone else attr r j)"
  "attr (add_note r) j = (if j = ''notes'' then PStr ((case attr r ''notes'' of PStr s \<Rightarrow> s | _ \<Rightarrow> []) @ '' [linked experiment deleted]'') else attr r j)"
  by (simp_all add: set_null_def add_note_def)

lemma kept_set [simp]: "set (kept P rs) = {r \<in> set rs. \<not> P r}"
  by (simp add: kept_def)

lemma detached_refers: "r \<in> set (detached c e rs) \<Longrightarrow> attr r c \<noteq> PStr e"
  by (auto simp: detached_def refers_def)

lemma detached_other: "r \<in> set (detached c e rs) \<Longrightarrow> \<exists>r'\<in>set rs. \<forall>j. j \<noteq> c \<longrightarrow> attr r j = attr r' j"
  by (auto simp: detached_def split: if_splits)

lemma cleaned_free: "r \<in> set (cleaned c e rs) \<Longrightarrow> PStr e \<notin> set (json_items (attr r c))"
  by (auto simp: cleaned_def remove_exp_id_from_json_list_def json_items_def split: if_splits)

lemma nested_free:
  assumes "attr r c = PNone \<or> attr r c = PList (json_items (attr r c))" "r' \<in> set (cleaned_nested c e [r])" "x \<in> set (json_items (attr r' c))"
  shows "\<not> names_exp e x"
proof (cases "length (remove_exp_id_from_nested_json (attr r c) e) = pv_length (attr r c)")
  case True
  then have r': "r' = r" using assms(2) by (simp add: cleaned_nested_def)
  then have l: "attr r c = PList (json_items (attr r c))" using assms(1,3) by (auto simp: json_items_def)
  then have "pv_length (attr r c) = length (json_items (attr r c))" by (metis pv_length.simps(1))
  then have "length (filter (\<lambda>x. \<not> names_exp e x) (json_items (attr r c))) = length (json_items (attr r c))"
    using True by (simp add: remove_exp_id_from_nested_json_def)
  then have "\<forall>x\<in>set (json_items (attr r c)). \<not> names_exp e x" by (metis length_filter_less less_irrefl)
  then show ?thesis using assms(3) r' by blast
next
  case False
  have "attr r c \<noteq> PNone" using False by (auto simp: remove_exp_id_from_nested_json_def json_items_def)
  then have "r' = set_attr c (PList (remove_exp_id_from_nested_json (attr r c) e)) r"
    using assms(2) False by (simp add: cleaned_nested_def)
  then show ?thesis using assms(3) by (auto simp: json_items_def remove_exp_id_from_nested_json_def)
qed

lemma cleaned_nested_in: "r' \<in> set (cleaned_nested c e rs) \<Longrightarrow> \<exists>r\<in>set rs. r' \<in> set (cleaned_nested c e [r])"
  by (auto simp: cleaned_nested_def)

lemma cleaned_nested_attr: "r' \<in> set (cleaned_nested c e [r]) \<Longrightarrow> j \<noteq> c \<Longrightarrow> attr r' j = attr r j"
  by (auto simp: cleaned_nested_def split: if_splits)

lemma recommendation_rows:
  assumes "r' \<in> set (recommendations_detached e rs)" "\<forall>r\<in>set rs. attr r ''status'' \<noteq> PNone"
  shows "attr r' ''queued_exp_id'' \<noteq> PStr e" "\<exists>r\<in>set rs. attr r' ''source_records_json'' = attr r ''source_records_json''"
  using assms by (auto simp: recommendations_detached_def refers_def status_not_in_def status_in_def split: if_splits)

lemma deletion_cleans:
  assumes "recommendations_ok R db" "\<And>t. t \<noteq> ARTIFACTS \<Longrightarrow> table_rows R db' t = after_deletion e pk t (table_rows R db t)"
  shows "no_reference R e db'"
proof -
  note names = METRICS_def EXPERIMENTS_def ARTIFACTS_def
  have art: "fst p \<noteq> ARTIFACTS" if "p \<in> set REFERENCES \<union> set LISTS" for p
    using that by (auto simp: REFERENCES_def LISTS_def names)
  let ?P = "''PendingRecommendationModel''"
  have st: "\<forall>r\<in>set (table_rows R db ?P). attr r ''status'' \<noteq> PNone" using assms(1) by (simp add: recommendations_ok_def list_all_iff)
  let ?A = "\<lambda>t. set (after_deletion e pk t (table_rows R db t))"
  have pending: "\<forall>r\<in>?A ?P. attr r ''queued_exp_id'' \<noteq> PStr e"
  proof
    fix r assume "r \<in> ?A ?P"
    then obtain r1 where r1: "r1 \<in> set (recommendations_detached e (table_rows R db ?P))"
        "r \<in> set (cleaned_nested ''source_records_json'' e [r1])"
      unfolding after_deletion_simps using cleaned_nested_in by blast
    then show "attr r ''queued_exp_id'' \<noteq> PStr e"
      using recommendation_rows(1) [OF r1(1) st] cleaned_nested_attr [OF r1(2), of "''queued_exp_id''"] by simp
  qed
  have runs: "\<forall>r\<in>?A ''BinderAnalysisRunModel''. attr r ''exp_id'' \<noteq> PStr e"
  proof
    fix r assume "r \<in> ?A ''BinderAnalysisRunModel''"
    then obtain r1 where "r1 \<in> set (detached ''exp_id'' e (table_rows R db ''BinderAnalysisRunModel''))"
        "\<forall>j. j \<noteq> ''matched_exp_id'' \<longrightarrow> attr r j = attr r1 j"
      unfolding after_deletion_simps using detached_other by blast
    then show "attr r ''exp_id'' \<noteq> PStr e" using detached_refers by fastforce
  qed
  have designs: "\<forall>r\<in>?A ''DesignSimulationRecord''. attr r ''exp_id'' \<noteq> PStr e"
    unfolding after_deletion_simps by (auto simp: design_detached_def refers_def)
  have refs: "list_all (\<lambda>(t, c). \<forall>r\<in>?A t. attr r c \<noteq> PStr e) REFERENCES"
    unfolding REFERENCES_def list.pred_inject prod.case
    using pending runs designs
    by (intro conjI TrueI; simp only: after_deletion_simps; auto simp: metric_of_def of_exp_def refers_def dest: detached_refers)
  have "attr r c \<noteq> PStr e" if t: "(t, c) \<in> set REFERENCES" "r \<in> ?A t" for t c r
    using refs t by (auto simp: list_all_iff)
  moreover have "PStr e \<notin> set (json_items (attr r c))" if "(t, c) \<in> set LISTS" "r \<in> set (after_deletion e pk t (table_rows R db t))" for t c r
    using that cleaned_free by (auto simp: LISTS_def after_deletion_def names)
  moreover have "\<not> names_exp e x"
    if r: "r \<in> set (after_deletion e pk ?P (table_rows R db ?P))" "x \<in> set (json_items (attr r ''source_records_json''))" for r x
  proof -
    have "r \<in> set (cleaned_nested ''source_records_json'' e (recommendations_detached e (table_rows R db ?P)))"
      using r(1) by (simp add: after_deletion_def names)
    then obtain r1 where r1: "r1 \<in> set (recommendations_detached e (table_rows R db ?P))" "r \<in> set (cleaned_nested ''source_records_json'' e [r1])"
      using cleaned_nested_in by blast
    then have "attr r1 ''source_records_json'' = PNone \<or>
        attr r1 ''source_records_json'' = PList (json_items (attr r1 ''source_records_json''))"
      using recommendation_rows(2) [OF r1(1) st] assms(1) by (auto simp: recommendations_ok_def list_all_iff)
    then show ?thesis using nested_free r1(2) r(2) by blast
  qed
  moreover have "table_rows R db' t = after_deletion e pk t (table_rows R db t)" if "(t, c) \<in> set REFERENCES \<union> set LISTS" for t c
    using art [OF that] by (intro assms(2)) simp
  moreover have "table_rows R db' ?P = after_deletion e pk ?P (table_rows R db ?P)"
    by (rule assms(2)) (simp add: ARTIFACTS_def)
  ultimately show ?thesis
    unfolding no_reference_def list_all_iff by fastforce
qed

section \<open>Reference counts\<close>

definition uses :: "db_row list \<Rightarrow> pyval \<Rightarrow> nat" where
  "uses ms k = length (filter (\<lambda>m. attr m ''array_artifact_id'' = k) ms)"

lemma uses_split: "uses (filter P ms) k + uses (filter (\<lambda>m. \<not> P m) ms) k = uses ms k"
  by (induction ms) (auto simp: uses_def)

lemma counts_snoc:
  "artifact_counts (rs @ [r]) =
     (let a = attr r ''array_artifact_id'' in if pv_truthy a then dict_set a (dict_get (artifact_counts rs) a 0 + 1) (artifact_counts rs)
      else artifact_counts rs)"
  by (simp add: artifact_counts_def Let_def)

lemma counts_distinct: "distinct (map fst (artifact_counts rs))"
  by (induction rs rule: rev_induct) (simp_all add: counts_snoc Let_def distinct_update, simp add: artifact_counts_def)

lemma counts_lookup: "map_of (artifact_counts rs) k = (if pv_truthy k \<and> uses rs k > 0 then Some (uses rs k) else None)"
proof (induction rs rule: rev_induct)
  case Nil
  show ?case by (simp add: artifact_counts_def uses_def)
next
  case (snoc r rs)
  then show ?case by (auto simp: counts_snoc Let_def update_conv' dict_get_def uses_def)
qed

text \<open>What becomes of one artifact.\<close>

definition drop_row :: "(pyval, nat) pydict \<Rightarrow> db_row \<Rightarrow> db_row list" where
  "drop_row ps a =
     (case map_of ps (attr a ''id'') of
        None \<Rightarrow> [a]
      | Some n \<Rightarrow> let left = max 0 (refs_or_one a - of_nat n) in if left = 0 then [] else [set_attr ''ref_count'' (PNum left) a])"

definition ids_of :: "db_row list \<Rightarrow> pyval list" where
  "ids_of as = map (\<lambda>a. attr a ''id'') as"

lemma drop_row_id: "a' \<in> set (drop_row ps a) \<Longrightarrow> attr a' ''id'' = attr a ''id''"
  by (auto simp: drop_row_def Let_def split: option.splits if_splits)

lemma drop_ids: "set (ids_of (concat (map (drop_row ps) as))) \<subseteq> set (ids_of as)"
  by (auto simp: ids_of_def dest!: drop_row_id)

lemma drop_single: "length (drop_row ps a) \<le> 1"
  by (auto simp: drop_row_def Let_def split: option.splits)

lemma drop_distinct: "distinct (ids_of as) \<Longrightarrow> distinct (ids_of (concat (map (drop_row ps) as)))"
proof (induction as)
  case (Cons a as)
  let ?rest = "ids_of (concat (map (drop_row ps) as))"
  have rest: "distinct ?rest" using Cons by (simp add: ids_of_def)
  have "attr a ''id'' \<notin> set (ids_of as)" using Cons.prems by (simp add: ids_of_def)
  then have new: "attr a ''id'' \<notin> set ?rest" using drop_ids [of ps as] by blast
  have "ids_of (drop_row ps a) = [] \<or> ids_of (drop_row ps a) = [attr a ''id'']"
    by (simp add: drop_row_def ids_of_def Let_def split: option.split)
  moreover have "ids_of (concat (map (drop_row ps) (a # as))) = ids_of (drop_row ps a) @ ?rest" by (simp add: ids_of_def)
  ultimately show ?case using rest new by auto
qed (simp add: ids_of_def)

lemma concat_map_concat: "concat (map f (concat (map g xs))) = concat (map (\<lambda>x. concat (map f (g x))) xs)"
  by (induction xs) simp_all

lemma concat_unit: "\<forall>x\<in>set xs. f x = [x] \<Longrightarrow> concat (map f xs) = xs"
  by (induction xs) simp_all

lemma has_id_filter:
  assumes "distinct (ids_of as)" "List.find (has_id k) as = Some a"
  shows "filter (\<lambda>r. \<not> has_id k r) as = concat (map (\<lambda>r. if r = a then [] else [r]) as)"
    "map (\<lambda>r. if has_id k r then f r else r) as = concat (map (\<lambda>r. if r = a then [f r] else [r]) as)"
proof -
  have a: "a \<in> set as" "has_id k a" using find_in_set [OF assms(2)] by simp_all
  have "has_id k r \<longleftrightarrow> r = a" if "r \<in> set as" for r
    using assms(1) a that unfolding ids_of_def has_id_def by (metis distinct_map inj_on_def)
  then show "filter (\<lambda>r. \<not> has_id k r) as = concat (map (\<lambda>r. if r = a then [] else [r]) as)"
    "map (\<lambda>r. if has_id k r then f r else r) as = concat (map (\<lambda>r. if r = a then [f r] else [r]) as)"
    by (induction as) auto
qed

lemma drop_step:
  assumes "repo_laws R" "distinct (ids_of (table_rows R db ARTIFACTS))"
  shows "table_rows R (snd (drop_references R (k, n) (files, db))) ARTIFACTS = concat (map (drop_row [(k, n)]) (table_rows R db ARTIFACTS))"
proof (cases "List.find (has_id k) (table_rows R db ARTIFACTS)")
  case None
  then have "\<forall>a\<in>set (table_rows R db ARTIFACTS). drop_row [(k, n)] a = [a]"
    by (auto simp: find_None_all drop_row_def has_id_def)
  from concat_unit [OF this] show ?thesis by (simp add: drop_references_def None)
next
  case (Some a)
  let ?as = "table_rows R db ARTIFACTS"
  have a: "a \<in> set ?as" "has_id k a" using find_in_set [OF Some] by simp_all
  have only: "has_id k r \<longleftrightarrow> r = a" if "r \<in> set ?as" for r
    using assms(2) a that unfolding ids_of_def has_id_def by (metis distinct_map inj_on_def)
  have d: "drop_row [(k, n)] r =
      (if r = a then (if max 0 (refs_or_one a - of_nat n) = 0 then [] else [set_attr ''ref_count'' (PNum (max 0 (refs_or_one a - of_nat n))) a])
       else [r])" if "r \<in> set ?as" for r
    using only [OF that] a(2) by (auto simp: drop_row_def has_id_def Let_def)
  have "map (drop_row [(k, n)]) ?as = map (\<lambda>r. if r = a
      then (if max 0 (refs_or_one a - of_nat n) = 0 then [] else [set_attr ''ref_count'' (PNum (max 0 (refs_or_one a - of_nat n))) a])
      else [r]) ?as"
    using d by simp
  then show ?thesis
    using has_id_filter [OF assms(2) Some] assms(1)
    by (auto simp: drop_references_def Some Let_def db_rows intro!: arg_cong [where f = concat])
qed

lemma drop_row_compose:
  assumes "k \<notin> fst ` set ps"
  shows "concat (map (drop_row ps) (drop_row [(k, n)] a)) = drop_row ((k, n) # ps) a"
proof (cases "attr a ''id'' = k")
  case True
  have "map_of ps k = None" using assms by (simp add: map_of_eq_None_iff)
  then show ?thesis using True by (auto simp: drop_row_def Let_def)
next
  case False
  then show ?thesis by (simp add: drop_row_def)
qed

lemma drop_all:
  assumes "repo_laws R" "distinct (map fst ps)" "distinct (ids_of (table_rows R db ARTIFACTS))"
  shows "table_rows R (snd (fold (drop_references R) ps (files, db))) ARTIFACTS = concat (map (drop_row ps) (table_rows R db ARTIFACTS))"
  using assms(2,3)
proof (induction ps arbitrary: files db)
  case Nil
  show ?case by (simp add: drop_row_def)
next
  case (Cons p ps)
  obtain k n where p: "p = (k, n)" by (cases p)
  obtain files1 db1 where s: "drop_references R (k, n) (files, db) = (files1, db1)" by (cases "drop_references R (k, n) (files, db)")
  have t: "table_rows R db1 ARTIFACTS = concat (map (drop_row [(k, n)]) (table_rows R db ARTIFACTS))"
    using drop_step [OF assms(1) Cons.prems(2), of k n files] by (simp add: s)
  have "table_rows R (snd (fold (drop_references R) ps (files1, db1))) ARTIFACTS = concat (map (drop_row ps) (table_rows R db1 ARTIFACTS))"
    using Cons.prems by (intro Cons.IH) (simp_all add: t drop_distinct)
  also have "\<dots> = concat (map (drop_row (p # ps)) (table_rows R db ARTIFACTS))"
    using drop_row_compose [of k ps n] Cons.prems(1) by (simp add: t p concat_map_concat)
  finally show ?case by (simp add: p s)
qed

definition refs_exact :: "'db repo \<Rightarrow> 'db \<Rightarrow> bool" where
  "refs_exact R db \<longleftrightarrow>
     distinct (ids_of (table_rows R db ARTIFACTS)) \<and>
     list_all (\<lambda>a. pv_truthy (attr a ''id'') \<and> uses (table_rows R db METRICS) (attr a ''id'') > 0 \<and>
       attr a ''ref_count'' = PNum (of_nat (uses (table_rows R db METRICS) (attr a ''id'')))) (table_rows R db ARTIFACTS)"

lemma rows_deleted:
  assumes "repo_laws R" "delete_one R e db = (Succeeded files, db', effects)" "rp_get R e db = Some x"
  shows "t \<noteq> ARTIFACTS \<Longrightarrow> table_rows R db' t = after_deletion e (attr x ''id'') t (table_rows R db t)"
    "distinct (ids_of (table_rows R db ARTIFACTS)) \<Longrightarrow>
       table_rows R db' ARTIFACTS = concat (map (drop_row (artifact_counts (metric_rows R e (attr x ''id'') db))) (table_rows R db ARTIFACTS))"
proof -
  let ?pk = "attr x ''id''"
  have db': "db' = delete_rows R e (detach_workflow_references R e (delete_direct_outputs R e (snd (delete_metrics_with_artifacts R e ?pk db))))"
    using assms(2,3) by (auto simp: delete_one_def split: if_splits prod.splits)
  show "t \<noteq> ARTIFACTS \<Longrightarrow> table_rows R db' t = after_deletion e ?pk t (table_rows R db t)"
    unfolding db' by (rule rows_cascade [OF assms(1)])
  assume d: "distinct (ids_of (table_rows R db ARTIFACTS))"
  have "table_rows R db' ARTIFACTS = table_rows R (snd (delete_metrics_with_artifacts R e ?pk db)) ARTIFACTS"
    unfolding db' rows_gone [OF assms(1)] rows_workflow [OF assms(1)] rows_direct [OF assms(1)]
    by (simp add: ARTIFACTS_def EXPERIMENTS_def)
  also have "\<dots> = table_rows R (snd (fold (drop_references R) (artifact_counts (metric_rows R e ?pk db)) ([], db))) ARTIFACTS"
    by (simp add: metrics_db rows_delete [OF assms(1)])
  also have "\<dots> = concat (map (drop_row (artifact_counts (metric_rows R e ?pk db))) (table_rows R db ARTIFACTS))"
    by (rule drop_all [OF assms(1) counts_distinct d])
  finally show "table_rows R db' ARTIFACTS = concat (map (drop_row (artifact_counts (metric_rows R e ?pk db))) (table_rows R db ARTIFACTS))" .
qed

lemma metrics_after:
  assumes "repo_laws R" "delete_one R e db = (Succeeded files, db', effects)" "rp_get R e db = Some x"
  shows "table_rows R db' METRICS = filter (\<lambda>m. \<not> metric_of e (attr x ''id'') m) (table_rows R db METRICS)"
  using rows_deleted(1) [OF assms, of METRICS] by (simp add: after_deletion_simps kept_def)

lemma drop_row_exact:
  assumes "pv_truthy (attr a ''id'')" "attr a ''ref_count'' = PNum (of_nat (uses ms (attr a ''id'')))" "uses ms (attr a ''id'') > 0"
  shows "drop_row (artifact_counts (filter P ms)) a =
    (if uses (filter (\<lambda>m. \<not> P m) ms) (attr a ''id'') = 0 then []
     else if uses (filter P ms) (attr a ''id'') = 0 then [a]
     else [set_attr ''ref_count'' (PNum (of_nat (uses (filter (\<lambda>m. \<not> P m) ms) (attr a ''id'')))) a])"
proof -
  let ?k = "attr a ''id''" and ?gone = "uses (filter P ms) (attr a ''id'')" and ?left = "uses (filter (\<lambda>m. \<not> P m) ms) (attr a ''id'')"
  have sum: "?gone + ?left = uses ms ?k" by (rule uses_split)
  have ref: "refs_or_one a = of_nat (uses ms ?k)" using assms(2,3) by (simp add: refs_or_one_def)
  have "(of_nat (uses ms ?k) :: pyfloat) - of_nat ?gone = of_nat ?left" by (simp flip: sum)
  then have left: "max 0 (refs_or_one a - of_nat ?gone) = of_nat ?left" unfolding ref by simp
  show ?thesis
  proof (cases "?gone = 0")
    case True
    then show ?thesis using sum assms(3) by (simp add: drop_row_def counts_lookup)
  next
    case False
    then show ?thesis using assms(1) by (simp add: drop_row_def counts_lookup Let_def left)
  qed
qed

lemma refs_kept:
  assumes "repo_laws R" "refs_exact R db" "delete_one R e db = (Succeeded files, db', effects)"
  shows "refs_exact R db'"
proof -
  obtain x where x: "rp_get R e db = Some x" using assms(3) by (cases "rp_get R e db") (simp_all add: delete_one_def)
  let ?pk = "attr x ''id''" and ?ms = "table_rows R db METRICS"
  have d: "distinct (ids_of (table_rows R db ARTIFACTS))" using assms(2) by (simp add: refs_exact_def)
  have arts: "table_rows R db' ARTIFACTS = concat (map (drop_row (artifact_counts (filter (metric_of e ?pk) ?ms))) (table_rows R db ARTIFACTS))"
    using rows_deleted(2) [OF assms(1,3) x d] by (simp add: metric_rows_def)
  have ms: "table_rows R db' METRICS = filter (\<lambda>m. \<not> metric_of e ?pk m) ?ms" by (rule metrics_after [OF assms(1,3) x])
  have each: "pv_truthy (attr b ''id'') \<and> uses (table_rows R db' METRICS) (attr b ''id'') > 0 \<and>
      attr b ''ref_count'' = PNum (of_nat (uses (table_rows R db' METRICS) (attr b ''id'')))"
    if a: "a \<in> set (table_rows R db ARTIFACTS)" and b: "b \<in> set (drop_row (artifact_counts (filter (metric_of e ?pk) ?ms)) a)" for a b
  proof -
    have ok: "pv_truthy (attr a ''id'')" "attr a ''ref_count'' = PNum (of_nat (uses ?ms (attr a ''id'')))" "uses ?ms (attr a ''id'') > 0"
      using assms(2) a by (simp_all add: refs_exact_def list_all_iff)
    have sum: "uses (filter (metric_of e ?pk) ?ms) (attr a ''id'') + uses (filter (\<lambda>m. \<not> metric_of e ?pk m) ?ms) (attr a ''id'') =
        uses ?ms (attr a ''id'')" by (rule uses_split)
    show ?thesis using b ok sum unfolding drop_row_exact [OF ok] ms by (auto split: if_splits)
  qed
  have "distinct (ids_of (table_rows R db' ARTIFACTS))" unfolding arts by (rule drop_distinct [OF d])
  then show ?thesis unfolding refs_exact_def using each by (auto simp: list_all_iff arts)
qed

text \<open>An artifact that is gone has no metric left.\<close>

lemma gone_unused:
  assumes "repo_laws R" "refs_exact R db" "delete_one R e db = (Succeeded files, db', effects)"
    "a \<in> set (table_rows R db ARTIFACTS)" "attr a ''id'' \<notin> set (ids_of (table_rows R db' ARTIFACTS))"
  shows "uses (table_rows R db' METRICS) (attr a ''id'') = 0"
proof -
  obtain x where x: "rp_get R e db = Some x" using assms(3) by (cases "rp_get R e db") (simp_all add: delete_one_def)
  let ?pk = "attr x ''id''" and ?ms = "table_rows R db METRICS"
  have d: "distinct (ids_of (table_rows R db ARTIFACTS))" using assms(2) by (simp add: refs_exact_def)
  have arts: "table_rows R db' ARTIFACTS = concat (map (drop_row (artifact_counts (filter (metric_of e ?pk) ?ms))) (table_rows R db ARTIFACTS))"
    using rows_deleted(2) [OF assms(1,3) x d] by (simp add: metric_rows_def)
  have ok: "pv_truthy (attr a ''id'')" "attr a ''ref_count'' = PNum (of_nat (uses ?ms (attr a ''id'')))" "uses ?ms (attr a ''id'') > 0"
    using assms(2,4) by (simp_all add: refs_exact_def list_all_iff)
  have "drop_row (artifact_counts (filter (metric_of e ?pk) ?ms)) a = []"
  proof (rule ccontr)
    assume "drop_row (artifact_counts (filter (metric_of e ?pk) ?ms)) a \<noteq> []"
    then obtain b where b: "b \<in> set (drop_row (artifact_counts (filter (metric_of e ?pk) ?ms)) a)"
      by (cases "drop_row (artifact_counts (filter (metric_of e ?pk) ?ms)) a") auto
    then have "b \<in> set (table_rows R db' ARTIFACTS)" using assms(4) arts by auto
    then have "attr b ''id'' \<in> set (ids_of (table_rows R db' ARTIFACTS))" by (simp add: ids_of_def)
    then show False using drop_row_id [OF b] assms(5) by simp
  qed
  then show ?thesis
    unfolding drop_row_exact [OF ok] metrics_after [OF assms(1,3) x] by (simp split: if_splits)
qed

text \<open>
  C10: When the reference count of every shared array is the number of metrics that use it, it
  still is after an experiment is deleted, and an array disappears only when no metric uses it
  any more.
\<close>

theorem array_references_stay_exact:
  assumes "repo_laws R" "refs_exact R db" "delete_one R e db = (Succeeded files, db', effects)"
  shows "refs_exact R db' \<and>
    list_all (\<lambda>a. attr a ''id'' \<in> set (ids_of (table_rows R db' ARTIFACTS)) \<or> uses (table_rows R db' METRICS) (attr a ''id'') = 0)
      (table_rows R db ARTIFACTS)"
proof (intro conjI)
  show "list_all (\<lambda>a. attr a ''id'' \<in> set (ids_of (table_rows R db' ARTIFACTS)) \<or> uses (table_rows R db' METRICS) (attr a ''id'') = 0)
      (table_rows R db ARTIFACTS)"
    unfolding list_all_iff
  proof
    fix a assume "a \<in> set (table_rows R db ARTIFACTS)"
    from gone_unused [OF assms this]
    show "attr a ''id'' \<in> set (ids_of (table_rows R db' ARTIFACTS)) \<or> uses (table_rows R db' METRICS) (attr a ''id'') = 0"
      by (cases "attr a ''id'' \<in> set (ids_of (table_rows R db' ARTIFACTS))") simp_all
  qed
qed (rule refs_kept [OF assms])

section \<open>What a deletion leaves alone\<close>

definition touched :: "string \<Rightarrow> pyval \<Rightarrow> string \<Rightarrow> db_row \<Rightarrow> bool" where
  "touched e pk t r \<longleftrightarrow>
     list_ex (\<lambda>(u, c). u = t \<and> attr r c = PStr e) REFERENCES \<or>
     list_ex (\<lambda>(u, c). u = t \<and> PStr e \<in> set (json_items (attr r c))) LISTS \<or> t = METRICS \<and> metric_of e pk r \<or>
     t = ''PendingRecommendationModel'' \<and> attr r ''source_records_json'' \<noteq> PNone \<and>
       length (remove_exp_id_from_nested_json (attr r ''source_records_json'') e) \<noteq> pv_length (attr r ''source_records_json'')"

lemma map_keeps: "r \<in> set rs \<Longrightarrow> \<not> P r \<Longrightarrow> r \<in> set (map (\<lambda>r. if P r then f r else r) rs)"
  by force

lemma kept_keeps: "r \<in> set rs \<Longrightarrow> \<not> P r \<Longrightarrow> r \<in> set (kept P rs)"
  by simp

lemma detached_keeps: "r \<in> set rs \<Longrightarrow> \<not> refers c e r \<Longrightarrow> r \<in> set (detached c e rs)"
  unfolding detached_def by (rule map_keeps)

lemma cleaned_keeps: "r \<in> set rs \<Longrightarrow> PStr e \<notin> set (json_items (attr r c)) \<Longrightarrow> r \<in> set (cleaned c e rs)"
  unfolding cleaned_def by (rule map_keeps)

lemma cleaned_nested_keeps:
  "r \<in> set rs \<Longrightarrow> \<not> (attr r c \<noteq> PNone \<and> length (remove_exp_id_from_nested_json (attr r c) e) \<noteq> pv_length (attr r c)) \<Longrightarrow>
     r \<in> set (cleaned_nested c e rs)"
  unfolding cleaned_nested_def by (rule map_keeps)

lemma untouched_cases:
  assumes "\<not> touched e pk t r"
  shows "t = METRICS \<Longrightarrow> \<not> metric_of e pk r" "(t, c) \<in> set REFERENCES \<Longrightarrow> attr r c \<noteq> PStr e"
    "(t, c) \<in> set LISTS \<Longrightarrow> PStr e \<notin> set (json_items (attr r c))"
    "t = ''PendingRecommendationModel'' \<Longrightarrow> \<not> (attr r ''source_records_json'' \<noteq> PNone \<and>
       length (remove_exp_id_from_nested_json (attr r ''source_records_json'') e) \<noteq> pv_length (attr r ''source_records_json''))"
  using assms unfolding touched_def list_ex_iff by blast+

lemma untouched_stays:
  assumes "r \<in> set rs" "\<not> touched e pk t r"
  shows "r \<in> set (after_deletion e pk t rs)"
proof -
  note u = untouched_cases [OF assms(2)]
  have ref: "\<not> refers c e r" if "(t, c) \<in> set REFERENCES" for c using u(2) [OF that] by (simp add: refers_def)
  have rec: "r \<in> set (recommendations_detached e rs)" if "\<not> refers ''queued_exp_id'' e r"
    unfolding recommendations_detached_def using assms(1) that by (intro map_keeps) simp_all
  have other: "r \<in> set (after_deletion e pk t rs)" if "t \<notin> set MODELS"
    using assms(1) that by (simp add: after_deletion_def MODELS_def METRICS_def EXPERIMENTS_def)
  have metrics: "r \<in> set (after_deletion e pk t rs)" if "t = METRICS"
    using assms(1) u(1) [OF that] by (simp add: that after_deletion_simps)
  have experiments: "r \<in> set (after_deletion e pk t rs)" if "t = EXPERIMENTS"
    using assms(1) ref [of "''exp_id''"] by (simp add: that after_deletion_simps REFERENCES_def of_exp_def refers_def)
  have deleted: "r \<in> set (after_deletion e pk t rs)"
    if "t \<in> {''EIntraModel'', ''CampaignExperimentModel'', ''ProcessInfoModel'', ''LayeredExperimentSourceModel'', ''JobDependencyModel''}"
    using that assms(1) ref [of "''exp_id''"] ref [of "''source_exp_id''"] ref [of "''parent_exp_id''"] ref [of "''child_exp_id''"]
    by (elim insertE emptyE) (simp_all add: after_deletion_simps REFERENCES_def)
  have nulled: "r \<in> set (after_deletion e pk t rs)"
    if "t \<in> {''AmorphousCellModel'', ''BinderAnalysisRunModel'', ''AuditLogModel'', ''LLMTurnsTrainModel''}"
    using that assms(1) ref [of "''exp_id''"] ref [of "''matched_exp_id''"] ref [of "''stabilization_exp_id''"]
    by (elim insertE emptyE) (simp_all add: after_deletion_simps detached_keeps REFERENCES_def)
  have design: "r \<in> set (after_deletion e pk t rs)" if "t = ''DesignSimulationRecord''"
    using assms(1) ref [of "''exp_id''"] unfolding that after_deletion_simps design_detached_def
    by (intro map_keeps) (simp_all add: REFERENCES_def that)
  have pending: "r \<in> set (after_deletion e pk t rs)" if "t = ''PendingRecommendationModel''"
  proof -
    have "\<not> refers ''queued_exp_id'' e r" by (rule ref) (simp add: that REFERENCES_def)
    from cleaned_nested_keeps [OF rec [OF this] u(4) [OF that]] show ?thesis unfolding that after_deletion_simps .
  qed
  have lists: "r \<in> set (after_deletion e pk t rs)" if "(t, c) \<in> set LISTS" for c
    using that assms(1) u(3) [OF that]
    by (auto simp: LISTS_def after_deletion_simps cleaned_keeps)
  show ?thesis
  proof (cases "t \<in> set MODELS")
    case True
    then have "t = METRICS \<or> t = EXPERIMENTS \<or>
        t \<in> {''EIntraModel'', ''CampaignExperimentModel'', ''ProcessInfoModel'', ''LayeredExperimentSourceModel'', ''JobDependencyModel''} \<or>
        t \<in> {''AmorphousCellModel'', ''BinderAnalysisRunModel'', ''AuditLogModel'', ''LLMTurnsTrainModel''} \<or>
        t = ''DesignSimulationRecord'' \<or> t = ''PendingRecommendationModel'' \<or> (\<exists>c. (t, c) \<in> set LISTS)"
      unfolding MODELS_def list.set by (elim insertE emptyE) (simp_all add: METRICS_def EXPERIMENTS_def LISTS_def)
    then show ?thesis
      by (elim disjE exE) (erule metrics experiments deleted nulled design pending lists)+
  qed (rule other)
qed


section \<open>Batches\<close>

text \<open>The reference run: the items one after the other, those that commit change the database.\<close>

fun batch_run ::
    "(string \<Rightarrow> 'db \<Rightarrow> item_result \<times> 'db \<times> outside_effect list) \<Rightarrow> (string \<Rightarrow> bool) \<Rightarrow> string list \<Rightarrow> 'db
      \<Rightarrow> 'db \<times> (string \<times> item_result option) list" where
  "batch_run step commits [] db = (db, [])"
| "batch_run step commits (e # es) db =
     (let (res, db1, _) = step e db; (db2, rest) = batch_run step commits es (if commits e then db1 else db)
      in (db2, (e, if commits e then Some res else None) # rest))"

definition is_unlink :: "outside_effect \<Rightarrow> bool" where
  "is_unlink x \<longleftrightarrow> (case x of Unlink _ \<Rightarrow> True | _ \<Rightarrow> False)"

definition unlinks_of :: "(string \<times> item_result option) \<Rightarrow> outside_effect list" where
  "unlinks_of d = (case snd d of Some (Succeeded files) \<Rightarrow> delete_deferred_files files | _ \<Rightarrow> [])"

definition no_unlinks :: "(string \<Rightarrow> 'db \<Rightarrow> item_result \<times> 'db \<times> outside_effect list) \<Rightarrow> bool" where
  "no_unlinks step \<longleftrightarrow> (\<forall>e db. filter is_unlink (snd (snd (step e db))) = [])"

definition tallies :: "batch_report \<Rightarrow> bool" where
  "tallies rep \<longleftrightarrow>
     bt_succeeded rep = length (filter (\<lambda>d. case snd d of Some (Succeeded _) \<Rightarrow> True | _ \<Rightarrow> False) (bt_details rep)) \<and>
     bt_failed rep = length (filter (\<lambda>d. snd d = None) (bt_details rep)) \<and>
     bt_succeeded rep + bt_skipped rep + bt_failed rep = length (bt_details rep)"

lemma tallies_item: "tallies rep \<Longrightarrow> tallies (count_item e res rep)"
  by (auto simp: tallies_def count_item_def split: option.splits item_result.splits)

lemma count_item_fields [simp]:
  "bt_details (count_item e res rep) = bt_details rep @ [(e, res)]" "bt_total (count_item e res rep) = bt_total rep"
  by (auto simp: count_item_def split: option.splits item_result.splits)

lemma unlink_filter [simp]: "filter is_unlink (delete_deferred_files fs) = delete_deferred_files fs"
  by (auto simp: delete_deferred_files_def is_unlink_def filter_map comp_def)

lemma batch_fold:
  assumes "no_unlinks step"
  shows "tallies rep \<Longrightarrow> fold (batch_item step commits) es (rep, db, fx) = (rep', db', fx') \<Longrightarrow>
    tallies rep' \<and> bt_total rep' = bt_total rep \<and> (db', bt_details rep') = map_prod id ((@) (bt_details rep)) (batch_run step commits es db) \<and>
    filter is_unlink fx' = filter is_unlink fx @ concat (map unlinks_of (snd (batch_run step commits es db)))"
proof (induction es arbitrary: rep db fx)
  case (Cons e es)
  obtain res db1 new where s: "step e db = (res, db1, new)" by (cases "step e db")
  have new: "filter is_unlink new = []" using assms s by (metis no_unlinks_def snd_conv)
  let ?db = "if commits e then db1 else db" and ?res = "if commits e then Some res else None"
  let ?fx = "fx @ new @ (if commits e then unlinks_of (e, Some res) else [])"
  have step: "batch_item step commits e (rep, db, fx) = (count_item e ?res rep, ?db, ?fx)"
    by (cases res) (simp_all add: batch_item_def s unlinks_of_def)
  obtain db2 rest where r: "batch_run step commits es ?db = (db2, rest)" by (cases "batch_run step commits es ?db")
  have "fold (batch_item step commits) es (count_item e ?res rep, ?db, ?fx) = (rep', db', fx')"
    using Cons.prems(2) by (simp add: step)
  from Cons.IH [OF tallies_item [OF Cons.prems(1)] this]
  have ih: "tallies rep' \<and> bt_total rep' = bt_total rep \<and> (db', bt_details rep') = map_prod id ((@) (bt_details rep @ [(e, ?res)])) (db2, rest) \<and>
      filter is_unlink fx' = filter is_unlink ?fx @ concat (map unlinks_of rest)"
    by (simp only: r count_item_fields snd_conv)
  have "filter is_unlink ?fx = filter is_unlink fx @ unlinks_of (e, ?res)"
    using new by (cases res) (simp_all add: unlinks_of_def)
  then show ?case using ih r by (simp add: s)
qed simp

lemma leave_no_unlink: "filter is_unlink (leave_workers r e) = []"
  by (simp add: leave_workers_def is_unlink_def)

lemma delete_no_unlinks: "no_unlinks (delete_one R)"
  by (auto simp: no_unlinks_def delete_one_def leave_no_unlink is_unlink_def split: option.split prod.split)

lemma cancel_no_unlinks: "no_unlinks (cancel_one R)"
  by (auto simp: no_unlinks_def cancel_one_def leave_no_unlink is_unlink_def split: option.split)

lemma run_items: "map fst (snd (batch_run step commits es db)) = es"
proof (induction es arbitrary: db)
  case (Cons e es)
  obtain res db1 new where "step e db = (res, db1, new)" by (cases "step e db")
  then show ?case using Cons.IH by (simp split: prod.split) (metis snd_conv)
qed simp

text \<open>
  C29: A batch deletion reports every id in order, its three counters are the numbers of the
  outcomes, the database is that of the single deletions that committed one after another, and
  a file is unlinked only for a deletion that committed.
\<close>

theorem batch_deletion_accounts:
  assumes "batch_delete_experiments R commits ids db = (rep, db', effects)"
  shows "tallies rep \<and> bt_total rep = length ids \<and> map fst (bt_details rep) = ids \<and>
    (db', bt_details rep) = batch_run (delete_one R) commits ids db \<and>
    filter is_unlink effects = concat (map unlinks_of (bt_details rep))"
proof -
  have "tallies (empty_batch ids)" by (simp add: tallies_def empty_batch_def)
  from batch_fold [OF delete_no_unlinks this, of R commits ids db "[]" rep db' effects]
  have f: "tallies rep" "bt_total rep = length ids" "(db', bt_details rep) = batch_run (delete_one R) commits ids db"
    "filter is_unlink effects = concat (map unlinks_of (snd (batch_run (delete_one R) commits ids db)))"
    using assms by (simp_all add: batch_delete_experiments_def empty_batch_def map_prod_def split: prod.splits)
  then show ?thesis using run_items [of "delete_one R" commits ids db] by (metis snd_conv)
qed

section \<open>Cancelling\<close>

text \<open>The effects of a cancellation on the experiment \<open>e\<close> with the row \<open>x\<close>.\<close>

definition effect_allowed :: "string \<Rightarrow> db_row \<Rightarrow> outside_effect \<Rightarrow> bool" where
  "effect_allowed e x fx =
     (case fx of
        Revoke t \<Rightarrow> t = attr x ''celery_task_id'' \<and> pv_truthy t
      | FreeGpu g f \<Rightarrow> f = e \<and> g = attr x ''gpu_id_allocated'' \<and> g \<noteq> PNone \<and>
          \<not> status_in [''running'', ''analyzing''] x \<and> status_in CANCELABLE_STATUSES x
      | ClearLock f \<Rightarrow> f = e
      | Unlink _ \<Rightarrow> False)"

lemma leave_allowed: "list_all (effect_allowed e x) (leave_workers x e)"
  by (auto simp: leave_workers_def effect_allowed_def status_in_def GPU_IMMEDIATE_RELEASE_STATUSES_def CANCELABLE_STATUSES_def)

theorem cancellation_effects:
  assumes "repo_laws R" "rp_get R e db = Some x" "cancel_experiment R ok e db = (r, db', effects)"
  shows "(r = Inr () \<longleftrightarrow> ok \<and> status_in CANCELABLE_STATUSES x) \<and>
    table_rows R db' t = (if r = Inr () \<and> t = EXPERIMENTS
      then map (\<lambda>r. if of_exp e r then status_attrs ''cancelled'' PNone (PStr ''Cancelled by user'') r else r) (table_rows R db t)
      else table_rows R db t) \<and>
    (if status_in CANCELABLE_STATUSES x then list_all (effect_allowed e x) effects \<and> ClearLock e \<in> set effects else effects = [])"
proof (cases "status_in CANCELABLE_STATUSES x")
  case True
  then have "effects = leave_workers x e @ [ClearLock e]" "r = (if ok then Inr () else Inl CommitFailed)"
    "db' = (if ok then rp_status R e ''cancelled'' PNone (PStr ''Cancelled by user'') db else db)"
    using assms(2,3) by (auto simp: cancel_experiment_def cancel_one_def split: if_splits)
  then show ?thesis
    using True leave_allowed [of e x] by (cases ok) (simp_all add: rows_repo [OF assms(1)] effect_allowed_def)
next
  case False
  then show ?thesis using assms(2,3) by (auto simp: cancel_experiment_def cancel_one_def)
qed

section \<open>Witnesses\<close>

definition demo_exp :: "string \<Rightarrow> string \<Rightarrow> pyfloat \<Rightarrow> db_row" where
  "demo_exp e st pk = [(''exp_id'', PStr e), (''id'', PNum pk), (''status'', PStr st), (''celery_task_id'', PStr ''t''), (''gpu_id_allocated'', PNum 0)]"

definition demo_metric :: "string \<Rightarrow> pyfloat \<Rightarrow> db_row" where
  "demo_metric e k = [(''exp_id'', PStr e), (''array_artifact_id'', PNum k)]"

definition demo_db :: mem_db where
  "demo_db =
     [(EXPERIMENTS, [demo_exp ''a'' ''completed'' 1, demo_exp ''b'' ''queued'' 2]), (METRICS, [demo_metric ''a'' 7, demo_metric ''b'' 7, demo_metric ''a'' 8]),
      (ARTIFACTS, [[(''id'', PNum 7), (''ref_count'', PNum 2), (''storage_path'', PStr ''p7'')],
                   [(''id'', PNum 8), (''ref_count'', PNum 1), (''storage_path'', PStr ''p8'')]]),
      (''ScenarioModel'', [[(''result_exp_ids'', PList [PStr ''a'', PStr ''b''])]])]"

lemma demo_deletes: "\<exists>db' effects. delete_one mem_repo ''a'' demo_db = (Succeeded [''p8''], db', effects)"
proof -
  have find: "rp_get mem_repo ''a'' demo_db = Some (demo_exp ''a'' ''completed'' 1)" by code_simp
  have status: "status_in DELETABLE_STATUSES (demo_exp ''a'' ''completed'' 1)" by code_simp
  have files: "fst (delete_metrics_with_artifacts mem_repo ''a'' (PNum 1) demo_db) = [''p8'']"
    by code_simp
  have pk: "attr (demo_exp ''a'' ''completed'' 1) ''id'' = PNum 1" by code_simp
  have "fst (delete_one mem_repo ''a'' demo_db) = Succeeded [''p8'']"
    by (simp add: delete_one_def find status pk files split: prod.split) (metis files fst_conv)
  then show ?thesis by (cases "delete_one mem_repo ''a'' demo_db") simp
qed


theorem array_references_stay_exact_witness:
  "\<exists>db' effects. delete_one mem_repo ''a'' demo_db = (Succeeded [''p8''], db', effects) \<and> refs_exact mem_repo db'"
proof -
  obtain db' effects where d: "delete_one mem_repo ''a'' demo_db = (Succeeded [''p8''], db', effects)" using demo_deletes by blast
  have "refs_exact mem_repo demo_db" by code_simp
  then show ?thesis using array_references_stay_exact [OF mem_repo_laws _ d] d by blast
qed

theorem batch_deletion_accounts_witness:
  "\<exists>rep db' effects. batch_delete_experiments mem_repo (\<lambda>_. True) [''a'', ''b'', ''c''] demo_db = (rep, db', effects) \<and> tallies rep"
proof -
  obtain rep db' effects where r: "batch_delete_experiments mem_repo (\<lambda>_. True) [''a'', ''b'', ''c''] demo_db = (rep, db', effects)"
    by (cases "batch_delete_experiments mem_repo (\<lambda>_. True) [''a'', ''b'', ''c''] demo_db")
  then show ?thesis using batch_deletion_accounts [OF r] by blast
qed

theorem cancellation_effects_witness:
  "fst (cancel_experiment mem_repo True ''b'' demo_db) = Inr ()"
proof -
  have "rp_get mem_repo ''b'' demo_db = Some (demo_exp ''b'' ''queued'' 2)" "status_in CANCELABLE_STATUSES (demo_exp ''b'' ''queued'' 2)"
    by code_simp+
  then show ?thesis
    using cancellation_effects [OF mem_repo_laws, of "''b''" demo_db "demo_exp ''b'' ''queued'' 2" True] by (metis prod.collapse)
qed

section \<open>What the cleaning gets wrong\<close>

text \<open>A value of the records column that is no list is replaced by an empty list, whatever experiment is deleted.\<close>

lemma other_records_are_wiped:
  "mem_rows (remove_exp_from_json_fields mem_repo ''zzz'' [(''PendingRecommendationModel'', [[(''source_records_json'', PDict [(''x'', PNum 1)])]])])
     ''PendingRecommendationModel'' = [[(''source_records_json'', PList [])]]"
  by code_simp

text \<open>A recommendation without a status keeps the id of the deleted experiment.\<close>

lemma null_status_keeps_reference:
  "mem_rows (detach_workflow_references mem_repo ''a'' [(''PendingRecommendationModel'', [[(''queued_exp_id'', PStr ''a''), (''status'', PNone)]])])
     ''PendingRecommendationModel'' = [[(''queued_exp_id'', PStr ''a''), (''status'', PNone)]]"
  by code_simp

end
