(* ===== verification/ExperimentIds.thy ===== *)
theory ExperimentIds
  imports PyText
begin

text \<open>
  Identifiers of experiments, \<^verbatim>\<open>src/src/common/pathing.py\<close> and
  \<^verbatim>\<open>src/src/orchestrator/exp_id_helper.py\<close>: fields joined by underscores with six digits of
  a hash at the end, and the parsers that take them apart again. MD5 is the argument
  \<open>md5hex\<close>; of its result only six characters are used.
\<close>

definition BINDER_ABBREV :: "(string, string) pydict" where
  "BINDER_ABBREV = [(''AAA1'', ''A1''), (''AAK1'', ''K1''), (''AAM1'', ''M1''), (''custom'', ''C'')]"

definition AGING_ABBREV :: "(string, string) pydict" where
  "AGING_ABBREV = [(''non_aging'', ''NA''), (''short_aging'', ''SA''), (''long_aging'', ''LA'')]"

definition swap_pairs :: "(string, string) pydict \<Rightarrow> (string, string) pydict" where
  "swap_pairs d = foldl (\<lambda>r (k, v). dict_set v k r) [] d"

definition BINDER_ABBREV_REVERSE :: "(string, string) pydict" where
  "BINDER_ABBREV_REVERSE = swap_pairs BINDER_ABBREV"

definition AGING_ABBREV_REVERSE :: "(string, string) pydict" where
  "AGING_ABBREV_REVERSE = swap_pairs AGING_ABBREV"

definition AMORPHOUS_BOUNDARY_MODES :: "string list" where
  "AMORPHOUS_BOUNDARY_MODES = [''ppp'', ''ppf'']"

definition parse_material_id :: "string \<Rightarrow> string \<times> string \<times> string" where
  "parse_material_id m =
     (let parts = split_on CHR ''_'' m
      in (if length parts > 0 then parts ! 0 else ''custom'', if length parts > 1 then parts ! 1 else ''X1'',
          if length parts > 2 then join_with CHR ''_'' (drop 2 parts) else ''non_aging''))"

record id_fields =
  if_binder :: string
  if_size :: string
  if_temperature :: pyfloat
  if_additive :: "string option"
  if_ff :: string
  if_aging :: string
  if_atoms :: nat
  if_seed :: int

text \<open>\<open>f"{additive}"\<close> of \<open>None\<close> is the text \<open>None\<close>.\<close>

definition hash_input :: "id_fields \<Rightarrow> string" where
  "hash_input f =
     join_with CHR ''_''
       [if_binder f, if_size f, (case if_additive f of None \<Rightarrow> ''None'' | Some a \<Rightarrow> a), show_float (if_temperature f),
        if_ff f, if_aging f, show_nat (if_atoms f), show_int (if_seed f)]"

definition temperature_text :: "pyfloat \<Rightarrow> string" where
  "temperature_text t = show_int (py_int t) @ ''K''"

definition generate_exp_id :: "(string \<Rightarrow> string) \<Rightarrow> id_fields \<Rightarrow> string" where
  "generate_exp_id md5hex f =
     join_with CHR ''_''
       [dict_get BINDER_ABBREV (if_binder f) (take 2 (if_binder f)), if_size f, dict_get AGING_ABBREV (if_aging f) ''NA'',
        or_default (if_additive f) ''none'', temperature_text (if_temperature f), take 6 (md5hex (hash_input f))]"

definition generate_exp_id_from_material ::
    "(string \<Rightarrow> string) \<Rightarrow> string \<Rightarrow> pyfloat \<Rightarrow> string \<Rightarrow> nat \<Rightarrow> int \<Rightarrow> string option \<Rightarrow> string" where
  "generate_exp_id_from_material md5hex material temperature ff atoms seed addition =
     (let (binder, size, aging) = parse_material_id material
      in generate_exp_id md5hex
           \<lparr>if_binder = binder, if_size = size, if_temperature = temperature, if_additive = addition, if_ff = ff,
            if_aging = aging, if_atoms = atoms, if_seed = seed\<rparr>)"

definition generate_amorphous_exp_id ::
    "(string \<Rightarrow> string) \<Rightarrow> string \<Rightarrow> string \<Rightarrow> pyfloat \<Rightarrow> pyfloat \<Rightarrow> int \<Rightarrow> string \<Rightarrow> string" where
  "generate_amorphous_exp_id md5hex mol boundary temperature density seed ff =
     join_with CHR ''_''
       [mol, boundary, temperature_text temperature, ''d'' @ show_fixed 2 density,
        take 6 (md5hex (join_with CHR ''_'' [mol, boundary, show_float temperature, show_float density, ff, show_int seed]))]"

record parsed_id =
  pi_binder :: "string option"
  pi_size :: "string option"
  pi_aging :: "string option"
  pi_additive :: "string option"
  pi_temperature :: "pyfloat option"
  pi_density :: "pyfloat option"
  pi_hash :: "string option"

definition unparsed :: parsed_id where
  "unparsed = \<lparr>pi_binder = None, pi_size = None, pi_aging = None, pi_additive = None, pi_temperature = None,
     pi_density = None, pi_hash = None\<rparr>"

definition parse_temperature :: "string \<Rightarrow> pyfloat option" where
  "parse_temperature p = (if p \<noteq> [] \<and> last p = CHR ''K'' then py_float_of (butlast p) else None)"

definition parse_density :: "string \<Rightarrow> pyfloat option" where
  "parse_density p = (case p of c # t \<Rightarrow> if c = CHR ''d'' then py_float_of t else None | [] \<Rightarrow> None)"

definition parse_exp_id :: "string \<Rightarrow> parsed_id" where
  "parse_exp_id e =
     (let parts = split_on CHR ''_'' e
      in if length parts \<ge> 5 \<and> parts ! 1 \<in> set AMORPHOUS_BOUNDARY_MODES
         then unparsed\<lparr>pi_binder := Some (parts ! 0), pi_size := Some (parts ! 1), pi_temperature := parse_temperature (parts ! 2),
                pi_density := parse_density (parts ! 3), pi_hash := Some (parts ! 4)\<rparr>
         else if length parts \<ge> 6
         then unparsed\<lparr>pi_binder := Some (parts ! 0), pi_size := Some (parts ! 1),
                pi_aging := Some (dict_get AGING_ABBREV_REVERSE (parts ! 2) (parts ! 2)),
                pi_additive := (if parts ! 3 = ''none'' then None else Some (parts ! 3)),
                pi_temperature := parse_temperature (parts ! 4), pi_hash := Some (parts ! 5)\<rparr>
         else unparsed)"

definition exp_id_to_material_id :: "string \<Rightarrow> string" where
  "exp_id_to_material_id e =
     (let p = parse_exp_id e; size = or_default (pi_size p) ''X1''
      in if size \<in> set AMORPHOUS_BOUNDARY_MODES then or_default (pi_binder p) ''unknown''
         else let abbrev = or_default (pi_binder p) ''A1''
              in join_with CHR ''_'' [dict_get BINDER_ABBREV_REVERSE abbrev abbrev, size, or_default (pi_aging p) ''non_aging''])"

section \<open>Round trips\<close>

definition no_bar :: "string \<Rightarrow> bool" where
  "no_bar s \<longleftrightarrow> CHR ''_'' \<notin> set s"

lemma split_bars: "list_all no_bar ps \<Longrightarrow> ps \<noteq> [] \<Longrightarrow> split_on CHR ''_'' (join_with CHR ''_'' ps) = ps"
  by (induction "CHR ''_''" ps rule: join_with.induct) (simp_all add: no_bar_def split_on_single split_on_cons)

lemma no_bar_num: "(\<And>c. c \<in> set s \<Longrightarrow> num_char c) \<Longrightarrow> no_bar s"
  unfolding no_bar_def using num_char_not_letter [of "CHR ''_''"] by auto

lemma show_int_num: "c \<in> set (show_int n) \<Longrightarrow> num_char c"
  using show_nat_digits(1) [of "nat n"] show_nat_digits(1) [of "nat (- n)"]
  by (auto simp: show_int_def num_char_def list_all_iff split: if_splits)

lemma no_bar_temperature: "no_bar (temperature_text t)"
  using no_bar_num [OF show_int_num] by (auto simp: temperature_text_def no_bar_def)

lemma parse_temperature_text: "parse_temperature (temperature_text t) = Some (of_int (py_int t))"
  by (simp add: parse_temperature_def temperature_text_def float_of_show_int)

lemma show_fixed_num: "c \<in> set (show_fixed k x) \<Longrightarrow> num_char c"
  by (auto simp: show_fixed_def num_char_def split: if_splits dest: show_scaled_chars)

lemma abbreviations:
  assumes "dict_has BINDER_ABBREV b" "dict_has AGING_ABBREV a"
  shows "no_bar (dict_get BINDER_ABBREV b d)" "dict_get BINDER_ABBREV b d \<noteq> []"
    "dict_get BINDER_ABBREV_REVERSE (dict_get BINDER_ABBREV b d) c = b"
    "no_bar (dict_get AGING_ABBREV a d)" "dict_get AGING_ABBREV_REVERSE (dict_get AGING_ABBREV a d) c = a" "a \<noteq> []"
  using assms
  by (auto simp: BINDER_ABBREV_def AGING_ABBREV_def BINDER_ABBREV_REVERSE_def AGING_ABBREV_REVERSE_def swap_pairs_def dict_has_def
      dict_get_def no_bar_def split: if_splits)

definition clean_additive :: "string option \<Rightarrow> bool" where
  "clean_additive a = (case a of None \<Rightarrow> True | Some s \<Rightarrow> s \<noteq> [] \<and> s \<noteq> ''none'' \<and> no_bar s)"

lemma material_of_parsed:
  assumes "parse_exp_id e = \<lparr>pi_binder = Some b, pi_size = Some sz, pi_aging = Some aging, pi_additive = addition,
      pi_temperature = t, pi_density = d, pi_hash = h\<rparr>"
    "b \<noteq> []" "dict_get BINDER_ABBREV_REVERSE b b = binder" "sz \<noteq> []" "sz \<notin> set AMORPHOUS_BOUNDARY_MODES" "aging \<noteq> []"
  shows "exp_id_to_material_id e = join_with CHR ''_'' [binder, sz, aging]"
proof -
  have "or_default (Some b) x = b" "or_default (Some sz) x = sz" "or_default (Some aging) x = aging" for x
    using assms(2,4,6) by (simp_all add: or_default_def)
  then show ?thesis unfolding exp_id_to_material_id_def assms(1) Let_def by (simp add: assms(3,5))
qed

text \<open>
  C27: For the known binders and aging states, a size and an additive without underscores,
  parsing a generated identifier gives back binder, size, aging, additive and whole
  temperature, and its material is the one it was generated from.
\<close>

theorem experiment_id_round_trip:
  assumes "dict_has BINDER_ABBREV binder" "dict_has AGING_ABBREV aging" "no_bar sz" "sz \<noteq> []"
    "sz \<notin> set AMORPHOUS_BOUNDARY_MODES" "clean_additive addition" "\<And>s. no_bar (md5hex s)"
  shows "\<exists>e h. e = generate_exp_id_from_material md5hex (join_with CHR ''_'' [binder, sz, aging]) t ff atoms seed addition \<and>
    parse_exp_id e = \<lparr>pi_binder = Some (dict_get BINDER_ABBREV binder []), pi_size = Some sz, pi_aging = Some aging,
       pi_additive = addition, pi_temperature = Some (of_int (py_int t)), pi_density = None, pi_hash = Some h\<rparr> \<and>
    exp_id_to_material_id e = join_with CHR ''_'' [binder, sz, aging]"
proof -
  let ?m = "join_with CHR ''_'' [binder, sz, aging]"
  have bb: "no_bar binder" using assms(1) by (auto simp: BINDER_ABBREV_def dict_has_def no_bar_def split: if_splits)
  have m: "parse_material_id ?m = (binder, sz, aging)"
  proof -
    have "split_on CHR ''_'' ?m = binder # sz # split_on CHR ''_'' aging"
      using bb assms(3) by (simp add: no_bar_def split_on_cons)
    then show ?thesis by (simp add: parse_material_id_def join_split)
  qed
  let ?f = "\<lparr>if_binder = binder, if_size = sz, if_temperature = t, if_additive = addition, if_ff = ff, if_aging = aging,
     if_atoms = atoms, if_seed = seed\<rparr>"
  let ?h = "take 6 (md5hex (hash_input ?f))"
  let ?a = "or_default addition ''none''"
  let ?ps = "[dict_get BINDER_ABBREV binder (take 2 binder), sz, dict_get AGING_ABBREV aging ''NA'', ?a, temperature_text t, ?h]"
  note ab = abbreviations [OF assms(1,2)]
  have a: "no_bar ?a"
    using assms(6) by (auto simp: clean_additive_def or_default_def no_bar_def split: option.splits)
  have h: "no_bar ?h" using assms(7) [of "hash_input ?f"] by (auto simp: no_bar_def dest: in_set_takeD)
  have "list_all no_bar ?ps" using ab a h assms(3) no_bar_temperature by simp
  from split_bars [OF this] have sp: "split_on CHR ''_'' (join_with CHR ''_'' ?ps) = ?ps" by simp
  have e: "generate_exp_id_from_material md5hex ?m t ff atoms seed addition = join_with CHR ''_'' ?ps"
    unfolding generate_exp_id_from_material_def m Let_def prod.case generate_exp_id_def by simp
  have known: "dict_get BINDER_ABBREV binder (take 2 binder) = dict_get BINDER_ABBREV binder []"
    using assms(1) by (auto simp: dict_get_def dict_has_def split: option.splits)
  have p: "parse_exp_id (join_with CHR ''_'' ?ps) = \<lparr>pi_binder = Some (dict_get BINDER_ABBREV binder []), pi_size = Some sz,
      pi_aging = Some aging, pi_additive = addition, pi_temperature = Some (of_int (py_int t)), pi_density = None, pi_hash = Some ?h\<rparr>"
    unfolding parse_exp_id_def sp Let_def
    using assms(5,6) ab(3,5) known
    by (cases addition) (simp_all add: unparsed_def parse_temperature_text clean_additive_def or_default_def)
  have "exp_id_to_material_id (join_with CHR ''_'' ?ps) = ?m"
    by (rule material_of_parsed [OF p ab(2) ab(3) assms(4,5) ab(6)])
  then show ?thesis unfolding e using p by (intro exI conjI) (rule refl)
qed

theorem experiment_id_round_trip_witness:
  "exp_id_to_material_id (generate_exp_id_from_material (\<lambda>_. ''a1b2c3d4'') ''AAK1_X3_short_aging'' 298 ''bulk_ff_gaff2'' 100000 7 (Some ''SBS'')) =
     ''AAK1_X3_short_aging''"
  using experiment_id_round_trip [of "''AAK1''" "''short_aging''" "''X3''" "Some ''SBS''" "\<lambda>_. ''a1b2c3d4''" 298 "''bulk_ff_gaff2''" 100000 7]
  by (auto simp: BINDER_ABBREV_def AGING_ABBREV_def dict_has_def no_bar_def AMORPHOUS_BOUNDARY_MODES_def clean_additive_def)

text \<open>An underscore in the name of an additive moves every field behind it.\<close>

lemma additive_underscore_shifts:
  "parse_exp_id (generate_exp_id_from_material (\<lambda>_. ''a1b2c3d4'') ''AAA1_X1_non_aging'' 298 ''bulk_ff_gaff2'' 1000 7 (Some ''Lignin_G'')) =
     \<lparr>pi_binder = Some ''A1'', pi_size = Some ''X1'', pi_aging = Some ''non_aging'', pi_additive = Some ''Lignin'',
      pi_temperature = None, pi_density = None, pi_hash = Some ''298K''\<rparr>"
  by code_simp

text \<open>So does one in the name of the molecule of an amorphous cell: the identifier is taken for one of a binder.\<close>

lemma amorphous_underscore_lost:
  "pi_temperature (parse_exp_id (generate_amorphous_exp_id (\<lambda>_. ''a1b2c3d4'') ''H2O'' ''ppp'' 298 1 7 ''bulk_ff_gaff2'')) = Some 298"
  "pi_temperature (parse_exp_id (generate_amorphous_exp_id (\<lambda>_. ''a1b2c3d4'') ''acetic_acid'' ''ppp'' 298 1 7 ''bulk_ff_gaff2'')) = None"
  by code_simp+

end
