(* ===== verification/SubmissionFacade.thy ===== *)
theory SubmissionFacade
  imports ExperimentLifecycle ExperimentIds PyJson Errors
begin

text \<open>
  Submitting one experiment, \<^verbatim>\<open>src/src/orchestrator/submission_facade.py\<close>: first the row, then
  its molecules, then the job, then the task id of the job on the row, each database step a
  transaction of its own. The job manager is a parameter; whether a transaction can be committed is
  the argument \<open>commits\<close>. The force-field provenance and the columns that only copy an argument
  come with the request; the time of day is the argument \<open>now\<close>.
\<close>

section \<open>Parts of the request\<close>

datatype override_item = ModelItem "(string \<times> pyval) list" | DictItem "(string \<times> pyval) list" | OtherItem

definition serialize_stage_overrides :: "override_item list option \<Rightarrow> pyval list option" where
  "serialize_stage_overrides ovr =
     (case ovr of
        None \<Rightarrow> None
      | Some items \<Rightarrow>
          let ds = concat (map (\<lambda>i. case i of ModelItem d \<Rightarrow> [PDict d] | DictItem d \<Rightarrow> [PDict d] | OtherItem \<Rightarrow> []) items)
          in if ds = [] then None else Some ds)"

definition classify_submit_error :: "string \<Rightarrow> error_code" where
  "classify_submit_error m =
     (if str_contains ''E8701'' m \<or> str_contains ''Duplicate execution blocked'' m then DUPLICATE_EXECUTION_BLOCKED
      else ORCHESTRATION_ERROR)"

text \<open>A composition that is no dictionary is \<open>None\<close>.\<close>

record build_part =
  bp_mode :: "string option"
  bp_composition :: "(string \<times> pyval) list option"

definition molecule_count_of :: "string \<times> pyval \<Rightarrow> (string \<times> int) option" where
  "molecule_count_of p =
     (let m = str_strip (fst p)
      in if m = [] then None
         else case json_float (snd p) of
             Inl _ \<Rightarrow> None
           | Inr x \<Rightarrow> if py_round x \<le> 0 then None else Some (m, py_round x))"

definition extract_molecule_counts :: "build_part option \<Rightarrow> (string, int) pydict option" where
  "extract_molecule_counts build =
     (case build of
        None \<Rightarrow> None
      | Some b \<Rightarrow>
          if or_default (bp_mode b) ''wt_percent'' \<noteq> ''mol_count'' then None
          else case bp_composition b of
              None \<Rightarrow> None
            | Some items \<Rightarrow>
                let counts = foldl (\<lambda>d p. case molecule_count_of p of None \<Rightarrow> d | Some (m, n) \<Rightarrow> dict_set m n d) [] items
                in if counts = [] then None else Some counts)"

definition extract_additive_source_ids :: "string option \<Rightarrow> string option \<Rightarrow> string list" where
  "extract_additive_source_ids mol kind =
     (let c = str_strip (or_default mol []) in
      if c \<noteq> [] then [c] else let c = str_strip (or_default kind []) in if c \<noteq> [] then [c] else [])"

definition setdefault :: "string \<Rightarrow> pyval \<Rightarrow> (string \<times> pyval) list \<Rightarrow> (string \<times> pyval) list" where
  "setdefault k v d = (if dict_has d k then d else dict_set k v d)"

definition source_of :: "(pyval \<Rightarrow> string) \<Rightarrow> (string \<times> pyval) list \<Rightarrow> pyval" where
  "source_of shw meta =
     (let v = pv_get meta ''source'' in PStr (if pv_truthy v then (case v of PStr s \<Rightarrow> s | _ \<Rightarrow> shw v) else ''unknown''))"

definition build_submission_metadata ::
    "(pyval \<Rightarrow> string) \<Rightarrow> string \<Rightarrow> (string \<times> pyval) list \<Rightarrow> string \<Rightarrow> (py_error, (string \<times> pyval) list) result" where
  "build_submission_metadata shw now base status =
     bind_result (json_dict (pv_get base ''submission_context'')) (\<lambda>ctx.
       let ctx = setdefault ''submit_flow'' (PStr ''submission_facade'') ctx;
           ctx = setdefault ''submit_source'' (source_of shw base) ctx;
           ctx = dict_set ''submit_status'' (PStr status) ctx;
           ctx = (if status = ''queued'' then setdefault ''queued_at'' (PStr now) ctx else ctx)
       in Inr (dict_set ''submission_context'' (PDict ctx) base))"

record tensile_part =
  te_enabled :: bool
  te_velocity :: "pyfloat option"
  te_rate :: "pyfloat option"

definition extract_tensile_context :: "tensile_part option \<Rightarrow> pyfloat option \<times> pyfloat option" where
  "extract_tensile_context ten =
     (case ten of
        None \<Rightarrow> (None, None)
      | Some t \<Rightarrow> if te_enabled t then (te_velocity t, te_rate t) else (None, None))"

record facade_request =
  fr_exp_id :: string
  fr_material :: string
  fr_columns :: "(string \<times> pyval) list"
  fr_study :: "string option"
  fr_build :: "build_part option"
  fr_overrides :: "override_item list option"
  fr_tensile :: "tensile_part option"
  fr_metadata :: "(string \<times> pyval) list"
  fr_provenance :: pyval
  fr_conditions :: pyval

definition num_or_none :: "pyfloat option \<Rightarrow> pyval" where
  "num_or_none x = (case x of None \<Rightarrow> PNone | Some v \<Rightarrow> PNum v)"

text \<open>The columns of the new row that the facade computes itself.\<close>

definition stub_columns :: "(string \<times> pyval) list \<Rightarrow> facade_request \<Rightarrow> (string \<times> pyval) list" where
  "stub_columns meta rq =
     (let (binder, size, aging) = parse_material_id (fr_material rq);
          (velocity, rate) = extract_tensile_context (fr_tensile rq)
      in [(''study_type'', PStr (case fr_study rq of None \<Rightarrow> ''bulk'' | Some s \<Rightarrow> s)), (''material_id'', PStr (fr_material rq)),
          (''binder_type'', PStr binder), (''structure_size'', PStr size), (''aging_state'', PStr aging),
          (''tensile_strain_rate_1_per_ps'', num_or_none rate), (''tensile_pull_velocity_a_per_fs'', num_or_none velocity),
          (''stage_duration_overrides'',
            case serialize_stage_overrides (fr_overrides rq) of None \<Rightarrow> PNone | Some ds \<Rightarrow> PList ds),
          (''metadata_json'', PDict meta), (''conditions'', fr_conditions rq),
          (''status'', PStr ''queued''), (''exp_id'', PStr (fr_exp_id rq))])"

definition stub_row :: "(pyval \<Rightarrow> string) \<Rightarrow> string \<Rightarrow> facade_request \<Rightarrow> (py_error, db_row) result" where
  "stub_row shw now rq =
     bind_result (build_submission_metadata shw now (dict_set ''ff_provenance'' (fr_provenance rq) (fr_metadata rq)) ''queued'')
       (\<lambda>meta. Inr (foldl (\<lambda>r (k, v). set_attr k v r) (fr_columns rq) (stub_columns meta rq)))"

section \<open>The steps\<close>

datatype facade_step = CreateStub | AttachMolecules | AttachTask | MarkFailed

datatype facade_error =
    DuplicateExperiment string pyval
  | MetadataRaises py_error
  | HookRaises string
  | SessionFailed facade_step
  | SubmitRefused string
  | NoTaskId string
  | RowVanished string

record 'j job_manager =
  jm_submit :: "facade_request \<Rightarrow> 'j \<Rightarrow> (string, string) result \<times> 'j"
  jm_task :: "string \<Rightarrow> 'j \<Rightarrow> string option"
  jm_cancel :: "string \<Rightarrow> 'j \<Rightarrow> 'j"

text \<open>\<open>run_in_session_commit\<close>: an exception or a failing commit rolls everything back.\<close>

definition in_transaction ::
    "(facade_step \<Rightarrow> bool) \<Rightarrow> facade_step \<Rightarrow> ('db \<Rightarrow> (facade_error, 'db) result) \<Rightarrow> 'db \<Rightarrow> (facade_error, unit) result \<times> 'db" where
  "in_transaction commits step op db =
     (case op db of
        Inl e \<Rightarrow> (Inl e, db)
      | Inr db1 \<Rightarrow> if commits step then (Inr (), db1) else (Inl (SessionFailed step), db))"

definition create_stub ::
    "'db repo \<Rightarrow> (pyval \<Rightarrow> string) \<Rightarrow> string \<Rightarrow> (string \<Rightarrow> 'db \<Rightarrow> (string, 'db) result) \<Rightarrow> facade_request \<Rightarrow> 'db
      \<Rightarrow> (facade_error, 'db) result" where
  "create_stub R shw now hook rq db =
     (case rp_get R (fr_exp_id rq) db of
        Some r \<Rightarrow> Inl (DuplicateExperiment (fr_exp_id rq) (attr r ''status''))
      | None \<Rightarrow>
          bind_result (map_error MetadataRaises (stub_row shw now rq)) (\<lambda>row.
            map_error HookRaises (hook (fr_exp_id rq) (rp_create R row db))))"

definition failed_metadata :: "(pyval \<Rightarrow> string) \<Rightarrow> string \<Rightarrow> string \<Rightarrow> db_row \<Rightarrow> (py_error, (string \<times> pyval) list) result" where
  "failed_metadata shw now msg r =
     bind_result (json_dict (attr r ''metadata_json'')) (\<lambda>base.
       bind_result (json_dict (pv_get base ''submission_context'')) (\<lambda>ctx.
         let base1 = dict_set ''submission_context''
               (PDict (dict_set ''submit_status'' (PStr ''failed'')
                 (dict_set ''submit_source'' (source_of shw base) (dict_set ''submit_flow'' (PStr ''submission_facade'') ctx)))) base
         in Inr (dict_set ''submit_error''
               (PDict [(''reason_code'', PStr (error_value (classify_submit_error msg))), (''message'', PStr msg),
                       (''failed_at'', PStr now)]) base1)))"

text \<open>Failing to mark a row is only logged.\<close>

definition mark_submit_failed ::
    "'db repo \<Rightarrow> (pyval \<Rightarrow> string) \<Rightarrow> string \<Rightarrow> bool \<Rightarrow> string \<Rightarrow> string \<Rightarrow> 'db \<Rightarrow> 'db" where
  "mark_submit_failed R shw now ok e msg db =
     (case rp_get R e db of
        None \<Rightarrow> db
      | Some r \<Rightarrow>
          (case failed_metadata shw now msg r of
             Inl _ \<Rightarrow> db
           | Inr meta \<Rightarrow>
               if ok then rp_status R e ''failed'' (PStr (error_value (classify_submit_error msg))) (PStr msg)
                      (update_where R EXPERIMENTS (of_exp e) (set_attr ''metadata_json'' (PDict meta)) db)
               else db))"

definition attach_task :: "'db repo \<Rightarrow> string \<Rightarrow> string \<Rightarrow> 'db \<Rightarrow> (facade_error, 'db) result" where
  "attach_task R e task db =
     (case rp_get R e db of None \<Rightarrow> Inl (RowVanished e) | Some _ \<Rightarrow> Inr (rp_task R e task db))"

text \<open>
  What one run needs: the repository, the job manager, how molecules are attached to an
  experiment, the hook behind the row (both write to other tables), the printing of values
  that are no texts, the time, and which transactions commit.
\<close>

record ('db, 'j) facade_env =
  fe_repo :: "'db repo"
  fe_jobs :: "'j job_manager"
  fe_attach :: "string \<Rightarrow> (string, int) pydict \<Rightarrow> 'db \<Rightarrow> 'db"
  fe_hook :: "string \<Rightarrow> 'db \<Rightarrow> (string, 'db) result"
  fe_show :: "pyval \<Rightarrow> string"
  fe_now :: string
  fe_commits :: "string \<Rightarrow> facade_step \<Rightarrow> bool"

definition attach_molecules :: "('db, 'j) facade_env \<Rightarrow> facade_request \<Rightarrow> 'db \<Rightarrow> (facade_error, unit) result \<times> 'db" where
  "attach_molecules E rq db =
     (case extract_molecule_counts (fr_build rq) of
        None \<Rightarrow> (Inr (), db)
      | Some counts \<Rightarrow>
          in_transaction (fe_commits E (fr_exp_id rq)) AttachMolecules (\<lambda>db. Inr (fe_attach E (fr_exp_id rq) counts db)) db)"

definition missing_task_text :: "string \<Rightarrow> string" where
  "missing_task_text job = ''Missing Celery task id for job '' @ job"

definition publish_job ::
    "('db, 'j) facade_env \<Rightarrow> facade_request \<Rightarrow> 'db \<times> 'j \<Rightarrow> (facade_error, string \<times> string) result \<times> 'db \<times> 'j" where
  "publish_job E rq w =
     (let (db, j) = w; e = fr_exp_id rq;
          mark = mark_submit_failed (fe_repo E) (fe_show E) (fe_now E) (fe_commits E e MarkFailed) e
      in case jm_submit (fe_jobs E) rq j of
           (Inl msg, j1) \<Rightarrow> (Inl (SubmitRefused msg), mark msg db, j1)
         | (Inr job, j1) \<Rightarrow>
             (case some_if_truthy (jm_task (fe_jobs E) job j1) of
                None \<Rightarrow> (Inl (NoTaskId job), mark (missing_task_text job) db, jm_cancel (fe_jobs E) job j1)
              | Some task \<Rightarrow>
                  (case in_transaction (fe_commits E e) AttachTask (attach_task (fe_repo E) e task) db of
                     (Inl x, db1) \<Rightarrow> (Inl x, db1, j1)
                   | (Inr _, db1) \<Rightarrow> (Inr (job, task), db1, j1))))"

definition submit_experiment ::
    "('db, 'j) facade_env \<Rightarrow> facade_request \<Rightarrow> 'db \<times> 'j \<Rightarrow> (facade_error, string \<times> string) result \<times> 'db \<times> 'j" where
  "submit_experiment E rq w =
     (let (db, j) = w
      in case in_transaction (fe_commits E (fr_exp_id rq)) CreateStub
             (create_stub (fe_repo E) (fe_show E) (fe_now E) (fe_hook E) rq) db of
           (Inl x, db1) \<Rightarrow> (Inl x, db1, j)
         | (Inr _, db1) \<Rightarrow>
             (case attach_molecules E rq db1 of
                (Inl x, db2) \<Rightarrow> (Inl x, db2, j)
              | (Inr _, db2) \<Rightarrow> publish_job E rq (db2, j)))"

end
