(* ===== verification/SubmissionProps.thy ===== *)
theory SubmissionProps
  imports SubmissionFacade
begin

text \<open>
  What a submission leaves in the table of experiments on each of its ways out.
\<close>

text \<open>The hook and the molecules are written to other tables.\<close>

definition env_laws :: "('db, 'j) facade_env \<Rightarrow> bool" where
  "env_laws E \<longleftrightarrow>
     repo_laws (fe_repo E) \<and>
     (\<forall>e db db1. fe_hook E e db = Inr db1 \<longrightarrow> table_rows (fe_repo E) db1 EXPERIMENTS = table_rows (fe_repo E) db EXPERIMENTS) \<and>
     (\<forall>e counts db. table_rows (fe_repo E) (fe_attach E e counts db) EXPERIMENTS = table_rows (fe_repo E) db EXPERIMENTS)"

definition exp_rows :: "('db, 'j) facade_env \<Rightarrow> 'db \<Rightarrow> db_row list" where
  "exp_rows E db = table_rows (fe_repo E) db EXPERIMENTS"

lemma json_dict_PDict [simp]: "json_dict (PDict d) = Inr d"
  by (simp add: json_dict_def)

lemma attr_foldl:
  "attr (foldl (\<lambda>r (k, v). set_attr k v r) cols kvs) k =
     (case map_of (rev kvs) k of Some v \<Rightarrow> v | None \<Rightarrow> attr cols k)"
  by (induction kvs rule: rev_induct) auto

definition well_stubbed :: "string \<Rightarrow> db_row \<Rightarrow> bool" where
  "well_stubbed e row \<longleftrightarrow> of_exp e row \<and> attr row ''status'' = PStr ''queued'' \<and>
     (\<exists>meta ctx. attr row ''metadata_json'' = PDict meta \<and> pv_get meta ''submission_context'' = PDict ctx)"

lemma stub_attrs:
  assumes "stub_row shw now rq = Inr row"
  shows "well_stubbed (fr_exp_id rq) row"
proof -
  obtain meta where meta: "build_submission_metadata shw now (dict_set ''ff_provenance'' (fr_provenance rq) (fr_metadata rq)) ''queued'' = Inr meta"
    and row: "row = foldl (\<lambda>r (k, v). set_attr k v r) (fr_columns rq) (stub_columns meta rq)"
    using assms by (auto simp: stub_row_def bind_result_def split: sum.splits)
  have ctx: "\<exists>ctx. pv_get meta ''submission_context'' = PDict ctx"
    using meta by (auto simp: build_submission_metadata_def bind_result_def Let_def pv_get_def update_conv' split: sum.splits)
  have "map_of (rev (stub_columns meta rq)) ''exp_id'' = Some (PStr (fr_exp_id rq))"
    "map_of (rev (stub_columns meta rq)) ''status'' = Some (PStr ''queued'')"
    "map_of (rev (stub_columns meta rq)) ''metadata_json'' = Some (PDict meta)"
    by (cases "parse_material_id (fr_material rq)"; cases "extract_tensile_context (fr_tensile rq)"; simp add: stub_columns_def)+
  then show ?thesis using ctx by (auto simp: well_stubbed_def row attr_foldl of_exp_def)
qed

lemma failed_metadata_ok:
  assumes "well_stubbed e row"
  shows "\<exists>m. failed_metadata shw now msg row = Inr m"
  using assms by (auto simp: well_stubbed_def failed_metadata_def bind_result_def Let_def)

lemma find_append_new: "\<forall>r\<in>set rs. \<not> P r \<Longrightarrow> P x \<Longrightarrow> List.find P (rs @ [x]) = Some x"
  by (induction rs) simp_all

lemma map_only_new: "\<forall>r\<in>set rs. \<not> P r \<Longrightarrow> P x \<Longrightarrow> map (\<lambda>r. if P r then f r else r) (rs @ [x]) = rs @ [f x]"
  by (simp add: map_idI)

lemma map_status_new:
  "\<forall>r\<in>set rs. \<not> of_exp e r \<Longrightarrow> of_exp e x \<Longrightarrow>
     map (\<lambda>r. if of_exp e r then status_attrs st c m r else r) (rs @ [x]) = rs @ [status_attrs st c m x]"
  by (rule map_only_new)

section \<open>The steps\<close>

lemma create_rows:
  assumes "env_laws E" "create_stub (fe_repo E) (fe_show E) (fe_now E) (fe_hook E) rq db = Inr db1"
  shows "\<exists>row. exp_rows E db1 = exp_rows E db @ [row] \<and> well_stubbed (fr_exp_id rq) row \<and>
    (\<forall>r\<in>set (exp_rows E db). \<not> of_exp (fr_exp_id rq) r)"
proof -
  have R: "repo_laws (fe_repo E)" using assms(1) by (simp add: env_laws_def)
  have none: "rp_get (fe_repo E) (fr_exp_id rq) db = None" using assms(2) by (simp add: create_stub_def split: option.splits)
  obtain row where row: "stub_row (fe_show E) (fe_now E) rq = Inr row"
    "fe_hook E (fr_exp_id rq) (rp_create (fe_repo E) row db) = Inr db1"
    using assms(2) by (auto simp: create_stub_def none bind_result_def map_error_def split: sum.splits)
  have "exp_rows E db1 = exp_rows E db @ [row]"
    using assms(1) row(2) by (simp add: env_laws_def exp_rows_def db_rows)
  moreover have "\<forall>r\<in>set (exp_rows E db). \<not> of_exp (fr_exp_id rq) r"
    using none by (simp add: repo_get [OF R] find_None_all exp_rows_def)
  ultimately show ?thesis using stub_attrs [OF row(1)] by blast
qed

definition failed_row :: "string \<Rightarrow> db_row \<Rightarrow> bool" where
  "failed_row msg row \<longleftrightarrow> attr row ''status'' = PStr ''failed'' \<and> attr row ''error_message'' = PStr msg \<and>
     attr row ''error_code'' = PStr (error_value (classify_submit_error msg))"

lemma mark_rows:
  assumes "env_laws E" "exp_rows E db = rs @ [row]" "well_stubbed e row" "\<forall>r\<in>set rs. \<not> of_exp e r"
  shows "\<exists>row'. exp_rows E (mark_submit_failed (fe_repo E) shw now ok e msg db) = rs @ [row'] \<and> of_exp e row' \<and>
    (if ok then failed_row msg row' else row' = row)"
proof -
  have R: "repo_laws (fe_repo E)" using assms(1) by (simp add: env_laws_def)
  have e: "of_exp e row" using assms(3) by (simp add: well_stubbed_def)
  have g: "rp_get (fe_repo E) e db = Some row"
    using assms(2) find_append_new [OF assms(4) e] by (simp add: repo_get [OF R] exp_rows_def)
  obtain m where m: "failed_metadata shw now msg row = Inr m" using failed_metadata_ok [OF assms(3)] by blast
  let ?row = "set_attr ''metadata_json'' (PDict m) row"
  let ?new = "status_attrs ''failed'' (PStr (error_value (classify_submit_error msg))) (PStr msg) ?row"
  have e1: "of_exp e ?row" "of_exp e ?new" using e by (simp_all add: of_exp_def status_attrs_def)
  show ?thesis
  proof (cases ok)
    case True
    let ?db1 = "update_where (fe_repo E) EXPERIMENTS (of_exp e) (set_attr ''metadata_json'' (PDict m)) db"
    let ?code = "PStr (error_value (classify_submit_error msg))"
    have r1: "exp_rows E ?db1 = rs @ [?row]"
      using assms(2) map_only_new [OF assms(4) e, of "set_attr ''metadata_json'' (PDict m)"] by (simp add: exp_rows_def rows_update [OF R])
    have "exp_rows E (rp_status (fe_repo E) e ''failed'' ?code (PStr msg) ?db1) =
        map (\<lambda>r. if of_exp e r then status_attrs ''failed'' ?code (PStr msg) r else r) (exp_rows E ?db1)"
      by (simp add: exp_rows_def rows_repo [OF R])
    also have "\<dots> = rs @ [?new]"
      unfolding r1 by (rule map_status_new [OF assms(4) e1(1)])
    finally have "exp_rows E (rp_status (fe_repo E) e ''failed'' ?code (PStr msg) ?db1) = rs @ [?new]" .
    moreover have "mark_submit_failed (fe_repo E) shw now ok e msg db = rp_status (fe_repo E) e ''failed'' ?code (PStr msg) ?db1"
      by (simp add: mark_submit_failed_def g m True)
    ultimately have "exp_rows E (mark_submit_failed (fe_repo E) shw now ok e msg db) = rs @ [?new]" by (simp only:)
    moreover have "failed_row msg ?new" by (simp add: failed_row_def status_attrs_def)
    ultimately show ?thesis using e1 True by auto
  next
    case False
    then show ?thesis using assms(2) e by (simp add: mark_submit_failed_def g m)
  qed
qed

lemma attach_rows:
  assumes "env_laws E"
  shows "exp_rows E (snd (attach_molecules E rq db)) = exp_rows E db"
  using assms by (auto simp: attach_molecules_def in_transaction_def env_laws_def exp_rows_def split: option.splits)

lemma task_rows:
  assumes "env_laws E" "exp_rows E db = rs @ [row]" "of_exp e row" "\<forall>r\<in>set rs. \<not> of_exp e r"
  shows "\<exists>db1. attach_task (fe_repo E) e task db = Inr db1 \<and> exp_rows E db1 = rs @ [set_attr ''celery_task_id'' (PStr task) row]"
proof -
  have R: "repo_laws (fe_repo E)" using assms(1) by (simp add: env_laws_def)
  have "rp_get (fe_repo E) e db = Some row"
    using assms(2) find_append_new [OF assms(4,3)] by (simp add: repo_get [OF R] exp_rows_def)
  moreover have "exp_rows E (rp_task (fe_repo E) e task db) = rs @ [set_attr ''celery_task_id'' (PStr task) row]"
    using assms(2) R map_only_new [OF assms(4,3), of "set_attr ''celery_task_id'' (PStr task)"] by (simp add: exp_rows_def db_rows)
  ultimately show ?thesis by (simp add: attach_task_def)
qed


section \<open>The ways out\<close>

text \<open>The errors that leave no row behind.\<close>

definition before_row :: "facade_error \<Rightarrow> bool" where
  "before_row x \<longleftrightarrow>
     (case x of DuplicateExperiment _ _ \<Rightarrow> True | MetadataRaises _ \<Rightarrow> True | HookRaises _ \<Rightarrow> True | SessionFailed s \<Rightarrow> s = CreateStub | _ \<Rightarrow> False)"

definition way_out ::
    "(facade_step \<Rightarrow> bool) \<Rightarrow> string \<Rightarrow> (facade_error, string \<times> string) result \<Rightarrow> db_row list \<Rightarrow> db_row list \<Rightarrow> bool" where
  "way_out commits e r old new \<longleftrightarrow>
     (case r of
        Inr (job, task) \<Rightarrow> \<exists>row. new = old @ [row] \<and> of_exp e row \<and> attr row ''status'' = PStr ''queued'' \<and>
            attr row ''celery_task_id'' = PStr task
      | Inl x \<Rightarrow>
          if before_row x then new = old
          else \<exists>row. new = old @ [row] \<and> of_exp e row \<and>
            (case x of
               SubmitRefused msg \<Rightarrow> if commits MarkFailed then failed_row msg row else attr row ''status'' = PStr ''queued''
             | NoTaskId job \<Rightarrow> if commits MarkFailed then failed_row (missing_task_text job) row else attr row ''status'' = PStr ''queued''
             | SessionFailed s \<Rightarrow> \<not> commits s \<and> attr row ''status'' = PStr ''queued''
             | _ \<Rightarrow> False))"

lemma transaction_fails:
  "in_transaction commits s op db = (Inl x, db1) \<Longrightarrow> db1 = db \<and> (op db = Inl x \<or> x = SessionFailed s \<and> \<not> commits s)"
  by (auto simp: in_transaction_def split: sum.splits if_splits)

lemma transaction_works: "in_transaction commits s op db = (Inr u, db1) \<Longrightarrow> op db = Inr db1 \<and> commits s"
  by (auto simp: in_transaction_def split: sum.splits if_splits)

lemma create_error: "create_stub R shw now hook rq db = Inl x \<Longrightarrow> before_row x"
  by (auto simp: create_stub_def bind_result_def map_error_def before_row_def split: option.splits sum.splits)

lemma publish_way_out:
  assumes "env_laws E" "exp_rows E db = rs @ [row]" "well_stubbed (fr_exp_id rq) row" "\<forall>r\<in>set rs. \<not> of_exp (fr_exp_id rq) r"
    "publish_job E rq (db, j) = (r, db', j')"
  shows "way_out (fe_commits E (fr_exp_id rq)) (fr_exp_id rq) r rs (exp_rows E db')"
proof -
  let ?e = "fr_exp_id rq"
  let ?mark = "mark_submit_failed (fe_repo E) (fe_show E) (fe_now E) (fe_commits E ?e MarkFailed) ?e"
  have q: "of_exp ?e row" "attr row ''status'' = PStr ''queued''" using assms(3) by (simp_all add: well_stubbed_def)
  obtain answer j1 where a: "jm_submit (fe_jobs E) rq j = (answer, j1)" by (cases "jm_submit (fe_jobs E) rq j")
  show ?thesis
  proof (cases answer)
    case (Inl msg)
    then have "r = Inl (SubmitRefused msg)" "db' = ?mark msg db" using assms(5) a by (auto simp: publish_job_def Let_def)
    then show ?thesis
      using mark_rows [OF assms(1-4), of "fe_show E" "fe_now E" "fe_commits E ?e MarkFailed" msg] q(2)
      by (auto simp: way_out_def before_row_def)
  next
    case (Inr job)
    show ?thesis
    proof (cases "some_if_truthy (jm_task (fe_jobs E) job j1)")
      case None
      then have "r = Inl (NoTaskId job)" "db' = ?mark (missing_task_text job) db" using assms(5) a Inr by (auto simp: publish_job_def Let_def)
      then show ?thesis
        using mark_rows [OF assms(1-4), of "fe_show E" "fe_now E" "fe_commits E ?e MarkFailed" "missing_task_text job"] q(2)
        by (auto simp: way_out_def before_row_def)
    next
      case (Some task)
      obtain db1 where t: "attach_task (fe_repo E) ?e task db = Inr db1"
        "exp_rows E db1 = rs @ [set_attr ''celery_task_id'' (PStr task) row]"
        using task_rows [OF assms(1,2) q(1) assms(4)] by blast
      have e1: "of_exp ?e (set_attr ''celery_task_id'' (PStr task) row)" using q(1) by (simp add: of_exp_def)
      show ?thesis
      proof (cases "fe_commits E ?e AttachTask")
        case True
        then have "r = Inr (job, task)" "db' = db1"
          using assms(5) a Inr Some t(1) by (auto simp: publish_job_def Let_def in_transaction_def)
        then show ?thesis using t(2) e1 q(2) by (simp add: way_out_def)
      next
        case False
        then have "r = Inl (SessionFailed AttachTask)" "db' = db"
          using assms(5) a Inr Some t(1) by (auto simp: publish_job_def Let_def in_transaction_def)
        then show ?thesis using False assms(2) q by (simp add: way_out_def before_row_def)
      qed
    qed
  qed
qed

lemma submission_out:
  assumes "env_laws E" "submit_experiment E rq (db, j) = (r, db', j')"
  shows "way_out (fe_commits E (fr_exp_id rq)) (fr_exp_id rq) r (exp_rows E db) (exp_rows E db')"
proof -
  let ?e = "fr_exp_id rq"
  let ?stub = "create_stub (fe_repo E) (fe_show E) (fe_now E) (fe_hook E) rq"
  consider x where "in_transaction (fe_commits E ?e) CreateStub ?stub db = (Inl x, db)" "before_row x"
    | db1 where "in_transaction (fe_commits E ?e) CreateStub ?stub db = (Inr (), db1)" "?stub db = Inr db1"
  proof (cases "in_transaction (fe_commits E ?e) CreateStub ?stub db")
    case (Pair q db1)
    then show ?thesis
      using that transaction_fails [of "fe_commits E ?e" CreateStub ?stub db] transaction_works [of "fe_commits E ?e" CreateStub ?stub db]
      by (cases q) (auto simp: before_row_def dest: create_error)
  qed
  then show ?thesis
  proof cases
    case 1
    then have "r = Inl x" "db' = db" using assms(2) by (auto simp: submit_experiment_def Let_def)
    then show ?thesis using 1(2) by (simp add: way_out_def)
  next
    case 2
    obtain row where row: "exp_rows E db1 = exp_rows E db @ [row]" "well_stubbed ?e row" "\<forall>r\<in>set (exp_rows E db). \<not> of_exp ?e r"
      using create_rows [OF assms(1) 2(2)] by blast
    obtain m db2 where m: "attach_molecules E rq db1 = (m, db2)" by (cases "attach_molecules E rq db1")
    have r2: "exp_rows E db2 = exp_rows E db @ [row]" using attach_rows [OF assms(1), of rq db1] row(1) m by simp
    show ?thesis
    proof (cases m)
      case (Inl x)
      then have "x = SessionFailed AttachMolecules \<and> \<not> fe_commits E ?e AttachMolecules"
        using m by (auto simp: attach_molecules_def in_transaction_def split: option.splits if_splits)
      moreover have "r = Inl x" "db' = db2" using assms(2) 2(1) m Inl by (auto simp: submit_experiment_def Let_def)
      ultimately show ?thesis using r2 row(2) by (simp add: way_out_def before_row_def well_stubbed_def)
    next
      case (Inr u)
      then have "publish_job E rq (db2, j) = (r, db', j')" using assms(2) 2(1) m by (auto simp: submit_experiment_def Let_def)
      then show ?thesis using publish_way_out [OF assms(1) r2 row(2,3)] by blast
    qed
  qed
qed

text \<open>
  C9: Every way out of a submission and the rows it leaves: success leaves the new row queued
  with the task id; a duplicate or a failed first transaction changes nothing; a refused job or
  a missing task id leaves the row marked failed if that can be committed, and otherwise
  queued; no other row changes.
\<close>

theorem submission_leaves:
  assumes "env_laws E" "submit_experiment E rq (db, j) = (r, db', j')"
  shows "way_out (fe_commits E (fr_exp_id rq)) (fr_exp_id rq) r (exp_rows E db) (exp_rows E db')"
  by (rule submission_out [OF assms])

end
