(* ===== verification/Replicates.thy ===== *)
theory Replicates
  imports LayerSubmit SubmissionProps
begin

text \<open>
  Groups of replicas: submitting one experiment per seed with compensation on the real backend
  (the submission facade and the cancellation of experiments), tagging the group, and writing
  the ensemble of a finished group once, \<^verbatim>\<open>src/src/features/layered_structures/service.py\<close> and
  \<^verbatim>\<open>replicate_orchestration.py\<close>. The statistics behind the ensemble are an argument.
\<close>

section \<open>The backend\<close>

definition sibling_entry :: "string \<Rightarrow> string list \<Rightarrow> db_row \<Rightarrow> pyval" where
  "sibling_entry gid ids r =
     PDict [(''group_id'', PStr gid), (''primary_exp_id'', PStr (hd ids)), (''sibling_exp_ids'', PList (map PStr ids)),
            (''role'', PStr (if of_exp (hd ids) r then ''primary'' else ''replica''))]"

definition in_group :: "string list \<Rightarrow> db_row \<Rightarrow> bool" where
  "in_group ids r \<longleftrightarrow> list_ex (\<lambda>e. of_exp e r) ids"

definition tag_row :: "string \<Rightarrow> string list \<Rightarrow> db_row \<Rightarrow> db_row" where
  "tag_row gid ids r =
     (case json_dict (attr r ''metadata_json'') of
        Inl _ \<Rightarrow> r
      | Inr meta \<Rightarrow> set_attr ''metadata_json'' (PDict (dict_set ''replicate_group'' (sibling_entry gid ids r) meta)) r)"

text \<open>Metadata that is no dictionary raises and rolls back.\<close>

definition tag_replicate_group :: "'db repo \<Rightarrow> bool \<Rightarrow> string \<Rightarrow> string list \<Rightarrow> 'db \<Rightarrow> bool \<times> 'db" where
  "tag_replicate_group R ok gid ids db =
     (if ids = [] then (True, db)
      else if list_ex (\<lambda>r. in_group ids r \<and> isl (json_dict (attr r ''metadata_json''))) (table_rows R db EXPERIMENTS) \<or> \<not> ok then (False, db)
      else (True, update_where R EXPERIMENTS (in_group ids) (tag_row gid ids) db))"

datatype 'x submit_failure = NotPrepared 'x | NotSubmitted facade_error

type_synonym ('db, 'j) world = "'db \<times> 'j \<times> outside_effect list"

text \<open>
  \<open>prep\<close> is what \<open>submit_layered_structure\<close> does in front of the facade, for one seed; \<open>cancels\<close>
  says whose cancellation can be committed.
\<close>

definition submit_with ::
    "('db, 'j) facade_env \<Rightarrow> (int option \<Rightarrow> ('x, facade_request) result) \<Rightarrow> int option \<Rightarrow> ('db, 'j) world
      \<Rightarrow> ('x submit_failure, string) result \<times> ('db, 'j) world" where
  "submit_with E prep seed w =
     (let (db, j, effects) = w
      in case prep seed of
           Inl x \<Rightarrow> (Inl (NotPrepared x), w)
         | Inr rq \<Rightarrow>
             (case submit_experiment E rq (db, j) of
                (Inl x, db1, j1) \<Rightarrow> (Inl (NotSubmitted x), db1, j1, effects)
              | (Inr _, db1, j1) \<Rightarrow> (Inr (fr_exp_id rq), db1, j1, effects)))"

definition cancel_with :: "('db, 'j) facade_env \<Rightarrow> (string \<Rightarrow> bool) \<Rightarrow> string \<Rightarrow> ('db, 'j) world \<Rightarrow> bool \<times> ('db, 'j) world" where
  "cancel_with E cancels e w =
     (let (db, j, effects) = w; (r, db1, new) = cancel_experiment (fe_repo E) (cancels e) e db
      in (\<not> isl r, db1, j, effects @ new))"

definition replica_backend ::
    "('db, 'j) facade_env \<Rightarrow> (string \<Rightarrow> bool) \<Rightarrow> bool \<Rightarrow> string \<Rightarrow> (int option \<Rightarrow> ('x, facade_request) result)
      \<Rightarrow> (('db, 'j) world, 'x submit_failure) backend" where
  "replica_backend E cancels tags gid prep =
     \<lparr>bk_submit = submit_with E prep, bk_cancel = cancel_with E cancels,
      bk_tag = (\<lambda>ids (db, j, effects). case tag_replicate_group (fe_repo E) tags gid ids db of (ok, db1) \<Rightarrow> (ok, db1, j, effects))\<rparr>"

section \<open>Compensation\<close>

lemma dedupe_step:
  "distinct out \<Longrightarrow>
     distinct (foldl (\<lambda>out s. case s of None \<Rightarrow> out | Some n \<Rightarrow> if n \<in> set out then out else out @ [n]) out ss) \<and>
     set (foldl (\<lambda>out s. case s of None \<Rightarrow> out | Some n \<Rightarrow> if n \<in> set out then out else out @ [n]) out ss) =
       set out \<union> {n. Some n \<in> set ss}"
  by (induction ss arbitrary: out) (auto split: option.splits)

lemma dedupe_seeds_set: "distinct (dedupe_seeds seeds)" "set (dedupe_seeds seeds) = {n. Some n \<in> set seeds}"
  using dedupe_step [of "[]" seeds] by (simp_all add: dedupe_seeds_def)

text \<open>All seeds in a row are submitted, from one world to another.\<close>

inductive submitted :: "('w, 'e) backend \<Rightarrow> int list \<Rightarrow> string list \<Rightarrow> 'w \<Rightarrow> 'w \<Rightarrow> bool" for B where
  none: "submitted B [] [] w w"
| one: "submitted B ss ids w w1 \<Longrightarrow> bk_submit B (Some s) w1 = (Inr i, w2) \<Longrightarrow> submitted B (ss @ [s]) (ids @ [i]) w w2"

lemma submit_seeds_spec:
  assumes "submitted B pre done w0 w" "submit_seeds B ss done w = (r, w')"
  shows "case r of
      Inr ids \<Rightarrow> submitted B (pre @ ss) ids w0 w'
    | Inl err \<Rightarrow> (\<exists>e s done ps qs w1 w2. err = ReplicateFailed e s done \<and> pre @ ss = ps @ s # qs \<and>
        submitted B ps done w0 w1 \<and> bk_submit B (Some s) w1 = (Inl e, w2) \<and> w' = cancel_submitted_replicas B done w2)"
  using assms
proof (induction ss arbitrary: pre "done" w)
  case (Cons s ss)
  obtain q w1 where q: "bk_submit B (Some s) w = (q, w1)" by (cases "bk_submit B (Some s) w")
  show ?case
  proof (cases q)
    case (Inl e)
    then have "r = Inl (ReplicateFailed e s done)" "w' = cancel_submitted_replicas B done w1" using Cons.prems(2) q by simp_all
    then show ?thesis using Cons.prems(1) q Inl by auto
  next
    case (Inr i)
    have "submitted B (pre @ [s]) (done @ [i]) w0 w1" by (rule submitted.one [OF Cons.prems(1)]) (use q Inr in simp)
    moreover have "submit_seeds B ss (done @ [i]) w1 = (r, w')" using Cons.prems(2) q Inr by simp
    ultimately have "case r of
        Inr ids \<Rightarrow> submitted B ((pre @ [s]) @ ss) ids w0 w'
      | Inl err \<Rightarrow> (\<exists>e s' done ps qs w1 w2. err = ReplicateFailed e s' done \<and> (pre @ [s]) @ ss = ps @ s' # qs \<and>
          submitted B ps done w0 w1 \<and> bk_submit B (Some s') w1 = (Inl e, w2) \<and> w' = cancel_submitted_replicas B done w2)"
      by (rule Cons.IH)
    then show ?thesis by (simp only: append_assoc append.simps)
  qed
qed auto

text \<open>
  A backend whose world has experiments that are alive: a submission adds its experiment, a
  failed one adds nothing, a cancellation takes away at most its experiment, and does so where
  it is reliable; a tag changes nothing.
\<close>

locale compensating_backend =
  fixes B :: "('w, 'e) backend" and alive :: "'w \<Rightarrow> string set" and reliable :: "string \<Rightarrow> bool"
  assumes submit_ok: "bk_submit B s w = (Inr i, w1) \<Longrightarrow> alive w1 = insert i (alive w) \<and> i \<notin> alive w"
    and submit_fails: "bk_submit B s w = (Inl e, w1) \<Longrightarrow> alive w1 = alive w"
    and cancel_one_at_most: "alive w - {i} \<subseteq> alive (snd (bk_cancel B i w)) \<and> alive (snd (bk_cancel B i w)) \<subseteq> alive w"
    and cancel_reliable: "reliable i \<Longrightarrow> i \<notin> alive (snd (bk_cancel B i w))"
    and tag_keeps: "alive (snd (bk_tag B ids w)) = alive w"
begin

lemma submitted_alive: "submitted B ss ids w w1 \<Longrightarrow> alive w1 = alive w \<union> set ids \<and> set ids \<inter> alive w = {} \<and> distinct ids"
  by (induction rule: submitted.induct) (auto dest!: submit_ok)

lemma submitted_length: "submitted B ss ids w w1 \<Longrightarrow> length ids = length ss"
  by (induction rule: submitted.induct) simp_all

lemma cancel_bounds:
  "alive w - set ids \<subseteq> alive (cancel_submitted_replicas B ids w) \<and>
   alive (cancel_submitted_replicas B ids w) \<subseteq> alive w - {i \<in> set ids. reliable i}"
proof (induction ids arbitrary: w)
  case (Cons i ids)
  have s: "cancel_submitted_replicas B (i # ids) w = cancel_submitted_replicas B ids (snd (bk_cancel B i w))"
    by (simp add: cancel_submitted_replicas_def)
  show ?case
    unfolding s using Cons.IH [of "snd (bk_cancel B i w)"] cancel_one_at_most [of w i] cancel_reliable [of i w] by auto
qed (simp add: cancel_submitted_replicas_def)

text \<open>What is alive after a failed group and was not before could not be cancelled.\<close>

lemma seeds_all_or_nothing:
  assumes "submit_seeds B ss [] w = (r, w')"
  shows "case r of
      Inr ids \<Rightarrow> length ids = length ss \<and> distinct ids \<and> set ids \<inter> alive w = {} \<and> alive w' = alive w \<union> set ids
    | Inl err \<Rightarrow> \<exists>e s done. err = ReplicateFailed e s done \<and> s \<in> set ss \<and> alive w \<subseteq> alive w' \<and>
        alive w' \<subseteq> alive w \<union> {i \<in> set done. \<not> reliable i}"
proof -
  note spec = submit_seeds_spec [OF submitted.none assms]
  show ?thesis
  proof (cases r)
    case (Inr ids)
    then have "submitted B ss ids w w'" using spec by simp
    then show ?thesis using Inr submitted_alive submitted_length by fastforce
  next
    case (Inl err)
    then obtain e s "done" ps qs w1 w2 where f: "err = ReplicateFailed e s done" "ss = ps @ s # qs" "submitted B ps done w w1"
      "bk_submit B (Some s) w1 = (Inl e, w2)" "w' = cancel_submitted_replicas B done w2"
      using spec by auto
    have "alive w2 = alive w \<union> set done" "set done \<inter> alive w = {}"
      using submitted_alive [OF f(3)] submit_fails [OF f(4)] by simp_all
    then show ?thesis using Inl f(1,2,5) cancel_bounds [where ids = "done" and w = w2] by auto
  qed
qed

lemma group_all_or_nothing:
  assumes "2 \<le> length (dedupe_seeds seeds)" "submit_layered_replicates B seed seeds w = (r, w')"
  shows "case r of
      Inr (e, grp) \<Rightarrow> \<exists>ids. length ids = length (dedupe_seeds seeds) \<and> distinct ids \<and> set ids \<inter> alive w = {} \<and>
        alive w' = alive w \<union> set ids \<and> e = hd ids \<and> grp \<in> {None, Some ids}
    | Inl err \<Rightarrow> \<exists>x s done. err = ReplicateFailed x s done \<and> Some s \<in> set seeds \<and> alive w \<subseteq> alive w' \<and>
        alive w' \<subseteq> alive w \<union> {i \<in> set done. \<not> reliable i}"
proof -
  have ne: "seeds \<noteq> []" "\<not> length (dedupe_seeds seeds) \<le> 1" using assms(1) by (auto simp: dedupe_seeds_def)
  obtain q w1 where q: "submit_seeds B (dedupe_seeds seeds) [] w = (q, w1)" by (cases "submit_seeds B (dedupe_seeds seeds) [] w")
  note spec = seeds_all_or_nothing [OF q]
  show ?thesis
  proof (cases q)
    case (Inl err)
    then have "r = Inl err" "w' = w1" using assms(2) ne q by (simp_all add: submit_layered_replicates_def Let_def)
    then show ?thesis using spec Inl dedupe_seeds_set(2) [of seeds] by auto
  next
    case (Inr ids)
    obtain ok w2 where t: "bk_tag B ids w1 = (ok, w2)" by (cases "bk_tag B ids w1")
    have "r = Inr (hd ids, if ok then Some ids else None)" "w' = w2"
      using assms(2) ne q Inr t by (simp_all add: submit_layered_replicates_def Let_def)
    then show ?thesis using spec Inr tag_keeps [of ids w1] t by auto
  qed
qed

end

section \<open>The backend compensates\<close>

definition alive_rows :: "db_row list \<Rightarrow> string set" where
  "alive_rows rs = {e. case List.find (of_exp e) rs of None \<Rightarrow> False | Some r \<Rightarrow> status_in CANCELABLE_STATUSES r}"

definition alive_in :: "('db, 'j) facade_env \<Rightarrow> ('db, 'j) world \<Rightarrow> string set" where
  "alive_in E w = alive_rows (exp_rows E (fst w))"

text \<open>Every transaction behind the one that creates the row can be committed.\<close>

definition later_commits :: "('db, 'j) facade_env \<Rightarrow> bool" where
  "later_commits E \<longleftrightarrow> (\<forall>e. fe_commits E e AttachMolecules \<and> fe_commits E e AttachTask \<and> fe_commits E e MarkFailed)"

lemma queued_alive: "attr r ''status'' = PStr ''queued'' \<Longrightarrow> status_in CANCELABLE_STATUSES r"
  by (simp add: status_in_def CANCELABLE_STATUSES_def)

lemma failed_dead: "failed_row msg r \<Longrightarrow> \<not> status_in CANCELABLE_STATUSES r"
  by (simp add: failed_row_def status_in_def CANCELABLE_STATUSES_def)

lemma of_exp_same: "of_exp e r \<Longrightarrow> of_exp f r \<Longrightarrow> f = e"
  by (simp add: of_exp_def)

lemma find_snoc:
  "List.find P (rs @ [x]) = (case List.find P rs of Some r \<Rightarrow> Some r | None \<Rightarrow> if P x then Some x else None)"
  by (induction rs) simp_all

lemma alive_new:
  assumes "of_exp e row" "\<forall>r\<in>set rs. \<not> of_exp e r"
  shows "alive_rows (rs @ [row]) = (if status_in CANCELABLE_STATUSES row then insert e (alive_rows rs) else alive_rows rs)"
proof -
  have "List.find (of_exp e) rs = None" using assms(2) by (simp add: find_None_all)
  moreover have "of_exp f row \<longleftrightarrow> f = e" for f using assms(1) by (auto simp: of_exp_def)
  ultimately show ?thesis by (auto simp: alive_rows_def find_snoc split: option.splits if_splits)
qed

lemma new_row_fresh:
  assumes "env_laws E" "submit_experiment E rq (db, j) = (q, db1, j1)" "exp_rows E db1 \<noteq> exp_rows E db"
  shows "\<forall>r\<in>set (exp_rows E db). \<not> of_exp (fr_exp_id rq) r"
proof -
  have "rp_get (fe_repo E) (fr_exp_id rq) db = None"
    using assms(2,3) by (auto simp: submit_experiment_def in_transaction_def create_stub_def split: option.splits)
  then show ?thesis using assms(1) by (simp add: env_laws_def repo_get find_None_all exp_rows_def)
qed

lemma submit_alive:
  assumes "env_laws E" "later_commits E" "submit_with E prep s w = (r, w1)"
  shows "case r of Inr i \<Rightarrow> alive_in E w1 = insert i (alive_in E w) \<and> i \<notin> alive_in E w | Inl _ \<Rightarrow> alive_in E w1 = alive_in E w"
proof -
  obtain db j effects where w: "w = (db, j, effects)" by (cases w)
  show ?thesis
  proof (cases "prep s")
    case (Inl x)
    then show ?thesis using assms(3) w by (auto simp: submit_with_def)
  next
    case (Inr rq)
    obtain q db1 j1 where q: "submit_experiment E rq (db, j) = (q, db1, j1)" by (cases "submit_experiment E rq (db, j)")
    have out: "way_out (fe_commits E (fr_exp_id rq)) (fr_exp_id rq) q (exp_rows E db) (exp_rows E db1)"
      by (rule submission_out [OF assms(1) q])
    show ?thesis
    proof (cases q)
      case (Inr a)
      then have r: "r = Inr (fr_exp_id rq)" "fst w1 = db1" using assms(3) w q \<open>prep s = Inr rq\<close> by (auto simp: submit_with_def)
      obtain row where "exp_rows E db1 = exp_rows E db @ [row]" "of_exp (fr_exp_id rq) row" "attr row ''status'' = PStr ''queued''"
        using out Inr by (auto simp: way_out_def split: prod.splits)
      moreover from this have fresh: "\<forall>r\<in>set (exp_rows E db). \<not> of_exp (fr_exp_id rq) r"
        by (intro new_row_fresh [OF assms(1) q]) simp
      ultimately have "alive_in E w1 = insert (fr_exp_id rq) (alive_in E w)"
        using alive_new queued_alive r(2) w by (simp add: alive_in_def)
      moreover have "fr_exp_id rq \<notin> alive_in E w"
        using fresh w by (auto simp: alive_in_def alive_rows_def split: option.splits dest: find_in_set)
      ultimately show ?thesis using r(1) by simp
    next
      case (Inl x)
      then have r: "\<exists>y. r = Inl y" "fst w1 = db1" using assms(3) w q \<open>prep s = Inr rq\<close> by (auto simp: submit_with_def)
      have "exp_rows E db1 = exp_rows E db \<or>
          (\<exists>row msg. exp_rows E db1 = exp_rows E db @ [row] \<and> of_exp (fr_exp_id rq) row \<and> failed_row msg row)"
      proof (cases x)
        case (SessionFailed st)
        then show ?thesis
          using out Inl assms(2) by (cases st) (auto simp: way_out_def before_row_def later_commits_def)
      qed (use out Inl assms(2) in \<open>auto simp: way_out_def before_row_def later_commits_def\<close>)
      then have "alive_in E w1 = alive_in E w"
      proof (elim disjE exE conjE)
        fix row msg
        assume n: "exp_rows E db1 = exp_rows E db @ [row]" "of_exp (fr_exp_id rq) row" "failed_row msg row"
        then have "\<forall>r\<in>set (exp_rows E db). \<not> of_exp (fr_exp_id rq) r" by (intro new_row_fresh [OF assms(1) q]) simp
        then show ?thesis using n alive_new failed_dead r(2) w by (simp add: alive_in_def)
      qed (use r(2) w in \<open>simp add: alive_in_def\<close>)
      then show ?thesis using r(1) by auto
    qed
  qed
qed

lemma find_map_keep:
  assumes "\<And>r. P (f r) = P r"
  shows "List.find P (map f rs) = map_option f (List.find P rs)"
  by (induction rs) (simp_all add: assms)

lemma cancel_alive:
  assumes "repo_laws R" "cancel_experiment R ok e db = (r, db1, new)"
  shows "alive_rows (table_rows R db1 EXPERIMENTS) =
    (if ok then alive_rows (table_rows R db EXPERIMENTS) - {e} else alive_rows (table_rows R db EXPERIMENTS))"
proof -
  let ?rs = "table_rows R db EXPERIMENTS"
  let ?f = "\<lambda>r. if of_exp e r then status_attrs ''cancelled'' PNone (PStr ''Cancelled by user'') r else r"
  have keep: "of_exp g (?f r) = of_exp g r" for g r by (simp add: of_exp_def status_attrs_def)
  have fm: "List.find (of_exp g) (map ?f rs) = map_option ?f (List.find (of_exp g) rs)" for g rs
    by (rule find_map_keep [where P = "of_exp g" and f = ?f]) (rule keep)
  have dead: "\<not> status_in CANCELABLE_STATUSES (status_attrs ''cancelled'' PNone m r)" for m r
    by (simp add: status_in_def status_attrs_def CANCELABLE_STATUSES_def)
  have "g \<in> alive_rows (map ?f ?rs) \<longleftrightarrow> g \<in> alive_rows ?rs - {e}" for g
  proof (cases "List.find (of_exp g) ?rs")
    case None
    then show ?thesis by (simp add: alive_rows_def fm)
  next
    case (Some r)
    then have "of_exp g r" using find_in_set [OF Some] by simp
    then have "of_exp e r \<longleftrightarrow> g = e" by (auto simp: of_exp_def)
    then show ?thesis using Some dead by (simp add: alive_rows_def fm)
  qed
  then have "alive_rows (map ?f ?rs) = alive_rows ?rs - {e}" by blast
  then have gone: "alive_rows (table_rows R (rp_status R e ''cancelled'' PNone (PStr ''Cancelled by user'') db) EXPERIMENTS) = alive_rows ?rs - {e}"
    by (simp only: rows_repo [OF assms(1)] if_True simp_thms)
  have get: "rp_get R e db = List.find (of_exp e) ?rs" by (rule repo_get [OF assms(1)])
  show ?thesis
  proof (cases "rp_get R e db")
    case None
    then have "db1 = db" "e \<notin> alive_rows ?rs"
      using assms(2) get by (auto simp: cancel_experiment_def cancel_one_def alive_rows_def)
    then show ?thesis by simp
  next
    case (Some x)
    show ?thesis
    proof (cases "status_in CANCELABLE_STATUSES x")
      case True
      then have "db1 = (if ok then rp_status R e ''cancelled'' PNone (PStr ''Cancelled by user'') db else db)"
        using assms(2) Some by (simp add: cancel_experiment_def cancel_one_def split: if_splits)
      then show ?thesis using gone by (cases ok) (simp_all only: if_True if_False)
    next
      case False
      then have "db1 = db" "e \<notin> alive_rows ?rs"
        using assms(2) Some get [symmetric] by (auto simp: cancel_experiment_def cancel_one_def alive_rows_def)
      then show ?thesis by simp
    qed
  qed
qed

lemma replica_laws:
  assumes "env_laws E" "later_commits E"
  shows "compensating_backend (replica_backend E cancels tags gid prep) (alive_in E) cancels"
proof -
  have R: "repo_laws (fe_repo E)" using assms(1) by (simp add: env_laws_def)
  have c: "alive_in E (snd (cancel_with E cancels i w)) = (if cancels i then alive_in E w - {i} else alive_in E w)" for i w
  proof -
    obtain db j effects where w: "w = (db, j, effects)" by (cases w)
    obtain r db1 new where q: "cancel_experiment (fe_repo E) (cancels i) i db = (r, db1, new)"
      by (cases "cancel_experiment (fe_repo E) (cancels i) i db")
    show ?thesis using cancel_alive [OF R q] q w by (simp add: cancel_with_def alive_in_def exp_rows_def)
  qed
  have t: "alive_in E (snd (bk_tag (replica_backend E cancels tags gid prep) ids w)) = alive_in E w" for ids w
  proof -
    let ?f = "\<lambda>r. if in_group ids r then tag_row gid ids r else r"
    have keep: "of_exp g (?f r) = of_exp g r" "status_in sts (?f r) = status_in sts r" for g r sts
      by (auto simp: of_exp_def status_in_def tag_row_def split: sum.split)
    have fm: "List.find (of_exp g) (map ?f rs) = map_option ?f (List.find (of_exp g) rs)" for g rs
      by (rule find_map_keep [where P = "of_exp g" and f = ?f]) (rule keep(1))
    have "(case map_option ?f x of None \<Rightarrow> False | Some r \<Rightarrow> status_in sts r) = (case x of None \<Rightarrow> False | Some r \<Rightarrow> status_in sts r)" for x sts
      by (cases x) (simp_all add: keep(2) del: if_split)
    then have "alive_rows (map ?f rs) = alive_rows rs" for rs
      by (simp add: alive_rows_def fm)
    then show ?thesis
      by (cases w) (auto simp: replica_backend_def tag_replicate_group_def alive_in_def exp_rows_def rows_update [OF R])
  qed
  show ?thesis
  proof unfold_locales
    fix s w i w1
    assume "bk_submit (replica_backend E cancels tags gid prep) s w = (Inr i, w1)"
    then show "alive_in E w1 = insert i (alive_in E w) \<and> i \<notin> alive_in E w"
      using submit_alive [OF assms] by (fastforce simp: replica_backend_def)
  next
    fix s w e w1
    assume "bk_submit (replica_backend E cancels tags gid prep) s w = (Inl e, w1)"
    then show "alive_in E w1 = alive_in E w"
      using submit_alive [OF assms] by (fastforce simp: replica_backend_def)
  qed (use c t in \<open>auto simp: replica_backend_def split: if_splits\<close>)
qed

text \<open>A run on the database in memory: only the transaction that creates a row may fail.\<close>

definition mem_env :: "'j job_manager \<Rightarrow> (string \<Rightarrow> db_row list) \<Rightarrow> string \<Rightarrow> (string \<Rightarrow> bool) \<Rightarrow> (mem_db, 'j) facade_env" where
  "mem_env jobs lineage now stubs =
     \<lparr>fe_repo = mem_repo, fe_jobs = jobs, fe_attach = (\<lambda>e counts. se_insert mem_session ''ExperimentMoleculeModel''
        ((''exp_id'', PStr e) # map (\<lambda>(m, n). (m, PNum (of_int n))) counts)),
      fe_hook = (\<lambda>e db. Inr (fold (se_insert mem_session ''LayeredExperimentSourceModel'') (lineage e) db)), fe_show = (\<lambda>_. []), fe_now = now,
      fe_commits = (\<lambda>e s. s \<noteq> CreateStub \<or> stubs e)\<rparr>"

lemma mem_env_laws: "env_laws (mem_env jobs lineage now stubs)" "later_commits (mem_env jobs lineage now stubs)"
proof -
  have "mem_rows (fold (se_insert mem_session ''LayeredExperimentSourceModel'') rs db) EXPERIMENTS = mem_rows db EXPERIMENTS" for rs db
    by (induction rs arbitrary: db) (simp_all add: mem_session_def EXPERIMENTS_def)
  moreover have "mem_rows (se_insert mem_session ''ExperimentMoleculeModel'' r db) EXPERIMENTS = mem_rows db EXPERIMENTS" for r db
    by (simp add: mem_session_def EXPERIMENTS_def)
  moreover have "table_rows mem_repo db t = mem_rows db t" for db t by (simp add: table_rows_def mem_repo_def mem_session_def)
  ultimately show "env_laws (mem_env jobs lineage now stubs)" by (auto simp: env_laws_def mem_env_def mem_repo_laws)
qed (simp add: later_commits_def mem_env_def)

interpretation mem_replicas: compensating_backend "replica_backend (mem_env jobs lineage now stubs) cancels tags gid prep"
    "alive_in (mem_env jobs lineage now stubs)" cancels
  by (rule replica_laws [OF mem_env_laws])

text \<open>
  C5: Over the facade and the real cancellation, when the transactions after the first commit:
  a replica submission that succeeds leaves one new live experiment per distinct seed, and one
  that fails leaves no experiment alive that was not alive before, except those whose
  compensating cancellation could not be committed.
\<close>

theorem replicas_all_or_nothing:
  assumes "env_laws E" "later_commits E" "2 \<le> length (dedupe_seeds seeds)"
    "submit_layered_replicates (replica_backend E cancels tags gid prep) seed seeds w = (r, w')"
  shows "case r of
      Inr (e, grp) \<Rightarrow> \<exists>ids. length ids = length (dedupe_seeds seeds) \<and> distinct ids \<and> set ids \<inter> alive_in E w = {} \<and>
        alive_in E w' = alive_in E w \<union> set ids \<and> e = hd ids \<and> grp \<in> {None, Some ids}
    | Inl err \<Rightarrow> \<exists>x s done. err = ReplicateFailed x s done \<and> Some s \<in> set seeds \<and> alive_in E w \<subseteq> alive_in E w' \<and>
        alive_in E w' \<subseteq> alive_in E w \<union> {i \<in> set done. \<not> cancels i}"
  by (rule compensating_backend.group_all_or_nothing [OF replica_laws [OF assms(1,2)] assms(3,4)])

definition demo_jobs :: "nat job_manager" where
  "demo_jobs = \<lparr>jm_submit = (\<lambda>rq n. (Inr (''job'' @ show_nat n), n + 1)), jm_task = (\<lambda>job n. Some (''task-'' @ job)), jm_cancel = (\<lambda>job n. n)\<rparr>"

definition demo_facade_request :: "int \<Rightarrow> facade_request" where
  "demo_facade_request s =
     \<lparr>fr_exp_id = ''exp'' @ show_int s, fr_material = ''AAA1_X1_non_aging'', fr_columns = [(''seed'', PNum (of_int s))],
      fr_study = Some ''layer_bulkff'', fr_build = None, fr_overrides = None, fr_tensile = None, fr_metadata = [], fr_provenance = PNone,
      fr_conditions = PNone\<rparr>"

definition demo_prep :: "int option \<Rightarrow> (string, facade_request) result" where
  "demo_prep seed = (case seed of None \<Rightarrow> Inl ''no seed'' | Some s \<Rightarrow> if s < 0 then Inl ''bad seed'' else Inr (demo_facade_request s))"

abbreviation demo_facade :: "(mem_db, nat) facade_env" where
  "demo_facade \<equiv> mem_env demo_jobs (\<lambda>_. []) ''now'' (\<lambda>_. True)"

theorem submission_leaves_witness:
  "\<exists>r db' j'. submit_experiment demo_facade (demo_facade_request 1) ([], 0) = (r, db', j') \<and>
     way_out (fe_commits demo_facade ''exp1'') ''exp1'' r (exp_rows demo_facade []) (exp_rows demo_facade db')"
proof -
  obtain r db' j' where q: "submit_experiment demo_facade (demo_facade_request 1) ([], 0) = (r, db', j')"
    by (cases "submit_experiment demo_facade (demo_facade_request 1) ([], 0)")
  have "fr_exp_id (demo_facade_request 1) = ''exp1''" by code_simp
  then show ?thesis using submission_leaves [OF mem_env_laws(1) q] q by auto
qed

theorem replicas_all_or_nothing_witness:
  "alive_in demo_facade (snd (submit_layered_replicates (replica_backend demo_facade (\<lambda>_. True) True ''g'' demo_prep)
      None [Some 1, Some 2, Some (- 1)] ([], 0, []))) = alive_in demo_facade ([], 0, [])"
proof -
  let ?B = "replica_backend demo_facade (\<lambda>_. True) True ''g'' demo_prep"
  obtain r w' where q: "submit_layered_replicates ?B None [Some 1, Some 2, Some (- 1)] ([], 0, []) = (r, w')"
    by (cases "submit_layered_replicates ?B None [Some 1, Some 2, Some (- 1)] ([], 0, [])")
  have "isl (fst (submit_layered_replicates ?B None [Some 1, Some 2, Some (- 1)] ([], 0, [])))" by code_simp
  then obtain err where "r = Inl err" using q by (cases r) simp_all
  moreover have "2 \<le> length (dedupe_seeds [Some 1, Some 2, Some (- 1)])" by code_simp
  ultimately show ?thesis
    using replicas_all_or_nothing [OF mem_env_laws _ q] by (auto simp: q)
qed

text \<open>
  Without the transaction that writes the task id the compensation is not complete: the job of
  the failing seed is queued, its row stays queued, and it is not among the experiments that are
  cancelled.
\<close>

lemma unattached_job_survives:
  "(let E = demo_facade\<lparr>fe_commits := (\<lambda>e s. \<not> (e = ''exp2'' \<and> s = AttachTask))\<rparr>;
        (r, db, j, effects) = submit_layered_replicates (replica_backend E (\<lambda>_. True) True ''g'' demo_prep) None [Some 1, Some 2] ([], 0, [])
    in r = Inl (ReplicateFailed (NotSubmitted (SessionFailed AttachTask)) 2 [''exp1'']) \<and> j = 2 \<and>
       map (\<lambda>x. (attr x ''exp_id'', attr x ''status'')) (exp_rows E db) =
         [(PStr ''exp1'', PStr ''cancelled''), (PStr ''exp2'', PStr ''queued'')])"
  by code_simp

end
