(* ===== verification/ReplicateEnsemble.thy ===== *)
theory ReplicateEnsemble
  imports Replicates
begin

text \<open>
  The ensemble of a group of replicas,
  \<^verbatim>\<open>src/src/features/layered_structures/replicate_orchestration.py\<close>: when all members have
  ended, the metrics of the completed ones are aggregated once and written to the metadata of
  the primary. The aggregation is the argument \<open>aggregate\<close>; the lock of the group makes each
  call one step. Entries of a sibling list that are no texts do not occur.
\<close>

definition GROUP_TERMINAL_STATUSES :: "string list" where
  "GROUP_TERMINAL_STATUSES = [''completed'', ''failed'', ''cancelled'', ''timeout'']"

definition strings_of :: "pyval \<Rightarrow> string list" where
  "strings_of v = concat (map (\<lambda>x. case x of PStr s \<Rightarrow> [s] | _ \<Rightarrow> []) (json_items v))"

definition text_or :: "pyval \<Rightarrow> string \<Rightarrow> string" where
  "text_or v d = (case v of PStr s \<Rightarrow> if s = [] then d else s | _ \<Rightarrow> d)"

definition row_meta :: "db_row \<Rightarrow> (string \<times> pyval) list" where
  "row_meta r = (case attr r ''metadata_json'' of PDict m \<Rightarrow> m | _ \<Rightarrow> [])"

definition read_group_context :: "'db repo \<Rightarrow> string \<Rightarrow> 'db \<Rightarrow> (string \<times> pyval) list option" where
  "read_group_context R e db =
     (case rp_get R e db of
        None \<Rightarrow> None
      | Some r \<Rightarrow> (case pv_get (row_meta r) ''replicate_group'' of PDict g \<Rightarrow> Some g | _ \<Rightarrow> None))"

definition status_text :: "(pyval \<Rightarrow> string) \<Rightarrow> db_row \<Rightarrow> string" where
  "status_text shw r = (case attr r ''status'' of PStr s \<Rightarrow> s | v \<Rightarrow> shw v)"

definition exp_text :: "db_row \<Rightarrow> string" where
  "exp_text r = (case attr r ''exp_id'' of PStr s \<Rightarrow> s | _ \<Rightarrow> [])"

definition read_statuses :: "'db repo \<Rightarrow> (pyval \<Rightarrow> string) \<Rightarrow> string list \<Rightarrow> 'db \<Rightarrow> (string, string) pydict" where
  "read_statuses R shw ids db =
     foldl (\<lambda>d r. dict_set (exp_text r) (status_text shw r) d) [] (filter (in_group ids) (table_rows R db EXPERIMENTS))"

definition ensemble_already_written :: "'db repo \<Rightarrow> string \<Rightarrow> string list \<Rightarrow> 'db \<Rightarrow> bool" where
  "ensemble_already_written R primary completed db =
     (case rp_get R primary db of
        None \<Rightarrow> False
      | Some r \<Rightarrow>
          (case pv_get (row_meta r) ''replicate_ensemble'' of
             PDict en \<Rightarrow> en \<noteq> [] \<and> set (strings_of (pv_get en ''completed_exp_ids'')) = set completed
           | _ \<Rightarrow> False))"

datatype ensemble_error = EnsembleRaises py_error | EnsembleNotCommitted

definition write_primary_ensemble :: "'db repo \<Rightarrow> bool \<Rightarrow> string \<Rightarrow> pyval \<Rightarrow> 'db \<Rightarrow> (ensemble_error, unit) result \<times> 'db" where
  "write_primary_ensemble R ok primary en db =
     (case rp_get R primary db of
        None \<Rightarrow> (Inr (), db)
      | Some r \<Rightarrow>
          (case json_dict (attr r ''metadata_json'') of
             Inl x \<Rightarrow> (Inl (EnsembleRaises x), db)
           | Inr meta \<Rightarrow>
               if ok then (Inr (), update_where R EXPERIMENTS (of_exp primary)
                      (set_attr ''metadata_json'' (PDict (dict_set ''replicate_ensemble'' en meta))) db)
               else (Inl EnsembleNotCommitted, db)))"

definition ensemble_of :: "string \<Rightarrow> string list \<Rightarrow> string list \<Rightarrow> pyval list \<Rightarrow> pyval" where
  "ensemble_of gid siblings completed metrics =
     PDict [(''group_id'', PStr gid), (''n_replicates'', PNum (of_nat (length siblings))), (''n_completed'', PNum (of_nat (length completed))),
            (''completed_exp_ids'', PList (map PStr completed)), (''metrics'', PList metrics)]"

text \<open>What the group and the statuses say: the members, the primary and those that are completed.\<close>

definition completed_of :: "(string, string) pydict \<Rightarrow> string list \<Rightarrow> string list" where
  "completed_of statuses siblings = filter (\<lambda>s. map_of statuses s = Some ''completed'') siblings"

definition all_ended :: "(string, string) pydict \<Rightarrow> string list \<Rightarrow> bool" where
  "all_ended statuses siblings = list_all (\<lambda>s. dict_get statuses s [] \<in> set GROUP_TERMINAL_STATUSES) siblings"

definition persist_replicate_ensemble ::
    "'db repo \<Rightarrow> (pyval \<Rightarrow> string) \<Rightarrow> (string list \<Rightarrow> 'db \<Rightarrow> pyval list) \<Rightarrow> bool \<Rightarrow> string \<Rightarrow> 'db
      \<Rightarrow> (ensemble_error, pyval option) result \<times> 'db" where
  "persist_replicate_ensemble R shw aggregate ok e db =
     (case read_group_context R e db of
        None \<Rightarrow> (Inr None, db)
      | Some g \<Rightarrow>
          let siblings = strings_of (pv_get g ''sibling_exp_ids'');
              primary = text_or (pv_get g ''primary_exp_id'') e;
              statuses = read_statuses R shw siblings db;
              completed = completed_of statuses siblings
          in if siblings = [] \<or> \<not> all_ended statuses siblings \<or> completed = [] \<or> ensemble_already_written R primary completed db
             then (Inr None, db)
             else let metrics = aggregate completed db
                  in if metrics = [] then (Inr None, db)
                     else let en = ensemble_of (text_or (pv_get g ''group_id'') []) siblings completed metrics
                          in (case write_primary_ensemble R ok primary en db of
                                (Inl x, db1) \<Rightarrow> (Inl x, db1)
                              | (Inr _, db1) \<Rightarrow> (Inr (Some en), db1)))"

section \<open>The ensemble is written once\<close>

lemma strings_of_list [simp]: "strings_of (PList (map PStr xs)) = xs"
  by (induction xs) (simp_all add: strings_of_def json_items_def)

lemma filter_map_keep: "(\<And>r. P (f r) = P r) \<Longrightarrow> filter P (map f rs) = map f (filter P rs)"
  by (induction rs) simp_all

lemma statuses_keep:
  assumes "table_rows R db1 EXPERIMENTS = map f (table_rows R db EXPERIMENTS)" "\<And>r c. c \<noteq> ''metadata_json'' \<Longrightarrow> attr (f r) c = attr r c"
  shows "read_statuses R shw ids db1 = read_statuses R shw ids db"
proof -
  have "in_group ids (f r) = in_group ids r" "exp_text (f r) = exp_text r" "status_text shw (f r) = status_text shw r" for r
    using assms(2) by (simp_all add: in_group_def of_exp_def exp_text_def status_text_def)
  moreover have "foldl (\<lambda>d r. g (h r) (k r) d) d (map f rs) = foldl (\<lambda>d r. g (h (f r)) (k (f r)) d) d rs"
    for g h k and d :: "(string, string) pydict" and rs
    by (induction rs arbitrary: d) simp_all
  ultimately show ?thesis
    unfolding read_statuses_def assms(1) by (subst filter_map_keep) (simp_all add: foldl_map)
qed

lemma ended_known: "s \<in> set siblings \<Longrightarrow> all_ended statuses siblings \<Longrightarrow> s \<in> fst ` set statuses"
proof -
  assume "s \<in> set siblings" "all_ended statuses siblings"
  then have "dict_get statuses s [] \<noteq> []" by (auto simp: all_ended_def list_all_iff GROUP_TERMINAL_STATUSES_def)
  then show ?thesis by (force simp: dict_get_def split: option.splits dest: map_of_SomeD)
qed

lemma statuses_keys: "fst ` set (read_statuses R shw ids db) = exp_text ` set (filter (in_group ids) (table_rows R db EXPERIMENTS))"
proof -
  have "fst ` set (foldl (\<lambda>d r. dict_set (exp_text r) (status_text shw r) d) d rs) = fst ` set d \<union> exp_text ` set rs" for d rs
    by (induction rs arbitrary: d) (simp_all add: dom_update)
  from this [of "[]"] show ?thesis by (simp add: read_statuses_def)
qed

lemma written_once:
  assumes "repo_laws R" "persist_replicate_ensemble R shw aggregate ok e db = (Inr (Some en), db1)"
    "read_group_context R e db = Some g" "pv_get g ''primary_exp_id'' = PStr p" "p \<noteq> []" "p \<in> set (strings_of (pv_get g ''sibling_exp_ids''))"
    "read_group_context R s db = Some g"
  shows "persist_replicate_ensemble R shw again ok' s db1 = (Inr None, db1)"
proof -
  let ?sib = "strings_of (pv_get g ''sibling_exp_ids'')"
  let ?st = "read_statuses R shw ?sib db"
  let ?done = "completed_of ?st ?sib"
  let ?gid = "text_or (pv_get g ''group_id'') []"
  have prim: "text_or (pv_get g ''primary_exp_id'') x = p" for x using assms(4,5) by (simp add: text_or_def)
  have run: "all_ended ?st ?sib" "en = ensemble_of ?gid ?sib ?done (aggregate ?done db)"
    "write_primary_ensemble R ok p en db = (Inr (), db1)"
    using assms(2) by (auto simp: persist_replicate_ensemble_def assms(3) prim Let_def split: if_splits prod.splits sum.splits)
  have "p \<in> exp_text ` set (table_rows R db EXPERIMENTS)"
    using ended_known [OF assms(6) run(1)] unfolding statuses_keys by auto
  then have "\<exists>r\<in>set (table_rows R db EXPERIMENTS). of_exp p r"
    using assms(5) by (auto simp: exp_text_def of_exp_def split: pyval.splits)
  then have "rp_get R p db \<noteq> None" by (simp add: repo_get [OF assms(1)] find_None_all)
  then obtain r0 where r0: "rp_get R p db = Some r0" by blast
  obtain meta where meta: "json_dict (attr r0 ''metadata_json'') = Inr meta"
    "db1 = update_where R EXPERIMENTS (of_exp p) (set_attr ''metadata_json'' (PDict (dict_set ''replicate_ensemble'' en meta))) db"
    using run(3) by (auto simp: write_primary_ensemble_def r0 split: sum.splits if_splits)
  let ?f = "\<lambda>r. if of_exp p r then set_attr ''metadata_json'' (PDict (dict_set ''replicate_ensemble'' en meta)) r else r"
  have rows: "table_rows R db1 EXPERIMENTS = map ?f (table_rows R db EXPERIMENTS)"
    by (simp add: meta(2) rows_update [OF assms(1)])
  have st1: "read_statuses R shw ids db1 = read_statuses R shw ids db" for ids
    by (rule statuses_keep [OF rows]) simp
  have keep: "of_exp x (?f r) = of_exp x r" for x r by (simp add: of_exp_def)
  have get: "rp_get R x db1 = map_option ?f (rp_get R x db)" for x
    unfolding repo_get [OF assms(1)] rows by (rule find_map_keep [where P = "of_exp x" and f = ?f]) (rule keep)
  have e0: "of_exp p r0" using r0 find_in_set by (fastforce simp: repo_get [OF assms(1)])
  have new: "row_meta (?f r0) = dict_set ''replicate_ensemble'' en meta" using e0 by (simp add: row_meta_def)
  have ctx: "read_group_context R s db1 = Some g"
  proof -
    obtain r where r: "rp_get R s db = Some r" "pv_get (row_meta r) ''replicate_group'' = PDict g"
      using assms(7) by (auto simp: read_group_context_def split: option.splits pyval.splits)
    have "pv_get (row_meta (?f r)) ''replicate_group'' = PDict g"
    proof (cases "of_exp p r")
      case True
      have "of_exp s r" using r(1) find_in_set by (fastforce simp: repo_get [OF assms(1)])
      then have "s = p" using True by (simp add: of_exp_def)
      then have rr: "r = r0" using r(1) r0 by simp
      obtain m where m: "attr r0 ''metadata_json'' = PDict m"
        using r(2) rr by (cases "attr r0 ''metadata_json''") (simp_all add: row_meta_def pv_get_def)
      then have "meta = m" using meta(1) by simp
      then have "pv_get meta ''replicate_group'' = PDict g" using r(2) rr m by (simp add: row_meta_def)
      then show ?thesis unfolding rr new by (simp add: pv_get_def update_conv')
    qed (use r(2) in simp)
    then show ?thesis by (simp add: read_group_context_def get r(1) del: if_split)
  qed
  have "ensemble_already_written R p ?done db1"
    using new by (simp add: ensemble_already_written_def get r0 pv_get_def update_conv' run(2) ensemble_of_def del: if_split)
  then show ?thesis by (simp add: persist_replicate_ensemble_def ctx prim st1 Let_def)
qed


definition demo_group :: "string \<Rightarrow> string \<Rightarrow> db_row" where
  "demo_group e st =
     [(''exp_id'', PStr e), (''status'', PStr st),
      (''metadata_json'', PDict [(''replicate_group'', PDict [(''group_id'', PStr ''g''), (''primary_exp_id'', PStr ''a''),
         (''sibling_exp_ids'', PList [PStr ''a'', PStr ''b''])])])]"


end
