(* ===== verification/BatchJobs.thy ===== *)
theory BatchJobs
  imports SubmissionProps Budget RunPolicies "HOL-Library.Product_Lexorder"
begin

text \<open>
  Batches of binder cells, \<^verbatim>\<open>src/src/orchestrator/batch_job_binder_cell.py\<close>: one job for each
  combination of the axes of the specification, ordered by temperature, checked against the
  experiments that exist and submitted one by one through the submission facade. The molecule
  library, the request factory and the search for similar experiments are arguments.
\<close>

section \<open>Jobs\<close>

datatype job_status = JobPending | JobDuplicate | JobExcluded | JobBlocked | JobSubmitted | JobError

datatype similar_action = UNSPECIFIED | KEEP_PRIORITY | DEMOTE_PRIORITY

record batch_job =
  bj_exp_id :: string
  bj_binder :: string
  bj_size :: string
  bj_temperature :: pyfloat
  bj_aging :: string
  bj_tier :: string
  bj_seed :: int
  bj_additive :: "string option"
  bj_concentration :: pyfloat
  bj_status :: job_status
  bj_error :: "string option"
  bj_priority :: job_priority
  bj_similar :: bool
  bj_similar_ids :: "string list"

record batch_spec =
  bc_binders :: "string list"
  bc_sizes :: "string list"
  bc_temperatures :: "pyfloat list"
  bc_agings :: "string list"
  bc_tier :: string
  bc_ff :: string
  bc_seed :: int
  bc_seeds :: "int list"
  bc_first_temperatures :: "pyfloat list"
  bc_additives :: "string list"
  bc_concentrations :: "pyfloat list"
  bc_action :: similar_action
  bc_excluded :: "string list"

definition get_seed_list :: "batch_spec \<Rightarrow> int list" where
  "get_seed_list spec = (if length (bc_seeds spec) > 0 then bc_seeds spec else [bc_seed spec])"

definition real_additives :: "batch_spec \<Rightarrow> string list" where
  "real_additives spec = filter (\<lambda>t. t \<noteq> ''none'') (bc_additives spec)"

text \<open>The set of combinations, in the order of their keys; types are not empty.\<close>

definition generate_additive_combos :: "batch_spec \<Rightarrow> (string option \<times> pyfloat) list" where
  "generate_additive_combos spec =
     (let types = real_additives spec;
          control = (if ''none'' \<in> set (bc_additives spec) \<or> types = [] then [(None, 0)] else []);
          treated = (if length types = length (bc_concentrations spec) \<and> length types > 0
                     then zip (map Some types) (bc_concentrations spec)
                     else concat (map (\<lambda>t. map (Pair (Some t)) (bc_concentrations spec)) types))
      in sort_key (\<lambda>c. (or_default (fst c) [], snd c)) (remdups (control @ treated)))"

definition make_job ::
    "(string \<Rightarrow> string) \<Rightarrow> batch_spec \<Rightarrow> nat \<Rightarrow> string \<Rightarrow> string \<Rightarrow> string \<Rightarrow> pyfloat \<Rightarrow> string option \<times> pyfloat \<Rightarrow> int \<Rightarrow> batch_job" where
  "make_job md5hex spec atoms binder sz aging temp combo seed =
     \<lparr>bj_exp_id = generate_exp_id md5hex
        \<lparr>if_binder = binder, if_size = sz, if_temperature = temp, if_additive = fst combo, if_ff = bc_ff spec, if_aging = aging,
         if_atoms = atoms, if_seed = seed\<rparr>,
      bj_binder = binder, bj_size = sz, bj_temperature = temp, bj_aging = aging, bj_tier = bc_tier spec, bj_seed = seed,
      bj_additive = fst combo, bj_concentration = snd combo, bj_status = JobPending, bj_error = None, bj_priority = MEDIUM,
      bj_similar = False, bj_similar_ids = []\<rparr>"

definition job_key :: "batch_spec \<Rightarrow> batch_job \<Rightarrow> nat \<times> pyfloat \<times> string" where
  "job_key spec j =
     (if bj_temperature j \<in> set (bc_first_temperatures spec) then 0 else 1, bj_temperature j, bj_binder j)"

text \<open>The base runner has no additive axis: its jobs are those of the one combination \<open>(None, 0)\<close>.\<close>

definition combos_of :: "batch_spec \<Rightarrow> (string option \<times> pyfloat) list" where
  "combos_of spec = (if bc_additives spec = [] then [(None, 0)] else generate_additive_combos spec)"

definition job_matrix :: "(string \<Rightarrow> string) \<Rightarrow> nat \<Rightarrow> batch_spec \<Rightarrow> batch_job list" where
  "job_matrix md5hex atoms spec =
     concat (map (\<lambda>binder. concat (map (\<lambda>sz. concat (map (\<lambda>aging. concat (map (\<lambda>temp. concat (map (\<lambda>combo.
       map (make_job md5hex spec atoms binder sz aging temp combo) (get_seed_list spec))
         (combos_of spec))) (bc_temperatures spec))) (bc_agings spec))) (bc_sizes spec))) (bc_binders spec))"

definition generate_jobs :: "(string \<Rightarrow> string) \<Rightarrow> batch_spec \<Rightarrow> (value_error, batch_job list) result" where
  "generate_jobs md5hex spec =
     map_sum id (\<lambda>atoms. sort_key (job_key spec) (job_matrix md5hex (nat atoms) spec))
       (get_target_atoms DEFAULT_TIER_POLICY (TierName (bc_tier spec)))"

section \<open>Validation\<close>

record batch_result =
  br_jobs :: "batch_job list"
  br_total :: nat
  br_new :: nat
  br_duplicates :: nat
  br_submitted :: nat
  br_errors :: nat
  br_blocked :: nat
  br_similar :: nat
  br_excluded :: nat

definition empty_result :: "nat \<Rightarrow> batch_result" where
  "empty_result n = \<lparr>br_jobs = [], br_total = n, br_new = 0, br_duplicates = 0, br_submitted = 0, br_errors = 0, br_blocked = 0,
     br_similar = 0, br_excluded = 0\<rparr>"

text \<open>A loop over the jobs changes them in place: the result collects them in the order of the loop.\<close>

definition put_job :: "batch_job \<Rightarrow> batch_result \<Rightarrow> batch_result" where
  "put_job j res = res\<lparr>br_jobs := br_jobs res @ [j]\<rparr>"

definition validate_job ::
    "'db repo \<Rightarrow> (batch_job \<Rightarrow> 'db \<Rightarrow> string list) \<Rightarrow> 'db \<Rightarrow> batch_job \<Rightarrow> batch_result \<Rightarrow> batch_result" where
  "validate_job R find_similar db j res =
     (let j = j\<lparr>bj_priority := get_priority DEFAULT_JOB_BUDGETING_POLICY (bj_tier j)\<rparr>
      in case rp_get R (bj_exp_id j) db of
           Some _ \<Rightarrow> put_job (j\<lparr>bj_status := JobDuplicate\<rparr>) (res\<lparr>br_duplicates := br_duplicates res + 1\<rparr>)
         | None \<Rightarrow>
             let ids = find_similar j db
             in if ids = [] then put_job j (res\<lparr>br_new := br_new res + 1\<rparr>)
                else put_job (j\<lparr>bj_similar := True, bj_similar_ids := ids\<rparr>)
                       (res\<lparr>br_similar := br_similar res + 1, br_new := br_new res + 1\<rparr>))"

definition validate_batch ::
    "'db repo \<Rightarrow> (batch_job \<Rightarrow> 'db \<Rightarrow> string list) \<Rightarrow> 'db \<Rightarrow> batch_job list \<Rightarrow> batch_result" where
  "validate_batch R find_similar db jobs = fold (validate_job R find_similar db) jobs (empty_result (length jobs))"

section \<open>Submission\<close>

definition exclude_job :: "string list \<Rightarrow> batch_job \<Rightarrow> batch_result \<Rightarrow> batch_result" where
  "exclude_job excluded j res =
     (if bj_exp_id j \<in> set excluded \<and> bj_status j \<noteq> JobDuplicate
      then put_job (j\<lparr>bj_status := JobExcluded\<rparr>)
             (res\<lparr>br_excluded := br_excluded res + 1, br_new := (if br_new res > 0 then br_new res - 1 else br_new res)\<rparr>)
      else put_job j res)"

definition exclude_jobs :: "string list \<Rightarrow> batch_result \<Rightarrow> batch_result" where
  "exclude_jobs excluded res = fold (exclude_job excluded) (br_jobs res) (res\<lparr>br_jobs := []\<rparr>)"

definition skipped_job :: "batch_job \<Rightarrow> bool" where
  "skipped_job j \<longleftrightarrow> bj_status j = JobDuplicate \<or> bj_status j = JobExcluded"

definition effective_similar :: "batch_job list \<Rightarrow> nat" where
  "effective_similar js = length (filter (\<lambda>j. bj_similar j \<and> \<not> skipped_job j) js)"

definition demotion_steps :: int where
  "demotion_steps = 2"

definition demoted :: "similar_action \<Rightarrow> batch_job \<Rightarrow> batch_job" where
  "demoted action j =
     (if bj_similar j \<and> action = DEMOTE_PRIORITY
      then j\<lparr>bj_priority := (case demote_priority (bj_priority j) demotion_steps of Inr p \<Rightarrow> p | Inl _ \<Rightarrow> LOWEST)\<rparr>
      else j)"

definition failed_job :: "string \<Rightarrow> batch_job \<Rightarrow> batch_result \<Rightarrow> batch_result" where
  "failed_job msg j res = put_job (j\<lparr>bj_status := JobError, bj_error := Some msg\<rparr>) (res\<lparr>br_errors := br_errors res + 1\<rparr>)"

text \<open>
  One job of the loop: \<open>prep\<close> builds the request for the facade or raises, \<open>explain\<close> is the text
  of an error. The state: the result, how many were submitted, the world.
\<close>

type_synonym ('db, 'j) batch_state = "batch_result \<times> nat \<times> 'db \<times> 'j"

definition submit_job ::
    "('db, 'j) facade_env \<Rightarrow> (facade_error \<Rightarrow> string) \<Rightarrow> similar_action \<Rightarrow> nat \<Rightarrow> (batch_job \<Rightarrow> (string, facade_request) result)
      \<Rightarrow> batch_job \<Rightarrow> ('db, 'j) batch_state \<Rightarrow> ('db, 'j) batch_state" where
  "submit_job E explain action chunk prep j st =
     (let (res, n, db, jm) = st
      in if skipped_job j then (put_job j res, n, db, jm)
         else if n \<ge> chunk then (put_job (j\<lparr>bj_status := JobBlocked\<rparr>) (res\<lparr>br_blocked := br_blocked res + 1\<rparr>), n, db, jm)
         else let j = demoted action j
              in case prep j of
                   Inl msg \<Rightarrow> (failed_job msg j res, n, db, jm)
                 | Inr rq \<Rightarrow>
                     (case submit_experiment E rq (db, jm) of
                        (Inl x, db1, jm1) \<Rightarrow> (failed_job (explain x) j res, n, db1, jm1)
                      | (Inr _, db1, jm1) \<Rightarrow>
                          (put_job (j\<lparr>bj_status := JobSubmitted\<rparr>) (res\<lparr>br_submitted := br_submitted res + 1\<rparr>), n + 1, db1, jm1)))"

definition chunk_size :: nat where
  "chunk_size = nat (batch_submission_chunk_size DEFAULT_QUEUE_LIMITS_POLICY)"

datatype batch_error = SimilarExist nat | UnknownTier value_error

definition submit_loop ::
    "('db, 'j) facade_env \<Rightarrow> (facade_error \<Rightarrow> string) \<Rightarrow> similar_action \<Rightarrow> nat \<Rightarrow> (batch_job \<Rightarrow> (string, facade_request) result)
      \<Rightarrow> batch_result \<Rightarrow> 'db \<times> 'j \<Rightarrow> ('db, 'j) batch_state" where
  "submit_loop E explain action chunk prep res w =
     fold (submit_job E explain action chunk prep) (br_jobs res) (res\<lparr>br_jobs := []\<rparr>, 0, w)"

definition submit_batch ::
    "('db, 'j) facade_env \<Rightarrow> (facade_error \<Rightarrow> string) \<Rightarrow> (batch_job \<Rightarrow> 'db \<Rightarrow> string list)
      \<Rightarrow> (batch_job \<Rightarrow> (string, facade_request) result) \<Rightarrow> (string \<Rightarrow> string) \<Rightarrow> batch_spec \<Rightarrow> 'db \<times> 'j
      \<Rightarrow> (batch_error, batch_result) result \<times> 'db \<times> 'j" where
  "submit_batch E explain find_similar prep md5hex spec w =
     (case generate_jobs md5hex spec of
        Inl x \<Rightarrow> (Inl (UnknownTier x), w)
      | Inr jobs \<Rightarrow>
          let res = exclude_jobs (bc_excluded spec) (validate_batch (fe_repo E) find_similar (fst w) jobs);
              sim = effective_similar (br_jobs res)
          in if sim > 0 \<and> bc_action spec = UNSPECIFIED then (Inl (SimilarExist sim), w)
             else let (res, n, w1) = submit_loop E explain (bc_action spec) chunk_size prep res w in (Inr res, w1))"

section \<open>Compositions\<close>

definition MAX_ADDITIVE_WT :: pyfloat where
  "MAX_ADDITIVE_WT = 10"

text \<open>An entry of the catalog: its two tables of counts, if there are any.\<close>

record additive_info =
  ai_default_counts :: "(string, pyfloat) pydict option"
  ai_counts :: "(string, pyfloat) pydict option"

datatype inject_error = TooMuchAdditive pyfloat pyfloat | UnknownAdditive string | NothingLeft

definition default_count :: "additive_info \<Rightarrow> string \<Rightarrow> pyfloat" where
  "default_count i sz =
     dict_get (case ai_default_counts i of Some d \<Rightarrow> d | None \<Rightarrow> (case ai_counts i of Some d \<Rightarrow> d | None \<Rightarrow> [])) sz 2"

definition scale_counts :: "pyfloat \<Rightarrow> (string, pyfloat) pydict \<Rightarrow> (string, pyfloat) pydict" where
  "scale_counts factor base =
     foldl (\<lambda>d (m, n). if py_round (n * factor) > 0 then dict_set m (of_int (py_round (n * factor))) d else d) [] base"

definition inject_additive_into_composition ::
    "(string \<Rightarrow> bool) \<Rightarrow> (string, additive_info) pydict \<Rightarrow> (string, additive_info) pydict \<Rightarrow> string \<Rightarrow> (string, pyfloat) pydict
      \<Rightarrow> string option \<Rightarrow> pyfloat \<Rightarrow> (inject_error, (string, pyfloat) pydict) result" where
  "inject_additive_into_composition has config catalog sz base kind conc =
     (case kind of
        None \<Rightarrow> Inr base
      | Some t \<Rightarrow>
          if conc \<le> 0 then Inr base
          else if conc > MAX_ADDITIVE_WT then Inl (TooMuchAdditive conc MAX_ADDITIVE_WT)
          else (case map_of (if catalog \<noteq> [] then catalog else config) t of
                  None \<Rightarrow> Inl (UnknownAdditive t)
                | Some info \<Rightarrow>
                    let scaled = scale_counts (1 - conc / 100) base
                    in if scaled = [] then Inl NothingLeft
                       else if default_count info sz > 0 \<and> has t then Inr (dict_set t (default_count info sz) scaled)
                       else Inr scaled))"

text \<open>The fractions of a binder in percent: missing or zero entries have defaults, fractions of one are scaled.\<close>

definition fraction_or :: "pyfloat option \<Rightarrow> pyfloat \<Rightarrow> pyfloat" where
  "fraction_or x d = (case x of None \<Rightarrow> d | Some v \<Rightarrow> if v = 0 then d else v)"

definition resolve_sara_wt :: "(string, pyfloat) pydict \<Rightarrow> pyfloat list" where
  "resolve_sara_wt sara =
     (let fs = [fraction_or (map_of sara ''asphaltene'') 20, fraction_or (map_of sara ''resin'') 30, fraction_or (map_of sara ''aromatic'') 35,
                fraction_or (map_of sara ''saturate'') 15];
          t = sum_list fs
      in if 0 < t \<and> t \<le> 101 / 100 then map (\<lambda>f. f * 100) fs else fs)"

end
