(* ===== verification/BatchProps.thy ===== *)
theory BatchProps
  imports BatchJobs Replicates
begin

text \<open>
  Properties of batches: every combination of the axes is a job, the counters of a result add up
  and agree with the states of its jobs, what was in the table of experiments stays, and every
  job that counts as submitted has its row. Jobs that differ in the concentration of the
  additive alone have the same identifier.
\<close>

section \<open>The matrix of jobs\<close>

definition is_job_of :: "(string \<Rightarrow> string) \<Rightarrow> nat \<Rightarrow> batch_spec \<Rightarrow> batch_job \<Rightarrow> bool" where
  "is_job_of md5hex atoms spec j \<longleftrightarrow>
     bj_binder j \<in> set (bc_binders spec) \<and> bj_size j \<in> set (bc_sizes spec) \<and> bj_aging j \<in> set (bc_agings spec) \<and>
     bj_temperature j \<in> set (bc_temperatures spec) \<and> (bj_additive j, bj_concentration j) \<in> set (combos_of spec) \<and>
     bj_seed j \<in> set (get_seed_list spec) \<and>
     j = make_job md5hex spec atoms (bj_binder j) (bj_size j) (bj_aging j) (bj_temperature j) (bj_additive j, bj_concentration j) (bj_seed j)"

lemma make_job_fields [simp]:
  "bj_binder (make_job md5hex spec atoms b sz a t c s) = b" "bj_size (make_job md5hex spec atoms b sz a t c s) = sz"
  "bj_aging (make_job md5hex spec atoms b sz a t c s) = a" "bj_temperature (make_job md5hex spec atoms b sz a t c s) = t"
  "bj_additive (make_job md5hex spec atoms b sz a t c s) = fst c" "bj_concentration (make_job md5hex spec atoms b sz a t c s) = snd c"
  "bj_seed (make_job md5hex spec atoms b sz a t c s) = s" "bj_status (make_job md5hex spec atoms b sz a t c s) = JobPending"
  by (simp_all add: make_job_def)

lemma matrix_jobs: "j \<in> set (job_matrix md5hex atoms spec) \<longleftrightarrow> is_job_of md5hex atoms spec j"
proof
  assume "j \<in> set (job_matrix md5hex atoms spec)"
  then show "is_job_of md5hex atoms spec j" by (auto simp: job_matrix_def is_job_of_def)
next
  assume "is_job_of md5hex atoms spec j"
  then show "j \<in> set (job_matrix md5hex atoms spec)" by (force simp: job_matrix_def is_job_of_def)
qed

lemma length_concat_same: "(\<And>x. x \<in> set xs \<Longrightarrow> length (f x) = n) \<Longrightarrow> length (concat (map f xs)) = length xs * n"
  by (induction xs) auto

lemma matrix_length:
  "length (job_matrix md5hex atoms spec) =
     length (bc_binders spec) * (length (bc_sizes spec) * (length (bc_agings spec) * (length (bc_temperatures spec) *
       (length (combos_of spec) * length (get_seed_list spec)))))"
  unfolding job_matrix_def by (intro length_concat_same length_map)

text \<open>
  C24: The jobs of a batch are exactly those of the combinations of its axes, as many as the
  product of their lengths, sorted by priority temperature, temperature and binder.
\<close>

theorem batch_covers_the_axes:
  assumes "generate_jobs md5hex spec = Inr jobs"
  shows "\<exists>atoms. get_target_atoms DEFAULT_TIER_POLICY (TierName (bc_tier spec)) = Inr atoms \<and>
    set jobs = {j. is_job_of md5hex (nat atoms) spec j} \<and> sorted (map (job_key spec) jobs) \<and>
    length jobs = length (bc_binders spec) * (length (bc_sizes spec) * (length (bc_agings spec) * (length (bc_temperatures spec) *
       (length (combos_of spec) * length (get_seed_list spec)))))"
proof -
  obtain atoms where a: "get_target_atoms DEFAULT_TIER_POLICY (TierName (bc_tier spec)) = Inr atoms"
    "jobs = sort_key (job_key spec) (job_matrix md5hex (nat atoms) spec)"
    using assms by (cases "get_target_atoms DEFAULT_TIER_POLICY (TierName (bc_tier spec))") (auto simp: generate_jobs_def)
  then show ?thesis using matrix_jobs [of _ md5hex "nat atoms" spec] by (auto simp: matrix_length)
qed

section \<open>Counters\<close>

definition with_status :: "job_status \<Rightarrow> batch_result \<Rightarrow> nat" where
  "with_status st res = length (filter (\<lambda>j. bj_status j = st) (br_jobs res))"

lemma put_status: "with_status st (put_job j res) = with_status st res + (if bj_status j = st then 1 else 0)"
  by (simp add: with_status_def put_job_def)

lemma put_fields [simp]:
  "br_jobs (put_job j res) = br_jobs res @ [j]" "br_total (put_job j res) = br_total res" "br_new (put_job j res) = br_new res"
  "br_duplicates (put_job j res) = br_duplicates res" "br_submitted (put_job j res) = br_submitted res"
  "br_errors (put_job j res) = br_errors res" "br_blocked (put_job j res) = br_blocked res" "br_excluded (put_job j res) = br_excluded res"
  by (simp_all add: put_job_def)

text \<open>The counters agree with the states of the jobs seen so far.\<close>

definition counted_right :: "batch_result \<Rightarrow> bool" where
  "counted_right res \<longleftrightarrow>
     br_duplicates res = with_status JobDuplicate res \<and> br_excluded res = with_status JobExcluded res \<and>
     br_submitted res = with_status JobSubmitted res \<and> br_errors res = with_status JobError res \<and>
     br_blocked res = with_status JobBlocked res"

lemma status_partition:
  "length (br_jobs res) = with_status JobPending res + with_status JobDuplicate res + with_status JobExcluded res +
     with_status JobBlocked res + with_status JobSubmitted res + with_status JobError res"
proof -
  have "length js = length (filter (\<lambda>j. bj_status j = JobPending) js) + length (filter (\<lambda>j. bj_status j = JobDuplicate) js) +
      length (filter (\<lambda>j. bj_status j = JobExcluded) js) + length (filter (\<lambda>j. bj_status j = JobBlocked) js) +
      length (filter (\<lambda>j. bj_status j = JobSubmitted) js) + length (filter (\<lambda>j. bj_status j = JobError) js)" for js
  proof (induction js)
    case (Cons j js)
    then show ?case by (cases "bj_status j") simp_all
  qed simp
  then show ?thesis by (simp add: with_status_def)
qed

lemma put_other [simp]:
  "with_status st (res\<lparr>br_new := a\<rparr>) = with_status st res" "with_status st (res\<lparr>br_duplicates := a\<rparr>) = with_status st res"
  "with_status st (res\<lparr>br_submitted := a\<rparr>) = with_status st res" "with_status st (res\<lparr>br_errors := a\<rparr>) = with_status st res"
  "with_status st (res\<lparr>br_blocked := a\<rparr>) = with_status st res" "with_status st (res\<lparr>br_similar := a\<rparr>) = with_status st res"
  "with_status st (res\<lparr>br_excluded := a\<rparr>) = with_status st res" "with_status st (res\<lparr>br_jobs := []\<rparr>) = 0"
  by (simp_all add: with_status_def)

definition status_count :: "job_status \<Rightarrow> batch_job list \<Rightarrow> nat" where
  "status_count st js = length (filter (\<lambda>j. bj_status j = st) js)"

lemma status_count_simps [simp]:
  "status_count st [] = 0" "status_count st (js @ [j]) = status_count st js + (if bj_status j = st then 1 else 0)"
  by (simp_all add: status_count_def)

definition validated :: "batch_job list \<Rightarrow> batch_result \<Rightarrow> bool" where
  "validated js res \<longleftrightarrow>
     length (br_jobs res) = length js \<and> br_duplicates res = with_status JobDuplicate res \<and> br_new res = with_status JobPending res \<and>
     br_new res + br_duplicates res = length js \<and> br_submitted res = 0 \<and> br_errors res = 0 \<and> br_blocked res = 0 \<and>
     br_excluded res = 0"

lemma validate_counts:
  "status_count JobPending js = length js \<Longrightarrow>
     validated js (fold (validate_job R find_similar db) js (empty_result n)) \<and> br_total (fold (validate_job R find_similar db) js (empty_result n)) = n"
proof (induction js rule: rev_induct)
  case Nil
  show ?case by (simp add: validated_def empty_result_def with_status_def)
next
  case (snoc j js)
  have "status_count JobPending js \<le> length js" by (simp add: status_count_def)
  then have p: "status_count JobPending js = length js" "bj_status j = JobPending"
    using snoc.prems by (auto split: if_splits)
  define res where "res = fold (validate_job R find_similar db) js (empty_result n)"
  have ih: "validated js res" "br_total res = n" using snoc.IH [OF p(1)] by (simp_all add: res_def)
  have "validated (js @ [j]) (validate_job R find_similar db j res) \<and> br_total (validate_job R find_similar db j res) = n"
  proof (cases "rp_get R (bj_exp_id j) db")
    case None
    then show ?thesis using ih p(2) by (simp add: validate_job_def validated_def put_status Let_def)
  next
    case (Some r)
    then show ?thesis using ih p(2) by (simp add: validate_job_def validated_def put_status Let_def)
  qed
  then show ?case by (simp add: res_def)
qed

text \<open>After the exclusions.\<close>

definition excluded_right :: "batch_result \<Rightarrow> batch_job list \<Rightarrow> batch_result \<Rightarrow> bool" where
  "excluded_right old js res \<longleftrightarrow>
     length (br_jobs res) = length js \<and> with_status JobDuplicate res = status_count JobDuplicate js \<and>
     br_excluded res = with_status JobExcluded res \<and> br_new res = br_new old - with_status JobExcluded res \<and>
     with_status JobPending res + with_status JobExcluded res = status_count JobPending js \<and>
     br_duplicates res = br_duplicates old \<and> br_total res = br_total old \<and> br_submitted res = 0 \<and> br_errors res = 0 \<and> br_blocked res = 0"

lemma exclude_counts:
  assumes "br_excluded old = 0" "br_submitted old = 0" "br_errors old = 0" "br_blocked old = 0"
    "status_count JobPending js + status_count JobDuplicate js = length js"
  shows "excluded_right old js (fold (exclude_job ex) js (old\<lparr>br_jobs := []\<rparr>))"
  using assms(5)
proof (induction js rule: rev_induct)
  case Nil
  show ?case using assms(1-4) by (simp add: excluded_right_def with_status_def)
next
  case (snoc j js)
  have "status_count JobPending xs + status_count JobDuplicate xs \<le> length xs" for xs
    by (induction xs rule: rev_induct) (auto split: if_splits)
  from this [of js] have p: "status_count JobPending js + status_count JobDuplicate js = length js" "bj_status j \<in> {JobPending, JobDuplicate}"
    using snoc.prems by (auto split: if_splits)
  define res where "res = fold (exclude_job ex) js (old\<lparr>br_jobs := []\<rparr>)"
  have ih: "excluded_right old js res" using snoc.IH [OF p(1)] by (simp add: res_def)
  have "excluded_right old (js @ [j]) (exclude_job ex j res)"
  proof (cases "bj_exp_id j \<in> set ex \<and> bj_status j \<noteq> JobDuplicate")
    case True
    then have "bj_status j = JobPending" using p(2) by simp
    then show ?thesis using ih True by (simp add: exclude_job_def excluded_right_def put_status)
  next
    case False
    then show ?thesis using ih p(2) by (auto simp: exclude_job_def excluded_right_def put_status)
  qed
  then show ?case by (simp add: res_def)
qed

text \<open>During the submission.\<close>

definition looped :: "batch_result \<Rightarrow> nat \<Rightarrow> batch_job list \<Rightarrow> batch_result \<Rightarrow> nat \<Rightarrow> bool" where
  "looped old chunk js res n \<longleftrightarrow>
     length (br_jobs res) = length js \<and> with_status JobDuplicate res = status_count JobDuplicate js \<and>
     with_status JobExcluded res = status_count JobExcluded js \<and> with_status JobPending res = 0 \<and>
     br_submitted res = with_status JobSubmitted res \<and> n = br_submitted res \<and> n \<le> chunk \<and>
     br_errors res = with_status JobError res \<and> br_blocked res = with_status JobBlocked res \<and>
     br_duplicates res = br_duplicates old \<and> br_excluded res = br_excluded old \<and> br_new res = br_new old \<and> br_total res = br_total old"

lemma demoted_same [simp]: "bj_status (demoted action j) = bj_status j" "bj_exp_id (demoted action j) = bj_exp_id j"
  by (simp_all add: demoted_def)

lemma looped_skip: "looped old chunk js res n \<Longrightarrow> skipped_job j \<Longrightarrow> looped old chunk (js @ [j]) (put_job j res) n"
  by (auto simp: looped_def put_status skipped_job_def)

lemma looped_block:
  "looped old chunk js res n \<Longrightarrow> \<not> skipped_job j \<Longrightarrow>
     looped old chunk (js @ [j]) (put_job (j\<lparr>bj_status := JobBlocked\<rparr>) (res\<lparr>br_blocked := br_blocked res + 1\<rparr>)) n"
  by (simp add: looped_def put_status skipped_job_def)

lemma looped_fail: "looped old chunk js res n \<Longrightarrow> \<not> skipped_job j \<Longrightarrow> looped old chunk (js @ [j]) (failed_job msg j' res) n"
  by (simp add: looped_def put_status skipped_job_def failed_job_def)

lemma looped_submit:
  "looped old chunk js res n \<Longrightarrow> \<not> skipped_job j \<Longrightarrow> n < chunk \<Longrightarrow>
     looped old chunk (js @ [j]) (put_job (j'\<lparr>bj_status := JobSubmitted\<rparr>) (res\<lparr>br_submitted := br_submitted res + 1\<rparr>)) (n + 1)"
  by (simp add: looped_def put_status skipped_job_def)

lemma loop_counts:
  assumes "br_submitted old = 0" "br_errors old = 0" "br_blocked old = 0"
  shows "case fold (submit_job E explain action chunk prep) js (old\<lparr>br_jobs := []\<rparr>, 0, w) of (res, n, w') \<Rightarrow> looped old chunk js res n"
proof (induction js rule: rev_induct)
  case Nil
  show ?case using assms by (simp add: looped_def)
next
  case (snoc j js)
  obtain res n db jm where st: "fold (submit_job E explain action chunk prep) js (old\<lparr>br_jobs := []\<rparr>, 0, w) = (res, n, db, jm)"
    by (cases "fold (submit_job E explain action chunk prep) js (old\<lparr>br_jobs := []\<rparr>, 0, w)")
  have ih: "looped old chunk js res n" using snoc by (simp add: st)
  have "case submit_job E explain action chunk prep j (res, n, db, jm) of (res, n, w') \<Rightarrow> looped old chunk (js @ [j]) res n"
    using looped_skip [OF ih, of j] looped_block [OF ih, of j] looped_fail [OF ih, of j] looped_submit [OF ih, of j]
    by (simp add: submit_job_def Let_def split: sum.split prod.split)
  then show ?case by (simp add: st)
qed

text \<open>
  C11: When a batch returns, every counter is the number of jobs with that status, duplicates,
  exclusions, submissions, errors and blocked jobs add up to the total, and at most one chunk
  was submitted.
\<close>

theorem batch_accounting:
  assumes "generate_jobs md5hex spec = Inr jobs" "submit_batch E explain find_similar prep md5hex spec w = (Inr res, w')"
  shows "counted_right res \<and> br_total res = length jobs \<and> length (br_jobs res) = length jobs \<and>
    br_duplicates res + br_excluded res + br_submitted res + br_errors res + br_blocked res = br_total res \<and>
    br_new res + br_duplicates res + br_excluded res = br_total res \<and> br_submitted res \<le> chunk_size"
proof -
  let ?val = "validate_batch (fe_repo E) find_similar (fst w) jobs"
  let ?exc = "exclude_jobs (bc_excluded spec) ?val"
  obtain n w1 where loop: "submit_loop E explain (bc_action spec) chunk_size prep ?exc w = (res, n, w1)"
    using assms by (auto simp: submit_batch_def Let_def split: if_splits prod.splits)
  have "\<forall>j\<in>set jobs. bj_status j = JobPending"
  proof
    fix j assume "j \<in> set jobs"
    moreover obtain atoms where "jobs = sort_key (job_key spec) (job_matrix md5hex (nat atoms) spec)"
      using assms(1) by (cases "get_target_atoms DEFAULT_TIER_POLICY (TierName (bc_tier spec))") (auto simp: generate_jobs_def)
    ultimately have "is_job_of md5hex (nat atoms) spec j" using matrix_jobs by simp
    then show "bj_status j = JobPending" unfolding is_job_of_def by (metis make_job_fields(8))
  qed
  then have "status_count JobPending jobs = length jobs" by (simp add: status_count_def)
  from validate_counts [OF this, of "fe_repo E" find_similar "fst w" "length jobs"]
  have v: "validated jobs ?val" "br_total ?val = length jobs" by (simp_all add: validate_batch_def)
  have vs: "status_count st (br_jobs ?val) = with_status st ?val" for st by (simp add: status_count_def with_status_def)
  have "excluded_right ?val (br_jobs ?val) ?exc"
    unfolding exclude_jobs_def by (rule exclude_counts) (use v vs in \<open>simp_all add: validated_def\<close>)
  then have x: "excluded_right ?val (br_jobs ?val) ?exc" .
  have xs: "status_count st (br_jobs ?exc) = with_status st ?exc" for st by (simp add: status_count_def with_status_def)
  have "case submit_loop E explain (bc_action spec) chunk_size prep ?exc w of (res, n, w') \<Rightarrow> looped ?exc chunk_size (br_jobs ?exc) res n"
    unfolding submit_loop_def by (rule loop_counts) (use x in \<open>simp_all add: excluded_right_def\<close>)
  then have l: "looped ?exc chunk_size (br_jobs ?exc) res n" by (simp add: loop)
  have "length (br_jobs res) = with_status JobDuplicate res + with_status JobExcluded res + with_status JobBlocked res +
      with_status JobSubmitted res + with_status JobError res"
    using status_partition [of res] l by (simp add: looped_def)
  then show ?thesis
    using v x l vs xs by (simp add: counted_right_def validated_def excluded_right_def looped_def)
qed

section \<open>Rows\<close>

definition submitted_jobs :: "batch_result \<Rightarrow> batch_job list" where
  "submitted_jobs res = filter (\<lambda>j. bj_status j = JobSubmitted) (br_jobs res)"

definition has_row :: "db_row list \<Rightarrow> batch_job \<Rightarrow> bool" where
  "has_row rows j \<longleftrightarrow> list_ex (\<lambda>r. of_exp (bj_exp_id j) r \<and> attr r ''status'' = PStr ''queued'' \<and> attr r ''celery_task_id'' \<noteq> PNone) rows"

definition rows_kept :: "db_row list \<Rightarrow> batch_result \<Rightarrow> db_row list \<Rightarrow> bool" where
  "rows_kept old res rows \<longleftrightarrow>
     (\<exists>new. rows = old @ new \<and> list_all (has_row new) (submitted_jobs res)) \<and> distinct (map bj_exp_id (submitted_jobs res))"

lemma submitted_put: "submitted_jobs (put_job j res) = submitted_jobs res @ (if bj_status j = JobSubmitted then [j] else [])"
  by (simp add: submitted_jobs_def)

lemma submitted_fields [simp]:
  "submitted_jobs (res\<lparr>br_submitted := a\<rparr>) = submitted_jobs res" "submitted_jobs (res\<lparr>br_errors := a\<rparr>) = submitted_jobs res"
  "submitted_jobs (res\<lparr>br_blocked := a\<rparr>) = submitted_jobs res" "submitted_jobs (res\<lparr>br_jobs := []\<rparr>) = []"
  by (simp_all add: submitted_jobs_def)

lemma has_rows_mono: "list_all (has_row new) js \<Longrightarrow> list_all (has_row (new @ extra)) js"
  by (auto simp: list_all_iff has_row_def)

lemma rows_kept_more: "rows_kept old res rows \<Longrightarrow> submitted_jobs res' = submitted_jobs res \<Longrightarrow> rows_kept old res' (rows @ extra)"
  by (auto simp: rows_kept_def intro: has_rows_mono)

lemma rows_kept_new:
  assumes "rows_kept old res rows" "of_exp (bj_exp_id j) row" "attr row ''status'' = PStr ''queued''" "attr row ''celery_task_id'' \<noteq> PNone"
    "\<forall>r\<in>set rows. \<not> of_exp (bj_exp_id j) r" "submitted_jobs res' = submitted_jobs res @ [j]"
  shows "rows_kept old res' (rows @ [row])"
proof -
  obtain new where new: "rows = old @ new" "list_all (has_row new) (submitted_jobs res)" using assms(1) by (auto simp: rows_kept_def)
  have "bj_exp_id j \<notin> bj_exp_id ` set (submitted_jobs res)"
  proof
    assume "bj_exp_id j \<in> bj_exp_id ` set (submitted_jobs res)"
    then obtain i where "i \<in> set (submitted_jobs res)" "bj_exp_id i = bj_exp_id j" by auto
    then have "has_row new i" using new(2) by (simp add: list_all_iff)
    then obtain r where "r \<in> set new" "of_exp (bj_exp_id i) r" by (auto simp: has_row_def list_ex_iff)
    then show False using assms(5) new(1) \<open>bj_exp_id i = bj_exp_id j\<close> by auto
  qed
  moreover have "has_row (new @ [row]) j" using assms(2-4) by (simp add: has_row_def)
  moreover have "list_all (has_row (new @ [row])) (submitted_jobs res)" using new(2) by (rule has_rows_mono)
  ultimately show ?thesis using assms(1,6) new(1) by (auto simp: rows_kept_def)
qed

lemma fail_rows: "way_out c e (Inl x) old new \<Longrightarrow> \<exists>extra. new = old @ extra"
  by (auto simp: way_out_def split: if_splits)

lemma job_rows:
  assumes "env_laws E" "\<And>j rq. prep j = Inr rq \<Longrightarrow> fr_exp_id rq = bj_exp_id j" "rows_kept old res (exp_rows E db)"
    "submit_job E explain action chunk prep j (res, n, db, jm) = (res', n', db', jm')"
  shows "rows_kept old res' (exp_rows E db')"
proof -
  let ?d = "demoted action j"
  have same: "rows_kept old res' (exp_rows E db)" if "submitted_jobs res' = submitted_jobs res" for res'
    using rows_kept_more [OF assms(3) that, of "[]"] by simp
  consider "skipped_job j \<or> n \<ge> chunk" | msg where "\<not> skipped_job j" "n < chunk" "prep ?d = Inl msg"
    | rq where "\<not> skipped_job j" "n < chunk" "prep ?d = Inr rq"
    using not_le by (cases "prep ?d") blast+
  then show ?thesis
  proof cases
    case 1
    then have "submitted_jobs res' = submitted_jobs res" "db' = db"
      using assms(4) by (auto simp: submit_job_def submitted_put skipped_job_def split: if_splits)
    then show ?thesis using same by simp
  next
    case 2
    then have "submitted_jobs res' = submitted_jobs res" "db' = db"
      using assms(4) by (auto simp: submit_job_def submitted_put failed_job_def Let_def)
    then show ?thesis using same by simp
  next
    case 3
    have e: "fr_exp_id rq = bj_exp_id j" using assms(2) [OF 3(3)] by simp
    obtain q db1 jm1 where q: "submit_experiment E rq (db, jm) = (q, db1, jm1)" by (cases "submit_experiment E rq (db, jm)")
    note out = submission_out [OF assms(1) q]
    show ?thesis
    proof (cases q)
      case (Inl x)
      obtain extra where "exp_rows E db1 = exp_rows E db @ extra" using fail_rows out Inl by blast
      moreover have "db' = db1" "submitted_jobs res' = submitted_jobs res"
        using assms(4) 3 q Inl by (auto simp: submit_job_def submitted_put failed_job_def Let_def)
      ultimately show ?thesis using rows_kept_more [OF assms(3)] by simp
    next
      case (Inr a)
      obtain row where row: "exp_rows E db1 = exp_rows E db @ [row]" "of_exp (bj_exp_id j) row" "attr row ''status'' = PStr ''queued''"
        "attr row ''celery_task_id'' \<noteq> PNone"
        using out Inr e by (auto simp: way_out_def split: prod.splits)
      have fresh: "\<forall>r\<in>set (exp_rows E db). \<not> of_exp (bj_exp_id j) r"
        using new_row_fresh [OF assms(1) q] row(1) e by simp
      let ?j = "?d\<lparr>bj_status := JobSubmitted\<rparr>"
      have "db' = db1" "submitted_jobs res' = submitted_jobs res @ [?j]"
        using assms(4) 3 q Inr by (auto simp: submit_job_def submitted_put Let_def)
      then show ?thesis using rows_kept_new [OF assms(3), of ?j row res'] row fresh by simp
    qed
  qed
qed

lemma loop_rows:
  assumes "env_laws E" "\<And>j rq. prep j = Inr rq \<Longrightarrow> fr_exp_id rq = bj_exp_id j"
  shows "rows_kept old res (exp_rows E db) \<Longrightarrow>
    fold (submit_job E explain action chunk prep) js (res, n, db, jm) = (res', n', db', jm') \<Longrightarrow> rows_kept old res' (exp_rows E db')"
proof (induction js arbitrary: res n db jm)
  case (Cons j js)
  obtain r1 n1 db1 jm1 where s: "submit_job E explain action chunk prep j (res, n, db, jm) = (r1, n1, db1, jm1)"
    by (cases "submit_job E explain action chunk prep j (res, n, db, jm)")
  have "rows_kept old r1 (exp_rows E db1)" by (rule job_rows [OF assms(1) _ Cons.prems(1) s]) (rule assms(2))
  then show ?case using Cons.IH [of r1 db1 n1 jm1] Cons.prems(2) s by simp
qed simp

text \<open>
  C23: A batch only appends rows to the experiment table; every job it reports as submitted has
  one of the new rows, and no two submitted jobs share an identifier.
\<close>

theorem batch_rows:
  assumes "env_laws E" "\<And>j rq. prep j = Inr rq \<Longrightarrow> fr_exp_id rq = bj_exp_id j"
    "submit_batch E explain find_similar prep md5hex spec (db, jm) = (Inr res, db', jm')"
  shows "(\<exists>new. exp_rows E db' = exp_rows E db @ new \<and> list_all (has_row new) (submitted_jobs res)) \<and>
    distinct (map bj_exp_id (submitted_jobs res))"
proof -
  obtain res0 n where "submit_loop E explain (bc_action spec) chunk_size prep res0 (db, jm) = (res, n, db', jm')"
    using assms(3) by (auto simp: submit_batch_def Let_def split: sum.splits if_splits prod.splits)
  moreover have "rows_kept (exp_rows E db) (res0\<lparr>br_jobs := []\<rparr>) (exp_rows E db)" by (simp add: rows_kept_def)
  ultimately have "rows_kept (exp_rows E db) res (exp_rows E db')"
    unfolding submit_loop_def using loop_rows [OF assms(1,2)] by blast
  then show ?thesis by (simp add: rows_kept_def)
qed

section \<open>Concentrations\<close>

text \<open>
  The identifier of a job has no place for the concentration, not even in its hash: of the jobs for
  one additive, one is submitted.
\<close>

lemma concentration_not_in_id:
  "bj_exp_id (make_job md5hex spec atoms b sz a t (k, c1) s) = bj_exp_id (make_job md5hex spec atoms b sz a t (k, c2) s)"
  by (simp add: make_job_def)

definition demo_batch_spec :: batch_spec where
  "demo_batch_spec = \<lparr>bc_binders = [''AAA1''], bc_sizes = [''X1''], bc_temperatures = [298], bc_agings = [''non_aging''], bc_tier = ''screening'',
     bc_ff = ''bulk_ff_gaff2'', bc_seed = 1, bc_seeds = [], bc_first_temperatures = [], bc_additives = [''SBS''],
     bc_concentrations = [1, 3, 5], bc_action = UNSPECIFIED, bc_excluded = []\<rparr>"

definition demo_batch_prep :: "batch_job \<Rightarrow> (string, facade_request) result" where
  "demo_batch_prep j = Inr ((demo_facade_request (bj_seed j))\<lparr>fr_exp_id := bj_exp_id j\<rparr>)"

definition demo_hash :: "string \<Rightarrow> string" where
  "demo_hash s = ''a1b2c3d4''"

abbreviation demo_batch :: "(batch_error, batch_result) result \<times> mem_db \<times> nat" where
  "demo_batch \<equiv> submit_batch demo_facade (\<lambda>x. case x of DuplicateExperiment e st \<Rightarrow> ''duplicate'' | _ \<Rightarrow> []) (\<lambda>_ _. []) demo_batch_prep
     demo_hash demo_batch_spec ([], 0)"

lemma one_concentration_is_submitted:
  "(case fst demo_batch of Inl _ \<Rightarrow> [] | Inr res \<Rightarrow> map (\<lambda>j. (bj_concentration j, bj_status j, bj_error j)) (br_jobs res)) =
     [(1, JobSubmitted, None), (3, JobError, Some ''duplicate''), (5, JobError, Some ''duplicate'')]"
  by code_simp

section \<open>Witnesses\<close>

lemma demo_jobs_exist: "\<exists>jobs. generate_jobs demo_hash demo_batch_spec = Inr jobs"
proof -
  have "\<not> isl (generate_jobs demo_hash demo_batch_spec)" by code_simp
  then show ?thesis by (cases "generate_jobs demo_hash demo_batch_spec") simp_all
qed

lemma demo_batch_result: "\<exists>res db jm. demo_batch = (Inr res, db, jm)"
proof -
  have "\<not> isl (fst demo_batch)" by code_simp
  then show ?thesis by (cases "fst demo_batch"; cases demo_batch) auto
qed

theorem batch_covers_the_axes_witness: "\<exists>jobs. generate_jobs demo_hash demo_batch_spec = Inr jobs \<and> length jobs = 3"
proof -
  obtain jobs where j: "generate_jobs demo_hash demo_batch_spec = Inr jobs" using demo_jobs_exist by blast
  have "length (combos_of demo_batch_spec) = 3" by code_simp
  then show ?thesis using batch_covers_the_axes [OF j] j by (auto simp: demo_batch_spec_def get_seed_list_def)
qed

theorem batch_accounting_witness: "\<exists>jobs res w'. generate_jobs demo_hash demo_batch_spec = Inr jobs \<and> demo_batch = (Inr res, w') \<and> br_total res = length jobs"
proof -
  obtain jobs where j: "generate_jobs demo_hash demo_batch_spec = Inr jobs" using demo_jobs_exist by blast
  obtain res db jm where r: "demo_batch = (Inr res, db, jm)" using demo_batch_result by blast
  show ?thesis using batch_accounting [OF j r] j r by blast
qed

theorem batch_rows_witness: "\<exists>res db jm. demo_batch = (Inr res, db, jm) \<and> list_all (has_row (exp_rows demo_facade db)) (submitted_jobs res)"
proof -
  obtain res db jm where r: "demo_batch = (Inr res, db, jm)" using demo_batch_result by blast
  have prep: "demo_batch_prep j = Inr rq \<Longrightarrow> fr_exp_id rq = bj_exp_id j" for j rq by (auto simp: demo_batch_prep_def)
  have "exp_rows demo_facade [] = []" by code_simp
  then show ?thesis using batch_rows [OF mem_env_laws(1) prep r] r by auto
qed

end
