(* ===== verification/GroupAssignment.thy ===== *)
theory GroupAssignment
  imports LayerSubmit "HOL-Library.List_Lexorder" "HOL-Library.Char_ord" "HOL-Library.Multiset"
begin

text \<open>
  Groups for the decomposition of interaction energies, \<^verbatim>\<open>src/src/metrics/group_assignment.py\<close>:
  the molecules of a packed system by category, and the atoms of a stack by layer.
\<close>

record ordering_entry =
  oe_category :: string
  oe_count :: int
  oe_atoms :: int

datatype group_selector = AtomIdRange int int

record group_pair =
  gp_label :: string
  gp_a :: string
  gp_b :: string

record group_spec =
  gs_groups :: "(string, nat list) pydict"
  gs_selectors :: "(string, group_selector) pydict"
  gs_pairs :: "group_pair list"
  gs_atoms :: "(string, int) pydict"
  gs_additive :: "string option"
  gs_layers :: "nat option"

definition no_groups :: group_spec where
  "no_groups = \<lparr>gs_groups = [], gs_selectors = [], gs_pairs = [], gs_atoms = [], gs_additive = None, gs_layers = None\<rparr>"

text \<open>\<open>itertools.combinations(xs, 2)\<close>\<close>

fun pairs_of :: "'a list \<Rightarrow> ('a \<times> 'a) list" where
  "pairs_of [] = []"
| "pairs_of (x # xs) = map (Pair x) xs @ pairs_of xs"

text \<open>One entry: the next molecule ids go to its category.\<close>

type_synonym grouping = "(string, nat list) pydict \<times> (string, int) pydict \<times> nat"

definition add_entry :: "grouping \<Rightarrow> ordering_entry \<Rightarrow> grouping" where
  "add_entry st e =
     (let (groups, atoms, next_id) = st; c = oe_category e; n = nat (oe_count e)
      in if oe_count e \<le> 0 then st
         else (dict_set c (dict_get groups c [] @ [next_id..<next_id + n]) groups,
               dict_set c (dict_get atoms c 0 + oe_atoms e * oe_count e) atoms, next_id + n))"

definition assign_molecules :: "ordering_entry list \<Rightarrow> grouping" where
  "assign_molecules entries = foldl add_entry ([], [], 1) entries"

definition category_pair :: "string \<times> string \<Rightarrow> group_pair" where
  "category_pair p = \<lparr>gp_label = fst p @ CHR ''_'' # snd p, gp_a = fst p, gp_b = snd p\<rparr>"

definition additive_label :: "(string, nat list) pydict \<Rightarrow> group_pair list \<Rightarrow> string option" where
  "additive_label groups pairs =
     (if dict_has groups ''additive''
      then (case filter (\<lambda>p. gp_a p = ''additive'' \<or> gp_b p = ''additive'') pairs of [p] \<Rightarrow> Some (gp_label p) | _ \<Rightarrow> None)
      else None)"

definition build_molecule_groups :: "ordering_entry list \<Rightarrow> group_spec" where
  "build_molecule_groups entries =
     (let (groups, atoms, _) = assign_molecules entries
      in if groups = [] then no_groups
         else let pairs = map category_pair (pairs_of (sort (map fst groups)))
              in no_groups\<lparr>gs_groups := groups, gs_pairs := pairs, gs_atoms := atoms, gs_additive := additive_label groups pairs\<rparr>)"

definition verify_mol_ids :: "group_spec \<Rightarrow> nat list \<Rightarrow> bool" where
  "verify_mol_ids spec frame =
     (gs_groups spec \<noteq> [] \<and> frame \<noteq> [] \<and> list_all (\<lambda>(_, ids). list_all (\<lambda>i. i \<in> set frame) ids) (gs_groups spec))"

section \<open>Layers\<close>

definition layer_name :: "nat \<Rightarrow> string" where
  "layer_name i = ''layer_'' @ show_nat i"

definition add_layer :: "(string, group_selector) pydict \<times> (string, int) pydict \<Rightarrow> lineage_entry
    \<Rightarrow> (string, group_selector) pydict \<times> (string, int) pydict" where
  "add_layer st e =
     (let (sels, atoms) = st; name = layer_name (le_index e)
      in (dict_set name (AtomIdRange (le_start e) (le_end e)) sels, dict_set name (le_end e - le_start e + 1) atoms))"

text \<open>\<open>int(name.split("_")[1])\<close>; the names are those of \<open>layer_name\<close>.\<close>

definition layer_number :: "string \<Rightarrow> int" where
  "layer_number name = (case py_int_of (split_on CHR ''_'' name ! 1) of None \<Rightarrow> 0 | Some n \<Rightarrow> n)"

definition layer_pair :: "string \<times> string \<Rightarrow> group_pair" where
  "layer_pair p =
     \<lparr>gp_label = ''L'' @ show_int (layer_number (fst p)) @ ''_L'' @ show_int (layer_number (snd p)), gp_a = fst p, gp_b = snd p\<rparr>"

definition build_layer_groups :: "lineage_entry list \<Rightarrow> group_spec" where
  "build_layer_groups lineage =
     (if lineage = [] then no_groups
      else let (sels, atoms) = foldl add_layer ([], []) lineage
           in no_groups\<lparr>gs_selectors := sels, gs_pairs := map layer_pair (pairs_of (sort (map fst sels))), gs_atoms := atoms,
                gs_layers := Some (length lineage)\<rparr>)"

section \<open>Pairs\<close>

lemma pairs_length: "length (pairs_of xs) = length xs * (length xs - 1) div 2"
proof (induction xs)
  case (Cons x xs)
  have e: "even (length xs * (length xs - 1))" by (cases "length xs") simp_all
  show ?case
  proof (cases "length xs")
    case (Suc n)
    then have "length xs + length xs * (length xs - 1) div 2 = (2 * length xs + length xs * (length xs - 1)) div 2" by simp
    also have "2 * length xs + length xs * (length xs - 1) = Suc (length xs) * length xs" using Suc by (simp add: algebra_simps)
    finally show ?thesis using Cons by simp
  qed simp
qed simp

lemma pairs_in: "(a, b) \<in> set (pairs_of xs) \<Longrightarrow> a \<in> set xs \<and> b \<in> set xs"
  by (induction xs) auto

lemma pairs_complete: "distinct xs \<Longrightarrow> a \<in> set xs \<Longrightarrow> b \<in> set xs \<Longrightarrow> a \<noteq> b \<Longrightarrow> ((a, b) \<in> set (pairs_of xs)) \<noteq> ((b, a) \<in> set (pairs_of xs))"
  by (induction xs) (auto dest: pairs_in)

lemma pairs_irrefl: "distinct xs \<Longrightarrow> (a, a) \<notin> set (pairs_of xs)"
  by (induction xs) (auto dest: pairs_in)

lemma pairs_distinct: "distinct xs \<Longrightarrow> distinct (pairs_of xs)"
  by (induction xs) (auto simp: distinct_map inj_on_def dest: pairs_in)

section \<open>Molecules\<close>

definition ids_in :: "(string, nat list) pydict \<Rightarrow> nat list" where
  "ids_in groups = concat (map snd groups)"

lemma mset_ids_set: "distinct (map fst d) \<Longrightarrow> mset (ids_in (dict_set k (dict_get d k [] @ xs) d)) = mset (ids_in d) + mset xs"
proof (induction d)
  case (Cons p d)
  show ?case
  proof (cases "fst p = k")
    case True
    then show ?thesis by (cases p) (simp add: ids_in_def dict_get_def)
  next
    case False
    then show ?thesis using Cons by (cases p) (simp add: ids_in_def dict_get_def)
  qed
qed (simp add: ids_in_def dict_get_def)

text \<open>What the entries of a category add up to.\<close>

definition category_sum :: "(ordering_entry \<Rightarrow> int) \<Rightarrow> string \<Rightarrow> ordering_entry list \<Rightarrow> int" where
  "category_sum f c entries = sum_list (map f (filter (\<lambda>e. oe_count e > 0 \<and> oe_category e = c) entries))"

definition total_molecules :: "ordering_entry list \<Rightarrow> nat" where
  "total_molecules entries = sum_list (map (\<lambda>e. nat (oe_count e)) entries)"

definition tallied :: "ordering_entry list \<Rightarrow> grouping \<Rightarrow> bool" where
  "tallied es st \<longleftrightarrow>
     (let (groups, atoms, next_id) = st
      in next_id = Suc (total_molecules es) \<and>
         (\<forall>c. int (length (dict_get groups c [])) = category_sum oe_count c es \<and>
              dict_get atoms c 0 = category_sum (\<lambda>e. oe_atoms e * oe_count e) c es))"

lemma dict_get_set: "dict_get (dict_set k v d) c w = (if c = k then v else dict_get d c w)"
  by (simp add: dict_get_def update_conv')

lemma assign_snoc: "assign_molecules (es @ [e]) = add_entry (assign_molecules es) e"
  by (simp add: assign_molecules_def)

lemma assign_tallied: "tallied es (assign_molecules es)"
proof (induction es rule: rev_induct)
  case Nil
  show ?case by (simp add: assign_molecules_def tallied_def total_molecules_def category_sum_def dict_get_def)
next
  case (snoc e es)
  obtain groups atoms n where st: "assign_molecules es = (groups, atoms, n)" by (cases "assign_molecules es")
  have h: "n = Suc (total_molecules es)" "\<And>c. int (length (dict_get groups c [])) = category_sum oe_count c es"
    "\<And>c. dict_get atoms c 0 = category_sum (\<lambda>e. oe_atoms e * oe_count e) c es"
    using snoc by (simp_all add: tallied_def st)
  show ?case
  proof (cases "oe_count e \<le> 0")
    case True
    then show ?thesis unfolding assign_snoc st using h by (simp add: tallied_def add_entry_def total_molecules_def category_sum_def)
  next
    case False
    then have "int (nat (oe_count e)) = oe_count e" "\<not> oe_count e < 1" by simp_all
    then show ?thesis
      unfolding assign_snoc st using False h
      by (simp add: tallied_def add_entry_def Let_def total_molecules_def category_sum_def dict_get_set)
  qed
qed

definition partitioned :: "grouping \<Rightarrow> bool" where
  "partitioned st \<longleftrightarrow>
     (let (groups, atoms, next_id) = st in distinct (map fst groups) \<and> mset (ids_in groups) = mset [1..<next_id] \<and> next_id \<ge> 1 \<and>
        map fst atoms = map fst groups)"

lemma assign_partitioned: "partitioned (assign_molecules es)"
proof (induction es rule: rev_induct)
  case Nil
  show ?case by (simp add: assign_molecules_def partitioned_def ids_in_def)
next
  case (snoc e es)
  obtain groups atoms n where st: "assign_molecules es = (groups, atoms, n)" by (cases "assign_molecules es")
  have g: "distinct (map fst groups)" "mset (ids_in groups) = mset [1..<n]" "1 \<le> n" "map fst atoms = map fst groups"
    using snoc by (simp_all add: partitioned_def st)
  have "mset [1..<n + k] = mset [1..<n] + mset [n..<n + k]" for k by (simp only: upt_add_eq_append [OF g(3)] mset_append)
  then have m: "mset (ids_in (dict_set (oe_category e) (dict_get groups (oe_category e) [] @ [n..<n + k]) groups)) = mset [1..<n + k]" for k
    by (simp only: mset_ids_set [OF g(1)] g(2))
  show ?case
    unfolding assign_snoc st
    using g m by (simp add: partitioned_def add_entry_def Let_def distinct_update update_keys del: mset_upt)
qed

definition categories :: "group_spec \<Rightarrow> string set" where
  "categories spec = fst ` set (gs_groups spec)"

lemma pair_sets:
  assumes "distinct xs"
  shows "(\<lambda>(a, b). {a, b}) ` set (pairs_of xs) = {s. s \<subseteq> set xs \<and> card s = 2}"
proof (intro set_eqI iffI)
  fix s assume "s \<in> (\<lambda>(a, b). {a, b}) ` set (pairs_of xs)"
  then obtain a b where p: "(a, b) \<in> set (pairs_of xs)" "s = {a, b}" by auto
  moreover have "a \<noteq> b" using p(1) pairs_irrefl [OF assms] by auto
  ultimately show "s \<in> {s. s \<subseteq> set xs \<and> card s = 2}" using pairs_in by fastforce
next
  fix s assume "s \<in> {s. s \<subseteq> set xs \<and> card s = 2}"
  then obtain a b where p: "s = {a, b}" "a \<noteq> b" "a \<in> set xs" "b \<in> set xs" by (auto simp: card_2_iff)
  then have "(a, b) \<in> set (pairs_of xs) \<or> (b, a) \<in> set (pairs_of xs)" using pairs_complete [OF assms] by blast
  then show "s \<in> (\<lambda>(a, b). {a, b}) ` set (pairs_of xs)" using p(1) by force
qed

lemma category_pair_inj: "category_pair p = category_pair q \<longleftrightarrow> p = q"
  by (cases p; cases q) (auto simp: category_pair_def)

definition pair_set :: "group_pair \<Rightarrow> string set" where
  "pair_set p = {gp_a p, gp_b p}"

text \<open>
  C32: The groups of a packed system share out the molecule numbers from 1 to the total, each
  category gets its number of molecules and of atoms, and every two categories have exactly one
  pair.
\<close>

theorem molecule_groups_partition:
  "distinct (ids_in (gs_groups (build_molecule_groups entries))) \<and>
   set (ids_in (gs_groups (build_molecule_groups entries))) = {1..total_molecules entries} \<and>
   int (length (dict_get (gs_groups (build_molecule_groups entries)) c [])) = category_sum oe_count c entries \<and>
   dict_get (gs_atoms (build_molecule_groups entries)) c 0 = category_sum (\<lambda>e. oe_atoms e * oe_count e) c entries \<and>
   distinct (gs_pairs (build_molecule_groups entries)) \<and>
   pair_set ` set (gs_pairs (build_molecule_groups entries)) = {s. s \<subseteq> categories (build_molecule_groups entries) \<and> card s = 2}"
proof -
  obtain groups atoms n where st: "assign_molecules entries = (groups, atoms, n)" by (cases "assign_molecules entries")
  have g: "distinct (map fst groups)" "mset (ids_in groups) = mset [1..<n]"
    using assign_partitioned [of entries] by (simp_all add: partitioned_def st)
  have t: "n = Suc (total_molecules entries)" "\<And>c. int (length (dict_get groups c [])) = category_sum oe_count c entries"
    "\<And>c. dict_get atoms c 0 = category_sum (\<lambda>e. oe_atoms e * oe_count e) c entries"
    using assign_tallied [of entries] by (simp_all add: tallied_def st)
  have ids: "distinct (ids_in groups)" "set (ids_in groups) = {1..total_molecules entries}"
    using g(2) t(1) mset_eq_imp_distinct_iff [OF g(2)] mset_eq_setD [OF g(2)] by auto
  let ?spec = "build_molecule_groups entries"
  have empty: "atoms = []" if "groups = []"
    using assign_partitioned [of entries] that by (simp add: partitioned_def st)
  have spec: "gs_groups ?spec = groups" "gs_atoms ?spec = atoms"
    "gs_pairs ?spec = map category_pair (pairs_of (sort (map fst groups)))"
    using empty by (auto simp: build_molecule_groups_def st no_groups_def Let_def)
  have "distinct (map category_pair (pairs_of (sort (map fst groups))))"
    using pairs_distinct [of "sort (map fst groups)"] g(1) by (simp add: distinct_map inj_on_def category_pair_inj)
  moreover have "pair_set ` set (map category_pair (pairs_of (sort (map fst groups)))) = {s. s \<subseteq> fst ` set groups \<and> card s = 2}"
    using pair_sets [of "sort (map fst groups)"] g(1)
    by (simp add: image_image pair_set_def category_pair_def case_prod_beta)
  ultimately show ?thesis using ids t by (simp add: spec categories_def)
qed

section \<open>Layers\<close>

lemma show_nat_inj: "show_nat m = show_nat n \<longleftrightarrow> m = n"
  by (metis show_nat_value)

lemma layer_name_inj: "layer_name m = layer_name n \<longleftrightarrow> m = n"
  by (simp add: layer_name_def show_nat_inj)

lemma layer_number_name: "layer_number (layer_name i) = int i"
proof -
  have "CHR ''_'' \<notin> set (show_nat i)" using show_nat_digits(1) [of i] by (auto simp: list_all_iff is_digit_def)
  moreover have "layer_name i = ''layer'' @ CHR ''_'' # show_nat i" by (simp add: layer_name_def)
  ultimately have "split_on CHR ''_'' (layer_name i) = [''layer'', show_nat i]"
    by (simp only: split_on_cons split_on_single) (simp add: split_on_cons split_on_single)
  then show ?thesis by (simp add: layer_number_def int_of_show_nat)
qed

definition range_of :: "lineage_entry \<Rightarrow> group_selector" where
  "range_of e = AtomIdRange (le_start e) (le_end e)"

lemma update_new_key: "k \<notin> fst ` set d \<Longrightarrow> dict_set k v d = d @ [(k, v)]"
  by (induction d) auto

lemma add_layers:
  "distinct (map le_index es) \<Longrightarrow>
     foldl add_layer ([], []) es =
       (map (\<lambda>e. (layer_name (le_index e), range_of e)) es, map (\<lambda>e. (layer_name (le_index e), le_end e - le_start e + 1)) es)"
proof (induction es rule: rev_induct)
  case (snoc e es)
  have "layer_name (le_index e) \<notin> (\<lambda>e. layer_name (le_index e)) ` set es"
    using snoc.prems by (auto simp: layer_name_inj)
  then show ?case using snoc by (simp add: add_layer_def range_of_def update_new_key image_image Let_def)
qed simp

lemma lineage_index: "map le_index (layer_lineage sources) = [0..<length sources]"
  by (rule nth_equalityI) (simp_all add: layer_lineage_def nth_enumerate_eq)

lemma lineage_length [simp]: "length (layer_lineage sources) = length sources"
  by (simp add: layer_lineage_def)

lemma lineage_nth:
  "j < length sources \<Longrightarrow> le_index (layer_lineage sources ! j) = j \<and>
     le_start (layer_lineage sources ! j) = offsets atom_count_of sources ! j + 1 \<and>
     le_end (layer_lineage sources ! j) = offsets atom_count_of sources ! j + atom_count_of (ly_info (sources ! j))"
  by (simp add: layer_lineage_def nth_enumerate_eq)

text \<open>A number up to the sum of a list lies in exactly one of its parts.\<close>

lemma part_of:
  "1 \<le> a \<Longrightarrow> a \<le> sum_list ns \<Longrightarrow> \<exists>j<length ns. sum_list (take j ns) < a \<and> a \<le> sum_list (take j ns) + ns ! j"
  for ns :: "int list"
proof (induction ns arbitrary: a)
  case (Cons n ns)
  show ?case
  proof (cases "a \<le> n")
    case True
    then show ?thesis using Cons.prems(1) by (intro exI [of _ 0]) simp
  next
    case False
    then obtain j where "j < length ns" "sum_list (take j ns) < a - n" "a - n \<le> sum_list (take j ns) + ns ! j"
      using Cons.IH [of "a - n"] Cons.prems by auto
    then show ?thesis by (intro exI [of _ "Suc j"]) simp
  qed
qed simp

lemma part_before:
  fixes ns :: "int list"
  assumes "i < j" "j < length ns" "list_all (\<lambda>n. n \<ge> 0) ns"
  shows "sum_list (take i ns) + ns ! i \<le> sum_list (take j ns)"
proof -
  have "sum_list (take (Suc i) ns) = sum_list (take i ns) + ns ! i" using assms by (simp add: take_Suc_conv_app_nth)
  moreover have "take j ns = take (Suc i) ns @ take (j - Suc i) (drop (Suc i) ns)"
    using assms(1) by (metis Suc_leI le_add_diff_inverse take_add)
  moreover have "0 \<le> sum_list (take (j - Suc i) (drop (Suc i) ns))"
    using assms(3) by (intro sum_list_nonneg) (auto simp: list_all_iff dest: in_set_takeD in_set_dropD)
  ultimately show ?thesis by simp
qed

lemma part_unique:
  fixes ns :: "int list"
  assumes "i < length ns" "j < length ns" "list_all (\<lambda>n. n \<ge> 0) ns" "sum_list (take i ns) < a" "a \<le> sum_list (take i ns) + ns ! i"
    "sum_list (take j ns) < a" "a \<le> sum_list (take j ns) + ns ! j"
  shows "i = j"
proof (cases i j rule: linorder_cases)
  case less
  from part_before [OF less assms(2,3)] show ?thesis using assms(5,6) by linarith
next
  case greater
  from part_before [OF greater assms(1,3)] show ?thesis using assms(4,7) by linarith
qed

definition in_selector :: "int \<Rightarrow> group_selector \<Rightarrow> bool" where
  "in_selector a sel = (case sel of AtomIdRange lo hi \<Rightarrow> lo \<le> a \<and> a \<le> hi)"

definition stack_size :: "layer_source list \<Rightarrow> int" where
  "stack_size sources = sum_list (map (\<lambda>s. atom_count_of (ly_info s)) sources)"

lemma in_lineage:
  assumes "j < length sources"
  shows "in_selector a (range_of (layer_lineage sources ! j)) \<longleftrightarrow>
     sum_list (take j (map (\<lambda>s. atom_count_of (ly_info s)) sources)) < a \<and>
     a \<le> sum_list (take j (map (\<lambda>s. atom_count_of (ly_info s)) sources)) + map (\<lambda>s. atom_count_of (ly_info s)) sources ! j"
  using assms by (auto simp: in_selector_def range_of_def lineage_nth offsets_nth take_map)

lemma one_layer:
  assumes "1 \<le> a" "a \<le> stack_size sources"
  shows "\<exists>!j. j < length sources \<and> in_selector a (range_of (layer_lineage sources ! j))"
proof -
  let ?ns = "map (\<lambda>s. atom_count_of (ly_info s)) sources"
  have nn: "list_all (\<lambda>n. n \<ge> 0) ?ns" by (simp add: list_all_iff atom_count_of_def)
  obtain j where j: "j < length ?ns" "sum_list (take j ?ns) < a" "a \<le> sum_list (take j ?ns) + ?ns ! j"
    using part_of [OF assms(1), of ?ns] assms(2) by (auto simp: stack_size_def)
  have "i = j" if "i < length sources" "in_selector a (range_of (layer_lineage sources ! i))" for i
  proof -
    have i: "sum_list (take i ?ns) < a \<and> a \<le> sum_list (take i ?ns) + ?ns ! i"
      using that(2) by (simp only: in_lineage [OF that(1)])
    have "i < length ?ns" using that(1) by simp
    then show ?thesis by (rule part_unique [OF _ j(1) nn conjunct1 [OF i] conjunct2 [OF i] j(2,3)])
  qed
  moreover have "in_selector a (range_of (layer_lineage sources ! j))" using j in_lineage [of j sources a] by simp
  moreover have "j < length sources" using j(1) by simp
  ultimately show ?thesis by blast
qed

text \<open>
  C26: For the lineage of a written stack every atom number lies in the range of exactly one
  layer group, the atom counts are those of the layers, and every two layers have exactly one
  pair.
\<close>

theorem layer_groups_partition:
  assumes "1 \<le> a" "a \<le> stack_size sources"
  shows "(\<exists>!name. \<exists>sel. map_of (gs_selectors (build_layer_groups (layer_lineage sources))) name = Some sel \<and> in_selector a sel) \<and>
    map_of (gs_atoms (build_layer_groups (layer_lineage sources))) =
      map_of (map (\<lambda>j. (layer_name j, atom_count_of (ly_info (sources ! j)))) [0..<length sources]) \<and>
    length (gs_pairs (build_layer_groups (layer_lineage sources))) = length sources * (length sources - 1) div 2 \<and>
    pair_set ` set (gs_pairs (build_layer_groups (layer_lineage sources))) = {s. s \<subseteq> layer_name ` {..<length sources} \<and> card s = 2}"
proof -
  let ?L = "layer_lineage sources" and ?n = "length sources"
  have "sources \<noteq> []" using assms by (auto simp: stack_size_def)
  then have ne: "?L \<noteq> []" by (metis length_0_conv lineage_length)
  let ?names = "map (\<lambda>e. layer_name (le_index e)) ?L"
  have names: "?names = map layer_name [0..<?n]" using lineage_index [of sources] by (metis (no_types, lifting) map_map comp_apply map_eq_conv)
  have dn: "distinct ?names" unfolding names by (simp add: distinct_map inj_on_def layer_name_inj)
  let ?spec = "build_layer_groups ?L"
  let ?sels = "map (\<lambda>e. (layer_name (le_index e), range_of e)) ?L"
  let ?counts = "map (\<lambda>e. (layer_name (le_index e), le_end e - le_start e + 1)) ?L"
  have spec: "gs_selectors ?spec = ?sels" "gs_atoms ?spec = ?counts" "gs_pairs ?spec = map layer_pair (pairs_of (sort ?names))"
    using ne add_layers [of ?L] by (simp_all add: build_layer_groups_def lineage_index no_groups_def comp_def)
  have listed: "?sels = map (\<lambda>j. (layer_name j, range_of (?L ! j))) [0..<?n]"
    by (rule nth_equalityI) (simp_all add: lineage_nth)
  have sel: "map_of ?sels name = Some s \<longleftrightarrow> (\<exists>j<?n. name = layer_name j \<and> s = range_of (?L ! j))" for name s
  proof -
    have "map_of ?sels name = Some s \<longleftrightarrow> (name, s) \<in> set ?sels"
      using dn by (intro map_of_eq_Some_iff) (simp add: comp_def)
    also have "\<dots> \<longleftrightarrow> (\<exists>j<?n. name = layer_name j \<and> s = range_of (?L ! j))"
      unfolding listed by auto
    finally show ?thesis .
  qed
  obtain j where j: "j < ?n" "in_selector a (range_of (?L ! j))"
    "\<And>i. i < ?n \<Longrightarrow> in_selector a (range_of (?L ! i)) \<Longrightarrow> i = j"
    using one_layer [OF assms] by blast
  have "\<exists>!name. \<exists>sel. map_of (gs_selectors ?spec) name = Some sel \<and> in_selector a sel"
    unfolding spec sel
  proof (rule ex1I)
    show "\<exists>s. (\<exists>i<?n. layer_name j = layer_name i \<and> s = range_of (?L ! i)) \<and> in_selector a s" using j(1,2) by blast
  qed (use j(3) in blast)
  moreover have "?counts = map (\<lambda>j. (layer_name j, atom_count_of (ly_info (sources ! j)))) [0..<?n]"
    by (rule nth_equalityI) (simp_all add: lineage_nth)
  moreover have "length (gs_pairs ?spec) = ?n * (?n - 1) div 2" by (simp add: spec pairs_length)
  moreover have "pair_set ` set (gs_pairs ?spec) = {s. s \<subseteq> layer_name ` {..<?n} \<and> card s = 2}"
    using pair_sets [of "sort ?names"] dn
    by (simp add: spec image_image pair_set_def layer_pair_def case_prod_beta names atLeast0LessThan)
  ultimately show ?thesis by (simp add: spec)
qed

theorem layer_groups_partition_witness:
  "length (gs_pairs (build_layer_groups (layer_lineage demo_stack))) = 1"
proof -
  have "1 \<le> stack_size demo_stack" "length demo_stack = 2" by code_simp+
  then show ?thesis using layer_groups_partition [of 1 demo_stack] by simp
qed

end
