(* ===== verification/Spec2Isabelle.thy ===== *)
theory Spec2Isabelle
  imports GpuProps StateMachine RunPolicies StackGovernance RunDispatch DependencyScheduler JobSync
    ExpLocks TypingRouter MoleculeId Emissions ParetoMeasures SingleComponentProps ArtifactClaims BuildThrottle Composition ProtocolProps
    ProcessRecovery LayerSubmitProps LifecycleProps ReplicateEnsemble BatchProps GroupAssignment
begin

text \<open>
  COMID plans, runs and collects molecular-dynamics simulations of asphalt binders. A
  composition becomes a structure, the structure gets a force field, the result is an
  experiment, and the orchestrator drives experiments through a queue, the GPUs of the
  machine and a retry policy until their metrics are in the database. This development
  models the decision logic of that pipeline: who may run, on what, when, with which
  policy, and what is written to the experiments table.

  \<^bold>\<open>The parts and how they interact.\<close>
  The policies under \<^verbatim>\<open>src/src/contracts/policies\<close> are pure functions that every other part
  calls. The GPU service (\<^verbatim>\<open>src/src/orchestrator/gpu_service.py\<close>) hands out GPUs to
  experiments; the experiments table is its only persistent state. The dispatcher
  (\<^verbatim>\<open>run_scheduler.py\<close>) allocates a GPU for every ready experiment and publishes its run task;
  the dependency scheduler (\<^verbatim>\<open>dependency_scheduler.py\<close>) decides which children of a completed
  experiment become ready and submits them, after asking the job budget. Workers report
  through Celery, whose states the job synchronisation (\<^verbatim>\<open>job_status_sync.py\<close>) copies into
  the job table; locks that outlive their experiment are swept by \<^verbatim>\<open>exp_lock_manager.py\<close>.
  The process tracker and the recovery service (\<^verbatim>\<open>process_tracker.py\<close>,
  \<^verbatim>\<open>process_recovery.py\<close>) find runs whose process was lost and resume, restart or abandon
  them; a restart asks the restart discovery of the protocol package for the last stage of
  the run's compiled plan that left a file. Plans are compiled from protocol chains, which
  the protocol package builds from the stabilisation table and a request.
  Beside the orchestrator stand the builders (\<^verbatim>\<open>composition_calculator.py\<close>,
  \<^verbatim>\<open>build_throttle.py\<close>), the identifier modules and the Pareto selection of the
  recommendations. The single-component pipeline (\<^verbatim>\<open>builder/topology_helpers.py\<close>) reads a MOL
  file, asks the typing router for a route, makes sure that the route's artifact is there and
  complete (\<^verbatim>\<open>features/molecules/artifact_runtime.py\<close>), types the molecule through the executor
  of the route, checks it and hands it to the topology builder. The topology builder
  (\<^verbatim>\<open>forcefield/topology.py\<close>) turns typed molecules into a LAMMPS system and writes it as a
  data file, which the parsers (\<^verbatim>\<open>parsers/data_parser.py\<close>) read back for viewing and layering.
  The layer service (\<^verbatim>\<open>features/layered_structures/service.py\<close>) stacks such files, checks the
  stack, merges them into one file and, like the batch runner
  (\<^verbatim>\<open>orchestrator/batch_job_binder_cell.py\<close>), submits experiments through the submission
  facade (\<^verbatim>\<open>submission_facade.py\<close>), which writes the row, publishes the job and stores its
  task id; a group of replicas is compensated by the cancellation of
  \<^verbatim>\<open>features/experiments/experiment_lifecycle.py\<close>, which also deletes experiments with all that
  refers to them. The lineage of a merged file becomes the atom groups of the energy
  decomposition (\<^verbatim>\<open>metrics/group_assignment.py\<close>).

  \<^bold>\<open>Theories.\<close>
  \<^item> \<^verbatim>\<open>COMID_Prelude\<close>: results with errors as values (\<open>Inl\<close> the error), Python's strings,
    truthiness, dictionaries as association lists in insertion order, floats as rationals.
  \<^item> \<^verbatim>\<open>Budget\<close>: \<^verbatim>\<open>budget.py\<close>, priorities, limits and the submission gate.
  \<^item> \<^verbatim>\<open>Errors\<close>, \<^verbatim>\<open>StateMachine\<close>: \<^verbatim>\<open>contracts/errors.py\<close> and \<^verbatim>\<open>state_machine.py\<close>, the error codes
    and the life cycle of an experiment as a checked transition relation.
  \<^item> \<^verbatim>\<open>RunPolicies\<close>: \<^verbatim>\<open>tier.py\<close>, \<^verbatim>\<open>failure.py\<close>, \<^verbatim>\<open>recovery.py\<close>, \<^verbatim>\<open>replicate.py\<close> and
    \<^verbatim>\<open>zscore_service.py\<close>: promotion between tiers, retries, recovery, replicates.
  \<^item> \<^verbatim>\<open>StackGovernance\<close>: \<^verbatim>\<open>stack_governance.py\<close>, which force-field stacks may do what.
  \<^item> \<^verbatim>\<open>ExperimentStore\<close>: the experiments table as an abstract store with its laws, and the
    list instance the witnesses evaluate.
  \<^item> \<^verbatim>\<open>GpuTypes\<close>, \<^verbatim>\<open>GpuService\<close>, \<^verbatim>\<open>GpuInventory\<close>: \<^verbatim>\<open>gpu_types.py\<close> and \<^verbatim>\<open>gpu_service.py\<close>; the
    state of the service is the record \<open>gpu_service\<close>, its methods are functions that return
    their result with the new service and the new table.
  \<^item> \<^verbatim>\<open>SlotPool\<close>: the locale \<open>slot_pool\<close>, the contract of a pool of capped resources, and the
    runs of such a pool. \<^verbatim>\<open>GpuConcurrency\<close> interprets it for the GPU allocator under the file
    lock, \<^verbatim>\<open>RunDispatch\<close> for the single-flight lock, \<^verbatim>\<open>BuildThrottle\<close> for the build slots.
  \<^item> \<^verbatim>\<open>GpuProps\<close>: the properties of the GPU service.
  \<^item> \<^verbatim>\<open>RunDispatch\<close>, \<^verbatim>\<open>DependencyScheduler\<close>: \<^verbatim>\<open>run_scheduler.py\<close> and \<^verbatim>\<open>dependency_scheduler.py\<close>,
    one definition per loop body, folded over the rows as the code iterates them.
  \<^item> \<^verbatim>\<open>JobSync\<close>, \<^verbatim>\<open>ExpLocks\<close>: \<^verbatim>\<open>job_types.py\<close>, \<^verbatim>\<open>job_status_sync.py\<close>, \<^verbatim>\<open>exp_lock_manager.py\<close>.
  \<^item> \<^verbatim>\<open>TypingRouter\<close>: \<^verbatim>\<open>forcefield/typing_router.py\<close>, the routing decision with each of its
    reasons as a constructor.
  \<^item> \<^verbatim>\<open>PyNumbers\<close>: rounding, printing and parsing of numbers, replacement and splitting of
    strings, with the round trips the duration texts rest on.
  \<^item> \<^verbatim>\<open>Stabilization\<close>: \<^verbatim>\<open>contracts/policies/stabilization.py\<close>, the table of stages and the
    progress of a run in it.
  \<^item> \<^verbatim>\<open>ProtocolChain\<close>, \<^verbatim>\<open>StagePlan\<close>: \<^verbatim>\<open>protocols/protocol_chain.py\<close> with the layer geometry of
    \<^verbatim>\<open>contracts/schemas.py\<close> and the duration filters of \<^verbatim>\<open>template_engine.py\<close>, then
    \<^verbatim>\<open>duration_adjuster.py\<close>, \<^verbatim>\<open>stage_plan_compiler.py\<close> and \<^verbatim>\<open>restart_discovery.py\<close>.
    \<^verbatim>\<open>ProtocolProps\<close>: their properties.
  \<^item> \<^verbatim>\<open>ProcessTracker\<close>, \<^verbatim>\<open>ProcessRecovery\<close>: \<^verbatim>\<open>orchestrator/process_tracker.py\<close> and
    \<^verbatim>\<open>process_recovery.py\<close>; the state is the pair of the two tables and the PID files, what an
    action does outside it is the list of its effects.
  \<^item> \<^verbatim>\<open>PyText\<close>: loops that may raise, splitting into words and lines, printed numbers.
  \<^item> \<^verbatim>\<open>MolTypes\<close>, \<^verbatim>\<open>ForceTopology\<close>, \<^verbatim>\<open>TopologyProps\<close>: \<^verbatim>\<open>builder/mol_types.py\<close>, the lookups of
    \<^verbatim>\<open>contracts/policies/forcefield.py\<close>, the builder of \<^verbatim>\<open>forcefield/topology.py\<close> with the
    completeness check of \<^verbatim>\<open>topology_helpers.py\<close>, and their properties; the state of a build is
    the record \<open>build\<close>, its four kinds of links share the record \<open>kind\<close>, and the locale
    \<open>link_field\<close> states what each of these four fields has in common.
  \<^item> \<^verbatim>\<open>LammpsData\<close>, \<^verbatim>\<open>LammpsDataProps\<close>: \<open>write_lammps_data\<close> and \<^verbatim>\<open>parsers/data_parser.py\<close>; the
    reader is a fold of \<open>read_line\<close> over the record \<open>reader\<close>, and the locale \<open>data_section\<close>
    carries the reading of one section for all five.
  \<^item> \<^verbatim>\<open>MolParser\<close>, \<^verbatim>\<open>MolParserProps\<close>: \<^verbatim>\<open>builder/mol_parser.py\<close> and the XYZ functions of
    \<^verbatim>\<open>topology_helpers.py\<close>, on the characters of the files.
  \<^item> \<^verbatim>\<open>PyJson\<close>, \<^verbatim>\<open>CuratedArtifact\<close>, \<^verbatim>\<open>IonicGate\<close>, \<^verbatim>\<open>ForceAssign\<close>: what Python does to parsed JSON,
    \<^verbatim>\<open>forcefield/organic_curated_artifact.py\<close>, \<^verbatim>\<open>ionic_executor.py\<close>,
    \<^verbatim>\<open>organic_typing_executor.py\<close> and \<^verbatim>\<open>water_executor.py\<close>; an executor returns the molecule
    as it leaves it, also when it fails.
  \<^item> \<^verbatim>\<open>ArtifactStatus\<close>, \<^verbatim>\<open>ArtifactChain\<close>: \<^verbatim>\<open>features/molecules/exceptions.py\<close> and
    \<^verbatim>\<open>admin_status.py\<close>, then names, completeness and charges of \<^verbatim>\<open>artifact_service.py\<close> and the chain
    of \<^verbatim>\<open>artifact_runtime.py\<close>; the state is \<open>gen_world\<close>: artifact files, status files, the
    cache in memory and the list of attempts. \<^verbatim>\<open>ArtifactProps\<close>, \<^verbatim>\<open>ArtifactClaims\<close>: their
    lemmas and properties.
  \<^item> \<^verbatim>\<open>SingleComponent\<close>, \<^verbatim>\<open>SingleComponentProps\<close>: the probe and the generation of
    \<^verbatim>\<open>builder/topology_helpers.py\<close>, composed of the theories above.
  \<^item> \<^verbatim>\<open>LayerStack\<close>, \<^verbatim>\<open>LayerStackProps\<close>: the checks, the geometry and the merged file of
    \<^verbatim>\<open>layered_structures/service.py\<close> with \<^verbatim>\<open>contracts/policies/layer.py\<close>; the loop over the layers
    is a fold of \<open>stack_layer\<close> over the record \<open>stack_state\<close>. \<^verbatim>\<open>LayerSubmit\<close>,
    \<^verbatim>\<open>LayerSubmitProps\<close>: preview, gate, files, provenance and the submission of replicas of the
    same module, over a record \<open>backend\<close> of the calls it makes.
  \<^item> \<^verbatim>\<open>DbSession\<close>: a database session and the experiment repository as parameters with their
    laws, and a database in memory. \<^verbatim>\<open>ExperimentLifecycle\<close>, \<^verbatim>\<open>LifecycleProps\<close>:
    \<^verbatim>\<open>experiment_lifecycle.py\<close>, cancellation and deletion.
  \<^item> \<^verbatim>\<open>ExperimentIds\<close>: \<^verbatim>\<open>common/pathing.py\<close> and \<^verbatim>\<open>orchestrator/exp_id_helper.py\<close>.
  \<^item> \<^verbatim>\<open>SubmissionFacade\<close>, \<^verbatim>\<open>SubmissionProps\<close>: \<^verbatim>\<open>submission_facade.py\<close>; which transactions commit
    is an argument, so every partial failure is a run of the model.
  \<^item> \<^verbatim>\<open>Replicates\<close>: the locale \<open>compensating_backend\<close>, what a submission with compensation needs
    of its backend, interpreted on the facade and the cancellation; the tag of a group.
    \<^verbatim>\<open>ReplicateEnsemble\<close>: \<^verbatim>\<open>replicate_orchestration.py\<close>.
  \<^item> \<^verbatim>\<open>BatchJobs\<close>, \<^verbatim>\<open>BatchProps\<close>: \<^verbatim>\<open>batch_job_binder_cell.py\<close>. \<^verbatim>\<open>GroupAssignment\<close>:
    \<^verbatim>\<open>group_assignment.py\<close>.
  \<^item> \<^verbatim>\<open>MoleculeId\<close>, \<^verbatim>\<open>Emissions\<close>: \<^verbatim>\<open>common/molecule_id.py\<close>, \<^verbatim>\<open>common/additive_ids.py\<close> and
    \<^verbatim>\<open>contracts/policies/ghg.py\<close>.
  \<^item> \<^verbatim>\<open>Composition\<close>: \<^verbatim>\<open>contracts/policies/composition.py\<close> and
    \<^verbatim>\<open>builder/composition_calculator.py\<close>.
  \<^item> \<^verbatim>\<open>Pareto\<close>, \<^verbatim>\<open>ParetoMeasures\<close>: \<^verbatim>\<open>recommendation/pareto.py\<close>; the locale \<open>strict_dominance\<close> carries the
    correctness of the marking loop for any strict order.
  \<^item> \<^verbatim>\<open>BuildThrottle\<close>: \<^verbatim>\<open>builder/build_throttle.py\<close>.
  \<^item> This theory: the dispatcher as a user of the GPU pool. Each of its passes is a run of the
    pool of \<^verbatim>\<open>GpuConcurrency\<close>, so the cap invariant covers it.
\<close>

text \<open>
  \<^bold>\<open>What the lemmas show.\<close>
  The GPU group: an allocation changes one column of one row, goes only to an eligible GPU
  below its cap, always succeeds when there is one, and is undone by its release; no
  interleaving of processes exceeds a cap; the cached view agrees with the table after a
  synchronisation and the periodic refresh never disturbs a GPU in use. The scheduling
  group: every experiment of a dispatcher pass ends in one of four settled forms, a batch of
  submissions hands over each child at most once and layered children only when all their
  edges allow it, reconciliation marks ready exactly what may run. The policy group:
  completion only after running, promotion only on evidence, at most two upgrades, an end to
  every chain of time step reductions, gates that fail closed. The chemistry group: exact
  parsers and round trips for identifiers, fail-closed routing, totals within their bounds,
  compositions whose reported numbers are those of their own molecule counts. The protocol
  group: every valid request builds a chain of well-typed steps, durations are read alike by
  all their readers, overrides keep the trajectory intervals consistent, plans report the
  sums of their stages, the restart search finds the last stage reached. The recovery group:
  candidates are exactly the lost runs, a conflicting registration changes nothing, failed
  actions change nothing, successful ones settle their run. The topology group: angles and
  torsions are those of the bond graph, a built system is well formed and contains exactly its
  molecules, strict lookups never fall back to defaults, and a written data file reads back as
  the system it was written from. The artifact group: files, artifacts and status entries are
  read back as written, an artifact is applied to the molecule it fits and to no other, the
  chain of attempts ends with a complete file or an error that is on record, normalised
  charges sum up, an ionic route opens only with every gate open, and a generated data file
  rests on all of this. The layer group: atoms stay between the boundaries of their layer,
  links stay in their layer and keep their kind, coefficients cover every atom type or the
  merge fails, the merged file reads back as the stack, and only a stack past all gates
  reaches the queue. The submission group: each way out of a submission and the row it leaves,
  replicas all alive or none, one ensemble per group, batches that cover their axes and whose
  counters add up, identifiers that parse back. The lifecycle group: reference counts of shared
  arrays stay exact, a deleted experiment is named nowhere, a batch reports what it did. The
  group assignment shares out all molecules and all atoms.

  \<^bold>\<open>Bounds and recursion.\<close>
  Every recursion is structural. Loops over collections are folds over lists; the fine tuning
  of a composition counts down the 50 rounds of its own \<open>max_iterations\<close>; the waiting loop
  of the build throttle consumes the list of probe passes made before its deadline. Integers
  are Python's unbounded ones; floats are rationals, so rounding errors, infinities and NaN
  are outside the model.

  \<^bold>\<open>Parameters.\<close>
  The database package, Redis, Celery, the GPU enumeration by external tools, the clock and
  the generator of unique ids are arguments, as are the process table of the host and the
  status change of the repository in the recovery theories. The generator of artifacts, which
  runs external tools, is a function of profile, molecule and files; parsed JSON and YAML
  files, the table of element masses and what other processes do while a lock is awaited are
  arguments, too. What the code relies on is stated as a predicate
  over them (\<open>store_laws\<close>, \<open>edge_laws\<close>, \<open>list_law\<close>, \<open>status_change_laws\<close>, \<open>repo_laws\<close>, \<open>env_laws\<close>) with a
  concrete instance. The job manager, the hash MD5, the transactions that commit, the loaded
  sources of a stack, the force-field checks, the aggregation of replica metrics and the
  search for similar experiments are arguments without laws.

  \<^bold>\<open>Not modelled.\<close>
  The REST layer, the frontend, metrics and feature computation over numpy, machine learning,
  structure packing and the text of LAMMPS inputs: input, output and numerical code around
  external programs. The deferred submission of layered structures, the retry of experiments, the
  loading of the sources of a stack and the statistics of replicas are left for extensions of
  this library.
\<close>

section \<open>The dispatcher as a user of the GPU pool\<close>

lemma device_info_fix:
  "fst (device_info enum (snd (device_info enum sv))) = fst (device_info enum sv)"
  by (simp add: device_info_def Let_def split: option.split)

lemma device_info_cong:
  "sv_device_cache a = sv_device_cache b \<Longrightarrow> fst (device_info enum a) = fst (device_info enum b)"
  by (simp add: device_info_def Let_def split: option.split)

lemma slot_caps_info: "slot_caps enum sv = (caps, sv1) \<Longrightarrow> sv1 = snd (device_info enum sv)"
  by (auto simp: slot_caps_def split: prod.splits)

lemma pick_available_device_cache:
  "pick_available_gpu av counts sv = (g, sv') \<Longrightarrow> sv_device_cache sv' = sv_device_cache sv"
  by (auto simp: pick_available_gpu_def Let_def split: if_splits list.splits option.splits prod.splits)

text \<open>The registry the caps come from is fetched once: no allocation changes what it answers.\<close>

lemma allocate_gpu_info:
  assumes "allocate_gpu S enum lock_ok now job gid (Some e) sv db = (r, sv', db')"
  shows "fst (device_info enum sv') = fst (device_info enum sv)"
proof -
  obtain caps sv1 where caps: "slot_caps enum sv = (caps, sv1)" by (cases "slot_caps enum sv")
  have one: "fst (device_info enum sv1) = fst (device_info enum sv)"
    by (simp add: slot_caps_info [OF caps] device_info_fix)
  have "sv' = sv \<or> sv_device_cache sv' = sv_device_cache sv1"
    using assms caps
    by (auto simp: allocate_gpu_def Let_def dest: pick_available_device_cache
        split: if_splits option.splits prod.splits)
  with one device_info_cong show ?thesis by metis
qed

lemma release_info:
  "release S now g t e sv db = (b, sv', db') \<Longrightarrow> sv_device_cache sv' = sv_device_cache sv"
  by (auto simp: release_def split: option.splits)

lemma keeps_token [simp]: "keeps_key (set_token t)" "keeps_key (set_task t)"
  by (simp_all add: keeps_key_def)

text \<open>One experiment of a pass: choose and commit, then writes of other columns, then perhaps a
  release.\<close>

abbreviation gpu_run :: "'db store \<Rightarrow> (int, device) pydict \<Rightarrow> 'db \<Rightarrow> 'db \<Rightarrow> bool" where
  "gpu_run S info a b \<equiv> pool_run (gpu_grant S info) (gpu_other S) (a, None) (b, None)"

lemma gpu_run_write:
  "gpu_run S info a b \<Longrightarrow> keeps_key f \<Longrightarrow> (\<And>r. er_gpu_id_allocated (f r) = er_gpu_id_allocated r) \<Longrightarrow>
     gpu_run S info a (st_update S b k f)"
  by (rule pool_other) (auto intro: gpu_write)

lemma gpu_run_allocate:
  assumes "allocate_gpu S enum lock_ok now job gid (Some e) sv db = (g, sv', db')"
    and "fst (device_info enum sv) = info"
  shows "gpu_run S info db db'"
proof (cases g)
  case None
  with assms(1) have "db' = db" by (auto dest: allocate_gpu_NoneD)
  then show ?thesis by (simp add: pool_start)
next
  case (Some h)
  with assms(1) have a: "allocate_gpu S enum lock_ok now job gid (Some e) sv db = (Some h, sv', db')" by simp
  from allocate_gpu_SomeD [OF a] obtain r where lock: lock_ok
    and r: "target_row S job (Some e) db = Some r" "db' = st_update S db (er_exp_id r) (set_gpu (Some h))"
    by blast
  from a lock have "gpu_grant S info (db, None) h (db, Some (h, er_exp_id r))"
    by (intro gpu_choose [OF assms(2) _ r(1)]) simp
  then have "pool_run (gpu_grant S info) (gpu_other S) (db, None) (db, Some (h, er_exp_id r))"
    by (rule pool_grant [where grant = "gpu_grant S info" and t = "(db, None)" and r = h, OF pool_start])
  then have "gpu_run S info db (st_update S db (er_exp_id r) (set_gpu (Some h)))"
    by (rule pool_other) (rule gpu_commit)
  with r(2) show ?thesis by simp
qed

lemma gpu_run_release:
  "gpu_run S info a b \<Longrightarrow> release S now g t e sv b = (ok, sv', c) \<Longrightarrow> gpu_run S info a c"
  by (rule pool_other) (auto intro: gpu_release)

definition same_registry :: "'db dispatch_env \<Rightarrow> (int, device) pydict \<Rightarrow> 'db dispatch_state \<Rightarrow> bool" where
  "same_registry E info st \<longleftrightarrow> fst (device_info (de_enum E) (ds_service st)) = info"

lemma dispatch_rollback_run:
  assumes "same_registry E info st" "gpu_run (de_store E) info db (ds_db st)"
  shows "same_registry E info (dispatch_rollback E eid gpu st) \<and>
    gpu_run (de_store E) info db (ds_db (dispatch_rollback E eid gpu st))"
proof (cases gpu)
  case None
  with assms show ?thesis
    by (auto simp: dispatch_rollback_def same_registry_def intro!: gpu_run_write)
next
  case (Some g)
  obtain b sv' db' where r: "release (de_store E) (de_now E) g None (Some eid) (ds_service st) (ds_db st) = (b, sv', db')"
    by (metis prod_cases3)
  from device_info_cong [OF release_info [OF r]] gpu_run_release [OF assms(2) r] Some r assms(1)
  show ?thesis by (auto simp: dispatch_rollback_def same_registry_def intro!: gpu_run_write)
qed

lemma dispatch_one_run:
  assumes "same_registry E info st"
  shows "same_registry E info (dispatch_one E ng st row) \<and>
    gpu_run (de_store E) info (ds_db st) (ds_db (dispatch_one E ng st row))"
proof (cases "er_gpu_id_allocated row")
  case (Some g)
  with assms show ?thesis by (simp add: dispatch_one_def pool_start)
next
  case None
  let ?S = "de_store E" and ?e = "er_exp_id row"
  obtain gpu sv1 db1 where alloc: "(if ng
      then allocate_gpu ?S (de_enum E) (de_gpu_lock E ?e) (de_now E) ?e None (Some ?e) (ds_service st) (ds_db st)
      else (None, ds_service st, ds_db st)) = (gpu, sv1, db1)" by (metis prod_cases3)
  have info: "fst (device_info (de_enum E) sv1) = info" and run: "gpu_run ?S info (ds_db st) db1"
    using alloc assms by (auto simp: same_registry_def pool_start dest: allocate_gpu_info
        intro: gpu_run_allocate split: if_splits)
  let ?db2 = "st_update ?S db1 ?e (set_token (Some (de_uuid E ?e)))"
  have run2: "gpu_run ?S info (ds_db st) ?db2" by (rule gpu_run_write [OF run]) simp_all
  have reg: "same_registry E info s" if "ds_service s = sv1" for s using that info by (simp add: same_registry_def)
  show ?thesis
    unfolding dispatch_one_unfold [OF None alloc] Let_def
    using run run2 by (auto intro!: reg dispatch_rollback_run gpu_run_write split: send_outcome.split)
qed

lemma dispatch_pass_run:
  "same_registry E info st \<Longrightarrow> gpu_run (de_store E) info (ds_db st) (ds_db (dispatch_pass E ng rows st))"
proof (induction rows arbitrary: st)
  case Nil
  then show ?case by (simp add: dispatch_pass_def pool_start)
next
  case (Cons row rows)
  from dispatch_one_run [OF Cons.prems] Cons.IH [of "dispatch_one E ng st row"]
  show ?case by (auto simp: dispatch_pass_def intro: pool_run_trans)
qed

section \<open>Properties\<close>

text \<open>
  C21: A dispatcher call, with its allocations, token writes and roll-backs, is a run of the
  GPU pool on the experiments table, so a table within the slot caps stays within them.
\<close>

theorem dispatcher_refines_gpu_pool:
  assumes "store_laws (de_store E)" and "st_ok (de_store E) db"
    and "schedule_ready_experiments E lst init lock caps n sv db = (rep, msgs, sv', db')"
    and "\<forall>g. int (held (st_rows (de_store E) db) g) \<le> gpu_cap (de_enum E) (init db sv) g"
  shows "pool_run (gpu_grant (de_store E) (fst (device_info (de_enum E) (init db sv)))) (gpu_other (de_store E))
      (db, None) (db', None) \<and>
    (\<forall>g. int (held (st_rows (de_store E) db') g) \<le> gpu_cap (de_enum E) (init db sv) g)"
proof -
  let ?info = "fst (device_info (de_enum E) (init db sv))"
  have run: "gpu_run (de_store E) ?info db db'"
  proof (cases lock)
    case None
    with assms(3) show ?thesis by (simp add: schedule_ready_experiments_def pool_start)
  next
    case (Some l)
    have "same_registry E ?info (start_state (init db sv) db)" by (simp add: same_registry_def start_state_def)
    from dispatch_pass_run [OF this] Some assms(3) show ?thesis
      by (auto simp: schedule_ready_experiments_def Let_def start_state_def)
  qed
  have ok: "gpu_world_ok (de_store E) (db, None)" using assms(1,2) by (simp add: gpu_world_ok_def)
  have "gpu_pool.capped (de_store E) ?info (db, None)"
    using assms(4) by (simp add: gpu_pool.capped_def gpu_cap_def)
  from gpu_pool.run_capped [OF run ok this] run show ?thesis
    by (simp add: gpu_pool.capped_def gpu_cap_def)
qed

theorem dispatcher_refines_gpu_pool_witness:
  "case schedule_ready_experiments demo_env demo_list (\<lambda>db sv. sv) (Some LockHandle) None 10 demo_service demo_table of
     (rep, msgs, sv', db') \<Rightarrow>
       dr_submitted rep = 1 \<and> (\<forall>g. int (held db' g) \<le> gpu_cap None demo_service g)"
proof -
  obtain rep msgs sv' db' where run: "schedule_ready_experiments demo_env demo_list (\<lambda>db sv. sv)
      (Some LockHandle) None 10 demo_service demo_table = (rep, msgs, sv', db')" by (metis prod_cases4)
  have counts: "case schedule_ready_experiments demo_env demo_list (\<lambda>db sv. sv) (Some LockHandle) None 10
      demo_service demo_table of (rep, msgs, sv', db') \<Rightarrow> dr_submitted rep = 1"
    by code_simp
  have env: "de_store demo_env = list_store" "de_enum demo_env = None" by (simp_all add: demo_env_def)
  have ok: "st_ok (de_store demo_env) demo_table" by (simp add: env demo_table_def plain_row_def)
  have start: "\<forall>g. int (held (st_rows (de_store demo_env) demo_table) g)
      \<le> gpu_cap (de_enum demo_env) demo_service g"
    by (simp add: env demo_table_def plain_row_def gpu_cap_def device_info_def device_cap_def
        slots_per_gpu_def demo_service_def le_max_iff_disj)
  from dispatcher_refines_gpu_pool [OF _ ok run] start counts run list_store_laws show ?thesis
    by (simp add: env)
qed

end
